(* ===== verification/Prelude.thy ===== *)
theory Prelude
  imports Complex_Main "HOL-Library.AList" "HOL-Library.Sublist" "HOL-Library.Char_ord"
    "HOL-Library.List_Lexorder"
begin

text \<open>
  Shared vocabulary of the development: results (an error or a value), Python strings and
  their methods, Python dictionaries as association lists in insertion order, JSON values,
  and the generic lemmas the component theories rest on.

  Conventions. A Python \<open>str\<close> is a HOL \<open>string\<close>, one \<open>char\<close> for each code point below 256.
  A Python \<open>int\<close> is an \<open>int\<close>; a \<open>float\<close> that the program only adds, subtracts and compares is
  a \<open>rat\<close> (exact, so rounding is not modelled).  A \<open>dict\<close> is an association list with
  distinct keys: \<open>map_of\<close> is \<open>d.get(k)\<close>, \<open>AList.update\<close> is \<open>d[k] = v\<close> (in place when the
  key exists, appended otherwise) and \<open>AList.delete\<close> is \<open>del d[k]\<close>.
\<close>

named_theorems py_str "facts about the Python string methods"
named_theorems res_iff "when a result computation returns a value or an error"

section \<open>Results\<close>

text \<open>A computation that may raise is a sum: \<open>Inl e\<close> is the exception, \<open>Inr v\<close> the value.\<close>

definition rbind :: "'e + 'a \<Rightarrow> ('a \<Rightarrow> 'e + 'b) \<Rightarrow> 'e + 'b" where
  "rbind m f = (case m of Inl e \<Rightarrow> Inl e | Inr x \<Rightarrow> f x)"

definition ensure :: "bool \<Rightarrow> 'e \<Rightarrow> 'e + unit" where
  "ensure b e = (if b then Inr () else Inl e)"

text \<open>The code evaluates a step only when the step before it succeeded.\<close>

declare rbind_def [code_unfold]

lemma rbind_simps [simp]:
  "rbind (Inl e) f = Inl e"
  "rbind (Inr x) f = f x"
  by (simp_all add: rbind_def)

lemma rbind_Inr_iff [res_iff]: "rbind m f = Inr y \<longleftrightarrow> (\<exists>x. m = Inr x \<and> f x = Inr y)"
  by (cases m) auto

lemma rbind_Inl_iff [res_iff]:
  "rbind m f = Inl e \<longleftrightarrow> m = Inl e \<or> (\<exists>x. m = Inr x \<and> f x = Inl e)"
  by (cases m) auto

lemma ensure_Inr_iff [res_iff, simp]: "ensure b e = Inr u \<longleftrightarrow> b"
  by (simp add: ensure_def)

lemma ensure_Inl_iff [res_iff, simp]: "ensure b e = Inl e' \<longleftrightarrow> \<not> b \<and> e' = e"
  by (auto simp: ensure_def)

lemma ensure_True [simp]: "ensure True e = Inr ()"
  by (simp add: ensure_def)

text \<open>Whether a computation returned a value.\<close>

definition is_inr :: "'a + 'b \<Rightarrow> bool" where
  "is_inr x = (case x of Inr _ \<Rightarrow> True | Inl _ \<Rightarrow> False)"

lemma is_inr_simps [simp]: "is_inr (Inr x)" "\<not> is_inr (Inl e)"
  by (simp_all add: is_inr_def)

text \<open>A loop over a list whose body may raise: it stops at the first error.\<close>

fun rmap :: "('a \<Rightarrow> 'e + 'b) \<Rightarrow> 'a list \<Rightarrow> 'e + 'b list" where
  "rmap f [] = Inr []"
| "rmap f (x # xs) = rbind (f x) (\<lambda>y. rbind (rmap f xs) (\<lambda>ys. Inr (y # ys)))"

lemma rmap_Inr_iff [res_iff]: "rmap f xs = Inr ys \<longleftrightarrow> list_all2 (\<lambda>x y. f x = Inr y) xs ys"
proof (induction xs arbitrary: ys)
  case Nil
  then show ?case by auto
next
  case (Cons x xs)
  then show ?case by (cases ys) (auto simp: rbind_Inr_iff)
qed

lemma rmap_map_Inr: "(\<And>x. x \<in> set xs \<Longrightarrow> f (g x) = Inr x) \<Longrightarrow> rmap f (map g xs) = Inr xs"
  by (induction xs) auto

text \<open>How many elements of a list satisfy a predicate, and what an update does to that number.\<close>

definition how_many :: "('a \<Rightarrow> bool) \<Rightarrow> 'a list \<Rightarrow> int" where
  "how_many P xs = int (length (filter P xs))"

lemma how_many_simps [simp]:
  "how_many P [] = 0"
  "how_many P (x # xs) = of_bool (P x) + how_many P xs"
  "how_many P (xs @ ys) = how_many P xs + how_many P ys"
  by (simp_all add: how_many_def)

lemma how_many_nonneg [simp]: "0 \<le> how_many P xs"
  by (simp add: how_many_def)

lemma how_many_update:
  "i < length xs \<Longrightarrow> how_many P (xs[i := y]) = how_many P xs - of_bool (P (xs ! i)) + of_bool (P y)"
proof (induction xs arbitrary: i)
  case (Cons x xs)
  then show ?case by (cases i) simp_all
qed simp

lemma how_many_pos: "\<lbrakk>i < length xs; P (xs ! i)\<rbrakk> \<Longrightarrow> 0 < how_many P xs"
  unfolding how_many_def by (simp add: filter_empty_conv) (metis nth_mem)

section \<open>Strings\<close>

text \<open>\<open>str.isspace\<close> on the code points below 256.\<close>

definition py_space :: "char \<Rightarrow> bool" where
  "py_space c \<longleftrightarrow>
     (let n = (of_char c :: nat)
      in 9 \<le> n \<and> n \<le> 13 \<or> 28 \<le> n \<and> n \<le> 32 \<or> n = 133 \<or> n = 160)"

definition is_digit :: "char \<Rightarrow> bool" where
  "is_digit c \<longleftrightarrow> (let n = (of_char c :: nat) in 48 \<le> n \<and> n \<le> 57)"

definition is_lower :: "char \<Rightarrow> bool" where
  "is_lower c \<longleftrightarrow> (let n = (of_char c :: nat) in 97 \<le> n \<and> n \<le> 122)"

definition is_upper :: "char \<Rightarrow> bool" where
  "is_upper c \<longleftrightarrow> (let n = (of_char c :: nat) in 65 \<le> n \<and> n \<le> 90)"

definition lstrip :: "string \<Rightarrow> string" where
  "lstrip s = dropWhile py_space s"

definition rstrip :: "string \<Rightarrow> string" where
  "rstrip s = rev (dropWhile py_space (rev s))"

definition strip :: "string \<Rightarrow> string" where
  "strip s = rstrip (lstrip s)"

definition lower_char :: "char \<Rightarrow> char" where
  "lower_char c =
     (let n = (of_char c :: nat)
      in if 65 \<le> n \<and> n \<le> 90 \<or> 192 \<le> n \<and> n \<le> 222 \<and> n \<noteq> 215 then char_of (n + 32) else c)"

definition lower :: "string \<Rightarrow> string" where
  "lower s = List.map lower_char s"

text \<open>\<open>str.upper\<close>; the capitals of the characters 181 and 255 are above 255, these two are kept.\<close>

definition upper_char :: "char \<Rightarrow> string" where
  "upper_char c = (let n = (of_char c :: nat) in
     if 97 \<le> n \<and> n \<le> 122 \<or> 224 \<le> n \<and> n \<le> 254 \<and> n \<noteq> 247 then [char_of (n - 32)]
     else if n = 223 then ''SS'' else [c])"

definition upper :: "string \<Rightarrow> string" where
  "upper s = concat (List.map upper_char s)"

fun py_join :: "string \<Rightarrow> string list \<Rightarrow> string" where
  "py_join sep [] = []"
| "py_join sep [x] = x"
| "py_join sep (x # y # ys) = x @ sep @ py_join sep (y # ys)"

definition startswith :: "string \<Rightarrow> string \<Rightarrow> bool" where
  "startswith s p \<longleftrightarrow> take (length p) s = p"

definition removeprefix :: "string \<Rightarrow> string \<Rightarrow> string" where
  "removeprefix s p = (if startswith s p then drop (length p) s else s)"

text \<open>\<open>str(n)\<close> of an integer.\<close>

fun digits_nat :: "nat \<Rightarrow> string" where
  "digits_nat n =
     (if n < 10 then [char_of (48 + n)] else digits_nat (n div 10) @ [char_of (48 + n mod 10)])"

declare digits_nat.simps [simp del]

definition str_int :: "int \<Rightarrow> string" where
  "str_int i = (if i < 0 then ''-'' @ digits_nat (nat (- i)) else digits_nat (nat i))"

text \<open>A string between double quotes, as the error messages print names.\<close>

definition quoted :: "string \<Rightarrow> string" where
  "quoted s = CHR 0x22 # s @ [CHR 0x22]"

text \<open>
  \<open>repr\<close> of a string of characters up to \<open>0xff\<close>: double quotes only around a text with a single
  quote and no double one, and an escape for the quote, the backslash and what is not printable.
\<close>

definition repr_hex :: "nat \<Rightarrow> char" where
  "repr_hex n = char_of (if n < 10 then 48 + n else 87 + n)"

definition repr_char :: "char \<Rightarrow> char \<Rightarrow> string" where
  "repr_char q c =
     (let n = (of_char c :: nat) in
      if c = q \<or> n = 92 then [CHR 0x5C, c]
      else if n = 10 then [CHR 0x5C, CHR ''n'']
      else if n = 13 then [CHR 0x5C, CHR ''r'']
      else if n = 9 then [CHR 0x5C, CHR ''t'']
      else if n < 32 \<or> 127 \<le> n \<and> n \<le> 160 \<or> n = 173
      then [CHR 0x5C, CHR ''x'', repr_hex (n div 16), repr_hex (n mod 16)]
      else [c])"

definition py_repr :: "string \<Rightarrow> string" where
  "py_repr s =
     (let q = (if CHR 0x27 \<in> set s \<and> CHR 0x22 \<notin> set s then CHR 0x22 else CHR 0x27)
      in q # concat (List.map (repr_char q) s) @ [q])"

text \<open>\<open>str\<close> of a float from 1e-4 to below 1e16 that a decimal of at most 17 places denotes.\<close>

fun frac_digits :: "nat \<Rightarrow> rat \<Rightarrow> string" where
  "frac_digits 0 q = []"
| "frac_digits (Suc n) q =
     (if q = 0 then [] else str_int \<lfloor>q * 10\<rfloor> @ frac_digits n (q * 10 - of_int \<lfloor>q * 10\<rfloor>))"

definition str_rat :: "rat \<Rightarrow> string" where
  "str_rat q =
     (let a = \<bar>q\<bar>; ds = frac_digits 17 (a - of_int \<lfloor>a\<rfloor>)
      in (if q < 0 then ''-'' else []) @ str_int \<lfloor>a\<rfloor> @ ''.'' @ (if ds = [] then ''0'' else ds))"

text \<open>\<open>x or default\<close> on a string or on None.\<close>

definition str_or :: "string option \<Rightarrow> string \<Rightarrow> string" where
  "str_or x d = (case x of None \<Rightarrow> d | Some s \<Rightarrow> if s = [] then d else s)"

text \<open>\<open>s or None\<close>: an empty string counts as no value.\<close>

definition or_none :: "string \<Rightarrow> string option" where
  "or_none s = (if s = [] then None else Some s)"

text \<open>\<open>s or t or u\<close>.\<close>

fun first_text :: "string list \<Rightarrow> string" where
  "first_text [] = []"
| "first_text (s # ss) = (if s \<noteq> [] then s else first_text ss)"

lemma or_none_Some [simp]: "or_none s = Some t \<longleftrightarrow> s = t \<and> t \<noteq> []"
  by (auto simp: or_none_def)

lemma dropWhile_fix: "(xs = [] \<or> \<not> P (hd xs)) \<Longrightarrow> dropWhile P xs = xs"
  by (cases xs) auto

lemma hd_dropWhile_neg: "dropWhile P xs \<noteq> [] \<Longrightarrow> \<not> P (hd (dropWhile P xs))"
  by (induction xs) auto

lemma strip_Nil [simp]: "strip [] = []"
  by (simp add: strip_def lstrip_def rstrip_def)

lemma strip_fix:
  "s = [] \<or> \<not> py_space (hd s) \<and> \<not> py_space (last s) \<Longrightarrow> strip s = s"
  by (auto simp: strip_def lstrip_def rstrip_def dropWhile_fix hd_rev)

lemma rstrip_suffix_last: "rstrip s \<noteq> [] \<Longrightarrow> \<not> py_space (last (rstrip s))"
  using hd_dropWhile_neg[of py_space "rev s"] by (simp add: rstrip_def last_rev)

lemma rstrip_prefix: "\<exists>t. s = rstrip s @ t"
proof -
  have "rev s = takeWhile py_space (rev s) @ dropWhile py_space (rev s)"
    by simp
  then have "s = rev (dropWhile py_space (rev s)) @ rev (takeWhile py_space (rev s))"
    by (metis rev_append rev_rev_ident)
  then show ?thesis unfolding rstrip_def by blast
qed

lemma hd_rstrip: "rstrip s \<noteq> [] \<Longrightarrow> hd (rstrip s) = hd s"
  using rstrip_prefix[of s] by (metis hd_append2)

lemma strip_ends:
  assumes "strip s \<noteq> []"
  shows "\<not> py_space (hd (strip s)) \<and> \<not> py_space (last (strip s))"
proof -
  have "lstrip s \<noteq> []" using assms by (auto simp: strip_def rstrip_def)
  then have "\<not> py_space (hd (lstrip s))"
    unfolding lstrip_def by (rule hd_dropWhile_neg)
  then show ?thesis
    using assms hd_rstrip[of "lstrip s"] rstrip_suffix_last[of "lstrip s"]
    by (simp add: strip_def)
qed

lemma strip_strip [simp, py_str]: "strip (strip s) = strip s"
  using strip_ends[of s] by (intro strip_fix) blast

lemma lower_char_code:
  "(of_char (lower_char c) :: nat) =
     (let n = of_char c in if 65 \<le> n \<and> n \<le> 90 \<or> 192 \<le> n \<and> n \<le> 222 \<and> n \<noteq> 215 then n + 32 else n)"
  by (auto simp: lower_char_def Let_def)

lemma py_space_lower_char: "py_space (lower_char c) = py_space c"
  unfolding py_space_def lower_char_code by (auto simp: Let_def)

lemma lower_char_lower_char: "lower_char (lower_char c) = lower_char c"
proof -
  have "(of_char (lower_char (lower_char c)) :: nat) = of_char (lower_char c)"
    unfolding lower_char_code[of "lower_char c"] by (auto simp: lower_char_code Let_def)
  then show ?thesis by (simp only: of_char_eq_iff)
qed

lemma lower_lower: "lower (lower s) = lower s"
  by (simp add: lower_def lower_char_lower_char)

lemma lower_Nil: "lower [] = []"
  by (simp add: lower_def)

lemma lower_Nil_iff: "lower s = [] \<longleftrightarrow> s = []"
  by (simp add: lower_def)

lemma dropWhile_lower: "dropWhile py_space (lower s) = lower (dropWhile py_space s)"
  by (simp add: lower_def dropWhile_map comp_def py_space_lower_char)

lemma strip_lower: "strip (lower s) = lower (strip s)"
proof -
  have "rev (lower s) = lower (rev s)" for s by (simp add: lower_def rev_map)
  then show ?thesis by (simp add: strip_def lstrip_def rstrip_def dropWhile_lower)
qed

lemma strip_eq_Nil_iff: "strip s = [] \<longleftrightarrow> list_all py_space s"
proof
  assume "strip s = []"
  then have "\<forall>c \<in> set (lstrip s). py_space c"
    by (auto simp: strip_def rstrip_def dropWhile_eq_Nil_conv)
  then have "lstrip s = []"
    using hd_dropWhile_neg[of py_space s] by (auto simp: lstrip_def)
  then show "list_all py_space s"
    by (auto simp: lstrip_def list_all_iff dropWhile_eq_Nil_conv)
next
  assume "list_all py_space s"
  then have "lstrip s = []"
    by (simp add: lstrip_def list_all_iff dropWhile_eq_Nil_conv)
  then show "strip s = []" by (simp add: strip_def rstrip_def)
qed

lemma startswith_iff_prefix [py_str]: "startswith s p \<longleftrightarrow> prefix p s"
  by (auto simp: startswith_def prefix_def) (metis append_take_drop_id)

text \<open>A regular expression \<open>[head][tail]{0,m}\<close>, matched in full; \<open>None\<close> is no bound.\<close>

definition fullmatch_ht :: "(char \<Rightarrow> bool) \<Rightarrow> (char \<Rightarrow> bool) \<Rightarrow> nat option \<Rightarrow> string \<Rightarrow> bool" where
  "fullmatch_ht hd_ok tl_ok m s =
     (case s of
        [] \<Rightarrow> False
      | c # cs \<Rightarrow> hd_ok c \<and> list_all tl_ok cs \<and>
          (case m of None \<Rightarrow> True | Some k \<Rightarrow> length cs \<le> k))"

lemma fullmatch_ht_nonempty [simp]: "\<not> fullmatch_ht h t m []"
  by (simp add: fullmatch_ht_def)

section \<open>Dictionaries\<close>

type_synonym ('k, 'v) dict = "('k \<times> 'v) list"

abbreviation keys :: "('k, 'v) dict \<Rightarrow> 'k list" where
  "keys d \<equiv> List.map fst d"

definition wf_dict :: "('k, 'v) dict \<Rightarrow> bool" where
  "wf_dict d \<longleftrightarrow> distinct (keys d)"

lemma wf_dict_Nil [simp, intro]: "wf_dict []"
  by (simp add: wf_dict_def)

lemma wf_dict_update [simp, intro]: "wf_dict d \<Longrightarrow> wf_dict (AList.update k v d)"
  by (simp add: wf_dict_def distinct_update)

lemma wf_dict_delete [simp, intro]: "wf_dict d \<Longrightarrow> wf_dict (AList.delete k d)"
  by (simp add: wf_dict_def distinct_delete)

lemma wf_dict_filter [simp, intro]: "wf_dict d \<Longrightarrow> wf_dict (filter P d)"
  by (simp add: wf_dict_def distinct_map_filter)

lemma update_new: "k \<notin> set (keys d) \<Longrightarrow> AList.update k v d = d @ [(k, v)]"
  by (induction d) auto

lemma map_of_filter_wf:
  "wf_dict d \<Longrightarrow> map_of (filter (\<lambda>(k, v). P k v) d) k =
     (case map_of d k of None \<Rightarrow> None | Some v \<Rightarrow> if P k v then Some v else None)"
proof (induction d)
  case Nil
  then show ?case by simp
next
  case (Cons p d)
  obtain k' v' where p: "p = (k', v')" by (cases p)
  have wf: "wf_dict d" and nin: "k' \<notin> fst ` set d"
    using Cons.prems by (auto simp: wf_dict_def p)
  show ?case
  proof (cases "k = k'")
    case True
    then have "map_of d k = None" using nin by (simp add: map_of_eq_None_iff)
    then show ?thesis using Cons.IH[OF wf] True by (simp add: p)
  next
    case False
    then show ?thesis using Cons.IH[OF wf] by (simp add: p)
  qed
qed

text \<open>\<open>dict.pop(k, None)\<close>: the value, and the dictionary without the key.\<close>

definition dict_pop :: "('k, 'v) dict \<Rightarrow> 'k \<Rightarrow> 'v option \<times> ('k, 'v) dict" where
  "dict_pop d k = (map_of d k, AList.delete k d)"

text \<open>Deleting the keys of a list one after the other.\<close>

definition del_keys :: "'k list \<Rightarrow> ('k, 'v) dict \<Rightarrow> ('k, 'v) dict" where
  "del_keys ks d = fold AList.delete ks d"

lemma del_keys_conv: "del_keys ks d = filter (\<lambda>(k, v). k \<notin> set ks) d"
proof (induction ks arbitrary: d)
  case Nil
  then show ?case by (simp add: del_keys_def)
next
  case (Cons a ks)
  have "del_keys (a # ks) d = del_keys ks (AList.delete a d)"
    by (simp add: del_keys_def)
  also have "\<dots> = filter (\<lambda>(k, v). k \<notin> set ks) (filter (\<lambda>(k, v). a \<noteq> k) d)"
    by (simp add: Cons.IH AList.delete_eq)
  also have "\<dots> = filter (\<lambda>(k, v). k \<notin> set (a # ks)) d"
    by (auto intro!: filter_cong simp: filter_filter)
  finally show ?case .
qed

lemma wf_dict_del_keys [simp, intro]: "wf_dict d \<Longrightarrow> wf_dict (del_keys ks d)"
  by (simp add: del_keys_conv)

section \<open>JSON values\<close>

text \<open>
  Decoded JSON or YAML.  \<open>JInt\<close> is a Python int, \<open>JNum\<close> a float; objects are dictionaries.
\<close>

datatype json =
    JNull
  | JBool bool
  | JInt int
  | JNum rat
  | JStr string
  | JArr "json list"
  | JObj "(string \<times> json) list"

text \<open>\<open>isinstance(x, str)\<close>, \<open>dict.get\<close> on a value that may not be a dictionary, and so on.\<close>

definition obj_get :: "json \<Rightarrow> string \<Rightarrow> json option" where
  "obj_get j k = (case j of JObj d \<Rightarrow> map_of d k | _ \<Rightarrow> None)"

definition as_str :: "json \<Rightarrow> string option" where
  "as_str j = (case j of JStr s \<Rightarrow> Some s | _ \<Rightarrow> None)"

lemma as_str_Some [simp]: "as_str j = Some s \<longleftrightarrow> j = JStr s"
  by (cases j) (auto simp: as_str_def)

definition is_obj :: "json \<Rightarrow> bool" where
  "is_obj j = (case j of JObj _ \<Rightarrow> True | _ \<Rightarrow> False)"

lemma is_obj_iff: "is_obj j \<longleftrightarrow> (\<exists>d. j = JObj d)"
  by (cases j) (auto simp: is_obj_def)

end
