(* ===== verification/Kit_Errors.thy ===== *)
theory Kit_Errors
  imports Prelude
begin

text \<open>
  The identifiers, the capability verification result and the exceptions that every
  component of the kit shares.  A \<open>UUID\<close> is its 32 lower-case hex digits;
  \<open>parse_uuid\<close> is the constructor \<open>UUID(str)\<close> of the standard library and \<open>uuid_str\<close> its
  \<open>str()\<close>.  An exception is a value of \<open>exn\<close>; \<open>is_exception\<close> says which of them an
  \<open>except Exception\<close> clause catches.
\<close>

section \<open>UUIDs\<close>

type_synonym uuid = string

definition is_hex_lower :: "char \<Rightarrow> bool" where
  "is_hex_lower c \<longleftrightarrow>
     (let n = (of_char c :: nat) in 48 \<le> n \<and> n \<le> 57 \<or> 97 \<le> n \<and> n \<le> 102)"

fun remove_all :: "string \<Rightarrow> string \<Rightarrow> string" where
  "remove_all p [] = []"
| "remove_all p (c # cs) =
     (if p \<noteq> [] \<and> startswith (c # cs) p then remove_all p (drop (length p - 1) cs)
      else c # remove_all p cs)"

definition strip_chars :: "string \<Rightarrow> string \<Rightarrow> string" where
  "strip_chars cs s =
     rev (dropWhile (\<lambda>c. c \<in> set cs) (rev (dropWhile (\<lambda>c. c \<in> set cs) s)))"

definition wf_uuid :: "uuid \<Rightarrow> bool" where
  "wf_uuid u \<longleftrightarrow> length u = 32 \<and> list_all is_hex_lower u"

definition parse_uuid :: "string \<Rightarrow> uuid option" where
  "parse_uuid s =
     (let h = remove_all ''uuid:'' (remove_all ''urn:'' s);
          h = remove_all ''-'' (strip_chars ''{}'' h);
          u = lower h
      in if wf_uuid u then Some u else None)"

definition uuid_str :: "uuid \<Rightarrow> string" where
  "uuid_str u =
     take 8 u @ ''-'' @ take 4 (drop 8 u) @ ''-'' @ take 4 (drop 12 u) @ ''-'' @
     take 4 (drop 16 u) @ ''-'' @ drop 20 u"

lemma parse_uuid_wf: "parse_uuid s = Some u \<Longrightarrow> wf_uuid u"
  by (auto simp: parse_uuid_def Let_def split: if_splits)

lemma lower_char_hex: "is_hex_lower c \<Longrightarrow> lower_char c = c"
  by (auto simp: is_hex_lower_def lower_char_def Let_def)

lemma lower_hex: "list_all is_hex_lower s \<Longrightarrow> lower s = s"
  by (induction s) (auto simp: lower_def lower_char_hex)

lemma remove_all_absent_head:
  "\<lbrakk>p \<noteq> []; hd p \<notin> set s\<rbrakk> \<Longrightarrow> remove_all p s = s"
  by (induction p s rule: remove_all.induct) (auto simp: startswith_def neq_Nil_conv)

lemma remove_all_dash: "remove_all ''-'' s = filter (\<lambda>c. c \<noteq> CHR ''-'') s"
  by (induction "''-''" s rule: remove_all.induct) (auto simp: startswith_def)

lemma hex_not_special:
  assumes "list_all is_hex_lower u"
  shows "CHR ''u'' \<notin> set u" "CHR ''-'' \<notin> set u" "CHR ''{'' \<notin> set u" "CHR ''}'' \<notin> set u"
  using assms by (auto simp: list_all_iff is_hex_lower_def)

lemma uuid_str_chars:
  assumes "wf_uuid u" "c \<in> set (uuid_str u)"
  shows "c \<in> set u \<or> c = CHR ''-''"
  using assms by (auto simp: uuid_str_def dest: in_set_takeD in_set_dropD)

lemma strip_chars_absent:
  assumes "set s \<inter> set cs = {}"
  shows "strip_chars cs s = s"
proof -
  have "dropWhile (\<lambda>c. c \<in> set cs) t = t" if "set t \<inter> set cs = {}" for t
    using that by (cases t) auto
  then show ?thesis using assms by (simp add: strip_chars_def)
qed

lemma filter_uuid_str:
  assumes "wf_uuid u"
  shows "filter (\<lambda>c. c \<noteq> CHR ''-'') (uuid_str u) = u"
proof -
  have nd: "filter (\<lambda>c. c \<noteq> CHR ''-'') s = s" if "set s \<subseteq> set u" for s
    using assms that hex_not_special(2)[of u] by (auto simp: wf_uuid_def filter_id_conv)
  have "take 8 u @ take 4 (drop 8 u) @ take 4 (drop 12 u) @ take 4 (drop 16 u) @ drop 20 u
        = take 8 u @ take 4 (drop 8 u) @ take 4 (drop 12 u) @ drop 16 u"
    using append_take_drop_id[of 4 "drop 16 u"] by simp
  also have "\<dots> = take 8 u @ take 4 (drop 8 u) @ drop 12 u"
    using append_take_drop_id[of 4 "drop 12 u"] by simp
  also have "\<dots> = take 8 u @ drop 8 u"
    using append_take_drop_id[of 4 "drop 8 u"] by simp
  finally have "take 8 u @ take 4 (drop 8 u) @ take 4 (drop 12 u) @ take 4 (drop 16 u) @ drop 20 u
        = u" by simp
  moreover have "set (take n u) \<subseteq> set u" "set (drop n u) \<subseteq> set u"
    "set (take m (drop n u)) \<subseteq> set u" for m n
    by (auto dest: in_set_takeD in_set_dropD)
  ultimately show ?thesis by (simp add: uuid_str_def nd)
qed

lemma parse_uuid_str:
  assumes "wf_uuid u"
  shows "parse_uuid (uuid_str u) = Some u"
proof -
  have hex: "list_all is_hex_lower u" using assms by (simp add: wf_uuid_def)
  have abs: "x \<notin> set (uuid_str u)" if "x \<notin> set u" "x \<noteq> CHR ''-''" for x
    using uuid_str_chars[OF assms] that by blast
  have "remove_all ''urn:'' (uuid_str u) = uuid_str u"
    by (rule remove_all_absent_head) (use abs hex_not_special[OF hex] in simp_all)
  moreover have "remove_all ''uuid:'' (uuid_str u) = uuid_str u"
    by (rule remove_all_absent_head) (use abs hex_not_special[OF hex] in simp_all)
  moreover have "strip_chars ''{}'' (uuid_str u) = uuid_str u"
    by (rule strip_chars_absent) (use abs hex_not_special[OF hex] in simp)
  ultimately show ?thesis
    using assms by (simp add: parse_uuid_def remove_all_dash filter_uuid_str lower_hex[OF hex])
qed

section \<open>Verification results\<close>

text \<open>
  \<open>VerifyCapabilityResult\<close>: \<open>code\<close> and \<open>message\<close> are kept as the decoded JSON values the
  client stores unchecked (\<open>JNull\<close> for None).
\<close>

record verify_result =
  vr_allow :: bool
  vr_audit_id :: uuid
  vr_tenant :: string
  vr_intent_id :: uuid
  vr_code :: json
  vr_message :: json
  vr_decision_id :: "uuid option"
  vr_approval_request_id :: "uuid option"
  vr_policy_version :: "int option"
  vr_reason_codes :: "string list"
  vr_spend_scope :: "(string \<times> string) option"
  vr_remaining_cents :: "int option"
  vr_retry_after :: "int option"

definition approval_reason_codes :: "string list" where
  "approval_reason_codes =
     [''approval_threshold_exceeded'', ''approval_required_pending'',
      ''approval_quorum_incomplete'', ''anomaly_new_vendor'', ''anomaly_amount_spike'',
      ''anomaly_rapid_auth'', ''anomaly_cap_proximity'']"

definition approval_required :: "verify_result \<Rightarrow> bool" where
  "approval_required r \<longleftrightarrow>
     vr_code r = JStr ''approval_required'' \<or>
     list_ex (\<lambda>c. c \<in> set (vr_reason_codes r)) approval_reason_codes"

section \<open>Exceptions\<close>

datatype exn =
    ValueError string
  | KeyError string
  | TypeError string
  | AttributeError string
  | RuntimeError string
  | PolicyValidationError string string  \<comment> \<open>message and path\<close>
  | RegistryValidationError string
  | BindError string
  | TenantBindingError string
  | HarborHttpError string int
  | TransportError string
  | SpendDenied verify_result
  | SpendApprovalRequired verify_result
  | UnregisteredSideEffecting string string  \<comment> \<open>tool name and operation\<close>
  | EvidenceSubmitError string json  \<comment> \<open>message and the tool result\<close>
  | ReloadError string string  \<comment> \<open>code and message\<close>
  | HostError string  \<comment> \<open>an Exception raised by host code (a tool, a mapper)\<close>
  | CancelledError  \<comment> \<open>asyncio cancellation: a BaseException, not an Exception\<close>

text \<open>Truth value and \<open>or\<close> of decoded JSON.\<close>

definition truthy :: "json \<Rightarrow> bool" where
  "truthy j = (case j of
       JNull \<Rightarrow> False | JBool b \<Rightarrow> b | JInt i \<Rightarrow> i \<noteq> 0 | JNum q \<Rightarrow> q \<noteq> 0
     | JStr s \<Rightarrow> s \<noteq> [] | JArr l \<Rightarrow> l \<noteq> [] | JObj d \<Rightarrow> d \<noteq> [])"

definition json_or :: "json \<Rightarrow> json \<Rightarrow> json" where
  "json_or a b = (if truthy a then a else b)"

text \<open>Which clauses catch an exception.\<close>

definition is_exception :: "exn \<Rightarrow> bool" where
  "is_exception e = (case e of CancelledError \<Rightarrow> False | _ \<Rightarrow> True)"

definition is_runtime_error :: "exn \<Rightarrow> bool" where
  "is_runtime_error e = (case e of
       RuntimeError _ \<Rightarrow> True | TenantBindingError _ \<Rightarrow> True | HarborHttpError _ _ \<Rightarrow> True
     | SpendDenied _ \<Rightarrow> True | SpendApprovalRequired _ \<Rightarrow> True
     | UnregisteredSideEffecting _ _ \<Rightarrow> True | EvidenceSubmitError _ _ \<Rightarrow> True
     | ReloadError _ _ \<Rightarrow> True
     | _ \<Rightarrow> False)"

text \<open>\<open>str\<close> and \<open>repr\<close> of a decoded JSON value.\<close>

primrec json_repr :: "json \<Rightarrow> string" where
  "json_repr JNull = ''None''"
| "json_repr (JBool b) = (if b then ''True'' else ''False'')"
| "json_repr (JInt i) = str_int i"
| "json_repr (JNum q) = str_rat q"
| "json_repr (JStr s) = py_repr s"
| "json_repr (JArr l) = ''['' @ py_join '', '' (List.map json_repr l) @ '']''"
| "json_repr (JObj d) =
     ''{'' @ py_join '', '' (List.map (\<lambda>(k, s). py_repr k @ '': '' @ s) (List.map (map_prod id json_repr) d)) @ ''}''"

definition json_text :: "json \<Rightarrow> string" where
  "json_text j = (case j of JStr s \<Rightarrow> s | _ \<Rightarrow> json_repr j)"

definition exn_str :: "exn \<Rightarrow> string" where
  "exn_str e = (case e of
       ValueError m \<Rightarrow> m | KeyError m \<Rightarrow> m | TypeError m \<Rightarrow> m | AttributeError m \<Rightarrow> m | RuntimeError m \<Rightarrow> m | PolicyValidationError m _ \<Rightarrow> m
     | RegistryValidationError m \<Rightarrow> m | BindError m \<Rightarrow> m | TenantBindingError m \<Rightarrow> m
     | HarborHttpError m _ \<Rightarrow> m | TransportError m \<Rightarrow> m | HostError m \<Rightarrow> m
     | SpendDenied r \<Rightarrow> ''Paybond spend authorization denied: '' @
         json_text (json_or (vr_message r) (json_or (vr_code r) (JStr ''denied'')))
     | SpendApprovalRequired r \<Rightarrow> ''Paybond spend authorization requires approval: '' @
         json_text (json_or (vr_message r) (json_or (vr_code r) (JStr ''approval_required'')))
     | UnregisteredSideEffecting t op \<Rightarrow>
         ''side-effecting tool '' @ quoted t @ '' (operation '' @ quoted op @
         '') is in intent allowedTools but not registered''
     | EvidenceSubmitError m _ \<Rightarrow> m
     | ReloadError c m \<Rightarrow> m
     | CancelledError \<Rightarrow> [])"

end
