(* ===== verification/Policy_Schema.thy ===== *)
theory Policy_Schema
  imports Kit_Errors
begin

text \<open>
  \<open>policy/schema.py\<close>: the policy documents (v1, and v2 with its tenant overlay), their
  parsers from decoded JSON or YAML, and the serializer of a v1 document.  A parser returns
  the document or the \<open>PaybondPolicyValidationError\<close> of the first check that fails.
\<close>

section \<open>Documents\<close>

record policy_tool_entry =
  pt_side_effecting :: bool
  pt_max_spend_cents :: "int option"
  pt_spend_from_args :: "string option"
  pt_evidence_preset :: "string option"
  pt_vendor_pack :: "string option"
  pt_operation :: "string option"

record policy_binding =
  pb_template_id :: string
  pb_version_seq :: "int option"
  pb_head_digest :: "string option"

type_synonym budget = "(string, json) dict"

record intent_section =
  is_policy_binding :: "policy_binding option"
  is_budget :: "budget option"
  is_allowed_tools :: "string list"

record adapter_section =
  ad_deny_provider_executed_tools :: "bool option"

record document_v1 =
  d1_name :: string
  d1_default_deny :: bool
  d1_tools :: "(string, policy_tool_entry) dict"
  d1_intent :: "intent_section option"
  d1_adapter :: "adapter_section option"

record tool_override =
  po_side_effecting :: "bool option"
  po_max_spend_cents :: "int option"
  po_spend_from_args :: "string option"
  po_evidence_preset :: "string option"
  po_vendor_pack :: "string option"
  po_operation :: "string option"

record binding_override =
  bo_template_id :: "string option"
  bo_version_seq :: "int option"
  bo_head_digest :: "string option"

record intent_override =
  io_policy_binding :: "binding_override option"
  io_budget :: "budget option"
  io_allowed_tools :: "string list"

record policy_extends =
  px_org_policy_id :: string
  px_org_id :: string
  px_base_digest :: "string option"
  px_base_policy :: "string option"

record policy_overrides =
  ov_default_deny :: "bool option"
  ov_tools :: "(string, tool_override) dict option"
  ov_intent :: "intent_override option"
  ov_adapter :: "adapter_section option"

record document_v2 =
  d2_name :: string
  d2_default_deny :: bool
  d2_tools :: "(string, policy_tool_entry) dict"
  d2_extends :: "policy_extends option"
  d2_overrides :: "policy_overrides option"
  d2_intent :: "intent_section option"
  d2_adapter :: "adapter_section option"

datatype policy_document = Doc_V1 document_v1 | Doc_V2 document_v2

section \<open>Patterns\<close>

definition ident_char :: "char \<Rightarrow> bool" where
  "ident_char c \<longleftrightarrow> is_lower c \<or> is_digit c \<or> c = CHR ''_''"

definition identifier_re :: "string \<Rightarrow> bool" where
  "identifier_re = fullmatch_ht ident_char ident_char (Some 63)"

definition policy_name_re :: "string \<Rightarrow> bool" where
  "policy_name_re = fullmatch_ht is_lower (\<lambda>c. ident_char c \<or> c = CHR ''-'') (Some 63)"

definition tool_name_re :: "string \<Rightarrow> bool" where
  "tool_name_re =
     fullmatch_ht is_lower (\<lambda>c. ident_char c \<or> c = CHR ''.'' \<or> c = CHR ''-'') (Some 127)"

definition json_path_re :: "string \<Rightarrow> bool" where
  "json_path_re =
     fullmatch_ht (\<lambda>c. is_lower c \<or> is_upper c \<or> c = CHR ''_'')
       (\<lambda>c. ident_char c \<or> is_upper c \<or> c = CHR ''.'') None"

definition head_digest_re :: "string \<Rightarrow> bool" where
  "head_digest_re s \<longleftrightarrow>
     startswith s ''sha256:'' \<and> length s = 71 \<and>
     list_all (\<lambda>c. is_hex_lower (lower_char c)) (drop 7 s)"

definition currency_re :: "string \<Rightarrow> bool" where
  "currency_re s \<longleftrightarrow> length s = 3 \<and> list_all is_lower s"

definition org_id_re :: "string \<Rightarrow> bool" where
  "org_id_re s \<longleftrightarrow> startswith s ''org_'' \<and> fullmatch_ht is_lower ident_char (Some 57) (drop 4 s)"

section \<open>Expectations\<close>

definition pv_error :: "string \<Rightarrow> string \<Rightarrow> exn" where
  "pv_error path what = PolicyValidationError (path @ what) path"

definition expect_mapping :: "json \<Rightarrow> string \<Rightarrow> exn + (string, json) dict" where
  "expect_mapping raw path = (case raw of
       JObj d \<Rightarrow> Inr d
     | _ \<Rightarrow> Inl (pv_error path '' must be an object''))"

definition expect_bool :: "json \<Rightarrow> string \<Rightarrow> exn + bool" where
  "expect_bool raw path = (case raw of
       JBool b \<Rightarrow> Inr b
     | _ \<Rightarrow> Inl (pv_error path '' must be a boolean''))"

definition expect_int :: "json \<Rightarrow> string \<Rightarrow> int option \<Rightarrow> exn + int" where
  "expect_int raw path minimum = (case raw of
       JInt i \<Rightarrow>
         (case minimum of
            Some m \<Rightarrow> if i < m then Inl (pv_error path ('' must be >= '' @ str_int m)) else Inr i
          | None \<Rightarrow> Inr i)
     | _ \<Rightarrow> Inl (pv_error path '' must be an integer''))"

definition expect_str :: "json \<Rightarrow> string \<Rightarrow> exn + string" where
  "expect_str raw path = (case raw of
       JStr s \<Rightarrow> if s = [] then Inl (pv_error path '' must be a non-empty string'') else Inr s
     | _ \<Rightarrow> Inl (pv_error path '' must be a non-empty string''))"

definition expect_match :: "(string \<Rightarrow> bool) \<Rightarrow> string \<Rightarrow> json \<Rightarrow> string \<Rightarrow> exn + string" where
  "expect_match re what raw path =
     rbind (expect_str raw path) (\<lambda>s. if re s then Inr s else Inl (pv_error path what))"

text \<open>\<open>d.get(k)\<close> with None for an absent key, and \<open>if k in d: ...\<close>.\<close>

definition jget :: "(string, json) dict \<Rightarrow> string \<Rightarrow> json" where
  "jget d k = (case map_of d k of Some v \<Rightarrow> v | None \<Rightarrow> JNull)"

definition if_present :: "(string, json) dict \<Rightarrow> string \<Rightarrow> (json \<Rightarrow> exn + 'a) \<Rightarrow> exn + 'a option" where
  "if_present d k f = (case map_of d k of
       None \<Rightarrow> Inr None
     | Some v \<Rightarrow> rbind (f v) (\<lambda>x. Inr (Some x)))"

definition no_unknown_fields :: "(string, json) dict \<Rightarrow> string list \<Rightarrow> string \<Rightarrow> exn + unit" where
  "no_unknown_fields d known path =
     (let unknown = filter (\<lambda>k. k \<notin> set known) (keys d) in
      ensure (unknown = [])
        (pv_error path ('' has unknown fields: '' @ py_join '', '' (sort unknown))))"

definition dot :: "string \<Rightarrow> string \<Rightarrow> string" where
  "dot path k = path @ ''.'' @ k"

section \<open>Tool entries\<close>

definition TOOL_FIELDS :: "string list" where
  "TOOL_FIELDS = [''side_effecting'', ''max_spend_cents'', ''spend_from_args'', ''evidence_preset'',
                  ''vendor_pack'', ''operation'']"

definition parse_max_spend :: "(string, json) dict \<Rightarrow> string \<Rightarrow> exn + int option" where
  "parse_max_spend e path =
     if_present e ''max_spend_cents'' (\<lambda>v. expect_int v (dot path ''max_spend_cents'') (Some 0))"

definition parse_spend_from_args :: "(string, json) dict \<Rightarrow> string \<Rightarrow> exn + string option" where
  "parse_spend_from_args e path =
     if_present e ''spend_from_args'' (\<lambda>v. expect_match json_path_re
       '' must be a dot-separated JSON path'' v (dot path ''spend_from_args''))"

definition parse_preset :: "(string, json) dict \<Rightarrow> string \<Rightarrow> exn + string option" where
  "parse_preset e path =
     if_present e ''evidence_preset'' (\<lambda>v. expect_match identifier_re
       '' must be a snake_case identifier'' v (dot path ''evidence_preset''))"

definition parse_vendor_pack :: "(string, json) dict \<Rightarrow> string \<Rightarrow> exn + string option" where
  "parse_vendor_pack e path =
     if_present e ''vendor_pack'' (\<lambda>v. expect_match identifier_re
       '' must be a snake_case identifier'' v (dot path ''vendor_pack''))"

definition parse_operation :: "(string, json) dict \<Rightarrow> string \<Rightarrow> exn + string option" where
  "parse_operation e path =
     if_present e ''operation'' (\<lambda>v. expect_match (\<lambda>s. length s \<le> 128)
       '' must be at most 128 characters'' v (dot path ''operation''))"

definition spend_fields_exclusive :: "int option \<Rightarrow> string option \<Rightarrow> string \<Rightarrow> exn + unit" where
  "spend_fields_exclusive m a path =
     ensure (m = None \<or> a = None)
       (pv_error path '': max_spend_cents and spend_from_args are mutually exclusive'')"

definition parse_tool_entry :: "json \<Rightarrow> string \<Rightarrow> exn + policy_tool_entry" where
  "parse_tool_entry raw path =
     rbind (expect_mapping raw path) (\<lambda>e.
     rbind (no_unknown_fields e TOOL_FIELDS path) (\<lambda>_.
     rbind (expect_bool (jget e ''side_effecting'') (dot path ''side_effecting'')) (\<lambda>side.
     rbind (parse_max_spend e path) (\<lambda>m.
     rbind (parse_spend_from_args e path) (\<lambda>a.
     rbind (spend_fields_exclusive m a path) (\<lambda>_.
     rbind (parse_preset e path) (\<lambda>preset.
     rbind (ensure (side \<longrightarrow> preset \<noteq> None)
              (PolicyValidationError (path @ '': side-effecting tools must declare evidence_preset'')
                 (dot path ''evidence_preset''))) (\<lambda>_.
     rbind (parse_vendor_pack e path) (\<lambda>pack.
     rbind (parse_operation e path) (\<lambda>op.
     Inr \<lparr>pt_side_effecting = side, pt_max_spend_cents = m, pt_spend_from_args = a,
          pt_evidence_preset = preset, pt_vendor_pack = pack, pt_operation = op\<rparr>))))))))))"

definition parse_tool_override_entry :: "json \<Rightarrow> string \<Rightarrow> exn + tool_override" where
  "parse_tool_override_entry raw path =
     rbind (expect_mapping raw path) (\<lambda>e.
     rbind (no_unknown_fields e TOOL_FIELDS path) (\<lambda>_.
     rbind (ensure (e \<noteq> []) (pv_error path '' must set at least one field'')) (\<lambda>_.
     rbind (if_present e ''side_effecting'' (\<lambda>v. expect_bool v (dot path ''side_effecting''))) (\<lambda>side.
     rbind (parse_max_spend e path) (\<lambda>m.
     rbind (parse_spend_from_args e path) (\<lambda>a.
     rbind (spend_fields_exclusive m a path) (\<lambda>_.
     rbind (parse_preset e path) (\<lambda>preset.
     rbind (parse_vendor_pack e path) (\<lambda>pack.
     rbind (parse_operation e path) (\<lambda>op.
     rbind (ensure (side = Some True \<longrightarrow> preset \<noteq> None)
              (PolicyValidationError (path @ '': side-effecting tools must declare evidence_preset'')
                 (dot path ''evidence_preset''))) (\<lambda>_.
     Inr \<lparr>po_side_effecting = side, po_max_spend_cents = m, po_spend_from_args = a,
          po_evidence_preset = preset, po_vendor_pack = pack, po_operation = op\<rparr>)))))))))))"

section \<open>Intent sections\<close>

definition parse_version_seq :: "(string, json) dict \<Rightarrow> string \<Rightarrow> exn + int option" where
  "parse_version_seq b path =
     if_present b ''version_seq'' (\<lambda>v. expect_int v (dot path ''version_seq'') (Some 1))"

definition parse_digest_field :: "(string, json) dict \<Rightarrow> string \<Rightarrow> string \<Rightarrow> exn + string option" where
  "parse_digest_field b k path =
     if_present b k (\<lambda>v. expect_match head_digest_re '' must be sha256:<64-hex>'' v (dot path k))"

definition parse_policy_binding :: "json \<Rightarrow> string \<Rightarrow> exn + policy_binding" where
  "parse_policy_binding raw path =
     rbind (expect_mapping raw path) (\<lambda>b.
     rbind (no_unknown_fields b [''template_id'', ''version_seq'', ''head_digest''] path) (\<lambda>_.
     rbind (expect_match identifier_re '' must be a snake_case identifier''
              (jget b ''template_id'') (dot path ''template_id'')) (\<lambda>t.
     rbind (parse_version_seq b path) (\<lambda>v.
     rbind (parse_digest_field b ''head_digest'' path) (\<lambda>h.
     Inr \<lparr>pb_template_id = t, pb_version_seq = v, pb_head_digest = h\<rparr>)))))"

definition parse_policy_binding_override :: "json \<Rightarrow> string \<Rightarrow> exn + binding_override" where
  "parse_policy_binding_override raw path =
     rbind (expect_mapping raw path) (\<lambda>b.
     rbind (no_unknown_fields b [''template_id'', ''version_seq'', ''head_digest''] path) (\<lambda>_.
     rbind (ensure (b \<noteq> []) (pv_error path '' must set at least one field'')) (\<lambda>_.
     rbind (if_present b ''template_id'' (\<lambda>v. expect_match identifier_re
              '' must be a snake_case identifier'' v (dot path ''template_id''))) (\<lambda>t.
     rbind (parse_version_seq b path) (\<lambda>v.
     rbind (parse_digest_field b ''head_digest'' path) (\<lambda>h.
     Inr \<lparr>bo_template_id = t, bo_version_seq = v, bo_head_digest = h\<rparr>))))))"

text \<open>\<open>isinstance(x, (int, float))\<close>, which a bool passes, and the number.\<close>

definition json_number :: "json \<Rightarrow> rat option" where
  "json_number j = (case j of
       JInt i \<Rightarrow> Some (of_int i) | JNum q \<Rightarrow> Some q | JBool b \<Rightarrow> Some (if b then 1 else 0)
     | _ \<Rightarrow> None)"

definition parse_budget :: "json \<Rightarrow> string \<Rightarrow> exn + budget" where
  "parse_budget raw path =
     rbind (expect_mapping raw path) (\<lambda>b.
     rbind (expect_match currency_re '' must be a lowercase ISO-4217 code''
              (jget b ''currency'') (dot path ''currency'')) (\<lambda>_.
     rbind (case map_of b ''max_spend_usd'' of
              None \<Rightarrow> Inr ()
            | Some v \<Rightarrow> (case json_number v of
                None \<Rightarrow> Inl (pv_error (dot path ''max_spend_usd'') '' must be a number'')
              | Some q \<Rightarrow> ensure (0 \<le> q) (pv_error (dot path ''max_spend_usd'') '' must be >= 0'')))
       (\<lambda>_. Inr b)))"

text \<open>The loop over \<open>allowed_tools\<close>, with its index and the names seen so far.\<close>

fun parse_allowed_items :: "json list \<Rightarrow> string \<Rightarrow> nat \<Rightarrow> string list \<Rightarrow> exn + string list" where
  "parse_allowed_items [] path i seen = Inr seen"
| "parse_allowed_items (item # items) path i seen =
     (let item_path = path @ ''.allowed_tools['' @ str_int (int i) @ '']'' in
      rbind (expect_match tool_name_re '' must be a lowercase tool name'' item item_path) (\<lambda>n.
        if n \<in> set seen then Inl (pv_error (dot path ''allowed_tools'') '' must be unique'')
        else parse_allowed_items items path (Suc i) (seen @ [n])))"

definition parse_allowed_tools :: "(string, json) dict \<Rightarrow> string \<Rightarrow> exn + string list" where
  "parse_allowed_tools b path = (case map_of b ''allowed_tools'' of
       None \<Rightarrow> Inr []
     | Some (JArr items) \<Rightarrow> parse_allowed_items items path 0 []
     | Some _ \<Rightarrow> Inl (pv_error (dot path ''allowed_tools'') '' must be an array''))"

definition INTENT_FIELDS :: "string list" where
  "INTENT_FIELDS = [''policy_binding'', ''budget'', ''allowed_tools'']"

definition parse_intent :: "json \<Rightarrow> string \<Rightarrow> exn + intent_section" where
  "parse_intent raw path =
     rbind (expect_mapping raw path) (\<lambda>b.
     rbind (no_unknown_fields b INTENT_FIELDS path) (\<lambda>_.
     rbind (if_present b ''policy_binding'' (\<lambda>v. parse_policy_binding v (dot path ''policy_binding''))) (\<lambda>pb.
     rbind (if_present b ''budget'' (\<lambda>v. parse_budget v (dot path ''budget''))) (\<lambda>bu.
     rbind (parse_allowed_tools b path) (\<lambda>al.
     Inr \<lparr>is_policy_binding = pb, is_budget = bu, is_allowed_tools = al\<rparr>)))))"

definition parse_intent_override :: "json \<Rightarrow> string \<Rightarrow> exn + intent_override" where
  "parse_intent_override raw path =
     rbind (expect_mapping raw path) (\<lambda>b.
     rbind (no_unknown_fields b INTENT_FIELDS path) (\<lambda>_.
     rbind (ensure (b \<noteq> []) (pv_error path '' must set at least one field'')) (\<lambda>_.
     rbind (if_present b ''policy_binding''
              (\<lambda>v. parse_policy_binding_override v (dot path ''policy_binding''))) (\<lambda>pb.
     rbind (if_present b ''budget'' (\<lambda>v. parse_budget v (dot path ''budget''))) (\<lambda>bu.
     rbind (parse_allowed_tools b path) (\<lambda>al.
     Inr \<lparr>io_policy_binding = pb, io_budget = bu, io_allowed_tools = al\<rparr>))))))"

section \<open>Extends, adapter, overrides, tools\<close>

definition parse_extends :: "json \<Rightarrow> string \<Rightarrow> exn + policy_extends" where
  "parse_extends raw path =
     rbind (expect_mapping raw path) (\<lambda>x.
     rbind (no_unknown_fields x [''org_policy_id'', ''org_id'', ''base_digest'', ''base_policy''] path) (\<lambda>_.
     rbind (expect_match policy_name_re '' must be a lowercase policy name''
              (jget x ''org_policy_id'') (dot path ''org_policy_id'')) (\<lambda>pid.
     rbind (expect_match org_id_re '' must be an org identifier (org_<snake_case>)''
              (jget x ''org_id'') (dot path ''org_id'')) (\<lambda>oid.
     rbind (parse_digest_field x ''base_digest'' path) (\<lambda>bd.
     rbind (if_present x ''base_policy'' (\<lambda>v. expect_match (\<lambda>s. length s \<le> 512)
              '' must be at most 512 characters'' v (dot path ''base_policy''))) (\<lambda>bp.
     Inr \<lparr>px_org_policy_id = pid, px_org_id = oid, px_base_digest = bd, px_base_policy = bp\<rparr>))))))"

definition parse_adapter :: "json \<Rightarrow> string \<Rightarrow> exn + adapter_section" where
  "parse_adapter raw path =
     rbind (expect_mapping raw path) (\<lambda>a.
     rbind (no_unknown_fields a [''deny_provider_executed_tools''] path) (\<lambda>_.
     rbind (if_present a ''deny_provider_executed_tools''
              (\<lambda>v. expect_bool v (dot path ''deny_provider_executed_tools''))) (\<lambda>d.
     rbind (ensure (d \<noteq> None) (pv_error path '' must set at least one field'')) (\<lambda>_.
     Inr \<lparr>ad_deny_provider_executed_tools = d\<rparr>))))"

text \<open>
  The loops over \<open>items()\<close> of the tool maps.  The keys of a decoded object are distinct, so
  each assignment \<open>tools[name] = ...\<close> appends.
\<close>

definition parse_tools_map :: "json \<Rightarrow> string \<Rightarrow> nat \<Rightarrow> exn + (string, policy_tool_entry) dict" where
  "parse_tools_map raw path min_entries = (case raw of
       JObj d \<Rightarrow>
         rbind (ensure (length d \<ge> min_entries)
                  (pv_error path ('' must declare at least '' @ str_int (int min_entries) @ '' entr'' @
                     (if min_entries = 1 then ''y'' else ''ies'')))) (\<lambda>_.
         rmap (\<lambda>(n, v).
           if \<not> tool_name_re n
           then Inl (PolicyValidationError (path @ '' key '' @ quoted n @ '' must be a lowercase tool name'') path)
           else rbind (parse_tool_entry v (dot path n)) (\<lambda>e. Inr (n, e))) d)
     | _ \<Rightarrow> Inl (pv_error path '' must be an object''))"

definition parse_override_tools :: "json \<Rightarrow> string \<Rightarrow> exn + (string, tool_override) dict" where
  "parse_override_tools raw path = (case raw of
       JObj (x # xs) \<Rightarrow>
         rmap (\<lambda>(n, v).
           if \<not> tool_name_re n
           then Inl (PolicyValidationError (path @ ''.tools key '' @ quoted n @
                  '' must be a lowercase tool name'') (dot path ''tools''))
           else rbind (parse_tool_override_entry v (path @ ''.tools.'' @ n)) (\<lambda>e. Inr (n, e))) (x # xs)
     | _ \<Rightarrow> Inl (pv_error (dot path ''tools'') '' must declare at least one entry''))"

definition parse_overrides :: "json \<Rightarrow> string \<Rightarrow> exn + policy_overrides" where
  "parse_overrides raw path =
     rbind (expect_mapping raw path) (\<lambda>x.
     rbind (no_unknown_fields x [''default_deny'', ''tools'', ''intent'', ''adapter''] path) (\<lambda>_.
     rbind (if_present x ''default_deny'' (\<lambda>v. expect_bool v (dot path ''default_deny''))) (\<lambda>dd.
     rbind (if_present x ''tools'' (\<lambda>v. parse_override_tools v path)) (\<lambda>ts.
     rbind (if_present x ''intent'' (\<lambda>v. parse_intent_override v (dot path ''intent''))) (\<lambda>i.
     rbind (if_present x ''adapter'' (\<lambda>v. parse_adapter v (dot path ''adapter''))) (\<lambda>a.
     rbind (ensure (\<not> (dd = None \<and> (ts = None \<or> ts = Some []) \<and> i = None \<and> a = None))
              (pv_error path '' must set default_deny, tools, intent, and/or adapter'')) (\<lambda>_.
     Inr \<lparr>ov_default_deny = dd, ov_tools = ts, ov_intent = i, ov_adapter = a\<rparr>)))))))"

section \<open>Documents\<close>

text \<open>\<open>version == n\<close>: Python compares 1, 1.0 and True equal.\<close>

definition version_is :: "json \<Rightarrow> int \<Rightarrow> bool" where
  "version_is j n \<longleftrightarrow> json_number j = Some (of_int n)"

definition V1_FIELDS :: "string list" where
  "V1_FIELDS = [''version'', ''name'', ''default_deny'', ''tools'', ''intent'', ''adapter'', ''$schema'']"

definition V2_FIELDS :: "string list" where
  "V2_FIELDS = [''version'', ''name'', ''default_deny'', ''tools'', ''intent'', ''adapter'', ''extends'',
                ''overrides'', ''$schema'']"

definition parse_paybond_policy_document_v1 :: "json \<Rightarrow> exn + document_v1" where
  "parse_paybond_policy_document_v1 raw =
     rbind (expect_mapping raw ''(root)'') (\<lambda>d.
     rbind (no_unknown_fields d V1_FIELDS ''(root)'') (\<lambda>_.
     rbind (ensure (version_is (jget d ''version'') 1)
              (PolicyValidationError ''version must be 1'' ''version'')) (\<lambda>_.
     rbind (expect_match policy_name_re '' must be a lowercase policy name'' (jget d ''name'') ''name'') (\<lambda>n.
     rbind (expect_bool (jget d ''default_deny'') ''default_deny'') (\<lambda>dd.
     rbind (parse_tools_map (jget d ''tools'') ''tools'' 1) (\<lambda>ts.
     rbind (if_present d ''intent'' (\<lambda>v. parse_intent v ''intent'')) (\<lambda>i.
     rbind (if_present d ''adapter'' (\<lambda>v. parse_adapter v ''adapter'')) (\<lambda>a.
     Inr \<lparr>d1_name = n, d1_default_deny = dd, d1_tools = ts, d1_intent = i, d1_adapter = a\<rparr>))))))))"

definition parse_paybond_policy_document_v2 :: "json \<Rightarrow> exn + document_v2" where
  "parse_paybond_policy_document_v2 raw =
     rbind (expect_mapping raw ''(root)'') (\<lambda>d.
     rbind (no_unknown_fields d V2_FIELDS ''(root)'') (\<lambda>_.
     rbind (ensure (version_is (jget d ''version'') 2)
              (PolicyValidationError ''version must be 2'' ''version'')) (\<lambda>_.
     rbind (expect_match policy_name_re '' must be a lowercase policy name'' (jget d ''name'') ''name'') (\<lambda>n.
     rbind (expect_bool (jget d ''default_deny'') ''default_deny'') (\<lambda>dd.
     rbind (if_present d ''extends'' (\<lambda>v. parse_extends v ''extends'')) (\<lambda>x.
     rbind (if_present d ''overrides'' (\<lambda>v. parse_overrides v ''overrides'')) (\<lambda>ov.
     rbind (parse_tools_map (jget d ''tools'') ''tools'' (if x \<noteq> None then 0 else 1)) (\<lambda>ts.
     rbind (if_present d ''intent'' (\<lambda>v. parse_intent v ''intent'')) (\<lambda>i.
     rbind (if_present d ''adapter'' (\<lambda>v. parse_adapter v ''adapter'')) (\<lambda>a.
     Inr \<lparr>d2_name = n, d2_default_deny = dd, d2_tools = ts, d2_extends = x, d2_overrides = ov,
          d2_intent = i, d2_adapter = a\<rparr>))))))))))"

definition is_paybond_policy_overlay :: "document_v2 \<Rightarrow> bool" where
  "is_paybond_policy_overlay d \<longleftrightarrow> d2_extends d \<noteq> None"

definition parse_paybond_policy_document :: "json \<Rightarrow> exn + policy_document" where
  "parse_paybond_policy_document raw =
     rbind (expect_mapping raw ''(root)'') (\<lambda>d.
       if version_is (jget d ''version'') 1
       then rbind (parse_paybond_policy_document_v1 raw) (\<lambda>x. Inr (Doc_V1 x))
       else if version_is (jget d ''version'') 2
       then rbind (parse_paybond_policy_document_v2 raw) (\<lambda>x. Inr (Doc_V2 x))
       else Inl (PolicyValidationError ''version must be 1 or 2'' ''version''))"

section \<open>Serialization\<close>

definition opt_item :: "string \<Rightarrow> ('a \<Rightarrow> json) \<Rightarrow> 'a option \<Rightarrow> (string, json) dict" where
  "opt_item k f v = (case v of None \<Rightarrow> [] | Some x \<Rightarrow> [(k, f x)])"

definition tool_payload :: "policy_tool_entry \<Rightarrow> (string, json) dict" where
  "tool_payload e =
     (''side_effecting'', JBool (pt_side_effecting e))
     # opt_item ''max_spend_cents'' JInt (pt_max_spend_cents e)
     @ opt_item ''spend_from_args'' JStr (pt_spend_from_args e)
     @ opt_item ''evidence_preset'' JStr (pt_evidence_preset e)
     @ opt_item ''vendor_pack'' JStr (pt_vendor_pack e)
     @ opt_item ''operation'' JStr (pt_operation e)"

definition binding_payload :: "policy_binding \<Rightarrow> (string, json) dict" where
  "binding_payload b =
     (''template_id'', JStr (pb_template_id b))
     # opt_item ''version_seq'' JInt (pb_version_seq b)
     @ opt_item ''head_digest'' JStr (pb_head_digest b)"

definition intent_payload :: "intent_section \<Rightarrow> (string, json) dict" where
  "intent_payload i =
     opt_item ''policy_binding'' (JObj \<circ> binding_payload) (is_policy_binding i)
     @ opt_item ''budget'' JObj (is_budget i)
     @ (if is_allowed_tools i = [] then []
        else [(''allowed_tools'', JArr (List.map JStr (is_allowed_tools i)))])"

definition policy_document_to_dict :: "document_v1 \<Rightarrow> (string, json) dict" where
  "policy_document_to_dict d =
     [(''version'', JInt 1), (''name'', JStr (d1_name d)),
      (''default_deny'', JBool (d1_default_deny d)),
      (''tools'', JObj (List.map (\<lambda>(n, e). (n, JObj (tool_payload e))) (d1_tools d)))]
     @ opt_item ''intent'' (JObj \<circ> intent_payload) (d1_intent d)
     @ (case d1_adapter d of
          None \<Rightarrow> []
        | Some a \<Rightarrow> (case ad_deny_provider_executed_tools a of
            None \<Rightarrow> []
          | Some b \<Rightarrow> [(''adapter'', JObj [(''deny_provider_executed_tools'', JBool b)])]))"

end
