(* ===== verification/Policy_Merge.thy ===== *)
theory Policy_Merge
  imports Policy_Schema
begin

text \<open>
  \<open>policy/merge.py\<close>: the merge of an org base document with a tenant overlay into one flat v1
  document.  The Python code appends to two lists while it merges, the denied widenings and
  the overrides applied; here both are a \<open>merge_log\<close> that every step takes and returns.  The
  merge fails at the end, with every denial in its message, when a widening was denied.
\<close>

section \<open>The log\<close>

record denial =
  dn_path :: string
  dn_code :: string
  dn_message :: string

record merge_log =
  ml_denied :: "denial list"
  ml_applied :: "string list"

definition deny :: "string \<Rightarrow> string \<Rightarrow> string \<Rightarrow> merge_log \<Rightarrow> merge_log" where
  "deny path code message lg =
     lg\<lparr>ml_denied := ml_denied lg @ [\<lparr>dn_path = path, dn_code = code, dn_message = message\<rparr>]\<rparr>"

definition applied :: "string \<Rightarrow> merge_log \<Rightarrow> merge_log" where
  "applied path lg = lg\<lparr>ml_applied := ml_applied lg @ [path]\<rparr>"

lemma deny_denied [simp]: "ml_denied (deny p c m lg) = ml_denied lg @ [\<lparr>dn_path = p, dn_code = c, dn_message = m\<rparr>]"
  by (simp add: deny_def)

lemma applied_denied [simp]: "ml_denied (applied p lg) = ml_denied lg"
  by (simp add: applied_def)

record merge_report =
  mr_org_policy_id :: "string option"
  mr_org_id :: "string option"
  mr_base_policy_name :: string
  mr_overlay_policy_name :: "string option"
  mr_overrides_applied :: "string list"
  mr_denied_widenings :: "denial list"

record merge_result =
  mg_effective :: document_v1
  mg_report :: merge_report

section \<open>Tools\<close>

definition clone_tool_entry :: "policy_tool_entry \<Rightarrow> policy_tool_entry" where
  "clone_tool_entry e =
     \<lparr>pt_side_effecting = pt_side_effecting e, pt_max_spend_cents = pt_max_spend_cents e,
      pt_spend_from_args = pt_spend_from_args e, pt_evidence_preset = pt_evidence_preset e,
      pt_vendor_pack = pt_vendor_pack e, pt_operation = pt_operation e\<rparr>"

lemma clone_tool_entry_id [simp]: "clone_tool_entry e = e"
  by (simp add: clone_tool_entry_def)

definition merge_stricter_default_deny :: "bool list \<Rightarrow> bool" where
  "merge_stricter_default_deny values = list_ex (\<lambda>v. v) values"

definition tool_path :: "string \<Rightarrow> string \<Rightarrow> string" where
  "tool_path n field = ''tools.'' @ n @ ''.'' @ field"

type_synonym tool_step = "policy_tool_entry \<times> merge_log"

definition merge_side_effecting ::
  "policy_tool_entry \<Rightarrow> tool_override \<Rightarrow> string \<Rightarrow> tool_step \<Rightarrow> tool_step" where
  "merge_side_effecting base patch n = (\<lambda>(m, lg). case po_side_effecting patch of
       None \<Rightarrow> (m, lg)
     | Some b \<Rightarrow>
         if pt_side_effecting base \<and> \<not> b
         then (m, deny (tool_path n ''side_effecting'') ''policy.cannot_disable_org_side_effecting_tool''
                    (''cannot disable org-required side-effecting tool '' @ quoted n) lg)
         else (m\<lparr>pt_side_effecting := b\<rparr>, applied (tool_path n ''side_effecting'') lg))"

definition merge_max_spend ::
  "policy_tool_entry \<Rightarrow> tool_override \<Rightarrow> string \<Rightarrow> tool_step \<Rightarrow> tool_step" where
  "merge_max_spend base patch n = (\<lambda>(m, lg). case po_max_spend_cents patch of
       None \<Rightarrow> (m, lg)
     | Some c \<Rightarrow>
         if (case pt_max_spend_cents base of None \<Rightarrow> False | Some b \<Rightarrow> c > b)
         then (m, deny (tool_path n ''max_spend_cents'') ''policy.cannot_raise_spend_cap''
                    (''tenant max_spend_cents ('' @ str_int c @ '') exceeds org cap ('' @
                     str_int (the (pt_max_spend_cents base)) @ '')'') lg)
         else (m\<lparr>pt_max_spend_cents := Some c, pt_spend_from_args := None\<rparr>,
               applied (tool_path n ''max_spend_cents'') lg))"

definition merge_spend_from_args ::
  "policy_tool_entry \<Rightarrow> tool_override \<Rightarrow> string \<Rightarrow> tool_step \<Rightarrow> tool_step" where
  "merge_spend_from_args base patch n = (\<lambda>(m, lg). case po_spend_from_args patch of
       None \<Rightarrow> (m, lg)
     | Some a \<Rightarrow>
         if pt_max_spend_cents base \<noteq> None
         then (m, deny (tool_path n ''spend_from_args'') ''policy.cannot_override_org_spend_mode''
                    (''cannot replace org max_spend_cents with spend_from_args on '' @ quoted n) lg)
         else (m\<lparr>pt_max_spend_cents := None, pt_spend_from_args := Some a\<rparr>,
               applied (tool_path n ''spend_from_args'') lg))"

definition merge_preset ::
  "string option \<Rightarrow> policy_tool_entry \<Rightarrow> tool_override \<Rightarrow> string \<Rightarrow> tool_step \<Rightarrow> tool_step" where
  "merge_preset org_policy_id base patch n = (\<lambda>(m, lg). case po_evidence_preset patch of
       None \<Rightarrow> (m, lg)
     | Some p \<Rightarrow>
         (m\<lparr>pt_evidence_preset := Some p\<rparr>,
          if Some p \<noteq> pt_evidence_preset base \<and> org_policy_id \<noteq> None
          then applied (tool_path n ''evidence_preset'') lg else lg))"

definition merge_vendor_pack :: "tool_override \<Rightarrow> string \<Rightarrow> tool_step \<Rightarrow> tool_step" where
  "merge_vendor_pack patch n = (\<lambda>(m, lg). case po_vendor_pack patch of
       None \<Rightarrow> (m, lg)
     | Some v \<Rightarrow> (m\<lparr>pt_vendor_pack := Some v\<rparr>, applied (tool_path n ''vendor_pack'') lg))"

definition merge_operation :: "tool_override \<Rightarrow> string \<Rightarrow> tool_step \<Rightarrow> tool_step" where
  "merge_operation patch n = (\<lambda>(m, lg). case po_operation patch of
       None \<Rightarrow> (m, lg)
     | Some v \<Rightarrow> (m\<lparr>pt_operation := Some v\<rparr>, applied (tool_path n ''operation'') lg))"

text \<open>\<open>not preset\<close>: None, or the empty string.\<close>

definition no_preset :: "policy_tool_entry \<Rightarrow> bool" where
  "no_preset e \<longleftrightarrow> pt_evidence_preset e = None \<or> pt_evidence_preset e = Some []"

definition check_merged_tool :: "string \<Rightarrow> tool_step \<Rightarrow> tool_step" where
  "check_merged_tool n = (\<lambda>(m, lg).
     let lg = (if pt_side_effecting m \<and> no_preset m
               then deny (tool_path n ''evidence_preset'') ''policy.missing_evidence_preset''
                      (''side-effecting tool '' @ quoted n @ '' must declare evidence_preset after merge'') lg
               else lg);
         lg = (if pt_max_spend_cents m \<noteq> None \<and> pt_spend_from_args m \<noteq> None
               then deny (''tools.'' @ n) ''policy.conflicting_spend_fields''
                      ''max_spend_cents and spend_from_args are mutually exclusive'' lg
               else lg)
     in (m, lg))"

definition merge_tool_fields ::
  "string option \<Rightarrow> policy_tool_entry \<Rightarrow> tool_override \<Rightarrow> string \<Rightarrow> merge_log \<Rightarrow> tool_step" where
  "merge_tool_fields org_policy_id base patch n lg =
     check_merged_tool n
       (merge_operation patch n
         (merge_vendor_pack patch n
           (merge_preset org_policy_id base patch n
             (merge_spend_from_args base patch n
               (merge_max_spend base patch n
                 (merge_side_effecting base patch n (clone_tool_entry base, lg)))))))"

lemmas merge_tool_steps =
  merge_side_effecting_def merge_max_spend_def merge_spend_from_args_def merge_preset_def
  merge_vendor_pack_def merge_operation_def check_merged_tool_def

type_synonym tools_step = "(string, policy_tool_entry) dict \<times> merge_log"

definition apply_tool_override ::
  "string option \<Rightarrow> string \<times> tool_override \<Rightarrow> tools_step \<Rightarrow> tools_step" where
  "apply_tool_override org_policy_id = (\<lambda>(n, patch) (tools, lg). case map_of tools n of
       None \<Rightarrow> (tools, deny (''overrides.tools.'' @ n) ''policy.unknown_org_tool_override''
                        (''cannot override unknown org tool '' @ quoted n) lg)
     | Some existing \<Rightarrow>
         (let (m, lg') = merge_tool_fields org_policy_id existing patch n lg
          in (AList.update n m tools, lg')))"

definition append_tenant_tool :: "string \<times> policy_tool_entry \<Rightarrow> tools_step \<Rightarrow> tools_step" where
  "append_tenant_tool = (\<lambda>(n, e) (tools, lg).
     if map_of tools n \<noteq> None
     then (tools, deny (''tools.'' @ n) ''policy.cannot_replace_org_tool''
                    (''tenant tools must append new entries; '' @ quoted n @ '' already exists in org base'') lg)
     else (AList.update n (clone_tool_entry e) tools, lg))"

definition overlay_tool_overrides :: "document_v2 \<Rightarrow> (string, tool_override) dict" where
  "overlay_tool_overrides overlay = (case d2_overrides overlay of
       None \<Rightarrow> [] | Some ov \<Rightarrow> (case ov_tools ov of None \<Rightarrow> [] | Some ts \<Rightarrow> ts))"

definition merge_tools ::
  "string option \<Rightarrow> (string, policy_tool_entry) dict \<Rightarrow> document_v2 \<Rightarrow> merge_log \<Rightarrow> tools_step" where
  "merge_tools org_policy_id base_tools overlay lg =
     fold append_tenant_tool (d2_tools overlay)
       (fold (apply_tool_override org_policy_id) (overlay_tool_overrides overlay) (base_tools, lg))"

section \<open>Intent\<close>

text \<open>The first value that is set, and \<open>a or b\<close> on identifiers.\<close>

fun first_some :: "'a option list \<Rightarrow> 'a option" where
  "first_some [] = None"
| "first_some (Some x # xs) = Some x"
| "first_some (None # xs) = first_some xs"

fun first_nonempty :: "string option list \<Rightarrow> string option" where
  "first_nonempty [] = None"
| "first_nonempty (Some (c # cs) # xs) = Some (c # cs)"
| "first_nonempty (_ # xs) = first_nonempty xs"

definition check_template ::
  "policy_binding option \<Rightarrow> string option \<Rightarrow> merge_log \<Rightarrow> merge_log" where
  "check_template base overlay_template lg = (case (base, overlay_template) of
       (Some b, Some t) \<Rightarrow>
         if t \<noteq> pb_template_id b
         then deny ''intent.policy_binding.template_id'' ''policy.cannot_change_org_template''
                (''tenant template_id '' @ quoted t @ '' must match org template '' @
                 quoted (pb_template_id b)) lg
         else lg
     | _ \<Rightarrow> lg)"

definition check_version ::
  "policy_binding option \<Rightarrow> binding_override option \<Rightarrow> int option \<Rightarrow> merge_log \<Rightarrow> merge_log" where
  "check_version base override version_seq lg =
     (case (version_seq, Option.bind base pb_version_seq) of
        (Some v, Some bv) \<Rightarrow>
          if v < bv
          then deny ''intent.policy_binding.version_seq'' ''policy.cannot_downgrade_template_version''
                 (''tenant version_seq ('' @ str_int v @ '') is older than org version_seq ('' @
                  str_int bv @ '')'') lg
          else if Option.bind override bo_version_seq \<noteq> None
               then applied ''intent.policy_binding.version_seq'' lg else lg
      | _ \<Rightarrow> lg)"

definition check_head_digest ::
  "policy_binding option \<Rightarrow> binding_override option \<Rightarrow> string option \<Rightarrow> merge_log \<Rightarrow> merge_log" where
  "check_head_digest base override head_digest lg =
     (if (case (head_digest, Option.bind base pb_head_digest) of
            (Some h, Some bh) \<Rightarrow> bh \<noteq> [] \<and> h \<noteq> bh | _ \<Rightarrow> False)
      then deny ''intent.policy_binding.head_digest'' ''policy.cannot_change_org_head_digest''
             ''tenant head_digest must match the org-pinned template head'' lg
      else if Option.bind override bo_head_digest \<noteq> None
           then applied ''intent.policy_binding.head_digest'' lg else lg)"

definition merge_policy_binding ::
  "policy_binding option \<Rightarrow> policy_binding option \<Rightarrow> binding_override option \<Rightarrow> merge_log
    \<Rightarrow> policy_binding option \<times> merge_log" where
  "merge_policy_binding base overlay override lg =
     (let overlay_template = first_nonempty [Option.bind override bo_template_id,
                                map_option pb_template_id overlay]
      in case first_nonempty [overlay_template, map_option pb_template_id base] of
           None \<Rightarrow> (None, lg)
         | Some template_id \<Rightarrow>
             (let version_seq = first_some [Option.bind override bo_version_seq,
                                  Option.bind overlay pb_version_seq, Option.bind base pb_version_seq];
                  head_digest = first_some [Option.bind override bo_head_digest,
                                  Option.bind overlay pb_head_digest, Option.bind base pb_head_digest]
              in (Some \<lparr>pb_template_id = template_id, pb_version_seq = version_seq,
                        pb_head_digest = head_digest\<rparr>,
                  check_head_digest base override head_digest
                    (check_version base override version_seq
                      (check_template base overlay_template lg)))))"

text \<open>
  \<open>dict.update\<close>, the dictionary of an optional value (\<open>x or {}\<close>), and \<open>get("max_spend_usd")\<close>
  as a number.  The parser admits only numbers there.
\<close>

definition dict_update :: "('k, 'v) dict \<Rightarrow> ('k, 'v) dict \<Rightarrow> ('k, 'v) dict" where
  "dict_update d e = fold (\<lambda>(k, v). AList.update k v) e d"

lemma dict_update_lookup: "map_of (dict_update d e) = map_of d ++ map_of (rev e)"
proof (induction e arbitrary: d)
  case Nil
  then show ?case by (simp add: dict_update_def)
next
  case (Cons p e)
  obtain k v where p: "p = (k, v)" by (cases p)
  have "map_of (dict_update d (p # e)) = map_of (AList.update k v d) ++ map_of (rev e)"
    using Cons.IH[of "AList.update k v d"] by (simp add: dict_update_def p)
  also have "map_of (AList.update k v d) = (map_of d)(k \<mapsto> v)" by (simp add: update_conv')
  also have "(map_of d)(k \<mapsto> v) ++ map_of (rev e) = map_of d ++ map_of (rev (p # e))"
    by (rule ext) (simp add: p map_add_def split: option.splits)
  finally show ?case .
qed

lemma map_of_rev_wf: "wf_dict d \<Longrightarrow> map_of (rev d) = map_of d"
proof (induction d)
  case Nil
  then show ?case by simp
next
  case (Cons p d)
  have "map_of d (fst p) = None"
    using Cons.prems by (simp add: wf_dict_def map_of_eq_None_iff)
  moreover have "map_of (rev d) = map_of d"
    using Cons by (simp add: wf_dict_def)
  ultimately show ?case
    by (cases p) (auto simp: map_add_def fun_eq_iff split: option.splits)
qed

definition opt_dict :: "('k, 'v) dict option \<Rightarrow> ('k, 'v) dict" where
  "opt_dict b = (case b of None \<Rightarrow> [] | Some d \<Rightarrow> d)"

definition budget_max :: "(string, json) dict \<Rightarrow> rat option" where
  "budget_max b = Option.bind (map_of b ''max_spend_usd'') json_number"

definition str_number :: "json \<Rightarrow> string" where
  "str_number j = json_text j"

text \<open>\<open>(override or overlay or {})\<close>: the first of the two that is not empty.\<close>

definition tenant_budget :: "budget option \<Rightarrow> budget option \<Rightarrow> budget" where
  "tenant_budget overlay override =
     (if opt_dict override \<noteq> [] then opt_dict override else opt_dict overlay)"

definition merge_budget ::
  "budget option \<Rightarrow> budget option \<Rightarrow> budget option \<Rightarrow> merge_log \<Rightarrow> budget option \<times> merge_log" where
  "merge_budget base overlay override lg =
     (let merged = dict_update (dict_update (dict_update [] (opt_dict base)) (opt_dict overlay))
                     (opt_dict override)
      in if merged = [] then (None, lg)
         else (Some merged,
           (case (budget_max (opt_dict base), budget_max (tenant_budget overlay override)) of
              (Some org_max, Some tenant_max) \<Rightarrow>
                if tenant_max > org_max
                then deny ''intent.budget.max_spend_usd'' ''policy.cannot_raise_budget_cap''
                       (''tenant max_spend_usd ('' @
                        str_number (jget (tenant_budget overlay override) ''max_spend_usd'') @
                        '') exceeds org cap ('' @ str_number (jget (opt_dict base) ''max_spend_usd'') @ '')'') lg
                else if budget_max (opt_dict override) \<noteq> None
                     then applied ''intent.budget.max_spend_usd'' lg else lg
            | _ \<Rightarrow> if budget_max (opt_dict override) \<noteq> None
                   then applied ''intent.budget.max_spend_usd'' lg else lg)))"

definition intersect_allowed_tools ::
  "string list option \<Rightarrow> string list option \<Rightarrow> merge_log \<Rightarrow> string list option \<times> merge_log" where
  "intersect_allowed_tools org_allowed tenant_allowed lg =
     (if tenant_allowed = None \<or> tenant_allowed = Some [] then (org_allowed, lg)
      else if org_allowed = None \<or> org_allowed = Some [] then (tenant_allowed, lg)
      else
        (let org = the org_allowed; tenant = the tenant_allowed;
             widened = filter (\<lambda>t. t \<notin> set org) tenant;
             lg = (if widened \<noteq> []
                   then deny ''intent.allowed_tools'' ''policy.cannot_widen_allowed_tools''
                          (''tenant allowed_tools widens org allowlist: '' @ py_join '', '' widened) lg
                   else lg);
             intersection = filter (\<lambda>t. t \<in> set org) tenant
         in (Some intersection,
             if length intersection \<noteq> length tenant then applied ''intent.allowed_tools'' lg else lg)))"

section \<open>Adapter\<close>

definition adapter_value :: "adapter_section option \<Rightarrow> bool option" where
  "adapter_value a = Option.bind a ad_deny_provider_executed_tools"

definition merge_adapter_section ::
  "adapter_section option \<Rightarrow> adapter_section option \<Rightarrow> adapter_section option \<Rightarrow> merge_log
    \<Rightarrow> adapter_section option \<times> merge_log" where
  "merge_adapter_section base overlay override lg =
     (let values = [adapter_value base, adapter_value overlay, adapter_value override]
      in if list_all (\<lambda>v. v = None) values then (None, lg)
         else
           (let lg = (if adapter_value base = Some True \<and>
                         (adapter_value overlay = Some False \<or> adapter_value override = Some False)
                      then deny ''adapter.deny_provider_executed_tools''
                             ''policy.cannot_relax_provider_executed_deny''
                             ''tenant cannot disable org-required deny_provider_executed_tools'' lg
                      else lg);
                lg = (if adapter_value override \<noteq> None
                      then applied ''overrides.adapter.deny_provider_executed_tools'' lg else lg)
            in (Some \<lparr>ad_deny_provider_executed_tools =
                   Some (merge_stricter_default_deny (List.map (\<lambda>v. v = Some True) values))\<rparr>, lg)))"

section \<open>Documents\<close>

definition base_document_to_effective_v1 :: "policy_document \<Rightarrow> document_v1" where
  "base_document_to_effective_v1 doc = (case doc of
       Doc_V1 d \<Rightarrow>
         \<lparr>d1_name = d1_name d, d1_default_deny = d1_default_deny d,
          d1_tools = List.map (\<lambda>(n, e). (n, clone_tool_entry e)) (d1_tools d),
          d1_intent = d1_intent d, d1_adapter = d1_adapter d\<rparr>
     | Doc_V2 d \<Rightarrow>
         \<lparr>d1_name = d2_name d, d1_default_deny = d2_default_deny d,
          d1_tools = List.map (\<lambda>(n, e). (n, clone_tool_entry e)) (d2_tools d),
          d1_intent = d2_intent d, d1_adapter = d2_adapter d\<rparr>)"

lemma base_effective_V1 [simp]: "base_document_to_effective_v1 (Doc_V1 d) = d"
  by (simp add: base_document_to_effective_v1_def)

definition override_intent :: "document_v2 \<Rightarrow> intent_override option" where
  "override_intent overlay = Option.bind (d2_overrides overlay) ov_intent"

definition tenant_allowed_tools :: "document_v2 \<Rightarrow> string list option" where
  "tenant_allowed_tools overlay =
     (if (case override_intent overlay of None \<Rightarrow> False | Some i \<Rightarrow> io_allowed_tools i \<noteq> [])
      then map_option io_allowed_tools (override_intent overlay)
      else if (case d2_intent overlay of None \<Rightarrow> False | Some i \<Rightarrow> is_allowed_tools i \<noteq> [])
      then map_option is_allowed_tools (d2_intent overlay) else None)"

definition merge_intent ::
  "intent_section option \<Rightarrow> document_v2 \<Rightarrow> merge_log \<Rightarrow> intent_section option \<times> merge_log" where
  "merge_intent base overlay lg =
     (let (merged_allowed, lg) =
            intersect_allowed_tools (map_option is_allowed_tools base) (tenant_allowed_tools overlay) lg
      in if d2_intent overlay = None \<and> override_intent overlay = None
         then (case base of
                 None \<Rightarrow> (None, lg)
               | Some i \<Rightarrow> (Some (i\<lparr>is_allowed_tools :=
                     (case merged_allowed of Some t \<Rightarrow> t | None \<Rightarrow> is_allowed_tools i)\<rparr>), lg))
         else
           (let (binding, lg) = merge_policy_binding (Option.bind base is_policy_binding)
                  (Option.bind (d2_intent overlay) is_policy_binding)
                  (Option.bind (override_intent overlay) io_policy_binding) lg;
                (bud, lg) = merge_budget (Option.bind base is_budget)
                  (Option.bind (d2_intent overlay) is_budget)
                  (Option.bind (override_intent overlay) io_budget) lg;
                allowed = (case merged_allowed of Some t \<Rightarrow> t | None \<Rightarrow> [])
            in if binding \<noteq> None \<or> bud \<noteq> None \<or> allowed \<noteq> []
               then (Some \<lparr>is_policy_binding = binding, is_budget = bud, is_allowed_tools = allowed\<rparr>, lg)
               else (base, lg)))"

definition merge_default_deny :: "bool \<Rightarrow> document_v2 \<Rightarrow> merge_log \<Rightarrow> bool \<times> merge_log" where
  "merge_default_deny base overlay lg = (case Option.bind (d2_overrides overlay) ov_default_deny of
       Some b \<Rightarrow> (merge_stricter_default_deny [base, d2_default_deny overlay, b],
                  applied ''overrides.default_deny'' lg)
     | None \<Rightarrow> (merge_stricter_default_deny [base, d2_default_deny overlay], lg))"

definition preset_approved ::
  "string list \<Rightarrow> (string, policy_tool_entry) dict \<Rightarrow> string \<times> policy_tool_entry \<Rightarrow> bool" where
  "preset_approved approved base_tools = (\<lambda>(n, e).
     \<not> pt_side_effecting e \<or> no_preset e \<or>
     (case Option.bind (map_of base_tools n) pt_evidence_preset of
        None \<Rightarrow> True
      | Some b \<Rightarrow> b = [] \<or> pt_evidence_preset e = Some b \<or> the (pt_evidence_preset e) \<in> set approved))"

definition check_preset ::
  "string list \<Rightarrow> (string, policy_tool_entry) dict \<Rightarrow> string \<times> policy_tool_entry \<Rightarrow> merge_log \<Rightarrow> merge_log" where
  "check_preset ps base_tools p lg =
     (if preset_approved ps base_tools p then lg
      else deny (tool_path (fst p) ''evidence_preset'') ''policy.evidence_preset_not_org_approved''
             (''evidence preset '' @ quoted (the (pt_evidence_preset (snd p))) @
              '' is not in the org-approved catalog subset'') lg)"

definition check_presets ::
  "string list option \<Rightarrow> (string, policy_tool_entry) dict \<Rightarrow> (string, policy_tool_entry) dict \<Rightarrow>
    merge_log \<Rightarrow> merge_log" where
  "check_presets approved base_tools tools lg = (case approved of
       None \<Rightarrow> lg
     | Some ps \<Rightarrow> if ps = [] then lg else fold (check_preset ps base_tools) tools lg)"

definition merge_paybond_policies ::
  "policy_document \<Rightarrow> document_v2 \<Rightarrow> string list option \<Rightarrow> exn + merge_result" where
  "merge_paybond_policies base overlay approved = (case d2_extends overlay of
       None \<Rightarrow> Inl (PolicyValidationError ''merge requires a tenant overlay document with extends'' ''extends'')
     | Some extends \<Rightarrow>
         (let b = base_document_to_effective_v1 base;
              lg = \<lparr>ml_denied = [], ml_applied = []\<rparr>;
              (dd, lg) = merge_default_deny (d1_default_deny b) overlay lg;
              (tools, lg) = merge_tools (Some (px_org_policy_id extends)) (d1_tools b) overlay lg;
              (i, lg) = merge_intent (d1_intent b) overlay lg;
              (adapter, lg) = merge_adapter_section (d1_adapter b) (d2_adapter overlay)
                 (Option.bind (d2_overrides overlay) ov_adapter) lg;
              lg = check_presets approved (d1_tools b) tools lg
          in if ml_denied lg \<noteq> []
             then Inl (PolicyValidationError
                    (py_join ''; '' (List.map (\<lambda>d. dn_path d @ '': '' @ dn_message d) (ml_denied lg))) ''(root)'')
             else Inr \<lparr>mg_effective = \<lparr>d1_name = d2_name overlay, d1_default_deny = dd, d1_tools = tools,
                          d1_intent = i, d1_adapter = adapter\<rparr>,
                       mg_report = \<lparr>mr_org_policy_id = Some (px_org_policy_id extends),
                          mr_org_id = Some (px_org_id extends), mr_base_policy_name = d1_name b,
                          mr_overlay_policy_name = Some (d2_name overlay),
                          mr_overrides_applied = ml_applied lg, mr_denied_widenings = ml_denied lg\<rparr>\<rparr>))"

definition to_effective_policy_document :: "policy_document \<Rightarrow> exn + document_v1" where
  "to_effective_policy_document doc = (case doc of
       Doc_V1 d \<Rightarrow> Inr (base_document_to_effective_v1 doc)
     | Doc_V2 d \<Rightarrow>
         if is_paybond_policy_overlay d
         then Inl (PolicyValidationError
                ''tenant overlay requires merge with an org base policy before use'' ''extends'')
         else Inr (base_document_to_effective_v1 doc))"

section \<open>What an accepted merge keeps\<close>

text \<open>
  The tool keeps the guard of the org entry: it stays side-effecting, a spend cap stays and is
  not raised.
\<close>

definition tool_within :: "policy_tool_entry \<Rightarrow> policy_tool_entry \<Rightarrow> bool" where
  "tool_within base m \<longleftrightarrow>
     (pt_side_effecting base \<longrightarrow> pt_side_effecting m) \<and>
     (case pt_max_spend_cents base of
        None \<Rightarrow> True
      | Some c \<Rightarrow> (case pt_max_spend_cents m of None \<Rightarrow> False | Some c' \<Rightarrow> c' \<le> c))"

definition tools_within ::
  "(string, policy_tool_entry) dict \<Rightarrow> (string, policy_tool_entry) dict \<Rightarrow> bool" where
  "tools_within base tools \<longleftrightarrow>
     (\<forall>(n, _) \<in> set base. case (map_of base n, map_of tools n) of
        (Some e, Some e') \<Rightarrow> tool_within e e' | _ \<Rightarrow> False)"

lemma tools_within_iff:
  "tools_within base tools \<longleftrightarrow>
     (\<forall>n e. map_of base n = Some e \<longrightarrow> (\<exists>e'. map_of tools n = Some e' \<and> tool_within e e'))"
proof
  assume L: "tools_within base tools"
  show "\<forall>n e. map_of base n = Some e \<longrightarrow> (\<exists>e'. map_of tools n = Some e' \<and> tool_within e e')"
  proof (intro allI impI)
    fix n e assume e: "map_of base n = Some e"
    then have "(n, e) \<in> set base" by (rule map_of_SomeD)
    with L have "case (map_of base n, map_of tools n) of (Some e, Some e') \<Rightarrow> tool_within e e' | _ \<Rightarrow> False"
      unfolding tools_within_def by fast
    with e show "\<exists>e'. map_of tools n = Some e' \<and> tool_within e e'"
      by (cases "map_of tools n") simp_all
  qed
next
  assume R: "\<forall>n e. map_of base n = Some e \<longrightarrow> (\<exists>e'. map_of tools n = Some e' \<and> tool_within e e')"
  have "case (map_of base n, map_of tools n) of (Some e, Some e') \<Rightarrow> tool_within e e' | _ \<Rightarrow> False"
    if mem: "(n, v) \<in> set base" for n v
  proof -
    obtain e where e: "map_of base n = Some e"
      using weak_map_of_SomeI[OF mem] by blast
    with R obtain e' where "map_of tools n = Some e'" "tool_within e e'" by blast
    with e show ?thesis by simp
  qed
  then show "tools_within base tools"
    unfolding tools_within_def by blast
qed

lemma tool_within_refl [simp]: "tool_within e e"
  by (simp add: tool_within_def split: option.splits)

lemma tool_within_trans: "tool_within a b \<Longrightarrow> tool_within b c \<Longrightarrow> tool_within a c"
  by (auto simp: tool_within_def split: option.splits)

lemma tools_within_refl [simp]: "tools_within t t"
  by (simp add: tools_within_iff)

lemma tools_within_trans: "tools_within a b \<Longrightarrow> tools_within b c \<Longrightarrow> tools_within a c"
  unfolding tools_within_iff by (meson tool_within_trans)

text \<open>Each step of a tool merge: an empty list of denials was empty before, and the entry stays within.\<close>

lemma merge_side_effecting_ok:
  "\<lbrakk>merge_side_effecting base patch n (m, lg) = (m', lg'); ml_denied lg' = []\<rbrakk>
   \<Longrightarrow> ml_denied lg = [] \<and> (tool_within base m \<longrightarrow> tool_within base m')"
  by (auto simp: merge_side_effecting_def tool_within_def split: option.splits if_splits)

lemma merge_max_spend_ok:
  "\<lbrakk>merge_max_spend base patch n (m, lg) = (m', lg'); ml_denied lg' = []\<rbrakk>
   \<Longrightarrow> ml_denied lg = [] \<and> (tool_within base m \<longrightarrow> tool_within base m')"
  by (auto simp: merge_max_spend_def tool_within_def split: option.splits if_splits)

lemma merge_spend_from_args_ok:
  "\<lbrakk>merge_spend_from_args base patch n (m, lg) = (m', lg'); ml_denied lg' = []\<rbrakk>
   \<Longrightarrow> ml_denied lg = [] \<and> (tool_within base m \<longrightarrow> tool_within base m')"
  by (auto simp: merge_spend_from_args_def tool_within_def split: option.splits if_splits)

lemma merge_preset_ok:
  "\<lbrakk>merge_preset pid base patch n (m, lg) = (m', lg'); ml_denied lg' = []\<rbrakk>
   \<Longrightarrow> ml_denied lg = [] \<and> (tool_within base m \<longrightarrow> tool_within base m')"
  by (auto simp: merge_preset_def tool_within_def split: option.splits if_splits)

lemma merge_vendor_pack_ok:
  "\<lbrakk>merge_vendor_pack patch n (m, lg) = (m', lg'); ml_denied lg' = []\<rbrakk>
   \<Longrightarrow> ml_denied lg = [] \<and> (tool_within base m \<longrightarrow> tool_within base m')"
  by (auto simp: merge_vendor_pack_def tool_within_def split: option.splits if_splits)

lemma merge_operation_ok:
  "\<lbrakk>merge_operation patch n (m, lg) = (m', lg'); ml_denied lg' = []\<rbrakk>
   \<Longrightarrow> ml_denied lg = [] \<and> (tool_within base m \<longrightarrow> tool_within base m')"
  by (auto simp: merge_operation_def tool_within_def split: option.splits if_splits)

lemma check_merged_tool_ok:
  "\<lbrakk>check_merged_tool n (m, lg) = (m', lg'); ml_denied lg' = []\<rbrakk>
   \<Longrightarrow> ml_denied lg = [] \<and> m' = m \<and> (pt_side_effecting m \<longrightarrow> \<not> no_preset m) \<and>
       (pt_max_spend_cents m = None \<or> pt_spend_from_args m = None)"
  by (auto simp: check_merged_tool_def Let_def split: if_splits)

text \<open>An entry the interceptor can run: a preset where it is needed and one spend mode.\<close>

definition runnable_entry :: "policy_tool_entry \<Rightarrow> bool" where
  "runnable_entry e \<longleftrightarrow>
     (pt_side_effecting e \<longrightarrow> \<not> no_preset e) \<and>
     (pt_max_spend_cents e = None \<or> pt_spend_from_args e = None)"

lemma merge_tool_fields_ok:
  assumes "merge_tool_fields pid base patch n lg = (m, lg')" and "ml_denied lg' = []"
  shows "ml_denied lg = [] \<and> tool_within base m \<and> runnable_entry m"
proof -
  obtain m1 l1 where s1: "merge_side_effecting base patch n (base, lg) = (m1, l1)" by fastforce
  obtain m2 l2 where s2: "merge_max_spend base patch n (m1, l1) = (m2, l2)" by fastforce
  obtain m3 l3 where s3: "merge_spend_from_args base patch n (m2, l2) = (m3, l3)" by fastforce
  obtain m4 l4 where s4: "merge_preset pid base patch n (m3, l3) = (m4, l4)" by fastforce
  obtain m5 l5 where s5: "merge_vendor_pack patch n (m4, l4) = (m5, l5)" by fastforce
  obtain m6 l6 where s6: "merge_operation patch n (m5, l5) = (m6, l6)" by fastforce
  have s7: "check_merged_tool n (m6, l6) = (m, lg')"
    using assms(1) by (simp add: merge_tool_fields_def s1 s2 s3 s4 s5 s6)
  note c7 = check_merged_tool_ok[OF s7 assms(2)]
  note c6 = merge_operation_ok[OF s6 conjunct1[OF c7]]
  note c5 = merge_vendor_pack_ok[OF s5 conjunct1[OF c6]]
  note c4 = merge_preset_ok[OF s4 conjunct1[OF c5]]
  note c3 = merge_spend_from_args_ok[OF s3 conjunct1[OF c4]]
  note c2 = merge_max_spend_ok[OF s2 conjunct1[OF c3]]
  note c1 = merge_side_effecting_ok[OF s1 conjunct1[OF c2]]
  have "tool_within base m6"
    using c1 c2 c3 c4 c5 c6 by simp
  then show ?thesis using c7 c1 by (simp add: runnable_entry_def)
qed

lemma apply_tool_override_ok:
  assumes "apply_tool_override pid p (tools, lg) = (tools', lg')" and "ml_denied lg' = []"
  shows "ml_denied lg = [] \<and> tools_within tools tools' \<and> keys tools' = keys tools \<and>
    (\<exists>m. map_of tools (fst p) \<noteq> None \<and> map_of tools' = (map_of tools)(fst p \<mapsto> m) \<and> runnable_entry m)"
proof -
  obtain n patch where p: "p = (n, patch)" by (cases p)
  show ?thesis
  proof (cases "map_of tools n")
    case None
    then show ?thesis using assms by (auto simp: apply_tool_override_def p)
  next
    case (Some e)
    obtain m lm where m: "merge_tool_fields pid e patch n lg = (m, lm)" by fastforce
    have eq: "tools' = AList.update n m tools" "lg' = lm"
      using assms(1) by (auto simp: apply_tool_override_def p Some m)
    note ok = merge_tool_fields_ok[OF m] assms(2) eq
    have "tools_within tools tools'"
      using ok Some by (auto simp: tools_within_iff update_conv')
    moreover have "n \<in> set (keys tools)"
      using Some by (metis domI dom_map_of_conv_image_fst list.set_map)
    then have "keys tools' = keys tools"
      by (simp add: eq(1) update_keys)
    ultimately show ?thesis using ok Some p by (auto simp: update_conv')
  qed
qed

lemma fold_tool_overrides_ok:
  "\<lbrakk>fold (apply_tool_override pid) ps (tools, lg) = (tools', lg'); ml_denied lg' = []\<rbrakk>
   \<Longrightarrow> ml_denied lg = [] \<and> tools_within tools tools' \<and> keys tools' = keys tools \<and>
       set (keys ps) \<subseteq> set (keys tools)"
proof (induction ps arbitrary: tools lg)
  case Nil
  then show ?case by simp
next
  case (Cons p ps)
  obtain t1 l1 where s1: "apply_tool_override pid p (tools, lg) = (t1, l1)" by fastforce
  have s2: "fold (apply_tool_override pid) ps (t1, l1) = (tools', lg')"
    using Cons.prems(1) by (simp add: s1)
  note i2 = Cons.IH[OF s2 Cons.prems(2)]
  note i1 = apply_tool_override_ok[OF s1 conjunct1[OF i2]]
  have "fst p \<in> set (keys tools)"
    using i1 by (auto simp: map_of_eq_None_iff)
  with i1 i2 show ?case by (auto intro: tools_within_trans)
qed

lemma append_tenant_tool_ok:
  "\<lbrakk>append_tenant_tool p (tools, lg) = (tools', lg'); ml_denied lg' = []\<rbrakk>
   \<Longrightarrow> ml_denied lg = [] \<and> tools' = tools @ [p] \<and> fst p \<notin> set (keys tools)"
  by (auto simp: append_tenant_tool_def update_new map_of_eq_None_iff image_iff split: prod.splits if_splits)

lemma fold_append_tenant_tools_ok:
  "\<lbrakk>fold append_tenant_tool ps (tools, lg) = (tools', lg'); ml_denied lg' = []\<rbrakk>
   \<Longrightarrow> ml_denied lg = [] \<and> tools' = tools @ ps \<and> set (keys tools) \<inter> set (keys ps) = {}"
proof (induction ps arbitrary: tools lg)
  case Nil
  then show ?case by simp
next
  case (Cons p ps)
  obtain t1 l1 where s1: "append_tenant_tool p (tools, lg) = (t1, l1)" by fastforce
  have s2: "fold append_tenant_tool ps (t1, l1) = (tools', lg')"
    using Cons.prems(1) by (simp add: s1)
  note i2 = Cons.IH[OF s2 Cons.prems(2)]
  note i1 = append_tenant_tool_ok[OF s1 conjunct1[OF i2]]
  from i1 i2 show ?case by auto
qed

lemma merge_tools_ok:
  assumes "merge_tools pid base overlay lg = (tools, lg')" and "ml_denied lg' = []"
  shows "ml_denied lg = [] \<and> tools_within base tools \<and>
    keys tools = keys base @ keys (d2_tools overlay) \<and>
    set (keys (overlay_tool_overrides overlay)) \<subseteq> set (keys base) \<and>
    set (keys base) \<inter> set (keys (d2_tools overlay)) = {}"
proof -
  obtain t1 l1 where s1:
    "fold (apply_tool_override pid) (overlay_tool_overrides overlay) (base, lg) = (t1, l1)" by fastforce
  have s2: "fold append_tenant_tool (d2_tools overlay) (t1, l1) = (tools, lg')"
    using assms(1) by (simp add: merge_tools_def s1)
  note i2 = fold_append_tenant_tools_ok[OF s2 assms(2)]
  note i1 = fold_tool_overrides_ok[OF s1 conjunct1[OF i2]]
  have "tools_within t1 tools"
    using i2 by (auto simp: tools_within_iff map_add_def intro: exI split: option.splits)
  with i1 i2 show ?thesis by (auto intro: tools_within_trans)
qed

text \<open>The intent section keeps the allow list, the template, its version and its digest.\<close>

definition allowed_within :: "intent_section option \<Rightarrow> intent_section option \<Rightarrow> bool" where
  "allowed_within base eff \<longleftrightarrow> (case base of
       None \<Rightarrow> True
     | Some i \<Rightarrow> is_allowed_tools i = [] \<or>
         (case eff of None \<Rightarrow> False
          | Some j \<Rightarrow> is_allowed_tools j \<noteq> [] \<and> set (is_allowed_tools j) \<subseteq> set (is_allowed_tools i)))"

definition binding_within :: "policy_binding \<Rightarrow> policy_binding \<Rightarrow> bool" where
  "binding_within b c \<longleftrightarrow>
     pb_template_id c = pb_template_id b \<and>
     (case pb_version_seq b of None \<Rightarrow> True
      | Some v \<Rightarrow> (case pb_version_seq c of None \<Rightarrow> False | Some w \<Rightarrow> v \<le> w)) \<and>
     (case pb_head_digest b of None \<Rightarrow> True | Some h \<Rightarrow> h = [] \<or> pb_head_digest c = Some h)"

definition template_within :: "intent_section option \<Rightarrow> intent_section option \<Rightarrow> bool" where
  "template_within base eff \<longleftrightarrow> (case Option.bind base is_policy_binding of
       None \<Rightarrow> True
     | Some b \<Rightarrow> pb_template_id b = [] \<or>
         (case Option.bind eff is_policy_binding of None \<Rightarrow> False | Some c \<Rightarrow> binding_within b c))"

lemma binding_within_refl [simp]: "binding_within b b"
  by (simp add: binding_within_def split: option.splits)

lemma template_within_refl [simp]: "template_within i i"
  by (simp add: template_within_def split: option.splits)

lemma template_within_allowed [simp]:
  "template_within (Some i) (Some (i\<lparr>is_allowed_tools := t\<rparr>))"
  by (simp add: template_within_def split: option.splits)

lemma first_nonempty_nonempty: "first_nonempty xs = Some t \<Longrightarrow> t \<noteq> []"
  by (induction xs rule: first_nonempty.induct) auto

lemma first_nonempty_same:
  assumes "b \<noteq> []" and "\<forall>t. x = Some t \<longrightarrow> t = b"
  shows "first_nonempty [x, Some b] = Some b"
  using assms by (cases b; cases x) auto

lemma check_template_ok:
  "ml_denied (check_template base t lg) = [] \<Longrightarrow>
     ml_denied lg = [] \<and> (case base of None \<Rightarrow> True | Some b \<Rightarrow> t = None \<or> t = Some (pb_template_id b))"
  by (auto simp: check_template_def split: option.splits if_splits)

lemma check_version_ok:
  "ml_denied (check_version base ov v lg) = [] \<Longrightarrow>
     ml_denied lg = [] \<and>
     (case (v, Option.bind base pb_version_seq) of (Some v, Some bv) \<Rightarrow> bv \<le> v | _ \<Rightarrow> True)"
  by (auto simp: check_version_def not_less split: option.splits if_splits)

lemma check_head_digest_ok:
  "ml_denied (check_head_digest base ov h lg) = [] \<Longrightarrow>
     ml_denied lg = [] \<and>
     (case (h, Option.bind base pb_head_digest) of (Some h, Some bh) \<Rightarrow> bh = [] \<or> h = bh | _ \<Rightarrow> True)"
  by (auto simp: check_head_digest_def split: option.splits if_splits)

lemma merge_policy_binding_denied:
  "merge_policy_binding base overlay override lg = (r, lg') \<Longrightarrow> ml_denied lg' = [] \<Longrightarrow> ml_denied lg = []"
  by (auto simp: merge_policy_binding_def Let_def split: option.splits
      dest!: check_head_digest_ok check_version_ok check_template_ok)

lemma first_some_Some: "x \<noteq> None \<Longrightarrow> \<exists>y. first_some [a, b, x] = Some y"
  by (cases a; cases b) auto

lemma merge_policy_binding_ok:
  assumes m: "merge_policy_binding (Some b) overlay override lg = (r, lg')"
    and d: "ml_denied lg' = []" and t: "pb_template_id b \<noteq> []"
  shows "\<exists>c. r = Some c \<and> binding_within b c"
proof -
  define ot where "ot = first_nonempty [Option.bind override bo_template_id, map_option pb_template_id overlay]"
  define vs where "vs = first_some [Option.bind override bo_version_seq, Option.bind overlay pb_version_seq, pb_version_seq b]"
  define dg where "dg = first_some [Option.bind override bo_head_digest, Option.bind overlay pb_head_digest, pb_head_digest b]"
  have "\<exists>t'. first_nonempty [ot, Some (pb_template_id b)] = Some t'"
    using t by (cases ot; cases "the ot"; cases "pb_template_id b") auto
  then obtain t' where t': "first_nonempty [ot, Some (pb_template_id b)] = Some t'" ..
  have r: "r = Some \<lparr>pb_template_id = t', pb_version_seq = vs, pb_head_digest = dg\<rparr>"
    and l: "lg' = check_head_digest (Some b) override dg (check_version (Some b) override vs
                    (check_template (Some b) ot lg))"
    using m t' by (auto simp: merge_policy_binding_def Let_def ot_def vs_def dg_def)
  note c1 = check_head_digest_ok[OF d[unfolded l]]
  note c2 = check_version_ok[OF conjunct1[OF c1]]
  note c3 = check_template_ok[OF conjunct1[OF c2]]
  have "t' = pb_template_id b"
    using t' first_nonempty_same[OF t, of ot] c3 by auto
  moreover have "\<exists>w. vs = Some w \<and> v \<le> w" if "pb_version_seq b = Some v" for v
    using first_some_Some[of "pb_version_seq b"] c2 that by (fastforce simp: vs_def)
  moreover have "\<exists>y. dg = Some y" if "pb_head_digest b = Some h" for h
    using first_some_Some[of "pb_head_digest b"] that by (auto simp: dg_def)
  then have "case pb_head_digest b of None \<Rightarrow> True | Some h \<Rightarrow> h = [] \<or> dg = Some h"
    using c1 by (auto split: option.splits)
  ultimately show ?thesis
    by (auto simp: r binding_within_def split: option.splits)
qed

lemma merge_budget_denied:
  "merge_budget base overlay override lg = (r, lg') \<Longrightarrow> ml_denied lg' = [] \<Longrightarrow> ml_denied lg = []"
  by (auto simp: merge_budget_def Let_def split: option.splits if_splits)

lemma intersect_allowed_tools_ok:
  assumes "intersect_allowed_tools org tenant lg = (r, lg')" and "ml_denied lg' = []"
  shows "ml_denied lg = [] \<and>
    (\<forall>a. org = Some a \<and> a \<noteq> [] \<longrightarrow> (\<exists>t. r = Some t \<and> t \<noteq> [] \<and> set t \<subseteq> set a))"
  using assms by (auto simp: intersect_allowed_tools_def Let_def filter_empty_conv split: if_splits)

lemma merge_intent_denied:
  assumes "merge_intent base overlay lg = (r, lg')" and "ml_denied lg' = []"
  shows "ml_denied lg = []"
proof -
  obtain al l1 where s1: "intersect_allowed_tools (map_option is_allowed_tools base)
      (tenant_allowed_tools overlay) lg = (al, l1)" by fastforce
  obtain pb l2 where s2: "merge_policy_binding (Option.bind base is_policy_binding)
      (Option.bind (d2_intent overlay) is_policy_binding)
      (Option.bind (override_intent overlay) io_policy_binding) l1 = (pb, l2)" by fastforce
  obtain bu l3 where s3: "merge_budget (Option.bind base is_budget)
      (Option.bind (d2_intent overlay) is_budget)
      (Option.bind (override_intent overlay) io_budget) l2 = (bu, l3)" by fastforce
  have "lg' = l1 \<or> lg' = l3"
    using assms(1) by (auto simp: merge_intent_def s1 s2 s3 Let_def split: if_splits option.splits)
  then have "ml_denied l1 = []"
    using assms(2) merge_budget_denied[OF s3] merge_policy_binding_denied[OF s2] by auto
  then show ?thesis using intersect_allowed_tools_ok[OF s1] by simp
qed

lemma merge_intent_ok:
  assumes m: "merge_intent base overlay lg = (r, lg')" and d: "ml_denied lg' = []"
  shows "allowed_within base r \<and> template_within base r"
proof -
  obtain al l1 where s1: "intersect_allowed_tools (map_option is_allowed_tools base)
      (tenant_allowed_tools overlay) lg = (al, l1)" by fastforce
  obtain pb l2 where s2: "merge_policy_binding (Option.bind base is_policy_binding)
      (Option.bind (d2_intent overlay) is_policy_binding)
      (Option.bind (override_intent overlay) io_policy_binding) l1 = (pb, l2)" by fastforce
  obtain bu l3 where s3: "merge_budget (Option.bind base is_budget)
      (Option.bind (d2_intent overlay) is_budget)
      (Option.bind (override_intent overlay) io_budget) l2 = (bu, l3)" by fastforce
  define plain where "plain \<longleftrightarrow> d2_intent overlay = None \<and> override_intent overlay = None"
  have "lg' = (if plain then l1 else l3)"
    using m by (auto simp: plain_def merge_intent_def s1 s2 s3 Let_def split: if_splits option.splits)
  then have d1: "ml_denied l1 = []" and d2: "\<not> plain \<Longrightarrow> ml_denied l2 = []"
    using d merge_budget_denied[OF s3] merge_policy_binding_denied[OF s2] by (auto split: if_splits)
  note al = intersect_allowed_tools_ok[OF s1 d1]
  show ?thesis
  proof (cases plain)
    case True
    show ?thesis
    proof (cases base)
      case None
      then show ?thesis by (simp add: allowed_within_def template_within_def)
    next
      case (Some i)
      then have "r = Some (i\<lparr>is_allowed_tools := (case al of Some t \<Rightarrow> t | None \<Rightarrow> is_allowed_tools i)\<rparr>)"
        using m True s1 by (simp add: merge_intent_def plain_def)
      then show ?thesis using al by (auto simp: Some allowed_within_def)
    qed
  next
    case False
    have pb: "pb_template_id b = [] \<or> (\<exists>c. pb = Some c \<and> binding_within b c)"
      if "Option.bind base is_policy_binding = Some b" for b
      using merge_policy_binding_ok[OF s2[unfolded that(1)] d2[OF False]] by blast
    have m': "(if pb \<noteq> None \<or> bu \<noteq> None \<or> (case al of Some t \<Rightarrow> t | None \<Rightarrow> []) \<noteq> []
       then (Some \<lparr>is_policy_binding = pb, is_budget = bu,
               is_allowed_tools = (case al of Some t \<Rightarrow> t | None \<Rightarrow> [])\<rparr>, l3)
       else (base, l3)) = (r, lg')"
      using m False unfolding merge_intent_def s1 plain_def by (simp only: s2 s3 Let_def prod.case if_False)
    show ?thesis
    proof (cases "pb \<noteq> None \<or> bu \<noteq> None \<or> (case al of Some t \<Rightarrow> t | None \<Rightarrow> []) \<noteq> []")
      case True
      then have r: "r = Some \<lparr>is_policy_binding = pb, is_budget = bu,
          is_allowed_tools = (case al of Some t \<Rightarrow> t | None \<Rightarrow> [])\<rparr>"
        using m' by (simp only: if_True prod.inject)
      show ?thesis
        using al pb by (auto simp: r allowed_within_def template_within_def split: option.splits)
    next
      case False
      then have "r = base"
        using m' by (simp only: if_False prod.inject)
      then show ?thesis by (auto simp: allowed_within_def split: option.splits)
    qed
  qed
qed

lemma merge_default_deny_ok:
  "merge_default_deny b overlay lg = (dd, lg') \<Longrightarrow> ml_denied lg' = ml_denied lg \<and> (b \<longrightarrow> dd)"
  by (auto simp: merge_default_deny_def merge_stricter_default_deny_def split: option.splits)

lemma merge_adapter_section_ok:
  assumes m: "merge_adapter_section base overlay override lg = (r, lg')" and d: "ml_denied lg' = []"
  shows "ml_denied lg = [] \<and> (adapter_value base = Some True \<longrightarrow> adapter_value r = Some True)"
proof (cases "adapter_value base = None \<and> adapter_value overlay = None \<and> adapter_value override = None")
  case True
  then show ?thesis using m d by (simp add: merge_adapter_section_def)
next
  case False
  define l1 where "l1 = (if adapter_value base = Some True \<and>
                         (adapter_value overlay = Some False \<or> adapter_value override = Some False)
                      then deny ''adapter.deny_provider_executed_tools''
                             ''policy.cannot_relax_provider_executed_deny''
                             ''tenant cannot disable org-required deny_provider_executed_tools'' lg
                      else lg)"
  from False m have r: "r = Some \<lparr>ad_deny_provider_executed_tools =
       Some (merge_stricter_default_deny (List.map (\<lambda>v. v = Some True)
         [adapter_value base, adapter_value overlay, adapter_value override]))\<rparr>"
    and l: "lg' = (if adapter_value override \<noteq> None
                   then applied ''overrides.adapter.deny_provider_executed_tools'' l1 else l1)"
    unfolding merge_adapter_section_def Let_def l1_def by auto
  have "ml_denied l1 = []" using d l by (simp split: if_splits)
  then have "ml_denied lg = []" by (simp add: l1_def split: if_splits)
  then show ?thesis
    by (simp add: r adapter_value_def merge_stricter_default_deny_def)
qed

lemma check_preset_ok:
  "ml_denied (check_preset ps bt p lg) = [] \<Longrightarrow> ml_denied lg = [] \<and> preset_approved ps bt p"
  by (simp add: check_preset_def split: if_splits)

lemma fold_check_preset_ok:
  "ml_denied (fold (check_preset ps bt) ts lg) = [] \<Longrightarrow>
     ml_denied lg = [] \<and> list_all (preset_approved ps bt) ts"
proof (induction ts arbitrary: lg)
  case Nil
  then show ?case by simp
next
  case (Cons t ts)
  have "ml_denied (fold (check_preset ps bt) ts (check_preset ps bt t lg)) = []"
    using Cons.prems by simp
  note i = Cons.IH[OF this]
  show ?case using i check_preset_ok[OF conjunct1[OF i]] by simp
qed

lemma check_presets_ok:
  "ml_denied (check_presets approved bt tools lg) = [] \<Longrightarrow> ml_denied lg = [] \<and>
    (\<forall>ps. approved = Some ps \<and> ps \<noteq> [] \<longrightarrow> list_all (preset_approved ps bt) tools)"
  using fold_check_preset_ok[of _ bt tools lg]
  by (simp add: check_presets_def split: option.splits if_splits)

text \<open>The contract of the merge: the effective document grants nothing the org document withholds.\<close>

definition policy_within :: "document_v1 \<Rightarrow> document_v1 \<Rightarrow> bool" where
  "policy_within base eff \<longleftrightarrow>
     (d1_default_deny base \<longrightarrow> d1_default_deny eff) \<and>
     tools_within (d1_tools base) (d1_tools eff) \<and>
     allowed_within (d1_intent base) (d1_intent eff) \<and>
     template_within (d1_intent base) (d1_intent eff) \<and>
     (adapter_value (d1_adapter base) = Some True \<longrightarrow> adapter_value (d1_adapter eff) = Some True)"

lemma merge_paybond_policies_cases:
  assumes "merge_paybond_policies base overlay approved = Inr r"
  obtains extends dd l1 tools l2 i l3 a l4 where
    "d2_extends overlay = Some extends"
    "merge_default_deny (d1_default_deny (base_document_to_effective_v1 base)) overlay
       \<lparr>ml_denied = [], ml_applied = []\<rparr> = (dd, l1)"
    "merge_tools (Some (px_org_policy_id extends)) (d1_tools (base_document_to_effective_v1 base))
       overlay l1 = (tools, l2)"
    "merge_intent (d1_intent (base_document_to_effective_v1 base)) overlay l2 = (i, l3)"
    "merge_adapter_section (d1_adapter (base_document_to_effective_v1 base)) (d2_adapter overlay)
       (Option.bind (d2_overrides overlay) ov_adapter) l3 = (a, l4)"
    "ml_denied (check_presets approved (d1_tools (base_document_to_effective_v1 base)) tools l4) = []"
    "mg_effective r = \<lparr>d1_name = d2_name overlay, d1_default_deny = dd, d1_tools = tools,
                       d1_intent = i, d1_adapter = a\<rparr>"
    "mr_denied_widenings (mg_report r) = []"
  using assms unfolding merge_paybond_policies_def
  by (auto simp: Let_def split: option.splits prod.splits if_splits)

lemma merge_paybond_policies_within:
  assumes "merge_paybond_policies base overlay approved = Inr r"
  shows "policy_within (base_document_to_effective_v1 base) (mg_effective r)"
    and "keys (d1_tools (mg_effective r)) =
           keys (d1_tools (base_document_to_effective_v1 base)) @ keys (d2_tools overlay)"
proof -
  obtain x dd l1 tools l2 i l3 a l4 where "d2_extends overlay = Some x" and
    s1: "merge_default_deny (d1_default_deny (base_document_to_effective_v1 base)) overlay
       \<lparr>ml_denied = [], ml_applied = []\<rparr> = (dd, l1)" and
    s2: "merge_tools (Some (px_org_policy_id x)) (d1_tools (base_document_to_effective_v1 base))
       overlay l1 = (tools, l2)" and
    s3: "merge_intent (d1_intent (base_document_to_effective_v1 base)) overlay l2 = (i, l3)" and
    s4: "merge_adapter_section (d1_adapter (base_document_to_effective_v1 base)) (d2_adapter overlay)
       (Option.bind (d2_overrides overlay) ov_adapter) l3 = (a, l4)" and
    s5: "ml_denied (check_presets approved (d1_tools (base_document_to_effective_v1 base)) tools l4) = []" and
    e: "mg_effective r = \<lparr>d1_name = d2_name overlay, d1_default_deny = dd, d1_tools = tools,
                       d1_intent = i, d1_adapter = a\<rparr>" and "mr_denied_widenings (mg_report r) = []"
    using assms by (rule merge_paybond_policies_cases)
  note c5 = check_presets_ok[OF s5]
  note c4 = merge_adapter_section_ok[OF s4 conjunct1[OF c5]]
  note c3 = merge_intent_ok[OF s3 conjunct1[OF c4]] merge_intent_denied[OF s3 conjunct1[OF c4]]
  note c2 = merge_tools_ok[OF s2 c3(2)]
  note c1 = merge_default_deny_ok[OF s1]
  show "policy_within (base_document_to_effective_v1 base) (mg_effective r)"
    using c1 c2 c3 c4 by (simp add: policy_within_def e)
  show "keys (d1_tools (mg_effective r)) =
           keys (d1_tools (base_document_to_effective_v1 base)) @ keys (d2_tools overlay)"
    using c2 by (simp add: e)
qed

section \<open>Budgets\<close>

text \<open>A budget as the parser admits it: distinct keys, and a number under \<open>max_spend_usd\<close>.\<close>

definition budget_wf :: "budget \<Rightarrow> bool" where
  "budget_wf b \<longleftrightarrow> wf_dict b \<and>
     (case map_of b ''max_spend_usd'' of None \<Rightarrow> True | Some v \<Rightarrow> json_number v \<noteq> None)"

text \<open>
  The override hides the overlay: it sets no \<open>max_spend_usd\<close> itself, so the check looks at it
  and not at the overlay, whose \<open>max_spend_usd\<close> is nevertheless merged.
\<close>

definition hides_overlay_cap :: "budget option \<Rightarrow> budget option \<Rightarrow> bool" where
  "hides_overlay_cap overlay override \<longleftrightarrow>
     opt_dict override \<noteq> [] \<and> map_of (opt_dict override) ''max_spend_usd'' = None \<and>
     map_of (opt_dict overlay) ''max_spend_usd'' \<noteq> None"

lemma merge_budget_within:
  assumes m: "merge_budget base overlay override lg = (r, lg')" and d: "ml_denied lg' = []"
    and wf: "budget_wf (opt_dict base)" "budget_wf (opt_dict overlay)" "budget_wf (opt_dict override)"
    and cap: "budget_max (opt_dict base) = Some q"
    and vis: "\<not> hides_overlay_cap overlay override"
  shows "\<exists>q'. budget_max (opt_dict r) = Some q' \<and> q' \<le> q"
proof -
  let ?k = "''max_spend_usd''"
  define merged where "merged =
    dict_update (dict_update (dict_update [] (opt_dict base)) (opt_dict overlay)) (opt_dict override)"
  have look: "map_of merged ?k = (case map_of (opt_dict override) ?k of Some v \<Rightarrow> Some v
      | None \<Rightarrow> (case map_of (opt_dict overlay) ?k of Some v \<Rightarrow> Some v | None \<Rightarrow> map_of (opt_dict base) ?k))"
    using wf by (simp add: merged_def dict_update_lookup map_of_rev_wf budget_wf_def map_add_def
        split: option.splits)
  have ne: "merged \<noteq> []" using look cap by (auto simp: budget_max_def split: option.splits)
  have r: "r = Some merged" using m ne unfolding merge_budget_def merged_def Let_def by auto
  have le: "t \<le> q" if "budget_max (tenant_budget overlay override) = Some t" for t
    using m ne d that cap unfolding merge_budget_def merged_def[symmetric] Let_def
    by (auto split: if_splits)
  have tb: "map_of (tenant_budget overlay override) ?k = (case map_of (opt_dict override) ?k of Some v \<Rightarrow> Some v
      | None \<Rightarrow> map_of (opt_dict overlay) ?k)"
    using vis by (auto simp: tenant_budget_def hides_overlay_cap_def split: option.splits)
  have wf': "budget_wf (tenant_budget overlay override)"
    using wf by (simp add: tenant_budget_def)
  show ?thesis
  proof (cases "map_of (tenant_budget overlay override) ?k")
    case None
    then have "map_of merged ?k = map_of (opt_dict base) ?k"
      using tb look by (auto split: option.splits)
    then show ?thesis using cap by (simp add: r opt_dict_def budget_max_def)
  next
    case (Some v)
    then obtain t where t: "json_number v = Some t" using wf' by (auto simp: budget_wf_def)
    then have "t \<le> q" using le Some by (simp add: budget_max_def)
    moreover have "map_of merged ?k = Some v" using Some tb look by (auto split: option.splits)
    ultimately show ?thesis using t by (simp add: r opt_dict_def budget_max_def)
  qed
qed

end
