(* ===== verification/Completion.thy ===== *)
theory Completion
  imports Kit_Errors
begin

text \<open>
  Completion presets and the evidence built from a tool result: \<open>completion_catalog.py\<close>,
  \<open>completion_resolve.py\<close>, the Stripe webhook guard of \<open>stripe_commerce/evidence.py\<close> and
  \<open>agent/evidence.py\<close>.  The catalog is the decoded data file, an argument of the functions.
\<close>

section \<open>Catalog\<close>

record completion_preset =
  cp_preset_id :: string
  cp_kind :: "string option"
  cp_archetype_preset_id :: "string option"
  cp_harbor_template_id :: string
  cp_parameters :: "(string, json) dict"
  cp_evidence_schema :: json
  cp_sample_evidence :: "(string, json) dict"
  cp_evidence_field_map :: "(string, string) dict"
  cp_vendor_evidence_schema :: "json option"
  cp_vendor_contract :: "json option"
  cp_forbidden_evidence_fields :: "json option"
  cp_deprecated :: bool
  cp_superseded_by :: "string option"

type_synonym catalog = "completion_preset list"

fun get_completion_preset :: "catalog \<Rightarrow> string \<Rightarrow> exn + completion_preset" where
  "get_completion_preset [] preset_id = Inl (ValueError (''unknown completion preset: '' @ preset_id))"
| "get_completion_preset (p # ps) preset_id =
     (if cp_preset_id p = preset_id then Inr p else get_completion_preset ps preset_id)"

definition list_completion_preset_ids :: "catalog \<Rightarrow> string list" where
  "list_completion_preset_ids cat = List.map cp_preset_id cat"

definition list_completion_presets_by_template_id :: "catalog \<Rightarrow> string \<Rightarrow> completion_preset list" where
  "list_completion_presets_by_template_id cat tid = filter (\<lambda>p. cp_harbor_template_id p = tid) cat"

definition get_completion_preset_by_template_id :: "catalog \<Rightarrow> string \<Rightarrow> completion_preset option" where
  "get_completion_preset_by_template_id cat tid =
     (let matches = filter (\<lambda>p. cp_harbor_template_id p = tid) cat in
      if matches = [] then None
      else (case find (\<lambda>p. cp_kind p \<noteq> Some ''vendor_pack'') matches of
          Some p \<Rightarrow> Some p
        | None \<Rightarrow> Some (hd matches)))"

lemma get_completion_preset_Inr:
  "get_completion_preset cat i = Inr p \<Longrightarrow> p \<in> set cat \<and> cp_preset_id p = i"
  by (induction cat i rule: get_completion_preset.induct) (auto split: if_splits)

lemma get_completion_preset_known:
  "(\<exists>p. get_completion_preset cat i = Inr p) \<longleftrightarrow> i \<in> set (list_completion_preset_ids cat)"
  by (induction cat i rule: get_completion_preset.induct) (auto simp: list_completion_preset_ids_def)

section \<open>Resolution\<close>

datatype preset_kind = Archetype | Vendor_Pack

definition preset_kind :: "completion_preset \<Rightarrow> preset_kind" where
  "preset_kind p = (if cp_kind p = Some ''vendor_pack'' then Vendor_Pack else Archetype)"

definition is_vendor_pack :: "completion_preset \<Rightarrow> bool" where
  "is_vendor_pack p \<longleftrightarrow> preset_kind p = Vendor_Pack"

record resolved_preset =
  rp_preset :: completion_preset
  rp_archetype :: completion_preset
  rp_kind :: preset_kind
  rp_harbor_template_id :: string
  rp_parameters :: "(string, json) dict"
  rp_evidence_schema :: json

text \<open>\<open>{**a, **b}\<close>\<close>

definition dict_merge :: "('k, 'v) dict \<Rightarrow> ('k, 'v) dict \<Rightarrow> ('k, 'v) dict" where
  "dict_merge a b = fold (\<lambda>(k, v). AList.update k v) b a"

definition resolve_completion_preset :: "catalog \<Rightarrow> string \<Rightarrow> exn + resolved_preset" where
  "resolve_completion_preset cat preset_id =
     rbind (get_completion_preset cat preset_id) (\<lambda>preset.
       if \<not> is_vendor_pack preset then
         Inr \<lparr>rp_preset = preset, rp_archetype = preset, rp_kind = Archetype,
              rp_harbor_template_id = cp_harbor_template_id preset,
              rp_parameters = cp_parameters preset,
              rp_evidence_schema = cp_evidence_schema preset\<rparr>
       else (case cp_archetype_preset_id preset of
           None \<Rightarrow> Inl (ValueError (''vendor pack '' @ preset_id @ '' missing archetype_preset_id''))
         | Some [] \<Rightarrow> Inl (ValueError (''vendor pack '' @ preset_id @ '' missing archetype_preset_id''))
         | Some a \<Rightarrow>
             rbind (get_completion_preset cat a) (\<lambda>archetype.
               Inr \<lparr>rp_preset = preset, rp_archetype = archetype, rp_kind = Vendor_Pack,
                    rp_harbor_template_id = cp_harbor_template_id archetype,
                    rp_parameters = dict_merge (cp_parameters archetype) (cp_parameters preset),
                    rp_evidence_schema = cp_evidence_schema preset\<rparr>)))"

definition map_vendor_evidence_to_canonical ::
  "completion_preset \<Rightarrow> (string, json) dict \<Rightarrow> (string, json) dict" where
  "map_vendor_evidence_to_canonical preset vendor_evidence =
     fold (\<lambda>(vendor_key, value) out.
         let canonical_key = (case map_of (cp_evidence_field_map preset) vendor_key of
                                Some k \<Rightarrow> k | None \<Rightarrow> vendor_key)
         in AList.update canonical_key
              (if canonical_key = ''artifact_blake3_hex'' \<and> (case value of JArr _ \<Rightarrow> False | _ \<Rightarrow> True)
               then JArr [value] else value) out)
       vendor_evidence []"

definition completion_preset_deprecation_warning :: "catalog \<Rightarrow> string \<Rightarrow> exn + string option" where
  "completion_preset_deprecation_warning cat preset_id =
     rbind (get_completion_preset cat preset_id) (\<lambda>p.
       if \<not> cp_deprecated p then Inr None
       else Inr (Some (''completion preset '' @ preset_id @ '' is deprecated; use '' @
              str_or (cp_superseded_by p) ''a newer preset'' @ '' instead'')))"

definition list_archetype_preset_ids :: "catalog \<Rightarrow> string list" where
  "list_archetype_preset_ids cat = List.map cp_preset_id (filter (\<lambda>p. \<not> is_vendor_pack p) cat)"

section \<open>Stripe funding webhooks\<close>

definition STRIPE_FUNDING_EVENT_TYPES :: "string list" where
  "STRIPE_FUNDING_EVENT_TYPES =
     [''payment_intent.succeeded'', ''payment_intent.payment_failed'', ''payment_intent.canceled'',
      ''payment_intent.processing'', ''payment_intent.requires_action'',
      ''payment_intent.amount_capturable_updated'', ''charge.succeeded'', ''charge.failed'',
      ''charge.pending'', ''charge.refunded'', ''charge.updated'', ''charge.dispute.created'',
      ''charge.dispute.closed'']"

definition STRIPE_FUNDING_EVENT_PREFIXES :: "string list" where
  "STRIPE_FUNDING_EVENT_PREFIXES = [''payment_intent.'', ''charge.'', ''payout.'', ''mandate.'']"

fun read_string :: "(string, json) dict \<Rightarrow> string list \<Rightarrow> string option" where
  "read_string d [] = None"
| "read_string d (k # ks) =
     (case map_of d k of
        Some (JStr s) \<Rightarrow> if strip s = [] then read_string d ks else Some (strip s)
      | _ \<Rightarrow> read_string d ks)"

definition is_stripe_funding_event_type :: "string \<Rightarrow> bool" where
  "is_stripe_funding_event_type t \<longleftrightarrow>
     t \<in> set STRIPE_FUNDING_EVENT_TYPES \<or> list_ex (startswith t) STRIPE_FUNDING_EVENT_PREFIXES"

definition assert_not_stripe_funding_webhook :: "(string, json) dict \<Rightarrow> exn + unit" where
  "assert_not_stripe_funding_webhook d =
     (let event_type = read_string d [''type'', ''event_type'', ''eventType''];
          event_id = read_string d [''id''];
          is_event = ValueError ''Stripe event webhooks are funding signals, not tool-completion evidence''
      in rbind (ensure (read_string d [''object''] \<noteq> Some ''event'') is_event) (\<lambda>_.
         rbind (case event_type of
                  Some t \<Rightarrow> ensure (\<not> is_stripe_funding_event_type t)
                             (ValueError (t @ '' webhooks are funding signals, not tool-completion evidence''))
                | None \<Rightarrow> Inr ()) (\<lambda>_.
         rbind (ensure (\<not> ((case event_id of Some i \<Rightarrow> startswith i ''evt_'' | None \<Rightarrow> False)
                           \<and> event_type \<noteq> None)) is_event) (\<lambda>_.
         rbind (case map_of d ''data'' of
                  Some (JObj data) \<Rightarrow>
                    (case map_of data ''object'' of
                       Some (JObj obj) \<Rightarrow> ensure (obj = [])
                         (ValueError (''Stripe webhook data.object envelopes are funding signals, '' @
                                      ''not tool-completion evidence''))
                     | _ \<Rightarrow> Inr ())
                | _ \<Rightarrow> Inr ()) (\<lambda>_.
         ensure (\<not> (''pending_webhooks'' \<in> set (keys d) \<and> event_type \<noteq> None)) is_event)))))"

section \<open>Evidence payloads\<close>

record tool_call_context =
  tc_tool_name :: string
  tc_tool_call_id :: string
  tc_operation :: string
  tc_arguments :: json

definition assert_tool_result_not_funding_webhook :: "json \<Rightarrow> exn + unit" where
  "assert_tool_result_not_funding_webhook j = (case j of
       JObj d \<Rightarrow> assert_not_stripe_funding_webhook d
     | _ \<Rightarrow> Inr ())"

text \<open>
  \<open>mapper\<close> is the entry's \<open>evidence_mapper\<close>, host code that returns a JSON value or raises.
\<close>

definition build_auto_evidence_payload ::
  "catalog \<Rightarrow> string \<Rightarrow> (json \<Rightarrow> tool_call_context \<Rightarrow> exn + json) option \<Rightarrow> json \<Rightarrow>
   tool_call_context \<Rightarrow> exn + (string, json) dict" where
  "build_auto_evidence_payload cat evidence_preset mapper tool_result ctx =
     rbind (assert_tool_result_not_funding_webhook tool_result) (\<lambda>_.
       case mapper of
         Some f \<Rightarrow>
           rbind (f tool_result ctx) (\<lambda>m. case m of
               JObj d \<Rightarrow> Inr d
             | _ \<Rightarrow> Inl (ValueError ''evidence_mapper must return a JSON object payload''))
       | None \<Rightarrow>
           rbind (resolve_completion_preset cat evidence_preset) (\<lambda>resolved.
             let preset = rp_preset resolved in
             if is_vendor_pack preset then
               (case tool_result of
                  JObj d \<Rightarrow> Inr (map_vendor_evidence_to_canonical preset d)
                | _ \<Rightarrow> Inl (ValueError (''side-effecting tool '' @ quoted (tc_tool_name ctx) @
                         '' uses vendor pack preset '' @ quoted evidence_preset @
                         ''; provide evidence_mapper when tool result is not a dict'')))
             else (case tool_result of
                 JObj d \<Rightarrow> Inr d
               | _ \<Rightarrow> Inr (cp_sample_evidence (rp_archetype resolved)))))"

section \<open>Lemmas\<close>

text \<open>Exactly the webhook shapes are refused.\<close>

definition stripe_webhook_shaped :: "(string, json) dict \<Rightarrow> bool" where
  "stripe_webhook_shaped d \<longleftrightarrow>
     (let event_type = read_string d [''type'', ''event_type'', ''eventType'']
      in read_string d [''object''] = Some ''event''
       \<or> (\<exists>t. event_type = Some t \<and> is_stripe_funding_event_type t)
       \<or> (\<exists>i. read_string d [''id''] = Some i \<and> startswith i ''evt_'') \<and> event_type \<noteq> None
       \<or> (\<exists>data obj. map_of d ''data'' = Some (JObj data) \<and> map_of data ''object'' = Some (JObj obj)
            \<and> obj \<noteq> [])
       \<or> ''pending_webhooks'' \<in> set (keys d) \<and> event_type \<noteq> None)"

lemma assert_not_stripe_funding_webhook_iff:
  "assert_not_stripe_funding_webhook d = Inr u \<longleftrightarrow> \<not> stripe_webhook_shaped d"
proof -
  have data: "(case map_of d ''data'' of
        Some (JObj data) \<Rightarrow> (case map_of data ''object'' of
            Some (JObj obj) \<Rightarrow> ensure (obj = []) e | _ \<Rightarrow> Inr ())
      | _ \<Rightarrow> Inr ()) = Inr u \<longleftrightarrow>
      \<not> (\<exists>data obj. map_of d ''data'' = Some (JObj data) \<and> map_of data ''object'' = Some (JObj obj)
            \<and> obj \<noteq> [])" for e :: exn and u
    by (auto split: option.splits json.splits)
  show ?thesis
    unfolding assert_not_stripe_funding_webhook_def stripe_webhook_shaped_def Let_def
      rbind_Inr_iff ensure_Inr_iff data
    by (cases "read_string d [''type'', ''event_type'', ''eventType'']"; cases "read_string d [''id'']")
      auto
qed

lemma dict_merge_lookup:
  "wf_dict b \<Longrightarrow> map_of (dict_merge a b) k = (case map_of b k of Some v \<Rightarrow> Some v | None \<Rightarrow> map_of a k)"
proof (induction b arbitrary: a)
  case Nil
  then show ?case by (simp add: dict_merge_def)
next
  case (Cons p b)
  obtain k' v' where p: "p = (k', v')" by (cases p)
  have wf: "wf_dict b" and nin: "map_of b k' = None"
    using Cons.prems by (auto simp: wf_dict_def p map_of_eq_None_iff)
  have "dict_merge a (p # b) = dict_merge (AList.update k' v' a) b"
    by (simp add: dict_merge_def p)
  then show ?case using Cons.IH[OF wf] nin
    by (auto simp: p update_conv' split: option.splits)
qed

end
