(* ===== verification/Tool_Registry.thy ===== *)
theory Tool_Registry
  imports Completion
begin

text \<open>
  \<open>agent/registry.py\<close> and the entry types of \<open>agent/types.py\<close>: the registry of side-effecting
  tools, built from a configuration that it validates, and the resolution of a tool call to
  \<open>passthrough\<close>, \<open>side_effecting\<close> or \<open>denied\<close>.
\<close>

section \<open>Entries and configuration\<close>

text \<open>A spend is a fixed amount or a resolver over the call's arguments (host code or a JSON
  path of the policy), which may raise.\<close>

datatype spend_spec = Spend_Cents int | Spend_Resolver "json \<Rightarrow> exn + int option"

type_synonym evidence_mapper = "json \<Rightarrow> tool_call_context \<Rightarrow> exn + json"
type_synonym attestation_mapper = "json \<Rightarrow> tool_call_context \<Rightarrow> exn + json"

record tool_policy =
  tp_operation :: "string option"
  tp_spend_cents :: "spend_spec option"
  tp_evidence_preset :: "string option"
  tp_evidence_mapper :: "evidence_mapper option"
  tp_external_attestation_mapper :: "attestation_mapper option"

record registry_config =
  rc_side_effecting :: "(string, tool_policy) dict"
  rc_default_deny :: bool

record tool_entry =
  te_tool_name :: string
  te_operation :: string
  te_evidence_preset :: string
  te_spend_cents :: "spend_spec option"
  te_evidence_mapper :: "evidence_mapper option"
  te_external_attestation_mapper :: "attestation_mapper option"

record registry =
  rg_default_deny :: bool
  rg_side_effecting :: "(string, tool_entry) dict"
  rg_operations :: "string list"

datatype tool_resolution =
    Passthrough string
  | Side_Effecting string string tool_entry  \<comment> \<open>tool name, operation, entry\<close>
  | Denied string string  \<comment> \<open>tool name, operation\<close>

section \<open>Building the registry\<close>

definition normalize_entry ::
  "catalog \<Rightarrow> string \<Rightarrow> tool_policy \<Rightarrow> (string, string) dict \<Rightarrow> exn + tool_entry \<times> (string, string) dict" where
  "normalize_entry cat tool_name policy operations =
     rbind (ensure (strip tool_name \<noteq> [])
             (RegistryValidationError ''side-effecting tool name must be non-empty'')) (\<lambda>_.
     let evidence_preset = strip (case tp_evidence_preset policy of Some p \<Rightarrow> p | None \<Rightarrow> []) in
     rbind (ensure (evidence_preset \<noteq> [])
             (RegistryValidationError (''side-effecting tool '' @ quoted tool_name @
                '' must declare evidence_preset''))) (\<lambda>_.
     rbind (ensure (evidence_preset \<in> set (list_completion_preset_ids cat))
             (RegistryValidationError (''side-effecting tool '' @ quoted tool_name @
                '' references unknown evidence_preset '' @ quoted evidence_preset))) (\<lambda>_.
     let operation = strip (case tp_operation policy of Some p \<Rightarrow> p | None \<Rightarrow> tool_name) in
     rbind (ensure (operation \<noteq> [])
             (RegistryValidationError (''side-effecting tool '' @ quoted tool_name @
                '' must resolve to a non-empty operation''))) (\<lambda>_.
     rbind (case map_of operations operation of
              Some previous \<Rightarrow> ensure (previous = tool_name)
                (RegistryValidationError (''duplicate side-effecting operation '' @ quoted operation @
                   '' for tools '' @ quoted previous @ '' and '' @ quoted tool_name))
            | None \<Rightarrow> Inr ()) (\<lambda>_.
     Inr (\<lparr>te_tool_name = tool_name, te_operation = operation,
           te_evidence_preset = evidence_preset, te_spend_cents = tp_spend_cents policy,
           te_evidence_mapper = tp_evidence_mapper policy,
           te_external_attestation_mapper = tp_external_attestation_mapper policy\<rparr>,
          AList.update operation tool_name operations))))))"

text \<open>The loop over the configuration, with its two accumulators.\<close>

fun normalize_side_effecting ::
  "catalog \<Rightarrow> (string, tool_policy) dict \<Rightarrow> (string, tool_entry) dict \<Rightarrow> (string, string) dict \<Rightarrow>
   exn + (string, tool_entry) dict" where
  "normalize_side_effecting cat [] entries operations = Inr entries"
| "normalize_side_effecting cat ((tool_name, policy) # rest) entries operations =
     rbind (normalize_entry cat tool_name policy operations) (\<lambda>(entry, operations').
       normalize_side_effecting cat rest (AList.update tool_name entry entries) operations')"

definition create_tool_registry :: "catalog \<Rightarrow> registry_config \<Rightarrow> exn + registry" where
  "create_tool_registry cat config =
     rbind (normalize_side_effecting cat (rc_side_effecting config) [] []) (\<lambda>entries.
       Inr \<lparr>rg_default_deny = rc_default_deny config, rg_side_effecting = entries,
            rg_operations = remdups (List.map (te_operation \<circ> snd) entries)\<rparr>)"

section \<open>Queries\<close>

definition is_side_effecting :: "registry \<Rightarrow> string \<Rightarrow> bool" where
  "is_side_effecting r tool_name \<longleftrightarrow> map_of (rg_side_effecting r) tool_name \<noteq> None"

definition resolve_operation :: "registry \<Rightarrow> string \<Rightarrow> string" where
  "resolve_operation r tool_name = (case map_of (rg_side_effecting r) tool_name of
       Some e \<Rightarrow> te_operation e | None \<Rightarrow> tool_name)"

definition resolve_spend_cents :: "registry \<Rightarrow> string \<Rightarrow> json \<Rightarrow> exn + int option" where
  "resolve_spend_cents r tool_name args = (case map_of (rg_side_effecting r) tool_name of
       None \<Rightarrow> Inr None
     | Some e \<Rightarrow> (case te_spend_cents e of
           None \<Rightarrow> Inr None
         | Some (Spend_Cents n) \<Rightarrow> Inr (Some n)
         | Some (Spend_Resolver f) \<Rightarrow> f args))"

definition get_side_effecting_entry :: "registry \<Rightarrow> string \<Rightarrow> tool_entry option" where
  "get_side_effecting_entry r tool_name = map_of (rg_side_effecting r) tool_name"

definition side_effecting_tool_names :: "registry \<Rightarrow> string list" where
  "side_effecting_tool_names r = keys (rg_side_effecting r)"

definition resolve_tool :: "registry \<Rightarrow> string \<Rightarrow> string list option \<Rightarrow> tool_resolution" where
  "resolve_tool r tool_name allowed_tools =
     (case map_of (rg_side_effecting r) tool_name of
        Some entry \<Rightarrow> Side_Effecting tool_name (te_operation entry) entry
      | None \<Rightarrow>
          (let operation = resolve_operation r tool_name in
           if rg_default_deny r \<and> (case allowed_tools of Some a \<Rightarrow> operation \<in> set a | None \<Rightarrow> False)
           then Denied tool_name operation
           else Passthrough tool_name))"

definition validate_for_bind :: "registry \<Rightarrow> string list \<Rightarrow> exn + unit" where
  "validate_for_bind r allowed_tools =
     (if \<not> rg_default_deny r then Inr ()
      else (case find (\<lambda>op. op \<notin> set (rg_operations r)) allowed_tools of
          None \<Rightarrow> Inr ()
        | Some op \<Rightarrow> Inl (RegistryValidationError (''defaultDeny: operation '' @ quoted op @
                       '' is in intent allowedTools but not registered as side-effecting''))))"

section \<open>The registry invariant\<close>

text \<open>
  Tool names and operations are non-empty, each entry carries its own name and a known
  evidence preset, and no two tools share an operation.
\<close>

definition entry_ok :: "catalog \<Rightarrow> string \<Rightarrow> tool_entry \<Rightarrow> bool" where
  "entry_ok cat name e \<longleftrightarrow>
     te_tool_name e = name \<and> strip name \<noteq> [] \<and> te_operation e \<noteq> [] \<and>
     strip (te_operation e) = te_operation e \<and>
     te_evidence_preset e \<in> set (list_completion_preset_ids cat)"

definition wf_registry :: "catalog \<Rightarrow> registry \<Rightarrow> bool" where
  "wf_registry cat r \<longleftrightarrow>
     wf_dict (rg_side_effecting r) \<and>
     (\<forall>(n, e) \<in> set (rg_side_effecting r). entry_ok cat n e) \<and>
     (\<forall>n e n' e'. map_of (rg_side_effecting r) n = Some e \<longrightarrow>
        map_of (rg_side_effecting r) n' = Some e' \<longrightarrow> te_operation e = te_operation e' \<longrightarrow> n = n') \<and>
     set (rg_operations r) = (te_operation \<circ> snd) ` set (rg_side_effecting r)"

text \<open>What the loop keeps between its two accumulators.\<close>

definition acc_ok :: "catalog \<Rightarrow> (string, tool_entry) dict \<Rightarrow> (string, string) dict \<Rightarrow> bool" where
  "acc_ok cat entries operations \<longleftrightarrow>
     wf_dict entries \<and> (\<forall>(n, e) \<in> set entries. entry_ok cat n e) \<and>
     (\<forall>n e. map_of entries n = Some e \<longrightarrow> map_of operations (te_operation e) = Some n)"

lemma normalize_entry_ok:
  assumes "normalize_entry cat n p operations = Inr (e, operations')"
  shows "entry_ok cat n e" "operations' = AList.update (te_operation e) n operations"
    "map_of operations (te_operation e) \<in> {None, Some n}"
  using assms
  by (auto simp: normalize_entry_def entry_ok_def res_iff Let_def split: option.splits)

lemma set_update_subset: "set (AList.update k v d) \<subseteq> insert (k, v) (set d)"
  by (induction d) auto

lemma acc_ok_step:
  assumes ok: "acc_ok cat entries operations"
    and ne: "normalize_entry cat n p operations = Inr (e, operations')"
    and fresh: "n \<notin> set (keys entries)"
  shows "acc_ok cat (AList.update n e entries) operations'"
proof -
  note e = normalize_entry_ok[OF ne]
  have "\<forall>(n, e) \<in> set (AList.update n e entries). entry_ok cat n e"
    using ok e(1) set_update_subset[of n e entries] unfolding acc_ok_def by blast
  moreover have "map_of operations' (te_operation e') = Some n'"
    if "map_of (AList.update n e entries) n' = Some e'" for n' e'
  proof (cases "n' = n")
    case True
    then show ?thesis using that e(2) by (simp add: update_conv')
  next
    case False
    with that have "map_of entries n' = Some e'" by (simp add: update_conv')
    with ok have o: "map_of operations (te_operation e') = Some n'" by (simp add: acc_ok_def)
    with e(3) False have "te_operation e' \<noteq> te_operation e" by auto
    with o e(2) show ?thesis by (simp add: update_conv')
  qed
  ultimately show ?thesis using ok by (simp add: acc_ok_def)
qed

lemma normalize_side_effecting_ok:
  assumes "acc_ok cat entries operations"
    and "normalize_side_effecting cat cfg entries operations = Inr result"
    and "wf_dict cfg" "set (keys cfg) \<inter> set (keys entries) = {}"
  shows "\<exists>ops. acc_ok cat result ops \<and> keys result = keys entries @ keys cfg"
  using assms
proof (induction cfg arbitrary: entries operations)
  case Nil
  then show ?case by auto
next
  case (Cons a cfg)
  obtain n p where a: "a = (n, p)" by (cases a)
  from Cons.prems(2) obtain e operations' where
    ne: "normalize_entry cat n p operations = Inr (e, operations')" and
    rest: "normalize_side_effecting cat cfg (AList.update n e entries) operations' = Inr result"
    by (auto simp: a rbind_Inr_iff)
  have fresh: "n \<notin> set (keys entries)" using Cons.prems(4) by (auto simp: a)
  have ks: "keys (AList.update n e entries) = keys entries @ [n]"
    using fresh by (simp add: update_keys)
  have "\<exists>ops. acc_ok cat result ops \<and> keys result = keys (AList.update n e entries) @ keys cfg"
  proof (rule Cons.IH[OF acc_ok_step[OF Cons.prems(1) ne fresh] rest])
    show "wf_dict cfg" using Cons.prems(3) by (simp add: wf_dict_def)
    show "set (keys cfg) \<inter> set (keys (AList.update n e entries)) = {}"
      unfolding ks using Cons.prems(3,4) by (auto simp: wf_dict_def a)
  qed
  then show ?case by (simp add: ks a)
qed

lemma create_tool_registry_ok:
  assumes "create_tool_registry cat config = Inr r" "wf_dict (rc_side_effecting config)"
  shows "wf_registry cat r" "keys (rg_side_effecting r) = keys (rc_side_effecting config)"
    "rg_default_deny r = rc_default_deny config"
proof -
  from assms(1) obtain entries where
    n: "normalize_side_effecting cat (rc_side_effecting config) [] [] = Inr entries"
    and r: "r = \<lparr>rg_default_deny = rc_default_deny config, rg_side_effecting = entries,
            rg_operations = remdups (List.map (te_operation \<circ> snd) entries)\<rparr>"
    by (auto simp: create_tool_registry_def rbind_Inr_iff)
  have "acc_ok cat [] []" by (simp add: acc_ok_def)
  from normalize_side_effecting_ok[OF this n assms(2)]
  obtain ops where ok: "acc_ok cat entries ops" and ks: "keys entries = keys (rc_side_effecting config)"
    by auto
  have "n = n'" if "map_of entries n = Some e" "map_of entries n' = Some e'"
      "te_operation e = te_operation e'" for n n' e e'
    using ok that unfolding acc_ok_def by (metis option.inject)
  then show "wf_registry cat r"
    using ok by (auto simp: wf_registry_def acc_ok_def r)
  show "keys (rg_side_effecting r) = keys (rc_side_effecting config)"
    "rg_default_deny r = rc_default_deny config"
    using ks by (simp_all add: r)
qed

section \<open>Resolution lemmas\<close>

lemma resolve_tool_side_effecting:
  "resolve_tool r n a = Side_Effecting n' op e \<longleftrightarrow>
     map_of (rg_side_effecting r) n = Some e \<and> n' = n \<and> op = te_operation e"
  by (auto simp: resolve_tool_def Let_def split: option.splits)

lemma resolve_tool_denied:
  "resolve_tool r n (Some a) = Denied n' op \<longleftrightarrow>
     map_of (rg_side_effecting r) n = None \<and> rg_default_deny r \<and> n \<in> set a \<and> n' = n \<and> op = n"
  by (auto simp: resolve_tool_def resolve_operation_def Let_def split: option.splits)

lemma resolve_tool_passthrough:
  "resolve_tool r n (Some a) = Passthrough n' \<longleftrightarrow>
     map_of (rg_side_effecting r) n = None \<and> \<not> (rg_default_deny r \<and> n \<in> set a) \<and> n' = n"
  by (auto simp: resolve_tool_def resolve_operation_def Let_def split: option.splits)

lemma validate_for_bind_iff:
  "validate_for_bind r a = Inr u \<longleftrightarrow> (rg_default_deny r \<longrightarrow> set a \<subseteq> set (rg_operations r))"
  using nth_mem by (fastforce simp: validate_for_bind_def find_None_iff find_Some_iff split: option.splits)

end
