(* ===== verification/Policy_Snapshot.thy ===== *)
theory Policy_Snapshot
  imports Policy_Merge Tool_Registry "HOL-Library.Multiset"
begin

text \<open>
  \<open>policy/digest.py\<close>, \<open>policy/snapshot.py\<close>, \<open>policy/registry.py\<close> and \<open>policy/json_path.py\<close>:
  the canonical digest of a policy document, the versioned snapshot a run binds to, and the
  tool registry built from a document.  SHA-256 is the parameter \<open>sha256\<close>, from the bytes of
  a text to its hex digest.
\<close>

section \<open>Canonical JSON\<close>

primrec canonicalize_json :: "json \<Rightarrow> json" where
  "canonicalize_json JNull = JNull"
| "canonicalize_json (JBool b) = JBool b"
| "canonicalize_json (JInt i) = JInt i"
| "canonicalize_json (JNum q) = JNum q"
| "canonicalize_json (JStr s) = JStr s"
| "canonicalize_json (JArr l) = JArr (List.map canonicalize_json l)"
| "canonicalize_json (JObj d) = JObj (sort_key fst (List.map (map_prod id canonicalize_json) d))"

text \<open>\<open>json.dumps\<close> with \<open>ensure_ascii\<close> and the separators of the caller.\<close>

definition hex_char :: "nat \<Rightarrow> char" where
  "hex_char n = char_of (if n < 10 then 48 + n else 87 + n)"

definition json_escape :: "char \<Rightarrow> string" where
  "json_escape c =
     (let n = (of_char c :: nat) in
      if n = 34 then [CHR 0x5C, CHR 0x22]
      else if n = 92 then [CHR 0x5C, CHR 0x5C]
      else if n = 10 then CHR 0x5C # ''n''
      else if n = 13 then CHR 0x5C # ''r''
      else if n = 9 then CHR 0x5C # ''t''
      else if n = 8 then CHR 0x5C # ''b''
      else if n = 12 then CHR 0x5C # ''f''
      else if 32 \<le> n \<and> n \<le> 126 then [c]
      else CHR 0x5C # ''u00'' @ [hex_char (n div 16), hex_char (n mod 16)])"

definition json_string :: "string \<Rightarrow> string" where
  "json_string s = quoted (concat (List.map json_escape s))"

text \<open>With \<open>ensure_ascii=False\<close> only quotes, backslashes and control characters are escaped.\<close>

definition json_escape_unicode :: "char \<Rightarrow> string" where
  "json_escape_unicode c =
     (let n = (of_char c :: nat) in if n < 32 \<or> n = 34 \<or> n = 92 then json_escape c else [c])"

definition json_string_unicode :: "string \<Rightarrow> string" where
  "json_string_unicode s = quoted (concat (List.map json_escape_unicode s))"

primrec json_dumps :: "json \<Rightarrow> string" where
  "json_dumps JNull = ''null''"
| "json_dumps (JBool b) = (if b then ''true'' else ''false'')"
| "json_dumps (JInt i) = str_int i"
| "json_dumps (JNum q) = str_rat q"
| "json_dumps (JStr s) = json_string s"
| "json_dumps (JArr l) = ''['' @ py_join '','' (List.map json_dumps l) @ '']''"
| "json_dumps (JObj d) =
     ''{'' @ py_join '','' (List.map (\<lambda>(k, s). json_string k @ '':'' @ s)
                         (List.map (map_prod id json_dumps) d)) @ ''}''"

definition canonical_policy_text :: "document_v1 \<Rightarrow> string" where
  "canonical_policy_text d = json_dumps (canonicalize_json (JObj (policy_document_to_dict d)))"

definition canonical_policy_document_digest :: "(string \<Rightarrow> string) \<Rightarrow> document_v1 \<Rightarrow> string" where
  "canonical_policy_document_digest sha256 d = ''sha256:'' @ sha256 (canonical_policy_text d)"

definition policy_version_label :: "string \<Rightarrow> string \<Rightarrow> string" where
  "policy_version_label name digest =
     (let trimmed = strip digest
      in name @ ''@'' @ (if startswith trimmed ''sha256:'' \<and> length trimmed \<ge> 15
                       then take 8 (drop 7 trimmed) else take 8 trimmed))"

section \<open>Spend from the arguments\<close>

text \<open>\<open>path.split(".")\<close> and the walk along its segments; an absent key reads as None.\<close>

fun py_split :: "char \<Rightarrow> string \<Rightarrow> string list" where
  "py_split c [] = [[]]"
| "py_split c (x # xs) =
     (if x = c then [] # py_split c xs
      else (case py_split c xs of [] \<Rightarrow> [[x]] | y # ys \<Rightarrow> (x # y) # ys))"

fun walk_path :: "json \<Rightarrow> string list \<Rightarrow> json" where
  "walk_path current [] = current"
| "walk_path (JObj d) (seg # segs) = walk_path (jget d seg) segs"
| "walk_path current (seg # segs) = JNull"

definition resolve_json_path :: "json \<Rightarrow> string \<Rightarrow> json" where
  "resolve_json_path args path = walk_path args (py_split (CHR ''.'') path)"

definition resolve_spend_cents_from_json_path ::
  "json \<Rightarrow> string \<Rightarrow> string \<Rightarrow> exn + int option" where
  "resolve_spend_cents_from_json_path args path tool_name =
     (case resolve_json_path args path of
        JNull \<Rightarrow> Inr None
      | JInt i \<Rightarrow>
          if i < 0
          then Inl (PolicyValidationError (''tool '' @ quoted tool_name @ '' spend_from_args path '' @
                 quoted path @ '' must resolve to a non-negative integer'') ''(root)'')
          else Inr (Some i)
      | _ \<Rightarrow> Inl (PolicyValidationError (''tool '' @ quoted tool_name @ '' spend_from_args path '' @
                 quoted path @ '' must resolve to a non-negative integer'') ''(root)''))"

section \<open>The registry of a document\<close>

definition entry_spend :: "string \<Rightarrow> policy_tool_entry \<Rightarrow> spend_spec option" where
  "entry_spend tool_name e = (case pt_max_spend_cents e of
       Some c \<Rightarrow> Some (Spend_Cents c)
     | None \<Rightarrow> (case pt_spend_from_args e of
           None \<Rightarrow> None
         | Some path \<Rightarrow> if path = [] then None
             else Some (Spend_Resolver (\<lambda>args. resolve_spend_cents_from_json_path args path tool_name))))"

definition entry_operation :: "policy_tool_entry \<Rightarrow> string option" where
  "entry_operation e = or_none (strip (str_or (pt_operation e) []))"

definition entry_policy :: "string \<Rightarrow> policy_tool_entry \<Rightarrow> tool_policy" where
  "entry_policy tool_name e =
     \<lparr>tp_operation = entry_operation e,
      tp_spend_cents = entry_spend tool_name e,
      tp_evidence_preset = Some (str_or (pt_evidence_preset e) []),
      tp_evidence_mapper = None, tp_external_attestation_mapper = None\<rparr>"

text \<open>The tools of a document have distinct names, so each assignment of the loop appends.\<close>

definition policy_document_to_tool_registry_config :: "document_v1 \<Rightarrow> registry_config" where
  "policy_document_to_tool_registry_config d =
     \<lparr>rc_side_effecting = List.map (\<lambda>(n, e). (n, entry_policy n e))
        (filter (\<lambda>(n, e). pt_side_effecting e) (d1_tools d)),
      rc_default_deny = d1_default_deny d\<rparr>"

definition policy_to_tool_registry :: "catalog \<Rightarrow> document_v1 \<Rightarrow> exn + registry" where
  "policy_to_tool_registry cat d = create_tool_registry cat (policy_document_to_tool_registry_config d)"

section \<open>Snapshots\<close>

datatype snapshot_source = From_File | From_Remote | From_Effective

record snapshot =
  sn_digest :: string
  sn_version :: string
  sn_loaded_at :: string
  sn_source :: snapshot_source
  sn_registry :: registry
  sn_document :: document_v1

definition create_policy_snapshot ::
  "(string \<Rightarrow> string) \<Rightarrow> string \<Rightarrow> document_v1 \<Rightarrow> registry \<Rightarrow> snapshot_source \<Rightarrow> string option \<Rightarrow>
   string option \<Rightarrow> snapshot" where
  "create_policy_snapshot sha256 now document rg source digest loaded_at =
     (let resolved = str_or (or_none (strip (str_or digest []))) (canonical_policy_document_digest sha256 document)
      in \<lparr>sn_digest = resolved, sn_version = policy_version_label (d1_name document) resolved,
          sn_loaded_at = str_or loaded_at now, sn_source = source, sn_registry = rg,
          sn_document = document\<rparr>)"

definition create_policy_snapshot_from_effective ::
  "(string \<Rightarrow> string) \<Rightarrow> string \<Rightarrow> document_v1 \<Rightarrow> registry \<Rightarrow> string \<Rightarrow> string option \<Rightarrow> snapshot" where
  "create_policy_snapshot_from_effective sha256 now document rg effective_digest loaded_at =
     create_policy_snapshot sha256 now document rg From_Effective (Some effective_digest) loaded_at"

section \<open>Lemmas\<close>

lemma sort_key_fst_perm:
  assumes "mset xs = mset ys" "distinct (keys xs)"
  shows "sort_key fst xs = sort_key fst ys"
proof -
  have "distinct (keys ys)"
    using assms by (metis mset_eq_imp_distinct_iff mset_map)
  then have "inj_on fst (set xs)"
    using assms by (metis distinct_map)
  then show ?thesis
    using assms(1) by (intro sort_key_inj_key_eq) simp_all
qed

lemma canonicalize_perm:
  assumes "mset d = mset d'" "wf_dict d"
  shows "canonicalize_json (JObj d) = canonicalize_json (JObj d')"
proof -
  have "keys (List.map (map_prod id canonicalize_json) d) = keys d"
    by (simp add: comp_def)
  then show ?thesis
    using assms by (simp add: sort_key_fst_perm wf_dict_def)
qed

lemma map_prod_insort_key:
  "List.map (map_prod id f) (insort_key fst x d) = insort_key fst (map_prod id f x) (List.map (map_prod id f) d)"
  by (induction d) auto

lemma map_prod_sort_key: "List.map (map_prod id f) (sort_key fst d) = sort_key fst (List.map (map_prod id f) d)"
proof (induction d)
  case Nil
  then show ?case by simp
next
  case (Cons x d)
  show ?case unfolding sort_key_simps list.map map_prod_insort_key Cons.IH ..
qed

lemma canonicalize_idem [simp]: "canonicalize_json (canonicalize_json j) = canonicalize_json j"
proof (induction j)
  case (JObj d)
  have "List.map (map_prod id canonicalize_json) (List.map (map_prod id canonicalize_json) d)
        = List.map (map_prod id canonicalize_json) d"
    using JObj by (fastforce simp: map_prod_def split: prod.splits)
  then have "List.map (map_prod id canonicalize_json) (sort_key fst (List.map (map_prod id canonicalize_json) d))
        = sort_key fst (List.map (map_prod id canonicalize_json) d)"
    by (simp only: map_prod_sort_key)
  then show ?case
    by (simp add: sort_key_id_if_sorted del: map_map list.map_comp)
qed auto

text \<open>The digest of a document does not depend on the order of its tools.\<close>

lemma canonical_digest_tool_order:
  assumes "wf_dict (d1_tools d)" and "mset ts = mset (d1_tools d)"
  shows "canonical_policy_document_digest sha (d\<lparr>d1_tools := ts\<rparr>) = canonical_policy_document_digest sha d"
proof -
  let ?f = "\<lambda>(n, e). (n, JObj (tool_payload e))"
  have "canonicalize_json (JObj (List.map ?f ts)) = canonicalize_json (JObj (List.map ?f (d1_tools d)))"
  proof (rule canonicalize_perm)
    show "mset (List.map ?f ts) = mset (List.map ?f (d1_tools d))"
      using assms(2) by simp
    have "keys (List.map ?f ts) = keys ts" by (simp add: comp_def split_beta)
    then show "wf_dict (List.map ?f ts)"
      using assms by (metis wf_dict_def mset_eq_imp_distinct_iff mset_map)
  qed
  then have "canonicalize_json (JObj (policy_document_to_dict (d\<lparr>d1_tools := ts\<rparr>)))
           = canonicalize_json (JObj (policy_document_to_dict d))"
    by (simp add: policy_document_to_dict_def)
  then show ?thesis by (simp add: canonical_policy_document_digest_def canonical_policy_text_def)
qed

lemma policy_version_label_sha:
  assumes "head_digest_re g" "\<not> py_space (last g)"
  shows "policy_version_label n g = n @ ''@'' @ take 8 (drop 7 g)"
proof -
  have "g \<noteq> []" "hd g = CHR ''s''" "startswith g ''sha256:''" "length g = 71"
    using assms(1) by (auto simp: head_digest_re_def startswith_def) (cases g; auto)+
  moreover have "\<not> py_space (CHR ''s'')" by (simp add: py_space_def)
  ultimately have "strip g = g" using assms(2) by (intro strip_fix) auto
  then show ?thesis
    using \<open>startswith g _\<close> \<open>length g = 71\<close> by (simp add: policy_version_label_def)
qed

end
