(* ===== verification/Ttl_Cache.thy ===== *)
theory Ttl_Cache
  imports Prelude
begin

text \<open>
  The contract the kit's two in-memory caches share, as a locale: values are stored under a
  key with the clock's reading, and a lookup returns a stored value only while it is fresh.
  The lemma of the locale says what a client may conclude after any sequence of operations: a
  value that a lookup returns is the last one stored under that very key, no more than the
  time to live ago.  Each operation carries the clock readings it makes: the first for the
  eviction of expired entries, the second for the stamp or the freshness check.
\<close>

datatype ('k, 'v, 'q) cache_op =
    Put 'k 'v rat rat
  | Take 'k 'q rat rat

fun run_cache ::
  "('c \<Rightarrow> 'k \<Rightarrow> 'v \<Rightarrow> rat \<Rightarrow> rat \<Rightarrow> 'c) \<Rightarrow> ('c \<Rightarrow> 'k \<Rightarrow> 'q \<Rightarrow> rat \<Rightarrow> rat \<Rightarrow> 'v option \<times> 'c) \<Rightarrow>
   ('k, 'v, 'q) cache_op list \<Rightarrow> 'c \<Rightarrow> 'c" where
  "run_cache store fetch [] c = c"
| "run_cache store fetch (Put k v n1 n2 # ops) c = run_cache store fetch ops (store c k v n1 n2)"
| "run_cache store fetch (Take k q n1 n2 # ops) c = run_cache store fetch ops (snd (fetch c k q n1 n2))"

text \<open>
  The last value stored under a key by a sequence of operations, with its time.  \<open>nrm\<close> is what
  the cache makes of a key, and \<open>stores\<close> tells which stores it does not ignore.
\<close>

fun last_put ::
  "('k \<Rightarrow> 'k) \<Rightarrow> ('k \<Rightarrow> 'v \<Rightarrow> bool) \<Rightarrow> ('k, 'v, 'q) cache_op list \<Rightarrow> 'k \<Rightarrow> ('v \<times> rat) option \<Rightarrow>
   ('v \<times> rat) option" where
  "last_put nrm stores [] k acc = acc"
| "last_put nrm stores (Put k' v n1 n2 # ops) k acc =
     last_put nrm stores ops k (if stores k' v \<and> nrm k' = nrm k then Some (v, n2) else acc)"
| "last_put nrm stores (Take k' q n1 n2 # ops) k acc = last_put nrm stores ops k acc"

locale ttl_cache =
  fixes store :: "'c \<Rightarrow> 'k \<Rightarrow> 'v \<Rightarrow> rat \<Rightarrow> rat \<Rightarrow> 'c"
    and fetch :: "'c \<Rightarrow> 'k \<Rightarrow> 'q \<Rightarrow> rat \<Rightarrow> rat \<Rightarrow> 'v option \<times> 'c"
    and contents :: "'c \<Rightarrow> 'k \<Rightarrow> ('v \<times> rat) option"
    and stamp :: "'v \<Rightarrow> rat \<Rightarrow> 'v"
    and invar :: "'c \<Rightarrow> bool"
    and ttl :: "'c \<Rightarrow> rat"
    and nrm :: "'k \<Rightarrow> 'k"
    and stores :: "'k \<Rightarrow> 'v \<Rightarrow> bool"
  assumes invar_put: "invar c \<Longrightarrow> invar (store c k v n1 n2)"
    and invar_take: "invar c \<Longrightarrow> invar (snd (fetch c k q n1 n2))"
    and ttl_put: "ttl (store c k v n1 n2) = ttl c"
    and ttl_take: "ttl (snd (fetch c k q n1 n2)) = ttl c"
    and contents_put: "\<lbrakk>invar c; contents (store c k v n1 n2) k' = Some (w, t)\<rbrakk> \<Longrightarrow>
          stores k v \<and> nrm k = nrm k' \<and> w = stamp v n2 \<and> t = n2 \<or>
          \<not> (stores k v \<and> nrm k = nrm k') \<and> contents c k' = Some (w, t)"
    and contents_take: "\<lbrakk>invar c; contents (snd (fetch c k q n1 n2)) k' = Some x\<rbrakk> \<Longrightarrow>
          contents c k' = Some x"
    and take_fresh: "\<lbrakk>invar c; fst (fetch c k q n1 n2) = Some v\<rbrakk> \<Longrightarrow>
          \<exists>t. contents c k = Some (v, t) \<and> n2 - t \<le> ttl c"
begin

lemma run_invar: "invar c \<Longrightarrow> invar (run_cache store fetch ops c)"
proof (induction ops arbitrary: c)
  case (Cons op ops)
  then show ?case by (cases op) (auto simp: invar_put invar_take)
qed simp

lemma run_ttl: "ttl (run_cache store fetch ops c) = ttl c"
proof (induction ops arbitrary: c)
  case (Cons op ops)
  then show ?case by (cases op) (auto simp: ttl_put ttl_take)
qed simp

lemma run_contents:
  assumes "invar c"
    and "contents (run_cache store fetch ops c) k = Some (w, t)"
    and "\<And>w t. contents c k = Some (w, t) \<Longrightarrow> \<exists>v. acc = Some (v, t) \<and> w = stamp v t"
  shows "\<exists>v. last_put nrm stores ops k acc = Some (v, t) \<and> w = stamp v t"
  using assms
proof (induction ops arbitrary: c acc)
  case Nil
  then show ?case by simp
next
  case (Cons op ops)
  show ?case
  proof (cases op)
    case (Put k' v' n1 n2)
    let ?c = "store c k' v' n1 n2"
      and ?acc = "if stores k' v' \<and> nrm k' = nrm k then Some (v', n2) else acc"
    have "\<exists>v. last_put nrm stores ops k ?acc = Some (v, t) \<and> w = stamp v t"
    proof (rule Cons.IH)
      show "invar ?c" using Cons.prems(1) by (rule invar_put)
      show "contents (run_cache store fetch ops ?c) k = Some (w, t)"
        using Cons.prems(2) by (simp add: Put)
      show "\<exists>v. ?acc = Some (v, t) \<and> w = stamp v t" if "contents ?c k = Some (w, t)" for w t
        using contents_put[OF Cons.prems(1) that] Cons.prems(3) by auto
    qed
    then show ?thesis by (simp add: Put)
  next
    case (Take k' q n1 n2)
    let ?c = "snd (fetch c k' q n1 n2)"
    have "\<exists>v. last_put nrm stores ops k acc = Some (v, t) \<and> w = stamp v t"
    proof (rule Cons.IH)
      show "invar ?c" using Cons.prems(1) by (rule invar_take)
      show "contents (run_cache store fetch ops ?c) k = Some (w, t)"
        using Cons.prems(2) by (simp add: Take)
      show "\<exists>v. acc = Some (v, t) \<and> w = stamp v t" if "contents ?c k = Some (w, t)" for w t
        using contents_take[OF Cons.prems(1) that] Cons.prems(3) by blast
    qed
    then show ?thesis by (simp add: Take)
  qed
qed

lemma take_returns_last_put:
  assumes "invar c" "\<And>k. contents c k = None"
    and "fst (fetch (run_cache store fetch ops c) k q n1 n2) = Some w"
  shows "\<exists>v t. last_put nrm stores ops k None = Some (v, t) \<and> w = stamp v t \<and> n2 - t \<le> ttl c"
proof -
  from take_fresh[OF run_invar[OF assms(1)] assms(3)]
  obtain t where t: "contents (run_cache store fetch ops c) k = Some (w, t)" "n2 - t \<le> ttl c"
    by (auto simp: run_ttl)
  from run_contents[OF assms(1) t(1), of None] assms(2) t(2) show ?thesis by fastforce
qed

end

end
