(* ===== verification/Auth_Cache.thy ===== *)
theory Auth_Cache
  imports Ttl_Cache Kit_Errors
begin

text \<open>
  \<open>agent/authorization_cache.py\<close>: the cache that carries an authorization from
  \<open>authorize_tool_call\<close> to the \<open>wrap_execute\<close> of the same tool call.  An entry is popped by the
  first lookup of its key and returned only when it is fresh and has the expected operation,
  amount and tool name.
\<close>

definition AUTHORIZATION_CACHE_TTL_SEC :: rat where
  "AUTHORIZATION_CACHE_TTL_SEC = 120"

record cached_entry =
  ce_auth :: verify_result
  ce_policy_digest :: "string option"
  ce_operation :: string
  ce_requested_spend_cents :: "int option"
  ce_tool_name :: string
  ce_cached_at :: rat
  ce_authorized_at_ms :: int

record cache_expectation =
  cx_operation :: string
  cx_requested_spend_cents :: "int option"
  cx_tool_name :: string

type_synonym auth_cache = "(string, cached_entry) dict"

definition evict_expired_authorization_cache :: "auth_cache \<Rightarrow> rat \<Rightarrow> rat \<Rightarrow> auth_cache" where
  "evict_expired_authorization_cache cache ttl now =
     del_keys (List.map fst (filter (\<lambda>(k, e). now - ce_cached_at e > ttl) cache)) cache"

definition take_valid_cached_authorization ::
  "auth_cache \<Rightarrow> string \<Rightarrow> cache_expectation \<Rightarrow> rat \<Rightarrow> rat \<Rightarrow> cached_entry option \<times> auth_cache" where
  "take_valid_cached_authorization cache cache_key expected ttl now =
     (let (cached, cache') = dict_pop cache cache_key in
      case cached of
        None \<Rightarrow> (None, cache')
      | Some e \<Rightarrow>
          if now - ce_cached_at e > ttl then (None, cache')
          else if ce_operation e \<noteq> cx_operation expected then (None, cache')
          else if ce_requested_spend_cents e \<noteq> cx_requested_spend_cents expected then (None, cache')
          else if ce_tool_name e \<noteq> cx_tool_name expected then (None, cache')
          else (Some e, cache'))"

text \<open>The insertion of \<open>authorize_tool_call\<close>: evict, then store with the time of storing.\<close>

definition store_authorization ::
  "auth_cache \<Rightarrow> string \<Rightarrow> cached_entry \<Rightarrow> rat \<Rightarrow> rat \<Rightarrow> auth_cache" where
  "store_authorization cache cache_key entry evict_now cached_at =
     AList.update cache_key (entry\<lparr>ce_cached_at := cached_at\<rparr>)
       (evict_expired_authorization_cache cache AUTHORIZATION_CACHE_TTL_SEC evict_now)"

definition authorization_cache_key :: "string \<Rightarrow> string \<Rightarrow> string" where
  "authorization_cache_key tool_call_id operation = tool_call_id @ '':'' @ operation"

section \<open>Lemmas\<close>

lemma evict_wf [simp, intro]: "wf_dict c \<Longrightarrow> wf_dict (evict_expired_authorization_cache c ttl now)"
  by (simp add: evict_expired_authorization_cache_def wf_dict_del_keys)

lemma evict_lookup:
  assumes "wf_dict c"
  shows "map_of (evict_expired_authorization_cache c ttl now) k =
     (case map_of c k of None \<Rightarrow> None | Some e \<Rightarrow> if now - ce_cached_at e > ttl then None else Some e)"
proof -
  define ks where "ks = List.map fst (filter (\<lambda>(k, e). now - ce_cached_at e > ttl) c)"
  have in_ks: "k \<in> set ks \<longleftrightarrow> (\<exists>e. map_of c k = Some e \<and> now - ce_cached_at e > ttl)" for k
  proof -
    have "k \<in> set ks \<longleftrightarrow> (\<exists>e. (k, e) \<in> set c \<and> now - ce_cached_at e > ttl)"
      by (force simp: ks_def)
    also have "\<dots> \<longleftrightarrow> (\<exists>e. map_of c k = Some e \<and> now - ce_cached_at e > ttl)"
      using assms by (auto simp: wf_dict_def)
    finally show ?thesis .
  qed
  have "map_of (evict_expired_authorization_cache c ttl now) k =
        (case map_of c k of None \<Rightarrow> None | Some v \<Rightarrow> if k \<notin> set ks then Some v else None)"
    using map_of_filter_wf[OF assms, of "\<lambda>k v. k \<notin> set ks" k]
    by (simp add: evict_expired_authorization_cache_def del_keys_conv ks_def)
  then show ?thesis by (auto simp: in_ks split: option.splits)
qed

text \<open>The contents of the cache as the contract sees them.\<close>

definition auth_contents :: "auth_cache \<Rightarrow> string \<Rightarrow> (cached_entry \<times> rat) option" where
  "auth_contents c k = map_option (\<lambda>e. (e, ce_cached_at e)) (map_of c k)"

interpretation authorizations: ttl_cache
  "store_authorization"
  "\<lambda>c k q n1 n2. take_valid_cached_authorization c k q AUTHORIZATION_CACHE_TTL_SEC n2"
  auth_contents "\<lambda>e t. e\<lparr>ce_cached_at := t\<rparr>" wf_dict "\<lambda>_. AUTHORIZATION_CACHE_TTL_SEC"
  "\<lambda>k. k" "\<lambda>_ _. True"
proof unfold_locales
  show "wf_dict (store_authorization c k v n1 n2)" if "wf_dict c" for c k v n1 n2
    using that by (simp add: store_authorization_def)
  show "wf_dict (snd (take_valid_cached_authorization c k q AUTHORIZATION_CACHE_TTL_SEC n2))"
    if "wf_dict c" for c k q n2
    using that by (auto simp: take_valid_cached_authorization_def dict_pop_def split: option.splits)
  show "True \<and> k = k' \<and> w = v\<lparr>ce_cached_at := n2\<rparr> \<and> t = n2 \<or>
      \<not> (True \<and> k = k') \<and> auth_contents c k' = Some (w, t)"
    if "wf_dict c" "auth_contents (store_authorization c k v n1 n2) k' = Some (w, t)"
    for c k v n1 n2 k' w t
    using that by (auto simp: auth_contents_def store_authorization_def update_conv' evict_lookup
        split: option.splits if_splits)
  show "auth_contents c k' = Some x"
    if "auth_contents (snd (take_valid_cached_authorization c k q AUTHORIZATION_CACHE_TTL_SEC n2)) k'
          = Some x" for c k q n2 k' x
    using that by (auto simp: auth_contents_def take_valid_cached_authorization_def dict_pop_def
        delete_conv' split: option.splits if_splits)
  show "\<exists>t. auth_contents c k = Some (v, t) \<and> n2 - t \<le> AUTHORIZATION_CACHE_TTL_SEC"
    if "fst (take_valid_cached_authorization c k q AUTHORIZATION_CACHE_TTL_SEC n2) = Some v"
    for c k q n2 v
    using that by (auto simp: auth_contents_def take_valid_cached_authorization_def dict_pop_def
        not_less split: option.splits if_splits)
qed auto

text \<open>A lookup takes the entry out, whatever it returns: no authorization is used twice.\<close>

lemma take_removes:
  "map_of (snd (take_valid_cached_authorization c k q ttl now)) k = None"
  by (auto simp: take_valid_cached_authorization_def dict_pop_def delete_conv' split: option.splits)

lemma take_valid_Some:
  "fst (take_valid_cached_authorization c k q ttl now) = Some e \<longleftrightarrow>
     map_of c k = Some e \<and> now - ce_cached_at e \<le> ttl \<and> ce_operation e = cx_operation q \<and>
     ce_requested_spend_cents e = cx_requested_spend_cents q \<and> ce_tool_name e = cx_tool_name q"
  by (auto simp: take_valid_cached_authorization_def dict_pop_def split: option.splits)

lemma take_snd: "snd (take_valid_cached_authorization c k q ttl now) = AList.delete k c"
  by (auto simp: take_valid_cached_authorization_def dict_pop_def split: option.splits)

text \<open>Two calls share a cache key and an operation only when they share the tool call id.\<close>

lemma authorization_cache_key_inj:
  "authorization_cache_key i op = authorization_cache_key j op \<Longrightarrow> i = j"
  by (simp add: authorization_cache_key_def)

end
