(* ===== verification/Gateway_Retry.thy ===== *)
theory Gateway_Retry
  imports Kit_Errors
begin

text \<open>
  \<open>gateway_retry.py\<close>: which gateway responses are retried, how long the client waits, and the
  retry loop.  A response is a record of what the client reads of an \<open>httpx.Response\<close>; the
  decoded body \<open>hr_json\<close> is None when the text is not JSON.  The loop's environment is the
  outcome of each attempt and the random jitter of each back-off; its run is recorded as a
  list of the requests made and the delays slept.
\<close>

section \<open>Responses and numbers\<close>

record http_response =
  hr_status :: int
  hr_text :: string
  hr_json :: "json option"
  hr_retry_after :: "string option"

text \<open>\<open>float(s)\<close> on decimal literals (the spellings of infinity and NaN are not modelled).\<close>

definition digits_val :: "string \<Rightarrow> nat" where
  "digits_val s = foldl (\<lambda>a c. 10 * a + (of_char c - 48)) 0 s"

definition split_sign :: "string \<Rightarrow> rat \<times> string" where
  "split_sign s = (case s of
       [] \<Rightarrow> (1, [])
     | c # cs \<Rightarrow> if c = CHR ''-'' then (-1, cs) else if c = CHR ''+'' then (1, cs) else (1, s))"

definition pow10 :: "rat \<Rightarrow> nat \<Rightarrow> rat" where
  "pow10 sg n = (if sg < 0 then 1 / 10 ^ n else 10 ^ n)"

definition parse_exponent :: "string \<Rightarrow> rat option" where
  "parse_exponent s = (case s of
       [] \<Rightarrow> Some 1
     | c # cs \<Rightarrow>
         if c = CHR ''e'' \<or> c = CHR ''E'' then
           (let (sg, ds) = split_sign cs
            in if ds \<noteq> [] \<and> list_all is_digit ds then Some (pow10 sg (digits_val ds)) else None)
         else None)"

definition py_float :: "string \<Rightarrow> rat option" where
  "py_float s0 =
     (let (sg, s) = split_sign (strip s0);
          whole = takeWhile is_digit s;
          rest = dropWhile is_digit s;
          (frac, tl) = (case rest of
              [] \<Rightarrow> ([], [])
            | c # cs \<Rightarrow> if c = CHR ''.'' then (takeWhile is_digit cs, dropWhile is_digit cs)
                        else ([], rest))
      in if whole = [] \<and> frac = [] then None
         else (case parse_exponent tl of
             None \<Rightarrow> None
           | Some e \<Rightarrow>
               Some (sg * (of_nat (digits_val whole)
                           + of_nat (digits_val frac) / 10 ^ length frac) * e)))"

section \<open>Classification and delays\<close>

definition RETRYABLE_HTTP_STATUS_CODES :: "int list" where
  "RETRYABLE_HTTP_STATUS_CODES = [429, 500, 502, 503, 504]"

definition CLOUDFLARE_EDGE_MAX_RETRY_DELAY_SECONDS :: rat where
  "CLOUDFLARE_EDGE_MAX_RETRY_DELAY_SECONDS = 8"

definition is_cloudflare_edge_error_body :: "http_response \<Rightarrow> bool" where
  "is_cloudflare_edge_error_body r \<longleftrightarrow>
     strip (hr_text r) \<noteq> [] \<and>
     (case hr_json r of
        Some (JObj d) \<Rightarrow> map_of d ''cloudflare_error'' = Some (JBool True)
      | _ \<Rightarrow> False)"

definition parse_cloudflare_retry_after_seconds :: "http_response \<Rightarrow> rat option" where
  "parse_cloudflare_retry_after_seconds r =
     (if \<not> is_cloudflare_edge_error_body r then None
      else (case hr_json r of
          Some (JObj d) \<Rightarrow>
            (case map_of d ''retry_after'' of
               Some (JInt i) \<Rightarrow> Some (min (of_int i) CLOUDFLARE_EDGE_MAX_RETRY_DELAY_SECONDS)
             | Some (JNum q) \<Rightarrow> Some (min q CLOUDFLARE_EDGE_MAX_RETRY_DELAY_SECONDS)
             | Some (JStr s) \<Rightarrow>
                 map_option (\<lambda>q. min q CLOUDFLARE_EDGE_MAX_RETRY_DELAY_SECONDS) (py_float s)
             | _ \<Rightarrow> None)
        | _ \<Rightarrow> None))"

definition should_retry_gateway_http_status :: "http_response \<Rightarrow> bool" where
  "should_retry_gateway_http_status r \<longleftrightarrow>
     hr_status r \<in> set RETRYABLE_HTTP_STATUS_CODES \<and> \<not> is_cloudflare_edge_error_body r"

definition should_retry_gateway_response :: "http_response \<Rightarrow> bool" where
  "should_retry_gateway_response r \<longleftrightarrow>
     hr_status r \<in> set RETRYABLE_HTTP_STATUS_CODES \<and> should_retry_gateway_http_status r"

text \<open>\<open>jitter\<close> is the value \<open>random.uniform(0.0, 0.1)\<close> returned.\<close>

definition backoff_seconds :: "rat \<Rightarrow> nat \<Rightarrow> rat" where
  "backoff_seconds jitter attempt = min ((1/5) * 2 ^ attempt + jitter) 5"

definition parse_retry_after_seconds :: "string option \<Rightarrow> rat option" where
  "parse_retry_after_seconds value =
     (case value of
        None \<Rightarrow> None
      | Some v \<Rightarrow> if strip v = [] then None else map_option (\<lambda>q. min q 30) (py_float (strip v)))"

definition gateway_retry_delay_seconds :: "rat \<Rightarrow> nat \<Rightarrow> string option \<Rightarrow> rat" where
  "gateway_retry_delay_seconds jitter attempt header =
     (case parse_retry_after_seconds header of
        Some d \<Rightarrow> d
      | None \<Rightarrow> backoff_seconds jitter attempt)"

text \<open>\<open>parse_cloudflare_retry_after_seconds(...) or gateway_retry_delay_seconds(...)\<close>: a zero
  delay counts as no value.\<close>

definition cloudflare_delay :: "rat \<Rightarrow> nat \<Rightarrow> http_response \<Rightarrow> rat" where
  "cloudflare_delay jitter attempt r =
     (case parse_cloudflare_retry_after_seconds r of
        Some d \<Rightarrow> if d = 0 then gateway_retry_delay_seconds jitter attempt (hr_retry_after r) else d
      | None \<Rightarrow> gateway_retry_delay_seconds jitter attempt (hr_retry_after r))"

section \<open>The retry loop\<close>

datatype retry_event = Requested nat | Slept rat

definition is_transport_error :: "exn \<Rightarrow> bool" where
  "is_transport_error e = (case e of TransportError _ \<Rightarrow> True | _ \<Rightarrow> False)"

text \<open>
  \<open>remaining\<close> counts the iterations of \<open>range(max_retries)\<close> still to come, so the attempt
  number of an iteration is \<open>max_retries - remaining\<close> at its start.
\<close>

fun retry_loop ::
  "(nat \<Rightarrow> exn + http_response) \<Rightarrow> (nat \<Rightarrow> rat) \<Rightarrow> nat \<Rightarrow> nat \<Rightarrow> nat \<Rightarrow> nat \<Rightarrow> exn option \<Rightarrow>
   retry_event list \<Rightarrow> (exn + http_response) \<times> retry_event list" where
  "retry_loop req jit maxr 0 attempt cf last_exc evs =
     (case last_exc of
        Some e \<Rightarrow> (Inl e, evs)
      | None \<Rightarrow> (Inl (RuntimeError ''gateway request exhausted retries without a response''), evs))"
| "retry_loop req jit maxr (Suc n) attempt cf last_exc evs =
     (let evs = evs @ [Requested attempt] in
      case req attempt of
        Inl e \<Rightarrow>
          if is_transport_error e then
            if attempt + 1 \<ge> maxr then (Inl e, evs)
            else retry_loop req jit maxr n (attempt + 1) cf (Some e)
                   (evs @ [Slept (gateway_retry_delay_seconds (jit attempt) attempt None)])
          else (Inl e, evs)
      | Inr r \<Rightarrow>
          if hr_status r \<in> set RETRYABLE_HTTP_STATUS_CODES \<and> attempt + 1 < maxr then
            if is_cloudflare_edge_error_body r then
              if cf \<ge> 1 then (Inr r, evs)
              else retry_loop req jit maxr n (attempt + 1) (cf + 1) last_exc
                     (evs @ [Slept (cloudflare_delay (jit attempt) attempt r)])
            else if \<not> should_retry_gateway_response r then (Inr r, evs)
            else retry_loop req jit maxr n (attempt + 1) cf last_exc
                   (evs @ [Slept (gateway_retry_delay_seconds (jit attempt) attempt (hr_retry_after r))])
          else (Inr r, evs))"

definition httpx_with_gateway_retries ::
  "(nat \<Rightarrow> exn + http_response) \<Rightarrow> (nat \<Rightarrow> rat) \<Rightarrow> nat \<Rightarrow>
   (exn + http_response) \<times> retry_event list" where
  "httpx_with_gateway_retries req jit max_retries =
     retry_loop req jit max_retries max_retries 0 0 None []"

section \<open>Lemmas\<close>

definition requests :: "retry_event list \<Rightarrow> nat list" where
  "requests evs = List.map_filter (\<lambda>e. case e of Requested i \<Rightarrow> Some i | Slept _ \<Rightarrow> None) evs"

definition sleeps :: "retry_event list \<Rightarrow> rat list" where
  "sleeps evs = List.map_filter (\<lambda>e. case e of Slept d \<Rightarrow> Some d | Requested _ \<Rightarrow> None) evs"

lemma requests_simps [simp]:
  "requests [] = []"
  "requests (xs @ ys) = requests xs @ requests ys"
  "requests [Requested i] = [i]" "requests [Slept d] = []"
  "requests (Requested i # xs) = i # requests xs" "requests (Slept d # xs) = requests xs"
  by (simp_all add: requests_def List.map_filter_def)

lemma sleeps_simps [simp]:
  "sleeps [] = []"
  "sleeps (xs @ ys) = sleeps xs @ sleeps ys"
  "sleeps [Requested i] = []" "sleeps [Slept d] = [d]"
  "sleeps (Requested i # xs) = sleeps xs" "sleeps (Slept d # xs) = d # sleeps xs"
  by (simp_all add: sleeps_def List.map_filter_def)

lemma backoff_le: "backoff_seconds j a \<le> 5"
  by (simp add: backoff_seconds_def)

lemma retry_after_le: "parse_retry_after_seconds h = Some d \<Longrightarrow> d \<le> 30"
  by (auto simp: parse_retry_after_seconds_def split: option.splits if_splits)

lemma gateway_delay_le: "gateway_retry_delay_seconds j a h \<le> 30"
  using backoff_le[of j a] retry_after_le[of h]
  by (auto simp: gateway_retry_delay_seconds_def split: option.splits)

lemma cloudflare_retry_after_le: "parse_cloudflare_retry_after_seconds r = Some d \<Longrightarrow> d \<le> 8"
  by (auto simp: parse_cloudflare_retry_after_seconds_def CLOUDFLARE_EDGE_MAX_RETRY_DELAY_SECONDS_def
      split: option.splits if_splits json.splits)

lemma cloudflare_delay_le: "cloudflare_delay j a r \<le> 30"
  using cloudflare_retry_after_le[of r] gateway_delay_le[of j a "hr_retry_after r"]
  by (fastforce simp: cloudflare_delay_def split: option.splits)

text \<open>The shape of one iteration: it stops with the attempt's outcome, or it goes on.\<close>

lemma retry_loop_step:
  fixes req :: "nat \<Rightarrow> exn + http_response"
  obtains (stop) "retry_loop req jit maxr (Suc n) attempt cf le evs =
                    (req attempt, evs @ [Requested attempt])"
  | (go) cf' le' d where "attempt + 1 < maxr" "d \<le> 30" "cf' \<le> cf + 1"
      "retry_loop req jit maxr (Suc n) attempt cf le evs =
         retry_loop req jit maxr n (attempt + 1) cf' le' (evs @ [Requested attempt] @ [Slept d])"
proof (cases "req attempt")
  case (Inl e)
  show ?thesis
  proof (cases "is_transport_error e \<and> attempt + 1 < maxr")
    case True
    with Inl show ?thesis
      by (intro go[of "gateway_retry_delay_seconds (jit attempt) attempt None" cf "Some e"])
        (auto simp: Let_def gateway_delay_le)
  next
    case False
    with Inl show ?thesis by (intro stop) (auto simp: Let_def)
  qed
next
  case (Inr r)
  define retry where "retry \<longleftrightarrow> hr_status r \<in> set RETRYABLE_HTTP_STATUS_CODES \<and> attempt + 1 < maxr"
  consider (no) "\<not> (retry \<and> (if is_cloudflare_edge_error_body r then cf < 1
                               else should_retry_gateway_response r))"
    | (edge) "retry" "is_cloudflare_edge_error_body r" "cf < 1"
    | (plain) "retry" "\<not> is_cloudflare_edge_error_body r" "should_retry_gateway_response r"
    by (cases "is_cloudflare_edge_error_body r") auto
  then show ?thesis
  proof cases
    case no
    with Inr show ?thesis by (intro stop) (auto simp: Let_def retry_def split: if_splits)
  next
    case edge
    with Inr show ?thesis
      by (intro go[of "cloudflare_delay (jit attempt) attempt r" "cf + 1" le])
        (auto simp: Let_def retry_def cloudflare_delay_le)
  next
    case plain
    with Inr show ?thesis
      by (intro go[of "gateway_retry_delay_seconds (jit attempt) attempt (hr_retry_after r)" cf le])
        (auto simp: Let_def retry_def gateway_delay_le)
  qed
qed

declare retry_loop.simps(2) [simp del]

text \<open>
  The loop issues the attempts in order, each once, and ends with the outcome of the last one.
\<close>

lemma retry_loop_requests:
  assumes "attempt + n = maxr" "0 < n"
  shows "\<exists>k. 0 < k \<and> k \<le> n \<and>
     requests (snd (retry_loop req jit maxr n attempt cf le evs)) =
       requests evs @ [attempt ..< attempt + k] \<and>
     fst (retry_loop req jit maxr n attempt cf le evs) = req (attempt + k - 1)"
  using assms
proof (induction n arbitrary: attempt cf le evs)
  case 0
  then show ?case by simp
next
  case (Suc n)
  show ?case
  proof (cases rule: retry_loop_step[of req jit maxr n attempt cf le evs])
    case stop
    then show ?thesis by (intro exI[of _ 1]) simp
  next
    case (go cf' le' d)
    then have "0 < n" using Suc.prems by simp
    with Suc.IH[of "attempt + 1" cf' le' "evs @ [Requested attempt] @ [Slept d]"] Suc.prems
    obtain k where k: "0 < k" "k \<le> n"
      "requests (snd (retry_loop req jit maxr (Suc n) attempt cf le evs)) =
         requests evs @ [attempt] @ [attempt + 1 ..< attempt + 1 + k]"
      "fst (retry_loop req jit maxr (Suc n) attempt cf le evs) = req (attempt + 1 + k - 1)"
      unfolding go(4) by auto
    then show ?thesis
      by (intro exI[of _ "Suc k"]) (simp add: upt_conv_Cons)
  qed
qed

lemma retry_loop_sleeps:
  assumes "\<forall>d \<in> set (sleeps evs). d \<le> 30"
  shows "\<forall>d \<in> set (sleeps (snd (retry_loop req jit maxr n attempt cf le evs))). d \<le> 30"
  using assms
proof (induction n arbitrary: attempt cf le evs)
  case 0
  then show ?case by (simp split: option.splits)
next
  case (Suc n)
  show ?case
  proof (cases rule: retry_loop_step[of req jit maxr n attempt cf le evs])
    case stop
    then show ?thesis using Suc.prems by simp
  next
    case (go cf' le' d)
    then show ?thesis using Suc.prems unfolding go(4) by (intro Suc.IH) auto
  qed
qed

end
