(* ===== verification/Harbor_Client.thy ===== *)
theory Harbor_Client
  imports Gateway_Retry
begin

text \<open>
  The gateway clients of \<open>harbor.py\<close> (class \<open>GatewayHarborClient\<close>) and \<open>guardrails.py\<close>: the
  request each call sends and what it makes of the answer.  The HTTP exchange is an argument:
  an \<open>outcome\<close> is what \<open>httpx_with_gateway_retries\<close> gave for the request.  Every call that
  returns has checked that the answer names the client's tenant, and the calls about one
  intent that it names that intent.
\<close>

section \<open>Conversions of the Python runtime\<close>

definition py_int_str :: "string \<Rightarrow> int option" where
  "py_int_str s0 =
     (let (sg, ds) = split_sign (strip s0)
      in if ds \<noteq> [] \<and> list_all is_digit ds
         then Some (if sg < 0 then - int (digits_val ds) else int (digits_val ds)) else None)"

definition trunc_rat :: "rat \<Rightarrow> int" where
  "trunc_rat q = (if q < 0 then - \<lfloor>- q\<rfloor> else \<lfloor>q\<rfloor>)"

text \<open>\<open>int(x)\<close> of a decoded JSON value.\<close>

definition py_int :: "json \<Rightarrow> exn + int" where
  "py_int j = (case j of
       JInt i \<Rightarrow> Inr i
     | JBool b \<Rightarrow> Inr (if b then 1 else 0)
     | JNum q \<Rightarrow> Inr (trunc_rat q)
     | JStr s \<Rightarrow> (case py_int_str s of Some i \<Rightarrow> Inr i | None \<Rightarrow> Inl (ValueError ''invalid literal for int()''))
     | _ \<Rightarrow> Inl (TypeError ''int() argument must be a string or a number''))"

definition py_uuid :: "string \<Rightarrow> exn + uuid" where
  "py_uuid s = (case parse_uuid s of
       Some u \<Rightarrow> Inr u
     | None \<Rightarrow> Inl (ValueError ''badly formed hexadecimal UUID string''))"

lemma py_uuid_Inr [res_iff]: "py_uuid s = Inr u \<longleftrightarrow> parse_uuid s = Some u"
  by (simp add: py_uuid_def split: option.splits)

definition body_item :: "(string, json) dict \<Rightarrow> string \<Rightarrow> exn + json" where
  "body_item b k = (case map_of b k of Some v \<Rightarrow> Inr v | None \<Rightarrow> Inl (KeyError k))"

lemma body_item_Inr [res_iff]: "body_item b k = Inr v \<longleftrightarrow> map_of b k = Some v"
  by (simp add: body_item_def split: option.splits)

text \<open>\<open>x if body.get(k) is not None else None\<close> under a conversion.\<close>

definition opt_int_field :: "(string, json) dict \<Rightarrow> string \<Rightarrow> exn + int option" where
  "opt_int_field b k = (case map_of b k of
       None \<Rightarrow> Inr None
     | Some JNull \<Rightarrow> Inr None
     | Some v \<Rightarrow> rbind (py_int v) (\<lambda>i. Inr (Some i)))"

definition opt_uuid_field :: "(string, json) dict \<Rightarrow> string \<Rightarrow> exn + uuid option" where
  "opt_uuid_field b k = (case map_of b k of
       None \<Rightarrow> Inr None
     | Some v \<Rightarrow> if truthy v then rbind (py_uuid (json_text v)) (\<lambda>u. Inr (Some u)) else Inr None)"

section \<open>The verify call\<close>

record verify_request =
  vq_intent_id :: uuid
  vq_token :: string
  vq_operation :: string
  vq_requested_spend_cents :: int
  vq_vendor_id :: "string option"
  vq_task_id :: "string option"
  vq_workflow_id :: "string option"
  vq_tool_call_id :: "string option"
  vq_tool_name :: "string option"
  vq_currency :: "string option"
  vq_agent_subject :: "string option"
  vq_approval_token :: "string option"
  vq_idempotency_key :: "string option"
  vq_model_family :: "string option"
  vq_config_hash_hex :: "string option"
  vq_prompt_hash_hex :: "string option"

definition opt_field :: "string \<Rightarrow> string option \<Rightarrow> (string, json) dict" where
  "opt_field k v = (case v of
       None \<Rightarrow> []
     | Some s \<Rightarrow> if strip s = [] then [] else [(k, JStr (strip s))])"

definition opt_field_lower :: "string \<Rightarrow> string option \<Rightarrow> (string, json) dict" where
  "opt_field_lower k v = (case v of
       None \<Rightarrow> []
     | Some s \<Rightarrow> if strip s = [] then [] else [(k, JStr (lower (strip s)))])"

definition verify_capability_payload :: "verify_request \<Rightarrow> (string, json) dict" where
  "verify_capability_payload q =
     [(''intent_id'', JStr (uuid_str (vq_intent_id q))),
      (''token'', JStr (vq_token q)),
      (''operation'', JStr (vq_operation q)),
      (''requested_spend_cents'', JInt (vq_requested_spend_cents q))]
     @ opt_field ''vendor_id'' (vq_vendor_id q)
     @ opt_field ''task_id'' (vq_task_id q)
     @ opt_field ''workflow_id'' (vq_workflow_id q)
     @ opt_field ''tool_call_id'' (vq_tool_call_id q)
     @ opt_field ''tool_name'' (vq_tool_name q)
     @ opt_field ''currency'' (vq_currency q)
     @ opt_field ''agent_subject'' (vq_agent_subject q)
     @ opt_field ''approval_token'' (vq_approval_token q)
     @ opt_field ''idempotency_key'' (vq_idempotency_key q)
     @ opt_field ''model_family'' (vq_model_family q)
     @ opt_field_lower ''config_hash_hex'' (vq_config_hash_hex q)
     @ opt_field_lower ''prompt_hash_hex'' (vq_prompt_hash_hex q)"

definition require_json_bool :: "(string, json) dict \<Rightarrow> string \<Rightarrow> exn + bool" where
  "require_json_bool b k = (case map_of b k of
       Some (JBool v) \<Rightarrow> Inr v
     | _ \<Rightarrow> Inl (ValueError (k @ '' must be a JSON boolean'')))"

lemma require_json_bool_Inr [res_iff]:
  "require_json_bool b k = Inr v \<longleftrightarrow> map_of b k = Some (JBool v)"
  by (auto simp: require_json_bool_def split: option.splits json.splits)

text \<open>\<open>tuple(str(code) for code in body.get("reason_codes") or ())\<close>: iterates whatever is there.\<close>

definition reason_codes_of :: "json option \<Rightarrow> exn + string list" where
  "reason_codes_of v = (case v of
       None \<Rightarrow> Inr []
     | Some j \<Rightarrow>
         if \<not> truthy j then Inr []
         else (case j of
             JArr l \<Rightarrow> Inr (List.map json_text l)
           | JStr s \<Rightarrow> Inr (List.map (\<lambda>c. [c]) s)
           | JObj d \<Rightarrow> Inr (keys d)
           | _ \<Rightarrow> Inl (TypeError ''object is not iterable'')))"

definition str_get :: "(string, json) dict \<Rightarrow> string \<Rightarrow> string" where
  "str_get d k = (case map_of d k of None \<Rightarrow> [] | Some v \<Rightarrow> json_text v)"

definition spend_scope_of :: "json option \<Rightarrow> (string \<times> string) option" where
  "spend_scope_of v = (case v of
       Some (JObj d) \<Rightarrow> Some (str_get d ''scope_type'', str_get d ''scope_key'')
     | _ \<Rightarrow> None)"

definition json_get :: "(string, json) dict \<Rightarrow> string \<Rightarrow> json" where
  "json_get d k = (case map_of d k of None \<Rightarrow> JNull | Some v \<Rightarrow> v)"

definition parse_verify_capability_result ::
  "string \<Rightarrow> uuid \<Rightarrow> (string, json) dict \<Rightarrow> exn + verify_result" where
  "parse_verify_capability_result expected_tenant expected_intent b =
     rbind (body_item b ''tenant'') (\<lambda>tj.
     rbind (body_item b ''intent_id'') (\<lambda>ij.
     rbind (py_uuid (json_text ij)) (\<lambda>rid.
     rbind (ensure (json_text tj = expected_tenant)
             (TenantBindingError (''verify tenant mismatch: client='' @ py_repr expected_tenant @
                '' remote='' @ py_repr (json_text tj)))) (\<lambda>_.
     rbind (ensure (rid = expected_intent)
             (TenantBindingError (''verify intent mismatch: requested='' @ uuid_str expected_intent @
                '' remote='' @ uuid_str rid))) (\<lambda>_.
     rbind (reason_codes_of (map_of b ''reason_codes'')) (\<lambda>codes.
     rbind (opt_uuid_field b ''decision_id'') (\<lambda>decision.
     rbind (opt_uuid_field b ''approval_request_id'') (\<lambda>approval.
     rbind (opt_int_field b ''policy_version'') (\<lambda>version.
     rbind (opt_int_field b ''remaining_cents'') (\<lambda>remaining.
     rbind (opt_int_field b ''retry_after'') (\<lambda>retry.
     rbind (require_json_bool b ''allow'') (\<lambda>allow.
     rbind (body_item b ''audit_id'') (\<lambda>aj.
     rbind (py_uuid (json_text aj)) (\<lambda>audit.
     Inr \<lparr>vr_allow = allow, vr_audit_id = audit, vr_tenant = json_text tj, vr_intent_id = rid,
          vr_code = json_get b ''code'', vr_message = json_get b ''message'',
          vr_decision_id = decision, vr_approval_request_id = approval,
          vr_policy_version = version, vr_reason_codes = codes,
          vr_spend_scope = spend_scope_of (map_of b ''spend_scope''),
          vr_remaining_cents = remaining, vr_retry_after = retry\<rparr>))))))))))))))"

text \<open>
  What every call does with the outcome of its exchange: a status of 400 or more and a body
  that is not a JSON object are errors.  The Harbor client appends the body text to the
  message of an error status, the sandbox client does not.
\<close>

definition http_error_message :: "bool \<Rightarrow> string \<Rightarrow> http_response \<Rightarrow> string" where
  "http_error_message with_text what r =
     ''Gateway '' @ what @ '' HTTP '' @ str_int (hr_status r) @
     (if with_text then '': '' @ hr_text r else [])"

definition json_object_response ::
  "bool \<Rightarrow> string \<Rightarrow> exn + http_response \<Rightarrow> exn + (string, json) dict" where
  "json_object_response with_text what out =
     rbind out (\<lambda>r.
       if hr_status r \<ge> 400 then
         Inl (HarborHttpError (http_error_message with_text what r) (hr_status r))
       else (case hr_json r of
           None \<Rightarrow> Inl (ValueError ''JSONDecodeError'')
         | Some (JObj b) \<Rightarrow> Inr b
         | Some _ \<Rightarrow> Inl (HarborHttpError (''Gateway '' @ what @ '' response was not a JSON object'')
                           (hr_status r))))"

lemma json_object_response_Inr [res_iff]:
  "json_object_response wt what out = Inr b \<longleftrightarrow>
     (\<exists>r. out = Inr r \<and> hr_status r < 400 \<and> hr_json r = Some (JObj b))"
proof (cases out)
  case (Inl e)
  then show ?thesis by (simp add: json_object_response_def)
next
  case (Inr r)
  then show ?thesis
    by (cases "hr_json r") (auto simp: json_object_response_def split: json.splits)
qed

definition verify_capability :: "string \<Rightarrow> verify_request \<Rightarrow> exn + http_response \<Rightarrow> exn + verify_result" where
  "verify_capability tenant q out =
     rbind (json_object_response True ''verify'' out)
       (parse_verify_capability_result tenant (vq_intent_id q))"

section \<open>The other calls of the Harbor client\<close>

definition get_intent :: "string \<Rightarrow> exn + http_response \<Rightarrow> exn + (string, json) dict" where
  "get_intent tenant out =
     rbind (json_object_response True ''Harbor get intent'' out) (\<lambda>b.
     rbind (ensure (strip (str_get b ''tenant_id'') = tenant)
             (TenantBindingError (''intent tenant mismatch: client='' @ py_repr tenant @
                '' remote='' @ py_repr (strip (str_get b ''tenant_id''))))) (\<lambda>_. Inr b))"

datatype spend_outcome = Consumed | Released

definition complete_spend_decision :: "exn + http_response \<Rightarrow> exn + unit" where
  "complete_spend_decision out =
     rbind out (\<lambda>r.
       if hr_status r \<ge> 400 then
         Inl (HarborHttpError (http_error_message True ''spend complete'' r) (hr_status r))
       else Inr ())"

definition submit_evidence :: "string \<Rightarrow> uuid \<Rightarrow> exn + http_response \<Rightarrow> exn + (string, json) dict" where
  "submit_evidence tenant intent out =
     rbind (json_object_response True ''Harbor evidence'' out) (\<lambda>b.
     rbind (ensure (str_get b ''tenant'' = tenant) (ValueError (''evidence tenant mismatch: client='' @
             py_repr tenant @ '' gateway='' @ py_repr (str_get b ''tenant'')))) (\<lambda>_.
     rbind (ensure (str_get b ''intent_id'' = uuid_str intent) (ValueError (''evidence intent mismatch: requested='' @
             uuid_str intent @ '' gateway='' @ str_get b ''intent_id'')))
       (\<lambda>_. Inr b)))"

section \<open>Sandbox guardrails\<close>

record sandbox_bootstrap_result =
  sb_tenant_id :: string
  sb_intent_id :: uuid
  sb_capability_token :: string
  sb_operation :: string
  sb_requested_spend_cents :: int
  sb_lifecycle_status :: string
  sb_currency :: "string option"
  sb_settlement_rail :: "string option"
  sb_settlement_mode :: "string option"
  sb_simulator_event :: "json option"

record schema_validation =
  sv_vendor_schema_ok :: bool
  sv_canonical_schema_ok :: bool
  sv_quality_fields_missing :: "string list"
  sv_pack_stale :: bool
  sv_drift_kinds :: "string list"

record sandbox_evidence_result =
  se_tenant_id :: string
  se_intent_id :: uuid
  se_operation :: string
  se_requested_spend_cents :: int
  se_lifecycle_status :: string
  se_capability_token :: "string option"
  se_settlement_rail :: "string option"
  se_settlement_mode :: "string option"
  se_predicate_passed :: "bool option"
  se_payload_digest :: "string option"
  se_artifacts_digest :: "string option"
  se_schema_validation :: "schema_validation option"
  se_simulator_event :: "json option"
  se_agent_receipt :: "json option"
  se_agent_receipt_terminal :: "json option"

definition missing_field :: "int \<Rightarrow> string \<Rightarrow> exn" where
  "missing_field status k =
     HarborHttpError (''Gateway sandbox guardrail response missing '' @ k) status"

definition required_string :: "int \<Rightarrow> (string, json) dict \<Rightarrow> string \<Rightarrow> exn + string" where
  "required_string status b k = (case map_of b k of
       Some (JStr s) \<Rightarrow> if strip s = [] then Inl (missing_field status k) else Inr s
     | _ \<Rightarrow> Inl (missing_field status k))"

lemma required_string_Inr [res_iff]:
  "required_string st b k = Inr s \<longleftrightarrow> map_of b k = Some (JStr s) \<and> strip s \<noteq> []"
  by (auto simp: required_string_def split: option.splits json.splits if_splits)

definition required_int :: "int \<Rightarrow> (string, json) dict \<Rightarrow> string \<Rightarrow> exn + int" where
  "required_int status b k = (case map_of b k of
       Some (JInt i) \<Rightarrow> Inr i
     | _ \<Rightarrow> Inl (missing_field status k))"

lemma required_int_Inr [res_iff]: "required_int st b k = Inr i \<longleftrightarrow> map_of b k = Some (JInt i)"
  by (auto simp: required_int_def split: option.splits json.splits)

definition optional_string :: "json option \<Rightarrow> string option" where
  "optional_string v = (case v of
       Some (JStr s) \<Rightarrow> if strip s = [] then None else Some s
     | _ \<Rightarrow> None)"

definition optional_mapping :: "json option \<Rightarrow> json option" where
  "optional_mapping v = (case v of Some (JObj d) \<Rightarrow> Some (JObj d) | _ \<Rightarrow> None)"

definition optional_bool :: "json option \<Rightarrow> bool option" where
  "optional_bool v = (case v of Some (JBool x) \<Rightarrow> Some x | _ \<Rightarrow> None)"

definition string_items :: "json option \<Rightarrow> string list" where
  "string_items v = (case v of Some (JArr l) \<Rightarrow> List.map_filter as_str l | _ \<Rightarrow> [])"

definition parse_schema_validation :: "json option \<Rightarrow> schema_validation option" where
  "parse_schema_validation v = (case v of
       Some (JObj d) \<Rightarrow>
         (case (map_of d ''vendor_schema_ok'', map_of d ''canonical_schema_ok'') of
            (Some (JBool vok), Some (JBool cok)) \<Rightarrow>
              Some \<lparr>sv_vendor_schema_ok = vok, sv_canonical_schema_ok = cok,
                    sv_quality_fields_missing = string_items (map_of d ''quality_fields_missing''),
                    sv_pack_stale = truthy (json_get d ''pack_stale''),
                    sv_drift_kinds = string_items (map_of d ''drift_kinds'')\<rparr>
          | _ \<Rightarrow> None)
     | _ \<Rightarrow> None)"

definition parse_sandbox_bootstrap_result ::
  "string \<Rightarrow> int \<Rightarrow> (string, json) dict \<Rightarrow> exn + sandbox_bootstrap_result" where
  "parse_sandbox_bootstrap_result tenant_id st b =
     rbind (required_string st b ''tenant_id'') (\<lambda>tenant.
     rbind (ensure (tenant = tenant_id)
             (TenantBindingError (''sandbox guardrail tenant mismatch: client='' @ py_repr tenant_id @
                '' gateway='' @ py_repr tenant))) (\<lambda>_.
     rbind (required_string st b ''intent_id'') (\<lambda>ist.
     rbind (py_uuid ist) (\<lambda>intent.
     rbind (required_string st b ''capability_token'') (\<lambda>token.
     rbind (required_string st b ''operation'') (\<lambda>op.
     rbind (required_int st b ''requested_spend_cents'') (\<lambda>cents.
     rbind (required_string st b ''sandbox_lifecycle_status'') (\<lambda>life.
     Inr \<lparr>sb_tenant_id = tenant, sb_intent_id = intent, sb_capability_token = token,
          sb_operation = op, sb_requested_spend_cents = cents, sb_lifecycle_status = life,
          sb_currency = optional_string (map_of b ''currency''),
          sb_settlement_rail = optional_string (map_of b ''settlement_rail''),
          sb_settlement_mode = optional_string (map_of b ''settlement_mode''),
          sb_simulator_event = optional_mapping (map_of b ''simulator_event'')\<rparr>))))))))"

definition parse_sandbox_evidence_result ::
  "string \<Rightarrow> uuid \<Rightarrow> int \<Rightarrow> (string, json) dict \<Rightarrow> exn + sandbox_evidence_result" where
  "parse_sandbox_evidence_result tenant_id intent_id st b =
     rbind (required_string st b ''tenant_id'') (\<lambda>tenant.
     rbind (ensure (tenant = tenant_id)
             (TenantBindingError (''sandbox guardrail tenant mismatch: client='' @ py_repr tenant_id @
                '' gateway='' @ py_repr tenant))) (\<lambda>_.
     rbind (required_string st b ''intent_id'') (\<lambda>ist.
     rbind (py_uuid ist) (\<lambda>echoed.
     rbind (ensure (echoed = intent_id)
             (TenantBindingError (''sandbox guardrail intent mismatch: requested='' @ uuid_str intent_id @
                '' gateway='' @ uuid_str echoed))) (\<lambda>_.
     rbind (required_string st b ''operation'') (\<lambda>op.
     rbind (required_int st b ''requested_spend_cents'') (\<lambda>cents.
     rbind (required_string st b ''sandbox_lifecycle_status'') (\<lambda>life.
     Inr \<lparr>se_tenant_id = tenant, se_intent_id = echoed, se_operation = op,
          se_requested_spend_cents = cents, se_lifecycle_status = life,
          se_capability_token = optional_string (map_of b ''capability_token''),
          se_settlement_rail = optional_string (map_of b ''settlement_rail''),
          se_settlement_mode = optional_string (map_of b ''settlement_mode''),
          se_predicate_passed = optional_bool (map_of b ''predicate_passed''),
          se_payload_digest = optional_string (map_of b ''payload_digest''),
          se_artifacts_digest = optional_string (map_of b ''artifacts_digest''),
          se_schema_validation = parse_schema_validation (map_of b ''schema_validation''),
          se_simulator_event = optional_mapping (map_of b ''simulator_event''),
          se_agent_receipt = optional_mapping (map_of b ''agent_receipt''),
          se_agent_receipt_terminal =
            optional_mapping (map_of b ''agent_receipt_intent_terminal'')\<rparr>))))))))"

definition out_status :: "exn + http_response \<Rightarrow> int" where
  "out_status out = (case out of Inr r \<Rightarrow> hr_status r | Inl _ \<Rightarrow> 0)"

definition bootstrap_sandbox :: "string \<Rightarrow> exn + http_response \<Rightarrow> exn + sandbox_bootstrap_result" where
  "bootstrap_sandbox tenant out =
     rbind (json_object_response False ''sandbox guardrail bootstrap'' out)
       (parse_sandbox_bootstrap_result tenant (out_status out))"

definition submit_sandbox_evidence ::
  "string \<Rightarrow> uuid \<Rightarrow> exn + http_response \<Rightarrow> exn + sandbox_evidence_result" where
  "submit_sandbox_evidence tenant intent out =
     rbind (json_object_response False ''sandbox guardrail evidence'' out)
       (parse_sandbox_evidence_result tenant intent (out_status out))"

section \<open>Request bodies of the sandbox calls\<close>

definition opt_json :: "string \<Rightarrow> json option \<Rightarrow> (string, json) dict" where
  "opt_json k v = (case v of None \<Rightarrow> [] | Some j \<Rightarrow> [(k, j)])"

definition opt_str :: "string \<Rightarrow> string option \<Rightarrow> (string, json) dict" where
  "opt_str k v = opt_json k (map_option JStr v)"

record bootstrap_input =
  bi_kind :: string
  bi_operation :: string
  bi_requested_spend_cents :: int
  bi_completion_preset :: "string option"
  bi_template_id :: "string option"
  bi_parameters :: "json option"
  bi_currency :: "string option"
  bi_evidence_schema :: "json option"
  bi_metadata :: "json option"
  bi_idempotency_key :: "string option"

definition bootstrap_sandbox_payload :: "bootstrap_input \<Rightarrow> (string, json) dict" where
  "bootstrap_sandbox_payload i =
     [(''operation'', JStr (bi_operation i)),
      (''requested_spend_cents'', JInt (bi_requested_spend_cents i))]
     @ opt_str ''currency'' (bi_currency i)
     @ (if bi_completion_preset i = None then opt_json ''evidence_schema'' (bi_evidence_schema i) else [])
     @ opt_json ''metadata'' (bi_metadata i)
     @ (case bi_completion_preset i of
          Some p \<Rightarrow> [(''completion_preset'', JStr p)]
        | None \<Rightarrow> (case bi_template_id i of
            None \<Rightarrow> []
          | Some t \<Rightarrow> (''template_id'', JStr t) # opt_json ''parameters'' (bi_parameters i)))"

definition sandbox_evidence_body ::
  "json option \<Rightarrow> json option \<Rightarrow> string list option \<Rightarrow> string option \<Rightarrow> int option \<Rightarrow> json option \<Rightarrow>
   (string, json) dict" where
  "sandbox_evidence_body payload vendor_payload artifacts operation cents metadata =
     opt_json ''payload'' payload @ opt_json ''vendor_payload'' vendor_payload
     @ opt_json ''artifacts'' (map_option (\<lambda>l. JArr (List.map JStr l)) artifacts)
     @ opt_str ''operation'' operation
     @ opt_json ''requested_spend_cents'' (map_option JInt cents)
     @ opt_json ''metadata'' metadata"

section \<open>What a returned answer guarantees\<close>

lemma verify_capability_binding:
  "verify_capability tenant q out = Inr r \<Longrightarrow> vr_tenant r = tenant \<and> vr_intent_id r = vq_intent_id q"
  by (auto simp: verify_capability_def parse_verify_capability_result_def res_iff)

lemma submit_sandbox_evidence_binding:
  "submit_sandbox_evidence tenant intent out = Inr r \<Longrightarrow>
     se_tenant_id r = tenant \<and> se_intent_id r = intent"
  by (auto simp: submit_sandbox_evidence_def parse_sandbox_evidence_result_def res_iff)

lemma bootstrap_sandbox_binding:
  "bootstrap_sandbox tenant out = Inr r \<Longrightarrow>
     sb_tenant_id r = tenant \<and> wf_uuid (sb_intent_id r) \<and> strip (sb_capability_token r) \<noteq> [] \<and>
     strip (sb_operation r) \<noteq> []"
  by (auto simp: bootstrap_sandbox_def parse_sandbox_bootstrap_result_def res_iff parse_uuid_wf)

lemma submit_evidence_binding:
  "submit_evidence tenant intent out = Inr b \<Longrightarrow>
     str_get b ''tenant'' = tenant \<and> str_get b ''intent_id'' = uuid_str intent"
  by (auto simp: submit_evidence_def res_iff)

lemma get_intent_binding:
  "get_intent tenant out = Inr b \<Longrightarrow> strip (str_get b ''tenant_id'') = tenant"
  by (auto simp: get_intent_def res_iff)

end
