(* ===== verification/Spend_Guard.thy ===== *)
theory Spend_Guard
  imports Harbor_Client
begin

text \<open>
  \<open>spend_guard.py\<close>: the guard asks Harbor whether an operation may spend, turns a refusal
  into an exception, and finalizes the decision's reservation once the guarded handler has
  run or failed.  The effects of a guarded call are recorded in order as \<open>guard_event\<close>s.
\<close>

section \<open>The guard\<close>

record spend_guard =
  sg_tenant_id :: string
  sg_finalizes :: bool  \<comment> \<open>the Harbor client has \<open>complete_spend_decision\<close>\<close>
  sg_intent_id :: uuid
  sg_capability_token :: string

text \<open>\<open>PaybondSpendGuard.__init__\<close>: a source, or all three of harbor, intent and token.\<close>

definition make_spend_guard ::
  "spend_guard option \<Rightarrow> (string \<times> bool) option \<Rightarrow> uuid option \<Rightarrow> string option \<Rightarrow> exn + spend_guard" where
  "make_spend_guard source harbor intent_id capability_token =
     (case source of
        Some src \<Rightarrow>
          if harbor \<noteq> None \<or> intent_id \<noteq> None \<or> capability_token \<noteq> None
          then Inl (ValueError ''pass either source or harbor/intent_id/capability_token'')
          else Inr src
      | None \<Rightarrow> (case (harbor, intent_id, capability_token) of
            (Some (tenant, fin), Some i, Some t) \<Rightarrow>
              Inr \<lparr>sg_tenant_id = tenant, sg_finalizes = fin, sg_intent_id = i,
                   sg_capability_token = t\<rparr>
          | _ \<Rightarrow> Inl (ValueError ''harbor, intent_id, and capability_token are required'')))"

text \<open>The keyword arguments of one authorization.\<close>

record auth_kwargs =
  ak_operation :: string
  ak_requested_spend_cents :: int
  ak_vendor_id :: "string option"
  ak_task_id :: "string option"
  ak_workflow_id :: "string option"
  ak_tool_call_id :: "string option"
  ak_tool_name :: "string option"
  ak_currency :: "string option"
  ak_agent_subject :: "string option"
  ak_approval_token :: "string option"
  ak_idempotency_key :: "string option"
  ak_model_family :: "string option"
  ak_config_hash_hex :: "string option"
  ak_prompt_hash_hex :: "string option"

definition verify_spend_capability :: "spend_guard \<Rightarrow> auth_kwargs \<Rightarrow> verify_request" where
  "verify_spend_capability g k =
     \<lparr>vq_intent_id = sg_intent_id g, vq_token = sg_capability_token g,
      vq_operation = ak_operation k, vq_requested_spend_cents = ak_requested_spend_cents k,
      vq_vendor_id = ak_vendor_id k, vq_task_id = ak_task_id k,
      vq_workflow_id = ak_workflow_id k, vq_tool_call_id = ak_tool_call_id k,
      vq_tool_name = ak_tool_name k, vq_currency = ak_currency k,
      vq_agent_subject = ak_agent_subject k, vq_approval_token = ak_approval_token k,
      vq_idempotency_key = ak_idempotency_key k, vq_model_family = ak_model_family k,
      vq_config_hash_hex = ak_config_hash_hex k, vq_prompt_hash_hex = ak_prompt_hash_hex k\<rparr>"

definition authorize_spend :: "spend_guard \<Rightarrow> auth_kwargs \<Rightarrow> exn + http_response \<Rightarrow> exn + verify_result" where
  "authorize_spend g k out = verify_capability (sg_tenant_id g) (verify_spend_capability g k) out"

definition assert_spend_authorized ::
  "spend_guard \<Rightarrow> auth_kwargs \<Rightarrow> exn + http_response \<Rightarrow> exn + verify_result" where
  "assert_spend_authorized g k out =
     rbind (authorize_spend g k out) (\<lambda>r.
       if \<not> vr_allow r then
         (if approval_required r then Inl (SpendApprovalRequired r) else Inl (SpendDenied r))
       else Inr r)"

definition complete_spend_authorization :: "spend_guard \<Rightarrow> exn + http_response \<Rightarrow> exn + unit" where
  "complete_spend_authorization g out =
     (if \<not> sg_finalizes g
      then Inl (RuntimeError (''spend decision finalization required but '' @
             ''harbor.complete_spend_decision is unavailable''))
      else complete_spend_decision out)"

section \<open>Guarded handlers\<close>

datatype guard_event =
    AskedHarbor verify_request
  | HandlerRan
  | Finalized uuid spend_outcome bool  \<comment> \<open>decision, outcome, and whether Harbor accepted it\<close>

text \<open>
  The \<open>except Exception\<close> clause: release the reservation, swallow an exception of the release,
  and raise the exception that was caught.
\<close>

definition release_and_raise ::
  "spend_guard \<Rightarrow> uuid option \<Rightarrow> exn + http_response \<Rightarrow> exn \<Rightarrow> (exn + 'a) \<times> guard_event list" where
  "release_and_raise g decision rel e =
     (if \<not> is_exception e then (Inl e, [])
      else (case decision of
          None \<Rightarrow> (Inl e, [])
        | Some d \<Rightarrow>
            (case complete_spend_authorization g rel of
               Inr _ \<Rightarrow> (Inl e, [Finalized d Released True])
             | Inl e' \<Rightarrow> (if is_exception e' then Inl e else Inl e', [Finalized d Released False]))))"

text \<open>
  The function \<open>guard_tool\<close> returns, called once: \<open>out\<close> answers the verify request, \<open>handler\<close>
  is what the handler returns or raises, \<open>cons\<close> and \<open>rel\<close> answer the two finalizations.
\<close>

definition guard_tool ::
  "spend_guard \<Rightarrow> auth_kwargs \<Rightarrow> exn + http_response \<Rightarrow> exn + json \<Rightarrow> exn + http_response \<Rightarrow>
   exn + http_response \<Rightarrow> (exn + json) \<times> guard_event list" where
  "guard_tool g k out handler cons rel =
     (let asked = [AskedHarbor (verify_spend_capability g k)] in
      case assert_spend_authorized g k out of
        Inl e \<Rightarrow> (Inl e, asked)
      | Inr auth \<Rightarrow>
          (case handler of
             Inl e \<Rightarrow>
               (let (res, evs) = release_and_raise g (vr_decision_id auth) rel e
                in (res, asked @ [HandlerRan] @ evs))
           | Inr v \<Rightarrow>
               (case vr_decision_id auth of
                  None \<Rightarrow> (Inr v, asked @ [HandlerRan])
                | Some d \<Rightarrow>
                    (case complete_spend_authorization g cons of
                       Inr _ \<Rightarrow> (Inr v, asked @ [HandlerRan, Finalized d Consumed True])
                     | Inl e \<Rightarrow>
                         (let (res, evs) = release_and_raise g (Some d) rel e
                          in (res, asked @ [HandlerRan, Finalized d Consumed False] @ evs))))))"

section \<open>Lemmas\<close>

lemma assert_spend_authorized_Inr:
  "assert_spend_authorized g k out = Inr r \<longleftrightarrow> authorize_spend g k out = Inr r \<and> vr_allow r"
  by (auto simp: assert_spend_authorized_def rbind_Inr_iff split: if_splits)

lemma assert_spend_authorized_binding:
  assumes "assert_spend_authorized g k out = Inr r"
  shows "vr_allow r" "vr_tenant r = sg_tenant_id g" "vr_intent_id r = sg_intent_id g"
  using assms verify_capability_binding[of "sg_tenant_id g" "verify_spend_capability g k" out r]
  by (auto simp: assert_spend_authorized_Inr authorize_spend_def verify_spend_capability_def)

lemma release_and_raise_events:
  "snd (release_and_raise g decision rel e) = evs \<Longrightarrow> HandlerRan \<notin> set evs \<and> length evs \<le> 1"
  by (auto simp: release_and_raise_def split: if_splits option.splits sum.splits)

lemma guard_tool_ran:
  "HandlerRan \<in> set (snd (guard_tool g k out handler cons rel)) \<longleftrightarrow>
     is_inr (assert_spend_authorized g k out)"
  by (auto simp: guard_tool_def Let_def case_prod_unfold release_and_raise_events
      split: sum.splits option.splits)

end
