(* ===== verification/Run_Binding.thy ===== *)
theory Run_Binding
  imports Policy_Snapshot Auth_Cache Spend_Guard
begin

text \<open>
  The run-scoped data of \<open>agent/types.py\<close> and \<open>agent/interceptor.py\<close>: the binding of a run, the
  input of a tool call, the decision and the results the interceptor returns, the trace it
  emits, and the unsigned receipt draft it composes after a call.

  Cryptography and RFC 8785 encoding are parameters, collected in \<open>kit_env\<close>: SHA-256, the
  digest of a JSON value, the message digest of a receipt, the two signers of production
  evidence, the resolver of external attestations and the formatting of timestamps.
\<close>

section \<open>The binding\<close>

record sandbox_binding =
  sx_operation :: string
  sx_requested_spend_cents :: int
  sx_lifecycle_status :: string

record production_evidence =
  pe_payee_did :: string
  pe_payee_signing_seed :: string
  pe_agent_recognition_key_id :: string
  pe_agent_recognition_signing_seed :: string

record agent_context =
  ag_model_family :: string
  ag_model_instance_id :: "string option"
  ag_config_hash_hex :: "string option"
  ag_prompt_hash_hex :: "string option"
  ag_principal_did :: "string option"
  ag_operator_did :: "string option"
  ag_policy_template_id :: "string option"

record run_binding =
  bd_run_id :: string
  bd_tenant_id :: string
  bd_intent_id :: uuid
  bd_capability_token :: string
  bd_guard :: spend_guard
  bd_registry :: registry
  bd_allowed_tools :: "string list"
  bd_sandbox :: "sandbox_binding option"
  bd_production_evidence :: "production_evidence option"
  bd_policy_snapshot :: "snapshot option"
  bd_agent_context :: "agent_context option"

record kit_env =
  env_catalog :: catalog
  env_sha256 :: "string \<Rightarrow> string"
  env_value_digest :: "json \<Rightarrow> exn + string"
  env_message_digest :: "json \<Rightarrow> exn + string"
  env_rfc3339 :: "int \<Rightarrow> string"
  env_attest :: "json list \<Rightarrow> exn + json list"
  env_sign_wire :: "string \<Rightarrow> uuid \<Rightarrow> production_evidence \<Rightarrow> (string, json) dict \<Rightarrow> string \<Rightarrow> exn + json"
  env_sign_proof :: "string \<Rightarrow> string \<Rightarrow> json \<Rightarrow> production_evidence \<Rightarrow> exn + json"

section \<open>Calls and decisions\<close>

record call_input =
  ci_tool_name :: string
  ci_tool_call_id :: string
  ci_arguments :: json
  ci_operation :: "string option"
  ci_requested_spend_cents :: "int option"
  ci_vendor_id :: "string option"
  ci_task_id :: "string option"
  ci_workflow_id :: "string option"
  ci_currency :: "string option"
  ci_agent_subject :: "string option"
  ci_approval_token :: "string option"
  ci_idempotency_key :: "string option"

datatype decision =
    Allow_Passthrough string  \<comment> \<open>operation\<close>
  | Allow string uuid "uuid option" "string option"  \<comment> \<open>operation, audit, decision, policy digest\<close>
  | Deny string json "uuid option" json  \<comment> \<open>operation, message, audit, code\<close>
  | Approval_Required string json uuid json

datatype trace_event =
    Tool_Selected string string string  \<comment> \<open>tool name, tool call id, operation\<close>
  | Approval_Trace string string json uuid json
  | Spend_Denied_Trace string string json uuid json
  | Spend_Authorized string string uuid "uuid option" "int option"
  | Tool_Executed string string int
  | Spend_Finalized string string spend_outcome
  | Evidence_Submitted string string string string "int option" "string option" "bool option" "json list"

record compose_result =
  cr_compose_status :: string
  cr_receipt_id :: "string option"
  cr_scope :: "string option"
  cr_warning_code :: "string option"
  cr_warning_message :: "string option"

record evidence_result =
  iv_intent_id :: string
  iv_predicate_passed :: "bool option"
  iv_sandbox_lifecycle_status :: "string option"
  iv_intent_state :: "string option"
  iv_payload_digest :: "string option"
  iv_artifacts_digest :: "string option"
  iv_agent_receipt :: "compose_result option"
  iv_agent_receipt_intent_terminal :: "compose_result option"

record authorization_info =
  au_audit_id :: uuid
  au_decision_id :: "uuid option"
  au_policy_digest :: "string option"

record wrap_result =
  wr_tool_result :: json
  wr_authorization :: "authorization_info option"
  wr_evidence :: "evidence_result option"
  wr_receipt_draft :: "json option"

text \<open>\<open>a or b\<close> on optional strings.\<close>

definition opt_or :: "string option \<Rightarrow> string option \<Rightarrow> string option" where
  "opt_or a b = (if a = None \<or> a = Some [] then b else a)"

definition parse_agent_receipt_compose_result :: "json option \<Rightarrow> compose_result option" where
  "parse_agent_receipt_compose_result value = (case value of
       Some (JObj d) \<Rightarrow>
         (case map_of d ''compose_status'' of
            Some (JStr st) \<Rightarrow>
              if st \<in> set [''composed'', ''failed'']
              then Some \<lparr>cr_compose_status = st,
                     cr_receipt_id = Option.bind (map_of d ''receipt_id'') as_str,
                     cr_scope = Option.bind (map_of d ''scope'') as_str,
                     cr_warning_code = Option.bind (map_of d ''warning_code'') as_str,
                     cr_warning_message = Option.bind (map_of d ''warning_message'') as_str\<rparr>
              else None
          | _ \<Rightarrow> None)
     | _ \<Rightarrow> None)"

definition evidence_idempotency_key :: "uuid \<Rightarrow> string \<Rightarrow> string" where
  "evidence_idempotency_key intent tool_call_id = ''evidence:'' @ uuid_str intent @ '':'' @ tool_call_id"

definition assert_operation_allowed :: "string \<Rightarrow> string list \<Rightarrow> exn + unit" where
  "assert_operation_allowed operation allowed =
     ensure (operation \<in> set allowed)
       (RuntimeError (''operation '' @ quoted operation @ '' is not in bound intent allowedTools ('' @
          py_join '', '' allowed @ '')''))"

definition spend_error_message :: "exn \<Rightarrow> verify_result \<Rightarrow> json" where
  "spend_error_message e r = json_or (vr_message r) (json_or (vr_code r) (JStr (exn_str e)))"

definition map_spend_error_to_decision :: "exn \<Rightarrow> verify_result \<Rightarrow> string \<Rightarrow> bool \<Rightarrow> decision" where
  "map_spend_error_to_decision e r operation approval =
     (if approval then Approval_Required operation (spend_error_message e r) (vr_audit_id r) (vr_code r)
      else Deny operation (spend_error_message e r) (Some (vr_audit_id r)) (vr_code r))"

section \<open>Receipt drafts\<close>

definition action_receipt_id :: "(string \<Rightarrow> string) \<Rightarrow> string \<Rightarrow> string \<Rightarrow> string" where
  "action_receipt_id sha256 intent_id tool_call_id = sha256 (intent_id @ CHR 0x00 # tool_call_id)"

definition present :: "string option \<Rightarrow> bool" where
  "present s \<longleftrightarrow> s \<noteq> None \<and> s \<noteq> Some []"

record draft_input =
  di_tool_name :: string
  di_tool_call_id :: string
  di_operation :: string
  di_arguments :: json
  di_agent_subject :: "string option"
  di_requested_spend_cents :: "int option"
  di_currency :: "string option"
  di_vendor_id :: "string option"
  di_preset :: string
  di_auth :: verify_result
  di_authorized_at_ms :: int
  di_policy_digest :: "string option"
  di_started_ms :: int
  di_completed_ms :: int
  di_tool_result :: json
  di_attestations :: "json list"

text \<open>The fields a draft needs; without them the code returns None.\<close>

definition draft_ready :: "run_binding \<Rightarrow> draft_input \<Rightarrow> bool" where
  "draft_ready b i \<longleftrightarrow> (case bd_agent_context b of
       None \<Rightarrow> False
     | Some a \<Rightarrow> present (ag_operator_did a) \<and> present (ag_principal_did a) \<and>
         present (ag_policy_template_id a) \<and> present (ag_config_hash_hex a) \<and>
         present (ag_prompt_hash_hex a) \<and> vr_decision_id (di_auth i) \<noteq> None \<and>
         present (di_policy_digest i))"

definition opt_jstr :: "string option \<Rightarrow> json" where
  "opt_jstr s = (case s of None \<Rightarrow> JNull | Some x \<Rightarrow> JStr x)"

definition draft_authorization :: "kit_env \<Rightarrow> agent_context \<Rightarrow> draft_input \<Rightarrow> json" where
  "draft_authorization env a i = JObj
     [(''principal_did'', opt_jstr (ag_principal_did a)),
      (''actor_subject'', opt_jstr (opt_or (di_agent_subject i) (ag_operator_did a))),
      (''agent'', JObj
         ([(''operator_did'', opt_jstr (ag_operator_did a)), (''model_family'', JStr (ag_model_family a))]
          @ (if present (ag_model_instance_id a)
             then [(''model_instance_id'', opt_jstr (ag_model_instance_id a))] else [])
          @ [(''config_hash_sha256_hex'', opt_jstr (ag_config_hash_hex a)),
             (''prompt_hash_sha256_hex'', opt_jstr (ag_prompt_hash_hex a))])),
      (''decision_id'', opt_jstr (map_option uuid_str (vr_decision_id (di_auth i)))),
      (''audit_id'', JStr (uuid_str (vr_audit_id (di_auth i)))),
      (''policy'', JObj [(''template_id'', opt_jstr (ag_policy_template_id a)),
         (''content_digest_sha256_hex'', JStr (removeprefix (str_or (di_policy_digest i) []) ''sha256:''))]),
      (''authorized_at'', JStr (env_rfc3339 env (di_authorized_at_ms i))),
      (''requested_spend_cents'', (case di_requested_spend_cents i of None \<Rightarrow> JNull | Some n \<Rightarrow> JInt n)),
      (''currency'', JStr (lower (str_or (di_currency i) ''usd'')))]"

definition draft_execution :: "kit_env \<Rightarrow> run_binding \<Rightarrow> draft_input \<Rightarrow> string \<Rightarrow> string option \<Rightarrow> json" where
  "draft_execution env b i arguments_digest result_digest = JObj
     ([(''run_id'', JStr (bd_run_id b)), (''tool_call_id'', JStr (di_tool_call_id i)),
       (''tool_name'', JStr (di_tool_name i)), (''operation'', JStr (di_operation i)),
       (''arguments_digest_sha256_hex'', JStr arguments_digest)]
      @ opt_item ''result_digest_sha256_hex'' JStr result_digest
      @ [(''outcome'', JStr ''executed''),
         (''started_at'', JStr (env_rfc3339 env (di_started_ms i))),
         (''completed_at'', JStr (env_rfc3339 env (di_completed_ms i))),
         (''duration_ms'', JInt (max 0 (di_completed_ms i - di_started_ms i)))])"

definition draft_outcome :: "evidence_result \<Rightarrow> json" where
  "draft_outcome ev = JObj
     ([(''harbor_state'', JStr (str_or (opt_or (iv_intent_state ev) (iv_sandbox_lifecycle_status ev))
                                 ''evidence_submitted'')),
       (''spend_reservation_outcome'', JStr ''consumed'')]
      @ opt_item ''predicate_passed'' JBool (iv_predicate_passed ev))"

definition draft_merchant_evidence :: "run_binding \<Rightarrow> draft_input \<Rightarrow> evidence_result \<Rightarrow> (string, json) dict" where
  "draft_merchant_evidence b i ev =
     (let payee = Option.bind (bd_production_evidence b) (\<lambda>p. Some (pe_payee_did p))
      in if present payee \<and> present (iv_payload_digest ev)
         then [(''merchant'', JObj ((''payee_did'', opt_jstr payee) #
                 (if present (di_vendor_id i) then [(''vendor_id'', opt_jstr (di_vendor_id i))] else []))),
               (''evidence'', JObj
                 ([(''completion_preset_id'', JStr (di_preset i)),
                   (''payload_digest_sha256_hex'', opt_jstr (iv_payload_digest ev)),
                   (''predicate_passed'', JBool (iv_predicate_passed ev = Some True)),
                   (''payee_did'', opt_jstr payee)]
                  @ (if present (iv_artifacts_digest ev)
                     then [(''artifacts_digest_sha256_hex'', opt_jstr (iv_artifacts_digest ev))] else [])))]
         else [])"

definition build_receipt_draft ::
  "kit_env \<Rightarrow> run_binding \<Rightarrow> draft_input \<Rightarrow> evidence_result \<Rightarrow> json option" where
  "build_receipt_draft env b i ev =
     (if \<not> draft_ready b i then None
      else (case env_value_digest env (di_arguments i) of
         Inl e \<Rightarrow> None
       | Inr arguments_digest \<Rightarrow>
          (let result_digest = (case env_value_digest env (di_tool_result i) of Inl e \<Rightarrow> None | Inr h \<Rightarrow> Some h);
               draft =
                 [(''schema_version'', JInt 1), (''kind'', JStr ''paybond.agent_receipt_v1''),
                  (''receipt_version'', JStr ''1''), (''scope'', JStr ''action''),
                  (''receipt_id'', JStr (action_receipt_id (env_sha256 env) (uuid_str (bd_intent_id b))
                                         (di_tool_call_id i))),
                  (''issued_at'', JStr (env_rfc3339 env (di_completed_ms i))),
                  (''tenant_id'', JStr (bd_tenant_id b)),
                  (''authorization'', draft_authorization env (the (bd_agent_context b)) i),
                  (''execution'', draft_execution env b i arguments_digest result_digest),
                  (''outcome'', draft_outcome ev),
                  (''references'', JObj [(''intent_id'', JStr (uuid_str (bd_intent_id b))),
                                       (''settlement_receipt_id'', JNull)]),
                  (''external_attestations'', JArr (di_attestations i)),
                  (''signing_algorithm'', JStr ''ed25519-sha256-json-v1''),
                  (''message_digest_sha256_hex'', JStr ''''),
                  (''signing_public_key_ed25519_hex'', JStr ''''),
                  (''ed25519_signature_hex'', JStr '''')]
                 @ draft_merchant_evidence b i ev
           in case env_message_digest env (JObj draft) of
                Inl e \<Rightarrow> None
              | Inr h \<Rightarrow> Some (JObj (AList.update ''message_digest_sha256_hex'' (JStr h) draft)))))"

lemma evidence_idempotency_key_inj:
  "evidence_idempotency_key i c = evidence_idempotency_key i d \<Longrightarrow> c = d"
  by (simp add: evidence_idempotency_key_def)

text \<open>A draft names the tool call, the decision and the pinned policy of the call it describes.\<close>

lemma build_receipt_draft_Some:
  assumes "build_receipt_draft env b i ev = Some j"
  shows "obj_get j ''tenant_id'' = Some (JStr (bd_tenant_id b))"
    and "obj_get j ''receipt_id'' = Some (JStr (action_receipt_id (env_sha256 env)
           (uuid_str (bd_intent_id b)) (di_tool_call_id i)))"
    and "obj_get j ''ed25519_signature_hex'' = Some (JStr '''')"
    and "vr_decision_id (di_auth i) \<noteq> None" and "present (di_policy_digest i)"
  using assms
  by (auto simp: build_receipt_draft_def Let_def obj_get_def draft_ready_def update_conv'
      split: if_splits sum.splits option.splits)

end
