(* ===== verification/Interceptor.thy ===== *)
theory Interceptor
  imports Run_Binding
begin

text \<open>
  \<open>agent/interceptor.py\<close>: \<open>PaybondToolInterceptor\<close>.  Python runs a coroutine without
  interruption between two awaits, so each handler is split at its awaits: a first segment,
  and one segment for each answer it waits for (Harbor's verdict, the tool, the two
  finalizations, the evidence submission).  \<open>wrap_step\<close> performs one segment; \<open>wrap_execute\<close>
  runs them in sequence, and theory \<open>Interceptor_Calls\<close> interleaves those of many calls.

  The state is the interceptor's: the binding it shares with the run, the cache of
  authorizations, the in-flight counter, the trace it emitted, and the calls it made to the
  outside in their order.  The trace sink is host code that is taken not to raise.
\<close>

section \<open>State\<close>

datatype effect =
    Asked verify_request bool  \<comment> \<open>verify request, and whether it was authorized\<close>
  | Ran string bool  \<comment> \<open>tool call id, and whether the tool returned\<close>
  | Completed uuid spend_outcome bool  \<comment> \<open>finalization, and whether Harbor accepted it\<close>
  | Sent_Evidence string "(string, json) dict" bool  \<comment> \<open>idempotency key, payload, accepted\<close>

record interceptor =
  it_binding :: run_binding
  it_authorized_calls :: auth_cache
  it_in_flight :: int
  it_trace :: "trace_event list"
  it_effects :: "effect list"

definition begin_in_flight :: "interceptor \<Rightarrow> interceptor \<times> string option" where
  "begin_in_flight it =
     (it\<lparr>it_in_flight := it_in_flight it + 1\<rparr>,
      map_option sn_digest (bd_policy_snapshot (it_binding it)))"

definition end_in_flight :: "interceptor \<Rightarrow> interceptor" where
  "end_in_flight it = it\<lparr>it_in_flight := max 0 (it_in_flight it - 1)\<rparr>"

definition emit_trace :: "trace_event \<Rightarrow> interceptor \<Rightarrow> interceptor" where
  "emit_trace ev it = it\<lparr>it_trace := it_trace it @ [ev]\<rparr>"

definition did :: "effect \<Rightarrow> interceptor \<Rightarrow> interceptor" where
  "did ef it = it\<lparr>it_effects := it_effects it @ [ef]\<rparr>"

text \<open>The clocks a segment reads: monotonic (twice), epoch milliseconds, the date.\<close>

record clock =
  ck_mono :: rat
  ck_stamp :: rat
  ck_ms :: int
  ck_now :: string

section \<open>Resolution of a call\<close>

record resolved_call =
  rv_operation :: string
  rv_requested_spend_cents :: "int option"
  rv_entry :: tool_entry
  rv_auth_kwargs :: auth_kwargs

definition sandboxed_spend :: "sandbox_binding option \<Rightarrow> int option \<Rightarrow> int option" where
  "sandboxed_spend sandbox cents = (case sandbox of
       None \<Rightarrow> cents
     | Some s \<Rightarrow> Some (case cents of None \<Rightarrow> sx_requested_spend_cents s
                       | Some c \<Rightarrow> min c (sx_requested_spend_cents s)))"

definition resolve_side_effecting_call ::
  "run_binding \<Rightarrow> call_input \<Rightarrow> tool_entry \<Rightarrow> string \<Rightarrow> exn + resolved_call" where
  "resolve_side_effecting_call b ci entry default_operation =
     (let operation = strip (str_or (ci_operation ci) default_operation) in
      rbind (assert_operation_allowed operation (bd_allowed_tools b)) (\<lambda>_.
      rbind (case ci_requested_spend_cents ci of
               Some c \<Rightarrow> Inr (Some c)
             | None \<Rightarrow> resolve_spend_cents (bd_registry b) (ci_tool_name ci) (ci_arguments ci)) (\<lambda>cents.
      let spend = sandboxed_spend (bd_sandbox b) cents;
          ctx = bd_agent_context b
      in Inr \<lparr>rv_operation = operation, rv_requested_spend_cents = spend, rv_entry = entry,
           rv_auth_kwargs =
             \<lparr>ak_operation = operation,
              ak_requested_spend_cents = (case spend of None \<Rightarrow> 0 | Some c \<Rightarrow> c),
              ak_vendor_id = ci_vendor_id ci, ak_task_id = ci_task_id ci,
              ak_workflow_id = ci_workflow_id ci, ak_tool_call_id = Some (ci_tool_call_id ci),
              ak_tool_name = Some (ci_tool_name ci), ak_currency = ci_currency ci,
              ak_agent_subject = opt_or (ci_agent_subject ci) (Option.bind ctx ag_operator_did),
              ak_approval_token = ci_approval_token ci, ak_idempotency_key = ci_idempotency_key ci,
              ak_model_family = map_option ag_model_family ctx,
              ak_config_hash_hex = Option.bind ctx ag_config_hash_hex,
              ak_prompt_hash_hex = Option.bind ctx ag_prompt_hash_hex\<rparr>\<rparr>)))"

text \<open>The strips and the two checks both handlers start with.\<close>

definition stripped_input :: "call_input \<Rightarrow> call_input" where
  "stripped_input ci = ci\<lparr>ci_tool_name := strip (ci_tool_name ci),
                          ci_tool_call_id := strip (ci_tool_call_id ci)\<rparr>"

definition check_input :: "call_input \<Rightarrow> exn + unit" where
  "check_input ci =
     (if ci_tool_name ci = [] then Inl (ValueError ''tool_name must be non-empty'')
      else if ci_tool_call_id ci = [] then Inl (ValueError ''tool_call_id must be non-empty'')
      else Inr ())"

section \<open>authorize_tool_call\<close>

datatype auth_phase =
    Auth_Done "exn + decision"
  | Auth_Verify call_input resolved_call "string option"  \<comment> \<open>waits for the verdict\<close>

definition authorize_begin :: "interceptor \<Rightarrow> call_input \<Rightarrow> interceptor \<times> auth_phase" where
  "authorize_begin it ci0 =
     (let ci = stripped_input ci0; n = ci_tool_name ci in
      case check_input ci of
        Inl e \<Rightarrow> (it, Auth_Done (Inl e))
      | Inr _ \<Rightarrow>
          (let (it, pinned) = begin_in_flight it; b = it_binding it in
           case resolve_tool (bd_registry b) n (Some (bd_allowed_tools b)) of
             Passthrough _ \<Rightarrow> (end_in_flight it, Auth_Done (Inr (Allow_Passthrough n)))
           | Denied tn op \<Rightarrow>
               (end_in_flight it, Auth_Done (Inr (Deny op
                  (JStr (exn_str (UnregisteredSideEffecting tn op))) None JNull)))
           | Side_Effecting tn op entry \<Rightarrow>
               (case resolve_side_effecting_call b ci entry op of
                  Inl e \<Rightarrow>
                    (end_in_flight it, Auth_Done
                       (if is_runtime_error e then Inr (Deny op (JStr (exn_str e)) None JNull) else Inl e))
                | Inr rv \<Rightarrow>
                    (emit_trace (Tool_Selected n (ci_tool_call_id ci) (rv_operation rv)) it,
                     Auth_Verify ci rv pinned))))"

definition authorize_resume ::
  "clock \<Rightarrow> interceptor \<Rightarrow> call_input \<Rightarrow> resolved_call \<Rightarrow> string option \<Rightarrow> exn + http_response \<Rightarrow>
   interceptor \<times> (exn + decision)" where
  "authorize_resume ck it ci rv pinned out =
     (let g = bd_guard (it_binding it); op = rv_operation rv; cid = ci_tool_call_id ci;
          verdict = assert_spend_authorized g (rv_auth_kwargs rv) out;
          it = did (Asked (verify_spend_capability g (rv_auth_kwargs rv)) (is_inr verdict)) it
      in case verdict of
           Inl (SpendApprovalRequired r) \<Rightarrow>
             (end_in_flight (emit_trace (Approval_Trace cid op
                (spend_error_message (SpendApprovalRequired r) r) (vr_audit_id r) (vr_code r)) it),
              Inr (map_spend_error_to_decision (SpendApprovalRequired r) r op True))
         | Inl (SpendDenied r) \<Rightarrow>
             (end_in_flight (emit_trace (Spend_Denied_Trace cid op
                (spend_error_message (SpendDenied r) r) (vr_audit_id r) (vr_code r)) it),
              Inr (map_spend_error_to_decision (SpendDenied r) r op False))
         | Inl e \<Rightarrow> (end_in_flight it, Inl e)
         | Inr auth \<Rightarrow>
             (let entry = \<lparr>ce_auth = auth, ce_policy_digest = pinned, ce_operation = op,
                    ce_requested_spend_cents = rv_requested_spend_cents rv,
                    ce_tool_name = ci_tool_name ci, ce_cached_at = ck_stamp ck,
                    ce_authorized_at_ms = ck_ms ck\<rparr>;
                  it = it\<lparr>it_authorized_calls := store_authorization (it_authorized_calls it)
                           (authorization_cache_key cid op) entry (ck_mono ck) (ck_stamp ck)\<rparr>
              in (end_in_flight (emit_trace (Spend_Authorized cid op (vr_audit_id auth)
                    (vr_decision_id auth) (rv_requested_spend_cents rv)) it),
                  Inr (Allow op (vr_audit_id auth) (vr_decision_id auth) pinned))))"

definition authorize_tool_call ::
  "clock \<Rightarrow> interceptor \<Rightarrow> call_input \<Rightarrow> exn + http_response \<Rightarrow> interceptor \<times> (exn + decision)" where
  "authorize_tool_call ck it ci out =
     (case authorize_begin it ci of
        (it, Auth_Done d) \<Rightarrow> (it, d)
      | (it, Auth_Verify ci rv pinned) \<Rightarrow> authorize_resume ck it ci rv pinned out)"

section \<open>Auto-evidence\<close>

definition catch_exception :: "exn + 'a \<Rightarrow> 'a \<Rightarrow> exn + 'a" where
  "catch_exception r d = (case r of
       Inl e \<Rightarrow> if is_exception e then Inr d else Inl e
     | Inr v \<Rightarrow> Inr v)"

definition resolve_tool_external_attestations ::
  "kit_env \<Rightarrow> tool_entry \<Rightarrow> json \<Rightarrow> tool_call_context \<Rightarrow> exn + json list" where
  "resolve_tool_external_attestations env entry tool_result ctx =
     (case te_external_attestation_mapper entry of
        None \<Rightarrow> Inr []
      | Some mapper \<Rightarrow> catch_exception
          (rbind (mapper tool_result ctx) (\<lambda>mapped. case mapped of
               JNull \<Rightarrow> Inr []
             | JArr inputs \<Rightarrow> env_attest env inputs
             | j \<Rightarrow> env_attest env [j])) [])"

text \<open>\<open>except Exception as exc: raise PaybondEvidenceSubmitError(...)\<close>, with and without a
  default for an empty message.\<close>

definition as_evidence_error :: "json \<Rightarrow> string \<Rightarrow> exn \<Rightarrow> exn" where
  "as_evidence_error tool_result dflt e =
     (if is_exception e then EvidenceSubmitError (if exn_str e = [] then dflt else exn_str e) tool_result
      else e)"

definition map_error :: "(exn \<Rightarrow> exn) \<Rightarrow> exn + 'a \<Rightarrow> exn + 'a" where
  "map_error f r = (case r of Inl e \<Rightarrow> Inl (f e) | Inr v \<Rightarrow> Inr v)"

definition map_value :: "('a \<Rightarrow> 'b) \<Rightarrow> exn + 'a \<Rightarrow> exn + 'b" where
  "map_value f r = (case r of Inl e \<Rightarrow> Inl e | Inr v \<Rightarrow> Inr (f v))"

definition evidence_payload ::
  "kit_env \<Rightarrow> tool_entry \<Rightarrow> json \<Rightarrow> tool_call_context \<Rightarrow> exn + (string, json) dict" where
  "evidence_payload env entry tool_result ctx =
     map_error (as_evidence_error tool_result [])
       (build_auto_evidence_payload (env_catalog env) (te_evidence_preset entry)
          (te_evidence_mapper entry) tool_result ctx)"

text \<open>What is sent: the sandbox body, or the signed wire and its recognition proof.\<close>

datatype evidence_request =
    Sandbox_Request "(string, json) dict"
  | Harbor_Request json json

definition evidence_request ::
  "kit_env \<Rightarrow> clock \<Rightarrow> run_binding \<Rightarrow> resolved_call \<Rightarrow> call_input \<Rightarrow> verify_result \<Rightarrow> json \<Rightarrow>
   (string, json) dict \<Rightarrow> exn + evidence_request" where
  "evidence_request env ck b rv ci auth tool_result payload =
     map_error (as_evidence_error tool_result ''auto-evidence submission failed'')
       (case bd_sandbox b of
          Some _ \<Rightarrow> Inr (Sandbox_Request
            (sandbox_evidence_body (Some (JObj payload)) None None (Some (rv_operation rv))
              (rv_requested_spend_cents rv)
              (Some (JObj [(''tool_name'', JStr (ci_tool_name ci)),
                 (''tool_call_id'', JStr (ci_tool_call_id ci)),
                 (''evidence_preset'', JStr (te_evidence_preset (rv_entry rv))),
                 (''decision_id'', opt_jstr (map_option uuid_str (vr_decision_id auth)))]))))
        | None \<Rightarrow> (case bd_production_evidence b of
              None \<Rightarrow> Inl (RuntimeError (''production agent run bind requires '' @
                ''attach.production_evidence for auto-evidence submission''))
            | Some pe \<Rightarrow>
                rbind (env_sign_wire env (bd_tenant_id b) (bd_intent_id b) pe payload (ck_now ck)) (\<lambda>wire.
                rbind (env_sign_proof env (bd_tenant_id b) (uuid_str (bd_intent_id b)) wire pe) (\<lambda>proof.
                Inr (Harbor_Request wire proof)))))"

definition digest_text :: "string option \<Rightarrow> string option" where
  "digest_text s = or_none (lower (strip (str_or s [])))"

definition sandbox_evidence_of :: "sandbox_evidence_result \<Rightarrow> evidence_result" where
  "sandbox_evidence_of r =
     \<lparr>iv_intent_id = uuid_str (se_intent_id r), iv_predicate_passed = se_predicate_passed r,
      iv_sandbox_lifecycle_status = Some (se_lifecycle_status r), iv_intent_state = None,
      iv_payload_digest = digest_text (se_payload_digest r),
      iv_artifacts_digest = digest_text (se_artifacts_digest r),
      iv_agent_receipt = parse_agent_receipt_compose_result (se_agent_receipt r),
      iv_agent_receipt_intent_terminal = parse_agent_receipt_compose_result (se_agent_receipt_terminal r)\<rparr>"

definition harbor_evidence_of :: "uuid \<Rightarrow> (string, json) dict \<Rightarrow> evidence_result" where
  "harbor_evidence_of intent r =
     (let st = json_or (jget r ''intent_state'') (jget r ''state'')
      in \<lparr>iv_intent_id = uuid_str intent,
          iv_predicate_passed = (case jget r ''predicate_passed'' of JBool p \<Rightarrow> Some p | _ \<Rightarrow> None),
          iv_sandbox_lifecycle_status = None,
          iv_intent_state = (if st = JNull then None else Some (json_text st)),
          iv_payload_digest = digest_text (as_str (jget r ''payload_digest'')),
          iv_artifacts_digest = digest_text (as_str (jget r ''artifacts_digest'')),
          iv_agent_receipt = parse_agent_receipt_compose_result (map_of r ''agent_receipt''),
          iv_agent_receipt_intent_terminal =
            parse_agent_receipt_compose_result (map_of r ''agent_receipt_intent_terminal'')\<rparr>)"

definition evidence_response ::
  "run_binding \<Rightarrow> json \<Rightarrow> exn + http_response \<Rightarrow> exn + evidence_result" where
  "evidence_response b tool_result out =
     map_error (as_evidence_error tool_result ''auto-evidence submission failed'')
       (case bd_sandbox b of
          Some _ \<Rightarrow> map_value sandbox_evidence_of (submit_sandbox_evidence (bd_tenant_id b) (bd_intent_id b) out)
        | None \<Rightarrow> map_value (harbor_evidence_of (bd_intent_id b))
                    (submit_evidence (bd_tenant_id b) (bd_intent_id b) out))"

section \<open>wrap_execute\<close>

text \<open>What a call carries across its awaits.\<close>

record wrap_ctx =
  wc_input :: call_input
  wc_resolved :: resolved_call
  wc_pinned :: "string option"

record wrap_auth = wrap_ctx +
  wa_auth :: verify_result
  wa_authorized_at_ms :: int
  wa_policy_digest :: "string option"
  wa_started_ms :: int

record wrap_run = wrap_auth +
  wx_tool_result :: json

record wrap_evidence = wrap_run +
  we_attestations :: "json list"
  we_payload :: "(string, json) dict"
  we_request :: evidence_request

datatype wrap_phase =
    W_Done "exn + wrap_result"
  | W_Passthrough string  \<comment> \<open>runs the tool of this call id unguarded\<close>
  | W_Verify wrap_ctx
  | W_Execute wrap_auth
  | W_Consume wrap_run uuid
  | W_Release wrap_auth uuid exn
  | W_Evidence wrap_evidence

text \<open>The answers a call may receive, and how long the tool took.\<close>

record answers =
  an_verify :: "exn + http_response"
  an_tool :: "exn + json"
  an_duration_ms :: int
  an_consume :: "exn + http_response"
  an_release :: "exn + http_response"
  an_evidence :: "exn + http_response"

definition finish :: "exn + wrap_result \<Rightarrow> interceptor \<Rightarrow> interceptor \<times> wrap_phase" where
  "finish r it = (end_in_flight it, W_Done r)"

definition with_auth :: "clock \<Rightarrow> wrap_ctx \<Rightarrow> verify_result \<Rightarrow> int \<Rightarrow> string option \<Rightarrow> wrap_auth" where
  "with_auth ck c auth authorized_at_ms digest =
     \<lparr>wc_input = wc_input c, wc_resolved = wc_resolved c, wc_pinned = wc_pinned c, wa_auth = auth,
      wa_authorized_at_ms = authorized_at_ms, wa_policy_digest = digest, wa_started_ms = ck_ms ck\<rparr>"

definition wrap_begin :: "clock \<Rightarrow> interceptor \<Rightarrow> call_input \<Rightarrow> interceptor \<times> wrap_phase" where
  "wrap_begin ck it ci0 =
     (let ci = stripped_input ci0; n = ci_tool_name ci in
      case check_input ci of
        Inl e \<Rightarrow> (it, W_Done (Inl e))
      | Inr _ \<Rightarrow>
          (let (it, pinned) = begin_in_flight it; b = it_binding it in
           case resolve_tool (bd_registry b) n (Some (bd_allowed_tools b)) of
             Passthrough _ \<Rightarrow> (it, W_Passthrough (ci_tool_call_id ci))
           | Denied tn op \<Rightarrow> finish (Inl (UnregisteredSideEffecting tn op)) it
           | Side_Effecting tn op entry \<Rightarrow>
               (case resolve_side_effecting_call b ci entry op of
                  Inl e \<Rightarrow> finish (Inl e) it
                | Inr rv \<Rightarrow>
                    (let it = emit_trace (Tool_Selected n (ci_tool_call_id ci) (rv_operation rv)) it;
                         (cached, cache) = take_valid_cached_authorization (it_authorized_calls it)
                            (authorization_cache_key (ci_tool_call_id ci) (rv_operation rv))
                            \<lparr>cx_operation = rv_operation rv,
                             cx_requested_spend_cents = rv_requested_spend_cents rv,
                             cx_tool_name = n\<rparr>
                            AUTHORIZATION_CACHE_TTL_SEC (ck_mono ck);
                         it = it\<lparr>it_authorized_calls := cache\<rparr>;
                         c = \<lparr>wc_input = ci, wc_resolved = rv, wc_pinned = pinned\<rparr>
                     in case cached of
                          None \<Rightarrow> (it, W_Verify c)
                        | Some e \<Rightarrow>
                            (it, W_Execute (with_auth ck c (ce_auth e) (ce_authorized_at_ms e)
                                   (opt_or (ce_policy_digest e) pinned)))))))"

definition wrap_verified ::
  "clock \<Rightarrow> interceptor \<Rightarrow> wrap_ctx \<Rightarrow> exn + http_response \<Rightarrow> interceptor \<times> wrap_phase" where
  "wrap_verified ck it c out =
     (let g = bd_guard (it_binding it); rv = wc_resolved c; cid = ci_tool_call_id (wc_input c);
          verdict = assert_spend_authorized g (rv_auth_kwargs rv) out;
          it = did (Asked (verify_spend_capability g (rv_auth_kwargs rv)) (is_inr verdict)) it
      in case verdict of
           Inl e \<Rightarrow> finish (Inl e) it
         | Inr auth \<Rightarrow>
             (emit_trace (Spend_Authorized cid (rv_operation rv) (vr_audit_id auth)
                (vr_decision_id auth) (rv_requested_spend_cents rv)) it,
              W_Execute (with_auth ck c auth (ck_ms ck) (opt_or None (wc_pinned c)))))"

text \<open>The tool returned: its result joins what the call carries.\<close>

definition with_result :: "wrap_auth \<Rightarrow> json \<Rightarrow> wrap_run" where
  "with_result a v =
     \<lparr>wc_input = wc_input a, wc_resolved = wc_resolved a, wc_pinned = wc_pinned a,
      wa_auth = wa_auth a, wa_authorized_at_ms = wa_authorized_at_ms a,
      wa_policy_digest = wa_policy_digest a, wa_started_ms = wa_started_ms a, wx_tool_result = v\<rparr>"

text \<open>The \<open>except Exception\<close> clause around the tool and its finalization.\<close>

definition wrap_failed :: "interceptor \<Rightarrow> wrap_auth \<Rightarrow> exn \<Rightarrow> interceptor \<times> wrap_phase" where
  "wrap_failed it a e =
     (if \<not> is_exception e then finish (Inl e) it
      else (case vr_decision_id (wa_auth a) of
          None \<Rightarrow> finish (Inl e) it
        | Some d \<Rightarrow> (it, W_Release a d e)))"

definition call_context :: "wrap_run \<Rightarrow> tool_call_context" where
  "call_context x =
     \<lparr>tc_tool_name = ci_tool_name (wc_input x), tc_tool_call_id = ci_tool_call_id (wc_input x),
      tc_operation = rv_operation (wc_resolved x), tc_arguments = ci_arguments (wc_input x)\<rparr>"

text \<open>From the finalization to the evidence request.\<close>

definition wrap_finalized ::
  "kit_env \<Rightarrow> clock \<Rightarrow> interceptor \<Rightarrow> wrap_run \<Rightarrow> interceptor \<times> wrap_phase" where
  "wrap_finalized env ck it x =
     (let entry = rv_entry (wc_resolved x); v = wx_tool_result x in
      case resolve_tool_external_attestations env entry v (call_context x) of
        Inl e \<Rightarrow> finish (Inl e) it
      | Inr atts \<Rightarrow>
          (case evidence_payload env entry v (call_context x) of
             Inl e \<Rightarrow> finish (Inl e) it
           | Inr payload \<Rightarrow>
               (case evidence_request env ck (it_binding it) (wc_resolved x) (wc_input x) (wa_auth x) v payload of
                  Inl e \<Rightarrow> finish (Inl e) it
                | Inr req \<Rightarrow>
                    (it, W_Evidence \<lparr>wc_input = wc_input x, wc_resolved = wc_resolved x,
                       wc_pinned = wc_pinned x, wa_auth = wa_auth x,
                       wa_authorized_at_ms = wa_authorized_at_ms x,
                       wa_policy_digest = wa_policy_digest x, wa_started_ms = wa_started_ms x,
                       wx_tool_result = v, we_attestations = atts, we_payload = payload,
                       we_request = req\<rparr>))))"

definition wrap_executed ::
  "kit_env \<Rightarrow> clock \<Rightarrow> interceptor \<Rightarrow> wrap_auth \<Rightarrow> exn + json \<Rightarrow> int \<Rightarrow> interceptor \<times> wrap_phase" where
  "wrap_executed env ck it a out duration =
     (let cid = ci_tool_call_id (wc_input a); op = rv_operation (wc_resolved a);
          it = did (Ran cid (is_inr out)) it
      in case out of
           Inl e \<Rightarrow> wrap_failed it a e
         | Inr v \<Rightarrow>
             (let it = emit_trace (Tool_Executed cid op duration) it in
              case vr_decision_id (wa_auth a) of
                Some d \<Rightarrow> (it, W_Consume (with_result a v) d)
              | None \<Rightarrow> wrap_finalized env ck it (with_result a v)))"

definition wrap_consumed ::
  "kit_env \<Rightarrow> clock \<Rightarrow> interceptor \<Rightarrow> wrap_run \<Rightarrow> uuid \<Rightarrow> exn + http_response \<Rightarrow> interceptor \<times> wrap_phase" where
  "wrap_consumed env ck it x d out =
     (let res = complete_spend_authorization (bd_guard (it_binding it)) out;
          it = did (Completed d Consumed (is_inr res)) it
      in case res of
           Inl e \<Rightarrow> wrap_failed it (wrap_auth.truncate x) e
         | Inr _ \<Rightarrow>
             wrap_finalized env ck
               (emit_trace (Spend_Finalized (ci_tool_call_id (wc_input x)) (rv_operation (wc_resolved x)) Consumed) it)
               x)"

definition wrap_released ::
  "interceptor \<Rightarrow> wrap_auth \<Rightarrow> uuid \<Rightarrow> exn \<Rightarrow> exn + http_response \<Rightarrow> interceptor \<times> wrap_phase" where
  "wrap_released it a d e out =
     (let res = complete_spend_authorization (bd_guard (it_binding it)) out;
          it = did (Completed d Released (is_inr res)) it
      in case res of
           Inl e' \<Rightarrow> finish (Inl (if is_exception e' then e else e')) it
         | Inr _ \<Rightarrow>
             finish (Inl e)
               (emit_trace (Spend_Finalized (ci_tool_call_id (wc_input a)) (rv_operation (wc_resolved a)) Released) it))"

text \<open>\<open>tool_result.get("cost_cents")\<close> when the result is a dict and the value a proper int.\<close>

definition reported_cost_cents :: "json \<Rightarrow> int option" where
  "reported_cost_cents v = (case obj_get v ''cost_cents'' of Some (JInt n) \<Rightarrow> Some n | _ \<Rightarrow> None)"

definition draft_of :: "clock \<Rightarrow> wrap_evidence \<Rightarrow> draft_input" where
  "draft_of ck w =
     (let rv = wc_resolved w; k = rv_auth_kwargs rv; ci = wc_input w in
      \<lparr>di_tool_name = ci_tool_name ci, di_tool_call_id = ci_tool_call_id ci,
       di_operation = rv_operation rv, di_arguments = ci_arguments ci,
       di_agent_subject = ak_agent_subject k, di_requested_spend_cents = rv_requested_spend_cents rv,
       di_currency = ak_currency k, di_vendor_id = ak_vendor_id k,
       di_preset = te_evidence_preset (rv_entry rv), di_auth = wa_auth w,
       di_authorized_at_ms = wa_authorized_at_ms w, di_policy_digest = wa_policy_digest w,
       di_started_ms = wa_started_ms w, di_completed_ms = ck_ms ck,
       di_tool_result = wx_tool_result w, di_attestations = we_attestations w\<rparr>)"

definition wrap_evidenced ::
  "kit_env \<Rightarrow> clock \<Rightarrow> interceptor \<Rightarrow> wrap_evidence \<Rightarrow> exn + http_response \<Rightarrow> interceptor \<times> wrap_phase" where
  "wrap_evidenced env ck it w out =
     (let b = it_binding it; v = wx_tool_result w; cid = ci_tool_call_id (wc_input w);
          evidence_id = evidence_idempotency_key (bd_intent_id b) cid;
          res = evidence_response b v out;
          it = did (Sent_Evidence evidence_id (we_payload w) (is_inr res)) it
      in case res of
           Inl e \<Rightarrow> finish (Inl e) it
         | Inr ev \<Rightarrow>
             finish (Inr \<lparr>wr_tool_result = v,
                 wr_authorization = Some \<lparr>au_audit_id = vr_audit_id (wa_auth w),
                    au_decision_id = vr_decision_id (wa_auth w), au_policy_digest = wa_policy_digest w\<rparr>,
                 wr_evidence = Some ev,
                 wr_receipt_draft = build_receipt_draft env b (draft_of ck w) ev\<rparr>)
               (emit_trace (Evidence_Submitted cid (rv_operation (wc_resolved w)) evidence_id
                  (te_evidence_preset (rv_entry (wc_resolved w))) (reported_cost_cents v)
                  (iv_sandbox_lifecycle_status ev) (iv_predicate_passed ev) (we_attestations w)) it))"

definition wrap_passed :: "interceptor \<Rightarrow> string \<Rightarrow> exn + json \<Rightarrow> interceptor \<times> wrap_phase" where
  "wrap_passed it cid out =
     (let it = did (Ran cid (is_inr out)) it in
      case out of
        Inl e \<Rightarrow> finish (Inl e) it
      | Inr v \<Rightarrow> finish (Inr \<lparr>wr_tool_result = v, wr_authorization = None, wr_evidence = None,
                           wr_receipt_draft = None\<rparr>) it)"

text \<open>One segment: the call resumes with the answer it waits for.\<close>

definition wrap_step ::
  "kit_env \<Rightarrow> answers \<Rightarrow> clock \<Rightarrow> interceptor \<Rightarrow> wrap_phase \<Rightarrow> interceptor \<times> wrap_phase" where
  "wrap_step env an ck it ph = (case ph of
       W_Done r \<Rightarrow> (it, W_Done r)
     | W_Passthrough cid \<Rightarrow> wrap_passed it cid (an_tool an)
     | W_Verify c \<Rightarrow> wrap_verified ck it c (an_verify an)
     | W_Execute a \<Rightarrow> wrap_executed env ck it a (an_tool an) (an_duration_ms an)
     | W_Consume x d \<Rightarrow> wrap_consumed env ck it x d (an_consume an)
     | W_Release a d e \<Rightarrow> wrap_released it a d e (an_release an)
     | W_Evidence w \<Rightarrow> wrap_evidenced env ck it w (an_evidence an))"

text \<open>
  Every segment brings the call closer to its end, so the driver terminates.  The clock is
  indexed by the segments that remain.
\<close>

fun phase_rank :: "wrap_phase \<Rightarrow> nat" where
  "phase_rank (W_Done r) = 0"
| "phase_rank (W_Passthrough cid) = 1"
| "phase_rank (W_Evidence w) = 1"
| "phase_rank (W_Release a d e) = 2"
| "phase_rank (W_Consume x d) = 3"
| "phase_rank (W_Execute a) = 4"
| "phase_rank (W_Verify c) = 5"

lemmas wrap_segment_defs =
  wrap_passed_def wrap_verified_def wrap_executed_def wrap_consumed_def wrap_released_def
  wrap_evidenced_def wrap_finalized_def wrap_failed_def finish_def

lemma wrap_finalized_rank: "phase_rank (snd (wrap_finalized env ck it x)) \<le> 1"
  by (auto simp: wrap_finalized_def finish_def Let_def split: sum.splits)

lemma wrap_failed_rank: "phase_rank (snd (wrap_failed it a e)) \<le> 2"
  by (auto simp: wrap_failed_def finish_def split: option.splits)

lemma wrap_step_rank:
  "phase_rank ph \<noteq> 0 \<Longrightarrow> phase_rank (snd (wrap_step env an ck it ph)) < phase_rank ph"
proof (cases ph)
  case (W_Execute a)
  show ?thesis
    using le_less_trans[OF wrap_failed_rank] le_less_trans[OF wrap_finalized_rank]
    by (auto simp: W_Execute wrap_step_def wrap_executed_def Let_def split: sum.splits option.splits)
next
  case (W_Consume x d)
  show ?thesis
    using le_less_trans[OF wrap_failed_rank] le_less_trans[OF wrap_finalized_rank]
    by (auto simp: W_Consume wrap_step_def wrap_consumed_def Let_def split: sum.splits)
qed (auto simp: wrap_step_def wrap_passed_def wrap_verified_def wrap_released_def wrap_evidenced_def
       finish_def Let_def split: sum.splits)

function drive ::
  "kit_env \<Rightarrow> answers \<Rightarrow> (nat \<Rightarrow> clock) \<Rightarrow> interceptor \<Rightarrow> wrap_phase \<Rightarrow> interceptor \<times> wrap_phase" where
  "drive env an cks it ph =
     (if phase_rank ph = 0 then (it, ph)
      else (let (it', ph') = wrap_step env an (cks (phase_rank ph)) it ph in drive env an cks it' ph'))"
  by pat_completeness auto
termination
  by (relation "measure (\<lambda>(env, an, cks, it, ph). phase_rank ph)") (auto simp: case_prod_unfold wrap_step_rank)

declare drive.simps [simp del]

definition wrap_execute ::
  "kit_env \<Rightarrow> answers \<Rightarrow> (nat \<Rightarrow> clock) \<Rightarrow> interceptor \<Rightarrow> call_input \<Rightarrow> interceptor \<times> wrap_phase" where
  "wrap_execute env an cks it ci =
     (let (it', ph) = wrap_begin (cks 6) it ci in drive env an cks it' ph)"

end
