(* ===== verification/Interceptor_Facts.thy ===== *)
theory Interceptor_Facts
  imports Interceptor
begin

text \<open>
  What one guarded call does, segment by segment: which effects it has had when it waits for
  which answer (\<open>call_log\<close>), whose authorization it carries (\<open>phase_ok\<close>), and what it does to
  the in-flight counter.  The lemmas are stated for one segment, so that they serve both the
  sequential \<open>wrap_execute\<close> and the interleaved calls of theory \<open>Interceptor_Calls\<close>.
\<close>

named_theorems seg "segments of a guarded call"

section \<open>State updates\<close>

lemma state_updates [simp]:
  "it_binding (emit_trace ev it) = it_binding it"
  "it_authorized_calls (emit_trace ev it) = it_authorized_calls it"
  "it_in_flight (emit_trace ev it) = it_in_flight it"
  "it_effects (emit_trace ev it) = it_effects it"
  "it_trace (emit_trace ev it) = it_trace it @ [ev]"
  "it_binding (did ef it) = it_binding it"
  "it_authorized_calls (did ef it) = it_authorized_calls it"
  "it_in_flight (did ef it) = it_in_flight it"
  "it_effects (did ef it) = it_effects it @ [ef]"
  "it_trace (did ef it) = it_trace it"
  "it_binding (end_in_flight it) = it_binding it"
  "it_authorized_calls (end_in_flight it) = it_authorized_calls it"
  "it_in_flight (end_in_flight it) = max 0 (it_in_flight it - 1)"
  "it_effects (end_in_flight it) = it_effects it"
  "it_trace (end_in_flight it) = it_trace it"
  by (simp_all add: emit_trace_def did_def end_in_flight_def)

lemma begin_in_flight_simps [simp]:
  "fst (begin_in_flight it) = it\<lparr>it_in_flight := it_in_flight it + 1\<rparr>"
  "snd (begin_in_flight it) = map_option sn_digest (bd_policy_snapshot (it_binding it))"
  by (simp_all add: begin_in_flight_def)

section \<open>Phases\<close>

definition active :: "wrap_phase \<Rightarrow> bool" where
  "active ph \<longleftrightarrow> phase_rank ph \<noteq> 0"

lemma active_simps [simp]:
  "\<not> active (W_Done r)" "active (W_Passthrough cid)" "active (W_Verify c)" "active (W_Execute a)"
  "active (W_Consume x d)" "active (W_Release a d e)" "active (W_Evidence w)"
  by (simp_all add: active_def)

lemma not_active: "\<not> active ph \<longleftrightarrow> (\<exists>r. ph = W_Done r)"
  by (cases ph) simp_all

text \<open>The in-flight counter: a segment that ends the call takes one off.\<close>

definition counted :: "interceptor \<Rightarrow> interceptor \<times> wrap_phase \<Rightarrow> bool" where
  "counted it res \<longleftrightarrow>
     it_in_flight (fst res) = (if active (snd res) then it_in_flight it else max 0 (it_in_flight it - 1))"

lemma counted_finish: "it_in_flight it' = it_in_flight it \<Longrightarrow> counted it (finish r it')"
  by (simp add: counted_def finish_def)

lemma counted_failed: "it_in_flight it' = it_in_flight it \<Longrightarrow> counted it (wrap_failed it' a e)"
  by (auto simp: wrap_failed_def counted_def finish_def split: option.splits)

lemma counted_finalized: "it_in_flight it' = it_in_flight it \<Longrightarrow> counted it (wrap_finalized env ck it' x)"
  by (auto simp: wrap_finalized_def counted_def finish_def Let_def split: sum.splits)

lemma wrap_step_counted: "active ph \<Longrightarrow> counted it (wrap_step env an ck it ph)"
  by (cases ph)
    (auto simp: wrap_step_def wrap_passed_def wrap_verified_def wrap_executed_def wrap_consumed_def
       wrap_released_def wrap_evidenced_def Let_def counted_finish counted_failed counted_finalized
       intro!: counted_finish counted_failed counted_finalized
       split: sum.splits option.splits, simp_all add: counted_def)

lemma wrap_begin_counted:
  "counted (it\<lparr>it_in_flight := it_in_flight it + 1\<rparr>) (wrap_begin ck it ci) \<or>
   fst (wrap_begin ck it ci) = it \<and> \<not> active (snd (wrap_begin ck it ci))"
  by (auto simp: wrap_begin_def Let_def counted_def begin_in_flight_def case_prod_unfold finish_def
      split: sum.splits tool_resolution.splits option.splits)

text \<open>No segment of a call touches the binding; only the first one touches the cache.\<close>

lemma wrap_finalized_frame [simp]:
  "it_binding (fst (wrap_finalized env ck it x)) = it_binding it"
  "it_authorized_calls (fst (wrap_finalized env ck it x)) = it_authorized_calls it"
  "it_effects (fst (wrap_finalized env ck it x)) = it_effects it"
  by (auto simp: wrap_finalized_def finish_def Let_def split: sum.splits)

lemma wrap_failed_frame [simp]:
  "it_binding (fst (wrap_failed it a e)) = it_binding it"
  "it_authorized_calls (fst (wrap_failed it a e)) = it_authorized_calls it"
  "it_effects (fst (wrap_failed it a e)) = it_effects it"
  by (auto simp: wrap_failed_def finish_def split: option.splits)

lemma wrap_step_frame [simp]:
  "it_binding (fst (wrap_step env an ck it ph)) = it_binding it"
  "it_authorized_calls (fst (wrap_step env an ck it ph)) = it_authorized_calls it"
  by (auto simp: wrap_step_def wrap_passed_def wrap_verified_def wrap_executed_def wrap_consumed_def
      wrap_released_def wrap_evidenced_def finish_def Let_def
      split: wrap_phase.splits sum.splits option.splits)

lemma wrap_begin_frame [simp]: "it_binding (fst (wrap_begin ck it ci)) = it_binding it"
  by (auto simp: wrap_begin_def Let_def begin_in_flight_def case_prod_unfold finish_def
      split: sum.splits tool_resolution.splits option.splits)

lemma wrap_begin_effects [simp]: "it_effects (fst (wrap_begin ck it ci)) = it_effects it"
  by (auto simp: wrap_begin_def Let_def begin_in_flight_def case_prod_unfold finish_def
      split: sum.splits tool_resolution.splits option.splits)

section \<open>The effects of a call\<close>

text \<open>
  The effects of one call, in order: possibly a verify request that was authorized, then the
  tool, then the finalization of the reservation, then the evidence.  \<open>call_log evs ph\<close> says
  that a call waiting in phase \<open>ph\<close> has had the effects \<open>evs\<close>.
\<close>

definition ask_log :: "effect list \<Rightarrow> bool" where
  "ask_log evs \<longleftrightarrow> evs = [] \<or> (\<exists>q. evs = [Asked q True])"

definition consume_log :: "uuid option \<Rightarrow> effect list" where
  "consume_log decision = (case decision of None \<Rightarrow> [] | Some d \<Rightarrow> [Completed d Consumed True])"

definition call_id :: "('a) wrap_ctx_scheme \<Rightarrow> string" where
  "call_id c = ci_tool_call_id (wc_input c)"

definition failed_run_log :: "string \<Rightarrow> uuid \<Rightarrow> effect list \<Rightarrow> bool" where
  "failed_run_log cid d evs \<longleftrightarrow>
     (\<exists>a. ask_log a \<and> (evs = a @ [Ran cid False] \<or> evs = a @ [Ran cid True, Completed d Consumed False]))"

definition error_log :: "effect list \<Rightarrow> bool" where
  "error_log evs \<longleftrightarrow> evs = [] \<or> (\<exists>q. evs = [Asked q False]) \<or>
     (\<exists>a cid d b. ask_log a \<and>
        (evs = a @ [Ran cid False] \<or> evs = a @ [Ran cid False, Completed d Released b] \<or>
         evs = a @ [Ran cid True, Completed d Consumed False] \<or>
         evs = a @ [Ran cid True, Completed d Consumed False, Completed d Released b])) \<or>
     (\<exists>a cid dec. ask_log a \<and>
        (evs = a @ Ran cid True # consume_log dec \<or>
         (\<exists>k p. evs = a @ Ran cid True # consume_log dec @ [Sent_Evidence k p False])))"

definition value_log :: "effect list \<Rightarrow> wrap_result \<Rightarrow> bool" where
  "value_log evs v \<longleftrightarrow> (case wr_authorization v of
       None \<Rightarrow> (\<exists>cid. evs = [Ran cid True])
     | Some au \<Rightarrow> (\<exists>a cid k p. ask_log a \<and>
         evs = a @ Ran cid True # consume_log (au_decision_id au) @ [Sent_Evidence k p True]))"

fun call_log :: "effect list \<Rightarrow> wrap_phase \<Rightarrow> bool" where
  "call_log evs (W_Passthrough cid) \<longleftrightarrow> evs = []"
| "call_log evs (W_Verify c) \<longleftrightarrow> evs = []"
| "call_log evs (W_Execute a) \<longleftrightarrow> ask_log evs"
| "call_log evs (W_Consume x d) \<longleftrightarrow>
     vr_decision_id (wa_auth x) = Some d \<and> (\<exists>a. ask_log a \<and> evs = a @ [Ran (call_id x) True])"
| "call_log evs (W_Release a d e) \<longleftrightarrow>
     vr_decision_id (wa_auth a) = Some d \<and> failed_run_log (call_id a) d evs"
| "call_log evs (W_Evidence w) \<longleftrightarrow>
     (\<exists>a. ask_log a \<and> evs = a @ Ran (call_id w) True # consume_log (vr_decision_id (wa_auth w)))"
| "call_log evs (W_Done (Inl e)) \<longleftrightarrow> error_log evs"
| "call_log evs (W_Done (Inr v)) \<longleftrightarrow> value_log evs v"

lemma ask_log_simps [simp]: "ask_log []" "ask_log [Asked q True]"
  by (simp_all add: ask_log_def)

lemma consume_log_simps [simp]:
  "consume_log None = []" "consume_log (Some d) = [Completed d Consumed True]"
  by (simp_all add: consume_log_def)

lemma with_result_simps [simp]:
  "wc_input (with_result a v) = wc_input a" "wc_resolved (with_result a v) = wc_resolved a"
  "wc_pinned (with_result a v) = wc_pinned a" "wa_auth (with_result a v) = wa_auth a"
  "wa_policy_digest (with_result a v) = wa_policy_digest a" "call_id (with_result a v) = call_id a"
  "wx_tool_result (with_result a v) = v" "wa_started_ms (with_result a v) = wa_started_ms a"
  "wa_authorized_at_ms (with_result a v) = wa_authorized_at_ms a"
  by (simp_all add: with_result_def call_id_def)

lemma truncate_simps [simp]:
  "wc_input (wrap_auth.truncate x) = wc_input x" "wa_auth (wrap_auth.truncate x) = wa_auth x"
  "call_id (wrap_auth.truncate x) = call_id x"
  "wc_resolved (wrap_auth.truncate x) = wc_resolved x"
  "wa_policy_digest (wrap_auth.truncate x) = wa_policy_digest x"
  by (simp_all add: wrap_auth.truncate_def call_id_def)

text \<open>Which effects a call had, as an error or as a value.\<close>

lemma error_logI:
  "error_log []" "error_log [Asked q False]"
  "ask_log a \<Longrightarrow> error_log (a @ [Ran cid False])"
  "ask_log a \<Longrightarrow> error_log (a @ [Ran cid False, Completed d Released b])"
  "ask_log a \<Longrightarrow> error_log (a @ [Ran cid True, Completed d Consumed False])"
  "ask_log a \<Longrightarrow> error_log (a @ [Ran cid True, Completed d Consumed False, Completed d Released b])"
  "ask_log a \<Longrightarrow> error_log (a @ Ran cid True # consume_log dec)"
  "ask_log a \<Longrightarrow> error_log (a @ Ran cid True # consume_log dec @ [Sent_Evidence k p False])"
  unfolding error_log_def by blast+

lemma call_log_failed:
  assumes "failed_run_log (call_id a) d evs" "\<forall>d'. vr_decision_id (wa_auth a) = Some d' \<longrightarrow> d' = d"
  shows "call_log evs (snd (wrap_failed it a e))"
proof -
  have "error_log evs"
    using assms(1) error_logI(3,5) by (auto simp: failed_run_log_def)
  then show ?thesis
    using assms by (auto simp: wrap_failed_def finish_def split: option.splits)
qed

lemma call_log_finalized:
  assumes "ask_log a" "evs = a @ Ran (call_id x) True # consume_log (vr_decision_id (wa_auth x))"
  shows "call_log evs (snd (wrap_finalized env ck it x))"
  using assms error_logI(7)[OF assms(1)]
  by (auto simp: wrap_finalized_def finish_def Let_def call_id_def split: sum.splits)

lemma wrap_begin_log: "call_log [] (snd (wrap_begin ck it ci))"
  by (auto simp: wrap_begin_def Let_def begin_in_flight_def case_prod_unfold finish_def error_logI
      split: sum.splits tool_resolution.splits option.splits)

definition extends_log :: "interceptor \<Rightarrow> effect list \<Rightarrow> interceptor \<times> wrap_phase \<Rightarrow> bool" where
  "extends_log it evs res \<longleftrightarrow>
     (\<exists>es. it_effects (fst res) = it_effects it @ es \<and> call_log (evs @ es) (snd res))"

lemma extends_logI:
  "\<lbrakk>it_effects (fst res) = it_effects it @ es; call_log (evs @ es) (snd res)\<rbrakk> \<Longrightarrow> extends_log it evs res"
  unfolding extends_log_def by blast

lemma passed_log: "extends_log it [] (wrap_passed it cid out)"
proof (cases out)
  case (Inl e)
  then show ?thesis using error_logI(3)[of "[]"]
    by (intro extends_logI[where es = "[Ran cid False]"]) (simp_all add: wrap_passed_def finish_def)
next
  case (Inr v)
  then show ?thesis
    by (intro extends_logI[where es = "[Ran cid True]"]) (simp_all add: wrap_passed_def finish_def value_log_def)
qed

lemma verified_log: "extends_log it [] (wrap_verified ck it c out)"
proof -
  let ?g = "bd_guard (it_binding it)" and ?k = "rv_auth_kwargs (wc_resolved c)"
  show ?thesis
    by (intro extends_logI[where es = "[Asked (verify_spend_capability ?g ?k)
           (is_inr (assert_spend_authorized ?g ?k out))]"])
      (auto simp: wrap_verified_def finish_def Let_def error_logI split: sum.splits)
qed

lemma executed_log:
  assumes "ask_log evs"
  shows "extends_log it evs (wrap_executed env ck it a out dur)"
proof (cases out)
  case (Inl e)
  show ?thesis
  proof (intro extends_logI[where es = "[Ran (call_id a) False]"])
    have f: "failed_run_log (call_id a) d (evs @ [Ran (call_id a) False])" for d
      using assms by (auto simp: failed_run_log_def)
    show "call_log (evs @ [Ran (call_id a) False]) (snd (wrap_executed env ck it a out dur))"
      using call_log_failed[OF f[of "the (vr_decision_id (wa_auth a))"]]
      by (simp add: wrap_executed_def Inl Let_def)
  qed (simp add: wrap_executed_def Inl Let_def call_id_def)
next
  case (Inr v)
  show ?thesis
  proof (intro extends_logI[where es = "[Ran (call_id a) True]"])
    show "call_log (evs @ [Ran (call_id a) True]) (snd (wrap_executed env ck it a out dur))"
      using assms by (cases "vr_decision_id (wa_auth a)")
        (auto simp: wrap_executed_def Inr Let_def intro!: call_log_finalized)
  qed (simp add: wrap_executed_def Inr Let_def call_id_def split: option.split)
qed

lemma consumed_log:
  assumes "call_log evs (W_Consume x d)"
  shows "extends_log it evs (wrap_consumed env ck it x d out)"
proof -
  let ?res = "complete_spend_authorization (bd_guard (it_binding it)) out"
  obtain a where a: "ask_log a" "evs = a @ [Ran (call_id x) True]" and d: "vr_decision_id (wa_auth x) = Some d"
    using assms by auto
  show ?thesis
  proof (intro extends_logI[where es = "[Completed d Consumed (is_inr ?res)]"])
    show "call_log (evs @ [Completed d Consumed (is_inr ?res)]) (snd (wrap_consumed env ck it x d out))"
    proof (cases ?res)
      case (Inl e)
      have "failed_run_log (call_id (wrap_auth.truncate x)) d (evs @ [Completed d Consumed False])"
        using a by (auto simp: failed_run_log_def)
      from call_log_failed[OF this] d show ?thesis
        by (simp add: wrap_consumed_def Let_def Inl)
    next
      case (Inr u)
      then show ?thesis using a d
        by (auto simp: wrap_consumed_def Let_def intro!: call_log_finalized)
    qed
  qed (auto simp: wrap_consumed_def Let_def split: sum.split)
qed

lemma released_log:
  assumes "call_log evs (W_Release a d e)"
  shows "extends_log it evs (wrap_released it a d e out)"
proof -
  let ?res = "complete_spend_authorization (bd_guard (it_binding it)) out"
  obtain k where k: "ask_log k" and
    evs: "evs = k @ [Ran (call_id a) False] \<or> evs = k @ [Ran (call_id a) True, Completed d Consumed False]"
    using assms by (auto simp: failed_run_log_def)
  have "error_log (evs @ [Completed d Released b])" for b
    using evs error_logI(4,6)[OF k] by auto
  then show ?thesis
    by (intro extends_logI[where es = "[Completed d Released (is_inr ?res)]"])
      (auto simp: wrap_released_def Let_def finish_def split: sum.split)
qed

lemma evidenced_log:
  assumes "call_log evs (W_Evidence w)"
  shows "extends_log it evs (wrap_evidenced env ck it w out)"
proof -
  let ?b = "it_binding it"
  let ?res = "evidence_response ?b (wx_tool_result w) out"
  obtain a where a: "ask_log a" "evs = a @ Ran (call_id w) True # consume_log (vr_decision_id (wa_auth w))"
    using assms by auto
  show ?thesis
  proof (intro extends_logI[where es = "[Sent_Evidence (evidence_idempotency_key (bd_intent_id ?b)
           (ci_tool_call_id (wc_input w))) (we_payload w) (is_inr ?res)]"])
    show "call_log (evs @ [Sent_Evidence (evidence_idempotency_key (bd_intent_id ?b)
        (ci_tool_call_id (wc_input w))) (we_payload w) (is_inr ?res)]) (snd (wrap_evidenced env ck it w out))"
      using a error_logI(8)[OF a(1)]
      by (cases ?res) (auto simp: wrap_evidenced_def Let_def finish_def value_log_def)
  qed (auto simp: wrap_evidenced_def Let_def finish_def split: sum.split)
qed

lemma wrap_step_log:
  assumes "call_log evs ph"
  shows "extends_log it evs (wrap_step env an ck it ph)"
proof (cases ph)
  case (W_Done r)
  then show ?thesis using assms by (auto simp: wrap_step_def extends_log_def)
next
  case (W_Consume x d)
  then show ?thesis using assms consumed_log[of evs x d] by (simp add: wrap_step_def)
next
  case (W_Release a d e)
  then show ?thesis using assms released_log[of evs a d e] by (simp add: wrap_step_def)
next
  case (W_Evidence w)
  then show ?thesis using assms evidenced_log[of evs w] by (simp add: wrap_step_def)
qed (use assms in \<open>simp_all add: wrap_step_def passed_log verified_log executed_log\<close>)

section \<open>Whose authorization\<close>

text \<open>Harbor allowed it, for the tenant and the intent of the guard.\<close>

definition authorized_for :: "spend_guard \<Rightarrow> verify_result \<Rightarrow> bool" where
  "authorized_for g r \<longleftrightarrow>
     vr_allow r \<and> vr_tenant r = sg_tenant_id g \<and> vr_intent_id r = sg_intent_id g"

definition cache_ok :: "spend_guard \<Rightarrow> auth_cache \<Rightarrow> bool" where
  "cache_ok g cache \<longleftrightarrow> wf_dict cache \<and> (\<forall>(k, e) \<in> set cache. authorized_for g (ce_auth e))"

fun phase_ok :: "spend_guard \<Rightarrow> wrap_phase \<Rightarrow> bool" where
  "phase_ok g (W_Execute a) \<longleftrightarrow> authorized_for g (wa_auth a)"
| "phase_ok g (W_Consume x d) \<longleftrightarrow> authorized_for g (wa_auth x)"
| "phase_ok g (W_Release a d e) \<longleftrightarrow> authorized_for g (wa_auth a)"
| "phase_ok g (W_Evidence w) \<longleftrightarrow> authorized_for g (wa_auth w)"
| "phase_ok g _ \<longleftrightarrow> True"

lemma assert_spend_authorized_for:
  "assert_spend_authorized g k out = Inr r \<Longrightarrow> authorized_for g r"
  by (simp add: authorized_for_def assert_spend_authorized_binding)

lemma cache_ok_take:
  assumes "cache_ok g cache"
  shows "cache_ok g (snd (take_valid_cached_authorization cache k q ttl now))"
    and "fst (take_valid_cached_authorization cache k q ttl now) = Some e \<Longrightarrow> authorized_for g (ce_auth e)"
proof -
  show "cache_ok g (snd (take_valid_cached_authorization cache k q ttl now))"
    using assms by (auto simp: cache_ok_def take_snd AList.delete_eq)
  show "authorized_for g (ce_auth e)"
    if "fst (take_valid_cached_authorization cache k q ttl now) = Some e"
    using assms that by (auto simp: cache_ok_def take_valid_Some dest!: map_of_SomeD)
qed

lemma cache_ok_store:
  assumes "cache_ok g cache" "authorized_for g (ce_auth e)"
  shows "cache_ok g (store_authorization cache k e n1 n2)"
proof -
  have "set (store_authorization cache k e n1 n2) \<subseteq> insert (k, e\<lparr>ce_cached_at := n2\<rparr>) (set cache)"
    using set_update_subset[of k "e\<lparr>ce_cached_at := n2\<rparr>"
        "evict_expired_authorization_cache cache AUTHORIZATION_CACHE_TTL_SEC n1"]
    by (auto simp: store_authorization_def evict_expired_authorization_cache_def del_keys_conv)
  then show ?thesis
    using assms unfolding cache_ok_def
    by (auto simp: store_authorization_def)
qed

lemma with_auth_simps [simp]:
  "wa_auth (with_auth ck c auth ms dg) = auth" "wc_input (with_auth ck c auth ms dg) = wc_input c"
  "wc_resolved (with_auth ck c auth ms dg) = wc_resolved c" "wc_pinned (with_auth ck c auth ms dg) = wc_pinned c"
  "wa_policy_digest (with_auth ck c auth ms dg) = dg"
  by (simp_all add: with_auth_def)

lemma wrap_begin_ok:
  assumes "cache_ok g (it_authorized_calls it)"
  shows "cache_ok g (it_authorized_calls (fst (wrap_begin ck it ci)))"
    and "phase_ok g (snd (wrap_begin ck it ci))"
  using assms
  by (auto simp: wrap_begin_def Let_def begin_in_flight_def case_prod_unfold finish_def cache_ok_take
      intro!: cache_ok_take(2)
      split: sum.splits tool_resolution.splits option.splits)

lemma wrap_finalized_ok: "authorized_for g (wa_auth x) \<Longrightarrow> phase_ok g (snd (wrap_finalized env ck it x))"
  by (auto simp: wrap_finalized_def finish_def Let_def split: sum.splits)

lemma wrap_failed_ok: "authorized_for g (wa_auth a) \<Longrightarrow> phase_ok g (snd (wrap_failed it a e))"
  by (auto simp: wrap_failed_def finish_def split: option.splits)

lemma wrap_step_ok:
  assumes "phase_ok g ph" and "bd_guard (it_binding it) = g"
  shows "phase_ok g (snd (wrap_step env an ck it ph))"
  using assms
  by (cases ph)
    (auto simp: wrap_step_def wrap_passed_def wrap_verified_def wrap_executed_def wrap_consumed_def
       wrap_released_def wrap_evidenced_def Let_def finish_def
       intro!: wrap_finalized_ok wrap_failed_ok dest: assert_spend_authorized_for
       split: sum.splits option.splits)

section \<open>What Harbor is asked\<close>

text \<open>The operation is allowed by the intent, and the amount stays within the sandbox's.\<close>

definition resolved_ok :: "run_binding \<Rightarrow> resolved_call \<Rightarrow> bool" where
  "resolved_ok b rv \<longleftrightarrow>
     rv_operation rv \<in> set (bd_allowed_tools b) \<and>
     ak_operation (rv_auth_kwargs rv) = rv_operation rv \<and>
     ak_requested_spend_cents (rv_auth_kwargs rv) =
       (case rv_requested_spend_cents rv of None \<Rightarrow> 0 | Some c \<Rightarrow> c) \<and>
     (case bd_sandbox b of None \<Rightarrow> True
      | Some s \<Rightarrow> (case rv_requested_spend_cents rv of
           None \<Rightarrow> False | Some c \<Rightarrow> c \<le> sx_requested_spend_cents s))"

lemma resolve_side_effecting_call_ok:
  "resolve_side_effecting_call b ci entry op = Inr rv \<Longrightarrow>
     resolved_ok b rv \<and> rv_entry rv = entry"
  by (auto simp: resolve_side_effecting_call_def resolved_ok_def assert_operation_allowed_def
      sandboxed_spend_def rbind_Inr_iff Let_def split: option.splits)

section \<open>The sequential call\<close>

lemma drive_Done [simp]: "drive env an cks it (W_Done r) = (it, W_Done r)"
  by (simp add: drive.simps)

lemma drive_active:
  "active ph \<Longrightarrow> drive env an cks it ph =
     drive env an cks (fst (wrap_step env an (cks (phase_rank ph)) it ph))
                      (snd (wrap_step env an (cks (phase_rank ph)) it ph))"
  by (subst drive.simps) (simp add: active_def case_prod_unfold Let_def)

lemma drive_returns: "\<exists>it' r. drive env an cks it ph = (it', W_Done r)"
proof (induction env an cks it ph rule: drive.induct)
  case (1 env an cks it ph)
  show ?case
  proof (cases "active ph")
    case True
    obtain it1 ph1 where s: "wrap_step env an (cks (phase_rank ph)) it ph = (it1, ph1)" by fastforce
    have "\<exists>it' r. drive env an cks it1 ph1 = (it', W_Done r)"
      using 1[OF _ s[symmetric]] True by (auto simp: active_def)
    then show ?thesis using drive_active[OF True, of env an cks it] by (simp add: s)
  next
    case False
    then show ?thesis by (auto simp: not_active)
  qed
qed

text \<open>The log, the frame and the counter of a segment, carried to the end of the call.\<close>

lemma drive_log:
  "call_log evs ph \<Longrightarrow> extends_log it evs (drive env an cks it ph)"
proof (induction env an cks it ph arbitrary: evs rule: drive.induct)
  case (1 env an cks it ph)
  show ?case
  proof (cases "active ph")
    case False
    then show ?thesis using 1(2) by (auto simp: not_active extends_log_def)
  next
    case True
    obtain it1 ph1 where s: "wrap_step env an (cks (phase_rank ph)) it ph = (it1, ph1)" by fastforce
    obtain es where es: "it_effects it1 = it_effects it @ es" "call_log (evs @ es) ph1"
      using wrap_step_log[OF 1(2), of it env an "cks (phase_rank ph)"] by (auto simp: extends_log_def s)
    have "extends_log it1 (evs @ es) (drive env an cks it1 ph1)"
      using 1(1)[OF _ s[symmetric] refl es(2)] True by (auto simp: active_def)
    then show ?thesis
      using True drive_active[OF True, of env an cks it] es(1) by (auto simp: s extends_log_def)
  qed
qed

lemma drive_invariants:
  assumes "active ph \<Longrightarrow> 0 < it_in_flight it"
  shows "it_binding (fst (drive env an cks it ph)) = it_binding it \<and>
     it_authorized_calls (fst (drive env an cks it ph)) = it_authorized_calls it \<and>
     it_in_flight (fst (drive env an cks it ph)) =
       (if active ph then it_in_flight it - 1 else it_in_flight it)"
  using assms
proof (induction env an cks it ph rule: drive.induct)
  case (1 env an cks it ph)
  show ?case
  proof (cases "active ph")
    case False
    then show ?thesis by (auto simp: not_active)
  next
    case True
    obtain it1 ph1 where s: "wrap_step env an (cks (phase_rank ph)) it ph = (it1, ph1)" by fastforce
    have n: "it_in_flight it1 = (if active ph1 then it_in_flight it else it_in_flight it - 1)"
      using wrap_step_counted[OF True, of it env an "cks (phase_rank ph)"] 1(2)[OF True]
      by (auto simp: counted_def s)
    have f: "it_binding it1 = it_binding it" "it_authorized_calls it1 = it_authorized_calls it"
      using wrap_step_frame[of env an "cks (phase_rank ph)" it ph] by (simp_all add: s)
    have "it_binding (fst (drive env an cks it1 ph1)) = it_binding it1 \<and>
       it_authorized_calls (fst (drive env an cks it1 ph1)) = it_authorized_calls it1 \<and>
       it_in_flight (fst (drive env an cks it1 ph1)) =
         (if active ph1 then it_in_flight it1 - 1 else it_in_flight it1)"
      using 1(1)[OF _ s[symmetric] refl] True n 1(2)[OF True] by (auto simp: active_def)
    then show ?thesis
      using True drive_active[OF True, of env an cks it] f n by (auto simp: s split: if_splits)
  qed
qed

lemma wrap_begin_in_flight:
  assumes "0 \<le> it_in_flight it"
  shows "it_in_flight (fst (wrap_begin ck it ci)) =
    (if active (snd (wrap_begin ck it ci)) then it_in_flight it + 1 else it_in_flight it)"
  using wrap_begin_counted[of it ck ci] assms by (auto simp: counted_def)

lemma wrap_execute_log:
  "\<exists>it' es r. wrap_execute env an cks it ci = (it', W_Done r) \<and>
     it_effects it' = it_effects it @ es \<and> call_log es (W_Done r)"
proof -
  obtain it1 ph1 where b: "wrap_begin (cks 6) it ci = (it1, ph1)" by fastforce
  have "call_log [] ph1" using wrap_begin_log[of "cks 6" it ci] by (simp add: b)
  then have "extends_log it1 [] (drive env an cks it1 ph1)" by (rule drive_log)
  moreover obtain it' r where "drive env an cks it1 ph1 = (it', W_Done r)" using drive_returns by blast
  moreover have "it_effects it1 = it_effects it"
    using wrap_begin_effects[of "cks 6" it ci] by (simp add: b)
  ultimately show ?thesis by (auto simp: wrap_execute_def b extends_log_def)
qed

lemma wrap_execute_facts:
  assumes "wrap_execute env an cks it ci = (it', ph)" and "0 \<le> it_in_flight it"
  shows "it_binding it' = it_binding it" and "it_in_flight it' = it_in_flight it"
proof -
  obtain it1 ph1 where b: "wrap_begin (cks 6) it ci = (it1, ph1)" by fastforce
  have d: "drive env an cks it1 ph1 = (it', ph)"
    using assms(1) by (simp add: wrap_execute_def b)
  have n: "it_in_flight it1 = (if active ph1 then it_in_flight it + 1 else it_in_flight it)"
    using wrap_begin_in_flight[OF assms(2), of "cks 6" ci] by (simp add: b)
  have "active ph1 \<Longrightarrow> 0 < it_in_flight it1" using n assms(2) by simp
  note inv = drive_invariants[of ph1 it1 env an cks, OF this]
  show "it_binding it' = it_binding it"
    using inv d wrap_begin_frame[of "cks 6" it ci] by (simp add: b)
  show "it_in_flight it' = it_in_flight it"
    using inv d n by (auto split: if_splits)
qed

text \<open>A call that has to ask Harbor: the verdict decides whether the tool runs at all.\<close>

lemma drive_refused:
  assumes "assert_spend_authorized (bd_guard (it_binding it)) (rv_auth_kwargs (wc_resolved c)) (an_verify an) = Inl e"
  shows "snd (drive env an cks it (W_Verify c)) = W_Done (Inl e)"
    and "it_effects (fst (drive env an cks it (W_Verify c))) = it_effects it @
      [Asked (verify_spend_capability (bd_guard (it_binding it)) (rv_auth_kwargs (wc_resolved c))) False]"
  using assms
  by (simp_all add: drive_active wrap_step_def wrap_verified_def Let_def finish_def)

lemma drive_authorized:
  assumes "assert_spend_authorized (bd_guard (it_binding it)) (rv_auth_kwargs (wc_resolved c)) (an_verify an) = Inr auth"
  shows "\<exists>it1 a. drive env an cks it (W_Verify c) = drive env an cks it1 (W_Execute a) \<and>
    it_binding it1 = it_binding it \<and> wa_auth a = auth \<and> call_id a = call_id c \<and>
    it_effects it1 = it_effects it @
      [Asked (verify_spend_capability (bd_guard (it_binding it)) (rv_auth_kwargs (wc_resolved c))) True]"
proof -
  obtain it1 a where s: "wrap_step env an (cks 5) it (W_Verify c) = (it1, W_Execute a)"
    "it_binding it1 = it_binding it" "wa_auth a = auth" "call_id a = call_id c"
    "it_effects it1 = it_effects it @
      [Asked (verify_spend_capability (bd_guard (it_binding it)) (rv_auth_kwargs (wc_resolved c))) True]"
    using assms by (simp add: wrap_step_def wrap_verified_def Let_def call_id_def)
  then show ?thesis
    by (intro exI[of _ it1] exI[of _ a]) (simp add: drive_active[of "W_Verify c"])
qed

text \<open>The tool raises: the reservation is released, whatever the release answers.\<close>

lemma drive_tool_failed:
  assumes "an_tool an = Inl e" "is_exception e" "vr_decision_id (wa_auth a) = Some d"
  shows "it_effects (fst (drive env an cks it (W_Execute a))) = it_effects it @
      [Ran (call_id a) False,
       Completed d Released (is_inr (complete_spend_authorization (bd_guard (it_binding it)) (an_release an)))]"
  using assms
  by (auto simp: drive_active wrap_step_def wrap_executed_def wrap_failed_def wrap_released_def
      finish_def Let_def call_id_def split: sum.split)

text \<open>The tool returned, but its finalization raised: the release is attempted all the same.\<close>

lemma drive_consume_failed:
  assumes "an_tool an = Inr v" "vr_decision_id (wa_auth a) = Some d"
    and "complete_spend_authorization (bd_guard (it_binding it)) (an_consume an) = Inl e" "is_exception e"
  shows "it_effects (fst (drive env an cks it (W_Execute a))) = it_effects it @
      [Ran (call_id a) True, Completed d Consumed False,
       Completed d Released (is_inr (complete_spend_authorization (bd_guard (it_binding it)) (an_release an)))]"
  using assms
  by (auto simp: drive_active wrap_step_def wrap_executed_def wrap_consumed_def wrap_failed_def
      wrap_released_def finish_def Let_def call_id_def split: sum.split)

text \<open>How \<open>wrap_begin\<close> reaches a phase that runs the tool.\<close>

lemma wrap_begin_execute:
  assumes "wrap_begin ck it ci = (it', W_Execute a)"
  shows "\<exists>key e. map_of (it_authorized_calls it) key = Some e \<and> wa_auth a = ce_auth e \<and>
    ck_mono ck - ce_cached_at e \<le> AUTHORIZATION_CACHE_TTL_SEC \<and> ce_tool_name e = strip (ci_tool_name ci) \<and>
    ce_operation e = rv_operation (wc_resolved a) \<and>
    ce_requested_spend_cents e = rv_requested_spend_cents (wc_resolved a) \<and>
    key = authorization_cache_key (strip (ci_tool_call_id ci)) (rv_operation (wc_resolved a)) \<and>
    map_of (it_authorized_calls it') key = None"
  using assms take_removes
  by (auto simp: wrap_begin_def Let_def begin_in_flight_def case_prod_unfold finish_def take_valid_Some
      stripped_input_def split: sum.splits tool_resolution.splits option.splits)

lemma wrap_begin_passthrough:
  assumes "wrap_begin ck it ci = (it', W_Passthrough cid)"
  shows "\<exists>n. resolve_tool (bd_registry (it_binding it)) (strip (ci_tool_name ci))
               (Some (bd_allowed_tools (it_binding it))) = Passthrough n"
  using assms
  by (auto simp: wrap_begin_def Let_def begin_in_flight_def case_prod_unfold finish_def
      stripped_input_def split: sum.splits tool_resolution.splits option.splits)

lemma wrap_begin_verify:
  assumes "wrap_begin ck it ci = (it', W_Verify c)"
  shows "resolved_ok (it_binding it) (wc_resolved c)"
    and "wc_pinned c = map_option sn_digest (bd_policy_snapshot (it_binding it))"
    and "call_id c = strip (ci_tool_call_id ci)"
  using assms
  by (auto simp: wrap_begin_def Let_def begin_in_flight_def case_prod_unfold finish_def call_id_def
      stripped_input_def dest: resolve_side_effecting_call_ok
      split: sum.splits tool_resolution.splits option.splits)

text \<open>No other phase follows the first segment.\<close>

lemma wrap_begin_phases:
  "case snd (wrap_begin ck it ci) of
     W_Done (Inl e) \<Rightarrow> True | W_Passthrough cid \<Rightarrow> True | W_Verify c \<Rightarrow> True | W_Execute a \<Rightarrow> True | _ \<Rightarrow> False"
  by (auto simp: wrap_begin_def Let_def begin_in_flight_def case_prod_unfold finish_def
      split: sum.splits tool_resolution.splits option.splits)

section \<open>authorize_tool_call\<close>

lemma authorize_begin_in_flight:
  assumes "authorize_begin it ci = (it', ph)" "0 \<le> it_in_flight it"
  shows "it_in_flight it' = (case ph of Auth_Done _ \<Rightarrow> it_in_flight it | Auth_Verify _ _ _ \<Rightarrow> it_in_flight it + 1)"
    and "it_binding it' = it_binding it" "it_authorized_calls it' = it_authorized_calls it"
    "it_effects it' = it_effects it"
  using assms
  by (auto simp: authorize_begin_def Let_def begin_in_flight_def case_prod_unfold
      split: sum.splits tool_resolution.splits)

lemma authorize_resume_facts:
  assumes "authorize_resume ck it ci rv pinned out = (it', d)" "0 < it_in_flight it"
  shows "it_in_flight it' = it_in_flight it - 1" "it_binding it' = it_binding it"
  using assms
  by (auto simp: authorize_resume_def Let_def split: sum.splits exn.splits)

lemma authorize_resume_ok:
  assumes "authorize_resume ck it ci rv pinned out = (it', d)"
    and "cache_ok (bd_guard (it_binding it)) (it_authorized_calls it)"
  shows "cache_ok (bd_guard (it_binding it)) (it_authorized_calls it')"
proof (cases "assert_spend_authorized (bd_guard (it_binding it)) (rv_auth_kwargs rv) out")
  case (Inl e)
  then show ?thesis using assms by (cases e) (auto simp: authorize_resume_def Let_def)
next
  case (Inr auth)
  note auth = assert_spend_authorized_for[OF Inr]
  show ?thesis using assms auth by (auto simp: authorize_resume_def Let_def Inr intro!: cache_ok_store)
qed

end
