(* ===== verification/Interceptor_Calls.thy ===== *)
theory Interceptor_Calls
  imports Interceptor_Facts
begin

text \<open>
  Many tool calls on one interceptor.  The event loop runs one segment of one call at a time;
  between two segments of a call any other call may start or resume, and a policy reload may
  swap the registry of the shared binding.  \<open>step\<close> is that interleaving, with the answers and
  the clock readings left open; \<open>reachable\<close> are the states it leads to from a fresh run.
\<close>

section \<open>The system\<close>

text \<open>
  A call of \<open>wrap_execute\<close> with its effects so far, and whether it started from a cached
  authorization; or a call of \<open>authorize_tool_call\<close>.
\<close>

datatype call_state =
    Wrapping "effect list" bool wrap_phase
  | Authorizing auth_phase

record system =
  sy_it :: interceptor
  sy_calls :: "call_state list"

definition starts_cached :: "wrap_phase \<Rightarrow> bool" where
  "starts_cached ph = (case ph of W_Execute _ \<Rightarrow> True | _ \<Rightarrow> False)"

definition new_effects :: "interceptor \<Rightarrow> interceptor \<Rightarrow> effect list" where
  "new_effects it it' = drop (length (it_effects it)) (it_effects it')"

text \<open>\<open>PaybondAgentRun.apply_policy_snapshot\<close> on the binding the interceptor shares.\<close>

definition swap_binding :: "snapshot \<Rightarrow> run_binding \<Rightarrow> run_binding" where
  "swap_binding sn b = b\<lparr>bd_registry := sn_registry sn, bd_policy_snapshot := Some sn\<rparr>"

inductive step :: "kit_env \<Rightarrow> system \<Rightarrow> system \<Rightarrow> bool" for env where
  start_wrap:
    "wrap_begin ck (sy_it s) ci = (it', ph) \<Longrightarrow>
     step env s (s\<lparr>sy_it := it', sy_calls := sy_calls s @ [Wrapping [] (starts_cached ph) ph]\<rparr>)"
| resume_wrap:
    "\<lbrakk>i < length (sy_calls s); sy_calls s ! i = Wrapping evs cached ph; active ph;
      wrap_step env an ck (sy_it s) ph = (it', ph')\<rbrakk> \<Longrightarrow>
     step env s (s\<lparr>sy_it := it',
       sy_calls := (sy_calls s)[i := Wrapping (evs @ new_effects (sy_it s) it') cached ph']\<rparr>)"
| start_authorize:
    "authorize_begin (sy_it s) ci = (it', ph) \<Longrightarrow>
     step env s (s\<lparr>sy_it := it', sy_calls := sy_calls s @ [Authorizing ph]\<rparr>)"
| resume_authorize:
    "\<lbrakk>i < length (sy_calls s); sy_calls s ! i = Authorizing (Auth_Verify ci rv pinned);
      authorize_resume ck (sy_it s) ci rv pinned out = (it', d)\<rbrakk> \<Longrightarrow>
     step env s (s\<lparr>sy_it := it', sy_calls := (sy_calls s)[i := Authorizing (Auth_Done d)]\<rparr>)"
| swap_policy:
    "step env s (s\<lparr>sy_it := (sy_it s)\<lparr>it_binding := swap_binding sn (it_binding (sy_it s))\<rparr>\<rparr>)"

inductive_simps step_simps: "step env s s'"
inductive_cases step_cases: "step env s s'"

definition initial :: "run_binding \<Rightarrow> system" where
  "initial b = \<lparr>sy_it = \<lparr>it_binding = b, it_authorized_calls = [], it_in_flight = 0, it_trace = [],
                        it_effects = []\<rparr>, sy_calls = []\<rparr>"

inductive reachable :: "kit_env \<Rightarrow> run_binding \<Rightarrow> system \<Rightarrow> bool" for env b where
  start: "reachable env b (initial b)"
| more: "\<lbrakk>reachable env b s; step env s s'\<rbrakk> \<Longrightarrow> reachable env b s'"

section \<open>Counting\<close>

fun active_call :: "call_state \<Rightarrow> bool" where
  "active_call (Wrapping evs cached ph) \<longleftrightarrow> active ph"
| "active_call (Authorizing (Auth_Verify ci rv pinned)) \<longleftrightarrow> True"
| "active_call (Authorizing (Auth_Done d)) \<longleftrightarrow> False"

fun from_cache :: "call_state \<Rightarrow> bool" where
  "from_cache (Wrapping evs cached ph) \<longleftrightarrow> cached"
| "from_cache (Authorizing ph) \<longleftrightarrow> False"

fun granted :: "call_state \<Rightarrow> bool" where
  "granted (Authorizing (Auth_Done (Inr (Allow op audit dec digest)))) \<longleftrightarrow> True"
| "granted c \<longleftrightarrow> False"

lemma granted_simps [simp]:
  "\<not> granted (Wrapping evs cached ph)" "\<not> granted (Authorizing (Auth_Verify ci rv pinned))"
  by simp_all

section \<open>The invariant\<close>

definition call_ok :: "spend_guard \<Rightarrow> call_state \<Rightarrow> bool" where
  "call_ok g c = (case c of
       Wrapping evs cached ph \<Rightarrow> call_log evs ph \<and> phase_ok g ph
     | Authorizing ph \<Rightarrow> True)"

definition system_ok :: "run_binding \<Rightarrow> system \<Rightarrow> bool" where
  "system_ok b s \<longleftrightarrow>
     bd_guard (it_binding (sy_it s)) = bd_guard b \<and>
     bd_allowed_tools (it_binding (sy_it s)) = bd_allowed_tools b \<and>
     bd_sandbox (it_binding (sy_it s)) = bd_sandbox b \<and>
     it_in_flight (sy_it s) = how_many active_call (sy_calls s) \<and>
     cache_ok (bd_guard b) (it_authorized_calls (sy_it s)) \<and>
     list_all (call_ok (bd_guard b)) (sy_calls s) \<and>
     how_many from_cache (sy_calls s) + int (length (it_authorized_calls (sy_it s)))
       \<le> how_many granted (sy_calls s)"

lemma system_ok_initial: "system_ok b (initial b)"
  by (simp add: system_ok_def initial_def cache_ok_def)

lemma list_all_update: "\<lbrakk>list_all P xs; P y\<rbrakk> \<Longrightarrow> list_all P (xs[i := y])"
  by (auto simp: list_all_iff dest!: set_update_subset_insert[THEN subsetD])

lemma call_ok_nth:
  "\<lbrakk>list_all (call_ok g) cs; i < length cs; cs ! i = Wrapping evs cached ph\<rbrakk> \<Longrightarrow>
     call_log evs ph \<and> phase_ok g ph"
  by (auto simp: list_all_length call_ok_def dest: spec[of _ i])

lemma new_effects_append: "it_effects it' = it_effects it @ es \<Longrightarrow> new_effects it it' = es"
  by (simp add: new_effects_def)

text \<open>Taking an authorization out shrinks the cache; storing one adds at most one.\<close>

lemma length_delete_le: "length (AList.delete k c) \<le> length c"
  by (simp add: AList.delete_eq)

lemma length_delete_less: "map_of c k \<noteq> None \<Longrightarrow> length (AList.delete k c) < length c"
  by (induction c) (auto simp: less_Suc_eq_le length_delete_le)

lemma length_update_le: "length (AList.update k v c) \<le> Suc (length c)"
  by (induction c) auto

lemma length_store_le: "length (store_authorization c k e n1 n2) \<le> Suc (length c)"
proof -
  have "length (evict_expired_authorization_cache c AUTHORIZATION_CACHE_TTL_SEC n1) \<le> length c"
    by (simp add: evict_expired_authorization_cache_def del_keys_conv)
  then show ?thesis
    using length_update_le[of k "e\<lparr>ce_cached_at := n2\<rparr>"
        "evict_expired_authorization_cache c AUTHORIZATION_CACHE_TTL_SEC n1"]
    by (simp add: store_authorization_def)
qed

lemma length_store_int: "int (length (store_authorization c k e n1 n2)) \<le> int (length c) + 1"
  using length_store_le[of c k e n1 n2] by simp

lemma wrap_begin_cache:
  "int (length (it_authorized_calls (fst (wrap_begin ck it ci)))) + of_bool (starts_cached (snd (wrap_begin ck it ci)))
     \<le> int (length (it_authorized_calls it))"
proof -
  have hit: "int (length (snd (take_valid_cached_authorization c k q t n))) + 1 \<le> int (length c)"
    if "fst (take_valid_cached_authorization c k q t n) = Some e" for c k q t n e
    using that length_delete_less[of c k] by (auto simp: take_valid_Some take_snd)
  have miss: "length (snd (take_valid_cached_authorization c k q t n)) \<le> length c" for c k q t n
    by (simp add: take_snd length_delete_le)
  show ?thesis
    using miss
    by (auto intro!: hit simp: wrap_begin_def Let_def begin_in_flight_def case_prod_unfold finish_def starts_cached_def
        split: sum.splits tool_resolution.splits option.splits)
qed

lemma swap_binding_simps [simp]:
  "bd_guard (swap_binding sn b) = bd_guard b"
  "bd_allowed_tools (swap_binding sn b) = bd_allowed_tools b"
  "bd_sandbox (swap_binding sn b) = bd_sandbox b"
  "bd_registry (swap_binding sn b) = sn_registry sn"
  "bd_policy_snapshot (swap_binding sn b) = Some sn"
  "bd_tenant_id (swap_binding sn b) = bd_tenant_id b"
  "bd_intent_id (swap_binding sn b) = bd_intent_id b"
  by (simp_all add: swap_binding_def)

lemma start_wrap_ok:
  assumes ok: "system_ok b s" and w: "wrap_begin ck (sy_it s) ci = (it', ph)"
  shows "system_ok b (s\<lparr>sy_it := it', sy_calls := sy_calls s @ [Wrapping [] (starts_cached ph) ph]\<rparr>)"
proof -
  have n: "it_in_flight it' = it_in_flight (sy_it s) + of_bool (active ph)"
    using wrap_begin_in_flight[of "sy_it s" ck ci] ok by (auto simp: w system_ok_def)
  have c: "int (length (it_authorized_calls it')) + of_bool (starts_cached ph)
      \<le> int (length (it_authorized_calls (sy_it s)))"
    using wrap_begin_cache[of ck "sy_it s" ci] by (simp add: w)
  have f: "it_binding it' = it_binding (sy_it s)" using wrap_begin_frame[of ck "sy_it s" ci] by (simp add: w)
  have l: "call_log [] ph" using wrap_begin_log[of ck "sy_it s" ci] by (simp add: w)
  have a: "cache_ok (bd_guard b) (it_authorized_calls it')" "phase_ok (bd_guard b) ph"
    using wrap_begin_ok[of "bd_guard b" "sy_it s" ck ci] ok by (simp_all add: w system_ok_def)
  show ?thesis using ok n c f l a by (simp add: system_ok_def call_ok_def)
qed

lemma resume_wrap_ok:
  assumes ok: "system_ok b s" and i: "i < length (sy_calls s)" and c: "sy_calls s ! i = Wrapping evs cached ph"
    and act: "active ph" and w: "wrap_step env an ck (sy_it s) ph = (it', ph')"
  shows "system_ok b (s\<lparr>sy_it := it',
      sy_calls := (sy_calls s)[i := Wrapping (evs @ new_effects (sy_it s) it') cached ph']\<rparr>)"
proof -
  have cl: "call_log evs ph" "phase_ok (bd_guard b) ph"
    using ok call_ok_nth[OF _ i c] by (auto simp: system_ok_def)
  obtain es where es: "it_effects it' = it_effects (sy_it s) @ es" "call_log (evs @ es) ph'"
    using wrap_step_log[OF cl(1), of "sy_it s" env an ck] by (auto simp: extends_log_def w)
  have pos: "0 < it_in_flight (sy_it s)"
    using ok how_many_pos[OF i, of active_call] c act by (simp add: system_ok_def)
  have n: "it_in_flight it' = it_in_flight (sy_it s) - 1 + of_bool (active ph')"
    using wrap_step_counted[OF act, of "sy_it s" env an ck] pos by (auto simp: counted_def w)
  have f: "it_binding it' = it_binding (sy_it s)" "it_authorized_calls it' = it_authorized_calls (sy_it s)"
    using wrap_step_frame[of env an ck "sy_it s" ph] by (simp_all add: w)
  have "phase_ok (bd_guard b) ph'"
    using wrap_step_ok[OF cl(2), of "sy_it s" env an ck] ok by (simp add: w system_ok_def)
  then have "call_ok (bd_guard b) (Wrapping (evs @ new_effects (sy_it s) it') cached ph')"
    using es by (simp add: call_ok_def new_effects_append)
  then show ?thesis
    using ok n f c i act by (simp add: system_ok_def list_all_update how_many_update)
qed

lemma start_authorize_ok:
  assumes ok: "system_ok b s" and w: "authorize_begin (sy_it s) ci = (it', ph)"
  shows "system_ok b (s\<lparr>sy_it := it', sy_calls := sy_calls s @ [Authorizing ph]\<rparr>)"
proof -
  have pos: "0 \<le> it_in_flight (sy_it s)" using ok by (simp add: system_ok_def)
  note f = authorize_begin_in_flight[OF w pos]
  have n: "it_in_flight it' = it_in_flight (sy_it s) + of_bool (active_call (Authorizing ph))"
    using f(1) by (cases ph) simp_all
  have "0 \<le> (of_bool (granted (Authorizing ph)) :: int)" by simp
  then show ?thesis using ok f n by (simp add: system_ok_def call_ok_def)
qed

lemma authorize_resume_grant:
  assumes "authorize_resume ck it ci rv pinned out = (it', d)"
  shows "int (length (it_authorized_calls it')) \<le>
    int (length (it_authorized_calls it)) + of_bool (granted (Authorizing (Auth_Done d)))"
proof (cases "assert_spend_authorized (bd_guard (it_binding it)) (rv_auth_kwargs rv) out")
  case (Inl e)
  then show ?thesis using assms by (cases e) (auto simp: authorize_resume_def Let_def)
next
  case (Inr auth)
  then show ?thesis using assms by (auto simp: authorize_resume_def Let_def intro: length_store_int)
qed

lemma resume_authorize_ok:
  assumes ok: "system_ok b s" and i: "i < length (sy_calls s)"
    and c: "sy_calls s ! i = Authorizing (Auth_Verify ci rv pinned)"
    and w: "authorize_resume ck (sy_it s) ci rv pinned out = (it', d)"
  shows "system_ok b (s\<lparr>sy_it := it', sy_calls := (sy_calls s)[i := Authorizing (Auth_Done d)]\<rparr>)"
proof -
  have pos: "0 < it_in_flight (sy_it s)"
    using ok how_many_pos[OF i, of active_call] c by (simp add: system_ok_def)
  note f = authorize_resume_facts[OF w pos]
  have "cache_ok (bd_guard b) (it_authorized_calls it')"
    using authorize_resume_ok[OF w] ok by (simp add: system_ok_def)
  moreover have "call_ok (bd_guard b) (Authorizing (Auth_Done d))" by (simp add: call_ok_def)
  ultimately show ?thesis
    using ok f c i authorize_resume_grant[OF w]
    by (simp add: system_ok_def list_all_update how_many_update)
qed

lemma step_ok: "step env s s' \<Longrightarrow> system_ok b s \<Longrightarrow> system_ok b s'"
proof (induction rule: step.induct)
  case (swap_policy s sn)
  then show ?case by (simp add: system_ok_def)
qed (auto intro: start_wrap_ok resume_wrap_ok start_authorize_ok resume_authorize_ok)

lemma reachable_ok: "reachable env b s \<Longrightarrow> system_ok b s"
  by (induction rule: reachable.induct) (auto intro: step_ok system_ok_initial)

end
