(* ===== verification/Sample_Run.thy ===== *)
theory Sample_Run
  imports Interceptor_Calls
begin

text \<open>
  A small concrete run, on which the properties of the guarded calls are evaluated: one tenant,
  one sandbox intent of 500 cents, a side-effecting tool \<open>book\<close> of at most 900 cents, and the
  gateway's answers to its verify, finalize and evidence requests.
\<close>

definition sample_intent :: uuid where
  "sample_intent = ''00000000000000000000000000000001''"

definition sample_decision :: uuid where
  "sample_decision = ''000000000000000000000000000000d1''"

definition sample_preset :: completion_preset where
  "sample_preset = \<lparr>cp_preset_id = ''receipt_ok'', cp_kind = None, cp_archetype_preset_id = None,
     cp_harbor_template_id = ''receipt_v1'', cp_parameters = [], cp_evidence_schema = JObj [],
     cp_sample_evidence = [], cp_evidence_field_map = [], cp_vendor_evidence_schema = None,
     cp_vendor_contract = None, cp_forbidden_evidence_fields = None,
     cp_deprecated = False, cp_superseded_by = None\<rparr>"

definition sample_entry :: tool_entry where
  "sample_entry = \<lparr>te_tool_name = ''book'', te_operation = ''travel.book'',
     te_evidence_preset = ''receipt_ok'', te_spend_cents = Some (Spend_Cents 900),
     te_evidence_mapper = None, te_external_attestation_mapper = None\<rparr>"

definition sample_registry :: registry where
  "sample_registry = \<lparr>rg_default_deny = True, rg_side_effecting = [(''book'', sample_entry)],
     rg_operations = [''travel.book'']\<rparr>"

definition sample_guard :: spend_guard where
  "sample_guard = \<lparr>sg_tenant_id = ''acme'', sg_finalizes = True, sg_intent_id = sample_intent,
     sg_capability_token = ''cap-1''\<rparr>"

definition sample_binding :: run_binding where
  "sample_binding = \<lparr>bd_run_id = ''run-1'', bd_tenant_id = ''acme'', bd_intent_id = sample_intent,
     bd_capability_token = ''cap-1'', bd_guard = sample_guard, bd_registry = sample_registry,
     bd_allowed_tools = [''travel.book''],
     bd_sandbox = Some \<lparr>sx_operation = ''travel.book'', sx_requested_spend_cents = 500,
                        sx_lifecycle_status = ''funded''\<rparr>,
     bd_production_evidence = None, bd_policy_snapshot = None, bd_agent_context = None\<rparr>"

definition sample_env :: kit_env where
  "sample_env = \<lparr>env_catalog = [sample_preset], env_sha256 = (\<lambda>s. ''00''),
     env_value_digest = (\<lambda>j. Inr ''11''), env_message_digest = (\<lambda>j. Inr ''22''),
     env_rfc3339 = (\<lambda>ms. ''2026-01-01T00:00:00Z''), env_attest = (\<lambda>l. Inr l),
     env_sign_wire = (\<lambda>t i p d n. Inr JNull), env_sign_proof = (\<lambda>t i w p. Inr JNull)\<rparr>"

definition sample_call :: call_input where
  "sample_call = \<lparr>ci_tool_name = ''book'', ci_tool_call_id = ''call-1'', ci_arguments = JObj [],
     ci_operation = None, ci_requested_spend_cents = None, ci_vendor_id = None, ci_task_id = None,
     ci_workflow_id = None, ci_currency = None, ci_agent_subject = None, ci_approval_token = None,
     ci_idempotency_key = None\<rparr>"

definition sample_clock :: clock where
  "sample_clock = \<lparr>ck_mono = 10, ck_stamp = 10, ck_ms = 1000, ck_now = ''2026-01-01T00:00:00Z''\<rparr>"

definition sample_interceptor :: interceptor where
  "sample_interceptor = \<lparr>it_binding = sample_binding, it_authorized_calls = [], it_in_flight = 0,
     it_trace = [], it_effects = []\<rparr>"

definition ok_json :: "(string, json) dict \<Rightarrow> http_response" where
  "ok_json d = \<lparr>hr_status = 200, hr_text = ''{}'', hr_json = Some (JObj d), hr_retry_after = None\<rparr>"

definition verdict_json :: "bool \<Rightarrow> http_response" where
  "verdict_json allow = ok_json
     [(''tenant'', JStr ''acme''), (''intent_id'', JStr (uuid_str sample_intent)),
      (''allow'', JBool allow), (''audit_id'', JStr (uuid_str sample_intent)),
      (''decision_id'', JStr (uuid_str sample_decision))]"

definition evidence_json :: http_response where
  "evidence_json = ok_json
     [(''tenant_id'', JStr ''acme''), (''intent_id'', JStr (uuid_str sample_intent)),
      (''operation'', JStr ''travel.book''), (''requested_spend_cents'', JInt 500),
      (''sandbox_lifecycle_status'', JStr ''evidence_accepted'')]"

definition failed_response :: http_response where
  "failed_response = \<lparr>hr_status = 500, hr_text = [], hr_json = None, hr_retry_after = None\<rparr>"

text \<open>Everything works; each witness changes the answer it is about.\<close>

definition sample_answers :: answers where
  "sample_answers = \<lparr>an_verify = Inr (verdict_json True), an_tool = Inr (JObj [(''ref'', JStr ''r1'')]),
     an_duration_ms = 5, an_consume = Inr (ok_json []), an_release = Inr (ok_json []),
     an_evidence = Inr evidence_json\<rparr>"

definition sample_run :: "answers \<Rightarrow> interceptor \<Rightarrow> interceptor \<times> wrap_phase" where
  "sample_run an it = wrap_execute sample_env an (\<lambda>_. sample_clock) it sample_call"

definition returned :: "wrap_phase \<Rightarrow> bool" where
  "returned ph \<longleftrightarrow> (case ph of W_Done (Inr v) \<Rightarrow> True | _ \<Rightarrow> False)"

lemma sample_call_returns: "returned (snd (sample_run sample_answers sample_interceptor))"
  by code_simp

lemma sample_call_effects:
  "length (it_effects (fst (sample_run sample_answers sample_interceptor))) = 4"
  by code_simp

end
