(* ===== verification/Guarded_Calls.thy ===== *)
theory Guarded_Calls
  imports Sample_Run
begin

text \<open>
  The properties of a guarded tool call, \<open>PaybondToolInterceptor.wrap_execute\<close>, run alone and
  interleaved with others: which tools run, in which order a call acts on the world, what it asks
  Harbor for, what happens to the reservation when something fails, and that the in-flight counter
  and the cache of authorizations stay exact.  Each property is followed by an instance on the
  sample run.
\<close>

section \<open>Lemmas\<close>

lemma new_effects_same [simp]: "it_effects it' = it_effects it \<Longrightarrow> new_effects it it' = []"
  by (simp add: new_effects_def)

lemma new_effects_trans: "it_effects it1 = it_effects it \<Longrightarrow> new_effects it it' = new_effects it1 it'"
  by (simp add: new_effects_def)

text \<open>How a call starts: one of four phases.\<close>

lemma wrap_begin_cases:
  obtains (refused) it1 e where "wrap_begin ck it ci = (it1, W_Done (Inl e))"
  | (passthrough) it1 cid where "wrap_begin ck it ci = (it1, W_Passthrough cid)"
  | (verify) it1 c where "wrap_begin ck it ci = (it1, W_Verify c)"
  | (cached) it1 a where "wrap_begin ck it ci = (it1, W_Execute a)"
  using wrap_begin_phases[of ck it ci]
  by (cases "wrap_begin ck it ci") (auto split: wrap_phase.splits sum.splits)

lemma wrap_execute_begin:
  assumes "wrap_begin (cks 6) it ci = (it1, ph1)"
  shows "wrap_execute env an cks it ci = drive env an cks it1 ph1"
    and "it_effects it1 = it_effects it" "it_binding it1 = it_binding it"
  using assms wrap_begin_effects[of "cks 6" it ci] wrap_begin_frame[of "cks 6" it ci]
  by (simp_all add: wrap_execute_def)

text \<open>Once the tool may run, nothing more is asked of Harbor's verifier.\<close>

lemma call_log_asked_once:
  "call_log (Asked q True # es) (W_Done r) \<Longrightarrow> Asked q' b \<notin> set es"
  by (cases r) (auto simp: error_log_def value_log_def ask_log_def consume_log_def append_eq_Cons_conv
      Cons_eq_append_conv split: option.splits)

lemma execute_asks_nothing:
  "Asked q b \<notin> set (new_effects it (fst (drive env an cks it (W_Execute a))))"
proof -
  obtain it' r where d: "drive env an cks it (W_Execute a) = (it', W_Done r)"
    using drive_returns by blast
  have "\<exists>es. it_effects it' = it_effects it @ es \<and> call_log (Asked q True # es) (W_Done r)"
    using drive_log[of "[Asked q True]" "W_Execute a" it env an cks] d by (auto simp: extends_log_def)
  then show ?thesis
    using d call_log_asked_once by (auto simp: new_effects_append)
qed


text \<open>What a call that had to ask Harbor did, as a whole.\<close>

lemma execute_effects:
  assumes "call_log [] (W_Execute a)"
  obtains es where "it_effects (fst (drive env an cks it (W_Execute a))) = it_effects it @ es"
    "\<forall>q b. Asked q b \<notin> set es"
proof -
  obtain es where "it_effects (fst (drive env an cks it (W_Execute a))) = it_effects it @ es"
    using drive_log[OF assms, of it env an cks] by (auto simp: extends_log_def)
  with that execute_asks_nothing[of _ _ it env an cks a] show ?thesis by (auto simp: new_effects_append)
qed

text \<open>The verify request a call sends.\<close>

abbreviation asked_of :: "run_binding \<Rightarrow> resolved_call \<Rightarrow> verify_request" where
  "asked_of b rv \<equiv> verify_spend_capability (bd_guard b) (rv_auth_kwargs rv)"

lemma verify_new_effects:
  assumes "wrap_begin (cks 6) it ci = (it1, W_Verify c)"
  shows "new_effects it (fst (wrap_execute env an cks it ci)) =
    (case assert_spend_authorized (bd_guard (it_binding it)) (rv_auth_kwargs (wc_resolved c)) (an_verify an) of
       Inl e \<Rightarrow> [Asked (asked_of (it_binding it) (wc_resolved c)) False]
     | Inr auth \<Rightarrow> new_effects it (fst (drive env an cks it1 (W_Verify c))))"
proof -
  note b = wrap_execute_begin(1)[where cks = cks and env = env and an = an, OF assms] wrap_execute_begin(2,3)[where cks = cks, OF assms]
  show ?thesis
    using drive_refused(2)[of it1 c an _ env cks] b
    by (auto simp: new_effects_append split: sum.split)
qed

lemma verify_authorized_effects:
  assumes b: "wrap_begin (cks 6) it ci = (it1, W_Verify c)"
    and v: "assert_spend_authorized (bd_guard (it_binding it)) (rv_auth_kwargs (wc_resolved c)) (an_verify an) = Inr auth"
  obtains it2 a where "wa_auth a = auth" "call_id a = strip (ci_tool_call_id ci)"
    "bd_guard (it_binding it2) = bd_guard (it_binding it)"
    "wrap_execute env an cks it ci = drive env an cks it2 (W_Execute a)"
    "new_effects it (fst (wrap_execute env an cks it ci)) =
       Asked (asked_of (it_binding it) (wc_resolved c)) True # new_effects it2 (fst (wrap_execute env an cks it ci))"
proof -
  note x = wrap_execute_begin(1)[where cks = cks and env = env and an = an, OF b] wrap_execute_begin(2,3)[where cks = cks, OF b]
  have v1: "assert_spend_authorized (bd_guard (it_binding it1)) (rv_auth_kwargs (wc_resolved c)) (an_verify an) = Inr auth"
    using v x(3) by simp
  obtain it2 a where d: "drive env an cks it1 (W_Verify c) = drive env an cks it2 (W_Execute a)"
    "it_binding it2 = it_binding it1" "wa_auth a = auth" "call_id a = call_id c"
    "it_effects it2 = it_effects it1 @ [Asked (asked_of (it_binding it1) (wc_resolved c)) True]"
    using drive_authorized[OF v1, of env cks] by blast
  obtain es where es: "it_effects (fst (drive env an cks it2 (W_Execute a))) = it_effects it2 @ es"
    using execute_effects[of a env an cks it2] by (metis call_log.simps(3) ask_log_simps(1))
  show ?thesis
    by (rule that[of a it2])
      (use d x es wrap_begin_verify(3)[OF b] in \<open>simp_all add: new_effects_def\<close>)
qed

section \<open>What a call does once it may run the tool\<close>

text \<open>
  The release that the \<open>except Exception\<close> clause attempts after the error \<open>t\<close>: one for a decision,
  none without a decision, and none for what is not an \<open>Exception\<close> (a cancellation).
\<close>

definition release_effects :: "answers \<Rightarrow> run_binding \<Rightarrow> uuid option \<Rightarrow> exn \<Rightarrow> effect list" where
  "release_effects an b decision t =
     (case decision of
        None \<Rightarrow> []
      | Some d \<Rightarrow>
          if is_exception t
          then [Completed d Released (is_inr (complete_spend_authorization (bd_guard b) (an_release an)))]
          else [])"

text \<open>At most one evidence submission, under the key of this intent and call.\<close>

definition evidence_effects :: "run_binding \<Rightarrow> string \<Rightarrow> bool \<Rightarrow> effect list \<Rightarrow> bool" where
  "evidence_effects b cid accepted es \<longleftrightarrow>
     es = [] \<or> (\<exists>p. es = [Sent_Evidence (evidence_idempotency_key (bd_intent_id b) cid) p accepted])"

text \<open>
  The effects from the tool on, told by the answers of the host and of Harbor: a tool that raises is
  followed by the release alone; a tool that returns by the consumption of its decision, and then
  by the release when that is refused and by the evidence when it is accepted.
\<close>

definition guarded_run :: "answers \<Rightarrow> run_binding \<Rightarrow> string \<Rightarrow> uuid option \<Rightarrow> bool \<Rightarrow> effect list \<Rightarrow> bool" where
  "guarded_run an b cid decision accepted es \<longleftrightarrow> (case an_tool an of
       Inl t \<Rightarrow> es = Ran cid False # release_effects an b decision t
     | Inr v \<Rightarrow> (case decision of
           None \<Rightarrow> (\<exists>ev. es = Ran cid True # ev \<and> evidence_effects b cid accepted ev)
         | Some d \<Rightarrow> (case complete_spend_authorization (bd_guard b) (an_consume an) of
               Inl c \<Rightarrow> es = Ran cid True # Completed d Consumed False # release_effects an b decision c
             | Inr _ \<Rightarrow> (\<exists>ev. es = Ran cid True # Completed d Consumed True # ev \<and>
                         evidence_effects b cid accepted ev))))"

lemma guarded_run_tool: "guarded_run an b cid d accepted es \<Longrightarrow> Ran cid' ok \<in> set es \<Longrightarrow> cid' = cid"
  by (cases "complete_spend_authorization (bd_guard b) (an_consume an)")
    (auto simp: guarded_run_def release_effects_def evidence_effects_def
      split: sum.splits option.splits if_splits)

lemma finalized_run:
  assumes "drive env an cks (fst (wrap_finalized env ck it x)) (snd (wrap_finalized env ck it x)) = (it', W_Done r)"
  shows "\<exists>ev. it_effects it' = it_effects it @ ev \<and> evidence_effects (it_binding it) (call_id x) (is_inr r) ev"
  using assms
  by (auto simp: wrap_finalized_def Let_def finish_def drive_active wrap_step_def wrap_evidenced_def
      evidence_effects_def call_id_def split: sum.splits)

lemma execute_run:
  assumes "drive env an cks it (W_Execute a) = (it', W_Done r)"
  shows "\<exists>es. it_effects it' = it_effects it @ es \<and>
    guarded_run an (it_binding it) (call_id a) (vr_decision_id (wa_auth a)) (is_inr r) es"
proof (cases "an_tool an")
  case (Inl t)
  then show ?thesis
    using assms by (auto simp: drive_active wrap_step_def wrap_executed_def wrap_failed_def wrap_released_def
        finish_def Let_def call_id_def guarded_run_def release_effects_def split: option.splits sum.splits if_splits)
next
  case (Inr v)
  show ?thesis
  proof (cases "vr_decision_id (wa_auth a)")
    case None
    then obtain it1 where i: "drive env an cks (fst (wrap_finalized env (cks 4) it1 (with_result a v)))
        (snd (wrap_finalized env (cks 4) it1 (with_result a v))) = (it', W_Done r)"
      "it_effects it1 = it_effects it @ [Ran (call_id a) True]" "it_binding it1 = it_binding it"
      using assms Inr by (simp add: drive_active[of "W_Execute a"] wrap_step_def wrap_executed_def Let_def call_id_def)
    then show ?thesis using finalized_run[OF i(1)] None Inr by (auto simp: guarded_run_def)
  next
    case (Some d)
    note D = Some
    obtain it1 where i: "drive env an cks it1 (W_Consume (with_result a v) d) = (it', W_Done r)"
      "it_effects it1 = it_effects it @ [Ran (call_id a) True]" "it_binding it1 = it_binding it"
      using assms Inr D by (simp add: drive_active[of "W_Execute a"] wrap_step_def wrap_executed_def Let_def call_id_def)
    show ?thesis
    proof (cases "complete_spend_authorization (bd_guard (it_binding it)) (an_consume an)")
      case (Inl c)
      then show ?thesis
        using i Inr D by (auto simp: drive_active wrap_step_def wrap_consumed_def wrap_failed_def wrap_released_def
            finish_def Let_def guarded_run_def release_effects_def split: sum.splits if_splits)
    next
      case (Inr u)
      obtain it2 where j: "drive env an cks (fst (wrap_finalized env (cks 3) it2 (with_result a v)))
          (snd (wrap_finalized env (cks 3) it2 (with_result a v))) = (it', W_Done r)"
        "it_effects it2 = it_effects it1 @ [Completed d Consumed True]" "it_binding it2 = it_binding it1"
        using i Inr by (simp add: drive_active[of "W_Consume x d" for x d] wrap_step_def wrap_consumed_def Let_def)
      then show ?thesis
        using finalized_run[OF j(1)] D Inr i \<open>an_tool an = Inr v\<close> by (auto simp: guarded_run_def)
    qed
  qed
qed

text \<open>The whole call, told by its first segment and by Harbor's verdict.\<close>

lemma passthrough_run:
  assumes "wrap_begin (cks 6) it ci = (it1, W_Passthrough cid)"
  shows "new_effects it (fst (wrap_execute env an cks it ci)) = [Ran cid (is_inr (an_tool an))]"
    and "cid = strip (ci_tool_call_id ci)"
proof -
  show "new_effects it (fst (wrap_execute env an cks it ci)) = [Ran cid (is_inr (an_tool an))]"
    using wrap_execute_begin(1)[where cks = cks and env = env and an = an, OF assms]
      wrap_execute_begin(2)[where cks = cks, OF assms]
    by (auto simp: drive_active wrap_step_def wrap_passed_def finish_def Let_def new_effects_def split: sum.split)
  show "cid = strip (ci_tool_call_id ci)"
    using assms by (auto simp: wrap_begin_def Let_def begin_in_flight_def case_prod_unfold finish_def
        stripped_input_def split: sum.splits tool_resolution.splits option.splits)
qed

lemma cached_run:
  assumes b: "wrap_begin (cks 6) it ci = (it1, W_Execute a)"
    and w: "wrap_execute env an cks it ci = (it', W_Done r)"
  shows "guarded_run an (it_binding it) (strip (ci_tool_call_id ci)) (vr_decision_id (wa_auth a)) (is_inr r)
    (new_effects it it')"
proof -
  note x = wrap_execute_begin[where cks = cks, OF b]
  have "call_id a = strip (ci_tool_call_id ci)"
    using b by (auto simp: wrap_begin_def Let_def begin_in_flight_def case_prod_unfold finish_def call_id_def
        stripped_input_def split: sum.splits tool_resolution.splits option.splits)
  then show ?thesis
    using execute_run[of env an cks it1 a it' r] w x(2,3) by (auto simp: x(1) new_effects_def)
qed

lemma asked_run:
  assumes b: "wrap_begin (cks 6) it ci = (it1, W_Verify c)"
    and v: "assert_spend_authorized (bd_guard (it_binding it)) (rv_auth_kwargs (wc_resolved c)) (an_verify an) = Inr auth"
    and w: "wrap_execute env an cks it ci = (it', W_Done r)"
  shows "\<exists>es. new_effects it it' = Asked (asked_of (it_binding it) (wc_resolved c)) True # es \<and>
    guarded_run an (it_binding it) (strip (ci_tool_call_id ci)) (vr_decision_id auth) (is_inr r) es"
proof -
  note x = wrap_execute_begin[where cks = cks, OF b]
  obtain it2 a where d: "drive env an cks it1 (W_Verify c) = drive env an cks it2 (W_Execute a)"
    "it_binding it2 = it_binding it1" "wa_auth a = auth" "call_id a = call_id c"
    "it_effects it2 = it_effects it1 @ [Asked (asked_of (it_binding it1) (wc_resolved c)) True]"
    using drive_authorized[of it1 c an auth env cks] v x(3) by auto
  have "drive env an cks it2 (W_Execute a) = (it', W_Done r)" using w d(1) x(1) by simp
  from execute_run[OF this] obtain es where "it_effects it' = it_effects it2 @ es"
    "guarded_run an (it_binding it2) (call_id a) (vr_decision_id (wa_auth a)) (is_inr r) es" by blast
  then show ?thesis
    using d x(2,3) wrap_begin_verify(3)[OF b] by (auto simp: new_effects_def)
qed

section \<open>Which tools run\<close>

text \<open>What the call itself resolves to, when its tool is side-effecting.\<close>

definition call_resolution :: "run_binding \<Rightarrow> call_input \<Rightarrow> exn + resolved_call" where
  "call_resolution b ci =
     (case resolve_tool (bd_registry b) (strip (ci_tool_name ci)) (Some (bd_allowed_tools b)) of
        Side_Effecting n op entry \<Rightarrow> resolve_side_effecting_call b (stripped_input ci) entry op
      | Denied n op \<Rightarrow> Inl (UnregisteredSideEffecting n op)
      | Passthrough n \<Rightarrow> Inl (ValueError n))"

text \<open>The request names this very call: its id, its tool, its operation and its amount.\<close>

definition names_call :: "call_input \<Rightarrow> resolved_call \<Rightarrow> bool" where
  "names_call ci rv \<longleftrightarrow>
     (let k = rv_auth_kwargs rv in
      ak_tool_call_id k = Some (strip (ci_tool_call_id ci)) \<and> ak_tool_name k = Some (strip (ci_tool_name ci)) \<and>
      ak_operation k = rv_operation rv \<and>
      ak_requested_spend_cents k = (case rv_requested_spend_cents rv of None \<Rightarrow> 0 | Some c \<Rightarrow> c))"

text \<open>The cache holds a fresh authorization of this call id, tool, operation and amount.\<close>

definition cached_for :: "interceptor \<Rightarrow> rat \<Rightarrow> call_input \<Rightarrow> resolved_call \<Rightarrow> bool" where
  "cached_for it now ci rv \<longleftrightarrow>
     (case map_of (it_authorized_calls it)
             (authorization_cache_key (strip (ci_tool_call_id ci)) (rv_operation rv)) of
        None \<Rightarrow> False
      | Some e \<Rightarrow> now - ce_cached_at e \<le> AUTHORIZATION_CACHE_TTL_SEC \<and>
          ce_tool_name e = strip (ci_tool_name ci) \<and> ce_operation e = rv_operation rv \<and>
          ce_requested_spend_cents e = rv_requested_spend_cents rv)"

lemma begun_resolution:
  "wrap_begin ck it ci = (it1, W_Verify c) \<Longrightarrow> call_resolution (it_binding it) ci = Inr (wc_resolved c)"
  "wrap_begin ck it ci = (it1, W_Execute a) \<Longrightarrow> call_resolution (it_binding it) ci = Inr (wc_resolved a)"
  by (auto simp: wrap_begin_def Let_def begin_in_flight_def case_prod_unfold finish_def stripped_input_def
      call_resolution_def split: sum.splits tool_resolution.splits option.splits)

lemma call_resolution_ok:
  assumes "call_resolution b ci = Inr rv"
  shows "resolved_ok b rv" "names_call ci rv"
proof -
  obtain op entry where r: "resolve_side_effecting_call b (stripped_input ci) entry op = Inr rv"
    using assms by (auto simp: call_resolution_def split: tool_resolution.splits)
  then show "resolved_ok b rv" by (simp add: resolve_side_effecting_call_ok)
  show "names_call ci rv"
    using r by (auto simp: names_call_def Let_def resolve_side_effecting_call_def rbind_Inr_iff stripped_input_def)
qed

text \<open>C1: A guarded call runs no tool but its own, and runs it only when the registry resolves the tool as a
  passthrough, or when the call resolves to an allowed operation within the sandbox's amount and that very
  call, by its id, tool, operation and amount, is authorized: by an entry of the cache that is fresh, or
  by Harbor, which granted the verify request the call sent before anything else.\<close>

theorem no_unauthorized_run:
  assumes "wrap_execute env an cks it ci = (it', ph)" and "Ran cid ok \<in> set (new_effects it it')"
  shows "cid = strip (ci_tool_call_id ci) \<and>
    ((\<exists>n. resolve_tool (bd_registry (it_binding it)) (strip (ci_tool_name ci))
            (Some (bd_allowed_tools (it_binding it))) = Passthrough n) \<or>
     (\<exists>rv. call_resolution (it_binding it) ci = Inr rv \<and> resolved_ok (it_binding it) rv \<and> names_call ci rv \<and>
        (cached_for it (ck_mono (cks 6)) ci rv \<or>
         (\<exists>auth es. assert_spend_authorized (bd_guard (it_binding it)) (rv_auth_kwargs rv) (an_verify an) = Inr auth \<and>
            new_effects it it' = Asked (verify_spend_capability (bd_guard (it_binding it)) (rv_auth_kwargs rv)) True # es))))"
proof -
  obtain r where w: "wrap_execute env an cks it ci = (it', W_Done r)"
    using assms(1) wrap_execute_log[of env an cks it ci] by auto
  show ?thesis
  proof (cases rule: wrap_begin_cases[of "cks 6" it ci])
    case (refused it1 e)
    then show ?thesis using assms wrap_execute_begin[where cks = cks, OF refused] by simp
  next
    case (passthrough it1 cid')
    then show ?thesis
      using passthrough_run(1)[where cks = cks and env = env and an = an, OF passthrough]
        passthrough_run(2)[where cks = cks, OF passthrough] wrap_begin_passthrough assms
      by auto
  next
    case (verify it1 c)
    show ?thesis
    proof (cases "assert_spend_authorized (bd_guard (it_binding it)) (rv_auth_kwargs (wc_resolved c)) (an_verify an)")
      case (Inl e)
      then show ?thesis
        using assms verify_new_effects[where cks = cks and env = env and an = an, OF verify] by simp
    next
      case (Inr auth)
      have "call_resolution (it_binding it) ci = Inr (wc_resolved c)" using verify by (rule begun_resolution)
      moreover from this have "resolved_ok (it_binding it) (wc_resolved c)" "names_call ci (wc_resolved c)"
        by (rule call_resolution_ok)+
      ultimately show ?thesis
        using asked_run[where cks = cks, OF verify Inr w] assms(2) Inr by (auto dest: guarded_run_tool)
    qed
  next
    case (cached it1 a)
    have "call_resolution (it_binding it) ci = Inr (wc_resolved a)"
      using cached by (rule begun_resolution)
    moreover from this have "resolved_ok (it_binding it) (wc_resolved a)" "names_call ci (wc_resolved a)"
      by (rule call_resolution_ok)+
    moreover have "cached_for it (ck_mono (cks 6)) ci (wc_resolved a)"
      using wrap_begin_execute[OF cached] by (auto simp: cached_for_def)
    ultimately show ?thesis
      using cached_run[where cks = cks, OF cached w] assms(2) by (auto dest: guarded_run_tool)
  qed
qed

text \<open>The verdicts of the sample run.\<close>

lemma sample_verdict:
  "\<exists>auth. assert_spend_authorized sample_guard k (Inr (verdict_json True)) = Inr auth \<and>
     vr_decision_id auth = Some sample_decision"
  "\<exists>e. assert_spend_authorized sample_guard k (Inr (verdict_json False)) = Inl e"
proof -
  have v: "case parse_verify_capability_result ''acme'' sample_intent
        [(''tenant'', JStr ''acme''), (''intent_id'', JStr (uuid_str sample_intent)),
         (''allow'', JBool b), (''audit_id'', JStr (uuid_str sample_intent)),
         (''decision_id'', JStr (uuid_str sample_decision))] of
      Inl e \<Rightarrow> False | Inr r \<Rightarrow> vr_allow r = b \<and> vr_decision_id r = Some sample_decision" for b
    by (cases b; code_simp)
  show "\<exists>auth. assert_spend_authorized sample_guard k (Inr (verdict_json True)) = Inr auth \<and>
     vr_decision_id auth = Some sample_decision"
    using v[of True]
    by (auto simp: assert_spend_authorized_def authorize_spend_def verify_capability_def verdict_json_def
        verify_spend_capability_def json_object_response_def ok_json_def sample_guard_def split: sum.splits)
  show "\<exists>e. assert_spend_authorized sample_guard k (Inr (verdict_json False)) = Inl e"
    using v[of False]
    by (auto simp: assert_spend_authorized_def authorize_spend_def verify_capability_def verdict_json_def
        verify_spend_capability_def json_object_response_def ok_json_def sample_guard_def split: sum.splits)
qed

lemma sample_begin:
  "\<exists>it1 c. wrap_begin sample_clock sample_interceptor sample_call = (it1, W_Verify c)"
proof -
  have "case snd (wrap_begin sample_clock sample_interceptor sample_call) of W_Verify c \<Rightarrow> True | _ \<Rightarrow> False"
    by code_simp
  then show ?thesis
    by (cases "wrap_begin sample_clock sample_interceptor sample_call") (auto split: wrap_phase.splits)
qed

lemma sample_facts [simp]:
  "it_binding sample_interceptor = sample_binding" "bd_guard sample_binding = sample_guard"
  "strip (ci_tool_call_id sample_call) = ''call-1''" "it_in_flight sample_interceptor = 0"
  "it_authorized_calls sample_interceptor = []" "sg_finalizes sample_guard"
proof -
  show "strip (ci_tool_call_id sample_call) = ''call-1''" by code_simp
qed (simp_all add: sample_interceptor_def sample_binding_def sample_guard_def)

theorem no_unauthorized_run_witness:
  "Ran ''call-1'' True \<in> set (new_effects sample_interceptor (fst (sample_run sample_answers sample_interceptor))) \<and>
   (\<exists>rv auth es. call_resolution sample_binding sample_call = Inr rv \<and>
      assert_spend_authorized sample_guard (rv_auth_kwargs rv) (Inr (verdict_json True)) = Inr auth \<and>
      new_effects sample_interceptor (fst (sample_run sample_answers sample_interceptor)) =
        Asked (verify_spend_capability sample_guard (rv_auth_kwargs rv)) True # es)"
proof
  show r: "Ran ''call-1'' True \<in> set (new_effects sample_interceptor (fst (sample_run sample_answers sample_interceptor)))"
    by code_simp
  have p: "resolve_tool (bd_registry sample_binding) (strip (ci_tool_name sample_call))
      (Some (bd_allowed_tools sample_binding)) \<noteq> Passthrough n" for n
    by (simp add: resolve_tool_def sample_binding_def sample_registry_def sample_call_def strip_def lstrip_def
        rstrip_def py_space_def)
  have c: "\<not> cached_for sample_interceptor now sample_call rv" for now rv
    by (simp add: cached_for_def)
  show "\<exists>rv auth es. call_resolution sample_binding sample_call = Inr rv \<and>
      assert_spend_authorized sample_guard (rv_auth_kwargs rv) (Inr (verdict_json True)) = Inr auth \<and>
      new_effects sample_interceptor (fst (sample_run sample_answers sample_interceptor)) =
        Asked (verify_spend_capability sample_guard (rv_auth_kwargs rv)) True # es"
    using no_unauthorized_run[of sample_env sample_answers "\<lambda>_. sample_clock" sample_interceptor sample_call
        "fst (sample_run sample_answers sample_interceptor)" "snd (sample_run sample_answers sample_interceptor)"
        "''call-1''" True] r p c
    by (simp add: sample_run_def sample_answers_def) blast
qed

section \<open>What a call does, in order\<close>


lemma returned_value: "returned ph \<Longrightarrow> \<exists>v. ph = W_Done (Inr v)"
  by (auto simp: returned_def split: wrap_phase.splits sum.splits)


text \<open>C3: A guarded call that raises has done exactly what its first segment and the answers tell.
  Refused at once, it has done nothing; a passthrough has run its tool, which raised; a refused verify
  request is all there is; and a call authorized by the cache or by a granted request has then run its
  tool: if that raised, the one release of the decision follows; if the consumption of the decision was refused,
  the one release follows that; otherwise evidence was sent and refused, or not sent at all.\<close>

theorem failed_call_effects:
  assumes "wrap_execute env an cks it ci = (it', W_Done (Inl e))"
  shows "case snd (wrap_begin (cks 6) it ci) of
      W_Done _ \<Rightarrow> new_effects it it' = []
    | W_Passthrough cid \<Rightarrow> new_effects it it' = [Ran cid (is_inr (an_tool an))]
    | W_Verify c \<Rightarrow>
        (let rv = wc_resolved c; q = verify_spend_capability (bd_guard (it_binding it)) (rv_auth_kwargs rv) in
         case assert_spend_authorized (bd_guard (it_binding it)) (rv_auth_kwargs rv) (an_verify an) of
           Inl _ \<Rightarrow> new_effects it it' = [Asked q False]
         | Inr auth \<Rightarrow> (\<exists>es. new_effects it it' = Asked q True # es \<and>
             guarded_run an (it_binding it) (strip (ci_tool_call_id ci)) (vr_decision_id auth) False es))
    | W_Execute a \<Rightarrow>
        guarded_run an (it_binding it) (strip (ci_tool_call_id ci)) (vr_decision_id (wa_auth a)) False
          (new_effects it it')
    | _ \<Rightarrow> False"
proof (cases rule: wrap_begin_cases[of "cks 6" it ci])
  case (refused it1 x)
  then show ?thesis using assms wrap_execute_begin[where cks = cks, OF refused] by simp
next
  case (passthrough it1 cid)
  then show ?thesis using passthrough_run(1)[where cks = cks and env = env and an = an, OF passthrough] assms by simp
next
  case (verify it1 c)
  show ?thesis
  proof (cases "assert_spend_authorized (bd_guard (it_binding it)) (rv_auth_kwargs (wc_resolved c)) (an_verify an)")
    case (Inl x)
    then show ?thesis
      using verify_new_effects[where cks = cks and env = env and an = an, OF verify] assms
      by (simp only: verify snd_conv wrap_phase.case sum.case Let_def fst_conv)
  next
    case (Inr auth)
    then show ?thesis
      using asked_run[where cks = cks, OF verify Inr assms]
      by (simp only: verify snd_conv wrap_phase.case sum.case Let_def is_inr_simps)
  qed
next
  case (cached it1 a)
  show ?thesis
    using cached_run[where cks = cks, OF cached assms]
    by (simp only: cached snd_conv wrap_phase.case is_inr_simps)
qed

definition refusing_answers :: answers where
  "refusing_answers = sample_answers\<lparr>an_verify := Inr (verdict_json False)\<rparr>"

lemma drive_raises: "\<not> returned (snd (sample_run an it)) \<Longrightarrow> \<exists>e. snd (sample_run an it) = W_Done (Inl e)"
  using wrap_execute_log[of sample_env an "\<lambda>_. sample_clock" it sample_call]
  by (auto simp: returned_def sample_run_def split: sum.splits)

definition failing_tool_answers :: answers where
  "failing_tool_answers = sample_answers\<lparr>an_tool := Inl (HostError ''boom'')\<rparr>"

lemma sample_release [simp]:
  "is_inr (complete_spend_authorization sample_guard (Inr (ok_json [])))"
  "complete_spend_authorization sample_guard (Inr failed_response) \<noteq> Inr u"
  by (simp_all add: complete_spend_authorization_def complete_spend_decision_def ok_json_def failed_response_def)

theorem failed_call_effects_witness:
  "\<exists>e q. snd (sample_run failing_tool_answers sample_interceptor) = W_Done (Inl e) \<and>
     new_effects sample_interceptor (fst (sample_run failing_tool_answers sample_interceptor)) =
       [Asked q True, Ran ''call-1'' False, Completed sample_decision Released True]"
proof -
  have "\<not> returned (snd (sample_run failing_tool_answers sample_interceptor))" by code_simp
  then obtain e where e: "snd (sample_run failing_tool_answers sample_interceptor) = W_Done (Inl e)"
    using drive_raises by blast
  then have w: "wrap_execute sample_env failing_tool_answers (\<lambda>_. sample_clock) sample_interceptor sample_call =
      (fst (sample_run failing_tool_answers sample_interceptor), W_Done (Inl e))"
    by (simp add: sample_run_def prod_eq_iff)
  obtain it1 c where b: "wrap_begin sample_clock sample_interceptor sample_call = (it1, W_Verify c)"
    using sample_begin by blast
  obtain auth where v: "assert_spend_authorized sample_guard (rv_auth_kwargs (wc_resolved c))
      (an_verify failing_tool_answers) = Inr auth" "vr_decision_id auth = Some sample_decision"
    using sample_verdict(1)[of "rv_auth_kwargs (wc_resolved c)"]
    by (auto simp: failing_tool_answers_def sample_answers_def)
  obtain q es where es: "new_effects sample_interceptor (fst (sample_run failing_tool_answers sample_interceptor)) =
      Asked q True # es" "guarded_run failing_tool_answers sample_binding ''call-1'' (Some sample_decision) False es"
    using failed_call_effects[OF w]
    by (simp only: b snd_conv wrap_phase.case Let_def v sum.case sample_facts) blast
  have "es = [Ran ''call-1'' False, Completed sample_decision Released True]"
    using es(2) by (simp add: guarded_run_def failing_tool_answers_def release_effects_def is_exception_def
        sample_answers_def)
  with es(1) e show ?thesis by blast
qed

section \<open>Refusals and failures\<close>

text \<open>A call whose verify request is not authorized, be it denied, in need of an approval or not
  answered, raises that very error, and its only effect is the refused request: the tool does not run.\<close>

theorem refused_call_runs_nothing:
  assumes "wrap_begin (cks 6) it ci = (it1, W_Verify c)"
    and "assert_spend_authorized (bd_guard (it_binding it)) (rv_auth_kwargs (wc_resolved c)) (an_verify an) = Inl e"
  shows "snd (wrap_execute env an cks it ci) = W_Done (Inl e) \<and>
    new_effects it (fst (wrap_execute env an cks it ci)) = [Asked (asked_of (it_binding it) (wc_resolved c)) False]"
  using verify_new_effects[where cks = cks and env = env and an = an, OF assms(1)] assms(2)
    wrap_execute_begin(1)[where cks = cks and env = env and an = an, OF assms(1)]
    wrap_execute_begin(3)[where cks = cks, OF assms(1)]
    drive_refused(1)[of it1 c an e env cks]
  by simp

theorem refused_call_runs_nothing_witness:
  "\<exists>q. new_effects sample_interceptor (fst (sample_run refusing_answers sample_interceptor)) = [Asked q False]"
proof -
  obtain it1 c where b: "wrap_begin ((\<lambda>_. sample_clock) 6) sample_interceptor sample_call = (it1, W_Verify c)"
    using sample_begin by blast
  obtain e where "assert_spend_authorized (bd_guard (it_binding sample_interceptor))
      (rv_auth_kwargs (wc_resolved c)) (an_verify refusing_answers) = Inl e"
    using sample_verdict(2)[of "rv_auth_kwargs (wc_resolved c)"] by (auto simp: refusing_answers_def)
  from refused_call_runs_nothing[where env = sample_env, OF b this] show ?thesis
    by (auto simp: sample_run_def)
qed

text \<open>When the tool of an authorized call raises, the call makes exactly one attempt to release
  the reservation of its decision, and nothing else: no consumption and no evidence.\<close>

theorem failed_tool_releases:
  assumes "wrap_begin (cks 6) it ci = (it1, W_Verify c)"
    and "assert_spend_authorized (bd_guard (it_binding it)) (rv_auth_kwargs (wc_resolved c)) (an_verify an) = Inr auth"
    and "vr_decision_id auth = Some d" and "an_tool an = Inl e" and "is_exception e"
  shows "new_effects it (fst (wrap_execute env an cks it ci)) =
    [Asked (asked_of (it_binding it) (wc_resolved c)) True, Ran (strip (ci_tool_call_id ci)) False,
     Completed d Released (is_inr (complete_spend_authorization (bd_guard (it_binding it)) (an_release an)))]"
proof -
  obtain it2 a where a: "wa_auth a = auth" "call_id a = strip (ci_tool_call_id ci)"
    "bd_guard (it_binding it2) = bd_guard (it_binding it)"
    "wrap_execute env an cks it ci = drive env an cks it2 (W_Execute a)"
    "new_effects it (fst (wrap_execute env an cks it ci)) =
       Asked (asked_of (it_binding it) (wc_resolved c)) True # new_effects it2 (fst (wrap_execute env an cks it ci))"
    using verify_authorized_effects[where cks = cks and an = an and env = env, OF assms(1,2)] by blast
  show ?thesis
    using a(5) new_effects_append[OF drive_tool_failed[where a = a and it = it2 and env = env and cks = cks, OF assms(4,5)]]
      a(1-4) assms(3) by simp
qed

theorem failed_tool_releases_witness:
  "\<exists>q. new_effects sample_interceptor (fst (sample_run failing_tool_answers sample_interceptor)) =
     [Asked q True, Ran ''call-1'' False, Completed sample_decision Released True]"
proof -
  obtain it1 c where b: "wrap_begin ((\<lambda>_. sample_clock) 6) sample_interceptor sample_call = (it1, W_Verify c)"
    using sample_begin by blast
  obtain auth where v: "assert_spend_authorized (bd_guard (it_binding sample_interceptor))
      (rv_auth_kwargs (wc_resolved c)) (an_verify failing_tool_answers) = Inr auth"
    "vr_decision_id auth = Some sample_decision"
    using sample_verdict(1)[of "rv_auth_kwargs (wc_resolved c)"]
    by (auto simp: failing_tool_answers_def sample_answers_def)
  have "an_tool failing_tool_answers = Inl (HostError ''boom'')" "is_exception (HostError ''boom'')"
    by (simp_all add: failing_tool_answers_def is_exception_def)
  from failed_tool_releases[where env = sample_env, OF b v this] show ?thesis
    by (auto simp: sample_run_def failing_tool_answers_def sample_answers_def)
qed

text \<open>When the tool has run but its consumption is refused, the call still attempts to release
  the reservation, so the spend of an executed tool may be returned to the budget.\<close>

theorem failed_consume_releases:
  assumes "wrap_begin (cks 6) it ci = (it1, W_Verify c)"
    and "assert_spend_authorized (bd_guard (it_binding it)) (rv_auth_kwargs (wc_resolved c)) (an_verify an) = Inr auth"
    and "vr_decision_id auth = Some d" and "an_tool an = Inr v"
    and "complete_spend_authorization (bd_guard (it_binding it)) (an_consume an) = Inl e" and "is_exception e"
  shows "new_effects it (fst (wrap_execute env an cks it ci)) =
    [Asked (asked_of (it_binding it) (wc_resolved c)) True, Ran (strip (ci_tool_call_id ci)) True,
     Completed d Consumed False,
     Completed d Released (is_inr (complete_spend_authorization (bd_guard (it_binding it)) (an_release an)))]"
proof -
  obtain it2 a where a: "wa_auth a = auth" "call_id a = strip (ci_tool_call_id ci)"
    "bd_guard (it_binding it2) = bd_guard (it_binding it)"
    "wrap_execute env an cks it ci = drive env an cks it2 (W_Execute a)"
    "new_effects it (fst (wrap_execute env an cks it ci)) =
       Asked (asked_of (it_binding it) (wc_resolved c)) True # new_effects it2 (fst (wrap_execute env an cks it ci))"
    using verify_authorized_effects[where cks = cks and an = an and env = env, OF assms(1,2)] by blast
  have d: "vr_decision_id (wa_auth a) = Some d" using a(1) assms(3) by simp
  have f: "complete_spend_authorization (bd_guard (it_binding it2)) (an_consume an) = Inl e"
    using a(3) assms(5) by simp
  show ?thesis
    using a(5) new_effects_append[OF drive_consume_failed[where env = env and cks = cks, OF assms(4) d f assms(6)]]
      a(2-4) by simp
qed

definition failing_consume_answers :: answers where
  "failing_consume_answers = sample_answers\<lparr>an_consume := Inr failed_response\<rparr>"

theorem failed_consume_releases_witness:
  "\<exists>q. new_effects sample_interceptor (fst (sample_run failing_consume_answers sample_interceptor)) =
     [Asked q True, Ran ''call-1'' True, Completed sample_decision Consumed False,
      Completed sample_decision Released True]"
proof -
  obtain it1 c where b: "wrap_begin ((\<lambda>_. sample_clock) 6) sample_interceptor sample_call = (it1, W_Verify c)"
    using sample_begin by blast
  obtain auth where v: "assert_spend_authorized (bd_guard (it_binding sample_interceptor))
      (rv_auth_kwargs (wc_resolved c)) (an_verify failing_consume_answers) = Inr auth"
    "vr_decision_id auth = Some sample_decision"
    using sample_verdict(1)[of "rv_auth_kwargs (wc_resolved c)"]
    by (auto simp: failing_consume_answers_def sample_answers_def)
  have t: "an_tool failing_consume_answers = Inr (JObj [(''ref'', JStr ''r1'')])"
    by (simp add: failing_consume_answers_def sample_answers_def)
  obtain e where e: "complete_spend_authorization (bd_guard (it_binding sample_interceptor))
      (an_consume failing_consume_answers) = Inl e" "is_exception e"
    by (auto simp: failing_consume_answers_def complete_spend_authorization_def complete_spend_decision_def
        failed_response_def is_exception_def)
  from failed_consume_releases[where env = sample_env, OF b v t e] show ?thesis
    by (auto simp: sample_run_def failing_consume_answers_def sample_answers_def)
qed

section \<open>What Harbor is asked\<close>

text \<open>C4: Every verify request a guarded call sends is for the guard's intent and an operation of the
  bound intent, and in a sandbox run for no more than the amount the sandbox was funded for.\<close>

theorem spend_requests_within_intent:
  assumes "Asked q ok \<in> set (new_effects it (fst (wrap_execute env an cks it ci)))"
  shows "vq_operation q \<in> set (bd_allowed_tools (it_binding it)) \<and>
    vq_intent_id q = sg_intent_id (bd_guard (it_binding it)) \<and>
    (case bd_sandbox (it_binding it) of
       None \<Rightarrow> True | Some s \<Rightarrow> vq_requested_spend_cents q \<le> sx_requested_spend_cents s)"
proof (cases rule: wrap_begin_cases[of "cks 6" it ci])
  case (refused it1 e)
  then show ?thesis using assms wrap_execute_begin(1)[where cks = cks and env = env and an = an, OF refused]
      wrap_execute_begin(2)[where cks = cks, OF refused] by simp
next
  case (passthrough it1 cid)
  have "new_effects it (fst (wrap_execute env an cks it ci)) = [Ran cid (is_inr (an_tool an))]"
    using wrap_execute_begin(1)[where cks = cks and env = env and an = an, OF passthrough]
      wrap_execute_begin(2)[where cks = cks, OF passthrough]
    by (auto simp: drive_active wrap_step_def wrap_passed_def finish_def Let_def new_effects_def split: sum.split)
  then show ?thesis using assms by simp
next
  case (verify it1 c)
  have q: "q = asked_of (it_binding it) (wc_resolved c)"
  proof (cases "assert_spend_authorized (bd_guard (it_binding it)) (rv_auth_kwargs (wc_resolved c)) (an_verify an)")
    case (Inl e)
    then show ?thesis
      using assms verify_new_effects[where cks = cks and env = env and an = an, OF verify] by simp
  next
    case (Inr auth)
    obtain it2 a where "wrap_execute env an cks it ci = drive env an cks it2 (W_Execute a)"
      "new_effects it (fst (wrap_execute env an cks it ci)) =
         Asked (asked_of (it_binding it) (wc_resolved c)) True # new_effects it2 (fst (wrap_execute env an cks it ci))"
      using verify_authorized_effects[where cks = cks and an = an and env = env, OF verify Inr] by blast
    then show ?thesis using assms execute_asks_nothing[of q ok it2 env an cks a] by auto
  qed
  show ?thesis
    using wrap_begin_verify(1)[OF verify]
    by (auto simp: q resolved_ok_def verify_spend_capability_def split: option.splits)
next
  case (cached it1 a)
  have "new_effects it (fst (wrap_execute env an cks it ci)) = new_effects it1 (fst (drive env an cks it1 (W_Execute a)))"
    unfolding wrap_execute_begin(1)[where cks = cks and env = env and an = an, OF cached]
    by (rule new_effects_trans) (rule wrap_execute_begin(2)[where cks = cks, OF cached])
  then show ?thesis using assms execute_asks_nothing[of q ok it1 env an cks a] by simp
qed

theorem spend_requests_within_intent_witness:
  "\<exists>q. Asked q True \<in> set (new_effects sample_interceptor (fst (sample_run sample_answers sample_interceptor))) \<and>
     vq_operation q = ''travel.book'' \<and> vq_requested_spend_cents q \<le> 500"
proof -
  have "list_ex (\<lambda>e. case e of Asked q b \<Rightarrow> b | _ \<Rightarrow> False)
      (new_effects sample_interceptor (fst (sample_run sample_answers sample_interceptor)))" by code_simp
  then obtain x where x: "x \<in> set (new_effects sample_interceptor (fst (sample_run sample_answers sample_interceptor)))"
    "case x of Asked q b \<Rightarrow> b | _ \<Rightarrow> False"
    unfolding list_ex_iff by blast
  from x(2) obtain q where "x = Asked q True" by (cases x) auto
  with x(1) have q: "Asked q True \<in> set (new_effects sample_interceptor
      (fst (wrap_execute sample_env sample_answers (\<lambda>_. sample_clock) sample_interceptor sample_call)))"
    by (simp add: sample_run_def)
  from spend_requests_within_intent[OF q] q show ?thesis
    by (auto simp: sample_run_def sample_binding_def)
qed

section \<open>Many calls on one interceptor\<close>

text \<open>A guarded call leaves the in-flight counter and the binding as it found them, however it ends.\<close>

theorem call_restores_in_flight:
  assumes "0 \<le> it_in_flight it"
  shows "it_in_flight (fst (wrap_execute env an cks it ci)) = it_in_flight it \<and>
    it_binding (fst (wrap_execute env an cks it ci)) = it_binding it"
  using wrap_execute_facts[where env = env and an = an and cks = cks and ci = ci, OF _ assms]
  by (metis prod.collapse)

theorem call_restores_in_flight_witness:
  "it_in_flight (fst (sample_run failing_tool_answers sample_interceptor)) = 0"
  using call_restores_in_flight[of sample_interceptor sample_env failing_tool_answers "\<lambda>_. sample_clock" sample_call]
  by (simp add: sample_run_def)

text \<open>C5: However the calls of a run are interleaved, with policy swaps in between, the in-flight
  counter that a policy reload waits for is the number of calls that have begun and not ended.\<close>

theorem in_flight_counts_calls:
  assumes "reachable env b s"
  shows "it_in_flight (sy_it s) = how_many active_call (sy_calls s)"
  using reachable_ok[OF assms] by (simp add: system_ok_def)

definition sample_busy :: system where
  "sample_busy =
     (let (it', ph) = wrap_begin sample_clock (sy_it (initial sample_binding)) sample_call
      in (initial sample_binding)\<lparr>sy_it := it',
           sy_calls := sy_calls (initial sample_binding) @ [Wrapping [] (starts_cached ph) ph]\<rparr>)"

lemma sample_busy_reachable: "reachable sample_env sample_binding sample_busy"
proof -
  obtain it' ph where b: "wrap_begin sample_clock (sy_it (initial sample_binding)) sample_call = (it', ph)"
    by fastforce
  show ?thesis
    using more[OF start start_wrap[OF b]] by (simp add: sample_busy_def b)
qed

theorem in_flight_counts_calls_witness:
  "it_in_flight (sy_it sample_busy) = how_many active_call (sy_calls sample_busy) \<and>
   it_in_flight (sy_it sample_busy) = 1"
proof
  show "it_in_flight (sy_it sample_busy) = how_many active_call (sy_calls sample_busy)"
    by (rule in_flight_counts_calls[OF sample_busy_reachable])
  show "it_in_flight (sy_it sample_busy) = 1" by code_simp
qed

text \<open>C6: Every authorization the interceptor cached is used by at most one call: the calls that
  started from the cache and the entries still in it are never more than the authorizations granted.\<close>

theorem authorizations_used_once:
  assumes "reachable env b s"
  shows "how_many from_cache (sy_calls s) + int (length (it_authorized_calls (sy_it s)))
    \<le> how_many granted (sy_calls s)"
  using reachable_ok[OF assms] by (simp add: system_ok_def)

text \<open>A run in which one authorization was granted and one call used it.\<close>

definition sample_granted :: system where
  "sample_granted =
     (let s0 = initial sample_binding in
      case authorize_begin (sy_it s0) sample_call of
        (it1, ph1) \<Rightarrow>
          (let s1 = s0\<lparr>sy_it := it1, sy_calls := sy_calls s0 @ [Authorizing ph1]\<rparr> in
           case ph1 of
             Auth_Done d \<Rightarrow> s1
           | Auth_Verify ci rv pinned \<Rightarrow>
               (case authorize_resume sample_clock (sy_it s1) ci rv pinned (Inr (verdict_json True)) of
                  (it2, d) \<Rightarrow> s1\<lparr>sy_it := it2, sy_calls := (sy_calls s1)[0 := Authorizing (Auth_Done d)]\<rparr>)))"

definition sample_used :: system where
  "sample_used =
     (let (it', ph) = wrap_begin sample_clock (sy_it sample_granted) sample_call
      in sample_granted\<lparr>sy_it := it',
           sy_calls := sy_calls sample_granted @ [Wrapping [] (starts_cached ph) ph]\<rparr>)"

lemma sample_granted_reachable: "reachable sample_env sample_binding sample_granted"
proof -
  let ?s0 = "initial sample_binding"
  obtain it1 ph1 where b: "authorize_begin (sy_it ?s0) sample_call = (it1, ph1)" by fastforce
  let ?s1 = "?s0\<lparr>sy_it := it1, sy_calls := sy_calls ?s0 @ [Authorizing ph1]\<rparr>"
  have s1: "reachable sample_env sample_binding ?s1" by (rule more[OF start start_authorize[OF b]])
  show ?thesis
  proof (cases ph1)
    case (Auth_Done d)
    then show ?thesis using s1 by (simp add: sample_granted_def b Let_def)
  next
    case (Auth_Verify ci rv pinned)
    obtain it2 d where r: "authorize_resume sample_clock (sy_it ?s1) ci rv pinned (Inr (verdict_json True)) = (it2, d)"
      by fastforce
    have "reachable sample_env sample_binding
        (?s1\<lparr>sy_it := it2, sy_calls := (sy_calls ?s1)[0 := Authorizing (Auth_Done d)]\<rparr>)"
      by (rule more[OF s1 resume_authorize[OF _ _ r]]) (simp_all add: initial_def Auth_Verify)
    then show ?thesis using r by (simp add: sample_granted_def b Let_def Auth_Verify)
  qed
qed

lemma sample_used_reachable: "reachable sample_env sample_binding sample_used"
proof -
  obtain it' ph where b: "wrap_begin sample_clock (sy_it sample_granted) sample_call = (it', ph)" by fastforce
  show ?thesis using more[OF sample_granted_reachable start_wrap[OF b]] by (simp add: sample_used_def b)
qed

theorem authorizations_used_once_witness:
  "how_many from_cache (sy_calls sample_used) = 1 \<and>
   how_many from_cache (sy_calls sample_used) + int (length (it_authorized_calls (sy_it sample_used)))
     \<le> how_many granted (sy_calls sample_used)"
proof
  show "how_many from_cache (sy_calls sample_used) = 1" by code_simp
qed (rule authorizations_used_once[OF sample_used_reachable])

text \<open>C7: In every interleaving, each guarded call has had the effects of its own phase in their
  order, and from the moment its tool may run it carries an authorization of Harbor for the guard's tenant and intent.\<close>

theorem interleaved_calls_ordered:
  assumes "reachable env b s" and "i < length (sy_calls s)" and "sy_calls s ! i = Wrapping evs cached ph"
  shows "call_log evs ph \<and> phase_ok (bd_guard b) ph"
proof -
  have "list_all (call_ok (bd_guard b)) (sy_calls s)"
    using reachable_ok[OF assms(1)] by (simp add: system_ok_def)
  from call_ok_nth[OF this assms(2,3)] show ?thesis .
qed

theorem interleaved_calls_ordered_witness:
  "\<exists>evs ph. sy_calls sample_used ! 1 = Wrapping evs True ph \<and> call_log evs ph \<and> phase_ok sample_guard ph"
proof -
  have "case sy_calls sample_used ! 1 of Wrapping evs c ph \<Rightarrow> c | _ \<Rightarrow> False" by code_simp
  then obtain evs ph where w: "sy_calls sample_used ! 1 = Wrapping evs True ph"
    by (auto split: call_state.splits)
  have "1 < length (sy_calls sample_used)" by code_simp
  from interleaved_calls_ordered[OF sample_used_reachable this w] w show ?thesis by auto
qed

end
