(* ===== verification/Policy_Validate.thy ===== *)
theory Policy_Validate
  imports Policy_Snapshot
begin

text \<open>
  \<open>policy/validate.py\<close> and the loading of \<open>policy/load.py\<close>: the local alignment checks of a
  document against the completion catalog and its own intent section, and how a file becomes
  an effective document (an overlay that names a local base is merged with it).  Reading and
  decoding a file, and joining a relative path, are the parameters \<open>read_policy\<close> and
  \<open>join_path\<close>.
\<close>

section \<open>Validation\<close>

record validator_error =
  ve_path :: string
  ve_code :: string
  ve_message :: string

record validator_result =
  vl_valid :: bool
  vl_policy_name :: "string option"
  vl_side_effecting :: nat
  vl_read_only :: nat
  vl_errors :: "validator_error list"

definition validate_preset_reference :: "catalog \<Rightarrow> string \<Rightarrow> string \<Rightarrow> validator_error list" where
  "validate_preset_reference cat tool_name preset_id =
     (if preset_id \<notin> set (list_completion_preset_ids cat) \<or> \<not> is_inr (get_completion_preset cat preset_id)
      then [\<lparr>ve_path = tool_path tool_name ''evidence_preset'', ve_code = ''policy.unknown_evidence_preset'',
             ve_message = ''unknown completion preset: '' @ preset_id\<rparr>]
      else [])"

definition validate_vendor_pack_reference :: "catalog \<Rightarrow> string \<Rightarrow> string \<Rightarrow> validator_error list" where
  "validate_vendor_pack_reference cat tool_name pack =
     (case get_completion_preset cat pack of
        Inl e \<Rightarrow> [\<lparr>ve_path = tool_path tool_name ''vendor_pack'', ve_code = ''policy.unknown_vendor_pack'',
                  ve_message = ''unknown vendor pack preset: '' @ pack\<rparr>]
      | Inr preset \<Rightarrow>
          if is_vendor_pack preset then []
          else [\<lparr>ve_path = tool_path tool_name ''vendor_pack'', ve_code = ''policy.invalid_vendor_pack'',
                 ve_message = ''preset '' @ pack @ '' is not a vendor_pack entry''\<rparr>])"

definition validate_tool_entry :: "catalog \<Rightarrow> string \<times> policy_tool_entry \<Rightarrow> validator_error list" where
  "validate_tool_entry cat = (\<lambda>(n, e).
     (if no_preset e
      then (if pt_side_effecting e
            then [\<lparr>ve_path = tool_path n ''evidence_preset'', ve_code = ''policy.missing_evidence_preset'',
                   ve_message = ''side-effecting tools must declare evidence_preset''\<rparr>]
            else [])
      else validate_preset_reference cat n (the (pt_evidence_preset e)))
     @ (case pt_vendor_pack e of
          None \<Rightarrow> []
        | Some p \<Rightarrow> if p = [] then [] else validate_vendor_pack_reference cat n p))"

definition validate_intent_alignment :: "document_v1 \<Rightarrow> bool \<Rightarrow> validator_error list" where
  "validate_intent_alignment d strict = (case d1_intent d of
       None \<Rightarrow> []
     | Some i \<Rightarrow>
         if is_allowed_tools i = [] then []
         else
           List.map (\<lambda>t. \<lparr>ve_path = ''intent.allowed_tools'', ve_code = ''policy.allowed_tool_not_registered'',
               ve_message = ''allowed tool '' @ quoted t @ '' is not declared in tools''\<rparr>)
             (filter (\<lambda>t. t \<notin> set (keys (d1_tools d))) (is_allowed_tools i))
           @ (if \<not> strict \<or> \<not> d1_default_deny d then []
              else List.map (\<lambda>(n, e). \<lparr>ve_path = ''tools.'' @ n, ve_code = ''policy.side_effecting_not_allowed'',
                    ve_message = ''side-effecting tool '' @ quoted n @
                      '' is missing from intent.allowed_tools (default_deny is true)''\<rparr>)
                   (filter (\<lambda>(n, e). pt_side_effecting e \<and> n \<notin> set (is_allowed_tools i)) (d1_tools d))))"

definition validate_document :: "catalog \<Rightarrow> bool \<Rightarrow> document_v1 \<Rightarrow> validator_result" where
  "validate_document cat strict d =
     (let errors = concat (List.map (validate_tool_entry cat) (d1_tools d)) @ validate_intent_alignment d strict
      in \<lparr>vl_valid = (errors = []), vl_policy_name = Some (d1_name d),
          vl_side_effecting = length (filter (\<lambda>(n, e). pt_side_effecting e) (d1_tools d)),
          vl_read_only = length (filter (\<lambda>(n, e). \<not> pt_side_effecting e) (d1_tools d)),
          vl_errors = errors\<rparr>)"

section \<open>Loading\<close>

definition load_document :: "(string \<Rightarrow> exn + json) \<Rightarrow> string \<Rightarrow> exn + policy_document" where
  "load_document read_policy path = rbind (read_policy path) parse_paybond_policy_document"

definition resolve_effective_document ::
  "(string \<Rightarrow> exn + json) \<Rightarrow> (string \<Rightarrow> string \<Rightarrow> string) \<Rightarrow> policy_document \<Rightarrow> string option \<Rightarrow> exn + document_v1" where
  "resolve_effective_document read_policy join_path doc source_path = (case doc of
       Doc_V1 d \<Rightarrow> to_effective_policy_document doc
     | Doc_V2 d \<Rightarrow>
         (case (Option.bind (d2_extends d) px_base_policy, source_path) of
            (Some base_path, Some src) \<Rightarrow>
              if base_path = [] then to_effective_policy_document doc
              else
                rbind (load_document read_policy (join_path src base_path)) (\<lambda>base.
                rbind (merge_paybond_policies base d None) (\<lambda>r. Inr (mg_effective r)))
          | _ \<Rightarrow> to_effective_policy_document doc))"

definition load_policy_file ::
  "(string \<Rightarrow> exn + json) \<Rightarrow> (string \<Rightarrow> string \<Rightarrow> string) \<Rightarrow> string \<Rightarrow> exn + document_v1" where
  "load_policy_file read_policy join_path path =
     rbind (load_document read_policy path) (\<lambda>doc.
       resolve_effective_document read_policy join_path doc (Some path))"

section \<open>Lemmas\<close>

definition tool_aligned :: "catalog \<Rightarrow> policy_tool_entry \<Rightarrow> bool" where
  "tool_aligned cat e \<longleftrightarrow>
     (pt_side_effecting e \<longrightarrow> \<not> no_preset e) \<and>
     (\<not> no_preset e \<longrightarrow> the (pt_evidence_preset e) \<in> set (list_completion_preset_ids cat)) \<and>
     (case pt_vendor_pack e of None \<Rightarrow> True | Some p \<Rightarrow> p = [] \<or>
        (case get_completion_preset cat p of Inl _ \<Rightarrow> False | Inr q \<Rightarrow> is_vendor_pack q))"

lemma preset_listed_known: "p \<in> set (list_completion_preset_ids cat) \<Longrightarrow> is_inr (get_completion_preset cat p)"
  by (induction cat p rule: get_completion_preset.induct) (auto simp: list_completion_preset_ids_def split: if_splits)

lemma validate_tool_entry_Nil: "validate_tool_entry cat (n, e) = [] \<longleftrightarrow> tool_aligned cat e"
  by (auto simp: validate_tool_entry_def tool_aligned_def validate_preset_reference_def
      validate_vendor_pack_reference_def preset_listed_known split: option.splits sum.splits if_splits)

lemma validate_document_valid:
  "vl_valid (validate_document cat strict d) \<longleftrightarrow>
     list_all (\<lambda>(n, e). tool_aligned cat e) (d1_tools d) \<and>
     (case d1_intent d of None \<Rightarrow> True | Some i \<Rightarrow>
        set (is_allowed_tools i) \<subseteq> set (keys (d1_tools d)) \<and>
        (is_allowed_tools i \<noteq> [] \<and> strict \<and> d1_default_deny d \<longrightarrow>
           list_all (\<lambda>(n, e). pt_side_effecting e \<longrightarrow> n \<in> set (is_allowed_tools i)) (d1_tools d)))"
proof -
  have t: "concat (List.map (validate_tool_entry cat) (d1_tools d)) = [] \<longleftrightarrow>
      list_all (\<lambda>(n, e). tool_aligned cat e) (d1_tools d)"
    by (auto simp: list_all_iff validate_tool_entry_Nil)
  show ?thesis
    unfolding validate_document_def Let_def validator_result.simps append_is_Nil_conv t
    by (auto simp: validate_intent_alignment_def filter_empty_conv list_all_iff split: option.splits)
qed

end
