(* ===== verification/Policy_Reload.thy ===== *)
theory Policy_Reload
  imports Policy_Validate
begin

text \<open>
  \<open>policy/reload.py\<close>: the guarded hot reload of a policy.  A reload waits until no tool call is
  in flight, loads the next snapshot, validates it, refuses it when it needs tools outside the
  bound intent or loosens the policy it replaces, and only then swaps it in.

  A reload is a coroutine: at each of its awaits other tasks may run and change the handle.  What
  they do there is the argument \<open>awaits\<close>, so the handle is threaded through every await.

  The reload works on any object with the operations of \<open>PolicyReloadHandle\<close>; here they are a
  record \<open>handle_ops\<close>, and the protocol's promises are the locale \<open>policy_reload_handle\<close>.
  Theories \<open>Agent_Run\<close> and \<open>Mcp_Reload_Gate\<close> interpret it.
\<close>

section \<open>The handle\<close>

record 'h handle_ops =
  ho_policy_file_path :: "'h \<Rightarrow> string option"
  ho_policy_digest :: "'h \<Rightarrow> string option"
  ho_current_snapshot :: "'h \<Rightarrow> snapshot option"
  ho_in_flight_count :: "'h \<Rightarrow> int"
  ho_apply_policy_snapshot :: "snapshot \<Rightarrow> 'h \<Rightarrow> 'h"

record reload_options =
  ro_file :: "string option"
  ro_remote :: bool
  ro_resolve_inheritance :: bool
  ro_allow_loosen :: bool
  ro_gateway :: bool  \<comment> \<open>a gateway client is given\<close>

record reload_result =
  rr_applied :: bool
  rr_previous_digest :: "string option"
  rr_new_digest :: "string option"
  rr_unchanged :: bool

section \<open>What counts as loosening\<close>

text \<open>The reasons one tool of the next document gives.\<close>

definition tool_loosening :: "(string, policy_tool_entry) dict \<Rightarrow> string \<times> policy_tool_entry \<Rightarrow> string list" where
  "tool_loosening previous = (\<lambda>(n, e). case map_of previous n of
       None \<Rightarrow> if pt_side_effecting e then [''new side-effecting tool '' @ quoted n] else []
     | Some p \<Rightarrow>
         (case pt_max_spend_cents p of
            None \<Rightarrow> []
          | Some prev_cap \<Rightarrow>
              (case pt_max_spend_cents e of
                 None \<Rightarrow> [''tool '' @ quoted n @ '' max_spend_cents cap removed'']
               | Some next_cap \<Rightarrow>
                   if next_cap > prev_cap
                   then [''tool '' @ quoted n @ '' max_spend_cents increased from '' @ str_int prev_cap @
                         '' to '' @ str_int next_cap]
                   else []))
         @ (if \<not> pt_side_effecting p \<and> pt_side_effecting e
            then [''tool '' @ quoted n @ '' became side-effecting''] else []))"

definition detect_policy_loosening :: "document_v1 \<Rightarrow> document_v1 \<Rightarrow> string list" where
  "detect_policy_loosening previous nxt =
     (if d1_default_deny previous \<and> \<not> d1_default_deny nxt
      then [''default_deny relaxed from true to false''] else [])
     @ concat (List.map (tool_loosening (d1_tools previous)) (d1_tools nxt))"

definition requires_intent_rebind :: "document_v1 \<Rightarrow> string list \<Rightarrow> bool" where
  "requires_intent_rebind d allowed \<longleftrightarrow>
     (case d1_intent d of None \<Rightarrow> False
      | Some i \<Rightarrow> list_ex (\<lambda>op. op \<notin> set allowed) (is_allowed_tools i)) \<or>
     list_ex (\<lambda>(n, e). pt_side_effecting e \<and>
        str_or (Some (strip (str_or (pt_operation e) []))) n \<notin> set allowed) (d1_tools d)"

section \<open>Waiting for tool calls\<close>

text \<open>
  What happens while the reload is suspended: for each turn of the polling loop the clock it reads and what
  the other tasks do to the handle during the sleep after it, and what they do during the two
  requests to the gateway.
\<close>

record 'h awaits =
  aw_sleeps :: "(rat \<times> ('h \<Rightarrow> 'h)) list"
  aw_effective :: "'h \<Rightarrow> 'h"
  aw_remote :: "'h \<Rightarrow> 'h"

definition in_flight_timeout_s :: rat where
  "in_flight_timeout_s = 30"

text \<open>
  The polling loop.  It ends as soon as the handle counts no call, raises at the first clock past the
  deadline, and otherwise sleeps; None when it still sleeps after the last turn given.
\<close>

fun wait_for_in_flight_count ::
  "('h \<Rightarrow> int) \<Rightarrow> rat \<Rightarrow> (rat \<times> ('h \<Rightarrow> 'h)) list \<Rightarrow> 'h \<Rightarrow> ('h \<times> (exn + unit)) option" where
  "wait_for_in_flight_count in_flight_count deadline [] h =
     (if in_flight_count h > 0 then None else Some (h, Inr ()))"
| "wait_for_in_flight_count in_flight_count deadline ((now, others) # turns) h =
     (if in_flight_count h > 0
      then (if now > deadline
            then Some (h, Inl (ReloadError ''in_flight_timeout''
                   ''timed out waiting for in-flight tool calls before policy reload''))
            else wait_for_in_flight_count in_flight_count deadline turns (others h))
      else Some (h, Inr ()))"

section \<open>Loading the next snapshot\<close>

text \<open>The host side of a reload: files, clock, catalog, hash, and the gateway's answers.\<close>

record reload_env =
  re_read_policy :: "string \<Rightarrow> exn + json"
  re_join_path :: "string \<Rightarrow> string \<Rightarrow> string"
  re_catalog :: catalog
  re_sha256 :: "string \<Rightarrow> string"
  re_now :: string
  re_strict :: bool
  re_effective :: "string \<Rightarrow> json \<Rightarrow> string option \<Rightarrow> exn + (json \<times> string) option"
     \<comment> \<open>None is unchanged\<close>
  re_remote_validate :: "document_v1 \<Rightarrow> exn + validator_error list option"
     \<comment> \<open>None is valid, a list the errors of an invalid report\<close>

definition load_policy_snapshot_from_file :: "reload_env \<Rightarrow> string \<Rightarrow> exn + snapshot" where
  "load_policy_snapshot_from_file env path =
     rbind (load_policy_file (re_read_policy env) (re_join_path env) path) (\<lambda>d.
     rbind (policy_to_tool_registry (re_catalog env) d) (\<lambda>rg.
     Inr (create_policy_snapshot (re_sha256 env) (re_now env) d rg From_File None None)))"

text \<open>The request for the effective policy, and the snapshot made of its answer.\<close>

definition effective_poll_request :: "reload_env \<Rightarrow> string \<Rightarrow> exn + string \<times> json" where
  "effective_poll_request env overlay_path =
     rbind (re_read_policy env overlay_path) (\<lambda>payload.
     rbind (if is_obj payload then Inr () else Inl (ValueError ''overlay must be a JSON or YAML object'')) (\<lambda>_.
     rbind (parse_paybond_policy_document payload) (\<lambda>doc.
     rbind (case doc of
              Doc_V2 d \<Rightarrow> (case d2_extends d of
                  Some x \<Rightarrow> Inr x
                | None \<Rightarrow> Inl (ReloadError ''invalid_overlay''
                    ''poll reload requires a v2 tenant overlay policy with extends.org_policy_id''))
            | Doc_V1 d \<Rightarrow> Inl (ReloadError ''invalid_overlay''
                ''poll reload requires a v2 tenant overlay policy with extends.org_policy_id'')) (\<lambda>x.
     let org_policy_id = strip (px_org_policy_id x) in
     rbind (ensure (org_policy_id \<noteq> []) (ReloadError ''invalid_overlay''
              ''poll reload requires extends.org_policy_id on the overlay policy'')) (\<lambda>_.
     Inr (org_policy_id, payload))))))"

definition effective_poll_answer :: "reload_env \<Rightarrow> (json \<times> string) option \<Rightarrow> exn + snapshot option" where
  "effective_poll_answer env resolved = (case resolved of
       None \<Rightarrow> Inr None
     | Some (effective_policy, digest) \<Rightarrow>
         rbind (parse_paybond_policy_document_v1 effective_policy) (\<lambda>d.
         rbind (policy_to_tool_registry (re_catalog env) d) (\<lambda>rg.
         Inr (Some (create_policy_snapshot_from_effective (re_sha256 env) (re_now env) d rg digest None)))))"

text \<open>The handle is suspended only when the request is sent.\<close>

definition load_policy_snapshot_from_effective_poll ::
  "reload_env \<Rightarrow> string \<Rightarrow> string option \<Rightarrow> ('h \<Rightarrow> 'h) \<Rightarrow> 'h \<Rightarrow> 'h \<times> (exn + snapshot option)" where
  "load_policy_snapshot_from_effective_poll env overlay_path current_digest others h =
     (case effective_poll_request env overlay_path of
        Inl e \<Rightarrow> (h, Inl e)
      | Inr (org_policy_id, payload) \<Rightarrow>
          (others h, rbind (re_effective env org_policy_id payload current_digest) (effective_poll_answer env)))"

text \<open>\<open>PaybondPolicyReloadUnchangedError\<close> is the value None.\<close>

definition resolve_reload_snapshot ::
  "'h handle_ops \<Rightarrow> reload_env \<Rightarrow> reload_options \<Rightarrow> ('h \<Rightarrow> 'h) \<Rightarrow> 'h \<Rightarrow> 'h \<times> (exn + snapshot option)" where
  "resolve_reload_snapshot ops env opts others h =
     (let path = strip (str_or (if ro_file opts = None \<or> ro_file opts = Some []
                                then ho_policy_file_path ops h else ro_file opts) [])
      in if path = []
         then (h, Inl (ReloadError ''missing_policy_file''
                ''reload requires a policy file path (pass file or bind with reload.watch/poll)''))
         else if ro_resolve_inheritance opts \<and> ro_gateway opts
         then load_policy_snapshot_from_effective_poll env path (ho_policy_digest ops h) others h
         else
           (h, rbind (load_policy_snapshot_from_file env path) (\<lambda>sn.
             case ho_policy_digest ops h of
               None \<Rightarrow> Inr (Some sn)
             | Some g \<Rightarrow> Inr (if g \<noteq> [] \<and> g = sn_digest sn then None else Some sn))))"

section \<open>Validating and applying\<close>

definition first_error :: "validator_error list \<Rightarrow> string \<Rightarrow> string" where
  "first_error errors dflt = (case errors of [] \<Rightarrow> dflt | e # _ \<Rightarrow> ve_path e @ '': '' @ ve_message e)"

text \<open>The checks; \<open>previous\<close> is the document current when they begin.\<close>

definition check_next_snapshot ::
  "reload_env \<Rightarrow> reload_options \<Rightarrow> document_v1 option \<Rightarrow> snapshot \<Rightarrow> string list \<Rightarrow> exn + unit" where
  "check_next_snapshot env opts previous sn allowed =
     (let d = sn_document sn; local_report = validate_document (re_catalog env) (re_strict env) d in
      rbind (ensure (vl_valid local_report) (ReloadError ''local_validate_failed''
               (first_error (vl_errors local_report) ''local policy validation failed''))) (\<lambda>_.
      rbind (if ro_remote opts \<and> ro_gateway opts
             then rbind (re_remote_validate env d) (\<lambda>report. case report of
                    None \<Rightarrow> Inr ()
                  | Some errors \<Rightarrow> Inl (ReloadError ''remote_validate_failed''
                      (first_error errors ''remote policy validation failed'')))
             else Inr ()) (\<lambda>_.
      rbind (ensure (\<not> (allowed \<noteq> [] \<and> requires_intent_rebind d allowed)) (ReloadError ''intent_rebind_required''
               ''reloaded policy requires allowed_tools outside the bound intent; re-bind with a new intent'')) (\<lambda>_.
      rbind (case previous of
               None \<Rightarrow> Inr ()
             | Some p \<Rightarrow>
                 (let reasons = detect_policy_loosening p d
                  in ensure (ro_allow_loosen opts \<or> reasons = []) (ReloadError ''loosening_denied''
                       (''policy loosening denied: '' @ py_join ''; '' reasons)))) (\<lambda>_.
      if allowed \<noteq> [] then validate_for_bind (sn_registry sn) allowed else Inr ())))))"

text \<open>The swap, after the last await: nothing runs between the comparison of the digests and it.\<close>

definition apply_checked_snapshot :: "'h handle_ops \<Rightarrow> snapshot \<Rightarrow> 'h \<Rightarrow> 'h \<times> (exn + reload_result)" where
  "apply_checked_snapshot ops sn h =
     (let previous_digest = ho_policy_digest ops h in
      if previous_digest \<noteq> None \<and> previous_digest \<noteq> Some [] \<and> previous_digest = Some (sn_digest sn)
      then (h, Inr \<lparr>rr_applied = False, rr_previous_digest = previous_digest,
              rr_new_digest = Some (sn_digest sn), rr_unchanged = True\<rparr>)
      else (ho_apply_policy_snapshot ops sn h,
            Inr \<lparr>rr_applied = True,
              rr_previous_digest = Some (str_or previous_digest (sn_digest sn)),
              rr_new_digest = Some (sn_digest sn), rr_unchanged = False\<rparr>))"

text \<open>
  The previous document is read before the remote validation, which is sent for a locally valid
  document only; the swap follows it.
\<close>

definition remote_check_sent :: "reload_env \<Rightarrow> reload_options \<Rightarrow> snapshot \<Rightarrow> bool" where
  "remote_check_sent env opts sn \<longleftrightarrow>
     ro_remote opts \<and> ro_gateway opts \<and>
     vl_valid (validate_document (re_catalog env) (re_strict env) (sn_document sn))"

definition validate_and_apply_policy_snapshot ::
  "'h handle_ops \<Rightarrow> reload_env \<Rightarrow> reload_options \<Rightarrow> snapshot \<Rightarrow> string list \<Rightarrow> ('h \<Rightarrow> 'h) \<Rightarrow> 'h \<Rightarrow>
   'h \<times> (exn + reload_result)" where
  "validate_and_apply_policy_snapshot ops env opts sn allowed others h =
     (let previous = map_option sn_document (ho_current_snapshot ops h);
          h' = (if remote_check_sent env opts sn then others h else h)
      in case check_next_snapshot env opts previous sn allowed of
           Inl e \<Rightarrow> (h', Inl e)
         | Inr _ \<Rightarrow> apply_checked_snapshot ops sn h')"

definition bound_allowed_tools :: "'h handle_ops \<Rightarrow> 'h \<Rightarrow> string list option \<Rightarrow> string list" where
  "bound_allowed_tools ops h allowed = (case allowed of
       Some a \<Rightarrow> a
     | None \<Rightarrow> (case Option.bind (ho_current_snapshot ops h) (\<lambda>sn. d1_intent (sn_document sn)) of
           None \<Rightarrow> [] | Some i \<Rightarrow> is_allowed_tools i))"

text \<open>
  The whole reload, begun at the clock \<open>started\<close>; \<open>None\<close> while it waits for calls that have not
  ended yet.
\<close>

definition reload_policy_on_handle ::
  "'h handle_ops \<Rightarrow> reload_env \<Rightarrow> reload_options \<Rightarrow> string list option \<Rightarrow> rat \<Rightarrow> 'h awaits \<Rightarrow> 'h \<Rightarrow>
   ('h \<times> (exn + reload_result)) option" where
  "reload_policy_on_handle ops env opts allowed started aw h =
     (case wait_for_in_flight_count (ho_in_flight_count ops) (started + in_flight_timeout_s) (aw_sleeps aw) h of
        None \<Rightarrow> None
      | Some (h, Inl e) \<Rightarrow> Some (h, Inl e)
      | Some (h, Inr _) \<Rightarrow> Some
          (case resolve_reload_snapshot ops env opts (aw_effective aw) h of
             (h, Inl e) \<Rightarrow> (h, Inl e)
           | (h, Inr None) \<Rightarrow> (h, Inr \<lparr>rr_applied = False, rr_previous_digest = ho_policy_digest ops h,
                            rr_new_digest = ho_policy_digest ops h, rr_unchanged = True\<rparr>)
           | (h, Inr (Some sn)) \<Rightarrow>
               validate_and_apply_policy_snapshot ops env opts sn (bound_allowed_tools ops h allowed)
                 (aw_remote aw) h))"

section \<open>What other tasks may do meanwhile\<close>

definition others_of :: "'h awaits \<Rightarrow> ('h \<Rightarrow> 'h) set" where
  "others_of aw = insert (aw_effective aw) (insert (aw_remote aw) (snd ` set (aw_sleeps aw)))"

text \<open>The handle changes by what other tasks do at the awaits, and by nothing else.\<close>

inductive others_run :: "('h \<Rightarrow> 'h) set \<Rightarrow> 'h \<Rightarrow> 'h \<Rightarrow> bool" for F where
  others_refl [simp, intro]: "others_run F h h"
| others_step: "others_run F h h' \<Longrightarrow> f \<in> F \<Longrightarrow> others_run F h (f h')"

lemma others_run_trans: "others_run F h' h'' \<Longrightarrow> others_run F h h' \<Longrightarrow> others_run F h h''"
  by (induction rule: others_run.induct) (auto intro: others_step)

lemma others_run_one: "f \<in> F \<Longrightarrow> others_run F h (f h)"
  by (blast intro: others_step)

lemma others_run_mono: "others_run F h h' \<Longrightarrow> F \<subseteq> G \<Longrightarrow> others_run G h h'"
  by (induction rule: others_run.induct) (auto intro: others_step)

lemma others_run_keeps:
  "others_run F h h' \<Longrightarrow> (\<And>f x. f \<in> F \<Longrightarrow> P x \<Longrightarrow> P (f x)) \<Longrightarrow> P h \<Longrightarrow> P h'"
  by (induction rule: others_run.induct) auto

lemma wait_for_in_flight_count_others:
  "wait_for_in_flight_count calls deadline turns h = Some (h', r) \<Longrightarrow> others_run (snd ` set turns) h h'"
proof (induction calls deadline turns h rule: wait_for_in_flight_count.induct)
  case (2 calls deadline now others turns h)
  have "others_run (snd ` set ((now, others) # turns)) h h'"
    if "wait_for_in_flight_count calls deadline turns (others h) = Some (h', r)" "0 < calls h" "\<not> deadline < now"
    using 2(1)[OF that(2,3) that(1)]
    by (rule others_run_trans[OF others_run_mono]) (auto intro: others_run_one)
  then show ?case using 2(2) by (auto split: if_splits)
qed (auto split: if_splits)

lemma wait_for_in_flight_count_Inr:
  "wait_for_in_flight_count calls deadline turns h = Some (h', Inr u) \<Longrightarrow> calls h' \<le> 0"
  by (induction calls deadline turns h rule: wait_for_in_flight_count.induct) (auto split: if_splits)

lemma wait_for_in_flight_count_Inl:
  "wait_for_in_flight_count calls deadline turns h = Some (h', Inl e) \<Longrightarrow>
     0 < calls h' \<and> (\<exists>(now, _) \<in> set turns. deadline < now)"
  by (induction calls deadline turns h rule: wait_for_in_flight_count.induct) (auto split: if_splits)

text \<open>A clock past the deadline ends the wait.\<close>

lemma wait_for_in_flight_count_ends:
  "\<exists>(now, _) \<in> set turns. deadline < now \<Longrightarrow> wait_for_in_flight_count calls deadline turns h \<noteq> None"
  by (induction calls deadline turns h rule: wait_for_in_flight_count.induct) auto

section \<open>The handle's contract\<close>

text \<open>The handle when the previous document is read, and when the snapshot is swapped in.\<close>

definition at_check :: "reload_options \<Rightarrow> 'h awaits \<Rightarrow> 'h \<Rightarrow> 'h" where
  "at_check opts aw h = (if ro_resolve_inheritance opts \<and> ro_gateway opts then aw_effective aw h else h)"

definition at_swap :: "reload_options \<Rightarrow> 'h awaits \<Rightarrow> 'h \<Rightarrow> 'h" where
  "at_swap opts aw h = (if ro_remote opts \<and> ro_gateway opts then aw_remote aw (at_check opts aw h)
                        else at_check opts aw h)"

lemma at_swap_no_gateway [simp]: "\<not> ro_gateway opts \<Longrightarrow> at_check opts aw h = h" "\<not> ro_gateway opts \<Longrightarrow> at_swap opts aw h = h"
  by (simp_all add: at_check_def at_swap_def)

lemma at_check_others: "others_run (others_of aw) h (at_check opts aw h)"
  by (auto simp: at_check_def others_of_def intro: others_run_one)

lemma at_swap_others: "others_run (others_of aw) h (at_swap opts aw h)"
  using at_check_others[of aw h opts] by (auto simp: at_swap_def others_of_def intro: others_step)

lemma resolve_reload_snapshot_cases:
  assumes "resolve_reload_snapshot ops env opts (aw_effective aw) h = (h', r)"
  shows "h' = at_check opts aw h \<or> h' = h \<and> (\<exists>e. r = Inl e)"
  using assms
  by (auto simp: resolve_reload_snapshot_def load_policy_snapshot_from_effective_poll_def at_check_def Let_def
      split: if_splits sum.splits)

lemma wait_others_of:
  "wait_for_in_flight_count calls deadline (aw_sleeps aw) h = Some (h', r) \<Longrightarrow> others_run (others_of aw) h h'"
  by (rule others_run_mono[OF wait_for_in_flight_count_others]) (auto simp: others_of_def)

text \<open>A reload that raises or applies nothing leaves the handle to the other tasks.\<close>

lemma reload_keeps:
  assumes "reload_policy_on_handle ops env opts allowed started aw h = Some (h', r)"
    and "case r of Inl e \<Rightarrow> True | Inr res \<Rightarrow> \<not> rr_applied res"
  shows "others_run (others_of aw) h h'"
proof -
  obtain h0 r0 where w: "wait_for_in_flight_count (ho_in_flight_count ops) (started + in_flight_timeout_s)
      (aw_sleeps aw) h = Some (h0, r0)"
    using assms(1) by (auto simp: reload_policy_on_handle_def split: option.splits)
  note o = wait_others_of[OF w]
  obtain h1 r1 where s: "resolve_reload_snapshot ops env opts (aw_effective aw) h0 = (h1, r1)" by fastforce
  have o1: "others_run (others_of aw) h h1"
    using resolve_reload_snapshot_cases[OF s] others_run_trans[OF at_check_others o] o by auto
  moreover have "others_run (others_of aw) h (aw_remote aw h1)"
    using others_step[OF o1] by (simp add: others_of_def)
  ultimately show ?thesis
    using assms w s o
    by (auto simp: reload_policy_on_handle_def validate_and_apply_policy_snapshot_def
        apply_checked_snapshot_def Let_def split: option.splits sum.splits if_splits)
qed

text \<open>A reload that applies a snapshot has waited until no call was in flight, and has checked it.\<close>

lemma reload_applied_cases:
  assumes "reload_policy_on_handle ops env opts allowed started aw h = Some (h', Inr r)" "rr_applied r"
  obtains h0 sn where "others_run (others_of aw) h h0" "ho_in_flight_count ops h0 \<le> 0"
    "check_next_snapshot env opts (map_option sn_document (ho_current_snapshot ops (at_check opts aw h0))) sn
       (bound_allowed_tools ops (at_check opts aw h0) allowed) = Inr ()"
    "h' = ho_apply_policy_snapshot ops sn (at_swap opts aw h0)" "rr_new_digest r = Some (sn_digest sn)"
proof -
  obtain h0 u where w: "wait_for_in_flight_count (ho_in_flight_count ops) (started + in_flight_timeout_s)
      (aw_sleeps aw) h = Some (h0, Inr u)"
    using assms(1) by (auto simp: reload_policy_on_handle_def split: option.splits sum.splits)
  obtain h1 r1 where s: "resolve_reload_snapshot ops env opts (aw_effective aw) h0 = (h1, r1)" by fastforce
  have "\<exists>sn. r1 = Inr (Some sn) \<and>
      validate_and_apply_policy_snapshot ops env opts sn (bound_allowed_tools ops h1 allowed) (aw_remote aw) h1 =
        (h', Inr r)"
    using assms w s by (auto simp: reload_policy_on_handle_def split: sum.splits option.splits)
  then obtain sn where r1: "r1 = Inr (Some sn)" and
    v: "validate_and_apply_policy_snapshot ops env opts sn (bound_allowed_tools ops h1 allowed) (aw_remote aw) h1 =
      (h', Inr r)" by blast
  have h1: "h1 = at_check opts aw h0" using resolve_reload_snapshot_cases[OF s] r1 by simp
  have c: "check_next_snapshot env opts (map_option sn_document (ho_current_snapshot ops h1)) sn
      (bound_allowed_tools ops h1 allowed) = Inr ()"
    using v by (auto simp: validate_and_apply_policy_snapshot_def Let_def split: sum.splits)
  then have sent: "remote_check_sent env opts sn \<longleftrightarrow> ro_remote opts \<and> ro_gateway opts"
    by (auto simp: remote_check_sent_def check_next_snapshot_def Let_def res_iff)
  have "h' = ho_apply_policy_snapshot ops sn (at_swap opts aw h0)" "rr_new_digest r = Some (sn_digest sn)"
    using v assms(2) c
    by (auto simp: validate_and_apply_policy_snapshot_def apply_checked_snapshot_def Let_def h1 sent at_swap_def
        split: sum.splits if_splits)
  then show ?thesis
    using that[of h0 sn] wait_others_of[OF w] wait_for_in_flight_count_Inr[OF w] c by (simp add: h1)
qed

locale policy_reload_handle =
  fixes ops :: "'h handle_ops" and invar :: "'h \<Rightarrow> bool"
  assumes digest_of_current: "invar h \<Longrightarrow> ho_policy_digest ops h = map_option sn_digest (ho_current_snapshot ops h)"
    and current_apply: "invar h \<Longrightarrow> ho_current_snapshot ops (ho_apply_policy_snapshot ops sn h) = Some sn"
    and in_flight_apply: "ho_in_flight_count ops (ho_apply_policy_snapshot ops sn h) = ho_in_flight_count ops h"
    and file_apply: "ho_policy_file_path ops (ho_apply_policy_snapshot ops sn h) = ho_policy_file_path ops h"
    and invar_apply: "invar h \<Longrightarrow> invar (ho_apply_policy_snapshot ops sn h)"
begin

lemma reload_applied:
  assumes "invar h" and "\<And>f x. f \<in> others_of aw \<Longrightarrow> invar x \<Longrightarrow> invar (f x)"
    and "reload_policy_on_handle ops env opts allowed started aw h = Some (h', Inr r)" "rr_applied r"
  obtains h0 sn where "others_run (others_of aw) h h0" "ho_in_flight_count ops h0 \<le> 0"
    "check_next_snapshot env opts (map_option sn_document (ho_current_snapshot ops (at_check opts aw h0))) sn
       (bound_allowed_tools ops (at_check opts aw h0) allowed) = Inr ()"
    "h' = ho_apply_policy_snapshot ops sn (at_swap opts aw h0)"
    "ho_current_snapshot ops h' = Some sn" "ho_policy_digest ops h' = Some (sn_digest sn)"
    "rr_new_digest r = Some (sn_digest sn)"
    "ho_in_flight_count ops h' = ho_in_flight_count ops (at_swap opts aw h0)" "invar h'"
proof (rule reload_applied_cases[OF assms(3,4)])
  fix h0 sn
  assume o: "others_run (others_of aw) h h0" and c: "ho_in_flight_count ops h0 \<le> 0"
    "check_next_snapshot env opts (map_option sn_document (ho_current_snapshot ops (at_check opts aw h0))) sn
       (bound_allowed_tools ops (at_check opts aw h0) allowed) = Inr ()"
    and h': "h' = ho_apply_policy_snapshot ops sn (at_swap opts aw h0)" and d: "rr_new_digest r = Some (sn_digest sn)"
  have "invar (at_swap opts aw h0)"
    using others_run_keeps[OF others_run_trans[OF at_swap_others o], of invar] assms(1,2) by blast
  then show thesis
    using that[OF o c h' _ _ d] invar_apply current_apply digest_of_current in_flight_apply by (simp add: h')
qed

end

section \<open>What the checks guarantee\<close>

text \<open>
  The rest of what \<open>detect_policy_loosening\<close> looks at, as a relation: the deny switch stays on,
  each tool of the new document keeps its cap, and none of them is newly side-effecting.
\<close>

definition not_loosened :: "document_v1 \<Rightarrow> document_v1 \<Rightarrow> bool" where
  "not_loosened p d \<longleftrightarrow>
     (d1_default_deny p \<longrightarrow> d1_default_deny d) \<and>
     list_all (\<lambda>(n, e). case map_of (d1_tools p) n of
         None \<Rightarrow> \<not> pt_side_effecting e
       | Some old \<Rightarrow> (pt_side_effecting e \<longrightarrow> pt_side_effecting old) \<and>
           (case pt_max_spend_cents old of None \<Rightarrow> True
            | Some c \<Rightarrow> (case pt_max_spend_cents e of None \<Rightarrow> False | Some c' \<Rightarrow> c' \<le> c))) (d1_tools d)"

lemma tool_loosening_Nil:
  "tool_loosening ts (n, e) = [] \<longleftrightarrow> (case map_of ts n of
         None \<Rightarrow> \<not> pt_side_effecting e
       | Some old \<Rightarrow> (pt_side_effecting e \<longrightarrow> pt_side_effecting old) \<and>
           (case pt_max_spend_cents old of None \<Rightarrow> True
            | Some c \<Rightarrow> (case pt_max_spend_cents e of None \<Rightarrow> False | Some c' \<Rightarrow> c' \<le> c)))"
  by (auto simp: tool_loosening_def split: option.splits if_splits)

lemma detect_policy_loosening_Nil: "detect_policy_loosening p d = [] \<longleftrightarrow> not_loosened p d"
  by (auto simp: detect_policy_loosening_def not_loosened_def list_all_iff tool_loosening_Nil[symmetric])

lemma check_next_snapshot_Inr:
  assumes "check_next_snapshot env opts previous sn allowed = Inr u"
  shows "vl_valid (validate_document (re_catalog env) (re_strict env) (sn_document sn))"
    and "allowed \<noteq> [] \<Longrightarrow> \<not> requires_intent_rebind (sn_document sn) allowed"
    and "\<lbrakk>previous = Some p; \<not> ro_allow_loosen opts\<rbrakk> \<Longrightarrow> not_loosened p (sn_document sn)"
    and "allowed \<noteq> [] \<Longrightarrow> validate_for_bind (sn_registry sn) allowed = Inr ()"
  using assms
  by (auto simp: check_next_snapshot_def Let_def res_iff detect_policy_loosening_Nil split: if_splits)

lemma requires_intent_rebind_iff:
  "\<not> requires_intent_rebind d allowed \<longleftrightarrow>
     (case d1_intent d of None \<Rightarrow> True | Some i \<Rightarrow> set (is_allowed_tools i) \<subseteq> set allowed) \<and>
     (\<forall>(n, e) \<in> set (d1_tools d). pt_side_effecting e \<longrightarrow>
        str_or (Some (strip (str_or (pt_operation e) []))) n \<in> set allowed)"
  by (auto simp: requires_intent_rebind_def list_ex_iff split: option.splits)

end
