(* ===== verification/Agent_Run.thy ===== *)
theory Agent_Run
  imports Policy_Reload Interceptor_Calls
begin

text \<open>
  \<open>agent/run.py\<close>: \<open>PaybondAgentRun\<close>, from the bind of a run (a sandbox bootstrap or an attach
  to an existing intent) to its policy swaps and approval tokens.  The run and its interceptor
  share one binding object; here it is the interceptor's, and the run reads it there.
  Fresh UUIDs, the hashes of the agent context and the gateway's answers are arguments.
\<close>

section \<open>Identifiers\<close>

definition run_id_head :: "char \<Rightarrow> bool" where
  "run_id_head c \<longleftrightarrow> is_lower c \<or> is_upper c \<or> is_digit c"

definition agent_run_id_re :: "string \<Rightarrow> bool" where
  "agent_run_id_re = fullmatch_ht run_id_head
     (\<lambda>c. run_id_head c \<or> c = CHR ''.'' \<or> c = CHR ''_'' \<or> c = CHR ''-'') (Some 127)"

definition new_run_id :: "string option \<Rightarrow> string \<Rightarrow> exn + string" where
  "new_run_id explicit uuid4 =
     (let trimmed = strip (str_or explicit []) in
      if trimmed = [] then Inr uuid4
      else if \<not> agent_run_id_re trimmed \<or> trimmed \<in> set [''.'', ''..'']
      then Inl (ValueError (''invalid run_id '' @ py_repr (str_or explicit []) @
             ''; expected a UUID or slug matching [A-Za-z0-9][A-Za-z0-9._-]{0,127}''))
      else Inr trimmed)"

definition strip_items :: "string list \<Rightarrow> string list" where
  "strip_items xs = filter (\<lambda>s. s \<noteq> []) (List.map strip xs)"

definition read_allowed_tools :: "(string, json) dict \<Rightarrow> string list" where
  "read_allowed_tools intent = (case map_of intent ''allowed_tools'' of
       Some (JArr raw) \<Rightarrow> strip_items (List.map json_text raw)
     | _ \<Rightarrow> [])"

section \<open>Credentials and agent context\<close>

text \<open>The raw credentials: an absent field reads as an empty text; a seed that is not bytes is None.\<close>

record raw_production_evidence =
  rp_payee_did :: string
  rp_key_id :: string
  rp_payee_seed :: "string option"
  rp_agent_seed :: "string option"

definition seed_ok :: "string option \<Rightarrow> bool" where
  "seed_ok s \<longleftrightarrow> (case s of None \<Rightarrow> False | Some b \<Rightarrow> length b = 32)"

definition normalize_production_evidence ::
  "raw_production_evidence option \<Rightarrow> sandbox_binding option \<Rightarrow> exn + production_evidence option" where
  "normalize_production_evidence raw sandbox =
     (if sandbox \<noteq> None then Inr None
      else (case raw of
          None \<Rightarrow> Inl (BindError ''attach.production_evidence is required for production auto-evidence submission'')
        | Some r \<Rightarrow>
            if strip (rp_payee_did r) = []
            then Inl (BindError ''attach.production_evidence requires a payee identity'')
            else if strip (rp_key_id r) = []
            then Inl (BindError ''attach.production_evidence.agent_recognition_key_id must be non-empty'')
            else if \<not> seed_ok (rp_payee_seed r)
            then Inl (BindError ''attach.production_evidence.payee_signing_seed must be exactly 32 bytes'')
            else if \<not> seed_ok (rp_agent_seed r)
            then Inl (BindError ''attach.production_evidence.agent_recognition_signing_seed must be exactly 32 bytes'')
            else Inr (Some \<lparr>pe_payee_did = strip (rp_payee_did r), pe_payee_signing_seed = the (rp_payee_seed r),
                        pe_agent_recognition_key_id = strip (rp_key_id r),
                        pe_agent_recognition_signing_seed = the (rp_agent_seed r)\<rparr>)))"

definition bare_digest_hex :: "string option \<Rightarrow> string option" where
  "bare_digest_hex digest =
     (if digest = None \<or> digest = Some [] then None
      else Some (removeprefix (strip (the digest)) ''sha256:''))"

record hash_materials =
  hm_system_prompt :: string
  hm_tools_manifest :: json
  hm_policy_snapshot_id :: "string option"

record agent_context_input =
  ax_model_family :: string
  ax_model_instance_id :: "string option"
  ax_config_hash_hex :: "string option"
  ax_config_hash_materials :: "hash_materials option"
  ax_prompt_hash_hex :: "string option"
  ax_normalized_user_prompt :: "string option"
  ax_principal_did :: "string option"
  ax_operator_did :: "string option"
  ax_policy_template_id :: "string option"

definition trimmed :: "string option \<Rightarrow> string option" where
  "trimmed s = or_none (strip (str_or s []))"

definition resolve_agent_context ::
  "(string \<Rightarrow> json \<Rightarrow> string \<Rightarrow> string) \<Rightarrow> (string \<Rightarrow> string) \<Rightarrow> agent_context_input option \<Rightarrow>
   snapshot option \<Rightarrow> exn + agent_context option" where
  "resolve_agent_context config_hash prompt_hash inp sn = (case inp of
       None \<Rightarrow> Inr None
     | Some x \<Rightarrow>
         (let family = strip (ax_model_family x);
              given = digest_text (ax_config_hash_hex x);
              prompt_given = digest_text (ax_prompt_hash_hex x)
          in
          rbind (ensure (family \<noteq> []) (BindError ''agent_context.model_family must be non-empty'')) (\<lambda>_.
          rbind (case (given, ax_config_hash_materials x) of
                   (None, Some m) \<Rightarrow>
                     (case opt_or (trimmed (hm_policy_snapshot_id m)) (bare_digest_hex (map_option sn_digest sn)) of
                        None \<Rightarrow> Inl (BindError (''agent_context.config_hash_materials.policy_snapshot_id is '' @
                                  ''required when no policy_snapshot is bound''))
                      | Some i \<Rightarrow>
                          if i = [] then Inl (BindError (''agent_context.config_hash_materials.policy_snapshot_id is '' @
                                  ''required when no policy_snapshot is bound''))
                          else Inr (Some (config_hash (hm_system_prompt m) (hm_tools_manifest m) i)))
                 | _ \<Rightarrow> Inr given) (\<lambda>cfg.
          Inr (Some \<lparr>ag_model_family = family, ag_model_instance_id = trimmed (ax_model_instance_id x),
            ag_config_hash_hex = cfg,
            ag_prompt_hash_hex = (case (prompt_given, ax_normalized_user_prompt x) of
               (None, Some p) \<Rightarrow> Some (prompt_hash p) | _ \<Rightarrow> prompt_given),
            ag_principal_did = trimmed (ax_principal_did x), ag_operator_did = trimmed (ax_operator_did x),
            ag_policy_template_id = trimmed (ax_policy_template_id x)\<rparr>)))))"

section \<open>Attach and bootstrap\<close>

record attach_input =
  at_intent_id :: string
  at_capability_token :: string
  at_allowed_tools :: "string list option"
  at_sandbox :: "sandbox_binding option"
  at_production_evidence :: "raw_production_evidence option"

text \<open>\<open>intent_out\<close> answers \<open>get_intent\<close>, which is asked when no tools are given.\<close>

definition resolve_attach_binding ::
  "string \<Rightarrow> attach_input \<Rightarrow> exn + http_response \<Rightarrow> exn + uuid \<times> string \<times> string list" where
  "resolve_attach_binding tenant a intent_out =
     (let raw = strip (at_intent_id a); token = strip (at_capability_token a) in
      rbind (ensure (raw \<noteq> []) (BindError ''attach.intent_id must be non-empty'')) (\<lambda>_.
      rbind (ensure (token \<noteq> []) (BindError ''attach.capability_token must be non-empty'')) (\<lambda>_.
      rbind (case parse_uuid raw of
               None \<Rightarrow> Inl (BindError ''attach.intent_id must be a UUID'') | Some u \<Rightarrow> Inr u) (\<lambda>intent.
      rbind (case at_allowed_tools a of
               None \<Rightarrow> rbind (get_intent tenant intent_out) (\<lambda>b. Inr (read_allowed_tools b))
             | Some ts \<Rightarrow> Inr (strip_items ts)) (\<lambda>allowed.
      rbind (ensure (allowed \<noteq> []) (BindError (''attach: intent '' @ uuid_str intent @
               '' has no allowed_tools; pass attach.allowed_tools explicitly''))) (\<lambda>_.
      Inr (intent, token, allowed)))))))"

definition resolve_sandbox_bootstrap ::
  "string \<Rightarrow> bootstrap_input \<Rightarrow> exn + http_response \<Rightarrow> exn + uuid \<times> string \<times> string list \<times> sandbox_binding" where
  "resolve_sandbox_bootstrap tenant i out =
     (if strip (bi_kind i) \<noteq> ''sandbox''
      then Inl (BindError (''bootstrap.kind must be '' @ quoted ''sandbox''))
      else if strip (bi_operation i) = [] then Inl (BindError ''bootstrap.operation must be non-empty'')
      else if bi_requested_spend_cents i < 0
      then Inl (BindError ''bootstrap.requested_spend_cents must be a non-negative integer'')
      else rbind (bootstrap_sandbox tenant out) (\<lambda>r.
        Inr (sb_intent_id r, sb_capability_token r, [sb_operation r],
             \<lparr>sx_operation = sb_operation r, sx_requested_spend_cents = sb_requested_spend_cents r,
              sx_lifecycle_status = sb_lifecycle_status r\<rparr>)))"

section \<open>The run\<close>

text \<open>
  A listener is an object (told apart by a number) and its body, host code that may raise but is
  taken not to change the run.  \<open>ar_events\<close> records which listener was called with what.
\<close>

datatype run_event = Policy_Reloaded string string | Policy_Reload_Failed exn

type_synonym reload_listener = "nat \<times> (run_event \<Rightarrow> exn option)"

record agent_run =
  ar_interceptor :: interceptor
  ar_current_snapshot :: "snapshot option"
  ar_policy_file_path :: "string option"
  ar_reload_listeners :: "(string, reload_listener list) dict"
  ar_approval_tokens :: "(string, string) dict"
  ar_events :: "(nat \<times> run_event) list"

definition no_listeners :: "(string, reload_listener list) dict" where
  "no_listeners = [(''policy_reloaded'', []), (''policy_reload_failed'', [])]"

definition ar_binding :: "agent_run \<Rightarrow> run_binding" where
  "ar_binding r = it_binding (ar_interceptor r)"

record bind_config =
  bc_bootstrap :: "bootstrap_input option"
  bc_attach :: "attach_input option"
  bc_registry :: "registry option"
  bc_policy_snapshot :: "snapshot option"
  bc_run_id :: "string option"
  bc_policy_file :: "string option"
  bc_agent_context :: "agent_context_input option"

text \<open>The host of a bind: its tenant, whether its client finalizes spends, a fresh UUID, the
  hashes, and the answers of the two gateway calls.\<close>

record bind_env =
  be_tenant_id :: string
  be_finalizes :: bool
  be_uuid4 :: string
  be_config_hash :: "string \<Rightarrow> json \<Rightarrow> string \<Rightarrow> string"
  be_prompt_hash :: "string \<Rightarrow> string"
  be_intent_out :: "exn + http_response"
  be_bootstrap_out :: "exn + http_response"

definition assert_exclusive_bind_mode :: "bind_config \<Rightarrow> exn + unit" where
  "assert_exclusive_bind_mode c =
     ensure ((bc_bootstrap c \<noteq> None) \<noteq> (bc_attach c \<noteq> None))
       (BindError ''agent run bind requires exactly one of bootstrap or attach'')"

text \<open>Intent, token, allowed tools, sandbox and production credentials of the chosen mode.\<close>

definition resolve_bind_mode ::
  "bind_env \<Rightarrow> bind_config \<Rightarrow>
   exn + uuid \<times> string \<times> string list \<times> sandbox_binding option \<times> production_evidence option" where
  "resolve_bind_mode env c = (case bc_bootstrap c of
       Some i \<Rightarrow>
         rbind (resolve_sandbox_bootstrap (be_tenant_id env) i (be_bootstrap_out env))
           (\<lambda>(intent, token, allowed, sandbox). Inr (intent, token, allowed, Some sandbox, None))
     | None \<Rightarrow> (case bc_attach c of
           None \<Rightarrow> Inl (BindError ''agent run bind requires exactly one of bootstrap or attach'')
         | Some a \<Rightarrow>
             rbind (resolve_attach_binding (be_tenant_id env) a (be_intent_out env))
               (\<lambda>(intent, token, allowed).
             rbind (normalize_production_evidence (at_production_evidence a) (at_sandbox a)) (\<lambda>pe.
             Inr (intent, token, allowed, at_sandbox a, pe)))))"

definition bind_run :: "bind_env \<Rightarrow> bind_config \<Rightarrow> exn + agent_run" where
  "bind_run env c =
     rbind (assert_exclusive_bind_mode c) (\<lambda>_.
     rbind (case bc_registry c of None \<Rightarrow> Inl (BindError ''registry is required'') | Some r \<Rightarrow> Inr r) (\<lambda>given.
     rbind (new_run_id (bc_run_id c) (be_uuid4 env)) (\<lambda>run_id.
     rbind (resolve_bind_mode env c) (\<lambda>(intent, token, allowed, sandbox, pe).
     let sn = bc_policy_snapshot c; rg = (case sn of Some s \<Rightarrow> sn_registry s | None \<Rightarrow> given) in
     rbind (validate_for_bind rg allowed) (\<lambda>_.
     rbind (make_spend_guard None (Some (be_tenant_id env, be_finalizes env)) (Some intent) (Some token)) (\<lambda>guard.
     rbind (resolve_agent_context (be_config_hash env) (be_prompt_hash env) (bc_agent_context c) sn) (\<lambda>ctx.
     Inr \<lparr>ar_interceptor = sy_it (initial
            \<lparr>bd_run_id = run_id, bd_tenant_id = be_tenant_id env, bd_intent_id = intent,
             bd_capability_token = token, bd_guard = guard, bd_registry = rg,
             bd_allowed_tools = allowed, bd_sandbox = sandbox, bd_production_evidence = pe,
             bd_policy_snapshot = sn, bd_agent_context = ctx\<rparr>),
          ar_current_snapshot = sn, ar_policy_file_path = trimmed (bc_policy_file c),
          ar_reload_listeners = no_listeners, ar_approval_tokens = [], ar_events = []\<rparr>)))))))"

definition apply_policy_snapshot :: "snapshot \<Rightarrow> agent_run \<Rightarrow> agent_run" where
  "apply_policy_snapshot sn r =
     r\<lparr>ar_interceptor := (ar_interceptor r)\<lparr>it_binding := swap_binding sn (ar_binding r)\<rparr>,
       ar_current_snapshot := Some sn\<rparr>"

definition run_policy_digest :: "agent_run \<Rightarrow> string option" where
  "run_policy_digest r = map_option sn_digest (ar_current_snapshot r)"

definition store_approval_token :: "string \<Rightarrow> string \<Rightarrow> agent_run \<Rightarrow> exn + agent_run" where
  "store_approval_token tool_call_id token r =
     (if strip tool_call_id = [] then Inl (ValueError ''tool_call_id must be non-empty'')
      else if strip token = [] then Inl (ValueError ''approval token must be non-empty'')
      else Inr (r\<lparr>ar_approval_tokens :=
             AList.update (strip tool_call_id) (strip token) (ar_approval_tokens r)\<rparr>))"

definition get_approval_token :: "agent_run \<Rightarrow> string \<Rightarrow> string option" where
  "get_approval_token r tool_call_id = map_of (ar_approval_tokens r) (strip tool_call_id)"

section \<open>Reloading the policy of a run\<close>

definition run_handle :: "agent_run handle_ops" where
  "run_handle =
     \<lparr>ho_policy_file_path = ar_policy_file_path, ho_policy_digest = run_policy_digest,
      ho_current_snapshot = ar_current_snapshot,
      ho_in_flight_count = (\<lambda>r. it_in_flight (ar_interceptor r)),
      ho_apply_policy_snapshot = apply_policy_snapshot\<rparr>"

text \<open>\<open>on\<close>, \<open>off\<close> and \<open>_emit\<close>: the listeners run in turn, and the first that raises ends the emission.\<close>

definition listen_on :: "string \<Rightarrow> reload_listener \<Rightarrow> agent_run \<Rightarrow> agent_run" where
  "listen_on event l r = (case map_of (ar_reload_listeners r) event of
       None \<Rightarrow> r
     | Some ls \<Rightarrow> r\<lparr>ar_reload_listeners := AList.update event (ls @ [l]) (ar_reload_listeners r)\<rparr>)"

definition listen_off :: "string \<Rightarrow> reload_listener \<Rightarrow> agent_run \<Rightarrow> agent_run" where
  "listen_off event l r = (case map_of (ar_reload_listeners r) event of
       None \<Rightarrow> r
     | Some ls \<Rightarrow> r\<lparr>ar_reload_listeners :=
          AList.update event (filter (\<lambda>item. fst item \<noteq> fst l) ls) (ar_reload_listeners r)\<rparr>)"

fun call_listeners :: "run_event \<Rightarrow> reload_listener list \<Rightarrow> (nat \<times> run_event) list \<times> (exn + unit)" where
  "call_listeners ev [] = ([], Inr ())"
| "call_listeners ev ((i, body) # ls) = (case body ev of
       Some e \<Rightarrow> ([(i, ev)], Inl e)
     | None \<Rightarrow> (let (called, res) = call_listeners ev ls in ((i, ev) # called, res)))"

definition event_name :: "run_event \<Rightarrow> string" where
  "event_name ev = (case ev of
       Policy_Reloaded p n \<Rightarrow> ''policy_reloaded'' | Policy_Reload_Failed e \<Rightarrow> ''policy_reload_failed'')"

definition emit_event :: "run_event \<Rightarrow> agent_run \<Rightarrow> agent_run \<times> (exn + unit)" where
  "emit_event ev r =
     (let ls = (case map_of (ar_reload_listeners r) (event_name ev) of None \<Rightarrow> [] | Some ls \<Rightarrow> ls);
          (called, res) = call_listeners ev ls
      in (r\<lparr>ar_events := ar_events r @ called\<rparr>, res))"

text \<open>The \<open>except Exception\<close> clause, which an error of a \<open>policy_reloaded\<close> listener enters as well.\<close>

definition report_failure :: "exn \<Rightarrow> agent_run \<Rightarrow> agent_run \<times> (exn + reload_result)" where
  "report_failure e r =
     (if is_exception e
      then (case emit_event (Policy_Reload_Failed e) r of
              (r', Inl e') \<Rightarrow> (r', Inl e')
            | (r', Inr _) \<Rightarrow> (r', Inl e))
      else (r, Inl e))"

definition report_success :: "reload_result \<Rightarrow> agent_run \<Rightarrow> agent_run \<times> (exn + reload_result)" where
  "report_success res r =
     (if rr_applied res \<and> str_or (rr_previous_digest res) [] \<noteq> [] \<and> str_or (rr_new_digest res) [] \<noteq> []
      then (case emit_event (Policy_Reloaded (str_or (rr_previous_digest res) []) (str_or (rr_new_digest res) [])) r of
              (r', Inl e) \<Rightarrow> report_failure e r'
            | (r', Inr _) \<Rightarrow> (r', Inr res))
      else (r, Inr res))"

definition reload_policy ::
  "reload_env \<Rightarrow> reload_options \<Rightarrow> rat \<Rightarrow> agent_run awaits \<Rightarrow> agent_run \<Rightarrow>
   (agent_run \<times> (exn + reload_result)) option" where
  "reload_policy env opts started aw r =
     (case reload_policy_on_handle run_handle env opts (Some (bd_allowed_tools (ar_binding r))) started aw r of
        None \<Rightarrow> None
      | Some (r', Inl e) \<Rightarrow> Some (report_failure e r')
      | Some (r', Inr res) \<Rightarrow> Some (report_success res r'))"

definition apply_policy_snapshot_to_run :: "agent_run \<Rightarrow> snapshot \<Rightarrow> agent_run \<times> reload_result" where
  "apply_policy_snapshot_to_run r sn =
     (let previous = run_policy_digest r in
      if previous \<noteq> None \<and> previous \<noteq> Some [] \<and> previous = Some (sn_digest sn)
      then (r, \<lparr>rr_applied = False, rr_previous_digest = previous, rr_new_digest = Some (sn_digest sn),
                rr_unchanged = True\<rparr>)
      else (apply_policy_snapshot sn r,
            \<lparr>rr_applied = True, rr_previous_digest = Some (str_or previous (sn_digest sn)),
             rr_new_digest = Some (sn_digest sn), rr_unchanged = False\<rparr>))"

section \<open>Lemmas\<close>

text \<open>The run, its binding and its registry agree on the policy in force.\<close>

definition run_ok :: "agent_run \<Rightarrow> bool" where
  "run_ok r \<longleftrightarrow>
     bd_policy_snapshot (ar_binding r) = ar_current_snapshot r \<and>
     (case ar_current_snapshot r of None \<Rightarrow> True | Some sn \<Rightarrow> bd_registry (ar_binding r) = sn_registry sn)"

lemma apply_policy_snapshot_simps [simp]:
  "ar_current_snapshot (apply_policy_snapshot sn r) = Some sn"
  "ar_binding (apply_policy_snapshot sn r) = swap_binding sn (ar_binding r)"
  "it_in_flight (ar_interceptor (apply_policy_snapshot sn r)) = it_in_flight (ar_interceptor r)"
  "it_authorized_calls (ar_interceptor (apply_policy_snapshot sn r)) = it_authorized_calls (ar_interceptor r)"
  "ar_policy_file_path (apply_policy_snapshot sn r) = ar_policy_file_path r"
  "ar_approval_tokens (apply_policy_snapshot sn r) = ar_approval_tokens r"
  "ar_reload_listeners (apply_policy_snapshot sn r) = ar_reload_listeners r"
  by (simp_all add: apply_policy_snapshot_def ar_binding_def)

lemma run_ok_apply [simp]: "run_ok (apply_policy_snapshot sn r)"
  by (simp add: run_ok_def)

interpretation agent_runs: policy_reload_handle run_handle "\<lambda>r. True"
  by unfold_locales (simp_all add: run_handle_def run_policy_digest_def)

lemma resolve_attach_binding_ok:
  assumes "resolve_attach_binding tenant a out = Inr (intent, token, allowed)"
  shows "wf_uuid intent" "token \<noteq> []" "allowed \<noteq> []" "token = strip (at_capability_token a)"
    "parse_uuid (strip (at_intent_id a)) = Some intent"
  using assms
  by (auto simp: resolve_attach_binding_def Let_def res_iff intro: parse_uuid_wf split: option.splits)

lemma resolve_sandbox_bootstrap_ok:
  assumes "resolve_sandbox_bootstrap tenant i out = Inr (intent, token, allowed, sandbox)"
  shows "wf_uuid intent" "token \<noteq> []" "allowed = [sx_operation sandbox]" "allowed \<noteq> []"
    "0 \<le> bi_requested_spend_cents i"
proof -
  obtain r where r: "bootstrap_sandbox tenant out = Inr r" "intent = sb_intent_id r"
      "token = sb_capability_token r" "allowed = [sx_operation sandbox]" "0 \<le> bi_requested_spend_cents i"
    using assms by (auto simp: resolve_sandbox_bootstrap_def rbind_Inr_iff not_less split: if_splits)
  show "wf_uuid intent" "token \<noteq> []" "allowed = [sx_operation sandbox]" "allowed \<noteq> []"
    "0 \<le> bi_requested_spend_cents i"
    using bootstrap_sandbox_binding[OF r(1)] r by auto
qed

lemma normalize_production_evidence_ok:
  "normalize_production_evidence raw sandbox = Inr pe \<Longrightarrow> (pe = None) = (sandbox \<noteq> None)"
  by (auto simp: normalize_production_evidence_def split: if_splits option.splits)

lemma resolve_bind_mode_ok:
  assumes "resolve_bind_mode env c = Inr (intent, token, allowed, sandbox, pe)"
  shows "wf_uuid intent" "token \<noteq> []" "allowed \<noteq> []" "(pe = None) = (sandbox \<noteq> None)"
  using assms resolve_attach_binding_ok resolve_sandbox_bootstrap_ok normalize_production_evidence_ok
  by (fastforce simp: resolve_bind_mode_def rbind_Inr_iff split: option.splits)+

lemma new_run_id_ok:
  "new_run_id explicit u = Inr i \<Longrightarrow> i = u \<or> agent_run_id_re i \<and> i \<noteq> ''.'' \<and> i \<noteq> ''..''"
  by (auto simp: new_run_id_def Let_def split: if_splits)

lemma bind_run_Inr:
  assumes "bind_run env c = Inr r"
  obtains given run_id intent token allowed sandbox pe guard ctx where
    "assert_exclusive_bind_mode c = Inr ()" "bc_registry c = Some given"
    "new_run_id (bc_run_id c) (be_uuid4 env) = Inr run_id"
    "resolve_bind_mode env c = Inr (intent, token, allowed, sandbox, pe)"
    "validate_for_bind (case bc_policy_snapshot c of Some s \<Rightarrow> sn_registry s | None \<Rightarrow> given) allowed = Inr ()"
    "make_spend_guard None (Some (be_tenant_id env, be_finalizes env)) (Some intent) (Some token) = Inr guard"
    "resolve_agent_context (be_config_hash env) (be_prompt_hash env) (bc_agent_context c)
       (bc_policy_snapshot c) = Inr ctx"
    "r = \<lparr>ar_interceptor = sy_it (initial
            \<lparr>bd_run_id = run_id, bd_tenant_id = be_tenant_id env, bd_intent_id = intent,
             bd_capability_token = token, bd_guard = guard,
             bd_registry = (case bc_policy_snapshot c of Some s \<Rightarrow> sn_registry s | None \<Rightarrow> given),
             bd_allowed_tools = allowed, bd_sandbox = sandbox, bd_production_evidence = pe,
             bd_policy_snapshot = bc_policy_snapshot c, bd_agent_context = ctx\<rparr>),
          ar_current_snapshot = bc_policy_snapshot c, ar_policy_file_path = trimmed (bc_policy_file c),
          ar_reload_listeners = no_listeners, ar_approval_tokens = [], ar_events = []\<rparr>"
  using assms unfolding bind_run_def rbind_Inr_iff
  by (auto simp: Let_def rbind_Inr_iff split: option.splits)

text \<open>A bound run: one mode, a checked registry, and a guard for its own tenant and intent.\<close>

definition bound_ok :: "agent_run \<Rightarrow> bool" where
  "bound_ok r \<longleftrightarrow>
     (let b = ar_binding r in
      run_ok r \<and> bd_allowed_tools b \<noteq> [] \<and> wf_uuid (bd_intent_id b) \<and>
      sg_tenant_id (bd_guard b) = bd_tenant_id b \<and> sg_intent_id (bd_guard b) = bd_intent_id b \<and>
      sg_capability_token (bd_guard b) = bd_capability_token b \<and> bd_capability_token b \<noteq> [] \<and>
      (bd_sandbox b = None \<longleftrightarrow> bd_production_evidence b \<noteq> None) \<and>
      (rg_default_deny (bd_registry b) \<longrightarrow> set (bd_allowed_tools b) \<subseteq> set (rg_operations (bd_registry b))))"

lemma bind_run_ok:
  assumes "bind_run env c = Inr r"
  shows "bound_ok r" "bd_tenant_id (ar_binding r) = be_tenant_id env"
    "ar_interceptor r = sy_it (initial (ar_binding r))" "ar_current_snapshot r = bc_policy_snapshot c"
  using assms
proof -
  obtain given run_id intent token allowed sandbox pe guard ctx where
    m: "resolve_bind_mode env c = Inr (intent, token, allowed, sandbox, pe)" and
    v: "validate_for_bind (case bc_policy_snapshot c of Some s \<Rightarrow> sn_registry s | None \<Rightarrow> given) allowed = Inr ()" and
    g: "make_spend_guard None (Some (be_tenant_id env, be_finalizes env)) (Some intent) (Some token) = Inr guard" and
    r: "r = \<lparr>ar_interceptor = sy_it (initial
            \<lparr>bd_run_id = run_id, bd_tenant_id = be_tenant_id env, bd_intent_id = intent,
             bd_capability_token = token, bd_guard = guard,
             bd_registry = (case bc_policy_snapshot c of Some s \<Rightarrow> sn_registry s | None \<Rightarrow> given),
             bd_allowed_tools = allowed, bd_sandbox = sandbox, bd_production_evidence = pe,
             bd_policy_snapshot = bc_policy_snapshot c, bd_agent_context = ctx\<rparr>),
          ar_current_snapshot = bc_policy_snapshot c, ar_policy_file_path = trimmed (bc_policy_file c),
          ar_reload_listeners = no_listeners, ar_approval_tokens = [], ar_events = []\<rparr>"
    using assms by (rule bind_run_Inr)
  note ok = resolve_bind_mode_ok[OF m]
  have guard: "sg_tenant_id guard = be_tenant_id env" "sg_intent_id guard = intent"
    "sg_capability_token guard = token"
    using g by (auto simp: make_spend_guard_def)
  show "bound_ok r"
    using ok guard v by (auto simp: bound_ok_def r ar_binding_def initial_def run_ok_def
        validate_for_bind_iff split: option.splits)
  show "bd_tenant_id (ar_binding r) = be_tenant_id env"
    "ar_interceptor r = sy_it (initial (ar_binding r))" "ar_current_snapshot r = bc_policy_snapshot c"
    by (simp_all add: r ar_binding_def initial_def)
qed

lemma approval_token_roundtrip:
  assumes "store_approval_token i t r = Inr r'"
  shows "get_approval_token r' j = (if strip j = strip i then Some (strip t) else get_approval_token r j)"
  using assms by (auto simp: store_approval_token_def get_approval_token_def update_conv' split: if_splits)

end
