(* ===== verification/Run_Policy.thy ===== *)
theory Run_Policy
  imports Agent_Run Sample_Run
begin

text \<open>
  The properties of a run's policy: what a successful bind establishes, what a policy reload may
  change and under which checks, what the merge of an org policy with a tenant overlay guarantees,
  and where the checks stop.  Each property is followed by an instance.
\<close>

section \<open>A run to bind and to reload\<close>

definition sample_attach :: attach_input where
  "sample_attach = \<lparr>at_intent_id = '' 00000000-0000-0000-0000-000000000001'', at_capability_token = ''cap-1 '',
     at_allowed_tools = None,
     at_sandbox = Some \<lparr>sx_operation = ''travel.book'', sx_requested_spend_cents = 500,
                        sx_lifecycle_status = ''funded''\<rparr>,
     at_production_evidence = None\<rparr>"

definition sample_bind_config :: bind_config where
  "sample_bind_config = \<lparr>bc_bootstrap = None, bc_attach = Some sample_attach,
     bc_registry = Some sample_registry, bc_policy_snapshot = None, bc_run_id = Some ''run-1'',
     bc_policy_file = Some ''paybond.policy.yaml'', bc_agent_context = None\<rparr>"

definition sample_bind_env :: bind_env where
  "sample_bind_env = \<lparr>be_tenant_id = ''acme'', be_finalizes = True, be_uuid4 = ''ab'',
     be_config_hash = (\<lambda>p m i. ''00''), be_prompt_hash = (\<lambda>p. ''11''),
     be_intent_out = Inr (ok_json [(''tenant_id'', JStr ''acme''),
       (''allowed_tools'', JArr [JStr ''travel.book''])]),
     be_bootstrap_out = Inl (RuntimeError ''not called'')\<rparr>"

text \<open>A policy file with one tool of at most \<open>cap\<close> cents.\<close>

definition sample_policy :: "int \<Rightarrow> json" where
  "sample_policy cap = JObj
     [(''version'', JInt 1), (''name'', JStr ''travel''), (''default_deny'', JBool True),
      (''tools'', JObj [(''book'', JObj [(''side_effecting'', JBool True),
         (''operation'', JStr ''travel.book''), (''evidence_preset'', JStr ''receipt_ok''),
         (''max_spend_cents'', JInt cap)])])]"

definition sample_reload_env :: "int \<Rightarrow> reload_env" where
  "sample_reload_env cap = \<lparr>re_read_policy = (\<lambda>p. Inr (sample_policy cap)), re_join_path = (\<lambda>a b. b),
     re_catalog = [sample_preset], re_sha256 = (\<lambda>s. if cap = 900 then ''aa'' else ''bb''),
     re_now = ''2026-01-01T00:00:00Z'', re_strict = False,
     re_effective = (\<lambda>i p d. Inl (RuntimeError ''not called'')), re_remote_validate = (\<lambda>d. Inr None)\<rparr>"

definition sample_reload_options :: reload_options where
  "sample_reload_options = \<lparr>ro_file = Some ''paybond.policy.yaml'', ro_remote = False,
     ro_resolve_inheritance = False, ro_allow_loosen = False, ro_gateway = False\<rparr>"

text \<open>A run bound to the policy with a cap of 900 cents.\<close>

definition sample_snapshot :: "int \<Rightarrow> exn + snapshot" where
  "sample_snapshot cap = load_policy_snapshot_from_file (sample_reload_env cap) ''paybond.policy.yaml''"

definition sample_agent_run :: agent_run where
  "sample_agent_run = (case sample_snapshot 900 of
       Inl e \<Rightarrow> \<lparr>ar_interceptor = sample_interceptor, ar_current_snapshot = None, ar_policy_file_path = None,
                  ar_reload_listeners = no_listeners, ar_approval_tokens = [], ar_events = []\<rparr>
     | Inr sn \<Rightarrow> apply_policy_snapshot sn \<lparr>ar_interceptor = sample_interceptor, ar_current_snapshot = None,
                  ar_policy_file_path = None, ar_reload_listeners = no_listeners, ar_approval_tokens = [], ar_events = []\<rparr>)"

text \<open>One call is in flight when the reload starts; it ends during the first sleep.\<close>

definition call_ends :: "agent_run \<Rightarrow> agent_run" where
  "call_ends r = r\<lparr>ar_interceptor := end_in_flight (ar_interceptor r)\<rparr>"

definition busy :: "agent_run \<Rightarrow> agent_run" where
  "busy r = r\<lparr>ar_interceptor := fst (begin_in_flight (ar_interceptor r))\<rparr>"

definition sample_awaits :: "agent_run awaits" where
  "sample_awaits = \<lparr>aw_sleeps = [(1, call_ends)], aw_effective = (\<lambda>r. r), aw_remote = busy\<rparr>"

definition sample_reload :: "int \<Rightarrow> (agent_run \<times> (exn + reload_result)) option" where
  "sample_reload cap =
     reload_policy (sample_reload_env cap) sample_reload_options 0 sample_awaits (busy sample_agent_run)"

definition reload_applies :: "(agent_run \<times> (exn + reload_result)) option \<Rightarrow> bool" where
  "reload_applies out \<longleftrightarrow> (case out of Some (r', Inr res) \<Rightarrow> rr_applied res | _ \<Rightarrow> False)"

definition reload_refused :: "(agent_run \<times> (exn + reload_result)) option \<Rightarrow> string \<Rightarrow> bool" where
  "reload_refused out code \<longleftrightarrow> (case out of Some (r', Inl (ReloadError c m)) \<Rightarrow> c = code | _ \<Rightarrow> False)"

lemma sample_reloads:
  "reload_applies (sample_reload 700)" "reload_refused (sample_reload 1200) ''loosening_denied''"
  "is_inr (sample_snapshot 900)"
  by code_simp+

section \<open>Binding a run\<close>

definition sample_bind_ok :: "exn + agent_run \<Rightarrow> bool" where
  "sample_bind_ok out \<longleftrightarrow> (case out of Inr r \<Rightarrow> bd_allowed_tools (ar_binding r) = [''travel.book''] | _ \<Rightarrow> False)"

text \<open>C8: A run that binds, by bootstrap or by attach, is bound to one intent: its guard carries the
  tenant, intent and capability token of the binding, some operation is allowed, under a denying
  registry every allowed operation is registered, and it has production signing material exactly
  when it is not a sandbox run.\<close>

theorem bind_run_sound:
  assumes "bind_run env c = Inr r"
  shows "bound_ok r \<and> bd_tenant_id (ar_binding r) = be_tenant_id env \<and>
    ar_current_snapshot r = bc_policy_snapshot c \<and> it_in_flight (ar_interceptor r) = 0"
  using bind_run_ok[OF assms] by (simp add: initial_def)

theorem bind_run_sound_witness:
  "\<exists>r. bind_run sample_bind_env sample_bind_config = Inr r \<and> bound_ok r"
proof -
  have "sample_bind_ok (bind_run sample_bind_env sample_bind_config)" by code_simp
  then obtain r where r: "bind_run sample_bind_env sample_bind_config = Inr r"
    by (auto simp: sample_bind_ok_def split: sum.splits)
  from bind_run_sound[OF r] r show ?thesis by blast
qed

section \<open>Reloading the policy of a run\<close>

lemma reload_appliesE:
  assumes "reload_applies out"
  obtains r' res where "out = Some (r', Inr res)" "rr_applied res"
  using assms by (cases out rule: option.exhaust; cases "the out"; cases "snd (the out)")
    (auto simp: reload_applies_def)

lemma reload_refusedE:
  assumes "reload_refused out code"
  obtains r' e where "out = Some (r', Inl e)"
  using assms by (cases out rule: option.exhaust; cases "the out"; cases "snd (the out)")
    (auto simp: reload_refused_def)

text \<open>Only the record of the listeners that were called grows, by calls with one of the given events.\<close>

definition same_run :: "run_event set \<Rightarrow> agent_run \<Rightarrow> agent_run \<Rightarrow> bool" where
  "same_run evs r r' \<longleftrightarrow> (\<exists>called. r' = r\<lparr>ar_events := ar_events r @ called\<rparr> \<and> snd ` set called \<subseteq> evs)"

lemma same_run_refl [simp]: "same_run evs r r"
  unfolding same_run_def by (rule exI[of _ "[]"]) simp

lemma same_run_trans: "same_run evs r r' \<Longrightarrow> same_run evs' r' r'' \<Longrightarrow> same_run (evs \<union> evs') r r''"
  unfolding same_run_def by (elim exE conjE, rule_tac x = "called @ calleda" in exI) auto

lemma same_run_simps:
  assumes "same_run evs r r'"
  shows "ar_interceptor r' = ar_interceptor r" "ar_current_snapshot r' = ar_current_snapshot r"
    "ar_approval_tokens r' = ar_approval_tokens r" "ar_policy_file_path r' = ar_policy_file_path r"
    "ar_reload_listeners r' = ar_reload_listeners r" "ar_binding r' = ar_binding r"
  using assms by (auto simp: same_run_def ar_binding_def)

lemma call_listeners_events: "snd ` set (fst (call_listeners ev ls)) \<subseteq> {ev}"
  by (induction ev ls rule: call_listeners.induct)
    (auto simp: image_subset_iff split: option.splits prod.splits)

lemma call_listeners_raises: "snd (call_listeners ev ls) = Inl e \<Longrightarrow> \<exists>(i, body) \<in> set ls. body ev = Some e"
  by (induction ev ls rule: call_listeners.induct) (auto split: option.splits prod.splits)

lemma emit_event_same: "emit_event ev r = (r', out) \<Longrightarrow> same_run {ev} r r'"
  unfolding same_run_def emit_event_def Let_def case_prod_unfold
  using call_listeners_events[of ev] by (intro exI conjI) auto

text \<open>A listener of this event raised.\<close>

definition listener_raises :: "agent_run \<Rightarrow> run_event \<Rightarrow> bool" where
  "listener_raises r ev \<longleftrightarrow> (case map_of (ar_reload_listeners r) (event_name ev) of
       None \<Rightarrow> False | Some ls \<Rightarrow> list_ex (\<lambda>(i, body). body ev \<noteq> None) ls)"

lemma emit_event_raises: "emit_event ev r = (r', Inl e) \<Longrightarrow> listener_raises r ev"
  using call_listeners_raises
  by (fastforce simp: emit_event_def listener_raises_def list_ex_iff Let_def case_prod_unfold split: option.splits)

lemma report_failure_same:
  assumes "report_failure e r = (r', out)"
  shows "same_run {Policy_Reload_Failed e} r r'" "\<exists>e'. out = Inl e'"
  using assms emit_event_same[of "Policy_Reload_Failed e" r]
  by (auto simp: report_failure_def split: if_splits prod.splits sum.splits)

lemma report_success_cases:
  assumes "report_success res r = (r', out)"
  obtains (reported) "out = Inr res"
      "same_run {Policy_Reloaded (str_or (rr_previous_digest res) []) (str_or (rr_new_digest res) [])} r r'"
  | (raised) e x where "out = Inl e" "rr_applied res"
      "listener_raises r (Policy_Reloaded (str_or (rr_previous_digest res) []) (str_or (rr_new_digest res) []))"
      "same_run {Policy_Reloaded (str_or (rr_previous_digest res) []) (str_or (rr_new_digest res) []),
                 Policy_Reload_Failed x} r r'"
proof (cases "rr_applied res \<and> str_or (rr_previous_digest res) [] \<noteq> [] \<and> str_or (rr_new_digest res) [] \<noteq> []")
  case True
  let ?ev = "Policy_Reloaded (str_or (rr_previous_digest res) []) (str_or (rr_new_digest res) [])"
  obtain r1 o1 where e: "emit_event ?ev r = (r1, o1)" by fastforce
  note same = emit_event_same[OF e]
  show ?thesis
  proof (cases o1)
    case (Inl x)
    then have f: "report_failure x r1 = (r', out)" using assms True e by (simp add: report_success_def)
    obtain e' where "out = Inl e'" using report_failure_same(2)[OF f] by blast
    moreover have "same_run {?ev, Policy_Reload_Failed x} r r'"
      using same_run_trans[OF same report_failure_same(1)[OF f]] by (simp add: insert_commute)
    ultimately show ?thesis using raised emit_event_raises e Inl True by blast
  next
    case (Inr u)
    then show ?thesis using assms True e same reported by (simp add: report_success_def)
  qed
next
  case False
  then have "r' = r" "out = Inr res" using assms unfolding report_success_def if_not_P[OF False] by auto
  then show ?thesis using reported by simp
qed

text \<open>The reload of a run, split where the listeners come in.\<close>

lemma reload_policy_cases:
  assumes "reload_policy env opts started aw r = Some (r', out)"
  obtains (raised) r1 e where "reload_policy_on_handle run_handle env opts (Some (bd_allowed_tools (ar_binding r)))
      started aw r = Some (r1, Inl e)" "report_failure e r1 = (r', out)"
  | (returned) r1 res where "reload_policy_on_handle run_handle env opts (Some (bd_allowed_tools (ar_binding r)))
      started aw r = Some (r1, Inr res)" "report_success res r1 = (r', out)"
  using assms by (auto simp: reload_policy_def split: option.splits sum.splits)

text \<open>C9: A reload that replaces the policy of a run has waited, while other tasks may change the run at
  each await, until its in-flight counter was not positive.  It has then checked the new policy: locally valid, no
  operation outside the tools the run is bound to, and no looser than the policy in force when the checks
  began, unless the caller allowed that.  It changes the run's policy and registry and nothing else, and
  without a gateway, where no await lies between the wait and the swap, no call is in flight at the swap.\<close>

theorem applied_reload_checked:
  assumes "reload_policy env opts started aw r = Some (r', Inr res)" "rr_applied res"
  shows "\<exists>r0 sn. others_run (others_of aw) r r0 \<and> it_in_flight (ar_interceptor r0) \<le> 0 \<and>
    vl_valid (validate_document (re_catalog env) (re_strict env) (sn_document sn)) \<and>
    (bd_allowed_tools (ar_binding r) \<noteq> [] \<longrightarrow>
       \<not> requires_intent_rebind (sn_document sn) (bd_allowed_tools (ar_binding r))) \<and>
    (case ar_current_snapshot (at_check opts aw r0) of
       Some old \<Rightarrow> ro_allow_loosen opts \<or> not_loosened (sn_document old) (sn_document sn)
     | None \<Rightarrow> True) \<and>
    rr_new_digest res = Some (sn_digest sn) \<and> run_ok r' \<and>
    (\<exists>p. same_run {Policy_Reloaded p (sn_digest sn)} (apply_policy_snapshot sn (at_swap opts aw r0)) r') \<and>
    (\<not> ro_gateway opts \<longrightarrow> it_in_flight (ar_interceptor r') \<le> 0)"
  using assms(1)
proof (cases rule: reload_policy_cases)
  case (raised r1 e)
  then show ?thesis using report_failure_same(2) by blast
next
  case (returned r1 res1)
  let ?ev = "Policy_Reloaded (str_or (rr_previous_digest res) []) (str_or (rr_new_digest res) [])"
  from returned(2) have res: "res1 = res" and same: "same_run {?ev} r1 r'"
    by (cases rule: report_success_cases; simp)+
  have h: "reload_policy_on_handle run_handle env opts (Some (bd_allowed_tools (ar_binding r)))
      started aw r = Some (r1, Inr res)" using returned(1) res by simp
  obtain r0 sn where o: "others_run (others_of aw) r r0" "it_in_flight (ar_interceptor r0) \<le> 0" and
    c: "check_next_snapshot env opts (map_option sn_document (ar_current_snapshot (at_check opts aw r0))) sn
          (bd_allowed_tools (ar_binding r)) = Inr ()" and
    r1: "r1 = apply_policy_snapshot sn (at_swap opts aw r0)" and d: "rr_new_digest res = Some (sn_digest sn)"
    by (rule agent_runs.reload_applied[OF TrueI TrueI h assms(2)]) (simp add: run_handle_def bound_allowed_tools_def)
  note ok = check_next_snapshot_Inr[OF c]
  have old: "case ar_current_snapshot (at_check opts aw r0) of
       Some old \<Rightarrow> ro_allow_loosen opts \<or> not_loosened (sn_document old) (sn_document sn) | None \<Rightarrow> True"
    using ok(3) by (auto split: option.splits)
  have "same_run {Policy_Reloaded (str_or (rr_previous_digest res) []) (str_or (rr_new_digest res) [])}
      (apply_policy_snapshot sn (at_swap opts aw r0)) r'" using same by (simp add: r1)
  moreover have "run_ok r'" using same_run_simps[OF same] by (simp add: r1 run_ok_def)
  moreover have "\<not> ro_gateway opts \<longrightarrow> it_in_flight (ar_interceptor r') \<le> 0"
    using same_run_simps(1)[OF same] o(2) by (simp add: r1)
  moreover have "str_or (rr_new_digest res) [] = sn_digest sn" using d by (simp add: str_or_def)
  ultimately show ?thesis using o ok(1,2) old d by (intro exI[of _ r0] exI[of _ sn]) auto
qed

theorem applied_reload_checked_witness:
  "\<exists>r' res r0 sn. sample_reload 700 = Some (r', Inr res) \<and>
     others_run (others_of sample_awaits) (busy sample_agent_run) r0 \<and> it_in_flight (ar_interceptor r0) \<le> 0 \<and>
     (\<exists>p. same_run {Policy_Reloaded p (sn_digest sn)} (apply_policy_snapshot sn r0) r')"
proof -
  have "reload_applies (sample_reload 700)" by (rule sample_reloads)
  then obtain r' res where s: "sample_reload 700 = Some (r', Inr res)" "rr_applied res"
    by (rule reload_appliesE)
  have g: "\<not> ro_gateway sample_reload_options" by (simp add: sample_reload_options_def)
  from applied_reload_checked[OF s(1)[unfolded sample_reload_def] s(2)] s(1) show ?thesis
    unfolding at_swap_no_gateway(2)[OF g] by blast
qed

text \<open>With a gateway the wait does not cover the requests: a call that starts during the remote validation
  is in flight when the policy is swapped under it.\<close>

definition remote_reload_options :: reload_options where
  "remote_reload_options = sample_reload_options\<lparr>ro_remote := True, ro_gateway := True\<rparr>"

lemma swapped_under_a_call:
  "case reload_policy (sample_reload_env 700) remote_reload_options 0 sample_awaits (busy sample_agent_run) of
     Some (r', Inr res) \<Rightarrow> rr_applied res \<and> it_in_flight (ar_interceptor r') = 1
   | _ \<Rightarrow> False"
  by code_simp

text \<open>C10: A reload that raises leaves the run to the other tasks: the same policy, registry, approval
  tokens, listeners and interceptor as they left it, and only the listeners of the failure have been called.  The
  one exception is a listener of \<open>policy_reloaded\<close> that raises: the error then comes after the swap, and
  the new policy stays in force although the reload is reported as failed.\<close>

theorem failed_reload_keeps_run:
  assumes "reload_policy env opts started aw r = Some (r', Inl e)"
  shows "\<exists>r1. others_run (others_of aw) r r1 \<and>
    ((\<exists>x. same_run {Policy_Reload_Failed x} r1 r') \<or>
     (\<exists>sn p x. listener_raises r1 (Policy_Reloaded p (sn_digest sn)) \<and>
        same_run {Policy_Reloaded p (sn_digest sn), Policy_Reload_Failed x} (apply_policy_snapshot sn r1) r'))"
  using assms
proof (cases rule: reload_policy_cases)
  case (raised r1 x)
  have "others_run (others_of aw) r r1" using reload_keeps[OF raised(1)] by simp
  then show ?thesis using report_failure_same(1)[OF raised(2)] by blast
next
  case (returned r1 res)
  from returned(2) show ?thesis
  proof (cases rule: report_success_cases)
    case (raised e1 x)
    obtain r0 sn where o: "others_run (others_of aw) r r0" and
      r1: "r1 = apply_policy_snapshot sn (at_swap opts aw r0)" and d: "rr_new_digest res = Some (sn_digest sn)"
      by (rule agent_runs.reload_applied[OF TrueI TrueI returned(1) raised(2)]) (simp add: run_handle_def)
    have n: "str_or (rr_new_digest res) [] = sn_digest sn" using d by (simp add: str_or_def)
    have "listener_raises (at_swap opts aw r0) (Policy_Reloaded (str_or (rr_previous_digest res) []) (sn_digest sn))"
      using raised(3) n by (simp add: listener_raises_def r1)
    then show ?thesis
      using raised(4) others_run_trans[OF at_swap_others o] unfolding r1 n by blast
  qed simp
qed

theorem failed_reload_keeps_run_witness:
  "\<exists>r' e r1 x. sample_reload 1200 = Some (r', Inl e) \<and>
     others_run (others_of sample_awaits) (busy sample_agent_run) r1 \<and> same_run {Policy_Reload_Failed x} r1 r'"
proof -
  obtain r' e where s: "sample_reload 1200 = Some (r', Inl e)"
    using sample_reloads(2) by (rule reload_refusedE)
  have quiet: "\<not> listener_raises r1 ev" if "others_run (others_of sample_awaits) (busy sample_agent_run) r1" for r1 ev
  proof -
    have "ar_reload_listeners r1 = no_listeners"
      using that
      by (rule others_run_keeps)
        (auto simp: others_of_def sample_awaits_def call_ends_def busy_def sample_agent_run_def split: sum.split)
    then show ?thesis by (simp add: listener_raises_def no_listeners_def event_name_def split: run_event.split)
  qed
  from failed_reload_keeps_run[OF s[unfolded sample_reload_def]] s quiet show ?thesis by blast
qed

text \<open>A listener that raises, and the policy it was told of in force.\<close>

lemma failed_after_swap:
  "case reload_policy (sample_reload_env 700) sample_reload_options 0 sample_awaits
      (listen_on ''policy_reloaded'' (0, \<lambda>_. Some (HostError ''boom'')) (busy sample_agent_run)) of
     Some (r', Inl (HostError m)) \<Rightarrow> map_option sn_digest (ar_current_snapshot r') = Some ''sha256:bb''
   | _ \<Rightarrow> False"
  by code_simp

section \<open>What a reload check does not see\<close>

text \<open>C11: The check for loosening compares only the tools of the new policy: a policy that drops
  side-effecting tools passes it, and in a policy that does not deny by default the dropped tool is
  then called without any authorization.\<close>

theorem dropped_tool_unguarded:
  assumes "wf_dict (d1_tools d)" "\<not> keep n" "\<not> d1_default_deny d"
    and "policy_to_tool_registry cat (d\<lparr>d1_tools := filter (\<lambda>(m, e). keep m) (d1_tools d)\<rparr>) = Inr rg"
  shows "detect_policy_loosening d (d\<lparr>d1_tools := filter (\<lambda>(m, e). keep m) (d1_tools d)\<rparr>) = [] \<and>
    resolve_tool rg n (Some allowed) = Passthrough n"
proof
  let ?kept = "filter (\<lambda>(m, e). keep m) (d1_tools d)"
  show "detect_policy_loosening d (d\<lparr>d1_tools := ?kept\<rparr>) = []"
  proof -
    have "map_of (d1_tools d) m = Some e" if "(m, e) \<in> set ?kept" for m e
      using assms(1) that by (auto simp: wf_dict_def)
    then show ?thesis
      unfolding detect_policy_loosening_Nil not_loosened_def list_all_iff by (fastforce split: option.splits)
  qed
  let ?cfg = "policy_document_to_tool_registry_config (d\<lparr>d1_tools := ?kept\<rparr>)"
  have "create_tool_registry cat ?cfg = Inr rg" using assms(4) by (simp add: policy_to_tool_registry_def)
  moreover have ks: "keys (rc_side_effecting ?cfg) = keys (filter (\<lambda>(m, e). pt_side_effecting e) ?kept)"
    by (simp add: policy_document_to_tool_registry_config_def comp_def case_prod_unfold)
  moreover have "wf_dict (filter (\<lambda>(m, e). pt_side_effecting e) ?kept)"
    using assms(1) by (intro wf_dict_filter)
  ultimately have k: "keys (rg_side_effecting rg) = keys (rc_side_effecting ?cfg)"
      and dd: "rg_default_deny rg = rc_default_deny ?cfg"
    using create_tool_registry_ok[of cat ?cfg rg] by (auto simp: wf_dict_def)
  have "n \<notin> set (keys (rg_side_effecting rg))" using assms(2) unfolding k ks by auto
  then have "map_of (rg_side_effecting rg) n = None" unfolding map_of_eq_None_iff by simp
  moreover have "\<not> rg_default_deny rg"
    using assms(3) dd by (simp add: policy_document_to_tool_registry_config_def)
  ultimately show "resolve_tool rg n (Some allowed) = Passthrough n"
    by (simp add: resolve_tool_passthrough)
qed

definition sample_document :: document_v1 where
  "sample_document = \<lparr>d1_name = ''travel'', d1_default_deny = False,
     d1_tools = [(''book'', \<lparr>pt_side_effecting = True, pt_max_spend_cents = Some 900, pt_spend_from_args = None,
                   pt_evidence_preset = Some ''receipt_ok'', pt_vendor_pack = None, pt_operation = None\<rparr>)],
     d1_intent = None, d1_adapter = None\<rparr>"

theorem dropped_tool_unguarded_witness:
  "resolve_tool \<lparr>rg_default_deny = False, rg_side_effecting = [], rg_operations = []\<rparr> ''book'' (Some [''book'']) =
     Passthrough ''book'' \<and>
   detect_policy_loosening sample_document (sample_document\<lparr>d1_tools := []\<rparr>) = []"
  using dropped_tool_unguarded[of sample_document "\<lambda>m. m \<noteq> ''book''" "''book''" "[sample_preset]"
      "\<lparr>rg_default_deny = False, rg_side_effecting = [], rg_operations = []\<rparr>" "[''book'']"]
  by (simp add: sample_document_def wf_dict_def policy_to_tool_registry_def create_tool_registry_def
      policy_document_to_tool_registry_config_def)

section \<open>Merging policies\<close>

text \<open>The budget of an intent section, and the maximum of the org base kept or lowered.\<close>

definition budget_of :: "intent_section option \<Rightarrow> budget" where
  "budget_of i = opt_dict (Option.bind i is_budget)"

definition budget_within :: "document_v1 \<Rightarrow> document_v1 \<Rightarrow> bool" where
  "budget_within base eff \<longleftrightarrow> (case budget_max (budget_of (d1_intent base)) of
       None \<Rightarrow> True
     | Some q \<Rightarrow> (case budget_max (budget_of (d1_intent eff)) of None \<Rightarrow> False | Some q' \<Rightarrow> q' \<le> q))"

text \<open>The budgets of the merge are as the parser admits them.\<close>

definition budgets_wf :: "document_v1 \<Rightarrow> document_v2 \<Rightarrow> bool" where
  "budgets_wf base overlay \<longleftrightarrow>
     budget_wf (budget_of (d1_intent base)) \<and> budget_wf (budget_of (d2_intent overlay)) \<and>
     budget_wf (opt_dict (Option.bind (override_intent overlay) io_budget))"

text \<open>The overlay sets a maximum behind an override of the budget that sets none.\<close>

definition overlay_cap_hidden :: "document_v2 \<Rightarrow> bool" where
  "overlay_cap_hidden overlay \<longleftrightarrow>
     hides_overlay_cap (Option.bind (d2_intent overlay) is_budget) (Option.bind (override_intent overlay) io_budget)"

lemma merge_intent_budget:
  assumes m: "merge_intent base overlay lg = (r, lg')" and d: "ml_denied lg' = []"
    and wf: "budget_wf (budget_of base)" "budget_wf (budget_of (d2_intent overlay))"
      "budget_wf (opt_dict (Option.bind (override_intent overlay) io_budget))"
    and vis: "\<not> overlay_cap_hidden overlay" and cap: "budget_max (budget_of base) = Some q"
  shows "\<exists>q'. budget_max (budget_of r) = Some q' \<and> q' \<le> q"
proof (cases "d2_intent overlay = None \<and> override_intent overlay = None")
  case True
  then have "budget_of r = budget_of base"
    using m by (auto simp: merge_intent_def budget_of_def Let_def split: option.splits prod.splits)
  then show ?thesis using cap by simp
next
  case False
  obtain al l1 where s1: "intersect_allowed_tools (map_option is_allowed_tools base)
      (tenant_allowed_tools overlay) lg = (al, l1)" by fastforce
  obtain pb l2 where s2: "merge_policy_binding (Option.bind base is_policy_binding)
      (Option.bind (d2_intent overlay) is_policy_binding)
      (Option.bind (override_intent overlay) io_policy_binding) l1 = (pb, l2)" by fastforce
  obtain bu l3 where s3: "merge_budget (Option.bind base is_budget)
      (Option.bind (d2_intent overlay) is_budget)
      (Option.bind (override_intent overlay) io_budget) l2 = (bu, l3)" by fastforce
  have l3: "lg' = l3" using m False by (simp add: merge_intent_def s1 s2 s3 Let_def split: if_splits)
  obtain q' where q': "budget_max (opt_dict bu) = Some q'" "q' \<le> q"
    using merge_budget_within[OF s3] d wf vis cap by (auto simp: l3 budget_of_def overlay_cap_hidden_def)
  then have "bu \<noteq> None" by (auto simp: opt_dict_def budget_max_def split: option.splits)
  then have "budget_of r = opt_dict bu"
    using m False by (auto simp: merge_intent_def s1 s2 s3 Let_def budget_of_def)
  then show ?thesis using q' by simp
qed

text \<open>C12: A merge that succeeds yields a policy within the org base: default deny stays on, every
  tool of the base is still there, still side-effecting and with no higher cap, the allowed tools
  are a non-empty subset, the template binding is no older, and tenant tools are only appended.  The
  maximum of the intent's budget, when the budgets are as the parser admits them, is kept or lowered too, unless the
  overlay sets a maximum of its own behind an override of the budget that sets none: that one
  maximum is not compared with the org's (\<open>hidden_overlay_cap_wins\<close>).\<close>

theorem merge_never_widens:
  assumes "merge_paybond_policies base overlay approved = Inr r"
  shows "policy_within (base_document_to_effective_v1 base) (mg_effective r) \<and>
    keys (d1_tools (mg_effective r)) = keys (d1_tools (base_document_to_effective_v1 base)) @ keys (d2_tools overlay) \<and>
    (budgets_wf (base_document_to_effective_v1 base) overlay \<and> \<not> overlay_cap_hidden overlay \<longrightarrow>
       budget_within (base_document_to_effective_v1 base) (mg_effective r))"
proof -
  let ?base = "base_document_to_effective_v1 base"
  obtain x dd l1 tools l2 i l3 a l4 where
    s3: "merge_intent (d1_intent ?base) overlay l2 = (i, l3)" and
    s4: "merge_adapter_section (d1_adapter ?base) (d2_adapter overlay)
       (Option.bind (d2_overrides overlay) ov_adapter) l3 = (a, l4)" and
    s5: "ml_denied (check_presets approved (d1_tools ?base) tools l4) = []" and
    e: "mg_effective r = \<lparr>d1_name = d2_name overlay, d1_default_deny = dd, d1_tools = tools,
                       d1_intent = i, d1_adapter = a\<rparr>"
    using assms by (rule merge_paybond_policies_cases)
  have d: "ml_denied l3 = []"
    using merge_adapter_section_ok[OF s4 conjunct1[OF check_presets_ok[OF s5]]] by simp
  have "budget_within ?base (mg_effective r)" if "budgets_wf ?base overlay" "\<not> overlay_cap_hidden overlay"
    using merge_intent_budget[OF s3 d] that
    by (auto simp: budget_within_def budgets_wf_def e split: option.splits)
  then show ?thesis using merge_paybond_policies_within[OF assms] by blast
qed

definition sample_overlay :: "int option \<Rightarrow> document_v2" where
  "sample_overlay cap = \<lparr>d2_name = ''tenant'', d2_default_deny = False,
     d2_tools = [(''read'', \<lparr>pt_side_effecting = False, pt_max_spend_cents = None, pt_spend_from_args = None,
                   pt_evidence_preset = None, pt_vendor_pack = None, pt_operation = None\<rparr>)],
     d2_extends = Some \<lparr>px_org_policy_id = ''base'', px_org_id = ''org-1'', px_base_digest = None, px_base_policy = None\<rparr>,
     d2_overrides = Some \<lparr>ov_default_deny = Some True,
       ov_tools = Some [(''book'', \<lparr>po_side_effecting = None, po_max_spend_cents = cap, po_spend_from_args = None,
                   po_evidence_preset = None, po_vendor_pack = None, po_operation = None\<rparr>)],
       ov_intent = None, ov_adapter = None\<rparr>,
     d2_intent = None, d2_adapter = None\<rparr>"

text \<open>The org caps the budget at 100, the tenant asks for 40.\<close>

definition capped_intent :: "int \<Rightarrow> intent_section" where
  "capped_intent usd = \<lparr>is_policy_binding = None,
     is_budget = Some [(''currency'', JStr ''usd''), (''max_spend_usd'', JInt usd)], is_allowed_tools = []\<rparr>"

definition capped_document :: document_v1 where
  "capped_document = sample_document\<lparr>d1_intent := Some (capped_intent 100)\<rparr>"

definition capped_overlay :: "int option \<Rightarrow> int \<Rightarrow> document_v2" where
  "capped_overlay cap usd = (sample_overlay cap)\<lparr>d2_intent := Some (capped_intent usd)\<rparr>"

lemma capped_merges:
  "is_inr (merge_paybond_policies (Doc_V1 capped_document) (capped_overlay (Some 500) 40) None)"
  "\<not> is_inr (merge_paybond_policies (Doc_V1 capped_document) (capped_overlay (Some 500) 140) None)"
  "\<not> is_inr (merge_paybond_policies (Doc_V1 capped_document) (capped_overlay (Some 1500) 40) None)"
  "budgets_wf capped_document (capped_overlay (Some 500) 40)"
  "\<not> overlay_cap_hidden (capped_overlay (Some 500) 40)"
  by code_simp+

theorem merge_never_widens_witness:
  "\<exists>r. merge_paybond_policies (Doc_V1 capped_document) (capped_overlay (Some 500) 40) None = Inr r \<and>
     policy_within capped_document (mg_effective r) \<and> budget_within capped_document (mg_effective r)"
proof -
  obtain r where r: "merge_paybond_policies (Doc_V1 capped_document) (capped_overlay (Some 500) 40) None = Inr r"
    using capped_merges(1) by (auto simp: is_inr_def split: sum.splits)
  from merge_never_widens[OF r] capped_merges(4,5) r show ?thesis by simp
qed

text \<open>A merged budget keeps a maximum, not above the org's, unless a tenant override without a
  maximum of its own stands before an overlay with one.\<close>

theorem merge_budget_capped:
  assumes "merge_budget base overlay override lg = (r, lg')" "ml_denied lg' = []"
    and "budget_wf (opt_dict base)" "budget_wf (opt_dict overlay)" "budget_wf (opt_dict override)"
    and "budget_max (opt_dict base) = Some q" "\<not> hides_overlay_cap overlay override"
  shows "\<exists>q'. budget_max (opt_dict r) = Some q' \<and> q' \<le> q"
  using assms by (rule merge_budget_within)

theorem merge_budget_capped_witness:
  "\<exists>q'. budget_max (opt_dict (fst (merge_budget (Some [(''max_spend_usd'', JInt 100)])
       (Some [(''max_spend_usd'', JInt 40)]) None \<lparr>ml_denied = [], ml_applied = []\<rparr>))) = Some q' \<and> q' \<le> 100"
  by (rule merge_budget_capped[OF surjective_pairing])
    (simp_all add: merge_budget_def dict_update_def opt_dict_def budget_max_def tenant_budget_def budget_wf_def
      wf_dict_def json_number_def hides_overlay_cap_def applied_def)

text \<open>In that remaining case the tenant's maximum replaces the org's, however high, and nothing
  is denied.\<close>

theorem hidden_overlay_cap_wins:
  assumes "currency \<noteq> ''max_spend_usd''"
  shows "\<exists>merged. merge_budget (Some base) (Some [(''max_spend_usd'', JInt tenant_max)]) (Some [(currency, v)]) lg =
      (Some merged, lg) \<and> budget_max merged = Some (of_int tenant_max)"
proof -
  let ?m = "dict_update (dict_update (dict_update [] base) [(''max_spend_usd'', JInt tenant_max)]) [(currency, v)]"
  have look: "map_of ?m ''max_spend_usd'' = Some (JInt tenant_max)"
    using assms by (simp add: dict_update_lookup)
  then have "?m \<noteq> []" by auto
  then show ?thesis
    using look assms
    by (auto simp: merge_budget_def Let_def opt_dict_def budget_max_def tenant_budget_def json_number_def
        split: option.splits)
qed

theorem hidden_overlay_cap_wins_witness:
  "\<exists>merged. merge_budget (Some [(''max_spend_usd'', JInt 100)]) (Some [(''max_spend_usd'', JInt 100000)])
      (Some [(''currency'', JStr ''usd'')]) \<lparr>ml_denied = [], ml_applied = []\<rparr> =
      (Some merged, \<lparr>ml_denied = [], ml_applied = []\<rparr>) \<and> budget_max merged = Some (of_int 100000)"
  by (rule hidden_overlay_cap_wins) simp

end
