(* ===== verification/Mcp_Scopes.thy ===== *)
theory Mcp_Scopes
  imports Kit_Errors
begin

text \<open>
  \<open>mcp_scope_catalog.py\<close>: the catalog of MCP scopes, the parsing of a restricted key's grant,
  and the decision whether a grant covers a tool.  The tables are the module's constants.
\<close>

section \<open>Levels and scopes\<close>

datatype scope_level = Read | Write

fun level_rank :: "scope_level \<Rightarrow> int" where
  "level_rank Read = 0"
| "level_rank Write = 1"

instantiation scope_level :: linorder
begin

definition less_eq_scope_level :: "scope_level \<Rightarrow> scope_level \<Rightarrow> bool" where
  "less_eq_scope_level a b \<longleftrightarrow> level_rank a \<le> level_rank b"

definition less_scope_level :: "scope_level \<Rightarrow> scope_level \<Rightarrow> bool" where
  "less_scope_level a b \<longleftrightarrow> level_rank a < level_rank b"

instance
proof
  fix a b c :: scope_level
  show "(a < b) = (a \<le> b \<and> \<not> b \<le> a)" by (auto simp: less_eq_scope_level_def less_scope_level_def)
  show "a \<le> a" by (simp add: less_eq_scope_level_def)
  show "a \<le> b \<Longrightarrow> b \<le> c \<Longrightarrow> a \<le> c" by (simp add: less_eq_scope_level_def)
  show "a \<le> b \<Longrightarrow> b \<le> a \<Longrightarrow> a = b" by (cases a; cases b) (simp_all add: less_eq_scope_level_def)
  show "a \<le> b \<or> b \<le> a" by (auto simp: less_eq_scope_level_def)
qed

end

text \<open>A granted or required scope: its id and level.\<close>

type_synonym mcp_scope = "string \<times> scope_level"

record scope_definition =
  sd_id :: string
  sd_title :: string
  sd_max_level :: scope_level
  sd_description :: string

record scope_preset =
  sp_id :: string
  sp_title :: string
  sp_description :: string
  sp_scopes :: "mcp_scope list"

section \<open>The catalog\<close>

definition MCP_SCOPE_DEFINITIONS :: "scope_definition list" where
  "MCP_SCOPE_DEFINITIONS =
     [\<lparr>sd_id = ''mcp.discovery'', sd_title = ''Discovery'', sd_max_level = Read,
        sd_description = ''Principal identity, Harbor intent reads, and side-effect-free spend policy dry-runs.''\<rparr>,
      \<lparr>sd_id = ''mcp.signal'', sd_title = ''Signal standing'', sd_max_level = Read,
        sd_description = ''Reputation receipts, portfolio artifacts, and fraud review reads.''\<rparr>,
      \<lparr>sd_id = ''mcp.compliance'', sd_title = ''Compliance exports'', sd_max_level = Read,
        sd_description = ''Audit export listing and retrieval.''\<rparr>,
      \<lparr>sd_id = ''mcp.a2a'', sd_title = ''A2A and mandates'', sd_max_level = Write,
        sd_description = ''Agent card, task contracts, and mandate verification (read); mandate import (write).''\<rparr>,
      \<lparr>sd_id = ''mcp.receipts'', sd_title = ''Receipts'', sd_max_level = Read,
        sd_description = ''Settlement, protocol, and agent receipt retrieval plus verification.''\<rparr>,
      \<lparr>sd_id = ''mcp.evidence'', sd_title = ''Completion evidence'', sd_max_level = Write,
        sd_description = ''Local evidence validation (read); Harbor completion evidence submission (write).''\<rparr>,
      \<lparr>sd_id = ''mcp.spend'', sd_title = ''Spend authorization'', sd_max_level = Write,
        sd_description = ''Intent creation, capability verification, and agent spend authorization.''\<rparr>,
      \<lparr>sd_id = ''mcp.settlement'', sd_title = ''Settlement (live money)'', sd_max_level = Write,
        sd_description = ''Funding intents and confirming settlement. Never included in a preset; must be chosen explicitly.''\<rparr>,
      \<lparr>sd_id = ''mcp.sandbox'', sd_title = ''Sandbox guardrails'', sd_max_level = Write,
        sd_description = ''Sandbox guardrail bootstrap and sandbox guardrail evidence.''\<rparr>]"

definition MCP_TOOL_SCOPES :: "(string, mcp_scope) dict" where
  "MCP_TOOL_SCOPES =
     [(''paybond_get_principal'', (''mcp.discovery'', Read)),
      (''paybond_list_intents'', (''mcp.discovery'', Read)),
      (''paybond_get_intent'', (''mcp.discovery'', Read)),
      (''paybond_explain_policy'', (''mcp.discovery'', Read)),
      (''paybond_get_budget_remaining'', (''mcp.discovery'', Read)),
      (''paybond_get_reputation_receipt'', (''mcp.signal'', Read)),
      (''paybond_get_portfolio_summary'', (''mcp.signal'', Read)),
      (''paybond_get_signed_portfolio_artifact'', (''mcp.signal'', Read)),
      (''paybond_get_fraud_assessment'', (''mcp.signal'', Read)),
      (''paybond_get_fraud_metrics'', (''mcp.signal'', Read)),
      (''paybond_list_audit_exports'', (''mcp.compliance'', Read)),
      (''paybond_get_audit_export'', (''mcp.compliance'', Read)),
      (''paybond_get_a2a_agent_card'', (''mcp.a2a'', Read)),
      (''paybond_list_a2a_task_contracts'', (''mcp.a2a'', Read)),
      (''paybond_get_a2a_task_contract'', (''mcp.a2a'', Read)),
      (''paybond_verify_agent_mandate_v1'', (''mcp.a2a'', Read)),
      (''paybond_verify_agent_recognition_proof_v1'', (''mcp.a2a'', Read)),
      (''paybond_import_agent_mandate_v1'', (''mcp.a2a'', Write)),
      (''paybond_get_settlement_receipt_v1'', (''mcp.receipts'', Read)),
      (''paybond_get_agent_receipt_v1'', (''mcp.receipts'', Read)),
      (''paybond_verify_agent_receipt_v1'', (''mcp.receipts'', Read)),
      (''paybond_verify_protocol_receipt_v1'', (''mcp.receipts'', Read)),
      (''paybond_validate_completion_evidence'', (''mcp.evidence'', Read)),
      (''paybond_submit_evidence'', (''mcp.evidence'', Write)),
      (''paybond_submit_spend_evidence'', (''mcp.evidence'', Write)),
      (''paybond_create_intent'', (''mcp.spend'', Write)),
      (''paybond_create_spend_intent'', (''mcp.spend'', Write)),
      (''paybond_authorize_agent_spend'', (''mcp.spend'', Write)),
      (''paybond_verify_capability'', (''mcp.spend'', Write)),
      (''paybond_fund_intent'', (''mcp.settlement'', Write)),
      (''paybond_confirm_settlement'', (''mcp.settlement'', Write)),
      (''paybond_bootstrap_sandbox_guardrail'', (''mcp.sandbox'', Write)),
      (''paybond_submit_sandbox_guardrail_evidence'', (''mcp.sandbox'', Write))]"

definition MCP_RESOURCE_SCOPES :: "(string, mcp_scope) dict" where
  "MCP_RESOURCE_SCOPES = [(''paybond-agent-receipt'', (''mcp.receipts'', Read))]"

text \<open>Method, pattern, scope and level of the gateway routes.\<close>

definition MCP_SCOPE_ROUTES :: "(string \<times> string \<times> string \<times> scope_level) list" where
  "MCP_SCOPE_ROUTES =
     [(''GET'', ''/v1/auth/principal'', ''mcp.discovery'', Read),
      (''GET'', ''/harbor/operator/v1/intents'', ''mcp.discovery'', Read),
      (''GET'', ''/harbor/operator/v1/intents/{intent_id}'', ''mcp.discovery'', Read),
      (''POST'', ''/v1/spend/preflight'', ''mcp.discovery'', Read),
      (''GET'', ''/reputation/{operator_did}'', ''mcp.signal'', Read),
      (''GET'', ''/signal/v1/portfolio/summary'', ''mcp.signal'', Read),
      (''GET'', ''/signal/v1/portfolio/signed-export'', ''mcp.signal'', Read),
      (''GET'', ''/signal/v1/operators/{operator_did}/review-status'', ''mcp.signal'', Read),
      (''GET'', ''/signal/v1/fraud/metrics'', ''mcp.signal'', Read),
      (''GET'', ''/v1/compliance/audit-exports'', ''mcp.compliance'', Read),
      (''GET'', ''/v1/compliance/audit-exports/{job_id}'', ''mcp.compliance'', Read),
      (''GET'', ''/.well-known/agent-card.json'', ''mcp.a2a'', Read),
      (''GET'', ''/protocol/v2/a2a/task-contracts'', ''mcp.a2a'', Read),
      (''GET'', ''/protocol/v2/a2a/task-contracts/{contract_id}'', ''mcp.a2a'', Read),
      (''POST'', ''/protocol/v2/mandates/verify'', ''mcp.a2a'', Read),
      (''POST'', ''/protocol/v2/recognition/verify'', ''mcp.a2a'', Read),
      (''POST'', ''/protocol/v2/mandates'', ''mcp.a2a'', Write),
      (''GET'', ''/protocol/v2/receipts/{receipt_id}'', ''mcp.receipts'', Read),
      (''POST'', ''/protocol/v2/receipts/verify'', ''mcp.receipts'', Read),
      (''GET'', ''/protocol/v2/agent-receipts'', ''mcp.receipts'', Read),
      (''GET'', ''/protocol/v2/agent-receipts/{receipt_id}'', ''mcp.receipts'', Read),
      (''POST'', ''/protocol/v2/agent-receipts/verify'', ''mcp.receipts'', Read),
      (''POST'', ''/harbor/intents/{intent_id}/evidence'', ''mcp.evidence'', Write),
      (''POST'', ''/verify'', ''mcp.spend'', Write),
      (''POST'', ''/harbor/intents'', ''mcp.spend'', Write),
      (''POST'', ''/harbor/intents/{intent_id}/fund'', ''mcp.settlement'', Write),
      (''POST'', ''/harbor/intents/{intent_id}/settlement/confirm'', ''mcp.settlement'', Write),
      (''POST'', ''/v1/sandbox/guardrails/bootstrap'', ''mcp.sandbox'', Write),
      (''POST'', ''/v1/sandbox/guardrails/{intent_id}/evidence'', ''mcp.sandbox'', Write)]"

definition MCP_SCOPE_PRESETS :: "scope_preset list" where
  "MCP_SCOPE_PRESETS =
     [\<lparr>sp_id = ''mcp-readonly'', sp_title = ''MCP Readonly Discovery'',
        sp_description = ''Identity, Harbor intent reads, Signal standing, compliance exports, and receipts. No writes.'',
        sp_scopes = [(''mcp.discovery'', Read), (''mcp.signal'', Read), (''mcp.compliance'', Read), (''mcp.receipts'', Read)]\<rparr>,
      \<lparr>sp_id = ''mcp-spend-operator'', sp_title = ''MCP Spend Operator'',
        sp_description = ''Readonly discovery plus intent creation, spend authorization, and completion evidence. No settlement.'',
        sp_scopes = [(''mcp.discovery'', Read), (''mcp.signal'', Read), (''mcp.compliance'', Read), (''mcp.receipts'', Read), (''mcp.spend'', Write), (''mcp.evidence'', Write)]\<rparr>,
      \<lparr>sp_id = ''mcp-sandbox-agent'', sp_title = ''MCP Sandbox Agent'',
        sp_description = ''Sandbox guardrail bootstrap and evidence plus the discovery and spend authorization path.'',
        sp_scopes = [(''mcp.discovery'', Read), (''mcp.sandbox'', Write), (''mcp.spend'', Write)]\<rparr>]"

section \<open>Lookups\<close>

definition scope_definition_by_id :: "string \<Rightarrow> scope_definition option" where
  "scope_definition_by_id i = map_of (List.map (\<lambda>d. (sd_id d, d)) MCP_SCOPE_DEFINITIONS) i"

definition normalize_level :: "json \<Rightarrow> scope_level option" where
  "normalize_level raw = (case raw of
       JStr s \<Rightarrow> (let v = lower (strip s)
                 in if v = ''read'' then Some Read else if v = ''write'' then Some Write else None)
     | _ \<Rightarrow> None)"

fun level_text :: "scope_level \<Rightarrow> string" where
  "level_text Read = ''read''"
| "level_text Write = ''write''"

definition format_mcp_scope :: "mcp_scope \<Rightarrow> string" where
  "format_mcp_scope s = fst s @ '':'' @ level_text (snd s)"

definition mcp_scope_definition :: "string \<Rightarrow> scope_definition option" where
  "mcp_scope_definition i = scope_definition_by_id (strip i)"

definition tools_for_mcp_scope :: "string \<Rightarrow> string list" where
  "tools_for_mcp_scope i = sort (List.map fst (filter (\<lambda>(n, r). fst r = strip i) MCP_TOOL_SCOPES))"

section \<open>Parsing a grant\<close>

text \<open>An entry of the wire list, or a scope value that is normalized again.\<close>

datatype grant_entry = Wire json | Scope mcp_scope

definition entry_parts :: "grant_entry \<Rightarrow> string option \<times> scope_level option" where
  "entry_parts e = (case e of
       Wire (JStr s) \<Rightarrow>
         (Some (strip (takeWhile (\<lambda>c. c \<noteq> CHR '':'') s)),
          normalize_level (JStr (drop 1 (dropWhile (\<lambda>c. c \<noteq> CHR '':'') s))))
     | Wire (JObj d) \<Rightarrow>
         (map_option strip (Option.bind (map_of d ''scope'') as_str),
          Option.bind (map_of d ''level'') normalize_level)
     | Wire _ \<Rightarrow> (None, None)
     | Scope s \<Rightarrow> (Some (strip (fst s)), Some (snd s)))"

text \<open>The entry counts when it names a scope of the catalog and a level.\<close>

definition entry_scope :: "grant_entry \<Rightarrow> mcp_scope option" where
  "entry_scope e = (case entry_parts e of
       (Some i, Some l) \<Rightarrow>
         if i = [] \<or> scope_definition_by_id i = None then None else Some (i, l)
     | _ \<Rightarrow> None)"

definition add_scope :: "grant_entry \<Rightarrow> (string, scope_level) dict \<Rightarrow> (string, scope_level) dict" where
  "add_scope e by_scope = (case entry_scope e of
       None \<Rightarrow> by_scope
     | Some (i, l) \<Rightarrow>
         (case map_of by_scope i of
            None \<Rightarrow> AList.update i l by_scope
          | Some existing \<Rightarrow> if l > existing then AList.update i l by_scope else by_scope))"

definition parse_entries :: "grant_entry list \<Rightarrow> mcp_scope list" where
  "parse_entries es =
     (let by_scope = fold add_scope es []
      in List.map (\<lambda>d. (sd_id d, the (map_of by_scope (sd_id d))))
           (filter (\<lambda>d. map_of by_scope (sd_id d) \<noteq> None) MCP_SCOPE_DEFINITIONS))"

definition parse_mcp_scopes :: "json \<Rightarrow> mcp_scope list" where
  "parse_mcp_scopes raw = (case raw of JArr es \<Rightarrow> parse_entries (List.map Wire es) | _ \<Rightarrow> [])"

definition normalize_mcp_scopes :: "mcp_scope list \<Rightarrow> mcp_scope list" where
  "normalize_mcp_scopes scopes = parse_entries (List.map Scope scopes)"

text \<open>\<open>value.rfind(":")\<close>, with -1 when there is none.\<close>

definition py_rfind :: "char \<Rightarrow> string \<Rightarrow> int" where
  "py_rfind c s = (if c \<in> set s then int (length s) - 1 - int (length (takeWhile (\<lambda>x. x \<noteq> c) (rev s))) else -1)"

definition parse_mcp_scope_token :: "string \<Rightarrow> exn + mcp_scope" where
  "parse_mcp_scope_token raw =
     (let v = strip raw; sep = py_rfind (CHR '':'') v in
      if v = [] then Inl (ValueError ''invalid MCP scope (expected <scope-id>:read|write)'')
      else if sep \<le> 0 \<or> sep = int (length v) - 1
      then Inl (ValueError (''invalid MCP scope '' @ v @
             '' (expected <scope-id>:read|write, e.g. mcp.spend:write)''))
      else
        (let i = strip (take (nat sep) v) in
         case normalize_level (JStr (drop (nat sep + 1) v)) of
           None \<Rightarrow> Inl (ValueError (''invalid MCP scope level in '' @ v @ '' (expected read or write)''))
         | Some l \<Rightarrow>
             (case scope_definition_by_id i of
                None \<Rightarrow> Inl (ValueError (''unknown MCP scope '' @ i @ '' (expected one of '' @
                          py_join '', '' (List.map sd_id MCP_SCOPE_DEFINITIONS) @ '')''))
              | Some d \<Rightarrow>
                  if l > sd_max_level d
                  then Inl (ValueError (''MCP scope '' @ i @ '' supports at most level '' @
                         level_text (sd_max_level d) @ ''; got '' @ level_text l))
                  else Inr (sd_id d, l))))"

section \<open>Decisions\<close>

definition scope_satisfies :: "mcp_scope list \<Rightarrow> mcp_scope \<Rightarrow> bool" where
  "scope_satisfies granted required =
     list_ex (\<lambda>e. fst e = fst required \<and> level_rank (snd e) \<ge> level_rank (snd required)) granted"

definition required_scope_for_tool :: "string \<Rightarrow> mcp_scope option" where
  "required_scope_for_tool n = map_of MCP_TOOL_SCOPES (strip n)"

definition required_scope_for_resource :: "string \<Rightarrow> mcp_scope option" where
  "required_scope_for_resource n = map_of MCP_RESOURCE_SCOPES (strip n)"

definition tool_allowed_by_scope :: "string \<Rightarrow> mcp_scope list \<Rightarrow> bool" where
  "tool_allowed_by_scope n granted = (case required_scope_for_tool n of
       None \<Rightarrow> False
     | Some required \<Rightarrow> scope_satisfies granted required)"

definition mcp_scope_preset :: "string \<Rightarrow> scope_preset option" where
  "mcp_scope_preset i = map_of (List.map (\<lambda>p. (sp_id p, p)) MCP_SCOPE_PRESETS) (strip i)"

definition preset_scopes :: "string \<Rightarrow> mcp_scope list option" where
  "preset_scopes i = map_option sp_scopes (mcp_scope_preset i)"

datatype key_kind = Standard | Restricted | Unknown

definition classify_paybond_api_key :: "string \<Rightarrow> key_kind" where
  "classify_paybond_api_key api_key =
     (let v = strip api_key in
      if startswith v ''paybond_rk_'' then Restricted
      else if startswith v ''paybond_oat_'' then Restricted
      else if startswith v ''paybond_sk_'' then Standard
      else Unknown)"

definition is_restricted_paybond_api_key :: "string \<Rightarrow> bool" where
  "is_restricted_paybond_api_key api_key \<longleftrightarrow> classify_paybond_api_key api_key = Restricted"

section \<open>Lemmas\<close>

lemma level_le [simp]: "level_rank a \<le> level_rank b \<longleftrightarrow> a \<le> b" "level_rank a < level_rank b \<longleftrightarrow> a < b"
  by (simp_all add: less_eq_scope_level_def less_scope_level_def)

lemma Read_le [simp]: "Read \<le> l"
  by (cases l) (simp_all add: less_eq_scope_level_def)

lemma le_Write [simp]: "l \<le> Write"
  by (cases l) (simp_all add: less_eq_scope_level_def)

text \<open>The levels of the catalog's ids are distinct keys, and stripping leaves them alone.\<close>

lemma definitions_distinct: "distinct (List.map sd_id MCP_SCOPE_DEFINITIONS)"
  by code_simp

lemma definitions_stripped: "list_all (\<lambda>d. strip (sd_id d) = sd_id d \<and> sd_id d \<noteq> []) MCP_SCOPE_DEFINITIONS"
  by code_simp

lemma scope_definition_by_id_Some:
  "scope_definition_by_id i = Some d \<longleftrightarrow> d \<in> set MCP_SCOPE_DEFINITIONS \<and> sd_id d = i"
proof -
  have "distinct (List.map fst (List.map (\<lambda>d. (sd_id d, d)) MCP_SCOPE_DEFINITIONS))"
    using definitions_distinct by (simp add: comp_def)
  then show ?thesis
    by (auto simp: scope_definition_by_id_def simp del: map_map)
qed

lemma scope_definition_by_id_None:
  "scope_definition_by_id i = None \<longleftrightarrow> (\<forall>d \<in> set MCP_SCOPE_DEFINITIONS. sd_id d \<noteq> i)"
  using scope_definition_by_id_Some[of i] by (cases "scope_definition_by_id i") auto

text \<open>The loop keeps for each scope the highest level of its entries.\<close>

lemma add_scope_level:
  "(\<exists>l'. map_of (add_scope e d) i = Some l' \<and> l \<le> l') \<longleftrightarrow>
     (\<exists>l'. map_of d i = Some l' \<and> l \<le> l') \<or> (\<exists>l'. entry_scope e = Some (i, l') \<and> l \<le> l')"
proof (cases "entry_scope e")
  case None
  then show ?thesis by (simp add: add_scope_def)
next
  case (Some p)
  obtain j m where p: "p = (j, m)" by (cases p)
  show ?thesis
    by (cases "map_of d j") (auto simp: add_scope_def Some p update_conv' not_less intro: order_trans)
qed

lemma fold_add_scope_level:
  "(\<exists>l'. map_of (fold add_scope es d) i = Some l' \<and> l \<le> l') \<longleftrightarrow>
     (\<exists>l'. map_of d i = Some l' \<and> l \<le> l') \<or> (\<exists>e \<in> set es. \<exists>l'. entry_scope e = Some (i, l') \<and> l \<le> l')"
proof (induction es arbitrary: d)
  case (Cons e es)
  then show ?case by (simp add: add_scope_level)
qed simp

lemma entry_scope_known: "entry_scope e = Some (i, l) \<Longrightarrow> i \<in> sd_id ` set MCP_SCOPE_DEFINITIONS"
  by (auto simp: entry_scope_def scope_definition_by_id_Some split: prod.splits option.splits if_splits)

lemma set_parse_entries:
  "(i, l) \<in> set (parse_entries es) \<longleftrightarrow> map_of (fold add_scope es []) i = Some l"
proof -
  have "i \<in> sd_id ` set MCP_SCOPE_DEFINITIONS" if "map_of (fold add_scope es []) i = Some l"
  proof -
    from that fold_add_scope_level[of es "[]" i l] obtain e l' where "e \<in> set es" "entry_scope e = Some (i, l')"
      by auto
    then show ?thesis by (blast dest: entry_scope_known)
  qed
  moreover have "(i, l) \<in> set (parse_entries es) \<longleftrightarrow>
      (\<exists>d \<in> set MCP_SCOPE_DEFINITIONS. sd_id d = i \<and> map_of (fold add_scope es []) i = Some l)"
    by (auto simp: parse_entries_def Let_def)
  ultimately show ?thesis by auto
qed

text \<open>What a parsed grant covers: exactly what one of its entries covers.\<close>

lemma parse_entries_satisfies:
  "scope_satisfies (parse_entries es) (i, l) \<longleftrightarrow>
     (\<exists>e \<in> set es. \<exists>l'. entry_scope e = Some (i, l') \<and> l \<le> l')"
proof -
  have "scope_satisfies (parse_entries es) (i, l) \<longleftrightarrow>
        (\<exists>l'. map_of (fold add_scope es []) i = Some l' \<and> l \<le> l')"
    unfolding scope_satisfies_def list_ex_iff using set_parse_entries[of i _ es] by force
  then show ?thesis by (simp add: fold_add_scope_level)
qed

text \<open>Its normal form: catalog order, each scope at most once.\<close>

lemma keys_parse_entries:
  "List.map fst (parse_entries es) =
     filter (\<lambda>i. map_of (fold add_scope es []) i \<noteq> None) (List.map sd_id MCP_SCOPE_DEFINITIONS)"
  by (simp add: parse_entries_def Let_def filter_map comp_def)

lemma wf_parse_entries: "wf_dict (parse_entries es)"
  unfolding wf_dict_def keys_parse_entries using definitions_distinct by (rule distinct_filter)

lemma map_of_parse_entries: "map_of (parse_entries es) i = map_of (fold add_scope es []) i"
proof (cases "map_of (fold add_scope es []) i")
  case None
  then show ?thesis by (metis map_of_SomeD not_Some_eq set_parse_entries)
next
  case (Some l)
  then have "(i, l) \<in> set (parse_entries es)" by (simp add: set_parse_entries)
  with wf_parse_entries[of es] Some show ?thesis by (simp add: wf_dict_def)
qed

text \<open>Normalizing a parsed grant changes nothing.\<close>

lemma option_level_eqI:
  fixes a b :: "scope_level option"
  assumes "\<And>l. (\<exists>l'. a = Some l' \<and> l \<le> l') \<longleftrightarrow> (\<exists>l'. b = Some l' \<and> l \<le> l')"
  shows "a = b"
proof (cases a)
  case None
  then show ?thesis using assms by (cases b) auto
next
  case (Some x)
  moreover obtain y where "b = Some y" "x \<le> y" using assms[of x] Some by auto
  moreover have "y \<le> x" using assms[of y] Some \<open>b = Some y\<close> by auto
  ultimately show ?thesis by simp
qed

lemma entry_scope_Scope:
  assumes "i \<in> sd_id ` set MCP_SCOPE_DEFINITIONS"
  shows "entry_scope (Scope (i, l)) = Some (i, l)"
proof -
  have "strip i = i" "i \<noteq> []" using assms definitions_stripped by (auto simp: list_all_iff)
  moreover have "scope_definition_by_id i \<noteq> None" using assms by (auto simp: scope_definition_by_id_None)
  ultimately show ?thesis by (simp add: entry_scope_def entry_parts_def)
qed

lemma parse_entries_known: "(i, l) \<in> set (parse_entries es) \<Longrightarrow> i \<in> sd_id ` set MCP_SCOPE_DEFINITIONS"
  by (auto simp: parse_entries_def Let_def)

lemma parse_entries_cong:
  "(\<And>i. map_of (fold add_scope es []) i = map_of (fold add_scope es' []) i) \<Longrightarrow>
     parse_entries es = parse_entries es'"
  by (simp add: parse_entries_def Let_def)

lemma normalize_parse_entries: "normalize_mcp_scopes (parse_entries es) = parse_entries es"
  unfolding normalize_mcp_scopes_def
proof (rule parse_entries_cong, rule option_level_eqI)
  fix i l
  have "(\<exists>e \<in> set (List.map Scope (parse_entries es)). \<exists>l'. entry_scope e = Some (i, l') \<and> l \<le> l') \<longleftrightarrow>
        (\<exists>l'. (i, l') \<in> set (parse_entries es) \<and> l \<le> l')"
    using parse_entries_known entry_scope_Scope by fastforce
  then show "(\<exists>l'. map_of (fold add_scope (List.map Scope (parse_entries es)) []) i = Some l' \<and> l \<le> l') \<longleftrightarrow>
      (\<exists>l'. map_of (fold add_scope es []) i = Some l' \<and> l \<le> l')"
    by (simp add: fold_add_scope_level set_parse_entries)
qed

section \<open>Tokens\<close>

lemma definitions_no_colon: "list_all (\<lambda>d. CHR '':'' \<notin> set (sd_id d) \<and> \<not> py_space (hd (sd_id d))) MCP_SCOPE_DEFINITIONS"
  by code_simp

lemma py_rfind_last:
  assumes "CHR '':'' \<notin> set t"
  shows "py_rfind (CHR '':'') (i @ CHR '':'' # t) = int (length i)"
proof -
  have "takeWhile (\<lambda>x. x \<noteq> CHR '':'') (rev t @ CHR '':'' # rev i) = rev t"
    using assms by (subst takeWhile_append2) auto
  then show ?thesis by (simp add: py_rfind_def)
qed

lemma level_text_facts:
  "CHR '':'' \<notin> set (level_text l)" "level_text l \<noteq> []" "\<not> py_space (last (level_text l))"
  by (cases l; simp add: py_space_def)+

lemma normalize_level_text: "normalize_level (JStr (level_text l)) = Some l"
  by (induction l) code_simp+

lemma token_roundtrip:
  assumes "d \<in> set MCP_SCOPE_DEFINITIONS" "l \<le> sd_max_level d"
  shows "parse_mcp_scope_token (format_mcp_scope (sd_id d, l)) = Inr (sd_id d, l)"
proof -
  let ?t = "sd_id d @ CHR '':'' # level_text l"
  have d: "sd_id d \<noteq> []" "strip (sd_id d) = sd_id d" "\<not> py_space (hd (sd_id d))"
    using assms(1) definitions_stripped definitions_no_colon by (auto simp: list_all_iff)
  have fmt: "format_mcp_scope (sd_id d, l) = ?t" by (simp add: format_mcp_scope_def)
  have "strip ?t = ?t"
    by (rule strip_fix) (use d level_text_facts(2,3)[of l] in \<open>simp add: hd_append\<close>)
  moreover have "scope_definition_by_id (sd_id d) = Some d"
    using assms(1) by (simp add: scope_definition_by_id_Some)
  ultimately show ?thesis
    using d assms(2) level_text_facts[of l] normalize_level_text[of l]
    by (simp add: parse_mcp_scope_token_def fmt py_rfind_last Let_def not_less)
qed

section \<open>The catalog is consistent\<close>

definition within_catalog :: "mcp_scope \<Rightarrow> bool" where
  "within_catalog s \<longleftrightarrow> (case scope_definition_by_id (fst s) of
       None \<Rightarrow> False | Some d \<Rightarrow> snd s \<le> sd_max_level d)"

lemma catalog_consistent:
  "list_all (\<lambda>(n, s). within_catalog s) MCP_TOOL_SCOPES"
  "list_all (\<lambda>(n, s). within_catalog s) MCP_RESOURCE_SCOPES"
  "list_all (\<lambda>(m, p, i, l). within_catalog (i, l)) MCP_SCOPE_ROUTES"
  "list_all (\<lambda>p. list_all within_catalog (sp_scopes p)) MCP_SCOPE_PRESETS"
  by code_simp+

lemma tool_scopes_distinct: "distinct (keys MCP_TOOL_SCOPES)"
  by code_simp

end
