(* ===== verification/Mcp_Policy.thy ===== *)
theory Mcp_Policy
  imports Mcp_Scopes Policy_Snapshot
begin

text \<open>
  \<open>mcp_policy.py\<close>: the tool policy of an MCP server (readonly, spend-write or an allow list),
  and the annotations \<open>mcp_server.py\<close> gives its tools.  Together with the scopes of a
  restricted key (theory \<open>Mcp_Scopes\<close>) they decide which tools a host sees.
\<close>

section \<open>Configuration\<close>

record tool_policy_config =
  tm_policy :: "string option"
  tm_allowlist :: "string list"

definition empty_tool_policy :: tool_policy_config where
  "empty_tool_policy = \<lparr>tm_policy = None, tm_allowlist = []\<rparr>"

definition default_mcp_tool_policy_config :: tool_policy_config where
  "default_mcp_tool_policy_config = \<lparr>tm_policy = Some ''spend-write'', tm_allowlist = []\<rparr>"

definition resolve_mcp_tool_policy :: "tool_policy_config \<Rightarrow> tool_policy_config" where
  "resolve_mcp_tool_policy c = (if tm_policy c \<noteq> None then c else default_mcp_tool_policy_config)"

definition parse_mcp_tool_policy :: "string option \<Rightarrow> exn + tool_policy_config" where
  "parse_mcp_tool_policy raw =
     (let v = lower (strip (str_or raw [])) in
      if v = [] then Inr empty_tool_policy
      else if v \<in> set [''readonly'', ''spend-write'', ''allowlist'']
      then Inr \<lparr>tm_policy = Some v, tm_allowlist = []\<rparr>
      else Inl (ValueError ''invalid --tool-policy (expected readonly|spend-write|allowlist)''))"

definition parse_mcp_tool_allowlist :: "string option \<Rightarrow> exn + string list" where
  "parse_mcp_tool_allowlist raw =
     (case raw of
        None \<Rightarrow> Inr []
      | Some r \<Rightarrow>
          if strip r = [] then Inr []
          else
            (let items = List.map strip (filter (\<lambda>p. strip p \<noteq> []) (py_split (CHR '','') r))
             in if items = []
                then Inl (ValueError ''invalid --tool-allowlist (expected comma-separated tool names)'')
                else Inr items))"

definition merge_mcp_tool_policy ::
  "tool_policy_config \<Rightarrow> string list option \<Rightarrow> exn + tool_policy_config" where
  "merge_mcp_tool_policy c allowlist =
     (let merged = (case allowlist of Some a \<Rightarrow> a | None \<Rightarrow> tm_allowlist c) in
      if tm_policy c = Some ''allowlist'' \<and> merged = []
      then Inl (ValueError ''--tool-allowlist is required when --tool-policy allowlist'')
      else if tm_policy c \<noteq> Some ''allowlist'' \<and> merged \<noteq> []
      then Inl (ValueError ''--tool-allowlist is only valid with --tool-policy allowlist'')
      else Inr \<lparr>tm_policy = tm_policy c, tm_allowlist = merged\<rparr>)"

definition mcp_tool_policy_env :: "tool_policy_config \<Rightarrow> (string, string) dict" where
  "mcp_tool_policy_env c =
     (let resolved = resolve_mcp_tool_policy c
      in (''PAYBOND_MCP_TOOL_POLICY'', str_or (tm_policy resolved) ''spend-write'') #
         (if tm_policy resolved = Some ''allowlist''
          then [(''PAYBOND_MCP_TOOL_ALLOWLIST'', py_join '','' (tm_allowlist resolved))] else []))"

text \<open>What \<open>PaybondMCPSettings.from_env\<close> makes of the two variables.\<close>

definition tool_policy_of_env :: "(string, string) dict \<Rightarrow> exn + tool_policy_config" where
  "tool_policy_of_env env =
     (let raw = (\<lambda>k. or_none (strip (str_or (map_of env k) []))) in
      rbind (parse_mcp_tool_policy (raw ''PAYBOND_MCP_TOOL_POLICY'')) (\<lambda>c.
      rbind (parse_mcp_tool_allowlist (raw ''PAYBOND_MCP_TOOL_ALLOWLIST'')) (\<lambda>a.
      rbind (merge_mcp_tool_policy c (if a = [] then None else Some a)) (\<lambda>c.
      Inr (resolve_mcp_tool_policy c)))))"

section \<open>Annotations and decisions\<close>

text \<open>An object with the two hints (None when absent), a dictionary, or neither.\<close>

datatype annotations =
    No_Annotations
  | Hints "bool option" "bool option"  \<comment> \<open>readOnlyHint, destructiveHint\<close>
  | Hint_Dict "(string, json) dict"

definition tool_annotations_flags :: "annotations \<Rightarrow> bool \<times> bool" where
  "tool_annotations_flags a = (case a of
       No_Annotations \<Rightarrow> (False, False)
     | Hints r d \<Rightarrow> (r = Some True, d = Some True)
     | Hint_Dict m \<Rightarrow> (truthy (case map_of m ''readOnlyHint'' of Some v \<Rightarrow> v | None \<Rightarrow> JBool False),
                     truthy (case map_of m ''destructiveHint'' of Some v \<Rightarrow> v | None \<Rightarrow> JBool False)))"

definition LIVE_MONEY_TOOL_NAMES :: "string list" where
  "LIVE_MONEY_TOOL_NAMES = [''paybond_fund_intent'', ''paybond_confirm_settlement'']"

definition is_live_money_tool :: "string \<Rightarrow> annotations \<Rightarrow> bool" where
  "is_live_money_tool n a \<longleftrightarrow> snd (tool_annotations_flags a) \<or> n \<in> set LIVE_MONEY_TOOL_NAMES"

definition tool_allowed_by_policy :: "string \<Rightarrow> annotations \<Rightarrow> tool_policy_config \<Rightarrow> bool" where
  "tool_allowed_by_policy n a c0 \<longleftrightarrow>
     (let c = resolve_mcp_tool_policy c0 in
      if tm_policy c = Some ''readonly'' then fst (tool_annotations_flags a)
      else if tm_policy c = Some ''spend-write'' then \<not> is_live_money_tool n a
      else if tm_policy c = Some ''allowlist'' then n \<in> set (tm_allowlist c)
      else True)"

definition is_nonblank_str :: "json option \<Rightarrow> bool" where
  "is_nonblank_str j \<longleftrightarrow> (case j of Some (JStr s) \<Rightarrow> strip s \<noteq> [] | _ \<Rightarrow> False)"

definition absent_or_object :: "json option \<Rightarrow> bool" where
  "absent_or_object j \<longleftrightarrow> (case j of None \<Rightarrow> True | Some JNull \<Rightarrow> True | Some v \<Rightarrow> is_obj v)"

definition validate_mcp_tool_schema :: "(string, json) dict \<Rightarrow> string list" where
  "validate_mcp_tool_schema tool =
     (let label = json_text (json_or (case map_of tool ''name'' of Some v \<Rightarrow> v | None \<Rightarrow> JNull) (JStr ''<unknown>''))
      in (if is_nonblank_str (map_of tool ''name'') then [] else [''tool missing non-empty name''])
       @ (if is_nonblank_str (map_of tool ''description'') then [] else [label @ '': missing description''])
       @ (case map_of tool ''inputSchema'' of
            Some (JObj d) \<Rightarrow> if map_of d ''type'' \<noteq> Some (JStr ''object'')
                           then [label @ '': inputSchema.type must be object''] else []
          | _ \<Rightarrow> [label @ '': inputSchema must be an object''])
       @ (if absent_or_object (map_of tool ''outputSchema'') then []
          else [label @ '': outputSchema must be an object when present''])
       @ (if absent_or_object (map_of tool ''annotations'') then []
          else [label @ '': annotations must be an object when present'']))"

section \<open>The annotations of the server's tools\<close>

definition read_only :: annotations where
  "read_only = Hints (Some True) None"

definition additive_mutation :: annotations where
  "additive_mutation = Hints (Some False) (Some False)"

definition live_mutation :: annotations where
  "live_mutation = Hints (Some False) (Some True)"

definition MCP_TOOL_ANNOTATIONS :: "(string, annotations) dict" where
  "MCP_TOOL_ANNOTATIONS =
     [(''paybond_get_principal'', read_only),
      (''paybond_verify_capability'', additive_mutation),
      (''paybond_authorize_agent_spend'', additive_mutation),
      (''paybond_get_budget_remaining'', read_only),
      (''paybond_explain_policy'', read_only),
      (''paybond_bootstrap_sandbox_guardrail'', additive_mutation),
      (''paybond_validate_completion_evidence'', read_only),
      (''paybond_submit_sandbox_guardrail_evidence'', additive_mutation),
      (''paybond_list_intents'', read_only),
      (''paybond_get_intent'', read_only),
      (''paybond_list_audit_exports'', read_only),
      (''paybond_get_audit_export'', read_only),
      (''paybond_get_reputation_receipt'', read_only),
      (''paybond_get_portfolio_summary'', read_only),
      (''paybond_get_signed_portfolio_artifact'', read_only),
      (''paybond_get_fraud_assessment'', read_only),
      (''paybond_get_fraud_metrics'', read_only),
      (''paybond_get_a2a_agent_card'', read_only),
      (''paybond_list_a2a_task_contracts'', read_only),
      (''paybond_get_a2a_task_contract'', read_only),
      (''paybond_verify_agent_mandate_v1'', read_only),
      (''paybond_verify_agent_recognition_proof_v1'', read_only),
      (''paybond_import_agent_mandate_v1'', additive_mutation),
      (''paybond_get_settlement_receipt_v1'', read_only),
      (''paybond_get_agent_receipt_v1'', read_only),
      (''paybond_verify_agent_receipt_v1'', read_only),
      (''paybond_verify_protocol_receipt_v1'', read_only),
      (''paybond_create_intent'', additive_mutation),
      (''paybond_create_spend_intent'', additive_mutation),
      (''paybond_fund_intent'', live_mutation),
      (''paybond_submit_evidence'', additive_mutation),
      (''paybond_submit_spend_evidence'', additive_mutation),
      (''paybond_confirm_settlement'', live_mutation)]"

text \<open>The tools the server registers under a policy.\<close>

definition registered_tools :: "tool_policy_config \<Rightarrow> string list" where
  "registered_tools c =
     List.map fst (filter (\<lambda>(n, a). tool_allowed_by_policy n a (resolve_mcp_tool_policy c)) MCP_TOOL_ANNOTATIONS)"

section \<open>Lemmas\<close>

lemma resolve_idem [simp]: "resolve_mcp_tool_policy (resolve_mcp_tool_policy c) = resolve_mcp_tool_policy c"
  by (simp add: resolve_mcp_tool_policy_def default_mcp_tool_policy_config_def)

lemma merge_mcp_tool_policy_iff:
  "(tm_policy c' = Some ''allowlist'') = (tm_allowlist c' \<noteq> [])"
  if "merge_mcp_tool_policy c a = Inr c'"
  using that by (auto simp: merge_mcp_tool_policy_def Let_def split: if_splits)

lemma tool_policy_of_env_cases:
  assumes "tool_policy_of_env env = Inr c"
  shows "tm_policy c \<in> Some ` set [''readonly'', ''spend-write'', ''allowlist'']"
    and "tm_policy c = Some ''allowlist'' \<longleftrightarrow> tm_allowlist c \<noteq> []"
proof -
  obtain c1 a c2 where c1: "parse_mcp_tool_policy (or_none (strip (str_or (map_of env ''PAYBOND_MCP_TOOL_POLICY'') []))) = Inr c1"
    and c2: "merge_mcp_tool_policy c1 a = Inr c2" and c: "c = resolve_mcp_tool_policy c2"
    using assms by (auto simp: tool_policy_of_env_def Let_def rbind_Inr_iff)
  have p1: "tm_policy c1 = None \<or> tm_policy c1 \<in> Some ` set [''readonly'', ''spend-write'', ''allowlist'']"
    using c1 by (auto simp: parse_mcp_tool_policy_def Let_def empty_tool_policy_def split: if_splits)
  have p2: "tm_policy c2 = tm_policy c1"
    using c2 by (auto simp: merge_mcp_tool_policy_def Let_def split: if_splits)
  show "tm_policy c \<in> Some ` set [''readonly'', ''spend-write'', ''allowlist'']"
    using p1 p2 by (auto simp: c resolve_mcp_tool_policy_def default_mcp_tool_policy_config_def)
  show "tm_policy c = Some ''allowlist'' \<longleftrightarrow> tm_allowlist c \<noteq> []"
    using merge_mcp_tool_policy_iff[OF c2]
    by (auto simp: c resolve_mcp_tool_policy_def default_mcp_tool_policy_config_def)
qed

text \<open>The annotations agree with the scope catalog, and live money is what settles.\<close>

lemma annotations_match_scopes:
  "set (keys MCP_TOOL_ANNOTATIONS) = set (keys MCP_TOOL_SCOPES)"
  "list_all (\<lambda>(n, a). (fst (tool_annotations_flags a)) =
      (map_option snd (required_scope_for_tool n) = Some Read)) MCP_TOOL_ANNOTATIONS"
  "list_all (\<lambda>(n, a). is_live_money_tool n a =
      (map_option fst (required_scope_for_tool n) = Some ''mcp.settlement'')) MCP_TOOL_ANNOTATIONS"
proof -
  have "list_all (\<lambda>n. map_of MCP_TOOL_SCOPES n \<noteq> None) (keys MCP_TOOL_ANNOTATIONS) \<and>
        list_all (\<lambda>n. map_of MCP_TOOL_ANNOTATIONS n \<noteq> None) (keys MCP_TOOL_SCOPES)"
    by code_simp
  then show "set (keys MCP_TOOL_ANNOTATIONS) = set (keys MCP_TOOL_SCOPES)"
    by (force simp: list_all_iff map_of_eq_None_iff)
qed code_simp+

end
