(* ===== verification/Mcp_Token_Cache.thy ===== *)
theory Mcp_Token_Cache
  imports Ttl_Cache Harbor_Client
begin

text \<open>
  \<open>mcp_capability_token_cache.py\<close>: the bounded cache of capability tokens of an MCP runtime,
  keyed by intent id.  The ordered dictionary is the association list, oldest use first; its
  size limit evicts from the front.
\<close>

section \<open>Configuration\<close>

record token_cache_config =
  tg_ttl_sec :: rat
  tg_max_entries :: int

definition default_token_cache_config :: token_cache_config where
  "default_token_cache_config = \<lparr>tg_ttl_sec = 900, tg_max_entries = 64\<rparr>"

definition token_store_tools :: "string list" where
  "token_store_tools = [''paybond_bootstrap_sandbox_guardrail'', ''paybond_create_intent'',
                        ''paybond_create_spend_intent'', ''paybond_fund_intent'']"

definition mcp_tool_stores_capability_token :: "string \<Rightarrow> bool" where
  "mcp_tool_stores_capability_token n \<longleftrightarrow> strip n \<in> set token_store_tools"

text \<open>
  \<open>parse_mcp_capability_token_cache_config\<close>: \<open>env or os.environ\<close> means that an empty mapping
  falls back to the process environment \<open>environ\<close>.
\<close>

definition env_strip :: "(string, string) dict \<Rightarrow> string \<Rightarrow> string" where
  "env_strip values k = strip (case map_of values k of None \<Rightarrow> [] | Some v \<Rightarrow> v)"

definition parse_mcp_capability_token_cache_config ::
  "(string, string) dict \<Rightarrow> (string, string) dict \<Rightarrow> exn + token_cache_config" where
  "parse_mcp_capability_token_cache_config environ env =
     (let values = (if env = [] then environ else env);
          ttl_raw = env_strip values ''PAYBOND_MCP_CAPABILITY_TOKEN_TTL_SEC'';
          max_raw = env_strip values ''PAYBOND_MCP_CAPABILITY_TOKEN_CACHE_MAX''
      in rbind
        (if ttl_raw = [] then Inr (tg_ttl_sec default_token_cache_config)
         else (case py_float ttl_raw of
             None \<Rightarrow> Inl (ValueError
               ''invalid PAYBOND_MCP_CAPABILITY_TOKEN_TTL_SEC (expected a number of seconds)'')
           | Some t \<Rightarrow> if \<not> (60 \<le> t \<and> t \<le> 86400) then Inl (ValueError
               ''invalid PAYBOND_MCP_CAPABILITY_TOKEN_TTL_SEC (expected 60-86400 seconds)'')
             else Inr t))
        (\<lambda>ttl_sec. rbind
          (if max_raw = [] then Inr (tg_max_entries default_token_cache_config)
           else (case py_int_str max_raw of
               None \<Rightarrow> Inl (ValueError
                 ''invalid PAYBOND_MCP_CAPABILITY_TOKEN_CACHE_MAX (expected an integer)'')
             | Some m \<Rightarrow> if \<not> (1 \<le> m \<and> m \<le> 512) then Inl (ValueError
                 ''invalid PAYBOND_MCP_CAPABILITY_TOKEN_CACHE_MAX (expected 1-512)'')
               else Inr m))
          (\<lambda>max_entries. Inr \<lparr>tg_ttl_sec = ttl_sec, tg_max_entries = max_entries\<rparr>)))"

lemma parse_token_cache_config_bounds:
  assumes "parse_mcp_capability_token_cache_config environ env = Inr c"
  shows "60 \<le> tg_ttl_sec c" "tg_ttl_sec c \<le> 86400" "1 \<le> tg_max_entries c" "tg_max_entries c \<le> 512"
  using assms by (auto simp: parse_mcp_capability_token_cache_config_def Let_def rbind_Inr_iff
      default_token_cache_config_def split: if_splits option.splits)

section \<open>The cache\<close>

record token_entry =
  tn_token :: string
  tn_stored_at :: rat

record token_cache =
  tk_ttl_sec :: rat
  tk_max_entries :: int
  tk_entries :: "(string, token_entry) dict"

definition new_token_cache :: "token_cache_config \<Rightarrow> token_cache" where
  "new_token_cache c = \<lparr>tk_ttl_sec = tg_ttl_sec c, tk_max_entries = tg_max_entries c, tk_entries = []\<rparr>"

definition evict_expired :: "rat \<Rightarrow> token_cache \<Rightarrow> token_cache" where
  "evict_expired now c = c\<lparr>tk_entries :=
     del_keys (List.map fst (filter (\<lambda>(k, e). now - tn_stored_at e > tk_ttl_sec c) (tk_entries c)))
       (tk_entries c)\<rparr>"

definition move_to_end :: "string \<Rightarrow> (string, token_entry) dict \<Rightarrow> (string, token_entry) dict" where
  "move_to_end k d = (case map_of d k of None \<Rightarrow> d | Some e \<Rightarrow> AList.delete k d @ [(k, e)])"

fun evict_overflow :: "int \<Rightarrow> (string, token_entry) dict \<Rightarrow> (string, token_entry) dict" where
  "evict_overflow m [] = []"
| "evict_overflow m (x # xs) = (if int (length (x # xs)) > m then evict_overflow m xs else x # xs)"

text \<open>\<open>store\<close>: \<open>n1\<close> is the clock of the eviction, \<open>n2\<close> the stamp.\<close>

definition store_token :: "token_cache \<Rightarrow> string \<Rightarrow> string \<Rightarrow> rat \<Rightarrow> rat \<Rightarrow> token_cache" where
  "store_token c intent_id token n1 n2 =
     (let key = strip intent_id; v = strip token in
      if key = [] \<or> v = [] then c
      else
        (let c = evict_expired n1 c;
             d = AList.update key \<lparr>tn_token = v, tn_stored_at = n2\<rparr> (tk_entries c)
         in c\<lparr>tk_entries := evict_overflow (tk_max_entries c) (move_to_end key d)\<rparr>))"

definition resolve_token :: "token_cache \<Rightarrow> string \<Rightarrow> rat \<Rightarrow> rat \<Rightarrow> string option \<times> token_cache" where
  "resolve_token c0 intent_id n1 n2 =
     (let c = evict_expired n1 c0; key = strip intent_id in
      case map_of (tk_entries c) key of
        None \<Rightarrow> (None, c)
      | Some e \<Rightarrow>
          if n2 - tn_stored_at e > tk_ttl_sec c
          then (None, c\<lparr>tk_entries := AList.delete key (tk_entries c)\<rparr>)
          else (Some (tn_token e), c\<lparr>tk_entries := move_to_end key (tk_entries c)\<rparr>))"

section \<open>Invariant\<close>

definition token_cache_ok :: "token_cache \<Rightarrow> bool" where
  "token_cache_ok c \<longleftrightarrow> wf_dict (tk_entries c)"

definition token_contents :: "token_cache \<Rightarrow> string \<Rightarrow> (string \<times> rat) option" where
  "token_contents c k = map_option (\<lambda>e. (tn_token e, tn_stored_at e)) (map_of (tk_entries c) (strip k))"

lemma evict_expired_simps [simp]:
  "tk_ttl_sec (evict_expired n c) = tk_ttl_sec c" "tk_max_entries (evict_expired n c) = tk_max_entries c"
  by (simp_all add: evict_expired_def)

lemma evict_expired_ok [simp]: "wf_dict (tk_entries c) \<Longrightarrow> wf_dict (tk_entries (evict_expired n c))"
  by (simp add: evict_expired_def)

lemma evict_expired_lookup:
  "wf_dict (tk_entries c) \<Longrightarrow> map_of (tk_entries (evict_expired n c)) k = Some e \<Longrightarrow> map_of (tk_entries c) k = Some e"
  using map_of_filter_wf[of "tk_entries c" "\<lambda>k v. k \<notin> set (List.map fst (filter (\<lambda>(k, e). n - tn_stored_at e > tk_ttl_sec c) (tk_entries c)))" k]
  by (auto simp: evict_expired_def del_keys_conv split: option.splits if_splits)

lemma length_evict_expired: "length (tk_entries (evict_expired n c)) \<le> length (tk_entries c)"
  by (simp add: evict_expired_def del_keys_conv)

lemma move_to_end_wf [simp]: "wf_dict d \<Longrightarrow> wf_dict (move_to_end k d)"
  by (auto simp: move_to_end_def wf_dict_def distinct_delete AList.delete_eq split: option.splits
      intro: distinct_map_filter)

lemma move_to_end_lookup [simp]: "map_of (move_to_end k d) j = map_of d j"
  by (auto simp: move_to_end_def map_add_def delete_conv' split: option.splits)

lemma length_delete_wf: "\<lbrakk>wf_dict d; map_of d k \<noteq> None\<rbrakk> \<Longrightarrow> Suc (length (AList.delete k d)) = length d"
proof (induction d)
  case (Cons p d)
  show ?case
  proof (cases "fst p = k")
    case True
    then have "map_of d k = None" using Cons.prems(1) by (auto simp: wf_dict_def map_of_eq_None_iff)
    then have "AList.delete k d = d" by (simp add: map_of_eq_None_iff delete_id)
    then show ?thesis using True by (cases p) (simp add: AList.delete_eq)
  next
    case False
    then show ?thesis using Cons by (cases p) (auto simp: wf_dict_def AList.delete_eq)
  qed
qed simp

lemma length_move_to_end: "wf_dict d \<Longrightarrow> length (move_to_end k d) = length d"
  using length_delete_wf[of d k] by (cases "map_of d k") (simp_all add: move_to_end_def)

lemma evict_overflow_suffix: "\<exists>p. d = p @ evict_overflow m d"
proof (induction d)
  case (Cons x d)
  then obtain p where "d = p @ evict_overflow m d" ..
  then show ?case by (auto intro: exI[of _ "x # p"] exI[of _ "[]"])
qed simp

lemma evict_overflow_wf [simp]: "wf_dict d \<Longrightarrow> wf_dict (evict_overflow m d)"
  using evict_overflow_suffix[of d m] unfolding wf_dict_def by (metis distinct_append map_append)

lemma evict_overflow_lookup:
  assumes "wf_dict d" "map_of (evict_overflow m d) k = Some e"
  shows "map_of d k = Some e"
proof -
  obtain p where d: "d = p @ evict_overflow m d" using evict_overflow_suffix ..
  have "(k, e) \<in> set d" using assms(2) by (subst d) (auto dest: map_of_SomeD)
  then show ?thesis using assms(1) by (simp add: wf_dict_def)
qed

lemma length_evict_overflow: "0 \<le> m \<Longrightarrow> int (length (evict_overflow m d)) \<le> m"
  by (induction d) auto

text \<open>With room for one entry, the entry at the end survives.\<close>

lemma evict_overflow_last: "1 \<le> m \<Longrightarrow> \<exists>d'. evict_overflow m (d @ [x]) = d' @ [x]"
proof (induction d)
  case (Cons y d)
  then show ?case by (auto intro: exI[of _ "y # d"])
qed simp

interpretation tokens: ttl_cache
  store_token "\<lambda>c k (q :: unit) n1 n2. resolve_token c k n1 n2" token_contents "\<lambda>v t. strip v"
  token_cache_ok tk_ttl_sec strip "\<lambda>k v. strip k \<noteq> [] \<and> strip v \<noteq> []"
proof unfold_locales
  show "token_cache_ok (store_token c k v n1 n2)" if "token_cache_ok c" for c k v n1 n2
    using that by (simp add: token_cache_ok_def store_token_def Let_def)
  show "token_cache_ok (snd (resolve_token c k n1 n2))" if "token_cache_ok c" for c k n1 n2
    using that by (auto simp: token_cache_ok_def resolve_token_def Let_def split: option.splits)
  show "tk_ttl_sec (store_token c k v n1 n2) = tk_ttl_sec c" for c k v n1 n2
    by (simp add: store_token_def Let_def)
  show "tk_ttl_sec (snd (resolve_token c k n1 n2)) = tk_ttl_sec c" for c k n1 n2
    by (simp add: resolve_token_def Let_def split: option.splits)
  show "(strip k \<noteq> [] \<and> strip v \<noteq> []) \<and> strip k = strip k' \<and> w = strip v \<and> t = n2 \<or>
      \<not> ((strip k \<noteq> [] \<and> strip v \<noteq> []) \<and> strip k = strip k') \<and> token_contents c k' = Some (w, t)"
    if ok: "token_cache_ok c" and st: "token_contents (store_token c k v n1 n2) k' = Some (w, t)"
    for c k v n1 n2 k' w t
  proof (cases "strip k = [] \<or> strip v = []")
    case True
    then show ?thesis using st by (auto simp: store_token_def Let_def)
  next
    case False
    let ?d = "AList.update (strip k) \<lparr>tn_token = strip v, tn_stored_at = n2\<rparr> (tk_entries (evict_expired n1 c))"
    have wf: "wf_dict ?d" using ok by (simp add: token_cache_ok_def)
    obtain e where e: "map_of (evict_overflow (tk_max_entries c) (move_to_end (strip k) ?d)) (strip k') = Some e"
        "w = tn_token e" "t = tn_stored_at e"
      using st False by (auto simp: token_contents_def store_token_def Let_def)
    have "map_of ?d (strip k') = Some e"
      using evict_overflow_lookup[OF _ e(1)] wf by simp
    then show ?thesis
      using e(2,3) False evict_expired_lookup[of c n1 "strip k'" e] ok
      by (auto simp: update_conv' token_contents_def token_cache_ok_def split: if_splits)
  qed
  show "token_contents c k' = Some x"
    if ok: "token_cache_ok c" and r: "token_contents (snd (resolve_token c k n1 n2)) k' = Some x"
    for c k n1 n2 k' x
  proof -
    obtain e where e: "map_of (tk_entries (snd (resolve_token c k n1 n2))) (strip k') = Some e"
        "x = (tn_token e, tn_stored_at e)"
      using r by (auto simp: token_contents_def)
    then have "map_of (tk_entries (evict_expired n1 c)) (strip k') = Some e"
      by (auto simp: resolve_token_def Let_def delete_conv' split: option.splits if_splits)
    then show ?thesis
      using evict_expired_lookup[of c n1 "strip k'" e] ok e(2) by (simp add: token_contents_def token_cache_ok_def)
  qed
  show "\<exists>t. token_contents c k = Some (v, t) \<and> n2 - t \<le> tk_ttl_sec c"
    if ok: "token_cache_ok c" and f: "fst (resolve_token c k n1 n2) = Some v" for c k n1 n2 v
    using f ok evict_expired_lookup[of c n1 "strip k"]
    by (auto simp: resolve_token_def Let_def token_contents_def token_cache_ok_def not_less
        split: option.splits if_splits)
qed

text \<open>The size limit, and that a token that was just stored is found.\<close>

lemma store_token_bounded:
  assumes "0 \<le> tk_max_entries c" "int (length (tk_entries c)) \<le> tk_max_entries c"
  shows "int (length (tk_entries (store_token c k v n1 n2))) \<le> tk_max_entries c"
  using assms by (auto simp: store_token_def Let_def length_evict_overflow)

lemma resolve_token_bounded:
  assumes "token_cache_ok c"
  shows "length (tk_entries (snd (resolve_token c k n1 n2))) \<le> length (tk_entries c)"
proof -
  have "length (AList.delete (strip k) (tk_entries (evict_expired n1 c))) \<le> length (tk_entries c)"
    unfolding AList.delete_eq using length_filter_le length_evict_expired by (rule le_trans)
  then show ?thesis
    using assms length_evict_expired[of n1 c]
    by (auto simp: resolve_token_def Let_def length_move_to_end token_cache_ok_def split: option.splits)
qed

lemma store_then_resolve:
  assumes "token_cache_ok c" "1 \<le> tk_max_entries c" "strip k \<noteq> []" "strip v \<noteq> []"
    and "m1 - n2 \<le> tk_ttl_sec c" "m2 - n2 \<le> tk_ttl_sec c"
  shows "fst (resolve_token (store_token c k v n1 n2) k m1 m2) = Some (strip v)"
proof -
  let ?e = "\<lparr>tn_token = strip v, tn_stored_at = n2\<rparr>"
  let ?d = "AList.update (strip k) ?e (tk_entries (evict_expired n1 c))"
  let ?c = "store_token c k v n1 n2"
  have wf: "wf_dict ?d" using assms(1) by (simp add: token_cache_ok_def)
  have "move_to_end (strip k) ?d = AList.delete (strip k) ?d @ [(strip k, ?e)]"
    by (simp add: move_to_end_def update_conv')
  moreover obtain d' where
    "evict_overflow (tk_max_entries c) (AList.delete (strip k) ?d @ [(strip k, ?e)]) = d' @ [(strip k, ?e)]"
    using evict_overflow_last[OF assms(2)] by blast
  ultimately have d': "tk_entries ?c = d' @ [(strip k, ?e)]"
    using assms(3,4) by (simp add: store_token_def Let_def)
  have wf': "wf_dict (tk_entries ?c)" using wf assms(3,4) by (simp add: store_token_def Let_def)
  have look: "map_of (tk_entries ?c) (strip k) = Some ?e"
    by (rule map_of_is_SomeI) (use wf' d' in \<open>auto simp: wf_dict_def\<close>)
  have ttl: "tk_ttl_sec ?c = tk_ttl_sec c" by (simp add: store_token_def Let_def)
  have fresh: "strip k \<notin> set (List.map fst (filter (\<lambda>(j, e). m1 - tn_stored_at e > tk_ttl_sec ?c) (tk_entries ?c)))"
  proof
    assume "strip k \<in> set (List.map fst (filter (\<lambda>(j, e). m1 - tn_stored_at e > tk_ttl_sec ?c) (tk_entries ?c)))"
    then obtain e where e: "(strip k, e) \<in> set (tk_entries ?c)" "m1 - tn_stored_at e > tk_ttl_sec ?c" by auto
    then have "e = ?e" using look wf' by (simp add: wf_dict_def)
    then show False using e(2) assms(5) ttl by simp
  qed
  have "map_of (tk_entries (evict_expired m1 ?c)) (strip k) = Some ?e"
    using map_of_filter_wf[OF wf', of "\<lambda>j v. j \<notin> set (List.map fst (filter (\<lambda>(j, e). m1 - tn_stored_at e > tk_ttl_sec ?c) (tk_entries ?c)))" "strip k"]
      look fresh
    by (simp add: evict_expired_def del_keys_conv)
  then show ?thesis using assms(6) ttl by (simp add: resolve_token_def Let_def)
qed

end
