(* ===== verification/Mcp_Reload_Gate.thy ===== *)
theory Mcp_Reload_Gate
  imports Policy_Reload
begin

text \<open>
  \<open>mcp_policy_reload.py\<close>: the policy gate of a long-lived MCP server.  It holds the snapshot in
  force, counts the tool calls in flight, decides at spend time whether the current policy
  lets a tool run and for how much, and reloads through the same guarded path as a run.
\<close>

section \<open>Configuration\<close>

datatype reload_mode = Reload_Off | Reload_Watch | Reload_Poll

record gate_config =
  gc_policy_file :: string
  gc_reload_mode :: reload_mode
  gc_allow_loosen :: bool
  gc_watch_debounce_ms :: "int option"
  gc_poll_interval_ms :: "int option"

definition parse_mcp_policy_reload_mode :: "string option \<Rightarrow> exn + reload_mode" where
  "parse_mcp_policy_reload_mode raw =
     (let v = lower (strip (str_or raw [])) in
      if v = [] \<or> v = ''off'' then Inr Reload_Off
      else if v = ''watch'' then Inr Reload_Watch
      else if v = ''poll'' then Inr Reload_Poll
      else Inl (ValueError ''invalid PAYBOND_POLICY_RELOAD (expected watch|poll|off)''))"

text \<open>\<open>resolve_path\<close> is \<open>Path.resolve\<close>; \<open>env\<close> the process environment.\<close>

definition parse_mcp_policy_reload_config ::
  "(string \<Rightarrow> string) \<Rightarrow> (string, string) dict \<Rightarrow> exn + gate_config option" where
  "parse_mcp_policy_reload_config resolve_path env =
     (let file = strip (str_or (map_of env ''PAYBOND_POLICY_FILE'') []) in
      if file = [] then Inr None
      else rbind (parse_mcp_policy_reload_mode (map_of env ''PAYBOND_POLICY_RELOAD'')) (\<lambda>m.
        Inr (Some \<lparr>gc_policy_file = resolve_path file, gc_reload_mode = m,
          gc_allow_loosen = (map_of env ''PAYBOND_POLICY_RELOAD_ALLOW_LOOSEN'' = Some ''1''),
          gc_watch_debounce_ms = None, gc_poll_interval_ms = None\<rparr>)))"

section \<open>The gate\<close>

record gate =
  ga_config :: gate_config
  ga_snapshot :: snapshot
  ga_in_flight_count :: int
  ga_last_allowed_tools :: "string list"
  ga_reload_defaults :: reload_options
  ga_last_reload_at :: "string option"
  ga_last_reload_error :: "string option"

definition gate_policy_digest :: "gate \<Rightarrow> string option" where
  "gate_policy_digest g = Some (sn_digest (ga_snapshot g))"

text \<open>The constructor, with the defaults \<open>open\<close> sets for the mode; \<open>gateway\<close> tells whether a
  gateway adapter is given.\<close>

definition open_gate :: "reload_env \<Rightarrow> gate_config \<Rightarrow> bool \<Rightarrow> exn + gate" where
  "open_gate env c gateway =
     rbind (load_policy_snapshot_from_file env (gc_policy_file c)) (\<lambda>sn.
     Inr \<lparr>ga_config = c, ga_snapshot = sn, ga_in_flight_count = 0, ga_last_allowed_tools = [],
          ga_reload_defaults =
            \<lparr>ro_file = Some (gc_policy_file c), ro_remote = (gc_reload_mode c = Reload_Poll),
             ro_resolve_inheritance = (gc_reload_mode c = Reload_Poll),
             ro_allow_loosen = gc_allow_loosen c, ro_gateway = gateway\<rparr>,
          ga_last_reload_at = None, ga_last_reload_error = None\<rparr>)"

definition apply_gate_snapshot :: "snapshot \<Rightarrow> gate \<Rightarrow> gate" where
  "apply_gate_snapshot sn g = g\<lparr>ga_snapshot := sn\<rparr>"

definition begin_tool_call :: "gate \<Rightarrow> gate" where
  "begin_tool_call g = g\<lparr>ga_in_flight_count := ga_in_flight_count g + 1\<rparr>"

definition end_tool_call :: "gate \<Rightarrow> gate" where
  "end_tool_call g = g\<lparr>ga_in_flight_count := max 0 (ga_in_flight_count g - 1)\<rparr>"

definition gate_handle :: "gate handle_ops" where
  "gate_handle =
     \<lparr>ho_policy_file_path = (\<lambda>g. Some (gc_policy_file (ga_config g))),
      ho_policy_digest = gate_policy_digest,
      ho_current_snapshot = (\<lambda>g. Some (ga_snapshot g)),
      ho_in_flight_count = ga_in_flight_count,
      ho_apply_policy_snapshot = apply_gate_snapshot\<rparr>"

text \<open>\<open>reload_policy()\<close> with the defaults; \<open>now\<close> is the date of an applied reload.\<close>

definition gate_reload_policy ::
  "reload_env \<Rightarrow> string \<Rightarrow> rat \<Rightarrow> gate awaits \<Rightarrow> gate \<Rightarrow> (gate \<times> (exn + reload_result)) option" where
  "gate_reload_policy env now started aw g =
     (case reload_policy_on_handle gate_handle env (ga_reload_defaults g)
             (if ga_last_allowed_tools g = [] then None else Some (ga_last_allowed_tools g))
             started aw g of
        None \<Rightarrow> None
      | Some (g', Inl e) \<Rightarrow>
          Some (if is_exception e then g'\<lparr>ga_last_reload_error := Some (exn_str e)\<rparr> else g', Inl e)
      | Some (g', Inr res) \<Rightarrow>
          Some (if rr_applied res
                then g'\<lparr>ga_last_reload_at := Some now, ga_last_reload_error := None\<rparr> else g', Inr res))"

section \<open>The spend gate\<close>

record gate_input =
  gi_operation :: string
  gi_allowed_tools :: "string list"
  gi_tool_name :: "string option"
  gi_arguments :: json
  gi_requested_spend_cents :: "int option"

record gate_result =
  gr_operation :: string
  gr_requested_spend_cents :: int
  gr_policy_digest :: "string option"

definition assert_spend_gate :: "gate \<Rightarrow> gate_input \<Rightarrow> gate \<times> (exn + gate_result)" where
  "assert_spend_gate g i =
     (let operation = strip (gi_operation i);
          tool_name = strip (str_or (gi_tool_name i) operation);
          rg = sn_registry (ga_snapshot g)
      in if operation = [] then (g, Inl (RuntimeError ''operation must be non-empty''))
         else
           (g\<lparr>ga_last_allowed_tools := gi_allowed_tools i\<rparr>,
            (case resolve_tool rg tool_name (Some (gi_allowed_tools i)) of
               Passthrough n \<Rightarrow>
                 Inr \<lparr>gr_operation = operation, gr_requested_spend_cents = 0,
                      gr_policy_digest = gate_policy_digest g\<rparr>
             | Denied n op \<Rightarrow> Inl (UnregisteredSideEffecting n op)
             | Side_Effecting n op entry \<Rightarrow>
                 if operation \<notin> set (gi_allowed_tools i)
                 then Inl (RuntimeError (''operation '' @ quoted operation @ '' is not in intent allowed_tools ('' @
                        py_join '', '' (gi_allowed_tools i) @ '')''))
                 else
                   rbind (case gi_requested_spend_cents i of
                            Some c \<Rightarrow> Inr c
                          | None \<Rightarrow> rbind (resolve_spend_cents rg tool_name (gi_arguments i))
                                      (\<lambda>c. Inr (case c of None \<Rightarrow> 0 | Some n \<Rightarrow> n))) (\<lambda>cents.
                   Inr \<lparr>gr_operation = op, gr_requested_spend_cents = cents,
                        gr_policy_digest = gate_policy_digest g\<rparr>))))"

section \<open>Lemmas\<close>

interpretation gates: policy_reload_handle gate_handle "\<lambda>g. True"
  by unfold_locales (simp_all add: gate_handle_def gate_policy_digest_def apply_gate_snapshot_def)

lemma assert_spend_gate_cases:
  assumes "assert_spend_gate g i = (g', Inr r)"
  shows "strip (gi_operation i) \<noteq> []" "gr_policy_digest r = Some (sn_digest (ga_snapshot g))"
    "ga_last_allowed_tools g' = gi_allowed_tools i" "ga_snapshot g' = ga_snapshot g"
    "(\<exists>n. resolve_tool (sn_registry (ga_snapshot g)) (strip (str_or (gi_tool_name i) (strip (gi_operation i))))
          (Some (gi_allowed_tools i)) = Passthrough n \<and> gr_requested_spend_cents r = 0 \<and>
          gr_operation r = strip (gi_operation i)) \<or>
     (\<exists>n op entry. resolve_tool (sn_registry (ga_snapshot g))
          (strip (str_or (gi_tool_name i) (strip (gi_operation i)))) (Some (gi_allowed_tools i)) =
          Side_Effecting n op entry \<and> gr_operation r = op \<and>
        strip (gi_operation i) \<in> set (gi_allowed_tools i))"
  using assms
  by (auto simp: assert_spend_gate_def gate_policy_digest_def Let_def rbind_Inr_iff
      split: if_splits tool_resolution.splits)

text \<open>
  The allow list is checked for the operation of the caller, but the operation that is
  returned is the registry's; the two agree for a tool registered under its own name.
\<close>

lemma assert_spend_gate_own_tool:
  assumes "assert_spend_gate g i = (g', Inr r)" and "0 < gr_requested_spend_cents r"
    and "gi_tool_name i = None"
    and "resolve_operation (sn_registry (ga_snapshot g)) (strip (gi_operation i)) = strip (gi_operation i)"
  shows "gr_operation r \<in> set (gi_allowed_tools i)"
  using assert_spend_gate_cases(5)[OF assms(1)] assms(2-4)
  by (auto simp: str_or_def resolve_tool_side_effecting resolve_operation_def split: if_splits)

end
