(* ===== verification/Evidence_Gate.thy ===== *)
theory Evidence_Gate
  imports Policy_Snapshot
begin

text \<open>
  \<open>completion_validate_evidence.py\<close>, \<open>completion_forbidden_fields.py\<close>, \<open>json_digest.py\<close> and
  \<open>mcp_evidence_policy.py\<close>: the local validation of completion evidence, its report, and the gate
  an MCP server keeps before evidence is submitted.  The JSON Schema validator and BLAKE3 are
  parameters: \<open>schema_errors schema instance\<close> are the errors \<open>Draft202012Validator.iter_errors\<close>
  gives, and \<open>blake3\<close> is the hex digest of a text.
\<close>

section \<open>Forbidden fields\<close>

definition forbidden_fields_in_evidence :: "(string, json) dict \<Rightarrow> string list \<Rightarrow> string list" where
  "forbidden_fields_in_evidence evidence forbidden = filter (\<lambda>k. k \<in> set forbidden) (keys evidence)"

definition push_kind :: "string \<Rightarrow> string list \<Rightarrow> string list" where
  "push_kind k kinds = (if k \<in> set kinds then kinds else kinds @ [k])"

definition forbidden_fields_in_vendor_payload ::
  "completion_preset \<Rightarrow> (string, json) dict \<Rightarrow> string list \<Rightarrow> string list" where
  "forbidden_fields_in_vendor_payload preset vendor_payload forbidden =
     fold (\<lambda>vendor_key hits.
         let canonical_key = (case map_of (cp_evidence_field_map preset) vendor_key of
                                Some k \<Rightarrow> k | None \<Rightarrow> vendor_key)
         in if vendor_key \<in> set forbidden \<or> canonical_key \<in> set forbidden
            then push_kind vendor_key hits else hits)
       (keys vendor_payload) []"

section \<open>Schema errors\<close>

record schema_error =
  se_text :: string  \<comment> \<open>\<open>str(error)\<close>\<close>
  se_message :: string
  se_at_root :: bool  \<comment> \<open>\<open>absolute_path\<close> is empty\<close>

fun contains :: "string \<Rightarrow> string \<Rightarrow> bool" where
  "contains p [] \<longleftrightarrow> p = []"
| "contains p (c # cs) \<longleftrightarrow> startswith (c # cs) p \<or> contains p cs"

definition classify_jsonschema_error :: "schema_error \<Rightarrow> string" where
  "classify_jsonschema_error e =
     (if se_at_root e \<and> contains ''required'' (se_message e) then ''missing_field''
      else if contains ''required'' (se_message e) then ''missing_field''
      else ''type_mismatch'')"

definition push_kinds :: "string list \<Rightarrow> string list \<Rightarrow> string list" where
  "push_kinds ks kinds = fold push_kind ks kinds"

definition validate_json_schema ::
  "(json \<Rightarrow> json \<Rightarrow> schema_error list) \<Rightarrow> json \<Rightarrow> json \<Rightarrow> string list" where
  "validate_json_schema schema_errors schema inst =
     push_kinds (List.map classify_jsonschema_error (sort_key se_text (schema_errors schema inst))) []"

definition missing_quality_fields :: "(string, json) dict \<Rightarrow> string list \<Rightarrow> string list" where
  "missing_quality_fields payload quality_fields = filter (\<lambda>f. jget payload f = JNull) quality_fields"

section \<open>The report\<close>

record validation_input =
  vd_preset_id :: string
  vd_vendor_payload :: "(string, json) dict option"
  vd_canonical_payload :: "(string, json) dict option"
  vd_frozen_vendor_api_version :: "string option"
  vd_frozen_vendor_schema_digest_hex :: "string option"
  vd_frozen_canonical_schema_digest_hex :: "string option"

record validation_report =
  vp_preset_id :: string
  vp_vendor_schema_ok :: bool
  vp_canonical_schema_ok :: bool
  vp_quality_fields_missing :: "string list"
  vp_forbidden_fields_present :: "string list"
  vp_pack_stale :: bool
  vp_drift_kinds :: "string list"
  vp_canonical_payload :: "(string, json) dict option"

definition canonical_of :: "completion_preset \<Rightarrow> validation_input \<Rightarrow> (string, json) dict option" where
  "canonical_of preset i = (case vd_canonical_payload i of
       Some c \<Rightarrow> Some c
     | None \<Rightarrow> (case vd_vendor_payload i of
           None \<Rightarrow> None
         | Some v \<Rightarrow> Some (if is_vendor_pack preset then map_vendor_evidence_to_canonical preset v else v)))"

definition field_stale :: "completion_preset \<Rightarrow> string option \<Rightarrow> string \<Rightarrow> bool" where
  "field_stale preset frozen k \<longleftrightarrow>
     (case (frozen, cp_vendor_contract preset) of
        (Some f, Some (JObj c)) \<Rightarrow> f \<noteq> [] \<and> truthy (jget c k) \<and> JStr f \<noteq> jget c k
      | _ \<Rightarrow> False)"

definition pack_stale :: "completion_preset \<Rightarrow> validation_input \<Rightarrow> bool" where
  "pack_stale preset i \<longleftrightarrow>
     field_stale preset (vd_frozen_vendor_api_version i) ''api_version'' \<or>
     field_stale preset (vd_frozen_vendor_schema_digest_hex i) ''schema_digest_hex'' \<or>
     field_stale preset (vd_frozen_canonical_schema_digest_hex i) ''canonical_schema_digest_hex''"

text \<open>Each check gives the drift kinds it pushes; a schema is satisfied when it pushes none.\<close>

definition canonical_kinds ::
  "(json \<Rightarrow> json \<Rightarrow> schema_error list) \<Rightarrow> resolved_preset \<Rightarrow> completion_preset \<Rightarrow> validation_input \<Rightarrow> string list" where
  "canonical_kinds schema_errors resolved preset i = (case canonical_of preset i of
       Some c \<Rightarrow> validate_json_schema schema_errors (rp_evidence_schema resolved) (JObj c)
     | None \<Rightarrow> if is_vendor_pack preset then [] else [''missing_field''])"

definition vendor_evidence_schema :: "completion_preset \<Rightarrow> json option" where
  "vendor_evidence_schema preset = (case cp_vendor_evidence_schema preset of
       Some (JObj d) \<Rightarrow> Some (JObj d) | _ \<Rightarrow> None)"

definition vendor_kinds ::
  "(json \<Rightarrow> json \<Rightarrow> schema_error list) \<Rightarrow> completion_preset \<Rightarrow> validation_input \<Rightarrow> string list" where
  "vendor_kinds schema_errors preset i =
     (if \<not> is_vendor_pack preset then []
      else (case vd_vendor_payload i of
          None \<Rightarrow> [''missing_field'']
        | Some v \<Rightarrow> (case vendor_evidence_schema preset of
              None \<Rightarrow> []
            | Some schema \<Rightarrow> if pack_stale preset i then []
                             else validate_json_schema schema_errors schema (JObj v))))"

definition quality_missing :: "completion_preset \<Rightarrow> validation_input \<Rightarrow> string list" where
  "quality_missing preset i =
     (let target = (case vd_vendor_payload i of Some v \<Rightarrow> Some v | None \<Rightarrow> canonical_of preset i)
      in case (target, cp_vendor_contract preset) of
           (Some t, Some (JObj c)) \<Rightarrow>
             (case jget c ''quality_fields'' of
                JArr fs \<Rightarrow> missing_quality_fields t (List.map json_text fs)
              | _ \<Rightarrow> [])
         | _ \<Rightarrow> [])"

definition forbidden_hits :: "completion_preset \<Rightarrow> validation_input \<Rightarrow> string list" where
  "forbidden_hits preset i = (case cp_forbidden_evidence_fields preset of
       Some (JArr fs) \<Rightarrow>
         (let forbidden = List.map json_text fs;
              vendor = (case vd_vendor_payload i of
                  None \<Rightarrow> [] | Some v \<Rightarrow> forbidden_fields_in_vendor_payload preset v forbidden)
          in case canonical_of preset i of
               None \<Rightarrow> vendor
             | Some c \<Rightarrow> push_kinds (forbidden_fields_in_evidence c forbidden) vendor)
     | _ \<Rightarrow> [])"

definition evidence_report ::
  "(json \<Rightarrow> json \<Rightarrow> schema_error list) \<Rightarrow> resolved_preset \<Rightarrow> completion_preset \<Rightarrow> validation_input \<Rightarrow>
   validation_report" where
  "evidence_report schema_errors resolved preset i =
     (let canonical = canonical_of preset i;
          stale = pack_stale preset i;
          drift = (if stale then push_kind ''pack_stale'' [] else []);
          ckinds = canonical_kinds schema_errors resolved preset i;
          canonical_ok = (ckinds = []);
          drift = push_kinds ckinds drift;
          vkinds = vendor_kinds schema_errors preset i;
          vendor_ok = (vkinds = []);
          drift = push_kinds vkinds drift;
          missing = quality_missing preset i;
          drift = push_kinds (List.map (\<lambda>_. ''quality_field_missing'') missing) drift;
          hits = forbidden_hits preset i;
          vendor_ok = (vendor_ok \<and> \<not> (hits \<noteq> [] \<and> is_vendor_pack preset \<and> vd_vendor_payload i \<noteq> None));
          canonical_ok = (canonical_ok \<and> \<not> (hits \<noteq> [] \<and> canonical \<noteq> None));
          drift = push_kinds (List.map (\<lambda>_. ''forbidden_field_present'') hits) drift
      in \<lparr>vp_preset_id = vd_preset_id i, vp_vendor_schema_ok = vendor_ok,
          vp_canonical_schema_ok = canonical_ok, vp_quality_fields_missing = missing,
          vp_forbidden_fields_present = hits, vp_pack_stale = stale, vp_drift_kinds = drift,
          vp_canonical_payload = canonical\<rparr>)"

definition validate_completion_evidence ::
  "(json \<Rightarrow> json \<Rightarrow> schema_error list) \<Rightarrow> catalog \<Rightarrow> validation_input \<Rightarrow> exn + validation_report" where
  "validate_completion_evidence schema_errors cat i =
     rbind (get_completion_preset cat (vd_preset_id i)) (\<lambda>preset.
     rbind (resolve_completion_preset cat (vd_preset_id i)) (\<lambda>resolved.
     Inr (evidence_report schema_errors resolved preset i)))"

section \<open>Digests\<close>

text \<open>\<open>normalize_json\<close> is the same sorting of keys as \<open>canonicalize_json\<close>.\<close>

primrec json_dumps_unicode :: "json \<Rightarrow> string" where
  "json_dumps_unicode JNull = ''null''"
| "json_dumps_unicode (JBool b) = (if b then ''true'' else ''false'')"
| "json_dumps_unicode (JInt i) = str_int i"
| "json_dumps_unicode (JNum q) = str_rat q"
| "json_dumps_unicode (JStr s) = json_string_unicode s"
| "json_dumps_unicode (JArr l) = ''['' @ py_join '','' (List.map json_dumps_unicode l) @ '']''"
| "json_dumps_unicode (JObj d) =
     ''{'' @ py_join '','' (List.map (\<lambda>(k, s). json_string_unicode k @ '':'' @ s)
                         (List.map (map_prod id json_dumps_unicode) d)) @ ''}''"

definition json_value_digest :: "(string \<Rightarrow> string) \<Rightarrow> json \<Rightarrow> string" where
  "json_value_digest blake3 v = blake3 (json_dumps_unicode (canonicalize_json v))"

section \<open>The gate\<close>

datatype evidence_policy = Strict | Evidence_Off

definition parse_mcp_evidence_policy :: "string option \<Rightarrow> exn + evidence_policy" where
  "parse_mcp_evidence_policy raw =
     (let v = lower (strip (str_or raw [])) in
      if v = [] then Inr Strict
      else if v = ''strict'' then Inr Strict
      else if v = ''off'' then Inr Evidence_Off
      else Inl (ValueError ''invalid PAYBOND_MCP_EVIDENCE_POLICY (expected strict|off)''))"

definition completion_evidence_validation_ok :: "validation_report \<Rightarrow> bool" where
  "completion_evidence_validation_ok r \<longleftrightarrow> length (vp_drift_kinds r) = 0"

definition opt_obj :: "(string, json) dict option \<Rightarrow> json" where
  "opt_obj d = (case d of None \<Rightarrow> JNull | Some d \<Rightarrow> JObj d)"

definition evidence_validation_gate_key ::
  "(string \<Rightarrow> string) \<Rightarrow> string \<Rightarrow> (string, json) dict option \<Rightarrow> (string, json) dict option \<Rightarrow> exn + string" where
  "evidence_validation_gate_key blake3 preset_id vendor canonical =
     (let preset = strip preset_id in
      if preset = [] then Inl (ValueError ''completion preset id is required for evidence validation'')
      else Inr (json_value_digest blake3 (JObj [(''preset_id'', JStr preset),
             (''vendor_payload'', opt_obj vendor), (''canonical_payload'', opt_obj canonical)])))"

text \<open>What a submit tool passes to the gate.\<close>

definition as_dict :: "json option \<Rightarrow> (string, json) dict option" where
  "as_dict j = (case j of Some (JObj d) \<Rightarrow> Some d | _ \<Rightarrow> None)"

definition extract_harbor_evidence_validation_input ::
  "(string, json) dict \<Rightarrow> string option \<Rightarrow>
   string \<times> (string, json) dict option \<times> (string, json) dict option" where
  "extract_harbor_evidence_validation_input body completion_preset_id =
     (let preset = strip (str_or completion_preset_id []);
          preset = (if preset \<noteq> [] then preset
                    else str_or (read_string body [''completion_preset_id'', ''completion_preset'']) [])
      in (preset, as_dict (map_of body ''vendor_payload''), as_dict (map_of body ''payload'')))"

definition extract_sandbox_guardrail_validation_input ::
  "(string, json) dict option \<Rightarrow> string option \<Rightarrow>
   string \<times> (string, json) dict option \<times> (string, json) dict option" where
  "extract_sandbox_guardrail_validation_input payload completion_preset_id =
     (strip (str_or completion_preset_id []), payload, payload)"

record evidence_gate =
  eg_policy :: evidence_policy
  eg_passes :: "string list"

definition record_pass :: "string \<Rightarrow> evidence_gate \<Rightarrow> evidence_gate" where
  "record_pass key g = g\<lparr>eg_passes := List.insert key (eg_passes g)\<rparr>"

definition has_pass :: "evidence_gate \<Rightarrow> string \<Rightarrow> bool" where
  "has_pass g key \<longleftrightarrow> key \<in> set (eg_passes g)"

definition not_prevalidated :: exn where
  "not_prevalidated = RuntimeError (''completion evidence was not pre-validated; call '' @
     ''paybond_validate_completion_evidence with the same preset and payload '' @
     ''before submit (Harbor remains authoritative at submit time)'')"

definition require_pass ::
  "(string \<Rightarrow> string) \<Rightarrow> evidence_gate \<Rightarrow> string \<Rightarrow> (string, json) dict option \<Rightarrow> (string, json) dict option \<Rightarrow>
   exn + unit" where
  "require_pass blake3 g preset_id vendor canonical =
     (if eg_policy g = Evidence_Off then Inr ()
      else if strip preset_id = [] then Inr ()
      else rbind (evidence_validation_gate_key blake3 (strip preset_id) vendor canonical) (\<lambda>key.
        if \<not> has_pass g key then Inl not_prevalidated else Inr ()))"

definition validate_and_record ::
  "(string \<Rightarrow> string) \<Rightarrow> (json \<Rightarrow> json \<Rightarrow> schema_error list) \<Rightarrow> catalog \<Rightarrow> evidence_gate \<Rightarrow>
   validation_input \<Rightarrow> evidence_gate \<times> (exn + validation_report)" where
  "validate_and_record blake3 schema_errors cat g i =
     (case validate_completion_evidence schema_errors cat i of
        Inl e \<Rightarrow> (g, Inl e)
      | Inr report \<Rightarrow>
          if completion_evidence_validation_ok report then
            (case evidence_validation_gate_key blake3 (vd_preset_id i) (vd_vendor_payload i)
                    (vd_canonical_payload i) of
               Inl e \<Rightarrow> (g, Inl e)
             | Inr key \<Rightarrow> (record_pass key g, Inr report))
          else (g, Inr report))"

section \<open>Lemmas\<close>

lemma push_kinds_Nil [simp]: "push_kinds ks d = [] \<longleftrightarrow> ks = [] \<and> d = []"
proof (induction ks arbitrary: d)
  case (Cons k ks)
  have "push_kinds (k # ks) d = push_kinds ks (push_kind k d)" by (simp add: push_kinds_def)
  moreover have "push_kind k d \<noteq> []" by (auto simp: push_kind_def)
  ultimately show ?case using Cons.IH[of "push_kind k d"] by simp
qed (simp add: push_kinds_def)

text \<open>A report without drift is one in which every check passed.\<close>

definition clean_report :: "validation_report \<Rightarrow> bool" where
  "clean_report r \<longleftrightarrow>
     vp_vendor_schema_ok r \<and> vp_canonical_schema_ok r \<and> vp_quality_fields_missing r = [] \<and>
     vp_forbidden_fields_present r = [] \<and> \<not> vp_pack_stale r"

lemma evidence_report_clean:
  "completion_evidence_validation_ok (evidence_report se resolved preset i) \<longleftrightarrow>
     clean_report (evidence_report se resolved preset i)"
  by (auto simp: completion_evidence_validation_ok_def clean_report_def evidence_report_def Let_def
      push_kind_def)

lemma validate_completion_evidence_clean:
  assumes "validate_completion_evidence se cat i = Inr r"
  shows "completion_evidence_validation_ok r \<longleftrightarrow> clean_report r"
  using assms evidence_report_clean by (auto simp: validate_completion_evidence_def rbind_Inr_iff)

text \<open>The key of a payload does not depend on the order of the payload's fields.\<close>

lemma gate_key_perm:
  assumes "wf_dict v" "mset v' = mset v" "wf_dict c" "mset c' = mset c"
  shows "evidence_validation_gate_key blake3 p (Some v') (Some c') =
         evidence_validation_gate_key blake3 p (Some v) (Some c)"
  using canonicalize_perm[OF assms(2)[symmetric] assms(1)] canonicalize_perm[OF assms(4)[symmetric] assms(3)]
  by (simp add: evidence_validation_gate_key_def json_value_digest_def opt_obj_def Let_def)

text \<open>The passes of a gate are the keys of the validations that reported no drift.\<close>

definition passed_key ::
  "(string \<Rightarrow> string) \<Rightarrow> (json \<Rightarrow> json \<Rightarrow> schema_error list) \<Rightarrow> catalog \<Rightarrow> validation_input \<Rightarrow> string \<Rightarrow> bool" where
  "passed_key blake3 se cat i key \<longleftrightarrow>
     (case validate_completion_evidence se cat i of
        Inl e \<Rightarrow> False
      | Inr r \<Rightarrow> completion_evidence_validation_ok r \<and>
          evidence_validation_gate_key blake3 (vd_preset_id i) (vd_vendor_payload i)
            (vd_canonical_payload i) = Inr key)"

definition after_validations ::
  "(string \<Rightarrow> string) \<Rightarrow> (json \<Rightarrow> json \<Rightarrow> schema_error list) \<Rightarrow> catalog \<Rightarrow> validation_input list \<Rightarrow>
   evidence_gate \<Rightarrow> evidence_gate" where
  "after_validations blake3 se cat inputs g = fold (\<lambda>i g. fst (validate_and_record blake3 se cat g i)) inputs g"

lemma validate_and_record_passes:
  "key \<in> set (eg_passes (fst (validate_and_record b se cat g i))) \<longleftrightarrow>
     key \<in> set (eg_passes g) \<or> passed_key b se cat i key"
  "eg_policy (fst (validate_and_record b se cat g i)) = eg_policy g"
  by (auto simp: validate_and_record_def passed_key_def record_pass_def split: sum.splits)

lemma after_validations_passes:
  "key \<in> set (eg_passes (after_validations b se cat inputs g)) \<longleftrightarrow>
     key \<in> set (eg_passes g) \<or> (\<exists>i \<in> set inputs. passed_key b se cat i key)"
  "eg_policy (after_validations b se cat inputs g) = eg_policy g"
  by (induction inputs arbitrary: g) (auto simp: after_validations_def validate_and_record_passes)

lemma require_pass_Inr:
  "require_pass b g p v c = Inr u \<longleftrightarrow>
     eg_policy g = Evidence_Off \<or> strip p = [] \<or>
     (\<exists>key. evidence_validation_gate_key b p v c = Inr key \<and> key \<in> set (eg_passes g))"
  by (auto simp: require_pass_def evidence_validation_gate_key_def has_pass_def Let_def rbind_Inr_iff
      split: if_splits)

end
