(* ===== verification/Mcp_Server.thy ===== *)
theory Mcp_Server
  imports Mcp_Policy Mcp_Token_Cache Mcp_Reload_Gate Evidence_Gate
begin

text \<open>
  The runtime of \<open>mcp_server.py\<close> that all its tools share: the scopes of the credential, the
  wrapper around every tool call (scope denial, in-flight count, redaction of the response), the
  capability tokens it stores on the way, the spend authorization and the evidence submission.
  The redaction is \<open>cli/redact.py\<close> with \<open>mask_api_key\<close> of \<open>login.py\<close> and \<open>redact_attach_bundle\<close>
  of \<open>agent/attach_bundle.py\<close>.
\<close>

section \<open>Redaction\<close>

definition endswith :: "string \<Rightarrow> string \<Rightarrow> bool" where
  "endswith s p \<longleftrightarrow> startswith (rev s) (rev p)"

definition mask_api_key :: "string \<Rightarrow> string" where
  "mask_api_key raw_key =
     (let parts = py_split (CHR ''_'') (strip raw_key) in
      if length parts \<ge> 5 \<and> parts ! 0 = ''paybond'' \<and> parts ! 1 = ''sk'' then
        (let key_id = parts ! 3;
             redacted = (if length key_id > 12
                         then take 8 key_id @ ''...'' @ drop (length key_id - 4) key_id
                         else ''redacted'')
         in ''paybond_sk_'' @ parts ! 2 @ ''_'' @ redacted)
      else ''paybond_sk_...'')"

definition redact_attach_bundle :: "string \<Rightarrow> string" where
  "redact_attach_bundle bundle =
     (if startswith (strip bundle) ''ab1.'' then ''ab1.<redacted>'' else ''<redacted>'')"

definition is_sensitive_seed_key :: "string \<Rightarrow> bool" where
  "is_sensitive_seed_key key \<longleftrightarrow>
     (let l = lower key in
      l \<in> set [''payee_signing_seed'', ''agent_recognition_signing_seed''] \<or>
      endswith l ''_seed'' \<or> endswith l ''_seed_hex'')"

definition is_attach_bundle_key :: "string \<Rightarrow> bool" where
  "is_attach_bundle_key key \<longleftrightarrow> lower key \<in> set [''attach_bundle'', ''paybond_attach_bundle'']"

definition is_token_key :: "string \<Rightarrow> bool" where
  "is_token_key key \<longleftrightarrow>
     (let l = lower key in
      l \<in> set [''capability_token'', ''access_token'', ''refresh_token''] \<or>
      endswith l ''_token'' \<and> l \<notin> set [''token_type''])"

definition is_api_key_key :: "string \<Rightarrow> bool" where
  "is_api_key_key key \<longleftrightarrow> lower key = ''api_key'' \<or> endswith (lower key) ''_api_key''"

text \<open>Only strings have content to redact among decoded JSON scalars.\<close>

definition hide :: "json \<Rightarrow> json" where
  "hide v = (case v of JStr s \<Rightarrow> if strip s \<noteq> [] then JStr ''[redacted]'' else v | _ \<Rightarrow> v)"

definition redact_sensitive_scalar :: "string \<Rightarrow> json \<Rightarrow> json" where
  "redact_sensitive_scalar key v =
     (if is_token_key key then hide v
      else if is_api_key_key key then (case v of JStr s \<Rightarrow> JStr (mask_api_key s) | _ \<Rightarrow> v)
      else if is_attach_bundle_key key then
        (case v of JStr s \<Rightarrow> if strip s \<noteq> [] then JStr (redact_attach_bundle s) else v | _ \<Rightarrow> v)
      else (case v of
          JStr s \<Rightarrow>
            if startswith (strip s) ''ab1.'' then JStr (redact_attach_bundle s)
            else if is_sensitive_seed_key key then hide v else v
        | _ \<Rightarrow> v))"

definition is_container :: "json \<Rightarrow> bool" where
  "is_container j = (case j of JArr _ \<Rightarrow> True | JObj _ \<Rightarrow> True | _ \<Rightarrow> False)"

primrec redact_sensitive_fields :: "json \<Rightarrow> json" where
  "redact_sensitive_fields JNull = JNull"
| "redact_sensitive_fields (JBool b) = JBool b"
| "redact_sensitive_fields (JInt i) = JInt i"
| "redact_sensitive_fields (JNum q) = JNum q"
| "redact_sensitive_fields (JStr s) = JStr s"
| "redact_sensitive_fields (JArr l) = JArr (List.map redact_sensitive_fields l)"
| "redact_sensitive_fields (JObj d) =
     JObj (List.map (\<lambda>(k, r). (k, if is_container r then r else redact_sensitive_scalar k r))
             (List.map (map_prod id redact_sensitive_fields) d))"

section \<open>The scopes of the credential\<close>

record scope_context =
  mx_restricted :: bool
  mx_scopes :: "mcp_scope list"
  mx_unresolved_reason :: "string option"

record mcp_runtime =
  ms_key_kind :: key_kind
  ms_scope_context :: "scope_context option"
  ms_token_cache :: token_cache
  ms_evidence_gate :: evidence_gate
  ms_policy_gate :: "gate option"

text \<open>\<open>who\<close> is what \<open>principal()\<close> gives or raises; the context is resolved once.\<close>

definition resolve_scope_context :: "key_kind \<Rightarrow> exn + (string, json) dict \<Rightarrow> exn + scope_context" where
  "resolve_scope_context kind who = (case who of
       Inl e \<Rightarrow>
         if \<not> is_exception e then Inl e
         else if kind = Restricted
         then Inr \<lparr>mx_restricted = True, mx_scopes = [], mx_unresolved_reason = Some (exn_str e)\<rparr>
         else Inr \<lparr>mx_restricted = False, mx_scopes = [], mx_unresolved_reason = None\<rparr>
     | Inr p \<Rightarrow>
         Inr \<lparr>mx_restricted = (lower (strip (str_get p ''key_kind'')) = ''restricted'' \<or> kind = Restricted),
              mx_scopes = parse_mcp_scopes (jget p ''mcp_scopes''), mx_unresolved_reason = None\<rparr>)"

definition scope_context ::
  "mcp_runtime \<Rightarrow> exn + (string, json) dict \<Rightarrow> mcp_runtime \<times> (exn + scope_context)" where
  "scope_context rt who = (case ms_scope_context rt of
       Some c \<Rightarrow> (rt, Inr c)
     | None \<Rightarrow> (case resolve_scope_context (ms_key_kind rt) who of
           Inl e \<Rightarrow> (rt, Inl e)
         | Inr c \<Rightarrow> (rt\<lparr>ms_scope_context := Some c\<rparr>, Inr c)))"

definition scope_denial :: "string \<Rightarrow> scope_context \<Rightarrow> string option" where
  "scope_denial n c =
     (if \<not> mx_restricted c then None
      else (case mx_unresolved_reason c of
          Some reason \<Rightarrow> Some (''Restricted key scopes could not be resolved from the Paybond gateway '' @
            ''principal: '' @ reason @ ''. Refusing to run '' @ n @ '' until the scope grant is readable.'')
        | None \<Rightarrow>
            if tool_allowed_by_scope n (mx_scopes c) then None
            else (case required_scope_for_tool n of
                None \<Rightarrow> Some (''Tool blocked by restricted key scopes: '' @ n @ '' is not mapped to an MCP '' @
                  ''scope. Use a standard key or upgrade paybond-kit.'')
              | Some required \<Rightarrow> Some (''Tool blocked by restricted key scopes: '' @ n @ '' requires '' @
                  format_mcp_scope required))))"

definition list_tools_for_principal :: "scope_context \<Rightarrow> string list \<Rightarrow> string list" where
  "list_tools_for_principal c tools =
     (if \<not> mx_restricted c then tools
      else if mx_unresolved_reason c \<noteq> None then []
      else filter (\<lambda>n. tool_allowed_by_scope n (mx_scopes c)) tools)"

section \<open>Tool calls\<close>

definition prepare_tool_response ::
  "mcp_runtime \<Rightarrow> string \<Rightarrow> (string, json) dict \<Rightarrow> rat \<Rightarrow> rat \<Rightarrow> mcp_runtime \<times> json" where
  "prepare_tool_response rt tool_name body n1 n2 =
     (let intent_id = strip (str_get body ''intent_id'');
          rt = (case map_of body ''capability_token'' of
              Some (JStr token) \<Rightarrow>
                if mcp_tool_stores_capability_token tool_name \<and> intent_id \<noteq> [] \<and> strip token \<noteq> []
                then rt\<lparr>ms_token_cache := store_token (ms_token_cache rt) intent_id token n1 n2\<rparr>
                else rt
            | _ \<Rightarrow> rt)
      in (rt, redact_sensitive_fields (JObj body)))"

text \<open>
  The wrapper of every tool: the denial, the in-flight count of the policy gate around the tool's
  function \<open>func\<close>, and the preparation of a response that is a dictionary.
\<close>

definition begin_policy_tool_call :: "mcp_runtime \<Rightarrow> mcp_runtime" where
  "begin_policy_tool_call rt = rt\<lparr>ms_policy_gate := map_option begin_tool_call (ms_policy_gate rt)\<rparr>"

definition end_policy_tool_call :: "mcp_runtime \<Rightarrow> mcp_runtime" where
  "end_policy_tool_call rt = rt\<lparr>ms_policy_gate := map_option end_tool_call (ms_policy_gate rt)\<rparr>"

definition wrapped_tool_call ::
  "mcp_runtime \<Rightarrow> exn + (string, json) dict \<Rightarrow> string \<Rightarrow> (mcp_runtime \<Rightarrow> mcp_runtime \<times> (exn + json)) \<Rightarrow>
   rat \<Rightarrow> rat \<Rightarrow> mcp_runtime \<times> (exn + json)" where
  "wrapped_tool_call rt who n func n1 n2 =
     (case scope_context rt who of
        (rt, Inl e) \<Rightarrow> (rt, Inl e)
      | (rt, Inr c) \<Rightarrow>
          (case scope_denial n c of
             Some message \<Rightarrow> (rt, Inl (RuntimeError message))
           | None \<Rightarrow>
               (case func (begin_policy_tool_call rt) of
                  (rt, Inl e) \<Rightarrow> (end_policy_tool_call rt, Inl e)
                | (rt, Inr (JObj body)) \<Rightarrow>
                    (let (rt, j) = prepare_tool_response rt n body n1 n2 in (end_policy_tool_call rt, Inr j))
                | (rt, Inr j) \<Rightarrow> (end_policy_tool_call rt, Inr j))))"

section \<open>Spend authorization\<close>

definition resolve_capability_token ::
  "mcp_runtime \<Rightarrow> string \<Rightarrow> string option \<Rightarrow> rat \<Rightarrow> rat \<Rightarrow> mcp_runtime \<times> (exn + string)" where
  "resolve_capability_token rt intent_id token n1 n2 =
     (let explicit = strip (str_or token []) in
      if explicit \<noteq> [] then (rt, Inr explicit)
      else
        (let (stored, cache) = resolve_token (ms_token_cache rt) intent_id n1 n2;
             rt = rt\<lparr>ms_token_cache := cache\<rparr>
         in (rt, (case stored of
               Some (c # cs) \<Rightarrow> Inr (c # cs)
             | _ \<Rightarrow> Inl (ValueError (''capability token unavailable or expired for intent '' @ intent_id @
                      ''; create or bootstrap a funded intent first''))))))"

definition read_intent_allowed_tools :: "(string, json) dict \<Rightarrow> string list" where
  "read_intent_allowed_tools intent = (case map_of intent ''allowed_tools'' of
       Some (JArr raw) \<Rightarrow> List.map strip (filter (\<lambda>s. strip s \<noteq> []) (List.map_filter as_str raw))
     | _ \<Rightarrow> [])"

text \<open>The body of the verify request, and what its answer must name.\<close>

definition verify_body :: "uuid \<Rightarrow> string \<Rightarrow> string \<Rightarrow> int \<Rightarrow> (string, json) dict" where
  "verify_body intent token operation cents =
     [(''intent_id'', JStr (uuid_str intent)), (''token'', JStr token),
      (''operation'', JStr operation), (''requested_spend_cents'', JInt cents)]"

definition check_verify_answer ::
  "string \<Rightarrow> uuid \<Rightarrow> (string, json) dict \<Rightarrow> exn + (string, json) dict" where
  "check_verify_answer tenant intent body =
     (let echoed = strip (str_get body ''tenant''); echoed_intent = strip (str_get body ''intent_id'') in
      rbind (ensure (echoed = tenant) (TenantBindingError (''tenant mismatch: expected='' @ py_repr tenant @
               '' gateway='' @ py_repr echoed))) (\<lambda>_.
      rbind (ensure (echoed_intent = uuid_str intent) (TenantBindingError (''verify intent mismatch: requested='' @
               uuid_str intent @ '' gateway='' @ py_repr echoed_intent))) (\<lambda>_. Inr body)))"

definition with_policy_digest :: "string option \<Rightarrow> (string, json) dict \<Rightarrow> (string, json) dict" where
  "with_policy_digest digest body =
     (if str_or digest [] \<noteq> [] then AList.update ''policy_digest'' (JStr (str_or digest [])) body else body)"

text \<open>
  \<open>post\<close> answers the verify request and \<open>intent_out\<close> the read of the intent; the second component
  is what was posted, None when the call was refused before.
\<close>

definition authorize_agent_spend ::
  "mcp_runtime \<Rightarrow> string \<Rightarrow> uuid \<Rightarrow> string \<Rightarrow> string \<Rightarrow> int option \<Rightarrow> string option \<Rightarrow>
   exn + (string, json) dict \<Rightarrow> ((string, json) dict \<Rightarrow> exn + (string, json) dict) \<Rightarrow>
   mcp_runtime \<times> (string, json) dict option \<times> (exn + (string, json) dict)" where
  "authorize_agent_spend rt tenant intent token operation cents tool_name intent_out post =
     (case ms_policy_gate rt of
        None \<Rightarrow>
          (let b = verify_body intent token operation (case cents of None \<Rightarrow> 0 | Some c \<Rightarrow> c)
           in (rt, Some b, rbind (post b) (check_verify_answer tenant intent)))
      | Some g \<Rightarrow>
          (case intent_out of
             Inl e \<Rightarrow> (rt, None, Inl e)
           | Inr i \<Rightarrow>
               (let (g, gated) = assert_spend_gate g
                      \<lparr>gi_operation = operation, gi_allowed_tools = read_intent_allowed_tools i,
                       gi_tool_name = tool_name, gi_arguments = JNull, gi_requested_spend_cents = cents\<rparr>;
                    rt = rt\<lparr>ms_policy_gate := Some g\<rparr>
                in case gated of
                     Inl e \<Rightarrow> (rt, None, Inl e)
                   | Inr r \<Rightarrow>
                       (let b = verify_body intent token (gr_operation r) (gr_requested_spend_cents r)
                        in (rt, Some b, rbind (rbind (post b) (check_verify_answer tenant intent))
                             (\<lambda>body. Inr (with_policy_digest (gr_policy_digest r) body)))))))"

section \<open>Evidence submission\<close>

text \<open>The gate stands before the mutation: \<open>submit\<close> posts the signed body.\<close>

definition submit_harbor_evidence ::
  "(string \<Rightarrow> string) \<Rightarrow> mcp_runtime \<Rightarrow> (string, json) dict \<Rightarrow> string option \<Rightarrow>
   ((string, json) dict \<Rightarrow> exn + (string, json) dict) \<Rightarrow>
   (string, json) dict option \<times> (exn + (string, json) dict)" where
  "submit_harbor_evidence blake3 rt body completion_preset_id submit =
     (let (preset_id, vendor, canonical) = extract_harbor_evidence_validation_input body completion_preset_id in
      case require_pass blake3 (ms_evidence_gate rt) preset_id vendor canonical of
        Inl e \<Rightarrow> (None, Inl e)
      | Inr _ \<Rightarrow> (Some body, submit body))"

section \<open>Lemmas\<close>

lemma is_container_redact [simp]: "is_container (redact_sensitive_fields j) = is_container j"
  by (cases j) (simp_all add: is_container_def)

lemma redact_scalar [simp]: "\<not> is_container j \<Longrightarrow> redact_sensitive_fields j = j"
  by (cases j) (simp_all add: is_container_def)

text \<open>Every key and value of the objects of a value, at any depth.\<close>

primrec fields :: "json \<Rightarrow> (string \<times> json) list" where
  "fields JNull = []"
| "fields (JBool b) = []"
| "fields (JInt i) = []"
| "fields (JNum q) = []"
| "fields (JStr s) = []"
| "fields (JArr l) = concat (List.map fields l)"
| "fields (JObj d) = d @ concat (List.map snd (List.map (map_prod id fields) d))"

lemma fields_scalar: "\<not> is_container j \<Longrightarrow> fields j = []"
  by (cases j) (simp_all add: is_container_def)

lemma redact_sensitive_scalar_scalar: "\<not> is_container v \<Longrightarrow> \<not> is_container (redact_sensitive_scalar k v)"
  by (cases v) (auto simp: redact_sensitive_scalar_def hide_def is_container_def)

text \<open>A scalar of a redacted value is the redaction of its field's value.\<close>

lemma redact_fields:
  assumes "(k, v) \<in> set (fields (redact_sensitive_fields j))" "\<not> is_container v"
  shows "\<exists>v'. (k, v') \<in> set (fields j) \<and> \<not> is_container v' \<and> v = redact_sensitive_scalar k v'"
  using assms
proof (induction j)
  case (JArr l)
  then show ?case by fastforce
next
  case (JObj d)
  let ?r = "\<lambda>(k, r). (k, if is_container r then r else redact_sensitive_scalar k r)"
  from JObj.prems(1) consider
      (here) u where "(k, u) \<in> set d" "v = snd (?r (k, redact_sensitive_fields u))"
    | (deep) k' u where "(k', u) \<in> set d" "(k, v) \<in> set (fields (snd (?r (k', redact_sensitive_fields u))))"
    by (auto simp: image_iff split: prod.splits)
  then show ?case
  proof cases
    case here
    then have "\<not> is_container u" using JObj.prems(2) by (auto split: if_splits)
    then show ?thesis using here by (intro exI[of _ u]) simp
  next
    case deep
    have "is_container u"
      using deep(2) fields_scalar redact_sensitive_scalar_scalar by (cases "is_container u") fastforce+
    then have "(k, v) \<in> set (fields (redact_sensitive_fields u))" using deep(2) by simp
    then obtain v' where v': "(k, v') \<in> set (fields u)" "\<not> is_container v'" "v = redact_sensitive_scalar k v'"
      using JObj.IH[OF deep(1)] JObj.prems(2) by auto
    have "(k, v') \<in> set (fields (JObj d))"
      using deep(1) v'(1) by (auto intro!: bexI[of _ "(k', u)"])
    then show ?thesis using v' by blast
  qed
qed simp_all

lemma redact_token_fields:
  assumes "(k, JStr s) \<in> set (fields (redact_sensitive_fields j))" "is_token_key k"
  shows "s = ''[redacted]'' \<or> strip s = []"
  using redact_fields[OF assms(1)] assms(2)
  by (auto simp: is_container_def redact_sensitive_scalar_def hide_def split: json.splits if_splits)

text \<open>A tool is listed exactly when a call of it is not denied.\<close>

lemma list_tools_denial:
  "n \<in> set (list_tools_for_principal c tools) \<longleftrightarrow> n \<in> set tools \<and> scope_denial n c = None"
  by (auto simp: list_tools_for_principal_def scope_denial_def split: option.splits)

lemma scope_denial_None:
  "scope_denial n c = None \<longleftrightarrow>
     \<not> mx_restricted c \<or> mx_unresolved_reason c = None \<and> tool_allowed_by_scope n (mx_scopes c)"
  by (auto simp: scope_denial_def split: option.splits)

text \<open>A key that looks restricted stays restricted, whatever the principal says.\<close>

lemma resolve_scope_context_restricted:
  "resolve_scope_context Restricted who = Inr c \<Longrightarrow>
     mx_restricted c \<and> (\<forall>e. who = Inl e \<longrightarrow> mx_unresolved_reason c \<noteq> None)"
  by (auto simp: resolve_scope_context_def split: sum.splits if_splits)

lemma wrapped_tool_call_denied:
  assumes "ms_scope_context rt = Some c" "scope_denial n c \<noteq> None"
  shows "\<exists>m. wrapped_tool_call rt who n func n1 n2 = (rt, Inl (RuntimeError m))"
  using assms by (auto simp: wrapped_tool_call_def scope_context_def)

definition gate_in_flight :: "mcp_runtime \<Rightarrow> int option" where
  "gate_in_flight rt = map_option ga_in_flight_count (ms_policy_gate rt)"

lemma begin_end_in_flight:
  "gate_in_flight (begin_policy_tool_call rt) = map_option (\<lambda>n. n + 1) (gate_in_flight rt)"
  "gate_in_flight (end_policy_tool_call rt) = map_option (\<lambda>n. max 0 (n - 1)) (gate_in_flight rt)"
  by (simp_all add: gate_in_flight_def begin_policy_tool_call_def end_policy_tool_call_def
      begin_tool_call_def end_tool_call_def option.map_comp comp_def)

lemma prepare_tool_response_gate [simp]:
  "ms_policy_gate (fst (prepare_tool_response rt n body n1 n2)) = ms_policy_gate rt"
  by (simp add: prepare_tool_response_def Let_def split: option.splits json.splits)

text \<open>A tool function that leaves the count alone leaves it alone under the wrapper too.\<close>

lemma wrapped_tool_call_in_flight:
  assumes "\<And>rt. gate_in_flight (fst (func rt)) = gate_in_flight rt"
    and "\<And>k. gate_in_flight rt = Some k \<Longrightarrow> 0 \<le> k"
  shows "gate_in_flight (fst (wrapped_tool_call rt who n func n1 n2)) = gate_in_flight rt"
proof -
  have restored: "gate_in_flight (end_policy_tool_call rt2) = gate_in_flight rt1"
    if "gate_in_flight rt2 = map_option (\<lambda>n. n + 1) (gate_in_flight rt1)" "gate_in_flight rt1 = gate_in_flight rt"
    for rt1 rt2
    using that assms(2) by (auto simp: begin_end_in_flight option.map_comp comp_def
        intro!: option.map_ident_strong)
  obtain rt1 r where sc: "scope_context rt who = (rt1, r)" by fastforce
  have same: "gate_in_flight rt1 = gate_in_flight rt"
    using sc by (auto simp: scope_context_def gate_in_flight_def split: option.splits sum.splits)
  obtain rt2 res where f: "func (begin_policy_tool_call rt1) = (rt2, res)" by fastforce
  have two: "gate_in_flight rt2 = map_option (\<lambda>n. n + 1) (gate_in_flight rt1)"
    using assms(1)[of "begin_policy_tool_call rt1"] by (simp add: f begin_end_in_flight)
  have prep: "gate_in_flight (fst (prepare_tool_response rt2 n body n1 n2)) = gate_in_flight rt2" for body
    by (simp add: gate_in_flight_def)
  show ?thesis
    using same restored[OF two same] restored[OF trans[OF prep two] same]
    by (auto simp: wrapped_tool_call_def sc f case_prod_unfold Let_def split: sum.splits option.splits json.splits)
qed

text \<open>What is posted is what the gate decided.\<close>

lemma authorize_agent_spend_posted:
  assumes "authorize_agent_spend rt tenant intent token operation cents tool_name intent_out post = (rt', Some b, res)"
    and "ms_policy_gate rt = Some g"
  shows "\<exists>i r. intent_out = Inr i \<and> snd (assert_spend_gate g
      \<lparr>gi_operation = operation, gi_allowed_tools = read_intent_allowed_tools i, gi_tool_name = tool_name,
       gi_arguments = JNull, gi_requested_spend_cents = cents\<rparr>) = Inr r \<and>
     b = verify_body intent token (gr_operation r) (gr_requested_spend_cents r)"
  using assms
  by (auto simp: authorize_agent_spend_def Let_def case_prod_unfold split: sum.splits)

lemma authorize_agent_spend_answer:
  assumes "authorize_agent_spend rt tenant intent token operation cents tool_name intent_out post = (rt', p, Inr body)"
  shows "strip (str_get body ''tenant'') = tenant" "strip (str_get body ''intent_id'') = uuid_str intent"
proof -
  have keep: "str_get (with_policy_digest g b) k = str_get b k" if "k \<noteq> ''policy_digest''" for g b k
    using that by (simp add: with_policy_digest_def str_get_def update_conv')
  have "\<exists>b g. check_verify_answer tenant intent b = Inr b \<and> (body = b \<or> body = with_policy_digest g b)"
    using assms
    by (auto simp: authorize_agent_spend_def Let_def case_prod_unfold rbind_Inr_iff check_verify_answer_def
        split: option.splits sum.splits)
  then show "strip (str_get body ''tenant'') = tenant" "strip (str_get body ''intent_id'') = uuid_str intent"
    by (auto simp: check_verify_answer_def Let_def rbind_Inr_iff keep)
qed

lemma submit_harbor_evidence_posted:
  "fst (submit_harbor_evidence blake3 rt body pid submit) = Some b \<longleftrightarrow> b = body \<and>
     (case extract_harbor_evidence_validation_input body pid of (p, v, c) \<Rightarrow>
        require_pass blake3 (ms_evidence_gate rt) p v c = Inr ())"
  by (auto simp: submit_harbor_evidence_def split: prod.splits sum.splits)

end
