(* ===== verification/Mcp_Surface.thy ===== *)
theory Mcp_Surface
  imports Mcp_Server
begin

text \<open>
  The properties of an MCP server's surface: which tools a credential sees and may call, what a
  tool's answer may reveal, what the server posts when it authorizes a spend or submits evidence,
  and that its token cache never returns an old token.  Each property is followed by an instance.
\<close>

section \<open>Scopes\<close>

text \<open>What a grant covers: a required scope is satisfied exactly when some entry of the grant,
  in object or token form, names that scope of the catalog at that level or above; unknown scopes,
  unknown levels and malformed entries grant nothing.\<close>

theorem grant_covers:
  "scope_satisfies (parse_mcp_scopes (JArr es)) (i, l) \<longleftrightarrow>
     (\<exists>e \<in> set es. \<exists>l'. entry_scope (Wire e) = Some (i, l') \<and> l \<le> l')"
  by (simp add: parse_mcp_scopes_def parse_entries_satisfies)

text \<open>A scope of the catalog, at a level the catalog allows, survives being written as a token
  and parsed back.\<close>

theorem scope_token_roundtrip:
  assumes "d \<in> set MCP_SCOPE_DEFINITIONS" "l \<le> sd_max_level d"
  shows "parse_mcp_scope_token (format_mcp_scope (sd_id d, l)) = Inr (sd_id d, l)"
  using assms by (rule token_roundtrip)

theorem scope_token_roundtrip_witness:
  "list_all (\<lambda>d. parse_mcp_scope_token (format_mcp_scope (sd_id d, Read)) = Inr (sd_id d, Read)) MCP_SCOPE_DEFINITIONS"
  unfolding list_all_iff using scope_token_roundtrip Read_le by blast

text \<open>The tool annotations and the scope table agree on all of the server's tools: the same tools,
  read-only exactly where a read scope is enough, and live-money exactly where the settlement scope is
  required; and every required scope is in the catalog.\<close>

theorem surface_matches_scopes:
  "set (keys MCP_TOOL_ANNOTATIONS) = set (keys MCP_TOOL_SCOPES) \<and>
   list_all (\<lambda>(n, a). fst (tool_annotations_flags a) = (map_option snd (required_scope_for_tool n) = Some Read) \<and>
     is_live_money_tool n a = (map_option fst (required_scope_for_tool n) = Some ''mcp.settlement'')) MCP_TOOL_ANNOTATIONS \<and>
   list_all (\<lambda>(n, s). within_catalog s) MCP_TOOL_SCOPES"
  using annotations_match_scopes catalog_consistent(1) by (auto simp: list_all_iff)

text \<open>C13: A restricted credential, by its key or by the principal, can call a tool exactly when the
  server lists the tool for it; when its grant cannot be read it is listed nothing and can call
  nothing.\<close>

theorem listed_iff_callable:
  assumes "resolve_scope_context kind who = Inr c" "n \<in> set tools"
    and "kind = Restricted \<or> (\<exists>p. who = Inr p \<and> lower (strip (str_get p ''key_kind'')) = ''restricted'')"
  shows "(n \<in> set (list_tools_for_principal c tools) \<longleftrightarrow> scope_denial n c = None) \<and>
    (scope_denial n c = None \<longleftrightarrow> (\<exists>p. who = Inr p \<and> tool_allowed_by_scope n (parse_mcp_scopes (jget p ''mcp_scopes''))))"
  using assms
  by (auto simp: list_tools_denial scope_denial_None resolve_scope_context_def split: sum.splits if_splits)

theorem listed_iff_callable_witness:
  "scope_denial ''paybond_fund_intent'' \<lparr>mx_restricted = True, mx_scopes = [(''mcp.spend'', Read)], mx_unresolved_reason = None\<rparr> \<noteq> None \<and>
   (''paybond_fund_intent'' \<in> set (list_tools_for_principal
      \<lparr>mx_restricted = True, mx_scopes = [(''mcp.spend'', Read)], mx_unresolved_reason = None\<rparr> [''paybond_fund_intent'']) \<longleftrightarrow> False)"
proof -
  let ?p = "[(''mcp_scopes'', JArr [JStr ''mcp.spend:read''])]"
  let ?c = "\<lparr>mx_restricted = True, mx_scopes = [(''mcp.spend'', Read)], mx_unresolved_reason = None\<rparr>"
  have p: "parse_mcp_scopes (jget ?p ''mcp_scopes'') = [(''mcp.spend'', Read)]" by code_simp
  have "resolve_scope_context Restricted (Inr ?p) = Inr ?c"
    by (simp add: resolve_scope_context_def p)
  from listed_iff_callable[OF this, of "''paybond_fund_intent''" "[''paybond_fund_intent'']"]
  have "(''paybond_fund_intent'' \<in> set (list_tools_for_principal ?c [''paybond_fund_intent'']) \<longleftrightarrow>
           scope_denial ''paybond_fund_intent'' ?c = None) \<and>
        (scope_denial ''paybond_fund_intent'' ?c = None \<longleftrightarrow> tool_allowed_by_scope ''paybond_fund_intent'' [(''mcp.spend'', Read)])"
    by (auto simp: p)
  moreover have "\<not> tool_allowed_by_scope ''paybond_fund_intent'' [(''mcp.spend'', Read)]" by code_simp
  ultimately show ?thesis by simp
qed

text \<open>A denied tool is not run: the call raises and the server's state is untouched.\<close>

theorem denied_tool_not_run:
  assumes "ms_scope_context rt = Some c" "scope_denial n c \<noteq> None"
  shows "\<exists>m. wrapped_tool_call rt who n func n1 n2 = (rt, Inl (RuntimeError m))"
  using assms by (rule wrapped_tool_call_denied)

definition sample_runtime :: "scope_context option \<Rightarrow> mcp_runtime" where
  "sample_runtime c = \<lparr>ms_key_kind = Restricted, ms_scope_context = c,
     ms_token_cache = new_token_cache default_token_cache_config,
     ms_evidence_gate = \<lparr>eg_policy = Strict, eg_passes = []\<rparr>, ms_policy_gate = None\<rparr>"

definition unreadable_grant :: scope_context where
  "unreadable_grant = \<lparr>mx_restricted = True, mx_scopes = [], mx_unresolved_reason = Some ''timeout''\<rparr>"

theorem denied_tool_not_run_witness:
  "\<exists>m. wrapped_tool_call (sample_runtime (Some unreadable_grant)) (Inr []) ''paybond_fund_intent''
     (\<lambda>rt. (rt, Inr JNull)) 0 0 = (sample_runtime (Some unreadable_grant), Inl (RuntimeError m))"
  by (rule denied_tool_not_run[where c = unreadable_grant]) (simp add: sample_runtime_def, code_simp)

section \<open>What a tool's answer reveals\<close>

text \<open>
  The names of secrets, written down here and compared in lower case: the three tokens, any other
  \<open>..._token\<close>, the two signing seeds, and any other \<open>..._seed\<close> or \<open>..._seed_hex\<close>.
\<close>

definition names_secret :: "string \<Rightarrow> bool" where
  "names_secret k \<longleftrightarrow>
     lower k \<in> {''capability_token'', ''access_token'', ''refresh_token'',
                ''payee_signing_seed'', ''agent_recognition_signing_seed''} \<or>
     suffix ''_token'' (lower k) \<or> suffix ''_seed'' (lower k) \<or> suffix ''_seed_hex'' (lower k)"

lemma endswith_iff_suffix: "endswith s p \<longleftrightarrow> suffix p s"
  by (simp add: endswith_def startswith_iff_prefix suffix_to_prefix)

lemma endswith_suffix: "suffix p s \<Longrightarrow> endswith s p"
  by (simp add: endswith_iff_suffix)

lemma suffix_last: "suffix p s \<Longrightarrow> p \<noteq> [] \<Longrightarrow> last s = last p"
  by (auto simp: suffix_def)

lemma endswith_last: "endswith s p \<Longrightarrow> p \<noteq> [] \<Longrightarrow> last s = last p"
  by (simp add: endswith_iff_suffix suffix_last)

lemma secret_hidden:
  assumes "names_secret k" "redact_sensitive_scalar k v = JStr s"
  shows "s = ''[redacted]'' \<or> s = ''ab1.<redacted>'' \<or> strip s = []"
proof (cases "is_token_key k")
  case True
  then show ?thesis
    using assms(2) by (auto simp: redact_sensitive_scalar_def hide_def split: json.splits if_splits)
next
  case False
  have tt: "\<not> suffix ''_token'' ''token_type''" by (simp add: suffix_def)
  have l: "suffix ''_seed'' (lower k) \<or> suffix ''_seed_hex'' (lower k)"
    using assms(1) False tt endswith_suffix[of "''_token''" "lower k"]
    by (auto simp: names_secret_def is_token_key_def Let_def suffix_def)
  then have z: "last (lower k) = CHR ''d'' \<or> last (lower k) = CHR ''x''"
    using suffix_last by fastforce
  have "is_sensitive_seed_key k"
    using l endswith_suffix by (auto simp: is_sensitive_seed_key_def Let_def)
  moreover have "\<not> is_api_key_key k"
    using z endswith_last[of "lower k" "''_api_key''"] by (auto simp: is_api_key_key_def)
  moreover have "\<not> is_attach_bundle_key k"
    using z by (auto simp: is_attach_bundle_key_def)
  ultimately show ?thesis
    using assms(2) False
    by (auto simp: redact_sensitive_scalar_def hide_def redact_attach_bundle_def split: json.splits if_splits)
qed


definition leaking_tool :: "mcp_runtime \<Rightarrow> mcp_runtime \<times> (exn + json)" where
  "leaking_tool rt = (rt, Inr (JObj [(''intent_id'', JStr ''i1''),
     (''funding'', JArr [JObj [(''Capability_Token'', JStr ''secret'')]])]))"

definition open_access :: scope_context where
  "open_access = \<lparr>mx_restricted = False, mx_scopes = [], mx_unresolved_reason = None\<rparr>"


text \<open>The two answers outside it.\<close>

lemma listed_secret_kept:
  "redact_sensitive_fields (JObj [(''refresh_token'', JArr [JStr t])]) = JObj [(''refresh_token'', JArr [JStr t])]"
  by (simp add: is_container_def)

lemma other_answers_kept:
  "snd (wrapped_tool_call (sample_runtime (Some open_access)) (Inr []) ''paybond_fund_intent''
      (\<lambda>rt. (rt, Inr (JStr t))) 0 0) = Inr (JStr t)"
proof -
  have "scope_denial ''paybond_fund_intent'' open_access = None" by code_simp
  then show ?thesis
    by (simp add: wrapped_tool_call_def sample_runtime_def scope_context_def begin_policy_tool_call_def
        end_policy_tool_call_def Let_def)
qed

section \<open>Spend authorization\<close>

text \<open>C15: With a policy gate, a spend authorization posts exactly the operation and the amount the
  gate decided on the intent's own allow-list, and nothing when the gate refuses; an answer is
  returned only when it is about the server's tenant and the requested intent.\<close>

theorem spend_follows_gate:
  assumes "authorize_agent_spend rt tenant intent token operation cents tool_name (Inr i) post = (rt', posted, res)"
    and "ms_policy_gate rt = Some g"
  shows "posted = (case snd (assert_spend_gate g
        \<lparr>gi_operation = operation, gi_allowed_tools = read_intent_allowed_tools i, gi_tool_name = tool_name,
         gi_arguments = JNull, gi_requested_spend_cents = cents\<rparr>) of
       Inl e \<Rightarrow> None
     | Inr r \<Rightarrow> Some (verify_body intent token (gr_operation r) (gr_requested_spend_cents r))) \<and>
    (\<forall>body. res = Inr body \<longrightarrow> posted \<noteq> None \<and> strip (str_get body ''tenant'') = tenant \<and>
       strip (str_get body ''intent_id'') = uuid_str intent)"
proof -
  let ?i = "\<lparr>gi_operation = operation, gi_allowed_tools = read_intent_allowed_tools i, gi_tool_name = tool_name,
         gi_arguments = JNull, gi_requested_spend_cents = cents\<rparr>"
  obtain g' gated where a: "assert_spend_gate g ?i = (g', gated)" by fastforce
  have p: "posted = (case gated of Inl e \<Rightarrow> None
     | Inr r \<Rightarrow> Some (verify_body intent token (gr_operation r) (gr_requested_spend_cents r)))"
    using assms by (cases gated) (auto simp: authorize_agent_spend_def Let_def a)
  moreover have "posted \<noteq> None" if "res = Inr body" for body
    using assms that by (cases gated) (auto simp: authorize_agent_spend_def Let_def a)
  moreover have "strip (str_get body ''tenant'') = tenant \<and> strip (str_get body ''intent_id'') = uuid_str intent"
    if "res = Inr body" for body
    using authorize_agent_spend_answer[OF assms(1)[unfolded that]] by blast
  ultimately show ?thesis unfolding a by simp
qed

definition sample_gate :: gate where
  "sample_gate = \<lparr>ga_config = \<lparr>gc_policy_file = ''p.yaml'', gc_reload_mode = Reload_Off, gc_allow_loosen = False,
       gc_watch_debounce_ms = None, gc_poll_interval_ms = None\<rparr>,
     ga_snapshot = \<lparr>sn_digest = ''sha256:aa'', sn_version = ''p@aa'', sn_loaded_at = ''t'', sn_source = From_File,
       sn_registry = \<lparr>rg_default_deny = True,
         rg_side_effecting = [(''book'', \<lparr>te_tool_name = ''book'', te_operation = ''travel.book'',
           te_evidence_preset = ''receipt_ok'', te_spend_cents = Some (Spend_Cents 900),
           te_evidence_mapper = None, te_external_attestation_mapper = None\<rparr>)],
         rg_operations = [''travel.book'']\<rparr>,
       sn_document = \<lparr>d1_name = ''p'', d1_default_deny = True, d1_tools = [], d1_intent = None, d1_adapter = None\<rparr>\<rparr>,
     ga_in_flight_count = 0, ga_last_allowed_tools = [],
     ga_reload_defaults = \<lparr>ro_file = None, ro_remote = False, ro_resolve_inheritance = False,
       ro_allow_loosen = False, ro_gateway = False\<rparr>,
     ga_last_reload_at = None, ga_last_reload_error = None\<rparr>"

definition sample_spend :: "(string, json) dict \<Rightarrow> mcp_runtime \<times> (string, json) dict option \<times> (exn + (string, json) dict)" where
  "sample_spend intent = authorize_agent_spend ((sample_runtime None)\<lparr>ms_policy_gate := Some sample_gate\<rparr>)
     ''acme'' ''00000000000000000000000000000001'' ''cap-1'' ''travel.book'' None (Some ''book'') (Inr intent)
     (\<lambda>b. Inr [(''tenant'', JStr ''acme''), (''intent_id'', jget b ''intent_id''), (''allow'', JBool True)])"

theorem spend_follows_gate_witness:
  "fst (snd (sample_spend [(''allowed_tools'', JArr [JStr ''travel.book''])])) =
     Some (verify_body ''00000000000000000000000000000001'' ''cap-1'' ''travel.book'' 900) \<and>
   fst (snd (sample_spend [])) = None"
proof -
  let ?rt = "(sample_runtime None)\<lparr>ms_policy_gate := Some sample_gate\<rparr>"
  have g: "ms_policy_gate ?rt = Some sample_gate" by simp
  have *: "fst (snd (sample_spend i)) = (case snd (assert_spend_gate sample_gate
        \<lparr>gi_operation = ''travel.book'', gi_allowed_tools = read_intent_allowed_tools i, gi_tool_name = Some ''book'',
         gi_arguments = JNull, gi_requested_spend_cents = None\<rparr>) of
       Inl e \<Rightarrow> None
     | Inr r \<Rightarrow> Some (verify_body ''00000000000000000000000000000001'' ''cap-1''
         (gr_operation r) (gr_requested_spend_cents r)))" for i
  proof -
    have "sample_spend i = (fst (sample_spend i), fst (snd (sample_spend i)), snd (snd (sample_spend i)))" by simp
    from spend_follows_gate[OF this[unfolded sample_spend_def] g] show ?thesis
      unfolding sample_spend_def by (rule conjunct1)
  qed
  show ?thesis unfolding * by code_simp
qed

section \<open>Evidence\<close>

lemma passed_key_iff:
  "passed_key b se cat i key \<longleftrightarrow> (\<exists>r. validate_completion_evidence se cat i = Inr r \<and> vp_drift_kinds r = [] \<and>
     evidence_validation_gate_key b (vd_preset_id i) (vd_vendor_payload i) (vd_canonical_payload i) = Inr key)"
  by (cases "validate_completion_evidence se cat i")
    (auto simp: passed_key_def completion_evidence_validation_ok_def)

text \<open>In strict mode evidence is posted only after a clean validation: if a server whose gate has
  seen some validations posts a body that names a completion preset, then one of those validations
  reported no drift and had the very same digest of preset, vendor payload and canonical payload.\<close>

theorem evidence_prevalidated:
  assumes "ms_evidence_gate rt = after_validations blake3 se cat inputs \<lparr>eg_policy = Strict, eg_passes = []\<rparr>"
    and "fst (submit_harbor_evidence blake3 rt body pid submit) = Some posted"
    and "extract_harbor_evidence_validation_input body pid = (p, v, c)" "strip p \<noteq> []"
  shows "posted = body \<and> (\<exists>i \<in> set inputs. \<exists>r key. validate_completion_evidence se cat i = Inr r \<and>
    vp_drift_kinds r = [] \<and> evidence_validation_gate_key blake3 p v c = Inr key \<and>
    evidence_validation_gate_key blake3 (vd_preset_id i) (vd_vendor_payload i) (vd_canonical_payload i) = Inr key)"
proof -
  have "posted = body" "require_pass blake3 (ms_evidence_gate rt) p v c = Inr ()"
    using assms(2,3) by (auto simp: submit_harbor_evidence_posted)
  then obtain key where "evidence_validation_gate_key blake3 p v c = Inr key"
      "key \<in> set (eg_passes (ms_evidence_gate rt))"
    using assms(1,4) by (auto simp: require_pass_Inr after_validations_passes)
  then show ?thesis
    using assms(1) \<open>posted = body\<close>
    by (auto simp: after_validations_passes passed_key_iff)
qed

definition plain_preset :: completion_preset where
  "plain_preset = \<lparr>cp_preset_id = ''receipt_ok'', cp_kind = None, cp_archetype_preset_id = None,
     cp_harbor_template_id = ''receipt_v1'', cp_parameters = [], cp_evidence_schema = JObj [],
     cp_sample_evidence = [], cp_evidence_field_map = [], cp_vendor_evidence_schema = None,
     cp_vendor_contract = None, cp_forbidden_evidence_fields = None,
     cp_deprecated = False, cp_superseded_by = None\<rparr>"

definition plain_input :: validation_input where
  "plain_input = \<lparr>vd_preset_id = ''receipt_ok'', vd_vendor_payload = None,
     vd_canonical_payload = Some [(''ok'', JBool True)], vd_frozen_vendor_api_version = None,
     vd_frozen_vendor_schema_digest_hex = None, vd_frozen_canonical_schema_digest_hex = None\<rparr>"

definition validated_runtime :: mcp_runtime where
  "validated_runtime = (sample_runtime None)\<lparr>ms_evidence_gate :=
     after_validations (\<lambda>s. s) (\<lambda>s j. []) [plain_preset] [plain_input] \<lparr>eg_policy = Strict, eg_passes = []\<rparr>\<rparr>"

definition plain_body :: "bool \<Rightarrow> (string, json) dict" where
  "plain_body b = [(''completion_preset_id'', JStr ''receipt_ok''), (''payload'', JObj [(''ok'', JBool b)])]"

definition body_posted :: "bool \<Rightarrow> bool" where
  "body_posted b \<longleftrightarrow> fst (submit_harbor_evidence (\<lambda>s. s) validated_runtime (plain_body b) None Inr) \<noteq> None"

lemma plain_body_posted: "body_posted True" "\<not> body_posted False"
  by code_simp+

theorem evidence_prevalidated_witness:
  "body_posted True \<and> \<not> body_posted False \<and>
   (\<exists>r. validate_completion_evidence (\<lambda>s j. []) [plain_preset] plain_input = Inr r \<and> vp_drift_kinds r = [])"
proof -
  have ext: "extract_harbor_evidence_validation_input (plain_body True) None =
      (''receipt_ok'', None, Some [(''ok'', JBool True)])"
    by code_simp
  obtain posted where "fst (submit_harbor_evidence (\<lambda>s. s) validated_runtime (plain_body True) None Inr) = Some posted"
    using plain_body_posted(1) by (auto simp: body_posted_def)
  from evidence_prevalidated[OF _ this ext, of "\<lambda>s j. []" "[plain_preset]" "[plain_input]"]
  show ?thesis using plain_body_posted by (auto simp: validated_runtime_def strip_eq_Nil_iff py_space_def)
qed

text \<open>A validation reports no drift exactly when nothing is wrong: the vendor and the canonical
  payload match their schemas, no quality field is missing, no forbidden field is present and the
  vendor pack is not stale.\<close>

theorem no_drift_iff_clean:
  assumes "validate_completion_evidence se cat i = Inr r"
  shows "completion_evidence_validation_ok r \<longleftrightarrow>
    vp_vendor_schema_ok r \<and> vp_canonical_schema_ok r \<and> vp_quality_fields_missing r = [] \<and>
    vp_forbidden_fields_present r = [] \<and> \<not> vp_pack_stale r"
  using validate_completion_evidence_clean[OF assms] by (simp add: clean_report_def)

theorem no_drift_iff_clean_witness:
  "\<exists>r. validate_completion_evidence (\<lambda>s j. []) [plain_preset] plain_input = Inr r \<and>
     completion_evidence_validation_ok r \<and> vp_canonical_schema_ok r"
proof -
  have "is_inr (validate_completion_evidence (\<lambda>s j. []) [plain_preset] plain_input)" by code_simp
  then obtain r where r: "validate_completion_evidence (\<lambda>s j. []) [plain_preset] plain_input = Inr r"
    by (auto simp: is_inr_def split: sum.splits)
  have "(case validate_completion_evidence (\<lambda>s j. []) [plain_preset] plain_input of
      Inr r \<Rightarrow> completion_evidence_validation_ok r | _ \<Rightarrow> False)" by code_simp
  then have "completion_evidence_validation_ok r" unfolding r by simp
  with no_drift_iff_clean[OF r] r show ?thesis by blast
qed

section \<open>Capability tokens\<close>

text \<open>C16: After any sequence of stores and lookups on a new token cache, a lookup returns a token only
  if it is the last one stored for that intent, stripped, and no older than the time to live; and a
  token that was just stored is found, whatever the cache's size limit evicts.\<close>

theorem resolve_returns_last_stored:
  assumes "fst (resolve_token (run_cache store_token (\<lambda>c k (q :: unit) n1 n2. resolve_token c k n1 n2) ops
      (new_token_cache cfg)) k n1 n2) = Some w"
  shows "\<exists>v t. last_put strip (\<lambda>k v. strip k \<noteq> [] \<and> strip v \<noteq> []) ops k None = Some (v, t) \<and>
    w = strip v \<and> n2 - t \<le> tg_ttl_sec cfg"
proof -
  have "token_cache_ok (new_token_cache cfg)" "token_contents (new_token_cache cfg) j = None" for j
    by (simp_all add: token_cache_ok_def new_token_cache_def token_contents_def wf_dict_def)
  from tokens.take_returns_last_put[OF this assms] show ?thesis by (simp add: new_token_cache_def)
qed

theorem resolve_returns_last_stored_witness:
  "fst (resolve_token (run_cache store_token (\<lambda>c k (q :: unit) n1 n2. resolve_token c k n1 n2)
      [Put ''i1'' '' old '' 0 0, Put ''i1 '' '' new '' 5 5] (new_token_cache default_token_cache_config)) ''i1'' 10 10) =
      Some ''new'' \<and> 10 - (5 :: rat) \<le> 900"
proof -
  have "fst (resolve_token (run_cache store_token (\<lambda>c k (q :: unit) n1 n2. resolve_token c k n1 n2)
      [Put ''i1'' '' old '' 0 0, Put ''i1 '' '' new '' 5 5] (new_token_cache default_token_cache_config)) ''i1'' 10 10) =
      Some ''new''" by code_simp
  from resolve_returns_last_stored[OF this] this show ?thesis
    by (auto simp: default_token_cache_config_def)
qed

text \<open>A stored token is found by the next lookup of its intent within the time to live, and the
  cache never grows past its limit.\<close>

theorem stored_token_found:
  assumes "token_cache_ok c" "1 \<le> tk_max_entries c" "int (length (tk_entries c)) \<le> tk_max_entries c"
    and "strip k \<noteq> []" "strip v \<noteq> []" "m1 - n2 \<le> tk_ttl_sec c" "m2 - n2 \<le> tk_ttl_sec c"
  shows "fst (resolve_token (store_token c k v n1 n2) k m1 m2) = Some (strip v) \<and>
    int (length (tk_entries (store_token c k v n1 n2))) \<le> tk_max_entries c"
  using store_then_resolve[OF assms(1,2,4-7)] store_token_bounded[OF _ assms(3)] assms(2) by simp

theorem stored_token_found_witness:
  "fst (resolve_token (store_token (store_token (new_token_cache \<lparr>tg_ttl_sec = 60, tg_max_entries = 1\<rparr>)
      ''i1'' ''t1'' 0 0) ''i2'' '' t2'' 1 1) ''i2'' 50 50) = Some (strip '' t2'')"
  by (rule conjunct1[OF stored_token_found])
    (simp_all add: token_cache_ok_def store_token_def new_token_cache_def evict_expired_def Let_def
      del_keys_def strip_eq_Nil_iff py_space_def move_to_end_def wf_dict_def)

end
