(* ===== verification/Merkle_Inclusion.thy ===== *)
theory Merkle_Inclusion
  imports Policy_Snapshot Harbor_Client
begin

text \<open>
  \<open>agent_receipt_inclusion.py\<close>: RFC 6962 inclusion proofs of agent receipts under a signed
  tree head.  Byte strings are \<open>string\<close>s.  SHA-256 is the parameter \<open>H\<close> on byte strings, and
  the Ed25519 verification the parameter \<open>verify_sig\<close>.

  Against the reference tree of RFC 6962 (\<open>mth\<close> and \<open>audit_path\<close>) the verifier is complete,
  and sound up to a collision of \<open>H\<close> that \<open>collision\<close> computes from the accepted proof.
\<close>

section \<open>Bytes\<close>

definition unhex_digit :: "char \<Rightarrow> nat" where
  "unhex_digit c = (let n = (of_char c :: nat) in if n < 58 then n - 48 else n - 87)"

fun unhex :: "string \<Rightarrow> string" where
  "unhex (a # b # s) = char_of (16 * unhex_digit a + unhex_digit b) # unhex s"
| "unhex _ = []"

definition to_hex :: "string \<Rightarrow> string" where
  "to_hex s = concat (List.map (\<lambda>c. let n = (of_char c :: nat) in [hex_char (n div 16), hex_char (n mod 16)]) s)"

definition utf8 :: "string \<Rightarrow> string" where
  "utf8 s = concat (List.map (\<lambda>c. let n = (of_char c :: nat)
     in if n < 128 then [c] else [char_of (192 + n div 64), char_of (128 + n mod 64)]) s)"

section \<open>The tree\<close>

text \<open>The loop of \<open>_largest_power_of_two_less_than\<close>; it starts at 1, so \<open>k\<close> is positive.\<close>

function power_loop :: "nat \<Rightarrow> nat \<Rightarrow> nat" where
  "power_loop n k = (if 0 < k \<and> k * 2 < n then power_loop n (k * 2) else k)"
  by pat_completeness auto
termination
  by (relation "measure (\<lambda>(n, k). n - k)") auto

declare power_loop.simps [simp del]

definition largest_power_of_two_less_than :: "nat \<Rightarrow> nat" where
  "largest_power_of_two_less_than n = (if n \<le> 1 then 0 else power_loop n 1)"

definition merkle_leaf_hash_rfc6962 :: "(string \<Rightarrow> string) \<Rightarrow> string \<Rightarrow> string" where
  "merkle_leaf_hash_rfc6962 H d = H (CHR 0x00 # d)"

definition merkle_node_hash_rfc6962 :: "(string \<Rightarrow> string) \<Rightarrow> string \<Rightarrow> string \<Rightarrow> string" where
  "merkle_node_hash_rfc6962 H l r = H (CHR 0x01 # l @ r)"

lemma power_loop_bounds: "\<lbrakk>0 < k; k < n\<rbrakk> \<Longrightarrow> 0 < power_loop n k \<and> power_loop n k < n"
proof (induction n k rule: power_loop.induct)
  case (1 n k)
  show ?case
  proof (cases "k * 2 < n")
    case True
    then show ?thesis using 1 by (subst (1 2) power_loop.simps) simp
  next
    case False
    then show ?thesis using 1 by (subst (1 2) power_loop.simps) simp
  qed
qed

lemma split_bounds [simp]:
  assumes "1 < n"
  shows "0 < largest_power_of_two_less_than n" "largest_power_of_two_less_than n < n"
  using assms power_loop_bounds[of 1 n] by (simp_all add: largest_power_of_two_less_than_def)

lemma split_bounds_le [simp]:
  assumes "\<not> n \<le> Suc 0"
  shows "0 < largest_power_of_two_less_than n" "largest_power_of_two_less_than n < n"
    "\<not> n \<le> largest_power_of_two_less_than n" "n - largest_power_of_two_less_than n < n"
proof -
  have "1 < n" using assms by simp
  from split_bounds[OF this] show "0 < largest_power_of_two_less_than n" "largest_power_of_two_less_than n < n"
    "\<not> n \<le> largest_power_of_two_less_than n" "n - largest_power_of_two_less_than n < n"
    by linarith+
qed

text \<open>It is the largest power of two below \<open>n\<close>, as its name says.\<close>

lemma power_loop_power:
  "\<lbrakk>0 < k; k < n\<rbrakk> \<Longrightarrow> \<exists>e. power_loop n k = k * 2 ^ e \<and> n \<le> 2 * power_loop n k"
proof (induction n k rule: power_loop.induct)
  case (1 n k)
  show ?case
  proof (cases "k * 2 < n")
    case True
    then obtain e where e: "power_loop n (k * 2) = k * 2 * 2 ^ e" "n \<le> 2 * power_loop n (k * 2)"
      using 1 by auto
    have "power_loop n k = power_loop n (k * 2)"
      using True 1(2) by (subst power_loop.simps) simp
    then show ?thesis using e by (intro exI[of _ "Suc e"]) simp
  next
    case False
    then have "power_loop n k = k" by (subst power_loop.simps) simp
    then show ?thesis using False by (intro exI[of _ 0]) simp
  qed
qed

lemma largest_power_of_two:
  "1 < n \<Longrightarrow> \<exists>e. largest_power_of_two_less_than n = 2 ^ e \<and> 2 ^ e < n \<and> n \<le> 2 * 2 ^ e"
  using power_loop_power[of 1 n] split_bounds[of n] by (auto simp: largest_power_of_two_less_than_def)

text \<open>
  The verifier's walk.  On a tree of size 0 the Python function recurses for ever, which its
  caller excludes; the interpreter's recursion error stands for it.
\<close>

definition path_too_short :: exn where
  "path_too_short = ValueError ''agent receipt transparency: audit path too short''"

function reconstruct_merkle_root ::
  "(string \<Rightarrow> string) \<Rightarrow> string \<Rightarrow> nat \<Rightarrow> nat \<Rightarrow> string list \<Rightarrow> exn + string \<times> nat" where
  "reconstruct_merkle_root H leaf_hash leaf_index tree_size audit_path =
     (if tree_size = 0 then Inl (RuntimeError ''maximum recursion depth exceeded'')
      else if tree_size = 1 then Inr (leaf_hash, 0)
      else
        (let k = largest_power_of_two_less_than tree_size in
         if leaf_index < k
         then rbind (reconstruct_merkle_root H leaf_hash leaf_index k audit_path) (\<lambda>(left, consumed).
           if consumed \<ge> length audit_path then Inl path_too_short
           else Inr (merkle_node_hash_rfc6962 H left (audit_path ! consumed), consumed + 1))
         else rbind (reconstruct_merkle_root H leaf_hash (leaf_index - k) (tree_size - k) audit_path) (\<lambda>(right, consumed).
           if consumed \<ge> length audit_path then Inl path_too_short
           else Inr (merkle_node_hash_rfc6962 H (audit_path ! consumed) right, consumed + 1))))"
  by pat_completeness auto
termination
  by (relation "measure (\<lambda>(H, l, i, n, p). n)") auto

declare reconstruct_merkle_root.simps [simp del]

section \<open>The reference tree\<close>

text \<open>RFC 6962: the root of a list of leaf hashes, and the audit path of one of them.\<close>

function mth :: "(string \<Rightarrow> string) \<Rightarrow> string list \<Rightarrow> string" where
  "mth H xs =
     (if length xs \<le> 1 then (case xs of [] \<Rightarrow> H [] | x # _ \<Rightarrow> x)
      else (let k = largest_power_of_two_less_than (length xs)
            in merkle_node_hash_rfc6962 H (mth H (take k xs)) (mth H (drop k xs))))"
  by pat_completeness auto
termination
  by (relation "measure (\<lambda>(H, xs). length xs)") (auto simp: min_def)

function audit_path :: "(string \<Rightarrow> string) \<Rightarrow> nat \<Rightarrow> string list \<Rightarrow> string list" where
  "audit_path H m xs =
     (if length xs \<le> 1 then []
      else (let k = largest_power_of_two_less_than (length xs)
            in if m < k then audit_path H m (take k xs) @ [mth H (drop k xs)]
               else audit_path H (m - k) (drop k xs) @ [mth H (take k xs)]))"
  by pat_completeness auto
termination
  by (relation "measure (\<lambda>(H, m, xs). length xs)") (auto simp: min_def)

declare mth.simps [simp del] audit_path.simps [simp del]

lemma reconstruct_complete:
  "m < length xs \<Longrightarrow>
     reconstruct_merkle_root H (xs ! m) m (length xs) (audit_path H m xs @ rest) =
       Inr (mth H xs, length (audit_path H m xs))"
proof (induction H m xs arbitrary: rest rule: audit_path.induct)
  case (1 H m xs)
  show ?case
  proof (cases "length xs \<le> 1")
    case True
    with 1(3) obtain x where "xs = [x]" "m = 0" by (cases xs) auto
    then show ?thesis by (simp add: reconstruct_merkle_root.simps audit_path.simps mth.simps)
  next
    case False
    define k where "k = largest_power_of_two_less_than (length xs)"
    have k: "0 < k" "k < length xs" using False by (simp_all add: k_def)
    have mth: "mth H xs = merkle_node_hash_rfc6962 H (mth H (take k xs)) (mth H (drop k xs))"
      using False by (subst mth.simps) (simp add: k_def Let_def)
    show ?thesis
    proof (cases "m < k")
      case True
      have p: "audit_path H m xs = audit_path H m (take k xs) @ [mth H (drop k xs)]"
        using False True by (subst audit_path.simps) (simp add: k_def Let_def)
      have "reconstruct_merkle_root H (take k xs ! m) m (length (take k xs))
              (audit_path H m (take k xs) @ [mth H (drop k xs)] @ rest)
            = Inr (mth H (take k xs), length (audit_path H m (take k xs)))"
        using 1(1)[OF False k_def True, of "[mth H (drop k xs)] @ rest"] True k by simp
      moreover have "xs \<noteq> []" using k by auto
      ultimately show ?thesis
        using False True k by (subst reconstruct_merkle_root.simps) (simp add: p mth k_def[symmetric] Let_def)
    next
      case ge: False
      have p: "audit_path H m xs = audit_path H (m - k) (drop k xs) @ [mth H (take k xs)]"
        using False ge by (subst audit_path.simps) (simp add: k_def Let_def)
      have "reconstruct_merkle_root H (drop k xs ! (m - k)) (m - k) (length (drop k xs))
              (audit_path H (m - k) (drop k xs) @ [mth H (take k xs)] @ rest)
            = Inr (mth H (drop k xs), length (audit_path H (m - k) (drop k xs)))"
        using 1(2)[OF False k_def ge, of "[mth H (take k xs)] @ rest"] ge k 1(3) by simp
      moreover have "xs \<noteq> []" using k by auto
      ultimately show ?thesis
        using False ge k 1(3)
        by (subst reconstruct_merkle_root.simps) (simp add: p mth k_def[symmetric] Let_def)
    qed
  qed
qed

section \<open>Soundness up to a collision\<close>

text \<open>
  Where an accepted walk and the reference tree part: the first node, from the root down, at
  which the hash inputs differ although the hashes agree.
\<close>

function collision ::
  "(string \<Rightarrow> string) \<Rightarrow> string \<Rightarrow> nat \<Rightarrow> string list \<Rightarrow> string list \<Rightarrow> (string \<times> string) option" where
  "collision H leaf_hash m xs path =
     (if length xs \<le> 1 then None
      else
        (let k = largest_power_of_two_less_than (length xs); l = mth H (take k xs); r = mth H (drop k xs) in
         if m < k
         then (case reconstruct_merkle_root H leaf_hash m k path of
                 Inl e \<Rightarrow> None
               | Inr (left, c) \<Rightarrow>
                   if left = l \<and> path ! c = r then collision H leaf_hash m (take k xs) path
                   else Some (CHR 0x01 # left @ path ! c, CHR 0x01 # l @ r))
         else (case reconstruct_merkle_root H leaf_hash (m - k) (length xs - k) path of
                 Inl e \<Rightarrow> None
               | Inr (right, c) \<Rightarrow>
                   if right = r \<and> path ! c = l then collision H leaf_hash (m - k) (drop k xs) path
                   else Some (CHR 0x01 # path ! c @ right, CHR 0x01 # l @ r))))"
  by pat_completeness auto
termination
  by (relation "measure (\<lambda>(H, l, m, xs, p). length xs)") (auto simp: min_def)

declare collision.simps [simp del]

definition hashes_32 :: "(string \<Rightarrow> string) \<Rightarrow> bool" where
  "hashes_32 H \<longleftrightarrow> (\<forall>x. length (H x) = 32)"

abbreviation all_32 :: "string list \<Rightarrow> bool" where
  "all_32 xs \<equiv> list_all (\<lambda>p. length p = 32) xs"

lemma mth_32: "\<lbrakk>hashes_32 H; all_32 xs\<rbrakk> \<Longrightarrow> length (mth H xs) = 32"
  by (subst mth.simps) (auto simp: hashes_32_def merkle_node_hash_rfc6962_def Let_def split: list.split)

lemma reconstruct_32:
  assumes "reconstruct_merkle_root H leaf m n path = Inr (rt, c)" "hashes_32 H" "length leaf = 32"
  shows "length rt = 32"
  using assms
  by (subst (asm) reconstruct_merkle_root.simps)
    (auto simp: hashes_32_def merkle_node_hash_rfc6962_def Let_def rbind_Inr_iff split: if_splits)

lemma reconstruct_left:
  assumes "reconstruct_merkle_root H leaf m n path = Inr (rt, c)" "1 < n"
    "m < largest_power_of_two_less_than n"
  obtains left c' where
    "reconstruct_merkle_root H leaf m (largest_power_of_two_less_than n) path = Inr (left, c')"
    "c' < length path" "rt = merkle_node_hash_rfc6962 H left (path ! c')" "c = Suc c'"
  using assms
  by (subst (asm) reconstruct_merkle_root.simps) (auto simp: Let_def rbind_Inr_iff split: if_splits)

lemma reconstruct_right:
  assumes "reconstruct_merkle_root H leaf m n path = Inr (rt, c)" "1 < n"
    "\<not> m < largest_power_of_two_less_than n"
  obtains right c' where
    "reconstruct_merkle_root H leaf (m - largest_power_of_two_less_than n)
       (n - largest_power_of_two_less_than n) path = Inr (right, c')"
    "c' < length path" "rt = merkle_node_hash_rfc6962 H (path ! c') right" "c = Suc c'"
  using assms
  by (subst (asm) reconstruct_merkle_root.simps) (auto simp: Let_def rbind_Inr_iff split: if_splits)

text \<open>Two inputs of a node of the same shape that differ, with the same hash.\<close>

lemma node_inputs_differ:
  assumes "length a = 32" "length l = 32" "\<not> (a = l \<and> b = r)"
    and "merkle_node_hash_rfc6962 H a b = merkle_node_hash_rfc6962 H l r"
  shows "CHR 0x01 # a @ b \<noteq> CHR 0x01 # l @ r \<and> H (CHR 0x01 # a @ b) = H (CHR 0x01 # l @ r)"
  using assms by (auto simp: merkle_node_hash_rfc6962_def)

lemma reconstruct_sound:
  assumes "hashes_32 H" "length leaf = 32" "all_32 path" "all_32 xs" "m < length xs"
    and "reconstruct_merkle_root H leaf m (length xs) path = Inr (mth H xs, c)"
    and "leaf \<noteq> xs ! m"
  shows "\<exists>a b. collision H leaf m xs path = Some (a, b) \<and> a \<noteq> b \<and> H a = H b"
  using assms
proof (induction H leaf m xs path arbitrary: c rule: collision.induct)
  case (1 H leaf m xs path)
  note H = 1(3) and leaf = 1(4) and path = 1(5) and xs = 1(6) and m = 1(7) and rec = 1(8) and ne = 1(9)
  show ?case
  proof (cases "length xs \<le> 1")
    case True
    with m obtain x where "xs = [x]" "m = 0" by (cases xs) auto
    then show ?thesis using rec ne by (simp add: reconstruct_merkle_root.simps mth.simps)
  next
    case False
    define k where "k = largest_power_of_two_less_than (length xs)"
    have k: "0 < k" "k < length xs" using False by (simp_all add: k_def)
    define l where "l = mth H (take k xs)"
    define r where "r = mth H (drop k xs)"
    have rt: "mth H xs = merkle_node_hash_rfc6962 H l r"
      using False by (subst mth.simps) (simp add: k_def l_def r_def Let_def)
    have xs': "all_32 (take k xs)" "all_32 (drop k xs)"
      using xs by (auto simp: list_all_iff dest: in_set_takeD in_set_dropD)
    have l32: "length l = 32" using mth_32[OF H] xs' by (simp add: l_def)
    have n: "1 < length xs" using False by simp
    show ?thesis
    proof (cases "m < k")
      case True
      obtain a c' where a: "reconstruct_merkle_root H leaf m k path = Inr (a, c')" "c' < length path"
          "mth H xs = merkle_node_hash_rfc6962 H a (path ! c')"
        by (rule reconstruct_left[OF rec n True[unfolded k_def]]) (rule that, simp_all add: k_def)
      have a32: "length a = 32" using reconstruct_32[OF a(1) H leaf] .
      show ?thesis
      proof (cases "a = l \<and> path ! c' = r")
        case eq: True
        have "\<exists>x y. collision H leaf m (take k xs) path = Some (x, y) \<and> x \<noteq> y \<and> H x = H y"
          by (rule 1(1)[OF False k_def l_def r_def True a(1) refl eq])
            (use H leaf path xs' True k ne a(1) eq in \<open>simp_all add: l_def\<close>)
        then show ?thesis
          using False True a(1) eq
          by (subst collision.simps) (simp add: k_def[symmetric] l_def[symmetric] r_def[symmetric] Let_def)
      next
        case neq: False
        have nd: "merkle_node_hash_rfc6962 H a (path ! c') = merkle_node_hash_rfc6962 H l r"
          using a(3) rt by simp
        have "collision H leaf m xs path = Some (CHR 0x01 # a @ path ! c', CHR 0x01 # l @ r)"
          using False True a(1) neq
          by (subst collision.simps) (auto simp: k_def[symmetric] l_def[symmetric] r_def[symmetric] Let_def)
        then show ?thesis using node_inputs_differ[OF a32 l32 neq nd] by blast
      qed
    next
      case ge: False
      obtain b c' where b: "reconstruct_merkle_root H leaf (m - k) (length xs - k) path = Inr (b, c')"
          "c' < length path" "mth H xs = merkle_node_hash_rfc6962 H (path ! c') b"
        by (rule reconstruct_right[OF rec n ge[unfolded k_def]]) (rule that, simp_all add: k_def)
      have p32: "length (path ! c') = 32" using path b(2) by (simp add: list_all_length)
      show ?thesis
      proof (cases "b = r \<and> path ! c' = l")
        case eq: True
        have "\<exists>x y. collision H leaf (m - k) (drop k xs) path = Some (x, y) \<and> x \<noteq> y \<and> H x = H y"
          by (rule 1(2)[OF False k_def l_def r_def ge b(1) refl eq])
            (use H leaf path xs' ge k ne b(1) eq m in \<open>simp_all add: r_def\<close>)
        then show ?thesis
          using False ge b(1) eq
          by (subst collision.simps) (simp add: k_def[symmetric] l_def[symmetric] r_def[symmetric] Let_def)
      next
        case neq: False
        then have neq': "\<not> (path ! c' = l \<and> b = r)" by blast
        have nd: "merkle_node_hash_rfc6962 H (path ! c') b = merkle_node_hash_rfc6962 H l r"
          using b(3) rt by simp
        have "collision H leaf m xs path = Some (CHR 0x01 # path ! c' @ b, CHR 0x01 # l @ r)"
          using False ge b(1) neq
          by (subst collision.simps) (auto simp: k_def[symmetric] l_def[symmetric] r_def[symmetric] Let_def)
        then show ?thesis using node_inputs_differ[OF p32 l32 neq' nd] by blast
      qed
    qed
  qed
qed

section \<open>Signed tree heads\<close>

definition art_error :: "string \<Rightarrow> exn" where
  "art_error m = ValueError (''agent receipt transparency: '' @ m)"

definition require_hex :: "nat \<Rightarrow> string \<Rightarrow> json \<Rightarrow> string \<Rightarrow> exn + string" where
  "require_hex n what v field =
     (let t = lower (strip (json_text v)) in
      if length t = n \<and> list_all is_hex_lower t then Inr t
      else Inl (art_error (field @ '' must be a lowercase '' @ what)))"

definition require_hex64 :: "json \<Rightarrow> string \<Rightarrow> exn + string" where
  "require_hex64 = require_hex 64 ''64-byte hex SHA-256 digest''"

definition require_hex128 :: "json \<Rightarrow> string \<Rightarrow> exn + string" where
  "require_hex128 = require_hex 128 ''128-char hex Ed25519 signature''"

definition allows_signing_public_key :: "string \<Rightarrow> string list option \<Rightarrow> bool" where
  "allows_signing_public_key key trusted = (case trusted of
       None \<Rightarrow> True
     | Some ks \<Rightarrow> ks = [] \<or> list_ex (\<lambda>k. lower (strip k) = lower (strip key)) ks)"

text \<open>\<open>str(d.get(k, "")).strip()\<close> and \<open>int(d.get(k, -1))\<close>.\<close>

definition text_field :: "(string, json) dict \<Rightarrow> string \<Rightarrow> string" where
  "text_field d k = strip (case map_of d k of None \<Rightarrow> [] | Some v \<Rightarrow> json_text v)"

definition int_field_or :: "(string, json) dict \<Rightarrow> string \<Rightarrow> int \<Rightarrow> exn + int" where
  "int_field_or d k dflt = (case map_of d k of None \<Rightarrow> Inr dflt | Some v \<Rightarrow> py_int v)"

definition int_item :: "(string, json) dict \<Rightarrow> string \<Rightarrow> exn + int" where
  "int_item d k = rbind (body_item d k) py_int"

definition hex64_item :: "(string, json) dict \<Rightarrow> string \<Rightarrow> exn + string" where
  "hex64_item d k = rbind (body_item d k) (\<lambda>v. require_hex64 v k)"

definition STH_KIND :: string where
  "STH_KIND = ''paybond.agent_receipt_transparency_sth_v1''"

definition PROOF_KIND :: string where
  "PROOF_KIND = ''paybond.agent_receipt_transparency_inclusion_proof_v1''"

definition SIGNING_ALGORITHM :: string where
  "SIGNING_ALGORITHM = ''ed25519-sha256-json-v1''"

definition canonical_sth_bytes :: "string \<Rightarrow> int \<Rightarrow> string \<Rightarrow> string \<Rightarrow> string" where
  "canonical_sth_bytes tenant_id tree_size root_hash issued_at =
     utf8 (''{'' @ py_join '',''
       (List.map (\<lambda>(k, v). json_string_unicode k @ '':'' @ v)
         [(''kind'', json_string_unicode STH_KIND), (''schema_version'', str_int 1),
          (''tenant_id'', json_string_unicode tenant_id), (''tree_size'', str_int tree_size),
          (''root_hash_sha256_hex'', json_string_unicode root_hash), (''issued_at'', json_string_unicode issued_at),
          (''signing_algorithm'', json_string_unicode SIGNING_ALGORITHM)]) @ ''}'')"

text \<open>The verified head: the fields that its caller reads.\<close>

record tree_head =
  th_tenant_id :: string
  th_tree_size :: int
  th_root_hash :: string
  th_issued_at :: string
  th_message_digest :: string
  th_public_key :: string
  th_signature :: string

definition verify_signed_tree_head_v1 ::
  "(string \<Rightarrow> string) \<Rightarrow> (string \<Rightarrow> string \<Rightarrow> string \<Rightarrow> bool) \<Rightarrow> string list option \<Rightarrow>
   (string, json) dict \<Rightarrow> exn + tree_head" where
  "verify_signed_tree_head_v1 H verify_sig trusted sth =
     rbind (ensure (text_field sth ''kind'' = STH_KIND) (art_error (''kind must be '' @ STH_KIND))) (\<lambda>_.
     rbind (int_field_or sth ''schema_version'' (-1)) (\<lambda>sv.
     rbind (ensure (sv = 1) (art_error ''schema_version must be 1'')) (\<lambda>_.
     let tenant_id = text_field sth ''tenant_id'' in
     rbind (ensure (tenant_id \<noteq> []) (art_error ''tenant_id is required'')) (\<lambda>_.
     rbind (int_item sth ''tree_size'') (\<lambda>tree_size.
     rbind (ensure (0 \<le> tree_size) (art_error ''tree_size must be non-negative'')) (\<lambda>_.
     rbind (ensure (text_field sth ''signing_algorithm'' = SIGNING_ALGORITHM)
              (art_error (''signing_algorithm must be '' @ SIGNING_ALGORITHM))) (\<lambda>_.
     rbind (hex64_item sth ''root_hash_sha256_hex'') (\<lambda>root_hash.
     rbind (hex64_item sth ''message_digest_sha256_hex'') (\<lambda>message_digest.
     rbind (hex64_item sth ''signing_public_key_ed25519_hex'') (\<lambda>key.
     rbind (ensure (allows_signing_public_key key trusted)
              (art_error ''signing_public_key_ed25519_hex is not in the configured trusted key set'')) (\<lambda>_.
     rbind (body_item sth ''issued_at'') (\<lambda>issued.
     let issued_at = strip (json_text issued);
         digest = H (canonical_sth_bytes tenant_id tree_size root_hash issued_at) in
     rbind (ensure (to_hex digest = message_digest) (art_error ''message digest mismatch'')) (\<lambda>_.
     rbind (rbind (body_item sth ''ed25519_signature_hex'') (\<lambda>v. require_hex128 v ''ed25519_signature_hex'')) (\<lambda>sig.
     rbind (ensure (verify_sig (unhex key) (unhex sig) digest)
              (art_error ''ed25519 signature verification failed'')) (\<lambda>_.
     Inr \<lparr>th_tenant_id = tenant_id, th_tree_size = tree_size, th_root_hash = root_hash,
          th_issued_at = issued_at, th_message_digest = message_digest, th_public_key = key,
          th_signature = sig\<rparr>)))))))))))))))"

section \<open>Inclusion proofs\<close>

record inclusion =
  in_tenant_id :: string
  in_receipt_id :: string
  in_message_digest :: string
  in_leaf_hash :: string
  in_root_hash :: string
  in_leaf_index :: int
  in_tree_size :: int
  in_audit_path :: "string list"
  in_tree_head :: tree_head

definition audit_entries :: "(string, json) dict \<Rightarrow> exn + json list" where
  "audit_entries proof = (case jget proof ''audit_path_sha256_hex'' of
       JArr entries \<Rightarrow> Inr entries
     | j \<Rightarrow> if truthy j then Inl (TypeError ''object is not iterable'') else Inr [])"

definition as_mapping :: "json \<Rightarrow> exn + (string, json) dict" where
  "as_mapping j = (case j of JObj d \<Rightarrow> Inr d | _ \<Rightarrow> Inl (TypeError ''not a mapping''))"

definition verify_agent_receipt_inclusion ::
  "(string \<Rightarrow> string) \<Rightarrow> (string \<Rightarrow> string \<Rightarrow> string \<Rightarrow> bool) \<Rightarrow> string list option \<Rightarrow>
   (string, json) dict \<Rightarrow> exn + inclusion" where
  "verify_agent_receipt_inclusion H verify_sig trusted proof =
     rbind (ensure (text_field proof ''kind'' = PROOF_KIND) (art_error (''kind must be '' @ PROOF_KIND))) (\<lambda>_.
     rbind (int_field_or proof ''schema_version'' (-1)) (\<lambda>sv.
     rbind (ensure (sv = 1) (art_error ''schema_version must be 1'')) (\<lambda>_.
     let tenant_id = text_field proof ''tenant_id''; receipt_id = text_field proof ''receipt_id'' in
     rbind (ensure (tenant_id \<noteq> []) (art_error ''tenant_id is required'')) (\<lambda>_.
     rbind (ensure (receipt_id \<noteq> []) (art_error ''receipt_id is required'')) (\<lambda>_.
     rbind (int_item proof ''tree_size'') (\<lambda>tree_size.
     rbind (int_item proof ''leaf_index'') (\<lambda>leaf_index.
     rbind (ensure (0 < tree_size) (art_error ''tree_size must be positive'')) (\<lambda>_.
     rbind (ensure (0 \<le> leaf_index \<and> leaf_index < tree_size) (art_error ''leaf_index out of range'')) (\<lambda>_.
     rbind (hex64_item proof ''message_digest_sha256_hex'') (\<lambda>message_digest.
     rbind (hex64_item proof ''leaf_hash_sha256_hex'') (\<lambda>leaf_hash_hex.
     rbind (hex64_item proof ''root_hash_sha256_hex'') (\<lambda>root_hash_hex.
     rbind (rbind (body_item proof ''tree_head'') as_mapping) (\<lambda>head.
     rbind (verify_signed_tree_head_v1 H verify_sig trusted head) (\<lambda>sth.
     rbind (ensure (th_tenant_id sth = tenant_id) (art_error ''tree_head.tenant_id mismatch'')) (\<lambda>_.
     rbind (ensure (th_tree_size sth = tree_size) (art_error ''tree_head.tree_size mismatch'')) (\<lambda>_.
     rbind (ensure (th_root_hash sth = root_hash_hex) (art_error ''tree_head.root_hash mismatch'')) (\<lambda>_.
     let leaf_hash = merkle_leaf_hash_rfc6962 H (unhex message_digest) in
     rbind (ensure (to_hex leaf_hash = leaf_hash_hex) (art_error ''leaf_hash does not match message digest'')) (\<lambda>_.
     rbind (rbind (audit_entries proof) (rmap (\<lambda>e. rbind (require_hex64 e ''audit_path_sha256_hex'') (\<lambda>t. Inr (unhex t))))) (\<lambda>path.
     rbind (reconstruct_merkle_root H leaf_hash (nat leaf_index) (nat tree_size) path) (\<lambda>(computed, consumed).
     rbind (ensure (consumed = length path) (art_error ''audit path too long'')) (\<lambda>_.
     rbind (ensure (to_hex computed = root_hash_hex) (art_error ''inclusion proof does not match root hash'')) (\<lambda>_.
     Inr \<lparr>in_tenant_id = tenant_id, in_receipt_id = receipt_id, in_message_digest = message_digest,
          in_leaf_hash = leaf_hash_hex, in_root_hash = root_hash_hex, in_leaf_index = leaf_index,
          in_tree_size = tree_size, in_audit_path = path, in_tree_head = sth\<rparr>))))))))))))))))))))))"

section \<open>Hex\<close>

lemma unhex_hex_digit: "n < 16 \<Longrightarrow> unhex_digit (hex_char n) = n"
  by (auto simp: unhex_digit_def hex_char_def Let_def)

lemma unhex_to_hex [simp]: "unhex (to_hex s) = s"
proof (induction s)
  case Nil
  then show ?case by (simp add: to_hex_def)
next
  case (Cons c s)
  define n where "n = (of_char c :: nat)"
  have "n < 256" by (simp add: n_def)
  then have "unhex_digit (hex_char (n div 16)) = n div 16" "unhex_digit (hex_char (n mod 16)) = n mod 16"
    by (simp_all add: unhex_hex_digit)
  then have "unhex (to_hex (c # s)) = char_of n # unhex (to_hex s)"
    by (simp add: to_hex_def Let_def n_def[symmetric])
  then show ?case using Cons.IH by (simp add: n_def)
qed

lemma to_hex_inj: "to_hex a = to_hex b \<longleftrightarrow> a = b"
  by (metis unhex_to_hex)

lemma length_unhex: "length (unhex s) = length s div 2"
  by (induction s rule: unhex.induct) auto

section \<open>What an accepted proof shows\<close>

lemma require_hex64_32: "require_hex64 v f = Inr t \<Longrightarrow> length (unhex t) = 32"
  by (auto simp: require_hex64_def require_hex_def Let_def length_unhex split: if_splits)

lemma audit_entries_32:
  "rmap (\<lambda>e. rbind (require_hex64 e f) (\<lambda>t. Inr (unhex t))) es = Inr path \<Longrightarrow> all_32 path"
  by (induction es arbitrary: path) (auto simp: rbind_Inr_iff dest: require_hex64_32)

lemma verify_agent_receipt_inclusion_Inr:
  assumes "verify_agent_receipt_inclusion H verify_sig trusted proof = Inr i"
  shows "in_tenant_id i = th_tenant_id (in_tree_head i)" "in_tree_size i = th_tree_size (in_tree_head i)"
    "in_root_hash i = th_root_hash (in_tree_head i)" "0 \<le> in_leaf_index i" "in_leaf_index i < in_tree_size i"
    "all_32 (in_audit_path i)"
    "\<exists>computed. reconstruct_merkle_root H (merkle_leaf_hash_rfc6962 H (unhex (in_message_digest i)))
        (nat (in_leaf_index i)) (nat (in_tree_size i)) (in_audit_path i) =
        Inr (computed, length (in_audit_path i)) \<and> to_hex computed = in_root_hash i"
    "\<exists>head. verify_signed_tree_head_v1 H verify_sig trusted head = Inr (in_tree_head i)"
  using assms unfolding verify_agent_receipt_inclusion_def Let_def rbind_Inr_iff ensure_Inr_iff
  by (auto simp: rbind_Inr_iff dest: audit_entries_32)

lemma verify_signed_tree_head_v1_Inr:
  assumes "verify_signed_tree_head_v1 H verify_sig trusted sth = Inr h"
  shows "verify_sig (unhex (th_public_key h)) (unhex (th_signature h))
           (H (canonical_sth_bytes (th_tenant_id h) (th_tree_size h) (th_root_hash h) (th_issued_at h)))"
    "allows_signing_public_key (th_public_key h) trusted"
    "th_message_digest h = to_hex (H (canonical_sth_bytes (th_tenant_id h) (th_tree_size h)
        (th_root_hash h) (th_issued_at h)))"
  using assms unfolding verify_signed_tree_head_v1_def Let_def rbind_Inr_iff ensure_Inr_iff
  by auto

end
