(* ===== verification/Json_Text.thy ===== *)
theory Json_Text
  imports Evidence_Gate Merkle_Inclusion
begin

text \<open>
  The canonical JSON text determines its value: two values without floats that
  \<open>json.dumps(..., separators=(",", ":"), ensure_ascii=False)\<close> prints alike are the same value, and so
  are two whose UTF-8 bytes agree.  The signatures and digests of the kit rest on this.
\<close>

section \<open>Printed integers\<close>

lemma is_digit_char [simp]: "n < (10::nat) \<Longrightarrow> is_digit (char_of (48 + n))"
  by (simp add: is_digit_def)

lemma digits_nat_digits: "list_all is_digit (digits_nat n)"
proof (induction n rule: digits_nat.induct)
  case (1 n)
  show ?case by (subst digits_nat.simps) (use 1 in simp)
qed

lemma digits_nat_nonempty [simp]: "digits_nat n \<noteq> []"
  by (subst digits_nat.simps) simp

lemma digits_val_append: "digits_val (s @ [c]) = 10 * digits_val s + (of_char c - 48)"
  by (simp add: digits_val_def)

lemma digits_val_nat [simp]: "digits_val (digits_nat n) = n"
proof (induction n rule: digits_nat.induct)
  case (1 n)
  show ?case
  proof (cases "n < 10")
    case True
    then show ?thesis by (subst digits_nat.simps) (simp add: digits_val_def)
  next
    case False
    then show ?thesis using 1 by (subst digits_nat.simps) (simp add: digits_val_append)
  qed
qed

lemma span_append:
  assumes "list_all P a" "list_all P b" "x = [] \<or> \<not> P (hd x)" "y = [] \<or> \<not> P (hd y)" "a @ x = b @ y"
  shows "a = b \<and> x = y"
proof -
  have "takeWhile P (a @ x) = a" if "list_all P a" "x = [] \<or> \<not> P (hd x)" for a x
    using that by (cases x) (auto simp: list_all_iff takeWhile_tail)
  then have "a = b" using assms by metis
  then show ?thesis using assms(5) by simp
qed

text \<open>What may follow a value: the end, a comma or a closing bracket.\<close>

definition stops :: "string \<Rightarrow> bool" where
  "stops x \<longleftrightarrow> x = [] \<or> hd x \<in> set '',]}''"

lemma stops_Nil [simp]: "stops []"
  by (simp add: stops_def)

lemma stops_Cons [simp]: "stops (c # x) \<longleftrightarrow> c = CHR '','' \<or> c = CHR '']'' \<or> c = CHR ''}''"
  by (simp add: stops_def)

lemma stops_not_digit: "stops x \<Longrightarrow> x = [] \<or> \<not> is_digit (hd x)"
  by (auto simp: stops_def is_digit_def)

lemma hd_digits_nat: "is_digit (hd (digits_nat n))"
  using digits_nat_digits[of n] by (cases "digits_nat n") auto

lemma str_int_inj:
  assumes "str_int i @ x = str_int j @ y" "stops x" "stops y"
  shows "i = j \<and> x = y"
proof -
  have dash: "digits_nat n @ u \<noteq> CHR ''-'' # v" for n u v
    using hd_digits_nat[of n] by (cases "digits_nat n") (auto simp: is_digit_def)
  have nat: "m = n \<and> x = y" if "digits_nat m @ x = digits_nat n @ y" for m n
    using span_append[OF digits_nat_digits digits_nat_digits stops_not_digit[OF assms(2)]
        stops_not_digit[OF assms(3)] that] digits_val_nat by metis
  consider "i < 0" "j < 0" | "\<not> i < 0" "\<not> j < 0" | "i < 0" "\<not> j < 0" | "\<not> i < 0" "j < 0" by blast
  then show ?thesis
  proof cases
    case 1
    then show ?thesis using assms(1) nat[of "nat (- i)" "nat (- j)"] by (auto simp: str_int_def eq_nat_nat_iff)
  next
    case 2
    then show ?thesis using assms(1) nat[of "nat i" "nat j"] by (auto simp: str_int_def eq_nat_nat_iff)
  next
    case 3
    then show ?thesis using assms(1) dash[of "nat j" y] by (simp add: str_int_def) (metis dash)
  next
    case 4
    then show ?thesis using assms(1) dash[of "nat i" x] by (simp add: str_int_def)
  qed
qed

section \<open>Printed strings\<close>

text \<open>Reading one escaped character back, and what follows it.\<close>

definition read_escaped :: "string \<Rightarrow> char \<times> string" where
  "read_escaped s = (case s of
       c # k # t \<Rightarrow>
         if c \<noteq> CHR 0x5C then (c, k # t)
         else if k = CHR ''n'' then (char_of (10::nat), t)
         else if k = CHR ''r'' then (char_of (13::nat), t)
         else if k = CHR ''t'' then (char_of (9::nat), t)
         else if k = CHR ''b'' then (char_of (8::nat), t)
         else if k = CHR ''f'' then (char_of (12::nat), t)
         else if k = CHR ''u'' then (char_of (16 * unhex_digit (t ! 2) + unhex_digit (t ! 3)), drop 4 t)
         else (k, t)
     | c # _ \<Rightarrow> (c, [])
     | [] \<Rightarrow> (CHR 0x00, []))"

lemma quote_chars [simp]: "char_of (34 :: nat) = CHR 0x22" "char_of (92 :: nat) = CHR 0x5C"
  by code_simp+

lemma read_escaped_unicode: "read_escaped (json_escape_unicode c @ x) = (c, x)"
proof -
  define n where "n = (of_char c :: nat)"
  have c: "c = char_of n" and n: "n < 256" by (simp_all add: n_def)
  have hex: "unhex_digit (hex_char (n div 16)) = n div 16" "unhex_digit (hex_char (n mod 16)) = n mod 16"
    using n by (simp_all add: unhex_hex_digit)
  consider "n \<in> {34, 92, 10, 13, 9, 8, 12}" | "n < 32" "n \<notin> {10, 13, 9, 8, 12}" | "\<not> n < 32" "n \<noteq> 34" "n \<noteq> 92"
    by fastforce
  then show ?thesis
  proof cases
    case 1
    then show ?thesis
      by (auto simp: c json_escape_unicode_def json_escape_def read_escaped_def)
  next
    case 2
    then show ?thesis
      using n hex by (simp add: c json_escape_unicode_def json_escape_def read_escaped_def Let_def)
  next
    case 3
    then have "c \<noteq> CHR 0x5C" by (auto simp: n_def)
    then show ?thesis
      using 3 unfolding json_escape_unicode_def Let_def n_def[symmetric]
      by (cases x) (simp_all add: read_escaped_def)
  qed
qed

lemma json_escape_unicode_inj:
  "json_escape_unicode c @ x = json_escape_unicode d @ y \<Longrightarrow> c = d \<and> x = y"
  by (metis Pair_inject read_escaped_unicode)

lemma json_escape_unicode_hd: "json_escape_unicode c \<noteq> [] \<and> hd (json_escape_unicode c) \<noteq> CHR 0x22"
  by (auto simp: json_escape_unicode_def json_escape_def Let_def)

lemma json_string_inj:
  assumes "json_string_unicode s @ x = json_string_unicode t @ y"
  shows "s = t \<and> x = y"
proof -
  have "concat (List.map json_escape_unicode s) @ CHR 0x22 # x = concat (List.map json_escape_unicode t) @ CHR 0x22 # y"
    using assms by (simp add: json_string_unicode_def quoted_def)
  then show ?thesis
  proof (induction s arbitrary: t)
    case Nil
    then show ?case
      by (cases t; use json_escape_unicode_hd[of "hd t"] in \<open>auto simp: neq_Nil_conv\<close>)
  next
    case (Cons c s)
    show ?case
    proof (cases t)
      case Nil
      then show ?thesis
        using Cons.prems json_escape_unicode_hd[of c] by (auto simp: neq_Nil_conv append_eq_Cons_conv)
    next
      case (Cons d t')
      then show ?thesis
        using Cons.prems Cons.IH[of t'] json_escape_unicode_inj[of c _ d] by auto
    qed
  qed
qed

section \<open>Printed values\<close>

lemma py_join_Cons: "py_join sep (x # xs) = x @ (if xs = [] then [] else sep @ py_join sep xs)"
  by (cases xs) simp_all

text \<open>A comma-separated list up to its closing bracket, when its items can be told apart.\<close>

lemma py_join_inj:
  assumes "py_join '','' (List.map f as) @ c # x = py_join '','' (List.map f bs) @ c # y"
    and "c = CHR '']'' \<or> c = CHR ''}''"
    and "\<And>a b u v. \<lbrakk>a \<in> set as; b \<in> set bs; stops u; stops v; f a @ u = f b @ v\<rbrakk> \<Longrightarrow> a = b \<and> u = v"
    and "\<And>a. a \<in> set as \<union> set bs \<Longrightarrow> f a \<noteq> [] \<and> hd (f a) \<noteq> CHR '']'' \<and> hd (f a) \<noteq> CHR ''}''"
  shows "as = bs \<and> x = y"
  using assms
proof (induction as arbitrary: bs)
  case Nil
  show ?case
  proof (cases bs)
    case (Cons b bs')
    then show ?thesis using Nil.prems(1,2) Nil.prems(4)[of b] by (auto simp: py_join_Cons neq_Nil_conv)
  qed (use Nil in simp)
next
  case (Cons a as)
  show ?case
  proof (cases bs)
    case Nil
    then show ?thesis using Cons.prems(1,2) Cons.prems(4)[of a] by (auto simp: py_join_Cons neq_Nil_conv)
  next
    case bs: (Cons b bs')
    define rest where "rest zs z = (if zs = [] then [] else '','' @ py_join '','' (List.map f zs)) @ c # z" for zs z
    have "f a @ rest as x = f b @ rest bs' y"
      using Cons.prems(1) by (simp add: bs py_join_Cons rest_def)
    moreover have "stops (rest zs z)" for zs z
      using Cons.prems(2) by (auto simp: rest_def)
    ultimately have ab: "a = b" and r: "rest as x = rest bs' y"
      using Cons.prems(3)[of a b "rest as x" "rest bs' y"] by (auto simp: bs)
    have "as = bs' \<and> x = y"
    proof (cases "as = [] \<or> bs' = []")
      case True
      then show ?thesis using r Cons.prems(2) by (auto simp: rest_def split: if_splits)
    next
      case False
      then have "py_join '','' (List.map f as) @ c # x = py_join '','' (List.map f bs') @ c # y"
        using r by (simp add: rest_def)
      then show ?thesis
        by (rule Cons.IH[OF _ Cons.prems(2)]) (use Cons.prems(3,4) bs in auto)
    qed
    then show ?thesis using ab bs by simp
  qed
qed

primrec no_floats :: "json \<Rightarrow> bool" where
  "no_floats JNull = True"
| "no_floats (JBool b) = True"
| "no_floats (JInt i) = True"
| "no_floats (JNum q) = False"
| "no_floats (JStr s) = True"
| "no_floats (JArr l) = list_all id (List.map no_floats l)"
| "no_floats (JObj d) = list_all snd (List.map (map_prod id no_floats) d)"

text \<open>The first character tells the kind of a value.\<close>

definition value_kind :: "json \<Rightarrow> char set" where
  "value_kind j = (case j of
       JNull \<Rightarrow> {CHR ''n''} | JBool b \<Rightarrow> (if b then {CHR ''t''} else {CHR ''f''})
     | JInt _ \<Rightarrow> {c. c = CHR ''-'' \<or> is_digit c} | JNum _ \<Rightarrow> UNIV | JStr _ \<Rightarrow> {CHR 0x22}
     | JArr _ \<Rightarrow> {CHR ''[''} | JObj _ \<Rightarrow> {CHR ''{''})"

lemma json_dumps_hd:
  assumes "no_floats j"
  shows "json_dumps_unicode j \<noteq> [] \<and> hd (json_dumps_unicode j) \<in> value_kind j"
proof (cases j)
  case (JInt i)
  then show ?thesis using hd_digits_nat by (auto simp: value_kind_def str_int_def)
qed (use assms in \<open>auto simp: value_kind_def json_string_unicode_def quoted_def\<close>)

lemma json_dumps_not_closing:
  "no_floats j \<Longrightarrow> json_dumps_unicode j \<noteq> [] \<and> hd (json_dumps_unicode j) \<noteq> CHR '']'' \<and> hd (json_dumps_unicode j) \<noteq> CHR ''}''"
  using json_dumps_hd[of j] by (cases j) (auto simp: value_kind_def is_digit_def split: if_splits)

lemma same_hd: "\<lbrakk>a @ x = b @ y; a \<noteq> []; b \<noteq> []\<rbrakk> \<Longrightarrow> hd a = hd b"
  by (metis hd_append2)

definition print_member :: "string \<times> json \<Rightarrow> string" where
  "print_member = (\<lambda>(k, v). json_string_unicode k @ '':'' @ json_dumps_unicode v)"

lemma json_dumps_obj: "json_dumps_unicode (JObj d) = ''{'' @ py_join '','' (List.map print_member d) @ ''}''"
  by (simp add: print_member_def case_prod_unfold comp_def)

text \<open>One value of a printed text: induction on the value on the left.\<close>

definition reads_unique :: "json \<Rightarrow> bool" where
  "reads_unique a \<longleftrightarrow> (\<forall>b x y. no_floats a \<longrightarrow> no_floats b \<longrightarrow> stops x \<longrightarrow> stops y \<longrightarrow>
     json_dumps_unicode a @ x = json_dumps_unicode b @ y \<longrightarrow> a = b \<and> x = y)"

lemma reads_unique_arr:
  assumes ih: "\<And>a. a \<in> set l \<Longrightarrow> reads_unique a"
    and nf: "no_floats (JArr l)" "no_floats (JArr m)"
    and eq: "json_dumps_unicode (JArr l) @ x = json_dumps_unicode (JArr m) @ y"
  shows "l = m \<and> x = y"
proof (rule py_join_inj[where c = "CHR '']''" and f = json_dumps_unicode])
  show "py_join '','' (List.map json_dumps_unicode l) @ CHR '']'' # x = py_join '','' (List.map json_dumps_unicode m) @ CHR '']'' # y"
    using eq by simp
  show "a = b \<and> u = v"
    if "a \<in> set l" "b \<in> set m" "stops u" "stops v" "json_dumps_unicode a @ u = json_dumps_unicode b @ v" for a b u v
    using ih[OF that(1)] nf that by (auto simp: reads_unique_def list_all_iff)
  show "json_dumps_unicode a \<noteq> [] \<and> hd (json_dumps_unicode a) \<noteq> CHR '']'' \<and> hd (json_dumps_unicode a) \<noteq> CHR ''}''"
    if "a \<in> set l \<union> set m" for a
    using that nf json_dumps_not_closing[of a] by (auto simp: list_all_iff)
qed simp

lemma reads_unique_obj:
  assumes ih: "\<And>k a. (k, a) \<in> set d \<Longrightarrow> reads_unique a"
    and nf: "no_floats (JObj d)" "no_floats (JObj e)"
    and eq: "json_dumps_unicode (JObj d) @ x = json_dumps_unicode (JObj e) @ y"
  shows "d = e \<and> x = y"
proof (rule py_join_inj[where c = "CHR ''}''" and f = print_member])
  show "py_join '','' (List.map print_member d) @ CHR ''}'' # x = py_join '','' (List.map print_member e) @ CHR ''}'' # y"
    using eq unfolding json_dumps_obj by simp
  show "p = q \<and> u = v"
    if pq: "p \<in> set d" "q \<in> set e" "stops u" "stops v" "print_member p @ u = print_member q @ v" for p q u v
  proof -
    obtain k a l b where p: "p = (k, a)" and q: "q = (l, b)" by (cases p, cases q)
    have "k = l \<and> '':'' @ json_dumps_unicode a @ u = '':'' @ json_dumps_unicode b @ v"
      by (rule json_string_inj) (use pq(5) in \<open>simp add: print_member_def p q\<close>)
    moreover have "no_floats a" "no_floats b"
      using nf pq(1,2) by (auto simp: p q list_all_iff)
    ultimately show ?thesis
      using ih[of k a] pq(1,3,4) by (auto simp: reads_unique_def p q)
  qed
  show "print_member p \<noteq> [] \<and> hd (print_member p) \<noteq> CHR '']'' \<and> hd (print_member p) \<noteq> CHR ''}''" for p
    by (cases p) (simp add: print_member_def json_string_unicode_def quoted_def)
qed simp

lemma json_dumps_kind:
  assumes "no_floats a" "no_floats b" "json_dumps_unicode a @ x = json_dumps_unicode b @ y"
  shows "hd (json_dumps_unicode a) \<in> value_kind a \<inter> value_kind b"
  using json_dumps_hd[OF assms(1)] json_dumps_hd[OF assms(2)] same_hd[OF assms(3)] by auto

lemma same_kind:
  assumes "c \<in> value_kind a \<inter> value_kind b" "no_floats a" "no_floats b"
  obtains "a = JNull" "b = JNull" | v where "a = JBool v" "b = JBool v" | i j where "a = JInt i" "b = JInt j"
    | s t where "a = JStr s" "b = JStr t" | l m where "a = JArr l" "b = JArr m" | d e where "a = JObj d" "b = JObj e"
  using assms by (cases a; cases b) (auto simp: value_kind_def is_digit_def split: if_splits)

lemma reads_unique_step:
  assumes "\<And>l. a = JArr l \<Longrightarrow> \<forall>x \<in> set l. reads_unique x"
    and "\<And>d. a = JObj d \<Longrightarrow> \<forall>(k, x) \<in> set d. reads_unique x"
  shows "reads_unique a"
  unfolding reads_unique_def
proof (intro allI impI)
  fix b x y
  assume nf: "no_floats a" "no_floats b" and st: "stops x" "stops y"
    and eq: "json_dumps_unicode a @ x = json_dumps_unicode b @ y"
  show "a = b \<and> x = y"
  proof (rule same_kind[OF json_dumps_kind[OF nf eq] nf])
    fix v assume "a = JBool v" "b = JBool v"
    then show ?thesis using eq by simp
  next
    fix i j assume "a = JInt i" "b = JInt j"
    then show ?thesis using eq st str_int_inj[of i x j y] by simp
  next
    fix s t assume "a = JStr s" "b = JStr t"
    then show ?thesis using eq json_string_inj[of s x t y] by simp
  next
    fix l m assume "a = JArr l" "b = JArr m"
    then show ?thesis using eq nf assms(1) reads_unique_arr[of l m x y] by blast
  next
    fix d e assume "a = JObj d" "b = JObj e"
    then show ?thesis using eq nf assms(2)[of d] reads_unique_obj[of d e x y] by blast
  qed (use eq in simp)
qed

lemma reads_unique: "reads_unique a"
proof (induction a)
  case (JArr l)
  then show ?case by (intro reads_unique_step) auto
next
  case (JObj d)
  then show ?case by (intro reads_unique_step) (auto simp: snds.simps)
qed (rule reads_unique_step; simp)+

theorem json_dumps_unicode_inj:
  assumes "json_dumps_unicode a = json_dumps_unicode b" "no_floats a" "no_floats b"
  shows "a = b"
  using reads_unique[of a] assms unfolding reads_unique_def by (metis append_Nil2 stops_Nil)

section \<open>UTF-8\<close>

lemma utf8_Cons: "utf8 (c # s) = (if (of_char c :: nat) < 128 then [c]
    else [char_of (192 + of_char c div 64 :: nat), char_of (128 + of_char c mod 64 :: nat)]) @ utf8 s"
  by (simp add: utf8_def Let_def)

text \<open>Reading one character back.\<close>

definition read_utf8 :: "string \<Rightarrow> char \<times> string" where
  "read_utf8 s = (case s of
       [] \<Rightarrow> (CHR 0x00, [])
     | c # t \<Rightarrow> (let n = (of_char c :: nat) in
         if n < 128 then (c, t)
         else (char_of (64 * (n - 192) + (of_char (hd t) - 128)), tl t)))"

lemma read_utf8: "read_utf8 (utf8 (c # s)) = (c, utf8 s)"
proof -
  define n where "n = (of_char c :: nat)"
  have c: "c = char_of n" and n: "n < 256" by (simp_all add: n_def)
  have "64 * (192 + n div 64 - 192) + (128 + n mod 64 - 128) = n" by simp
  moreover have "192 + n div 64 < 256" "128 + n mod 64 < 256" using n by auto
  ultimately show ?thesis
    unfolding utf8_Cons n_def[symmetric]
    by (cases "n < 128") (simp_all add: read_utf8_def Let_def n_def[symmetric] c[symmetric])
qed

lemma utf8_Nil [simp]: "utf8 [] = []"
  by (simp add: utf8_def)

lemma utf8_Cons_nonempty [simp]: "utf8 (c # s) \<noteq> []"
  by (simp add: utf8_Cons)

lemma utf8_inj: "utf8 s = utf8 t \<Longrightarrow> s = t"
proof (induction s arbitrary: t)
  case Nil
  then show ?case by (cases t) (metis utf8_Cons_nonempty utf8_Nil)+
next
  case (Cons c s)
  then obtain d t' where t: "t = d # t'"
    by (cases t) (metis utf8_Cons_nonempty utf8_Nil)+
  then have "(c, utf8 s) = (d, utf8 t')" using Cons.prems read_utf8 by metis
  then show ?case using Cons.IH t by simp
qed

end
