(* ===== verification/Url_Text.thy ===== *)
theory Url_Text
  imports Json_Text
begin

text \<open>
  Percent encoding as \<open>urllib.parse\<close> writes it, for the path segments and query strings of the
  gateway's clients, and that an encoded segment is read back and cannot leave its segment.
\<close>

definition unreserved :: "char \<Rightarrow> bool" where
  "unreserved c \<longleftrightarrow> is_lower c \<or> is_upper c \<or> is_digit c \<or> c \<in> set ''_.-~''"

definition upper_hex :: "nat \<Rightarrow> char" where
  "upper_hex n = char_of (if n < 10 then 48 + n else 55 + n)"

definition quote_byte :: "char \<Rightarrow> string" where
  "quote_byte c =
     (if unreserved c then [c]
      else let n = (of_char c :: nat) in [CHR ''%'', upper_hex (n div 16), upper_hex (n mod 16)])"

text \<open>\<open>quote(s, safe='')\<close>, and \<open>quote_plus\<close>, which writes a space as a plus sign.\<close>

definition url_quote :: "string \<Rightarrow> string" where
  "url_quote s = concat (List.map quote_byte (utf8 s))"

definition url_quote_plus :: "string \<Rightarrow> string" where
  "url_quote_plus s = concat (List.map (\<lambda>c. if c = CHR '' '' then ''+'' else quote_byte c) (utf8 s))"

definition urlencode :: "(string, string) dict \<Rightarrow> string" where
  "urlencode d = py_join ''&'' (List.map (\<lambda>(k, v). url_quote_plus k @ ''='' @ url_quote_plus v) d)"

section \<open>Reading back\<close>

definition hex_value :: "char \<Rightarrow> nat" where
  "hex_value c = (let n = of_char c in if n < 58 then n - 48 else n - 55)"

fun unquote_bytes :: "string \<Rightarrow> string" where
  "unquote_bytes (p # a # b # cs) =
     (if p = CHR ''%'' then char_of (16 * hex_value a + hex_value b) # unquote_bytes cs
      else p # unquote_bytes (a # b # cs))"
| "unquote_bytes cs = cs"

lemma upper_hex_value: "n < 16 \<Longrightarrow> hex_value (upper_hex n) = n"
  by (auto simp: hex_value_def upper_hex_def Let_def of_char_of)

lemma of_char_lt: "(of_char c :: nat) < 256"
  by (rule nat_of_char_less_256)

lemma unquote_Cons: "p \<noteq> CHR ''%'' \<Longrightarrow> unquote_bytes (p # cs) = p # unquote_bytes cs"
  by (cases cs rule: unquote_bytes.cases) (auto split: list.splits)

lemma unquote_byte: "unquote_bytes (quote_byte c @ cs) = c # unquote_bytes cs"
proof (cases "unreserved c")
  case True
  then have "c \<noteq> CHR ''%''" by (auto simp: unreserved_def is_lower_def is_upper_def is_digit_def)
  then show ?thesis using True by (simp add: quote_byte_def unquote_Cons)
next
  case False
  let ?n = "of_char c :: nat"
  have "?n div 16 < 16" using of_char_lt[of c] by (simp add: less_mult_imp_div_less)
  moreover have "?n mod 16 < 16" by simp
  ultimately have "hex_value (upper_hex (?n div 16)) = ?n div 16" "hex_value (upper_hex (?n mod 16)) = ?n mod 16"
    by (simp_all only: upper_hex_value)
  then show ?thesis using False by (simp add: quote_byte_def Let_def)
qed

lemma unquote_quote: "unquote_bytes (url_quote s) = utf8 s"
proof -
  have "unquote_bytes (concat (List.map quote_byte bs)) = bs" for bs
    by (induction bs) (simp_all add: unquote_byte)
  then show ?thesis by (simp add: url_quote_def)
qed

lemma url_quote_inj: "url_quote s = url_quote t \<Longrightarrow> s = t"
  by (metis unquote_quote utf8_inj)

lemma upper_hex_unreserved: "n < 16 \<Longrightarrow> unreserved (upper_hex n)"
  by (auto simp: unreserved_def upper_hex_def is_upper_def is_digit_def Let_def of_char_of)

lemma quote_byte_chars: "x \<in> set (quote_byte c) \<Longrightarrow> unreserved x \<or> x = CHR ''%''"
proof -
  assume x: "x \<in> set (quote_byte c)"
  have "(of_char c :: nat) div 16 < 16" using of_char_lt[of c] by (simp add: less_mult_imp_div_less)
  then show ?thesis using x upper_hex_unreserved[of "of_char c div 16"] upper_hex_unreserved[of "of_char c mod 16"]
    by (auto simp: quote_byte_def Let_def split: if_splits)
qed

lemma url_quote_chars: "x \<in> set (url_quote s) \<Longrightarrow> unreserved x \<or> x = CHR ''%''"
  using quote_byte_chars by (auto simp: url_quote_def)

lemma url_quote_segment: "set (url_quote s) \<inter> set ''/?#&='' = {}"
  using url_quote_chars by (fastforce simp: unreserved_def is_lower_def is_upper_def is_digit_def)

end
