(* ===== verification/Fund_Client.thy ===== *)
theory Fund_Client
  imports Harbor_Client Completion Policy_Snapshot
begin

text \<open>
  The state-changing calls of \<open>harbor.py\<close> other than evidence: creating and funding an intent and
  confirming its settlement, with the request each sends, and the payment headers of
  \<open>payment_transport.py\<close>.  Calls pass the world's state: the transport, which is
  \<open>httpx_with_gateway_retries\<close> around the connection, is a function of the request and of that
  state.  A fund response carries the HTTP headers besides what the other calls read.
\<close>

section \<open>Payment headers\<close>

type_synonym http_headers = "(string \<times> string) list"

text \<open>
  \<open>httpx.Headers\<close>: names are compared without case, a name may occur several times and
  \<open>get\<close> joins its values.
\<close>

definition header_list :: "http_headers \<Rightarrow> string \<Rightarrow> string list" where
  "header_list hs name = List.map snd (filter (\<lambda>(k, v). lower k = lower name) hs)"

definition header_get :: "http_headers \<Rightarrow> string \<Rightarrow> string option" where
  "header_get hs name = (case header_list hs name of [] \<Rightarrow> None | vs \<Rightarrow> Some (py_join '', '' vs))"

definition PAYBOND_PAYMENT_AUTHORIZATION_HEADER :: string where
  "PAYBOND_PAYMENT_AUTHORIZATION_HEADER = ''x-paybond-payment-authorization''"

text \<open>The pattern \<open>^payment\s+\<close> without regard to case.\<close>

definition payment_prefixed :: "string \<Rightarrow> bool" where
  "payment_prefixed s \<longleftrightarrow>
     lower (take 7 s) = ''payment'' \<and> (case drop 7 s of [] \<Rightarrow> False | c # _ \<Rightarrow> py_space c)"

definition format_payment_authorization_value :: "string \<Rightarrow> exn + string" where
  "format_payment_authorization_value credential =
     (let trimmed = strip credential
      in rbind (ensure (trimmed \<noteq> [])
                 (ValueError ''payment authorization credential must be non-empty'')) (\<lambda>_.
         Inr (if payment_prefixed trimmed then trimmed else ''Payment '' @ trimmed)))"

definition payment_authorization_gateway_header :: "string \<Rightarrow> exn + http_headers" where
  "payment_authorization_gateway_header credential =
     rbind (format_payment_authorization_value credential) (\<lambda>v.
     Inr [(PAYBOND_PAYMENT_AUTHORIZATION_HEADER, v)])"

definition append_direct_harbor_payment_authorization ::
  "http_headers \<Rightarrow> string \<Rightarrow> exn + http_headers" where
  "append_direct_harbor_payment_authorization headers credential =
     rbind (format_payment_authorization_value credential) (\<lambda>v.
     Inr (headers @ [(''authorization'', v)]))"

record payment_transport =
  pt_www_authenticate :: "string list option"
  pt_payment_receipt :: "string option"
  pt_cache_control :: "string option"

definition nonblank :: "string option \<Rightarrow> string option" where
  "nonblank v = (case v of Some s \<Rightarrow> if strip s = [] then None else Some s | None \<Rightarrow> None)"

definition read_fund_payment_transport_headers :: "http_headers \<Rightarrow> payment_transport" where
  "read_fund_payment_transport_headers hs =
     (let www = filter (\<lambda>v. strip v \<noteq> []) (header_list hs ''www-authenticate'')
      in \<lparr>pt_www_authenticate = (if www = [] then None else Some www),
          pt_payment_receipt = nonblank (header_get hs ''payment-receipt''),
          pt_cache_control = nonblank (header_get hs ''cache-control'')\<rparr>)"

section \<open>Settlement rails and the funding payload\<close>

definition SETTLEMENT_RAIL_VALUES :: "string list" where
  "SETTLEMENT_RAIL_VALUES =
     [''stripe_connect'', ''stripe_ach_debit'', ''stripe_mpp'', ''adyen_manual_capture'', ''x402_usdc_base'']"

definition validate_settlement_rail :: "string \<Rightarrow> string \<Rightarrow> exn + string" where
  "validate_settlement_rail fname v0 =
     (let v = strip v0
      in rbind (ensure (v \<in> set SETTLEMENT_RAIL_VALUES)
                 (ValueError (fname @ '' must be one of adyen_manual_capture, stripe_ach_debit, '' @
                    ''stripe_connect, stripe_mpp, x402_usdc_base''))) (\<lambda>_.
         Inr v))"

record intent_funding_result =
  fu_settlement_rail :: string
  fu_harbor_fund_endpoint :: "string option"
  fu_status :: "string option"
  fu_payment_session_id :: "string option"
  fu_payment_url :: "string option"
  fu_stripe_payment_intent_id :: "string option"
  fu_client_secret :: "string option"
  fu_stripe_connect_destination :: "string option"
  fu_stripe_customer_id :: "string option"
  fu_latest_charge_id :: "string option"
  fu_payment_method_id :: "string option"
  fu_mandate_id :: "string option"
  fu_financial_connections_account_id :: "string option"
  fu_bank_last4 :: "string option"
  fu_bank_fingerprint :: "string option"
  fu_bank_name :: "string option"
  fu_asset :: "string option"
  fu_network :: "string option"
  fu_authorization_id :: "string option"
  fu_capture_id :: "string option"
  fu_void_id :: "string option"
  fu_transfer_id :: "string option"
  fu_refund_id :: "string option"
  fu_expected_debit_date :: "string option"
  fu_payment_reference :: "string option"
  fu_refund_reference :: "string option"
  fu_refund_reference_status :: "string option"
  fu_source_address :: "string option"
  fu_target_address :: "string option"
  fu_authorization_expires_at :: "string option"
  fu_capture_expires_at :: "string option"
  fu_refund_expires_at :: "string option"
  fu_onchain_transaction_hashes :: "(string, string list) dict option"
  fu_payment_auth_intent :: "string option"
  fu_payment_auth_method :: "string option"
  fu_challenge_id :: "string option"
  fu_settlement_asset :: "string option"
  fu_settlement_network :: "string option"
  fu_channel_id :: "string option"
  fu_session_protocol :: "string option"
  fu_deposit_amount_base_units :: "string option"
  fu_accepted_cumulative_base_units :: "string option"
  fu_pending_cumulative_base_units :: "string option"
  fu_descriptor_hash :: "string option"
  fu_last_voucher_at :: "string option"
  fu_last_settle_tx_hash :: "string option"
  fu_channel_status :: "string option"

definition string_list :: "string \<Rightarrow> json \<Rightarrow> exn + string list" where
  "string_list fname v = (case v of
       JArr l \<Rightarrow> if list_all (\<lambda>x. as_str x \<noteq> None) l then Inr (List.map_filter as_str l)
                 else Inl (ValueError (''invalid '' @ fname))
     | _ \<Rightarrow> Inl (ValueError (''invalid '' @ fname)))"

text \<open>One of the four optional hash lists of \<open>onchain_transaction_hashes\<close>.\<close>

definition onchain_part ::
  "(string, json) dict \<Rightarrow> string \<Rightarrow> exn + (string, string list) dict" where
  "onchain_part raw k = (case map_of raw k of
       None \<Rightarrow> Inr []
     | Some v \<Rightarrow> rbind (string_list (''funding.onchain_transaction_hashes.'' @ k) v) (\<lambda>l. Inr [(k, l)]))"

definition parse_onchain :: "json option \<Rightarrow> exn + (string, string list) dict option" where
  "parse_onchain v = (case v of
       None \<Rightarrow> Inr None
     | Some JNull \<Rightarrow> Inr None
     | Some (JObj raw) \<Rightarrow>
         rbind (onchain_part raw ''authorizations'') (\<lambda>a.
         rbind (onchain_part raw ''captures'') (\<lambda>c.
         rbind (onchain_part raw ''voids'') (\<lambda>w.
         rbind (onchain_part raw ''refunds'') (\<lambda>r.
         Inr (Some (a @ c @ w @ r))))))
     | Some _ \<Rightarrow> Inl (ValueError ''invalid funding.onchain_transaction_hashes''))"

definition parse_intent_funding_result :: "(string, json) dict \<Rightarrow> exn + intent_funding_result" where
  "parse_intent_funding_result v =
     rbind (parse_onchain (map_of v ''onchain_transaction_hashes'')) (\<lambda>onchain.
     rbind (case map_of v ''settlement_rail'' of
              Some (JStr s) \<Rightarrow> if strip s = [] then Inl (ValueError ''invalid funding.settlement_rail'')
                               else Inr s
            | _ \<Rightarrow> Inl (ValueError ''invalid funding.settlement_rail'')) (\<lambda>rail0.
     rbind (validate_settlement_rail ''funding.settlement_rail'' rail0) (\<lambda>rail.
     Inr \<lparr>fu_settlement_rail = rail,
          fu_harbor_fund_endpoint = optional_string (map_of v ''harbor_fund_endpoint''),
          fu_status = optional_string (map_of v ''status''),
          fu_payment_session_id = optional_string (map_of v ''payment_session_id''),
          fu_payment_url = optional_string (map_of v ''payment_url''),
          fu_stripe_payment_intent_id = optional_string (map_of v ''stripe_payment_intent_id''),
          fu_client_secret = optional_string (map_of v ''client_secret''),
          fu_stripe_connect_destination = optional_string (map_of v ''stripe_connect_destination''),
          fu_stripe_customer_id = optional_string (map_of v ''stripe_customer_id''),
          fu_latest_charge_id = optional_string (map_of v ''latest_charge_id''),
          fu_payment_method_id = optional_string (map_of v ''payment_method_id''),
          fu_mandate_id = optional_string (map_of v ''mandate_id''),
          fu_financial_connections_account_id = optional_string (map_of v ''financial_connections_account_id''),
          fu_bank_last4 = optional_string (map_of v ''bank_last4''),
          fu_bank_fingerprint = optional_string (map_of v ''bank_fingerprint''),
          fu_bank_name = optional_string (map_of v ''bank_name''),
          fu_asset = optional_string (map_of v ''asset''),
          fu_network = optional_string (map_of v ''network''),
          fu_authorization_id = optional_string (map_of v ''authorization_id''),
          fu_capture_id = optional_string (map_of v ''capture_id''),
          fu_void_id = optional_string (map_of v ''void_id''),
          fu_transfer_id = optional_string (map_of v ''transfer_id''),
          fu_refund_id = optional_string (map_of v ''refund_id''),
          fu_expected_debit_date = optional_string (map_of v ''expected_debit_date''),
          fu_payment_reference = optional_string (map_of v ''payment_reference''),
          fu_refund_reference = optional_string (map_of v ''refund_reference''),
          fu_refund_reference_status = optional_string (map_of v ''refund_reference_status''),
          fu_source_address = optional_string (map_of v ''source_address''),
          fu_target_address = optional_string (map_of v ''target_address''),
          fu_authorization_expires_at = optional_string (map_of v ''authorization_expires_at''),
          fu_capture_expires_at = optional_string (map_of v ''capture_expires_at''),
          fu_refund_expires_at = optional_string (map_of v ''refund_expires_at''),
          fu_onchain_transaction_hashes = onchain,
          fu_payment_auth_intent = optional_string (map_of v ''intent''),
          fu_payment_auth_method = optional_string (map_of v ''method''),
          fu_challenge_id = optional_string (map_of v ''challenge_id''),
          fu_settlement_asset = optional_string (map_of v ''settlement_asset''),
          fu_settlement_network = optional_string (map_of v ''settlement_network''),
          fu_channel_id = optional_string (map_of v ''channel_id''),
          fu_session_protocol = optional_string (map_of v ''session_protocol''),
          fu_deposit_amount_base_units = optional_string (map_of v ''deposit_amount_base_units''),
          fu_accepted_cumulative_base_units = optional_string (map_of v ''accepted_cumulative_base_units''),
          fu_pending_cumulative_base_units = optional_string (map_of v ''pending_cumulative_base_units''),
          fu_descriptor_hash = optional_string (map_of v ''descriptor_hash''),
          fu_last_voucher_at = optional_string (map_of v ''last_voucher_at''),
          fu_last_settle_tx_hash = optional_string (map_of v ''last_settle_tx_hash''),
          fu_channel_status = optional_string (map_of v ''channel_status'')\<rparr>)))"

section \<open>The answer to a fund request\<close>

record fund_intent_result =
  fi_status_code :: int
  fi_payment_required :: "string option"
  fi_payment_response :: "string option"
  fi_www_authenticate :: "string list option"
  fi_payment_receipt :: "string option"
  fi_cache_control :: "string option"
  fi_intent_id :: uuid
  fi_tenant :: string
  fi_state :: string
  fi_settlement_rail :: string
  fi_currency :: string
  fi_amount_cents :: int
  fi_funded :: bool
  fi_capability_token :: "string option"
  fi_funding :: "intent_funding_result option"

record fund_response = http_response +
  hr_headers :: http_headers

text \<open>
  \<open>what\<close> is the phrase the messages begin with: \<open>fund response\<close> through the gateway,
  \<open>Harbor fund intent response\<close> in the direct client, which has the same checks in line.
\<close>

definition fund_string ::
  "string \<Rightarrow> int \<Rightarrow> (string, json) dict \<Rightarrow> string \<Rightarrow> exn + string" where
  "fund_string what st b k = (case map_of b k of
       Some (JStr s) \<Rightarrow>
         if strip s = [] then Inl (HarborHttpError (what @ '' missing '' @ k) st) else Inr s
     | _ \<Rightarrow> Inl (HarborHttpError (what @ '' missing '' @ k) st))"

text \<open>\<open>isinstance(x, int)\<close> holds of a Python bool, which counts as 0 or 1.\<close>

definition fund_amount :: "string \<Rightarrow> int \<Rightarrow> (string, json) dict \<Rightarrow> exn + int" where
  "fund_amount what st b = (case map_of b ''amount_cents'' of
       Some (JInt i) \<Rightarrow> Inr i
     | Some (JBool v) \<Rightarrow> Inr (of_bool v)
     | _ \<Rightarrow> Inl (HarborHttpError (what @ '' missing amount_cents'') st))"

text \<open>A \<open>ValueError\<close> of the parser becomes an HTTP error with the response's status.\<close>

definition as_http_error :: "string \<Rightarrow> int \<Rightarrow> exn + 'a \<Rightarrow> exn + 'a" where
  "as_http_error lead st r = (case r of
       Inl (ValueError m) \<Rightarrow> Inl (HarborHttpError (lead @ m) st)
     | _ \<Rightarrow> r)"

definition fund_funding ::
  "string \<Rightarrow> int \<Rightarrow> (string, json) dict \<Rightarrow> exn + intent_funding_result option" where
  "fund_funding what st b = (case map_of b ''funding'' of
       Some (JObj d) \<Rightarrow>
         as_http_error (what @ '' invalid: '') st
           (rbind (parse_intent_funding_result d) (\<lambda>f. Inr (Some f)))
     | _ \<Rightarrow> Inr None)"

definition parse_fund_intent_response ::
  "string \<Rightarrow> string \<Rightarrow> string \<Rightarrow> uuid \<Rightarrow> fund_response \<Rightarrow> (string, json) dict \<Rightarrow>
   exn + fund_intent_result" where
  "parse_fund_intent_response what source tenant_id intent_id r b =
     (let st = hr_status r; tenant = str_get b ''tenant'';
          transport = read_fund_payment_transport_headers (hr_headers r)
      in rbind (py_uuid (str_get b ''intent_id'')) (\<lambda>echoed.
         rbind (ensure (tenant = tenant_id)
                 (TenantBindingError (''fund tenant mismatch: client='' @ py_repr tenant_id @
                    '' '' @ source @ ''='' @ py_repr tenant))) (\<lambda>_.
         rbind (ensure (echoed = intent_id)
                 (TenantBindingError (''fund intent mismatch: requested='' @ uuid_str intent_id @
                    '' '' @ source @ ''='' @ uuid_str echoed))) (\<lambda>_.
         rbind (fund_string what st b ''state'') (\<lambda>state.
         rbind (fund_string what st b ''settlement_rail'') (\<lambda>rail0.
         rbind (as_http_error [] st (validate_settlement_rail (what @ '' settlement_rail'') rail0)) (\<lambda>rail.
         rbind (fund_string what st b ''currency'') (\<lambda>currency.
         rbind (fund_amount what st b) (\<lambda>cents.
         rbind (fund_funding what st b) (\<lambda>funding.
         rbind (require_json_bool b ''funded'') (\<lambda>funded.
         Inr \<lparr>fi_status_code = st,
              fi_payment_required = header_get (hr_headers r) ''payment-required'',
              fi_payment_response = header_get (hr_headers r) ''payment-response'',
              fi_www_authenticate = pt_www_authenticate transport,
              fi_payment_receipt = pt_payment_receipt transport,
              fi_cache_control = pt_cache_control transport,
              fi_intent_id = echoed, fi_tenant = tenant, fi_state = state,
              fi_settlement_rail = rail, fi_currency = currency, fi_amount_cents = cents,
              fi_funded = funded,
              fi_capability_token = (case map_of b ''capability_token'' of
                  Some (JStr s) \<Rightarrow> Some s | _ \<Rightarrow> None),
              fi_funding = funding\<rparr>)))))))))))"

text \<open>The statuses a fund request may answer, and the body that must be an object.\<close>

definition fund_body ::
  "string \<Rightarrow> fund_response \<Rightarrow> exn + (string, json) dict" where
  "fund_body what r =
     (if hr_status r \<notin> {200, 202, 402}
      then Inl (HarborHttpError (what @ '' fund intent HTTP '' @ str_int (hr_status r) @ '': '' @ hr_text r)
                 (hr_status r))
      else (case hr_json r of
          None \<Rightarrow> Inl (ValueError ''JSONDecodeError'')
        | Some (JObj b) \<Rightarrow> Inr b
        | Some _ \<Rightarrow> Inl (HarborHttpError (what @ '' fund intent response was not a JSON object'')
                          (hr_status r))))"

section \<open>Requests\<close>

text \<open>\<open>json.dumps\<close> with its default separators, and unpadded URL-safe base64.\<close>

primrec json_dumps_default :: "json \<Rightarrow> string" where
  "json_dumps_default JNull = ''null''"
| "json_dumps_default (JBool b) = (if b then ''true'' else ''false'')"
| "json_dumps_default (JInt i) = str_int i"
| "json_dumps_default (JNum q) = str_rat q"
| "json_dumps_default (JStr s) = json_string s"
| "json_dumps_default (JArr l) = ''['' @ py_join '', '' (List.map json_dumps_default l) @ '']''"
| "json_dumps_default (JObj d) =
     ''{'' @ py_join '', '' (List.map (\<lambda>(k, s). json_string k @ '': '' @ s)
                          (List.map (map_prod id json_dumps_default) d)) @ ''}''"

definition b64_char :: "nat \<Rightarrow> char" where
  "b64_char n =
     (if n < 26 then char_of (65 + n) else if n < 52 then char_of (71 + n)
      else if n < 62 then char_of (n - 4) else if n = 62 then CHR ''-'' else CHR ''_'')"

fun b64url :: "string \<Rightarrow> string" where
  "b64url [] = []"
| "b64url [a] = (let x = of_char a in [b64_char (x div 4), b64_char (x mod 4 * 16)])"
| "b64url [a, b] =
     (let x = of_char a; y = of_char b
      in [b64_char (x div 4), b64_char (x mod 4 * 16 + y div 16), b64_char (y mod 16 * 4)])"
| "b64url (a # b # c # cs) =
     (let x = of_char a; y = of_char b; z = of_char c
      in b64_char (x div 4) # b64_char (x mod 4 * 16 + y div 16) # b64_char (y mod 16 * 4 + z div 64)
         # b64_char (z mod 64) # b64url cs)"

definition encode_recognition_proof_header :: "(string, json) dict \<Rightarrow> string" where
  "encode_recognition_proof_header proof = b64url (json_dumps_default (JObj proof))"

definition mutation_headers ::
  "string \<Rightarrow> (string, json) dict option \<Rightarrow> string option \<Rightarrow> http_headers \<Rightarrow> exn + http_headers" where
  "mutation_headers operation proof idempotency_key extra = (case proof of
       None \<Rightarrow> Inl (ValueError (operation @ '' requires recognition_proof''))
     | Some p \<Rightarrow>
         (let hs = AList.update ''x-paybond-agent-recognition-proof''
                     (encode_recognition_proof_header p) extra
          in Inr (case nonblank idempotency_key of
                 Some k \<Rightarrow> AList.update ''idempotency-key'' (strip k) hs
               | None \<Rightarrow> hs)))"

record gateway_client =
  gc_base :: string  \<comment> \<open>ends with a slash\<close>
  gc_tenant :: string
  gc_bearer :: string

record http_request =
  rq_method :: string
  rq_url :: string
  rq_headers :: http_headers
  rq_body :: json

type_synonym 's transport = "http_request \<Rightarrow> 's \<Rightarrow> (exn + fund_response) \<times> 's"

definition client_headers :: "gateway_client \<Rightarrow> string option \<Rightarrow> http_headers" where
  "client_headers c content_type =
     [(''accept'', ''application/json''), (''x-tenant-id'', gc_tenant c),
      (''authorization'', ''Bearer '' @ gc_bearer c)]
     @ (case content_type of Some t \<Rightarrow> [(''content-type'', t)] | None \<Rightarrow> [])"

definition strip_slashes :: "string \<Rightarrow> string" where
  "strip_slashes path = dropWhile (\<lambda>c. c = CHR ''/'') path"

definition post_json_with_retries ::
  "gateway_client \<Rightarrow> 's transport \<Rightarrow> string \<Rightarrow> json \<Rightarrow> http_headers \<Rightarrow> 's \<Rightarrow> (exn + fund_response) \<times> 's" where
  "post_json_with_retries c send path payload extra s =
     send \<lparr>rq_method = ''POST'', rq_url = gc_base c @ strip_slashes path,
           rq_headers = dict_merge (client_headers c (Some ''application/json'')) extra,
           rq_body = payload\<rparr> s"

text \<open>A request whose headers may already fail to build.\<close>

definition post_with ::
  "exn + http_headers \<Rightarrow> gateway_client \<Rightarrow> 's transport \<Rightarrow> string \<Rightarrow> json \<Rightarrow> 's \<Rightarrow>
   (exn + fund_response) \<times> 's" where
  "post_with headers c send path payload s = (case headers of
       Inl e \<Rightarrow> (Inl e, s)
     | Inr hs \<Rightarrow> post_json_with_retries c send path payload hs s)"

section \<open>The mutations of the gateway client\<close>

definition object_response :: "string \<Rightarrow> fund_response \<Rightarrow> exn + (string, json) dict" where
  "object_response what r = json_object_response True what (Inr (http_response.truncate r))"

definition create_intent ::
  "gateway_client \<Rightarrow> 's transport \<Rightarrow> (string, json) dict \<Rightarrow> (string, json) dict option \<Rightarrow>
   string option \<Rightarrow> 's \<Rightarrow> (exn + (string, json) dict) \<times> 's" where
  "create_intent c send body proof idempotency_key s =
     (let (out, s') = post_with (mutation_headers ''create_intent'' proof idempotency_key []) c send
                        ''harbor/intents'' (JObj body) s
      in (rbind out (object_response ''Harbor create intent''), s'))"

definition confirm_settlement ::
  "gateway_client \<Rightarrow> 's transport \<Rightarrow> uuid \<Rightarrow> (string, json) dict \<Rightarrow> (string, json) dict option \<Rightarrow>
   string option \<Rightarrow> 's \<Rightarrow> (exn + (string, json) dict) \<times> 's" where
  "confirm_settlement c send intent_id body proof idempotency_key s =
     (let (out, s') = post_with (mutation_headers ''confirm_settlement'' proof idempotency_key []) c send
                        (''harbor/intents/'' @ uuid_str intent_id @ ''/settlement/confirm'') (JObj body) s
      in (rbind out (object_response ''Harbor settlement confirm''), s'))"

definition fund_extra_headers :: "string option \<Rightarrow> string option \<Rightarrow> exn + http_headers" where
  "fund_extra_headers signature authorization =
     rbind (case nonblank authorization of
              Some a \<Rightarrow> payment_authorization_gateway_header a
            | None \<Rightarrow> Inr []) (\<lambda>auth.
     Inr (dict_merge
       (case nonblank signature of
          Some p \<Rightarrow> [(''payment-signature'', strip p)]
        | None \<Rightarrow> []) auth))"

definition fund_path :: "uuid \<Rightarrow> string" where
  "fund_path intent_id = ''harbor/intents/'' @ uuid_str intent_id @ ''/fund''"

definition fund_intent ::
  "gateway_client \<Rightarrow> 's transport \<Rightarrow> uuid \<Rightarrow> (string, json) dict option \<Rightarrow> string option \<Rightarrow>
   string option \<Rightarrow> string option \<Rightarrow> 's \<Rightarrow> (exn + fund_intent_result) \<times> 's" where
  "fund_intent c send intent_id proof signature authorization idempotency_key s =
     (let headers = rbind (fund_extra_headers signature authorization)
                      (mutation_headers ''fund_intent'' proof idempotency_key);
          (out, s') = post_with headers c send (fund_path intent_id) (JObj []) s
      in (rbind out (\<lambda>r.
          rbind (fund_body ''Gateway Harbor'' r) (\<lambda>b.
          parse_fund_intent_response ''fund response'' ''gateway'' (gc_tenant c) intent_id r b)), s'))"

text \<open>The calls of \<open>Harbor_Client\<close> with the requests they send.\<close>

definition get_json_with_retries ::
  "gateway_client \<Rightarrow> 's transport \<Rightarrow> string \<Rightarrow> 's \<Rightarrow> (exn + fund_response) \<times> 's" where
  "get_json_with_retries c send path s =
     send \<lparr>rq_method = ''GET'', rq_url = gc_base c @ strip_slashes path,
           rq_headers = client_headers c None, rq_body = JNull\<rparr> s"

definition plain_response :: "exn + fund_response \<Rightarrow> exn + http_response" where
  "plain_response out = map_sum id http_response.truncate out"

definition gateway_verify ::
  "gateway_client \<Rightarrow> 's transport \<Rightarrow> verify_request \<Rightarrow> 's \<Rightarrow> (exn + verify_result) \<times> 's" where
  "gateway_verify c send q s =
     (let (out, s') = post_json_with_retries c send ''verify'' (JObj (verify_capability_payload q))
                        (case nonblank (vq_idempotency_key q) of
                           Some k \<Rightarrow> [(''idempotency-key'', strip k)] | None \<Rightarrow> []) s
      in (verify_capability (gc_tenant c) q (plain_response out), s'))"

definition outcome_text :: "spend_outcome \<Rightarrow> string" where
  "outcome_text o' = (case o' of Consumed \<Rightarrow> ''consumed'' | Released \<Rightarrow> ''released'')"

definition gateway_complete_spend ::
  "gateway_client \<Rightarrow> 's transport \<Rightarrow> string \<Rightarrow> spend_outcome \<Rightarrow> 's \<Rightarrow> (exn + unit) \<times> 's" where
  "gateway_complete_spend c send decision_id outcome s =
     (let (out, s') = post_json_with_retries c send (''v1/spend/decisions/'' @ decision_id @ ''/complete'')
                        (JObj [(''outcome'', JStr (outcome_text outcome))]) [] s
      in (complete_spend_decision (plain_response out), s'))"

definition gateway_get_intent ::
  "gateway_client \<Rightarrow> 's transport \<Rightarrow> uuid \<Rightarrow> 's \<Rightarrow> (exn + (string, json) dict) \<times> 's" where
  "gateway_get_intent c send intent_id s =
     (let (out, s') = get_json_with_retries c send (''harbor/operator/v1/intents/'' @ uuid_str intent_id) s
      in (get_intent (gc_tenant c) (plain_response out), s'))"

definition gateway_submit_evidence ::
  "gateway_client \<Rightarrow> 's transport \<Rightarrow> uuid \<Rightarrow> (string, json) dict \<Rightarrow> (string, json) dict option \<Rightarrow>
   string option \<Rightarrow> 's \<Rightarrow> (exn + (string, json) dict) \<times> 's" where
  "gateway_submit_evidence c send intent_id evidence proof idempotency_key s =
     (let (out, s') = post_with (mutation_headers ''submit_evidence'' proof idempotency_key []) c send
                        (''harbor/intents/'' @ uuid_str intent_id @ ''/evidence'') (JObj evidence) s
      in (submit_evidence (gc_tenant c) intent_id (plain_response out), s'))"

section \<open>What an answer guarantees\<close>

lemma validate_settlement_rail_Inr [res_iff]:
  "validate_settlement_rail f v = Inr r \<longleftrightarrow> r = strip v \<and> strip v \<in> set SETTLEMENT_RAIL_VALUES"
  by (auto simp: validate_settlement_rail_def res_iff Let_def)

lemma as_http_error_Inr [res_iff]: "as_http_error p st r = Inr x \<longleftrightarrow> r = Inr x"
  by (cases r) (auto simp: as_http_error_def split: exn.splits)

lemma fund_string_Inr [res_iff]:
  "fund_string w st b k = Inr s \<longleftrightarrow> map_of b k = Some (JStr s) \<and> strip s \<noteq> []"
  by (auto simp: fund_string_def split: option.splits json.splits if_splits)

lemma fund_body_Inr [res_iff]:
  "fund_body w r = Inr b \<longleftrightarrow> hr_status r \<in> {200, 202, 402} \<and> hr_json r = Some (JObj b)"
  by (auto simp: fund_body_def split: option.splits json.splits)

lemma parse_fund_binding:
  assumes "parse_fund_intent_response w src t i r b = Inr f"
  shows "fi_tenant f = t" "fi_intent_id f = i" "fi_status_code f = hr_status r"
    "fi_settlement_rail f \<in> set SETTLEMENT_RAIL_VALUES" "strip (fi_state f) \<noteq> []"
  using assms
  by (auto simp: parse_fund_intent_response_def Let_def rbind_Inr_iff fund_string_Inr
      as_http_error_Inr validate_settlement_rail_Inr)

lemma fund_intent_binding:
  assumes "fund_intent c send i proof sig auth key s = (Inr f, s')"
  shows "fi_tenant f = gc_tenant c \<and> fi_intent_id f = i \<and> fi_status_code f \<in> {200, 202, 402}"
  using assms
  by (auto simp: fund_intent_def Let_def rbind_Inr_iff fund_body_Inr split: prod.splits
      dest: parse_fund_binding)

end
