(* ===== verification/Gateway_Url.thy ===== *)
theory Gateway_Url
  imports Kit_Errors "HOL-Library.Code_Target_Nat"
begin

text \<open>
  \<open>credentials.py\<close>: which base URLs a client accepts for the gateway that it sends its API key
  to, and the check of the environment an answer names.  \<open>urlparse\<close> and the IPv4 half of
  \<open>ipaddress.ip_address\<close> are written out as far as the code reads their results; the IPv6
  reader is the argument \<open>ip6\<close>: None for a text that is no IPv6 address, otherwise whether the
  address is a loopback address.  An \<open>InsecureGatewayURLError\<close> is a \<open>ValueError\<close>, a
  \<open>GatewayAuthError\<close> a \<open>RuntimeError\<close>.
\<close>

section \<open>urlparse\<close>

definition before_char :: "char \<Rightarrow> string \<Rightarrow> string" where
  "before_char c s = takeWhile (\<lambda>x. x \<noteq> c) s"

definition after_char :: "char \<Rightarrow> string \<Rightarrow> string" where
  "after_char c s = drop 1 (dropWhile (\<lambda>x. x \<noteq> c) s)"

definition after_last_char :: "char \<Rightarrow> string \<Rightarrow> string" where
  "after_last_char c s = rev (takeWhile (\<lambda>x. x \<noteq> c) (rev s))"

definition is_scheme_char :: "char \<Rightarrow> bool" where
  "is_scheme_char c \<longleftrightarrow> is_lower c \<or> is_upper c \<or> is_digit c \<or> c \<in> set ''+-.''"

record parsed_url =
  pu_scheme :: string
  pu_netloc :: string

text \<open>Leading control characters and spaces, and every tab and line break, are dropped.\<close>

definition clean_url :: "string \<Rightarrow> string" where
  "clean_url url =
     filter (\<lambda>c. c \<notin> {CHR 0x09, CHR 0x0A, CHR 0x0D}) (dropWhile (\<lambda>c. of_char c \<le> (32::nat)) url)"

definition split_scheme :: "string \<Rightarrow> string \<times> string" where
  "split_scheme url =
     (let s = before_char CHR '':'' url
      in if CHR '':'' \<in> set url \<and> s \<noteq> [] \<and> (is_lower (hd s) \<or> is_upper (hd s)) \<and> list_all is_scheme_char s
         then (lower s, after_char CHR '':'' url) else ([], url))"

definition urlparse :: "string \<Rightarrow> exn + parsed_url" where
  "urlparse url =
     (let (scheme, rest) = split_scheme (clean_url url);
          netloc = (if startswith rest ''//'' then takeWhile (\<lambda>c. c \<notin> set ''/?#'') (drop 2 rest) else [])
      in rbind (ensure ((CHR ''['' \<in> set netloc) = (CHR '']'' \<in> set netloc))
                 (ValueError ''Invalid IPv6 URL'')) (\<lambda>_.
         Inr \<lparr>pu_scheme = scheme, pu_netloc = netloc\<rparr>))"

text \<open>\<open>(parsed.hostname or "").lower()\<close>.\<close>

definition url_hostname :: "parsed_url \<Rightarrow> string" where
  "url_hostname p =
     (let hostinfo = after_last_char CHR ''@'' (pu_netloc p)
      in lower (if CHR ''['' \<in> set hostinfo then before_char CHR '']'' (after_char CHR ''['' hostinfo)
                else before_char CHR '':'' hostinfo))"

section \<open>Addresses\<close>

fun split_dots :: "string \<Rightarrow> string list" where
  "split_dots [] = [[]]"
| "split_dots (c # cs) =
     (if c = CHR ''.'' then [] # split_dots cs
      else (case split_dots cs of [] \<Rightarrow> [[c]] | w # ws \<Rightarrow> (c # w) # ws))"

definition octet :: "string \<Rightarrow> nat option" where
  "octet s =
     (let n = foldl (\<lambda>a c. 10 * a + (of_char c - 48)) 0 s
      in if s \<noteq> [] \<and> list_all is_digit s \<and> length s \<le> 3 \<and> (hd s = CHR ''0'' \<longrightarrow> length s = 1) \<and> n \<le> 255
         then Some n else None)"

definition ip4_address :: "string \<Rightarrow> nat list option" where
  "ip4_address s =
     (let os = List.map octet (split_dots s)
      in if length os = 4 \<and> list_all (\<lambda>x. x \<noteq> None) os then Some (List.map the os) else None)"

definition LOCAL_GATEWAY_HOSTS :: "string list" where
  "LOCAL_GATEWAY_HOSTS = [''localhost'', ''127.0.0.1'', ''::1'']"

definition is_rfc1918_ipv4 :: "nat list \<Rightarrow> bool" where
  "is_rfc1918_ipv4 a \<longleftrightarrow>
     a ! 0 = 10 \<or> a ! 0 = 192 \<and> a ! 1 = 168 \<or> a ! 0 = 172 \<and> 16 \<le> a ! 1 \<and> a ! 1 \<le> 31"

definition is_loopback_gateway_host :: "(string \<Rightarrow> bool option) \<Rightarrow> string \<Rightarrow> bool" where
  "is_loopback_gateway_host ip6 hostname =
     (let lowered = lower (strip hostname)
      in if lowered \<in> set LOCAL_GATEWAY_HOSTS then True
         else (case ip4_address lowered of
             Some a \<Rightarrow> a ! 0 = 127
           | None \<Rightarrow> (case ip6 lowered of
               Some loopback \<Rightarrow> loopback
             | None \<Rightarrow> startswith lowered ''127.'')))"

definition is_local_gateway_host :: "(string \<Rightarrow> bool option) \<Rightarrow> string \<Rightarrow> bool" where
  "is_local_gateway_host ip6 hostname =
     (let lowered = lower (strip hostname)
      in if is_loopback_gateway_host ip6 lowered then True
         else (case ip4_address lowered of
             Some a \<Rightarrow> is_rfc1918_ipv4 a
           | None \<Rightarrow> False))"

text \<open>\<open>env\<close> is the value of \<open>PAYBOND_ALLOW_INSECURE_GATEWAY\<close>, empty when unset.\<close>

definition allow_insecure_private_network :: "string \<Rightarrow> bool \<Rightarrow> bool" where
  "allow_insecure_private_network env flag \<longleftrightarrow>
     flag \<or> lower (strip env) \<in> {''1'', ''true'', ''yes''}"

section \<open>The base URL\<close>

definition rstrip_slashes :: "string \<Rightarrow> string" where
  "rstrip_slashes s = rev (dropWhile (\<lambda>c. c = CHR ''/'') (rev s))"

definition insecure_url :: exn where
  "insecure_url = ValueError (''gateway URL must use https:// (http:// is allowed only for loopback; '' @
     ''set PAYBOND_ALLOW_INSECURE_GATEWAY=1 for private-network cleartext)'')"

definition normalize_gateway_base_url ::
  "(string \<Rightarrow> bool option) \<Rightarrow> string \<Rightarrow> bool \<Rightarrow> string \<Rightarrow> exn + string" where
  "normalize_gateway_base_url ip6 env flag url =
     (let trimmed = strip url
      in rbind (ensure (trimmed \<noteq> []) (ValueError ''gateway URL is required'')) (\<lambda>_.
         rbind (urlparse trimmed) (\<lambda>p.
         rbind (ensure (pu_scheme p \<noteq> [] \<and> pu_netloc p \<noteq> [])
                 (ValueError ''gateway URL must be an absolute URL'')) (\<lambda>_.
         let scheme = lower (pu_scheme p); hostname = url_hostname p
         in if scheme = ''https'' then Inr (rstrip_slashes trimmed)
            else if scheme = ''http'' \<and> is_loopback_gateway_host ip6 hostname then Inr (rstrip_slashes trimmed)
            else if scheme = ''http'' \<and> allow_insecure_private_network env flag
                    \<and> is_local_gateway_host ip6 hostname
            then Inr (rstrip_slashes trimmed)
            else Inl insecure_url))))"

section \<open>The expected environment\<close>

definition normalize_expected_environment :: "string option \<Rightarrow> exn + string option" where
  "normalize_expected_environment e = (case e of
       None \<Rightarrow> Inr None
     | Some s \<Rightarrow>
         rbind (ensure (strip s \<in> {''live'', ''sandbox''})
                 (RuntimeError (''expected_environment must be 'live' or 'sandbox', got '' @ py_repr s))) (\<lambda>_.
         Inr (Some (strip s))))"

definition assert_expected_environment ::
  "string \<Rightarrow> (string, json) dict \<Rightarrow> string option \<Rightarrow> exn + unit" where
  "assert_expected_environment source body expected = (case expected of
       None \<Rightarrow> Inr ()
     | Some e \<Rightarrow>
         (let actual = strip (case map_of body ''environment'' of None \<Rightarrow> [] | Some v \<Rightarrow> json_text v)
          in rbind (ensure (actual \<noteq> []) (RuntimeError (source @ '' response missing environment''))) (\<lambda>_.
             ensure (actual = e) (RuntimeError (source @ '' environment mismatch: expected='' @ e @
               '' gateway='' @ actual)))))"

section \<open>Which URLs are accepted\<close>

text \<open>The loopback hosts of the documentation: the name, \<open>127/8\<close> and \<open>::1\<close>.\<close>

definition loopback_host :: "(string \<Rightarrow> bool option) \<Rightarrow> string \<Rightarrow> bool" where
  "loopback_host ip6 h \<longleftrightarrow>
     h = ''localhost'' \<or> h = ''::1'' \<or> (\<exists>b c d. ip4_address h = Some [127, b, c, d])
     \<or> ip4_address h = None \<and> ip6 h = Some True"

text \<open>A name that is no address but begins like one of \<open>127/8\<close>.\<close>

definition loopback_lookalike :: "(string \<Rightarrow> bool option) \<Rightarrow> string \<Rightarrow> bool" where
  "loopback_lookalike ip6 h \<longleftrightarrow> ip4_address h = None \<and> ip6 h = None \<and> startswith h ''127.''"

lemma ip4_length: "ip4_address h = Some a \<Longrightarrow> length a = 4"
  by (auto simp: ip4_address_def Let_def split: if_splits)

lemma ip4_head: "ip4_address h = Some a \<Longrightarrow> a ! 0 = 127 \<longleftrightarrow> (\<exists>b c d. a = [127, b, c, d])"
proof -
  assume "ip4_address h = Some a"
  then have len: "length a = 4" by (rule ip4_length)
  obtain x y z w where "a = [x, y, z, w]"
    using len by (cases a; cases "tl a"; cases "tl (tl a)"; cases "tl (tl (tl a))") auto
  then show ?thesis by simp
qed

lemma local_hosts_address:
  "ip4_address ''127.0.0.1'' = Some [127, 0, 0, 1]" "ip4_address ''localhost'' = None"
  "ip4_address ''::1'' = None"
  by code_simp+

lemma loopback_host_local: "h \<in> set LOCAL_GATEWAY_HOSTS \<Longrightarrow> loopback_host ip6 h"
  unfolding LOCAL_GATEWAY_HOSTS_def loopback_host_def list.set insert_iff empty_iff
  using local_hosts_address(1) by blast

lemma loopback_host_address:
  "ip4_address h = Some a \<Longrightarrow> h \<notin> set LOCAL_GATEWAY_HOSTS \<Longrightarrow> loopback_host ip6 h \<longleftrightarrow> a ! 0 = 127"
  using ip4_head[of h a] unfolding LOCAL_GATEWAY_HOSTS_def loopback_host_def list.set by simp

lemma is_loopback_iff:
  assumes h: "lower (strip h) = h"
  shows "is_loopback_gateway_host ip6 h \<longleftrightarrow> loopback_host ip6 h \<or> loopback_lookalike ip6 h"
proof (cases "h \<in> set LOCAL_GATEWAY_HOSTS")
  case True
  then have "is_loopback_gateway_host ip6 h" unfolding is_loopback_gateway_host_def h Let_def by simp
  then show ?thesis using loopback_host_local[OF True] by simp
next
  case False
  then have host: "is_loopback_gateway_host ip6 h \<longleftrightarrow> (case ip4_address h of
             Some a \<Rightarrow> a ! 0 = 127
           | None \<Rightarrow> (case ip6 h of Some loopback \<Rightarrow> loopback | None \<Rightarrow> startswith h ''127.''))"
    unfolding is_loopback_gateway_host_def h Let_def by simp
  have names: "h \<noteq> ''localhost''" "h \<noteq> ''::1''"
    using False unfolding LOCAL_GATEWAY_HOSTS_def list.set by blast+
  show ?thesis
  proof (cases "ip4_address h")
    case None
    then show ?thesis unfolding host loopback_host_def loopback_lookalike_def
      using names by (simp split: option.splits)
  next
    case (Some a)
    then show ?thesis unfolding host loopback_host_address[OF Some False] loopback_lookalike_def by simp
  qed
qed

lemma rstrip_slashes_prefix: "prefix (rstrip_slashes s) s"
proof -
  obtain t where "rev s = t @ dropWhile (\<lambda>c. c = CHR ''/'') (rev s)"
    by (metis takeWhile_dropWhile_id)
  then have "s = rstrip_slashes s @ rev t"
    by (metis rev_append rev_rev_ident rstrip_slashes_def)
  then show ?thesis by (metis prefixI)
qed

end
