(* ===== verification/Signal_Client.thy ===== *)
theory Signal_Client
  imports Url_Text Fund_Client Gateway_Url
begin

text \<open>
  The reads of \<open>signal.py\<close> and the calls of \<open>fraud.py\<close>: reputation receipts, portfolio summaries,
  operator reviews and fraud review events, each with the request it sends and the checks on its
  answer; and the session that finds its tenant by asking the gateway who the key belongs to.
  \<open>SignalHttpError\<close> and \<open>FraudHttpError\<close> are \<open>HttpFailure\<close>.
\<close>

section \<open>Requests and answers of the read clients\<close>

datatype client_error =
    HttpFailure string int  \<comment> \<open>the client's own HTTP error: message and status\<close>
  | KitError exn

definition runtime_error :: "string \<Rightarrow> client_error" where
  "runtime_error m = KitError (RuntimeError m)"

definition bearer_headers :: "gateway_client \<Rightarrow> http_headers" where
  "bearer_headers c = [(''accept'', ''application/json''), (''authorization'', ''Bearer '' @ gc_bearer c)]"

definition bearer_get ::
  "gateway_client \<Rightarrow> 's transport \<Rightarrow> string \<Rightarrow> 's \<Rightarrow> (client_error + fund_response) \<times> 's" where
  "bearer_get c send path s =
     (let (out, s') = send \<lparr>rq_method = ''GET'', rq_url = gc_base c @ strip_slashes path,
                            rq_headers = bearer_headers c, rq_body = JNull\<rparr> s
      in (map_sum KitError id out, s'))"

definition bearer_send ::
  "string \<Rightarrow> gateway_client \<Rightarrow> 's transport \<Rightarrow> string \<Rightarrow> (string, json) dict \<Rightarrow> 's \<Rightarrow>
   (client_error + fund_response) \<times> 's" where
  "bearer_send verb c send path payload s =
     (let (out, s') = send \<lparr>rq_method = verb, rq_url = gc_base c @ strip_slashes path,
                            rq_headers = bearer_headers c @ [(''content-type'', ''application/json'')],
                            rq_body = JObj payload\<rparr> s
      in (map_sum KitError id out, s'))"

text \<open>An error status; then the body, which must be an object.\<close>

definition client_object ::
  "string \<Rightarrow> string \<Rightarrow> fund_response \<Rightarrow> client_error + (string, json) dict" where
  "client_object what noun r =
     (if hr_status r \<ge> 400
      then Inl (HttpFailure (what @ '' HTTP '' @ str_int (hr_status r) @ '': '' @ hr_text r) (hr_status r))
      else (case hr_json r of
          None \<Rightarrow> Inl (KitError (ValueError ''JSONDecodeError''))
        | Some (JObj b) \<Rightarrow> Inr b
        | Some _ \<Rightarrow> Inl (runtime_error (noun @ '' response was not a JSON object''))))"

text \<open>A 404 is an answer of its own.\<close>

definition unless_missing ::
  "(fund_response \<Rightarrow> client_error + 'a) \<Rightarrow> fund_response \<Rightarrow> client_error + 'a option" where
  "unless_missing f r = (if hr_status r = 404 then Inr None else rbind (f r) (\<lambda>x. Inr (Some x)))"

definition check_tenant :: "string \<Rightarrow> gateway_client \<Rightarrow> string \<Rightarrow> (string, json) dict \<Rightarrow> client_error + unit" where
  "check_tenant family c url b =
     ensure (str_get b ''tenant_id'' = gc_tenant c)
       (runtime_error (family @ '' tenant mismatch: client='' @ py_repr (gc_tenant c) @
          '' gateway='' @ py_repr (str_get b ''tenant_id'') @ '' url='' @ url))"

definition check_operator :: "string \<Rightarrow> string \<Rightarrow> (string, json) dict \<Rightarrow> client_error + unit" where
  "check_operator label operator_did b =
     ensure (str_get b ''operator_did'' = operator_did)
       (runtime_error (label @ '' operator mismatch: requested='' @ py_repr operator_did @
          '' gateway='' @ py_repr (str_get b ''operator_did'')))"

section \<open>Signal\<close>

text \<open>The score version goes into the query as it is.\<close>

definition score_query :: "string option \<Rightarrow> string" where
  "score_query v = (case v of
       None \<Rightarrow> [] | Some s \<Rightarrow> if s = [] then [] else ''?score_version='' @ s)"

definition get_reputation_receipt ::
  "gateway_client \<Rightarrow> 's transport \<Rightarrow> string \<Rightarrow> string option \<Rightarrow> 's \<Rightarrow>
   (client_error + (string, json) dict option) \<times> 's" where
  "get_reputation_receipt c send operator_did score_version s =
     (let path = ''reputation/'' @ url_quote operator_did @ score_query score_version;
          (out, s') = bearer_get c send path s
      in (rbind out (unless_missing (\<lambda>r.
            rbind (client_object ''Signal receipt'' ''signal receipt'' r) (\<lambda>b.
            rbind (case map_of b ''receipt'' of
                     Some (JObj d) \<Rightarrow> Inr d
                   | _ \<Rightarrow> Inl (runtime_error ''signal receipt response missing receipt object'')) (\<lambda>receipt.
            rbind (ensure (str_get receipt ''tenant_id'' = gc_tenant c)
                    (runtime_error (''signal receipt tenant mismatch: client='' @ py_repr (gc_tenant c) @
                       '' gateway='' @ py_repr (str_get receipt ''tenant_id'')))) (\<lambda>_.
            rbind (check_operator ''signal receipt'' operator_did receipt) (\<lambda>_.
            Inr b)))))), s'))"

definition get_portfolio_summary ::
  "gateway_client \<Rightarrow> 's transport \<Rightarrow> string option \<Rightarrow> 's \<Rightarrow> (client_error + (string, json) dict) \<times> 's" where
  "get_portfolio_summary c send score_version s =
     (let path = ''signal/v1/portfolio/summary'' @ score_query score_version;
          (out, s') = bearer_get c send path s
      in (rbind out (\<lambda>r.
            rbind (client_object ''Signal portfolio summary'' ''signal portfolio summary'' r) (\<lambda>b.
            rbind (check_tenant ''signal'' c (gc_base c @ path) b) (\<lambda>_. Inr b))), s'))"

definition get_signed_portfolio_artifact ::
  "gateway_client \<Rightarrow> 's transport \<Rightarrow> string option \<Rightarrow> 's \<Rightarrow> (client_error + (string, json) dict) \<times> 's" where
  "get_signed_portfolio_artifact c send score_version s =
     (let path = ''signal/v1/portfolio/signed-export'' @ score_query score_version;
          (out, s') = bearer_get c send path s
      in (rbind out (\<lambda>r.
            rbind (client_object ''Signal signed portfolio artifact'' ''signal signed portfolio artifact'' r) (\<lambda>b.
            rbind (check_tenant ''signal'' c (gc_base c @ path) b) (\<lambda>_. Inr b))), s'))"

text \<open>The two reads of one operator.\<close>

definition operator_read ::
  "string \<Rightarrow> string \<Rightarrow> string \<Rightarrow> gateway_client \<Rightarrow> 's transport \<Rightarrow> string \<Rightarrow> string option \<Rightarrow> 's \<Rightarrow>
   (client_error + (string, json) dict option) \<times> 's" where
  "operator_read what noun leaf c send operator_did score_version s =
     (let path = ''signal/v1/operators/'' @ url_quote operator_did @ ''/'' @ leaf @ score_query score_version;
          (out, s') = bearer_get c send path s
      in (rbind out (unless_missing (\<lambda>r.
            rbind (client_object what noun r) (\<lambda>b.
            rbind (check_tenant ''signal'' c (gc_base c @ path) b) (\<lambda>_.
            rbind (check_operator noun operator_did b) (\<lambda>_. Inr b))))), s'))"

definition get_operator_explanation ::
  "gateway_client \<Rightarrow> 's transport \<Rightarrow> string \<Rightarrow> string option \<Rightarrow> 's \<Rightarrow>
   (client_error + (string, json) dict option) \<times> 's" where
  "get_operator_explanation = operator_read ''Signal explanation'' ''signal explanation'' ''explanation''"

definition get_operator_review_status ::
  "gateway_client \<Rightarrow> 's transport \<Rightarrow> string \<Rightarrow> string option \<Rightarrow> 's \<Rightarrow>
   (client_error + (string, json) dict option) \<times> 's" where
  "get_operator_review_status = operator_read ''Signal review status'' ''signal review status'' ''review-status''"

section \<open>The tenant of a key\<close>

definition auth_error :: "string \<Rightarrow> client_error" where
  "auth_error m = KitError (RuntimeError m)"

definition principal_tenant :: "string option \<Rightarrow> fund_response \<Rightarrow> client_error + string" where
  "principal_tenant expected r =
     rbind (ensure (hr_status r < 400) (auth_error (''gateway principal HTTP '' @ str_int (hr_status r)))) (\<lambda>_.
     rbind (case hr_json r of
              None \<Rightarrow> Inl (KitError (ValueError ''JSONDecodeError''))
            | Some (JObj b) \<Rightarrow> Inr b
            | Some _ \<Rightarrow> Inl (auth_error ''gateway principal response was not a JSON object'')) (\<lambda>b.
     let tenant = strip (str_get b ''tenant_id'')
     in rbind (ensure (tenant \<noteq> []) (auth_error ''gateway principal JSON missing tenant_id'')) (\<lambda>_.
        rbind (map_sum KitError id (assert_expected_environment ''gateway principal'' b expected)) (\<lambda>_.
        Inr tenant))))"

definition resolve_gateway_tenant_id ::
  "(string \<Rightarrow> bool option) \<Rightarrow> string \<Rightarrow> 's transport \<Rightarrow> string \<Rightarrow> string \<Rightarrow> string \<Rightarrow> string option \<Rightarrow> 's \<Rightarrow>
   (client_error + string) \<times> 's" where
  "resolve_gateway_tenant_id ip6 env send base api_key principal_path expected s =
     (case rbind (map_sum KitError id (normalize_expected_environment expected)) (\<lambda>e.
           rbind (map_sum KitError id (normalize_gateway_base_url ip6 env False base)) (\<lambda>u. Inr (e, u))) of
        Inl e \<Rightarrow> (Inl e, s)
      | Inr (e, u) \<Rightarrow>
          (let path = (if startswith principal_path ''/'' then principal_path else ''/'' @ principal_path);
               (out, s') = send \<lparr>rq_method = ''GET'', rq_url = u @ path,
                                 rq_headers = [(''accept'', ''application/json''),
                                               (''authorization'', ''Bearer '' @ strip api_key)],
                                 rq_body = JNull\<rparr> s
           in (rbind (map_sum KitError id out) (principal_tenant e), s')))"

text \<open>\<open>ServiceAccountSignalSession.open\<close>, and that of the fraud client: a client for that tenant.\<close>

definition open_session ::
  "(string \<Rightarrow> bool option) \<Rightarrow> string \<Rightarrow> 's transport \<Rightarrow> string \<Rightarrow> string \<Rightarrow> string \<Rightarrow> string option \<Rightarrow> 's \<Rightarrow>
   (client_error + gateway_client) \<times> 's" where
  "open_session ip6 env send base api_key principal_path expected s =
     (let (tenant, s') = resolve_gateway_tenant_id ip6 env send base api_key principal_path expected s
      in (rbind tenant (\<lambda>t.
          rbind (map_sum KitError id (normalize_gateway_base_url ip6 env False base)) (\<lambda>u.
          Inr \<lparr>gc_base = u @ ''/'', gc_tenant = strip t, gc_bearer = strip api_key\<rparr>)), s'))"

section \<open>Fraud\<close>

datatype query_value = QNone | QInt int | QStr string

definition fraud_query :: "(string \<times> query_value) list \<Rightarrow> string" where
  "fraud_query values =
     (let params = List.map_filter (\<lambda>(k, v). case v of
              QNone \<Rightarrow> None
            | QInt i \<Rightarrow> Some (k, str_int i)
            | QStr s \<Rightarrow> if strip s = [] then None else Some (k, strip s)) values
      in if params = [] then [] else ''?'' @ urlencode params)"

definition opt_query :: "string option \<Rightarrow> query_value" where
  "opt_query v = (case v of None \<Rightarrow> QNone | Some s \<Rightarrow> QStr s)"

definition normalize_choice :: "string list \<Rightarrow> string \<Rightarrow> string option \<Rightarrow> client_error + string option" where
  "normalize_choice allowed message v = (case nonblank v of
       None \<Rightarrow> Inr None
     | Some s \<Rightarrow>
         rbind (ensure (strip s \<in> set allowed) (KitError (ValueError message))) (\<lambda>_. Inr (Some (strip s))))"

definition normalize_severity :: "string option \<Rightarrow> client_error + string option" where
  "normalize_severity = normalize_choice [''elevated'', ''high'', ''critical'']
     ''fraud severity must be one of elevated, high, or critical''"

definition normalize_window :: "string option \<Rightarrow> client_error + string option" where
  "normalize_window = normalize_choice [''24h'', ''7d'', ''30d'']
     ''fraud metrics window must be one of 24h, 7d, or 30d''"

definition required_choice :: "string list \<Rightarrow> string \<Rightarrow> string \<Rightarrow> client_error + string" where
  "required_choice allowed message v =
     rbind (ensure (strip v \<in> set allowed) (KitError (ValueError message))) (\<lambda>_. Inr (strip v))"

definition normalize_release_gate_mode :: "string \<Rightarrow> client_error + string" where
  "normalize_release_gate_mode = required_choice [''review_only'', ''critical_hold'']
     ''fraud release gate mode must be one of review_only or critical_hold''"

definition FRAUD_REVIEW_OUTCOMES :: "string list" where
  "FRAUD_REVIEW_OUTCOMES = [''confirmed_risk'', ''false_positive'', ''needs_more_evidence'']"

definition FRAUD_REVIEW_EVENT_TYPES :: "string list" where
  "FRAUD_REVIEW_EVENT_TYPES =
     [''review_open_requested'', ''appeal_requested'', ''replay_requested'', ''review_outcome_recorded'',
      ''confirmed_risk'', ''false_positive'', ''needs_more_evidence'']"

definition normalize_review_event_type :: "string \<Rightarrow> client_error + string" where
  "normalize_review_event_type = required_choice FRAUD_REVIEW_EVENT_TYPES
     (''fraud review eventType must be one of review_open_requested, appeal_requested, '' @
      ''replay_requested, review_outcome_recorded, confirmed_risk, false_positive, or needs_more_evidence'')"

definition normalize_review_outcome :: "string \<Rightarrow> client_error + string" where
  "normalize_review_outcome = required_choice FRAUD_REVIEW_OUTCOMES
     ''fraud review outcome must be one of confirmed_risk, false_positive, or needs_more_evidence''"

text \<open>A read of the fraud routes whose answer is only checked for its tenant.\<close>

definition fraud_read ::
  "string \<Rightarrow> string \<Rightarrow> string \<Rightarrow> gateway_client \<Rightarrow> 's transport \<Rightarrow> 's \<Rightarrow>
   (client_error + (string, json) dict) \<times> 's" where
  "fraud_read what noun path c send s =
     (let (out, s') = bearer_get c send path s
      in (rbind out (\<lambda>r. rbind (client_object what noun r) (\<lambda>b.
            rbind (check_tenant ''fraud'' c (gc_base c @ path) b) (\<lambda>_. Inr b))), s'))"

definition get_fraud_assessment ::
  "gateway_client \<Rightarrow> 's transport \<Rightarrow> string \<Rightarrow> string option \<Rightarrow> 's \<Rightarrow>
   (client_error + (string, json) dict option) \<times> 's" where
  "get_fraud_assessment c send operator_did score_version s =
     (let path = ''signal/v1/operators/'' @ url_quote operator_did @ ''/review-status'' @
                 fraud_query [(''score_version'', opt_query score_version)];
          (out, s') = bearer_get c send path s
      in (rbind out (unless_missing (\<lambda>r.
            rbind (client_object ''Fraud assessment'' ''fraud assessment'' r) (\<lambda>b.
            rbind (check_tenant ''fraud'' c (gc_base c @ path) b) (\<lambda>_.
            rbind (check_operator ''fraud assessment'' operator_did b) (\<lambda>_. Inr b))))), s'))"

definition list_fraud_review_queue ::
  "gateway_client \<Rightarrow> 's transport \<Rightarrow> string option \<Rightarrow> string option \<Rightarrow> int option \<Rightarrow> string option \<Rightarrow> 's \<Rightarrow>
   (client_error + (string, json) dict) \<times> 's" where
  "list_fraud_review_queue c send state severity limit score_version s =
     (case normalize_severity severity of
        Inl e \<Rightarrow> (Inl e, s)
      | Inr sev \<Rightarrow>
          fraud_read ''Fraud review queue'' ''fraud review queue''
            (''signal/v1/review-queue'' @ fraud_query
               [(''state'', opt_query state), (''fraud_severity'', opt_query sev),
                (''limit'', case limit of None \<Rightarrow> QNone | Some n \<Rightarrow> QInt (max 1 (min n 500))),
                (''score_version'', opt_query score_version)]) c send s)"

definition get_fraud_metrics ::
  "gateway_client \<Rightarrow> 's transport \<Rightarrow> string option \<Rightarrow> string option \<Rightarrow> 's \<Rightarrow>
   (client_error + (string, json) dict) \<times> 's" where
  "get_fraud_metrics c send window score_version s =
     (case normalize_window window of
        Inl e \<Rightarrow> (Inl e, s)
      | Inr w \<Rightarrow>
          fraud_read ''Fraud metrics'' ''fraud metrics''
            (''signal/v1/fraud/metrics'' @ fraud_query
               [(''window'', opt_query w), (''score_version'', opt_query score_version)]) c send s)"

definition get_fraud_release_gate_config ::
  "gateway_client \<Rightarrow> 's transport \<Rightarrow> string option \<Rightarrow> 's \<Rightarrow> (client_error + (string, json) dict) \<times> 's" where
  "get_fraud_release_gate_config c send score_version =
     fraud_read ''Fraud release gate'' ''fraud release gate''
       (''signal/v1/fraud/release-gate'' @ fraud_query [(''score_version'', opt_query score_version)]) c send"

definition set_fraud_release_gate_mode ::
  "gateway_client \<Rightarrow> 's transport \<Rightarrow> string \<Rightarrow> 's \<Rightarrow> (client_error + (string, json) dict) \<times> 's" where
  "set_fraud_release_gate_mode c send mode s =
     (case normalize_release_gate_mode mode of
        Inl e \<Rightarrow> (Inl e, s)
      | Inr m \<Rightarrow>
          (let path = ''signal/v1/fraud/release-gate'';
               (out, s') = bearer_send ''PUT'' c send path [(''mode'', JStr m)] s
           in (rbind out (\<lambda>r.
                 rbind (client_object ''Fraud release gate update'' ''fraud release gate'' r) (\<lambda>b.
                 rbind (check_tenant ''fraud'' c (gc_base c @ path) b) (\<lambda>_. Inr b))), s')))"

section \<open>Review events\<close>

text \<open>\<open>event.get(camel, event.get(snake))\<close>.\<close>

definition event_field :: "(string, json) dict \<Rightarrow> string \<Rightarrow> string \<Rightarrow> json option" where
  "event_field e camel snake = (case map_of e camel of Some v \<Rightarrow> Some v | None \<Rightarrow> map_of e snake)"

definition optional_context_value :: "json option \<Rightarrow> string option" where
  "optional_context_value v = (case v of
       None \<Rightarrow> None
     | Some JNull \<Rightarrow> None
     | Some j \<Rightarrow> or_none (strip (json_text j)))"

definition text_or_empty :: "json option \<Rightarrow> string" where
  "text_or_empty v = (case v of None \<Rightarrow> [] | Some j \<Rightarrow> json_text j)"

text \<open>
  The event that is recorded: an outcome given as the event's type becomes the outcome of a
  \<open>review_outcome_recorded\<close> event, whatever outcome was given beside it.
\<close>

definition review_event_of ::
  "(string, json) dict \<Rightarrow> client_error + string \<times> string option" where
  "review_event_of e =
     rbind (normalize_review_event_type (text_or_empty (event_field e ''eventType'' ''event_type''))) (\<lambda>ty.
     let outcome = event_field e ''reviewOutcome'' ''review_outcome'';
         (ty', outcome') = (if ty \<in> set FRAUD_REVIEW_OUTCOMES
                            then (''review_outcome_recorded'', Some (JStr ty)) else (ty, outcome))
     in rbind (case outcome' of
                 None \<Rightarrow> Inr None
               | Some JNull \<Rightarrow> Inr None
               | Some j \<Rightarrow> rbind (normalize_review_outcome (json_text j)) (\<lambda>x. Inr (Some x))) (\<lambda>normalized.
        rbind (ensure (ty' \<noteq> ''review_outcome_recorded'' \<or> normalized \<noteq> None)
                (KitError (ValueError (''fraud review outcome must be one of confirmed_risk, '' @
                   ''false_positive, or needs_more_evidence'')))) (\<lambda>_.
        Inr (ty', normalized))))"

definition review_event_body :: "(string, json) dict \<Rightarrow> string \<times> string option \<Rightarrow> (string, json) dict" where
  "review_event_body e ev =
     [(''event_type'', JStr (fst ev)), (''summary'', JStr (text_or_empty (map_of e ''summary'')))]
     @ opt_str ''review_outcome'' (snd ev)
     @ opt_str ''signal_code'' (optional_context_value (event_field e ''signalCode'' ''signal_code''))
     @ opt_str ''intent_id'' (optional_context_value (event_field e ''intentId'' ''intent_id''))
     @ opt_str ''provider_event_id'' (optional_context_value (event_field e ''providerEventId'' ''provider_event_id''))"

text \<open>A 429 is read like a success: the body says that the event was not accepted.\<close>

definition record_fraud_review_event ::
  "gateway_client \<Rightarrow> 's transport \<Rightarrow> string \<Rightarrow> (string, json) dict \<Rightarrow> string option \<Rightarrow> 's \<Rightarrow>
   (client_error + (string, json) dict) \<times> 's" where
  "record_fraud_review_event c send operator_did e score_version s =
     (case review_event_of e of
        Inl x \<Rightarrow> (Inl x, s)
      | Inr ev \<Rightarrow>
          (let path = ''signal/v1/operators/'' @ url_quote operator_did @ ''/review-events'' @
                      fraud_query [(''score_version'', opt_query score_version)];
               (out, s') = bearer_send ''POST'' c send path (review_event_body e ev) s
           in (rbind out (\<lambda>r.
                 rbind (client_object ''Fraud review event'' ''fraud review event''
                          (if hr_status r = 429 then r\<lparr>hr_status := 200\<rparr> else r)) (\<lambda>b.
                 rbind (check_tenant ''fraud'' c (gc_base c @ path) b) (\<lambda>_.
                 rbind (check_operator ''fraud review event'' operator_did b) (\<lambda>_. Inr b)))), s')))"

section \<open>What an answer is bound to\<close>

lemma client_object_Inr [res_iff]:
  "client_object w n r = Inr b \<longleftrightarrow> hr_status r < 400 \<and> hr_json r = Some (JObj b)"
  by (auto simp: client_object_def split: option.splits json.splits)

lemma check_tenant_Inr [res_iff]: "check_tenant f c u b = Inr x \<longleftrightarrow> str_get b ''tenant_id'' = gc_tenant c"
  by (simp add: check_tenant_def)

lemma check_operator_Inr [res_iff]: "check_operator l d b = Inr x \<longleftrightarrow> str_get b ''operator_did'' = d"
  by (simp add: check_operator_def)

lemma unless_missing_Inr [res_iff]:
  "unless_missing f r = Inr (Some x) \<longleftrightarrow> hr_status r \<noteq> 404 \<and> f r = Inr x"
  by (auto simp: unless_missing_def rbind_Inr_iff)

lemma required_choice_Inr [res_iff]:
  "required_choice l m v = Inr x \<longleftrightarrow> x = strip v \<and> strip v \<in> set l"
  by (auto simp: required_choice_def rbind_Inr_iff)

end
