(* ===== verification/Protocol_Client.thy ===== *)
theory Protocol_Client
  imports Signal_Client
begin

text \<open>
  The calls of \<open>protocol.py\<close> and \<open>a2a.py\<close>: importing a mandate, reading and verifying receipts, the
  Harbor mutations that carry a recognition proof, and the agent card and task contracts.
\<close>

section \<open>The error envelope\<close>

datatype protocol_error =
    ProtocolHttpError string int "string option" "string option"  \<comment> \<open>message, status, error code, error message\<close>
  | ProtocolRaised exn

definition stripped_text :: "json option \<Rightarrow> string option" where
  "stripped_text v = (case v of
       Some (JStr s) \<Rightarrow> if strip s = [] then None else Some (strip s)
     | _ \<Rightarrow> None)"

text \<open>\<open>json.loads(body_text)\<close> is the body that the response decodes, where it decodes.\<close>

definition parse_gateway_error_envelope :: "fund_response \<Rightarrow> string option \<times> string option" where
  "parse_gateway_error_envelope r =
     (if \<not> startswith (lstrip (hr_text r)) ''{'' then (None, None)
      else (case hr_json r of
          Some (JObj b) \<Rightarrow> (stripped_text (map_of b ''error''), stripped_text (map_of b ''message''))
        | _ \<Rightarrow> (None, None)))"

definition protocol_http_error_message :: "string \<Rightarrow> fund_response \<Rightarrow> string" where
  "protocol_http_error_message what r =
     (case parse_gateway_error_envelope r of
        (Some code, m) \<Rightarrow> what @ '' HTTP '' @ str_int (hr_status r) @ '' ('' @ code @ ''): '' @
                           (case m of Some t \<Rightarrow> t | None \<Rightarrow> hr_text r)
      | (None, _) \<Rightarrow> what @ '' HTTP '' @ str_int (hr_status r) @ '': '' @ hr_text r)"

definition protocol_object :: "string \<Rightarrow> fund_response \<Rightarrow> protocol_error + (string, json) dict" where
  "protocol_object what r =
     (if hr_status r \<ge> 400
      then Inl (ProtocolHttpError (protocol_http_error_message what r) (hr_status r)
                 (fst (parse_gateway_error_envelope r)) (snd (parse_gateway_error_envelope r)))
      else (case hr_json r of
          None \<Rightarrow> Inl (ProtocolRaised (ValueError ''JSONDecodeError''))
        | Some (JObj b) \<Rightarrow> Inr b
        | Some _ \<Rightarrow> Inl (ProtocolRaised (RuntimeError (what @ '' response was not a JSON object'')))))"

section \<open>Requests\<close>

record protocol_client =
  pc_base :: string  \<comment> \<open>ends with a slash\<close>
  pc_tenant :: string
  pc_bearer :: "string option"

definition new_protocol_client ::
  "(string \<Rightarrow> bool option) \<Rightarrow> string \<Rightarrow> string \<Rightarrow> string \<Rightarrow> string option \<Rightarrow> exn + protocol_client" where
  "new_protocol_client ip6 env base tenant bearer =
     rbind (normalize_gateway_base_url ip6 env False base) (\<lambda>u.
     Inr \<lparr>pc_base = u @ ''/'', pc_tenant = strip tenant,
          pc_bearer = map_option strip (nonblank bearer)\<rparr>)"

definition protocol_headers :: "protocol_client \<Rightarrow> string option \<Rightarrow> http_headers" where
  "protocol_headers c content_type =
     [(''accept'', ''application/json''), (''x-tenant-id'', pc_tenant c)]
     @ (case content_type of Some t \<Rightarrow> [(''content-type'', t)] | None \<Rightarrow> [])
     @ (case pc_bearer c of Some t \<Rightarrow> [(''authorization'', ''Bearer '' @ t)] | None \<Rightarrow> [])"

definition protocol_request ::
  "protocol_client \<Rightarrow> 's transport \<Rightarrow> string \<Rightarrow> string \<Rightarrow> (string, json) dict option \<Rightarrow> http_headers \<Rightarrow> 's \<Rightarrow>
   (protocol_error + fund_response) \<times> 's" where
  "protocol_request c send verb path body extra s =
     (let (out, s') = send \<lparr>rq_method = verb, rq_url = pc_base c @ strip_slashes path,
            rq_headers = dict_merge (protocol_headers c (map_option (\<lambda>_. ''application/json'') body)) extra,
            rq_body = (case body of Some b \<Rightarrow> JObj b | None \<Rightarrow> JNull)\<rparr> s
      in (map_sum ProtocolRaised id out, s'))"

definition protocol_check :: "bool \<Rightarrow> string \<Rightarrow> protocol_error + unit" where
  "protocol_check ok m = ensure ok (ProtocolRaised (RuntimeError m))"

section \<open>Mandates and receipts\<close>

definition mandate_tenant :: "(string, json) dict \<Rightarrow> protocol_error + string" where
  "mandate_tenant m = (case map_of m ''authorization'' of
       None \<Rightarrow> Inr []
     | Some (JObj a) \<Rightarrow> Inr (strip (str_get a ''tenant_id''))
     | Some _ \<Rightarrow> Inl (ProtocolRaised (AttributeError ''get'')))"

definition import_agent_mandate_v1 ::
  "protocol_client \<Rightarrow> 's transport \<Rightarrow> json \<Rightarrow> string \<Rightarrow> (string, json) dict \<Rightarrow> (string, json) dict option \<Rightarrow> 's \<Rightarrow>
   (protocol_error + (string, json) dict) \<times> 's" where
  "import_agent_mandate_v1 c send signed_mandate intent_id recognition_proof transport_binding s =
     (let (out, s') = protocol_request c send ''POST'' ''protocol/v2/mandates''
            (Some [(''signed_mandate'', signed_mandate), (''intent_id'', JStr intent_id),
                   (''transport_binding'', JObj (case transport_binding of Some t \<Rightarrow> t | None \<Rightarrow> [])),
                   (''recognition_proof'', JObj recognition_proof)]) [] s
      in (rbind out (\<lambda>r.
          rbind (protocol_object ''protocol mandate import'' r) (\<lambda>b.
          rbind (protocol_check (strip (str_get b ''intent_id'') = intent_id)
                  (''protocol intent mismatch: requested='' @ py_repr intent_id @ '' gateway='' @
                   py_repr (strip (str_get b ''intent_id'')))) (\<lambda>_.
          rbind (case map_of b ''mandate'' of
                   None \<Rightarrow> Inr []
                 | Some (JObj m) \<Rightarrow> Inr m
                 | Some _ \<Rightarrow> Inl (ProtocolRaised (RuntimeError
                     ''protocol mandate import response missing mandate object''))) (\<lambda>m.
          rbind (mandate_tenant m) (\<lambda>t.
          rbind (protocol_check (t = pc_tenant c)
                  (''protocol mandate tenant mismatch: client='' @ py_repr (pc_tenant c) @
                   '' gateway='' @ py_repr t)) (\<lambda>_. Inr b)))))), s'))"

definition check_receipt_tenant ::
  "string \<Rightarrow> protocol_client \<Rightarrow> (string, json) dict \<Rightarrow> protocol_error + unit" where
  "check_receipt_tenant what c b =
     protocol_check (strip (str_get b ''tenant_id'') = pc_tenant c)
       (what @ '' receipt tenant mismatch: client='' @ py_repr (pc_tenant c) @
        '' gateway='' @ py_repr (strip (str_get b ''tenant_id'')))"

text \<open>The two reads by receipt id.\<close>

definition receipt_read ::
  "string \<Rightarrow> string \<Rightarrow> string \<Rightarrow> protocol_client \<Rightarrow> 's transport \<Rightarrow> string \<Rightarrow> 's \<Rightarrow>
   (protocol_error + (string, json) dict) \<times> 's" where
  "receipt_read stem what short c send receipt_id s =
     (let (out, s') = protocol_request c send ''GET'' (stem @ url_quote receipt_id) None [] s
      in (rbind out (\<lambda>r.
          rbind (protocol_object what r) (\<lambda>b.
          rbind (protocol_check (strip (str_get b ''receipt_id'') = receipt_id)
                  (short @ '' receipt mismatch: requested='' @ py_repr receipt_id @ '' gateway='' @
                   py_repr (strip (str_get b ''receipt_id'')))) (\<lambda>_.
          rbind (check_receipt_tenant short c b) (\<lambda>_. Inr b)))), s'))"

definition get_settlement_receipt_v1 ::
  "protocol_client \<Rightarrow> 's transport \<Rightarrow> string \<Rightarrow> 's \<Rightarrow> (protocol_error + (string, json) dict) \<times> 's" where
  "get_settlement_receipt_v1 = receipt_read ''protocol/v2/receipts/'' ''protocol settlement receipt'' ''protocol''"

definition get_agent_receipt_v1_by_id ::
  "protocol_client \<Rightarrow> 's transport \<Rightarrow> string \<Rightarrow> 's \<Rightarrow> (protocol_error + (string, json) dict) \<times> 's" where
  "get_agent_receipt_v1_by_id = receipt_read ''protocol/v2/agent-receipts/'' ''agent receipt'' ''agent''"

text \<open>
  The lookup by intent and tool call: only the tenant of the receipt is compared, not the intent
  and the call it is about.
\<close>

definition get_agent_receipt_v1_by_intent_tool_call ::
  "protocol_client \<Rightarrow> 's transport \<Rightarrow> string \<Rightarrow> string \<Rightarrow> 's \<Rightarrow> (protocol_error + (string, json) dict) \<times> 's" where
  "get_agent_receipt_v1_by_intent_tool_call c send intent_id tool_call_id s =
     (let (out, s') = protocol_request c send ''GET''
            (''protocol/v2/agent-receipts?'' @
             urlencode [(''intent_id'', intent_id), (''tool_call_id'', tool_call_id)]) None [] s
      in (rbind out (\<lambda>r.
          rbind (protocol_object ''agent receipt lookup'' r) (\<lambda>b.
          rbind (check_receipt_tenant ''agent'' c b) (\<lambda>_. Inr b))), s'))"

text \<open>Verification by the gateway: the answer is handed out as it is.\<close>

definition verify_at_gateway ::
  "string \<Rightarrow> string \<Rightarrow> protocol_client \<Rightarrow> 's transport \<Rightarrow> (string, json) dict \<Rightarrow> 's \<Rightarrow>
   (protocol_error + (string, json) dict) \<times> 's" where
  "verify_at_gateway path what c send receipt s =
     (let (out, s') = protocol_request c send ''POST'' path (Some receipt) [] s
      in (rbind out (protocol_object what), s'))"

definition verify_protocol_receipt_v1 ::
  "protocol_client \<Rightarrow> 's transport \<Rightarrow> (string, json) dict \<Rightarrow> 's \<Rightarrow> (protocol_error + (string, json) dict) \<times> 's" where
  "verify_protocol_receipt_v1 = verify_at_gateway ''protocol/v2/receipts/verify'' ''protocol receipt verify''"

definition verify_agent_receipt_v1_at_gateway ::
  "protocol_client \<Rightarrow> 's transport \<Rightarrow> (string, json) dict \<Rightarrow> 's \<Rightarrow> (protocol_error + (string, json) dict) \<times> 's" where
  "verify_agent_receipt_v1_at_gateway = verify_at_gateway ''protocol/v2/agent-receipts/verify'' ''agent receipt verify''"

section \<open>Mutations that carry a recognition proof\<close>

definition gateway_mutation ::
  "protocol_client \<Rightarrow> 's transport \<Rightarrow> string \<Rightarrow> (string, json) dict \<Rightarrow> (string, json) dict \<Rightarrow> string option \<Rightarrow>
   http_headers \<Rightarrow> 's \<Rightarrow> (protocol_error + (string, json) dict) \<times> 's" where
  "gateway_mutation c send path body recognition_proof idempotency_key extra s =
     (let hs = AList.update ''x-paybond-agent-recognition-proof''
                 (encode_recognition_proof_header recognition_proof) extra;
          hs = (case nonblank idempotency_key of
                  Some k \<Rightarrow> AList.update ''idempotency-key'' (strip k) hs
                | None \<Rightarrow> hs);
          (out, s') = protocol_request c send ''POST'' path (Some body) hs s
      in (rbind out (protocol_object ''gateway mutation''), s'))"

definition create_harbor_intent ::
  "protocol_client \<Rightarrow> 's transport \<Rightarrow> (string, json) dict \<Rightarrow> (string, json) dict \<Rightarrow> string option \<Rightarrow> 's \<Rightarrow>
   (protocol_error + (string, json) dict) \<times> 's" where
  "create_harbor_intent c send body recognition_proof idempotency_key =
     gateway_mutation c send ''harbor/intents'' body recognition_proof idempotency_key []"

definition fund_harbor_intent ::
  "protocol_client \<Rightarrow> 's transport \<Rightarrow> string \<Rightarrow> (string, json) dict \<Rightarrow> string option \<Rightarrow> string option \<Rightarrow> 's \<Rightarrow>
   (protocol_error + (string, json) dict) \<times> 's" where
  "fund_harbor_intent c send intent_id recognition_proof payment_signature idempotency_key =
     gateway_mutation c send (''harbor/intents/'' @ url_quote intent_id @ ''/fund'') [] recognition_proof
       idempotency_key
       (case nonblank payment_signature of
          Some p \<Rightarrow> [(''payment-signature'', strip p)] | None \<Rightarrow> [])"

definition submit_harbor_evidence_by_proof ::
  "protocol_client \<Rightarrow> 's transport \<Rightarrow> string \<Rightarrow> (string, json) dict \<Rightarrow> (string, json) dict \<Rightarrow> string option \<Rightarrow> 's \<Rightarrow>
   (protocol_error + (string, json) dict) \<times> 's" where
  "submit_harbor_evidence_by_proof c send intent_id body recognition_proof idempotency_key =
     gateway_mutation c send (''harbor/intents/'' @ url_quote intent_id @ ''/evidence'') body
       recognition_proof idempotency_key []"

definition confirm_harbor_settlement ::
  "protocol_client \<Rightarrow> 's transport \<Rightarrow> string \<Rightarrow> (string, json) dict \<Rightarrow> (string, json) dict \<Rightarrow> string option \<Rightarrow> 's \<Rightarrow>
   (protocol_error + (string, json) dict) \<times> 's" where
  "confirm_harbor_settlement c send intent_id body recognition_proof idempotency_key =
     gateway_mutation c send (''harbor/intents/'' @ url_quote intent_id @ ''/settlement/confirm'') body
       recognition_proof idempotency_key []"

section \<open>A2A discovery\<close>

record a2a_client =
  ac_base :: string  \<comment> \<open>ends with a slash\<close>
  ac_bearer :: "string option"

definition new_a2a_client ::
  "(string \<Rightarrow> bool option) \<Rightarrow> string \<Rightarrow> string \<Rightarrow> string option \<Rightarrow> exn + a2a_client" where
  "new_a2a_client ip6 env base bearer =
     rbind (normalize_gateway_base_url ip6 env False base) (\<lambda>u.
     Inr \<lparr>ac_base = u @ ''/'', ac_bearer = map_option strip (nonblank bearer)\<rparr>)"

definition a2a_get ::
  "string \<Rightarrow> string \<Rightarrow> a2a_client \<Rightarrow> 's transport \<Rightarrow> 's \<Rightarrow> (client_error + (string, json) dict) \<times> 's" where
  "a2a_get path what c send s =
     (let (out, s') = send \<lparr>rq_method = ''GET'', rq_url = ac_base c @ strip_slashes path,
            rq_headers = [(''accept'', ''application/json'')]
              @ (case ac_bearer c of Some t \<Rightarrow> [(''authorization'', ''Bearer '' @ t)] | None \<Rightarrow> []),
            rq_body = JNull\<rparr> s
      in (rbind (map_sum KitError id out) (client_object what what), s'))"

definition get_agent_card ::
  "a2a_client \<Rightarrow> 's transport \<Rightarrow> 's \<Rightarrow> (client_error + (string, json) dict) \<times> 's" where
  "get_agent_card = a2a_get ''.well-known/agent-card.json'' ''A2A agent card''"

definition get_task_contracts ::
  "a2a_client \<Rightarrow> 's transport \<Rightarrow> 's \<Rightarrow> (client_error + (string, json) dict) \<times> 's" where
  "get_task_contracts = a2a_get ''protocol/v2/a2a/task-contracts'' ''A2A task contracts''"

definition get_task_contract ::
  "a2a_client \<Rightarrow> 's transport \<Rightarrow> string \<Rightarrow> 's \<Rightarrow> (client_error + (string, json) dict) \<times> 's" where
  "get_task_contract c send contract_id =
     a2a_get (''protocol/v2/a2a/task-contracts/'' @ url_quote contract_id) ''A2A task contract'' c send"

section \<open>What the answers are bound to\<close>

lemma protocol_object_Inr [res_iff]:
  "protocol_object w r = Inr b \<longleftrightarrow> hr_status r < 400 \<and> hr_json r = Some (JObj b)"
  by (auto simp: protocol_object_def split: option.splits json.splits)

lemma protocol_check_Inr [res_iff]: "protocol_check ok m = Inr x \<longleftrightarrow> ok"
  by (simp add: protocol_check_def)

lemma check_receipt_tenant_Inr [res_iff]:
  "check_receipt_tenant w c b = Inr x \<longleftrightarrow> strip (str_get b ''tenant_id'') = pc_tenant c"
  by (simp add: check_receipt_tenant_def protocol_check_def)

section \<open>Reading the proof header back\<close>

definition b64_value :: "char \<Rightarrow> nat" where
  "b64_value c = (let n = of_char c in
     if n = 45 then 62 else if n = 95 then 63 else if n < 58 then n + 4 else if n < 91 then n - 65 else n - 71)"

fun b64_decode :: "string \<Rightarrow> string" where
  "b64_decode [a, b] = [char_of (4 * b64_value a + b64_value b div 16)]"
| "b64_decode [a, b, c] =
     [char_of (4 * b64_value a + b64_value b div 16),
      char_of (16 * (b64_value b mod 16) + b64_value c div 4)]"
| "b64_decode (a # b # c # d # cs) =
     char_of (4 * b64_value a + b64_value b div 16) #
     char_of (16 * (b64_value b mod 16) + b64_value c div 4) #
     char_of (64 * (b64_value c mod 4) + b64_value d) # b64_decode cs"
| "b64_decode cs = []"

lemma b64_value_char: "n < 64 \<Longrightarrow> b64_value (b64_char n) = n"
  by (auto simp: b64_value_def b64_char_def Let_def of_char_of)

lemma b64_digits:
  fixes x y z :: nat
  assumes "x < 256" "y < 256" "z < 256"
  shows "x div 4 < 64" "x mod 4 * 16 < 64" "x mod 4 * 16 + y div 16 < 64" "y mod 16 * 4 < 64"
    "y mod 16 * 4 + z div 64 < 64" "z mod 64 < 64"
    "4 * (x div 4) + x mod 4 * 16 div 16 = x" "4 * (x div 4) + (x mod 4 * 16 + y div 16) div 16 = x"
    "16 * ((x mod 4 * 16 + y div 16) mod 16) + y mod 16 * 4 div 4 = y"
    "16 * ((x mod 4 * 16 + y div 16) mod 16) + (y mod 16 * 4 + z div 64) div 4 = y"
    "64 * ((y mod 16 * 4 + z div 64) mod 4) + z mod 64 = z"
proof -
  have q: "x div 4 < 64" "y div 16 < 16" "z div 64 < 4" "x mod 4 < 4" "y mod 16 < 16" "z mod 64 < 64"
    using assms by (auto simp: less_mult_imp_div_less)
  then show "x div 4 < 64" "x mod 4 * 16 < 64" "x mod 4 * 16 + y div 16 < 64" "y mod 16 * 4 < 64"
    "y mod 16 * 4 + z div 64 < 64" "z mod 64 < 64" by simp_all
  have top: "(x mod 4 * 16 + y div 16) div 16 = x mod 4" "(x mod 4 * 16 + y div 16) mod 16 = y div 16"
    "(y mod 16 * 4 + z div 64) div 4 = y mod 16" "(y mod 16 * 4 + z div 64) mod 4 = z div 64"
    using q by simp_all
  show "4 * (x div 4) + x mod 4 * 16 div 16 = x" by simp
  show "4 * (x div 4) + (x mod 4 * 16 + y div 16) div 16 = x" by (simp only: top) simp
  show "16 * ((x mod 4 * 16 + y div 16) mod 16) + y mod 16 * 4 div 4 = y" by (simp only: top) simp
  show "16 * ((x mod 4 * 16 + y div 16) mod 16) + (y mod 16 * 4 + z div 64) div 4 = y" by (simp only: top) simp
  show "64 * ((y mod 16 * 4 + z div 64) mod 4) + z mod 64 = z" by (simp only: top) simp
qed

lemma b64_decode_b64url: "b64_decode (b64url bs) = bs"
proof (induction bs rule: b64url.induct)
  case (2 a)
  then show ?case using b64_digits[OF of_char_lt[of a] of_char_lt[of a] of_char_lt[of a]]
    by (simp add: Let_def b64_value_char del: mult_div_mod_eq)
next
  case (3 a b)
  then show ?case using b64_digits[OF of_char_lt[of a] of_char_lt[of b] of_char_lt[of b]]
    by (simp add: Let_def b64_value_char del: mult_div_mod_eq)
next
  case (4 a b c cs)
  then show ?case using b64_digits[OF of_char_lt[of a] of_char_lt[of b] of_char_lt[of c]]
    by (simp add: Let_def b64_value_char del: mult_div_mod_eq)
qed simp

end
