(* ===== verification/Mcp_Gateway.thy ===== *)
theory Mcp_Gateway
  imports Mcp_Surface Protocol_Client
begin

text \<open>
  The rest of the runtime of \<open>mcp_server.py\<close>: its settings, the client it reaches the gateway
  with, the principal it caches and the operations behind its tools, with the requests they send
  and the checks on the answers.  \<open>GatewayHTTPError\<close>, a \<open>RuntimeError\<close>, is \<open>RuntimeError\<close> with its message.
\<close>

section \<open>Calls that pass the world on\<close>

type_synonym ('a, 'w) call = "'w \<Rightarrow> (exn + 'a) \<times> 'w"

definition mret :: "'a \<Rightarrow> ('a, 'w) call" where
  "mret x w = (Inr x, w)"

definition mlift :: "exn + 'a \<Rightarrow> ('a, 'w) call" where
  "mlift r w = (r, w)"

definition mthen :: "('a, 'w) call \<Rightarrow> ('a \<Rightarrow> ('b, 'w) call) \<Rightarrow> ('b, 'w) call" where
  "mthen m f w = (case m w of (Inl e, w') \<Rightarrow> (Inl e, w') | (Inr x, w') \<Rightarrow> f x w')"

lemma mthen_Inr:
  "mthen m f w = (Inr y, w') \<longleftrightarrow> (\<exists>x w1. m w = (Inr x, w1) \<and> f x w1 = (Inr y, w'))"
  by (auto simp: mthen_def split: prod.splits sum.splits)

lemma mret_Inr [simp]: "mret x w = (Inr y, w') \<longleftrightarrow> y = x \<and> w' = w"
  by (auto simp: mret_def)

lemma mlift_Inr [simp]: "mlift r w = (Inr y, w') \<longleftrightarrow> r = Inr y \<and> w' = w"
  by (auto simp: mlift_def)

section \<open>Settings\<close>

record mcp_settings =
  st_api_key :: string
  st_gateway_base_url :: string
  st_principal_path :: string
  st_max_retries :: int
  st_tool_policy :: tool_policy_config
  st_evidence_policy :: evidence_policy
  st_policy_reload :: "gate_config option"
  st_capability_token_cache :: token_cache_config

text \<open>\<open>str.splitlines\<close> and the value of a key in an environment file; \<open>None\<close> is a file that is not there.\<close>

definition line_break :: "char \<Rightarrow> bool" where
  "line_break c \<longleftrightarrow> (let n = of_char c :: nat in 10 \<le> n \<and> n \<le> 13 \<or> 28 \<le> n \<and> n \<le> 30 \<or> n = 133)"

fun splitlines :: "string \<Rightarrow> string \<Rightarrow> string list" where
  "splitlines line [] = (if line = [] then [] else [rev line])"
| "splitlines line [c] = (if line_break c then [rev line] else [rev (c # line)])"
| "splitlines line (c # d # cs) =
     (if c = CHR 0x0D \<and> d = CHR 0x0A then rev line # splitlines [] cs
      else if line_break c then rev line # splitlines [] (d # cs)
      else splitlines (c # line) (d # cs))"

definition unquoted :: "string \<Rightarrow> string" where
  "unquoted v =
     (if length v \<ge> 2 \<and> hd v = last v \<and> hd v \<in> {CHR 0x27, CHR 0x22} then butlast (tl v) else v)"

definition env_file_line :: "string \<Rightarrow> string \<Rightarrow> string option" where
  "env_file_line key raw_line =
     (let line = strip raw_line; p = key @ ''=''; ep = ''export '' @ key @ ''=''
      in if startswith line ep then Some (strip (unquoted (strip (drop (length ep) line))))
         else if startswith line p then Some (strip (unquoted (strip (drop (length p) line))))
         else None)"

definition read_env_file_value :: "(string \<Rightarrow> string option) \<Rightarrow> string \<Rightarrow> string \<Rightarrow> string" where
  "read_env_file_value files env_file key = (case files env_file of
       None \<Rightarrow> []
     | Some body \<Rightarrow> (case List.map_filter (env_file_line key) (splitlines [] body) of
           [] \<Rightarrow> [] | v # _ \<Rightarrow> v))"

definition DEFAULT_GATEWAY_BASE_URL :: string where
  "DEFAULT_GATEWAY_BASE_URL = ''https://api.paybond.ai''"

definition settings_from_env ::
  "(string \<Rightarrow> bool option) \<Rightarrow> (string \<Rightarrow> string option) \<Rightarrow> (string \<Rightarrow> string) \<Rightarrow> (string, string) dict \<Rightarrow>
   (string, string) dict \<Rightarrow> exn + mcp_settings" where
  "settings_from_env ip6 files resolve_path environ env =
     (let values = (if env = [] then environ else env);
          env_file = first_text [env_strip values ''PAYBOND_ENV_FILE'', ''.env.local''];
          api_key = first_text [env_strip values ''PAYBOND_API_KEY'', read_env_file_value files env_file ''PAYBOND_API_KEY''];
          url = first_text [env_strip values ''PAYBOND_GATEWAY_URL'', env_strip values ''PAYBOND_GATEWAY_BASE_URL'',
                            read_env_file_value files env_file ''PAYBOND_GATEWAY_URL'',
                            read_env_file_value files env_file ''PAYBOND_GATEWAY_BASE_URL'', DEFAULT_GATEWAY_BASE_URL];
          insecure = str_or (map_of environ ''PAYBOND_ALLOW_INSECURE_GATEWAY'') [];
          retries = env_strip values ''PAYBOND_MCP_MAX_RETRIES''
      in rbind (normalize_gateway_base_url ip6 insecure False url) (\<lambda>base.
         rbind (tool_policy_of_env values) (\<lambda>tools.
         rbind (parse_mcp_evidence_policy (or_none (env_strip values ''PAYBOND_MCP_EVIDENCE_POLICY''))) (\<lambda>evidence.
         rbind (parse_mcp_policy_reload_config resolve_path values) (\<lambda>reload.
         rbind (parse_mcp_capability_token_cache_config environ values) (\<lambda>cache.
         rbind (ensure (api_key \<noteq> []) (HostError (''PAYBOND_API_KEY is required; run paybond-kit-login or '' @
                  ''configure your MCP host environment''))) (\<lambda>_.
         rbind (if retries = [] then Inr 3 else (case py_int_str retries of
                    Some n \<Rightarrow> Inr (max 1 n)
                  | None \<Rightarrow> Inl (HostError ''PAYBOND_MCP_MAX_RETRIES must be an integer''))) (\<lambda>n.
         Inr \<lparr>st_api_key = api_key, st_gateway_base_url = base,
              st_principal_path = first_text [env_strip values ''PAYBOND_PRINCIPAL_PATH'', ''/v1/auth/principal''],
              st_max_retries = n, st_tool_policy = tools, st_evidence_policy = evidence,
              st_policy_reload = reload, st_capability_token_cache = cache\<rparr>))))))))"

definition mcp_standard_key_warning :: "(string \<Rightarrow> bool option) \<Rightarrow> string \<Rightarrow> string \<Rightarrow> string option" where
  "mcp_standard_key_warning ip6 gateway_base_url api_key =
     (if classify_paybond_api_key api_key \<noteq> Standard then None
      else (case urlparse gateway_base_url of
          Inl _ \<Rightarrow> None
        | Inr p \<Rightarrow>
            (let hostname = lower (strip (url_hostname p))
             in if hostname = [] \<or> is_local_gateway_host ip6 hostname then None
                else Some (''Paybond MCP: using a standard paybond_sk_ key against '' @ hostname @ ''. '' @
                  ''Create a restricted paybond_rk_ key '' @
                  ''(paybond keys create --kind restricted --preset mcp-readonly) so the '' @
                  ''credential itself limits the exposed MCP tools.''))))"

section \<open>The gateway's client\<close>

text \<open>
  \<open>urljoin\<close> of a base that ends with a slash and a path without a leading one: dot segments are
  resolved and empty segments dropped, and a path that begins with a scheme is a URL of its own.
\<close>

fun resolve_segments :: "string list \<Rightarrow> string list \<Rightarrow> string list" where
  "resolve_segments acc [] = rev acc"
| "resolve_segments acc (s # ss) =
     (if s = ''..'' then resolve_segments (tl acc) ss
      else if s = ''.'' then resolve_segments acc ss
      else resolve_segments (s # acc) ss)"

definition drop_empty_inside :: "string list \<Rightarrow> string list" where
  "drop_empty_inside ss =
     (if length ss < 2 then ss
      else hd ss # filter (\<lambda>s. s \<noteq> []) (butlast (tl ss)) @ [last ss])"

definition join_path :: "string \<Rightarrow> string \<Rightarrow> string" where
  "join_path base_path path =
     (let segments = drop_empty_inside (butlast (py_split CHR ''/'' base_path) @ py_split CHR ''/'' path);
          resolved = resolve_segments [] segments @ (if last segments \<in> {''.'', ''..''} then [[]] else []);
          joined = py_join ''/'' resolved
      in if startswith joined ''/'' then joined else ''/'' @ joined)"

definition url_join :: "string \<Rightarrow> string \<Rightarrow> string" where
  "url_join base path =
     (if path = [] then base
      else if fst (split_scheme path) \<noteq> [] then path
      else (let (scheme, rest) = split_scheme base;
                netloc = takeWhile (\<lambda>c. c \<noteq> CHR ''/'') (drop 2 rest);
                base_path = dropWhile (\<lambda>c. c \<noteq> CHR ''/'') (drop 2 rest);
                plain = takeWhile (\<lambda>c. c \<notin> set ''?#'') path;
                tail = dropWhile (\<lambda>c. c \<notin> set ''?#'') path
            in scheme @ ''://'' @ netloc @ (if plain = [] then base_path else join_path base_path plain) @ tail))"

record mcp_gateway =
  mg_base :: string  \<comment> \<open>ends with a slash\<close>
  mg_api_key :: string
  mg_principal_path :: string

definition new_mcp_gateway :: "(string \<Rightarrow> bool option) \<Rightarrow> string \<Rightarrow> mcp_settings \<Rightarrow> exn + mcp_gateway" where
  "new_mcp_gateway ip6 insecure s =
     rbind (normalize_gateway_base_url ip6 insecure False (st_gateway_base_url s)) (\<lambda>u.
     Inr \<lparr>mg_base = u @ ''/'', mg_api_key = strip (st_api_key s), mg_principal_path = st_principal_path s\<rparr>)"

definition gateway_http_error_message :: "string \<Rightarrow> string \<Rightarrow> fund_response \<Rightarrow> string" where
  "gateway_http_error_message verb path r =
     (case parse_gateway_error_envelope r of
        (Some code, m) \<Rightarrow> ''Gateway '' @ verb @ '' '' @ path @ '' HTTP '' @ str_int (hr_status r) @ '' ('' @ code @
                           ''): '' @ (case m of Some t \<Rightarrow> t | None \<Rightarrow> hr_text r)
      | (None, _) \<Rightarrow> ''Gateway '' @ verb @ '' '' @ path @ '' HTTP '' @ str_int (hr_status r) @ '': '' @ hr_text r)"

definition gateway_json :: "string \<Rightarrow> string \<Rightarrow> fund_response \<Rightarrow> exn + (string, json) dict" where
  "gateway_json verb path r =
     (if hr_status r \<ge> 400 then Inl (RuntimeError (gateway_http_error_message verb path r))
      else (case hr_json r of
          None \<Rightarrow> Inl (ValueError ''JSONDecodeError'')
        | Some (JObj b) \<Rightarrow> Inr b
        | Some _ \<Rightarrow> Inl (RuntimeError (''Gateway '' @ verb @ '' '' @ path @ '' response was not a JSON object''))))"

definition mcp_request ::
  "mcp_gateway \<Rightarrow> string \<Rightarrow> string \<Rightarrow> (string, json) dict option \<Rightarrow> http_headers \<Rightarrow> http_request" where
  "mcp_request c verb path payload extra =
     \<lparr>rq_method = verb, rq_url = url_join (mg_base c) (strip_slashes path),
      rq_headers = dict_merge
        (dict_merge [(''accept'', ''application/json''), (''authorization'', ''Bearer '' @ mg_api_key c)] extra)
        (if payload = None then [] else [(''content-type'', ''application/json'')]),
      rq_body = (case payload of Some b \<Rightarrow> JObj b | None \<Rightarrow> JNull)\<rparr>"

section \<open>The world of a server\<close>

record 's mcp_world =
  mw_runtime :: mcp_runtime
  mw_principal :: "(string, json) dict option"
  mw_net :: 's

definition request_json ::
  "mcp_gateway \<Rightarrow> 's transport \<Rightarrow> string \<Rightarrow> string \<Rightarrow> (string, json) dict option \<Rightarrow> http_headers \<Rightarrow>
   ((string, json) dict, 's mcp_world) call" where
  "request_json c send verb path payload extra w =
     (let (out, s) = send (mcp_request c verb path payload extra) (mw_net w)
      in (rbind out (gateway_json verb path), w\<lparr>mw_net := s\<rparr>))"

definition principal ::
  "mcp_gateway \<Rightarrow> 's transport \<Rightarrow> ((string, json) dict, 's mcp_world) call" where
  "principal c send w = (case mw_principal w of
       Some p \<Rightarrow> (Inr p, w)
     | None \<Rightarrow> (case request_json c send ''GET'' (mg_principal_path c) None [] w of
           (Inl e, w') \<Rightarrow> (Inl e, w')
         | (Inr p, w') \<Rightarrow> (Inr p, w'\<lparr>mw_principal := Some p\<rparr>)))"

definition tenant_of :: "(string, json) dict \<Rightarrow> exn + string" where
  "tenant_of p =
     (let tenant = strip (str_get p ''tenant_id'')
      in rbind (ensure (tenant \<noteq> []) (RuntimeError ''gateway principal response missing tenant_id'')) (\<lambda>_. Inr tenant))"

definition mcp_tenant_id :: "mcp_gateway \<Rightarrow> 's transport \<Rightarrow> (string, 's mcp_world) call" where
  "mcp_tenant_id c send = mthen (principal c send) (\<lambda>p. mlift (tenant_of p))"

text \<open>A request that names the tenant in a header, and one that does not.\<close>

definition tenant_request ::
  "mcp_gateway \<Rightarrow> 's transport \<Rightarrow> string \<Rightarrow> string \<Rightarrow> (string, json) dict option \<Rightarrow>
   ((string, json) dict, 's mcp_world) call" where
  "tenant_request c send verb path payload =
     mthen (mcp_tenant_id c send) (\<lambda>t. request_json c send verb path payload [(''x-tenant-id'', t)])"

definition assert_tenant_echo ::
  "mcp_gateway \<Rightarrow> 's transport \<Rightarrow> (string, json) dict \<Rightarrow> string \<Rightarrow> (unit, 's mcp_world) call" where
  "assert_tenant_echo c send body k =
     mthen (mcp_tenant_id c send) (\<lambda>expected.
       mlift (ensure (strip (str_get body k) = expected)
         (TenantBindingError (''tenant mismatch: expected='' @ py_repr expected @
            '' gateway='' @ py_repr (strip (str_get body k))))))"

section \<open>Reads\<close>

definition nonblank_param :: "string \<Rightarrow> string option \<Rightarrow> (string, string) dict" where
  "nonblank_param k v = (case nonblank v of Some s \<Rightarrow> [(k, strip s)] | None \<Rightarrow> [])"

definition page_limit :: "int \<Rightarrow> string" where
  "page_limit n = str_int (max 1 (min n 200))"

definition mcp_list_intents ::
  "mcp_gateway \<Rightarrow> 's transport \<Rightarrow> string option \<Rightarrow> string option \<Rightarrow> int \<Rightarrow> string option \<Rightarrow>
   ((string, json) dict, 's mcp_world) call" where
  "mcp_list_intents c send status operator_did limit cursor =
     tenant_request c send ''GET'' (''/harbor/operator/v1/intents?'' @ urlencode
       ([(''limit'', page_limit limit)] @ nonblank_param ''status'' status @
        nonblank_param ''operator_did'' operator_did @ nonblank_param ''cursor'' cursor)) None"

definition mcp_get_intent :: "mcp_gateway \<Rightarrow> 's transport \<Rightarrow> uuid \<Rightarrow> ((string, json) dict, 's mcp_world) call" where
  "mcp_get_intent c send intent =
     tenant_request c send ''GET'' (''/harbor/operator/v1/intents/'' @ uuid_str intent) None"

definition mcp_list_audit_exports ::
  "mcp_gateway \<Rightarrow> 's transport \<Rightarrow> int \<Rightarrow> string option \<Rightarrow> ((string, json) dict, 's mcp_world) call" where
  "mcp_list_audit_exports c send limit cursor =
     request_json c send ''GET'' (''/v1/compliance/audit-exports?'' @ urlencode
       ([(''limit'', page_limit limit)] @ nonblank_param ''cursor'' cursor)) None []"

definition mcp_get_audit_export ::
  "mcp_gateway \<Rightarrow> 's transport \<Rightarrow> string \<Rightarrow> bool \<Rightarrow> ((string, json) dict, 's mcp_world) call" where
  "mcp_get_audit_export c send job_id issue_download =
     request_json c send ''GET'' (''/v1/compliance/audit-exports/'' @ url_quote job_id @
       (if issue_download then ''?issue_download=1'' else [])) None []"

definition mcp_get_a2a_agent_card :: "mcp_gateway \<Rightarrow> 's transport \<Rightarrow> ((string, json) dict, 's mcp_world) call" where
  "mcp_get_a2a_agent_card c send = request_json c send ''GET'' ''/.well-known/agent-card.json'' None []"

definition mcp_get_a2a_task_contracts :: "mcp_gateway \<Rightarrow> 's transport \<Rightarrow> ((string, json) dict, 's mcp_world) call" where
  "mcp_get_a2a_task_contracts c send = request_json c send ''GET'' ''/protocol/v2/a2a/task-contracts'' None []"

definition mcp_get_a2a_task_contract ::
  "mcp_gateway \<Rightarrow> 's transport \<Rightarrow> string \<Rightarrow> ((string, json) dict, 's mcp_world) call" where
  "mcp_get_a2a_task_contract c send contract_id =
     request_json c send ''GET'' (''/protocol/v2/a2a/task-contracts/'' @ url_quote contract_id) None []"

text \<open>The reads of one receipt: the gateway must echo the id and the tenant.\<close>

definition mcp_read_receipt ::
  "mcp_gateway \<Rightarrow> 's transport \<Rightarrow> string \<Rightarrow> (string \<Rightarrow> string) \<Rightarrow> string \<Rightarrow>
   ((string, json) dict, 's mcp_world) call" where
  "mcp_read_receipt c send stem canon receipt_id =
     mthen (tenant_request c send ''GET'' (stem @ url_quote receipt_id) None) (\<lambda>body.
     mthen (mlift (ensure (canon (strip (str_get body ''receipt_id'')) = receipt_id)
             (TenantBindingError (''receipt mismatch: requested='' @ py_repr receipt_id @
                '' gateway='' @ py_repr (canon (strip (str_get body ''receipt_id''))))))) (\<lambda>_.
     mthen (assert_tenant_echo c send body ''tenant_id'') (\<lambda>_. mret body)))"

definition mcp_get_settlement_receipt_v1 ::
  "mcp_gateway \<Rightarrow> 's transport \<Rightarrow> string \<Rightarrow> ((string, json) dict, 's mcp_world) call" where
  "mcp_get_settlement_receipt_v1 c send = mcp_read_receipt c send ''/protocol/v2/receipts/'' id"

definition mcp_get_agent_receipt_v1 ::
  "mcp_gateway \<Rightarrow> 's transport \<Rightarrow> string \<Rightarrow> ((string, json) dict, 's mcp_world) call" where
  "mcp_get_agent_receipt_v1 c send receipt_id =
     mcp_read_receipt c send ''/protocol/v2/agent-receipts/'' lower (lower (strip receipt_id))"

section \<open>Spend preflight\<close>

record preflight =
  pf_operation :: "string option"
  pf_requested_spend_cents :: "int option"
  pf_vendor_id :: "string option"
  pf_tool_name :: "string option"
  pf_task_id :: "string option"
  pf_workflow_id :: "string option"
  pf_tool_call_id :: "string option"
  pf_currency :: "string option"
  pf_agent_subject :: "string option"
  pf_approval_token :: "string option"

definition opt_entry :: "string \<Rightarrow> string option \<Rightarrow> (string, json) dict" where
  "opt_entry k v = (case nonblank v of Some s \<Rightarrow> [(k, JStr (strip s))] | None \<Rightarrow> [])"

definition preflight_payload :: "uuid \<Rightarrow> preflight \<Rightarrow> (string, json) dict" where
  "preflight_payload intent p =
     [(''intent_id'', JStr (uuid_str intent)),
      (''operation'', JStr (case nonblank (pf_operation p) of Some s \<Rightarrow> strip s | None \<Rightarrow> ''*'')),
      (''requested_spend_cents'', JInt (case pf_requested_spend_cents p of Some n \<Rightarrow> n | None \<Rightarrow> 0))]
     @ opt_entry ''vendor_id'' (pf_vendor_id p) @ opt_entry ''tool_name'' (pf_tool_name p)
     @ opt_entry ''task_id'' (pf_task_id p) @ opt_entry ''workflow_id'' (pf_workflow_id p)
     @ opt_entry ''tool_call_id'' (pf_tool_call_id p) @ opt_entry ''currency'' (pf_currency p)
     @ opt_entry ''agent_subject'' (pf_agent_subject p) @ opt_entry ''approval_token'' (pf_approval_token p)"

definition spend_preflight ::
  "mcp_gateway \<Rightarrow> 's transport \<Rightarrow> uuid \<Rightarrow> preflight \<Rightarrow> ((string, json) dict, 's mcp_world) call" where
  "spend_preflight c send intent p =
     tenant_request c send ''POST'' ''/v1/spend/preflight'' (Some (preflight_payload intent p))"

definition budget_answer :: "(string, json) dict \<Rightarrow> (string, json) dict" where
  "budget_answer b = [(''remaining_cents'', jget b ''remaining_cents''), (''spend_scope'', jget b ''spend_scope''),
                      (''policy_version'', jget b ''policy_version'')]"

definition get_budget_remaining ::
  "mcp_gateway \<Rightarrow> 's transport \<Rightarrow> uuid \<Rightarrow> preflight \<Rightarrow> ((string, json) dict, 's mcp_world) call" where
  "get_budget_remaining c send intent p =
     mthen (spend_preflight c send intent p) (\<lambda>b. mret (budget_answer b))"

definition normalize_explain_policy_outcome :: "string \<Rightarrow> string \<Rightarrow> string" where
  "normalize_explain_policy_outcome outcome classification =
     (let o' = lower (strip outcome); c = lower (strip classification)
      in if o' \<in> {''allow'', ''anomaly_observe''} then ''allow''
         else if o' \<in> {''approval_required'', ''anomaly_escalate''} then ''approval_required''
         else if o' = ''deny'' then ''deny''
         else if c = ''allow'' then ''allow''
         else if c = ''hold'' then ''approval_required''
         else ''deny'')"

definition explain_answer :: "(string, json) dict \<Rightarrow> (string, json) dict" where
  "explain_answer b =
     (let reason_codes = (case jget b ''reason_codes'' of JArr l \<Rightarrow> List.map json_text l | _ \<Rightarrow> []);
          outcome = normalize_explain_policy_outcome (str_get b ''outcome'') (str_get b ''classification'');
          exceeded = ''approval_threshold_exceeded'' \<in> set reason_codes
      in [(''outcome'', JStr outcome), (''reason_codes'', JArr (List.map JStr reason_codes)),
          (''explanation'', JStr (str_get b ''explanation'')), (''remaining_cents'', jget b ''remaining_cents'')]
         @ (if exceeded \<or> outcome = ''approval_required'' then [(''approval_threshold_exceeded'', JBool exceeded)] else []))"

definition explain_policy ::
  "mcp_gateway \<Rightarrow> 's transport \<Rightarrow> uuid \<Rightarrow> preflight \<Rightarrow> ((string, json) dict, 's mcp_world) call" where
  "explain_policy c send intent p =
     mthen (spend_preflight c send intent p) (\<lambda>b. mret (explain_answer b))"

section \<open>Spend authorization\<close>

text \<open>
  \<open>authorize_agent_spend\<close> with its requests: the tenant is known before the intent is read, and the
  intent is read only under a policy gate.
\<close>

definition policy_intent ::
  "mcp_gateway \<Rightarrow> 's transport \<Rightarrow> uuid \<Rightarrow> ((string, json) dict, 's mcp_world) call" where
  "policy_intent c send intent w =
     (if ms_policy_gate (mw_runtime w) = None then (Inr [], w) else mcp_get_intent c send intent w)"

definition mcp_authorize_spend ::
  "mcp_gateway \<Rightarrow> 's transport \<Rightarrow> uuid \<Rightarrow> string \<Rightarrow> string \<Rightarrow> int option \<Rightarrow> string option \<Rightarrow>
   ((string, json) dict, 's mcp_world) call" where
  "mcp_authorize_spend c send intent token operation cents tool_name =
     mthen (mcp_tenant_id c send) (\<lambda>tenant.
     mthen (policy_intent c send intent) (\<lambda>i w.
       (let post = (\<lambda>b. request_json c send ''POST'' ''/verify'' (Some b) [(''x-tenant-id'', tenant)]);
            (rt, posted, out) = authorize_agent_spend (mw_runtime w) tenant intent token operation cents tool_name
                                  (Inr i) (\<lambda>b. fst (post b w))
        in (out, (case posted of None \<Rightarrow> w | Some b \<Rightarrow> snd (post b w))\<lparr>mw_runtime := rt\<rparr>))))"

section \<open>Sandbox guardrails\<close>

definition idempotency_headers :: "string option \<Rightarrow> http_headers" where
  "idempotency_headers k = nonblank_param ''idempotency-key'' k"

definition required_mcp_string :: "(string, json) dict \<Rightarrow> string \<Rightarrow> exn + string" where
  "required_mcp_string b k = (case map_of b k of
       Some (JStr s) \<Rightarrow> if strip s \<noteq> [] then Inr s
                        else Inl (RuntimeError (''gateway sandbox guardrail response missing '' @ k))
     | _ \<Rightarrow> Inl (RuntimeError (''gateway sandbox guardrail response missing '' @ k)))"

definition required_mcp_int :: "(string, json) dict \<Rightarrow> string \<Rightarrow> exn + int" where
  "required_mcp_int b k = (case map_of b k of
       Some (JInt i) \<Rightarrow> Inr i
     | _ \<Rightarrow> Inl (RuntimeError (''gateway sandbox guardrail response missing '' @ k)))"

definition validate_sandbox_guardrail_response ::
  "(string, json) dict \<Rightarrow> string \<Rightarrow> bool \<Rightarrow> exn + unit" where
  "validate_sandbox_guardrail_response b expected_tenant require_capability_token =
     rbind (required_mcp_string b ''tenant_id'') (\<lambda>t.
     rbind (ensure (t = expected_tenant) (TenantBindingError (''sandbox guardrail tenant mismatch: expected='' @
              py_repr expected_tenant @ '' gateway='' @ py_repr t))) (\<lambda>_.
     rbind (required_mcp_string b ''intent_id'') (\<lambda>_.
     rbind (if require_capability_token then required_mcp_string b ''capability_token'' else Inr []) (\<lambda>_.
     rbind (required_mcp_string b ''operation'') (\<lambda>_.
     rbind (required_mcp_int b ''requested_spend_cents'') (\<lambda>_.
     rbind (required_mcp_string b ''sandbox_lifecycle_status'') (\<lambda>_. Inr ())))))))"

definition opt_member :: "string \<Rightarrow> (string, json) dict option \<Rightarrow> (string, json) dict" where
  "opt_member k v = (case v of Some d \<Rightarrow> [(k, JObj d)] | None \<Rightarrow> [])"

definition mcp_bootstrap_sandbox ::
  "mcp_gateway \<Rightarrow> 's transport \<Rightarrow> string \<Rightarrow> int \<Rightarrow> string option \<Rightarrow> (string, json) dict option \<Rightarrow>
   (string, json) dict option \<Rightarrow> string option \<Rightarrow> ((string, json) dict, 's mcp_world) call" where
  "mcp_bootstrap_sandbox c send operation cents currency evidence_schema metadata idempotency_key =
     mthen (mcp_tenant_id c send) (\<lambda>tenant.
     mthen (request_json c send ''POST'' ''/v1/sandbox/guardrails/bootstrap''
              (Some ([(''operation'', JStr operation), (''requested_spend_cents'', JInt cents)]
                     @ opt_entry ''currency'' currency @ opt_member ''evidence_schema'' evidence_schema
                     @ opt_member ''metadata'' metadata)) (idempotency_headers idempotency_key)) (\<lambda>b.
     mthen (mlift (validate_sandbox_guardrail_response b tenant True)) (\<lambda>_. mret b)))"

definition evidence_gate_pass ::
  "(string \<Rightarrow> string) \<Rightarrow> string \<times> (string, json) dict option \<times> (string, json) dict option \<Rightarrow> (unit, 's mcp_world) call" where
  "evidence_gate_pass blake3 i w =
     (case i of (preset_id, vendor, canonical) \<Rightarrow>
        (require_pass blake3 (ms_evidence_gate (mw_runtime w)) preset_id vendor canonical, w))"

definition mcp_submit_sandbox_evidence ::
  "(string \<Rightarrow> string) \<Rightarrow> mcp_gateway \<Rightarrow> 's transport \<Rightarrow> uuid \<Rightarrow> (string, json) dict option \<Rightarrow> string list option \<Rightarrow>
   string option \<Rightarrow> int option \<Rightarrow> (string, json) dict option \<Rightarrow> string option \<Rightarrow> string option \<Rightarrow>
   ((string, json) dict, 's mcp_world) call" where
  "mcp_submit_sandbox_evidence blake3 c send intent payload artifacts operation cents metadata preset idempotency_key =
     mthen (evidence_gate_pass blake3 (extract_sandbox_guardrail_validation_input payload preset)) (\<lambda>_.
     mthen (mcp_tenant_id c send) (\<lambda>tenant.
     mthen (request_json c send ''POST'' (''/v1/sandbox/guardrails/'' @ uuid_str intent @ ''/evidence'')
              (Some (opt_member ''payload'' payload
                     @ (case artifacts of Some l \<Rightarrow> [(''artifacts'', JArr (List.map JStr l))] | None \<Rightarrow> [])
                     @ opt_entry ''operation'' operation
                     @ (case cents of Some n \<Rightarrow> [(''requested_spend_cents'', JInt n)] | None \<Rightarrow> [])
                     @ opt_member ''metadata'' metadata)) (idempotency_headers idempotency_key)) (\<lambda>b.
     mthen (mlift (validate_sandbox_guardrail_response b tenant False)) (\<lambda>_.
     mthen (mlift (ensure (strip (str_get b ''intent_id'') = uuid_str intent)
             (TenantBindingError (''sandbox guardrail intent mismatch: requested='' @ uuid_str intent @
                '' gateway='' @ py_repr (strip (str_get b ''intent_id'')))))) (\<lambda>_. mret b)))))"

section \<open>Protocol operations\<close>

definition mcp_verify_agent_mandate_v1 ::
  "mcp_gateway \<Rightarrow> 's transport \<Rightarrow> (string, json) dict \<Rightarrow> ((string, json) dict, 's mcp_world) call" where
  "mcp_verify_agent_mandate_v1 c send signed_mandate =
     tenant_request c send ''POST'' ''/protocol/v2/mandates/verify'' (Some signed_mandate)"

definition mcp_verify_recognition_proof ::
  "mcp_gateway \<Rightarrow> 's transport \<Rightarrow> (string, json) dict \<Rightarrow> string \<Rightarrow> (string, json) dict \<Rightarrow>
   ((string, json) dict, 's mcp_world) call" where
  "mcp_verify_recognition_proof c send recognition expected_purpose expected_request =
     mthen (mcp_tenant_id c send) (\<lambda>tenant.
     tenant_request c send ''POST'' ''/protocol/v2/recognition/verify''
       (Some [(''proof'', JObj recognition), (''expected_purpose'', JStr expected_purpose),
              (''expected_verifier'', JObj [(''tenant_id'', JStr tenant), (''verifier_id'', JStr ''paybond-gateway'')]),
              (''expected_request'', JObj expected_request)]))"

definition imported_mandate_tenant :: "(string, json) dict \<Rightarrow> exn + string" where
  "imported_mandate_tenant b = (case map_of b ''mandate'' of
       None \<Rightarrow> Inr []
     | Some (JObj m) \<Rightarrow> (case map_of m ''authorization'' of
           None \<Rightarrow> Inr []
         | Some (JObj a) \<Rightarrow> Inr (strip (str_get a ''tenant_id''))
         | Some _ \<Rightarrow> Inl (RuntimeError ''protocol mandate import response missing authorization object''))
     | Some _ \<Rightarrow> Inl (RuntimeError ''protocol mandate import response missing mandate object''))"

definition mcp_import_agent_mandate_v1 ::
  "mcp_gateway \<Rightarrow> 's transport \<Rightarrow> (string, json) dict \<Rightarrow> string \<Rightarrow> (string, json) dict \<Rightarrow> (string, json) dict option \<Rightarrow>
   ((string, json) dict, 's mcp_world) call" where
  "mcp_import_agent_mandate_v1 c send signed_mandate intent_id recognition transport_binding =
     mthen (tenant_request c send ''POST'' ''/protocol/v2/mandates''
             (Some [(''signed_mandate'', JObj signed_mandate), (''intent_id'', JStr intent_id),
                    (''transport_binding'', JObj (case transport_binding of Some t \<Rightarrow> t | None \<Rightarrow> [])),
                    (''recognition_proof'', JObj recognition)])) (\<lambda>b.
     mthen (mlift (ensure (strip (str_get b ''intent_id'') = intent_id)
             (TenantBindingError (''intent mismatch: requested='' @ py_repr intent_id @ '' gateway='' @
                py_repr (strip (str_get b ''intent_id'')))))) (\<lambda>_.
     mthen (mlift (imported_mandate_tenant b)) (\<lambda>t.
     mthen (mcp_tenant_id c send) (\<lambda>expected.
     mthen (mlift (ensure (t = expected) (TenantBindingError (''tenant mismatch: expected='' @ py_repr expected @
             '' gateway='' @ py_repr t)))) (\<lambda>_. mret b)))))"

definition mcp_verify_protocol_receipt_v1 ::
  "mcp_gateway \<Rightarrow> 's transport \<Rightarrow> (string, json) dict \<Rightarrow> ((string, json) dict, 's mcp_world) call" where
  "mcp_verify_protocol_receipt_v1 c send receipt =
     tenant_request c send ''POST'' ''/protocol/v2/receipts/verify'' (Some receipt)"

section \<open>Harbor mutations\<close>

definition gateway_harbor_mutation ::
  "mcp_gateway \<Rightarrow> 's transport \<Rightarrow> string \<Rightarrow> (string, json) dict \<Rightarrow> (string, json) dict \<Rightarrow> string option \<Rightarrow> http_headers \<Rightarrow>
   ((string, json) dict, 's mcp_world) call" where
  "gateway_harbor_mutation c send path body recognition idempotency_key extra =
     mthen (mcp_tenant_id c send) (\<lambda>tenant.
     request_json c send ''POST'' path (Some body)
       (dict_merge (AList.update ''x-paybond-agent-recognition-proof'' (encode_recognition_proof_header recognition)
                      (AList.update ''x-tenant-id'' tenant extra))
                   (idempotency_headers idempotency_key)))"

definition mcp_create_intent ::
  "mcp_gateway \<Rightarrow> 's transport \<Rightarrow> (string, json) dict \<Rightarrow> (string, json) dict \<Rightarrow> string option \<Rightarrow>
   ((string, json) dict, 's mcp_world) call" where
  "mcp_create_intent c send body recognition idempotency_key =
     gateway_harbor_mutation c send ''/harbor/intents'' body recognition idempotency_key []"

definition mcp_fund_intent ::
  "mcp_gateway \<Rightarrow> 's transport \<Rightarrow> uuid \<Rightarrow> (string, json) dict \<Rightarrow> string option \<Rightarrow> string option \<Rightarrow>
   ((string, json) dict, 's mcp_world) call" where
  "mcp_fund_intent c send intent recognition payment_signature idempotency_key =
     gateway_harbor_mutation c send (''/harbor/intents/'' @ uuid_str intent @ ''/fund'') [] recognition idempotency_key
       (nonblank_param ''payment-signature'' payment_signature)"

definition mcp_submit_evidence ::
  "(string \<Rightarrow> string) \<Rightarrow> mcp_gateway \<Rightarrow> 's transport \<Rightarrow> uuid \<Rightarrow> (string, json) dict \<Rightarrow> (string, json) dict \<Rightarrow>
   string option \<Rightarrow> string option \<Rightarrow> ((string, json) dict, 's mcp_world) call" where
  "mcp_submit_evidence blake3 c send intent body recognition preset idempotency_key =
     mthen (evidence_gate_pass blake3 (extract_harbor_evidence_validation_input body preset)) (\<lambda>_.
     gateway_harbor_mutation c send (''/harbor/intents/'' @ uuid_str intent @ ''/evidence'') body recognition
       idempotency_key [])"

definition mcp_confirm_settlement ::
  "mcp_gateway \<Rightarrow> 's transport \<Rightarrow> uuid \<Rightarrow> (string, json) dict \<Rightarrow> (string, json) dict \<Rightarrow> string option \<Rightarrow>
   ((string, json) dict, 's mcp_world) call" where
  "mcp_confirm_settlement c send intent body recognition idempotency_key =
     gateway_harbor_mutation c send (''/harbor/intents/'' @ uuid_str intent @ ''/settlement/confirm'') body recognition
       idempotency_key []"

end
