(* ===== verification/Agent_Receipt.thy ===== *)
theory Agent_Receipt
  imports Evidence_Gate Merkle_Inclusion Run_Binding
begin

text \<open>
  The first half of \<open>agent_receipt.py\<close>: the forbidden fields, the digests and the normalization
  of an Agent Receipt v1.  A receipt is a dictionary of decoded JSON, and so is its normalized
  form.  SHA-256 is the parameter \<open>H\<close> on byte strings; \<open>utc\<close> is the instant, in microseconds
  from 1970 in UTC, that \<open>datetime.fromisoformat(s).astimezone(timezone.utc)\<close> gives, which depends
  on the local time zone when the text has no offset.
\<close>

section \<open>Constants and errors\<close>

definition ar_error :: "string \<Rightarrow> exn" where
  "ar_error m = ValueError (''agent receipt: '' @ m)"

definition AGENT_RECEIPT_KIND_V1 :: string where
  "AGENT_RECEIPT_KIND_V1 = ''paybond.agent_receipt_v1''"

definition AGENT_RECEIPT_VERSION_V1 :: string where
  "AGENT_RECEIPT_VERSION_V1 = ''1''"

definition EXTERNAL_ATTESTATION_KIND_AGENT_MANDATE_V1 :: string where
  "EXTERNAL_ATTESTATION_KIND_AGENT_MANDATE_V1 = ''agent_mandate_v1''"

definition FORBIDDEN_AGENT_RECEIPT_FIELDS :: "string list" where
  "FORBIDDEN_AGENT_RECEIPT_FIELDS =
     [''user_prompt'', ''system_prompt'', ''tool_arguments'', ''tool_results'', ''evidence_payload'',
      ''payee_signature'']"

definition EXECUTION_OUTCOMES :: "string list" where
  "EXECUTION_OUTCOMES = [''executed'', ''denied'', ''skipped'', ''failed'']"

definition SPEND_OUTCOMES :: "string list" where
  "SPEND_OUTCOMES = [''consumed'', ''released'', ''pending'', ''none'']"

definition SETTLEMENT_OUTCOMES :: "string list" where
  "SETTLEMENT_OUTCOMES = [''SETTLED'', ''PENDING_FINALITY'', ''REVERSED'', ''FAILED'']"

text \<open>
  The recursion over the document as a fold over its subterms in the order of the visit: the
  error is the first forbidden key, \<open>None\<close> that there is none.
\<close>

primrec first_forbidden :: "json \<Rightarrow> string option" where
  "first_forbidden JNull = None"
| "first_forbidden (JBool b) = None"
| "first_forbidden (JInt i) = None"
| "first_forbidden (JNum q) = None"
| "first_forbidden (JStr s) = None"
| "first_forbidden (JArr l) = fold (\<lambda>x acc. case acc of None \<Rightarrow> x | Some k \<Rightarrow> Some k) (List.map first_forbidden l) None"
| "first_forbidden (JObj d) =
     fold (\<lambda>(k, x) acc. case acc of
             None \<Rightarrow> if k \<in> set FORBIDDEN_AGENT_RECEIPT_FIELDS then Some k else x
           | Some k \<Rightarrow> Some k)
       (List.map (map_prod id first_forbidden) d) None"

definition reject_forbidden_agent_receipt_fields :: "json \<Rightarrow> exn + unit" where
  "reject_forbidden_agent_receipt_fields v = (case first_forbidden v of
       None \<Rightarrow> Inr ()
     | Some k \<Rightarrow> Inl (ar_error (''forbidden field '' @ py_repr k)))"

section \<open>Digests\<close>

definition sha256_hex :: "(string \<Rightarrow> string) \<Rightarrow> string \<Rightarrow> string" where
  "sha256_hex H s = to_hex (H (utf8 s))"

definition jcs_text :: "json \<Rightarrow> string" where
  "jcs_text v = json_dumps_unicode (canonicalize_json v)"

record config_hash_input =
  ch_system_prompt :: string
  ch_tools_manifest :: json
  ch_policy_snapshot_id :: string

definition config_hash_sha256_hex :: "(string \<Rightarrow> string) \<Rightarrow> config_hash_input \<Rightarrow> string" where
  "config_hash_sha256_hex H i =
     sha256_hex H (jcs_text (JObj [(''system_prompt'', JStr (ch_system_prompt i)),
       (''tools_manifest'', ch_tools_manifest i),
       (''policy_snapshot_id'', JStr (ch_policy_snapshot_id i))]))"

definition prompt_hash_sha256_hex :: "(string \<Rightarrow> string) \<Rightarrow> string \<Rightarrow> string" where
  "prompt_hash_sha256_hex H p = sha256_hex H p"

definition value_digest_sha256_hex :: "(string \<Rightarrow> string) \<Rightarrow> json \<Rightarrow> string" where
  "value_digest_sha256_hex H v = sha256_hex H (jcs_text v)"

section \<open>Timestamps\<close>

text \<open>\<open>strftime\<close> of an instant of the years 1000 to 9999: days since 1970 to a civil date.\<close>

definition two :: "int \<Rightarrow> string" where
  "two n = (if n < 10 then CHR ''0'' # str_int n else str_int n)"

definition civil_of_days :: "int \<Rightarrow> int \<times> int \<times> int" where
  "civil_of_days days =
     (let z = days + 719468; era = z div 146097; doe = z mod 146097;
          yoe = (doe - doe div 1460 + doe div 36524 - doe div 146096) div 365;
          doy = doe - (365 * yoe + yoe div 4 - yoe div 100);
          mp = (5 * doy + 2) div 153;
          d = doy - (153 * mp + 2) div 5 + 1;
          m = (if mp < 10 then mp + 3 else mp - 9)
      in (yoe + era * 400 + (if m \<le> 2 then 1 else 0), m, d))"

definition strftime_utc :: "int \<Rightarrow> string" where
  "strftime_utc secs =
     (let (y, m, d) = civil_of_days (secs div 86400); s = secs mod 86400
      in str_int y @ ''-'' @ two m @ ''-'' @ two d @ ''T'' @ two (s div 3600) @ '':'' @
         two (s mod 3600 div 60) @ '':'' @ two (s mod 60) @ ''Z'')"

definition replace_z :: "string \<Rightarrow> string" where
  "replace_z s = concat (List.map (\<lambda>c. if c = CHR ''Z'' then ''+00:00'' else [c]) s)"

definition format_rfc3339_seconds :: "(string \<Rightarrow> exn + int) \<Rightarrow> string \<Rightarrow> exn + string" where
  "format_rfc3339_seconds utc s = rbind (utc (replace_z s)) (\<lambda>us. Inr (strftime_utc (us div 1000000)))"

section \<open>Field checks\<close>

definition scope_token_re :: "string \<Rightarrow> bool" where
  "scope_token_re = fullmatch_ht (\<lambda>c. is_lower c \<or> is_digit c)
     (\<lambda>c. is_lower c \<or> is_digit c \<or> c \<in> set ''._:/-'') (Some 127)"

definition hex64_re :: "string \<Rightarrow> bool" where
  "hex64_re s \<longleftrightarrow> length s = 64 \<and> list_all is_hex_lower s"

definition receipt_currency_re :: "string \<Rightarrow> bool" where
  "receipt_currency_re s \<longleftrightarrow> length s = 3 \<and> list_all is_lower s"

definition uuid_re :: "string \<Rightarrow> bool" where
  "uuid_re s \<longleftrightarrow>
     (let parts = py_split (CHR ''-'') s
      in List.map length parts = [8, 4, 4, 4, 12] \<and> list_all (list_all is_hex_lower) parts)"

definition normalize_scope_token :: "string \<Rightarrow> string \<Rightarrow> exn + string" where
  "normalize_scope_token v field =
     (let n = lower (strip v) in
      rbind (ensure (n \<noteq> []) (ar_error (field @ '' is required''))) (\<lambda>_.
      rbind (ensure (scope_token_re n) (ar_error (field @ '' '' @ py_repr n @ '' is not canonical''))) (\<lambda>_.
      Inr n)))"

definition require_hex64_text :: "string \<Rightarrow> string \<Rightarrow> exn + unit" where
  "require_hex64_text v field =
     ensure (hex64_re v) (ar_error (field @ '' must be a lowercase 64-byte hex SHA-256 digest''))"

definition parse_uuid_text :: "string \<Rightarrow> string \<Rightarrow> exn + string" where
  "parse_uuid_text v field =
     (let n = lower (strip v) in
      rbind (ensure (uuid_re n) (ar_error (field @ '' must be a canonical UUID''))) (\<lambda>_. Inr n))"

text \<open>\<open>d.items\<close> of what a \<open>for\<close> visits: a list, the keys of a dictionary or the characters of a text.\<close>

definition iter_items :: "json \<Rightarrow> exn + json list" where
  "iter_items j = (case j of
       JArr l \<Rightarrow> Inr l
     | JObj d \<Rightarrow> Inr (List.map JStr (keys d))
     | JStr s \<Rightarrow> Inr (List.map (\<lambda>c. JStr [c]) s)
     | _ \<Rightarrow> Inl (TypeError ''object is not iterable''))"

definition str_method :: "json \<Rightarrow> exn + string" where
  "str_method j = (case j of JStr s \<Rightarrow> Inr s | _ \<Rightarrow> Inl (AttributeError ''object has no attribute strip''))"

definition push_new :: "string list \<Rightarrow> string \<Rightarrow> string list" where
  "push_new out t = (if t \<in> set out then out else out @ [t])"

fun scope_set_loop :: "string \<Rightarrow> json list \<Rightarrow> string list \<Rightarrow> exn + string list" where
  "scope_set_loop field [] out = Inr out"
| "scope_set_loop field (v # vs) out =
     rbind (str_method v) (\<lambda>s.
     rbind (normalize_scope_token s field) (\<lambda>t. scope_set_loop field vs (push_new out t)))"

definition normalize_scope_set :: "json \<Rightarrow> string \<Rightarrow> exn + string list" where
  "normalize_scope_set values field =
     (if \<not> truthy values then Inr []
      else rbind (iter_items values) (\<lambda>vs. scope_set_loop field vs []))"

section \<open>Access to a dictionary\<close>

text \<open>
  \<open>str(d[k]).strip()\<close>, the same in lower case, \<open>str(d.get(k) or "").strip()\<close>, \<open>str(d.get(k, x))\<close>;
  and the two conditional entries \<open>if d.get(k): out[k] = ...\<close> and \<open>if d.get(k) is not None: ...\<close>.
\<close>

definition item_str :: "(string, json) dict \<Rightarrow> string \<Rightarrow> exn + string" where
  "item_str d k = rbind (body_item d k) (\<lambda>v. Inr (json_text v))"

definition item_text :: "(string, json) dict \<Rightarrow> string \<Rightarrow> exn + string" where
  "item_text d k = rbind (item_str d k) (\<lambda>s. Inr (strip s))"

definition item_lower :: "(string, json) dict \<Rightarrow> string \<Rightarrow> exn + string" where
  "item_lower d k = rbind (item_text d k) (\<lambda>s. Inr (lower s))"

definition or_text :: "(string, json) dict \<Rightarrow> string \<Rightarrow> string" where
  "or_text d k = strip (if truthy (jget d k) then json_text (jget d k) else [])"

definition or_lower :: "(string, json) dict \<Rightarrow> string \<Rightarrow> string" where
  "or_lower d k = lower (or_text d k)"

definition get_str :: "(string, json) dict \<Rightarrow> string \<Rightarrow> string \<Rightarrow> string" where
  "get_str d k dflt = (case map_of d k of None \<Rightarrow> dflt | Some v \<Rightarrow> json_text v)"

definition if_truthy :: "(string, json) dict \<Rightarrow> string \<Rightarrow> (json \<Rightarrow> exn + json) \<Rightarrow> exn + (string, json) dict" where
  "if_truthy d k f = (if truthy (jget d k) then rbind (f (jget d k)) (\<lambda>v. Inr [(k, v)]) else Inr [])"

definition if_given :: "(string, json) dict \<Rightarrow> string \<Rightarrow> (json \<Rightarrow> exn + json) \<Rightarrow> exn + (string, json) dict" where
  "if_given d k f = (if jget d k \<noteq> JNull then rbind (f (jget d k)) (\<lambda>v. Inr [(k, v)]) else Inr [])"

text \<open>The conversions of the conditional entries.\<close>

definition to_text :: "json \<Rightarrow> exn + json" where
  "to_text v = Inr (JStr (strip (json_text v)))"

definition to_int :: "json \<Rightarrow> exn + json" where
  "to_int v = rbind (py_int v) (\<lambda>i. Inr (JInt i))"

definition to_token :: "string \<Rightarrow> json \<Rightarrow> exn + json" where
  "to_token field v = rbind (normalize_scope_token (json_text v) field) (\<lambda>t. Inr (JStr t))"

definition to_uuid :: "string \<Rightarrow> json \<Rightarrow> exn + json" where
  "to_uuid field v = rbind (parse_uuid_text (json_text v) field) (\<lambda>t. Inr (JStr t))"

definition to_hex64 :: "string \<Rightarrow> json \<Rightarrow> exn + json" where
  "to_hex64 field v =
     (let t = lower (strip (json_text v)) in rbind (require_hex64_text t field) (\<lambda>_. Inr (JStr t)))"

definition item_uuid :: "(string, json) dict \<Rightarrow> string \<Rightarrow> exn + string" where
  "item_uuid d k = rbind (item_str d k) (\<lambda>s. parse_uuid_text s k)"

definition item_time :: "(string \<Rightarrow> exn + int) \<Rightarrow> (string, json) dict \<Rightarrow> string \<Rightarrow> exn + string" where
  "item_time utc d k = rbind (item_str d k) (format_rfc3339_seconds utc)"

text \<open>\<open>t = str(d.get(k) or "").strip().lower(); if t: check; out[k] = t\<close>.\<close>

definition opt_hex64 :: "(string, json) dict \<Rightarrow> string \<Rightarrow> exn + (string, json) dict" where
  "opt_hex64 d k =
     (let t = or_lower d k in
      if t = [] then Inr [] else rbind (require_hex64_text t k) (\<lambda>_. Inr [(k, JStr t)]))"


section \<open>The parts of a receipt\<close>

definition normalize_agent :: "(string, json) dict \<Rightarrow> exn + (string, json) dict" where
  "normalize_agent d =
     rbind (item_text d ''operator_did'') (\<lambda>operator_did.
     rbind (ensure (operator_did \<noteq> []) (ar_error ''agent.operator_did is required'')) (\<lambda>_.
     rbind (item_lower d ''config_hash_sha256_hex'') (\<lambda>config_hash.
     rbind (item_lower d ''prompt_hash_sha256_hex'') (\<lambda>prompt_hash.
     rbind (require_hex64_text config_hash ''agent.config_hash_sha256_hex'') (\<lambda>_.
     rbind (require_hex64_text prompt_hash ''agent.prompt_hash_sha256_hex'') (\<lambda>_.
     rbind (rbind (item_str d ''model_family'') (\<lambda>s. normalize_scope_token s ''agent.model_family'')) (\<lambda>model_family.
     rbind (if_truthy d ''model_instance_id'' to_text) (\<lambda>instance_entry.
     rbind (if_given d ''deployment_epoch'' to_int) (\<lambda>epoch_entry.
     Inr ([(''operator_did'', JStr operator_did), (''model_family'', JStr model_family),
           (''config_hash_sha256_hex'', JStr config_hash), (''prompt_hash_sha256_hex'', JStr prompt_hash)]
          @ instance_entry @ epoch_entry))))))))))"

definition normalize_policy :: "(string, json) dict \<Rightarrow> exn + (string, json) dict" where
  "normalize_policy d =
     rbind (item_text d ''template_id'') (\<lambda>template_id.
     rbind (item_lower d ''content_digest_sha256_hex'') (\<lambda>digest.
     rbind (ensure (template_id \<noteq> []) (ar_error ''policy.template_id is required'')) (\<lambda>_.
     rbind (require_hex64_text digest ''policy.content_digest_sha256_hex'') (\<lambda>_.
     rbind (if_given d ''version_seq'' to_int) (\<lambda>seq_entry.
     rbind (if_given d ''spend_policy_version'' to_int) (\<lambda>version_entry.
     Inr ([(''template_id'', JStr template_id), (''content_digest_sha256_hex'', JStr digest)]
          @ seq_entry @ version_entry)))))))"

definition item_map :: "(string, json) dict \<Rightarrow> string \<Rightarrow> exn + (string, json) dict" where
  "item_map d k = rbind (body_item d k) as_mapping"

definition normalize_authorization ::
  "(string \<Rightarrow> exn + int) \<Rightarrow> (string, json) dict \<Rightarrow> exn + (string, json) dict" where
  "normalize_authorization utc d =
     rbind (item_text d ''principal_did'') (\<lambda>principal_did.
     rbind (item_text d ''actor_subject'') (\<lambda>actor_subject.
     rbind (ensure (principal_did \<noteq> []) (ar_error ''principal_did is required'')) (\<lambda>_.
     rbind (ensure (actor_subject \<noteq> []) (ar_error ''actor_subject is required'')) (\<lambda>_.
     rbind (item_lower d ''currency'') (\<lambda>currency.
     rbind (ensure (receipt_currency_re currency) (ar_error (''currency '' @ py_repr currency @ '' is not canonical''))) (\<lambda>_.
     rbind (int_item d ''requested_spend_cents'') (\<lambda>cents.
     rbind (ensure (0 \<le> cents) (ar_error ''requested_spend_cents must be non-negative'')) (\<lambda>_.
     rbind (rbind (item_map d ''agent'') normalize_agent) (\<lambda>agent.
     rbind (item_uuid d ''decision_id'') (\<lambda>decision_id.
     rbind (rbind (item_map d ''policy'') normalize_policy) (\<lambda>policy.
     rbind (item_time utc d ''authorized_at'') (\<lambda>authorized_at.
     rbind (normalize_scope_set (jget d ''reason_codes'') ''reason_codes'') (\<lambda>reason_codes.
     rbind (if_truthy d ''audit_id'' (to_uuid ''audit_id'')) (\<lambda>audit_entry.
     let mandate_digest = or_lower d ''mandate_digest_sha256_hex'';
         mandate_reference_id = or_text d ''mandate_reference_id'' in
     rbind (opt_hex64 d ''mandate_digest_sha256_hex'') (\<lambda>mandate_entry.
     rbind (ensure (mandate_reference_id = [] \<or> mandate_digest \<noteq> [])
              (ar_error ''mandate_reference_id requires mandate_digest_sha256_hex'')) (\<lambda>_.
     rbind (opt_hex64 d ''zk_policy_proof_digest_sha256_hex'') (\<lambda>zk_entry.
     Inr ([(''principal_did'', JStr principal_did), (''actor_subject'', JStr actor_subject),
           (''agent'', JObj agent), (''decision_id'', JStr decision_id), (''policy'', JObj policy),
           (''authorized_at'', JStr authorized_at), (''requested_spend_cents'', JInt cents),
           (''currency'', JStr currency), (''reason_codes'', JArr (List.map JStr reason_codes))]
          @ audit_entry @ mandate_entry
          @ (if mandate_reference_id = [] then [] else [(''mandate_reference_id'', JStr mandate_reference_id)])
          @ zk_entry))))))))))))))))))"

definition to_duration :: "json \<Rightarrow> exn + json" where
  "to_duration v = rbind (py_int v) (\<lambda>i.
     rbind (ensure (0 \<le> i) (ar_error ''duration_ms must be non-negative'')) (\<lambda>_. Inr (JInt i)))"

definition normalize_execution ::
  "(string \<Rightarrow> exn + int) \<Rightarrow> (string, json) dict \<Rightarrow> exn + (string, json) dict" where
  "normalize_execution utc d =
     rbind (item_text d ''tool_call_id'') (\<lambda>tool_call_id.
     rbind (ensure (tool_call_id \<noteq> []) (ar_error ''tool_call_id is required'')) (\<lambda>_.
     rbind (item_lower d ''arguments_digest_sha256_hex'') (\<lambda>arguments_digest.
     rbind (require_hex64_text arguments_digest ''arguments_digest_sha256_hex'') (\<lambda>_.
     rbind (item_lower d ''outcome'') (\<lambda>outcome.
     rbind (ensure (outcome \<in> set EXECUTION_OUTCOMES)
              (ar_error ''outcome must be executed, denied, skipped, or failed'')) (\<lambda>_.
     rbind (item_uuid d ''run_id'') (\<lambda>run_id.
     rbind (rbind (item_str d ''tool_name'') (\<lambda>s. normalize_scope_token s ''tool_name'')) (\<lambda>tool_name.
     rbind (rbind (item_str d ''operation'') (\<lambda>s. normalize_scope_token s ''operation'')) (\<lambda>operation.
     rbind (item_time utc d ''started_at'') (\<lambda>started_at.
     rbind (item_time utc d ''completed_at'') (\<lambda>completed_at.
     rbind (if_truthy d ''result_digest_sha256_hex'' (to_hex64 ''result_digest_sha256_hex'')) (\<lambda>result_entry.
     rbind (if_given d ''duration_ms'' to_duration) (\<lambda>duration_entry.
     rbind (opt_hex64 d ''tee_attestation_digest_sha256_hex'') (\<lambda>tee_entry.
     Inr ([(''run_id'', JStr run_id), (''tool_call_id'', JStr tool_call_id), (''tool_name'', JStr tool_name),
           (''operation'', JStr operation), (''arguments_digest_sha256_hex'', JStr arguments_digest),
           (''outcome'', JStr outcome), (''started_at'', JStr started_at), (''completed_at'', JStr completed_at)]
          @ result_entry @ duration_entry @ tee_entry)))))))))))))))"

definition normalize_merchant :: "(string, json) dict \<Rightarrow> exn + (string, json) dict" where
  "normalize_merchant d =
     rbind (item_text d ''payee_did'') (\<lambda>payee_did.
     rbind (ensure (payee_did \<noteq> []) (ar_error ''payee_did is required'')) (\<lambda>_.
     rbind (if_truthy d ''vendor_id'' (to_token ''vendor_id'')) (\<lambda>vendor_entry.
     rbind (if_truthy d ''vendor_ref_id'' to_text) (\<lambda>ref_entry.
     Inr ([(''payee_did'', JStr payee_did)] @ vendor_entry @ ref_entry)))))"

definition normalize_evidence :: "(string, json) dict \<Rightarrow> exn + (string, json) dict" where
  "normalize_evidence d =
     rbind (item_lower d ''payload_digest_sha256_hex'') (\<lambda>payload_digest.
     rbind (require_hex64_text payload_digest ''payload_digest_sha256_hex'') (\<lambda>_.
     rbind (item_text d ''payee_did'') (\<lambda>payee_did.
     rbind (ensure (payee_did \<noteq> []) (ar_error ''payee_did is required'')) (\<lambda>_.
     rbind (rbind (item_str d ''completion_preset_id'') (\<lambda>s. normalize_scope_token s ''completion_preset_id'')) (\<lambda>preset.
     rbind (body_item d ''predicate_passed'') (\<lambda>passed.
     rbind (if_truthy d ''artifacts_digest_sha256_hex'' (to_hex64 ''artifacts_digest_sha256_hex'')) (\<lambda>artifacts_entry.
     rbind (if_truthy d ''payee_signature_digest_sha256_hex'' (to_hex64 ''payee_signature_digest_sha256_hex'')) (\<lambda>sig_entry.
     Inr ([(''completion_preset_id'', JStr preset), (''payload_digest_sha256_hex'', JStr payload_digest),
           (''predicate_passed'', JBool (truthy passed)), (''payee_did'', JStr payee_did)]
          @ artifacts_entry @ sig_entry)))))))))"

definition normalize_payment :: "(string, json) dict \<Rightarrow> exn + (string, json) dict" where
  "normalize_payment d =
     rbind (item_uuid d ''intent_id'') (\<lambda>intent_id.
     rbind (rbind (item_str d ''settlement_rail'') (\<lambda>s. normalize_scope_token s ''settlement_rail'')) (\<lambda>rail.
     rbind (if_truthy d ''funding_method'' (to_token ''funding_method'')) (\<lambda>method_entry.
     rbind (if_truthy d ''funding_reference'' to_text) (\<lambda>ref_entry.
     rbind (if_truthy d ''funding_receipt_digest_sha256_hex'' (to_hex64 ''funding_receipt_digest_sha256_hex'')) (\<lambda>digest_entry.
     Inr ([(''intent_id'', JStr intent_id), (''settlement_rail'', JStr rail)]
          @ method_entry @ ref_entry @ digest_entry))))))"

definition to_spend_outcome :: "json \<Rightarrow> exn + json" where
  "to_spend_outcome v =
     (let t = lower (strip (json_text v)) in
      rbind (ensure (t \<in> set SPEND_OUTCOMES)
               (ar_error ''spend_reservation_outcome must be consumed, released, pending, or none'')) (\<lambda>_.
      Inr (JStr t)))"

definition to_bool :: "json \<Rightarrow> exn + json" where
  "to_bool v = Inr (JBool (truthy v))"

definition settlement_outcome_entry :: "(string, json) dict \<Rightarrow> string \<Rightarrow> exn + (string, json) dict" where
  "settlement_outcome_entry d scope =
     (let t = or_text d ''settlement_outcome'' in
      if t = [] then Inr []
      else
        rbind (ensure (t \<in> set SETTLEMENT_OUTCOMES)
                 (ar_error ''settlement_outcome must be SETTLED, PENDING_FINALITY, REVERSED, or FAILED'')) (\<lambda>_.
        rbind (ensure (scope = ''intent_terminal'')
                 (ar_error ''settlement_outcome is only valid for intent_terminal scope'')) (\<lambda>_.
        Inr [(''settlement_outcome'', JStr t)])))"

definition normalize_outcome :: "(string, json) dict \<Rightarrow> string \<Rightarrow> exn + (string, json) dict" where
  "normalize_outcome d scope =
     rbind (rbind (item_str d ''harbor_state'') (\<lambda>s. normalize_scope_token s ''harbor_state'')) (\<lambda>harbor_state.
     rbind (if_truthy d ''spend_reservation_outcome'' to_spend_outcome) (\<lambda>spend_entry.
     rbind (if_given d ''predicate_passed'' to_bool) (\<lambda>passed_entry.
     rbind (settlement_outcome_entry d scope) (\<lambda>settlement_entry.
     Inr ([(''harbor_state'', JStr harbor_state)] @ spend_entry @ passed_entry @ settlement_entry)))))"

text \<open>\<open>_normalize_references\<close> starts with \<open>.get\<close>, so what is not a mapping is an AttributeError.\<close>

definition settlement_receipt_of :: "json \<Rightarrow> exn + json" where
  "settlement_receipt_of v =
     (if \<not> truthy v then Inr v
      else
        (let t = lower (strip (json_text v)) in
         if t = [] then Inr JNull
         else rbind (ensure (uuid_re t \<or> hex64_re t)
                (ar_error ''settlement_receipt_id must be a canonical UUID or lowercase 64-byte hex digest'')) (\<lambda>_.
              Inr (JStr t))))"

definition normalize_references :: "json \<Rightarrow> exn + (string, json) dict" where
  "normalize_references j = (case j of
       JObj d \<Rightarrow>
         rbind (if truthy (jget d ''ledger_seq'') then py_int (jget d ''ledger_seq'') else Inr 0) (\<lambda>ledger_seq.
         rbind (ensure (0 \<le> ledger_seq) (ar_error ''ledger_seq must be non-negative'')) (\<lambda>_.
         rbind (item_uuid d ''intent_id'') (\<lambda>intent_id.
         rbind (settlement_receipt_of (jget d ''settlement_receipt_id'')) (\<lambda>settlement.
         Inr ([(''intent_id'', JStr intent_id), (''settlement_receipt_id'', settlement)]
              @ (if ledger_seq \<noteq> 0 then [(''ledger_seq'', JInt ledger_seq)] else []))))))
     | _ \<Rightarrow> Inl (AttributeError ''object has no attribute get''))"

definition normalize_attestation :: "(string, json) dict \<Rightarrow> exn + (string, json) dict" where
  "normalize_attestation d =
     rbind (item_lower d ''digest_sha256_hex'') (\<lambda>digest.
     rbind (require_hex64_text digest ''digest_sha256_hex'') (\<lambda>_.
     rbind (item_text d ''kind'') (\<lambda>kind.
     rbind (ensure (kind \<noteq> []) (ar_error ''kind is required'')) (\<lambda>_.
     rbind (rbind (item_str d ''source'') (\<lambda>s. normalize_scope_token s ''source'')) (\<lambda>source.
     rbind (if_truthy d ''reference_id'' to_text) (\<lambda>ref_entry.
     Inr ([(''source'', JStr source), (''kind'', JStr kind), (''digest_sha256_hex'', JStr digest)] @ ref_entry)))))))"

definition normalize_external_attestations :: "json \<Rightarrow> exn + (string, json) dict list" where
  "normalize_external_attestations values =
     rbind (iter_items values) (rmap (\<lambda>v. rbind (as_mapping v) normalize_attestation))"

definition normalize_operator_attestation :: "(string, json) dict \<Rightarrow> exn + (string, json) dict" where
  "normalize_operator_attestation d =
     rbind (item_text d ''operator_did'') (\<lambda>operator_did.
     rbind (ensure (operator_did \<noteq> []) (ar_error ''operator_attestation.operator_did is required'')) (\<lambda>_.
     rbind (item_lower d ''message_digest_sha256_hex'') (\<lambda>message_digest.
     rbind (item_lower d ''signing_public_key_ed25519_hex'') (\<lambda>public_key.
     rbind (item_lower d ''ed25519_signature_hex'') (\<lambda>signature.
     rbind (require_hex64_text message_digest ''operator_attestation.message_digest_sha256_hex'') (\<lambda>_.
     rbind (require_hex64_text public_key ''operator_attestation.signing_public_key_ed25519_hex'') (\<lambda>_.
     rbind (ensure (length signature = 128)
              (ar_error ''operator_attestation.ed25519_signature_hex must be 128 hex chars'')) (\<lambda>_.
     Inr [(''operator_did'', JStr operator_did), (''signing_public_key_ed25519_hex'', JStr public_key),
          (''message_digest_sha256_hex'', JStr message_digest), (''ed25519_signature_hex'', JStr signature)]))))))))"

definition normalize_continuity ::
  "(string, json) dict \<Rightarrow> (string, json) dict option \<Rightarrow> exn + (string, json) dict" where
  "normalize_continuity d execution =
     rbind (item_lower d ''run_id'') (\<lambda>run_id.
     rbind (ensure (uuid_re run_id) (ar_error ''continuity.run_id must be a canonical UUID'')) (\<lambda>_.
     rbind (int_item d ''sequence_number'') (\<lambda>sequence_number.
     rbind (ensure (1 \<le> sequence_number) (ar_error ''continuity.sequence_number must be >= 1'')) (\<lambda>_.
     let prev = or_lower d ''prev_message_digest_sha256_hex'' in
     rbind (if sequence_number = 1
            then ensure (prev = [])
                   (ar_error ''continuity.sequence_number 1 must not set prev_message_digest_sha256_hex'')
            else require_hex64_text prev ''continuity.prev_message_digest_sha256_hex'') (\<lambda>_.
     rbind (ensure (case execution of None \<Rightarrow> True
                    | Some e \<Rightarrow> lower (strip (get_str e ''run_id'' [])) = run_id)
              (ar_error ''continuity.run_id must match execution.run_id'')) (\<lambda>_.
     Inr ([(''sequence_number'', JInt sequence_number), (''run_id'', JStr run_id)]
          @ (if prev = [] then [] else [(''prev_message_digest_sha256_hex'', JStr prev)]))))))))"


section \<open>The receipt\<close>

definition verify_mandate_authorization_consistency ::
  "(string, json) dict \<Rightarrow> (string, json) dict list \<Rightarrow> exn + unit" where
  "verify_mandate_authorization_consistency authorization attestations =
     (let digest = or_lower authorization ''mandate_digest_sha256_hex'';
          ref_id = or_text authorization ''mandate_reference_id'' in
      if digest = [] \<and> ref_id = [] then Inr ()
      else
        rbind (ensure (digest \<noteq> []) (ar_error ''mandate_reference_id requires mandate_digest_sha256_hex'')) (\<lambda>_.
        rbind (require_hex64_text digest ''mandate_digest_sha256_hex'') (\<lambda>_.
        case find (\<lambda>e. or_text e ''kind'' = EXTERNAL_ATTESTATION_KIND_AGENT_MANDATE_V1 \<and>
                       or_lower e ''digest_sha256_hex'' = digest) attestations of
          None \<Rightarrow> Inl (ar_error (''mandate_digest_sha256_hex must match an external_attestations entry of kind '' @
                   EXTERNAL_ATTESTATION_KIND_AGENT_MANDATE_V1))
        | Some matched \<Rightarrow>
            ensure (ref_id = [] \<or> ref_id = or_text matched ''reference_id'')
              (ar_error ''mandate_reference_id must match the matching external_attestations reference_id''))))"

definition verify_receipt_id :: "(string \<Rightarrow> string) \<Rightarrow> (string, json) dict \<Rightarrow> exn + unit" where
  "verify_receipt_id H receipt =
     rbind (item_str receipt ''scope'') (\<lambda>scope.
     rbind (item_map receipt ''references'') (\<lambda>references.
     rbind (item_str references ''intent_id'') (\<lambda>intent_id.
     rbind (item_str receipt ''receipt_id'') (\<lambda>receipt_id.
     if scope = ''action''
     then (case jget receipt ''execution'' of
         JObj execution \<Rightarrow>
           rbind (item_str execution ''tool_call_id'') (\<lambda>tool_call_id.
           rbind (ensure (receipt_id = action_receipt_id (sha256_hex H) intent_id tool_call_id)
                    (ar_error ''receipt_id does not match action scope derivation'')) (\<lambda>_.
           require_hex64_text receipt_id ''receipt_id''))
       | _ \<Rightarrow> Inl (ar_error ''execution is required to verify action receipt_id''))
     else
       rbind (ensure (receipt_id = intent_id)
                (ar_error ''receipt_id must equal intent_id for intent_terminal scope'')) (\<lambda>_.
       rbind (parse_uuid_text receipt_id ''receipt_id'') (\<lambda>_. Inr ()))))))"

text \<open>\<open>schema_version in (0, 1)\<close>: the comparison of Python also holds for booleans and floats.\<close>

definition schema_version_ok :: "json \<Rightarrow> bool" where
  "schema_version_ok v = (case v of
       JInt i \<Rightarrow> i = 0 \<or> i = 1 | JNum q \<Rightarrow> q = 0 \<or> q = 1 | JBool _ \<Rightarrow> True | _ \<Rightarrow> False)"

definition text_or :: "string \<Rightarrow> string \<Rightarrow> string" where
  "text_or s dflt = (if s = [] then dflt else s)"

text \<open>\<open>if receipt.get(k) is not None: out[k] = f(receipt[k])\<close>.\<close>

definition part_entry ::
  "(string, json) dict \<Rightarrow> string \<Rightarrow> ((string, json) dict \<Rightarrow> exn + (string, json) dict) \<Rightarrow> exn + (string, json) dict" where
  "part_entry d k f =
     if_given d k (\<lambda>v. rbind (as_mapping v) (\<lambda>m. rbind (f m) (\<lambda>n. Inr (JObj n))))"

definition execution_of ::
  "(string \<Rightarrow> exn + int) \<Rightarrow> (string, json) dict \<Rightarrow> string \<Rightarrow> exn + (string, json) dict option" where
  "execution_of utc receipt scope =
     (if scope \<noteq> ''action'' then Inr None
      else
        rbind (ensure (jget receipt ''execution'' \<noteq> JNull)
                 (ar_error ''execution is required for action scope'')) (\<lambda>_.
        rbind (rbind (item_map receipt ''execution'') (normalize_execution utc)) (\<lambda>e. Inr (Some e))))"

definition normalize_receipt ::
  "(string \<Rightarrow> string) \<Rightarrow> (string \<Rightarrow> exn + int) \<Rightarrow> (string, json) dict \<Rightarrow> exn + (string, json) dict" where
  "normalize_receipt H utc receipt =
     (let sv = (case map_of receipt ''schema_version'' of None \<Rightarrow> JInt 1 | Some v \<Rightarrow> v);
          kind = text_or (strip (get_str receipt ''kind'' AGENT_RECEIPT_KIND_V1)) AGENT_RECEIPT_KIND_V1;
          version = text_or (strip (get_str receipt ''receipt_version'' AGENT_RECEIPT_VERSION_V1)) AGENT_RECEIPT_VERSION_V1 in
     rbind (ensure (schema_version_ok sv) (ar_error (''unsupported schema_version '' @ json_text sv))) (\<lambda>_.
     rbind (ensure (kind = AGENT_RECEIPT_KIND_V1) (ar_error (''unsupported kind '' @ py_repr kind))) (\<lambda>_.
     rbind (ensure (version = AGENT_RECEIPT_VERSION_V1) (ar_error (''unsupported receipt_version '' @ py_repr version))) (\<lambda>_.
     rbind (item_lower receipt ''scope'') (\<lambda>scope.
     rbind (ensure (scope \<in> set [''action'', ''intent_terminal''])
              (ar_error (''scope must be '' @ py_repr ''action'' @ '' or '' @ py_repr ''intent_terminal''))) (\<lambda>_.
     rbind (item_lower receipt ''receipt_id'') (\<lambda>receipt_id.
     rbind (ensure (receipt_id \<noteq> []) (ar_error ''receipt_id is required'')) (\<lambda>_.
     rbind (item_text receipt ''tenant_id'') (\<lambda>tenant_id.
     rbind (ensure (tenant_id \<noteq> []) (ar_error ''tenant_id is required'')) (\<lambda>_.
     rbind (rbind (item_map receipt ''authorization'') (normalize_authorization utc)) (\<lambda>authorization.
     rbind (rbind (body_item receipt ''references'') normalize_references) (\<lambda>references.
     rbind (normalize_external_attestations (json_or (jget receipt ''external_attestations'') (JArr []))) (\<lambda>attestations.
     rbind (verify_mandate_authorization_consistency authorization attestations) (\<lambda>_.
     rbind (rbind (item_map receipt ''outcome'') (\<lambda>o'. normalize_outcome o' scope)) (\<lambda>outcome.
     rbind (execution_of utc receipt scope) (\<lambda>execution.
     rbind (item_time utc receipt ''issued_at'') (\<lambda>issued_at.
     rbind (item_lower receipt ''message_digest_sha256_hex'') (\<lambda>message_digest.
     rbind (item_lower receipt ''signing_public_key_ed25519_hex'') (\<lambda>public_key.
     rbind (item_lower receipt ''ed25519_signature_hex'') (\<lambda>signature.
     rbind (part_entry receipt ''merchant'' normalize_merchant) (\<lambda>merchant_entry.
     rbind (part_entry receipt ''evidence'' normalize_evidence) (\<lambda>evidence_entry.
     rbind (part_entry receipt ''payment'' normalize_payment) (\<lambda>payment_entry.
     rbind (part_entry receipt ''continuity'' (\<lambda>c. normalize_continuity c execution)) (\<lambda>continuity_entry.
     rbind (part_entry receipt ''operator_attestation'' normalize_operator_attestation) (\<lambda>operator_entry.
     let normalized =
       [(''schema_version'', JInt 1), (''kind'', JStr AGENT_RECEIPT_KIND_V1),
        (''receipt_version'', JStr AGENT_RECEIPT_VERSION_V1), (''scope'', JStr scope),
        (''receipt_id'', JStr receipt_id), (''issued_at'', JStr issued_at), (''tenant_id'', JStr tenant_id),
        (''authorization'', JObj authorization), (''outcome'', JObj outcome), (''references'', JObj references),
        (''external_attestations'', JArr (List.map JObj attestations)),
        (''signing_algorithm'',
          JStr (text_or (lower (strip (get_str receipt ''signing_algorithm'' SIGNING_ALGORITHM))) SIGNING_ALGORITHM)),
        (''message_digest_sha256_hex'', JStr message_digest),
        (''signing_public_key_ed25519_hex'', JStr public_key), (''ed25519_signature_hex'', JStr signature)]
       @ (case execution of None \<Rightarrow> [] | Some e \<Rightarrow> [(''execution'', JObj e)])
       @ merchant_entry @ evidence_entry @ payment_entry @ continuity_entry @ operator_entry in
     rbind (verify_receipt_id H normalized) (\<lambda>_. Inr normalized))))))))))))))))))))))))))"

end
