(* ===== verification/Receipt_Verify.thy ===== *)
theory Receipt_Verify
  imports Agent_Receipt "HOL-Library.Product_Lexorder"
begin

text \<open>
  The second half of \<open>agent_receipt.py\<close>: the canonical bytes a receipt is signed over, its
  verification, the validity tiers, the continuity chain of a run and the operator's counter
  signature.  Ed25519 is the parameter \<open>verify_sig\<close> of a public key, a signature and a message
  (\<open>sign\<close> and \<open>public\<close> on the signing side); the parser and the JSON Schema validator of
  \<open>validate_agent_receipt_json\<close> are \<open>loads\<close> and \<open>schema_error\<close>.
\<close>

section \<open>Canonical bytes\<close>

text \<open>The entries of a dictionary display: \<open>k: d[k]\<close>, and \<open>**({k: d[k]} if d.get(k) else {})\<close>.\<close>

definition field :: "(string, json) dict \<Rightarrow> string \<Rightarrow> exn + (string, json) dict" where
  "field d k = rbind (body_item d k) (\<lambda>v. Inr [(k, v)])"

definition truthy_field :: "(string, json) dict \<Rightarrow> string \<Rightarrow> exn + (string, json) dict" where
  "truthy_field d k = Inr (if truthy (jget d k) then [(k, jget d k)] else [])"

definition display :: "(exn + (string, json) dict) list \<Rightarrow> exn + (string, json) dict" where
  "display es = rbind (rmap id es) (\<lambda>ds. Inr (concat ds))"

definition nested :: "string \<Rightarrow> exn + (string, json) dict \<Rightarrow> exn + (string, json) dict" where
  "nested k e = rbind e (\<lambda>d. Inr [(k, JObj d)])"

text \<open>\<open>x = receipt.get(k); if isinstance(x, Mapping): payload[k] = {...}\<close>.\<close>

definition part_payload ::
  "(string, json) dict \<Rightarrow> string \<Rightarrow> ((string, json) dict \<Rightarrow> exn + (string, json) dict) \<Rightarrow> exn + (string, json) dict" where
  "part_payload receipt k f = (case jget receipt k of JObj d \<Rightarrow> nested k (f d) | _ \<Rightarrow> Inr [])"

definition agent_payload :: "(string, json) dict \<Rightarrow> exn + (string, json) dict" where
  "agent_payload d = display
     [field d ''operator_did'', field d ''model_family'', truthy_field d ''model_instance_id'',
      field d ''config_hash_sha256_hex'', field d ''prompt_hash_sha256_hex'', truthy_field d ''deployment_epoch'']"

definition policy_payload :: "(string, json) dict \<Rightarrow> exn + (string, json) dict" where
  "policy_payload d = display
     [field d ''template_id'', truthy_field d ''version_seq'', field d ''content_digest_sha256_hex'',
      truthy_field d ''spend_policy_version'']"

definition authorization_payload :: "(string, json) dict \<Rightarrow> exn + (string, json) dict" where
  "authorization_payload d =
     rbind (item_map d ''agent'') (\<lambda>agent.
     rbind (item_map d ''policy'') (\<lambda>policy.
     display
       [field d ''principal_did'', field d ''actor_subject'', nested ''agent'' (agent_payload agent),
        field d ''decision_id'', truthy_field d ''audit_id'', nested ''policy'' (policy_payload policy),
        field d ''authorized_at'', field d ''requested_spend_cents'', field d ''currency'',
        truthy_field d ''reason_codes'', truthy_field d ''mandate_digest_sha256_hex'',
        truthy_field d ''mandate_reference_id'', truthy_field d ''zk_policy_proof_digest_sha256_hex'']))"

definition execution_payload :: "(string, json) dict \<Rightarrow> exn + (string, json) dict" where
  "execution_payload d = display
     [field d ''run_id'', field d ''tool_call_id'', field d ''tool_name'', field d ''operation'',
      field d ''arguments_digest_sha256_hex'', truthy_field d ''result_digest_sha256_hex'', field d ''outcome'',
      field d ''started_at'', field d ''completed_at'', truthy_field d ''duration_ms'',
      truthy_field d ''tee_attestation_digest_sha256_hex'']"

definition merchant_payload :: "(string, json) dict \<Rightarrow> exn + (string, json) dict" where
  "merchant_payload d = display
     [field d ''payee_did'', truthy_field d ''vendor_id'', truthy_field d ''vendor_ref_id'']"

definition receipt_evidence_payload :: "(string, json) dict \<Rightarrow> exn + (string, json) dict" where
  "receipt_evidence_payload d = display
     [field d ''completion_preset_id'', field d ''payload_digest_sha256_hex'',
      truthy_field d ''artifacts_digest_sha256_hex'', field d ''predicate_passed'', field d ''payee_did'',
      truthy_field d ''payee_signature_digest_sha256_hex'']"

definition payment_payload :: "(string, json) dict \<Rightarrow> exn + (string, json) dict" where
  "payment_payload d = display
     [field d ''intent_id'', field d ''settlement_rail'', truthy_field d ''funding_method'',
      truthy_field d ''funding_reference'', truthy_field d ''funding_receipt_digest_sha256_hex'']"

definition given_field :: "(string, json) dict \<Rightarrow> string \<Rightarrow> exn + (string, json) dict" where
  "given_field d k = Inr (if jget d k \<noteq> JNull then [(k, jget d k)] else [])"

definition outcome_payload :: "(string, json) dict \<Rightarrow> exn + (string, json) dict" where
  "outcome_payload d = display
     [field d ''harbor_state'', truthy_field d ''spend_reservation_outcome'',
      given_field d ''predicate_passed'', truthy_field d ''settlement_outcome'']"

definition references_payload :: "(string, json) dict \<Rightarrow> exn + (string, json) dict" where
  "references_payload d = display
     [field d ''intent_id'', truthy_field d ''ledger_seq'',
      Inr [(''settlement_receipt_id'', jget d ''settlement_receipt_id'')]]"

definition continuity_payload :: "(string, json) dict \<Rightarrow> exn + (string, json) dict" where
  "continuity_payload d = display
     [truthy_field d ''prev_message_digest_sha256_hex'', field d ''sequence_number'', field d ''run_id'']"

definition canonical_payload :: "(string, json) dict \<Rightarrow> exn + (string, json) dict" where
  "canonical_payload r =
     rbind (item_map r ''authorization'') (\<lambda>authorization.
     display
       [field r ''schema_version'', field r ''kind'', field r ''receipt_version'', field r ''scope'',
        field r ''receipt_id'', field r ''issued_at'', field r ''tenant_id'',
        nested ''authorization'' (authorization_payload authorization),
        part_payload r ''execution'' execution_payload,
        part_payload r ''merchant'' merchant_payload,
        part_payload r ''evidence'' receipt_evidence_payload,
        part_payload r ''payment'' payment_payload,
        rbind (item_map r ''outcome'') (\<lambda>d. nested ''outcome'' (outcome_payload d)),
        rbind (item_map r ''references'') (\<lambda>d. nested ''references'' (references_payload d)),
        Inr [(''external_attestations'', json_or (jget r ''external_attestations'') JNull)],
        part_payload r ''continuity'' continuity_payload])"

definition marshal_canonical_agent_receipt :: "(string, json) dict \<Rightarrow> exn + string" where
  "marshal_canonical_agent_receipt r =
     rbind (canonical_payload r) (\<lambda>p. Inr (utf8 (json_dumps_unicode (JObj p))))"

definition canonical_agent_receipt_bytes ::
  "(string \<Rightarrow> string) \<Rightarrow> (string \<Rightarrow> exn + int) \<Rightarrow> (string, json) dict \<Rightarrow> exn + string" where
  "canonical_agent_receipt_bytes H utc r = rbind (normalize_receipt H utc r) marshal_canonical_agent_receipt"

definition agent_receipt_message_digest_sha256_hex ::
  "(string \<Rightarrow> string) \<Rightarrow> (string \<Rightarrow> exn + int) \<Rightarrow> (string, json) dict \<Rightarrow> exn + string" where
  "agent_receipt_message_digest_sha256_hex H utc r =
     rbind (canonical_agent_receipt_bytes H utc r) (\<lambda>b. Inr (to_hex (H b)))"

section \<open>Keys and signatures\<close>

text \<open>\<open>bytes.fromhex\<close>: ASCII white space between the bytes is skipped.\<close>

definition ascii_space :: "char \<Rightarrow> bool" where
  "ascii_space c \<longleftrightarrow> (let n = (of_char c :: nat) in 9 \<le> n \<and> n \<le> 13 \<or> n = 32)"

definition is_hex_any :: "char \<Rightarrow> bool" where
  "is_hex_any c \<longleftrightarrow> is_hex_lower (lower_char c)"

fun fromhex :: "string \<Rightarrow> exn + string" where
  "fromhex [] = Inr []"
| "fromhex (a # s) =
     (if ascii_space a then fromhex s
      else (case s of
          [] \<Rightarrow> Inl (ValueError ''non-hexadecimal number found in fromhex() arg'')
        | b # t \<Rightarrow>
            if is_hex_any a \<and> is_hex_any b
            then rbind (fromhex t) (\<lambda>bs. Inr (char_of (16 * unhex_digit (lower_char a) + unhex_digit (lower_char b)) # bs))
            else Inl (ValueError ''non-hexadecimal number found in fromhex() arg'')))"

definition allows_operator_public_key_hex :: "string \<Rightarrow> string list option \<Rightarrow> bool" where
  "allows_operator_public_key_hex key trusted = (case trusted of
       None \<Rightarrow> False
     | Some ks \<Rightarrow> list_ex (\<lambda>k. lower (strip k) = lower (strip key)) ks)"

text \<open>The two hex texts of a signature, decoded, and the check of the signature.\<close>

definition check_signature ::
  "(string \<Rightarrow> string \<Rightarrow> string \<Rightarrow> bool) \<Rightarrow> string \<Rightarrow> string \<Rightarrow> string \<Rightarrow> string \<Rightarrow> string \<Rightarrow> exn + unit" where
  "check_signature verify_sig key_hex sig_hex digest bad_material bad_signature =
     rbind (fromhex key_hex) (\<lambda>key.
     rbind (fromhex sig_hex) (\<lambda>sig.
     rbind (ensure (length key = 32 \<and> length sig = 64) (ar_error bad_material)) (\<lambda>_.
     ensure (verify_sig key sig digest) (ar_error bad_signature))))"

section \<open>Validity tiers\<close>

datatype validity_tier = Operational | Primary | Attested

definition tier_rank :: "validity_tier \<Rightarrow> nat" where
  "tier_rank t = (case t of Operational \<Rightarrow> 0 | Primary \<Rightarrow> 1 | Attested \<Rightarrow> 2)"

instantiation validity_tier :: linorder
begin

definition less_eq_validity_tier :: "validity_tier \<Rightarrow> validity_tier \<Rightarrow> bool" where
  "less_eq_validity_tier a b \<longleftrightarrow> tier_rank a \<le> tier_rank b"

definition less_validity_tier :: "validity_tier \<Rightarrow> validity_tier \<Rightarrow> bool" where
  "less_validity_tier a b \<longleftrightarrow> tier_rank a < tier_rank b"

instance
  by standard (auto simp: less_eq_validity_tier_def less_validity_tier_def tier_rank_def split: validity_tier.splits)

end

definition normalize_validity_tier :: "string option \<Rightarrow> exn + validity_tier" where
  "normalize_validity_tier v =
     (let n = lower (strip (str_or v [])) in
      if n = [] \<or> n = ''operational'' then Inr Operational
      else if n = ''primary'' then Inr Primary
      else if n = ''attested'' then Inr Attested
      else Inl (ar_error (''unknown validity_tier '' @ (case v of None \<Rightarrow> ''None'' | Some s \<Rightarrow> py_repr s))))"

definition require_primary_validity :: "(string, json) dict \<Rightarrow> exn + unit" where
  "require_primary_validity receipt =
     (case jget receipt ''evidence'' of
        JObj evidence \<Rightarrow>
          (let digest = or_lower evidence ''payee_signature_digest_sha256_hex'' in
           rbind (ensure (digest \<noteq> [])
                    (ar_error ''primary validity requires evidence.payee_signature_digest_sha256_hex'')) (\<lambda>_.
           rbind (require_hex64_text digest ''evidence.payee_signature_digest_sha256_hex'') (\<lambda>_.
           rbind (case jget receipt ''payment'' of
               JObj payment \<Rightarrow>
                 rbind (item_map receipt ''references'') (\<lambda>references.
                 rbind (item_lower references ''intent_id'') (\<lambda>intent_id.
                 ensure (lower (strip (get_str payment ''intent_id'' [])) = intent_id)
                   (ar_error ''primary validity: payment.intent_id must match references.intent_id'')))
             | _ \<Rightarrow> Inr ()) (\<lambda>_.
           case jget receipt ''merchant'' of
             JObj merchant \<Rightarrow>
               (let merchant_payee = or_text merchant ''payee_did''; evidence_payee = or_text evidence ''payee_did''
                in ensure (merchant_payee = [] \<or> evidence_payee = [] \<or> merchant_payee = evidence_payee)
                     (ar_error ''primary validity: evidence.payee_did must match merchant.payee_did''))
           | _ \<Rightarrow> Inr ()))))
      | _ \<Rightarrow> Inl (ar_error ''primary validity requires evidence''))"

definition require_attested_validity :: "(string, json) dict \<Rightarrow> string list option \<Rightarrow> exn + unit" where
  "require_attested_validity receipt trusted =
     (case jget receipt ''operator_attestation'' of
        JObj attestation \<Rightarrow>
          rbind (item_str attestation ''signing_public_key_ed25519_hex'') (\<lambda>key.
          ensure (allows_operator_public_key_hex key trusted)
            (ar_error ''attested validity requires operator_attestation signing key in the configured tenant operator registry''))
      | _ \<Rightarrow> Inl (ar_error ''attested validity requires operator_attestation''))"

definition require_validity_tier ::
  "(string, json) dict \<Rightarrow> validity_tier \<Rightarrow> string list option \<Rightarrow> exn + unit" where
  "require_validity_tier receipt tier trusted = (case tier of
       Operational \<Rightarrow> Inr ()
     | Primary \<Rightarrow> require_primary_validity receipt
     | Attested \<Rightarrow> rbind (require_primary_validity receipt) (\<lambda>_. require_attested_validity receipt trusted))"

text \<open>Only a ValueError of the primary check is caught; what else it raises is raised.\<close>

definition achieved_validity_tier :: "(string, json) dict \<Rightarrow> string list option \<Rightarrow> exn + validity_tier" where
  "achieved_validity_tier receipt trusted = (case require_primary_validity receipt of
       Inl (ValueError _) \<Rightarrow> Inr Operational
     | Inl e \<Rightarrow> Inl e
     | Inr _ \<Rightarrow>
         (case jget receipt ''operator_attestation'' of
            JObj attestation \<Rightarrow>
              rbind (item_str attestation ''signing_public_key_ed25519_hex'') (\<lambda>key.
              Inr (if allows_operator_public_key_hex key trusted then Attested else Primary))
          | _ \<Rightarrow> Inr Primary))"


section \<open>Verification\<close>

definition allows_signing_public_key_hex :: "string \<Rightarrow> string list option \<Rightarrow> bool" where
  "allows_signing_public_key_hex key expected = (case expected of
       None \<Rightarrow> True
     | Some ks \<Rightarrow> ks = [] \<or> list_ex (\<lambda>k. lower (strip k) = lower (strip key)) ks)"

record verify_options =
  vo_expected_signing_public_keys :: "string list option"
  vo_verify_operator_against_registry :: "bool option"
  vo_trusted_operator_public_keys :: "string list option"
  vo_trust_mode :: "string option"
  vo_required_validity_tier :: "string option"
  vo_expected_prior_message_digest_hex :: "string option"

definition verify_continuity_expected_prior :: "(string, json) dict \<Rightarrow> string option \<Rightarrow> exn + unit" where
  "verify_continuity_expected_prior receipt expected_prior =
     (let expected = lower (strip (str_or expected_prior [])) in
      if expected = [] then Inr ()
      else (case jget receipt ''continuity'' of
          JObj continuity \<Rightarrow>
            rbind (int_item continuity ''sequence_number'') (\<lambda>n.
            rbind (ensure (2 \<le> n) (ar_error ''continuity: expected prior digest requires sequence_number > 1'')) (\<lambda>_.
            ensure (or_lower continuity ''prev_message_digest_sha256_hex'' = expected)
              (ar_error ''continuity: prev_message_digest_sha256_hex does not match expected prior digest'')))
        | _ \<Rightarrow> Inl (ar_error ''continuity is required when an expected prior digest is configured'')))"

text \<open>\<open>if not attestation: return\<close>: an absent attestation; a normalized one is a non-empty mapping.\<close>

definition enforce_registry :: "bool option \<Rightarrow> string option \<Rightarrow> bool" where
  "enforce_registry against_registry trust_mode \<longleftrightarrow>
     against_registry = Some True \<or>
     (against_registry \<noteq> Some False \<and> lower (strip (str_or trust_mode [])) = ''tenant_registry'')"

definition verify_operator_attestation ::
  "(string \<Rightarrow> string \<Rightarrow> string \<Rightarrow> bool) \<Rightarrow> (string, json) dict \<Rightarrow> string \<Rightarrow> bool option \<Rightarrow>
   string list option \<Rightarrow> string option \<Rightarrow> exn + unit" where
  "verify_operator_attestation verify_sig normalized digest against_registry trusted trust_mode =
     (if \<not> truthy (jget normalized ''operator_attestation'') then Inr ()
      else
        rbind (item_map normalized ''operator_attestation'') (\<lambda>attestation.
        rbind (rbind (item_map normalized ''authorization'') (\<lambda>a. item_map a ''agent'')) (\<lambda>agent.
        rbind (item_text attestation ''operator_did'') (\<lambda>operator_did.
        rbind (item_text agent ''operator_did'') (\<lambda>agent_did.
        rbind (ensure (operator_did = agent_did)
                 (ar_error ''operator_attestation.operator_did must match authorization.agent.operator_did'')) (\<lambda>_.
        rbind (item_str attestation ''message_digest_sha256_hex'') (\<lambda>attested_digest.
        rbind (item_str normalized ''message_digest_sha256_hex'') (\<lambda>message_digest.
        rbind (ensure (attested_digest = message_digest)
                 (ar_error ''operator_attestation message_digest_sha256_hex must match gateway digest'')) (\<lambda>_.
        rbind (item_str attestation ''signing_public_key_ed25519_hex'') (\<lambda>key.
        rbind (ensure (enforce_registry against_registry trust_mode \<longrightarrow> allows_operator_public_key_hex key trusted)
                 (ar_error ''operator_attestation signing key is not in the configured tenant operator registry'')) (\<lambda>_.
        rbind (item_str attestation ''ed25519_signature_hex'') (\<lambda>signature.
        check_signature verify_sig key signature digest
          ''invalid operator attestation signing material''
          ''operator attestation ed25519 signature verification failed''))))))))))))"

definition verify_agent_receipt_v1 ::
  "(string \<Rightarrow> string) \<Rightarrow> (string \<Rightarrow> string \<Rightarrow> string \<Rightarrow> bool) \<Rightarrow> (string \<Rightarrow> exn + int) \<Rightarrow> verify_options \<Rightarrow>
   (string, json) dict \<Rightarrow> exn + (string, json) dict" where
  "verify_agent_receipt_v1 H verify_sig utc opts receipt =
     rbind (normalize_validity_tier (vo_required_validity_tier opts)) (\<lambda>required_tier.
     let against_registry = (if required_tier = Attested then Some True
                             else vo_verify_operator_against_registry opts) in
     rbind (normalize_receipt H utc receipt) (\<lambda>normalized.
     rbind (verify_continuity_expected_prior normalized (vo_expected_prior_message_digest_hex opts)) (\<lambda>_.
     rbind (item_str normalized ''signing_public_key_ed25519_hex'') (\<lambda>key.
     rbind (ensure (allows_signing_public_key_hex key (vo_expected_signing_public_keys opts))
              (ar_error ''signing_public_key_ed25519_hex is not in the configured trusted key set'')) (\<lambda>_.
     rbind (marshal_canonical_agent_receipt normalized) (\<lambda>canonical.
     let digest = H canonical in
     rbind (item_str normalized ''signing_algorithm'') (\<lambda>algorithm.
     rbind (ensure (algorithm = SIGNING_ALGORITHM)
              (ar_error (''signing_algorithm must be '' @ py_repr SIGNING_ALGORITHM))) (\<lambda>_.
     rbind (item_str normalized ''message_digest_sha256_hex'') (\<lambda>message_digest.
     rbind (require_hex64_text message_digest ''message_digest_sha256_hex'') (\<lambda>_.
     rbind (ensure (message_digest = to_hex digest) (ar_error ''message digest mismatch'')) (\<lambda>_.
     rbind (item_str normalized ''ed25519_signature_hex'') (\<lambda>signature.
     rbind (check_signature verify_sig key signature digest ''invalid signing material''
              ''ed25519 signature verification failed'') (\<lambda>_.
     rbind (verify_operator_attestation verify_sig normalized digest against_registry
              (vo_trusted_operator_public_keys opts) (vo_trust_mode opts)) (\<lambda>_.
     rbind (require_validity_tier normalized required_tier (vo_trusted_operator_public_keys opts)) (\<lambda>_.
     Inr normalized)))))))))))))))"

text \<open>
  \<open>validate_agent_receipt_json\<close>: the document is given as a mapping or as a text.  \<open>schema_error\<close>
  is the error of \<open>jsonschema.validate\<close> against the published schema, if any.
\<close>

datatype raw_receipt = Raw_Mapping "(string, json) dict" | Raw_Text string

definition validate_agent_receipt_json ::
  "(string \<Rightarrow> string + json) \<Rightarrow> (json \<Rightarrow> exn option) \<Rightarrow> raw_receipt \<Rightarrow> exn + (string, json) dict" where
  "validate_agent_receipt_json loads schema_error raw =
     rbind (case raw of
              Raw_Mapping d \<Rightarrow> Inr (JObj d)
            | Raw_Text t \<Rightarrow> (case loads t of
                  Inl m \<Rightarrow> Inl (ar_error (''invalid JSON: '' @ m))
                | Inr j \<Rightarrow> Inr j)) (\<lambda>doc.
     case doc of
       JObj d \<Rightarrow>
         rbind (reject_forbidden_agent_receipt_fields doc) (\<lambda>_.
         case schema_error doc of None \<Rightarrow> Inr d | Some e \<Rightarrow> Inl e)
     | _ \<Rightarrow> Inl (ar_error ''root value must be a JSON object''))"

definition verify_agent_receipt_v1_from_json ::
  "(string \<Rightarrow> string) \<Rightarrow> (string \<Rightarrow> string \<Rightarrow> string \<Rightarrow> bool) \<Rightarrow> (string \<Rightarrow> exn + int) \<Rightarrow>
   (string \<Rightarrow> string + json) \<Rightarrow> (json \<Rightarrow> exn option) \<Rightarrow> verify_options \<Rightarrow> raw_receipt \<Rightarrow> exn + (string, json) dict" where
  "verify_agent_receipt_v1_from_json H verify_sig utc loads schema_error opts raw =
     rbind (validate_agent_receipt_json loads schema_error raw) (verify_agent_receipt_v1 H verify_sig utc opts)"

section \<open>Continuity\<close>

definition continuity_from_prior ::
  "string \<Rightarrow> (string, json) dict option \<Rightarrow> exn + (string, json) dict" where
  "continuity_from_prior run_id prior0 =
     (let run = lower (strip run_id) in
      rbind (ensure (uuid_re run) (ar_error ''continuity.run_id must be a canonical UUID'')) (\<lambda>_.
      case prior0 of
        None \<Rightarrow> Inr [(''sequence_number'', JInt 1), (''run_id'', JStr run)]
      | Some prior \<Rightarrow>
          (let continuity = (case jget prior ''continuity'' of JObj c \<Rightarrow> Some c | _ \<Rightarrow> None);
               own_run = (case continuity of Some c \<Rightarrow> or_lower c ''run_id'' | None \<Rightarrow> []);
               exec_run = (case jget prior ''execution'' of JObj e \<Rightarrow> or_lower e ''run_id'' | _ \<Rightarrow> []);
               prior_run = (if own_run \<noteq> [] then own_run else if exec_run \<noteq> [] then exec_run else run) in
           rbind (ensure (prior_run = run) (ar_error ''continuity prior run_id mismatch'')) (\<lambda>_.
           let prev_digest = or_lower prior ''message_digest_sha256_hex'' in
           rbind (require_hex64_text prev_digest ''prior message_digest_sha256_hex'') (\<lambda>_.
           rbind (case continuity of
               None \<Rightarrow> Inr 2
             | Some c \<Rightarrow>
                 rbind (if truthy (jget c ''sequence_number'') then py_int (jget c ''sequence_number'') else Inr 0) (\<lambda>n.
                 Inr (if 0 < n then n + 1 else 2))) (\<lambda>seq.
           Inr [(''prev_message_digest_sha256_hex'', JStr prev_digest), (''sequence_number'', JInt seq),
                (''run_id'', JStr run)]))))))"

text \<open>
  The fields of a normalized receipt that the chain reads: it has a continuity, whose run id is a
  text and whose sequence number is an int.
\<close>

definition continuity_of :: "(string, json) dict \<Rightarrow> (string, json) dict" where
  "continuity_of r = (case jget r ''continuity'' of JObj c \<Rightarrow> c | _ \<Rightarrow> [])"

definition link_run :: "(string, json) dict \<Rightarrow> string" where
  "link_run r = json_text (jget (continuity_of r) ''run_id'')"

definition link_seq :: "(string, json) dict \<Rightarrow> int" where
  "link_seq r = (case jget (continuity_of r) ''sequence_number'' of JInt i \<Rightarrow> i | _ \<Rightarrow> 0)"

definition link_prev :: "(string, json) dict \<Rightarrow> json" where
  "link_prev r = jget (continuity_of r) ''prev_message_digest_sha256_hex''"

definition link_digest :: "(string, json) dict \<Rightarrow> json" where
  "link_digest r = jget r ''message_digest_sha256_hex''"

fun chain_loop :: "(string, json) dict list \<Rightarrow> (string, (string, json) dict) dict \<Rightarrow> exn + unit" where
  "chain_loop [] prev_by_run = Inr ()"
| "chain_loop (item # items) prev_by_run =
     (let run_id = link_run item in
      case map_of prev_by_run run_id of
        None \<Rightarrow>
          rbind (ensure (link_seq item = 1 \<and> \<not> truthy (link_prev item))
                   (ar_error (''continuity chain for run '' @ run_id @
                      '' must start at sequence_number 1 without prev digest''))) (\<lambda>_.
          chain_loop items (AList.update run_id item prev_by_run))
      | Some prior \<Rightarrow>
          (let expected_seq = link_seq prior + 1 in
           rbind (ensure (link_seq item = expected_seq)
                    (ar_error (''continuity chain sequence gap for run '' @ run_id @ '': got '' @
                       str_int (link_seq item) @ '' want '' @ str_int expected_seq))) (\<lambda>_.
           rbind (ensure (link_prev item = link_digest prior)
                    (ar_error (''continuity chain digest mismatch for run '' @ run_id @ '' sequence '' @
                       str_int (link_seq item)))) (\<lambda>_.
           chain_loop items (AList.update run_id item prev_by_run)))))"

definition linked_receipts ::
  "(string \<Rightarrow> string) \<Rightarrow> (string \<Rightarrow> exn + int) \<Rightarrow> (string, json) dict list \<Rightarrow> exn + (string, json) dict list" where
  "linked_receipts H utc receipts =
     rmap (normalize_receipt H utc) (filter (\<lambda>r. jget r ''continuity'' \<noteq> JNull) receipts)"

definition verify_continuity_chain ::
  "(string \<Rightarrow> string) \<Rightarrow> (string \<Rightarrow> exn + int) \<Rightarrow> (string, json) dict list \<Rightarrow> exn + unit" where
  "verify_continuity_chain H utc receipts =
     rbind (linked_receipts H utc receipts) (\<lambda>linked.
     if linked = [] then Inr ()
     else chain_loop (sort_key (\<lambda>r. (link_run r, link_seq r)) linked) [])"

section \<open>The operator's counter signature\<close>

definition attach_operator_attestation_v1 ::
  "(string \<Rightarrow> string) \<Rightarrow> (string \<Rightarrow> string \<Rightarrow> string \<Rightarrow> bool) \<Rightarrow> (string \<Rightarrow> string \<Rightarrow> string) \<Rightarrow> (string \<Rightarrow> string) \<Rightarrow>
   (string \<Rightarrow> exn + int) \<Rightarrow> (string, json) dict \<Rightarrow> string \<Rightarrow> string \<Rightarrow> exn + (string, json) dict" where
  "attach_operator_attestation_v1 H verify_sig sign public utc receipt seed operator_did =
     rbind (verify_agent_receipt_v1 H verify_sig utc
              \<lparr>vo_expected_signing_public_keys = None, vo_verify_operator_against_registry = None,
               vo_trusted_operator_public_keys = None, vo_trust_mode = None, vo_required_validity_tier = None,
               vo_expected_prior_message_digest_hex = None\<rparr> receipt) (\<lambda>verified.
     let did = strip operator_did in
     rbind (ensure (did \<noteq> []) (ar_error ''operator_did is required'')) (\<lambda>_.
     rbind (rbind (item_map verified ''authorization'') (\<lambda>a. item_map a ''agent'')) (\<lambda>agent.
     rbind (item_text agent ''operator_did'') (\<lambda>agent_did.
     rbind (ensure (did = agent_did) (ar_error ''operator_did must match authorization.agent.operator_did'')) (\<lambda>_.
     rbind (item_str verified ''message_digest_sha256_hex'') (\<lambda>message_digest.
     rbind (fromhex message_digest) (\<lambda>digest.
     let key = take 32 seed in
     Inr (AList.update ''operator_attestation''
            (JObj [(''operator_did'', JStr did),
                   (''signing_public_key_ed25519_hex'', JStr (to_hex (public key))),
                   (''message_digest_sha256_hex'', jget verified ''message_digest_sha256_hex''),
                   (''ed25519_signature_hex'', JStr (to_hex (sign key digest)))]) verified))))))))"

end
