(* ===== verification/Mcp_Tools.thy ===== *)
theory Mcp_Tools
  imports Mcp_Gateway Receipt_Verify
begin

text \<open>
  The tools of \<open>mcp_server.py\<close>, each the function that \<open>build_mcp_server\<close> registers under its name,
  the wrapper they run in, and the receipt resource with \<open>mcp_receipt_resource.py\<close>.  FastMCP, which
  decodes the arguments and calls the registered functions, is not modelled.
\<close>

section \<open>What the tools use\<close>

record 's mcp_env =
  me_gateway :: mcp_gateway
  me_send :: "'s transport"
  me_clock :: "rat \<times> rat"  \<comment> \<open>the two readings of the monotonic clock of a call\<close>
  me_blake3 :: "string \<Rightarrow> string"
  me_schema_errors :: "json \<Rightarrow> json \<Rightarrow> schema_error list"
  me_catalog :: catalog
  me_verify_receipt :: "verify_options \<Rightarrow> (string, json) dict \<Rightarrow> exn + (string, json) dict"
    \<comment> \<open>\<open>verify_agent_receipt_v1_from_json\<close> under a hash, a signature scheme, a time zone and a schema\<close>

definition receipt_verifier ::
  "(string \<Rightarrow> string) \<Rightarrow> (string \<Rightarrow> string \<Rightarrow> string \<Rightarrow> bool) \<Rightarrow> (string \<Rightarrow> exn + int) \<Rightarrow>
   (string \<Rightarrow> string + json) \<Rightarrow> (json \<Rightarrow> exn option) \<Rightarrow> verify_options \<Rightarrow> (string, json) dict \<Rightarrow> exn + (string, json) dict" where
  "receipt_verifier H verify_sig utc loads schema_error opts d =
     verify_agent_receipt_v1_from_json H verify_sig utc loads schema_error opts (Raw_Mapping d)"

type_synonym 's tool = "(json, 's mcp_world) call"

definition as_object :: "((string, json) dict, 'w) call \<Rightarrow> (json, 'w) call" where
  "as_object m = mthen m (\<lambda>b. mret (JObj b))"

text \<open>The clients of \<open>signal.py\<close> and \<open>fraud.py\<close>, made for the principal's tenant.\<close>

definition client_exn :: "client_error \<Rightarrow> exn" where
  "client_exn e = (case e of KitError x \<Rightarrow> x | HttpFailure m n \<Rightarrow> RuntimeError m)"

definition on_net :: "('s \<Rightarrow> (client_error + 'a) \<times> 's) \<Rightarrow> ('a, 's mcp_world) call" where
  "on_net f w = (let (out, s) = f (mw_net w) in (map_sum client_exn id out, w\<lparr>mw_net := s\<rparr>))"

definition signal :: "'s mcp_env \<Rightarrow> (gateway_client, 's mcp_world) call" where
  "signal env =
     mthen (mcp_tenant_id (me_gateway env) (me_send env)) (\<lambda>t.
     mret \<lparr>gc_base = mg_base (me_gateway env), gc_tenant = strip t, gc_bearer = mg_api_key (me_gateway env)\<rparr>)"

definition opt_object :: "(string, json) dict option \<Rightarrow> json" where
  "opt_object v = (case v of Some b \<Rightarrow> JObj b | None \<Rightarrow> JNull)"

section \<open>Receipt resources\<close>

definition RECEIPT_URI :: string where
  "RECEIPT_URI = ''paybond://receipt/''"

definition receipt_id_re :: "string \<Rightarrow> bool" where
  "receipt_id_re s \<longleftrightarrow> hex64_re s \<or> uuid_re s"

definition parse_agent_receipt_resource_uri :: "string \<Rightarrow> exn + string" where
  "parse_agent_receipt_resource_uri uri =
     (let t = lower (strip uri); i = drop (length RECEIPT_URI) t
      in rbind (ensure (startswith t RECEIPT_URI \<and> receipt_id_re i)
                 (ValueError (''unsupported resource URI '' @ py_repr (strip uri) @
                    ''; expected paybond://receipt/{receipt_id}''))) (\<lambda>_. Inr i))"

definition agent_receipt_resource_uri :: "string \<Rightarrow> exn + string" where
  "agent_receipt_resource_uri receipt_id =
     (let n = lower (strip receipt_id)
      in rbind (ensure (receipt_id_re n)
                 (ValueError ''receipt_id must be a lowercase SHA-256 hex digest or canonical UUID'')) (\<lambda>_.
         Inr (RECEIPT_URI @ n)))"

text \<open>\<open>json.dumps(x, indent=2, sort_keys=True)\<close> of a canonicalized value.\<close>

primrec json_pretty :: "json \<Rightarrow> string \<Rightarrow> string" where
  "json_pretty JNull ind = ''null''"
| "json_pretty (JBool b) ind = (if b then ''true'' else ''false'')"
| "json_pretty (JInt i) ind = str_int i"
| "json_pretty (JNum q) ind = str_rat q"
| "json_pretty (JStr s) ind = json_string s"
| "json_pretty (JArr l) ind =
     (let i = ind @ ''  '' in
      if l = [] then ''[]''
      else ''['' @ CHR 0x0A # i @ py_join ('','' @ CHR 0x0A # i) (List.map (\<lambda>f. f i) (List.map json_pretty l))
           @ CHR 0x0A # ind @ '']'')"
| "json_pretty (JObj d) ind =
     (let i = ind @ ''  '' in
      if d = [] then ''{}''
      else ''{'' @ CHR 0x0A # i @ py_join ('','' @ CHR 0x0A # i)
             (List.map (\<lambda>(k, f). json_string k @ '': '' @ f i) (List.map (map_prod id json_pretty) d))
           @ CHR 0x0A # ind @ ''}'')"

definition plain_options :: "string option \<Rightarrow> verify_options" where
  "plain_options tier =
     \<lparr>vo_expected_signing_public_keys = None, vo_verify_operator_against_registry = None,
      vo_trusted_operator_public_keys = None, vo_trust_mode = None, vo_required_validity_tier = tier,
      vo_expected_prior_message_digest_hex = None\<rparr>"

text \<open>\<open>except (ValueError, TypeError)\<close> around the verification.\<close>

definition verification_failed :: "string \<Rightarrow> exn \<Rightarrow> exn" where
  "verification_failed what e = (case e of
       ValueError m \<Rightarrow> ValueError (what @ '': '' @ m)
     | TypeError m \<Rightarrow> ValueError (what @ '': '' @ m)
     | _ \<Rightarrow> e)"

text \<open>The resource is registered with the server itself, not with \<open>paybond_tool\<close>.\<close>

definition paybond_agent_receipt_resource :: "'s mcp_env \<Rightarrow> string \<Rightarrow> (string, 's mcp_world) call" where
  "paybond_agent_receipt_resource env receipt_id =
     mthen (mcp_get_agent_receipt_v1 (me_gateway env) (me_send env) receipt_id) (\<lambda>receipt.
     mthen (mlift (map_sum (verification_failed (''agent receipt verification failed for '' @ receipt_id)) id
             (me_verify_receipt env (plain_options None) receipt))) (\<lambda>_.
     mret (json_pretty (canonicalize_json (JObj receipt)) [])))"

section \<open>The tools\<close>

definition paybond_get_principal :: "'s mcp_env \<Rightarrow> 's tool" where
  "paybond_get_principal env = as_object (principal (me_gateway env) (me_send env))"

definition with_capability_token :: "'s mcp_env \<Rightarrow> string \<Rightarrow> string option \<Rightarrow> (string, 's mcp_world) call" where
  "with_capability_token env intent_id token w =
     (let (rt, out) = resolve_capability_token (mw_runtime w) intent_id token (fst (me_clock env)) (snd (me_clock env))
      in (out, w\<lparr>mw_runtime := rt\<rparr>))"

definition paybond_verify_capability ::
  "'s mcp_env \<Rightarrow> string \<Rightarrow> string \<Rightarrow> int option \<Rightarrow> string option \<Rightarrow> 's tool" where
  "paybond_verify_capability env intent_id operation cents token =
     mthen (with_capability_token env intent_id token) (\<lambda>t.
     mthen (mlift (py_uuid intent_id)) (\<lambda>intent.
     as_object (mcp_authorize_spend (me_gateway env) (me_send env) intent t operation cents (Some operation))))"

definition paybond_authorize_agent_spend ::
  "'s mcp_env \<Rightarrow> string \<Rightarrow> string \<Rightarrow> int option \<Rightarrow> string option \<Rightarrow> 's tool" where
  "paybond_authorize_agent_spend env intent_id operation cents token =
     mthen (with_capability_token env intent_id token) (\<lambda>t.
     mthen (mlift (py_uuid intent_id)) (\<lambda>intent.
     as_object (mcp_authorize_spend (me_gateway env) (me_send env) intent t operation cents (Some operation))))"

definition paybond_get_budget_remaining :: "'s mcp_env \<Rightarrow> string \<Rightarrow> preflight \<Rightarrow> 's tool" where
  "paybond_get_budget_remaining env intent_id p =
     mthen (mlift (py_uuid intent_id)) (\<lambda>intent.
     as_object (get_budget_remaining (me_gateway env) (me_send env) intent p))"

definition paybond_explain_policy :: "'s mcp_env \<Rightarrow> string \<Rightarrow> preflight \<Rightarrow> 's tool" where
  "paybond_explain_policy env intent_id p =
     mthen (mlift (py_uuid intent_id)) (\<lambda>intent.
     as_object (explain_policy (me_gateway env) (me_send env) intent p))"

definition paybond_bootstrap_sandbox_guardrail ::
  "'s mcp_env \<Rightarrow> string \<Rightarrow> int \<Rightarrow> string option \<Rightarrow> (string, json) dict option \<Rightarrow> (string, json) dict option \<Rightarrow>
   string option \<Rightarrow> 's tool" where
  "paybond_bootstrap_sandbox_guardrail env operation cents currency evidence_schema metadata idempotency_key =
     as_object (mcp_bootstrap_sandbox (me_gateway env) (me_send env) operation cents currency evidence_schema
       metadata idempotency_key)"

text \<open>The report of a validation as the dictionary it is.\<close>

definition report_dict :: "validation_report \<Rightarrow> (string, json) dict" where
  "report_dict r =
     [(''preset_id'', JStr (vp_preset_id r)), (''vendor_schema_ok'', JBool (vp_vendor_schema_ok r)),
      (''canonical_schema_ok'', JBool (vp_canonical_schema_ok r)),
      (''quality_fields_missing'', JArr (List.map JStr (vp_quality_fields_missing r))),
      (''forbidden_fields_present'', JArr (List.map JStr (vp_forbidden_fields_present r))),
      (''pack_stale'', JBool (vp_pack_stale r)), (''drift_kinds'', JArr (List.map JStr (vp_drift_kinds r))),
      (''canonical_payload'', opt_object (vp_canonical_payload r))]"

definition paybond_validate_completion_evidence :: "'s mcp_env \<Rightarrow> validation_input \<Rightarrow> 's tool" where
  "paybond_validate_completion_evidence env i w =
     (let rt = mw_runtime w;
          (g, out) = validate_and_record (me_blake3 env) (me_schema_errors env) (me_catalog env) (ms_evidence_gate rt) i
      in (rbind out (\<lambda>r. Inr (JObj (report_dict r @ [(''ok'', JBool (completion_evidence_validation_ok r))]))),
          w\<lparr>mw_runtime := rt\<lparr>ms_evidence_gate := g\<rparr>\<rparr>))"

definition paybond_submit_sandbox_guardrail_evidence ::
  "'s mcp_env \<Rightarrow> string \<Rightarrow> (string, json) dict option \<Rightarrow> string list option \<Rightarrow> string option \<Rightarrow> int option \<Rightarrow>
   (string, json) dict option \<Rightarrow> string option \<Rightarrow> string option \<Rightarrow> 's tool" where
  "paybond_submit_sandbox_guardrail_evidence env intent_id payload artifacts operation cents metadata preset
     idempotency_key =
     mthen (mlift (py_uuid intent_id)) (\<lambda>intent.
     as_object (mcp_submit_sandbox_evidence (me_blake3 env) (me_gateway env) (me_send env) intent payload artifacts
       operation cents metadata preset idempotency_key))"

definition paybond_list_intents ::
  "'s mcp_env \<Rightarrow> string option \<Rightarrow> string option \<Rightarrow> int \<Rightarrow> string option \<Rightarrow> 's tool" where
  "paybond_list_intents env status operator_did limit cursor =
     as_object (mcp_list_intents (me_gateway env) (me_send env) status operator_did limit cursor)"

definition paybond_get_intent :: "'s mcp_env \<Rightarrow> string \<Rightarrow> 's tool" where
  "paybond_get_intent env intent_id =
     mthen (mlift (py_uuid intent_id)) (\<lambda>intent. as_object (mcp_get_intent (me_gateway env) (me_send env) intent))"

definition paybond_list_audit_exports :: "'s mcp_env \<Rightarrow> int \<Rightarrow> string option \<Rightarrow> 's tool" where
  "paybond_list_audit_exports env limit cursor =
     as_object (mcp_list_audit_exports (me_gateway env) (me_send env) limit cursor)"

definition paybond_get_audit_export :: "'s mcp_env \<Rightarrow> string \<Rightarrow> bool \<Rightarrow> 's tool" where
  "paybond_get_audit_export env job_id issue_download =
     as_object (mcp_get_audit_export (me_gateway env) (me_send env) job_id issue_download)"

definition paybond_get_reputation_receipt :: "'s mcp_env \<Rightarrow> string \<Rightarrow> string option \<Rightarrow> 's tool" where
  "paybond_get_reputation_receipt env operator_did version =
     mthen (signal env) (\<lambda>c.
     mthen (on_net (get_reputation_receipt c (me_send env) operator_did version)) (\<lambda>b. mret (opt_object b)))"

definition paybond_get_portfolio_summary :: "'s mcp_env \<Rightarrow> string option \<Rightarrow> 's tool" where
  "paybond_get_portfolio_summary env version =
     mthen (signal env) (\<lambda>c. as_object (on_net (get_portfolio_summary c (me_send env) version)))"

definition paybond_get_signed_portfolio_artifact :: "'s mcp_env \<Rightarrow> string option \<Rightarrow> 's tool" where
  "paybond_get_signed_portfolio_artifact env version =
     mthen (signal env) (\<lambda>c. as_object (on_net (get_signed_portfolio_artifact c (me_send env) version)))"

definition paybond_get_fraud_assessment :: "'s mcp_env \<Rightarrow> string \<Rightarrow> string option \<Rightarrow> 's tool" where
  "paybond_get_fraud_assessment env operator_did version =
     mthen (signal env) (\<lambda>c.
     mthen (on_net (get_fraud_assessment c (me_send env) operator_did version)) (\<lambda>b. mret (opt_object b)))"

definition paybond_get_fraud_metrics :: "'s mcp_env \<Rightarrow> string option \<Rightarrow> string option \<Rightarrow> 's tool" where
  "paybond_get_fraud_metrics env window version =
     mthen (signal env) (\<lambda>c. as_object (on_net (get_fraud_metrics c (me_send env) window version)))"

definition paybond_get_a2a_agent_card :: "'s mcp_env \<Rightarrow> 's tool" where
  "paybond_get_a2a_agent_card env = as_object (mcp_get_a2a_agent_card (me_gateway env) (me_send env))"

definition paybond_list_a2a_task_contracts :: "'s mcp_env \<Rightarrow> 's tool" where
  "paybond_list_a2a_task_contracts env = as_object (mcp_get_a2a_task_contracts (me_gateway env) (me_send env))"

definition paybond_get_a2a_task_contract :: "'s mcp_env \<Rightarrow> string \<Rightarrow> 's tool" where
  "paybond_get_a2a_task_contract env contract_id =
     as_object (mcp_get_a2a_task_contract (me_gateway env) (me_send env) contract_id)"

definition paybond_verify_agent_mandate_v1 :: "'s mcp_env \<Rightarrow> (string, json) dict \<Rightarrow> 's tool" where
  "paybond_verify_agent_mandate_v1 env signed_mandate =
     as_object (mcp_verify_agent_mandate_v1 (me_gateway env) (me_send env) signed_mandate)"

definition paybond_verify_agent_recognition_proof_v1 ::
  "'s mcp_env \<Rightarrow> (string, json) dict \<Rightarrow> string \<Rightarrow> (string, json) dict \<Rightarrow> 's tool" where
  "paybond_verify_agent_recognition_proof_v1 env recognition expected_purpose expected_request =
     as_object (mcp_verify_recognition_proof (me_gateway env) (me_send env) recognition expected_purpose
       expected_request)"

definition paybond_import_agent_mandate_v1 ::
  "'s mcp_env \<Rightarrow> (string, json) dict \<Rightarrow> string \<Rightarrow> (string, json) dict \<Rightarrow> (string, json) dict option \<Rightarrow> 's tool" where
  "paybond_import_agent_mandate_v1 env signed_mandate intent_id recognition transport_binding =
     as_object (mcp_import_agent_mandate_v1 (me_gateway env) (me_send env) signed_mandate intent_id recognition
       transport_binding)"

definition paybond_get_settlement_receipt_v1 :: "'s mcp_env \<Rightarrow> string \<Rightarrow> 's tool" where
  "paybond_get_settlement_receipt_v1 env receipt_id =
     as_object (mcp_get_settlement_receipt_v1 (me_gateway env) (me_send env) receipt_id)"

definition paybond_get_agent_receipt_v1 :: "'s mcp_env \<Rightarrow> string \<Rightarrow> 's tool" where
  "paybond_get_agent_receipt_v1 env receipt_id =
     mthen (mlift (agent_receipt_resource_uri receipt_id)) (\<lambda>_.
     as_object (mcp_get_agent_receipt_v1 (me_gateway env) (me_send env) receipt_id))"

definition paybond_verify_agent_receipt_v1 :: "'s mcp_env \<Rightarrow> (string, json) dict \<Rightarrow> string option \<Rightarrow> 's tool" where
  "paybond_verify_agent_receipt_v1 env receipt validity_tier =
     (let tier = first_text [lower (strip (str_or validity_tier ''operational'')), ''operational'']
      in mthen (mlift (map_sum (verification_failed ''agent receipt verification failed'') id
                 (me_verify_receipt env (plain_options (Some tier)) receipt))) (\<lambda>verified.
         mlift (rbind (body_item verified ''receipt_id'') (\<lambda>i.
                rbind (body_item verified ''tenant_id'') (\<lambda>t.
                Inr (JObj [(''valid'', JBool True), (''kind'', JStr ''paybond.agent_receipt_v1''),
                           (''receipt_id'', i), (''tenant_id'', t), (''validity_tier'', JStr tier),
                           (''receipt'', JObj verified)]))))))"

definition paybond_verify_protocol_receipt_v1 :: "'s mcp_env \<Rightarrow> (string, json) dict \<Rightarrow> 's tool" where
  "paybond_verify_protocol_receipt_v1 env receipt =
     as_object (mcp_verify_protocol_receipt_v1 (me_gateway env) (me_send env) receipt)"

definition paybond_create_intent ::
  "'s mcp_env \<Rightarrow> (string, json) dict \<Rightarrow> (string, json) dict \<Rightarrow> string option \<Rightarrow> 's tool" where
  "paybond_create_intent env body recognition idempotency_key =
     as_object (mcp_create_intent (me_gateway env) (me_send env) body recognition idempotency_key)"

definition paybond_create_spend_intent ::
  "'s mcp_env \<Rightarrow> (string, json) dict \<Rightarrow> (string, json) dict \<Rightarrow> string option \<Rightarrow> 's tool" where
  "paybond_create_spend_intent env body recognition idempotency_key =
     as_object (mcp_create_intent (me_gateway env) (me_send env) body recognition idempotency_key)"

definition paybond_fund_intent ::
  "'s mcp_env \<Rightarrow> string \<Rightarrow> (string, json) dict \<Rightarrow> string option \<Rightarrow> string option \<Rightarrow> 's tool" where
  "paybond_fund_intent env intent_id recognition payment_signature idempotency_key =
     mthen (mlift (py_uuid intent_id)) (\<lambda>intent.
     as_object (mcp_fund_intent (me_gateway env) (me_send env) intent recognition payment_signature idempotency_key))"

definition paybond_submit_evidence ::
  "'s mcp_env \<Rightarrow> string \<Rightarrow> (string, json) dict \<Rightarrow> (string, json) dict \<Rightarrow> string option \<Rightarrow> string option \<Rightarrow> 's tool" where
  "paybond_submit_evidence env intent_id body recognition preset idempotency_key =
     mthen (mlift (py_uuid intent_id)) (\<lambda>intent.
     as_object (mcp_submit_evidence (me_blake3 env) (me_gateway env) (me_send env) intent body recognition preset
       idempotency_key))"

definition paybond_submit_spend_evidence ::
  "'s mcp_env \<Rightarrow> string \<Rightarrow> (string, json) dict \<Rightarrow> (string, json) dict \<Rightarrow> string option \<Rightarrow> string option \<Rightarrow> 's tool" where
  "paybond_submit_spend_evidence env intent_id body recognition preset idempotency_key =
     mthen (mlift (py_uuid intent_id)) (\<lambda>intent.
     as_object (mcp_submit_evidence (me_blake3 env) (me_gateway env) (me_send env) intent body recognition preset
       idempotency_key))"

definition paybond_confirm_settlement ::
  "'s mcp_env \<Rightarrow> string \<Rightarrow> (string, json) dict \<Rightarrow> (string, json) dict \<Rightarrow> string option \<Rightarrow> 's tool" where
  "paybond_confirm_settlement env intent_id body recognition idempotency_key =
     mthen (mlift (py_uuid intent_id)) (\<lambda>intent.
     as_object (mcp_confirm_settlement (me_gateway env) (me_send env) intent body recognition idempotency_key))"

section \<open>A call of a tool\<close>

text \<open>\<open>scope_context\<close> asks for the principal when the context is not resolved yet.\<close>

definition tool_scopes :: "'s mcp_env \<Rightarrow> (scope_context, 's mcp_world) call" where
  "tool_scopes env w = (case ms_scope_context (mw_runtime w) of
       Some c \<Rightarrow> (Inr c, w)
     | None \<Rightarrow>
         (let (who, w1) = principal (me_gateway env) (me_send env) w;
              (rt, out) = scope_context (mw_runtime w1) who
          in (out, w1\<lparr>mw_runtime := rt\<rparr>)))"

text \<open>\<open>wrapped\<close>: the denial, and the tool between the two ends of its in-flight count.\<close>

definition prepared :: "'s mcp_env \<Rightarrow> string \<Rightarrow> (exn + json) \<times> 's mcp_world \<Rightarrow> (exn + json) \<times> 's mcp_world" where
  "prepared env n a = (case a of
       (Inr (JObj body), w) \<Rightarrow>
         (let (rt, j) = prepare_tool_response (mw_runtime w) n body (fst (me_clock env)) (snd (me_clock env))
          in (Inr j, w\<lparr>mw_runtime := rt\<rparr>))
     | _ \<Rightarrow> a)"

definition call_tool :: "'s mcp_env \<Rightarrow> string \<Rightarrow> 's tool \<Rightarrow> 's tool" where
  "call_tool env n tool =
     mthen (tool_scopes env) (\<lambda>c w.
       (case scope_denial n c of
          Some message \<Rightarrow> (Inl (RuntimeError message), w)
        | None \<Rightarrow>
            (let (out, w') = prepared env n (tool (w\<lparr>mw_runtime := begin_policy_tool_call (mw_runtime w)\<rparr>))
             in (out, w'\<lparr>mw_runtime := end_policy_tool_call (mw_runtime w')\<rparr>))))"

end
