(* ===== verification/Signal_Standard.thy ===== *)
theory Signal_Standard
  imports Signal_Client
begin

text \<open>
  What the answers of the signal and fraud clients are bound to, and which review events they
  record.
\<close>

section \<open>Answers about one operator\<close>

definition operator_path :: "string \<Rightarrow> string" where
  "operator_path did = ''signal/v1/operators/'' @ url_quote did @ ''/''"

lemma operator_path_kept: "strip_slashes (operator_path did @ p) = operator_path did @ p"
  by (simp add: operator_path_def strip_slashes_def)

lemma quoted_segment_unique:
  assumes "url_quote a @ ''/'' @ p = url_quote b @ ''/'' @ q"
  shows "a = b"
proof -
  have no: "CHR ''/'' \<notin> set (url_quote x)" for x using url_quote_segment[of x] by auto
  have "takeWhile (\<lambda>c. c \<noteq> CHR ''/'') (url_quote x @ ''/'' @ t) = url_quote x" for x t
    using no[of x] by (subst takeWhile_append2) auto
  with assms have "url_quote a = url_quote b" by metis
  then show ?thesis by (rule url_quote_inj)
qed

lemma operator_path_unique:
  assumes "prefix (base @ operator_path d') (base @ operator_path d @ p)"
  shows "d' = d"
proof -
  from assms obtain t where "operator_path d @ p = operator_path d' @ t"
    by (auto simp: prefix_def)
  then have "url_quote d @ ''/'' @ p = url_quote d' @ ''/'' @ t" by (simp add: operator_path_def)
  then show ?thesis using quoted_segment_unique by metis
qed

text \<open>A request for one operator, whose URL names that operator and no other.\<close>

definition about_operator :: "gateway_client \<Rightarrow> string \<Rightarrow> http_request \<Rightarrow> bool" where
  "about_operator c did q \<longleftrightarrow>
     map_of (rq_headers q) ''authorization'' = Some (''Bearer '' @ gc_bearer c) \<and>
     (\<forall>d. prefix (gc_base c @ operator_path d) (rq_url q) \<longleftrightarrow> d = did)"

lemma about_operatorI:
  "rq_url q = gc_base c @ operator_path did @ p \<Longrightarrow>
   map_of (rq_headers q) ''authorization'' = Some (''Bearer '' @ gc_bearer c) \<Longrightarrow> about_operator c did q"
  using operator_path_unique[of "gc_base c" _ did p] by (auto simp: about_operator_def)

definition answered_for :: "gateway_client \<Rightarrow> string \<Rightarrow> (string, json) dict \<Rightarrow> bool" where
  "answered_for c did b \<longleftrightarrow> str_get b ''tenant_id'' = gc_tenant c \<and> str_get b ''operator_did'' = did"

lemma bearer_getE:
  assumes "bearer_get c send (operator_path did @ p) s = (out, s')"
  obtains q r where "send q s = (r, s')" "out = map_sum KitError id r" "about_operator c did q"
    "rq_method q = ''GET''"
proof -
  let ?q = "\<lparr>rq_method = ''GET'', rq_url = gc_base c @ operator_path did @ p, rq_headers = bearer_headers c,
             rq_body = JNull\<rparr>"
  obtain r where r: "send ?q s = (r, s')" "out = map_sum KitError id r"
    using assms by (auto simp: bearer_get_def operator_path_kept split: prod.splits)
  have "about_operator c did ?q"
    by (rule about_operatorI) (simp_all add: bearer_headers_def)
  then show thesis using that[OF r] by simp
qed

lemma map_sum_Inr: "map_sum f id x = Inr y \<longleftrightarrow> x = Inr y"
  by (cases x) auto

lemma bound_answer:
  assumes run: "(case bearer_get c send (operator_path did @ p) s of (out, s1) \<Rightarrow>
      (rbind out (unless_missing (\<lambda>r. rbind (client_object w n r) (\<lambda>b.
         rbind (check_tenant fam c u b) (\<lambda>_. rbind (check_operator l did b) (\<lambda>_. Inr b))))), s1)) = (Inr (Some b), s')"
  shows "answered_for c did b \<and> (\<exists>q r. send q s = (Inr r, s') \<and> hr_json r = Some (JObj b) \<and> hr_status r < 400 \<and>
           rq_method q = ''GET'' \<and> about_operator c did q)"
proof -
  obtain out where get: "bearer_get c send (operator_path did @ p) s = (out, s')"
    using run by (auto split: prod.splits)
  from run obtain r where out: "out = Inr r"
    and r: "hr_status r < 400" "hr_json r = Some (JObj b)" "answered_for c did b"
    unfolding get prod.case prod.inject rbind_Inr_iff unless_missing_Inr check_tenant_Inr check_operator_Inr
      client_object_Inr answered_for_def by blast
  from get obtain q where "send q s = (Inr r, s')" "about_operator c did q" "rq_method q = ''GET''"
    by (rule bearer_getE) (metis out map_sum_Inr)
  then show ?thesis using r by blast
qed

text \<open>An answer about an operator that a client hands out is the JSON object the gateway sent
  with a success status to one authenticated GET, it names the client's tenant and the operator
  that was asked for, and the text of the URL that was asked has that operator's id, quoted, as its
  segment: the operator can be read off the URL, and two operators never share one.
\<close>

theorem operator_answers_bound:
  assumes "f \<in> {get_operator_explanation, get_operator_review_status, get_fraud_assessment}"
    and "f c send did version s = (Inr (Some b), s')"
  shows "answered_for c did b \<and> (\<exists>q r. send q s = (Inr r, s') \<and> hr_json r = Some (JObj b) \<and> hr_status r < 400 \<and>
           rq_method q = ''GET'' \<and> about_operator c did q)"
proof -
  have path: "''signal/v1/operators/'' @ url_quote did @ ''/'' @ l @ t = operator_path did @ (l @ t)" for l t
    by (simp add: operator_path_def)
  have path': "''signal/v1/operators/'' @ url_quote did @ ''/review-status'' @ t =
      operator_path did @ (''review-status'' @ t)" for t
    by (simp add: operator_path_def)
  have read: ?thesis if run: "operator_read w n l c send did version s = (Inr (Some b), s')" for w n l
    using run[unfolded operator_read_def Let_def path] by (rule bound_answer)
  have fraud: ?thesis if run: "get_fraud_assessment c send did version s = (Inr (Some b), s')"
    using run[unfolded get_fraud_assessment_def Let_def path'] by (rule bound_answer)
  show ?thesis
    using assms read fraud by (auto simp only: insert_iff empty_iff get_operator_explanation_def
        get_operator_review_status_def)
qed

definition sample_gateway :: gateway_client where
  "sample_gateway = \<lparr>gc_base = ''https://g/'', gc_tenant = ''t'', gc_bearer = ''k''\<rparr>"

definition sample_answer :: "(string, json) dict" where
  "sample_answer = [(''tenant_id'', JStr ''t''), (''operator_did'', JStr ''did:a/b''), (''accepted'', JBool True)]"

definition answering :: "fund_response \<Rightarrow> http_request list transport" where
  "answering r q s = (Inr r, s @ [q])"

definition json_reply :: "int \<Rightarrow> (string, json) dict \<Rightarrow> fund_response" where
  "json_reply n b = \<lparr>hr_status = n, hr_text = [], hr_json = Some (JObj b), hr_retry_after = None, hr_headers = []\<rparr>"

theorem operator_answers_bound_witness:
  "answered_for sample_gateway ''did:a/b'' sample_answer \<and>
   rq_url (hd (snd (get_operator_explanation sample_gateway (answering (json_reply 200 sample_answer)) ''did:a/b'' None []))) =
     ''https://g/signal/v1/operators/did%3Aa%2Fb/explanation''"
proof -
  have run: "get_operator_explanation sample_gateway (answering (json_reply 200 sample_answer)) ''did:a/b'' None [] =
    (Inr (Some sample_answer), [\<lparr>rq_method = ''GET'',
       rq_url = ''https://g/signal/v1/operators/did%3Aa%2Fb/explanation'',
       rq_headers = bearer_headers sample_gateway, rq_body = JNull\<rparr>])"
    by code_simp
  show ?thesis using operator_answers_bound[where f = get_operator_explanation, OF _ run] by (simp add: run)
qed

section \<open>Review events\<close>

lemma outcome_types:
  assumes "review_event_of e = Inr (ty, outcome)"
  shows "ty \<in> {''review_open_requested'', ''appeal_requested'', ''replay_requested'', ''review_outcome_recorded''}"
    "set_option outcome \<subseteq> set FRAUD_REVIEW_OUTCOMES" "ty = ''review_outcome_recorded'' \<Longrightarrow> outcome \<noteq> None"
  using assms
  by (auto simp: review_event_of_def Let_def rbind_Inr_iff res_iff normalize_review_event_type_def
      normalize_review_outcome_def FRAUD_REVIEW_EVENT_TYPES_def FRAUD_REVIEW_OUTCOMES_def
      split: if_splits option.splits json.splits)

definition review_payload_ok :: "json \<Rightarrow> bool" where
  "review_payload_ok p \<longleftrightarrow> (\<exists>d ty. p = JObj d \<and> map_of d ''event_type'' = Some (JStr ty) \<and>
     ty \<in> {''review_open_requested'', ''appeal_requested'', ''replay_requested'', ''review_outcome_recorded''} \<and>
     (ty = ''review_outcome_recorded'' \<longrightarrow> map_of d ''review_outcome'' \<noteq> None) \<and>
     (\<forall>v. map_of d ''review_outcome'' = Some v \<longrightarrow> v \<in> JStr ` set FRAUD_REVIEW_OUTCOMES))"

lemma opt_str_lookup: "map_of (opt_str k v) k' = (if k' = k then map_option JStr v else None)"
  by (auto simp: opt_str_def opt_json_def split: option.splits)

lemma review_body_ok:
  assumes "review_event_of e = Inr ev"
  shows "review_payload_ok (JObj (review_event_body e ev))"
proof -
  obtain ty outcome where ev: "ev = (ty, outcome)" by (cases ev)
  let ?b = "review_event_body e ev"
  have ty: "map_of ?b ''event_type'' = Some (JStr ty)"
    and outcome: "map_of ?b ''review_outcome'' = map_option JStr outcome"
    by (simp_all add: review_event_body_def ev opt_str_lookup map_add_def split: option.splits)
  show ?thesis
    unfolding review_payload_ok_def json.inject
    using outcome_types[OF assms[unfolded ev]] ty outcome by (cases outcome) auto
qed

lemma bearer_sendE:
  assumes "bearer_send verb c send (operator_path did @ p) payload s = (out, s')"
  obtains q r where "send q s = (r, s')" "out = map_sum KitError id r" "about_operator c did q"
    "rq_method q = verb" "rq_body q = JObj payload"
proof -
  let ?q = "\<lparr>rq_method = verb, rq_url = gc_base c @ operator_path did @ p,
             rq_headers = bearer_headers c @ [(''content-type'', ''application/json'')], rq_body = JObj payload\<rparr>"
  obtain r where r: "send ?q s = (r, s')" "out = map_sum KitError id r"
    using assms by (auto simp: bearer_send_def operator_path_kept split: prod.splits)
  have "about_operator c did ?q"
    by (rule about_operatorI) (simp_all add: bearer_headers_def)
  then show thesis using that[OF r] by simp
qed

text \<open>Recording a review event sends nothing when the event is refused; otherwise one
  authenticated POST to the operator's own path, whose event type is one of the four the gateway
  records, never a bare outcome, with one of the three outcomes wherever an outcome is given and
  always when the type says that an outcome is recorded; and an answer handed out names the
  client's tenant and the operator.
\<close>

theorem review_events_wellformed:
  assumes "record_fraud_review_event c send did e version s = (out, s')"
  shows "(s' = s \<and> (\<exists>x. out = Inl x \<and> review_event_of e = Inl x)) \<or>
    (\<exists>q r. send q s = (r, s') \<and> rq_method q = ''POST'' \<and> about_operator c did q \<and> review_payload_ok (rq_body q) \<and>
       (\<forall>b. out = Inr b \<longrightarrow> answered_for c did b))"
proof (cases "review_event_of e")
  case (Inl x)
  with assms show ?thesis by (simp add: record_fraud_review_event_def)
next
  case (Inr ev)
  let ?t = "''review-events'' @ fraud_query [(''score_version'', opt_query version)]"
  have path: "''signal/v1/operators/'' @ url_quote did @ ''/review-events'' @
      fraud_query [(''score_version'', opt_query version)] = operator_path did @ ?t"
    by (simp add: operator_path_def)
  obtain out1 where sent: "bearer_send ''POST'' c send (operator_path did @ ?t) (review_event_body e ev) s = (out1, s')"
    and out: "\<forall>b. out = Inr b \<longrightarrow> answered_for c did b"
  proof (cases "bearer_send ''POST'' c send (operator_path did @ ?t) (review_event_body e ev) s")
    case (Pair out1 s1)
    have run: "s1 = s'" "\<And>b. out = Inr b \<Longrightarrow> answered_for c did b"
      using assms unfolding record_fraud_review_event_def Inr sum.case Let_def path Pair prod.case prod.inject
        answered_for_def by (auto simp only: rbind_Inr_iff check_tenant_Inr check_operator_Inr)
    then show ?thesis using that[of out1] Pair by simp
  qed
  show ?thesis
    using bearer_sendE[OF sent] review_body_ok[OF Inr] out by metis
qed

definition sample_review :: "(string, json) dict" where
  "sample_review = [(''eventType'', JStr '' false_positive''), (''review_outcome'', JStr ''confirmed_risk''),
                    (''summary'', JStr ''s''), (''intentId'', JNull)]"

theorem review_events_wellformed_witness:
  "\<exists>q. snd (record_fraud_review_event sample_gateway (answering (json_reply 429 sample_answer)) ''did:a/b'' sample_review None []) = [q] \<and>
     rq_body q = JObj [(''event_type'', JStr ''review_outcome_recorded''), (''summary'', JStr ''s''),
                       (''review_outcome'', JStr ''false_positive'')] \<and>
     review_payload_ok (rq_body q) \<and> answered_for sample_gateway ''did:a/b'' sample_answer"
proof -
  have run: "record_fraud_review_event sample_gateway (answering (json_reply 429 sample_answer)) ''did:a/b'' sample_review None [] =
    (Inr sample_answer, [\<lparr>rq_method = ''POST'',
       rq_url = ''https://g/signal/v1/operators/did%3Aa%2Fb/review-events'',
       rq_headers = bearer_headers sample_gateway @ [(''content-type'', ''application/json'')],
       rq_body = JObj [(''event_type'', JStr ''review_outcome_recorded''), (''summary'', JStr ''s''),
                       (''review_outcome'', JStr ''false_positive'')]\<rparr>])"
    by code_simp
  show ?thesis
    using review_events_wellformed[OF run] unfolding run by (auto simp: answering_def)
qed

section \<open>The score version of the signal reads\<close>

text \<open>\<open>signal.py\<close> puts it into the query as it is, where \<open>fraud.py\<close> encodes it.\<close>

lemma score_version_not_quoted:
  "score_query (Some ''v1&tenant=x'') = ''?score_version=v1&tenant=x''"
  "fraud_query [(''score_version'', opt_query (Some ''v1&tenant=x''))] = ''?score_version=v1%26tenant%3Dx''"
  by code_simp+

end
