(* ===== verification/Mcp_Calls.thy ===== *)
theory Mcp_Calls
  imports Mcp_Tools Signal_Standard
begin

text \<open>
  What a session of the MCP server sends: the table of its tools, the worlds that calls lead to,
  where every request goes and whom it names, and what a denied credential can still read.
\<close>

section \<open>The registered tools\<close>

inductive mcp_tool :: "'s mcp_env \<Rightarrow> string \<Rightarrow> 's tool \<Rightarrow> bool" for env where
  "mcp_tool env ''paybond_get_principal'' (paybond_get_principal env)"
| "mcp_tool env ''paybond_verify_capability'' (paybond_verify_capability env i op cents t)"
| "mcp_tool env ''paybond_authorize_agent_spend'' (paybond_authorize_agent_spend env i op cents t)"
| "mcp_tool env ''paybond_get_budget_remaining'' (paybond_get_budget_remaining env i p)"
| "mcp_tool env ''paybond_explain_policy'' (paybond_explain_policy env i p)"
| "mcp_tool env ''paybond_bootstrap_sandbox_guardrail'' (paybond_bootstrap_sandbox_guardrail env op cents' cur sch md k)"
| "mcp_tool env ''paybond_validate_completion_evidence'' (paybond_validate_completion_evidence env vi)"
| "mcp_tool env ''paybond_submit_sandbox_guardrail_evidence''
     (paybond_submit_sandbox_guardrail_evidence env i pl ar op' cents md preset k)"
| "mcp_tool env ''paybond_list_intents'' (paybond_list_intents env st did n cur)"
| "mcp_tool env ''paybond_get_intent'' (paybond_get_intent env i)"
| "mcp_tool env ''paybond_list_audit_exports'' (paybond_list_audit_exports env n cur)"
| "mcp_tool env ''paybond_get_audit_export'' (paybond_get_audit_export env i b)"
| "mcp_tool env ''paybond_get_reputation_receipt'' (paybond_get_reputation_receipt env i v)"
| "mcp_tool env ''paybond_get_portfolio_summary'' (paybond_get_portfolio_summary env v)"
| "mcp_tool env ''paybond_get_signed_portfolio_artifact'' (paybond_get_signed_portfolio_artifact env v)"
| "mcp_tool env ''paybond_get_fraud_assessment'' (paybond_get_fraud_assessment env i v)"
| "mcp_tool env ''paybond_get_fraud_metrics'' (paybond_get_fraud_metrics env win v)"
| "mcp_tool env ''paybond_get_a2a_agent_card'' (paybond_get_a2a_agent_card env)"
| "mcp_tool env ''paybond_list_a2a_task_contracts'' (paybond_list_a2a_task_contracts env)"
| "mcp_tool env ''paybond_get_a2a_task_contract'' (paybond_get_a2a_task_contract env i)"
| "mcp_tool env ''paybond_verify_agent_mandate_v1'' (paybond_verify_agent_mandate_v1 env d)"
| "mcp_tool env ''paybond_verify_agent_recognition_proof_v1'' (paybond_verify_agent_recognition_proof_v1 env d i d')"
| "mcp_tool env ''paybond_import_agent_mandate_v1'' (paybond_import_agent_mandate_v1 env d i d' md)"
| "mcp_tool env ''paybond_get_settlement_receipt_v1'' (paybond_get_settlement_receipt_v1 env i)"
| "mcp_tool env ''paybond_get_agent_receipt_v1'' (paybond_get_agent_receipt_v1 env i)"
| "mcp_tool env ''paybond_verify_agent_receipt_v1'' (paybond_verify_agent_receipt_v1 env d v)"
| "mcp_tool env ''paybond_verify_protocol_receipt_v1'' (paybond_verify_protocol_receipt_v1 env d)"
| "mcp_tool env ''paybond_create_intent'' (paybond_create_intent env d d' k)"
| "mcp_tool env ''paybond_create_spend_intent'' (paybond_create_spend_intent env d d' k)"
| "mcp_tool env ''paybond_fund_intent'' (paybond_fund_intent env i d t k)"
| "mcp_tool env ''paybond_submit_evidence'' (paybond_submit_evidence env i d d' preset k)"
| "mcp_tool env ''paybond_submit_spend_evidence'' (paybond_submit_spend_evidence env i d d' preset k)"
| "mcp_tool env ''paybond_confirm_settlement'' (paybond_confirm_settlement env i d d' k)"

section \<open>Where requests go and whom they name\<close>

text \<open>A transport that keeps the requests it was sent, whatever it answers them.\<close>

definition kept :: "(http_request list \<Rightarrow> http_request \<Rightarrow> exn + fund_response) \<Rightarrow> http_request list transport" where
  "kept answer q sent = (answer sent q, sent @ [q])"

definition origin :: "mcp_gateway \<Rightarrow> string" where
  "origin c = (let (scheme, rest) = split_scheme (mg_base c)
               in scheme @ ''://'' @ takeWhile (\<lambda>ch. ch \<noteq> CHR ''/'') (drop 2 rest))"

definition relative_path :: "string \<Rightarrow> bool" where
  "relative_path path \<longleftrightarrow> path \<noteq> [] \<and> fst (split_scheme path) = []"

lemma url_join_origin: "relative_path path \<Longrightarrow> prefix (origin c) (url_join (mg_base c) path)"
  by (cases "split_scheme (mg_base c)") (auto simp: relative_path_def url_join_def origin_def Let_def)

text \<open>A request to the gateway, under its key, that names no tenant but the principal's.\<close>

definition names_tenant :: "(string, json) dict option \<Rightarrow> http_request \<Rightarrow> bool" where
  "names_tenant p q \<longleftrightarrow> (\<forall>t. map_of (rq_headers q) ''x-tenant-id'' = Some t \<longrightarrow> (\<exists>d. p = Some d \<and> tenant_of d = Inr t))"

definition own_request :: "mcp_gateway \<Rightarrow> (string, json) dict option \<Rightarrow> http_request \<Rightarrow> bool" where
  "own_request c p q \<longleftrightarrow>
     (prefix (origin c) (rq_url q) \<or> prefix (mg_base c) (rq_url q)) \<and>
     map_of (rq_headers q) ''authorization'' = Some (''Bearer '' @ mg_api_key c) \<and> names_tenant p q"

definition session_ok :: "mcp_gateway \<Rightarrow> http_request list mcp_world \<Rightarrow> bool" where
  "session_ok c w \<longleftrightarrow> (\<forall>q \<in> set (mw_net w). own_request c (mw_principal w) q)"

text \<open>A call that keeps this, and keeps a principal once it is known.\<close>

definition keeps :: "mcp_gateway \<Rightarrow> ('a, http_request list mcp_world) call \<Rightarrow> bool" where
  "keeps c m \<longleftrightarrow> (\<forall>w out w'. m w = (out, w') \<longrightarrow> session_ok c w \<longrightarrow>
     session_ok c w' \<and> (mw_principal w \<noteq> None \<longrightarrow> mw_principal w' = mw_principal w))"

named_theorems keep "calls that keep the session in order"

lemma keeps_mret [keep]: "keeps c (mret x)"
  by (auto simp: keeps_def mret_def)

lemma keeps_mlift [keep]: "keeps c (mlift x)"
  by (auto simp: keeps_def mlift_def)

lemma keeps_mthen [keep]:
  assumes "keeps c m" "\<And>x. keeps c (f x)"
  shows "keeps c (mthen m f)"
  unfolding keeps_def
proof (intro allI impI)
  fix w out w'
  assume run: "mthen m f w = (out, w')" and ok: "session_ok c w"
  obtain r w1 where m: "m w = (r, w1)" by fastforce
  then have one: "session_ok c w1" "mw_principal w \<noteq> None \<longrightarrow> mw_principal w1 = mw_principal w"
    using assms(1) ok by (auto simp: keeps_def)
  show "session_ok c w' \<and> (mw_principal w \<noteq> None \<longrightarrow> mw_principal w' = mw_principal w)"
  proof (cases r)
    case (Inl e)
    then show ?thesis using run m one by (auto simp: mthen_def)
  next
    case (Inr x)
    then have "f x w1 = (out, w')" using run m by (simp add: mthen_def)
    then have two: "session_ok c w'" "mw_principal w1 \<noteq> None \<longrightarrow> mw_principal w' = mw_principal w1"
      using assms(2)[of x] one(1) unfolding keeps_def by blast+
    then show ?thesis using one by auto
  qed
qed

lemma keeps_as_object [keep]: "keeps c m \<Longrightarrow> keeps c (as_object m)"
  unfolding as_object_def by (intro keep)

section \<open>Requests\<close>

lemma request_headers:
  assumes "wf_dict hs" "map_of hs ''authorization'' = None"
  shows "map_of (rq_headers (mcp_request c verb path payload hs)) ''authorization'' = Some (''Bearer '' @ mg_api_key c)"
    and "map_of (rq_headers (mcp_request c verb path payload hs)) ''x-tenant-id'' = map_of hs ''x-tenant-id''"
proof -
  have last: "map_of (dict_merge m (if p then [] else [(''content-type'', x)])) k = map_of m k"
    if "k \<noteq> ''content-type''" for m :: http_headers and p x k
    using that by (auto simp: dict_merge_def update_conv')
  show "map_of (rq_headers (mcp_request c verb path payload hs)) ''authorization'' = Some (''Bearer '' @ mg_api_key c)"
    "map_of (rq_headers (mcp_request c verb path payload hs)) ''x-tenant-id'' = map_of hs ''x-tenant-id''"
    using assms by (simp_all add: mcp_request_def last dict_merge_lookup split: option.splits)
qed

lemma strip_slashes_simps [simp]: "strip_slashes (CHR ''/'' # s) = strip_slashes s"
  "c \<noteq> CHR ''/'' \<Longrightarrow> strip_slashes (c # s) = c # s"
  by (simp_all add: strip_slashes_def)

definition own_path :: "string \<Rightarrow> bool" where
  "own_path path \<longleftrightarrow> relative_path (strip_slashes path)"

lemma no_scheme:
  assumes "CHR ''/'' \<in> set s" "CHR '':'' \<notin> set s"
  shows "fst (split_scheme (s @ t)) = []"
proof (cases "CHR '':'' \<in> set (s @ t)")
  case True
  have "\<forall>x \<in> set s. x \<noteq> CHR '':''" using assms(2) by auto
  then have "before_char CHR '':'' (s @ t) = s @ before_char CHR '':'' t"
    by (simp add: before_char_def)
  moreover have "\<not> is_scheme_char CHR ''/''"
    by (simp add: is_scheme_char_def is_lower_def is_upper_def is_digit_def)
  ultimately have "\<not> list_all is_scheme_char (before_char CHR '':'' (s @ t))"
    using assms(1) by (auto simp: list_all_iff)
  then show ?thesis by (simp add: split_scheme_def Let_def)
qed (simp add: split_scheme_def)

lemma own_path_literal:
  assumes "strip_slashes path = s @ t" "CHR ''/'' \<in> set s" "CHR '':'' \<notin> set s"
  shows "own_path path"
  using assms no_scheme[OF assms(2,3)] by (auto simp: own_path_def relative_path_def)

text \<open>One request to a path of the gateway, with headers that name no tenant or the principal's.\<close>

lemma keeps_request:
  assumes path: "own_path path" and hs: "wf_dict hs" "map_of hs ''authorization'' = None"
    and run: "request_json c (kept answer) verb path payload hs w = (out, w')" and ok: "session_ok c w"
    and tenant: "\<And>t. map_of hs ''x-tenant-id'' = Some t \<Longrightarrow> \<exists>d. mw_principal w = Some d \<and> tenant_of d = Inr t"
  shows "session_ok c w' \<and> mw_principal w' = mw_principal w"
proof -
  let ?q = "mcp_request c verb path payload hs"
  have w': "w' = w\<lparr>mw_net := mw_net w @ [?q]\<rparr>"
    using run by (simp add: request_json_def kept_def)
  have "prefix (origin c) (rq_url ?q)"
    using url_join_origin path by (simp add: mcp_request_def own_path_def)
  then have "own_request c (mw_principal w) ?q"
    using request_headers[OF hs] tenant by (simp add: own_request_def names_tenant_def)
  then show ?thesis using ok w' by (auto simp: session_ok_def)
qed

lemma keeps_plain [keep]:
  assumes "own_path path" "wf_dict hs" "map_of hs ''authorization'' = None" "map_of hs ''x-tenant-id'' = None"
  shows "keeps c (request_json c (kept answer) verb path payload hs)"
  using keeps_request[OF assms(1-3)] assms(4) unfolding keeps_def by fastforce

text \<open>The principal is asked for once, on a path of the gateway's own.\<close>

lemma own_requestI:
  assumes "own_path path" "wf_dict hs" "map_of hs ''authorization'' = None" "map_of hs ''x-tenant-id'' = None"
  shows "own_request c p (mcp_request c verb path payload hs)"
  using assms url_join_origin request_headers[OF assms(2,3)]
  by (simp add: own_request_def names_tenant_def mcp_request_def own_path_def)

lemma own_request_any: "own_request c None q \<Longrightarrow> own_request c p q"
  by (auto simp: own_request_def names_tenant_def)

lemma keeps_principal [keep]:
  assumes "own_path (mg_principal_path c)"
  shows "keeps c (principal c (kept answer))"
  unfolding keeps_def
proof (intro allI impI)
  fix w out w'
  assume run: "principal c (kept answer) w = (out, w')" and ok: "session_ok c w"
  show "session_ok c w' \<and> (mw_principal w \<noteq> None \<longrightarrow> mw_principal w' = mw_principal w)"
  proof (cases "mw_principal w")
    case (Some d)
    then show ?thesis using run ok by (simp add: principal_def)
  next
    case None
    let ?q = "mcp_request c ''GET'' (mg_principal_path c) None []"
    have "own_request c p ?q" for p
      using assms by (intro own_requestI) (simp_all add: wf_dict_def)
    moreover have "mw_net w' = mw_net w @ [?q]"
      using run None by (auto simp: principal_def request_json_def kept_def split: sum.splits)
    ultimately show ?thesis
      using ok None own_request_any by (auto simp: session_ok_def)
  qed
qed

lemma keeps_tenant_id [keep]:
  "own_path (mg_principal_path c) \<Longrightarrow> keeps c (mcp_tenant_id c (kept answer))"
  unfolding mcp_tenant_id_def by (intro keep)

lemma tenant_id_known:
  assumes "mcp_tenant_id c (kept answer) w = (Inr t, w')"
  shows "\<exists>d. mw_principal w' = Some d \<and> tenant_of d = Inr t"
  using assms
  by (auto simp: mcp_tenant_id_def mthen_def mlift_def principal_def split: option.splits sum.splits prod.splits)

text \<open>What follows the tenant may name it.\<close>

definition keeps_for :: "mcp_gateway \<Rightarrow> string \<Rightarrow> ('a, http_request list mcp_world) call \<Rightarrow> bool" where
  "keeps_for c t m \<longleftrightarrow> (\<forall>w out w'. m w = (out, w') \<longrightarrow> session_ok c w \<longrightarrow>
     (\<exists>d. mw_principal w = Some d \<and> tenant_of d = Inr t) \<longrightarrow> session_ok c w' \<and> mw_principal w' = mw_principal w)"

lemma keeps_for_keeps: "keeps c m \<Longrightarrow> keeps_for c t m"
  unfolding keeps_def keeps_for_def by (metis option.distinct(1))

lemma keeps_for_request [keep]:
  assumes "own_path path" "wf_dict hs" "map_of hs ''authorization'' = None"
    "\<And>t'. map_of hs ''x-tenant-id'' = Some t' \<Longrightarrow> t' = t"
  shows "keeps_for c t (request_json c (kept answer) verb path payload hs)"
  unfolding keeps_for_def
proof (intro allI impI)
  fix w out w'
  assume "request_json c (kept answer) verb path payload hs w = (out, w')" "session_ok c w"
    "\<exists>d. mw_principal w = Some d \<and> tenant_of d = Inr t"
  then show "session_ok c w' \<and> mw_principal w' = mw_principal w"
    using keeps_request[OF assms(1-3)] assms(4) by blast
qed

lemma keeps_for_mthen [keep]:
  assumes "keeps_for c t m" "\<And>x. keeps_for c t (f x)"
  shows "keeps_for c t (mthen m f)"
  unfolding keeps_for_def
proof (intro allI impI)
  fix w out w'
  assume run: "mthen m f w = (out, w')" and ok: "session_ok c w" and d: "\<exists>d. mw_principal w = Some d \<and> tenant_of d = Inr t"
  obtain r w1 where m: "m w = (r, w1)" by fastforce
  then have one: "session_ok c w1" "mw_principal w1 = mw_principal w"
    using assms(1) ok d unfolding keeps_for_def by blast+
  show "session_ok c w' \<and> mw_principal w' = mw_principal w"
  proof (cases r)
    case (Inl e)
    then show ?thesis using run m one by (auto simp: mthen_def)
  next
    case (Inr x)
    then have "f x w1 = (out, w')" using run m by (simp add: mthen_def)
    then show ?thesis
      using assms(2)[of x] one d unfolding keeps_for_def by metis
  qed
qed

lemma keeps_after_tenant [keep]:
  assumes path: "own_path (mg_principal_path c)" and f: "\<And>t. keeps_for c t (f t)"
  shows "keeps c (mthen (mcp_tenant_id c (kept answer)) f)"
  unfolding keeps_def
proof (intro allI impI)
  fix w out w'
  assume run: "mthen (mcp_tenant_id c (kept answer)) f w = (out, w')" and ok: "session_ok c w"
  obtain r w1 where m: "mcp_tenant_id c (kept answer) w = (r, w1)" by fastforce
  then have one: "session_ok c w1" "mw_principal w \<noteq> None \<longrightarrow> mw_principal w1 = mw_principal w"
    using keeps_tenant_id[OF path, of answer] ok unfolding keeps_def by blast+
  show "session_ok c w' \<and> (mw_principal w \<noteq> None \<longrightarrow> mw_principal w' = mw_principal w)"
  proof (cases r)
    case (Inl e)
    then show ?thesis using run m one by (auto simp: mthen_def)
  next
    case (Inr t)
    then have "f t w1 = (out, w')" using run m by (simp add: mthen_def)
    moreover have "\<exists>d. mw_principal w1 = Some d \<and> tenant_of d = Inr t"
      using m Inr by (intro tenant_id_known) simp
    ultimately show ?thesis using f[of t] one unfolding keeps_for_def by metis
  qed
qed

lemma keeps_tenant_request [keep]:
  assumes "own_path (mg_principal_path c)" "own_path path"
  shows "keeps c (tenant_request c (kept answer) verb path payload)"
  unfolding tenant_request_def using assms
  by (intro keep) (simp_all add: wf_dict_def split: if_splits)

lemma keeps_tenant_echo [keep]:
  "own_path (mg_principal_path c) \<Longrightarrow> keeps c (assert_tenant_echo c (kept answer) b k)"
  unfolding assert_tenant_echo_def by (intro keep keeps_for_keeps)

section \<open>The operations of the runtime\<close>

lemma own_path_intro:
  "\<exists>t. strip_slashes path = s @ t \<Longrightarrow> CHR ''/'' \<in> set s \<Longrightarrow> CHR '':'' \<notin> set s \<Longrightarrow> own_path path"
  using own_path_literal by blast

lemma own_paths [keep]:
  "own_path (''/harbor/operator/v1/intents?'' @ x)" "own_path (''/harbor/operator/v1/intents/'' @ x)"
  "own_path (''/v1/compliance/audit-exports?'' @ x)" "own_path (''/v1/compliance/audit-exports/'' @ x)"
  "own_path ''/.well-known/agent-card.json''" "own_path ''/protocol/v2/a2a/task-contracts''"
  "own_path (''/protocol/v2/a2a/task-contracts/'' @ x)" "own_path (''/protocol/v2/receipts/'' @ x)"
  "own_path (''/protocol/v2/agent-receipts/'' @ x)" "own_path ''/v1/spend/preflight''" "own_path ''/verify''"
  "own_path ''/v1/sandbox/guardrails/bootstrap''" "own_path (''/v1/sandbox/guardrails/'' @ x)"
  "own_path ''/protocol/v2/mandates/verify''" "own_path ''/protocol/v2/recognition/verify''"
  "own_path ''/protocol/v2/mandates''" "own_path ''/protocol/v2/receipts/verify''" "own_path ''/harbor/intents''"
  "own_path (''/harbor/intents/'' @ x)"
proof -
  have verify: "own_path ''/verify''" by (simp add: own_path_def relative_path_def split_scheme_def)
  show "own_path ''/verify''" by (rule verify)
  show "own_path (''/harbor/operator/v1/intents?'' @ x)" "own_path (''/harbor/operator/v1/intents/'' @ x)"
    "own_path ''/harbor/intents''" "own_path (''/harbor/intents/'' @ x)"
    by (rule own_path_intro[of _ "''harbor/''"], simp, simp, simp)+
  show "own_path (''/v1/compliance/audit-exports?'' @ x)" "own_path (''/v1/compliance/audit-exports/'' @ x)"
    "own_path ''/v1/spend/preflight''" "own_path ''/v1/sandbox/guardrails/bootstrap''"
    "own_path (''/v1/sandbox/guardrails/'' @ x)"
    by (rule own_path_intro[of _ "''v1/''"], simp, simp, simp)+
  show "own_path ''/.well-known/agent-card.json''"
    by (rule own_path_intro[of _ "''.well-known/''"], simp, simp, simp)
  show "own_path ''/protocol/v2/a2a/task-contracts''"
    "own_path (''/protocol/v2/a2a/task-contracts/'' @ x)" "own_path (''/protocol/v2/receipts/'' @ x)"
    "own_path (''/protocol/v2/agent-receipts/'' @ x)" "own_path ''/protocol/v2/mandates/verify''"
    "own_path ''/protocol/v2/recognition/verify''" "own_path ''/protocol/v2/mandates''"
    "own_path ''/protocol/v2/receipts/verify''"
    by (rule own_path_intro[of _ "''protocol/''"], simp, simp, simp)+
qed

lemma header_facts [keep]:
  "wf_dict []" "wf_dict [(k, v)]" "wf_dict (nonblank_param k' v')" "wf_dict (idempotency_headers i)"
  "map_of [] k'' = None" "map_of (idempotency_headers i) ''authorization'' = None"
  "map_of (idempotency_headers i) ''x-tenant-id'' = None"
  by (simp_all add: wf_dict_def nonblank_param_def idempotency_headers_def split: option.splits)

lemma mutation_header_facts:
  fixes extra :: http_headers and h t :: string and i :: "string option"
  assumes "extra = [] \<or> (\<exists>p. extra = nonblank_param ''payment-signature'' p)"
  defines "hs \<equiv> dict_merge (AList.update ''x-paybond-agent-recognition-proof'' h
                      (AList.update ''x-tenant-id'' t extra)) (idempotency_headers i)"
  shows "wf_dict hs" "map_of hs ''authorization'' = None" "map_of hs ''x-tenant-id'' = Some t"
proof -
  have extra: "wf_dict extra" "map_of extra ''authorization'' = None"
    using assms(1) by (auto simp: wf_dict_def nonblank_param_def split: option.splits)
  have idem: "idempotency_headers i = [] \<or> (\<exists>v. idempotency_headers i = [(''idempotency-key'', v)])"
    by (auto simp: idempotency_headers_def nonblank_param_def split: option.splits)
  then show "wf_dict hs" unfolding hs_def dict_merge_def
    using extra(1) by (elim disjE exE) (simp_all add: wf_dict_update)
  show "map_of hs ''authorization'' = None" "map_of hs ''x-tenant-id'' = Some t"
    unfolding hs_def using extra(2)
    by (simp_all add: dict_merge_lookup header_facts update_conv')
qed

lemma keeps_mutation [keep]:
  assumes "own_path (mg_principal_path c)" "own_path path"
    "extra = [] \<or> (\<exists>p. extra = nonblank_param ''payment-signature'' p)"
  shows "keeps c (gateway_harbor_mutation c (kept answer) path body recognition k extra)"
  unfolding gateway_harbor_mutation_def
  using assms mutation_header_facts[OF assms(3)]
  by (intro keep) simp_all

lemma keeps_gate_pass [keep]: "keeps c (evidence_gate_pass b i)"
  by (auto simp: keeps_def evidence_gate_pass_def split: prod.splits)

lemma session_runtime [simp]:
  "session_ok c (w\<lparr>mw_runtime := rt\<rparr>) = session_ok c w"
  by (simp add: session_ok_def)

lemma keeps_policy_intent [keep]:
  assumes "own_path (mg_principal_path c)"
  shows "keeps c (policy_intent c (kept answer) i)"
proof -
  have "keeps c (mcp_get_intent c (kept answer) i)"
    unfolding mcp_get_intent_def using assms by (intro keep)
  then show ?thesis unfolding keeps_def policy_intent_def by (auto split: if_splits)
qed

lemma keeps_authorize [keep]:
  assumes "own_path (mg_principal_path c)"
  shows "keeps c (mcp_authorize_spend c (kept answer) intent token op cents tool)"
  unfolding mcp_authorize_spend_def
proof (intro keeps_after_tenant keeps_for_mthen keeps_for_keeps[OF keeps_policy_intent] assms)
  fix t i
  let ?post = "\<lambda>b. request_json c (kept answer) ''POST'' ''/verify'' (Some b) [(''x-tenant-id'', t)]"
  have post: "keeps_for c t (?post b)" for b
    by (rule keeps_for_request) (simp_all add: header_facts own_paths split: if_splits)
  show "keeps_for c t (\<lambda>w. let post = ?post;
            (rt, posted, out) = authorize_agent_spend (mw_runtime w) t intent token op cents tool (Inr i) (\<lambda>b. fst (post b w))
        in (out, (case posted of None \<Rightarrow> w | Some b \<Rightarrow> snd (post b w))\<lparr>mw_runtime := rt\<rparr>))"
    unfolding keeps_for_def Let_def
  proof (intro allI impI)
    fix w out w'
    assume run: "(case authorize_agent_spend (mw_runtime w) t intent token op cents tool (Inr i) (\<lambda>b. fst (?post b w)) of
        (rt, posted, out) \<Rightarrow> (out, (case posted of None \<Rightarrow> w | Some b \<Rightarrow> snd (?post b w))\<lparr>mw_runtime := rt\<rparr>)) = (out, w')"
      and ok: "session_ok c w" and d: "\<exists>d. mw_principal w = Some d \<and> tenant_of d = Inr t"
    have sent: "session_ok c (snd (?post b w)) \<and> mw_principal (snd (?post b w)) = mw_principal w" for b
      using post[of b] ok d unfolding keeps_for_def by (metis prod.collapse)
    show "session_ok c w' \<and> mw_principal w' = mw_principal w"
      using run ok sent by (auto split: prod.splits option.splits)
  qed
qed

section \<open>The read clients\<close>

definition net_ok :: "mcp_gateway \<Rightarrow> (http_request list \<Rightarrow> 'a \<times> http_request list) \<Rightarrow> bool" where
  "net_ok c f \<longleftrightarrow> (\<forall>s out s'. f s = (out, s') \<longrightarrow> (\<exists>qs. s' = s @ qs \<and> (\<forall>q \<in> set qs. own_request c None q)))"

lemma keeps_on_net [keep]: "net_ok c f \<Longrightarrow> keeps c (on_net f)"
proof -
  assume f: "net_ok c f"
  have "session_ok c w' \<and> mw_principal w' = mw_principal w" if "on_net f w = (out, w')" "session_ok c w" for w out w'
  proof -
    obtain r s where r: "f (mw_net w) = (r, s)" by fastforce
    then obtain qs where "s = mw_net w @ qs" "\<forall>q \<in> set qs. own_request c None q"
      using f unfolding net_ok_def by blast
    then show ?thesis using that r own_request_any by (auto simp: on_net_def session_ok_def)
  qed
  then show "keeps c (on_net f)" unfolding keeps_def by metis
qed

definition mcp_client :: "mcp_gateway \<Rightarrow> string \<Rightarrow> gateway_client" where
  "mcp_client c t = \<lparr>gc_base = mg_base c, gc_tenant = strip t, gc_bearer = mg_api_key c\<rparr>"

lemma net_ok_get: "net_ok c (bearer_get (mcp_client c t) (kept answer) path)"
proof -
  have "own_request c None \<lparr>rq_method = ''GET'', rq_url = mg_base c @ strip_slashes path,
      rq_headers = bearer_headers (mcp_client c t), rq_body = JNull\<rparr>"
    by (simp add: own_request_def names_tenant_def bearer_headers_def mcp_client_def)
  then show ?thesis by (auto simp: net_ok_def bearer_get_def kept_def mcp_client_def)
qed

lemma net_ok_then:
  "net_ok c f \<Longrightarrow> net_ok c (\<lambda>s. let (out, s') = f s in (g out, s'))"
  by (fastforce simp: net_ok_def split: prod.splits)

lemma net_ok_same: "net_ok c (\<lambda>s. (x, s))"
  by (simp add: net_ok_def)

lemma net_ok_reads [keep]:
  "net_ok c (get_reputation_receipt (mcp_client c t) (kept answer) i v)"
  "net_ok c (get_portfolio_summary (mcp_client c t) (kept answer) v)"
  "net_ok c (get_signed_portfolio_artifact (mcp_client c t) (kept answer) v)"
  "net_ok c (get_fraud_assessment (mcp_client c t) (kept answer) i v)"
  "net_ok c (get_fraud_metrics (mcp_client c t) (kept answer) v v')"
proof -
  have read: "net_ok c (fraud_read w n p (mcp_client c t) (kept answer))" for w n p
    unfolding fraud_read_def by (intro net_ok_then net_ok_get)
  show "net_ok c (get_fraud_metrics (mcp_client c t) (kept answer) v v')"
    unfolding get_fraud_metrics_def using read net_ok_same by (cases "normalize_window v") (simp_all)
qed (unfold get_reputation_receipt_def get_portfolio_summary_def get_signed_portfolio_artifact_def
      get_fraud_assessment_def Let_def[of "_ @ _"], (intro net_ok_then net_ok_get)+)

section \<open>Every tool keeps the session in order\<close>

lemma keeps_signal:
  assumes "own_path (mg_principal_path (me_gateway env))" "me_send env = kept answer"
    "\<And>t. keeps (me_gateway env) (f (mcp_client (me_gateway env) t))"
  shows "keeps (me_gateway env) (mthen (signal env) f)"
proof -
  have "mthen (signal env) f =
      mthen (mcp_tenant_id (me_gateway env) (me_send env)) (\<lambda>t. f (mcp_client (me_gateway env) t))"
    by (rule ext) (simp add: mthen_def signal_def mret_def mcp_client_def split: prod.splits sum.splits)
  then show ?thesis using assms by (simp) (intro keep)
qed

lemma keeps_token [keep]: "keeps c (with_capability_token env i t)"
  by (auto simp: keeps_def with_capability_token_def Let_def split: prod.splits)

lemma keeps_validate [keep]: "keeps c (paybond_validate_completion_evidence env vi)"
  by (auto simp: keeps_def paybond_validate_completion_evidence_def Let_def split: prod.splits)

lemma keeps_read_receipt [keep]:
  assumes "own_path (mg_principal_path c)" "\<And>x. own_path (stem @ x)"
  shows "keeps c (mcp_read_receipt c (kept answer) stem canon i)"
  unfolding mcp_read_receipt_def using assms by (intro keep)

lemmas runtime_defs = mcp_list_intents_def mcp_get_intent_def mcp_list_audit_exports_def mcp_get_audit_export_def
  mcp_get_a2a_agent_card_def mcp_get_a2a_task_contracts_def mcp_get_a2a_task_contract_def
  mcp_get_settlement_receipt_v1_def mcp_get_agent_receipt_v1_def spend_preflight_def get_budget_remaining_def
  explain_policy_def mcp_bootstrap_sandbox_def mcp_submit_sandbox_evidence_def mcp_verify_agent_mandate_v1_def
  mcp_verify_recognition_proof_def mcp_import_agent_mandate_v1_def mcp_verify_protocol_receipt_v1_def
  mcp_create_intent_def mcp_fund_intent_def mcp_submit_evidence_def mcp_confirm_settlement_def

lemmas tool_defs = paybond_get_principal_def paybond_verify_capability_def paybond_authorize_agent_spend_def
  paybond_get_budget_remaining_def paybond_explain_policy_def paybond_bootstrap_sandbox_guardrail_def
  paybond_submit_sandbox_guardrail_evidence_def paybond_list_intents_def paybond_get_intent_def
  paybond_list_audit_exports_def paybond_get_audit_export_def paybond_get_reputation_receipt_def
  paybond_get_portfolio_summary_def paybond_get_signed_portfolio_artifact_def paybond_get_fraud_assessment_def
  paybond_get_fraud_metrics_def paybond_get_a2a_agent_card_def paybond_list_a2a_task_contracts_def
  paybond_get_a2a_task_contract_def paybond_verify_agent_mandate_v1_def
  paybond_verify_agent_recognition_proof_v1_def paybond_import_agent_mandate_v1_def
  paybond_get_settlement_receipt_v1_def paybond_get_agent_receipt_v1_def paybond_verify_protocol_receipt_v1_def
  paybond_create_intent_def paybond_create_spend_intent_def paybond_fund_intent_def paybond_submit_evidence_def
  paybond_submit_spend_evidence_def paybond_confirm_settlement_def

lemma keeps_recognition [keep]:
  assumes "own_path (mg_principal_path c)"
  shows "keeps c (mcp_verify_recognition_proof c (kept answer) d p d')"
  unfolding mcp_verify_recognition_proof_def
  by (rule keeps_mthen[OF keeps_tenant_id[OF assms] keeps_tenant_request[OF assms]]) (rule own_paths)

lemma keeps_mcp_reads [keep]:
  assumes "own_path (mg_principal_path c)"
  shows "keeps c (mcp_list_intents c (kept answer) st did n cur)" "keeps c (mcp_get_intent c (kept answer) u)"
    "keeps c (mcp_list_audit_exports c (kept answer) n cur)" "keeps c (mcp_get_audit_export c (kept answer) i b)"
    "keeps c (mcp_get_a2a_agent_card c (kept answer))" "keeps c (mcp_get_a2a_task_contracts c (kept answer))"
    "keeps c (mcp_get_a2a_task_contract c (kept answer) i)"
    "keeps c (mcp_get_settlement_receipt_v1 c (kept answer) i)" "keeps c (mcp_get_agent_receipt_v1 c (kept answer) i)"
    "keeps c (get_budget_remaining c (kept answer) u p)" "keeps c (explain_policy c (kept answer) u p)"
  unfolding runtime_defs by (intro keep assms)+

lemma keeps_mcp_writes [keep]:
  assumes "own_path (mg_principal_path c)"
  shows "keeps c (mcp_verify_agent_mandate_v1 c (kept answer) d)" "keeps c (mcp_verify_protocol_receipt_v1 c (kept answer) d)"
    "keeps c (mcp_import_agent_mandate_v1 c (kept answer) d i d' md)"
    "keeps c (mcp_create_intent c (kept answer) d d' k)" "keeps c (mcp_fund_intent c (kept answer) u d sig k)"
    "keeps c (mcp_submit_evidence b c (kept answer) u d d' preset k)"
    "keeps c (mcp_confirm_settlement c (kept answer) u d d' k)"
proof -
  note mutation = keeps_mutation[OF assms]
  show "keeps c (mcp_verify_agent_mandate_v1 c (kept answer) d)" "keeps c (mcp_verify_protocol_receipt_v1 c (kept answer) d)"
    "keeps c (mcp_import_agent_mandate_v1 c (kept answer) d i d' md)"
    unfolding runtime_defs by (intro keep assms)+
  show "keeps c (mcp_create_intent c (kept answer) d d' k)" "keeps c (mcp_fund_intent c (kept answer) u d sig k)"
    "keeps c (mcp_confirm_settlement c (kept answer) u d d' k)"
    unfolding runtime_defs by (rule mutation; (rule own_paths)?; blast)+
  have "keeps c (gateway_harbor_mutation c (kept answer) (''/harbor/intents/'' @ x) d d' k [])" for x
    by (rule mutation; (rule own_paths)?; blast)
  then show "keeps c (mcp_submit_evidence b c (kept answer) u d d' preset k)"
    unfolding mcp_submit_evidence_def by (intro keeps_mthen keeps_gate_pass)
qed

lemma keeps_sandbox [keep]:
  assumes "own_path (mg_principal_path c)"
  shows "keeps c (mcp_bootstrap_sandbox c (kept answer) op n cur sch md k)"
    "keeps c (mcp_submit_sandbox_evidence b c (kept answer) u pl ar op' n' md preset k)"
proof -
  have request: "keeps_for c t (request_json c (kept answer) verb path payload (idempotency_headers k))"
    if "own_path path" for t verb path payload
    using that by (intro keep) (simp_all add: header_facts)
  show "keeps c (mcp_bootstrap_sandbox c (kept answer) op n cur sch md k)"
    unfolding mcp_bootstrap_sandbox_def
    by (intro keeps_after_tenant assms keeps_for_mthen request own_paths keeps_for_keeps[OF keeps_mlift]
        keeps_for_keeps[OF keeps_mret])
  show "keeps c (mcp_submit_sandbox_evidence b c (kept answer) u pl ar op' n' md preset k)"
    unfolding mcp_submit_sandbox_evidence_def
    by (intro keeps_mthen[OF keeps_gate_pass] keeps_after_tenant assms keeps_for_mthen request own_paths
        keeps_for_keeps[OF keeps_mlift] keeps_for_keeps[OF keeps_mret])
qed

lemma tool_keeps:
  assumes tool: "mcp_tool env n f" and c: "me_gateway env = c" "me_send env = kept answer"
    and path: "own_path (mg_principal_path c)"
  shows "keeps c f"
proof -
  note here = keeps_as_object keeps_mthen keeps_mlift keeps_mret keeps_token keeps_principal[OF path]
    keeps_authorize[OF path] keeps_mcp_reads[OF path] keeps_mcp_writes[OF path] keeps_sandbox[OF path]
    keeps_recognition[OF path] keeps_on_net net_ok_reads
  have sig: "keeps c (mthen (signal env) g)" if "\<And>t. keeps c (g (mcp_client c t))" for g :: "gateway_client \<Rightarrow> http_request list tool"
    using keeps_signal[of env answer g] c path that by simp
  show ?thesis
    using tool
    by induction (unfold tool_defs paybond_verify_agent_receipt_v1_def Let_def c,
        (intro here sig keeps_validate)+)
qed

section \<open>Sessions\<close>

lemma keeps_scopes:
  assumes "me_gateway env = c" "me_send env = kept answer" "own_path (mg_principal_path c)"
  shows "keeps c (tool_scopes env)"
proof -
  have "keeps c (principal c (kept answer))" by (rule keeps_principal[OF assms(3)])
  then show ?thesis
    unfolding keeps_def tool_scopes_def assms(1,2)
    by (fastforce simp: Let_def split: option.splits prod.splits)
qed

lemma prepared_world:
  "prepared env n (out, w) = (out', w') \<Longrightarrow> mw_net w' = mw_net w \<and> mw_principal w' = mw_principal w"
  by (auto simp: prepared_def Let_def split: sum.splits json.splits prod.splits)

lemma keeps_call_tool:
  assumes "keeps c f" "me_gateway env = c" "me_send env = kept answer" "own_path (mg_principal_path c)"
  shows "keeps c (call_tool env n f)"
  unfolding call_tool_def
proof (intro keeps_mthen keeps_scopes[OF assms(2-4)])
  fix sc
  show "keeps c (\<lambda>w. case scope_denial n sc of
      Some message \<Rightarrow> (Inl (RuntimeError message), w)
    | None \<Rightarrow> (let (out, w') = prepared env n (f (w\<lparr>mw_runtime := begin_policy_tool_call (mw_runtime w)\<rparr>))
              in (out, w'\<lparr>mw_runtime := end_policy_tool_call (mw_runtime w')\<rparr>)))"
    unfolding keeps_def
  proof (intro allI impI)
    fix w :: "http_request list mcp_world" and out w'
    let ?w = "w\<lparr>mw_runtime := begin_policy_tool_call (mw_runtime w)\<rparr>"
    assume run: "(case scope_denial n sc of Some message \<Rightarrow> (Inl (RuntimeError message), w)
        | None \<Rightarrow> (let (out, w') = prepared env n (f ?w)
              in (out, w'\<lparr>mw_runtime := end_policy_tool_call (mw_runtime w')\<rparr>))) = (out, w')"
      and ok: "session_ok c w"
    obtain o1 w1 where f: "f ?w = (o1, w1)" by fastforce
    obtain o2 w2 where p: "prepared env n (o1, w1) = (o2, w2)" by fastforce
    have "session_ok c w1 \<and> (mw_principal ?w \<noteq> None \<longrightarrow> mw_principal w1 = mw_principal ?w)"
      using assms(1) f ok unfolding keeps_def by (metis session_runtime)
    then show "session_ok c w' \<and> (mw_principal w \<noteq> None \<longrightarrow> mw_principal w' = mw_principal w)"
      using run ok f p prepared_world[OF p]
      by (auto simp: session_ok_def split: option.splits)
  qed
qed

text \<open>Tool calls, and reads of the receipt resource, one after the other.\<close>

inductive session :: "http_request list mcp_env \<Rightarrow> http_request list mcp_world \<Rightarrow> bool" for env where
  start: "session env \<lparr>mw_runtime = rt, mw_principal = None, mw_net = []\<rparr>"
| call: "session env w \<Longrightarrow> mcp_tool env n f \<Longrightarrow> call_tool env n f w = (out, w') \<Longrightarrow> session env w'"
| read: "session env w \<Longrightarrow> paybond_agent_receipt_resource env i w = (out', w') \<Longrightarrow> session env w'"

lemma session_keeps:
  assumes "session env w" "me_send env = kept answer" "own_path (mg_principal_path (me_gateway env))"
  shows "session_ok (me_gateway env) w"
  using assms(1)
proof induction
  case (start rt)
  then show ?case by (simp add: session_ok_def)
next
  case (call w n f out w')
  have "keeps (me_gateway env) (call_tool env n f)"
    using keeps_call_tool[OF tool_keeps[OF call(2) refl assms(2,3)] refl assms(2,3)] .
  then show ?case using call unfolding keeps_def by blast
next
  case (read w i out' w')
  have "keeps (me_gateway env) (paybond_agent_receipt_resource env i)"
    unfolding paybond_agent_receipt_resource_def assms(2)
    by (intro keeps_mthen keeps_mcp_reads assms(3) keeps_mlift keeps_mret)
  then show ?case using read unfolding keeps_def by blast
qed


definition sample_mcp_gateway :: mcp_gateway where
  "sample_mcp_gateway = \<lparr>mg_base = ''https://g/'', mg_api_key = ''k'', mg_principal_path = ''/v1/auth/principal''\<rparr>"

definition sample_principal :: "(string, json) dict" where
  "sample_principal = [(''tenant_id'', JStr '' t''), (''key_kind'', JStr ''restricted''),
     (''mcp_scopes'', JArr [JStr ''mcp.discovery:read''])]"

definition sample_receipt_answer :: "(string, json) dict" where
  "sample_receipt_answer = [(''receipt_id'', JStr ''r''), (''tenant_id'', JStr ''t'')]"

definition mcp_sample_answers :: "http_request list \<Rightarrow> http_request \<Rightarrow> exn + fund_response" where
  "mcp_sample_answers sent q =
     Inr (json_reply 200 (case sent of [] \<Rightarrow> sample_principal | _ \<Rightarrow> sample_receipt_answer))"

definition mcp_sample_env :: "http_request list mcp_env" where
  "mcp_sample_env =
     \<lparr>me_gateway = sample_mcp_gateway, me_send = kept mcp_sample_answers, me_clock = (0, 0), me_blake3 = id,
      me_schema_errors = (\<lambda>_ _. []), me_catalog = [], me_verify_receipt = (\<lambda>_ d. Inr d)\<rparr>"

definition sample_start :: "http_request list mcp_world" where
  "sample_start = \<lparr>mw_runtime = sample_runtime None, mw_principal = None, mw_net = []\<rparr>"

definition sample_list :: "(exn + json) \<times> http_request list mcp_world" where
  "sample_list = call_tool mcp_sample_env ''paybond_list_intents'' (paybond_list_intents mcp_sample_env None None 500 None) sample_start"

lemma sample_session: "session mcp_sample_env (snd sample_list)"
proof (rule session.call)
  show "session mcp_sample_env sample_start" unfolding sample_start_def by (rule session.start)
  show "mcp_tool mcp_sample_env ''paybond_list_intents'' (paybond_list_intents mcp_sample_env None None 500 None)"
    by (rule mcp_tool.intros)
  show "call_tool mcp_sample_env ''paybond_list_intents'' (paybond_list_intents mcp_sample_env None None 500 None) sample_start =
      (fst sample_list, snd sample_list)"
    by (simp add: sample_list_def)
qed

lemma second_of_two:
  assumes "List.map f xs = [a, b]"
  shows "xs ! 1 \<in> set xs" and "f (xs ! 1) = b"
  using assms by (auto simp: map_eq_Cons_conv)


section \<open>Scopes and the receipt resource\<close>

text \<open>A call of a tool is the runtime's wrapper around it, run in the world.\<close>

lemma call_tool_wrapped:
  assumes "ms_scope_context (mw_runtime w) = Some c"
  shows "(mw_runtime (snd (call_tool env n f w)), fst (call_tool env n f w)) =
    wrapped_tool_call (mw_runtime w) who n
      (\<lambda>rt. let (out, w') = f (w\<lparr>mw_runtime := rt\<rparr>) in (mw_runtime w', out)) (fst (me_clock env)) (snd (me_clock env))"
proof (cases "scope_denial n c")
  case (Some m)
  then show ?thesis using assms
    by (simp add: call_tool_def mthen_def tool_scopes_def wrapped_tool_call_def scope_context_def)
next
  case None
  obtain o1 w1 where f: "f (w\<lparr>mw_runtime := begin_policy_tool_call (mw_runtime w)\<rparr>) = (o1, w1)" by fastforce
  then show ?thesis using assms None
    by (auto simp: call_tool_def mthen_def tool_scopes_def wrapped_tool_call_def scope_context_def prepared_def
        Let_def split: sum.splits json.splits prod.splits)
qed

text \<open>A denied call sends nothing.\<close>

lemma denied_call:
  assumes "ms_scope_context (mw_runtime w) = Some c" "scope_denial n c = Some m"
  shows "call_tool env n f w = (Inl (RuntimeError m), w)"
  using assms by (simp add: call_tool_def mthen_def tool_scopes_def)

definition receipt_scope :: mcp_scope where
  "receipt_scope = (''mcp.receipts'', Read)"

lemma receipt_scopes:
  "required_scope_for_tool ''paybond_get_agent_receipt_v1'' = Some receipt_scope"
  "required_scope_for_resource ''paybond-agent-receipt'' = Some receipt_scope"
  by code_simp+

definition receipt_request :: "mcp_gateway \<Rightarrow> string \<Rightarrow> string \<Rightarrow> http_request" where
  "receipt_request c t i = mcp_request c ''GET'' (''/protocol/v2/agent-receipts/'' @ url_quote i) None [(''x-tenant-id'', t)]"

text \<open>C35: The catalog demands the scope \<open>mcp.receipts:read\<close> of the receipt tool and of the receipt
  resource alike, but only the tool is gated: a restricted credential without that scope, whose
  call of the tool is denied without a request, is served the same receipt through the resource.
\<close>

theorem resource_ignores_scopes:
  assumes "ms_scope_context (mw_runtime w) = Some c" "mx_restricted c" "mx_unresolved_reason c = None"
    and "\<not> scope_satisfies (mx_scopes c) (the (required_scope_for_resource ''paybond-agent-receipt''))"
    and "mw_principal w = Some d" "tenant_of d = Inr t"
    and "me_send env (receipt_request (me_gateway env) t (lower (strip i))) (mw_net w) = (Inr r, s)"
    and "hr_status r < 400" "hr_json r = Some (JObj b)" "lower (strip (str_get b ''receipt_id'')) = lower (strip i)"
    and "strip (str_get b ''tenant_id'') = t" "me_verify_receipt env (plain_options None) b = Inr v"
  shows "paybond_agent_receipt_resource env i w =
      (Inr (json_pretty (canonicalize_json (JObj b)) []), w\<lparr>mw_net := s\<rparr>) \<and>
    (\<exists>m. call_tool env ''paybond_get_agent_receipt_v1'' (paybond_get_agent_receipt_v1 env i) w = (Inl (RuntimeError m), w))"
proof
  have tenant: "mcp_tenant_id (me_gateway env) (me_send env) w' = (Inr t, w')" if "mw_principal w' = Some d" for w'
    using that assms(6) by (simp add: mcp_tenant_id_def mthen_def mlift_def principal_def)
  have "gateway_json ''GET'' p r = Inr b" for p
    using assms(8,9) by (simp add: gateway_json_def)
  then have "mcp_get_agent_receipt_v1 (me_gateway env) (me_send env) i w = (Inr b, w\<lparr>mw_net := s\<rparr>)"
    using assms(5,7,10,11) tenant
    by (simp add: mcp_get_agent_receipt_v1_def mcp_read_receipt_def tenant_request_def mthen_def mlift_def mret_def
        request_json_def receipt_request_def assert_tenant_echo_def)
  then show "paybond_agent_receipt_resource env i w =
      (Inr (json_pretty (canonicalize_json (JObj b)) []), w\<lparr>mw_net := s\<rparr>)"
    using assms(12) by (simp add: paybond_agent_receipt_resource_def mthen_def mlift_def mret_def)
  have "scope_denial ''paybond_get_agent_receipt_v1'' c \<noteq> None"
    using assms(2-4) unfolding scope_denial_None receipt_scopes(2)
    by (simp add: tool_allowed_by_scope_def receipt_scopes(1))
  then show "\<exists>m. call_tool env ''paybond_get_agent_receipt_v1'' (paybond_get_agent_receipt_v1 env i) w = (Inl (RuntimeError m), w)"
    using denied_call[OF assms(1)] by blast
qed

theorem resource_ignores_scopes_witness:
  "(\<exists>x w. paybond_agent_receipt_resource mcp_sample_env '' R'' (snd sample_list) = (Inr x, w)) \<and>
   (\<exists>m. call_tool mcp_sample_env ''paybond_get_agent_receipt_v1'' (paybond_get_agent_receipt_v1 mcp_sample_env '' R'') (snd sample_list) =
      (Inl (RuntimeError m), snd sample_list))"
proof -
  define c where "c = \<lparr>mx_restricted = True, mx_scopes = [(''mcp.discovery'', Read)], mx_unresolved_reason = None\<rparr>"
  have w: "ms_scope_context (mw_runtime (snd sample_list)) = Some c" "mw_principal (snd sample_list) = Some sample_principal"
    "tenant_of sample_principal = Inr ''t''" "mw_net (snd sample_list) \<noteq> []"
    unfolding c_def by code_simp+
  have c: "mx_restricted c" "mx_unresolved_reason c = None"
    "\<not> scope_satisfies (mx_scopes c) (the (required_scope_for_resource ''paybond-agent-receipt''))"
    unfolding c_def by code_simp+
  have b: "lower (strip (str_get sample_receipt_answer ''receipt_id'')) = lower (strip '' R'')"
    "strip (str_get sample_receipt_answer ''tenant_id'') = ''t''" by code_simp+
  have sent: "me_send mcp_sample_env q (mw_net (snd sample_list)) =
      (Inr (json_reply 200 sample_receipt_answer), mw_net (snd sample_list) @ [q])" for q
    using w(4) by (simp add: mcp_sample_env_def kept_def mcp_sample_answers_def split: list.split)
  have r: "hr_status (json_reply 200 sample_receipt_answer) < 400"
    "hr_json (json_reply 200 sample_receipt_answer) = Some (JObj sample_receipt_answer)"
    "me_verify_receipt mcp_sample_env (plain_options None) sample_receipt_answer = Inr sample_receipt_answer"
    by (simp_all add: json_reply_def mcp_sample_env_def)
  show ?thesis
    using resource_ignores_scopes[OF w(1) c w(2,3) sent r(1,2) b r(3)] by blast
qed

section \<open>Identifiers in paths\<close>

text \<open>
  Two dots are not quoted, and \<open>urljoin\<close> resolves them: such a contract id is read as another path.
\<close>

lemma dots_leave_segment:
  "rq_url (mcp_request sample_mcp_gateway ''GET'' (''/protocol/v2/a2a/task-contracts/'' @ url_quote ''..'') None []) =
     ''https://g/protocol/v2/a2a/''"
  by code_simp

end
