(* ===== verification/Receipts.thy ===== *)
theory Receipts
  imports Merkle_Inclusion Run_Policy "HOL-Library.Code_Target_Nat"
begin

text \<open>
  The properties of receipts and of the client's plumbing: inclusion proofs of agent receipts, the
  bounds of the retry loop, the authorization cache as a cache, the tool registry that a policy
  builds, and the digest of a policy.  Each property is followed by an instance.
\<close>

section \<open>Inclusion proofs\<close>

text \<open>C28: The audit path of RFC 6962 for any leaf of any tree reconstructs the tree's root, and the
  reconstruction uses the whole path.\<close>

theorem inclusion_complete:
  assumes "m < length xs"
  shows "reconstruct_merkle_root H (xs ! m) m (length xs) (audit_path H m xs) =
    Inr (mth H xs, length (audit_path H m xs))"
  using reconstruct_complete[OF assms, of H "[]"] by simp

definition toy_hash :: "string \<Rightarrow> string" where
  "toy_hash x = take 32 (x @ replicate 32 (CHR 0x00))"

theorem inclusion_complete_witness:
  "reconstruct_merkle_root toy_hash ''b'' 1 3 (audit_path toy_hash 1 [''a'', ''b'', ''c'']) =
     Inr (mth toy_hash [''a'', ''b'', ''c''], length (audit_path toy_hash 1 [''a'', ''b'', ''c'']))"
  using inclusion_complete[of 1 "[''a'', ''b'', ''c'']" toy_hash] by (simp add: numeral_3_eq_3)

text \<open>C29: An accepted inclusion proof under a signed head of the tree with leaves \<open>xs\<close> is about the
  head's own tenant and size, the head's signature was accepted for a trusted key, and the receipt's
  leaf hash is the leaf at the claimed position, or the proof itself exhibits two different strings with
  the same hash.\<close>

theorem inclusion_sound:
  assumes "verify_agent_receipt_inclusion H verify_sig trusted proof = Inr i"
    and "hashes_32 H" "all_32 xs" "in_tree_size i = int (length xs)" "in_root_hash i = to_hex (mth H xs)"
  shows "in_tenant_id i = th_tenant_id (in_tree_head i) \<and> allows_signing_public_key (th_public_key (in_tree_head i)) trusted \<and>
    verify_sig (unhex (th_public_key (in_tree_head i))) (unhex (th_signature (in_tree_head i)))
      (H (canonical_sth_bytes (in_tenant_id i) (in_tree_size i) (in_root_hash i) (th_issued_at (in_tree_head i)))) \<and>
    (merkle_leaf_hash_rfc6962 H (unhex (in_message_digest i)) = xs ! nat (in_leaf_index i) \<or>
     (\<exists>a b. collision H (merkle_leaf_hash_rfc6962 H (unhex (in_message_digest i))) (nat (in_leaf_index i)) xs
        (in_audit_path i) = Some (a, b) \<and> a \<noteq> b \<and> H a = H b))"
proof -
  note v = verify_agent_receipt_inclusion_Inr[OF assms(1)]
  obtain head where "verify_signed_tree_head_v1 H verify_sig trusted head = Inr (in_tree_head i)"
    using v(8) by blast
  note h = verify_signed_tree_head_v1_Inr[OF this]
  have "reconstruct_merkle_root H (merkle_leaf_hash_rfc6962 H (unhex (in_message_digest i)))
      (nat (in_leaf_index i)) (length xs) (in_audit_path i) = Inr (mth H xs, length (in_audit_path i))"
    using v(7) assms(4,5) by (auto simp: to_hex_inj)
  moreover have "length (merkle_leaf_hash_rfc6962 H (unhex (in_message_digest i))) = 32"
    using assms(2) by (simp add: hashes_32_def merkle_leaf_hash_rfc6962_def)
  moreover have "nat (in_leaf_index i) < length xs" using v(4,5) assms(4) by linarith
  ultimately show ?thesis
    using reconstruct_sound[OF assms(2) _ v(6) assms(3)] v(1-3) h by auto
qed

definition toy_leaf :: "char \<Rightarrow> string" where
  "toy_leaf c = merkle_leaf_hash_rfc6962 toy_hash (replicate 32 c)"

definition toy_root :: string where
  "toy_root = mth toy_hash [toy_leaf (CHR ''a''), toy_leaf (CHR ''b'')]"

definition toy_proof :: "(string, json) dict" where
  "toy_proof =
     [(''kind'', JStr PROOF_KIND), (''schema_version'', JInt 1), (''tenant_id'', JStr ''acme''),
      (''receipt_id'', JStr ''r1''), (''tree_size'', JInt 2), (''leaf_index'', JInt 1),
      (''message_digest_sha256_hex'', JStr (to_hex (replicate 32 (CHR ''b'')))),
      (''leaf_hash_sha256_hex'', JStr (to_hex (toy_leaf (CHR ''b'')))),
      (''root_hash_sha256_hex'', JStr (to_hex toy_root)),
      (''audit_path_sha256_hex'', JArr [JStr (to_hex (toy_leaf (CHR ''a'')))]),
      (''tree_head'', JObj
        [(''kind'', JStr STH_KIND), (''schema_version'', JInt 1), (''tenant_id'', JStr ''acme''),
         (''tree_size'', JInt 2), (''signing_algorithm'', JStr SIGNING_ALGORITHM),
         (''root_hash_sha256_hex'', JStr (to_hex toy_root)),
         (''message_digest_sha256_hex'', JStr (to_hex (toy_hash (canonical_sth_bytes ''acme'' 2 (to_hex toy_root) ''t0'')))),
         (''signing_public_key_ed25519_hex'', JStr (replicate 64 (CHR ''a''))),
         (''issued_at'', JStr ''t0''), (''ed25519_signature_hex'', JStr (replicate 128 (CHR ''b'')))])]"

definition toy_inclusion :: "exn + inclusion" where
  "toy_inclusion = verify_agent_receipt_inclusion toy_hash (\<lambda>k s d. True) None toy_proof"

theorem inclusion_sound_witness:
  "\<exists>i. toy_inclusion = Inr i \<and> in_leaf_index i = 1 \<and>
     merkle_leaf_hash_rfc6962 toy_hash (unhex (in_message_digest i)) = toy_leaf (CHR ''b'')"
proof -
  have c: "case toy_inclusion of Inr i \<Rightarrow> in_leaf_index i = 1 \<and> in_tree_size i = 2 \<and> in_root_hash i = to_hex toy_root \<and>
      collision toy_hash (merkle_leaf_hash_rfc6962 toy_hash (unhex (in_message_digest i))) 1
        [toy_leaf (CHR ''a''), toy_leaf (CHR ''b'')] (in_audit_path i) = None | _ \<Rightarrow> False"
    by code_simp
  then obtain i where i: "toy_inclusion = Inr i" by (auto split: sum.splits)
  have c': "in_leaf_index i = 1" "in_tree_size i = 2" "in_root_hash i = to_hex toy_root"
      "collision toy_hash (merkle_leaf_hash_rfc6962 toy_hash (unhex (in_message_digest i))) 1
        [toy_leaf (CHR ''a''), toy_leaf (CHR ''b'')] (in_audit_path i) = None"
    using c by (simp_all add: i)
  have "hashes_32 toy_hash" by (simp add: hashes_32_def toy_hash_def min_def)
  moreover have "all_32 [toy_leaf (CHR ''a''), toy_leaf (CHR ''b'')]" by code_simp
  ultimately show ?thesis
    using inclusion_sound[OF i[unfolded toy_inclusion_def], of "[toy_leaf (CHR ''a''), toy_leaf (CHR ''b'')]"] c' i
    by (auto simp: toy_root_def)
qed

section \<open>Retries\<close>

text \<open>The client sends a request at least once and at most \<open>max_retries\<close> times, numbering the
  attempts from 0 without a gap, returns what the last attempt gave, and never waits more than 30
  seconds between two attempts, whatever the gateway's answers say.\<close>

theorem retries_bounded:
  assumes "0 < max_retries"
  shows "\<exists>k. 0 < k \<and> k \<le> max_retries \<and>
    requests (snd (httpx_with_gateway_retries req jit max_retries)) = [0 ..< k] \<and>
    fst (httpx_with_gateway_retries req jit max_retries) = req (k - 1) \<and>
    (\<forall>d \<in> set (sleeps (snd (httpx_with_gateway_retries req jit max_retries))). d \<le> 30)"
  using retry_loop_requests[of 0 max_retries max_retries req jit 0 None "[]"] assms
    retry_loop_sleeps[where evs = "[]"]
  by (auto simp: httpx_with_gateway_retries_def)

definition busy_gateway :: "nat \<Rightarrow> exn + http_response" where
  "busy_gateway n = Inr \<lparr>hr_status = (if n < 2 then 503 else 200), hr_text = [], hr_json = None,
     hr_retry_after = Some ''120''\<rparr>"

theorem retries_bounded_witness:
  "requests (snd (httpx_with_gateway_retries busy_gateway (\<lambda>n. 0) 5)) = [0, 1, 2] \<and>
   list_all (\<lambda>d. d \<le> 30) (sleeps (snd (httpx_with_gateway_retries busy_gateway (\<lambda>n. 0) 5)))"
proof
  show "requests (snd (httpx_with_gateway_retries busy_gateway (\<lambda>n. 0) 5)) = [0, 1, 2]" by code_simp
  show "list_all (\<lambda>d. d \<le> 30) (sleeps (snd (httpx_with_gateway_retries busy_gateway (\<lambda>n. 0) 5)))"
    unfolding list_all_iff using retries_bounded[of 5 busy_gateway "\<lambda>n. 0"] by auto
qed

section \<open>Cached authorizations\<close>

text \<open>After any sequence of stores and lookups on an empty authorization cache, a lookup returns
  an authorization only if it is the last one stored for that tool call and operation, no older than
  the time to live, and made for the expected operation, amount and tool.\<close>

theorem authorization_is_last_stored:
  assumes "fst (take_valid_cached_authorization
      (run_cache store_authorization (\<lambda>c k q n1 n2. take_valid_cached_authorization c k q AUTHORIZATION_CACHE_TTL_SEC n2) ops [])
      k q AUTHORIZATION_CACHE_TTL_SEC now) = Some e"
  shows "(\<exists>v t. last_put (\<lambda>k. k) (\<lambda>_ _. True) ops k None = Some (v, t) \<and> e = v\<lparr>ce_cached_at := t\<rparr> \<and>
      now - t \<le> AUTHORIZATION_CACHE_TTL_SEC) \<and>
    ce_operation e = cx_operation q \<and> ce_requested_spend_cents e = cx_requested_spend_cents q \<and>
    ce_tool_name e = cx_tool_name q"
proof -
  have "\<exists>v t. last_put (\<lambda>k. k) (\<lambda>_ _. True) ops k None = Some (v, t) \<and> e = v\<lparr>ce_cached_at := t\<rparr> \<and>
      now - t \<le> AUTHORIZATION_CACHE_TTL_SEC"
    by (rule authorizations.take_returns_last_put[OF _ _ assms]) (simp_all add: wf_dict_def auth_contents_def)
  then show ?thesis using assms by (simp add: take_valid_Some)
qed

definition toy_entry :: cached_entry where
  "toy_entry = \<lparr>ce_auth = \<lparr>vr_allow = True, vr_audit_id = sample_intent, vr_tenant = ''acme'', vr_intent_id = sample_intent,
       vr_code = JNull, vr_message = JNull, vr_decision_id = None, vr_approval_request_id = None,
       vr_policy_version = None, vr_reason_codes = [], vr_spend_scope = None, vr_remaining_cents = None,
       vr_retry_after = None\<rparr>,
     ce_policy_digest = None, ce_operation = ''travel.book'', ce_requested_spend_cents = Some 500,
     ce_tool_name = ''book'', ce_cached_at = 0, ce_authorized_at_ms = 0\<rparr>"

theorem authorization_is_last_stored_witness:
  "last_put (\<lambda>k. k) (\<lambda>_ _. True) [Put ''c1:travel.book'' toy_entry 0 3 :: (string, cached_entry, cache_expectation) cache_op]
     ''c1:travel.book'' None \<noteq> None \<and>
   fst (take_valid_cached_authorization (store_authorization [] ''c1:travel.book'' toy_entry 0 3) ''c1:travel.book''
     \<lparr>cx_operation = ''travel.book'', cx_requested_spend_cents = Some 500, cx_tool_name = ''book''\<rparr>
     AUTHORIZATION_CACHE_TTL_SEC 10) = Some (toy_entry\<lparr>ce_cached_at := 3\<rparr>)"
proof -
  have f: "fst (take_valid_cached_authorization (store_authorization [] ''c1:travel.book'' toy_entry 0 3) ''c1:travel.book''
     \<lparr>cx_operation = ''travel.book'', cx_requested_spend_cents = Some 500, cx_tool_name = ''book''\<rparr>
     AUTHORIZATION_CACHE_TTL_SEC 10) = Some (toy_entry\<lparr>ce_cached_at := 3\<rparr>)"
    by (simp add: take_valid_Some store_authorization_def evict_expired_authorization_cache_def toy_entry_def
        AUTHORIZATION_CACHE_TTL_SEC_def del_keys_def)
  show ?thesis
    using authorization_is_last_stored[of "[Put ''c1:travel.book'' toy_entry 0 3]" "''c1:travel.book''"
        "\<lparr>cx_operation = ''travel.book'', cx_requested_spend_cents = Some 500, cx_tool_name = ''book''\<rparr>" 10
        "toy_entry\<lparr>ce_cached_at := 3\<rparr>"] f by auto
qed

section \<open>Registries and digests\<close>

text \<open>C30: The registry a policy builds is well formed: its tools are exactly the side-effecting tools of
  the policy, each with a stripped non-empty operation that no other tool has and an evidence preset of
  the catalog, and it denies by default as the policy says.\<close>

theorem policy_registry_sound:
  assumes "policy_to_tool_registry cat d = Inr r" "wf_dict (d1_tools d)"
  shows "wf_registry cat r \<and> rg_default_deny r = d1_default_deny d \<and>
    keys (rg_side_effecting r) = keys (filter (\<lambda>(n, e). pt_side_effecting e) (d1_tools d))"
proof -
  let ?cfg = "policy_document_to_tool_registry_config d"
  have ks: "keys (rc_side_effecting ?cfg) = keys (filter (\<lambda>(n, e). pt_side_effecting e) (d1_tools d))"
    by (simp add: policy_document_to_tool_registry_config_def comp_def case_prod_unfold)
  have "wf_dict (rc_side_effecting ?cfg)"
    using wf_dict_filter[OF assms(2)] ks by (simp add: wf_dict_def)
  from create_tool_registry_ok[OF assms(1)[unfolded policy_to_tool_registry_def] this] ks show ?thesis
    by (simp add: policy_document_to_tool_registry_config_def)
qed

theorem policy_registry_sound_witness:
  "\<exists>r. policy_to_tool_registry [sample_preset] sample_document = Inr r \<and> wf_registry [sample_preset] r"
proof -
  have "is_inr (policy_to_tool_registry [sample_preset] sample_document)" by code_simp
  then obtain r where r: "policy_to_tool_registry [sample_preset] sample_document = Inr r"
    by (auto simp: is_inr_def split: sum.splits)
  from policy_registry_sound[OF r] r show ?thesis by (simp add: sample_document_def wf_dict_def)
qed

text \<open>The digest of a policy does not depend on the order in which its tools are written.\<close>

theorem digest_ignores_tool_order:
  assumes "wf_dict (d1_tools d)" "mset ts = mset (d1_tools d)"
  shows "canonical_policy_document_digest sha256 (d\<lparr>d1_tools := ts\<rparr>) = canonical_policy_document_digest sha256 d"
  using assms by (rule canonical_digest_tool_order)

definition two_tools :: document_v1 where
  "two_tools = sample_document\<lparr>d1_tools := (''read'', \<lparr>pt_side_effecting = False, pt_max_spend_cents = None,
     pt_spend_from_args = None, pt_evidence_preset = None, pt_vendor_pack = None, pt_operation = None\<rparr>) #
     d1_tools sample_document\<rparr>"

theorem digest_ignores_tool_order_witness:
  "canonical_policy_document_digest (\<lambda>s. s) (two_tools\<lparr>d1_tools := rev (d1_tools two_tools)\<rparr>) =
   canonical_policy_document_digest (\<lambda>s. s) two_tools"
  by (rule digest_ignores_tool_order) (simp_all add: two_tools_def sample_document_def wf_dict_def)

end
