(* ===== verification/Receipt_Facts.thy ===== *)
theory Receipt_Facts
  imports Receipt_Verify
begin

text \<open>
  Facts about the normalization of receipts: a normalized part is a fixed point of its own
  normalization, as long as no optional free text in it is blank.
\<close>

named_theorems receipt_eval "definitions that evaluate the access to a dictionary"

section \<open>Stripped lower-case texts\<close>

declare py_space_lower_char [simp] lower_char_lower_char [simp] lower_lower [simp] lower_Nil [simp]
  lower_Nil_iff [simp] strip_lower [simp]

lemma json_text_JStr [simp]: "json_text (JStr s) = s"
  by (simp add: json_text_def)

lemma truthy_simps [simp]:
  "\<not> truthy JNull" "truthy (JBool b) = b" "truthy (JInt i) = (i \<noteq> 0)" "truthy (JStr s) = (s \<noteq> [])"
  "truthy (JArr l) = (l \<noteq> [])" "truthy (JObj d) = (d \<noteq> [])"
  by (simp_all (no_asm_simp) add: truthy_def)

lemma py_int_JInt [simp]: "py_int (JInt i) = Inr i"
  by (simp add: py_int_def)

text \<open>Lookups in a dictionary display, so that those in an unknown dictionary stay as they are.\<close>

lemma display_lookup [receipt_eval]:
  "jget [] k = JNull" "jget ((k', v) # d) k = (if k' = k then v else jget d k)"
  "body_item [] k = Inl (KeyError k)" "body_item ((k', v) # d) k = (if k' = k then Inr v else body_item d k)"
  "get_str [] k x = x" "get_str ((k', v) # d) k x = (if k' = k then json_text v else get_str d k x)"
  "or_text [] k = []"
  "or_text ((k', v) # d) k = (if k' = k then strip (if truthy v then json_text v else []) else or_text d k)"
  by (simp_all add: jget_def body_item_def get_str_def or_text_def)

lemma or_lower_lookup [receipt_eval]:
  "or_lower [] k = []"
  "or_lower ((k', v) # d) k = (if k' = k then lower (strip (if truthy v then json_text v else [])) else or_lower d k)"
  by (simp_all add: or_lower_def display_lookup)

lemma strip_or_text [simp]: "strip (or_text d k) = or_text d k" "strip (or_lower d k) = or_lower d k"
  by (simp_all add: or_text_def or_lower_def)

lemma lower_or_lower [simp]: "lower (or_lower d k) = or_lower d k"
  by (simp add: or_lower_def)

lemmas text_eval [receipt_eval] =
  item_str_def item_text_def item_lower_def
  item_map_def as_mapping_def int_item_def item_uuid_def

section \<open>Checked texts\<close>

lemma normalize_scope_token_Inr:
  "normalize_scope_token s f = Inr t \<longleftrightarrow> t = lower (strip s) \<and> t \<noteq> [] \<and> scope_token_re t"
  by (auto simp: normalize_scope_token_def rbind_Inr_iff Let_def)

lemma parse_uuid_text_Inr: "parse_uuid_text s f = Inr t \<longleftrightarrow> t = lower (strip s) \<and> uuid_re t"
  by (auto simp: parse_uuid_text_def rbind_Inr_iff Let_def)

lemma require_hex64_text_Inr [simp]: "require_hex64_text s f = Inr u \<longleftrightarrow> hex64_re s"
  by (simp add: require_hex64_text_def)

lemma uuid_re_nonempty [simp]: "\<not> uuid_re []"
  by (simp add: uuid_re_def)

lemma hex64_re_nonempty [simp]: "\<not> hex64_re []"
  by (simp add: hex64_re_def)

lemma checked_nonempty [simp]:
  "hex64_re (lower (strip s)) \<Longrightarrow> strip s \<noteq> []" "uuid_re (lower (strip s)) \<Longrightarrow> strip s \<noteq> []"
  by auto

definition reads_back :: "(string \<Rightarrow> exn + int) \<Rightarrow> bool" where
  "reads_back utc \<longleftrightarrow>
     (\<forall>s us. utc s = Inr us \<longrightarrow>
        utc (replace_z (strftime_utc (us div 1000000))) = Inr (us div 1000000 * 1000000))"

text \<open>A formatted timestamp is a fixed point of the formatting.\<close>

definition is_timestamp :: "(string \<Rightarrow> exn + int) \<Rightarrow> string \<Rightarrow> bool" where
  "is_timestamp utc t \<longleftrightarrow> format_rfc3339_seconds utc t = Inr t"

lemma format_again:
  "\<lbrakk>format_rfc3339_seconds utc s = Inr t; reads_back utc\<rbrakk> \<Longrightarrow> is_timestamp utc t"
  by (auto simp: is_timestamp_def format_rfc3339_seconds_def rbind_Inr_iff reads_back_def)

lemma format_timestamp [simp]: "is_timestamp utc t \<Longrightarrow> format_rfc3339_seconds utc t = Inr t"
  by (simp add: is_timestamp_def)

section \<open>Conditional entries\<close>

lemma if_truthyE:
  assumes "if_truthy d k f = Inr es"
  obtains "es = []" | v where "f (jget d k) = Inr v" "es = [(k, v)]"
  using assms by (auto simp: if_truthy_def rbind_Inr_iff split: if_splits)

lemma if_givenE:
  assumes "if_given d k f = Inr es"
  obtains "es = []" | v where "f (jget d k) = Inr v" "es = [(k, v)]"
  using assms by (auto simp: if_given_def rbind_Inr_iff split: if_splits)

lemma opt_hex64E:
  assumes "opt_hex64 d k = Inr es"
  obtains "es = []" "or_lower d k = []" | t where "es = [(k, JStr t)]" "hex64_re t" "lower (strip t) = t" "t \<noteq> []"
  using assms by (auto simp: opt_hex64_def rbind_Inr_iff Let_def or_lower_def or_text_def split: if_splits)

lemma conversions_Inr:
  "to_text v = Inr x \<longleftrightarrow> x = JStr (strip (json_text v))"
  "to_int v = Inr x \<longleftrightarrow> (\<exists>i. py_int v = Inr i \<and> x = JInt i)"
  "to_token f v = Inr x \<longleftrightarrow> (\<exists>t. x = JStr t \<and> t = lower (strip (json_text v)) \<and> t \<noteq> [] \<and> scope_token_re t)"
  "to_uuid f v = Inr x \<longleftrightarrow> (\<exists>t. x = JStr t \<and> t = lower (strip (json_text v)) \<and> uuid_re t)"
  "to_hex64 f v = Inr x \<longleftrightarrow> (\<exists>t. x = JStr t \<and> t = lower (strip (json_text v)) \<and> hex64_re t)"
  "to_bool v = Inr x \<longleftrightarrow> x = JBool (truthy v)"
  "to_duration v = Inr x \<longleftrightarrow> (\<exists>i. py_int v = Inr i \<and> 0 \<le> i \<and> x = JInt i)"
  by (auto simp: to_text_def to_int_def to_token_def to_uuid_def to_hex64_def to_bool_def to_duration_def
      normalize_scope_token_Inr parse_uuid_text_Inr rbind_Inr_iff Let_def)

lemmas conversion_eval [receipt_eval] =
  if_truthy_def if_given_def opt_hex64_def to_text_def to_int_def to_token_def to_uuid_def to_hex64_def
  to_bool_def to_duration_def normalize_scope_token_def parse_uuid_text_def
  require_hex64_text_def Let_def

section \<open>The parts\<close>

text \<open>The continuation of a computation is simplified only once its first part has a value.\<close>

lemma rbind_weak_cong: "m = m' \<Longrightarrow> rbind m f = rbind m' f"
  by simp

lemmas part_run = rbind_Inr_iff normalize_scope_token_Inr parse_uuid_text_Inr item_lower_def item_text_def

lemma normalize_agent_again:
  assumes "normalize_agent d = Inr n" "map_of n ''model_instance_id'' \<noteq> Some (JStr [])"
  shows "normalize_agent n = Inr n"
  using assms
  apply (clarsimp simp: normalize_agent_def[of d] part_run)
  by (elim if_truthyE if_givenE; clarsimp simp: conversions_Inr; simp (no_asm_simp) add: normalize_agent_def receipt_eval cong: rbind_weak_cong)

lemma normalize_policy_again:
  assumes "normalize_policy d = Inr n"
  shows "normalize_policy n = Inr n"
  using assms
  apply (clarsimp simp: normalize_policy_def[of d] part_run)
  by (elim if_truthyE if_givenE; clarsimp simp: conversions_Inr; simp (no_asm_simp) add: normalize_policy_def receipt_eval cong: rbind_weak_cong)

lemma normalize_merchant_again:
  assumes "normalize_merchant d = Inr n" "map_of n ''vendor_ref_id'' \<noteq> Some (JStr [])"
  shows "normalize_merchant n = Inr n"
  using assms
  apply (clarsimp simp: normalize_merchant_def[of d] part_run)
  by (elim if_truthyE if_givenE; clarsimp simp: conversions_Inr; simp (no_asm_simp) add: normalize_merchant_def receipt_eval cong: rbind_weak_cong)

lemma normalize_evidence_again:
  assumes "normalize_evidence d = Inr n"
  shows "normalize_evidence n = Inr n"
  using assms
  apply (clarsimp simp: normalize_evidence_def[of d] part_run)
  apply (elim if_truthyE if_givenE; clarsimp simp: conversions_Inr)
     apply (auto simp: normalize_evidence_def receipt_eval cong: rbind_weak_cong)
  done

lemma normalize_payment_again:
  assumes "normalize_payment d = Inr n" "map_of n ''funding_reference'' \<noteq> Some (JStr [])"
  shows "normalize_payment n = Inr n"
  using assms
  apply (clarsimp simp: normalize_payment_def[of d] part_run item_uuid_def)
  apply (elim if_truthyE if_givenE; clarsimp simp: conversions_Inr)
         apply (auto simp: normalize_payment_def receipt_eval cong: rbind_weak_cong)
  done

lemma normalize_attestation_again:
  assumes "normalize_attestation d = Inr n" "map_of n ''reference_id'' \<noteq> Some (JStr [])"
  shows "normalize_attestation n = Inr n"
  using assms
  apply (clarsimp simp: normalize_attestation_def[of d] part_run)
  by (elim if_truthyE if_givenE; clarsimp simp: conversions_Inr; simp (no_asm_simp) add: normalize_attestation_def receipt_eval cong: rbind_weak_cong)

lemma normalize_operator_attestation_again:
  assumes "normalize_operator_attestation d = Inr n"
  shows "normalize_operator_attestation n = Inr n"
  using assms
  apply (clarsimp simp: normalize_operator_attestation_def[of d] part_run)
  by (simp add: normalize_operator_attestation_def receipt_eval cong: rbind_weak_cong)

lemma normalize_execution_again:
  assumes "normalize_execution utc d = Inr n" "reads_back utc"
  shows "normalize_execution utc n = Inr n"
  using assms
  apply (clarsimp simp: normalize_execution_def[of utc d] part_run item_uuid_def item_time_def)
  apply (drule(1) format_again)+
  apply (elim if_truthyE if_givenE opt_hex64E; clarsimp simp: conversions_Inr)
         apply (simp_all (no_asm_simp) add: normalize_execution_def item_time_def receipt_eval cong: rbind_weak_cong)
  done

lemma settlement_receipt_again:
  "settlement_receipt_of v = Inr s \<Longrightarrow> settlement_receipt_of s = Inr s"
  by (auto simp: settlement_receipt_of_def rbind_Inr_iff Let_def split: if_splits)

lemma normalize_references_again:
  assumes "normalize_references j = Inr n"
  shows "normalize_references (JObj n) = Inr n"
  using assms
  apply (clarsimp simp: normalize_references_def[of j] part_run item_uuid_def split: json.splits)
  apply (drule settlement_receipt_again)
  apply (auto simp: normalize_references_def receipt_eval cong: rbind_weak_cong split: if_splits)
  done

lemma settlement_outcome_entryE:
  assumes "settlement_outcome_entry d scope = Inr es"
  obtains "es = []" | t where "es = [(''settlement_outcome'', JStr t)]" "strip t = t" "t \<noteq> []" "scope = ''intent_terminal''"
    "t \<in> set SETTLEMENT_OUTCOMES"
proof (cases "or_text d ''settlement_outcome'' = []")
  case False
  moreover have "strip (or_text d ''settlement_outcome'') = or_text d ''settlement_outcome''"
    by (simp add: or_text_def)
  ultimately show thesis
    using assms that(2) by (clarsimp simp: settlement_outcome_entry_def rbind_Inr_iff Let_def)
qed (use assms that(1) in \<open>simp add: settlement_outcome_entry_def\<close>)

lemma outcomes_nonempty [simp]: "[] \<notin> set SPEND_OUTCOMES" "[] \<notin> set EXECUTION_OUTCOMES" "[] \<notin> set SETTLEMENT_OUTCOMES"
  by (simp_all (no_asm_simp) add: SPEND_OUTCOMES_def EXECUTION_OUTCOMES_def SETTLEMENT_OUTCOMES_def)

lemma to_spend_outcome_Inr:
  "to_spend_outcome v = Inr x \<longleftrightarrow> (\<exists>t. x = JStr t \<and> t = lower (strip (json_text v)) \<and> t \<in> set SPEND_OUTCOMES)"
  by (auto simp: to_spend_outcome_def rbind_Inr_iff Let_def)

lemma spend_outcome_nonempty [simp]: "lower (strip s) \<in> set SPEND_OUTCOMES \<Longrightarrow> strip s \<noteq> []"
  using outcomes_nonempty(1) by (metis lower_Nil)

lemma normalize_outcome_again:
  assumes "normalize_outcome d scope = Inr n"
  shows "normalize_outcome n scope = Inr n"
  using assms
  apply (clarsimp simp: normalize_outcome_def[of d] part_run)
  apply (elim if_truthyE if_givenE settlement_outcome_entryE;
      clarsimp simp: conversions_Inr to_spend_outcome_Inr)
         apply (simp_all (no_asm_simp) add: normalize_outcome_def settlement_outcome_entry_def to_spend_outcome_def receipt_eval cong: rbind_weak_cong)
  done

lemma normalize_continuity_again:
  assumes "normalize_continuity d e = Inr n"
  shows "normalize_continuity n e = Inr n"
  using assms
  apply (clarsimp simp: normalize_continuity_def[of d] part_run Let_def)
  apply (auto simp: normalize_continuity_def receipt_eval cong: rbind_weak_cong split: if_splits)
  done

section \<open>The scope set\<close>

definition canonical_token :: "string \<Rightarrow> bool" where
  "canonical_token t \<longleftrightarrow> lower (strip t) = t \<and> t \<noteq> [] \<and> scope_token_re t"

lemma scope_set_loop_sound:
  "\<lbrakk>scope_set_loop f vs out = Inr ts; distinct out; list_all canonical_token out\<rbrakk>
   \<Longrightarrow> distinct ts \<and> list_all canonical_token ts"
proof (induction f vs out rule: scope_set_loop.induct)
  case (2 f v vs out)
  from 2(2) obtain s t where st: "str_method v = Inr s" "normalize_scope_token s f = Inr t"
    "scope_set_loop f vs (push_new out t) = Inr ts"
    by (auto simp: rbind_Inr_iff)
  moreover have "canonical_token t"
    using st(2) by (auto simp: normalize_scope_token_Inr canonical_token_def)
  ultimately show ?case
    using 2(1)[OF st(3)] 2(3,4) by (auto simp: push_new_def)
qed simp

lemma scope_set_loop_again:
  "\<lbrakk>distinct (out @ ts); list_all canonical_token ts\<rbrakk>
   \<Longrightarrow> scope_set_loop f (List.map JStr ts) out = Inr (out @ ts)"
proof (induction ts arbitrary: out)
  case (Cons t ts)
  have "normalize_scope_token t f = Inr t"
    using Cons.prems(2) by (simp add: normalize_scope_token_Inr canonical_token_def)
  moreover have "push_new out t = out @ [t]" using Cons.prems(1) by (simp add: push_new_def)
  ultimately show ?case using Cons.IH[of "out @ [t]"] Cons.prems by (simp add: str_method_def)
qed simp

lemma normalize_scope_set_again:
  assumes "normalize_scope_set v f = Inr ts"
  shows "normalize_scope_set (JArr (List.map JStr ts)) f = Inr ts"
proof -
  have "distinct ts \<and> list_all canonical_token ts"
    using assms by (auto simp: normalize_scope_set_def rbind_Inr_iff dest: scope_set_loop_sound split: if_splits)
  then show ?thesis
    using scope_set_loop_again[of "[]" ts f] by (simp add: normalize_scope_set_def iter_items_def)
qed

section \<open>The authorization\<close>

lemma normalize_authorization_again:
  assumes "normalize_authorization utc d = Inr n" "reads_back utc"
    and "\<And>a. map_of n ''agent'' = Some (JObj a) \<Longrightarrow> map_of a ''model_instance_id'' \<noteq> Some (JStr [])"
  shows "normalize_authorization utc n = Inr n"
  using assms
  apply (clarsimp simp: normalize_authorization_def[of utc d] part_run item_uuid_def item_time_def Let_def)
  apply (drule normalize_policy_again, drule normalize_scope_set_again, drule(1) normalize_agent_again, drule(1) format_again)
  apply (elim if_truthyE opt_hex64E; clarsimp simp: conversions_Inr)
  apply (simp_all (no_asm_simp) add: normalize_authorization_def item_time_def receipt_eval cong: rbind_weak_cong)
  done

section \<open>The whole receipt\<close>

text \<open>
  The optional free texts that are kept although they are blank after \<open>strip\<close>; a normalized
  receipt that has one is normalized again to a different receipt.
\<close>

definition sub_dict :: "(string, json) dict \<Rightarrow> string \<Rightarrow> (string, json) dict" where
  "sub_dict d k = (case jget d k of JObj m \<Rightarrow> m | _ \<Rightarrow> [])"

definition sub_list :: "(string, json) dict \<Rightarrow> string \<Rightarrow> json list" where
  "sub_list d k = (case jget d k of JArr l \<Rightarrow> l | _ \<Rightarrow> [])"

definition not_blank :: "string \<Rightarrow> (string, json) dict \<Rightarrow> bool" where
  "not_blank k d \<longleftrightarrow> jget d k \<noteq> JStr []"

definition no_blank_texts :: "(string, json) dict \<Rightarrow> bool" where
  "no_blank_texts n \<longleftrightarrow>
     not_blank ''model_instance_id'' (sub_dict (sub_dict n ''authorization'') ''agent'') \<and>
     not_blank ''vendor_ref_id'' (sub_dict n ''merchant'') \<and>
     not_blank ''funding_reference'' (sub_dict n ''payment'') \<and>
     list_all (\<lambda>a. case a of JObj m \<Rightarrow> not_blank ''reference_id'' m | _ \<Rightarrow> True) (sub_list n ''external_attestations'')"

lemma not_blank_map_of: "not_blank k d \<Longrightarrow> map_of d k \<noteq> Some (JStr [])"
  by (auto simp: not_blank_def jget_def)

text \<open>An optional entry, and the lookup of its key behind other entries.\<close>

definition is_entry :: "string \<Rightarrow> (string, json) dict \<Rightarrow> bool" where
  "is_entry k es \<longleftrightarrow> (case es of [] \<Rightarrow> True | [e] \<Rightarrow> fst e = k | _ \<Rightarrow> False)"

definition entry_value :: "(string, json) dict \<Rightarrow> json" where
  "entry_value es = (case es of [] \<Rightarrow> JNull | e # _ \<Rightarrow> snd e)"

lemma jget_skip: "\<lbrakk>is_entry k' es; k' \<noteq> k\<rbrakk> \<Longrightarrow> jget (es @ d) k = jget d k"
  by (auto simp: is_entry_def display_lookup split: list.splits)

lemma jget_hit: "\<lbrakk>is_entry k es; jget d k = JNull\<rbrakk> \<Longrightarrow> jget (es @ d) k = entry_value es"
  by (auto simp: is_entry_def entry_value_def display_lookup split: list.splits)

lemma jget_skip_end: "\<lbrakk>is_entry k' es; k' \<noteq> k\<rbrakk> \<Longrightarrow> jget es k = JNull"
  using jget_skip[of k' es k "[]"] by (simp add: display_lookup)

lemma jget_hit_end: "is_entry k es \<Longrightarrow> jget es k = entry_value es"
  using jget_hit[of k es "[]"] by (simp add: display_lookup)

lemma part_entryE:
  assumes "part_entry d k f = Inr es"
  obtains "es = []" | m n where "f m = Inr n" "es = [(k, JObj n)]"
  using assms by (auto simp: part_entry_def rbind_Inr_iff elim!: if_givenE)

lemma part_entry_is_entry: "part_entry d k f = Inr es \<Longrightarrow> is_entry k es"
  by (erule part_entryE) (auto simp: is_entry_def)

lemma part_entry_again:
  assumes "part_entry d k f = Inr es" "jget n k = entry_value es"
    and "\<And>m n'. \<lbrakk>f m = Inr n'; es = [(k, JObj n')]\<rbrakk> \<Longrightarrow> f n' = Inr n'"
  shows "part_entry n k f = Inr es"
  using assms(1)
proof (cases rule: part_entryE)
  case 1
  then show ?thesis using assms(2) by (simp add: part_entry_def if_given_def entry_value_def)
next
  case (2 m n')
  then show ?thesis using assms(2,3) by (simp add: part_entry_def if_given_def entry_value_def as_mapping_def)
qed

lemma external_attestations_again:
  assumes "normalize_external_attestations v = Inr atts"
    and "list_all (not_blank ''reference_id'') atts"
  shows "normalize_external_attestations (JArr (List.map JObj atts)) = Inr atts"
proof -
  from assms(1) obtain vs where "list_all2 (\<lambda>v a. \<exists>m. as_mapping v = Inr m \<and> normalize_attestation m = Inr a) vs atts"
    by (auto simp: normalize_external_attestations_def rbind_Inr_iff rmap_Inr_iff)
  then have "normalize_attestation a = Inr a" if a: "a \<in> set atts" for a
  proof -
    from a obtain i where i: "i < length atts" "a = atts ! i" by (auto simp: in_set_conv_nth)
    then obtain m where m: "normalize_attestation m = Inr a"
      using \<open>list_all2 _ vs atts\<close> by (auto simp: list_all2_conv_all_nth)
    have "not_blank ''reference_id'' a" using a assms(2) by (simp add: list_all_iff)
    then show ?thesis by (rule normalize_attestation_again[OF m not_blank_map_of])
  qed
  then show ?thesis
    by (auto simp: normalize_external_attestations_def iter_items_def as_mapping_def intro!: rmap_map_Inr)
qed

lemma execution_again:
  assumes "execution_of utc d scope = Inr e" "reads_back utc"
    and "jget n ''execution'' = (case e of None \<Rightarrow> JNull | Some x \<Rightarrow> JObj x)"
  shows "execution_of utc n scope = Inr e"
proof (cases "scope = ''action''")
  case True
  with assms(1) obtain m x where "normalize_execution utc m = Inr x" "e = Some x"
    by (auto simp: execution_of_def rbind_Inr_iff)
  moreover have "map_of n ''execution'' = Some (JObj x)"
    using assms(3) \<open>e = Some x\<close> by (auto simp: jget_def split: option.splits)
  ultimately show ?thesis
    using True normalize_execution_again[OF _ assms(2)]
    by (simp add: execution_of_def item_map_def body_item_def as_mapping_def jget_def)
qed (use assms(1) in \<open>simp add: execution_of_def\<close>)


text \<open>What a normalized receipt is made of.\<close>

lemma normalize_receiptE:
  assumes "normalize_receipt H utc d = Inr n"
  obtains scope authorization references atts outcome e issued rid tid md pk sg alg me ev pa co oa m1 m2 r0 a0 s0 where
    "n = [(''schema_version'', JInt 1), (''kind'', JStr AGENT_RECEIPT_KIND_V1),
        (''receipt_version'', JStr AGENT_RECEIPT_VERSION_V1), (''scope'', JStr scope),
        (''receipt_id'', JStr rid), (''issued_at'', JStr issued), (''tenant_id'', JStr tid),
        (''authorization'', JObj authorization), (''outcome'', JObj outcome), (''references'', JObj references),
        (''external_attestations'', JArr (List.map JObj atts)), (''signing_algorithm'', JStr alg),
        (''message_digest_sha256_hex'', JStr md), (''signing_public_key_ed25519_hex'', JStr pk),
        (''ed25519_signature_hex'', JStr sg)]
       @ (case e of None \<Rightarrow> [] | Some x \<Rightarrow> [(''execution'', JObj x)]) @ me @ ev @ pa @ co @ oa"
    "lower (strip scope) = scope" "scope \<in> set [''action'', ''intent_terminal'']"
    "lower (strip rid) = rid" "rid \<noteq> []" "strip tid = tid" "tid \<noteq> []"
    "lower (strip alg) = alg" "alg \<noteq> []" "lower (strip md) = md" "lower (strip pk) = pk" "lower (strip sg) = sg"
    "normalize_authorization utc m1 = Inr authorization"
    "normalize_references r0 = Inr references"
    "normalize_external_attestations a0 = Inr atts"
    "verify_mandate_authorization_consistency authorization atts = Inr ()"
    "normalize_outcome m2 scope = Inr outcome"
    "execution_of utc d scope = Inr e"
    "format_rfc3339_seconds utc s0 = Inr issued"
    "part_entry d ''merchant'' normalize_merchant = Inr me" "part_entry d ''evidence'' normalize_evidence = Inr ev"
    "part_entry d ''payment'' normalize_payment = Inr pa"
    "part_entry d ''continuity'' (\<lambda>c. normalize_continuity c e) = Inr co"
    "part_entry d ''operator_attestation'' normalize_operator_attestation = Inr oa"
    "verify_receipt_id H n = Inr ()"
proof -
  have alg: "lower (strip (text_or (lower (strip s)) SIGNING_ALGORITHM)) = text_or (lower (strip s)) SIGNING_ALGORITHM"
    "text_or (lower (strip s)) SIGNING_ALGORITHM \<noteq> []" for s
  proof -
    have "lower (strip SIGNING_ALGORITHM) = SIGNING_ALGORITHM" by code_simp
    then show "lower (strip (text_or (lower (strip s)) SIGNING_ALGORITHM)) = text_or (lower (strip s)) SIGNING_ALGORITHM"
      by (simp add: text_or_def)
    show "text_or (lower (strip s)) SIGNING_ALGORITHM \<noteq> []" by (simp add: text_or_def SIGNING_ALGORITHM_def)
  qed
  have low: "\<lbrakk>lower y = x; strip z = y\<rbrakk> \<Longrightarrow> lower (strip x) = x" for x y z by auto
  have str: "strip z = x \<Longrightarrow> strip x = x" for x z by auto
  have unit: "x = Inr u \<Longrightarrow> x = Inr ()" for x :: "exn + unit" and u by simp
  have vid: "\<lbrakk>verify_receipt_id H l = Inr u; l = n\<rbrakk> \<Longrightarrow> verify_receipt_id H n = Inr ()" for l u by simp
  show thesis
    using assms
    unfolding normalize_receipt_def Let_def rbind_Inr_iff ensure_Inr_iff item_lower_def item_text_def
      item_time_def sum.inject
    apply (elim exE conjE)
    apply (rule that)
                        apply (erule sym)
                       apply (assumption | rule alg | erule (1) low | erule str | erule unit | erule (1) vid)+
    done
qed

lemma is_entry_case [simp]: "is_entry k (case e of None \<Rightarrow> [] | Some x \<Rightarrow> [(k, v x)])"
  by (simp add: is_entry_def split: option.split)

lemma schema_version_1 [simp]: "schema_version_ok (JInt 1)"
  by (simp add: schema_version_ok_def)

lemma constants_stripped [simp]:
  "strip AGENT_RECEIPT_KIND_V1 = AGENT_RECEIPT_KIND_V1" "strip AGENT_RECEIPT_VERSION_V1 = AGENT_RECEIPT_VERSION_V1"
  by code_simp+

text \<open>The lookups in a normalized receipt.\<close>

lemma normalized_lookups:
  assumes "normalize_receipt H utc d = Inr n"
  obtains scope rid md pk sg alg references authorization atts outcome e me ev pa co oa m1 r0 m2 a0 where
    "jget n ''scope'' = JStr scope" "scope = ''action'' \<or> scope = ''intent_terminal''"
    "jget n ''receipt_id'' = JStr rid" "jget n ''message_digest_sha256_hex'' = JStr md" "lower (strip md) = md"
    "jget n ''signing_public_key_ed25519_hex'' = JStr pk" "lower (strip pk) = pk"
    "jget n ''ed25519_signature_hex'' = JStr sg" "jget n ''signing_algorithm'' = JStr alg"
    "jget n ''references'' = JObj references" "jget n ''authorization'' = JObj authorization"
    "jget n ''outcome'' = JObj outcome" "jget n ''external_attestations'' = JArr (List.map JObj atts)"
    "jget n ''execution'' = (case e of None \<Rightarrow> JNull | Some x \<Rightarrow> JObj x)"
    "jget n ''merchant'' = entry_value me" "jget n ''evidence'' = entry_value ev"
    "jget n ''payment'' = entry_value pa" "jget n ''continuity'' = entry_value co"
    "jget n ''operator_attestation'' = entry_value oa"
    "normalize_authorization utc m1 = Inr authorization" "normalize_references r0 = Inr references"
    "normalize_outcome m2 scope = Inr outcome" "normalize_external_attestations a0 = Inr atts"
    "verify_mandate_authorization_consistency authorization atts = Inr ()"
    "execution_of utc d scope = Inr e"
    "part_entry d ''merchant'' normalize_merchant = Inr me" "part_entry d ''evidence'' normalize_evidence = Inr ev"
    "part_entry d ''payment'' normalize_payment = Inr pa"
    "part_entry d ''continuity'' (\<lambda>c. normalize_continuity c e) = Inr co"
    "part_entry d ''operator_attestation'' normalize_operator_attestation = Inr oa"
    "verify_receipt_id H n = Inr ()"
  using assms
proof (cases rule: normalize_receiptE)
  case (1 scope authorization references atts outcome e issued rid tid md pk sg alg me ev pa co oa m1 m2 r0 a0 s0)
  define R where "R = (case e of None \<Rightarrow> [] | Some x \<Rightarrow> [(''execution'', JObj x)]) @ me @ ev @ pa @ co @ oa"
  note n = 1(1)[folded R_def] and parts = 1(20-24)
  have ent: "is_entry ''merchant'' me" "is_entry ''evidence'' ev" "is_entry ''payment'' pa"
    "is_entry ''continuity'' co" "is_entry ''operator_attestation'' oa"
    using parts by (auto dest: part_entry_is_entry)
  have rest: "jget R ''execution'' = (case e of None \<Rightarrow> JNull | Some x \<Rightarrow> JObj x)"
    "jget R ''merchant'' = entry_value me" "jget R ''evidence'' = entry_value ev"
    "jget R ''payment'' = entry_value pa" "jget R ''continuity'' = entry_value co"
    "jget R ''operator_attestation'' = entry_value oa"
    unfolding R_def using ent
    by (cases e; simp add: display_lookup jget_skip[OF ent(1)] jget_skip[OF ent(2)] jget_skip[OF ent(3)]
        jget_skip[OF ent(4)] jget_skip_end[OF ent(5)] jget_hit jget_hit_end)+
  have look: "jget n ''scope'' = JStr scope" "jget n ''receipt_id'' = JStr rid"
    "jget n ''message_digest_sha256_hex'' = JStr md" "jget n ''signing_public_key_ed25519_hex'' = JStr pk"
    "jget n ''ed25519_signature_hex'' = JStr sg" "jget n ''signing_algorithm'' = JStr alg"
    "jget n ''references'' = JObj references" "jget n ''authorization'' = JObj authorization"
    "jget n ''outcome'' = JObj outcome" "jget n ''external_attestations'' = JArr (List.map JObj atts)"
    "jget n ''execution'' = (case e of None \<Rightarrow> JNull | Some x \<Rightarrow> JObj x)"
    "jget n ''merchant'' = entry_value me" "jget n ''evidence'' = entry_value ev"
    "jget n ''payment'' = entry_value pa" "jget n ''continuity'' = entry_value co"
    "jget n ''operator_attestation'' = entry_value oa"
    unfolding n by (simp_all add: display_lookup rest)
  have "scope = ''action'' \<or> scope = ''intent_terminal''" using 1(3) by simp
  from that[OF look(1) this look(2,3) 1(10) look(4) 1(11) look(5-16) 1(13,14,17,15,16,18) parts 1(25)] show thesis .
qed

theorem normalize_receipt_again:
  assumes "normalize_receipt H utc d = Inr n" "reads_back utc" "no_blank_texts n"
  shows "normalize_receipt H utc n = Inr n"
  using assms(1)
proof (cases rule: normalize_receiptE)
  case (1 scope authorization references atts outcome e issued rid tid md pk sg alg me ev pa co oa m1 m2 r0 a0 s0)
  define R where "R = (case e of None \<Rightarrow> [] | Some x \<Rightarrow> [(''execution'', JObj x)]) @ me @ ev @ pa @ co @ oa"
  note n = 1(1)[folded R_def] and texts = 1(2-12) and auth = 1(13) and refs = 1(14) and ats = 1(15) and mand = 1(16)
    and outc = 1(17) and exe = 1(18) and iss = 1(19) and parts = 1(20-24) and rec_id = 1(25)
  have ent: "is_entry ''merchant'' me" "is_entry ''evidence'' ev" "is_entry ''payment'' pa"
    "is_entry ''continuity'' co" "is_entry ''operator_attestation'' oa"
    using parts by (auto dest: part_entry_is_entry)
  have rest: "jget R ''execution'' = (case e of None \<Rightarrow> JNull | Some x \<Rightarrow> JObj x)"
    "jget R ''merchant'' = entry_value me" "jget R ''evidence'' = entry_value ev"
    "jget R ''payment'' = entry_value pa" "jget R ''continuity'' = entry_value co"
    "jget R ''operator_attestation'' = entry_value oa"
    unfolding R_def using ent
    by (cases e; simp add: display_lookup jget_skip[OF ent(1)] jget_skip[OF ent(2)] jget_skip[OF ent(3)]
        jget_skip[OF ent(4)] jget_skip_end[OF ent(5)] jget_hit jget_hit_end)+
  have look: "jget n ''execution'' = (case e of None \<Rightarrow> JNull | Some x \<Rightarrow> JObj x)"
    "jget n ''merchant'' = entry_value me" "jget n ''evidence'' = entry_value ev"
    "jget n ''payment'' = entry_value pa" "jget n ''continuity'' = entry_value co"
    "jget n ''operator_attestation'' = entry_value oa"
    unfolding n by (simp_all add: display_lookup rest)
  have items: "map_of n ''schema_version'' = Some (JInt 1)" "get_str n ''kind'' k0 = AGENT_RECEIPT_KIND_V1"
    "get_str n ''receipt_version'' k0 = AGENT_RECEIPT_VERSION_V1" "get_str n ''signing_algorithm'' k0 = alg"
    "item_lower n ''scope'' = Inr scope" "item_lower n ''receipt_id'' = Inr rid" "item_text n ''tenant_id'' = Inr tid"
    "item_map n ''authorization'' = Inr authorization" "body_item n ''references'' = Inr (JObj references)"
    "jget n ''external_attestations'' = JArr (List.map JObj atts)" "item_map n ''outcome'' = Inr outcome"
    "item_str n ''issued_at'' = Inr issued" "item_lower n ''message_digest_sha256_hex'' = Inr md"
    "item_lower n ''signing_public_key_ed25519_hex'' = Inr pk" "item_lower n ''ed25519_signature_hex'' = Inr sg"
    "jget n ''authorization'' = JObj authorization"
    for k0
    by (simp_all only: n receipt_eval append_Cons list.map map_of_Cons_code rbind_simps json_text_JStr texts(1,3,5,7,9-11)) (simp_all add: texts as_mapping_def)
  have blanks: "not_blank ''model_instance_id'' (sub_dict authorization ''agent'')"
    "not_blank ''vendor_ref_id'' (sub_dict n ''merchant'')" "not_blank ''funding_reference'' (sub_dict n ''payment'')"
    "list_all (not_blank ''reference_id'') atts"
    using assms(3)
    by (simp_all add: no_blank_texts_def sub_dict_def[of n "''authorization''"] sub_list_def items(10,16) list_all_iff)
  have "part_entry n ''merchant'' normalize_merchant = Inr me"
    using look(2) blanks(2)
    by (intro part_entry_again[OF parts(1) look(2)])
      (auto simp: sub_dict_def entry_value_def intro!: normalize_merchant_again not_blank_map_of)
  moreover have "part_entry n ''payment'' normalize_payment = Inr pa"
    using look(4) blanks(3)
    by (intro part_entry_again[OF parts(3) look(4)])
      (auto simp: sub_dict_def entry_value_def intro!: normalize_payment_again not_blank_map_of)
  moreover have "part_entry n ''evidence'' normalize_evidence = Inr ev"
    "part_entry n ''continuity'' (\<lambda>c. normalize_continuity c e) = Inr co"
    "part_entry n ''operator_attestation'' normalize_operator_attestation = Inr oa"
    by (rule part_entry_again[OF parts(2) look(3)] part_entry_again[OF parts(4) look(5)]
        part_entry_again[OF parts(5) look(6)], erule normalize_evidence_again normalize_continuity_again
        normalize_operator_attestation_again)+
  moreover have "execution_of utc n scope = Inr e"
    using execution_again[OF exe assms(2) look(1)] .
  moreover have "normalize_authorization utc authorization = Inr authorization"
    using blanks(1)
    by (intro normalize_authorization_again[OF auth assms(2)] not_blank_map_of) (auto simp: sub_dict_def jget_def)
  moreover have "normalize_external_attestations (json_or (JArr (List.map JObj atts)) (JArr [])) = Inr atts"
    using external_attestations_again[OF ats blanks(4)] by (cases atts) (simp_all add: json_or_def)
  moreover have "item_time utc n ''issued_at'' = Inr issued"
    using format_again[OF iss assms(2)] items(12) by (simp add: item_time_def)
  moreover have "scope = ''action'' \<or> scope = ''intent_terminal''" using texts(2) by simp
  ultimately show ?thesis
    using mand normalize_references_again[OF refs] normalize_outcome_again[OF outc] texts rec_id
    unfolding normalize_receipt_def Let_def
    by (simp (no_asm_simp) add: items text_or_def R_def[symmetric] n[simplified, symmetric] cong: rbind_weak_cong)
qed

end
