(* ===== verification/Hex_Text.thy ===== *)
theory Hex_Text
  imports Receipt_Facts Json_Text
begin

text \<open>
  Hex texts of byte strings, and Go's escapes of a JSON text: both are read back.
\<close>

section \<open>Hex\<close>

lemma hex_char_lower: "n < 16 \<Longrightarrow> is_hex_lower (hex_char n)"
  by (auto simp: hex_char_def is_hex_lower_def)

lemma hex_char_facts:
  assumes "n < 16"
  shows "\<not> ascii_space (hex_char n)" "is_hex_any (hex_char n)" "lower_char (hex_char n) = hex_char n"
    "\<not> py_space (hex_char n)"
  using hex_char_lower[OF assms] lower_char_hex[of "hex_char n"]
  by (auto simp: is_hex_any_def ascii_space_def is_hex_lower_def py_space_def Let_def)

lemma char_div [simp]: "(of_char c :: nat) div 16 < 16"
proof -
  have "(of_char c :: nat) < 256" by simp
  then show ?thesis by linarith
qed

lemma fromhex_to_hex [simp]: "fromhex (to_hex s) = Inr s"
proof (induction s)
  case Nil
  then show ?case by (simp add: to_hex_def)
next
  case (Cons c s)
  define n where "n = (of_char c :: nat)"
  have n: "n div 16 < 16" "n mod 16 < 16" "n < 256" by (simp_all add: n_def)
  have "to_hex (c # s) = hex_char (n div 16) # hex_char (n mod 16) # to_hex s"
    by (simp add: to_hex_def Let_def n_def)
  then show ?case
    using Cons.IH n hex_char_facts[OF n(1)] hex_char_facts[OF n(2)]
    by (simp add: unhex_hex_digit n_def)
qed

lemma to_hex_lower_hex: "list_all is_hex_lower (to_hex s)"
  by (induction s) (simp_all add: to_hex_def Let_def hex_char_lower)

lemma hex_lower_texts:
  assumes "list_all is_hex_lower s"
  shows "lower s = s" and "strip s = s"
proof -
  have "\<not> py_space c" if "is_hex_lower c" for c
    using that by (auto simp: is_hex_lower_def py_space_def Let_def)
  then show "strip s = s" using assms by (intro strip_fix) (metis hd_in_set last_in_set list_all_iff)
qed (rule lower_hex[OF assms])

lemma to_hex_texts [simp]: "lower (to_hex s) = to_hex s" "strip (to_hex s) = to_hex s" "length (to_hex s) = 2 * length s"
  by (rule hex_lower_texts[OF to_hex_lower_hex])+ (induction s, simp_all add: to_hex_def Let_def)

lemma hex64_re_to_hex [simp]: "hex64_re (to_hex s) \<longleftrightarrow> length s = 32"
  using to_hex_lower_hex[of s] by (simp add: hex64_re_def)

lemma check_signature_Inr:
  "check_signature vs k s dg m1 m2 = Inr u \<longleftrightarrow>
     (\<exists>key sig. fromhex k = Inr key \<and> fromhex s = Inr sig \<and> length key = 32 \<and> length sig = 64 \<and> vs key sig dg)"
  by (auto simp: check_signature_def rbind_Inr_iff)

section \<open>Tokens of a JSON text\<close>

text \<open>
  A text whose backslashes each escape the character after them, none of them being one of Go's
  three escapes.
\<close>

inductive escaped_text :: "string \<Rightarrow> bool" where
  Nil: "escaped_text []"
| Plain: "\<lbrakk>c \<noteq> CHR 0x5C; escaped_text s\<rbrakk> \<Longrightarrow> escaped_text (c # s)"
| Escape: "\<lbrakk>c \<noteq> CHR ''u''; c \<notin> set ''&<>''; escaped_text s\<rbrakk> \<Longrightarrow> escaped_text (CHR 0x5C # c # s)"
| Unicode: "\<lbrakk>h \<noteq> CHR 0x5C; g \<noteq> CHR 0x5C; h = CHR ''0'' \<or> h = CHR ''1''; g \<notin> set ''&<>''; escaped_text s\<rbrakk>
    \<Longrightarrow> escaped_text (CHR 0x5C # CHR ''u'' # CHR ''0'' # CHR ''0'' # h # g # s)"

lemma escaped_text_append: "\<lbrakk>escaped_text s; escaped_text t\<rbrakk> \<Longrightarrow> escaped_text (s @ t)"
  by (induction s rule: escaped_text.induct) (auto intro: escaped_text.intros)

lemma escaped_text_concat: "list_all escaped_text l \<Longrightarrow> escaped_text (concat l)"
  by (induction l) (auto intro: escaped_text.Nil escaped_text_append)

lemma escaped_text_plain: "CHR 0x5C \<notin> set s \<Longrightarrow> escaped_text s"
  by (induction s) (auto intro: escaped_text.intros)

lemma escaped_text_join: "\<lbrakk>escaped_text sep; list_all escaped_text l\<rbrakk> \<Longrightarrow> escaped_text (py_join sep l)"
  by (induction sep l rule: py_join.induct) (auto intro: escaped_text.Nil escaped_text_append)

lemma hex_char_plain: "n < 16 \<Longrightarrow> hex_char n \<noteq> CHR 0x5C \<and> hex_char n \<notin> set ''&<>''"
  using hex_char_lower[of n] by (auto simp: is_hex_lower_def)

lemma escaped_hex:
  assumes "n < 32"
  shows "escaped_text (CHR 0x5C # ''u00'' @ [hex_char (n div 16), hex_char (n mod 16)])"
proof -
  have "n div 16 < 2" using assms by (simp add: less_mult_imp_div_less)
  then have "n div 16 = 0 \<or> n div 16 = 1" by linarith
  moreover have "hex_char 0 = CHR ''0''" "hex_char 1 = CHR ''1''" by code_simp+
  ultimately have low: "hex_char (n div 16) = CHR ''0'' \<or> hex_char (n div 16) = CHR ''1''" by metis
  have "n div 16 < 16" "n mod 16 < 16" using assms by simp_all
  then have "hex_char (n div 16) \<noteq> CHR 0x5C" "hex_char (n mod 16) \<noteq> CHR 0x5C" "hex_char (n mod 16) \<notin> set ''&<>''"
    using hex_char_plain by blast+
  from escaped_text.Unicode[OF this(1,2) low this(3) escaped_text.Nil] show ?thesis
    by (simp only: append.simps)
qed

lemma escaped_pair: "\<lbrakk>k \<noteq> CHR ''u''; k \<notin> set ''&<>''\<rbrakk> \<Longrightarrow> escaped_text [CHR 0x5C, k]"
  by (rule escaped_text.Escape[OF _ _ escaped_text.Nil])

lemma json_escape_pairs:
  assumes "n \<in> set [34, 92, 10, 13, 9, 8, 12]"
  shows "\<exists>k. json_escape_unicode (char_of (n :: nat)) = [CHR 0x5C, k] \<and> k \<noteq> CHR ''u'' \<and> k \<notin> set ''&<>''"
proof -
  have "json_escape_unicode (char_of n) = json_escape (char_of n)" "n < 256"
    using assms by (auto simp: json_escape_unicode_def Let_def)
  moreover have "json_escape (char_of n) = [CHR 0x5C, if n = 34 then CHR 0x22 else if n = 92 then CHR 0x5C
      else if n = 10 then CHR ''n'' else if n = 13 then CHR ''r'' else if n = 9 then CHR ''t''
      else if n = 8 then CHR ''b'' else CHR ''f'']"
    using assms by (auto simp: json_escape_def Let_def)
  ultimately show ?thesis by simp
qed

lemma escaped_json_escape: "escaped_text (json_escape_unicode c)"
proof -
  define n where "n = (of_char c :: nat)"
  have n: "n < 256" "c = char_of n" by (simp_all add: n_def)
  consider "n \<in> set [34, 92, 10, 13, 9, 8, 12]" | "n < 32" "n \<notin> set [34, 92, 10, 13, 9, 8, 12]"
    | "\<not> n < 32" "n \<noteq> 34" "n \<noteq> 92"
    by fastforce
  then show ?thesis
  proof cases
    case 1
    then obtain k where "json_escape_unicode c = [CHR 0x5C, k]" "k \<noteq> CHR ''u''" "k \<notin> set ''&<>''"
      using json_escape_pairs unfolding n(2) by blast
    then show ?thesis using escaped_pair by simp
  next
    case 2
    have "json_escape_unicode c = CHR 0x5C # ''u00'' @ [hex_char (n div 16), hex_char (n mod 16)]"
      using 2 unfolding json_escape_unicode_def json_escape_def Let_def n_def[symmetric] by simp
    then show ?thesis using escaped_hex[OF 2(1)] by simp
  next
    case 3
    then have "json_escape_unicode c = [c]" "c \<noteq> CHR 0x5C"
      unfolding json_escape_unicode_def Let_def n_def[symmetric] by (simp, auto simp: n_def)
    then show ?thesis by (simp add: escaped_text.Plain escaped_text.Nil)
  qed
qed

lemma escaped_quoted: "escaped_text s \<Longrightarrow> escaped_text (quoted s)"
  unfolding quoted_def
  by (intro escaped_text.Plain escaped_text_append escaped_text.Nil) simp_all

lemma escaped_json_string: "escaped_text (json_string_unicode s)"
  unfolding json_string_unicode_def
  by (intro escaped_quoted escaped_text_concat) (simp add: list_all_iff escaped_json_escape)

lemma no_backslash: "CHR 0x5C \<notin> set (str_int i)"
proof -
  have "CHR 0x5C \<notin> set (digits_nat n)" for n
    using digits_nat_digits[of n] by (auto simp: list_all_iff is_digit_def)
  then show ?thesis by (auto simp: str_int_def)
qed

lemma escaped_json_dumps: "no_floats j \<Longrightarrow> escaped_text (json_dumps_unicode j)"
proof (induction j)
  case (JArr l)
  then have "escaped_text (py_join '','' (List.map json_dumps_unicode l))"
    by (intro escaped_text_join escaped_text_plain) (auto simp: list_all_iff)
  then show ?case by (auto intro: escaped_text.intros escaped_text_append)
next
  case (JObj d)
  have "escaped_text (print_member p)" if "p \<in> set d" for p
    using JObj.IH[of p "snd p"] JObj.prems that
    by (cases p) (auto simp: print_member_def list_all_iff snds.simps
        intro!: escaped_text_append escaped_json_string escaped_text.intros)
  then have "escaped_text (py_join '','' (List.map print_member d))"
    by (intro escaped_text_join escaped_text_plain) (auto simp: list_all_iff)
  then show ?case
    unfolding json_dumps_obj by (auto intro: escaped_text.intros escaped_text_append)
qed (auto intro: escaped_text_plain escaped_json_string simp: no_backslash)

end
