(* ===== verification/Receipt_Sample.thy ===== *)
theory Receipt_Sample
  imports Hex_Text "HOL-Library.Code_Target_Nat" "HOL-Library.Code_Target_Int"
begin

text \<open>
  A concrete receipt, hash, signature scheme and clock, on which the properties of agent receipts
  are evaluated.
\<close>

section \<open>A sample receipt\<close>

text \<open>A 32-byte digest, a signature scheme and a clock to run the model on.\<close>

definition sample_hash :: "string \<Rightarrow> string" where
  "sample_hash s = char_of (length s mod 256) # replicate 31 CHR 0x2A"

definition sample_public :: "string \<Rightarrow> string" where
  "sample_public k = take 32 (k @ replicate 32 CHR 0x01)"

definition sample_sign :: "string \<Rightarrow> string \<Rightarrow> string" where
  "sample_sign k m = take 32 (m @ replicate 32 CHR 0x00) @ sample_public k"

definition sample_verify :: "string \<Rightarrow> string \<Rightarrow> string \<Rightarrow> bool" where
  "sample_verify pk s m \<longleftrightarrow> s = take 32 (m @ replicate 32 CHR 0x00) @ pk"

definition sample_utc :: "string \<Rightarrow> exn + int" where
  "sample_utc s = (if s = ''2026-01-02T03:04:05+00:00'' then Inr 1767323045000000
                   else Inl (ValueError ''Invalid isoformat string''))"

definition sample_time :: json where
  "sample_time = JStr ''2026-01-02T03:04:05Z''"

definition sample_hex :: "char \<Rightarrow> json" where
  "sample_hex c = JStr (replicate 64 c)"

definition sample_uuid :: string where
  "sample_uuid = ''0b9d4a52-7c1e-4f7a-9d2f-3a51c8e0f6b7''"

definition sample_receipt :: "string \<Rightarrow> string \<Rightarrow> json \<Rightarrow> (string, json) dict" where
  "sample_receipt tenant md attestations =
     [(''scope'', JStr ''intent_terminal''), (''receipt_id'', JStr sample_uuid), (''tenant_id'', JStr tenant),
      (''issued_at'', sample_time),
      (''authorization'', JObj
        [(''principal_did'', JStr ''did:p''), (''actor_subject'', JStr ''svc''),
         (''agent'', JObj [(''operator_did'', JStr ''did:op''), (''model_family'', JStr ''GPT''),
            (''config_hash_sha256_hex'', sample_hex (CHR ''a'')), (''prompt_hash_sha256_hex'', sample_hex (CHR ''b''))]),
         (''decision_id'', JStr sample_uuid),
         (''policy'', JObj [(''template_id'', JStr ''t''), (''content_digest_sha256_hex'', sample_hex (CHR ''c''))]),
         (''authorized_at'', sample_time), (''requested_spend_cents'', JInt 500), (''currency'', JStr ''USD''),
         (''reason_codes'', JArr [JStr ''within_cap''])]),
      (''evidence'', JObj [(''completion_preset_id'', JStr ''travel''), (''payload_digest_sha256_hex'', sample_hex (CHR ''d'')),
         (''predicate_passed'', JBool True), (''payee_did'', JStr ''did:hotel''),
         (''payee_signature_digest_sha256_hex'', sample_hex (CHR ''e''))]),
      (''outcome'', JObj [(''harbor_state'', JStr ''released''), (''settlement_outcome'', JStr ''SETTLED'')]),
      (''references'', JObj [(''intent_id'', JStr sample_uuid), (''ledger_seq'', JInt 7)]),
      (''external_attestations'', attestations),
      (''message_digest_sha256_hex'', JStr md),
      (''signing_public_key_ed25519_hex'', sample_hex (CHR ''f'')),
      (''ed25519_signature_hex'', JStr (to_hex (sample_sign (replicate 32 CHR 0xFF) (unhex md))))]"

definition sample_options :: verify_options where
  "sample_options = \<lparr>vo_expected_signing_public_keys = Some [replicate 64 (CHR ''F'')],
     vo_verify_operator_against_registry = None, vo_trusted_operator_public_keys = None, vo_trust_mode = None,
     vo_required_validity_tier = Some ''primary'', vo_expected_prior_message_digest_hex = None\<rparr>"

definition sample_digest :: string where
  "sample_digest = ''15'' @ concat (replicate 31 ''2a'')"

abbreviation sample_check :: "(string, json) dict \<Rightarrow> exn + (string, json) dict" where
  "sample_check \<equiv> verify_agent_receipt_v1 sample_hash sample_verify sample_utc sample_options"

definition sample_signed :: "(string, json) dict" where
  "sample_signed = sample_receipt '' acme '' sample_digest JNull"

definition sample_normal :: "(string, json) dict" where
  "sample_normal = (case sample_check sample_signed of Inr n \<Rightarrow> n | Inl e \<Rightarrow> [])"

lemma accepted_InrE: "(case e of Inr n \<Rightarrow> P n | Inl e' \<Rightarrow> False) \<Longrightarrow> (\<And>n. e = Inr n \<Longrightarrow> P n \<Longrightarrow> Q) \<Longrightarrow> Q"
  by (cases e) auto

text \<open>The sample verifies, with no blank text and no float in it.\<close>

lemma sample_verified: "sample_check sample_signed = Inr sample_normal"
  and sample_normal_plain: "no_blank_texts sample_normal" "no_floats (JObj sample_normal)"
    "jget sample_normal ''message_digest_sha256_hex'' = JStr sample_digest"
proof -
  have "case sample_check sample_signed of
      Inr n \<Rightarrow> no_blank_texts n \<and> no_floats (JObj n) \<and> jget n ''message_digest_sha256_hex'' = JStr sample_digest | Inl e \<Rightarrow> False"
    by code_simp
  then obtain n where "sample_check sample_signed = Inr n" "no_blank_texts n" "no_floats (JObj n)"
      "jget n ''message_digest_sha256_hex'' = JStr sample_digest"
    by (rule accepted_InrE) blast
  then show "sample_check sample_signed = Inr sample_normal" "no_blank_texts sample_normal" "no_floats (JObj sample_normal)"
    "jget sample_normal ''message_digest_sha256_hex'' = JStr sample_digest"
    by (simp_all add: sample_normal_def)
qed

text \<open>Another tenant's receipt of the same length, which the sample hash does not tell apart.\<close>

definition sample_other :: "(string, json) dict" where
  "sample_other = sample_receipt ''acne'' sample_digest JNull"

lemma sample_other_verified:
  obtains n where "sample_check sample_other = Inr n" "no_floats (JObj n)"
    "jget n ''message_digest_sha256_hex'' = jget sample_normal ''message_digest_sha256_hex''"
proof -
  have "case sample_check sample_other of
      Inr n \<Rightarrow> no_floats (JObj n) \<and> jget n ''message_digest_sha256_hex'' = JStr sample_digest | Inl e \<Rightarrow> False"
    by code_simp
  then show thesis by (rule accepted_InrE) (auto simp: sample_normal_plain(3) intro: that)
qed

text \<open>The sample's receipt with the operator's attestation.\<close>

definition sample_seed :: string where
  "sample_seed = replicate 40 (CHR ''s'')"

abbreviation sample_attach :: "exn + (string, json) dict" where
  "sample_attach \<equiv> attach_operator_attestation_v1 sample_hash sample_verify sample_sign sample_public sample_utc
     sample_signed sample_seed '' did:op''"

lemma sample_attached:
  obtains c where "sample_attach = Inr c" "no_blank_texts c" "require_primary_validity c = Inr ()"
proof -
  have "case sample_attach of Inr c \<Rightarrow> no_blank_texts c \<and> require_primary_validity c = Inr () | Inl e \<Rightarrow> False"
    by code_simp
  then show thesis by (rule accepted_InrE) (auto intro: that)
qed

lemma sample_scheme:
  "length (sample_public k) = 32 \<and> length (sample_sign k m) = 64 \<and> sample_verify (sample_public k) (sample_sign k m) m"
  by (auto simp: sample_public_def sample_sign_def sample_verify_def min_def)

text \<open>A receipt with an external attestation whose reference is blank.\<close>

definition sample_blank :: "(string, json) dict" where
  "sample_blank = sample_receipt '' acme '' (''95'' @ concat (replicate 31 ''2a''))
     (JArr [JObj [(''source'', JStr ''x''), (''kind'', JStr ''k''), (''digest_sha256_hex'', sample_hex (CHR ''0'')),
                  (''reference_id'', JStr '' '')]])"

text \<open>
  Its reference is emitted as the empty text, which the canonical bytes contain, and dropped by the
  next normalization: what was verified no longer verifies.
\<close>

lemma blank_reference_unsettled:
  "case sample_check sample_blank of
     Inr n \<Rightarrow> sample_check n = Inl (ar_error ''message digest mismatch'')
   | Inl e \<Rightarrow> False"
  by code_simp

lemma sample_reads_back: "reads_back sample_utc"
proof -
  have "sample_utc (replace_z (strftime_utc 1767323045)) = Inr 1767323045000000"
    by code_simp
  then show ?thesis by (auto simp: reads_back_def sample_utc_def split: if_splits)
qed

end
