(* ===== verification/Receipt_Standard.thy ===== *)
theory Receipt_Standard
  imports Receipt_Sample
begin

text \<open>
  The properties of agent receipts: what an accepted receipt is signed over and bound to, that
  that verifying is settled after one pass, the validity tiers, the operator's counter signature
  and the fields no receipt may have.  Each property is followed by its instance on the sample.
\<close>

section \<open>Accepted receipts\<close>

lemma item_str_Inr: "item_str d k = Inr s \<longleftrightarrow> (\<exists>v. map_of d k = Some v \<and> s = json_text v)"
  by (auto simp: item_str_def rbind_Inr_iff body_item_Inr)

lemma item_map_Inr: "item_map d k = Inr m \<longleftrightarrow> map_of d k = Some (JObj m)"
proof
  assume "item_map d k = Inr m"
  then obtain v where v: "map_of d k = Some v" "as_mapping v = Inr m"
    by (auto simp: item_map_def rbind_Inr_iff body_item_Inr)
  then show "map_of d k = Some (JObj m)" by (cases v) (simp_all add: as_mapping_def)
qed (simp add: item_map_def as_mapping_def body_item_def)

lemma verify_agent_receiptE:
  assumes "verify_agent_receipt_v1 H vs utc opts d = Inr n"
  obtains tier bytes key md where
    "normalize_validity_tier (vo_required_validity_tier opts) = Inr tier"
    "normalize_receipt H utc d = Inr n"
    "verify_continuity_expected_prior n (vo_expected_prior_message_digest_hex opts) = Inr ()"
    "item_str n ''signing_public_key_ed25519_hex'' = Inr key"
    "allows_signing_public_key_hex key (vo_expected_signing_public_keys opts)"
    "marshal_canonical_agent_receipt n = Inr bytes"
    "item_str n ''signing_algorithm'' = Inr SIGNING_ALGORITHM"
    "item_str n ''message_digest_sha256_hex'' = Inr (to_hex (H bytes))" "hex64_re (to_hex (H bytes))"
    "\<exists>sig. item_str n ''ed25519_signature_hex'' = Inr sig \<and>
       check_signature vs key sig (H bytes) ''invalid signing material'' ''ed25519 signature verification failed'' = Inr ()"
    "verify_operator_attestation vs n (H bytes)
       (if tier = Attested then Some True else vo_verify_operator_against_registry opts)
       (vo_trusted_operator_public_keys opts) (vo_trust_mode opts) = Inr ()"
    "require_validity_tier n tier (vo_trusted_operator_public_keys opts) = Inr ()"
  using assms unfolding verify_agent_receipt_v1_def Let_def rbind_Inr_iff ensure_Inr_iff require_hex64_text_Inr
  by (elim exE conjE, intro that) (assumption | simp)+

lemma jget_Some: "jget d k = v \<Longrightarrow> v \<noteq> JNull \<Longrightarrow> map_of d k = Some v"
  by (auto simp: jget_def split: option.splits)

lemma item_str_JStr: "jget d k = JStr s \<Longrightarrow> item_str d k = Inr s"
  by (drule jget_Some) (auto simp: item_str_Inr)

text \<open>C17: A receipt that verifies is signed: the digest in it is the SHA-256 of the canonical bytes
  of the receipt, its signature of 64 bytes over that digest verifies under its key of 32 bytes, and
  the key is one of the trusted keys when some are given.\<close>

theorem verified_receipt_signed:
  assumes "verify_agent_receipt_v1 H verify_sig utc opts r = Inr n"
  shows "\<exists>bytes pk key sg sig.
    canonical_agent_receipt_bytes H utc r = Inr bytes \<and>
    jget n ''message_digest_sha256_hex'' = JStr (to_hex (H bytes)) \<and>
    jget n ''signing_algorithm'' = JStr SIGNING_ALGORITHM \<and>
    jget n ''signing_public_key_ed25519_hex'' = JStr pk \<and> fromhex pk = Inr key \<and> length key = 32 \<and>
    jget n ''ed25519_signature_hex'' = JStr sg \<and> fromhex sg = Inr sig \<and> length sig = 64 \<and>
    verify_sig key sig (H bytes) \<and>
    (case vo_expected_signing_public_keys opts of
       None \<Rightarrow> True | Some ks \<Rightarrow> ks = [] \<or> pk \<in> (\<lambda>k. lower (strip k)) ` set ks)"
  using assms
proof (rule verify_agent_receiptE)
  fix tier bytes key md
  assume norm: "normalize_receipt H utc r = Inr n"
    and key: "item_str n ''signing_public_key_ed25519_hex'' = Inr key"
      "allows_signing_public_key_hex key (vo_expected_signing_public_keys opts)"
    and bytes: "marshal_canonical_agent_receipt n = Inr bytes"
    and alg: "item_str n ''signing_algorithm'' = Inr SIGNING_ALGORITHM"
    and md: "item_str n ''message_digest_sha256_hex'' = Inr (to_hex (H bytes))"
    and sig: "\<exists>sig. item_str n ''ed25519_signature_hex'' = Inr sig \<and>
       check_signature verify_sig key sig (H bytes) ''invalid signing material'' ''ed25519 signature verification failed'' = Inr ()"
  from norm obtain scope rid md' pk sg alg' references authorization where t:
      "jget n ''message_digest_sha256_hex'' = JStr md'" "jget n ''signing_public_key_ed25519_hex'' = JStr pk"
      "lower (strip pk) = pk" "jget n ''ed25519_signature_hex'' = JStr sg" "jget n ''signing_algorithm'' = JStr alg'"
    by (rule normalized_lookups) blast
  have eq: "md' = to_hex (H bytes)" "key = pk" "alg' = SIGNING_ALGORITHM"
    using item_str_JStr[OF t(1)] item_str_JStr[OF t(2)] item_str_JStr[OF t(5)] md key(1) alg
    by simp_all
  obtain k s where ks: "fromhex pk = Inr k" "fromhex sg = Inr s" "length k = 32" "length s = 64" "verify_sig k s (H bytes)"
    using sig item_str_JStr[OF t(4)] by (auto simp: check_signature_Inr eq(2))
  have allowed: "case vo_expected_signing_public_keys opts of
       None \<Rightarrow> True | Some ks \<Rightarrow> ks = [] \<or> pk \<in> (\<lambda>k. lower (strip k)) ` set ks"
    using key(2) t(3) by (auto simp: allows_signing_public_key_hex_def eq(2) list_ex_iff image_iff split: option.splits)
  have "canonical_agent_receipt_bytes H utc r = Inr bytes"
    using norm bytes by (simp add: canonical_agent_receipt_bytes_def)
  then show ?thesis using t ks allowed unfolding eq by blast
qed

theorem verified_receipt_signed_witness:
  "\<exists>bytes pk key sg sig.
    canonical_agent_receipt_bytes sample_hash sample_utc sample_signed = Inr bytes \<and>
    jget sample_normal ''message_digest_sha256_hex'' = JStr (to_hex (sample_hash bytes)) \<and>
    jget sample_normal ''signing_algorithm'' = JStr SIGNING_ALGORITHM \<and>
    jget sample_normal ''signing_public_key_ed25519_hex'' = JStr pk \<and> fromhex pk = Inr key \<and> length key = 32 \<and>
    jget sample_normal ''ed25519_signature_hex'' = JStr sg \<and> fromhex sg = Inr sig \<and> length sig = 64 \<and>
    sample_verify key sig (sample_hash bytes) \<and>
    (case vo_expected_signing_public_keys sample_options of
       None \<Rightarrow> True | Some ks \<Rightarrow> ks = [] \<or> pk \<in> (\<lambda>k. lower (strip k)) ` set ks)"
  by (rule verified_receipt_signed[OF sample_verified])

text \<open>The texts of the normalized parts that a receipt is bound by.\<close>

lemma references_intent:
  "normalize_references j = Inr x \<Longrightarrow> \<exists>intent. jget x ''intent_id'' = JStr intent"
  by (cases j) (auto simp: normalize_references_def rbind_Inr_iff display_lookup)

lemma execution_tool_call:
  "normalize_execution utc d = Inr x \<Longrightarrow> \<exists>t. jget x ''tool_call_id'' = JStr t"
  by (auto simp: normalize_execution_def rbind_Inr_iff display_lookup)

lemma authorization_agent:
  assumes "normalize_authorization utc d = Inr x"
  shows "\<exists>a od. jget x ''agent'' = JObj a \<and> jget a ''operator_did'' = JStr od \<and> strip od = od"
proof -
  from assms obtain d0 a where "normalize_agent d0 = Inr a" "jget x ''agent'' = JObj a"
    by (auto simp: normalize_authorization_def rbind_Inr_iff Let_def display_lookup)
  then show ?thesis
    by (auto simp: normalize_agent_def item_text_def rbind_Inr_iff display_lookup)
qed

lemma operator_attestation_texts:
  assumes "normalize_operator_attestation d = Inr x"
  obtains od pk md sg where
    "x = [(''operator_did'', JStr od), (''signing_public_key_ed25519_hex'', JStr pk),
          (''message_digest_sha256_hex'', JStr md), (''ed25519_signature_hex'', JStr sg)]"
    "strip od = od" "lower (strip pk) = pk" "hex64_re pk" "hex64_re md" "length sg = 128"
  using assms by (auto simp: normalize_operator_attestation_def item_text_def item_lower_def rbind_Inr_iff)

lemma receipt_id_bound:
  assumes "verify_receipt_id H n = Inr ()" "jget n ''scope'' = JStr scope"
    "jget n ''receipt_id'' = JStr rid" "jget n ''references'' = JObj references" "jget references ''intent_id'' = JStr intent"
  shows "if scope = ''action''
    then \<exists>e t. jget n ''execution'' = JObj e \<and> item_str e ''tool_call_id'' = Inr t \<and>
           rid = sha256_hex H (intent @ CHR 0x00 # t)
    else rid = intent"
proof -
  have i: "item_str n ''scope'' = Inr scope" "item_str n ''receipt_id'' = Inr rid"
    "item_map n ''references'' = Inr references" "item_str references ''intent_id'' = Inr intent"
    using assms(2-5) by (auto intro: item_str_JStr simp: item_map_Inr dest: jget_Some)
  show ?thesis
    using assms(1) unfolding verify_receipt_id_def i rbind_simps
    by (auto simp: rbind_Inr_iff action_receipt_id_def split: json.splits if_splits)
qed

lemma operator_attestation_checked:
  assumes "verify_operator_attestation vs n dg against trusted mode = Inr ()"
    and "jget n ''operator_attestation'' = JObj x"
    and "x = [(''operator_did'', JStr od), (''signing_public_key_ed25519_hex'', JStr pk),
          (''message_digest_sha256_hex'', JStr md), (''ed25519_signature_hex'', JStr sg)]"
    and "jget n ''authorization'' = JObj a" "jget a ''agent'' = JObj g" "jget g ''operator_did'' = JStr od'"
    and "jget n ''message_digest_sha256_hex'' = JStr md'" "strip od = od" "strip od' = od'"
  shows "od = od'" "md = md'" "enforce_registry against mode \<longrightarrow> allows_operator_public_key_hex pk trusted"
    "\<exists>key sig. fromhex pk = Inr key \<and> length key = 32 \<and> vs key sig dg"
proof -
  have i: "item_map n ''operator_attestation'' = Inr x" "item_map n ''authorization'' = Inr a"
    "item_map a ''agent'' = Inr g" "item_text g ''operator_did'' = Inr od'"
    "item_str n ''message_digest_sha256_hex'' = Inr md'"
    using assms(2,4-7,9) by (auto simp: item_map_Inr item_text_def item_str_JStr dest: jget_Some)
  have x: "item_text x ''operator_did'' = Inr od" "item_str x ''message_digest_sha256_hex'' = Inr md"
    "item_str x ''signing_public_key_ed25519_hex'' = Inr pk" "item_str x ''ed25519_signature_hex'' = Inr sg"
    using assms(8) unfolding assms(3) by (simp_all add: item_text_def item_str_def display_lookup)
  have "truthy (jget n ''operator_attestation'')" using assms(2,3) by simp
  note run = assms(1)[unfolded verify_operator_attestation_def i x rbind_simps, simplified this, simplified]
  show "od = od'" "md = md'" "enforce_registry against mode \<longrightarrow> allows_operator_public_key_hex pk trusted"
    "\<exists>key sig. fromhex pk = Inr key \<and> length key = 32 \<and> vs key sig dg"
    using run by (auto simp: rbind_Inr_iff check_signature_Inr)
qed

text \<open>C18: A receipt that verifies is bound: an action receipt's id is the SHA-256 of its intent and
  tool call, any other's is its intent; an operator attestation names the operator of the
  authorization and the same digest, is signed over it by its key, and that key is registered
  whenever the registry is enforced, as it is for the attested tier.\<close>

theorem verified_receipt_bound:
  assumes "verify_agent_receipt_v1 H verify_sig utc opts r = Inr n"
  shows "\<exists>intent bytes.
    walk_path (JObj n) [''references'', ''intent_id''] = JStr intent \<and>
    canonical_agent_receipt_bytes H utc r = Inr bytes \<and>
    (if jget n ''scope'' = JStr ''action''
     then (\<exists>tool_call. walk_path (JObj n) [''execution'', ''tool_call_id''] = JStr tool_call \<and>
            jget n ''receipt_id'' = JStr (sha256_hex H (intent @ CHR 0x00 # tool_call)))
     else jget n ''scope'' = JStr ''intent_terminal'' \<and> jget n ''receipt_id'' = JStr intent) \<and>
    (jget n ''operator_attestation'' = JNull \<or>
     walk_path (JObj n) [''operator_attestation'', ''operator_did''] =
       walk_path (JObj n) [''authorization'', ''agent'', ''operator_did''] \<and>
     walk_path (JObj n) [''operator_attestation'', ''message_digest_sha256_hex''] = JStr (to_hex (H bytes)) \<and>
     (\<exists>pk key sig. walk_path (JObj n) [''operator_attestation'', ''signing_public_key_ed25519_hex''] = JStr pk \<and>
        fromhex pk = Inr key \<and> length key = 32 \<and> verify_sig key sig (H bytes) \<and>
        (enforce_registry (if normalize_validity_tier (vo_required_validity_tier opts) = Inr Attested then Some True
                           else vo_verify_operator_against_registry opts) (vo_trust_mode opts) \<longrightarrow>
         (\<exists>ks. vo_trusted_operator_public_keys opts = Some ks \<and> pk \<in> (\<lambda>k. lower (strip k)) ` set ks))))"
proof -
  from assms obtain tier bytes where
      tier: "normalize_validity_tier (vo_required_validity_tier opts) = Inr tier"
    and norm: "normalize_receipt H utc r = Inr n" and bytes: "marshal_canonical_agent_receipt n = Inr bytes"
    and md: "item_str n ''message_digest_sha256_hex'' = Inr (to_hex (H bytes))"
    and op: "verify_operator_attestation verify_sig n (H bytes)
       (if tier = Attested then Some True else vo_verify_operator_against_registry opts)
       (vo_trusted_operator_public_keys opts) (vo_trust_mode opts) = Inr ()"
    by (rule verify_agent_receiptE)
  from norm show ?thesis
  proof (rule normalized_lookups)
    fix scope rid mdx pk sg alg references authorization atts outcome e me ev pa co oa m1 r0 m2 a0
    assume t: "jget n ''scope'' = JStr scope" "scope = ''action'' \<or> scope = ''intent_terminal''"
        "jget n ''receipt_id'' = JStr rid" "jget n ''message_digest_sha256_hex'' = JStr mdx"
        "jget n ''references'' = JObj references" "jget n ''authorization'' = JObj authorization"
        "jget n ''execution'' = (case e of None \<Rightarrow> JNull | Some x \<Rightarrow> JObj x)"
        "jget n ''operator_attestation'' = entry_value oa" "verify_receipt_id H n = Inr ()"
      and auth: "normalize_authorization utc m1 = Inr authorization"
      and refs: "normalize_references r0 = Inr references"
      and exe: "execution_of utc r scope = Inr e"
      and opa: "part_entry r ''operator_attestation'' normalize_operator_attestation = Inr oa"
    obtain intent where intent: "jget references ''intent_id'' = JStr intent"
      using references_intent[OF refs] by blast
    obtain g od' where agent: "jget authorization ''agent'' = JObj g" "jget g ''operator_did'' = JStr od'" "strip od' = od'"
      using authorization_agent[OF auth] by blast
    have mdx: "mdx = to_hex (H bytes)" using item_str_JStr[OF t(4)] md by simp
    have ids: "if jget n ''scope'' = JStr ''action''
     then (\<exists>tool_call. walk_path (JObj n) [''execution'', ''tool_call_id''] = JStr tool_call \<and>
            jget n ''receipt_id'' = JStr (sha256_hex H (intent @ CHR 0x00 # tool_call)))
     else jget n ''scope'' = JStr ''intent_terminal'' \<and> jget n ''receipt_id'' = JStr intent"
    proof (cases "scope = ''action''")
      case True
      with exe obtain m x where x: "normalize_execution utc m = Inr x" "e = Some x"
        by (auto simp: execution_of_def rbind_Inr_iff)
      obtain tc where "jget x ''tool_call_id'' = JStr tc" using execution_tool_call[OF x(1)] by blast
      then show ?thesis
        using receipt_id_bound[OF t(9,1,3,5) intent] True t(1,3,7) x(2) item_str_JStr[of x] by auto
    qed (use receipt_id_bound[OF t(9,1,3,5) intent] t in auto)
    show ?thesis
    proof (cases "jget n ''operator_attestation'' = JNull")
      case True
      then show ?thesis
        using ids t(5) intent norm bytes by (auto simp: canonical_agent_receipt_bytes_def)
    next
      case False
      with opa t(8) obtain m x where x: "normalize_operator_attestation m = Inr x" "oa = [(''operator_attestation'', JObj x)]"
        by (auto simp: entry_value_def elim!: part_entryE)
      from x(1) obtain od pk md' sg where xs:
          "x = [(''operator_did'', JStr od), (''signing_public_key_ed25519_hex'', JStr pk),
          (''message_digest_sha256_hex'', JStr md'), (''ed25519_signature_hex'', JStr sg)]"
          "strip od = od" "lower (strip pk) = pk"
        by (rule operator_attestation_texts)
      have nx: "jget n ''operator_attestation'' = JObj x" using t(8) x(2) by (simp add: entry_value_def)
      note checked = operator_attestation_checked[OF op nx xs(1) t(6) agent(1,2) t(4) xs(2) agent(3)]
      have look: "walk_path (JObj n) [''operator_attestation'', ''operator_did''] = JStr od"
        "walk_path (JObj n) [''authorization'', ''agent'', ''operator_did''] = JStr od'"
        "walk_path (JObj n) [''operator_attestation'', ''message_digest_sha256_hex''] = JStr md'"
        "walk_path (JObj n) [''operator_attestation'', ''signing_public_key_ed25519_hex''] = JStr pk"
        by (simp_all add: nx t(6) agent xs(1) display_lookup)
      have reg: "allows_operator_public_key_hex pk (vo_trusted_operator_public_keys opts) \<Longrightarrow>
          \<exists>ks. vo_trusted_operator_public_keys opts = Some ks \<and> pk \<in> (\<lambda>k. lower (strip k)) ` set ks"
        using xs(3) by (auto simp: allows_operator_public_key_hex_def list_ex_iff image_iff split: option.splits)
      have tiers: "(normalize_validity_tier (vo_required_validity_tier opts) = Inr Attested) = (tier = Attested)"
        using tier by auto
      show ?thesis
        unfolding look tiers
        using ids t(5) intent norm bytes checked mdx reg False
        by (intro exI[of _ intent] exI[of _ bytes]) (auto simp: canonical_agent_receipt_bytes_def)
    qed
  qed
qed

theorem verified_receipt_bound_witness:
  "\<exists>intent bytes.
    walk_path (JObj sample_normal) [''references'', ''intent_id''] = JStr intent \<and>
    canonical_agent_receipt_bytes sample_hash sample_utc sample_signed = Inr bytes"
  using verified_receipt_bound[OF sample_verified] by (elim exE conjE) (intro exI conjI)

section \<open>The operator's attestation stands apart\<close>

abbreviation OA :: string where
  "OA \<equiv> ''operator_attestation''"

lemma update_lookup:
  "k \<noteq> k' \<Longrightarrow> map_of (AList.update k v d) k' = map_of d k'"
  by (simp add: AList.update_conv')

lemma access_update:
  assumes "k \<noteq> k'"
  shows "body_item (AList.update k v d) k' = body_item d k'" "jget (AList.update k v d) k' = jget d k'"
    "get_str (AList.update k v d) k' x = get_str d k' x" "item_str (AList.update k v d) k' = item_str d k'"
    "item_text (AList.update k v d) k' = item_text d k'" "item_lower (AList.update k v d) k' = item_lower d k'"
    "item_map (AList.update k v d) k' = item_map d k'" "item_time utc (AList.update k v d) k' = item_time utc d k'"
    "part_entry (AList.update k v d) k' f = part_entry d k' f"
  using update_lookup[OF assms, of v d]
  by (simp_all add: body_item_def jget_def get_str_def item_str_def item_text_def item_lower_def item_map_def
      item_time_def part_entry_def if_given_def)

lemma execution_of_update: "execution_of utc (AList.update OA v d) scope = execution_of utc d scope"
  by (simp add: execution_of_def access_update)

lemma verify_receipt_id_update: "verify_receipt_id H (AList.update OA v d) = verify_receipt_id H d"
  by (simp add: verify_receipt_id_def access_update cong: if_cong)

lemma part_entry_update:
  "normalize_operator_attestation x = Inr x \<Longrightarrow>
     part_entry (AList.update OA (JObj x) d) OA normalize_operator_attestation = Inr [(OA, JObj x)]"
  by (simp add: part_entry_def if_given_def jget_def AList.update_conv' as_mapping_def)

lemma update_last:
  "\<lbrakk>k \<notin> set (keys l); is_entry k es\<rbrakk> \<Longrightarrow> AList.update k v (l @ es) = l @ [(k, v)]"
proof (induction l)
  case Nil
  then show ?case by (auto simp: is_entry_def split: list.splits)
qed auto

lemma is_entry_keys: "\<lbrakk>is_entry k es; k' \<in> set (keys es)\<rbrakk> \<Longrightarrow> k' = k"
  by (auto simp: is_entry_def split: list.splits)

lemma canonical_payload_update: "canonical_payload (AList.update OA v n) = canonical_payload n"
  by (simp add: canonical_payload_def field_def part_payload_def access_update cong: if_cong)

text \<open>Replacing the operator's attestation of a receipt replaces it in the normalized receipt.\<close>

lemma replace_last:
  assumes "B @ ex @ me @ ev @ pa @ co @ oa = n" "verify_receipt_id H (B @ ex @ me @ ev @ pa @ co @ oa) = Inr u"
    and "OA \<notin> set (keys B)" "is_entry ''execution'' ex" "is_entry ''merchant'' me" "is_entry ''evidence'' ev"
      "is_entry ''payment'' pa" "is_entry ''continuity'' co" "is_entry OA oa"
  shows "rbind (verify_receipt_id H (B @ ex @ me @ ev @ pa @ co @ [(OA, v)])) (\<lambda>_. Inr (B @ ex @ me @ ev @ pa @ co @ [(OA, v)])) =
    Inr (AList.update OA v n)"
proof -
  have "OA \<notin> set (keys (B @ ex @ me @ ev @ pa @ co))"
    using assms(3) assms(4-8)[THEN is_entry_keys, of OA] by (simp add: image_Un) blast
  from update_last[OF this assms(9), of v] have upd: "AList.update OA v n = B @ ex @ me @ ev @ pa @ co @ [(OA, v)]"
    using assms(1) by simp
  then show ?thesis
    using assms(1,2) verify_receipt_id_update[of H v n] by simp
qed

lemma normalized_update:
  assumes "normalize_receipt H utc d = Inr n" "normalize_operator_attestation x = Inr x"
  shows "normalize_receipt H utc (AList.update OA (JObj x) d) = Inr (AList.update OA (JObj x) n)"
  using assms(1)
  unfolding normalize_receipt_def[of H utc d] Let_def rbind_Inr_iff ensure_Inr_iff sum.inject
  apply (elim exE conjE)
  apply (simp (no_asm_simp) only: normalize_receipt_def[of H utc "AList.update OA (JObj x) d"] Let_def update_lookup
      access_update execution_of_update part_entry_update[OF assms(2)] rbind_simps ensure_def if_True list.inject char.inject
      simp_thms cong: rbind_weak_cong)
  apply (rule replace_last)
  apply assumption+
  apply (auto dest: part_entry_is_entry)
  done

section \<open>Counter signatures\<close>



section \<open>Receipts verified again\<close>

text \<open>Verifying is settled after one pass: what a verification returns verifies again, with the
  same options, and is returned unchanged, when the clock reads back its own timestamps and no
  optional free text of it is blank.\<close>

theorem verified_receipt_again:
  assumes "verify_agent_receipt_v1 H verify_sig utc opts r = Inr n" "reads_back utc" "no_blank_texts n"
  shows "verify_agent_receipt_v1 H verify_sig utc opts n = Inr n"
proof -
  from assms(1) have norm: "normalize_receipt H utc r = Inr n" by (rule verify_agent_receiptE)
  have "normalize_receipt H utc n = Inr n" by (rule normalize_receipt_again[OF norm assms(2,3)])
  then show ?thesis using assms(1) norm by (simp add: verify_agent_receipt_v1_def)
qed

theorem verified_receipt_again_witness:
  "sample_check sample_normal = Inr sample_normal"
  by (rule verified_receipt_again[OF sample_verified sample_reads_back sample_normal_plain(1)])

section \<open>Tiers\<close>

lemma evidence_texts:
  "normalize_evidence d = Inr x \<Longrightarrow> \<exists>p. jget x ''payee_did'' = JStr p"
  by (auto simp: normalize_evidence_def rbind_Inr_iff display_lookup)

text \<open>A normalized receipt has a highest validity tier under the registry, and satisfies exactly
  the requirements up to it.\<close>

theorem achieved_tier_is_highest:
  assumes "normalize_receipt H utc r = Inr n"
  shows "\<exists>t. achieved_validity_tier n trusted = Inr t \<and>
    (\<forall>q. require_validity_tier n q trusted = Inr () \<longleftrightarrow> q \<le> t)"
  using assms
proof (rule normalized_lookups)
  fix references authorization oa m1 r0
  assume refs: "jget n ''references'' = JObj references" "normalize_references r0 = Inr references"
    and oa: "jget n ''operator_attestation'' = entry_value oa"
    and opa: "part_entry r ''operator_attestation'' normalize_operator_attestation = Inr oa"
  obtain intent where intent: "jget references ''intent_id'' = JStr intent"
    using references_intent[OF refs(2)] by blast
  have ref: "item_map n ''references'' = Inr references" "item_lower references ''intent_id'' = Inr (lower (strip intent))"
    using refs(1) intent by (auto simp: item_map_Inr item_lower_def item_text_def item_str_JStr dest: jget_Some)
  have prim: "\<exists>m. e = ValueError m" if "require_primary_validity n = Inl e" for e
    using that unfolding require_primary_validity_def ref
    by (auto simp: ref(2) rbind_Inl_iff Let_def ar_error_def require_hex64_text_def split: json.splits)
  have att: "jget n ''operator_attestation'' = JNull \<or>
      (\<exists>x pk. jget n ''operator_attestation'' = JObj x \<and> item_str x ''signing_public_key_ed25519_hex'' = Inr pk)"
    using opa oa
    by (auto elim!: part_entryE operator_attestation_texts simp: entry_value_def item_str_def display_lookup)
  show ?thesis
    using prim att
    by (cases "require_primary_validity n")
      (auto simp: achieved_validity_tier_def require_validity_tier_def require_attested_validity_def
        less_eq_validity_tier_def tier_rank_def split: validity_tier.splits)
qed

theorem achieved_tier_is_highest_witness:
  "\<exists>t. achieved_validity_tier sample_normal None = Inr t \<and>
     (require_validity_tier sample_normal Attested None = Inr () \<longleftrightarrow> Attested \<le> t)"
proof -
  from sample_verified have "normalize_receipt sample_hash sample_utc sample_signed = Inr sample_normal"
    by (rule verify_agent_receiptE)
  from achieved_tier_is_highest[OF this, of None] show ?thesis by blast
qed

section \<open>Forbidden fields\<close>

text \<open>A key of an object anywhere in a document.\<close>

inductive key_within :: "string \<Rightarrow> json \<Rightarrow> bool" where
  here: "k \<in> set (keys d) \<Longrightarrow> key_within k (JObj d)"
| in_object: "\<lbrakk>(k', v) \<in> set d; key_within k v\<rbrakk> \<Longrightarrow> key_within k (JObj d)"
| in_array: "\<lbrakk>v \<in> set l; key_within k v\<rbrakk> \<Longrightarrow> key_within k (JArr l)"

inductive_simps key_within_simps [simp]:
  "key_within k JNull" "key_within k (JBool b)" "key_within k (JInt i)" "key_within k (JNum q)"
  "key_within k (JStr s)" "key_within k (JArr l)" "key_within k (JObj d)"

lemma fold_first_None:
  "fold (\<lambda>x acc. case acc of None \<Rightarrow> f x | Some k \<Rightarrow> Some k) xs acc = None \<longleftrightarrow>
     acc = None \<and> (\<forall>x \<in> set xs. f x = None)"
  by (induction xs arbitrary: acc) (auto split: option.splits)

lemma first_forbidden_None:
  "first_forbidden v = None \<longleftrightarrow> \<not> (\<exists>k \<in> set FORBIDDEN_AGENT_RECEIPT_FIELDS. key_within k v)"
proof (induction v)
  case (JArr l)
  then show ?case using fold_first_None[of "\<lambda>x. x" "List.map first_forbidden l" None] by auto
next
  case (JObj d)
  have "first_forbidden (JObj d) = None \<longleftrightarrow>
      (\<forall>(k, v) \<in> set d. k \<notin> set FORBIDDEN_AGENT_RECEIPT_FIELDS \<and> first_forbidden v = None)"
    using fold_first_None[of "\<lambda>p. if fst p \<in> set FORBIDDEN_AGENT_RECEIPT_FIELDS then Some (fst p) else snd p"
        "List.map (map_prod id first_forbidden) d" None]
    by (auto simp: case_prod_unfold split: if_splits)
  then show ?case using JObj by fastforce
qed simp_all

text \<open>A document is let through exactly when none of its objects, at any depth, has a key that
  would disclose a prompt, the arguments or results of a tool, the evidence or the payee's
  signature.\<close>

theorem forbidden_fields_rejected:
  "reject_forbidden_agent_receipt_fields v = Inr () \<longleftrightarrow>
     \<not> (\<exists>k. k \<in> set FORBIDDEN_AGENT_RECEIPT_FIELDS \<and> key_within k v)"
  using first_forbidden_None[of v]
  by (auto simp: reject_forbidden_agent_receipt_fields_def split: option.splits)

end
