(* ===== verification/Receipt_Content.thy ===== *)
theory Receipt_Content
  imports Receipt_Standard
begin

text \<open>
  What a receipt's digest says of its content, and the continuity of the receipts of a run.
\<close>

section \<open>Content\<close>

text \<open>A computation of dictionary entries that yields no floats.\<close>

definition floatless :: "exn + (string, json) dict \<Rightarrow> bool" where
  "floatless e \<longleftrightarrow> (\<forall>d. e = Inr d \<longrightarrow> no_floats (JObj d))"

lemma no_floats_jget: "no_floats (JObj d) \<Longrightarrow> no_floats (jget d k)"
  by (auto simp: jget_def list_all_iff dest!: map_of_SomeD split: option.split)

lemma no_floats_map_of: "\<lbrakk>no_floats (JObj d); map_of d k = Some v\<rbrakk> \<Longrightarrow> no_floats v"
  using no_floats_jget[of d k] by (simp add: jget_def)

lemma floatless_fields:
  assumes "no_floats (JObj d)"
  shows "floatless (field d k)" "floatless (truthy_field d k)" "floatless (given_field d k)"
    "floatless (Inr [(k', jget d k)])" "floatless (Inr [(k', json_or (jget d k) JNull)])"
  using no_floats_jget[OF assms, of k] no_floats_map_of[OF assms, of k]
  by (auto simp: floatless_def field_def truthy_field_def given_field_def json_or_def rbind_Inr_iff body_item_Inr)

lemma floatless_nested: "floatless e \<Longrightarrow> floatless (nested k e)"
  by (auto simp: floatless_def nested_def rbind_Inr_iff)

lemma floatless_map:
  "\<lbrakk>no_floats (JObj d); \<And>m. no_floats (JObj m) \<Longrightarrow> floatless (f m)\<rbrakk> \<Longrightarrow> floatless (rbind (item_map d k) f)"
  by (auto simp: floatless_def rbind_Inr_iff item_map_Inr simp del: no_floats.simps dest: no_floats_map_of)

lemma floatless_part:
  "\<lbrakk>no_floats (JObj d); \<And>m. no_floats (JObj m) \<Longrightarrow> floatless (f m)\<rbrakk> \<Longrightarrow> floatless (part_payload d k f)"
  using no_floats_jget[of d k]
  by (cases "jget d k") (auto simp: part_payload_def intro: floatless_nested, simp_all add: floatless_def)

lemma floatless_display:
  assumes "list_all floatless es"
  shows "floatless (display es)"
  unfolding floatless_def
proof (intro allI impI)
  fix d assume "display es = Inr d"
  then obtain ds where "list_all2 (\<lambda>e x. e = Inr x) es ds" "d = concat ds"
    by (auto simp: display_def rbind_Inr_iff rmap_Inr_iff)
  then show "no_floats (JObj d)"
    using assms by (induction es ds arbitrary: d rule: list_all2_induct) (auto simp: floatless_def)
qed

lemmas floatless_intros = floatless_fields floatless_nested floatless_map floatless_part floatless_display

lemma floatless_payloads:
  assumes "no_floats (JObj d)"
  shows "floatless (agent_payload d)" "floatless (policy_payload d)" "floatless (authorization_payload d)"
    "floatless (execution_payload d)" "floatless (merchant_payload d)" "floatless (receipt_evidence_payload d)"
    "floatless (payment_payload d)" "floatless (outcome_payload d)" "floatless (references_payload d)"
    "floatless (continuity_payload d)" "floatless (canonical_payload d)"
proof -
  have parts: "floatless (agent_payload d)" "floatless (policy_payload d)" "floatless (execution_payload d)"
    "floatless (merchant_payload d)" "floatless (receipt_evidence_payload d)" "floatless (payment_payload d)"
    "floatless (outcome_payload d)" "floatless (references_payload d)" "floatless (continuity_payload d)"
    if "no_floats (JObj d)" for d
    unfolding agent_payload_def policy_payload_def execution_payload_def merchant_payload_def
      receipt_evidence_payload_def payment_payload_def outcome_payload_def references_payload_def continuity_payload_def
    using that by (simp_all only: list.pred_inject floatless_display floatless_fields simp_thms)
  have auth: "floatless (authorization_payload d)" if "no_floats (JObj d)" for d
    unfolding authorization_payload_def
    by (intro floatless_map floatless_display that)
      (simp only: list.pred_inject floatless_fields[OF that] floatless_nested parts simp_thms)
  have whole: "floatless (canonical_payload d)"
    unfolding canonical_payload_def
    by (intro floatless_map floatless_display assms)
      (simp only: list.pred_inject floatless_fields[OF assms] floatless_nested floatless_part[OF assms] floatless_map[OF assms] parts auth simp_thms)
  show "floatless (agent_payload d)" "floatless (policy_payload d)" "floatless (authorization_payload d)"
    "floatless (execution_payload d)" "floatless (merchant_payload d)" "floatless (receipt_evidence_payload d)"
    "floatless (payment_payload d)" "floatless (outcome_payload d)" "floatless (references_payload d)"
    "floatless (continuity_payload d)" "floatless (canonical_payload d)"
    by (rule parts[OF assms] auth[OF assms] whole)+
qed

text \<open>C19: The signature pins the content: two receipts that verify and carry the same digest have the
  same canonical payload, or their canonical bytes are a collision of SHA-256.  No number in them is
  a float.\<close>

theorem digest_pins_content:
  assumes "verify_agent_receipt_v1 H verify_sig utc opts r = Inr n"
    and "verify_agent_receipt_v1 H verify_sig' utc opts' r' = Inr n'"
    and "jget n ''message_digest_sha256_hex'' = jget n' ''message_digest_sha256_hex''"
    and "no_floats (JObj n)" "no_floats (JObj n')"
  shows "canonical_payload n = canonical_payload n' \<or>
    (\<exists>a b. canonical_agent_receipt_bytes H utc r = Inr a \<and> canonical_agent_receipt_bytes H utc r' = Inr b \<and>
       a \<noteq> b \<and> H a = H b)"
proof -
  from assms(1) obtain a where a: "normalize_receipt H utc r = Inr n" "marshal_canonical_agent_receipt n = Inr a"
    "item_str n ''message_digest_sha256_hex'' = Inr (to_hex (H a))" by (rule verify_agent_receiptE)
  from assms(2) obtain b where b: "normalize_receipt H utc r' = Inr n'" "marshal_canonical_agent_receipt n' = Inr b"
    "item_str n' ''message_digest_sha256_hex'' = Inr (to_hex (H b))" by (rule verify_agent_receiptE)
  obtain md where "jget n ''message_digest_sha256_hex'' = JStr md" by (rule normalized_lookups[OF a(1)])
  then have "H a = H b"
    using assms(3) a(3) b(3) item_str_JStr[of n _ md] item_str_JStr[of n' _ md] by (simp add: to_hex_inj)
  moreover have "canonical_payload n = canonical_payload n'" if "a = b"
  proof -
    from a(2) obtain p where p: "canonical_payload n = Inr p" "a = utf8 (json_dumps_unicode (JObj p))"
      by (auto simp: marshal_canonical_agent_receipt_def rbind_Inr_iff)
    from b(2) obtain q where q: "canonical_payload n' = Inr q" "b = utf8 (json_dumps_unicode (JObj q))"
      by (auto simp: marshal_canonical_agent_receipt_def rbind_Inr_iff)
    have "no_floats (JObj p)" "no_floats (JObj q)"
      using floatless_payloads(11) assms(4,5) p(1) q(1) unfolding floatless_def by blast+
    moreover have "json_dumps_unicode (JObj p) = json_dumps_unicode (JObj q)"
      using that p(2) q(2) by (auto dest: utf8_inj)
    ultimately have "JObj p = JObj q" by (intro json_dumps_unicode_inj)
    then show ?thesis using p(1) q(1) by simp
  qed
  ultimately show ?thesis
    using a(1,2) b(1,2) by (auto simp: canonical_agent_receipt_bytes_def)
qed

theorem digest_pins_content_witness:
  "\<exists>n'. sample_check sample_other = Inr n' \<and>
    (canonical_payload sample_normal = canonical_payload n' \<or>
     (\<exists>a b. canonical_agent_receipt_bytes sample_hash sample_utc sample_signed = Inr a \<and>
        canonical_agent_receipt_bytes sample_hash sample_utc sample_other = Inr b \<and>
        a \<noteq> b \<and> sample_hash a = sample_hash b))"
proof -
  obtain n' where n': "sample_check sample_other = Inr n'" "no_floats (JObj n')"
    "jget n' ''message_digest_sha256_hex'' = jget sample_normal ''message_digest_sha256_hex''"
    by (rule sample_other_verified)
  show ?thesis
    using n'(1) digest_pins_content[OF sample_verified n'(1) n'(3)[symmetric] sample_normal_plain(2) n'(2)] by blast
qed

section \<open>Continuity\<close>

definition run_links :: "string \<Rightarrow> (string, json) dict list \<Rightarrow> (string, json) dict list" where
  "run_links run ls = filter (\<lambda>r. link_run r = run) ls"

text \<open>
  The receipts of a run are numbered from 1 to their number, and each carries the digest of its
  predecessor, the first none.
\<close>

definition run_linked :: "(string, json) dict list \<Rightarrow> bool" where
  "run_linked rs \<longleftrightarrow>
     link_seq ` set rs = {1..int (length rs)} \<and>
     (\<forall>b \<in> set rs. link_seq b = 1 \<longrightarrow> \<not> truthy (link_prev b)) \<and>
     (\<forall>a \<in> set rs. \<forall>b \<in> set rs. link_seq b = link_seq a + 1 \<longrightarrow> link_prev b = link_digest a)"

definition follows :: "(string, json) dict option \<Rightarrow> (string, json) dict \<Rightarrow> bool" where
  "follows p x = (case p of
       None \<Rightarrow> link_seq x = 1 \<and> \<not> truthy (link_prev x)
     | Some a \<Rightarrow> link_seq x = link_seq a + 1 \<and> link_prev x = link_digest a)"

fun run_ok :: "(string, json) dict option \<Rightarrow> (string, json) dict list \<Rightarrow> bool" where
  "run_ok p [] = True"
| "run_ok p (x # xs) = (follows p x \<and> run_ok (Some x) xs)"

lemma chain_loop_runs:
  "chain_loop items prev = Inr () \<longleftrightarrow> (\<forall>run. run_ok (map_of prev run) (run_links run items))"
proof (induction items prev rule: chain_loop.induct)
  case (1 prev)
  then show ?case by (simp add: run_links_def)
next
  case (2 item items prev)
  define upd where "upd = AList.update (link_run item) item prev"
  have upd: "map_of upd run = (if run = link_run item then Some item else map_of prev run)" for run
    by (simp add: upd_def AList.update_conv')
  have head: "run_ok p (run_links run (item # items)) =
      (if run = link_run item then follows p item \<and> run_ok (Some item) (run_links run items)
       else run_ok p (run_links run items))" for p run
    by (simp add: run_links_def)
  have step: "chain_loop (item # items) prev = Inr () \<longleftrightarrow>
      follows (map_of prev (link_run item)) item \<and> chain_loop items upd = Inr ()"
    by (auto simp: follows_def upd_def Let_def rbind_Inr_iff split: option.splits)
  have "chain_loop items upd = Inr () \<longleftrightarrow> (\<forall>run. run_ok (map_of upd run) (run_links run items))"
    if "follows (map_of prev (link_run item)) item"
    using 2 that by (auto simp: follows_def upd_def split: option.splits)
  moreover have "(\<forall>run. run_ok (map_of upd run) (run_links run items)) \<longleftrightarrow>
      run_ok (Some item) (run_links (link_run item) items) \<and>
      (\<forall>run. run \<noteq> link_run item \<longrightarrow> run_ok (map_of prev run) (run_links run items))"
    unfolding upd by (metis (full_types))
  ultimately show ?case unfolding step head by (metis (full_types))
qed

lemma run_ok_Some:
  "run_ok (Some p) xs \<longleftrightarrow> (\<forall>i < length xs. link_seq (xs ! i) = link_seq p + 1 + int i \<and>
     link_prev (xs ! i) = link_digest ((p # xs) ! i))"
proof (induction xs arbitrary: p)
  case (Cons x xs)
  show ?case
    unfolding run_ok.simps Cons.IH by (auto simp: follows_def All_less_Suc2)
qed simp

text \<open>A list of receipts in the order of their numbers is a chain exactly when it is linked.\<close>

lemma run_ok_nth:
  "run_ok None xs \<longleftrightarrow> (\<forall>i < length xs. link_seq (xs ! i) = int i + 1 \<and>
     (if i = 0 then \<not> truthy (link_prev (xs ! 0)) else link_prev (xs ! i) = link_digest (xs ! (i - 1))))"
proof (cases xs)
  case (Cons x ys)
  show ?thesis
    unfolding Cons run_ok.simps run_ok_Some by (auto simp: follows_def All_less_Suc2)
qed simp

lemma numbered_sorted:
  assumes "sorted (List.map link_seq xs)" "link_seq ` set xs = {1..int (length xs)}" "i < length xs"
  shows "link_seq (xs ! i) = int i + 1"
proof -
  have "distinct (List.map link_seq xs)"
    by (rule card_distinct) (simp add: assms(2))
  then have "List.map link_seq xs = [1..int (length xs)]"
    by (intro sorted_distinct_set_unique) (simp_all add: assms(1,2))
  then have "List.map link_seq xs ! i = [1..int (length xs)] ! i" by simp
  then show ?thesis using assms(3) by (simp add: nth_upto)
qed

lemma run_ok_linked:
  assumes "sorted (List.map link_seq xs)"
  shows "run_ok None xs \<longleftrightarrow> run_linked xs"
proof
  assume ok: "run_ok None xs"
  then have seq: "link_seq (xs ! i) = int i + 1" if "i < length xs" for i
    using that by (simp add: run_ok_nth)
  have "link_seq ` set xs = (\<lambda>i. int i + 1) ` {0 ..< length xs}"
    by (auto simp: in_set_conv_nth seq image_iff) (metis nth_mem seq)
  also have "\<dots> = {1..int (length xs)}"
  proof (rule set_eqI)
    fix x
    have "x = int (nat (x - 1)) + 1 \<and> nat (x - 1) < length xs" if "x \<in> {1..int (length xs)}"
      using that by auto
    then show "x \<in> (\<lambda>i. int i + 1) ` {0 ..< length xs} \<longleftrightarrow> x \<in> {1..int (length xs)}"
      by (auto intro!: image_eqI[of _ _ "nat (x - 1)"])
  qed
  finally have img: "link_seq ` set xs = {1..int (length xs)}" .
  show "run_linked xs"
    unfolding run_linked_def
  proof (intro conjI ballI impI img)
    fix b assume "b \<in> set xs" "link_seq b = 1"
    then obtain i where i: "i < length xs" "b = xs ! i" by (auto simp: in_set_conv_nth)
    with \<open>link_seq b = 1\<close> seq have "i = 0" by simp
    then show "\<not> truthy (link_prev b)" using ok i by (auto simp: run_ok_nth dest: spec[of _ 0])
  next
    fix a b assume "a \<in> set xs" "b \<in> set xs" and ab: "link_seq b = link_seq a + 1"
    then obtain i j where ij: "i < length xs" "a = xs ! i" "j < length xs" "b = xs ! j"
      by (auto simp: in_set_conv_nth)
    then have "j = Suc i" using ab seq by simp
    then show "link_prev b = link_digest a" using ok ij by (simp add: run_ok_nth)
  qed
next
  assume linked: "run_linked xs"
  then have seq: "link_seq (xs ! i) = int i + 1" if "i < length xs" for i
    using numbered_sorted[OF assms _ that] by (simp add: run_linked_def)
  show "run_ok None xs"
    unfolding run_ok_nth
  proof (intro allI impI conjI)
    fix i assume i: "i < length xs"
    show "link_seq (xs ! i) = int i + 1" using seq i by blast
    show "if i = 0 then \<not> truthy (link_prev (xs ! 0)) else link_prev (xs ! i) = link_digest (xs ! (i - 1))"
      using linked i seq[of i] seq[of "i - 1"] nth_mem[of i xs] nth_mem[of "i - 1" xs]
      by (auto simp: run_linked_def)
  qed
qed

lemma sorted_run:
  "sorted (List.map link_seq (run_links run (sort_key (\<lambda>r. (link_run r, link_seq r)) ls)))"
proof -
  have "sorted (List.map (\<lambda>r. (link_run r, link_seq r)) (run_links run (sort_key (\<lambda>r. (link_run r, link_seq r)) ls)))"
    unfolding run_links_def by (rule sorted_filter) simp
  then have "sorted_wrt (\<lambda>a b. (link_run a, link_seq a) \<le> (link_run b, link_seq b))
      (run_links run (sort_key (\<lambda>r. (link_run r, link_seq r)) ls))"
    by (simp only: sorted_wrt_map)
  then have "sorted_wrt (\<lambda>a b. link_seq a \<le> link_seq b) (run_links run (sort_key (\<lambda>r. (link_run r, link_seq r)) ls))"
    by (rule sorted_wrt_mono_rel[rotated]) (simp add: run_links_def)
  then show ?thesis by (simp only: sorted_wrt_map)
qed

lemma run_linked_mset: "mset xs = mset ys \<Longrightarrow> run_linked xs = run_linked ys"
proof -
  assume "mset xs = mset ys"
  then have "set xs = set ys" "length xs = length ys" by (rule mset_eq_setD, rule mset_eq_length)
  then show ?thesis by (simp add: run_linked_def)
qed

text \<open>C21: A set of receipts is accepted as continuous exactly when those that declare continuity are
  valid receipts and the ones of each run are numbered from 1 without a gap or a repetition, each
  carrying its predecessor's digest and the first none, in whatever order they are given.\<close>

theorem continuity_chain_iff:
  "verify_continuity_chain H utc receipts = Inr () \<longleftrightarrow>
     (\<exists>ls. linked_receipts H utc receipts = Inr ls \<and> (\<forall>run. run_linked (run_links run ls)))"
proof -
  have "chain_loop (sort_key (\<lambda>r. (link_run r, link_seq r)) ls) [] = Inr () \<longleftrightarrow>
      (\<forall>run. run_linked (run_links run ls))" for ls
  proof -
    have "run_ok None (run_links run (sort_key (\<lambda>r. (link_run r, link_seq r)) ls)) =
        run_linked (run_links run ls)" for run
      unfolding run_ok_linked[OF sorted_run]
      by (rule run_linked_mset) (simp add: run_links_def)
    then show ?thesis by (simp add: chain_loop_runs)
  qed
  moreover have "run_linked (run_links run [])" for run
    by (simp add: run_linked_def run_links_def)
  ultimately show ?thesis
    by (auto simp: verify_continuity_chain_def rbind_Inr_iff split: if_splits)
qed

end
