(* ===== verification/Agent_Mandate.thy ===== *)
theory Agent_Mandate
  imports Receipt_Verify
begin

text \<open>
  Signed agent mandates (\<open>agent_mandate.py\<close>): reading and normalizing a mandate, its canonical
  bytes in the field order of the Go gateway, signing and verification.  The instant that
  \<open>datetime.fromisoformat\<close> reads from a text, with a naive timestamp taken as UTC, is the argument
  \<open>instant\<close>, in microseconds; \<open>H\<close> is SHA-256, and \<open>sign\<close>, \<open>public\<close> and \<open>verify_sig\<close> are Ed25519.
\<close>

section \<open>Reading\<close>

definition AGENT_MANDATE_KIND_V1 :: string where
  "AGENT_MANDATE_KIND_V1 = ''paybond.agent_mandate_v1''"

definition SETTLEMENT_RAILS :: "string list" where
  "SETTLEMENT_RAILS =
     [''stripe_connect'', ''stripe_ach_debit'', ''stripe_mpp'', ''adyen_manual_capture'', ''x402_usdc_base'']"

definition mandate_currency_re :: "string \<Rightarrow> bool" where
  "mandate_currency_re s \<longleftrightarrow> 3 \<le> length s \<and> length s \<le> 16 \<and>
     list_all (\<lambda>c. is_lower c \<or> is_digit c \<or> c = CHR ''_'') s"

definition tenant_id_re :: "string \<Rightarrow> bool" where
  "tenant_id_re = fullmatch_ht (\<lambda>c. is_lower c \<or> is_digit c)
     (\<lambda>c. is_lower c \<or> is_digit c \<or> c \<in> set ''._-'') None"

definition read_object :: "json \<Rightarrow> (string, json) dict option" where
  "read_object v = (case v of JObj d \<Rightarrow> Some d | _ \<Rightarrow> None)"

definition object_or_empty :: "json \<Rightarrow> (string, json) dict" where
  "object_or_empty v = (case read_object v of Some d \<Rightarrow> d | None \<Rightarrow> [])"

definition mandate_read_string :: "json \<Rightarrow> string \<Rightarrow> string" where
  "mandate_read_string v fallback = (case v of JStr s \<Rightarrow> s | _ \<Rightarrow> fallback)"

definition read_number :: "json \<Rightarrow> int \<Rightarrow> int" where
  "read_number v fallback = (case v of
       JInt i \<Rightarrow> i
     | JNum q \<Rightarrow> if of_int \<lfloor>q\<rfloor> = q then \<lfloor>q\<rfloor> else fallback
     | _ \<Rightarrow> fallback)"

definition read_string_array :: "json \<Rightarrow> string list" where
  "read_string_array v = (case v of JArr l \<Rightarrow> List.map_filter as_str l | _ \<Rightarrow> [])"

text \<open>\<open>_read_string(d.get(k)).strip()\<close>, and the same in lower case.\<close>

definition str_at :: "(string, json) dict \<Rightarrow> string \<Rightarrow> string" where
  "str_at d k = strip (mandate_read_string (jget d k) [])"

definition low_at :: "(string, json) dict \<Rightarrow> string \<Rightarrow> string" where
  "low_at d k = lower (str_at d k)"

section \<open>Escapes and timestamps\<close>

text \<open>The two line separators that Go escapes too are beyond the characters of the model.\<close>

definition go_escape_char :: "char \<Rightarrow> string" where
  "go_escape_char c =
     (if c = CHR ''&'' then CHR 0x5C # ''u0026''
      else if c = CHR ''<'' then CHR 0x5C # ''u003c''
      else if c = CHR ''>'' then CHR 0x5C # ''u003e''
      else [c])"

definition go_json_escape :: "string \<Rightarrow> string" where
  "go_json_escape text = concat (List.map go_escape_char text)"

definition format_rfc3339_nano_utc :: "int \<Rightarrow> string" where
  "format_rfc3339_nano_utc us = strftime_utc (us div 1000000)"

definition parse_timestamp :: "(string \<Rightarrow> exn + int) \<Rightarrow> json \<Rightarrow> string \<Rightarrow> exn + int" where
  "parse_timestamp instant v msg = (case v of
       JStr s \<Rightarrow>
         (if strip s = [] then Inl (ValueError msg)
          else case instant (replace_z (strip s)) of
              Inl e \<Rightarrow> Inl (ValueError msg)
            | Inr us \<Rightarrow> Inr us)
     | _ \<Rightarrow> Inl (ValueError msg))"

definition parse_tenant_id :: "string \<Rightarrow> string \<Rightarrow> exn + string" where
  "parse_tenant_id raw label =
     (let t = strip raw in
      rbind (ensure (t \<noteq> []) (ValueError (label @ '': tenant: id is missing''))) (\<lambda>_.
      rbind (ensure (length t \<le> 256) (ValueError (label @ '': tenant: id exceeds max length (256)''))) (\<lambda>_.
      rbind (ensure (tenant_id_re t)
               (ValueError (label @ '': tenant: id must match [a-z0-9][a-z0-9._-]* '' @
                  ''(lowercase alphanumeric, dots, underscores, hyphens)''))) (\<lambda>_.
      Inr t))))"

section \<open>Sets of tokens\<close>

text \<open>The loops of \<open>_normalize_scope_set\<close> and \<open>_normalize_allowed_rails\<close>, with the values kept so far.\<close>

fun scope_tokens :: "string \<Rightarrow> string list \<Rightarrow> string list \<Rightarrow> exn + string list" where
  "scope_tokens label [] out = Inr out"
| "scope_tokens label (item # items) out =
     (let v = lower (strip item) in
      rbind (ensure (v \<noteq> []) (ValueError (label @ '' contains an empty value''))) (\<lambda>_.
      rbind (ensure (scope_token_re v) (ValueError (label @ '' value '' @ py_repr v @ '' is not canonical''))) (\<lambda>_.
      scope_tokens label items (push_new out v))))"

definition mandate_scope_set :: "string list \<Rightarrow> string \<Rightarrow> exn + string list" where
  "mandate_scope_set raw label =
     rbind (scope_tokens (''agent mandate: '' @ label) raw []) (\<lambda>out. Inr (sort out))"

fun rail_tokens :: "string list \<Rightarrow> string list \<Rightarrow> exn + string list" where
  "rail_tokens [] out = Inr out"
| "rail_tokens (item # items) out =
     (let rail = lower (strip item) in
      rbind (ensure (rail \<in> set SETTLEMENT_RAILS)
               (ValueError (''agent mandate: settlement.allowed_rails: unknown settlement rail '' @ py_repr item))) (\<lambda>_.
      rail_tokens items (push_new out rail)))"

definition normalize_allowed_rails :: "string list \<Rightarrow> exn + string list" where
  "normalize_allowed_rails raw = rbind (rail_tokens raw []) (\<lambda>out. Inr (sort out))"

section \<open>Mandates\<close>

record mandate_authorization =
  au_kind :: string
  au_tenant_id :: string
  au_principal_subject :: string
  au_principal_type :: string

record agent_identity =
  ai_subject :: string
  ai_issuer :: string
  ai_key_id :: string
  ai_display_name :: string

record spend_ceiling =
  sc_amount_minor :: int
  sc_currency :: string

record rail_policy =
  rp_default_rail :: string
  rp_allowed_rails :: "string list"

record constraint_reference =
  cr_kind :: string
  cr_id :: string
  cr_version :: string
  cr_digest_sha256_hex :: string
  cr_uri :: string

record agent_mandate =
  am_schema_version :: int
  am_kind :: string
  am_authorization :: mandate_authorization
  am_agent :: agent_identity
  am_allowed_actions :: "string list"
  am_allowed_tools :: "string list"
  am_spend_ceiling :: spend_ceiling
  am_settlement :: rail_policy
  am_constraint :: constraint_reference
  am_expires_at :: string
  am_nonce :: string
  am_human_presence_mode :: string

definition read_agent_mandate_fields :: "(string, json) dict \<Rightarrow> (string, json) dict" where
  "read_agent_mandate_fields raw =
     [(''schema_version'', JInt (read_number (jget raw ''schema_version'') 0)),
      (''kind'', JStr (mandate_read_string (jget raw ''kind'') [])),
      (''authorization'', JObj (object_or_empty (jget raw ''authorization''))),
      (''agent'', JObj (object_or_empty (jget raw ''agent''))),
      (''allowed_actions'', JArr (List.map JStr (read_string_array (jget raw ''allowed_actions'')))),
      (''allowed_tools'', JArr (List.map JStr (read_string_array (jget raw ''allowed_tools'')))),
      (''spend_ceiling'', JObj (object_or_empty (jget raw ''spend_ceiling''))),
      (''settlement'', JObj (object_or_empty (jget raw ''settlement''))),
      (''constraint'', JObj (object_or_empty (jget raw ''constraint''))),
      (''expires_at'', jget raw ''expires_at''),
      (''nonce'', JStr (mandate_read_string (jget raw ''nonce'') [])),
      (''human_presence_mode'', JStr (mandate_read_string (jget raw ''human_presence_mode'') []))]"

definition am_error :: "string \<Rightarrow> exn" where
  "am_error m = ValueError (''agent mandate: '' @ m)"

definition mandate_authorization_of :: "(string, json) dict \<Rightarrow> exn + mandate_authorization" where
  "mandate_authorization_of d =
     (let kind = low_at d ''kind'' in
      rbind (ensure (kind \<in> set [''principal'', ''tenant''])
               (am_error (''authorization.kind must be '' @ py_repr ''principal'' @ '' or '' @ py_repr ''tenant''))) (\<lambda>_.
      rbind (parse_tenant_id (mandate_read_string (jget d ''tenant_id'') []) ''agent mandate: authorization.tenant_id'') (\<lambda>tenant_id.
      let subject = str_at d ''principal_subject''; ptype = low_at d ''principal_type'' in
      rbind (if kind = ''principal''
             then rbind (ensure (subject \<noteq> [])
                      (am_error ''authorization.principal_subject is required for principal-scoped mandates'')) (\<lambda>_.
                  ensure (ptype = [] \<or> scope_token_re ptype)
                    (am_error (''authorization.principal_type '' @ py_repr ptype @ '' is not canonical'')))
             else ensure (subject = [] \<and> ptype = [])
                    (am_error ''tenant-scoped mandates must not set principal_subject or principal_type'')) (\<lambda>_.
      Inr \<lparr>au_kind = kind, au_tenant_id = tenant_id, au_principal_subject = subject, au_principal_type = ptype\<rparr>))))"

definition mandate_agent_of :: "(string, json) dict \<Rightarrow> exn + agent_identity" where
  "mandate_agent_of d =
     rbind (ensure (str_at d ''subject'' \<noteq> []) (am_error ''agent.subject is required'')) (\<lambda>_.
     Inr \<lparr>ai_subject = str_at d ''subject'', ai_issuer = str_at d ''issuer'',
          ai_key_id = str_at d ''key_id'', ai_display_name = str_at d ''display_name''\<rparr>)"

definition mandate_ceiling_of :: "(string, json) dict \<Rightarrow> exn + spend_ceiling" where
  "mandate_ceiling_of d =
     (let amount = read_number (jget d ''amount_minor'') 0; currency = low_at d ''currency'' in
      rbind (ensure (amount > 0) (am_error ''spend_ceiling.amount_minor must be greater than zero'')) (\<lambda>_.
      rbind (ensure (mandate_currency_re currency)
               (am_error (''spend_ceiling.currency '' @ py_repr currency @ '' is not canonical''))) (\<lambda>_.
      Inr \<lparr>sc_amount_minor = amount, sc_currency = currency\<rparr>)))"

definition mandate_settlement_of :: "(string, json) dict \<Rightarrow> exn + rail_policy" where
  "mandate_settlement_of d =
     (let default_rail = low_at d ''default_rail'' in
      rbind (normalize_allowed_rails (read_string_array (jget d ''allowed_rails''))) (\<lambda>allowed.
      rbind (ensure (default_rail \<noteq> []) (am_error ''settlement.default_rail is required'')) (\<lambda>_.
      rbind (ensure (allowed \<noteq> []) (am_error ''settlement.allowed_rails must contain at least one rail'')) (\<lambda>_.
      rbind (ensure (default_rail \<in> set allowed)
               (am_error ''settlement.default_rail must be present in settlement.allowed_rails'')) (\<lambda>_.
      Inr \<lparr>rp_default_rail = default_rail, rp_allowed_rails = allowed\<rparr>)))))"

definition mandate_constraint_of :: "(string, json) dict \<Rightarrow> exn + constraint_reference" where
  "mandate_constraint_of d =
     (let kind = low_at d ''kind''; cid = str_at d ''id''; digest = low_at d ''digest_sha256_hex''; uri = str_at d ''uri'' in
      rbind (ensure (kind \<in> set [''predicate'', ''policy''])
               (am_error (''constraint.kind must be '' @ py_repr ''predicate'' @ '' or '' @ py_repr ''policy''))) (\<lambda>_.
      rbind (ensure (digest = [] \<or> hex64_re digest)
               (am_error ''constraint.digest_sha256_hex must be a lowercase 64-byte hex SHA-256 digest'')) (\<lambda>_.
      rbind (ensure (cid \<noteq> [] \<or> uri \<noteq> [] \<or> digest \<noteq> [])
               (am_error ''constraint must set id, uri, or digest_sha256_hex'')) (\<lambda>_.
      Inr \<lparr>cr_kind = kind, cr_id = cid, cr_version = str_at d ''version'', cr_digest_sha256_hex = digest,
           cr_uri = uri\<rparr>))))"

text \<open>The mandate is given as a dictionary; \<open>mandate\<close> that is not one is read as an empty one.\<close>

definition normalize_agent_mandate_v1 :: "(string \<Rightarrow> exn + int) \<Rightarrow> (string, json) dict \<Rightarrow> exn + agent_mandate" where
  "normalize_agent_mandate_v1 instant mandate =
     (let raw = read_agent_mandate_fields mandate;
          version = read_number (jget raw ''schema_version'') 0;
          kind = str_at raw ''kind'' in
      rbind (ensure (version \<in> {0, 1}) (am_error (''unsupported schema_version '' @ str_int version))) (\<lambda>_.
      rbind (ensure (kind \<in> set [[], AGENT_MANDATE_KIND_V1]) (am_error (''unsupported kind '' @ py_repr kind))) (\<lambda>_.
      rbind (mandate_authorization_of (object_or_empty (jget raw ''authorization''))) (\<lambda>authorization.
      rbind (mandate_agent_of (object_or_empty (jget raw ''agent''))) (\<lambda>agent.
      rbind (mandate_scope_set (read_string_array (jget raw ''allowed_actions'')) ''allowed_actions'') (\<lambda>actions.
      rbind (mandate_scope_set (read_string_array (jget raw ''allowed_tools'')) ''allowed_tools'') (\<lambda>tools.
      rbind (ensure (actions \<noteq> [] \<or> tools \<noteq> [])
               (am_error ''at least one allowed action or allowed tool is required'')) (\<lambda>_.
      rbind (mandate_ceiling_of (object_or_empty (jget raw ''spend_ceiling''))) (\<lambda>ceiling.
      rbind (mandate_settlement_of (object_or_empty (jget raw ''settlement''))) (\<lambda>settlement.
      rbind (mandate_constraint_of (object_or_empty (jget raw ''constraint''))) (\<lambda>constraint.
      let nonce = str_at raw ''nonce''; presence = low_at raw ''human_presence_mode'' in
      rbind (ensure (nonce \<noteq> []) (am_error ''nonce is required'')) (\<lambda>_.
      rbind (ensure (length nonce \<le> 256) (am_error ''nonce must be 256 bytes or fewer'')) (\<lambda>_.
      rbind (ensure (presence \<in> set [''human_present'', ''human_not_present''])
               (am_error (''human_presence_mode must be '' @ py_repr ''human_present'' @ '' or '' @
                  py_repr ''human_not_present''))) (\<lambda>_.
      rbind (parse_timestamp instant (jget raw ''expires_at'') ''agent mandate: expires_at is required'') (\<lambda>expires.
      Inr \<lparr>am_schema_version = 1, am_kind = AGENT_MANDATE_KIND_V1, am_authorization = authorization,
           am_agent = agent, am_allowed_actions = actions, am_allowed_tools = tools,
           am_spend_ceiling = ceiling, am_settlement = settlement, am_constraint = constraint,
           am_expires_at = format_rfc3339_nano_utc expires, am_nonce = nonce,
           am_human_presence_mode = presence\<rparr>)))))))))))))))"

section \<open>Canonical bytes\<close>

definition texts :: "string list \<Rightarrow> json" where
  "texts l = JArr (List.map JStr l)"

definition authorization_dict :: "mandate_authorization \<Rightarrow> json" where
  "authorization_dict a = JObj
     [(''kind'', JStr (au_kind a)), (''tenant_id'', JStr (au_tenant_id a)),
      (''principal_subject'', JStr (au_principal_subject a)), (''principal_type'', JStr (au_principal_type a))]"

definition agent_dict :: "agent_identity \<Rightarrow> json" where
  "agent_dict a = JObj
     [(''subject'', JStr (ai_subject a)), (''issuer'', JStr (ai_issuer a)), (''key_id'', JStr (ai_key_id a)),
      (''display_name'', JStr (ai_display_name a))]"

definition ceiling_dict :: "spend_ceiling \<Rightarrow> json" where
  "ceiling_dict c = JObj [(''amount_minor'', JInt (sc_amount_minor c)), (''currency'', JStr (sc_currency c))]"

definition settlement_dict :: "rail_policy \<Rightarrow> json" where
  "settlement_dict s = JObj
     [(''default_rail'', JStr (rp_default_rail s)), (''allowed_rails'', texts (rp_allowed_rails s))]"

definition constraint_dict :: "constraint_reference \<Rightarrow> json" where
  "constraint_dict c = JObj
     [(''kind'', JStr (cr_kind c)), (''id'', JStr (cr_id c)), (''version'', JStr (cr_version c)),
      (''digest_sha256_hex'', JStr (cr_digest_sha256_hex c)), (''uri'', JStr (cr_uri c))]"

text \<open>
  The dictionary that \<open>normalize_agent_mandate_v1\<close> returns; the payload of
  \<open>_marshal_canonical_agent_mandate\<close> has the same entries in the same order.
\<close>

definition mandate_dict :: "agent_mandate \<Rightarrow> (string, json) dict" where
  "mandate_dict m =
     [(''schema_version'', JInt (am_schema_version m)), (''kind'', JStr (am_kind m)),
      (''authorization'', authorization_dict (am_authorization m)), (''agent'', agent_dict (am_agent m)),
      (''allowed_actions'', texts (am_allowed_actions m)), (''allowed_tools'', texts (am_allowed_tools m)),
      (''spend_ceiling'', ceiling_dict (am_spend_ceiling m)),
      (''settlement'', settlement_dict (am_settlement m)), (''constraint'', constraint_dict (am_constraint m)),
      (''expires_at'', JStr (am_expires_at m)), (''nonce'', JStr (am_nonce m)),
      (''human_presence_mode'', JStr (am_human_presence_mode m))]"

definition go_json_bytes :: "(string, json) dict \<Rightarrow> string" where
  "go_json_bytes payload = utf8 (go_json_escape (json_dumps_unicode (JObj payload)))"

definition marshal_canonical_agent_mandate :: "agent_mandate \<Rightarrow> string" where
  "marshal_canonical_agent_mandate m = go_json_bytes (mandate_dict m)"

definition canonical_agent_mandate_json_bytes ::
  "(string \<Rightarrow> exn + int) \<Rightarrow> (string, json) dict \<Rightarrow> exn + string" where
  "canonical_agent_mandate_json_bytes instant mandate =
     rbind (normalize_agent_mandate_v1 instant mandate) (\<lambda>m. Inr (marshal_canonical_agent_mandate m))"

definition agent_mandate_digest_sha256_hex ::
  "(string \<Rightarrow> string) \<Rightarrow> (string \<Rightarrow> exn + int) \<Rightarrow> (string, json) dict \<Rightarrow> exn + string" where
  "agent_mandate_digest_sha256_hex H instant mandate =
     rbind (canonical_agent_mandate_json_bytes instant mandate) (\<lambda>b. Inr (to_hex (H b)))"

section \<open>Signing and verification\<close>

text \<open>The four entries that a signer adds to what it signs.\<close>

definition signing_entries :: "string \<Rightarrow> string \<Rightarrow> string \<Rightarrow> (string, json) dict" where
  "signing_entries digest key signature =
     [(''signing_algorithm'', JStr SIGNING_ALGORITHM), (''message_digest_sha256_hex'', JStr (to_hex digest)),
      (''signing_public_key_ed25519_hex'', JStr (to_hex key)), (''ed25519_signature_hex'', JStr (to_hex signature))]"

definition sign_agent_mandate_v1 ::
  "(string \<Rightarrow> string) \<Rightarrow> (string \<Rightarrow> string \<Rightarrow> string) \<Rightarrow> (string \<Rightarrow> string) \<Rightarrow> (string \<Rightarrow> exn + int) \<Rightarrow>
   string \<Rightarrow> (string, json) dict \<Rightarrow> exn + (string, json) dict" where
  "sign_agent_mandate_v1 H sign public instant seed mandate =
     rbind (ensure (length seed = 32) (am_error ''signing key must be an ed25519 private key'')) (\<lambda>_.
     rbind (normalize_agent_mandate_v1 instant mandate) (\<lambda>normalized.
     let digest = H (marshal_canonical_agent_mandate normalized) in
     Inr (mandate_dict normalized @ signing_entries digest (public seed) (sign seed digest))))"

text \<open>
  The check of a detached signature: a key that is not hex, not of 32 bytes, or a signature that is
  not hex gives the same message.
\<close>

definition check_detached ::
  "(string \<Rightarrow> string \<Rightarrow> string \<Rightarrow> bool) \<Rightarrow> string \<Rightarrow> string \<Rightarrow> string \<Rightarrow> string \<Rightarrow> exn + unit" where
  "check_detached verify_sig label key_hex sig_hex digest =
     (case fromhex key_hex of
        Inl e \<Rightarrow> Inl (ValueError (label @ '': invalid signing_public_key_ed25519_hex''))
      | Inr key \<Rightarrow>
          (if length key \<noteq> 32 then Inl (ValueError (label @ '': invalid signing_public_key_ed25519_hex''))
           else case fromhex sig_hex of
               Inl e \<Rightarrow> Inl (ValueError (label @ '': invalid signing_public_key_ed25519_hex''))
             | Inr signature \<Rightarrow>
                 rbind (ensure (length signature = 64) (ValueError (label @ '': invalid ed25519_signature_hex''))) (\<lambda>_.
                 ensure (verify_sig key signature digest)
                   (ValueError (label @ '': ed25519 signature verification failed'')))))"

definition verify_signed_agent_mandate_v1 ::
  "(string \<Rightarrow> string) \<Rightarrow> (string \<Rightarrow> string \<Rightarrow> string \<Rightarrow> bool) \<Rightarrow> (string \<Rightarrow> exn + int) \<Rightarrow>
   (string, json) dict \<Rightarrow> int \<Rightarrow> exn + unit" where
  "verify_signed_agent_mandate_v1 H verify_sig instant raw now =
     rbind (normalize_agent_mandate_v1 instant (read_agent_mandate_fields raw)) (\<lambda>normalized.
     rbind (parse_timestamp instant (JStr (am_expires_at normalized)) ''agent mandate: expires_at is required'') (\<lambda>expires.
     rbind (ensure (now < expires) (am_error (''expired at '' @ am_expires_at normalized))) (\<lambda>_.
     rbind (ensure (str_at raw ''signing_algorithm'' = SIGNING_ALGORITHM)
              (am_error (''signing_algorithm must be '' @ py_repr SIGNING_ALGORITHM))) (\<lambda>_.
     let digest = H (marshal_canonical_agent_mandate normalized);
         message_digest = low_at raw ''message_digest_sha256_hex'' in
     rbind (ensure (hex64_re message_digest)
              (am_error ''message_digest_sha256_hex must be a lowercase 64-byte hex SHA-256 digest'')) (\<lambda>_.
     rbind (ensure (message_digest = to_hex digest) (am_error ''message digest mismatch'')) (\<lambda>_.
     check_detached verify_sig ''agent mandate''
       (mandate_read_string (jget raw ''signing_public_key_ed25519_hex'') [])
       (mandate_read_string (jget raw ''ed25519_signature_hex'') []) digest))))))"

end
