(* ===== verification/Protocol_Receipt.thy ===== *)
theory Protocol_Receipt
  imports Agent_Mandate
begin

text \<open>
  Protocol authorization and settlement receipts (\<open>protocol_receipt.py\<close>): their normalization,
  canonical bytes, signing and verification, over the readers of \<open>agent_mandate.py\<close>.
\<close>

section \<open>Transport bindings\<close>

record transport_binding =
  tb_source_protocol :: string
  tb_partner_platform :: "string option"
  tb_external_authorization_id :: "string option"
  tb_request_id :: "string option"

definition normalize_transport_binding :: "(string, json) dict \<Rightarrow> string \<Rightarrow> exn + transport_binding" where
  "normalize_transport_binding raw label =
     (let source = text_or (low_at raw ''source_protocol'') ''ap2'';
          platform = str_at raw ''partner_platform'';
          external = str_at raw ''external_authorization_id'';
          request = str_at raw ''request_id'' in
      rbind (ensure (scope_token_re source)
               (ValueError (label @ '': source_protocol '' @ py_repr source @ '' is not canonical''))) (\<lambda>_.
      rbind (rmap (\<lambda>(name, value). ensure (length value \<le> 256)
                 (ValueError (label @ '': '' @ name @ '' must be 256 bytes or fewer'')))
               [(''partner_platform'', platform), (''external_authorization_id'', external),
                (''request_id'', request)]) (\<lambda>_.
      Inr \<lparr>tb_source_protocol = source, tb_partner_platform = or_none platform,
           tb_external_authorization_id = or_none external, tb_request_id = or_none request\<rparr>)))"

definition opt_text :: "string \<Rightarrow> string option \<Rightarrow> (string, json) dict" where
  "opt_text k v = (case v of None \<Rightarrow> [] | Some s \<Rightarrow> if s = [] then [] else [(k, JStr s)])"

definition canonical_transport_binding :: "transport_binding \<Rightarrow> (string, json) dict" where
  "canonical_transport_binding b =
     [(''source_protocol'', JStr (tb_source_protocol b))] @
     opt_text ''partner_platform'' (tb_partner_platform b) @
     opt_text ''external_authorization_id'' (tb_external_authorization_id b) @
     opt_text ''request_id'' (tb_request_id b)"

section \<open>Shared checks\<close>

text \<open>
  A version or kind that may be left out, a token and an identifier that may not, a timestamp, the
  signing algorithm and the signature material.
\<close>

definition check_schema_version :: "string \<Rightarrow> (string, json) dict \<Rightarrow> exn + unit" where
  "check_schema_version label raw =
     (let v = read_number (jget raw ''schema_version'') 0
      in ensure (v \<in> {0, 1}) (ValueError (label @ '': unsupported schema_version '' @ str_int v)))"

definition constant_text :: "string \<Rightarrow> string \<Rightarrow> string \<Rightarrow> string \<Rightarrow> exn + unit" where
  "constant_text label name value expected =
     ensure (value \<in> set [[], expected])
       (ValueError (label @ '': unsupported '' @ name @ '' '' @ py_repr value))"

definition required_token :: "string \<Rightarrow> (string, json) dict \<Rightarrow> string \<Rightarrow> exn + string" where
  "required_token label raw name =
     (let v = low_at raw name in
      rbind (ensure (v \<noteq> []) (ValueError (label @ '': '' @ name @ '' is required''))) (\<lambda>_.
      rbind (ensure (scope_token_re v)
               (ValueError (label @ '': '' @ name @ '' '' @ py_repr v @ '' is not canonical''))) (\<lambda>_.
      Inr v)))"

definition required_uuid :: "string \<Rightarrow> (string, json) dict \<Rightarrow> exn + string" where
  "required_uuid label raw =
     rbind (ensure (uuid_re (low_at raw ''intent_id''))
              (ValueError (label @ '': intent_id must be a canonical UUID''))) (\<lambda>_.
     Inr (low_at raw ''intent_id''))"

definition normalize_timestamp :: "(string \<Rightarrow> exn + int) \<Rightarrow> json \<Rightarrow> string \<Rightarrow> exn + string" where
  "normalize_timestamp instant v msg = rbind (parse_timestamp instant v msg) (\<lambda>us. Inr (format_rfc3339_nano_utc us))"

definition timestamp_at :: "(string \<Rightarrow> exn + int) \<Rightarrow> string \<Rightarrow> (string, json) dict \<Rightarrow> string \<Rightarrow> exn + string" where
  "timestamp_at instant label raw name =
     normalize_timestamp instant (jget raw name) (label @ '': '' @ name @ '' is required'')"

definition required_hex64 :: "string \<Rightarrow> (string, json) dict \<Rightarrow> string \<Rightarrow> exn + string" where
  "required_hex64 label raw name =
     rbind (ensure (hex64_re (low_at raw name))
              (ValueError (label @ '': '' @ name @ '' must be a lowercase 64-byte hex SHA-256 digest''))) (\<lambda>_.
     Inr (low_at raw name))"

text \<open>\<open>x.strip()\<close> that must not be empty.\<close>

definition required_text :: "string \<Rightarrow> string \<Rightarrow> string \<Rightarrow> exn + string" where
  "required_text label name v = rbind (ensure (v \<noteq> []) (ValueError (label @ '': '' @ name @ '' is required''))) (\<lambda>_. Inr v)"

definition normalize_protocol_scope_set :: "string list \<Rightarrow> string \<Rightarrow> exn + string list" where
  "normalize_protocol_scope_set raw label = rbind (scope_tokens label raw []) (\<lambda>out. Inr (sort out))"

record signing_material =
  sm_algorithm :: string
  sm_message_digest :: string
  sm_public_key :: string
  sm_signature :: string

definition signing_material_of :: "(string, json) dict \<Rightarrow> signing_material" where
  "signing_material_of raw =
     \<lparr>sm_algorithm = text_or (low_at raw ''signing_algorithm'') SIGNING_ALGORITHM,
      sm_message_digest = low_at raw ''message_digest_sha256_hex'',
      sm_public_key = low_at raw ''signing_public_key_ed25519_hex'',
      sm_signature = low_at raw ''ed25519_signature_hex''\<rparr>"

section \<open>Authorization receipts\<close>

record authorization_receipt =
  ar_receipt_id :: string
  ar_issued_at :: string
  ar_intent_id :: string
  ar_tenant_id :: string
  ar_verifier_id :: string
  ar_transport_binding :: transport_binding
  ar_mandate_digest :: string
  ar_imported_public_key :: string
  ar_authorization :: mandate_authorization
  ar_agent :: agent_identity
  ar_allowed_actions :: "string list"
  ar_allowed_tools :: "string list"
  ar_spend_ceiling :: spend_ceiling
  ar_settlement :: rail_policy
  ar_constraint :: constraint_reference
  ar_expires_at :: string
  ar_nonce :: string
  ar_human_presence_mode :: string
  ar_signing :: signing_material

abbreviation AUTH_LABEL :: string where
  "AUTH_LABEL \<equiv> ''protocol authorization receipt''"

definition PROTOCOL_AUTHORIZATION_RECEIPT_KIND_V1 :: string where
  "PROTOCOL_AUTHORIZATION_RECEIPT_KIND_V1 = ''paybond.protocol_authorization_receipt_v1''"

definition PROTOCOL_SETTLEMENT_RECEIPT_KIND_V1 :: string where
  "PROTOCOL_SETTLEMENT_RECEIPT_KIND_V1 = ''paybond.protocol_settlement_receipt_v1''"

definition imported_public_key :: "(string, json) dict \<Rightarrow> exn + string" where
  "imported_public_key raw =
     (let k = low_at raw ''imported_mandate_signing_public_key_ed25519_hex'';
          err = ValueError (AUTH_LABEL @ '': imported_mandate_signing_public_key_ed25519_hex is invalid'') in
      case fromhex k of
        Inl e \<Rightarrow> Inl err
      | Inr key \<Rightarrow> rbind (ensure (length key = 32) err) (\<lambda>_. Inr k))"

definition receipt_authorization_of :: "(string, json) dict \<Rightarrow> string \<Rightarrow> exn + mandate_authorization" where
  "receipt_authorization_of d tenant_id =
     (let kind = low_at d ''kind'' in
      rbind (ensure (kind \<in> set [''principal'', ''tenant''])
               (ValueError (AUTH_LABEL @ '': authorization.kind must be '' @ py_repr ''principal'' @ '' or '' @
                  py_repr ''tenant''))) (\<lambda>_.
      rbind (parse_tenant_id (mandate_read_string (jget d ''tenant_id'') []) (AUTH_LABEL @ '': authorization.tenant_id'')) (\<lambda>tenant.
      rbind (ensure (tenant = tenant_id)
               (ValueError (AUTH_LABEL @ '': authorization.tenant_id must match tenant_id''))) (\<lambda>_.
      Inr \<lparr>au_kind = kind, au_tenant_id = tenant, au_principal_subject = str_at d ''principal_subject'',
           au_principal_type = low_at d ''principal_type''\<rparr>))))"

definition receipt_agent_of :: "(string, json) dict \<Rightarrow> exn + agent_identity" where
  "receipt_agent_of d =
     rbind (required_text AUTH_LABEL ''agent.subject'' (str_at d ''subject'')) (\<lambda>subject.
     Inr \<lparr>ai_subject = subject, ai_issuer = str_at d ''issuer'', ai_key_id = str_at d ''key_id'',
          ai_display_name = str_at d ''display_name''\<rparr>)"

definition receipt_ceiling_of :: "(string, json) dict \<Rightarrow> exn + spend_ceiling" where
  "receipt_ceiling_of d =
     (let amount = read_number (jget d ''amount_minor'') 0; currency = low_at d ''currency'' in
      rbind (ensure (amount > 0)
               (ValueError (AUTH_LABEL @ '': spend_ceiling.amount_minor must be greater than zero''))) (\<lambda>_.
      rbind (ensure (mandate_currency_re currency)
               (ValueError (AUTH_LABEL @ '': spend_ceiling.currency '' @ py_repr currency @ '' is not canonical''))) (\<lambda>_.
      Inr \<lparr>sc_amount_minor = amount, sc_currency = currency\<rparr>)))"

definition receipt_settlement_of :: "(string, json) dict \<Rightarrow> exn + rail_policy" where
  "receipt_settlement_of d =
     rbind (required_text AUTH_LABEL ''settlement.default_rail'' (low_at d ''default_rail'')) (\<lambda>default_rail.
     rbind (normalize_protocol_scope_set (read_string_array (jget d ''allowed_rails''))
              (AUTH_LABEL @ '': settlement.allowed_rails'')) (\<lambda>allowed.
     Inr \<lparr>rp_default_rail = default_rail, rp_allowed_rails = allowed\<rparr>))"

definition receipt_constraint_of :: "(string, json) dict \<Rightarrow> exn + constraint_reference" where
  "receipt_constraint_of d =
     rbind (required_text AUTH_LABEL ''constraint.kind'' (low_at d ''kind'')) (\<lambda>kind.
     Inr \<lparr>cr_kind = kind, cr_id = str_at d ''id'', cr_version = str_at d ''version'',
          cr_digest_sha256_hex = low_at d ''digest_sha256_hex'', cr_uri = str_at d ''uri''\<rparr>)"

definition normalize_protocol_authorization_receipt_v1 ::
  "(string \<Rightarrow> exn + int) \<Rightarrow> (string, json) dict \<Rightarrow> exn + authorization_receipt" where
  "normalize_protocol_authorization_receipt_v1 instant raw =
     rbind (check_schema_version AUTH_LABEL raw) (\<lambda>_.
     rbind (constant_text AUTH_LABEL ''kind'' (str_at raw ''kind'') PROTOCOL_AUTHORIZATION_RECEIPT_KIND_V1) (\<lambda>_.
     rbind (constant_text AUTH_LABEL ''receipt_version'' (str_at raw ''receipt_version'') ''1'') (\<lambda>_.
     rbind (required_token AUTH_LABEL raw ''receipt_id'') (\<lambda>receipt_id.
     rbind (required_uuid AUTH_LABEL raw) (\<lambda>intent_id.
     rbind (timestamp_at instant AUTH_LABEL raw ''issued_at'') (\<lambda>issued_at.
     rbind (constant_text AUTH_LABEL ''status'' (low_at raw ''status'') ''authorized'') (\<lambda>_.
     rbind (parse_tenant_id (mandate_read_string (jget raw ''tenant_id'') []) (AUTH_LABEL @ '': tenant_id'')) (\<lambda>tenant_id.
     rbind (required_token AUTH_LABEL raw ''verifier_id'') (\<lambda>verifier_id.
     rbind (normalize_transport_binding (object_or_empty (jget raw ''transport_binding''))
              (AUTH_LABEL @ '': transport_binding'')) (\<lambda>binding.
     rbind (required_hex64 AUTH_LABEL raw ''mandate_digest_sha256_hex'') (\<lambda>mandate_digest.
     rbind (imported_public_key raw) (\<lambda>imported.
     rbind (receipt_authorization_of (object_or_empty (jget raw ''authorization'')) tenant_id) (\<lambda>authorization.
     rbind (receipt_agent_of (object_or_empty (jget raw ''agent''))) (\<lambda>agent.
     rbind (normalize_protocol_scope_set (read_string_array (jget raw ''allowed_actions''))
              (AUTH_LABEL @ '': allowed_actions'')) (\<lambda>actions.
     rbind (normalize_protocol_scope_set (read_string_array (jget raw ''allowed_tools''))
              (AUTH_LABEL @ '': allowed_tools'')) (\<lambda>tools.
     rbind (ensure (actions \<noteq> [] \<or> tools \<noteq> [])
              (ValueError (AUTH_LABEL @ '': at least one allowed action or allowed tool is required''))) (\<lambda>_.
     rbind (receipt_ceiling_of (object_or_empty (jget raw ''spend_ceiling''))) (\<lambda>ceiling.
     rbind (receipt_settlement_of (object_or_empty (jget raw ''settlement''))) (\<lambda>settlement.
     rbind (receipt_constraint_of (object_or_empty (jget raw ''constraint''))) (\<lambda>constraint.
     rbind (timestamp_at instant AUTH_LABEL raw ''expires_at'') (\<lambda>expires_at.
     rbind (required_text AUTH_LABEL ''nonce'' (str_at raw ''nonce'')) (\<lambda>nonce.
     rbind (ensure (low_at raw ''human_presence_mode'' \<in> set [''human_present'', ''human_not_present''])
              (ValueError (AUTH_LABEL @ '': human_presence_mode must be '' @ py_repr ''human_present'' @ '' or '' @
                 py_repr ''human_not_present''))) (\<lambda>_.
     Inr \<lparr>ar_receipt_id = receipt_id, ar_issued_at = issued_at, ar_intent_id = intent_id, ar_tenant_id = tenant_id,
          ar_verifier_id = verifier_id, ar_transport_binding = binding, ar_mandate_digest = mandate_digest,
          ar_imported_public_key = imported, ar_authorization = authorization, ar_agent = agent,
          ar_allowed_actions = actions, ar_allowed_tools = tools, ar_spend_ceiling = ceiling,
          ar_settlement = settlement, ar_constraint = constraint, ar_expires_at = expires_at, ar_nonce = nonce,
          ar_human_presence_mode = low_at raw ''human_presence_mode'',
          ar_signing = signing_material_of raw\<rparr>)))))))))))))))))))))))"

definition authorization_receipt_payload :: "authorization_receipt \<Rightarrow> (string, json) dict" where
  "authorization_receipt_payload r =
     [(''schema_version'', JInt 1), (''kind'', JStr PROTOCOL_AUTHORIZATION_RECEIPT_KIND_V1),
      (''receipt_version'', JStr ''1''), (''receipt_id'', JStr (ar_receipt_id r)),
      (''issued_at'', JStr (ar_issued_at r)), (''status'', JStr ''authorized''),
      (''intent_id'', JStr (ar_intent_id r)), (''tenant_id'', JStr (ar_tenant_id r)),
      (''verifier_id'', JStr (ar_verifier_id r)),
      (''transport_binding'', JObj (canonical_transport_binding (ar_transport_binding r))),
      (''mandate_digest_sha256_hex'', JStr (ar_mandate_digest r)),
      (''imported_mandate_signing_public_key_ed25519_hex'', JStr (ar_imported_public_key r)),
      (''authorization'', authorization_dict (ar_authorization r)), (''agent'', agent_dict (ar_agent r)),
      (''allowed_actions'', texts (ar_allowed_actions r)), (''allowed_tools'', texts (ar_allowed_tools r)),
      (''spend_ceiling'', ceiling_dict (ar_spend_ceiling r)),
      (''settlement'', settlement_dict (ar_settlement r)), (''constraint'', constraint_dict (ar_constraint r)),
      (''expires_at'', JStr (ar_expires_at r)), (''nonce'', JStr (ar_nonce r)),
      (''human_presence_mode'', JStr (ar_human_presence_mode r))]"

definition marshal_canonical_authorization_receipt :: "authorization_receipt \<Rightarrow> string" where
  "marshal_canonical_authorization_receipt r = go_json_bytes (authorization_receipt_payload r)"

section \<open>Settlement receipts\<close>

record settlement_receipt =
  sr_receipt_id :: string
  sr_issued_at :: string
  sr_intent_id :: string
  sr_tenant_id :: string
  sr_verifier_id :: string
  sr_transport_binding :: transport_binding
  sr_authorization_receipt_id :: string
  sr_mandate_digest :: string
  sr_harbor_state :: string
  sr_predicate_passed :: "bool option"
  sr_settlement_rail :: string
  sr_settlement_mode :: string
  sr_principal_did :: string
  sr_payee_did :: string
  sr_currency :: string
  sr_amount_cents :: int
  sr_terminal_observed_at :: string
  sr_signing :: signing_material

abbreviation SETTLE_LABEL :: string where
  "SETTLE_LABEL \<equiv> ''protocol settlement receipt''"

definition PROTOCOL_SETTLEMENT_TERMINAL_STATES :: "string list" where
  "PROTOCOL_SETTLEMENT_TERMINAL_STATES = [''released'', ''refunded'', ''resolved_split'', ''escalated_external'']"

definition normalize_protocol_settlement_receipt_v1 ::
  "(string \<Rightarrow> exn + int) \<Rightarrow> (string, json) dict \<Rightarrow> exn + settlement_receipt" where
  "normalize_protocol_settlement_receipt_v1 instant raw =
     rbind (check_schema_version SETTLE_LABEL raw) (\<lambda>_.
     rbind (constant_text SETTLE_LABEL ''kind'' (str_at raw ''kind'') PROTOCOL_SETTLEMENT_RECEIPT_KIND_V1) (\<lambda>_.
     rbind (constant_text SETTLE_LABEL ''receipt_version'' (str_at raw ''receipt_version'') ''1'') (\<lambda>_.
     rbind (required_token SETTLE_LABEL raw ''receipt_id'') (\<lambda>receipt_id.
     rbind (required_uuid SETTLE_LABEL raw) (\<lambda>intent_id.
     rbind (ensure (receipt_id = intent_id)
              (ValueError (SETTLE_LABEL @ '': receipt_id must equal intent_id for Harbor-backed receipts''))) (\<lambda>_.
     rbind (timestamp_at instant SETTLE_LABEL raw ''issued_at'') (\<lambda>issued_at.
     rbind (parse_tenant_id (mandate_read_string (jget raw ''tenant_id'') []) (SETTLE_LABEL @ '': tenant_id'')) (\<lambda>tenant_id.
     rbind (required_token SETTLE_LABEL raw ''verifier_id'') (\<lambda>verifier_id.
     rbind (normalize_transport_binding (object_or_empty (jget raw ''transport_binding''))
              (SETTLE_LABEL @ '': transport_binding'')) (\<lambda>binding.
     rbind (required_token SETTLE_LABEL raw ''authorization_receipt_id'') (\<lambda>authorization_receipt_id.
     rbind (required_hex64 SETTLE_LABEL raw ''mandate_digest_sha256_hex'') (\<lambda>mandate_digest.
     rbind (ensure (low_at raw ''harbor_state'' \<in> set PROTOCOL_SETTLEMENT_TERMINAL_STATES)
              (ValueError (SETTLE_LABEL @
                 '': harbor_state must be released, refunded, resolved_split, or escalated_external''))) (\<lambda>_.
     rbind (required_text SETTLE_LABEL ''settlement_rail'' (low_at raw ''settlement_rail'')) (\<lambda>rail.
     rbind (required_text SETTLE_LABEL ''settlement_mode'' (str_at raw ''settlement_mode'')) (\<lambda>mode.
     rbind (required_text SETTLE_LABEL ''currency'' (low_at raw ''currency'')) (\<lambda>currency.
     rbind (ensure (read_number (jget raw ''amount_cents'') 0 > 0)
              (ValueError (SETTLE_LABEL @ '': amount_cents must be greater than zero''))) (\<lambda>_.
     rbind (timestamp_at instant SETTLE_LABEL raw ''terminal_observed_at'') (\<lambda>observed_at.
     Inr \<lparr>sr_receipt_id = receipt_id, sr_issued_at = issued_at, sr_intent_id = intent_id, sr_tenant_id = tenant_id,
          sr_verifier_id = verifier_id, sr_transport_binding = binding,
          sr_authorization_receipt_id = authorization_receipt_id, sr_mandate_digest = mandate_digest,
          sr_harbor_state = low_at raw ''harbor_state'',
          sr_predicate_passed = (case jget raw ''predicate_passed'' of JBool b \<Rightarrow> Some b | _ \<Rightarrow> None),
          sr_settlement_rail = rail, sr_settlement_mode = mode, sr_principal_did = str_at raw ''principal_did'',
          sr_payee_did = str_at raw ''payee_did'', sr_currency = currency,
          sr_amount_cents = read_number (jget raw ''amount_cents'') 0, sr_terminal_observed_at = observed_at,
          sr_signing = signing_material_of raw\<rparr>))))))))))))))))))"

definition settlement_receipt_payload :: "settlement_receipt \<Rightarrow> (string, json) dict" where
  "settlement_receipt_payload r =
     [(''schema_version'', JInt 1), (''kind'', JStr PROTOCOL_SETTLEMENT_RECEIPT_KIND_V1),
      (''receipt_version'', JStr ''1''), (''receipt_id'', JStr (sr_receipt_id r)),
      (''issued_at'', JStr (sr_issued_at r)), (''intent_id'', JStr (sr_intent_id r)),
      (''tenant_id'', JStr (sr_tenant_id r)), (''verifier_id'', JStr (sr_verifier_id r)),
      (''transport_binding'', JObj (canonical_transport_binding (sr_transport_binding r))),
      (''authorization_receipt_id'', JStr (sr_authorization_receipt_id r)),
      (''mandate_digest_sha256_hex'', JStr (sr_mandate_digest r)),
      (''harbor_state'', JStr (sr_harbor_state r))] @
     (case sr_predicate_passed r of None \<Rightarrow> [] | Some b \<Rightarrow> [(''predicate_passed'', JBool b)]) @
     [(''settlement_rail'', JStr (sr_settlement_rail r)), (''settlement_mode'', JStr (sr_settlement_mode r)),
      (''principal_did'', JStr (sr_principal_did r)), (''payee_did'', JStr (sr_payee_did r)),
      (''currency'', JStr (sr_currency r)), (''amount_cents'', JInt (sr_amount_cents r)),
      (''terminal_observed_at'', JStr (sr_terminal_observed_at r))]"

definition marshal_canonical_settlement_receipt :: "settlement_receipt \<Rightarrow> string" where
  "marshal_canonical_settlement_receipt r = go_json_bytes (settlement_receipt_payload r)"

section \<open>Signing and verification\<close>

text \<open>
  The dictionaries of the two receipts: the payload and the signing material.  (The code keeps
  \<open>predicate_passed\<close> last; the order of a dictionary's entries is not read.)
\<close>

definition material_dict :: "signing_material \<Rightarrow> (string, json) dict" where
  "material_dict m =
     [(''signing_algorithm'', JStr (sm_algorithm m)), (''message_digest_sha256_hex'', JStr (sm_message_digest m)),
      (''signing_public_key_ed25519_hex'', JStr (sm_public_key m)), (''ed25519_signature_hex'', JStr (sm_signature m))]"

definition authorization_receipt_dict :: "authorization_receipt \<Rightarrow> (string, json) dict" where
  "authorization_receipt_dict r = authorization_receipt_payload r @ material_dict (ar_signing r)"

definition settlement_receipt_dict :: "settlement_receipt \<Rightarrow> (string, json) dict" where
  "settlement_receipt_dict r = settlement_receipt_payload r @ material_dict (sr_signing r)"

definition signed_material :: "string \<Rightarrow> string \<Rightarrow> string \<Rightarrow> signing_material" where
  "signed_material digest key signature =
     \<lparr>sm_algorithm = SIGNING_ALGORITHM, sm_message_digest = to_hex digest, sm_public_key = to_hex key,
      sm_signature = to_hex signature\<rparr>"

definition verify_signed_digest ::
  "(string \<Rightarrow> string \<Rightarrow> string \<Rightarrow> bool) \<Rightarrow> string \<Rightarrow> signing_material \<Rightarrow> string \<Rightarrow> exn + unit" where
  "verify_signed_digest verify_sig kind m digest =
     rbind (ensure (sm_algorithm m = SIGNING_ALGORITHM)
              (ValueError (kind @ '': signing_algorithm must be '' @ py_repr SIGNING_ALGORITHM))) (\<lambda>_.
     rbind (ensure (hex64_re (sm_message_digest m))
              (ValueError (kind @ '': message_digest_sha256_hex must be a lowercase 64-byte hex SHA-256 digest''))) (\<lambda>_.
     rbind (ensure (sm_message_digest m = to_hex digest) (ValueError (kind @ '': message digest mismatch''))) (\<lambda>_.
     check_detached verify_sig kind (sm_public_key m) (sm_signature m) digest)))"

definition sign_protocol_authorization_receipt_v1 ::
  "(string \<Rightarrow> string) \<Rightarrow> (string \<Rightarrow> string \<Rightarrow> string) \<Rightarrow> (string \<Rightarrow> string) \<Rightarrow> (string \<Rightarrow> exn + int) \<Rightarrow>
   string \<Rightarrow> (string, json) dict \<Rightarrow> exn + authorization_receipt" where
  "sign_protocol_authorization_receipt_v1 H sign public instant seed receipt =
     rbind (ensure (length seed = 32)
              (ValueError (AUTH_LABEL @ '': signing key must be an ed25519 private key''))) (\<lambda>_.
     rbind (normalize_protocol_authorization_receipt_v1 instant receipt) (\<lambda>n.
     let digest = H (marshal_canonical_authorization_receipt n) in
     Inr (n\<lparr>ar_signing := signed_material digest (public seed) (sign seed digest)\<rparr>)))"

definition sign_protocol_settlement_receipt_v1 ::
  "(string \<Rightarrow> string) \<Rightarrow> (string \<Rightarrow> string \<Rightarrow> string) \<Rightarrow> (string \<Rightarrow> string) \<Rightarrow> (string \<Rightarrow> exn + int) \<Rightarrow>
   string \<Rightarrow> (string, json) dict \<Rightarrow> exn + settlement_receipt" where
  "sign_protocol_settlement_receipt_v1 H sign public instant seed receipt =
     rbind (ensure (length seed = 32)
              (ValueError (SETTLE_LABEL @ '': signing key must be an ed25519 private key''))) (\<lambda>_.
     rbind (normalize_protocol_settlement_receipt_v1 instant receipt) (\<lambda>n.
     let digest = H (marshal_canonical_settlement_receipt n) in
     Inr (n\<lparr>sr_signing := signed_material digest (public seed) (sign seed digest)\<rparr>)))"

definition verify_protocol_authorization_receipt_v1 ::
  "(string \<Rightarrow> string) \<Rightarrow> (string \<Rightarrow> string \<Rightarrow> string \<Rightarrow> bool) \<Rightarrow> (string \<Rightarrow> exn + int) \<Rightarrow>
   (string, json) dict \<Rightarrow> exn + authorization_receipt" where
  "verify_protocol_authorization_receipt_v1 H verify_sig instant receipt =
     rbind (normalize_protocol_authorization_receipt_v1 instant receipt) (\<lambda>n.
     rbind (verify_signed_digest verify_sig AUTH_LABEL (ar_signing n)
              (H (marshal_canonical_authorization_receipt n))) (\<lambda>_.
     Inr n))"

definition verify_protocol_settlement_receipt_v1 ::
  "(string \<Rightarrow> string) \<Rightarrow> (string \<Rightarrow> string \<Rightarrow> string \<Rightarrow> bool) \<Rightarrow> (string \<Rightarrow> exn + int) \<Rightarrow>
   (string, json) dict \<Rightarrow> exn + settlement_receipt" where
  "verify_protocol_settlement_receipt_v1 H verify_sig instant receipt =
     rbind (normalize_protocol_settlement_receipt_v1 instant receipt) (\<lambda>n.
     rbind (verify_signed_digest verify_sig SETTLE_LABEL (sr_signing n)
              (H (marshal_canonical_settlement_receipt n))) (\<lambda>_.
     Inr n))"

end
