(* ===== verification/Mandate_Facts.thy ===== *)
theory Mandate_Facts
  imports Hex_Text Agent_Mandate
begin

text \<open>
  Facts about mandates: Go's escapes are read back, the canonical bytes determine the payload, and a
  normalized mandate is a fixed point of the normalization.
\<close>

section \<open>Go's escapes\<close>

fun ungo :: "string \<Rightarrow> string" where
  "ungo [] = []"
| "ungo (c # s) =
     (if c \<noteq> CHR 0x5C then c # ungo s
      else if take 5 s = ''u0026'' then CHR ''&'' # ungo (drop 5 s)
      else if take 5 s = ''u003c'' then CHR ''<'' # ungo (drop 5 s)
      else if take 5 s = ''u003e'' then CHR ''>'' # ungo (drop 5 s)
      else c # take 1 s @ ungo (drop 1 s))"

lemma go_json_escape_Nil [simp]: "go_json_escape [] = []"
  by (simp add: go_json_escape_def)

lemma go_json_escape_Cons [simp]: "go_json_escape (c # s) = go_escape_char c @ go_json_escape s"
  by (simp add: go_json_escape_def)

lemma ungo_go: "escaped_text s \<Longrightarrow> ungo (go_json_escape s) = s"
proof (induction s rule: escaped_text.induct)
  case (Unicode h g s)
  then show ?case by (auto simp: go_escape_char_def)
qed (auto simp: go_escape_char_def)

text \<open>The canonical bytes of two payloads without floats are the same only for the same payload.\<close>

lemma go_json_bytes_inj:
  assumes "go_json_bytes p = go_json_bytes q" "no_floats (JObj p)" "no_floats (JObj q)"
  shows "p = q"
proof -
  have "go_json_escape (json_dumps_unicode (JObj p)) = go_json_escape (json_dumps_unicode (JObj q))"
    using assms(1) utf8_inj unfolding go_json_bytes_def by blast
  then have "json_dumps_unicode (JObj p) = json_dumps_unicode (JObj q)"
    using ungo_go[OF escaped_json_dumps[OF assms(2)]] ungo_go[OF escaped_json_dumps[OF assms(3)]] by metis
  then show ?thesis using json_dumps_unicode_inj assms(2,3) by blast
qed

section \<open>Tokens\<close>

definition canonical_scopes :: "string list \<Rightarrow> bool" where
  "canonical_scopes l \<longleftrightarrow> sorted l \<and> distinct l \<and> list_all canonical_token l"

lemma scope_tokens_sound:
  "\<lbrakk>scope_tokens f vs out = Inr ts; distinct out; list_all canonical_token out\<rbrakk>
     \<Longrightarrow> distinct ts \<and> list_all canonical_token ts"
proof (induction f vs out rule: scope_tokens.induct)
  case (2 f v vs out)
  then show ?case
    by (auto simp: rbind_Inr_iff Let_def push_new_def canonical_token_def)
qed simp

lemma scope_tokens_again:
  "\<lbrakk>distinct (out @ ts); list_all canonical_token ts\<rbrakk> \<Longrightarrow> scope_tokens f ts out = Inr (out @ ts)"
proof (induction ts arbitrary: out)
  case (Cons t ts)
  then have "push_new out t = out @ [t]" by (simp add: push_new_def)
  then show ?case using Cons by (simp add: canonical_token_def Let_def)
qed simp

lemma sorted_scopes_sound:
  "rbind (scope_tokens f vs []) (\<lambda>out. Inr (sort out)) = Inr ts \<Longrightarrow> canonical_scopes ts"
  by (auto simp: rbind_Inr_iff canonical_scopes_def list_all_iff dest: scope_tokens_sound)

lemma sorted_scopes_again:
  "canonical_scopes ts \<Longrightarrow> rbind (scope_tokens f ts []) (\<lambda>out. Inr (sort out)) = Inr ts"
  using scope_tokens_again[of "[]" ts f] by (simp add: canonical_scopes_def sorted_sort_id)

definition canonical_rails :: "string list \<Rightarrow> bool" where
  "canonical_rails l \<longleftrightarrow> sorted l \<and> distinct l \<and> set l \<subseteq> set SETTLEMENT_RAILS"

lemma rail_tokens_sound:
  "\<lbrakk>rail_tokens vs out = Inr ts; distinct out; set out \<subseteq> set SETTLEMENT_RAILS\<rbrakk>
     \<Longrightarrow> distinct ts \<and> set ts \<subseteq> set SETTLEMENT_RAILS"
proof (induction vs out rule: rail_tokens.induct)
  case (2 v vs out)
  then show ?case by (auto simp: rbind_Inr_iff Let_def push_new_def split: if_splits)
qed simp

lemma rail_text: "r \<in> set SETTLEMENT_RAILS \<Longrightarrow> lower (strip r) = r"
proof -
  have "list_all (\<lambda>r. lower (strip r) = r) SETTLEMENT_RAILS" by code_simp
  then show "r \<in> set SETTLEMENT_RAILS \<Longrightarrow> lower (strip r) = r" by (simp add: list_all_iff)
qed

lemma rail_tokens_again:
  "\<lbrakk>distinct (out @ ts); set ts \<subseteq> set SETTLEMENT_RAILS\<rbrakk> \<Longrightarrow> rail_tokens ts out = Inr (out @ ts)"
proof (induction ts arbitrary: out)
  case (Cons t ts)
  then have "push_new out t = out @ [t]" by (simp add: push_new_def)
  then show ?case using Cons rail_text[of t] by (simp add: Let_def)
qed simp

lemma normalize_allowed_rails_Inr:
  "normalize_allowed_rails vs = Inr ts \<Longrightarrow> canonical_rails ts"
  using rail_tokens_sound[of vs "[]"] by (auto simp: normalize_allowed_rails_def rbind_Inr_iff canonical_rails_def)

lemma normalize_allowed_rails_again: "canonical_rails ts \<Longrightarrow> normalize_allowed_rails ts = Inr ts"
  using rail_tokens_again[of "[]" ts] by (simp add: normalize_allowed_rails_def canonical_rails_def sorted_sort_id)

section \<open>Reading back\<close>

lemma read_simps [simp]:
  "mandate_read_string (JStr s) x = s" "read_number (JInt i) y = i" "object_or_empty (JObj d) = d"
  "read_string_array (texts l) = l" "read_string_array (JArr (List.map JStr l)) = l"
  by (simp_all add: mandate_read_string_def read_number_def object_or_empty_def read_object_def texts_def
      read_string_array_def map_filter_map_filter as_str_def comp_def map_filter_def filter_id_conv)

lemma mandate_read_string_read [simp]: "mandate_read_string (JStr (mandate_read_string v x)) x = mandate_read_string v x"
  by simp

lemma str_at_lookup [receipt_eval]:
  "str_at [] k = []" "str_at ((k', v) # d) k = (if k' = k then strip (mandate_read_string v []) else str_at d k)"
  "low_at [] k = []" "low_at ((k', v) # d) k = (if k' = k then lower (strip (mandate_read_string v [])) else low_at d k)"
  by (simp_all add: low_at_def str_at_def display_lookup mandate_read_string_def)

lemma at_stripped [simp]:
  "strip (str_at d k) = str_at d k" "strip (low_at d k) = low_at d k" "lower (low_at d k) = low_at d k"
  by (simp_all add: str_at_def low_at_def)

lemma parse_tenant_id_Inr:
  "parse_tenant_id raw f = Inr t \<longleftrightarrow> t = strip raw \<and> t \<noteq> [] \<and> length t \<le> 256 \<and> tenant_id_re t"
  by (auto simp: parse_tenant_id_def rbind_Inr_iff Let_def)

text \<open>The timestamp of a receipt or mandate, and what is read from it again.\<close>

lemma parse_timestamp_Inr:
  "parse_timestamp instant v msg = Inr us \<longleftrightarrow>
     (\<exists>s. v = JStr s \<and> strip s \<noteq> [] \<and> instant (replace_z (strip s)) = Inr us)"
  by (auto simp: parse_timestamp_def split: json.splits sum.splits if_splits)

lemma strftime_text:
  "strip (strftime_utc t) = strftime_utc t" "strftime_utc t \<noteq> []"
proof -
  obtain y m d where ymd: "civil_of_days (t div 86400) = (y, m, d)" by (cases "civil_of_days (t div 86400)")
  define u where "u = ''-'' @ two m @ ''-'' @ two d @ ''T'' @ two (t mod 86400 div 3600) @ '':'' @
     two (t mod 86400 mod 3600 div 60) @ '':'' @ two (t mod 86400 mod 60)"
  have eq: "strftime_utc t = str_int y @ u @ ''Z''"
    by (simp add: strftime_utc_def ymd Let_def u_def)
  have "str_int y \<noteq> [] \<and> (hd (str_int y) = CHR ''-'' \<or> is_digit (hd (str_int y)))"
    using hd_digits_nat by (auto simp: str_int_def)
  moreover have "\<not> py_space c" if "c = CHR ''-'' \<or> is_digit c" for c
    using that by (auto simp: py_space_def is_digit_def Let_def)
  ultimately have "\<not> py_space (hd (strftime_utc t))" by (simp add: eq hd_append)
  moreover have "\<not> py_space (last (strftime_utc t))" by (simp add: eq py_space_def)
  ultimately show "strip (strftime_utc t) = strftime_utc t" by (intro strip_fix) blast
  show "strftime_utc t \<noteq> []" by (simp add: eq)
qed

definition whole_seconds :: "int \<Rightarrow> int" where
  "whole_seconds us = us div 1000000 * 1000000"

lemma parse_formatted:
  assumes "parse_timestamp instant v msg = Inr us" "reads_back instant"
  shows "parse_timestamp instant (JStr (format_rfc3339_nano_utc us)) msg' = Inr (whole_seconds us)"
  using assms
  by (auto simp: parse_timestamp_Inr format_rfc3339_nano_utc_def strftime_text reads_back_def whole_seconds_def)

lemma format_whole_seconds [simp]: "format_rfc3339_nano_utc (whole_seconds us) = format_rfc3339_nano_utc us"
  by (simp add: format_rfc3339_nano_utc_def whole_seconds_def)

section \<open>Parts of a mandate\<close>

lemma authorization_part:
  "mandate_authorization_of d = Inr a \<longleftrightarrow>
     a = \<lparr>au_kind = low_at d ''kind'', au_tenant_id = str_at d ''tenant_id'',
          au_principal_subject = str_at d ''principal_subject'', au_principal_type = low_at d ''principal_type''\<rparr> \<and>
     au_kind a \<in> set [''principal'', ''tenant''] \<and>
     au_tenant_id a \<noteq> [] \<and> length (au_tenant_id a) \<le> 256 \<and> tenant_id_re (au_tenant_id a) \<and>
     (if au_kind a = ''principal''
      then au_principal_subject a \<noteq> [] \<and> (au_principal_type a = [] \<or> scope_token_re (au_principal_type a))
      else au_principal_subject a = [] \<and> au_principal_type a = [])"
  unfolding mandate_authorization_of_def Let_def rbind_Inr_iff ensure_Inr_iff parse_tenant_id_Inr str_at_def[symmetric]
  by (cases a) (simp add: rbind_Inr_iff, blast)

lemma agent_part:
  "mandate_agent_of d = Inr a \<longleftrightarrow>
     a = \<lparr>ai_subject = str_at d ''subject'', ai_issuer = str_at d ''issuer'',
          ai_key_id = str_at d ''key_id'', ai_display_name = str_at d ''display_name''\<rparr> \<and> ai_subject a \<noteq> []"
  by (auto simp: mandate_agent_of_def rbind_Inr_iff)

lemma ceiling_part:
  "mandate_ceiling_of d = Inr c \<longleftrightarrow>
     c = \<lparr>sc_amount_minor = read_number (jget d ''amount_minor'') 0, sc_currency = low_at d ''currency''\<rparr> \<and>
     sc_amount_minor c > 0 \<and> mandate_currency_re (sc_currency c)"
  by (auto simp: mandate_ceiling_of_def rbind_Inr_iff Let_def)

lemma settlement_part:
  "mandate_settlement_of d = Inr s \<longleftrightarrow>
     rp_default_rail s = low_at d ''default_rail'' \<and>
     normalize_allowed_rails (read_string_array (jget d ''allowed_rails'')) = Inr (rp_allowed_rails s) \<and>
     rp_default_rail s \<noteq> [] \<and> rp_default_rail s \<in> set (rp_allowed_rails s)"
  by (cases s) (auto simp: mandate_settlement_of_def rbind_Inr_iff Let_def)

lemma constraint_part:
  "mandate_constraint_of d = Inr c \<longleftrightarrow>
     c = \<lparr>cr_kind = low_at d ''kind'', cr_id = str_at d ''id'', cr_version = str_at d ''version'',
          cr_digest_sha256_hex = low_at d ''digest_sha256_hex'', cr_uri = str_at d ''uri''\<rparr> \<and>
     cr_kind c \<in> set [''predicate'', ''policy''] \<and>
     (cr_digest_sha256_hex c = [] \<or> hex64_re (cr_digest_sha256_hex c)) \<and>
     (cr_id c \<noteq> [] \<or> cr_uri c \<noteq> [] \<or> cr_digest_sha256_hex c \<noteq> [])"
  by (auto simp: mandate_constraint_of_def rbind_Inr_iff Let_def simp del: list.set)

lemmas mandate_parts = authorization_part agent_part ceiling_part settlement_part constraint_part

lemma parts_again:
  "mandate_authorization_of d1 = Inr a \<Longrightarrow> mandate_authorization_of (object_or_empty (authorization_dict a)) = Inr a"
  "mandate_agent_of d2 = Inr g \<Longrightarrow> mandate_agent_of (object_or_empty (agent_dict g)) = Inr g"
  "mandate_ceiling_of d3 = Inr c \<Longrightarrow> mandate_ceiling_of (object_or_empty (ceiling_dict c)) = Inr c"
  "mandate_settlement_of d4 = Inr s \<Longrightarrow> mandate_settlement_of (object_or_empty (settlement_dict s)) = Inr s"
  "mandate_constraint_of d5 = Inr r \<Longrightarrow> mandate_constraint_of (object_or_empty (constraint_dict r)) = Inr r"
proof -
  show "mandate_authorization_of d1 = Inr a \<Longrightarrow> mandate_authorization_of (object_or_empty (authorization_dict a)) = Inr a"
    unfolding authorization_part by (auto simp: authorization_dict_def receipt_eval)
  show "mandate_agent_of d2 = Inr g \<Longrightarrow> mandate_agent_of (object_or_empty (agent_dict g)) = Inr g"
    unfolding agent_part by (auto simp: agent_dict_def receipt_eval)
  show "mandate_ceiling_of d3 = Inr c \<Longrightarrow> mandate_ceiling_of (object_or_empty (ceiling_dict c)) = Inr c"
    unfolding ceiling_part by (auto simp: ceiling_dict_def receipt_eval)
  show "mandate_settlement_of d4 = Inr s \<Longrightarrow> mandate_settlement_of (object_or_empty (settlement_dict s)) = Inr s"
    unfolding settlement_part
    by (auto simp: settlement_dict_def receipt_eval dest: normalize_allowed_rails_Inr intro: normalize_allowed_rails_again)
  show "mandate_constraint_of d5 = Inr r \<Longrightarrow> mandate_constraint_of (object_or_empty (constraint_dict r)) = Inr r"
    unfolding constraint_part by (auto simp: constraint_dict_def receipt_eval)
qed

section \<open>Whole mandates\<close>

lemma mandate_scope_set_Inr: "mandate_scope_set raw f = Inr l \<Longrightarrow> canonical_scopes l"
  unfolding mandate_scope_set_def by (rule sorted_scopes_sound)

lemma mandate_scope_set_again: "canonical_scopes l \<Longrightarrow> mandate_scope_set l f = Inr l"
  unfolding mandate_scope_set_def by (rule sorted_scopes_again)

lemma fields_lookup [receipt_eval]:
  "jget (read_agent_mandate_fields d) ''schema_version'' = JInt (read_number (jget d ''schema_version'') 0)"
  "jget (read_agent_mandate_fields d) ''authorization'' = JObj (object_or_empty (jget d ''authorization''))"
  "jget (read_agent_mandate_fields d) ''agent'' = JObj (object_or_empty (jget d ''agent''))"
  "jget (read_agent_mandate_fields d) ''allowed_actions'' = texts (read_string_array (jget d ''allowed_actions''))"
  "jget (read_agent_mandate_fields d) ''allowed_tools'' = texts (read_string_array (jget d ''allowed_tools''))"
  "jget (read_agent_mandate_fields d) ''spend_ceiling'' = JObj (object_or_empty (jget d ''spend_ceiling''))"
  "jget (read_agent_mandate_fields d) ''settlement'' = JObj (object_or_empty (jget d ''settlement''))"
  "jget (read_agent_mandate_fields d) ''constraint'' = JObj (object_or_empty (jget d ''constraint''))"
  "jget (read_agent_mandate_fields d) ''expires_at'' = jget d ''expires_at''"
  "str_at (read_agent_mandate_fields d) ''kind'' = str_at d ''kind''"
  "str_at (read_agent_mandate_fields d) ''nonce'' = str_at d ''nonce''"
  "low_at (read_agent_mandate_fields d) ''human_presence_mode'' = low_at d ''human_presence_mode''"
  by (simp_all add: read_agent_mandate_fields_def display_lookup str_at_def low_at_def texts_def)

text \<open>What a normalized mandate is.\<close>

lemma mandate_run:
  "normalize_agent_mandate_v1 instant d = Inr m \<longleftrightarrow>
     read_number (jget d ''schema_version'') 0 \<in> {0, 1} \<and> str_at d ''kind'' \<in> set [[], AGENT_MANDATE_KIND_V1] \<and>
     am_schema_version m = 1 \<and> am_kind m = AGENT_MANDATE_KIND_V1 \<and>
     mandate_authorization_of (object_or_empty (jget d ''authorization'')) = Inr (am_authorization m) \<and>
     mandate_agent_of (object_or_empty (jget d ''agent'')) = Inr (am_agent m) \<and>
     mandate_scope_set (read_string_array (jget d ''allowed_actions'')) ''allowed_actions'' = Inr (am_allowed_actions m) \<and>
     mandate_scope_set (read_string_array (jget d ''allowed_tools'')) ''allowed_tools'' = Inr (am_allowed_tools m) \<and>
     (am_allowed_actions m \<noteq> [] \<or> am_allowed_tools m \<noteq> []) \<and>
     mandate_ceiling_of (object_or_empty (jget d ''spend_ceiling'')) = Inr (am_spend_ceiling m) \<and>
     mandate_settlement_of (object_or_empty (jget d ''settlement'')) = Inr (am_settlement m) \<and>
     mandate_constraint_of (object_or_empty (jget d ''constraint'')) = Inr (am_constraint m) \<and>
     am_nonce m = str_at d ''nonce'' \<and> am_nonce m \<noteq> [] \<and> length (am_nonce m) \<le> 256 \<and>
     am_human_presence_mode m = low_at d ''human_presence_mode'' \<and>
     am_human_presence_mode m \<in> set [''human_present'', ''human_not_present''] \<and>
     (\<exists>us. parse_timestamp instant (jget d ''expires_at'') ''agent mandate: expires_at is required'' = Inr us \<and>
        am_expires_at m = format_rfc3339_nano_utc us)"
  unfolding normalize_agent_mandate_v1_def Let_def rbind_Inr_iff ensure_Inr_iff receipt_eval read_simps
  by (cases m) (auto simp del: list.set)

lemma fields_again [simp]:
  "normalize_agent_mandate_v1 instant (read_agent_mandate_fields d) = normalize_agent_mandate_v1 instant d"
  by (simp add: normalize_agent_mandate_v1_def Let_def receipt_eval)

lemma dict_lookup [receipt_eval]:
  "jget (mandate_dict m @ R) ''schema_version'' = JInt (am_schema_version m)"
  "str_at (mandate_dict m @ R) ''kind'' = strip (am_kind m)"
  "jget (mandate_dict m @ R) ''authorization'' = authorization_dict (am_authorization m)"
  "jget (mandate_dict m @ R) ''agent'' = agent_dict (am_agent m)"
  "jget (mandate_dict m @ R) ''allowed_actions'' = texts (am_allowed_actions m)"
  "jget (mandate_dict m @ R) ''allowed_tools'' = texts (am_allowed_tools m)"
  "jget (mandate_dict m @ R) ''spend_ceiling'' = ceiling_dict (am_spend_ceiling m)"
  "jget (mandate_dict m @ R) ''settlement'' = settlement_dict (am_settlement m)"
  "jget (mandate_dict m @ R) ''constraint'' = constraint_dict (am_constraint m)"
  "jget (mandate_dict m @ R) ''expires_at'' = JStr (am_expires_at m)"
  "str_at (mandate_dict m @ R) ''nonce'' = strip (am_nonce m)"
  "low_at (mandate_dict m @ R) ''human_presence_mode'' = lower (strip (am_human_presence_mode m))"
  by (simp_all add: mandate_dict_def display_lookup str_at_lookup)

lemma kind_text [simp]: "strip AGENT_MANDATE_KIND_V1 = AGENT_MANDATE_KIND_V1"
  by code_simp

lemma normalize_mandate_again:
  assumes "normalize_agent_mandate_v1 instant d = Inr m" "reads_back instant"
  shows "normalize_agent_mandate_v1 instant (mandate_dict m @ R) = Inr m"
proof -
  note run = assms(1)[unfolded mandate_run]
  from run obtain us where us: "parse_timestamp instant (jget d ''expires_at'') ''agent mandate: expires_at is required'' = Inr us"
    "am_expires_at m = format_rfc3339_nano_utc us" by blast
  have parts:
      "mandate_authorization_of (object_or_empty (authorization_dict (am_authorization m))) = Inr (am_authorization m)"
      "mandate_agent_of (object_or_empty (agent_dict (am_agent m))) = Inr (am_agent m)"
      "mandate_ceiling_of (object_or_empty (ceiling_dict (am_spend_ceiling m))) = Inr (am_spend_ceiling m)"
      "mandate_settlement_of (object_or_empty (settlement_dict (am_settlement m))) = Inr (am_settlement m)"
      "mandate_constraint_of (object_or_empty (constraint_dict (am_constraint m))) = Inr (am_constraint m)"
    using run parts_again by blast+
  have sets: "mandate_scope_set (am_allowed_actions m) ''allowed_actions'' = Inr (am_allowed_actions m)"
      "mandate_scope_set (am_allowed_tools m) ''allowed_tools'' = Inr (am_allowed_tools m)"
    using run mandate_scope_set_Inr mandate_scope_set_again by blast+
  have texts: "strip (am_nonce m) = am_nonce m" "lower (strip (am_human_presence_mode m)) = am_human_presence_mode m"
    using run by simp_all
  have rest: "am_schema_version m = 1" "am_kind m = AGENT_MANDATE_KIND_V1" "am_nonce m \<noteq> []" "length (am_nonce m) \<le> 256"
      "am_human_presence_mode m \<in> set [''human_present'', ''human_not_present'']"
      "am_allowed_actions m \<noteq> [] \<or> am_allowed_tools m \<noteq> []"
    using run by blast+
  have kind: "AGENT_MANDATE_KIND_V1 \<in> set [[], AGENT_MANDATE_KIND_V1]" by simp
  have time: "\<exists>us'. parse_timestamp instant (JStr (am_expires_at m)) ''agent mandate: expires_at is required'' = Inr us' \<and>
      am_expires_at m = format_rfc3339_nano_utc us'"
    using parse_formatted[OF us(1) assms(2)] us(2) by auto
  show ?thesis
    unfolding mandate_run receipt_eval read_simps texts
    using rest(6) by (simp add: parts sets time rest(1-5) kind del: list.set)
qed

lemma mandate_dict_no_floats: "no_floats (JObj (mandate_dict m))"
  by (simp add: mandate_dict_def authorization_dict_def agent_dict_def texts_def ceiling_dict_def
      settlement_dict_def constraint_dict_def list_all_iff)

lemma part_dict_inj [simp]:
  "authorization_dict a = authorization_dict a' \<longleftrightarrow> a = a'" "agent_dict g = agent_dict g' \<longleftrightarrow> g = g'"
  "texts l = texts l' \<longleftrightarrow> l = l'" "ceiling_dict c = ceiling_dict c' \<longleftrightarrow> c = c'"
  "settlement_dict s = settlement_dict s' \<longleftrightarrow> s = s'" "constraint_dict r = constraint_dict r' \<longleftrightarrow> r = r'"
proof -
  show texts: "texts l = texts l' \<longleftrightarrow> l = l'" for l l'
    by (simp add: texts_def inj_map_eq_map inj_def)
  show "authorization_dict a = authorization_dict a' \<longleftrightarrow> a = a'"
    by (cases a; cases a') (simp add: authorization_dict_def)
  show "agent_dict g = agent_dict g' \<longleftrightarrow> g = g'"
    by (cases g; cases g') (simp add: agent_dict_def)
  show "ceiling_dict c = ceiling_dict c' \<longleftrightarrow> c = c'"
    by (cases c; cases c') (simp add: ceiling_dict_def)
  show "settlement_dict s = settlement_dict s' \<longleftrightarrow> s = s'"
    by (cases s; cases s') (simp add: settlement_dict_def texts)
  show "constraint_dict r = constraint_dict r' \<longleftrightarrow> r = r'"
    by (cases r; cases r') (simp add: constraint_dict_def)
qed

lemma mandate_dict_inj: "mandate_dict m = mandate_dict n \<Longrightarrow> m = n"
  by (cases m; cases n) (simp add: mandate_dict_def)

lemma mandate_bytes_inj:
  "marshal_canonical_agent_mandate m = marshal_canonical_agent_mandate n \<Longrightarrow> m = n"
  unfolding marshal_canonical_agent_mandate_def
  by (rule mandate_dict_inj[OF go_json_bytes_inj[OF _ mandate_dict_no_floats mandate_dict_no_floats]])

end
