(* ===== verification/Mandate_Standard.thy ===== *)
theory Mandate_Standard
  imports Mandate_Facts Receipt_Sample
begin

text \<open>
  The properties of signed mandates: what signing makes verifies until it expires, what a verified
  mandate allows, and that its digest pins its content.
\<close>

section \<open>Signing and verifying\<close>

lemma check_detached_Inr:
  "check_detached vs label k s dg = Inr u \<longleftrightarrow>
     (\<exists>key sig. fromhex k = Inr key \<and> length key = 32 \<and> fromhex s = Inr sig \<and> length sig = 64 \<and> vs key sig dg)"
  by (auto simp: check_detached_def rbind_Inr_iff split: sum.splits)

lemma signing_lookup:
  "str_at (mandate_dict m @ signing_entries dg key sig) ''signing_algorithm'' = SIGNING_ALGORITHM"
  "low_at (mandate_dict m @ signing_entries dg key sig) ''message_digest_sha256_hex'' = to_hex dg"
  "jget (mandate_dict m @ signing_entries dg key sig) ''signing_public_key_ed25519_hex'' = JStr (to_hex key)"
  "jget (mandate_dict m @ signing_entries dg key sig) ''ed25519_signature_hex'' = JStr (to_hex sig)"
proof -
  have "strip SIGNING_ALGORITHM = SIGNING_ALGORITHM" by code_simp
  then show "str_at (mandate_dict m @ signing_entries dg key sig) ''signing_algorithm'' = SIGNING_ALGORITHM"
    by (simp add: mandate_dict_def signing_entries_def str_at_lookup)
qed (simp_all add: mandate_dict_def signing_entries_def str_at_lookup display_lookup)

lemma signed_mandate_run:
  assumes "sign_agent_mandate_v1 H sign public instant seed d = Inr s"
    and "\<And>k m. length (public k) = 32 \<and> length (sign k m) = 64 \<and> verify_sig (public k) (sign k m) m"
    and "hashes_32 H" "reads_back instant"
  shows "\<exists>m us. normalize_agent_mandate_v1 instant d = Inr m \<and>
    parse_timestamp instant (jget d ''expires_at'') ''agent mandate: expires_at is required'' = Inr us \<and>
    verify_signed_agent_mandate_v1 H verify_sig instant s now =
      (if now < whole_seconds us then Inr () else Inl (am_error (''expired at '' @ am_expires_at m)))"
proof -
  from assms(1) obtain m where m: "normalize_agent_mandate_v1 instant d = Inr m"
    and s: "s = mandate_dict m @ signing_entries (H (marshal_canonical_agent_mandate m)) (public seed)
        (sign seed (H (marshal_canonical_agent_mandate m)))"
    by (auto simp: sign_agent_mandate_v1_def rbind_Inr_iff Let_def)
  from m obtain us where us: "parse_timestamp instant (jget d ''expires_at'') ''agent mandate: expires_at is required'' = Inr us"
    "am_expires_at m = format_rfc3339_nano_utc us"
    unfolding mandate_run by blast
  have again: "normalize_agent_mandate_v1 instant s = Inr m"
    unfolding s by (rule normalize_mandate_again[OF m assms(4)])
  have expires: "parse_timestamp instant (JStr (am_expires_at m)) msg = Inr (whole_seconds us)" for msg
    unfolding us(2) by (rule parse_formatted[OF us(1) assms(4)])
  have key: "check_detached verify_sig ''agent mandate'' (to_hex (public seed)) (to_hex (sign seed dg)) dg = Inr ()" for dg
    using assms(2) by (simp add: check_detached_Inr)
  have "length (H x) = 32" for x using assms(3) by (simp add: hashes_32_def)
  then have "verify_signed_agent_mandate_v1 H verify_sig instant s now =
      (if now < whole_seconds us then Inr () else Inl (am_error (''expired at '' @ am_expires_at m)))"
    by (simp add: verify_signed_agent_mandate_v1_def again[unfolded s] expires Let_def s signing_lookup key ensure_def)
  then show ?thesis using m us by blast
qed


section \<open>What a verified mandate allows\<close>

text \<open>C23: A mandate that verifies is in force and well formed: its signature covers its canonical
  bytes; it has not expired; it has a positive ceiling; it allows some action or tool, each a
  canonical token, sorted and without repetition; its rails are known ones and its default rail is
  one of them; and it names a principal exactly when it is scoped to one.\<close>

theorem verified_mandate_allows:
  assumes "verify_signed_agent_mandate_v1 H verify_sig instant raw now = Inr ()"
  shows "\<exists>m key sig expires. normalize_agent_mandate_v1 instant raw = Inr m \<and>
    fromhex (mandate_read_string (jget raw ''signing_public_key_ed25519_hex'') []) = Inr key \<and> length key = 32 \<and>
    fromhex (mandate_read_string (jget raw ''ed25519_signature_hex'') []) = Inr sig \<and> length sig = 64 \<and>
    verify_sig key sig (H (marshal_canonical_agent_mandate m)) \<and>
    low_at raw ''message_digest_sha256_hex'' = to_hex (H (marshal_canonical_agent_mandate m)) \<and>
    instant (replace_z (am_expires_at m)) = Inr expires \<and> now < expires \<and>
    0 < sc_amount_minor (am_spend_ceiling m) \<and>
    canonical_scopes (am_allowed_actions m) \<and> canonical_scopes (am_allowed_tools m) \<and>
    am_allowed_actions m @ am_allowed_tools m \<noteq> [] \<and>
    canonical_rails (rp_allowed_rails (am_settlement m)) \<and>
    rp_default_rail (am_settlement m) \<in> set (rp_allowed_rails (am_settlement m)) \<and>
    (au_principal_subject (am_authorization m) \<noteq> [] \<longleftrightarrow> au_kind (am_authorization m) = ''principal'')"
proof -
  from assms obtain m expires where m: "normalize_agent_mandate_v1 instant raw = Inr m"
    and e: "parse_timestamp instant (JStr (am_expires_at m)) ''agent mandate: expires_at is required'' = Inr expires"
      "now < expires"
    and d: "low_at raw ''message_digest_sha256_hex'' = to_hex (H (marshal_canonical_agent_mandate m))"
    and sig: "check_detached verify_sig ''agent mandate'' (mandate_read_string (jget raw ''signing_public_key_ed25519_hex'') [])
       (mandate_read_string (jget raw ''ed25519_signature_hex'') []) (H (marshal_canonical_agent_mandate m)) = Inr ()"
    by (auto simp: verify_signed_agent_mandate_v1_def rbind_Inr_iff Let_def)
  note run = m[unfolded mandate_run]
  obtain key s where ks: "fromhex (mandate_read_string (jget raw ''signing_public_key_ed25519_hex'') []) = Inr key" "length key = 32"
    "fromhex (mandate_read_string (jget raw ''ed25519_signature_hex'') []) = Inr s" "length s = 64"
    "verify_sig key s (H (marshal_canonical_agent_mandate m))"
    using sig by (auto simp: check_detached_Inr)
  have time: "instant (replace_z (am_expires_at m)) = Inr expires"
  proof -
    obtain us where "am_expires_at m = format_rfc3339_nano_utc us" using run by blast
    then show ?thesis using e(1) by (simp add: parse_timestamp_Inr format_rfc3339_nano_utc_def strftime_text)
  qed
  have ceiling: "0 < sc_amount_minor (am_spend_ceiling m)"
    using run ceiling_part by blast
  have sets: "canonical_scopes (am_allowed_actions m)" "canonical_scopes (am_allowed_tools m)"
    "am_allowed_actions m @ am_allowed_tools m \<noteq> []"
    using run mandate_scope_set_Inr by blast+
  have rails: "canonical_rails (rp_allowed_rails (am_settlement m))"
    "rp_default_rail (am_settlement m) \<in> set (rp_allowed_rails (am_settlement m))"
    using run settlement_part normalize_allowed_rails_Inr by blast+
  have "mandate_authorization_of (object_or_empty (jget raw ''authorization'')) = Inr (am_authorization m)"
    using run by blast
  then have "if au_kind (am_authorization m) = ''principal''
      then au_principal_subject (am_authorization m) \<noteq> [] \<and>
        (au_principal_type (am_authorization m) = [] \<or> scope_token_re (au_principal_type (am_authorization m)))
      else au_principal_subject (am_authorization m) = [] \<and> au_principal_type (am_authorization m) = []"
    unfolding authorization_part by (elim conjE) assumption
  then have subject: "au_principal_subject (am_authorization m) \<noteq> [] \<longleftrightarrow> au_kind (am_authorization m) = ''principal''"
    by (cases "au_kind (am_authorization m) = ''principal''") simp_all
  show ?thesis
    using m ks d time e(2) ceiling sets rails subject by blast
qed

text \<open>The digest of a mandate pins it: two mandates that verify under the same digest are the same
  mandate after normalization, or their canonical bytes are a collision of the hash.\<close>

theorem mandate_digest_pins:
  assumes "verify_signed_agent_mandate_v1 H verify_sig instant raw now = Inr ()"
    and "verify_signed_agent_mandate_v1 H verify_sig' instant raw' now' = Inr ()"
    and "low_at raw ''message_digest_sha256_hex'' = low_at raw' ''message_digest_sha256_hex''"
  shows "normalize_agent_mandate_v1 instant raw = normalize_agent_mandate_v1 instant raw' \<or>
    (\<exists>a b. canonical_agent_mandate_json_bytes instant raw = Inr a \<and>
       canonical_agent_mandate_json_bytes instant raw' = Inr b \<and> a \<noteq> b \<and> H a = H b)"
proof -
  from assms(1) obtain m where m: "normalize_agent_mandate_v1 instant raw = Inr m"
    "low_at raw ''message_digest_sha256_hex'' = to_hex (H (marshal_canonical_agent_mandate m))"
    by (auto simp: verify_signed_agent_mandate_v1_def rbind_Inr_iff Let_def)
  from assms(2) obtain m' where m': "normalize_agent_mandate_v1 instant raw' = Inr m'"
    "low_at raw' ''message_digest_sha256_hex'' = to_hex (H (marshal_canonical_agent_mandate m'))"
    by (auto simp: verify_signed_agent_mandate_v1_def rbind_Inr_iff Let_def)
  have "H (marshal_canonical_agent_mandate m) = H (marshal_canonical_agent_mandate m')"
    using m(2) m'(2) assms(3) by (simp add: to_hex_inj)
  then show ?thesis
    using m(1) m'(1) mandate_bytes_inj[of m m'] by (auto simp: canonical_agent_mandate_json_bytes_def)
qed

section \<open>A sample mandate\<close>

definition sample_mandate :: "(string, json) dict" where
  "sample_mandate =
     [(''authorization'', JObj [(''kind'', JStr '' Principal''), (''tenant_id'', JStr ''acme''),
                                (''principal_subject'', JStr ''user-1'')]),
      (''agent'', JObj [(''subject'', JStr ''agent<1>'')]),
      (''allowed_actions'', JArr [JStr ''travel.book'', JStr ''Hotel'', JStr ''hotel '']),
      (''spend_ceiling'', JObj [(''amount_minor'', JInt 5000), (''currency'', JStr ''USD'')]),
      (''settlement'', JObj [(''default_rail'', JStr ''x402_usdc_base''),
                             (''allowed_rails'', JArr [JStr ''x402_usdc_base'', JStr ''stripe_mpp''])]),
      (''constraint'', JObj [(''kind'', JStr ''policy''), (''id'', JStr ''p1'')]),
      (''expires_at'', sample_time), (''nonce'', JStr ''n-1''), (''human_presence_mode'', JStr ''human_present'')]"

lemma sample_hashes_32: "hashes_32 sample_hash"
  by (simp add: hashes_32_def sample_hash_def)

abbreviation sample_sign_mandate :: "char \<Rightarrow> exn + (string, json) dict" where
  "sample_sign_mandate k \<equiv>
     sign_agent_mandate_v1 sample_hash sample_sign sample_public sample_utc (replicate 32 k) sample_mandate"

lemma sample_mandate_normal:
  obtains m where "normalize_agent_mandate_v1 sample_utc sample_mandate = Inr m"
proof -
  have "case normalize_agent_mandate_v1 sample_utc sample_mandate of Inr m \<Rightarrow> True | Inl e \<Rightarrow> False"
    by code_simp
  then show thesis by (rule accepted_InrE) (rule that)
qed

lemma sample_expiry:
  "parse_timestamp sample_utc (jget sample_mandate ''expires_at'') ''agent mandate: expires_at is required'' =
     Inr 1767323045000000"
  by code_simp

text \<open>Signed with any key, the sample verifies before its expiry, and under the same digest.\<close>

lemma sample_mandate_signed:
  obtains s where "sample_sign_mandate k = Inr s"
    "verify_signed_agent_mandate_v1 sample_hash sample_verify sample_utc s 1767000000000000 = Inr ()"
    "\<And>m. normalize_agent_mandate_v1 sample_utc sample_mandate = Inr m \<Longrightarrow>
       low_at s ''message_digest_sha256_hex'' = to_hex (sample_hash (marshal_canonical_agent_mandate m))"
proof -
  obtain m where m: "normalize_agent_mandate_v1 sample_utc sample_mandate = Inr m" by (rule sample_mandate_normal)
  define dg where "dg = sample_hash (marshal_canonical_agent_mandate m)"
  define s where "s = mandate_dict m @ signing_entries dg (sample_public (replicate 32 k)) (sample_sign (replicate 32 k) dg)"
  have signed: "sample_sign_mandate k = Inr s"
    by (simp add: sign_agent_mandate_v1_def m s_def dg_def Let_def)
  have "verify_signed_agent_mandate_v1 sample_hash sample_verify sample_utc s 1767000000000000 = Inr ()"
    using signed_mandate_run[OF signed sample_scheme sample_hashes_32 sample_reads_back, of 1767000000000000]
    by (simp add: sample_expiry whole_seconds_def)
  moreover have "low_at s ''message_digest_sha256_hex'' = to_hex (sample_hash (marshal_canonical_agent_mandate m'))"
    if "normalize_agent_mandate_v1 sample_utc sample_mandate = Inr m'" for m'
    using that m signing_lookup(2) by (simp add: s_def dg_def)
  ultimately show thesis using signed that by blast
qed


theorem verified_mandate_allows_witness:
  "\<exists>s m. sample_sign_mandate (CHR ''k'') = Inr s \<and> normalize_agent_mandate_v1 sample_utc s = Inr m \<and>
     canonical_scopes (am_allowed_actions m) \<and> canonical_rails (rp_allowed_rails (am_settlement m))"
proof -
  obtain s where s: "sample_sign_mandate (CHR ''k'') = Inr s"
    "verify_signed_agent_mandate_v1 sample_hash sample_verify sample_utc s 1767000000000000 = Inr ()"
    by (rule sample_mandate_signed)
  show ?thesis using s(1) verified_mandate_allows[OF s(2)] by blast
qed

theorem mandate_digest_pins_witness:
  "\<exists>s t. sample_sign_mandate (CHR ''k'') = Inr s \<and> sample_sign_mandate (CHR ''l'') = Inr t \<and>
    (normalize_agent_mandate_v1 sample_utc s = normalize_agent_mandate_v1 sample_utc t \<or>
     (\<exists>a b. canonical_agent_mandate_json_bytes sample_utc s = Inr a \<and>
        canonical_agent_mandate_json_bytes sample_utc t = Inr b \<and> a \<noteq> b \<and> sample_hash a = sample_hash b))"
proof -
  obtain m where m: "normalize_agent_mandate_v1 sample_utc sample_mandate = Inr m" by (rule sample_mandate_normal)
  obtain s where s: "sample_sign_mandate (CHR ''k'') = Inr s"
    "verify_signed_agent_mandate_v1 sample_hash sample_verify sample_utc s 1767000000000000 = Inr ()"
    "low_at s ''message_digest_sha256_hex'' = to_hex (sample_hash (marshal_canonical_agent_mandate m))"
    using m by (metis sample_mandate_signed)
  obtain t where t: "sample_sign_mandate (CHR ''l'') = Inr t"
    "verify_signed_agent_mandate_v1 sample_hash sample_verify sample_utc t 1767000000000000 = Inr ()"
    "low_at t ''message_digest_sha256_hex'' = to_hex (sample_hash (marshal_canonical_agent_mandate m))"
    using m by (metis sample_mandate_signed)
  have "low_at s ''message_digest_sha256_hex'' = low_at t ''message_digest_sha256_hex''" using s(3) t(3) by simp
  from mandate_digest_pins[OF s(2) t(2) this] show ?thesis using s(1) t(1) by blast
qed

end
