(* ===== verification/Protocol_Facts.thy ===== *)
theory Protocol_Facts
  imports Protocol_Receipt Mandate_Standard
begin

text \<open>
  Protocol receipts: a normalized receipt is a fixed point of its normalization and its canonical
  bytes determine it; so what is signed verifies, and the digest pins the content.
\<close>

section \<open>Shared checks\<close>

lemma required_Inr [simp]:
  "required_token l d k = Inr t \<longleftrightarrow> t = low_at d k \<and> t \<noteq> [] \<and> scope_token_re t"
  "required_uuid l d = Inr u \<longleftrightarrow> u = low_at d ''intent_id'' \<and> uuid_re u"
  "required_hex64 l d k = Inr h \<longleftrightarrow> h = low_at d k \<and> hex64_re h"
  "required_text l k v = Inr x \<longleftrightarrow> x = v \<and> v \<noteq> []"
  "constant_text l k v e = Inr w \<longleftrightarrow> v \<in> set [[], e]"
  "check_schema_version l d = Inr w \<longleftrightarrow> read_number (jget d ''schema_version'') 0 \<in> {0, 1}"
  by (auto simp: required_token_def required_uuid_def required_hex64_def required_text_def constant_text_def
      check_schema_version_def rbind_Inr_iff Let_def simp del: list.set)

text \<open>What is known of a checked text when it is read again.\<close>

lemma required_settled:
  "required_token l d k = Inr t \<Longrightarrow> lower (strip t) = t \<and> t \<noteq> [] \<and> scope_token_re t"
  "required_uuid l d = Inr u \<Longrightarrow> lower (strip u) = u \<and> uuid_re u"
  "required_hex64 l d k = Inr h \<Longrightarrow> lower (strip h) = h \<and> hex64_re h"
  "required_text l k (str_at d k') = Inr x \<Longrightarrow> strip x = x \<and> x \<noteq> []"
  "required_text l k (low_at d k') = Inr x \<Longrightarrow> lower (strip x) = x \<and> x \<noteq> []"
  by auto

lemma tenant_again:
  "parse_tenant_id raw l = Inr t \<Longrightarrow> parse_tenant_id (mandate_read_string (JStr t) []) l' = Inr t"
  by (auto simp: parse_tenant_id_Inr)

lemma timestamp_again:
  assumes "timestamp_at instant l d k = Inr t" "reads_back instant"
  shows "normalize_timestamp instant (JStr t) msg = Inr t"
proof -
  from assms(1) obtain us where us: "parse_timestamp instant (jget d k) (l @ '': '' @ k @ '' is required'') = Inr us"
    "t = format_rfc3339_nano_utc us"
    by (auto simp: timestamp_at_def normalize_timestamp_def rbind_Inr_iff)
  show ?thesis
    using parse_formatted[OF us(1) assms(2)] us(2) by (simp add: normalize_timestamp_def)
qed

lemma or_none_text: "text_or (case or_none s of None \<Rightarrow> [] | Some x \<Rightarrow> x) [] = s"
  by (simp add: or_none_def text_or_def)

lemma binding_lookup [receipt_eval]:
  "low_at (canonical_transport_binding b) ''source_protocol'' = lower (strip (tb_source_protocol b))"
  "str_at (canonical_transport_binding b) ''partner_platform'' =
     (case tb_partner_platform b of None \<Rightarrow> [] | Some s \<Rightarrow> strip s)"
  "str_at (canonical_transport_binding b) ''external_authorization_id'' =
     (case tb_external_authorization_id b of None \<Rightarrow> [] | Some s \<Rightarrow> strip s)"
  "str_at (canonical_transport_binding b) ''request_id'' =
     (case tb_request_id b of None \<Rightarrow> [] | Some s \<Rightarrow> strip s)"
  by (simp_all add: canonical_transport_binding_def opt_text_def str_at_lookup split: option.splits)

lemma binding_run:
  "normalize_transport_binding d l = Inr b \<longleftrightarrow>
     b = \<lparr>tb_source_protocol = text_or (low_at d ''source_protocol'') ''ap2'',
          tb_partner_platform = or_none (str_at d ''partner_platform''),
          tb_external_authorization_id = or_none (str_at d ''external_authorization_id''),
          tb_request_id = or_none (str_at d ''request_id'')\<rparr> \<and>
     scope_token_re (tb_source_protocol b) \<and> length (str_at d ''partner_platform'') \<le> 256 \<and>
     length (str_at d ''external_authorization_id'') \<le> 256 \<and> length (str_at d ''request_id'') \<le> 256"
  by (auto simp: normalize_transport_binding_def Let_def rbind_Inr_iff)

lemma source_protocol_text: "lower (strip (text_or (low_at d k) ''ap2'')) = text_or (low_at d k) ''ap2''"
proof -
  have "lower (strip ''ap2'') = ''ap2''" by code_simp
  then show ?thesis by (simp add: text_or_def)
qed

lemma binding_again:
  assumes "normalize_transport_binding d l = Inr b"
  shows "normalize_transport_binding (object_or_empty (JObj (canonical_transport_binding b))) l' = Inr b"
proof -
  have blank: "(case or_none (str_at d k) of None \<Rightarrow> [] | Some s \<Rightarrow> strip s) = str_at d k" for k
    by (simp add: or_none_def)
  have keep: "text_or (text_or (low_at d k) ''ap2'') ''ap2'' = text_or (low_at d k) ''ap2''" for k
    by (simp add: text_or_def)
  show ?thesis
    using assms unfolding binding_run by (auto simp: receipt_eval blank keep source_protocol_text)
qed

lemma binding_inj: "canonical_transport_binding b = canonical_transport_binding c \<Longrightarrow>
    normalize_transport_binding d l = Inr b \<Longrightarrow> normalize_transport_binding d' l' = Inr c \<Longrightarrow> b = c"
  using binding_again[of d l b l] binding_again[of d' l' c l] by simp

lemma material_again:
  assumes "signing_material_of d = m"
  shows "text_or (lower (strip (sm_algorithm m))) SIGNING_ALGORITHM = sm_algorithm m"
    "lower (strip (sm_message_digest m)) = sm_message_digest m"
    "lower (strip (sm_public_key m)) = sm_public_key m" "lower (strip (sm_signature m)) = sm_signature m"
proof -
  have "lower (strip SIGNING_ALGORITHM) = SIGNING_ALGORITHM" by code_simp
  then show "text_or (lower (strip (sm_algorithm m))) SIGNING_ALGORITHM = sm_algorithm m"
    "lower (strip (sm_message_digest m)) = sm_message_digest m"
    "lower (strip (sm_public_key m)) = sm_public_key m" "lower (strip (sm_signature m)) = sm_signature m"
    using assms by (auto simp: signing_material_of_def text_or_def)
qed

text \<open>The material of a signed receipt reads back from its dictionary.\<close>

definition settled_material :: "signing_material \<Rightarrow> bool" where
  "settled_material m \<longleftrightarrow>
     text_or (lower (strip (sm_algorithm m))) SIGNING_ALGORITHM = sm_algorithm m \<and>
     lower (strip (sm_message_digest m)) = sm_message_digest m \<and>
     lower (strip (sm_public_key m)) = sm_public_key m \<and> lower (strip (sm_signature m)) = sm_signature m"

lemma settled_material_of [simp]: "settled_material (signing_material_of d)"
  using material_again[OF refl, of d] by (simp add: settled_material_def)

lemma settled_signed [simp]: "settled_material (signed_material dg key sig)"
proof -
  have "lower (strip SIGNING_ALGORITHM) = SIGNING_ALGORITHM" "SIGNING_ALGORITHM \<noteq> []" by code_simp+
  then show ?thesis by (simp add: settled_material_def signed_material_def text_or_def)
qed

lemma verify_signed_digest_Inr:
  "verify_signed_digest vs kind m dg = Inr u \<longleftrightarrow>
     sm_algorithm m = SIGNING_ALGORITHM \<and> hex64_re (sm_message_digest m) \<and> sm_message_digest m = to_hex dg \<and>
     (\<exists>key sig. fromhex (sm_public_key m) = Inr key \<and> length key = 32 \<and> fromhex (sm_signature m) = Inr sig \<and>
        length sig = 64 \<and> vs key sig dg)"
  by (auto simp: verify_signed_digest_def rbind_Inr_iff check_detached_Inr)

lemma signed_material_verifies:
  "\<lbrakk>length key = 32; length sig = 64; vs key sig dg; length dg = 32\<rbrakk>
     \<Longrightarrow> verify_signed_digest vs kind (signed_material dg key sig) dg = Inr ()"
  by (simp add: verify_signed_digest_Inr signed_material_def)

section \<open>Authorization receipts\<close>

lemma receipt_parts:
  "receipt_authorization_of d t = Inr a \<longleftrightarrow>
     a = \<lparr>au_kind = low_at d ''kind'', au_tenant_id = str_at d ''tenant_id'',
          au_principal_subject = str_at d ''principal_subject'', au_principal_type = low_at d ''principal_type''\<rparr> \<and>
     au_kind a \<in> set [''principal'', ''tenant''] \<and> au_tenant_id a = t \<and>
     t \<noteq> [] \<and> length t \<le> 256 \<and> tenant_id_re t"
  "receipt_agent_of d = Inr g \<longleftrightarrow>
     g = \<lparr>ai_subject = str_at d ''subject'', ai_issuer = str_at d ''issuer'',
          ai_key_id = str_at d ''key_id'', ai_display_name = str_at d ''display_name''\<rparr> \<and> ai_subject g \<noteq> []"
  "receipt_ceiling_of d = Inr c \<longleftrightarrow>
     c = \<lparr>sc_amount_minor = read_number (jget d ''amount_minor'') 0, sc_currency = low_at d ''currency''\<rparr> \<and>
     sc_amount_minor c > 0 \<and> mandate_currency_re (sc_currency c)"
  "receipt_settlement_of d = Inr s \<longleftrightarrow>
     rp_default_rail s = low_at d ''default_rail'' \<and> rp_default_rail s \<noteq> [] \<and>
     normalize_protocol_scope_set (read_string_array (jget d ''allowed_rails''))
       (AUTH_LABEL @ '': settlement.allowed_rails'') = Inr (rp_allowed_rails s)"
  "receipt_constraint_of d = Inr r \<longleftrightarrow>
     r = \<lparr>cr_kind = low_at d ''kind'', cr_id = str_at d ''id'', cr_version = str_at d ''version'',
          cr_digest_sha256_hex = low_at d ''digest_sha256_hex'', cr_uri = str_at d ''uri''\<rparr> \<and> cr_kind r \<noteq> []"
proof -
  show "receipt_authorization_of d t = Inr a \<longleftrightarrow>
     a = \<lparr>au_kind = low_at d ''kind'', au_tenant_id = str_at d ''tenant_id'',
          au_principal_subject = str_at d ''principal_subject'', au_principal_type = low_at d ''principal_type''\<rparr> \<and>
     au_kind a \<in> set [''principal'', ''tenant''] \<and> au_tenant_id a = t \<and>
     t \<noteq> [] \<and> length t \<le> 256 \<and> tenant_id_re t"
    unfolding receipt_authorization_of_def Let_def rbind_Inr_iff ensure_Inr_iff parse_tenant_id_Inr str_at_def[symmetric]
    by (cases a) (auto simp del: list.set)
  show "receipt_settlement_of d = Inr s \<longleftrightarrow>
     rp_default_rail s = low_at d ''default_rail'' \<and> rp_default_rail s \<noteq> [] \<and>
     normalize_protocol_scope_set (read_string_array (jget d ''allowed_rails''))
       (AUTH_LABEL @ '': settlement.allowed_rails'') = Inr (rp_allowed_rails s)"
    unfolding receipt_settlement_of_def rbind_Inr_iff by (cases s) auto
qed (auto simp: receipt_agent_of_def receipt_ceiling_of_def receipt_constraint_of_def rbind_Inr_iff Let_def)

lemma protocol_scope_set_again:
  "normalize_protocol_scope_set raw l = Inr ts \<Longrightarrow> normalize_protocol_scope_set ts l' = Inr ts"
  unfolding normalize_protocol_scope_set_def by (rule sorted_scopes_again[OF sorted_scopes_sound])

lemma receipt_parts_again:
  "receipt_authorization_of d1 t = Inr a \<Longrightarrow> receipt_authorization_of (object_or_empty (authorization_dict a)) t = Inr a"
  "receipt_agent_of d2 = Inr g \<Longrightarrow> receipt_agent_of (object_or_empty (agent_dict g)) = Inr g"
  "receipt_ceiling_of d3 = Inr c \<Longrightarrow> receipt_ceiling_of (object_or_empty (ceiling_dict c)) = Inr c"
  "receipt_settlement_of d4 = Inr s \<Longrightarrow> receipt_settlement_of (object_or_empty (settlement_dict s)) = Inr s"
  "receipt_constraint_of d5 = Inr r \<Longrightarrow> receipt_constraint_of (object_or_empty (constraint_dict r)) = Inr r"
proof -
  show "receipt_authorization_of d1 t = Inr a \<Longrightarrow> receipt_authorization_of (object_or_empty (authorization_dict a)) t = Inr a"
    unfolding receipt_parts by (auto simp: authorization_dict_def receipt_eval simp del: list.set)
  show "receipt_agent_of d2 = Inr g \<Longrightarrow> receipt_agent_of (object_or_empty (agent_dict g)) = Inr g"
    unfolding receipt_parts by (auto simp: agent_dict_def receipt_eval)
  show "receipt_ceiling_of d3 = Inr c \<Longrightarrow> receipt_ceiling_of (object_or_empty (ceiling_dict c)) = Inr c"
    unfolding receipt_parts by (auto simp: ceiling_dict_def receipt_eval)
  show "receipt_settlement_of d4 = Inr s \<Longrightarrow> receipt_settlement_of (object_or_empty (settlement_dict s)) = Inr s"
    unfolding receipt_parts by (auto simp: settlement_dict_def receipt_eval intro: protocol_scope_set_again)
  show "receipt_constraint_of d5 = Inr r \<Longrightarrow> receipt_constraint_of (object_or_empty (constraint_dict r)) = Inr r"
    unfolding receipt_parts by (auto simp: constraint_dict_def receipt_eval)
qed

lemma imported_key_run:
  "imported_public_key d = Inr k \<longleftrightarrow>
     k = low_at d ''imported_mandate_signing_public_key_ed25519_hex'' \<and> (\<exists>key. fromhex k = Inr key \<and> length key = 32)"
  by (auto simp: imported_public_key_def Let_def rbind_Inr_iff split: sum.splits)

lemma authorization_receipt_run:
  "normalize_protocol_authorization_receipt_v1 instant d = Inr n \<longleftrightarrow>
     read_number (jget d ''schema_version'') 0 \<in> {0, 1} \<and>
     str_at d ''kind'' \<in> set [[], PROTOCOL_AUTHORIZATION_RECEIPT_KIND_V1] \<and>
     str_at d ''receipt_version'' \<in> set [[], ''1''] \<and>
     required_token AUTH_LABEL d ''receipt_id'' = Inr (ar_receipt_id n) \<and>
     required_uuid AUTH_LABEL d = Inr (ar_intent_id n) \<and>
     timestamp_at instant AUTH_LABEL d ''issued_at'' = Inr (ar_issued_at n) \<and>
     low_at d ''status'' \<in> set [[], ''authorized''] \<and>
     parse_tenant_id (mandate_read_string (jget d ''tenant_id'') []) (AUTH_LABEL @ '': tenant_id'') = Inr (ar_tenant_id n) \<and>
     required_token AUTH_LABEL d ''verifier_id'' = Inr (ar_verifier_id n) \<and>
     normalize_transport_binding (object_or_empty (jget d ''transport_binding'')) (AUTH_LABEL @ '': transport_binding'')
       = Inr (ar_transport_binding n) \<and>
     required_hex64 AUTH_LABEL d ''mandate_digest_sha256_hex'' = Inr (ar_mandate_digest n) \<and>
     imported_public_key d = Inr (ar_imported_public_key n) \<and>
     receipt_authorization_of (object_or_empty (jget d ''authorization'')) (ar_tenant_id n) = Inr (ar_authorization n) \<and>
     receipt_agent_of (object_or_empty (jget d ''agent'')) = Inr (ar_agent n) \<and>
     normalize_protocol_scope_set (read_string_array (jget d ''allowed_actions'')) (AUTH_LABEL @ '': allowed_actions'')
       = Inr (ar_allowed_actions n) \<and>
     normalize_protocol_scope_set (read_string_array (jget d ''allowed_tools'')) (AUTH_LABEL @ '': allowed_tools'')
       = Inr (ar_allowed_tools n) \<and>
     (ar_allowed_actions n \<noteq> [] \<or> ar_allowed_tools n \<noteq> []) \<and>
     receipt_ceiling_of (object_or_empty (jget d ''spend_ceiling'')) = Inr (ar_spend_ceiling n) \<and>
     receipt_settlement_of (object_or_empty (jget d ''settlement'')) = Inr (ar_settlement n) \<and>
     receipt_constraint_of (object_or_empty (jget d ''constraint'')) = Inr (ar_constraint n) \<and>
     timestamp_at instant AUTH_LABEL d ''expires_at'' = Inr (ar_expires_at n) \<and>
     required_text AUTH_LABEL ''nonce'' (str_at d ''nonce'') = Inr (ar_nonce n) \<and>
     ar_human_presence_mode n = low_at d ''human_presence_mode'' \<and>
     ar_human_presence_mode n \<in> set [''human_present'', ''human_not_present''] \<and>
     ar_signing n = signing_material_of d"
  (is "_ \<longleftrightarrow> ?R")
proof
  assume "normalize_protocol_authorization_receipt_v1 instant d = Inr n"
  then show ?R
    unfolding normalize_protocol_authorization_receipt_v1_def rbind_Inr_iff ensure_Inr_iff required_Inr(5,6)
    by (elim exE conjE) (simp only: sum.inject, hypsubst,
      simp only: authorization_receipt.simps simp_thms)
next
  assume ?R
  then show "normalize_protocol_authorization_receipt_v1 instant d = Inr n"
    unfolding normalize_protocol_authorization_receipt_v1_def
    by (cases n) (simp add: ensure_def constant_text_def check_schema_version_def Let_def del: list.set required_Inr(1-4))
qed

lemma constant_texts [simp]:
  "strip PROTOCOL_AUTHORIZATION_RECEIPT_KIND_V1 = PROTOCOL_AUTHORIZATION_RECEIPT_KIND_V1"
  "strip PROTOCOL_SETTLEMENT_RECEIPT_KIND_V1 = PROTOCOL_SETTLEMENT_RECEIPT_KIND_V1"
  "strip ''1'' = ''1''" "lower (strip ''authorized'') = ''authorized''"
  by code_simp+

lemma authorization_lookup [receipt_eval]:
  "jget (authorization_receipt_dict r) ''schema_version'' = JInt 1"
  "str_at (authorization_receipt_dict r) ''kind'' = PROTOCOL_AUTHORIZATION_RECEIPT_KIND_V1"
  "str_at (authorization_receipt_dict r) ''receipt_version'' = ''1''"
  "low_at (authorization_receipt_dict r) ''receipt_id'' = lower (strip (ar_receipt_id r))"
  "low_at (authorization_receipt_dict r) ''intent_id'' = lower (strip (ar_intent_id r))"
  "jget (authorization_receipt_dict r) ''issued_at'' = JStr (ar_issued_at r)"
  "low_at (authorization_receipt_dict r) ''status'' = ''authorized''"
  "jget (authorization_receipt_dict r) ''tenant_id'' = JStr (ar_tenant_id r)"
  "low_at (authorization_receipt_dict r) ''verifier_id'' = lower (strip (ar_verifier_id r))"
  "jget (authorization_receipt_dict r) ''transport_binding'' = JObj (canonical_transport_binding (ar_transport_binding r))"
  "low_at (authorization_receipt_dict r) ''mandate_digest_sha256_hex'' = lower (strip (ar_mandate_digest r))"
  "low_at (authorization_receipt_dict r) ''imported_mandate_signing_public_key_ed25519_hex'' =
     lower (strip (ar_imported_public_key r))"
  "jget (authorization_receipt_dict r) ''authorization'' = authorization_dict (ar_authorization r)"
  "jget (authorization_receipt_dict r) ''agent'' = agent_dict (ar_agent r)"
  "jget (authorization_receipt_dict r) ''allowed_actions'' = texts (ar_allowed_actions r)"
  "jget (authorization_receipt_dict r) ''allowed_tools'' = texts (ar_allowed_tools r)"
  "jget (authorization_receipt_dict r) ''spend_ceiling'' = ceiling_dict (ar_spend_ceiling r)"
  "jget (authorization_receipt_dict r) ''settlement'' = settlement_dict (ar_settlement r)"
  "jget (authorization_receipt_dict r) ''constraint'' = constraint_dict (ar_constraint r)"
  "jget (authorization_receipt_dict r) ''expires_at'' = JStr (ar_expires_at r)"
  "str_at (authorization_receipt_dict r) ''nonce'' = strip (ar_nonce r)"
  "low_at (authorization_receipt_dict r) ''human_presence_mode'' = lower (strip (ar_human_presence_mode r))"
  by (simp_all add: authorization_receipt_dict_def authorization_receipt_payload_def display_lookup str_at_lookup)

lemma authorization_material_lookup:
  "settled_material (ar_signing r) \<Longrightarrow> signing_material_of (authorization_receipt_dict r) = ar_signing r"
  by (cases "ar_signing r")
    (simp add: authorization_receipt_dict_def authorization_receipt_payload_def material_dict_def
      signing_material_of_def str_at_lookup settled_material_def)

lemma protocol_authorization_again:
  assumes "normalize_protocol_authorization_receipt_v1 instant d = Inr n" "reads_back instant" "settled_material m"
  shows "normalize_protocol_authorization_receipt_v1 instant (authorization_receipt_dict (n\<lparr>ar_signing := m\<rparr>)) =
    Inr (n\<lparr>ar_signing := m\<rparr>)"
proof -
  define n' where "n' = n\<lparr>ar_signing := m\<rparr>"
  note run = assms(1)[unfolded authorization_receipt_run]
  have same: "ar_receipt_id n' = ar_receipt_id n" "ar_issued_at n' = ar_issued_at n" "ar_intent_id n' = ar_intent_id n"
    "ar_tenant_id n' = ar_tenant_id n" "ar_verifier_id n' = ar_verifier_id n"
    "ar_transport_binding n' = ar_transport_binding n" "ar_mandate_digest n' = ar_mandate_digest n"
    "ar_imported_public_key n' = ar_imported_public_key n" "ar_authorization n' = ar_authorization n"
    "ar_agent n' = ar_agent n" "ar_allowed_actions n' = ar_allowed_actions n" "ar_allowed_tools n' = ar_allowed_tools n"
    "ar_spend_ceiling n' = ar_spend_ceiling n" "ar_settlement n' = ar_settlement n" "ar_constraint n' = ar_constraint n"
    "ar_expires_at n' = ar_expires_at n" "ar_nonce n' = ar_nonce n"
    "ar_human_presence_mode n' = ar_human_presence_mode n" "ar_signing n' = m"
    by (simp_all add: n'_def)
  have parts: "receipt_authorization_of (object_or_empty (authorization_dict (ar_authorization n))) (ar_tenant_id n) = Inr (ar_authorization n)"
    "receipt_agent_of (object_or_empty (agent_dict (ar_agent n))) = Inr (ar_agent n)"
    "receipt_ceiling_of (object_or_empty (ceiling_dict (ar_spend_ceiling n))) = Inr (ar_spend_ceiling n)"
    "receipt_settlement_of (object_or_empty (settlement_dict (ar_settlement n))) = Inr (ar_settlement n)"
    "receipt_constraint_of (object_or_empty (constraint_dict (ar_constraint n))) = Inr (ar_constraint n)"
    using run receipt_parts_again by blast+
  have sets: "normalize_protocol_scope_set (ar_allowed_actions n) l = Inr (ar_allowed_actions n)"
    "normalize_protocol_scope_set (ar_allowed_tools n) l = Inr (ar_allowed_tools n)" for l
    using run protocol_scope_set_again by blast+
  have binding: "normalize_transport_binding (object_or_empty (JObj (canonical_transport_binding (ar_transport_binding n)))) l =
      Inr (ar_transport_binding n)" for l
    using run binding_again by blast
  have times: "normalize_timestamp instant (JStr (ar_issued_at n)) msg = Inr (ar_issued_at n)"
    "normalize_timestamp instant (JStr (ar_expires_at n)) msg = Inr (ar_expires_at n)" for msg
    using run timestamp_again[OF _ assms(2)] by blast+
  have req: "required_token AUTH_LABEL d ''receipt_id'' = Inr (ar_receipt_id n)" "required_uuid AUTH_LABEL d = Inr (ar_intent_id n)"
    "required_token AUTH_LABEL d ''verifier_id'' = Inr (ar_verifier_id n)"
    "required_hex64 AUTH_LABEL d ''mandate_digest_sha256_hex'' = Inr (ar_mandate_digest n)"
    "imported_public_key d = Inr (ar_imported_public_key n)"
    "required_text AUTH_LABEL ''nonce'' (str_at d ''nonce'') = Inr (ar_nonce n)"
    "ar_human_presence_mode n = low_at d ''human_presence_mode''"
    "ar_human_presence_mode n \<in> set [''human_present'', ''human_not_present'']"
    "ar_allowed_actions n \<noteq> [] \<or> ar_allowed_tools n \<noteq> []"
    "parse_tenant_id (mandate_read_string (jget d ''tenant_id'') []) (AUTH_LABEL @ '': tenant_id'') = Inr (ar_tenant_id n)"
    using run by blast+
  note settled = required_settled(1)[OF req(1)] required_settled(2)[OF req(2)] required_settled(1)[OF req(3)]
    required_settled(3)[OF req(4)] required_settled(4)[OF req(6)]
  have lows: "lower (strip (ar_imported_public_key n)) = ar_imported_public_key n"
    "lower (strip (ar_human_presence_mode n)) = ar_human_presence_mode n"
    using req(5,7) by (simp_all add: imported_key_run)
  have key: "\<exists>key. fromhex (ar_imported_public_key n) = Inr key \<and> length key = 32"
    using req(5) unfolding imported_key_run by (rule conjunct2)
  have tenant: "parse_tenant_id (mandate_read_string (JStr (ar_tenant_id n)) []) l = Inr (ar_tenant_id n)" for l
    by (rule tenant_again[OF req(10)])
  have "normalize_protocol_authorization_receipt_v1 instant (authorization_receipt_dict n') = Inr n'"
    unfolding authorization_receipt_run receipt_eval timestamp_at_def required_Inr imported_key_run same read_simps
      authorization_material_lookup[of n', unfolded same, OF assms(3)]
    using key req(8,9) by (simp add: settled lows parts sets binding[simplified] times tenant[simplified] del: list.set) simp
  then show ?thesis by (simp add: n'_def)
qed

lemma opt_text_nonfloat: "(k', v) \<in> set (opt_text k o') \<Longrightarrow> no_floats v"
  by (auto simp: opt_text_def split: option.splits if_splits)

lemma payload_no_floats:
  "no_floats (JObj (authorization_receipt_payload r))" "no_floats (JObj (settlement_receipt_payload s))"
proof -
  have b: "no_floats (JObj (canonical_transport_binding b))" for b
    by (auto simp: canonical_transport_binding_def list_all_iff dest: opt_text_nonfloat)
  have parts: "no_floats (authorization_dict a)" "no_floats (agent_dict g)" "no_floats (texts l)"
    "no_floats (ceiling_dict c)" "no_floats (settlement_dict p)" "no_floats (constraint_dict q)" for a g l c p q
    by (simp_all add: authorization_dict_def agent_dict_def texts_def ceiling_dict_def settlement_dict_def
        constraint_dict_def list_all_iff)
  show "no_floats (JObj (authorization_receipt_payload r))"
    using b[of "ar_transport_binding r"] by (simp add: authorization_receipt_payload_def parts)
  show "no_floats (JObj (settlement_receipt_payload s))"
    using b[of "sr_transport_binding s"]
    by (cases "sr_predicate_passed s") (simp_all add: settlement_receipt_payload_def parts)
qed

text \<open>Two normalized receipts with the same canonical bytes differ at most in their signing material.\<close>

lemma authorization_bytes_inj:
  assumes "normalize_protocol_authorization_receipt_v1 instant d = Inr n"
    and "normalize_protocol_authorization_receipt_v1 instant' d' = Inr n'"
    and "marshal_canonical_authorization_receipt n = marshal_canonical_authorization_receipt n'"
  shows "n\<lparr>ar_signing := m\<rparr> = n'\<lparr>ar_signing := m\<rparr>"
proof -
  have eq: "authorization_receipt_payload n = authorization_receipt_payload n'"
    using assms(3) unfolding marshal_canonical_authorization_receipt_def
    by (rule go_json_bytes_inj) (rule payload_no_floats)+
  then have "canonical_transport_binding (ar_transport_binding n) = canonical_transport_binding (ar_transport_binding n')"
    by (simp add: authorization_receipt_payload_def)
  then have "ar_transport_binding n = ar_transport_binding n'"
    by (rule binding_inj) (use assms(1,2) authorization_receipt_run in blast)+
  then show ?thesis
    using eq by (cases n; cases n') (simp add: authorization_receipt_payload_def)
qed

section \<open>Settlement receipts\<close>

lemma settlement_receipt_run:
  "normalize_protocol_settlement_receipt_v1 instant d = Inr n \<longleftrightarrow>
     read_number (jget d ''schema_version'') 0 \<in> {0, 1} \<and>
     str_at d ''kind'' \<in> set [[], PROTOCOL_SETTLEMENT_RECEIPT_KIND_V1] \<and>
     str_at d ''receipt_version'' \<in> set [[], ''1''] \<and>
     required_token SETTLE_LABEL d ''receipt_id'' = Inr (sr_receipt_id n) \<and>
     required_uuid SETTLE_LABEL d = Inr (sr_intent_id n) \<and> sr_receipt_id n = sr_intent_id n \<and>
     timestamp_at instant SETTLE_LABEL d ''issued_at'' = Inr (sr_issued_at n) \<and>
     parse_tenant_id (mandate_read_string (jget d ''tenant_id'') []) (SETTLE_LABEL @ '': tenant_id'') = Inr (sr_tenant_id n) \<and>
     required_token SETTLE_LABEL d ''verifier_id'' = Inr (sr_verifier_id n) \<and>
     normalize_transport_binding (object_or_empty (jget d ''transport_binding'')) (SETTLE_LABEL @ '': transport_binding'')
       = Inr (sr_transport_binding n) \<and>
     required_token SETTLE_LABEL d ''authorization_receipt_id'' = Inr (sr_authorization_receipt_id n) \<and>
     required_hex64 SETTLE_LABEL d ''mandate_digest_sha256_hex'' = Inr (sr_mandate_digest n) \<and>
     sr_harbor_state n = low_at d ''harbor_state'' \<and> sr_harbor_state n \<in> set PROTOCOL_SETTLEMENT_TERMINAL_STATES \<and>
     required_text SETTLE_LABEL ''settlement_rail'' (low_at d ''settlement_rail'') = Inr (sr_settlement_rail n) \<and>
     required_text SETTLE_LABEL ''settlement_mode'' (str_at d ''settlement_mode'') = Inr (sr_settlement_mode n) \<and>
     required_text SETTLE_LABEL ''currency'' (low_at d ''currency'') = Inr (sr_currency n) \<and>
     sr_amount_cents n = read_number (jget d ''amount_cents'') 0 \<and> sr_amount_cents n > 0 \<and>
     timestamp_at instant SETTLE_LABEL d ''terminal_observed_at'' = Inr (sr_terminal_observed_at n) \<and>
     sr_predicate_passed n = (case jget d ''predicate_passed'' of JBool b \<Rightarrow> Some b | _ \<Rightarrow> None) \<and>
     sr_principal_did n = str_at d ''principal_did'' \<and> sr_payee_did n = str_at d ''payee_did'' \<and>
     sr_signing n = signing_material_of d"
  (is "_ \<longleftrightarrow> ?R")
proof
  assume "normalize_protocol_settlement_receipt_v1 instant d = Inr n"
  then show ?R
    unfolding normalize_protocol_settlement_receipt_v1_def rbind_Inr_iff ensure_Inr_iff required_Inr(5,6)
    by (elim exE conjE) (simp only: sum.inject, hypsubst,
      simp only: settlement_receipt.simps simp_thms)
next
  assume ?R
  then show "normalize_protocol_settlement_receipt_v1 instant d = Inr n"
    unfolding normalize_protocol_settlement_receipt_v1_def
    by (cases n) (simp add: ensure_def constant_text_def check_schema_version_def Let_def del: list.set required_Inr(1-4))
qed

lemma settlement_lookup [receipt_eval]:
  "jget (settlement_receipt_dict r) ''schema_version'' = JInt 1"
  "str_at (settlement_receipt_dict r) ''kind'' = PROTOCOL_SETTLEMENT_RECEIPT_KIND_V1"
  "str_at (settlement_receipt_dict r) ''receipt_version'' = ''1''"
  "low_at (settlement_receipt_dict r) ''receipt_id'' = lower (strip (sr_receipt_id r))"
  "low_at (settlement_receipt_dict r) ''intent_id'' = lower (strip (sr_intent_id r))"
  "jget (settlement_receipt_dict r) ''issued_at'' = JStr (sr_issued_at r)"
  "jget (settlement_receipt_dict r) ''tenant_id'' = JStr (sr_tenant_id r)"
  "low_at (settlement_receipt_dict r) ''verifier_id'' = lower (strip (sr_verifier_id r))"
  "jget (settlement_receipt_dict r) ''transport_binding'' = JObj (canonical_transport_binding (sr_transport_binding r))"
  "low_at (settlement_receipt_dict r) ''authorization_receipt_id'' = lower (strip (sr_authorization_receipt_id r))"
  "low_at (settlement_receipt_dict r) ''mandate_digest_sha256_hex'' = lower (strip (sr_mandate_digest r))"
  "low_at (settlement_receipt_dict r) ''harbor_state'' = lower (strip (sr_harbor_state r))"
  "low_at (settlement_receipt_dict r) ''settlement_rail'' = lower (strip (sr_settlement_rail r))"
  "str_at (settlement_receipt_dict r) ''settlement_mode'' = strip (sr_settlement_mode r)"
  "low_at (settlement_receipt_dict r) ''currency'' = lower (strip (sr_currency r))"
  "jget (settlement_receipt_dict r) ''amount_cents'' = JInt (sr_amount_cents r)"
  "jget (settlement_receipt_dict r) ''terminal_observed_at'' = JStr (sr_terminal_observed_at r)"
  "jget (settlement_receipt_dict r) ''predicate_passed'' =
     (case sr_predicate_passed r of None \<Rightarrow> JNull | Some b \<Rightarrow> JBool b)"
  "str_at (settlement_receipt_dict r) ''principal_did'' = strip (sr_principal_did r)"
  "str_at (settlement_receipt_dict r) ''payee_did'' = strip (sr_payee_did r)"
  by (cases "sr_predicate_passed r";
      simp add: settlement_receipt_dict_def settlement_receipt_payload_def material_dict_def display_lookup str_at_lookup)+

lemma settlement_material_lookup:
  "settled_material (sr_signing r) \<Longrightarrow> signing_material_of (settlement_receipt_dict r) = sr_signing r"
  by (cases "sr_signing r"; cases "sr_predicate_passed r")
    (simp_all add: settlement_receipt_dict_def settlement_receipt_payload_def material_dict_def
      signing_material_of_def str_at_lookup settled_material_def)

lemma protocol_settlement_again:
  assumes "normalize_protocol_settlement_receipt_v1 instant d = Inr n" "reads_back instant" "settled_material m"
  shows "normalize_protocol_settlement_receipt_v1 instant (settlement_receipt_dict (n\<lparr>sr_signing := m\<rparr>)) =
    Inr (n\<lparr>sr_signing := m\<rparr>)"
proof -
  define n' where "n' = n\<lparr>sr_signing := m\<rparr>"
  note run = assms(1)[unfolded settlement_receipt_run]
  have same: "sr_receipt_id n' = sr_receipt_id n" "sr_issued_at n' = sr_issued_at n" "sr_intent_id n' = sr_intent_id n"
    "sr_tenant_id n' = sr_tenant_id n" "sr_verifier_id n' = sr_verifier_id n"
    "sr_transport_binding n' = sr_transport_binding n" "sr_mandate_digest n' = sr_mandate_digest n"
    "sr_authorization_receipt_id n' = sr_authorization_receipt_id n" "sr_harbor_state n' = sr_harbor_state n"
    "sr_predicate_passed n' = sr_predicate_passed n" "sr_settlement_rail n' = sr_settlement_rail n"
    "sr_settlement_mode n' = sr_settlement_mode n" "sr_principal_did n' = sr_principal_did n"
    "sr_payee_did n' = sr_payee_did n" "sr_currency n' = sr_currency n" "sr_amount_cents n' = sr_amount_cents n"
    "sr_terminal_observed_at n' = sr_terminal_observed_at n" "sr_signing n' = m"
    by (simp_all add: n'_def)
  have req: "required_token SETTLE_LABEL d ''receipt_id'' = Inr (sr_receipt_id n)" "required_uuid SETTLE_LABEL d = Inr (sr_intent_id n)"
    "required_token SETTLE_LABEL d ''verifier_id'' = Inr (sr_verifier_id n)"
    "required_token SETTLE_LABEL d ''authorization_receipt_id'' = Inr (sr_authorization_receipt_id n)"
    "required_hex64 SETTLE_LABEL d ''mandate_digest_sha256_hex'' = Inr (sr_mandate_digest n)"
    "required_text SETTLE_LABEL ''settlement_rail'' (low_at d ''settlement_rail'') = Inr (sr_settlement_rail n)"
    "required_text SETTLE_LABEL ''settlement_mode'' (str_at d ''settlement_mode'') = Inr (sr_settlement_mode n)"
    "required_text SETTLE_LABEL ''currency'' (low_at d ''currency'') = Inr (sr_currency n)"
    "parse_tenant_id (mandate_read_string (jget d ''tenant_id'') []) (SETTLE_LABEL @ '': tenant_id'') = Inr (sr_tenant_id n)"
    "normalize_transport_binding (object_or_empty (jget d ''transport_binding'')) (SETTLE_LABEL @ '': transport_binding'')
       = Inr (sr_transport_binding n)"
    "timestamp_at instant SETTLE_LABEL d ''issued_at'' = Inr (sr_issued_at n)"
    "timestamp_at instant SETTLE_LABEL d ''terminal_observed_at'' = Inr (sr_terminal_observed_at n)"
    "sr_receipt_id n = sr_intent_id n" "sr_amount_cents n > 0"
    "sr_harbor_state n \<in> set PROTOCOL_SETTLEMENT_TERMINAL_STATES"
    using run by blast+
  have plain: "sr_harbor_state n = low_at d ''harbor_state''" "sr_principal_did n = str_at d ''principal_did''"
    "sr_payee_did n = str_at d ''payee_did''"
    using run by blast+
  have lows: "lower (strip (sr_harbor_state n)) = sr_harbor_state n" "strip (sr_principal_did n) = sr_principal_did n"
    "strip (sr_payee_did n) = sr_payee_did n"
    by (simp_all add: plain)
  note settled = required_settled(1)[OF req(1)] required_settled(2)[OF req(2)] required_settled(1)[OF req(3)]
    required_settled(1)[OF req(4)] required_settled(3)[OF req(5)] required_settled(5)[OF req(6)]
    required_settled(4)[OF req(7)] required_settled(5)[OF req(8)]
  have kinds: "PROTOCOL_SETTLEMENT_RECEIPT_KIND_V1 \<in> set [[], PROTOCOL_SETTLEMENT_RECEIPT_KIND_V1]" "''1'' \<in> set [[], ''1'']"
    by simp_all
  have "normalize_protocol_settlement_receipt_v1 instant (settlement_receipt_dict n') = Inr n'"
    unfolding settlement_receipt_run receipt_eval timestamp_at_def required_Inr same read_simps
      settlement_material_lookup[of n', unfolded same, OF assms(3)]
    using req(13-15)
    by (simp add: settled settled(1)[unfolded req(13)] lows kinds binding_again[OF req(10), simplified] tenant_again[OF req(9), simplified]
        timestamp_again[OF req(11) assms(2)] timestamp_again[OF req(12) assms(2)] del: list.set split: option.split)
  then show ?thesis by (simp add: n'_def)
qed

lemma settlement_bytes_inj:
  assumes "normalize_protocol_settlement_receipt_v1 instant d = Inr n"
    and "normalize_protocol_settlement_receipt_v1 instant' d' = Inr n'"
    and "marshal_canonical_settlement_receipt n = marshal_canonical_settlement_receipt n'"
  shows "n\<lparr>sr_signing := m\<rparr> = n'\<lparr>sr_signing := m\<rparr>"
proof -
  have eq: "settlement_receipt_payload n = settlement_receipt_payload n'"
    using assms(3) unfolding marshal_canonical_settlement_receipt_def
    by (rule go_json_bytes_inj) (rule payload_no_floats)+
  then have "canonical_transport_binding (sr_transport_binding n) = canonical_transport_binding (sr_transport_binding n')"
    by (simp add: settlement_receipt_payload_def)
  then have "sr_transport_binding n = sr_transport_binding n'"
    by (rule binding_inj) (use assms(1,2) settlement_receipt_run in blast)+
  then show ?thesis
    using eq by (cases n; cases n') (simp add: settlement_receipt_payload_def split: option.splits)
qed

end
