(* ===== verification/Protocol_Standard.thy ===== *)
theory Protocol_Standard
  imports Protocol_Facts
begin

text \<open>
  The properties of protocol receipts: what signing makes verifies, what a verified receipt says, and
  that a digest stands for one receipt of one kind.
\<close>

section \<open>Signing and verifying\<close>

lemma authorization_payload_signing:
  "marshal_canonical_authorization_receipt (n\<lparr>ar_signing := m\<rparr>) = marshal_canonical_authorization_receipt n"
  by (simp add: marshal_canonical_authorization_receipt_def authorization_receipt_payload_def)

lemma settlement_payload_signing:
  "marshal_canonical_settlement_receipt (n\<lparr>sr_signing := m\<rparr>) = marshal_canonical_settlement_receipt n"
  by (simp add: marshal_canonical_settlement_receipt_def settlement_receipt_payload_def)

lemma signed_authorization_again:
  assumes "sign_protocol_authorization_receipt_v1 H sign public instant seed d = Inr s"
    and scheme: "\<And>k m. length (public k) = 32 \<and> length (sign k m) = 64 \<and> verify_sig (public k) (sign k m) m"
    and hash: "hashes_32 H" and clock: "reads_back instant"
  shows "verify_protocol_authorization_receipt_v1 H verify_sig instant (authorization_receipt_dict s) = Inr s"
proof -
  from assms(1) obtain n where n: "normalize_protocol_authorization_receipt_v1 instant d = Inr n"
    and s: "s = n\<lparr>ar_signing := signed_material (H (marshal_canonical_authorization_receipt n)) (public seed)
        (sign seed (H (marshal_canonical_authorization_receipt n)))\<rparr>"
    by (auto simp: sign_protocol_authorization_receipt_v1_def rbind_Inr_iff Let_def)
  have "normalize_protocol_authorization_receipt_v1 instant (authorization_receipt_dict s) = Inr s"
    unfolding s by (rule protocol_authorization_again[OF n clock settled_signed])
  moreover have "verify_signed_digest verify_sig AUTH_LABEL (ar_signing s)
      (H (marshal_canonical_authorization_receipt s)) = Inr ()"
    unfolding s authorization_payload_signing
    using scheme hash by (simp add: signed_material_verifies hashes_32_def)
  ultimately show ?thesis by (simp add: verify_protocol_authorization_receipt_v1_def)
qed

lemma signed_settlement_again:
  assumes "sign_protocol_settlement_receipt_v1 H sign public instant seed d = Inr s"
    and scheme: "\<And>k m. length (public k) = 32 \<and> length (sign k m) = 64 \<and> verify_sig (public k) (sign k m) m"
    and hash: "hashes_32 H" and clock: "reads_back instant"
  shows "verify_protocol_settlement_receipt_v1 H verify_sig instant (settlement_receipt_dict s) = Inr s"
proof -
  from assms(1) obtain n where n: "normalize_protocol_settlement_receipt_v1 instant d = Inr n"
    and s: "s = n\<lparr>sr_signing := signed_material (H (marshal_canonical_settlement_receipt n)) (public seed)
        (sign seed (H (marshal_canonical_settlement_receipt n)))\<rparr>"
    by (auto simp: sign_protocol_settlement_receipt_v1_def rbind_Inr_iff Let_def)
  have "normalize_protocol_settlement_receipt_v1 instant (settlement_receipt_dict s) = Inr s"
    unfolding s by (rule protocol_settlement_again[OF n clock settled_signed])
  moreover have "verify_signed_digest verify_sig SETTLE_LABEL (sr_signing s)
      (H (marshal_canonical_settlement_receipt s)) = Inr ()"
    unfolding s settlement_payload_signing
    using scheme hash by (simp add: signed_material_verifies hashes_32_def)
  ultimately show ?thesis by (simp add: verify_protocol_settlement_receipt_v1_def)
qed

text \<open>What signs verifies: the authorization and the settlement receipts that the signers return
  are accepted by the verifiers, which return them unchanged.  The hash has 32 bytes, signing gives
  64 bytes that verify under a public key of 32, and the clock reads back its own timestamps.\<close>

theorem signed_receipts_verify:
  assumes "sign_protocol_authorization_receipt_v1 H sign public instant seed d = Inr a"
    and "sign_protocol_settlement_receipt_v1 H sign public instant seed' d' = Inr s"
    and "\<And>k m. length (public k) = 32 \<and> length (sign k m) = 64 \<and> verify_sig (public k) (sign k m) m"
    and "hashes_32 H" "reads_back instant"
  shows "verify_protocol_authorization_receipt_v1 H verify_sig instant (authorization_receipt_dict a) = Inr a \<and>
    verify_protocol_settlement_receipt_v1 H verify_sig instant (settlement_receipt_dict s) = Inr s"
  using signed_authorization_again[OF assms(1,3-5)] signed_settlement_again[OF assms(2,3-5)] by blast

section \<open>What a digest stands for\<close>

text \<open>A receipt of either kind, its canonical bytes, its digest and its content.\<close>

datatype protocol_receipt = Authorized authorization_receipt | Settled settlement_receipt

definition accepted ::
  "(string \<Rightarrow> string) \<Rightarrow> (string \<Rightarrow> string \<Rightarrow> string \<Rightarrow> bool) \<Rightarrow> (string \<Rightarrow> exn + int) \<Rightarrow>
   (string, json) dict \<Rightarrow> protocol_receipt \<Rightarrow> bool" where
  "accepted H verify_sig instant d p = (case p of
       Authorized n \<Rightarrow> verify_protocol_authorization_receipt_v1 H verify_sig instant d = Inr n
     | Settled n \<Rightarrow> verify_protocol_settlement_receipt_v1 H verify_sig instant d = Inr n)"

definition receipt_bytes :: "protocol_receipt \<Rightarrow> string" where
  "receipt_bytes p = (case p of
       Authorized n \<Rightarrow> marshal_canonical_authorization_receipt n
     | Settled n \<Rightarrow> marshal_canonical_settlement_receipt n)"

definition receipt_material :: "protocol_receipt \<Rightarrow> signing_material" where
  "receipt_material p = (case p of Authorized n \<Rightarrow> ar_signing n | Settled n \<Rightarrow> sr_signing n)"

definition with_material :: "signing_material \<Rightarrow> protocol_receipt \<Rightarrow> protocol_receipt" where
  "with_material m p = (case p of
       Authorized n \<Rightarrow> Authorized (n\<lparr>ar_signing := m\<rparr>) | Settled n \<Rightarrow> Settled (n\<lparr>sr_signing := m\<rparr>))"

lemma accepted_digest:
  assumes "accepted H verify_sig instant d p"
  shows "sm_message_digest (receipt_material p) = to_hex (H (receipt_bytes p))"
  using assms
  by (auto simp: accepted_def receipt_material_def receipt_bytes_def verify_signed_digest_Inr rbind_Inr_iff
      verify_protocol_authorization_receipt_v1_def verify_protocol_settlement_receipt_v1_def
      split: protocol_receipt.splits)

lemma accepted_normal:
  "accepted H verify_sig instant d (Authorized n) \<Longrightarrow> normalize_protocol_authorization_receipt_v1 instant d = Inr n"
  "accepted H verify_sig instant d (Settled s) \<Longrightarrow> normalize_protocol_settlement_receipt_v1 instant d = Inr s"
  by (auto simp: accepted_def verify_protocol_authorization_receipt_v1_def verify_protocol_settlement_receipt_v1_def rbind_Inr_iff)

lemma kinds_apart: "receipt_bytes (Authorized n) \<noteq> receipt_bytes (Settled s)"
proof
  assume "receipt_bytes (Authorized n) = receipt_bytes (Settled s)"
  then have "authorization_receipt_payload n = settlement_receipt_payload s"
    unfolding receipt_bytes_def protocol_receipt.case marshal_canonical_authorization_receipt_def
      marshal_canonical_settlement_receipt_def
    by (rule go_json_bytes_inj) (rule payload_no_floats)+
  then have "PROTOCOL_AUTHORIZATION_RECEIPT_KIND_V1 = PROTOCOL_SETTLEMENT_RECEIPT_KIND_V1"
    by (simp add: authorization_receipt_payload_def settlement_receipt_payload_def)
  then show False
    by (simp add: PROTOCOL_AUTHORIZATION_RECEIPT_KIND_V1_def PROTOCOL_SETTLEMENT_RECEIPT_KIND_V1_def)
qed

lemma accepted_bytes_inj:
  assumes "accepted H verify_sig instant d p" "accepted H verify_sig' instant d' q" "receipt_bytes p = receipt_bytes q"
  shows "with_material m p = with_material m q"
proof (cases p; cases q)
  fix n n' assume "p = Authorized n" "q = Authorized n'"
  then show ?thesis
    using assms accepted_normal(1) authorization_bytes_inj[of instant d n instant d' n' m]
    by (auto simp: with_material_def receipt_bytes_def)
next
  fix n n' assume "p = Settled n" "q = Settled n'"
  then show ?thesis
    using assms accepted_normal(2) settlement_bytes_inj[of instant d n instant d' n' m]
    by (auto simp: with_material_def receipt_bytes_def)
qed (use assms(3) kinds_apart in \<open>auto dest: sym\<close>)

text \<open>A digest stands for one receipt of one kind: two accepted receipts, authorizations or
  settlements, that carry the same digest have the same content, whoever signed them, or their
  canonical bytes are a collision of the hash.  An authorization never passes for a settlement.\<close>

theorem protocol_digest_pins:
  assumes "accepted H verify_sig instant d p" "accepted H verify_sig' instant d' q"
    and "sm_message_digest (receipt_material p) = sm_message_digest (receipt_material q)"
  shows "with_material m p = with_material m q \<or>
    receipt_bytes p \<noteq> receipt_bytes q \<and> H (receipt_bytes p) = H (receipt_bytes q)"
proof -
  have "H (receipt_bytes p) = H (receipt_bytes q)"
    using accepted_digest[OF assms(1)] accepted_digest[OF assms(2)] assms(3) by (simp add: to_hex_inj)
  then show ?thesis using accepted_bytes_inj[OF assms(1,2)] by blast
qed

section \<open>Sample receipts\<close>

definition sample_transport :: json where
  "sample_transport = JObj [(''partner_platform'', JStr '' shop ''), (''request_id'', JStr ''r-1'')]"

definition sample_authorization_receipt :: "(string, json) dict" where
  "sample_authorization_receipt =
     [(''receipt_id'', JStr ''auth-1''), (''issued_at'', sample_time), (''intent_id'', JStr sample_uuid),
      (''tenant_id'', JStr ''acme''), (''verifier_id'', JStr ''Paybond''), (''transport_binding'', sample_transport),
      (''mandate_digest_sha256_hex'', sample_hex (CHR ''d'')),
      (''imported_mandate_signing_public_key_ed25519_hex'', sample_hex (CHR ''e'')),
      (''authorization'', JObj [(''kind'', JStr ''tenant''), (''tenant_id'', JStr ''acme'')]),
      (''agent'', JObj [(''subject'', JStr ''agent-1'')]),
      (''allowed_tools'', JArr [JStr ''book'']),
      (''spend_ceiling'', JObj [(''amount_minor'', JInt 5000), (''currency'', JStr ''usd'')]),
      (''settlement'', JObj [(''default_rail'', JStr ''x402_usdc_base'')]),
      (''constraint'', JObj [(''kind'', JStr ''policy'')]),
      (''expires_at'', sample_time), (''nonce'', JStr ''n''), (''human_presence_mode'', JStr ''human_present'')]"

definition sample_settlement_receipt :: "(string, json) dict" where
  "sample_settlement_receipt =
     [(''receipt_id'', JStr sample_uuid), (''issued_at'', sample_time), (''intent_id'', JStr sample_uuid),
      (''tenant_id'', JStr ''acme''), (''verifier_id'', JStr ''paybond''), (''transport_binding'', sample_transport),
      (''authorization_receipt_id'', JStr ''auth-1''), (''mandate_digest_sha256_hex'', sample_hex (CHR ''d'')),
      (''harbor_state'', JStr ''released''), (''predicate_passed'', JBool True),
      (''settlement_rail'', JStr ''x402_usdc_base''), (''settlement_mode'', JStr ''full''),
      (''currency'', JStr ''usd''), (''amount_cents'', JInt 4200), (''terminal_observed_at'', sample_time)]"

abbreviation sample_sign_authorization :: "char \<Rightarrow> exn + authorization_receipt" where
  "sample_sign_authorization k \<equiv> sign_protocol_authorization_receipt_v1 sample_hash sample_sign sample_public
     sample_utc (replicate 32 k) sample_authorization_receipt"

abbreviation sample_sign_settlement :: "char \<Rightarrow> exn + settlement_receipt" where
  "sample_sign_settlement k \<equiv> sign_protocol_settlement_receipt_v1 sample_hash sample_sign sample_public
     sample_utc (replicate 32 k) sample_settlement_receipt"

lemma sample_receipts_normal:
  obtains a s where "normalize_protocol_authorization_receipt_v1 sample_utc sample_authorization_receipt = Inr a"
    "normalize_protocol_settlement_receipt_v1 sample_utc sample_settlement_receipt = Inr s"
proof -
  have "case normalize_protocol_authorization_receipt_v1 sample_utc sample_authorization_receipt of Inr a \<Rightarrow> True | Inl e \<Rightarrow> False"
    "case normalize_protocol_settlement_receipt_v1 sample_utc sample_settlement_receipt of Inr a \<Rightarrow> True | Inl e \<Rightarrow> False"
    by code_simp+
  then show thesis by (elim accepted_InrE) (rule that)
qed

lemma sample_receipts_sign:
  obtains a s where "sample_sign_authorization k = Inr a" "sample_sign_settlement k = Inr s"
proof -
  obtain a s where "normalize_protocol_authorization_receipt_v1 sample_utc sample_authorization_receipt = Inr a"
    "normalize_protocol_settlement_receipt_v1 sample_utc sample_settlement_receipt = Inr s"
    by (rule sample_receipts_normal)
  then show thesis
    by (intro that) (simp_all add: sign_protocol_authorization_receipt_v1_def sign_protocol_settlement_receipt_v1_def Let_def)
qed

theorem signed_receipts_verify_witness:
  "\<exists>a s. sample_sign_authorization (CHR ''k'') = Inr a \<and> sample_sign_settlement (CHR ''k'') = Inr s \<and>
     verify_protocol_authorization_receipt_v1 sample_hash sample_verify sample_utc (authorization_receipt_dict a) = Inr a \<and>
     verify_protocol_settlement_receipt_v1 sample_hash sample_verify sample_utc (settlement_receipt_dict s) = Inr s"
proof -
  obtain a s where as: "sample_sign_authorization (CHR ''k'') = Inr a" "sample_sign_settlement (CHR ''k'') = Inr s"
    by (rule sample_receipts_sign)
  show ?thesis
    using as signed_receipts_verify[OF as sample_scheme sample_hashes_32 sample_reads_back] by blast
qed

text \<open>The same authorization signed by two keys.\<close>

theorem protocol_digest_pins_witness:
  "\<exists>a b. sample_sign_authorization (CHR ''k'') = Inr a \<and> sample_sign_authorization (CHR ''l'') = Inr b \<and>
     (with_material (ar_signing a) (Authorized a) = with_material (ar_signing a) (Authorized b) \<or>
      receipt_bytes (Authorized a) \<noteq> receipt_bytes (Authorized b) \<and>
      sample_hash (receipt_bytes (Authorized a)) = sample_hash (receipt_bytes (Authorized b)))"
proof -
  obtain a where a: "sample_sign_authorization (CHR ''k'') = Inr a" by (rule sample_receipts_sign)
  obtain b where b: "sample_sign_authorization (CHR ''l'') = Inr b" by (rule sample_receipts_sign)
  have acc: "accepted sample_hash sample_verify sample_utc (authorization_receipt_dict x) (Authorized x)"
    if "sample_sign_authorization k = Inr x" for k x
    using signed_authorization_again[OF that sample_scheme sample_hashes_32 sample_reads_back]
    by (simp add: accepted_def)
  have "ar_signing a = signed_material (sample_hash (marshal_canonical_authorization_receipt a)) (sample_public (replicate 32 CHR ''k''))
      (sample_sign (replicate 32 CHR ''k'') (sample_hash (marshal_canonical_authorization_receipt a)))"
    and "ar_signing b = signed_material (sample_hash (marshal_canonical_authorization_receipt b)) (sample_public (replicate 32 CHR ''l''))
      (sample_sign (replicate 32 CHR ''l'') (sample_hash (marshal_canonical_authorization_receipt b)))"
    and "marshal_canonical_authorization_receipt a = marshal_canonical_authorization_receipt b"
    using a b by (auto simp: sign_protocol_authorization_receipt_v1_def rbind_Inr_iff Let_def authorization_payload_signing)
  then have "sm_message_digest (receipt_material (Authorized a)) = sm_message_digest (receipt_material (Authorized b))"
    by (simp add: receipt_material_def signed_material_def)
  from protocol_digest_pins[OF acc[OF a] acc[OF b] this] show ?thesis using a b by blast
qed

end
