(* ===== verification/Funding.thy ===== *)
theory Funding
  imports Fund_Client
begin

text \<open>
  \<open>x402_funding.py\<close> and \<open>mpp_funding.py\<close>: the two orchestrations that fund an intent through
  the host's wallet.  The host's callbacks (the fund call, the payment, the recognition
  proofs) are functions on the world's state; a run records every callback with its answer
  in a log, oldest first.  The two modules share their loop and differ in the challenge they
  read from a 402 answer, the statuses they take for failures and the names in their messages;
  \<open>flow\<close> tells them apart.
\<close>

section \<open>Payment Auth challenges\<close>

text \<open>\<open>\w\<close> on the code points below 256.\<close>

definition word_char :: "char \<Rightarrow> bool" where
  "word_char c \<longleftrightarrow>
     is_lower c \<or> is_upper c \<or> is_digit c \<or> c = CHR ''_'' \<or>
     (let n = (of_char c :: nat)
      in n \<in> {170, 178, 179, 181, 185, 186, 188, 189, 190} \<or> 192 \<le> n \<and> n \<noteq> 215 \<and> n \<noteq> 247)"

definition payment_scheme :: "string \<Rightarrow> bool" where
  "payment_scheme s \<longleftrightarrow>
     lower (take 7 s) = ''payment'' \<and> (case drop 7 s of [] \<Rightarrow> True | c # _ \<Rightarrow> \<not> word_char c)"

text \<open>
  One match of \<open>_MPP_PARAM_RE\<close> at the head of the text: a name, an equals sign and a value, quoted
  when a closing quote follows, otherwise up to a comma or a space; with the text after it.
\<close>

definition param_value :: "string \<Rightarrow> (string \<times> string) option" where
  "param_value s =
     (let quoted_value = takeWhile (\<lambda>c. c \<noteq> CHR 0x22) (drop 1 s);
          after = drop (1 + length quoted_value) s;
          bare = takeWhile (\<lambda>c. c \<noteq> CHR '','' \<and> \<not> py_space c) s
      in if s \<noteq> [] \<and> hd s = CHR 0x22 \<and> after \<noteq> [] then Some (quoted_value, drop 1 after)
         else if bare \<noteq> [] then Some (bare, drop (length bare) s) else None)"

definition match_param :: "string \<Rightarrow> (string \<times> string \<times> string) option" where
  "match_param s = (case s of
       [] \<Rightarrow> None
     | c # cs \<Rightarrow>
         (let name = c # takeWhile (\<lambda>x. word_char x \<or> x = CHR ''-'') cs;
              rest = dropWhile (\<lambda>x. word_char x \<or> x = CHR ''-'') cs
          in if (is_lower c \<or> is_upper c \<or> c = CHR ''_'') \<and> rest \<noteq> [] \<and> hd rest = CHR ''=''
             then map_option (\<lambda>(v, tl'). (name, v, tl')) (param_value (drop 1 rest)) else None))"

lemma length_param_value: "param_value s = Some (v, t) \<Longrightarrow> length t \<le> length s"
  by (auto simp: param_value_def Let_def split: if_splits)

lemma length_match_param: "match_param s = Some (k, v, t) \<Longrightarrow> length t < length s"
proof -
  assume m: "match_param s = Some (k, v, t)"
  then obtain c cs where s: "s = c # cs" by (auto simp: match_param_def split: list.splits)
  let ?rest = "dropWhile (\<lambda>x. word_char x \<or> x = CHR ''-'') cs"
  from m s have "param_value (drop 1 ?rest) = Some (v, t)"
    by (auto simp: match_param_def Let_def split: if_splits)
  then have "length t \<le> length ?rest" using length_param_value by fastforce
  also have "\<dots> \<le> length cs" by (rule length_dropWhile_le)
  finally show ?thesis using s by simp
qed

text \<open>\<open>finditer\<close>: matches do not overlap; where none begins, the next character is tried.\<close>

function find_params :: "string \<Rightarrow> (string \<times> string) list" where
  "find_params s =
     (if s = [] then []
      else (case match_param s of
          Some (k, v, t) \<Rightarrow> (k, v) # find_params t
        | None \<Rightarrow> find_params (tl s)))"
  by pat_completeness auto
termination
  by (relation "measure length") (auto dest: length_match_param)

declare find_params.simps [simp del]

record payment_challenge =
  ch_raw :: string
  ch_id :: "string option"
  ch_realm :: "string option"
  ch_method :: "string option"
  ch_intent :: "string option"
  ch_request :: "string option"

definition challenge_params :: "string \<Rightarrow> (string, string) dict" where
  "challenge_params s = fold (\<lambda>(k, v). AList.update (lower k) v) (find_params s) []"

definition parse_payment_auth_challenge :: "string \<Rightarrow> exn + payment_challenge" where
  "parse_payment_auth_challenge raw =
     (let trimmed = strip raw; params = challenge_params (strip (drop 7 trimmed))
      in rbind (ensure (trimmed \<noteq> []) (ValueError ''Payment Auth challenge must be non-empty'')) (\<lambda>_.
         rbind (ensure (payment_scheme trimmed) (ValueError ''expected Payment Auth challenge'')) (\<lambda>_.
         Inr \<lparr>ch_raw = trimmed, ch_id = map_of params ''id'', ch_realm = map_of params ''realm'',
              ch_method = map_of params ''method'', ch_intent = map_of params ''intent'',
              ch_request = map_of params ''request''\<rparr>)))"

definition challenge_matches :: "string \<Rightarrow> string \<Rightarrow> payment_challenge \<Rightarrow> bool" where
  "challenge_matches intent method p \<longleftrightarrow> ch_intent p = Some intent \<and> ch_method p = Some method"

fun first_challenge :: "string \<Rightarrow> string \<Rightarrow> string list \<Rightarrow> exn + string option" where
  "first_challenge intent method [] = Inr None"
| "first_challenge intent method (h # hs) =
     rbind (parse_payment_auth_challenge h) (\<lambda>p.
       if challenge_matches intent method p then Inr (Some (ch_raw p))
       else first_challenge intent method hs)"

definition or_unknown :: "string option \<Rightarrow> string" where
  "or_unknown v = (case v of None \<Rightarrow> ''unknown'' | Some s \<Rightarrow> if s = [] then ''unknown'' else s)"

definition select_mpp_payment_challenge :: "string \<Rightarrow> string \<Rightarrow> string list option \<Rightarrow> exn + string" where
  "select_mpp_payment_challenge intent method www = (case www of
       None \<Rightarrow> Inl (ValueError ''MPP fund challenge missing WWW-Authenticate Payment header'')
     | Some [] \<Rightarrow> Inl (ValueError ''MPP fund challenge missing WWW-Authenticate Payment header'')
     | Some (h # hs) \<Rightarrow>
         rbind (first_challenge intent method (h # hs)) (\<lambda>found. case found of
             Some raw \<Rightarrow> Inr raw
           | None \<Rightarrow>
               if hs = [] then
                 rbind (parse_payment_auth_challenge h) (\<lambda>p.
                   if \<not> challenge_matches intent method p
                   then Inl (ValueError (''MPP fund challenge intent/method mismatch: '' @
                          ''expected intent='' @ intent @ '' method='' @ method @
                          '', got intent='' @ or_unknown (ch_intent p) @
                          '' method='' @ or_unknown (ch_method p)))
                   else Inr (ch_raw p))
               else Inl (ValueError (''MPP fund challenge missing Payment Auth header for '' @
                          ''intent='' @ intent @ '' method='' @ method))))"

definition select_mpp_charge_challenge :: "string list option \<Rightarrow> exn + string" where
  "select_mpp_charge_challenge = select_mpp_payment_challenge ''charge'' ''stripe''"

definition select_mpp_session_challenge :: "string list option \<Rightarrow> exn + string" where
  "select_mpp_session_challenge = select_mpp_payment_challenge ''session'' ''tempo''"

section \<open>Answers\<close>

datatype fund_flow = X402 | Mpp

definition flow_name :: "fund_flow \<Rightarrow> string" where
  "flow_name f = (case f of X402 \<Rightarrow> ''x402'' | Mpp \<Rightarrow> ''MPP'')"

definition TERMINAL_X402_FUNDING_STATUSES :: "string list" where
  "TERMINAL_X402_FUNDING_STATUSES = [''authorization_failed'', ''capture_failed'', ''void_failed'']"

definition TERMINAL_MPP_FUNDING_STATUSES :: "string list" where
  "TERMINAL_MPP_FUNDING_STATUSES =
     [''authorization_failed'', ''capture_failed'', ''void_failed'', ''credential_rejected'',
      ''payment_failed'', ''charge_failed'', ''session_open_failed'']"

definition terminal_statuses :: "fund_flow \<Rightarrow> string list" where
  "terminal_statuses f = (case f of
       X402 \<Rightarrow> TERMINAL_X402_FUNDING_STATUSES | Mpp \<Rightarrow> TERMINAL_MPP_FUNDING_STATUSES)"

definition funding_status :: "fund_intent_result \<Rightarrow> string option" where
  "funding_status r = (case fi_funding r of Some f \<Rightarrow> fu_status f | None \<Rightarrow> None)"

definition is_funding_complete :: "fund_intent_result \<Rightarrow> bool" where
  "is_funding_complete r \<longleftrightarrow>
     nonblank (fi_capability_token r) \<noteq> None \<or> fi_status_code r = 200 \<and> fi_funded r"

definition is_terminal_funding_failure :: "fund_flow \<Rightarrow> fund_intent_result \<Rightarrow> bool" where
  "is_terminal_funding_failure f r \<longleftrightarrow> strip (str_or (funding_status r) []) \<in> set (terminal_statuses f)"

definition failure_message :: "fund_flow \<Rightarrow> fund_intent_result \<Rightarrow> string" where
  "failure_message f r =
     flow_name f @ '' funding failed for intent '' @ uuid_str (fi_intent_id r) @ '' (status='' @
     str_or (funding_status r) (fi_state r) @ '')''"

text \<open>The condition of the polling loop.\<close>

definition still_pending :: "fund_intent_result \<Rightarrow> bool" where
  "still_pending r \<longleftrightarrow>
     fi_status_code r = 202 \<or> \<not> is_funding_complete r \<and> fi_status_code r = 200"

section \<open>The host and the log\<close>

type_synonym proof_doc = "(string, json) dict"

record fund_envelope =
  fe_intent_id :: uuid
  fe_method :: string
  fe_path :: string
  fe_body :: "(string, json) dict"

definition build_x402_fund_request_envelope :: "uuid \<Rightarrow> fund_envelope" where
  "build_x402_fund_request_envelope intent_id =
     \<lparr>fe_intent_id = intent_id, fe_method = ''POST'',
      fe_path = ''/harbor/intents/'' @ uuid_str intent_id @ ''/fund'', fe_body = []\<rparr>"

record poll_options =
  po_max_attempts :: int
  po_interval_ms :: int

definition default_poll_options :: poll_options where
  "default_poll_options = \<lparr>po_max_attempts = 30, po_interval_ms = 2000\<rparr>"

text \<open>
  The callbacks: \<open>fund\<close> with a proof and a payment (a signature or a credential), the payment
  for a challenge, a recognition proof for an envelope.
\<close>

record 's fund_host =
  fh_fund :: "proof_doc \<Rightarrow> string option \<Rightarrow> 's \<Rightarrow> (exn + fund_intent_result) \<times> 's"
  fh_pay :: "string \<Rightarrow> 's \<Rightarrow> (exn + string) \<times> 's"
  fh_prove :: "fund_envelope \<Rightarrow> 's \<Rightarrow> (exn + proof_doc) \<times> 's"

datatype fund_event =
    Funds proof_doc "string option" "exn + fund_intent_result"
  | Pays string "exn + string"
  | Proves fund_envelope "exn + proof_doc"
  | Sleeps int  \<comment> \<open>milliseconds\<close>

datatype fund_error =
    FundingFailed string uuid "fund_intent_result option"
  | FundingPending string uuid fund_intent_result int
  | FundRaised exn  \<comment> \<open>what a callback raised\<close>

record 's fund_world =
  fw_state :: 's
  fw_log :: "fund_event list"

type_synonym ('s, 'a) fund_run = "'s fund_world \<Rightarrow> (fund_error + 'a) \<times> 's fund_world"

definition fthen :: "('s, 'a) fund_run \<Rightarrow> ('a \<Rightarrow> ('s, 'b) fund_run) \<Rightarrow> ('s, 'b) fund_run" where
  "fthen m f w = (case m w of (Inl e, w') \<Rightarrow> (Inl e, w') | (Inr x, w') \<Rightarrow> f x w')"

definition fraise :: "fund_error \<Rightarrow> ('s, 'a) fund_run" where
  "fraise e w = (Inl e, w)"

definition freturn :: "'a \<Rightarrow> ('s, 'a) fund_run" where
  "freturn x w = (Inr x, w)"

text \<open>A callback, logged with its answer.\<close>

definition call_host :: "('s \<Rightarrow> (exn + 'a) \<times> 's) \<Rightarrow> (exn + 'a \<Rightarrow> fund_event) \<Rightarrow> ('s, 'a) fund_run" where
  "call_host f ev w =
     (let (r, s') = f (fw_state w)
      in (map_sum FundRaised id r, \<lparr>fw_state = s', fw_log = fw_log w @ [ev r]\<rparr>))"

definition call_fund :: "'s fund_host \<Rightarrow> proof_doc \<Rightarrow> string option \<Rightarrow> ('s, fund_intent_result) fund_run" where
  "call_fund h p pay = call_host (fh_fund h p pay) (Funds p pay)"

definition call_pay :: "'s fund_host \<Rightarrow> string \<Rightarrow> ('s, string) fund_run" where
  "call_pay h challenge = call_host (fh_pay h challenge) (Pays challenge)"

definition call_prove :: "'s fund_host \<Rightarrow> fund_envelope \<Rightarrow> ('s, proof_doc) fund_run" where
  "call_prove h env = call_host (fh_prove h env) (Proves env)"

definition sleep_ms :: "int \<Rightarrow> 's fund_world \<Rightarrow> 's fund_world" where
  "sleep_ms n w = (if n > 0 then w\<lparr>fw_log := fw_log w @ [Sleeps n]\<rparr> else w)"

section \<open>The orchestration\<close>

definition funding_failed :: "uuid \<Rightarrow> fund_flow \<Rightarrow> fund_intent_result \<Rightarrow> fund_error" where
  "funding_failed intent_id f r = FundingFailed (failure_message f r) intent_id (Some r)"

definition unexpected_answer :: "uuid \<Rightarrow> fund_flow \<Rightarrow> fund_intent_result \<Rightarrow> fund_error" where
  "unexpected_answer intent_id f r =
     FundingFailed (''unexpected '' @ flow_name f @ '' fund response HTTP '' @
       str_int (fi_status_code r) @ '' for intent '' @ uuid_str intent_id) intent_id (Some r)"

definition polls_exhausted :: "uuid \<Rightarrow> fund_flow \<Rightarrow> int \<Rightarrow> fund_intent_result \<Rightarrow> fund_error" where
  "polls_exhausted intent_id f max_attempts r =
     FundingPending (flow_name f @ '' funding still pending after '' @ str_int max_attempts @
       '' poll attempt(s) for intent '' @ uuid_str intent_id) intent_id r max_attempts"

definition effective_attempts :: "poll_options \<Rightarrow> int" where
  "effective_attempts o' = max 1 (po_max_attempts o')"

definition effective_interval :: "poll_options \<Rightarrow> int" where
  "effective_interval o' = max 0 (po_interval_ms o')"

text \<open>The loop, with the number of attempts that are left.\<close>

primrec poll_funding ::
  "fund_flow \<Rightarrow> 's fund_host \<Rightarrow> uuid \<Rightarrow> poll_options \<Rightarrow> string option \<Rightarrow> nat \<Rightarrow> fund_intent_result \<Rightarrow>
   ('s, fund_intent_result) fund_run" where
  "poll_funding f h intent_id opts pay 0 r =
     (if still_pending r then fraise (polls_exhausted intent_id f (effective_attempts opts) r)
      else if is_funding_complete r then freturn r
      else fraise (unexpected_answer intent_id f r))"
| "poll_funding f h intent_id opts pay (Suc n) r =
     (if still_pending r then
        (\<lambda>w. fthen (call_prove h (build_x402_fund_request_envelope intent_id)) (\<lambda>p.
              fthen (call_fund h p pay) (\<lambda>r'.
                if is_terminal_funding_failure f r' then fraise (funding_failed intent_id f r')
                else if is_funding_complete r' then freturn r'
                else poll_funding f h intent_id opts pay n r'))
              (sleep_ms (effective_interval opts) w))
      else if is_funding_complete r then freturn r
      else fraise (unexpected_answer intent_id f r))"

text \<open>What follows the first answer that is not a challenge.\<close>

definition settle_funding ::
  "fund_flow \<Rightarrow> 's fund_host \<Rightarrow> uuid \<Rightarrow> poll_options \<Rightarrow> string option \<Rightarrow> fund_intent_result \<Rightarrow>
   ('s, fund_intent_result) fund_run" where
  "settle_funding f h intent_id opts pay r =
     (if is_terminal_funding_failure f r then fraise (funding_failed intent_id f r)
      else if is_funding_complete r then freturn r
      else poll_funding f h intent_id opts pay (nat (effective_attempts opts)) r)"

text \<open>
  The challenge of a 402 answer: the \<open>payment-required\<close> header of x402, the \<open>Payment\<close>
  challenge that the caller selects in MPP.
\<close>

definition x402_challenge :: "uuid \<Rightarrow> fund_intent_result \<Rightarrow> fund_error + string" where
  "x402_challenge intent_id r = (case nonblank (fi_payment_required r) of
       Some c \<Rightarrow> Inr c
     | None \<Rightarrow> Inl (FundingFailed ''x402 fund challenge missing payment-required header'' intent_id (Some r)))"

definition mpp_challenge ::
  "(string list option \<Rightarrow> exn + string) \<Rightarrow> fund_intent_result \<Rightarrow> fund_error + string" where
  "mpp_challenge select r = map_sum FundRaised id (select (fi_www_authenticate r))"

definition empty_payment :: "fund_flow \<Rightarrow> string" where
  "empty_payment f = (case f of
       X402 \<Rightarrow> ''x402 sign_payment returned an empty payment signature''
     | Mpp \<Rightarrow> ''MPP create_payment_credential returned an empty credential'')"

definition execute_fund ::
  "fund_flow \<Rightarrow> (fund_intent_result \<Rightarrow> fund_error + string) \<Rightarrow> 's fund_host \<Rightarrow> uuid \<Rightarrow> proof_doc \<Rightarrow>
   poll_options \<Rightarrow> ('s, fund_intent_result) fund_run" where
  "execute_fund f challenge_of h intent_id proof opts =
     fthen (call_fund h proof None) (\<lambda>r.
       if fi_status_code r = 402 then
         (case challenge_of r of
            Inl e \<Rightarrow> fraise e
          | Inr challenge \<Rightarrow>
              fthen (call_pay h challenge) (\<lambda>paid.
              if strip paid = [] then fraise (FundingFailed (empty_payment f) intent_id (Some r))
              else fthen (call_prove h (build_x402_fund_request_envelope intent_id)) (\<lambda>p.
                   fthen (call_fund h p (Some (strip paid)))
                     (settle_funding f h intent_id opts (Some (strip paid))))))
       else settle_funding f h intent_id opts None r)"

definition execute_fund_with_x402 ::
  "'s fund_host \<Rightarrow> uuid \<Rightarrow> proof_doc \<Rightarrow> poll_options \<Rightarrow> ('s, fund_intent_result) fund_run" where
  "execute_fund_with_x402 h intent_id = execute_fund X402 (x402_challenge intent_id) h intent_id"

definition execute_fund_with_mpp ::
  "(string list option \<Rightarrow> exn + string) \<Rightarrow> 's fund_host \<Rightarrow> uuid \<Rightarrow> proof_doc \<Rightarrow> poll_options \<Rightarrow>
   ('s, fund_intent_result) fund_run" where
  "execute_fund_with_mpp select = execute_fund Mpp (mpp_challenge select)"

definition execute_fund_with_mpp_charge ::
  "'s fund_host \<Rightarrow> uuid \<Rightarrow> proof_doc \<Rightarrow> poll_options \<Rightarrow> ('s, fund_intent_result) fund_run" where
  "execute_fund_with_mpp_charge = execute_fund_with_mpp select_mpp_charge_challenge"

definition execute_fund_with_mpp_session ::
  "'s fund_host \<Rightarrow> uuid \<Rightarrow> proof_doc \<Rightarrow> poll_options \<Rightarrow> ('s, fund_intent_result) fund_run" where
  "execute_fund_with_mpp_session = execute_fund_with_mpp select_mpp_session_challenge"

section \<open>The host of PaybondIntents\<close>

text \<open>
  \<open>fund_with_x402\<close> and the two MPP calls of \<open>paybond.py\<close>: the fund callback is the gateway
  client's call, with the caller's idempotency key on every request.
\<close>

definition x402_host ::
  "gateway_client \<Rightarrow> 's transport \<Rightarrow> uuid \<Rightarrow> string option \<Rightarrow> (string \<Rightarrow> 's \<Rightarrow> (exn + string) \<times> 's) \<Rightarrow>
   (fund_envelope \<Rightarrow> 's \<Rightarrow> (exn + proof_doc) \<times> 's) \<Rightarrow> 's fund_host" where
  "x402_host c send intent_id key sign prove =
     \<lparr>fh_fund = (\<lambda>p pay. fund_intent c send intent_id (Some p) pay None key),
      fh_pay = sign, fh_prove = prove\<rparr>"

definition mpp_host ::
  "gateway_client \<Rightarrow> 's transport \<Rightarrow> uuid \<Rightarrow> string option \<Rightarrow> (string \<Rightarrow> 's \<Rightarrow> (exn + string) \<times> 's) \<Rightarrow>
   (fund_envelope \<Rightarrow> 's \<Rightarrow> (exn + proof_doc) \<times> 's) \<Rightarrow> 's fund_host" where
  "mpp_host c send intent_id key pay_credential prove =
     \<lparr>fh_fund = (\<lambda>p pay. fund_intent c send intent_id (Some p) None pay key),
      fh_pay = pay_credential, fh_prove = prove\<rparr>"

definition start_world :: "'s \<Rightarrow> 's fund_world" where
  "start_world s = \<lparr>fw_state = s, fw_log = []\<rparr>"

definition fund_with_x402 ::
  "gateway_client \<Rightarrow> 's transport \<Rightarrow> uuid \<Rightarrow> proof_doc \<Rightarrow> (string \<Rightarrow> 's \<Rightarrow> (exn + string) \<times> 's) \<Rightarrow>
   (fund_envelope \<Rightarrow> 's \<Rightarrow> (exn + proof_doc) \<times> 's) \<Rightarrow> poll_options option \<Rightarrow> string option \<Rightarrow> 's \<Rightarrow>
   (fund_error + fund_intent_result) \<times> 's fund_world" where
  "fund_with_x402 c send intent_id proof sign prove opts key s =
     execute_fund_with_x402 (x402_host c send intent_id key sign prove) intent_id proof
       (case opts of Some o' \<Rightarrow> o' | None \<Rightarrow> default_poll_options) (start_world s)"

definition fund_with_mpp_charge ::
  "gateway_client \<Rightarrow> 's transport \<Rightarrow> uuid \<Rightarrow> proof_doc \<Rightarrow> (string \<Rightarrow> 's \<Rightarrow> (exn + string) \<times> 's) \<Rightarrow>
   (fund_envelope \<Rightarrow> 's \<Rightarrow> (exn + proof_doc) \<times> 's) \<Rightarrow> poll_options option \<Rightarrow> string option \<Rightarrow> 's \<Rightarrow>
   (fund_error + fund_intent_result) \<times> 's fund_world" where
  "fund_with_mpp_charge c send intent_id proof pay_credential prove opts key s =
     execute_fund_with_mpp_charge (mpp_host c send intent_id key pay_credential prove) intent_id proof
       (case opts of Some o' \<Rightarrow> o' | None \<Rightarrow> default_poll_options) (start_world s)"

definition fund_with_mpp_session ::
  "gateway_client \<Rightarrow> 's transport \<Rightarrow> uuid \<Rightarrow> proof_doc \<Rightarrow> (string \<Rightarrow> 's \<Rightarrow> (exn + string) \<times> 's) \<Rightarrow>
   (fund_envelope \<Rightarrow> 's \<Rightarrow> (exn + proof_doc) \<times> 's) \<Rightarrow> poll_options option \<Rightarrow> string option \<Rightarrow> 's \<Rightarrow>
   (fund_error + fund_intent_result) \<times> 's fund_world" where
  "fund_with_mpp_session c send intent_id proof pay_credential prove opts key s =
     execute_fund_with_mpp_session (mpp_host c send intent_id key pay_credential prove) intent_id proof
       (case opts of Some o' \<Rightarrow> o' | None \<Rightarrow> default_poll_options) (start_world s)"

end
