(* ===== verification/Funding_Facts.thy ===== *)
theory Funding_Facts
  imports Funding
begin

text \<open>
  What a funding run does to its log: every request after the first follows a fresh proof
  for the same envelope, the payment is made at most once, and the outcome is read off the
  last answer.
\<close>

section \<open>Shapes of the log\<close>

definition is_fund :: "fund_event \<Rightarrow> bool" where
  "is_fund e = (case e of Funds _ _ _ \<Rightarrow> True | _ \<Rightarrow> False)"

definition is_pay :: "fund_event \<Rightarrow> bool" where
  "is_pay e = (case e of Pays _ _ \<Rightarrow> True | _ \<Rightarrow> False)"

lemma is_fund_simps [simp]:
  "is_fund (Funds p q a)" "\<not> is_fund (Pays c s)" "\<not> is_fund (Proves v p')" "\<not> is_fund (Sleeps n)"
  by (simp_all add: is_fund_def)

lemma is_pay_simps [simp]:
  "\<not> is_pay (Funds p q a)" "is_pay (Pays c s)" "\<not> is_pay (Proves v p')" "\<not> is_pay (Sleeps n)"
  by (simp_all add: is_pay_def)

text \<open>A request comes right after the proof that it carries.\<close>

definition proof_before_request :: "fund_envelope \<Rightarrow> fund_event \<Rightarrow> fund_event \<Rightarrow> bool" where
  "proof_before_request env prev e = (case e of
       Funds p q a \<Rightarrow> prev = Proves env (Inr p)
     | _ \<Rightarrow> True)"

lemma proof_before_request_simps [simp]:
  "proof_before_request env x (Funds p q a) \<longleftrightarrow> x = Proves env (Inr p)"
  "\<not> is_fund e \<Longrightarrow> proof_before_request env x e"
  by (auto simp: proof_before_request_def split: fund_event.splits)

text \<open>The answer of the last request.\<close>

definition last_answer :: "fund_event list \<Rightarrow> fund_intent_result \<Rightarrow> bool" where
  "last_answer l r \<longleftrightarrow> (case rev l of Funds p q a # _ \<Rightarrow> a = Inr r | _ \<Rightarrow> False)"

lemma last_answer_simps [simp]:
  "last_answer (l @ [Funds p q a]) r \<longleftrightarrow> a = Inr r" "\<not> last_answer [] r"
  "last_answer [Funds p q a] r \<longleftrightarrow> a = Inr r"
  by (simp_all add: last_answer_def)

lemma last_answer_append: "l \<noteq> [] \<Longrightarrow> last_answer (k @ l) r = last_answer l r"
  by (cases l rule: rev_cases) (simp_all add: last_answer_def)

text \<open>The polls of a run whose payment is \<open>pay\<close>: requests with fresh proofs and that payment.\<close>

definition polls :: "fund_envelope \<Rightarrow> string option \<Rightarrow> fund_event list \<Rightarrow> bool" where
  "polls env pay l \<longleftrightarrow>
     successively (proof_before_request env) l \<and> (l \<noteq> [] \<longrightarrow> \<not> is_fund (hd l)) \<and>
     (\<forall>e \<in> set l. \<not> is_pay e \<and> (\<forall>p q a. e = Funds p q a \<longrightarrow> q = pay))"

lemma polls_Nil [simp]: "polls env pay []"
  by (simp add: polls_def)

lemma polls_one [simp]: "\<not> is_fund e \<Longrightarrow> \<not> is_pay e \<Longrightarrow> polls env pay [e]"
  by (auto simp: polls_def)

lemma polls_append: "polls env pay k \<Longrightarrow> polls env pay l \<Longrightarrow> polls env pay (k @ l)"
  unfolding polls_def by (cases l) (auto simp: successively_append_iff hd_append)

lemma polls_request:
  "polls env pay [Proves env (Inr p), Funds p pay a]"
  by (simp add: polls_def)

definition sleep_log :: "int \<Rightarrow> fund_event list" where
  "sleep_log n = (if n > 0 then [Sleeps n] else [])"

lemma sleep_log_facts [simp]:
  "polls env pay (sleep_log n)" "filter is_fund (sleep_log n) = []" "Funds p q a \<notin> set (sleep_log n)"
  by (simp_all add: sleep_log_def)

text \<open>One poll: the pause, the proof and the request.\<close>

definition poll_log ::
  "int \<Rightarrow> fund_envelope \<Rightarrow> string option \<Rightarrow> proof_doc \<Rightarrow> exn + fund_intent_result \<Rightarrow> fund_event list" where
  "poll_log n env pay p a = sleep_log n @ [Proves env (Inr p), Funds p pay a]"

lemma poll_log_polls: "polls env pay (poll_log n env pay p a)"
  unfolding poll_log_def by (intro polls_append sleep_log_facts polls_request)

lemma poll_log_fund [simp]: "filter is_fund (poll_log n env pay p a) = [Funds p pay a]"
  by (simp add: poll_log_def)

lemma poll_log_last: "poll_log n env pay p a = (sleep_log n @ [Proves env (Inr p)]) @ [Funds p pay a]"
  by (simp add: poll_log_def)

lemma poll_log_answer [simp]:
  "last_answer (k @ poll_log n env pay p a) r \<longleftrightarrow> a = Inr r"
  "last_answer (poll_log n env pay p a) r \<longleftrightarrow> a = Inr r"
  "poll_log n env pay p a \<noteq> []"
  by (simp_all add: poll_log_def last_answer_append) (simp_all add: last_answer_def)

lemma sleep_ms_simps [simp]:
  "fw_log (sleep_ms n w) = fw_log w @ sleep_log n" "fw_state (sleep_ms n w) = fw_state w"
  by (simp_all add: sleep_ms_def sleep_log_def)

section \<open>Callbacks\<close>

lemma call_hostE:
  assumes "call_host f ev w = (x, w')"
  obtains r where "x = map_sum FundRaised id r" "fw_log w' = fw_log w @ [ev r]"
  using assms by (auto simp: call_host_def split: prod.splits)

lemma fthen_hostE:
  assumes "fthen (call_host f ev) k w = (x, w')"
  obtains (raises) e where "x = Inl (FundRaised e)" "fw_log w' = fw_log w @ [ev (Inl e)]"
  | (answers) v w1 where "fw_log w1 = fw_log w @ [ev (Inr v)]" "k v w1 = (x, w')"
proof (cases "call_host f ev w")
  case (Pair y w1)
  then obtain r where r: "y = map_sum FundRaised id r" "fw_log w1 = fw_log w @ [ev r]"
    by (rule call_hostE)
  show ?thesis
  proof (cases r)
    case (Inl e)
    with assms Pair r show ?thesis by (auto simp: fthen_def intro: raises)
  next
    case (Inr v)
    with assms Pair r show ?thesis by (auto simp: fthen_def intro: answers)
  qed
qed

section \<open>The outcome of the loop\<close>

text \<open>An answer that ends a run with success.\<close>

definition funded_answer :: "fund_flow \<Rightarrow> fund_intent_result \<Rightarrow> bool" where
  "funded_answer f r \<longleftrightarrow> is_funding_complete r \<and> \<not> is_terminal_funding_failure f r"

text \<open>What a run's outcome says of the last answer, and of the number of polls when it gives up.\<close>

definition outcome_ok ::
  "fund_flow \<Rightarrow> uuid \<Rightarrow> int \<Rightarrow> int \<Rightarrow> fund_intent_result \<Rightarrow> fund_error + fund_intent_result \<Rightarrow> bool" where
  "outcome_ok f intent_id max_attempts used r res \<longleftrightarrow> (case res of
       Inr x \<Rightarrow> x = r \<and> funded_answer f r
     | Inl (FundingPending m j x n) \<Rightarrow>
         x = r \<and> j = intent_id \<and> n = max_attempts \<and> used = max_attempts \<and> still_pending r \<and> \<not> funded_answer f r
     | Inl (FundingFailed m j x) \<Rightarrow> x = Some r \<and> j = intent_id \<and> \<not> funded_answer f r
     | Inl (FundRaised e) \<Rightarrow> False)"

definition raised_last :: "fund_event list \<Rightarrow> fund_error + fund_intent_result \<Rightarrow> bool" where
  "raised_last l res \<longleftrightarrow> (\<exists>e. res = Inl (FundRaised e) \<and> l \<noteq> [] \<and>
     (last l \<in> {Funds p q (Inl e) | p q. True} \<union> {Pays c (Inl e) | c. True} \<union> {Proves v (Inl e) | v. True}))"

lemma raised_lastI [simp]:
  "raised_last (l @ [Funds p q (Inl e)]) (Inl (FundRaised e))"
  "raised_last (l @ [Proves v (Inl e)]) (Inl (FundRaised e))"
  "raised_last (l @ [Pays c (Inl e)]) (Inl (FundRaised e))"
  by (auto simp: raised_last_def)

lemma raised_last_append: "raised_last l res \<Longrightarrow> raised_last (k @ l) res"
  by (auto simp: raised_last_def)

lemma complete_pending: "is_funding_complete r \<Longrightarrow> still_pending r \<Longrightarrow> fi_status_code r = 202"
  by (auto simp: still_pending_def)

text \<open>
  The answers of a log before the last one: none of them was a success.
\<close>

definition no_success :: "fund_flow \<Rightarrow> fund_event list \<Rightarrow> bool" where
  "no_success f l \<longleftrightarrow>
     list_all (\<lambda>e. case e of Funds p q (Inr r) \<Rightarrow> \<not> funded_answer f r | _ \<Rightarrow> True) l"

lemma no_success_simps [simp]:
  "no_success f []" "no_success f (sleep_log n)"
  "no_success f (k @ l) \<longleftrightarrow> no_success f k \<and> no_success f l"
  "no_success f (e # e' # l) \<longleftrightarrow> no_success f [e] \<and> no_success f (e' # l)"
  by (simp_all add: no_success_def sleep_log_def)

lemma no_success_one [simp]:
  "no_success f [Proves v x]" "no_success f [Pays c s]" "no_success f [Sleeps n]"
  "no_success f [Funds p q (Inl e)]" "no_success f [Funds p q (Inr r)] \<longleftrightarrow> \<not> funded_answer f r"
  by (auto simp: no_success_def)

text \<open>
  How a loop that began with the answer \<open>r\<close> ends, \<open>used\<close> polls later: a callback raised, or the
  outcome is that of the last answer; successes are returned.
\<close>

definition loop_ends ::
  "fund_flow \<Rightarrow> uuid \<Rightarrow> int \<Rightarrow> int \<Rightarrow> fund_intent_result \<Rightarrow> fund_event list \<Rightarrow>
   fund_error + fund_intent_result \<Rightarrow> bool" where
  "loop_ends f i m left r l res \<longleftrightarrow>
     (raised_last l res \<and> no_success f l \<or>
      l = [] \<and> outcome_ok f i m (m - left) r res \<or>
      (\<exists>x. last_answer l x \<and> no_success f (butlast l) \<and>
           outcome_ok f i m (m - left + int (length (filter is_fund l))) x res))"

lemma poll_log_success [simp]:
  "no_success f (butlast (poll_log n env pay p a))"
  "no_success f (poll_log n env pay p (Inl e))"
  "no_success f (poll_log n env pay p (Inr r)) \<longleftrightarrow> \<not> funded_answer f r"
  "raised_last (poll_log n env pay p (Inl e)) (Inl (FundRaised e))"
  by (simp_all add: poll_log_def butlast_append raised_last_def)

lemma loop_ends_later:
  assumes "loop_ends f i m (int n) r' l res" "\<not> funded_answer f r'"
  shows "loop_ends f i m (int (Suc n)) r (poll_log k env pay p (Inr r') @ l) res"
proof (cases "l = []")
  case True
  with assms show ?thesis by (auto simp: loop_ends_def raised_last_def)
next
  case False
  let ?k = "poll_log k env pay p (Inr r')"
  have quiet: "no_success f ?k" using assms(2) by simp
  from assms(1) False consider
    (raised) "raised_last l res" "no_success f l"
  | (answered) x where "last_answer l x" "no_success f (butlast l)"
      "outcome_ok f i m (m - int n + int (length (filter is_fund l))) x res"
    by (auto simp: loop_ends_def)
  then show ?thesis
  proof cases
    case raised
    then show ?thesis using quiet by (simp add: loop_ends_def raised_last_append)
  next
    case (answered x)
    moreover have "m - int (Suc n) + int (length (filter is_fund (?k @ l)))
                   = m - int n + int (length (filter is_fund l))" by simp
    ultimately have "last_answer (?k @ l) x" "no_success f (butlast (?k @ l))"
      "outcome_ok f i m (m - int (Suc n) + int (length (filter is_fund (?k @ l)))) x res"
      using False quiet last_answer_append[OF False, of ?k x] by (simp_all only: butlast_append if_False no_success_simps)
    then show ?thesis by (auto simp: loop_ends_def simp del: of_nat_Suc)
  qed
qed

lemma poll_run:
  assumes "poll_funding f h i opts pay n r w = (res, w')" "\<not> funded_answer f r"
    "\<not> is_terminal_funding_failure f r"
  shows "\<exists>l. fw_log w' = fw_log w @ l \<and> polls (build_x402_fund_request_envelope i) pay l \<and>
             length (filter is_fund l) \<le> n \<and>
             loop_ends f i (effective_attempts opts) (int n) r l res"
  using assms
proof (induction n arbitrary: r w)
  case 0
  then have "w' = w \<and> outcome_ok f i (effective_attempts opts) (effective_attempts opts) r res"
    by (auto simp: outcome_ok_def fraise_def freturn_def unexpected_answer_def
        polls_exhausted_def funded_answer_def split: if_splits)
  then show ?case by (intro exI[of _ "[]"]) (simp add: loop_ends_def)
next
  case (Suc n)
  let ?env = "build_x402_fund_request_envelope i"
  let ?s = "sleep_log (effective_interval opts)"
  show ?case
  proof (cases "still_pending r")
    case False
    with Suc.prems have "w' = w \<and> outcome_ok f i m u r res" for m u
      by (auto simp: outcome_ok_def fraise_def freturn_def unexpected_answer_def
          funded_answer_def split: if_splits)
    then show ?thesis by (intro exI[of _ "[]"]) (simp add: loop_ends_def)
  next
    case True
    define w0 where "w0 = sleep_ms (effective_interval opts) w"
    have log0: "fw_log w0 = fw_log w @ ?s" by (simp add: w0_def)
    from Suc.prems(1) True have run:
      "fthen (call_prove h ?env) (\<lambda>p. fthen (call_fund h p pay) (\<lambda>r'.
          if is_terminal_funding_failure f r' then fraise (funding_failed i f r')
          else if is_funding_complete r' then freturn r'
          else poll_funding f h i opts pay n r')) w0 = (res, w')"
      by (simp add: w0_def)
    from run show ?thesis
      unfolding call_prove_def
    proof (cases rule: fthen_hostE)
      case (raises e)
      then show ?thesis
        by (intro exI[of _ "?s @ [Proves ?env (Inl e)]"])
           (simp add: log0 loop_ends_def polls_append)
    next
      case (answers p w1)
      let ?l = "poll_log (effective_interval opts) ?env pay p"
      have step: "fw_log w2 = fw_log w @ ?l a" if "fw_log w2 = fw_log w1 @ [Funds p pay a]" for w2 a
        using that answers(1) log0 by (simp add: poll_log_def)
      from answers(2) show ?thesis
        unfolding call_fund_def
      proof (cases rule: fthen_hostE)
        case (raises e)
        then show ?thesis
          using step[OF raises(2)]
          by (intro exI[of _ "?l (Inl e)"]) (simp add: loop_ends_def poll_log_polls)
      next
        case inner: (answers r' w2)
        have log2: "fw_log w2 = fw_log w @ ?l (Inr r')" by (rule step[OF inner(1)])
        show ?thesis
        proof (cases "is_terminal_funding_failure f r' \<or> is_funding_complete r'")
          case True
          then have "w' = w2 \<and> outcome_ok f i m u r' res" for m u
            using inner(2)
            by (auto simp: outcome_ok_def fraise_def freturn_def funding_failed_def funded_answer_def
                split: if_splits)
          then show ?thesis
            using log2 by (intro exI[of _ "?l (Inr r')"]) (simp add: loop_ends_def poll_log_polls)
        next
          case False
          then have "poll_funding f h i opts pay n r' w2 = (res, w')" using inner(2) by simp
          moreover have nf: "\<not> funded_answer f r'" "\<not> is_terminal_funding_failure f r'"
            using False by (simp_all add: funded_answer_def)
          ultimately obtain l where l: "fw_log w' = fw_log w2 @ l" "polls ?env pay l"
            "length (filter is_fund l) \<le> n" "loop_ends f i (effective_attempts opts) (int n) r' l res"
            using Suc.IH[of r' w2] by blast
          have "loop_ends f i (effective_attempts opts) (int (Suc n)) r (?l (Inr r') @ l) res"
            using loop_ends_later[OF l(4) nf(1)] by simp
          then show ?thesis
            using l log2
            by (intro exI[of _ "?l (Inr r') @ l"]) (simp add: polls_append poll_log_polls)
        qed
      qed
    qed
  qed
qed

end
