(* ===== verification/Funding_Standard.thy ===== *)
theory Funding_Standard
  imports Funding_Facts
begin

text \<open>
  The properties of a funding run as a whole: the order of its requests, what its outcome
  says of the gateway's last answer, and that no funded answer is lost.
\<close>

section \<open>The shapes of a run\<close>

definition settled ::
  "fund_flow \<Rightarrow> uuid \<Rightarrow> poll_options \<Rightarrow> string option \<Rightarrow> fund_intent_result \<Rightarrow> fund_event list \<Rightarrow>
   fund_error + fund_intent_result \<Rightarrow> bool" where
  "settled f i opts pay r l res \<longleftrightarrow>
     polls (build_x402_fund_request_envelope i) pay l \<and>
     int (length (filter is_fund l)) \<le> effective_attempts opts \<and>
     (if funded_answer f r then l = [] \<and> res = Inr r
      else loop_ends f i (effective_attempts opts) (effective_attempts opts) r l res)"

lemma effective_attempts_pos: "1 \<le> effective_attempts opts"
  by (simp add: effective_attempts_def)

lemma settle_run:
  assumes "settle_funding f h i opts pay r w = (res, w')"
  shows "\<exists>l. fw_log w' = fw_log w @ l \<and> settled f i opts pay r l res"
proof (cases "is_terminal_funding_failure f r \<or> is_funding_complete r")
  case True
  then have "w' = w \<and> (if funded_answer f r then res = Inr r else outcome_ok f i m u r res)" for m u
    using assms by (auto simp: settle_funding_def outcome_ok_def fraise_def freturn_def
        funding_failed_def funded_answer_def split: if_splits)
  then show ?thesis
    using effective_attempts_pos[of opts]
    by (intro exI[of _ "[]"]) (simp add: settled_def loop_ends_def split: if_splits)
next
  case False
  then have nf: "\<not> funded_answer f r" "\<not> is_terminal_funding_failure f r"
    by (simp_all add: funded_answer_def)
  have "poll_funding f h i opts pay (nat (effective_attempts opts)) r w = (res, w')"
    using assms False by (simp add: settle_funding_def)
  from poll_run[OF this nf] nf(1) show ?thesis
    using effective_attempts_pos[of opts] by (auto simp: settled_def nat_le_iff)
qed

lemma execute_runE:
  assumes "execute_fund f ch h i proof opts (start_world s) = (res, w)"
  obtains
    (raised) e where "fw_log w = [Funds proof None (Inl e)]" "res = Inl (FundRaised e)"
  | (answered) r l where "fw_log w = Funds proof None (Inr r) # l" "fi_status_code r \<noteq> 402"
      "settled f i opts None r l res"
  | (unreadable) r e where "fw_log w = [Funds proof None (Inr r)]" "fi_status_code r = 402" "ch r = Inl e"
      "res = Inl e"
  | (unpaid) r c e where "fw_log w = [Funds proof None (Inr r), Pays c (Inl e)]" "fi_status_code r = 402"
      "ch r = Inr c" "res = Inl (FundRaised e)"
  | (blank) r c t where "fw_log w = [Funds proof None (Inr r), Pays c (Inr t)]" "fi_status_code r = 402"
      "ch r = Inr c" "strip t = []" "res = Inl (FundingFailed (empty_payment f) i (Some r))"
  | (unproved) r c t e where
      "fw_log w = [Funds proof None (Inr r), Pays c (Inr t),
                   Proves (build_x402_fund_request_envelope i) (Inl e)]" "fi_status_code r = 402"
      "ch r = Inr c" "strip t \<noteq> []" "res = Inl (FundRaised e)"
  | (refused) r c t p e where
      "fw_log w = [Funds proof None (Inr r), Pays c (Inr t),
                   Proves (build_x402_fund_request_envelope i) (Inr p), Funds p (Some (strip t)) (Inl e)]"
      "fi_status_code r = 402" "ch r = Inr c" "strip t \<noteq> []" "res = Inl (FundRaised e)"
  | (paid) r c t p r' l where
      "fw_log w = [Funds proof None (Inr r), Pays c (Inr t),
                   Proves (build_x402_fund_request_envelope i) (Inr p), Funds p (Some (strip t)) (Inr r')] @ l"
      "fi_status_code r = 402" "ch r = Inr c" "strip t \<noteq> []" "settled f i opts (Some (strip t)) r' l res"
proof -
  have log0: "fw_log (start_world s) = []" by (simp add: start_world_def)
  from assms show thesis
    unfolding execute_fund_def call_fund_def[where pay = None]
  proof (cases rule: fthen_hostE)
    case (raises e)
    then show ?thesis using raised log0 by simp
  next
    case (answers r w1)
    have log1: "fw_log w1 = [Funds proof None (Inr r)]" using answers(1) log0 by simp
    show ?thesis
    proof (cases "fi_status_code r = 402")
      case False
      with answers(2) have "settle_funding f h i opts None r w1 = (res, w)" by simp
      from settle_run[OF this] obtain l where "fw_log w = fw_log w1 @ l" "settled f i opts None r l res"
        by blast
      then show ?thesis using answered[of r l] False log1 by simp
    next
      case status: True
      show ?thesis
      proof (cases "ch r")
        case (Inl e)
        then show ?thesis using unreadable[of r e] status answers(2) log1 by (simp add: fraise_def)
      next
        case (Inr c)
        with answers(2) status have
          "fthen (call_pay h c) (\<lambda>t.
              if strip t = [] then fraise (FundingFailed (empty_payment f) i (Some r))
              else fthen (call_prove h (build_x402_fund_request_envelope i)) (\<lambda>p.
                   fthen (call_fund h p (Some (strip t)))
                     (settle_funding f h i opts (Some (strip t))))) w1 = (res, w)"
          by simp
        then show ?thesis
          unfolding call_pay_def
        proof (cases rule: fthen_hostE)
          case (raises e)
          then show ?thesis using unpaid[of r c e] status Inr log1 by simp
        next
          case pays: (answers t w2)
          have log2: "fw_log w2 = [Funds proof None (Inr r), Pays c (Inr t)]"
            using pays(1) log1 by simp
          show ?thesis
          proof (cases "strip t = []")
            case True
            then show ?thesis using blank[of r c t] status Inr pays(2) log2 by (simp add: fraise_def)
          next
            case False
            with pays(2) have
              "fthen (call_prove h (build_x402_fund_request_envelope i)) (\<lambda>p.
                   fthen (call_fund h p (Some (strip t)))
                     (settle_funding f h i opts (Some (strip t)))) w2 = (res, w)"
              by simp
            then show ?thesis
              unfolding call_prove_def
            proof (cases rule: fthen_hostE)
              case (raises e)
              then show ?thesis using unproved[of r c t e] status Inr False log2 by simp
            next
              case proves: (answers p w3)
              from proves(2) show ?thesis
                unfolding call_fund_def
              proof (cases rule: fthen_hostE)
                case (raises e)
                then show ?thesis using refused[of r c t p e] status Inr False log2 proves(1) by simp
              next
                case funds: (answers r' w4)
                from settle_run[OF funds(2)] obtain l where
                  "fw_log w = fw_log w4 @ l" "settled f i opts (Some (strip t)) r' l res"
                  by blast
                then show ?thesis
                  using paid[of r c t p r' l] status Inr False log2 proves(1) funds(1) by simp
              qed
            qed
          qed
        qed
      qed
    qed
  qed
qed

section \<open>Order\<close>

text \<open>The payment that the host made in a run, if it made one.\<close>

definition payment_made :: "fund_event list \<Rightarrow> string option" where
  "payment_made l = (case List.map_filter
       (\<lambda>e. case e of Pays c (Inr t) \<Rightarrow> Some (strip t) | _ \<Rightarrow> None) l of
       [] \<Rightarrow> None | t # _ \<Rightarrow> Some t)"

lemma map_filter_no_pay:
  "list_all (\<lambda>e. \<not> is_pay e) l \<Longrightarrow>
     List.map_filter (\<lambda>e. case e of Pays c (Inr t) \<Rightarrow> Some (strip t) | _ \<Rightarrow> None) l = []"
  by (induction l) (auto simp: map_filter_simps split: fund_event.splits)

lemma map_filter_polls:
  "polls env pay l \<Longrightarrow> List.map_filter (\<lambda>e. case e of Pays c (Inr t) \<Rightarrow> Some (strip t) | _ \<Rightarrow> None) l = []"
  by (rule map_filter_no_pay) (simp add: polls_def list_all_iff)

lemma polls_facts:
  assumes "polls env pay l"
  shows "filter is_pay l = []" "Funds p q a \<in> set l \<Longrightarrow> q = pay"
    "successively (proof_before_request env) (x # l)"
  using assms by (auto simp: polls_def filter_empty_conv successively_Cons)

definition requests_ordered ::
  "uuid \<Rightarrow> proof_doc \<Rightarrow> poll_options \<Rightarrow> fund_event list \<Rightarrow> bool" where
  "requests_ordered i proof opts l \<longleftrightarrow>
     (\<exists>a. hd l = Funds proof None a) \<and> l \<noteq> [] \<and>
     successively (proof_before_request (build_x402_fund_request_envelope i)) l \<and>
     (\<forall>p q a. Funds p q a \<in> set (tl l) \<longrightarrow> q = payment_made l) \<and>
     length (filter is_pay l) \<le> 1 \<and>
     int (length (filter is_fund l)) \<le> 2 + effective_attempts opts"

lemma execute_ordered:
  assumes "execute_fund f ch h i proof opts (start_world s) = (res, w)"
  shows "requests_ordered i proof opts (fw_log w)"
  using assms
proof (cases rule: execute_runE)
  case (answered r l)
  then have p: "polls (build_x402_fund_request_envelope i) None l"
    and n: "int (length (filter is_fund l)) \<le> effective_attempts opts"
    by (simp_all add: settled_def)
  show ?thesis
    using polls_facts[OF p] map_filter_polls[OF p] n
    by (auto simp: answered(1) requests_ordered_def payment_made_def map_filter_simps)
next
  case (paid r c t p r' l)
  then have q: "polls (build_x402_fund_request_envelope i) (Some (strip t)) l"
    and n: "int (length (filter is_fund l)) \<le> effective_attempts opts"
    by (simp_all add: settled_def)
  show ?thesis
    using polls_facts[OF q] map_filter_polls[OF q] n
    by (auto simp: paid(1) requests_ordered_def payment_made_def map_filter_simps)
qed (use effective_attempts_pos[of opts] in
      \<open>auto simp: requests_ordered_def payment_made_def map_filter_simps\<close>)

section \<open>Outcome\<close>

definition outcome_justified ::
  "fund_flow \<Rightarrow> uuid \<Rightarrow> poll_options \<Rightarrow> fund_event list \<Rightarrow> fund_error + fund_intent_result \<Rightarrow> bool" where
  "outcome_justified f i opts l res \<longleftrightarrow> (case res of
       Inr x \<Rightarrow> last_answer l x \<and> funded_answer f x
     | Inl (FundingPending m j x n) \<Rightarrow>
         j = i \<and> n = effective_attempts opts \<and> last_answer l x \<and> still_pending x \<and> \<not> funded_answer f x \<and>
         int (length (filter is_fund l)) = n + (if payment_made l = None then 1 else 2)
     | Inl (FundingFailed m j x) \<Rightarrow> j = i \<and> (\<exists>p q r. x = Some r \<and> Funds p q (Inr r) \<in> set l)
     | Inl (FundRaised e) \<Rightarrow> True)"

text \<open>A funded answer that is not a challenge is what the run returns.\<close>

definition success_returned :: "fund_flow \<Rightarrow> fund_event list \<Rightarrow> fund_error + fund_intent_result \<Rightarrow> bool" where
  "success_returned f l res \<longleftrightarrow>
     (\<forall>p q x. Funds p q (Inr x) \<in> set l \<longrightarrow> funded_answer f x \<longrightarrow> fi_status_code x \<noteq> 402 \<longrightarrow> res = Inr x)"

lemma last_answer_split: "last_answer l x \<Longrightarrow> \<exists>p q. l = butlast l @ [Funds p q (Inr x)]"
  by (cases l rule: rev_cases) (auto simp: last_answer_def split: fund_event.splits)

lemma no_success_member:
  "no_success f l \<Longrightarrow> Funds p q (Inr x) \<in> set l \<Longrightarrow> \<not> funded_answer f x"
  by (fastforce simp: no_success_def list_all_iff)

lemma success_returned_quiet: "no_success f l \<Longrightarrow> success_returned f l res"
  by (auto simp: success_returned_def dest: no_success_member)

text \<open>The log \<open>k\<close> up to the answer \<open>r\<close> that was settled, and the polls \<open>l\<close> after it.\<close>

lemma settled_outcome:
  assumes s: "settled f i opts pay r l res" and k: "last_answer k r"
    and quiet: "\<And>p q x. Funds p q (Inr x) \<in> set (butlast k) \<Longrightarrow> fi_status_code x = 402"
    and count: "int (length (filter is_fund k)) = (if payment_made (k @ l) = None then 1 else 2)"
  shows "outcome_justified f i opts (k @ l) res \<and> success_returned f (k @ l) res"
proof -
  obtain p0 q0 where kr: "k = butlast k @ [Funds p0 q0 (Inr r)]" using last_answer_split[OF k] by blast
  have first: "success_returned f (butlast k) res'" for res'
    using quiet by (auto simp: success_returned_def)
  have split: "success_returned f (k @ l) res'" if "no_success f (Funds p0 q0 (Inr r) # l)" for res'
    using first[of res'] success_returned_quiet[OF that, of res']
    by (subst kr) (auto simp: success_returned_def)
  show ?thesis
  proof (cases "funded_answer f r")
    case True
    with s have l: "l = []" "res = Inr r" by (simp_all add: settled_def)
    have "success_returned f k (Inr r)"
      using first[of "Inr r"] by (subst kr) (auto simp: success_returned_def)
    then show ?thesis using l k True by (simp add: outcome_justified_def)
  next
    case nf: False
    with s have le: "loop_ends f i (effective_attempts opts) (effective_attempts opts) r l res"
      by (simp add: settled_def)
    then consider (raised) "raised_last l res" "no_success f l"
      | (none) "l = []" "outcome_ok f i (effective_attempts opts) 0 r res"
      | (polled) x where "last_answer l x" "no_success f (butlast l)"
          "outcome_ok f i (effective_attempts opts) (int (length (filter is_fund l))) x res"
      by (auto simp: loop_ends_def)
    then show ?thesis
    proof cases
      case raised
      have "no_success f (Funds p0 q0 (Inr r) # l)" using raised(2) nf by (cases l) auto
      then show ?thesis using split raised(1)
        by (auto simp: outcome_justified_def raised_last_def)
    next
      case none
      then have "no_success f (Funds p0 q0 (Inr r) # l)" using nf by simp
      moreover have "Funds p0 q0 (Inr r) \<in> set k" by (subst kr) simp
      ultimately show ?thesis using split none nf k effective_attempts_pos[of opts]
        by (auto simp: outcome_justified_def outcome_ok_def split: sum.splits fund_error.splits)
    next
      case (polled x)
      obtain p q where lx: "l = butlast l @ [Funds p q (Inr x)]"
        using last_answer_split[OF polled(1)] by blast
      then have l: "l \<noteq> []" by auto
      have la: "last_answer (k @ l) x" using last_answer_append[OF l] polled(1) by simp
      have mem: "Funds p q (Inr x) \<in> set (k @ l)" by (subst lx) simp
      have "outcome_justified f i opts (k @ l) res"
        using polled(3) la mem count
        by (auto simp: outcome_justified_def outcome_ok_def split: sum.splits fund_error.splits)
      moreover have "success_returned f (k @ l) res"
      proof (cases "funded_answer f x")
        case True
        then have "res = Inr x" using polled(3)
          by (auto simp: outcome_ok_def split: sum.splits fund_error.splits)
        moreover have "no_success f (Funds p0 q0 (Inr r) # butlast l)"
          using polled(2) nf by (cases "butlast l") auto
        ultimately show ?thesis
          using first[of "Inr x"] success_returned_quiet[of f "Funds p0 q0 (Inr r) # butlast l" "Inr x"]
          by (subst kr, subst lx) (auto simp: success_returned_def)
      next
        case False
        then have "no_success f l" using polled(2) by (subst lx) simp
        then have "no_success f (Funds p0 q0 (Inr r) # l)" using nf by (cases l) auto
        then show ?thesis by (rule split)
      qed
      ultimately show ?thesis by blast
    qed
  qed
qed

text \<open>What a flow may raise when it cannot read the challenge.\<close>

definition challenge_errors :: "uuid \<Rightarrow> (fund_intent_result \<Rightarrow> fund_error + string) \<Rightarrow> bool" where
  "challenge_errors i ch \<longleftrightarrow>
     (\<forall>r e. ch r = Inl e \<longrightarrow> (\<exists>m. e = FundingFailed m i (Some r)) \<or> (\<exists>x. e = FundRaised x))"

lemma flow_challenge_errors: "challenge_errors i (x402_challenge i)" "challenge_errors i (mpp_challenge select)"
  by (auto simp: challenge_errors_def x402_challenge_def mpp_challenge_def map_sum_def
      split: option.splits sum.splits)

lemma execute_outcome:
  assumes "execute_fund f ch h i prf opts (start_world s) = (res, w)" "challenge_errors i ch"
  shows "outcome_justified f i opts (fw_log w) res \<and> success_returned f (fw_log w) res"
  using assms(1)
proof (cases rule: execute_runE)
  case (answered r l)
  then have "polls (build_x402_fund_request_envelope i) None l" by (simp add: settled_def)
  then have "payment_made ([Funds prf None (Inr r)] @ l) = None"
    using map_filter_polls by (simp add: payment_made_def map_filter_simps)
  then show ?thesis
    using settled_outcome[OF answered(3), of "[Funds prf None (Inr r)]"] answered(1) by simp
next
  case (paid r c t p r' l)
  let ?k = "[Funds prf None (Inr r), Pays c (Inr t), Proves (build_x402_fund_request_envelope i) (Inr p),
             Funds p (Some (strip t)) (Inr r')]"
  have "last_answer ?k r'" by (simp add: last_answer_def)
  then show ?thesis
    using settled_outcome[OF paid(5), of ?k] paid(1,2)
    by (auto simp: payment_made_def map_filter_simps)
next
  case (unreadable r e)
  consider m where "e = FundingFailed m i (Some r)" | x where "e = FundRaised x"
    using assms(2) unreadable(3) unfolding challenge_errors_def by blast
  then have "outcome_justified f i opts [Funds prf None (Inr r)] (Inl e)"
    by cases (auto simp: outcome_justified_def)
  then show ?thesis unfolding unreadable(1,4)
    by (simp add: success_returned_def unreadable(2))
qed (auto simp: outcome_justified_def success_returned_def)

section \<open>Properties\<close>

definition funding_run ::
  "fund_flow \<Rightarrow> 's fund_host \<Rightarrow> uuid \<Rightarrow> proof_doc \<Rightarrow> poll_options \<Rightarrow> 's \<Rightarrow>
   fund_error + fund_intent_result \<Rightarrow> fund_event list \<Rightarrow> bool" where
  "funding_run f h i prf opts s res l \<longleftrightarrow> (\<exists>w. fw_log w = l \<and> (case f of
       X402 \<Rightarrow> execute_fund_with_x402 h i prf opts (start_world s) = (res, w)
     | Mpp \<Rightarrow> \<exists>select. execute_fund_with_mpp select h i prf opts (start_world s) = (res, w)))"

lemma funding_run_execute:
  assumes "funding_run f h i prf opts s res l"
  obtains ch w where "execute_fund f ch h i prf opts (start_world s) = (res, w)" "fw_log w = l"
    "challenge_errors i ch"
  using assms flow_challenge_errors
  by (cases f) (auto simp: funding_run_def execute_fund_with_x402_def execute_fund_with_mpp_def)

text \<open>C24: In every run of the x402 or MPP funding, whatever the host and the gateway answer, the
  first request carries the caller's proof and no payment; every later request comes right
  after a recognition proof issued for this intent's fund envelope and carries that proof; it
  carries the payment that the host made, if it made one; the host is asked to pay at most once;
  and there are at most two requests more than the polls allowed.
\<close>

theorem fund_requests_ordered:
  assumes "funding_run f h i prf opts s res l"
  shows "l \<noteq> [] \<and> (\<exists>a. hd l = Funds prf None a) \<and>
    successively (proof_before_request (build_x402_fund_request_envelope i)) l \<and>
    (\<forall>p q a. Funds p q a \<in> set (tl l) \<longrightarrow> q = payment_made l) \<and>
    length (filter is_pay l) \<le> 1 \<and>
    int (length (filter is_fund l)) \<le> 2 + max 1 (po_max_attempts opts)"
proof -
  obtain ch w where "execute_fund f ch h i prf opts (start_world s) = (res, w)" "fw_log w = l"
    using assms by (rule funding_run_execute)
  then show ?thesis
    using execute_ordered by (fastforce simp: requests_ordered_def effective_attempts_def)
qed

text \<open>C25: A run that returns a result returns the gateway's last answer, which is funded and reports
  no terminal failure; a run that gives up as pending has made exactly the polls allowed and its
  last answer was pending; a failure names the intent and carries an answer of the run; and a
  funded answer other than a 402 is always returned.
\<close>

theorem fund_outcome_justified:
  assumes "funding_run f h i prf opts s res l"
  shows "outcome_justified f i opts l res \<and> success_returned f l res"
proof -
  obtain ch w where run: "execute_fund f ch h i prf opts (start_world s) = (res, w)" "fw_log w = l"
    "challenge_errors i ch"
    using assms by (rule funding_run_execute)
  from execute_outcome[OF run(1,3)] run(2) show ?thesis by simp
qed

section \<open>A run\<close>

text \<open>A gateway that asks for a payment, then answers pending, then funded; its state counts requests.\<close>

definition sample_fund_answer :: "nat \<Rightarrow> fund_intent_result" where
  "sample_fund_answer n =
     \<lparr>fi_status_code = (if n = 0 then 402 else if n = 1 then 202 else 200),
      fi_payment_required = (if n = 0 then Some ''pay'' else None), fi_payment_response = None,
      fi_www_authenticate = None, fi_payment_receipt = None, fi_cache_control = None,
      fi_intent_id = [], fi_tenant = ''t'', fi_state = ''open'', fi_settlement_rail = ''x402_usdc_base'',
      fi_currency = ''usd'', fi_amount_cents = 5, fi_funded = (n \<ge> 2), fi_capability_token = None,
      fi_funding = None\<rparr>"

definition sample_fund_host :: "nat fund_host" where
  "sample_fund_host =
     \<lparr>fh_fund = (\<lambda>p pay n. (Inr (sample_fund_answer n), n + 1)),
      fh_pay = (\<lambda>c n. (Inr ''signed'', n)), fh_prove = (\<lambda>v n. (Inr [], n))\<rparr>"

definition sample_fund_log :: "fund_event list" where
  "sample_fund_log =
     [Funds [] None (Inr (sample_fund_answer 0)), Pays ''pay'' (Inr ''signed''),
      Proves (build_x402_fund_request_envelope []) (Inr []),
      Funds [] (Some ''signed'') (Inr (sample_fund_answer 1)),
      Proves (build_x402_fund_request_envelope []) (Inr []),
      Funds [] (Some ''signed'') (Inr (sample_fund_answer 2))]"

lemma sample_fund_run:
  "execute_fund_with_x402 sample_fund_host [] [] \<lparr>po_max_attempts = 1, po_interval_ms = 0\<rparr> (start_world 0)
   = (Inr (sample_fund_answer 2), \<lparr>fw_state = 3, fw_log = sample_fund_log\<rparr>)"
  by code_simp

lemma sample_funding:
  "funding_run X402 sample_fund_host [] [] \<lparr>po_max_attempts = 1, po_interval_ms = 0\<rparr> 0
     (Inr (sample_fund_answer 2)) sample_fund_log"
  using sample_fund_run by (simp add: funding_run_def)

theorem fund_requests_ordered_witness:
  "(\<exists>a. hd sample_fund_log = Funds [] None a) \<and> length (filter is_fund sample_fund_log) = 3 \<and>
   int (length (filter is_fund sample_fund_log)) \<le> 2 + max 1 (po_max_attempts \<lparr>po_max_attempts = 1, po_interval_ms = 0\<rparr>)"
  using fund_requests_ordered[OF sample_funding] by (simp add: sample_fund_log_def)

theorem fund_outcome_justified_witness:
  "last_answer sample_fund_log (sample_fund_answer 2) \<and> funded_answer X402 (sample_fund_answer 2)"
  using fund_outcome_justified[OF sample_funding] by (simp add: outcome_justified_def)

end
