(* ===== verification/Fund_Mock.thy ===== *)
theory Fund_Mock
  imports Funding Gateway_Url
begin

text \<open>
  \<open>dev/x402_fund_mock.py\<close> and the transport of \<open>dev/offline_gateway.py\<close>: the gateway that
  \<open>paybond dev --offline\<close> runs against.  The fund mock keeps a phase for every intent it has
  seen; the transport answers its other routes from constants.
\<close>

section \<open>The fund mock\<close>

datatype mock_phase = Challenge | Pending | Funded

type_synonym mock_state = "(string, mock_phase) dict"

record mock_response =
  mr_status :: int
  mr_headers :: http_headers
  mr_body :: "(string, json) dict"
  mr_phase :: mock_phase

definition X402_DEV_PAYMENT_REQUIRED :: string where
  "X402_DEV_PAYMENT_REQUIRED = concat
     [''{'', quoted ''asset'', '':'', quoted ''usdc'', '','', quoted ''network'', '':'', quoted ''base'', '','',
      quoted ''amount'', '':'', quoted ''0.02'', '','', quoted ''payTo'', '':'',
      quoted ''0xabc1230000000000000000000000000000000000'', ''}'']"

definition X402_DEV_CAPABILITY_TOKEN :: string where
  "X402_DEV_CAPABILITY_TOKEN = ''cap-x402-dev-mock-1''"

definition funding_base :: "string \<Rightarrow> (string, json) dict" where
  "funding_base intent_id =
     [(''settlement_rail'', JStr ''x402_usdc_base''),
      (''harbor_fund_endpoint'', JStr (''/harbor/intents/'' @ intent_id @ ''/fund'')),
      (''payment_session_id'', JStr (''paymentSession_'' @ intent_id)),
      (''payment_url'', JStr (''https://pay.coinbase.com/payment-sessions/paymentSession_'' @ intent_id)),
      (''asset'', JStr ''usdc''), (''network'', JStr ''base''),
      (''capture_expires_at'', JStr ''2027-12-31T23:59:59Z''),
      (''refund_expires_at'', JStr ''2028-01-31T23:59:59Z'')]"

definition intent_shell :: "string \<Rightarrow> string \<Rightarrow> (string, json) dict \<Rightarrow> (string, json) dict" where
  "intent_shell intent_id tenant_id extra =
     [(''intent_id'', JStr intent_id), (''tenant'', JStr tenant_id),
      (''settlement_rail'', JStr ''x402_usdc_base''), (''currency'', JStr ''usd''),
      (''amount_cents'', JInt 2000)] @ extra"

definition authorized_funding :: "string \<Rightarrow> string \<Rightarrow> (string, json) dict" where
  "authorized_funding intent_id status =
     funding_base intent_id @
       [(''status'', JStr status), (''authorization_id'', JStr (''auth_'' @ intent_id)),
        (''source_address'', JStr ''0xsource0000000000000000000000000000000001'')]"

definition build_x402_fund_challenge_body :: "string \<Rightarrow> string \<Rightarrow> (string, json) dict" where
  "build_x402_fund_challenge_body intent_id tenant_id = intent_shell intent_id tenant_id
     [(''state'', JStr ''open''), (''funded'', JBool False),
      (''funding'', JObj (funding_base intent_id @ [(''status'', JStr ''created'')]))]"

definition build_x402_fund_pending_body :: "string \<Rightarrow> string \<Rightarrow> (string, json) dict" where
  "build_x402_fund_pending_body intent_id tenant_id = intent_shell intent_id tenant_id
     [(''state'', JStr ''open''), (''funded'', JBool False),
      (''funding'', JObj (authorized_funding intent_id ''authorization_pending''))]"

definition build_x402_fund_success_body :: "string \<Rightarrow> string \<Rightarrow> string \<Rightarrow> (string, json) dict" where
  "build_x402_fund_success_body intent_id tenant_id token = intent_shell intent_id tenant_id
     [(''state'', JStr ''funded''), (''funded'', JBool True), (''capability_token'', JStr token),
      (''funding'', JObj (authorized_funding intent_id ''authorization_succeeded''))]"

definition new_fund_state_machine :: mock_state where
  "new_fund_state_machine = []"

definition mock_reset :: "string option \<Rightarrow> mock_state \<Rightarrow> mock_state" where
  "mock_reset intent_id st = (case intent_id of None \<Rightarrow> [] | Some i \<Rightarrow> AList.delete i st)"

definition mock_phase_of :: "mock_state \<Rightarrow> string \<Rightarrow> mock_phase" where
  "mock_phase_of st i = (case map_of st i of Some p \<Rightarrow> p | None \<Rightarrow> Challenge)"

definition simulated_payment_headers :: http_headers where
  "simulated_payment_headers =
     [(''content-type'', ''application/json''), (''payment-response'', ''simulated-x402-payment-response'')]"

definition mock_next ::
  "string \<Rightarrow> string \<Rightarrow> string option \<Rightarrow> mock_state \<Rightarrow> mock_response option \<times> mock_state" where
  "mock_next intent_id tenant_id signature st =
     (let i = strip intent_id; phase = mock_phase_of st i; signed = nonblank signature \<noteq> None
      in if i = [] then (None, st)
         else if phase = Challenge \<and> \<not> signed then
           (Some \<lparr>mr_status = 402,
                  mr_headers = [(''content-type'', ''application/json''),
                                (''payment-required'', X402_DEV_PAYMENT_REQUIRED)],
                  mr_body = build_x402_fund_challenge_body i tenant_id, mr_phase = Challenge\<rparr>,
            AList.update i Pending st)
         else if phase = Pending \<and> signed then
           (Some \<lparr>mr_status = 202, mr_headers = simulated_payment_headers,
                  mr_body = build_x402_fund_pending_body i tenant_id, mr_phase = Pending\<rparr>,
            AList.update i Funded st)
         else if phase = Funded \<and> signed then
           (Some \<lparr>mr_status = 200, mr_headers = simulated_payment_headers,
                  mr_body = build_x402_fund_success_body i tenant_id X402_DEV_CAPABILITY_TOKEN,
                  mr_phase = Funded\<rparr>, st)
         else (None, st))"

section \<open>The transport\<close>

definition OFFLINE_DEV_INTENT_ID :: string where
  "OFFLINE_DEV_INTENT_ID = ''00000000-0000-4000-8000-000000000001''"

definition OFFLINE_DEV_TENANT_ID :: string where
  "OFFLINE_DEV_TENANT_ID = ''tenant-dev-offline''"

definition LIVE_API_KEY_PREFIX :: string where
  "LIVE_API_KEY_PREFIX = ''paybond_sk_live_''"

definition is_production_api_key :: "string \<Rightarrow> bool" where
  "is_production_api_key key = startswith key LIVE_API_KEY_PREFIX"

text \<open>\<open>urlparse(url).path\<close> of an absolute URL, and the pattern \<open>^/harbor/intents/([^/]+)/fund$\<close>.\<close>

definition cut_params :: "string \<Rightarrow> string" where
  "cut_params path =
     (let segment = after_last_char CHR ''/'' path
      in take (length path - length segment) path @ before_char CHR '';'' segment)"

definition url_path :: "string \<Rightarrow> string" where
  "url_path url =
     (let rest = snd (split_scheme (clean_url url));
          tail = (if startswith rest ''//'' then dropWhile (\<lambda>c. c \<notin> set ''/?#'') (drop 2 rest) else rest)
      in cut_params (takeWhile (\<lambda>c. c \<notin> set ''?#'') tail))"

definition fund_path_intent :: "string \<Rightarrow> string option" where
  "fund_path_intent path =
     (let rest = drop 16 path; seg = before_char CHR ''/'' rest
      in if startswith path ''/harbor/intents/'' \<and> seg \<noteq> [] \<and> drop (length seg) rest = ''/fund''
         then Some seg else None)"

definition parse_harbor_fund_intent_id :: "string \<Rightarrow> string option" where
  "parse_harbor_fund_intent_id url = fund_path_intent (url_path url)"

definition ends_with :: "string \<Rightarrow> string \<Rightarrow> bool" where
  "ends_with s t \<longleftrightarrow> suffix t s"

definition contains_text :: "string \<Rightarrow> string \<Rightarrow> bool" where
  "contains_text t s \<longleftrightarrow> sublist t s"

definition body_of :: "http_request \<Rightarrow> (string, json) dict" where
  "body_of q = (case rq_body q of JObj b \<Rightarrow> b | _ \<Rightarrow> [])"

definition offline_principal :: "(string, json) dict" where
  "offline_principal =
     [(''tenant_id'', JStr OFFLINE_DEV_TENANT_ID),
      (''tenant_uuid'', JStr ''550e8400-e29b-41d4-a716-446655440000''),
      (''environment'', JStr ''sandbox''), (''service_account_role'', JStr ''operator'')]"

definition offline_bootstrap :: "(string, json) dict \<Rightarrow> (string, json) dict" where
  "offline_bootstrap b =
     [(''tenant_id'', JStr OFFLINE_DEV_TENANT_ID), (''intent_id'', JStr OFFLINE_DEV_INTENT_ID),
      (''capability_token'', JStr ''cap-dev-offline-1''), (''operation'', json_get b ''operation''),
      (''requested_spend_cents'', json_get b ''requested_spend_cents''),
      (''sandbox_lifecycle_status'', JStr ''funded'')]"

definition offline_verify :: "bool \<Rightarrow> string \<Rightarrow> (string, json) dict" where
  "offline_verify allow deny_message =
     (if \<not> allow then
        [(''allow'', JBool False), (''tenant'', JStr OFFLINE_DEV_TENANT_ID),
         (''intent_id'', JStr OFFLINE_DEV_INTENT_ID), (''audit_id'', JStr ''audit-deny''),
         (''decision_id'', JStr ''decision-deny''), (''message'', JStr deny_message)]
      else
        [(''allow'', JBool True), (''tenant'', JStr OFFLINE_DEV_TENANT_ID),
         (''intent_id'', JStr OFFLINE_DEV_INTENT_ID),
         (''audit_id'', JStr ''00000000-0000-4000-8000-000000000002''),
         (''decision_id'', JStr ''00000000-0000-4000-8000-000000000003'')])"

definition offline_preflight :: "(string, json) dict" where
  "offline_preflight =
     [(''classification'', JStr ''allow''), (''outcome'', JStr ''allow''), (''reason_codes'', JArr []),
      (''remaining_cents'', JInt 100000),
      (''spend_scope'', JObj [(''scope_type'', JStr ''tenant''), (''scope_key'', JStr [])]),
      (''policy_version'', JInt 1),
      (''explanation'', JStr ''Spend is allowed under the current policy.'')]"

definition offline_evidence :: "(string, json) dict \<Rightarrow> (string, json) dict" where
  "offline_evidence b =
     [(''tenant_id'', JStr OFFLINE_DEV_TENANT_ID), (''intent_id'', JStr OFFLINE_DEV_INTENT_ID),
      (''operation'', case map_of b ''operation'' of Some v \<Rightarrow> v | None \<Rightarrow> JStr ''paid-tool''),
      (''requested_spend_cents'', case map_of b ''requested_spend_cents'' of Some v \<Rightarrow> v | None \<Rightarrow> JInt 100),
      (''sandbox_lifecycle_status'', JStr ''released''), (''predicate_passed'', JBool True),
      (''settlement_mode'', JStr ''simulated'')]"

definition offline_intents :: "(string, json) dict" where
  "offline_intents =
     [(''intents'', JArr [JObj [(''intent_id'', JStr OFFLINE_DEV_INTENT_ID), (''status'', JStr ''funded''),
        (''amount_cents'', JInt 100), (''created_at'', JStr ''2026-01-01T00:00:00Z'')]])]"

definition offline_receipts :: "(string, json) dict" where
  "offline_receipts =
     [(''items'', JArr [JObj [(''receipt_id'', JStr ''rcpt_offline_1''), (''scope'', JStr ''intent_terminal''),
        (''intent_id'', JStr OFFLINE_DEV_INTENT_ID),
        (''message_digest_sha256_hex'', JStr (replicate 64 CHR ''0'')),
        (''created_at'', JStr ''2026-01-01T00:00:00Z'')]]), (''limit'', JInt 10)]"

definition offline_decision ::
  "string \<Rightarrow> int \<Rightarrow> string \<Rightarrow> string list \<Rightarrow> string \<Rightarrow> json" where
  "offline_decision ident cents outcome reasons created =
     JObj [(''id'', JStr ident), (''intent_id'', JStr OFFLINE_DEV_INTENT_ID), (''operation'', JStr ''paid-tool''),
       (''amount_cents'', JInt cents), (''currency'', JStr ''USD''), (''outcome'', JStr outcome),
       (''remaining_cents'', JInt 9900), (''reason_codes'', JArr (List.map JStr reasons)),
       (''created_at'', JStr created)]"

definition offline_decisions :: "(string, json) dict" where
  "offline_decisions =
     [(''items'', JArr
        [offline_decision ''00000000-0000-4000-8000-000000000010'' 100 ''allow'' [] ''2026-01-01T00:00:00Z'',
         offline_decision ''00000000-0000-4000-8000-000000000011'' 50000 ''deny'' [''max_spend_exceeded'']
           ''2026-01-01T00:01:00Z'']),
      (''limit'', JInt 10), (''offset'', JInt 0)]"

text \<open>The routes in the code's order; an empty payload is a 404.\<close>

definition offline_payload :: "bool \<Rightarrow> string \<Rightarrow> http_request \<Rightarrow> (string, json) dict" where
  "offline_payload allow deny_message q =
     (let url = rq_url q; get = (rq_method q = ''GET'')
      in if ends_with url ''/v1/auth/principal'' then offline_principal
         else if ends_with url ''/v1/sandbox/guardrails/bootstrap'' then offline_bootstrap (body_of q)
         else if ends_with url ''/verify'' then offline_verify allow deny_message
         else if ends_with url ''/v1/spend/preflight'' then offline_preflight
         else if ends_with url (''/v1/sandbox/guardrails/'' @ OFFLINE_DEV_INTENT_ID @ ''/evidence'')
           then offline_evidence (body_of q)
         else if contains_text ''/v1/spend/decisions/'' url \<and> ends_with url ''/complete''
           then [(''settlement_mode'', JStr ''simulated'')]
         else if contains_text ''/harbor/operator/v1/intents'' url \<and> get then offline_intents
         else if contains_text ''/protocol/v2/agent-receipts'' url \<and> \<not> contains_text ''verify'' url \<and> get
           then offline_receipts
         else if contains_text ''/v1/admin/spend-controls/decisions'' url \<and> get then offline_decisions
         else if contains_text ''/v1/admin/spend-controls/policy'' url \<and> get
           then [(''source'', JStr ''offline''), (''configured'', JBool True), (''mode'', JStr ''enforce''),
                 (''policy_version'', JInt 1)]
         else if contains_text ''/v1/admin/spend-controls/reservations'' url \<and> get
           then [(''items'', JArr []), (''limit'', JInt 10), (''offset'', JInt 0), (''status'', JStr ''active'')]
         else [])"

definition json_answer :: "int \<Rightarrow> http_headers \<Rightarrow> (string, json) dict \<Rightarrow> fund_response" where
  "json_answer status headers b =
     \<lparr>hr_status = status, hr_text = json_dumps (JObj b), hr_json = Some (JObj b), hr_retry_after = None,
      hr_headers = headers\<rparr>"

text \<open>
  \<open>handle_async_request\<close>; the client's own retries do not repeat a 200, 202, 402 or 404.
\<close>

definition offline_transport :: "bool \<Rightarrow> string \<Rightarrow> mock_state transport" where
  "offline_transport allow deny_message q st =
     (case (if rq_method q = ''POST'' then parse_harbor_fund_intent_id (rq_url q) else None) of
        Some i \<Rightarrow>
          (case mock_next i OFFLINE_DEV_TENANT_ID (header_get (rq_headers q) ''payment-signature'') st of
             (Some m, st') \<Rightarrow> (Inr (json_answer (mr_status m) (mr_headers m) (mr_body m)), st')
           | (None, st') \<Rightarrow> (Inr (json_answer 404 [] []), st'))
      | None \<Rightarrow>
          (let payload = offline_payload allow deny_message q
           in (Inr (json_answer (if payload = [] then 404 else 200) [] payload), st)))"

section \<open>Offline credentials\<close>

definition OFFLINE_SANDBOX_API_KEY :: string where
  "OFFLINE_SANDBOX_API_KEY =
     ''paybond_sk_sandbox_0123456789abcdef0123456789abcdef_'' @ replicate 64 CHR ''b''"

type_synonym environ = "(string, string) dict"

text \<open>
  \<open>activate_offline_dev_mode\<close> on the process environment, with the previous key that its
  restore handle keeps.
\<close>

definition activate_offline_dev_mode :: "environ \<Rightarrow> (exn + string option) \<times> environ" where
  "activate_offline_dev_mode env =
     (let previous = map_of env ''PAYBOND_API_KEY''; trimmed = strip (str_or previous [])
      in if trimmed \<noteq> [] \<and> is_production_api_key trimmed
         then (Inl (RuntimeError (''offline dev mode cannot be used with production API keys '' @
                 ''(paybond_sk_live_...); unset PAYBOND_API_KEY or use a sandbox key'')), env)
         else (Inr previous, AList.update ''PAYBOND_API_KEY'' OFFLINE_SANDBOX_API_KEY env))"

definition restore_offline_dev_mode :: "string option \<Rightarrow> environ \<Rightarrow> environ" where
  "restore_offline_dev_mode previous env = (case previous of
       None \<Rightarrow> AList.delete ''PAYBOND_API_KEY'' env
     | Some key \<Rightarrow> AList.update ''PAYBOND_API_KEY'' key env)"

end
