(* ===== verification/Offline_Funding.thy ===== *)
theory Offline_Funding
  imports Fund_Mock Funding_Standard
begin

text \<open>
  The funding of an intent against the offline gateway: the client, the orchestration and the
  fund mock together.
\<close>

section \<open>The route of a fund request\<close>

definition DEFAULT_PAYBOND_GATEWAY_BASE_URL :: string where
  "DEFAULT_PAYBOND_GATEWAY_BASE_URL = ''https://api.paybond.ai''"

lemma uuid_chars:
  assumes "wf_uuid u" "c \<in> set (uuid_str u)"
  shows "c \<noteq> CHR 0x09" "c \<noteq> CHR 0x0A" "c \<noteq> CHR 0x0D" "c \<noteq> CHR ''/''" "c \<noteq> CHR ''?''" "c \<noteq> CHR ''#''"
    "c \<noteq> CHR '';''" "\<not> py_space c"
  using uuid_str_chars[OF assms] assms(1)
  by (auto simp: wf_uuid_def list_all_iff is_hex_lower_def py_space_def Let_def)

lemma uuid_str_plain:
  assumes "wf_uuid u"
  shows "filter (\<lambda>c. c \<notin> {CHR 0x09, CHR 0x0A, CHR 0x0D}) (uuid_str u) = uuid_str u"
    "takeWhile (\<lambda>c. c \<notin> set ''?#'') (uuid_str u @ s) = uuid_str u @ takeWhile (\<lambda>c. c \<notin> set ''?#'') s"
    "takeWhile (\<lambda>x. x \<noteq> CHR ''/'') (uuid_str u @ s) = uuid_str u @ takeWhile (\<lambda>x. x \<noteq> CHR ''/'') s"
    "strip (uuid_str u) = uuid_str u" "uuid_str u \<noteq> []"
proof -
  note plain = uuid_chars[OF assms]
  show "filter (\<lambda>c. c \<notin> {CHR 0x09, CHR 0x0A, CHR 0x0D}) (uuid_str u) = uuid_str u"
    using plain by (auto simp: filter_id_conv)
  show "takeWhile (\<lambda>c. c \<notin> set ''?#'') (uuid_str u @ s) = uuid_str u @ takeWhile (\<lambda>c. c \<notin> set ''?#'') s"
    using plain by (subst takeWhile_append2) auto
  show "takeWhile (\<lambda>x. x \<noteq> CHR ''/'') (uuid_str u @ s) = uuid_str u @ takeWhile (\<lambda>x. x \<noteq> CHR ''/'') s"
    using plain by (subst takeWhile_append2) auto
  show ne: "uuid_str u \<noteq> []" by (simp add: uuid_str_def)
  show "strip (uuid_str u) = uuid_str u"
    by (rule strip_fix) (use plain(8) ne in auto)
qed

lemma clean_url_simps:
  "clean_url (CHR ''h'' # s) = CHR ''h'' # filter (\<lambda>c. c \<notin> {CHR 0x09, CHR 0x0A, CHR 0x0D}) s"
  by (simp add: clean_url_def)

lemma https_scheme: "list_all is_scheme_char ''https''" "is_lower CHR ''h''"
  by code_simp+

lemma split_scheme_https: "snd (split_scheme (''https:'' @ s)) = s"
  by (simp add: split_scheme_def before_char_def after_char_def https_scheme[simplified] https_scheme)

lemma fund_url_path:
  assumes "wf_uuid u"
  shows "url_path (DEFAULT_PAYBOND_GATEWAY_BASE_URL @ ''/'' @ fund_path u) = ''/'' @ fund_path u"
proof -
  have "clean_url (DEFAULT_PAYBOND_GATEWAY_BASE_URL @ ''/'' @ fund_path u)
        = ''https:'' @ ''//api.paybond.ai/harbor/intents/'' @ uuid_str u @ ''/fund''"
    using uuid_str_plain(1)[OF assms]
    by (simp add: DEFAULT_PAYBOND_GATEWAY_BASE_URL_def fund_path_def clean_url_simps)
  then show ?thesis
    using uuid_str_plain(2)[OF assms]
    by (simp add: url_path_def split_scheme_https[simplified] startswith_def cut_params_def after_last_char_def
        before_char_def fund_path_def)
qed

lemma fund_url_intent:
  assumes "wf_uuid u"
  shows "parse_harbor_fund_intent_id (DEFAULT_PAYBOND_GATEWAY_BASE_URL @ ''/'' @ fund_path u) = Some (uuid_str u)"
  unfolding parse_harbor_fund_intent_id_def fund_url_path[OF assms]
  using uuid_str_plain(3,5)[OF assms]
  by (simp add: fund_path_intent_def fund_path_def startswith_def before_char_def Let_def)

section \<open>The headers of a fund request\<close>

lemma header_names:
  "lower ''accept'' \<noteq> lower ''payment-signature''" "lower ''x-tenant-id'' \<noteq> lower ''payment-signature''"
  "lower ''authorization'' \<noteq> lower ''payment-signature''" "lower ''content-type'' \<noteq> lower ''payment-signature''"
  "lower ''x-paybond-agent-recognition-proof'' \<noteq> lower ''payment-signature''"
  "lower ''idempotency-key'' \<noteq> lower ''payment-signature''"
  by code_simp+

lemma challenge_header_names:
  "lower ''content-type'' \<noteq> lower ''payment-required''"
  by code_simp

lemma header_list_simps:
  "header_list [] n = []"
  "header_list ((k, v) # hs) n = (if lower k = lower n then v # header_list hs n else header_list hs n)"
  by (simp_all add: header_list_def)

text \<open>The signature header is there exactly when a signature is sent.\<close>

lemma fund_headers:
  obtains hs where
    "rbind (fund_extra_headers pay None) (mutation_headers ''fund_intent'' (Some p) key) = Inr hs"
    "header_get (dict_merge (client_headers c (Some ''application/json'')) hs) ''payment-signature''
     = map_option strip (nonblank pay)"
proof (cases "nonblank pay"; cases "nonblank key")
qed (rule that, simp add: fund_extra_headers_def mutation_headers_def nonblank_def[of None] dict_merge_def,
  simp add: client_headers_def dict_merge_def header_get_def header_list_simps header_names)+

section \<open>The answers of the mock\<close>

lemma stripped_literals:
  "strip ''open'' = ''open''" "strip ''funded'' = ''funded''" "strip ''usd'' = ''usd''"
  "strip ''x402_usdc_base'' = ''x402_usdc_base''" "strip ''created'' = ''created''"
  "strip ''authorization_pending'' = ''authorization_pending''"
  "strip ''authorization_succeeded'' = ''authorization_succeeded''"
  "strip X402_DEV_PAYMENT_REQUIRED \<noteq> []" "strip X402_DEV_CAPABILITY_TOKEN \<noteq> []"
  by code_simp+

lemma x402_rail: "validate_settlement_rail f ''x402_usdc_base'' = Inr ''x402_usdc_base''"
  by (simp add: validate_settlement_rail_def stripped_literals SETTLEMENT_RAIL_VALUES_def)

text \<open>A funding object on the x402 rail without transaction hashes parses, with its status.\<close>

lemma funding_parsed:
  assumes "map_of d ''onchain_transaction_hashes'' = None" "map_of d ''settlement_rail'' = Some (JStr ''x402_usdc_base'')"
  shows "\<exists>f. parse_intent_funding_result d = Inr f \<and> fu_status f = optional_string (map_of d ''status'')"
  using assms by (simp add: parse_intent_funding_result_def parse_onchain_def stripped_literals x402_rail)

lemma mock_fundings:
  "\<exists>f. parse_intent_funding_result (funding_base i @ [(''status'', JStr ''created'')]) = Inr f \<and>
       fu_status f = Some ''created''"
  "s = ''authorization_pending'' \<or> s = ''authorization_succeeded'' \<Longrightarrow>
     \<exists>f. parse_intent_funding_result (authorized_funding i s) = Inr f \<and> fu_status f = Some s"
proof -
  show "\<exists>f. parse_intent_funding_result (funding_base i @ [(''status'', JStr ''created'')]) = Inr f \<and>
       fu_status f = Some ''created''"
    using funding_parsed[of "funding_base i @ [(''status'', JStr ''created'')]"]
    by (simp add: funding_base_def optional_string_def stripped_literals)
  assume "s = ''authorization_pending'' \<or> s = ''authorization_succeeded''"
  then have "strip s = s" "s \<noteq> []" using stripped_literals by auto
  then show "\<exists>f. parse_intent_funding_result (authorized_funding i s) = Inr f \<and> fu_status f = Some s"
    using funding_parsed[of "authorized_funding i s"]
    by (simp add: authorized_funding_def funding_base_def optional_string_def)
qed

text \<open>The result that a mock body in the state \<open>state\<close> parses to.\<close>

lemma mock_body_parsed:
  assumes u: "wf_uuid u" and f: "parse_intent_funding_result fd = Inr f"
    and state: "strip state \<noteq> []"
    and b: "b = intent_shell (uuid_str u) t ([(''state'', JStr state), (''funded'', JBool fu)] @ tok @
                  [(''funding'', JObj fd)])"
    and tok: "tok = [] \<and> token = None \<or> (\<exists>x. tok = [(''capability_token'', JStr x)] \<and> token = Some x)"
  shows "\<exists>r. parse_fund_intent_response ''fund response'' ''gateway'' t u (json_answer st hs b) b = Inr r \<and>
     fi_status_code r = st \<and> fi_intent_id r = u \<and> fi_funded r = fu \<and> fi_capability_token r = token \<and>
     fi_payment_required r = header_get hs ''payment-required'' \<and> fi_funding r = Some f"
proof -
  have "map_of b ''intent_id'' = Some (JStr (uuid_str u))" "map_of b ''tenant'' = Some (JStr t)"
    "map_of b ''state'' = Some (JStr state)" "map_of b ''settlement_rail'' = Some (JStr ''x402_usdc_base'')"
    "map_of b ''currency'' = Some (JStr ''usd'')" "map_of b ''amount_cents'' = Some (JInt 2000)"
    "map_of b ''funding'' = Some (JObj fd)" "map_of b ''funded'' = Some (JBool fu)"
    "(case map_of b ''capability_token'' of Some (JStr s) \<Rightarrow> Some s | _ \<Rightarrow> None) = token"
    using tok by (auto simp: b intent_shell_def)
  then show ?thesis
    using f state parse_uuid_str[OF u]
    by (simp add: parse_fund_intent_response_def str_get_def json_text_def py_uuid_def ensure_def
        fund_string_def stripped_literals x402_rail as_http_error_def fund_amount_def fund_funding_def
        require_json_bool_def json_answer_def Let_def)
qed

section \<open>A fund request to the mock\<close>

lemma strip_slashes_fund [simp]: "strip_slashes (fund_path u) = fund_path u"
  by (simp add: strip_slashes_def fund_path_def)

lemma offline_fund:
  assumes "wf_uuid u" "gc_base c = DEFAULT_PAYBOND_GATEWAY_BASE_URL @ ''/''"
    and "mock_next (uuid_str u) OFFLINE_DEV_TENANT_ID (map_option strip (nonblank pay)) st = (Some m, st')"
    and "mr_status m \<in> {200, 202, 402}"
  shows "fund_intent c (offline_transport allow msg) u (Some p) pay None key st
    = (parse_fund_intent_response ''fund response'' ''gateway'' (gc_tenant c) u
         (json_answer (mr_status m) (mr_headers m) (mr_body m)) (mr_body m), st')"
proof -
  obtain hs where hs:
    "rbind (fund_extra_headers pay None) (mutation_headers ''fund_intent'' (Some p) key) = Inr hs"
    "header_get (dict_merge (client_headers c (Some ''application/json'')) hs) ''payment-signature''
     = map_option strip (nonblank pay)"
    by (rule fund_headers)
  have "fund_body ''Gateway Harbor'' (json_answer (mr_status m) (mr_headers m) (mr_body m)) = Inr (mr_body m)"
    using assms(4) by (simp add: fund_body_def json_answer_def)
  then show ?thesis
    using hs assms(3) fund_url_intent[OF assms(1)]
    by (simp add: fund_intent_def post_with_def post_json_with_retries_def offline_transport_def assms(2))
qed

lemma nonblank_strip: "nonblank (map_option strip (nonblank pay)) = None \<longleftrightarrow> nonblank pay = None"
  by (simp add: nonblank_def strip_strip split: option.splits)

lemma nonblank_literals [simp]:
  "nonblank None = None" "strip t \<noteq> [] \<Longrightarrow> nonblank (Some t) = Some t"
  by (simp_all add: nonblank_def)

definition offline_client :: "gateway_client \<Rightarrow> bool" where
  "offline_client c \<longleftrightarrow>
     gc_base c = DEFAULT_PAYBOND_GATEWAY_BASE_URL @ ''/'' \<and> gc_tenant c = OFFLINE_DEV_TENANT_ID"

lemma offline_answer:
  assumes u: "wf_uuid u" and c: "offline_client c"
    and next': "mock_next (uuid_str u) OFFLINE_DEV_TENANT_ID (map_option strip (nonblank pay)) st = (Some m, st')"
    and m: "mr_status m \<in> {200, 202, 402}"
      "mr_body m = intent_shell (uuid_str u) OFFLINE_DEV_TENANT_ID
         ([(''state'', JStr state), (''funded'', JBool fu)] @ tok @ [(''funding'', JObj fd)])"
    and f: "parse_intent_funding_result fd = Inr f" and state: "strip state \<noteq> []"
    and tok: "tok = [] \<and> token = None \<or> (\<exists>x. tok = [(''capability_token'', JStr x)] \<and> token = Some x)"
  shows "\<exists>r. fund_intent c (offline_transport allow msg) u (Some p) pay None key st = (Inr r, st') \<and>
     fi_status_code r = mr_status m \<and> fi_intent_id r = u \<and> fi_funded r = fu \<and> fi_capability_token r = token \<and>
     fi_payment_required r = header_get (mr_headers m) ''payment-required'' \<and> fi_funding r = Some f"
  using mock_body_parsed[OF u f state m(2) tok, of "mr_status m" "mr_headers m"] c
  by (simp add: offline_fund[OF u _ next' m(1)] offline_client_def)

lemma offline_challenge:
  assumes u: "wf_uuid u" and c: "offline_client c" and ph: "mock_phase_of st (uuid_str u) = Challenge"
  shows "\<exists>r. fund_intent c (offline_transport allow msg) u (Some p) None None key st
             = (Inr r, AList.update (uuid_str u) Pending st) \<and> fi_status_code r = 402 \<and>
             fi_payment_required r = Some X402_DEV_PAYMENT_REQUIRED"
proof -
  obtain f where f: "parse_intent_funding_result (funding_base (uuid_str u) @ [(''status'', JStr ''created'')]) = Inr f"
    using mock_fundings(1) by blast
  have "mock_next (uuid_str u) OFFLINE_DEV_TENANT_ID (map_option strip (nonblank None)) st =
    (Some \<lparr>mr_status = 402, mr_headers = [(''content-type'', ''application/json''),
                                          (''payment-required'', X402_DEV_PAYMENT_REQUIRED)],
           mr_body = build_x402_fund_challenge_body (uuid_str u) OFFLINE_DEV_TENANT_ID, mr_phase = Challenge\<rparr>,
     AList.update (uuid_str u) Pending st)"
    using ph uuid_str_plain(4,5)[OF u] by (simp add: mock_next_def Let_def)
  from offline_answer[OF u c this _ _ f, where state = "''open''" and fu = False and tok = "[]" and token = None,
      where allow = allow and msg = msg and p = p and key = key]
  show ?thesis
    by (auto simp: build_x402_fund_challenge_body_def stripped_literals header_get_def header_list_simps
        challenge_header_names)
qed

lemma offline_paid:
  assumes u: "wf_uuid u" and c: "offline_client c" and ph: "mock_phase_of st (uuid_str u) = Pending"
    and t: "strip t \<noteq> []"
  shows "\<exists>r. fund_intent c (offline_transport allow msg) u (Some p) (Some t) None key st
             = (Inr r, AList.update (uuid_str u) Funded st) \<and> fi_status_code r = 202 \<and>
             fi_capability_token r = None \<and> funding_status r = Some ''authorization_pending''"
proof -
  obtain f where f: "parse_intent_funding_result (authorized_funding (uuid_str u) ''authorization_pending'') = Inr f"
    "fu_status f = Some ''authorization_pending''"
    using mock_fundings(2) by blast
  have "mock_next (uuid_str u) OFFLINE_DEV_TENANT_ID (map_option strip (nonblank (Some t))) st =
    (Some \<lparr>mr_status = 202, mr_headers = simulated_payment_headers,
           mr_body = build_x402_fund_pending_body (uuid_str u) OFFLINE_DEV_TENANT_ID, mr_phase = Pending\<rparr>,
     AList.update (uuid_str u) Funded st)"
    using ph t uuid_str_plain(4,5)[OF u] by (simp add: mock_next_def Let_def nonblank_def strip_strip)
  from offline_answer[OF u c this _ _ f(1), where state = "''open''" and fu = False and tok = "[]" and token = None,
      where allow = allow and msg = msg and p = p and key = key]
  show ?thesis
    using f(2) by (auto simp: build_x402_fund_pending_body_def stripped_literals funding_status_def)
qed

lemma offline_funded:
  assumes u: "wf_uuid u" and c: "offline_client c" and ph: "mock_phase_of st (uuid_str u) = Funded"
    and t: "strip t \<noteq> []"
  shows "\<exists>r. fund_intent c (offline_transport allow msg) u (Some p) (Some t) None key st = (Inr r, st) \<and>
             fi_status_code r = 200 \<and> fi_intent_id r = u \<and> fi_funded r \<and>
             fi_capability_token r = Some X402_DEV_CAPABILITY_TOKEN \<and>
             funding_status r = Some ''authorization_succeeded''"
proof -
  obtain f where f: "parse_intent_funding_result (authorized_funding (uuid_str u) ''authorization_succeeded'') = Inr f"
    "fu_status f = Some ''authorization_succeeded''"
    using mock_fundings(2) by blast
  have "mock_next (uuid_str u) OFFLINE_DEV_TENANT_ID (map_option strip (nonblank (Some t))) st =
    (Some \<lparr>mr_status = 200, mr_headers = simulated_payment_headers,
           mr_body = build_x402_fund_success_body (uuid_str u) OFFLINE_DEV_TENANT_ID X402_DEV_CAPABILITY_TOKEN,
           mr_phase = Funded\<rparr>, st)"
    using ph t uuid_str_plain(4,5)[OF u] by (simp add: mock_next_def Let_def nonblank_def strip_strip)
  from offline_answer[OF u c this _ _ f(1), where state = "''funded''" and fu = True
      and tok = "[(''capability_token'', JStr X402_DEV_CAPABILITY_TOKEN)]" and token = "Some X402_DEV_CAPABILITY_TOKEN",
      where allow = allow and msg = msg and p = p and key = key]
  show ?thesis
    using f(2) by (auto simp: build_x402_fund_success_body_def stripped_literals funding_status_def)
qed

lemma mock_phase_update [simp]:
  "mock_phase_of (AList.update i ph st) j = (if j = i then ph else mock_phase_of st j)"
  by (simp add: mock_phase_of_def update_conv')

section \<open>A funding run ends funded\<close>

lemma call_host_eq:
  "f (fw_state w) = (Inr v, s') \<Longrightarrow>
     fthen (call_host f ev) k w = k v \<lparr>fw_state = s', fw_log = fw_log w @ [ev (Inr v)]\<rparr>"
  by (simp add: fthen_def call_host_def)

lemma not_terminal:
  "funding_status r = Some ''authorization_pending'' \<Longrightarrow> \<not> is_terminal_funding_failure X402 r"
  "funding_status r = Some ''authorization_succeeded'' \<Longrightarrow> \<not> is_terminal_funding_failure X402 r"
  by (simp_all add: is_terminal_funding_failure_def str_or_def stripped_literals terminal_statuses_def
      TERMINAL_X402_FUNDING_STATUSES_def)

lemma offline_run:
  assumes u: "wf_uuid u" and c: "offline_client c" and ph: "mock_phase_of st (uuid_str u) = Challenge"
    and sign: "\<And>ch s. sign ch s = (Inr t, s)" "strip t \<noteq> []" and prove: "\<And>v s. prove v s = (Inr (pf v), s)"
  shows "\<exists>r w. execute_fund_with_x402 (x402_host c (offline_transport allow msg) u key sign prove) u prf opts
            (start_world st) = (Inr r, w) \<and>
          fi_funded r \<and> fi_intent_id r = u \<and> fi_capability_token r = Some X402_DEV_CAPABILITY_TOKEN \<and>
          length (filter is_fund (fw_log w)) = 3 \<and>
          (\<forall>j. mock_phase_of (fw_state w) j = (if j = uuid_str u then Funded else mock_phase_of st j))"
proof -
  let ?i = "uuid_str u" and ?env = "build_x402_fund_request_envelope u"
  let ?h = "x402_host c (offline_transport allow msg) u key sign prove"
  define st1 where "st1 = AList.update ?i Pending st"
  define st2 where "st2 = AList.update ?i Funded st1"
  have ph1: "mock_phase_of st1 ?i = Pending" and ph2: "mock_phase_of st2 ?i = Funded"
    by (simp_all add: st1_def st2_def)
  have tt: "strip (strip t) \<noteq> []" using sign(2) by (simp add: strip_strip)
  obtain r1 where r1: "fh_fund ?h prf None st = (Inr r1, st1)" "fi_status_code r1 = 402"
    "fi_payment_required r1 = Some X402_DEV_PAYMENT_REQUIRED"
    using offline_challenge[OF u c ph] unfolding x402_host_def st1_def fund_host.simps by blast
  obtain r2 where r2: "fh_fund ?h (pf ?env) (Some (strip t)) st1 = (Inr r2, st2)" "fi_status_code r2 = 202"
    "fi_capability_token r2 = None" "funding_status r2 = Some ''authorization_pending''"
    using offline_paid[OF u c ph1 tt] unfolding x402_host_def st2_def fund_host.simps by blast
  obtain r3 where r3: "fh_fund ?h (pf ?env) (Some (strip t)) st2 = (Inr r3, st2)" "fi_status_code r3 = 200"
    "fi_intent_id r3 = u" "fi_funded r3" "fi_capability_token r3 = Some X402_DEV_CAPABILITY_TOKEN"
    "funding_status r3 = Some ''authorization_succeeded''"
    using offline_funded[OF u c ph2 tt] unfolding x402_host_def fund_host.simps by blast
  have host: "fh_pay ?h = sign" "fh_prove ?h = prove" by (simp_all add: x402_host_def)
  have challenge: "x402_challenge u r1 = Inr X402_DEV_PAYMENT_REQUIRED"
    using r1(3) stripped_literals by (simp add: x402_challenge_def nonblank_def)
  have pending: "\<not> is_terminal_funding_failure X402 r2" "\<not> is_funding_complete r2" "still_pending r2"
    using r2 not_terminal by (simp_all add: is_funding_complete_def still_pending_def)
  have funded: "\<not> is_terminal_funding_failure X402 r3" "is_funding_complete r3"
    using r3 not_terminal by (simp_all add: is_funding_complete_def)
  obtain n where n: "nat (effective_attempts opts) = Suc n"
    using effective_attempts_pos[of opts] by (cases "nat (effective_attempts opts)") auto
  let ?log1 = "[Funds prf None (Inr r1), Pays X402_DEV_PAYMENT_REQUIRED (Inr t), Proves ?env (Inr (pf ?env)),
                Funds (pf ?env) (Some (strip t)) (Inr r2)]"
  have settle: "settle_funding X402 ?h u opts (Some (strip t)) r2 \<lparr>fw_state = st2, fw_log = ?log1\<rparr>
    = (Inr r3, \<lparr>fw_state = st2, fw_log = ?log1 @ poll_log (effective_interval opts) ?env (Some (strip t)) (pf ?env) (Inr r3)\<rparr>)"
    using pending funded
    by (simp add: settle_funding_def n call_prove_def call_fund_def host call_host_eq prove r3(1) freturn_def
        sleep_ms_def sleep_log_def poll_log_def)
  have "execute_fund_with_x402 ?h u prf opts (start_world st)
    = settle_funding X402 ?h u opts (Some (strip t)) r2 \<lparr>fw_state = st2, fw_log = ?log1\<rparr>"
    using r1(2) challenge sign(2)
    by (simp add: execute_fund_with_x402_def execute_fund_def call_fund_def call_pay_def call_prove_def host
        start_world_def call_host_eq r1(1) r2(1) sign(1) prove)
  then show ?thesis using settle r3 by (simp add: st1_def st2_def)
qed

section \<open>Traces of the mock\<close>

datatype mock_event =
    Asked string bool "mock_phase option"  \<comment> \<open>intent, whether signed, the answer's phase\<close>
  | Reset "string option"

inductive mock_trace :: "mock_event list \<Rightarrow> mock_state \<Rightarrow> bool" where
  trace_start: "mock_trace [] new_fund_state_machine"
| trace_ask: "\<lbrakk>mock_trace evs st; mock_next i t sig st = (m, st')\<rbrakk> \<Longrightarrow>
    mock_trace (evs @ [Asked (strip i) (nonblank sig \<noteq> None) (map_option mr_phase m)]) st'"
| trace_reset: "mock_trace evs st \<Longrightarrow> mock_trace (evs @ [Reset r]) (mock_reset r st)"

definition unreset :: "string \<Rightarrow> mock_event list \<Rightarrow> bool" where
  "unreset i evs \<longleftrightarrow> Reset None \<notin> set evs \<and> Reset (Some i) \<notin> set evs"

lemma unreset_simps [simp]:
  "unreset i []" "unreset i (k @ l) \<longleftrightarrow> unreset i k \<and> unreset i l"
  "unreset i (Asked j s p # l) \<longleftrightarrow> unreset i l"
  by (auto simp: unreset_def)

definition challenged :: "string \<Rightarrow> mock_event list \<Rightarrow> bool" where
  "challenged i evs \<longleftrightarrow> (\<exists>a b. evs = a @ Asked i False (Some Challenge) # b \<and> unreset i b)"

definition authorized :: "string \<Rightarrow> mock_event list \<Rightarrow> bool" where
  "authorized i evs \<longleftrightarrow> (\<exists>a b. evs = a @ Asked i True (Some Pending) # b \<and> unreset i b \<and> challenged i a)"

lemma challenged_snoc:
  "challenged i evs \<Longrightarrow> unreset i [e] \<Longrightarrow> challenged i (evs @ [e])"
  "challenged i (evs @ [Asked i False (Some Challenge)])"
proof -
  show "challenged i (evs @ [e])" if "challenged i evs" "unreset i [e]"
  proof -
    from that(1) obtain a b where "evs = a @ Asked i False (Some Challenge) # b" "unreset i b"
      by (auto simp: challenged_def)
    with that(2) show ?thesis unfolding challenged_def
      by (intro exI[of _ a] exI[of _ "b @ [e]"]) simp
  qed
  show "challenged i (evs @ [Asked i False (Some Challenge)])"
    unfolding challenged_def by (intro exI[of _ evs] exI[of _ "[]"]) simp
qed

lemma authorized_snoc:
  "authorized i evs \<Longrightarrow> unreset i [e] \<Longrightarrow> authorized i (evs @ [e])"
  "challenged i evs \<Longrightarrow> authorized i (evs @ [Asked i True (Some Pending)])"
proof -
  show "authorized i (evs @ [e])" if "authorized i evs" "unreset i [e]"
  proof -
    from that(1) obtain a b where "evs = a @ Asked i True (Some Pending) # b" "unreset i b" "challenged i a"
      by (auto simp: authorized_def)
    with that(2) show ?thesis unfolding authorized_def
      by (intro exI[of _ a] exI[of _ "b @ [e]"]) simp
  qed
  show "authorized i (evs @ [Asked i True (Some Pending)])" if "challenged i evs"
    using that unfolding authorized_def by (intro exI[of _ evs] exI[of _ "[]"]) simp
qed

text \<open>The invariant: an intent's phase says how far its exchange has come since its last reset.\<close>

definition phase_justified :: "mock_event list \<Rightarrow> mock_state \<Rightarrow> bool" where
  "phase_justified evs st \<longleftrightarrow> (\<forall>i. case mock_phase_of st i of
       Challenge \<Rightarrow> True | Pending \<Rightarrow> challenged i evs | Funded \<Rightarrow> authorized i evs)"

text \<open>What one request does: the answer's phase is the one it found, the next phase follows.\<close>

lemma mock_next_cases:
  assumes "mock_next i t sig st = (m, st')"
  obtains (none) "m = None" "st' = st"
  | (challenge) m' where "m = Some m'" "mr_phase m' = Challenge" "mock_phase_of st (strip i) = Challenge"
      "nonblank sig = None" "st' = AList.update (strip i) Pending st"
  | (pending) m' where "m = Some m'" "mr_phase m' = Pending" "mock_phase_of st (strip i) = Pending"
      "nonblank sig \<noteq> None" "st' = AList.update (strip i) Funded st"
  | (funded) m' where "m = Some m'" "mr_phase m' = Funded" "mock_phase_of st (strip i) = Funded"
      "nonblank sig \<noteq> None" "st' = st"
proof (cases "strip i = []")
  case True
  then show ?thesis using none assms by (simp add: mock_next_def Let_def)
next
  case False
  show ?thesis
  proof (cases "mock_phase_of st (strip i)"; cases "nonblank sig = None")
    assume c: "mock_phase_of st (strip i) = Challenge" "nonblank sig = None"
    with False assms show ?thesis unfolding mock_next_def Let_def
      by (intro challenge[OF _ _ c]) (simp_all, auto)
  next
    assume c: "mock_phase_of st (strip i) = Pending" "nonblank sig \<noteq> None"
    with False assms show ?thesis unfolding mock_next_def Let_def
      by (intro pending[OF _ _ c]) (simp_all, auto)
  next
    assume c: "mock_phase_of st (strip i) = Funded" "nonblank sig \<noteq> None"
    with False assms show ?thesis unfolding mock_next_def Let_def
      by (intro funded[OF _ _ c]) (simp_all, auto)
  qed (insert False assms none, simp_all add: mock_next_def Let_def)
qed

lemma phase_justified_frame:
  assumes "phase_justified evs st" "\<And>j. mock_phase_of st' j \<noteq> mock_phase_of st j \<Longrightarrow> j = i"
    "\<And>j. j \<noteq> i \<or> mock_phase_of st' j = mock_phase_of st j \<Longrightarrow> unreset j [e]"
    "mock_phase_of st' i \<noteq> mock_phase_of st i \<Longrightarrow>
       (case mock_phase_of st' i of Challenge \<Rightarrow> True | Pending \<Rightarrow> challenged i (evs @ [e])
          | Funded \<Rightarrow> authorized i (evs @ [e]))"
  shows "phase_justified (evs @ [e]) st'"
  unfolding phase_justified_def
proof
  fix j
  show "case mock_phase_of st' j of Challenge \<Rightarrow> True | Pending \<Rightarrow> challenged j (evs @ [e])
          | Funded \<Rightarrow> authorized j (evs @ [e])"
  proof (cases "mock_phase_of st' j = mock_phase_of st j")
    case True
    then have "unreset j [e]" using assms(3) by blast
    then show ?thesis
      using True assms(1) challenged_snoc(1)[of j evs e] authorized_snoc(1)[of j evs e]
      by (auto simp: phase_justified_def split: mock_phase.splits)
  next
    case False
    then show ?thesis using assms(2,4) by auto
  qed
qed

lemma mock_phase_reset:
  "mock_phase_of (mock_reset r st) j = (if r = None \<or> r = Some j then Challenge else mock_phase_of st j)"
  by (auto simp: mock_reset_def mock_phase_of_def delete_conv' split: option.splits)

lemma trace_justified: "mock_trace evs st \<Longrightarrow> phase_justified evs st"
proof (induction rule: mock_trace.induct)
  case trace_start
  then show ?case by (simp add: phase_justified_def mock_phase_of_def new_fund_state_machine_def)
next
  case (trace_ask evs st i t sig m st')
  have just: "case mock_phase_of st (strip i) of Challenge \<Rightarrow> True | Pending \<Rightarrow> challenged (strip i) evs
          | Funded \<Rightarrow> authorized (strip i) evs"
    using trace_ask.IH by (simp add: phase_justified_def)
  from trace_ask.hyps(2) show ?case
  proof (cases rule: mock_next_cases)
    case none
    then show ?thesis using trace_ask.IH by (intro phase_justified_frame[where i = "strip i"]) (auto split: if_splits)
  next
    case challenge
    then show ?thesis
      using trace_ask.IH challenged_snoc(2) by (intro phase_justified_frame[where i = "strip i"]) (auto split: if_splits)
  next
    case pending
    then show ?thesis
      using trace_ask.IH just authorized_snoc(2) by (intro phase_justified_frame[where i = "strip i"]) (auto split: if_splits)
  next
    case funded
    then show ?thesis using trace_ask.IH by (intro phase_justified_frame[where i = "strip i"]) (auto split: if_splits)
  qed
next
  case (trace_reset evs st r)
  have "case mock_phase_of (mock_reset r st) j of Challenge \<Rightarrow> True | Pending \<Rightarrow> challenged j (evs @ [Reset r])
          | Funded \<Rightarrow> authorized j (evs @ [Reset r])" for j
    using trace_reset.IH challenged_snoc(1)[of j evs "Reset r"] authorized_snoc(1)[of j evs "Reset r"]
    by (auto simp: phase_justified_def mock_phase_reset unreset_def split: mock_phase.splits)
  then show ?case by (simp add: phase_justified_def)
qed

lemma funded_answer_authorized:
  assumes "mock_trace (evs @ [Asked i s (Some Funded)]) st"
  shows "s \<and> authorized i evs"
  using assms
proof (cases rule: mock_trace.cases)
  case (trace_ask evs' st0 j t sig m)
  then have eqs: "evs' = evs" "strip j = i" "s = (nonblank sig \<noteq> None)" "map_option mr_phase m = Some Funded"
    by auto
  from trace_ask(3) have "mock_phase_of st0 i = Funded \<and> s"
    by (cases rule: mock_next_cases) (use eqs in auto)
  then show ?thesis using trace_justified[OF trace_ask(2)] eqs(1)
    by (auto simp: phase_justified_def dest: spec[of _ i])
qed auto

section \<open>Properties\<close>

text \<open>C26: Funding an intent over x402 against the offline gateway, from a state in which the intent has
  not been challenged yet, ends with the intent funded after exactly three requests, whatever the
  poll options, the proofs, the idempotency key and the non-blank signature are; the result
  carries the capability token and every other intent's exchange stays where it was.
\<close>

theorem offline_funding_completes:
  assumes "wf_uuid u" "offline_client c" "mock_phase_of st (uuid_str u) = Challenge" "strip t \<noteq> []"
  shows "\<exists>r w. fund_with_x402 c (offline_transport allow msg) u prf (\<lambda>ch s. (Inr t, s)) (\<lambda>v s. (Inr (pf v), s)) opts key st
            = (Inr r, w) \<and>
          fi_funded r \<and> fi_intent_id r = u \<and> fi_capability_token r = Some X402_DEV_CAPABILITY_TOKEN \<and>
          length (filter is_fund (fw_log w)) = 3 \<and>
          (\<forall>j. mock_phase_of (fw_state w) j = (if j = uuid_str u then Funded else mock_phase_of st j))"
  unfolding fund_with_x402_def by (rule offline_run[OF assms(1-3) _ assms(4)]) (rule refl)+

theorem offline_funding_completes_witness:
  "\<exists>r w. fund_with_x402
      \<lparr>gc_base = ''https://api.paybond.ai/'', gc_tenant = OFFLINE_DEV_TENANT_ID, gc_bearer = ''key''\<rparr>
      (offline_transport True []) (replicate 32 CHR ''a'') [] (\<lambda>ch s. (Inr ''signed'', s)) (\<lambda>v s. (Inr [], s))
      None None new_fund_state_machine = (Inr r, w) \<and> fi_funded r"
proof -
  have "wf_uuid (replicate 32 CHR ''a'')" "strip ''signed'' \<noteq> []" by code_simp+
  moreover have "offline_client \<lparr>gc_base = ''https://api.paybond.ai/'', gc_tenant = OFFLINE_DEV_TENANT_ID, gc_bearer = ''key''\<rparr>"
    by (simp add: offline_client_def DEFAULT_PAYBOND_GATEWAY_BASE_URL_def)
  moreover have "mock_phase_of new_fund_state_machine i = Challenge" for i
    by (simp add: mock_phase_of_def new_fund_state_machine_def)
  ultimately show ?thesis
    using offline_funding_completes[of "replicate 32 CHR ''a''" _ new_fund_state_machine "''signed''" True "[]" "[]"
        "\<lambda>v. []" None None] by blast
qed

text \<open>The mock answers a request for an intent as funded, with its capability token, only when the
  request is signed and the intent has, since its last reset, been challenged without a signature
  and then answered as pending with one.
\<close>

theorem mock_funds_after_challenge:
  assumes "mock_trace (evs @ [Asked i s (Some Funded)]) st"
  shows "s \<and> (\<exists>a b c. evs = a @ Asked i False (Some Challenge) # b @ Asked i True (Some Pending) # c \<and>
                   unreset i b \<and> unreset i c)"
proof -
  have "s" "authorized i evs" using funded_answer_authorized[OF assms] by simp_all
  then show ?thesis by (fastforce simp: authorized_def challenged_def)
qed

lemma sample_trace:
  "mock_trace [Asked ''i'' False (Some Challenge), Asked ''i'' True (Some Pending), Asked ''i'' True (Some Funded)]
     [(''i'', Funded)]"
proof -
  have i: "strip ''i'' = ''i''" "nonblank (Some ''s'') = Some ''s''" by code_simp+
  have step: "mock_trace (evs @ [Asked (strip i) (nonblank sig \<noteq> None) (map_option mr_phase (fst (mock_next i [] sig st)))])
                (snd (mock_next i [] sig st))" if "mock_trace evs st" for evs st i sig
    using that by (rule trace_ask) simp
  show ?thesis
    using step[OF step[OF step[OF trace_start, of "''i''" None], of "''i''" "Some ''s''"], of "''i''" "Some ''s''"]
    by (simp add: mock_next_def Let_def i mock_phase_of_def new_fund_state_machine_def)
qed

theorem mock_funds_after_challenge_witness:
  "\<exists>a b c. [Asked ''i'' False (Some Challenge), Asked ''i'' True (Some Pending)]
     = a @ Asked ''i'' False (Some Challenge) # b @ Asked ''i'' True (Some Pending) # c"
  using mock_funds_after_challenge[of "[Asked ''i'' False (Some Challenge), Asked ''i'' True (Some Pending)]" "''i''" True
      "[(''i'', Funded)]"] sample_trace by auto

section \<open>The denial of the offline gateway\<close>

text \<open>The client's error on any verify request about the offline intent when denials are simulated.\<close>

lemma verify_route:
  "parse_harbor_fund_intent_id (DEFAULT_PAYBOND_GATEWAY_BASE_URL @ ''/verify'') = None"
  "ends_with (DEFAULT_PAYBOND_GATEWAY_BASE_URL @ ''/verify'') ''/v1/auth/principal'' = False"
  "ends_with (DEFAULT_PAYBOND_GATEWAY_BASE_URL @ ''/verify'') ''/v1/sandbox/guardrails/bootstrap'' = False"
  "ends_with (DEFAULT_PAYBOND_GATEWAY_BASE_URL @ ''/verify'') ''/verify'' = True"
  by code_simp+

lemma deny_ids:
  "parse_uuid OFFLINE_DEV_INTENT_ID = Some ''00000000000040008000000000000001''"
  "parse_uuid ''decision-deny'' = None"
  by code_simp+

lemma offline_deny_body:
  "verify_capability OFFLINE_DEV_TENANT_ID q
     (Inr (http_response.truncate (json_answer 200 [] (offline_verify False msg))))
   = (if vq_intent_id q = ''00000000000040008000000000000001''
      then Inl (ValueError ''badly formed hexadecimal UUID string'')
      else Inl (TenantBindingError (''verify intent mismatch: requested='' @ uuid_str (vq_intent_id q) @
             '' remote='' @ uuid_str ''00000000000040008000000000000001'')))"
  by (simp add: verify_capability_def json_object_response_def json_answer_def offline_verify_def
      http_response.truncate_def parse_verify_capability_result_def body_item_def json_text_def py_uuid_def
      deny_ids ensure_def reason_codes_of_def opt_uuid_field_def truthy_def)

text \<open>When the offline gateway simulates a denial, a verify request about its intent does not come
  back as a denied verification: the decision id of the answer is no UUID and the client raises a
  \<open>ValueError\<close>.
\<close>

theorem offline_denial_raises:
  assumes "offline_client c" "vq_intent_id q = ''00000000000040008000000000000001''"
  shows "gateway_verify c (offline_transport False msg) q st =
           (Inl (ValueError ''badly formed hexadecimal UUID string''), st)"
  using assms offline_deny_body[of q msg] verify_route
  by (simp add: gateway_verify_def post_json_with_retries_def offline_client_def strip_slashes_def
      offline_transport_def offline_payload_def offline_verify_def plain_response_def Let_def)

definition sample_verify_request :: verify_request where
  "sample_verify_request =
     \<lparr>vq_intent_id = ''00000000000040008000000000000001'', vq_token = ''t'', vq_operation = ''op'',
      vq_requested_spend_cents = 1, vq_vendor_id = None, vq_task_id = None, vq_workflow_id = None,
      vq_tool_call_id = None, vq_tool_name = None, vq_currency = None, vq_agent_subject = None,
      vq_approval_token = None, vq_idempotency_key = None, vq_model_family = None,
      vq_config_hash_hex = None, vq_prompt_hash_hex = None\<rparr>"

theorem offline_denial_raises_witness:
  "fst (gateway_verify
     \<lparr>gc_base = ''https://api.paybond.ai/'', gc_tenant = OFFLINE_DEV_TENANT_ID, gc_bearer = ''key''\<rparr>
     (offline_transport False ''no'') sample_verify_request [])
   = Inl (ValueError ''badly formed hexadecimal UUID string'')"
  by (subst offline_denial_raises)
     (simp_all add: offline_client_def DEFAULT_PAYBOND_GATEWAY_BASE_URL_def sample_verify_request_def)

end
