(* ===== verification/Harbor_Direct.thy ===== *)
theory Harbor_Direct
  imports Fund_Client Gateway_Url
begin

text \<open>
  \<open>HarborClient\<close> of \<open>harbor.py\<close>, which talks to Harbor itself: its construction, the bearer
  token it sends, its mutations and its reads of the ledger.  The token comes from a constant
  or from a supplier, a callback on the world's state.
\<close>

section \<open>The client\<close>

type_synonym 's supplier = "'s \<Rightarrow> (exn + string option) \<times> 's"

record 's harbor_client =
  hb_base :: string
  hb_tenant :: string
  hb_static_bearer :: "string option"
  hb_supplier :: "'s supplier option"

definition no_bearer_configured :: exn where
  "no_bearer_configured = ValueError (''HarborClient requires harbor_bearer_supplier or '' @
     ''static_harbor_bearer_token; x-tenant-id is not authorization. For loopback only, pass '' @
     ''allow_unauthenticated_local=True'')"

definition base_hostname :: "string \<Rightarrow> string" where
  "base_hostname base = (case urlparse base of Inl _ \<Rightarrow> [] | Inr p \<Rightarrow> url_hostname p)"

definition new_harbor_client ::
  "(string \<Rightarrow> bool option) \<Rightarrow> string \<Rightarrow> string \<Rightarrow> string \<Rightarrow> 's supplier option \<Rightarrow> string option \<Rightarrow> bool \<Rightarrow>
   exn + 's harbor_client" where
  "new_harbor_client ip6 env harbor_base tenant supplier static allow_local =
     rbind (ensure (supplier = None \<or> static = None)
             (ValueError ''pass at most one of harbor_bearer_supplier or static_harbor_bearer_token'')) (\<lambda>_.
     rbind (normalize_gateway_base_url ip6 env False (strip harbor_base)) (\<lambda>base0.
     let base = base0 @ ''/'';
         bearer = (case static of Some t \<Rightarrow> if t = [] then None else Some (strip t) | None \<Rightarrow> None);
         configured = ((case bearer of Some t \<Rightarrow> t \<noteq> [] | None \<Rightarrow> False) \<or> supplier \<noteq> None)
     in rbind (ensure (configured \<or> allow_local \<and> is_loopback_gateway_host ip6 (base_hostname base))
                no_bearer_configured) (\<lambda>_.
        Inr \<lparr>hb_base = base, hb_tenant = strip tenant, hb_static_bearer = bearer,
             hb_supplier = supplier\<rparr>)))"

definition authorization_header ::
  "'s harbor_client \<Rightarrow> 's \<Rightarrow> (exn + http_headers) \<times> 's" where
  "authorization_header c s =
     (if (case hb_static_bearer c of Some t \<Rightarrow> t \<noteq> [] | None \<Rightarrow> False)
      then (Inr [(''authorization'', ''Bearer '' @ the (hb_static_bearer c))], s)
      else (case hb_supplier c of
          None \<Rightarrow> (Inr [], s)
        | Some supply \<Rightarrow>
            (let (tok, s') = supply s
             in (rbind tok (\<lambda>t. case nonblank t of
                     Some v \<Rightarrow> Inr [(''authorization'', ''Bearer '' @ strip v)]
                   | None \<Rightarrow> Inl (ValueError ''harbor_bearer_supplier returned an empty Harbor bearer token'')),
                 s'))))"

text \<open>
  A POST: content type and tenant, then the bearer token, then the extra headers, each
  dictionary overriding the ones before it.
\<close>

definition harbor_post ::
  "'s harbor_client \<Rightarrow> 's transport \<Rightarrow> string \<Rightarrow> http_headers \<Rightarrow> json \<Rightarrow> 's \<Rightarrow> (exn + fund_response) \<times> 's" where
  "harbor_post c send path extra payload s =
     (case authorization_header c s of
        (Inl e, s') \<Rightarrow> (Inl e, s')
      | (Inr auth, s') \<Rightarrow>
          send \<lparr>rq_method = ''POST'', rq_url = hb_base c @ strip_slashes path,
                rq_headers = dict_merge (dict_merge [(''content-type'', ''application/json''),
                                                     (''x-tenant-id'', hb_tenant c)] auth) extra,
                rq_body = payload\<rparr> s')"

definition harbor_get ::
  "'s harbor_client \<Rightarrow> 's transport \<Rightarrow> string \<Rightarrow> 's \<Rightarrow> (exn + fund_response) \<times> 's" where
  "harbor_get c send path s =
     (case authorization_header c s of
        (Inl e, s') \<Rightarrow> (Inl e, s')
      | (Inr auth, s') \<Rightarrow>
          send \<lparr>rq_method = ''GET'', rq_url = hb_base c @ strip_slashes path,
                rq_headers = dict_merge [(''accept'', ''application/json''),
                                         (''x-tenant-id'', hb_tenant c)] auth,
                rq_body = JNull\<rparr> s')"

definition idempotency_header :: "string option \<Rightarrow> http_headers" where
  "idempotency_header key = (case nonblank key of
       Some k \<Rightarrow> [(''idempotency-key'', strip k)]
     | None \<Rightarrow> [])"

text \<open>An error status, with the body's text; then the decoded body.\<close>

definition harbor_json :: "string \<Rightarrow> fund_response \<Rightarrow> exn + json" where
  "harbor_json what r =
     (if hr_status r \<ge> 400 then
        Inl (HarborHttpError (''Harbor '' @ what @ '' HTTP '' @ str_int (hr_status r) @ '': '' @ hr_text r)
              (hr_status r))
      else (case hr_json r of None \<Rightarrow> Inl (ValueError ''JSONDecodeError'') | Some j \<Rightarrow> Inr j))"

definition harbor_object :: "string \<Rightarrow> fund_response \<Rightarrow> exn + (string, json) dict" where
  "harbor_object what r =
     rbind (harbor_json what r) (\<lambda>j. case j of
         JObj b \<Rightarrow> Inr b
       | _ \<Rightarrow> Inl (HarborHttpError (''Harbor '' @ what @ '' response was not a JSON object'') (hr_status r)))"

section \<open>Calls\<close>

definition direct_verify_capability ::
  "'s harbor_client \<Rightarrow> 's transport \<Rightarrow> verify_request \<Rightarrow> 's \<Rightarrow> (exn + verify_result) \<times> 's" where
  "direct_verify_capability c send q s =
     (let (out, s') = harbor_post c send ''verify'' (idempotency_header (vq_idempotency_key q))
                        (JObj (verify_capability_payload q)) s
      in (rbind out (\<lambda>r. rbind (harbor_json ''verify'' r) (\<lambda>j. case j of
              JObj b \<Rightarrow> parse_verify_capability_result (hb_tenant c) (vq_intent_id q) b
            | _ \<Rightarrow> Inl (TypeError ''object is not subscriptable''))), s'))"

definition direct_create_intent ::
  "'s harbor_client \<Rightarrow> 's transport \<Rightarrow> (string, json) dict \<Rightarrow> string option \<Rightarrow> 's \<Rightarrow> (exn + json) \<times> 's" where
  "direct_create_intent c send body key s =
     (let (out, s') = harbor_post c send ''intents'' (idempotency_header key) (JObj body) s
      in (rbind out (harbor_json ''create intent''), s'))"

text \<open>
  A payment authorization travels as a second \<open>authorization\<close> header, which a dictionary could
  not hold; the client then sends a list of pairs.
\<close>

definition authorized_fund_post ::
  "'s harbor_client \<Rightarrow> 's transport \<Rightarrow> string \<Rightarrow> http_headers \<Rightarrow> string \<Rightarrow> 's \<Rightarrow> (exn + fund_response) \<times> 's" where
  "authorized_fund_post c send path extra credential s =
     (case authorization_header c s of
        (Inl e, s') \<Rightarrow> (Inl e, s')
      | (Inr auth, s') \<Rightarrow>
          (case append_direct_harbor_payment_authorization
                  ([(''content-type'', ''application/json''), (''x-tenant-id'', hb_tenant c)] @ auth @ extra)
                  credential of
             Inl e \<Rightarrow> (Inl e, s')
           | Inr hs \<Rightarrow> send \<lparr>rq_method = ''POST'', rq_url = hb_base c @ path, rq_headers = hs,
                            rq_body = JObj []\<rparr> s'))"

definition direct_fund_intent ::
  "'s harbor_client \<Rightarrow> 's transport \<Rightarrow> uuid \<Rightarrow> string option \<Rightarrow> string option \<Rightarrow> string option \<Rightarrow> 's \<Rightarrow>
   (exn + fund_intent_result) \<times> 's" where
  "direct_fund_intent c send intent_id signature authorization key s =
     (let path = ''intents/'' @ uuid_str intent_id @ ''/fund'';
          extra = idempotency_header key
                  @ (case nonblank signature of Some p \<Rightarrow> [(''payment-signature'', strip p)] | None \<Rightarrow> []);
          (out, s') = (case nonblank authorization of
              Some credential \<Rightarrow> authorized_fund_post c send path extra credential s
            | None \<Rightarrow> harbor_post c send path extra (JObj []) s)
      in (rbind out (\<lambda>r. rbind (fund_body ''Harbor'' r) (\<lambda>b.
            parse_fund_intent_response ''Harbor fund intent response'' ''harbor'' (hb_tenant c) intent_id r b)),
          s'))"

definition direct_submit_evidence ::
  "'s harbor_client \<Rightarrow> 's transport \<Rightarrow> uuid \<Rightarrow> (string, json) dict \<Rightarrow> string option \<Rightarrow> 's \<Rightarrow>
   (exn + (string, json) dict) \<times> 's" where
  "direct_submit_evidence c send intent_id evidence key s =
     (let (out, s') = harbor_post c send (''intents/'' @ uuid_str intent_id @ ''/evidence'')
                        (idempotency_header key) (JObj evidence) s
      in (rbind out (\<lambda>r. rbind (harbor_json ''evidence'' r) (\<lambda>j. case j of
              JObj b \<Rightarrow>
                rbind (ensure (str_get b ''tenant'' = hb_tenant c)
                        (ValueError (''evidence tenant mismatch: client='' @ py_repr (hb_tenant c) @
                           '' harbor='' @ py_repr (str_get b ''tenant'')))) (\<lambda>_.
                rbind (ensure (str_get b ''intent_id'' = uuid_str intent_id)
                        (ValueError (''evidence intent mismatch: requested='' @ uuid_str intent_id @
                           '' harbor='' @ str_get b ''intent_id''))) (\<lambda>_. Inr b))
            | _ \<Rightarrow> Inl (AttributeError ''object has no attribute get''))), s'))"

definition direct_confirm_settlement ::
  "'s harbor_client \<Rightarrow> 's transport \<Rightarrow> uuid \<Rightarrow> (string, json) dict option \<Rightarrow> string option \<Rightarrow> 's \<Rightarrow>
   (exn + (string, json) dict) \<times> 's" where
  "direct_confirm_settlement c send intent_id body key s =
     (let (out, s') = harbor_post c send (''intents/'' @ uuid_str intent_id @ ''/settlement/confirm'')
                        (idempotency_header key) (JObj (case body of Some b \<Rightarrow> b | None \<Rightarrow> [])) s
      in (rbind out (harbor_object ''settlement confirm''), s'))"

section \<open>The ledger\<close>

definition assert_ledger_tenant ::
  "'s harbor_client \<Rightarrow> string \<Rightarrow> (string, json) dict \<Rightarrow> exn + unit" where
  "assert_ledger_tenant c url b =
     ensure (str_get b ''tenant_id'' = hb_tenant c)
       (TenantBindingError (''ledger tenant mismatch: client='' @ py_repr (hb_tenant c) @
          '' harbor='' @ py_repr (str_get b ''tenant_id'') @ '' url='' @ url))"

definition ledger_read ::
  "string \<Rightarrow> string \<Rightarrow> 's harbor_client \<Rightarrow> 's transport \<Rightarrow> 's \<Rightarrow> (exn + (string, json) dict) \<times> 's" where
  "ledger_read what path c send s =
     (let (out, s') = harbor_get c send path s
      in (rbind out (\<lambda>r. rbind (harbor_object what r) (\<lambda>b.
            rbind (assert_ledger_tenant c (hb_base c @ path) b) (\<lambda>_. Inr b))), s'))"

definition get_ledger_tip ::
  "'s harbor_client \<Rightarrow> 's transport \<Rightarrow> 's \<Rightarrow> (exn + (string, json) dict) \<times> 's" where
  "get_ledger_tip = ledger_read ''ledger tip'' ''ledger/v1/tip''"

definition get_ledger_authority ::
  "'s harbor_client \<Rightarrow> 's transport \<Rightarrow> 's \<Rightarrow> (exn + (string, json) dict) \<times> 's" where
  "get_ledger_authority = ledger_read ''ledger authority'' ''ledger/v1/authority''"

definition get_ledger_events ::
  "int \<Rightarrow> int \<Rightarrow> 's harbor_client \<Rightarrow> 's transport \<Rightarrow> 's \<Rightarrow> (exn + (string, json) dict) \<times> 's" where
  "get_ledger_events after_seq limit c send s =
     (if after_seq < 0 then (Inl (ValueError ''after_seq must be >= 0''), s)
      else ledger_read ''ledger events'' (''ledger/v1/events?after_seq='' @ str_int after_seq @
             ''&limit='' @ str_int (max 1 (min limit 256))) c send s)"

definition get_ledger_merkle_latest ::
  "'s harbor_client \<Rightarrow> 's transport \<Rightarrow> 's \<Rightarrow> (exn + (string, json) dict) \<times> 's" where
  "get_ledger_merkle_latest = ledger_read ''ledger merkle'' ''ledger/v1/merkle/latest''"

end
