(* ===== verification/Harbor_Standard.thy ===== *)
theory Harbor_Standard
  imports Harbor_Direct
begin

text \<open>
  Where the clients send their credentials: the base URLs that are accepted, and the bearer
  token on every request of the direct Harbor client.
\<close>

section \<open>Base URLs\<close>

definition accepted_host :: "(string \<Rightarrow> bool option) \<Rightarrow> string \<Rightarrow> bool \<Rightarrow> string \<Rightarrow> bool" where
  "accepted_host ip6 env flag h \<longleftrightarrow>
     loopback_host ip6 h \<or> loopback_lookalike ip6 h \<or>
     allow_insecure_private_network env flag \<and> (\<exists>a. ip4_address h = Some a \<and> is_rfc1918_ipv4 a)"

lemma local_host_iff:
  assumes "lower h = h" "strip h = h"
  shows "is_local_gateway_host ip6 h \<longleftrightarrow>
    loopback_host ip6 h \<or> loopback_lookalike ip6 h \<or> (\<exists>a. ip4_address h = Some a \<and> is_rfc1918_ipv4 a)"
  using assms is_loopback_iff[of h ip6]
  by (auto simp: is_local_gateway_host_def Let_def split: option.splits)



section \<open>Requests of the direct client\<close>

definition bearer_sent :: "http_request \<Rightarrow> bool" where
  "bearer_sent q \<longleftrightarrow> (\<exists>tok. tok \<noteq> [] \<and> map_of (rq_headers q) ''authorization'' = Some (''Bearer '' @ tok))"

text \<open>What a client that was constructed guarantees of the token it sends.\<close>

definition client_ok :: "(string \<Rightarrow> bool option) \<Rightarrow> string \<Rightarrow> bool \<Rightarrow> 's harbor_client \<Rightarrow> bool" where
  "client_ok ip6 env allow_local c \<longleftrightarrow>
     (hb_supplier c = None \<and> (case hb_static_bearer c of Some t \<Rightarrow> t = [] | None \<Rightarrow> True) \<longrightarrow>
        allow_local \<and> is_loopback_gateway_host ip6 (base_hostname (hb_base c)))"

lemma new_client_ok:
  assumes "new_harbor_client ip6 env base tenant supplier static allow_local = Inr c"
  shows "client_ok ip6 env allow_local c" "hb_tenant c = strip tenant"
    "\<exists>u. normalize_gateway_base_url ip6 env False (strip base) = Inr u \<and> hb_base c = u @ ''/''"
  using assms
  by (auto simp: new_harbor_client_def client_ok_def Let_def rbind_Inr_iff split: if_splits option.splits)

lemma dict_merge_lookup_absent:
  "k \<notin> set (keys b) \<Longrightarrow> map_of (dict_merge a b) k = map_of a k"
  by (induction b arbitrary: a) (auto simp: dict_merge_def update_conv')

lemma authorization_headerE:
  assumes "authorization_header c s = (Inr auth, s')"
  obtains (token) tok where "tok \<noteq> []" "auth = [(''authorization'', ''Bearer '' @ tok)]"
  | (nothing) "auth = []" "hb_supplier c = None"
      "case hb_static_bearer c of Some t \<Rightarrow> t = [] | None \<Rightarrow> True"
  using assms
  by (auto simp: authorization_header_def nonblank_def rbind_Inr_iff
      split: if_splits option.splits prod.splits)

definition request_of :: "'s harbor_client \<Rightarrow> (string \<Rightarrow> bool option) \<Rightarrow> bool \<Rightarrow> http_request \<Rightarrow> bool" where
  "request_of c ip6 allow_local q \<longleftrightarrow>
     prefix (hb_base c) (rq_url q) \<and> map_of (rq_headers q) ''x-tenant-id'' = Some (hb_tenant c) \<and>
     (bearer_sent q \<or> allow_local \<and> is_loopback_gateway_host ip6 (base_hostname (hb_base c)))"

lemma harbor_post_request:
  assumes ok: "client_ok ip6 env allow_local c" and run: "harbor_post c send path extra payload s = (out, s')"
    and extra: "''authorization'' \<notin> set (keys extra)" "''x-tenant-id'' \<notin> set (keys extra)"
  shows "(\<exists>e. out = Inl e \<and> authorization_header c s = (Inl e, s')) \<or>
         (\<exists>q s1. send q s1 = (out, s') \<and> request_of c ip6 allow_local q)"
proof (cases "authorization_header c s")
  case (Pair a s1)
  show ?thesis
  proof (cases a)
    case (Inl e)
    with run Pair show ?thesis by (simp add: harbor_post_def)
  next
    case (Inr auth)
    let ?hs = "dict_merge (dict_merge [(''content-type'', ''application/json''),
                                       (''x-tenant-id'', hb_tenant c)] auth) extra"
    let ?q = "\<lparr>rq_method = ''POST'', rq_url = hb_base c @ strip_slashes path, rq_headers = ?hs, rq_body = payload\<rparr>"
    have sent: "send ?q s1 = (out, s')" using run Pair Inr by (simp add: harbor_post_def)
    from Pair Inr have "authorization_header c s = (Inr auth, s1)" by simp
    then have "request_of c ip6 allow_local ?q"
    proof (cases rule: authorization_headerE)
      case (token tok)
      then show ?thesis using extra
        by (simp add: request_of_def bearer_sent_def dict_merge_lookup_absent)
           (simp add: dict_merge_def)
    next
      case nothing
      then show ?thesis using extra ok
        by (simp add: request_of_def client_ok_def dict_merge_lookup_absent)
    qed
    then show ?thesis using sent by blast
  qed
qed

text \<open>A direct Harbor client that could be constructed sends a POST only to a URL under its base,
  which is \<open>https\<close>, or \<open>http\<close> to an accepted host; the request names the client's tenant and
  carries a non-empty bearer token, unless the client was allowed to go without one and its base
  is a loopback host or looks like one; and when no request is sent, the token supplier failed.
\<close>

theorem direct_requests_authenticated:
  assumes "new_harbor_client ip6 env base tenant supplier static allow_local = Inr c"
    and "harbor_post c send path extra payload s = (out, s')"
    and "''authorization'' \<notin> set (keys extra)" "''x-tenant-id'' \<notin> set (keys extra)"
  shows "(\<exists>u. normalize_gateway_base_url ip6 env False (strip base) = Inr u \<and> hb_base c = u @ ''/'') \<and>
    ((\<exists>e. out = Inl e \<and> authorization_header c s = (Inl e, s')) \<or>
     (\<exists>q s1. send q s1 = (out, s') \<and> prefix (hb_base c) (rq_url q) \<and>
        map_of (rq_headers q) ''x-tenant-id'' = Some (strip tenant) \<and>
        (bearer_sent q \<or> allow_local \<and> is_loopback_gateway_host ip6 (base_hostname (hb_base c)))))"
  using new_client_ok[OF assms(1)] harbor_post_request[OF new_client_ok(1)[OF assms(1)] assms(2-4)]
  by (auto simp: request_of_def)

definition sample_harbor_client :: "http_request list harbor_client" where
  "sample_harbor_client =
     \<lparr>hb_base = ''https://h/'', hb_tenant = ''t'', hb_static_bearer = Some ''k'', hb_supplier = None\<rparr>"

definition sample_transport :: "http_request list transport" where
  "sample_transport q s = (Inl (TransportError ''down''), s @ [q])"

theorem direct_requests_authenticated_witness:
  "\<exists>q s1. sample_transport q s1 = harbor_post sample_harbor_client sample_transport ''verify'' [] JNull [] \<and>
     prefix ''https://h/'' (rq_url q) \<and> bearer_sent q"
proof -
  have url: "normalize_gateway_base_url (\<lambda>h. None) [] False (strip '' https://h/ '') = Inr ''https://h''"
    and strips: "strip ''t'' = ''t''" "strip ''k'' = ''k''"
    by code_simp+
  have new: "new_harbor_client (\<lambda>h. None) [] '' https://h/ '' ''t'' None (Some ''k'') False = Inr sample_harbor_client"
    unfolding new_harbor_client_def url by (simp add: strips sample_harbor_client_def)
  have run: "harbor_post sample_harbor_client sample_transport ''verify'' [] JNull [] =
    (fst (harbor_post sample_harbor_client sample_transport ''verify'' [] JNull []),
     snd (harbor_post sample_harbor_client sample_transport ''verify'' [] JNull []))" by simp
  have "authorization_header sample_harbor_client [] = (Inr [(''authorization'', ''Bearer k'')], [])"
    by (simp add: authorization_header_def sample_harbor_client_def)
  then show ?thesis
    using direct_requests_authenticated[OF new run] by (auto simp: sample_harbor_client_def)
qed

end
