(* ===== verification/Protocol_Calls.thy ===== *)
theory Protocol_Calls
  imports Protocol_Client Signal_Standard
begin

text \<open>
  What the protocol client sends with a mutation and what its reads hand out.
\<close>

section \<open>Recognition proofs on the wire\<close>

text \<open>The value of a header of a request, compared without case, when there is exactly one.\<close>

definition sole_header :: "http_request \<Rightarrow> string \<Rightarrow> string option" where
  "sole_header q name = (case header_list (rq_headers q) name of [v] \<Rightarrow> Some v | _ \<Rightarrow> None)"

definition proof_header :: string where
  "proof_header = ''x-paybond-agent-recognition-proof''"

text \<open>The same mutation by its four names.\<close>

datatype mutation =
    CreateIntent "(string, json) dict"
  | FundIntent string "string option"
  | SubmitEvidence string "(string, json) dict"
  | ConfirmSettlement string "(string, json) dict"

definition run_mutation ::
  "protocol_client \<Rightarrow> 's transport \<Rightarrow> mutation \<Rightarrow> (string, json) dict \<Rightarrow> string option \<Rightarrow> 's \<Rightarrow>
   (protocol_error + (string, json) dict) \<times> 's" where
  "run_mutation c send m p k = (case m of
       CreateIntent body \<Rightarrow> create_harbor_intent c send body p k
     | FundIntent i sig \<Rightarrow> fund_harbor_intent c send i p sig k
     | SubmitEvidence i body \<Rightarrow> submit_harbor_evidence_by_proof c send i body p k
     | ConfirmSettlement i body \<Rightarrow> confirm_harbor_settlement c send i body p k)"

definition mutation_path :: "mutation \<Rightarrow> string" where
  "mutation_path m = (case m of
       CreateIntent _ \<Rightarrow> ''harbor/intents''
     | FundIntent i _ \<Rightarrow> ''harbor/intents/'' @ url_quote i @ ''/fund''
     | SubmitEvidence i _ \<Rightarrow> ''harbor/intents/'' @ url_quote i @ ''/evidence''
     | ConfirmSettlement i _ \<Rightarrow> ''harbor/intents/'' @ url_quote i @ ''/settlement/confirm'')"

definition mutation_extra :: "mutation \<Rightarrow> http_headers" where
  "mutation_extra m = (case m of
       FundIntent _ sig \<Rightarrow> (case nonblank sig of Some p \<Rightarrow> [(''payment-signature'', strip p)] | None \<Rightarrow> [])
     | _ \<Rightarrow> [])"

definition mutation_body :: "mutation \<Rightarrow> (string, json) dict" where
  "mutation_body m = (case m of
       CreateIntent b \<Rightarrow> b | FundIntent _ _ \<Rightarrow> [] | SubmitEvidence _ b \<Rightarrow> b | ConfirmSettlement _ b \<Rightarrow> b)"

lemma run_mutation_conv:
  "run_mutation c send m p k s = gateway_mutation c send (mutation_path m) (mutation_body m) p k (mutation_extra m) s"
  by (cases m) (simp_all add: run_mutation_def mutation_path_def mutation_body_def mutation_extra_def
      create_harbor_intent_def fund_harbor_intent_def submit_harbor_evidence_by_proof_def
      confirm_harbor_settlement_def)

lemma mutation_path_kept: "strip_slashes (mutation_path m) = mutation_path m"
  by (cases m) (simp_all add: mutation_path_def strip_slashes_def)

definition mutation_request ::
  "protocol_client \<Rightarrow> mutation \<Rightarrow> (string, json) dict \<Rightarrow> string option \<Rightarrow> http_request" where
  "mutation_request c m p k =
     \<lparr>rq_method = ''POST'', rq_url = pc_base c @ mutation_path m,
      rq_headers =
        [(''accept'', ''application/json''), (''x-tenant-id'', pc_tenant c), (''content-type'', ''application/json'')]
        @ (case pc_bearer c of Some t \<Rightarrow> [(''authorization'', ''Bearer '' @ t)] | None \<Rightarrow> [])
        @ mutation_extra m @ [(proof_header, encode_recognition_proof_header p)]
        @ (case nonblank k of Some v \<Rightarrow> [(''idempotency-key'', strip v)] | None \<Rightarrow> []),
      rq_body = JObj (mutation_body m)\<rparr>"

lemma mutation_extra_cases: "mutation_extra m = [] \<or> (\<exists>x. mutation_extra m = [(''payment-signature'', x)])"
  by (simp add: mutation_extra_def split: mutation.split option.split)

lemma run_mutation_sends:
  "\<exists>r. send (mutation_request c m p k) s = (r, snd (run_mutation c send m p k s)) \<and>
       fst (run_mutation c send m p k s) = rbind (map_sum ProtocolRaised id r) (protocol_object ''gateway mutation'')"
proof -
  define hs where "hs = (case nonblank k of
      Some v \<Rightarrow> AList.update ''idempotency-key'' (strip v)
                  (AList.update proof_header (encode_recognition_proof_header p) (mutation_extra m))
    | None \<Rightarrow> AList.update proof_header (encode_recognition_proof_header p) (mutation_extra m))"
  have headers: "dict_merge (protocol_headers c (Some ''application/json'')) hs = rq_headers (mutation_request c m p k)"
    using mutation_extra_cases[of m] unfolding hs_def mutation_request_def protocol_headers_def dict_merge_def proof_header_def
    by (cases "pc_bearer c"; cases "nonblank k"; elim disjE exE; simp)
  have q: "mutation_request c m p k = \<lparr>rq_method = ''POST'', rq_url = pc_base c @ strip_slashes (mutation_path m),
      rq_headers = dict_merge (protocol_headers c (map_option (\<lambda>_. ''application/json'') (Some (mutation_body m)))) hs,
      rq_body = (case Some (mutation_body m) of Some b \<Rightarrow> JObj b | None \<Rightarrow> JNull)\<rparr>"
    unfolding mutation_path_kept option.case option.map headers by (simp add: mutation_request_def)
  show ?thesis
    unfolding run_mutation_conv gateway_mutation_def Let_def hs_def[unfolded proof_header_def, symmetric] protocol_request_def
      q[symmetric]
    by (simp split: prod.split)
qed

definition mutation_intent :: "mutation \<Rightarrow> string option" where
  "mutation_intent m = (case m of
       CreateIntent _ \<Rightarrow> None | FundIntent i _ \<Rightarrow> Some i | SubmitEvidence i _ \<Rightarrow> Some i
     | ConfirmSettlement i _ \<Rightarrow> Some i)"

lemma mutation_path_intent:
  assumes "mutation_path m = mutation_path m'"
  shows "mutation_intent m = mutation_intent m'"
proof -
  have quoted: "j = i" if "url_quote j @ ''/'' @ q = url_quote i @ ''/'' @ p" for i j p q
    using that by (rule quoted_segment_unique)
  define stem where "stem = ''harbor/intents''"
  have shape: "(mutation_intent n = None \<and> mutation_path n = stem) \<or>
      (\<exists>i p. mutation_intent n = Some i \<and> mutation_path n = stem @ ''/'' @ url_quote i @ ''/'' @ p)" for n
    by (cases n) (simp_all add: mutation_path_def mutation_intent_def stem_def)
  show ?thesis
  proof (cases "mutation_intent m")
    case None
    then show ?thesis using shape[of m] shape[of m'] assms by auto
  next
    case (Some i)
    then obtain p where p: "mutation_path m = stem @ ''/'' @ url_quote i @ ''/'' @ p"
      using shape[of m] by auto
    with shape[of m'] assms obtain j r where "mutation_intent m' = Some j"
      and r: "mutation_path m' = stem @ ''/'' @ url_quote j @ ''/'' @ r" by auto
    moreover have "j = i" using r p assms by (intro quoted[of j r i p]) simp
    ultimately show ?thesis using Some by simp
  qed
qed

lemma header_parts:
  "header_list [] n = []"
  "header_list ((k, v) # hs) n = (if lower k = lower n then [v] else []) @ header_list hs n"
  "header_list (hs @ hs') n = header_list hs n @ header_list hs' n"
  by (simp_all add: header_list_def)

lemma header_list_opt:
  "header_list (case x of None \<Rightarrow> [] | Some t \<Rightarrow> [(k, f t)]) n =
     (if lower k = lower n then (case x of None \<Rightarrow> [] | Some t \<Rightarrow> [f t]) else [])"
  by (cases x) (simp_all add: header_parts)

lemma header_names_apart:
  "(lower ''accept'' = lower ''x-paybond-agent-recognition-proof'') = False"
  "(lower ''x-tenant-id'' = lower ''x-paybond-agent-recognition-proof'') = False"
  "(lower ''content-type'' = lower ''x-paybond-agent-recognition-proof'') = False"
  "(lower ''authorization'' = lower ''x-paybond-agent-recognition-proof'') = False"
  "(lower ''payment-signature'' = lower ''x-paybond-agent-recognition-proof'') = False"
  "(lower ''idempotency-key'' = lower ''x-paybond-agent-recognition-proof'') = False"
  "(lower ''accept'' = lower ''x-tenant-id'') = False"
  "(lower ''content-type'' = lower ''x-tenant-id'') = False"
  "(lower ''authorization'' = lower ''x-tenant-id'') = False"
  "(lower ''payment-signature'' = lower ''x-tenant-id'') = False"
  "(lower ''x-paybond-agent-recognition-proof'' = lower ''x-tenant-id'') = False"
  "(lower ''idempotency-key'' = lower ''x-tenant-id'') = False"
  "(lower ''accept'' = lower ''idempotency-key'') = False"
  "(lower ''x-tenant-id'' = lower ''idempotency-key'') = False"
  "(lower ''content-type'' = lower ''idempotency-key'') = False"
  "(lower ''authorization'' = lower ''idempotency-key'') = False"
  "(lower ''payment-signature'' = lower ''idempotency-key'') = False"
  "(lower ''x-paybond-agent-recognition-proof'' = lower ''idempotency-key'') = False"
  "(lower ''accept'' = lower ''authorization'') = False"
  "(lower ''x-tenant-id'' = lower ''authorization'') = False"
  "(lower ''content-type'' = lower ''authorization'') = False"
  "(lower ''payment-signature'' = lower ''authorization'') = False"
  "(lower ''x-paybond-agent-recognition-proof'' = lower ''authorization'') = False"
  "(lower ''idempotency-key'' = lower ''authorization'') = False"
  by code_simp+

lemma mutation_extra_headers:
  assumes "lower n \<noteq> lower ''payment-signature''"
  shows "header_list (mutation_extra m) n = []"
  using mutation_extra_cases[of m] assms by (elim disjE exE) (auto simp: header_parts)

lemma mutation_request_headers:
  "sole_header (mutation_request c m p k) proof_header = Some (encode_recognition_proof_header p)"
  "sole_header (mutation_request c m p k) ''x-tenant-id'' = Some (pc_tenant c)"
  "sole_header (mutation_request c m p k) ''idempotency-key'' = map_option strip (nonblank k)"
  "sole_header (mutation_request c m p k) ''authorization'' = map_option (\<lambda>t. ''Bearer '' @ t) (pc_bearer c)"
proof -
  have absent: "header_list (mutation_extra m) ''x-tenant-id'' = []" "header_list (mutation_extra m) ''idempotency-key'' = []"
    "header_list (mutation_extra m) ''authorization'' = []"
    "header_list (mutation_extra m) ''x-paybond-agent-recognition-proof'' = []"
    by (rule mutation_extra_headers, code_simp)+
  note facts = sole_header_def mutation_request_def proof_header_def http_request.simps header_parts header_list_opt
    header_names_apart absent
    if_True if_False append_Nil append_Nil2 append.simps list.case refl simp_thms
  show "sole_header (mutation_request c m p k) proof_header = Some (encode_recognition_proof_header p)"
    "sole_header (mutation_request c m p k) ''x-tenant-id'' = Some (pc_tenant c)"
    by (simp_all only: facts)
  show "sole_header (mutation_request c m p k) ''idempotency-key'' = map_option strip (nonblank k)"
    by (cases "nonblank k") (simp_all only: facts option.case option.map)
  show "sole_header (mutation_request c m p k) ''authorization'' = map_option (\<lambda>t. ''Bearer '' @ t) (pc_bearer c)"
    by (cases "pc_bearer c") (simp_all only: facts option.case option.map)
qed

text \<open>C31: A mutation sends one POST, which carries the recognition proof in one header whose base64
  decodes to the JSON text of the proof, the client's tenant and bearer token, the stripped
  idempotency key exactly when a nonblank one was given, and the intent's id in a path that no
  mutation of another intent has; what is handed out is the object that the gateway answered it with.
\<close>

theorem mutations_carry_proof:
  assumes "run_mutation c send m p k s = (out, s')"
  shows "\<exists>q r h. send q s = (r, s') \<and> rq_method q = ''POST'' \<and> rq_body q = JObj (mutation_body m) \<and>
    sole_header q ''x-paybond-agent-recognition-proof'' = Some h \<and> b64_decode h = json_dumps_default (JObj p) \<and>
    sole_header q ''x-tenant-id'' = Some (pc_tenant c) \<and>
    sole_header q ''authorization'' = map_option (\<lambda>t. ''Bearer '' @ t) (pc_bearer c) \<and>
    sole_header q ''idempotency-key'' = map_option strip (nonblank k) \<and>
    (\<forall>m'. rq_url q = pc_base c @ mutation_path m' \<longrightarrow> mutation_intent m' = mutation_intent m) \<and>
    (\<forall>b. out = Inr b \<longrightarrow> (\<exists>a. r = Inr a \<and> hr_status a < 400 \<and> hr_json a = Some (JObj b)))"
proof -
  let ?q = "mutation_request c m p k"
  obtain r where r: "send ?q s = (r, s')" "out = rbind (map_sum ProtocolRaised id r) (protocol_object ''gateway mutation'')"
    using run_mutation_sends[of send c m p k s] assms by auto
  have out: "\<exists>a. r = Inr a \<and> hr_status a < 400 \<and> hr_json a = Some (JObj b)" if "out = Inr b" for b
    using that r(2) by (auto simp: rbind_Inr_iff map_sum_Inr protocol_object_Inr)
  have url: "rq_method ?q = ''POST''" "rq_body ?q = JObj (mutation_body m)" "rq_url ?q = pc_base c @ mutation_path m"
    by (simp_all add: mutation_request_def)
  have decoded: "b64_decode (encode_recognition_proof_header p) = json_dumps_default (JObj p)"
    by (simp only: encode_recognition_proof_header_def b64_decode_b64url)
  have same: "\<forall>m'. rq_url ?q = pc_base c @ mutation_path m' \<longrightarrow> mutation_intent m' = mutation_intent m"
    unfolding url(3) using mutation_path_intent by (metis same_append_eq)
  show ?thesis
    using r(1) url(1,2) mutation_request_headers[of c m p k, unfolded proof_header_def] decoded same out by blast
qed

definition sample_protocol_client :: protocol_client where
  "sample_protocol_client = \<lparr>pc_base = ''https://g/'', pc_tenant = ''t'', pc_bearer = Some ''k''\<rparr>"

theorem mutations_carry_proof_witness:
  "\<exists>q h. snd (run_mutation sample_protocol_client (answering (json_reply 200 [])) (FundIntent ''a/fund'' None)
            [(''nonce'', JStr ''n'')] None []) = [q] \<and>
     rq_url q = ''https://g/harbor/intents/a%2Ffund/fund'' \<and>
     sole_header q ''x-paybond-agent-recognition-proof'' = Some h \<and> b64_decode h = ''{\"nonce\": \"n\"}''"
proof -
  define st where "st = snd (run_mutation sample_protocol_client (answering (json_reply 200 [])) (FundIntent ''a/fund'' None)
    [(''nonce'', JStr ''n'')] None [])"
  define out where "out = fst (run_mutation sample_protocol_client (answering (json_reply 200 [])) (FundIntent ''a/fund'' None)
    [(''nonce'', JStr ''n'')] None [])"
  have run: "run_mutation sample_protocol_client (answering (json_reply 200 [])) (FundIntent ''a/fund'' None)
    [(''nonce'', JStr ''n'')] None [] = (out, st)" by (simp add: st_def out_def)
  have dumped: "json_dumps_default (JObj [(''nonce'', JStr ''n'')]) = ''{\"nonce\": \"n\"}''"
    and url: "List.map rq_url st = [''https://g/harbor/intents/a%2Ffund/fund'']"
    unfolding st_def by code_simp+
  obtain q h where q: "st = [q]" "sole_header q ''x-paybond-agent-recognition-proof'' = Some h"
      "b64_decode h = ''{\"nonce\": \"n\"}''"
    using mutations_carry_proof[OF run] dumped by (auto simp: answering_def)
  then show ?thesis using url unfolding st_def[symmetric] by auto
qed

section \<open>Reads\<close>

text \<open>A receipt read by its id is that receipt, of the client's tenant.\<close>

lemma receipt_read_bound:
  assumes "f \<in> {get_settlement_receipt_v1, get_agent_receipt_v1_by_id}" "f c send receipt_id s = (Inr b, s')"
  shows "strip (str_get b ''receipt_id'') = receipt_id" "strip (str_get b ''tenant_id'') = pc_tenant c"
  using assms
  by (auto simp: get_settlement_receipt_v1_def get_agent_receipt_v1_by_id_def receipt_read_def Let_def res_iff
      split: prod.splits)

text \<open>
  A receipt looked up by intent and tool call is of the client's tenant, but may be about another
  intent and another call.
\<close>

definition other_receipt :: "(string, json) dict" where
  "other_receipt = [(''tenant_id'', JStr ''t''), (''references'', JObj [(''intent_id'', JStr ''other'')])]"

lemma lookup_not_bound:
  "fst (get_agent_receipt_v1_by_intent_tool_call sample_protocol_client (answering (json_reply 200 other_receipt))
          ''mine'' ''call'' []) = Inr other_receipt"
  by code_simp

end
