(* ===== verification/Plaid_Client.thy ===== *)
theory Plaid_Client
  imports Protocol_Client
begin

text \<open>
  The operator's bank helpers of \<open>plaid.py\<close>: reading the tenant's linked banks, the readiness of
  a bank and the ACH funding of an intent from one, with the checks on what goes in and comes out.
  The ellipsis in the message about secret material, which is not a Latin-1 character, is written
  as three dots.
\<close>

section \<open>Readiness\<close>

definition PLAID_READINESS_REASONS :: "string list" where
  "PLAID_READINESS_REASONS =
     [''ready'', ''pending_automatic_verification'', ''attach_pending'', ''attach_retryable'', ''attach_failed'',
      ''relink_required'', ''revoked'', ''verification_expired'', ''error'', ''not_ready'', ''risk_check_required'',
      ''risk_check_failed'', ''feature_disabled'', ''production_not_allowlisted'', ''plaid_bank_not_found'',
      ''plaid_bank_not_ready'', ''plaid_bank_relink_required'', ''stripe_bank_token_pi_not_enabled'']"

definition GENERIC_REASON_CODES :: "string list" where
  "GENERIC_REASON_CODES = [''ready'', ''error'', ''not_ready'']"

definition READINESS_MESSAGES :: "(string, string) dict" where
  "READINESS_MESSAGES =
     [(''ready'', ''Bank is ready for ACH debit.''),
      (''pending_automatic_verification'',
       ''Pending micro-deposit verification; ACH debit is blocked until Plaid verifies.''),
      (''attach_pending'', ''Stripe attach is in progress; refresh shortly.''),
      (''attach_retryable'', ''Stripe attach incomplete; retry attach or refresh.''),
      (''attach_failed'', ''Stripe attach failed; relink the bank or use Financial Connections.''),
      (''relink_required'', ''Bank login required; use Relink (Plaid Link update mode).''),
      (''plaid_bank_relink_required'', ''Bank login required; use Relink (Plaid Link update mode).''),
      (''revoked'', ''Revoked; link a new bank or use Financial Connections.''),
      (''verification_expired'', ''Verification expired; relink required.''),
      (''error'', ''Bank link error; relink or use Financial Connections.''),
      (''risk_check_required'', ''Additional risk checks are required before ACH debit.''),
      (''risk_check_failed'', ''Risk checks failed; use Financial Connections or contact support.''),
      (''feature_disabled'', ''Plaid Auth is disabled on this deployment.''),
      (''production_not_allowlisted'', ''Plaid Auth is not enabled for this tenant.''),
      (''plaid_bank_not_found'', ''Linked bank not found.''),
      (''plaid_bank_not_ready'', ''Linked bank is not ready for ACH debit.''),
      (''stripe_bank_token_pi_not_enabled'',
       ''Stripe Payment Intents for Plaid bank tokens are not enabled on this platform account.'')]"

definition plaid_readiness_message :: "string option \<Rightarrow> string" where
  "plaid_readiness_message reason_code =
     (case map_of READINESS_MESSAGES (strip (case reason_code of Some s \<Rightarrow> s | None \<Rightarrow> [])) of
        Some m \<Rightarrow> m | None \<Rightarrow> ''Not ready for ACH debit.'')"

section \<open>Errors and secret material\<close>

datatype plaid_error =
    PlaidOperatorError string
  | PlaidSecretMaterialError string
  | PlaidOperatorHttpError string int "string option"  \<comment> \<open>message, status, reason code\<close>
  | PlaidBankNotFoundError string  \<comment> \<open>the bank's id\<close>
  | PlaidBankNotReadyError string string  \<comment> \<open>the bank's id, its readiness reason\<close>
  | PlaidRaised exn

definition plaid_error_str :: "plaid_error \<Rightarrow> string" where
  "plaid_error_str e = (case e of
       PlaidOperatorError m \<Rightarrow> m | PlaidSecretMaterialError m \<Rightarrow> m | PlaidOperatorHttpError m _ _ \<Rightarrow> m
     | PlaidBankNotFoundError b \<Rightarrow> ''linked bank not found: '' @ b
     | PlaidBankNotReadyError b r \<Rightarrow>
         ''linked bank '' @ b @ '' is not ready for ACH debit ('' @ r @ ''): '' @ plaid_readiness_message (Some r)
     | PlaidRaised x \<Rightarrow> exn_str x)"

definition SECRET_VALUE_PREFIXES :: "string list" where
  "SECRET_VALUE_PREFIXES = [''public-'', ''access-'', ''link-'', ''processor-'', ''btok_'', ''pk_'', ''sk_'']"

definition assert_no_secret_material :: "string \<Rightarrow> string \<Rightarrow> plaid_error + unit" where
  "assert_no_secret_material v fname =
     (case List.find (startswith (lower (strip v))) SECRET_VALUE_PREFIXES of
        None \<Rightarrow> Inr ()
      | Some p \<Rightarrow> Inl (PlaidSecretMaterialError
          (fname @ '' looks like Plaid Link or Stripe token material ('' @ p @ ''...); '' @
           ''Paybond never accepts Link tokens, public tokens, access tokens, or '' @
           ''processor tokens outside the server-side Gateway exchange'')))"

datatype id_argument = IdText string | IdUuid uuid

definition coerce_uuid :: "id_argument \<Rightarrow> string \<Rightarrow> plaid_error + uuid" where
  "coerce_uuid v fname = (case v of
       IdUuid u \<Rightarrow> Inr u
     | IdText t \<Rightarrow>
         rbind (ensure (strip t \<noteq> []) (PlaidOperatorError (fname @ '' is required''))) (\<lambda>_.
         rbind (assert_no_secret_material (strip t) fname) (\<lambda>_.
         case parse_uuid (strip t) of
           Some u \<Rightarrow> Inr u
         | None \<Rightarrow> Inl (PlaidOperatorError (fname @ '' must be a canonical UUID'')))))"

section \<open>Bank accounts\<close>

definition SAFE_BANK_FIELDS :: "string list" where
  "SAFE_BANK_FIELDS =
     [''id'', ''environment'', ''institution_id'', ''verification_status'', ''auth_method'', ''bank_name'',
      ''bank_mask'', ''bank_last4'', ''account_type'', ''account_subtype'', ''status'', ''ready'',
      ''readiness_reason'', ''stripe_attach_status'', ''stripe_attach_error_code'', ''relink_required'',
      ''bank_link_source'', ''created_at'', ''updated_at'']"

definition FORBIDDEN_PUBLIC_FIELDS :: "string list" where
  "FORBIDDEN_PUBLIC_FIELDS =
     [''access_token'', ''public_token'', ''link_token'', ''processor_token'', ''bank_account_token'',
      ''stripe_bank_account_token'', ''capability_token'', ''client_secret'', ''item_access_token'',
      ''account_number'', ''routing_number'', ''wire_routing_number'', ''identity'', ''identity_match'',
      ''owners'', ''balances'', ''available_balance'', ''current_balance'']"

definition assert_no_plaid_secret_fields :: "(string, json) dict \<Rightarrow> string \<Rightarrow> plaid_error + unit" where
  "assert_no_plaid_secret_fields payload source =
     (let leaked = sort (filter (\<lambda>f. f \<in> set (keys payload)) FORBIDDEN_PUBLIC_FIELDS)
      in ensure (leaked = []) (PlaidSecretMaterialError
           (source @ '' public representation would leak forbidden field(s): '' @ py_join '', '' leaked)))"

record plaid_bank =
  pb_id :: string
  pb_environment :: string
  pb_ready :: bool
  pb_status :: string
  pb_verification_status :: string
  pb_readiness_reason :: "string option"
  pb_institution_id :: "string option"
  pb_auth_method :: "string option"
  pb_bank_name :: "string option"
  pb_bank_mask :: "string option"
  pb_bank_last4 :: "string option"
  pb_account_type :: "string option"
  pb_account_subtype :: "string option"
  pb_stripe_attach_status :: "string option"
  pb_stripe_attach_error_code :: "string option"
  pb_relink_required :: bool
  pb_bank_link_source :: "string option"
  pb_created_at :: "string option"
  pb_updated_at :: "string option"

definition readiness_message :: "plaid_bank \<Rightarrow> string" where
  "readiness_message b = plaid_readiness_message (if pb_ready b then Some ''ready'' else pb_readiness_reason b)"

definition json_opt :: "string option \<Rightarrow> json" where
  "json_opt v = (case v of Some s \<Rightarrow> JStr s | None \<Rightarrow> JNull)"

definition bank_fields :: "plaid_bank \<Rightarrow> (string, json) dict" where
  "bank_fields b =
     [(''id'', JStr (pb_id b)), (''environment'', JStr (pb_environment b)), (''ready'', JBool (pb_ready b)),
      (''status'', JStr (pb_status b)), (''verification_status'', JStr (pb_verification_status b)),
      (''readiness_reason'', json_opt (pb_readiness_reason b)), (''readiness_message'', JStr (readiness_message b)),
      (''institution_id'', json_opt (pb_institution_id b)), (''auth_method'', json_opt (pb_auth_method b)),
      (''bank_name'', json_opt (pb_bank_name b)), (''bank_mask'', json_opt (pb_bank_mask b)),
      (''bank_last4'', json_opt (pb_bank_last4 b)), (''account_type'', json_opt (pb_account_type b)),
      (''account_subtype'', json_opt (pb_account_subtype b)),
      (''stripe_attach_status'', json_opt (pb_stripe_attach_status b)),
      (''stripe_attach_error_code'', json_opt (pb_stripe_attach_error_code b)),
      (''relink_required'', JBool (pb_relink_required b)), (''bank_link_source'', json_opt (pb_bank_link_source b)),
      (''created_at'', json_opt (pb_created_at b)), (''updated_at'', json_opt (pb_updated_at b))]"

definition bank_to_public_dict :: "plaid_bank \<Rightarrow> plaid_error + (string, json) dict" where
  "bank_to_public_dict b =
     rbind (assert_no_plaid_secret_fields (bank_fields b) ''PlaidBankAccount'') (\<lambda>_. Inr (bank_fields b))"

definition optional_plaid_string :: "json option \<Rightarrow> string option" where
  "optional_plaid_string v = (case v of
       Some (JStr s) \<Rightarrow> if strip s = [] then None else Some s
     | _ \<Rightarrow> None)"

definition string_or_unknown :: "json option \<Rightarrow> string" where
  "string_or_unknown v = (case optional_plaid_string v of Some s \<Rightarrow> s | None \<Rightarrow> ''unknown'')"

definition safe_fields :: "(string, json) dict \<Rightarrow> (string, json) dict" where
  "safe_fields raw = List.map_filter (\<lambda>k. map_option (Pair k) (map_of raw k)) SAFE_BANK_FIELDS"

definition parse_bank_account :: "(string, json) dict \<Rightarrow> plaid_error + plaid_bank" where
  "parse_bank_account raw =
     (let safe = safe_fields raw;
          opt = (\<lambda>k. optional_plaid_string (map_of safe k))
      in (case opt ''id'' of
            None \<Rightarrow> Inl (PlaidOperatorError ''gateway bank-account entry missing id'')
          | Some bank_id \<Rightarrow> Inr
             \<lparr>pb_id = bank_id,
              pb_environment = string_or_unknown (map_of safe ''environment''),
              pb_ready = (map_of safe ''ready'' = Some (JBool True)),
              pb_status = string_or_unknown (map_of safe ''status''),
              pb_verification_status = string_or_unknown (map_of safe ''verification_status''),
              pb_readiness_reason = opt ''readiness_reason'',
              pb_institution_id = opt ''institution_id'',
              pb_auth_method = opt ''auth_method'',
              pb_bank_name = opt ''bank_name'',
              pb_bank_mask = opt ''bank_mask'',
              pb_bank_last4 = opt ''bank_last4'',
              pb_account_type = opt ''account_type'',
              pb_account_subtype = opt ''account_subtype'',
              pb_stripe_attach_status = opt ''stripe_attach_status'',
              pb_stripe_attach_error_code = opt ''stripe_attach_error_code'',
              pb_relink_required = (map_of safe ''relink_required'' = Some (JBool True)),
              pb_bank_link_source = opt ''bank_link_source'',
              pb_created_at = opt ''created_at'',
              pb_updated_at = opt ''updated_at''\<rparr>))"

record plaid_inventory =
  pi_tenant_id :: string
  pi_environment :: string
  pi_bank_accounts :: "plaid_bank list"

definition ready_bank_accounts :: "plaid_inventory \<Rightarrow> plaid_bank list" where
  "ready_bank_accounts i = filter pb_ready (pi_bank_accounts i)"

definition inventory_to_public_dict :: "plaid_inventory \<Rightarrow> plaid_error + (string, json) dict" where
  "inventory_to_public_dict i =
     rbind (rmap bank_to_public_dict (pi_bank_accounts i)) (\<lambda>banks.
     let payload = [(''tenant_id'', JStr (pi_tenant_id i)), (''environment'', JStr (pi_environment i)),
                    (''bank_accounts'', JArr (List.map JObj banks)), (''count'', JInt (int (length (pi_bank_accounts i))))]
     in rbind (assert_no_plaid_secret_fields payload ''PlaidBankInventory'') (\<lambda>_. Inr payload))"

section \<open>Reason codes of error bodies\<close>

text \<open>The pattern \<open>(?<![a-z0-9_])reason(?![a-z0-9_])\<close> anywhere in the text.\<close>

definition code_char :: "char \<Rightarrow> bool" where
  "code_char c \<longleftrightarrow> is_lower c \<or> is_digit c \<or> c = CHR ''_''"

fun code_in :: "string \<Rightarrow> bool \<Rightarrow> string \<Rightarrow> bool" where
  "code_in code after_code_char text' =
     (\<not> after_code_char \<and> startswith text' code \<and>
        (case drop (length code) text' of [] \<Rightarrow> True | c # _ \<Rightarrow> \<not> code_char c) \<or>
      (case text' of [] \<Rightarrow> False | c # cs \<Rightarrow> code_in code (code_char c) cs))"

definition reason_code_from_error_body :: "string \<Rightarrow> string option" where
  "reason_code_from_error_body body_text =
     (let lowered = lower (strip body_text)
      in if lowered = [] then None
         else List.find (\<lambda>reason. reason \<notin> set GENERIC_REASON_CODES \<and> code_in reason False lowered)
                PLAID_READINESS_REASONS)"

section \<open>The calls\<close>

definition BANK_ACCOUNTS_PATH :: string where
  "BANK_ACCOUNTS_PATH = ''/v1/admin/plaid/bank-accounts''"

definition plaid_headers :: "gateway_client \<Rightarrow> string option \<Rightarrow> http_headers" where
  "plaid_headers c idempotency_key =
     [(''accept'', ''application/json''), (''content-type'', ''application/json''),
      (''authorization'', ''Bearer '' @ gc_bearer c)]
     @ (case nonblank idempotency_key of Some k \<Rightarrow> [(''idempotency-key'', strip k)] | None \<Rightarrow> [])"

definition plaid_get ::
  "gateway_client \<Rightarrow> 's transport \<Rightarrow> string \<Rightarrow> 's \<Rightarrow> (plaid_error + fund_response) \<times> 's" where
  "plaid_get c send path s =
     (let (out, s') = send \<lparr>rq_method = ''GET'', rq_url = gc_base c @ path,
                            rq_headers = plaid_headers c None, rq_body = JNull\<rparr> s
      in (map_sum PlaidRaised id out, s'))"

definition plaid_http_error :: "string \<Rightarrow> fund_response \<Rightarrow> plaid_error" where
  "plaid_http_error what r =
     PlaidOperatorHttpError (what @ '' HTTP '' @ str_int (hr_status r)) (hr_status r)
       (reason_code_from_error_body (hr_text r))"

definition plaid_object :: "string \<Rightarrow> fund_response \<Rightarrow> plaid_error + (string, json) dict" where
  "plaid_object what r =
     (if hr_status r \<ge> 400 then Inl (plaid_http_error what r)
      else (case hr_json r of
          None \<Rightarrow> Inl (PlaidRaised (ValueError ''JSONDecodeError''))
        | Some (JObj b) \<Rightarrow> Inr b
        | Some _ \<Rightarrow> Inl (PlaidOperatorHttpError (what @ '' response was not a JSON object'') (hr_status r) None)))"

text \<open>
  What the loop over \<open>body.get("bank_accounts", [])\<close> meets: only a list has entries that are
  objects, a dictionary yields its keys and a text its characters, and the rest is not iterable.
\<close>

definition bank_entries :: "json option \<Rightarrow> plaid_error + (string, json) dict list" where
  "bank_entries v = (case v of
       None \<Rightarrow> Inr []
     | Some (JArr l) \<Rightarrow> Inr (List.map_filter (\<lambda>j. case j of JObj d \<Rightarrow> Some d | _ \<Rightarrow> None) l)
     | Some (JObj _) \<Rightarrow> Inr []
     | Some (JStr _) \<Rightarrow> Inr []
     | Some j \<Rightarrow> Inl (PlaidRaised (TypeError (''object is not iterable: '' @ json_repr j))))"

definition list_bank_accounts ::
  "gateway_client \<Rightarrow> 's transport \<Rightarrow> bool \<Rightarrow> 's \<Rightarrow> (plaid_error + plaid_inventory) \<times> 's" where
  "list_bank_accounts c send ready_only s =
     (let (out, s') = plaid_get c send (strip_slashes BANK_ACCOUNTS_PATH) s
      in (rbind out (\<lambda>r.
          rbind (plaid_object ''Gateway Plaid bank-accounts'' r) (\<lambda>b.
          rbind (bank_entries (map_of b ''bank_accounts'')) (\<lambda>entries.
          rbind (rmap parse_bank_account entries) (\<lambda>banks.
          Inr \<lparr>pi_tenant_id = gc_tenant c, pi_environment = string_or_unknown (map_of b ''environment''),
               pi_bank_accounts = (if ready_only then filter pb_ready banks else banks)\<rparr>)))), s'))"

definition bank_path :: "uuid \<Rightarrow> string" where
  "bank_path bank = strip_slashes BANK_ACCOUNTS_PATH @ ''/'' @ url_quote (uuid_str bank)"

text \<open>The answer to the request for one bank: a 404 names the feature that is off, or no such bank.\<close>

definition bank_answer :: "uuid \<Rightarrow> fund_response \<Rightarrow> plaid_error + plaid_bank" where
  "bank_answer bank r =
     (if hr_status r = 404 \<and> reason_code_from_error_body (hr_text r) \<in> {None, Some ''plaid_bank_not_found''}
      then Inl (PlaidBankNotFoundError (uuid_str bank))
      else rbind (plaid_object ''Gateway Plaid bank-account'' r) (\<lambda>b.
           rbind (parse_bank_account b) (\<lambda>p.
           rbind (ensure (pb_id p = uuid_str bank)
                   (PlaidOperatorHttpError (''Gateway Plaid bank-account id mismatch: requested='' @ uuid_str bank @
                      '' gateway='' @ pb_id p) (hr_status r) None)) (\<lambda>_. Inr p))))"

definition get_bank ::
  "gateway_client \<Rightarrow> 's transport \<Rightarrow> uuid \<Rightarrow> 's \<Rightarrow> (plaid_error + plaid_bank) \<times> 's" where
  "get_bank c send bank s =
     (let (out, s') = plaid_get c send (bank_path bank) s in (rbind out (bank_answer bank), s'))"

definition get_bank_account ::
  "gateway_client \<Rightarrow> 's transport \<Rightarrow> id_argument \<Rightarrow> 's \<Rightarrow> (plaid_error + plaid_bank) \<times> 's" where
  "get_bank_account c send bank_account_id s =
     (case coerce_uuid bank_account_id ''bank_account_id'' of
        Inl e \<Rightarrow> (Inl e, s)
      | Inr bank \<Rightarrow> get_bank c send bank s)"

record ach_funding =
  af_tenant_id :: string
  af_intent_id :: uuid
  af_plaid_bank_account_id :: uuid
  af_state :: string
  af_funded :: bool
  af_settlement_rail :: string
  af_currency :: string
  af_amount_cents :: int
  af_status_code :: int
  af_stripe_payment_intent_id :: "string option"
  af_expected_debit_date :: "string option"

definition ach_funding_to_public_dict :: "ach_funding \<Rightarrow> plaid_error + (string, json) dict" where
  "ach_funding_to_public_dict a =
     (let payload =
        [(''tenant_id'', JStr (af_tenant_id a)), (''intent_id'', JStr (uuid_str (af_intent_id a))),
         (''plaid_bank_account_id'', JStr (uuid_str (af_plaid_bank_account_id a))),
         (''state'', JStr (af_state a)), (''funded'', JBool (af_funded a)),
         (''settlement_rail'', JStr (af_settlement_rail a)), (''currency'', JStr (af_currency a)),
         (''amount_cents'', JInt (af_amount_cents a)), (''status_code'', JInt (af_status_code a)),
         (''stripe_payment_intent_id'', json_opt (af_stripe_payment_intent_id a)),
         (''expected_debit_date'', json_opt (af_expected_debit_date a))]
      in rbind (assert_no_plaid_secret_fields payload ''PlaidAchFundingResult'') (\<lambda>_. Inr payload))"

definition missing_in_funding :: "string \<Rightarrow> int \<Rightarrow> plaid_error" where
  "missing_in_funding what st =
     PlaidOperatorHttpError (''Gateway Plaid ACH fund response missing '' @ what) st None"

definition parse_funding_result ::
  "gateway_client \<Rightarrow> uuid \<Rightarrow> uuid \<Rightarrow> int \<Rightarrow> (string, json) dict \<Rightarrow> plaid_error + ach_funding" where
  "parse_funding_result c intent bank st b =
     (let tenant = strip (str_get b ''tenant'')
      in rbind (ensure (tenant = gc_tenant c)
                 (PlaidRaised (TenantBindingError (''plaid ach fund tenant mismatch: client='' @
                    py_repr (gc_tenant c) @ '' gateway='' @ py_repr tenant)))) (\<lambda>_.
         rbind (case parse_uuid (strip (str_get b ''intent_id'')) of
                  None \<Rightarrow> Inl (missing_in_funding ''intent_id'' st) | Some u \<Rightarrow> Inr u) (\<lambda>echoed.
         rbind (ensure (echoed = intent)
                 (PlaidRaised (TenantBindingError (''plaid ach fund intent mismatch: requested='' @
                    uuid_str intent @ '' gateway='' @ uuid_str echoed)))) (\<lambda>_.
         case (optional_plaid_string (map_of b ''state''), optional_plaid_string (map_of b ''settlement_rail''),
               optional_plaid_string (map_of b ''currency'')) of
           (Some state, Some rail, Some currency) \<Rightarrow>
             (case map_of b ''amount_cents'' of
                Some (JInt amount) \<Rightarrow>
                  (let funding = (case map_of b ''funding'' of Some (JObj f) \<Rightarrow> f | _ \<Rightarrow> [])
                   in Inr \<lparr>af_tenant_id = tenant, af_intent_id = echoed, af_plaid_bank_account_id = bank,
                           af_state = state, af_funded = (map_of b ''funded'' = Some (JBool True)),
                           af_settlement_rail = rail, af_currency = currency, af_amount_cents = amount,
                           af_status_code = st,
                           af_stripe_payment_intent_id = optional_plaid_string (map_of funding ''stripe_payment_intent_id''),
                           af_expected_debit_date = optional_plaid_string (map_of funding ''expected_debit_date'')\<rparr>)
              | _ \<Rightarrow> Inl (missing_in_funding ''amount_cents'' st))
         | _ \<Rightarrow> Inl (missing_in_funding ''state/settlement_rail/currency'' st)))))"

definition ach_fund_request :: "gateway_client \<Rightarrow> uuid \<Rightarrow> uuid \<Rightarrow> string option \<Rightarrow> http_request" where
  "ach_fund_request c intent bank idempotency_key =
     \<lparr>rq_method = ''POST'',
      rq_url = gc_base c @ ''v1/admin/settlement/stripe/ach/intents/'' @ url_quote (uuid_str intent) @ ''/fund'',
      rq_headers = plaid_headers c idempotency_key,
      rq_body = JObj [(''plaid_bank_account_id'', JStr (uuid_str bank))]\<rparr>"

definition post_ach_fund ::
  "gateway_client \<Rightarrow> 's transport \<Rightarrow> uuid \<Rightarrow> uuid \<Rightarrow> string option \<Rightarrow> 's \<Rightarrow> (plaid_error + ach_funding) \<times> 's" where
  "post_ach_fund c send intent bank idempotency_key s =
     (let (out, s') = send (ach_fund_request c intent bank idempotency_key) s
      in (rbind (map_sum PlaidRaised id out) (\<lambda>r.
          rbind (plaid_object ''Gateway Plaid ACH fund'' r) (\<lambda>b.
          parse_funding_result c intent bank (hr_status r) b)), s'))"

text \<open>A bank that is not ready, unless it is not to be asked.\<close>

definition require_ready_bank ::
  "gateway_client \<Rightarrow> 's transport \<Rightarrow> uuid \<Rightarrow> bool \<Rightarrow> 's \<Rightarrow> (plaid_error + unit) \<times> 's" where
  "require_ready_bank c send bank require_ready s =
     (if \<not> require_ready then (Inr (), s)
      else let (out, s') = get_bank c send bank s
           in (rbind out (\<lambda>b. ensure (pb_ready b)
                 (PlaidBankNotReadyError (pb_id b)
                    (case pb_readiness_reason b of Some r \<Rightarrow> r | None \<Rightarrow> ''not_ready''))), s'))"

definition fund_ach_intent_with_bank ::
  "gateway_client \<Rightarrow> 's transport \<Rightarrow> id_argument \<Rightarrow> id_argument \<Rightarrow> bool \<Rightarrow> string option \<Rightarrow> 's \<Rightarrow>
   (plaid_error + ach_funding) \<times> 's" where
  "fund_ach_intent_with_bank c send intent_id bank_id require_ready idempotency_key s =
     (case rbind (coerce_uuid intent_id ''intent_id'') (\<lambda>i.
           rbind (coerce_uuid bank_id ''plaid_bank_account_id'') (\<lambda>b. Inr (i, b))) of
        Inl e \<Rightarrow> (Inl e, s)
      | Inr (intent, bank) \<Rightarrow>
          (case require_ready_bank c send bank require_ready s of
             (Inl e, s1) \<Rightarrow> (Inl e, s1)
           | (Inr _, s1) \<Rightarrow> post_ach_fund c send intent bank idempotency_key s1))"

text \<open>The two module helpers, which open a session for the key first.\<close>

definition plaid_raised :: "client_error \<Rightarrow> plaid_error" where
  "plaid_raised e = (case e of KitError x \<Rightarrow> PlaidRaised x | HttpFailure m n \<Rightarrow> PlaidOperatorHttpError m n None)"

definition list_plaid_banks ::
  "(string \<Rightarrow> bool option) \<Rightarrow> string \<Rightarrow> 's transport \<Rightarrow> string \<Rightarrow> string \<Rightarrow> string option \<Rightarrow> bool \<Rightarrow> 's \<Rightarrow>
   (plaid_error + plaid_inventory) \<times> 's" where
  "list_plaid_banks ip6 env send base api_key expected ready_only s =
     (case open_session ip6 env send base api_key ''/v1/auth/principal'' expected s of
        (Inl e, s1) \<Rightarrow> (Inl (plaid_raised e), s1)
      | (Inr c, s1) \<Rightarrow> list_bank_accounts c send ready_only s1)"

definition fund_ach_with_plaid_bank ::
  "(string \<Rightarrow> bool option) \<Rightarrow> string \<Rightarrow> 's transport \<Rightarrow> string \<Rightarrow> string \<Rightarrow> string option \<Rightarrow> id_argument \<Rightarrow> id_argument \<Rightarrow>
   bool \<Rightarrow> string option \<Rightarrow> 's \<Rightarrow> (plaid_error + ach_funding) \<times> 's" where
  "fund_ach_with_plaid_bank ip6 env send base api_key expected intent_id bank_id require_ready idempotency_key s =
     (case open_session ip6 env send base api_key ''/v1/auth/principal'' expected s of
        (Inl e, s1) \<Rightarrow> (Inl (plaid_raised e), s1)
      | (Inr c, s1) \<Rightarrow> fund_ach_intent_with_bank c send intent_id bank_id require_ready idempotency_key s1)"

end
