(* ===== verification/Plaid_Standard.thy ===== *)
theory Plaid_Standard
  imports Plaid_Client Signal_Standard
begin

text \<open>
  What the bank helpers let through: which fields of the gateway's answers, which requests, and
  what must have been answered before an intent is funded.
\<close>

section \<open>Fields of a bank\<close>

lemma safe_fields_lookup: "map_of (safe_fields raw) k = (if k \<in> set SAFE_BANK_FIELDS then map_of raw k else None)"
proof -
  have "map_of (List.map_filter (\<lambda>k. map_option (Pair k) (map_of raw k)) ks) k =
      (if k \<in> set ks then map_of raw k else None)" for ks
    by (induction ks) (auto simp: List.map_filter_def split: option.splits)
  then show ?thesis by (simp add: safe_fields_def)
qed

lemma safe_fields_cong:
  assumes "\<forall>k \<in> set SAFE_BANK_FIELDS. map_of raw k = map_of raw' k"
  shows "safe_fields raw = safe_fields raw'"
  using assms by (simp add: safe_fields_def List.map_filter_def cong: map_cong filter_cong)

lemma parse_bank_cong:
  assumes "\<forall>k \<in> set SAFE_BANK_FIELDS. map_of raw k = map_of raw' k"
  shows "parse_bank_account raw = parse_bank_account raw'"
  using safe_fields_cong[OF assms] by (simp add: parse_bank_account_def)

lemma bank_public: "bank_to_public_dict b = Inr (bank_fields b)"
proof -
  have "set (keys (bank_fields b)) \<inter> set FORBIDDEN_PUBLIC_FIELDS = {}"
    by (simp add: bank_fields_def FORBIDDEN_PUBLIC_FIELDS_def)
  then have "filter (\<lambda>f. f \<in> set (keys (bank_fields b))) FORBIDDEN_PUBLIC_FIELDS = []"
    by (auto simp: filter_empty_conv)
  then show ?thesis by (simp add: bank_to_public_dict_def assert_no_plaid_secret_fields_def)
qed

text \<open>The values of a public dictionary: what the bank's safe field holds, or a word of the client's own.\<close>

definition own_words :: "string list" where
  "own_words = ''unknown'' # ''Not ready for ACH debit.'' # List.map snd READINESS_MESSAGES"

definition from_safe_field :: "(string, json) dict \<Rightarrow> json \<Rightarrow> bool" where
  "from_safe_field raw v \<longleftrightarrow>
     v = JNull \<or> (\<exists>b. v = JBool b) \<or> v \<in> JStr ` set own_words \<or> (\<exists>k \<in> set SAFE_BANK_FIELDS. map_of raw k = Some v)"

lemma optional_plaid_string_Some: "optional_plaid_string v = Some s \<Longrightarrow> v = Some (JStr s)"
  by (auto simp: optional_plaid_string_def split: option.splits json.splits if_splits)

lemma from_optional:
  "k \<in> set SAFE_BANK_FIELDS \<Longrightarrow> from_safe_field raw (json_opt (optional_plaid_string (map_of (safe_fields raw) k)))"
  by (cases "optional_plaid_string (map_of (safe_fields raw) k)")
     (auto simp: json_opt_def from_safe_field_def safe_fields_lookup dest!: optional_plaid_string_Some)

lemma from_unknown:
  "k \<in> set SAFE_BANK_FIELDS \<Longrightarrow> from_safe_field raw (JStr (string_or_unknown (map_of (safe_fields raw) k)))"
  by (cases "optional_plaid_string (map_of (safe_fields raw) k)")
     (auto simp: string_or_unknown_def from_safe_field_def safe_fields_lookup own_words_def dest!: optional_plaid_string_Some)

lemma message_own: "plaid_readiness_message r \<in> set own_words"
  by (auto simp: plaid_readiness_message_def own_words_def intro: rev_image_eqI dest!: map_of_SomeD split: option.splits)

lemma parsed_bank_fields:
  assumes "parse_bank_account raw = Inr p" "v \<in> snd ` set (bank_fields p)"
  shows "from_safe_field raw v"
proof -
  note known = SAFE_BANK_FIELDS_def
  obtain i where i: "optional_plaid_string (map_of (safe_fields raw) ''id'') = Some i" "pb_id p = i"
    using assms(1) by (auto simp: parse_bank_account_def Let_def split: option.splits)
  have "''id'' \<in> set SAFE_BANK_FIELDS" by (simp add: known)
  from from_optional[OF this, of raw] i have id: "from_safe_field raw (JStr (pb_id p))" by (simp add: json_opt_def)
  have bool: "from_safe_field raw (JBool b)" for b by (simp add: from_safe_field_def)
  have msg: "from_safe_field raw (JStr (readiness_message p))"
    using message_own by (simp add: from_safe_field_def readiness_message_def)
  have other: "pb_environment p = string_or_unknown (map_of (safe_fields raw) ''environment'')"
    "pb_status p = string_or_unknown (map_of (safe_fields raw) ''status'')"
    "pb_verification_status p = string_or_unknown (map_of (safe_fields raw) ''verification_status'')"
    "pb_readiness_reason p = optional_plaid_string (map_of (safe_fields raw) ''readiness_reason'')"
    "pb_institution_id p = optional_plaid_string (map_of (safe_fields raw) ''institution_id'')"
    "pb_auth_method p = optional_plaid_string (map_of (safe_fields raw) ''auth_method'')"
    "pb_bank_name p = optional_plaid_string (map_of (safe_fields raw) ''bank_name'')"
    "pb_bank_mask p = optional_plaid_string (map_of (safe_fields raw) ''bank_mask'')"
    "pb_bank_last4 p = optional_plaid_string (map_of (safe_fields raw) ''bank_last4'')"
    "pb_account_type p = optional_plaid_string (map_of (safe_fields raw) ''account_type'')"
    "pb_account_subtype p = optional_plaid_string (map_of (safe_fields raw) ''account_subtype'')"
    "pb_stripe_attach_status p = optional_plaid_string (map_of (safe_fields raw) ''stripe_attach_status'')"
    "pb_stripe_attach_error_code p = optional_plaid_string (map_of (safe_fields raw) ''stripe_attach_error_code'')"
    "pb_bank_link_source p = optional_plaid_string (map_of (safe_fields raw) ''bank_link_source'')"
    "pb_created_at p = optional_plaid_string (map_of (safe_fields raw) ''created_at'')"
    "pb_updated_at p = optional_plaid_string (map_of (safe_fields raw) ''updated_at'')"
    using assms(1) by (auto simp: parse_bank_account_def Let_def split: option.splits)
  show ?thesis
    using assms(2) id bool msg
    by (auto simp: bank_fields_def other known intro!: from_optional from_unknown)
qed

text \<open>C32: A bank that the client hands out depends on the nineteen allowed fields of the gateway's
  object only: objects that agree there parse alike, whatever tokens or balances stand beside them;
  and its public dictionary can always be built, has no forbidden field and holds nothing but what
  an allowed field held, truth values and the client's own words.
\<close>

theorem bank_projection_safe:
  assumes "\<forall>k \<in> set SAFE_BANK_FIELDS. map_of raw k = map_of raw' k"
  shows "parse_bank_account raw = parse_bank_account raw' \<and>
    (\<forall>p. parse_bank_account raw' = Inr p \<longrightarrow> (\<exists>d. bank_to_public_dict p = Inr d \<and>
       set (keys d) \<inter> set FORBIDDEN_PUBLIC_FIELDS = {} \<and> (\<forall>v \<in> snd ` set d. from_safe_field raw v)))"
proof -
  have same: "parse_bank_account raw = parse_bank_account raw'" by (rule parse_bank_cong[OF assms])
  have "set (keys (bank_fields p)) \<inter> set FORBIDDEN_PUBLIC_FIELDS = {}" for p
    by (simp add: bank_fields_def FORBIDDEN_PUBLIC_FIELDS_def)
  then show ?thesis using parsed_bank_fields same bank_public by metis
qed

definition sample_bank_fields :: "(string, json) dict" where
  "sample_bank_fields =
     [(''id'', JStr ''00000000-0000-0000-0000-0000000000b1''), (''ready'', JBool True), (''bank_mask'', JStr ''1234'')]"

theorem bank_projection_safe_witness:
  "parse_bank_account (sample_bank_fields @ [(''access_token'', JStr ''access-1''), (''balances'', JArr [])]) =
     parse_bank_account sample_bank_fields \<and>
   map_sum (\<lambda>_. ()) pb_ready (parse_bank_account sample_bank_fields) = Inr True"
proof -
  have "\<forall>k \<in> set SAFE_BANK_FIELDS.
      map_of (sample_bank_fields @ [(''access_token'', JStr ''access-1''), (''balances'', JArr [])]) k =
      map_of sample_bank_fields k"
    by code_simp
  moreover have "map_sum (\<lambda>_. ()) pb_ready (parse_bank_account sample_bank_fields) = Inr True" by code_simp
  ultimately show ?thesis using bank_projection_safe by blast
qed

section \<open>Funding from a bank\<close>

text \<open>A transport that keeps the requests it was sent, whatever it answers them.\<close>

definition recorded :: "(http_request list \<Rightarrow> http_request \<Rightarrow> exn + fund_response) \<Rightarrow> http_request list transport" where
  "recorded answer q sent = (answer sent q, sent @ [q])"

definition bank_request :: "gateway_client \<Rightarrow> uuid \<Rightarrow> http_request" where
  "bank_request c bank = \<lparr>rq_method = ''GET'', rq_url = gc_base c @ bank_path bank,
                          rq_headers = plaid_headers c None, rq_body = JNull\<rparr>"

lemma get_bank_recorded:
  "get_bank c (recorded answer) bank sent =
     (rbind (map_sum PlaidRaised id (answer sent (bank_request c bank))) (bank_answer bank), sent @ [bank_request c bank])"
  by (simp add: get_bank_def plaid_get_def recorded_def bank_request_def)

lemma post_recorded:
  "post_ach_fund c (recorded answer) intent bank k sent =
     (rbind (map_sum PlaidRaised id (answer sent (ach_fund_request c intent bank k))) (\<lambda>r.
        rbind (plaid_object ''Gateway Plaid ACH fund'' r) (\<lambda>b. parse_funding_result c intent bank (hr_status r) b)),
      sent @ [ach_fund_request c intent bank k])"
  by (simp add: post_ach_fund_def recorded_def)

lemma bank_answer_Inr:
  assumes "bank_answer bank r = Inr p"
  shows "hr_status r < 400" "pb_id p = uuid_str bank" "\<exists>b. hr_json r = Some (JObj b) \<and> parse_bank_account b = Inr p"
  using assms by (auto simp: bank_answer_def rbind_Inr_iff plaid_object_def split: if_splits option.splits json.splits)

lemma parse_funding_binding:
  assumes "parse_funding_result c intent bank st b = Inr a"
  shows "af_tenant_id a = gc_tenant c" "af_intent_id a = intent" "af_plaid_bank_account_id a = bank"
    "map_of b ''amount_cents'' = Some (JInt (af_amount_cents a))"
    "af_funded a \<longleftrightarrow> map_of b ''funded'' = Some (JBool True)"
  using assms
  by (auto simp: parse_funding_result_def Let_def rbind_Inr_iff split: option.splits json.splits)

lemma coerce_uuid_text: "coerce_uuid (IdText t) f = Inr u \<Longrightarrow> parse_uuid (strip t) = Some u"
  by (auto simp: coerce_uuid_def rbind_Inr_iff split: option.splits)

lemma fund_from_bank_cases:
  assumes "fund_ach_intent_with_bank c send i b rr k s = (out, s')"
  shows "(s' = s \<and> (\<exists>e. out = Inl e)) \<or>
    (\<exists>intent bank. coerce_uuid i ''intent_id'' = Inr intent \<and> coerce_uuid b ''plaid_bank_account_id'' = Inr bank \<and>
       ((\<exists>e. require_ready_bank c send bank rr s = (Inl e, s') \<and> out = Inl e) \<or>
        (\<exists>s1. require_ready_bank c send bank rr s = (Inr (), s1) \<and> post_ach_fund c send intent bank k s1 = (out, s'))))"
proof (cases "coerce_uuid i ''intent_id''")
  case (Inl e)
  with assms show ?thesis by (auto simp: fund_ach_intent_with_bank_def)
next
  case intent: (Inr intent)
  show ?thesis
  proof (cases "coerce_uuid b ''plaid_bank_account_id''")
    case (Inl e)
    with assms intent show ?thesis by (auto simp: fund_ach_intent_with_bank_def)
  next
    case (Inr bank)
    obtain o1 s1 where r: "require_ready_bank c send bank rr s = (o1, s1)" by fastforce
    show ?thesis
      using assms intent Inr r by (cases o1) (auto simp: fund_ach_intent_with_bank_def)
  qed
qed

lemma require_ready_recorded:
  "require_ready_bank c (recorded answer) bank True sent =
     (rbind (rbind (map_sum PlaidRaised id (answer sent (bank_request c bank))) (bank_answer bank))
        (\<lambda>b. ensure (pb_ready b) (PlaidBankNotReadyError (pb_id b)
               (case pb_readiness_reason b of Some r \<Rightarrow> r | None \<Rightarrow> ''not_ready''))),
      sent @ [bank_request c bank])"
  by (simp add: require_ready_bank_def get_bank_recorded)

definition ready_answer :: "uuid \<Rightarrow> exn + fund_response \<Rightarrow> bool" where
  "ready_answer bank a \<longleftrightarrow> (\<exists>r p. a = Inr r \<and> bank_answer bank r = Inr p \<and> pb_ready p \<and> pb_id p = uuid_str bank)"

text \<open>C33: When readiness is required, funding an intent from a bank sends at most two requests: one
  for that bank, and the POST that funds only after it was answered with that very bank and as
  ready; ids given as text have parsed as UUIDs, so nothing that begins like a Plaid or Stripe token
  is sent; and a result names the client's tenant, the intent, the bank and the integer amount answered.
\<close>

theorem ach_funding_gated:
  assumes "fund_ach_intent_with_bank c (recorded answer) i b True k [] = (out, sent)"
  shows "sent = [] \<and> (\<exists>e. out = Inl e) \<or>
    (\<exists>intent bank. coerce_uuid i ''intent_id'' = Inr intent \<and> coerce_uuid b ''plaid_bank_account_id'' = Inr bank \<and>
       (sent = [bank_request c bank] \<and> (\<exists>e. out = Inl e) \<or>
        sent = [bank_request c bank, ach_fund_request c intent bank k] \<and>
        ready_answer bank (answer [] (bank_request c bank)) \<and>
        (\<forall>a. out = Inr a \<longrightarrow> af_tenant_id a = gc_tenant c \<and> af_intent_id a = intent \<and>
           af_plaid_bank_account_id a = bank \<and>
           (\<exists>r d. answer [bank_request c bank] (ach_fund_request c intent bank k) = Inr r \<and> hr_status r < 400 \<and>
              hr_json r = Some (JObj d) \<and> map_of d ''amount_cents'' = Some (JInt (af_amount_cents a)) \<and>
              (af_funded a \<longleftrightarrow> map_of d ''funded'' = Some (JBool True))))))"
proof -
  have funded: "af_tenant_id a = gc_tenant c \<and> af_intent_id a = intent \<and> af_plaid_bank_account_id a = bank \<and>
      (\<exists>r d. x = Inr r \<and> hr_status r < 400 \<and> hr_json r = Some (JObj d) \<and>
         map_of d ''amount_cents'' = Some (JInt (af_amount_cents a)) \<and> (af_funded a \<longleftrightarrow> map_of d ''funded'' = Some (JBool True)))"
    if "rbind (map_sum PlaidRaised id x) (\<lambda>r. rbind (plaid_object ''Gateway Plaid ACH fund'' r)
          (\<lambda>b. parse_funding_result c intent bank (hr_status r) b)) = Inr a" for x intent bank a
  proof -
    from that obtain r d where rd: "x = Inr r" "plaid_object ''Gateway Plaid ACH fund'' r = Inr d"
        "parse_funding_result c intent bank (hr_status r) d = Inr a"
      by (auto simp: rbind_Inr_iff map_sum_Inr)
    then have "hr_status r < 400" "hr_json r = Some (JObj d)"
      by (auto simp: plaid_object_def split: if_splits option.splits json.splits)
    then show ?thesis using rd parse_funding_binding[OF rd(3)] by blast
  qed
  have ready: "ready_answer bank x"
    if "rbind (rbind (map_sum PlaidRaised id x) (bank_answer bank)) (\<lambda>b. ensure (pb_ready b) (f b)) = Inr ()"
    for x bank f
    using that bank_answer_Inr(2) by (fastforce simp: ready_answer_def rbind_Inr_iff map_sum_Inr)
  show ?thesis
    using fund_from_bank_cases[OF assms]
    unfolding require_ready_recorded post_recorded append_Nil Pair_inject prod.inject
    using funded ready by (elim disjE exE conjE) (force+)
qed

definition sample_bank :: uuid where
  "sample_bank = ''000000000000000000000000000000b1''"

definition sample_funding_answer :: "(string, json) dict" where
  "sample_funding_answer =
     [(''tenant'', JStr ''t''), (''intent_id'', JStr ''000000000000000000000000000000a1''), (''state'', JStr ''pending''),
      (''settlement_rail'', JStr ''stripe_ach_debit''), (''currency'', JStr ''usd''), (''amount_cents'', JInt 5),
      (''capability_token'', JStr ''secret''), (''funded'', JBool False)]"

definition sample_bank_gateway :: "http_request list \<Rightarrow> http_request \<Rightarrow> exn + fund_response" where
  "sample_bank_gateway sent q = Inr (json_reply 200 (if sent = [] then sample_bank_fields else sample_funding_answer))"

theorem ach_funding_gated_witness:
  "\<exists>a. fund_ach_intent_with_bank sample_gateway (recorded sample_bank_gateway)
         (IdText '' 000000000000000000000000000000a1'') (IdUuid sample_bank) True None [] =
       (Inr a, [bank_request sample_gateway sample_bank,
                ach_fund_request sample_gateway ''000000000000000000000000000000a1'' sample_bank None]) \<and>
     ready_answer sample_bank (sample_bank_gateway [] (bank_request sample_gateway sample_bank)) \<and> af_amount_cents a = 5"
proof -
  define run where "run = fund_ach_intent_with_bank sample_gateway (recorded sample_bank_gateway)
    (IdText '' 000000000000000000000000000000a1'') (IdUuid sample_bank) True None []"
  have eval: "map_sum (\<lambda>_. ()) af_amount_cents (fst run) = Inr 5" "length (snd run) = 2"
    unfolding run_def by code_simp+
  then obtain a where a: "fst run = Inr a" "af_amount_cents a = 5" by (cases "fst run") auto
  have ids: "coerce_uuid (IdText '' 000000000000000000000000000000a1'') ''intent_id'' =
      Inr ''000000000000000000000000000000a1''" "coerce_uuid (IdUuid sample_bank) ''plaid_bank_account_id'' = Inr sample_bank"
    by code_simp+
  have "fund_ach_intent_with_bank sample_gateway (recorded sample_bank_gateway)
    (IdText '' 000000000000000000000000000000a1'') (IdUuid sample_bank) True None [] = (Inr a, snd run)"
    using a(1) by (metis prod.collapse run_def)
  note gated = ach_funding_gated[OF this, unfolded ids sum.inject simp_thms]
  have "snd run \<noteq> []" "\<And>q. snd run \<noteq> [q]" using eval(2) by auto
  with gated have "snd run = [bank_request sample_gateway sample_bank,
      ach_fund_request sample_gateway ''000000000000000000000000000000a1'' sample_bank None]"
    "ready_answer sample_bank (sample_bank_gateway [] (bank_request sample_gateway sample_bank))"
    by metis+
  then show ?thesis using a by (metis prod.collapse run_def)
qed

section \<open>Reason codes\<close>

lemma code_in_iff:
  "code_in code before t \<longleftrightarrow> (\<exists>u v. t = u @ code @ v \<and> (if u = [] then \<not> before else \<not> code_char (last u)) \<and>
     (v = [] \<or> \<not> code_char (hd v)))"
proof (induction code before t rule: code_in.induct)
  case (1 code before t)
  let ?ends = "\<lambda>v. v = [] \<or> \<not> code_char (hd v)"
  have here: "\<not> before \<and> startswith t code \<and> (case drop (length code) t of [] \<Rightarrow> True | c # _ \<Rightarrow> \<not> code_char c) \<longleftrightarrow>
      (\<exists>v. t = code @ v \<and> \<not> before \<and> ?ends v)"
  proof -
    have "(case v of [] \<Rightarrow> True | c # _ \<Rightarrow> \<not> code_char c) = ?ends v" for v by (cases v) simp_all
    then show ?thesis by (metis append_eq_conv_conj append_take_drop_id startswith_def)
  qed
  have split: "(\<exists>u. F u) \<longleftrightarrow> F [] \<or> (\<exists>c u. F (c # u))" for F :: "string \<Rightarrow> bool"
    by (metis neq_Nil_conv)
  have last: "(if u = [] then \<not> code_char c else \<not> code_char (last u)) \<longleftrightarrow> \<not> code_char (last (c # u))" for c u
    by simp
  have there: "(case t of [] \<Rightarrow> False | c # cs \<Rightarrow> code_in code (code_char c) cs) \<longleftrightarrow>
      (\<exists>c u v. t = (c # u) @ code @ v \<and> \<not> code_char (last (c # u)) \<and> ?ends v)"
    using 1 unfolding last by (cases t) auto
  show ?case
    by (subst code_in.simps, subst split) (simp only: here there append_Nil if_True if_False list.distinct simp_thms)
qed

lemma code_in_whole:
  "code_in code False t \<longleftrightarrow> (\<exists>u v. t = u @ code @ v \<and> (u = [] \<or> \<not> code_char (last u)) \<and>
     (v = [] \<or> \<not> code_char (hd v)))"
proof -
  have "(if u = [] then \<not> False else \<not> code_char (last u)) \<longleftrightarrow> u = [] \<or> \<not> code_char (last u)" for u by simp
  then show ?thesis unfolding code_in_iff by presburger
qed

text \<open>
  An error body yields the first listed code that occurs in it as a whole word, and none of the
  three generic codes.
\<close>

lemma reason_code_listed:
  assumes "reason_code_from_error_body t = Some r"
  shows "r \<in> set PLAID_READINESS_REASONS" "r \<notin> set GENERIC_REASON_CODES"
    "\<exists>u v. lower (strip t) = u @ r @ v \<and> (u = [] \<or> \<not> code_char (last u)) \<and> (v = [] \<or> \<not> code_char (hd v))"
proof -
  have found: "P x \<and> x \<in> set xs" if "List.find P xs = Some x" for P and x :: string and xs
    using that by (auto simp: find_Some_iff)
  have "List.find (\<lambda>r. r \<notin> set GENERIC_REASON_CODES \<and> code_in r False (lower (strip t))) PLAID_READINESS_REASONS = Some r"
    using assms unfolding reason_code_from_error_body_def Let_def by (metis option.distinct(1))
  from found[OF this]
  show "r \<in> set PLAID_READINESS_REASONS" "r \<notin> set GENERIC_REASON_CODES"
    "\<exists>u v. lower (strip t) = u @ r @ v \<and> (u = [] \<or> \<not> code_char (last u)) \<and> (v = [] \<or> \<not> code_char (hd v))"
    unfolding code_in_whole by blast+
qed

text \<open>A list of banks that is null is not an empty list: the loop over it raises.\<close>

lemma null_bank_list:
  "\<exists>m. fst (list_bank_accounts sample_gateway (answering (json_reply 200 [(''bank_accounts'', JNull)])) False []) =
     Inl (PlaidRaised (TypeError m))"
  by (intro exI) code_simp

end
