(* ===== verification/Cbor.thy ===== *)
theory Cbor
  imports Hex_Text
begin

text \<open>
  The CBOR subset of \<open>agent_receipt_scitt.py\<close>: its encoders, its decoder, and that the decoder reads
  back what the encoders write.  A text item is kept as its UTF-8 bytes, so no code point is left
  out; \<open>IndexError\<close> is \<open>HostError\<close> with its name, \<open>RecursionError\<close> is a \<open>RuntimeError\<close>.
\<close>

unbundle bit_operations_syntax

section \<open>Encoding\<close>

definition byte :: "nat \<Rightarrow> char" where
  "byte n = char_of n"

definition cbor_error :: "string \<Rightarrow> exn" where
  "cbor_error m = ValueError (''scitt export: '' @ m)"

text \<open>\<open>bytes([a, b])\<close> of an entry above 255.\<close>

definition not_a_byte :: exn where
  "not_a_byte = ValueError ''bytes must be in range(0, 256)''"

definition encode_cbor_uint :: "int \<Rightarrow> exn + string" where
  "encode_cbor_uint value =
     (if value < 0 then Inl (cbor_error ''CBOR uint must be a non-negative integer'')
      else let n = nat value in
        if n < 24 then Inr [byte n]
        else if n < 0x100 then Inr [byte 24, byte n]
        else if n < 0x10000 then Inr [byte 25, byte (drop_bit 8 n AND 0xFF), byte (n AND 0xFF)]
        else if n < 0x100000000 then Inr [byte 26, byte (drop_bit 24 n AND 0xFF), byte (drop_bit 16 n AND 0xFF),
          byte (drop_bit 8 n AND 0xFF), byte (n AND 0xFF)]
        else Inl (cbor_error ''CBOR uint too large''))"

definition encode_cbor_nint :: "int \<Rightarrow> exn + string" where
  "encode_cbor_nint value =
     (let n = nat (-1 - value) in
        if n < 24 then Inr [byte (0x20 OR n)]
        else if n < 0x100 then Inr [byte 0x38, byte n]
        else if n < 0x10000 then Inr [byte 0x39, byte (drop_bit 8 n AND 0xFF), byte (n AND 0xFF)]
        else Inl (cbor_error ''CBOR nint too large''))"

definition encode_cbor_int :: "int \<Rightarrow> exn + string" where
  "encode_cbor_int value = (if value \<ge> 0 then encode_cbor_uint value else encode_cbor_nint value)"

text \<open>The header of a byte or text string, whose code differs in the major type only.\<close>

definition string_header :: "string \<Rightarrow> nat \<Rightarrow> nat \<Rightarrow> exn + string" where
  "string_header what major len =
     (if len < 24 then Inr [byte (major OR len)]
      else if len < 0x100 then Inr [byte (major OR 24), byte len]
      else if len < 0x10000 then Inr [byte (major OR 25), byte (drop_bit 8 len AND 0xFF), byte (len AND 0xFF)]
      else Inl (cbor_error (''CBOR '' @ what @ '' too large'')))"

definition encode_cbor_bstr :: "string \<Rightarrow> exn + string" where
  "encode_cbor_bstr data = rbind (string_header ''bstr'' 0x40 (length data)) (\<lambda>h. Inr (h @ data))"

definition encode_cbor_tstr :: "string \<Rightarrow> exn + string" where
  "encode_cbor_tstr value =
     (let data = utf8 value in rbind (string_header ''tstr'' 0x60 (length data)) (\<lambda>h. Inr (h @ data)))"

definition group_header :: "nat \<Rightarrow> nat \<Rightarrow> exn + string" where
  "group_header major len =
     (if len < 24 then Inr [byte (major OR len)]
      else if len < 0x100 then Inr [byte (major OR 24), byte len]
      else Inl not_a_byte)"

definition encode_cbor_array :: "string list \<Rightarrow> exn + string" where
  "encode_cbor_array items = rbind (group_header 0x80 (length items)) (\<lambda>h. Inr (h @ concat items))"

text \<open>A map is sorted by the bytes of its keys; \<open>sort_key\<close> is stable, as \<open>list.sort\<close> is.\<close>

datatype cbor_key = Int_key int | Text_key string

definition encode_cbor_key :: "cbor_key \<Rightarrow> exn + string" where
  "encode_cbor_key k = (case k of Int_key i \<Rightarrow> encode_cbor_int i | Text_key s \<Rightarrow> encode_cbor_tstr s)"

definition encode_cbor_map :: "(cbor_key \<times> string) list \<Rightarrow> exn + string" where
  "encode_cbor_map entries =
     rbind (rmap (\<lambda>(k, v). rbind (encode_cbor_key k) (\<lambda>b. Inr (b, v))) entries) (\<lambda>encoded.
     rbind (group_header 0xA0 (length encoded)) (\<lambda>h.
     Inr (h @ concat (List.map (\<lambda>(k, v). k @ v) (sort_key fst encoded)))))"

definition encode_cbor_tag :: "nat \<Rightarrow> string \<Rightarrow> exn + string" where
  "encode_cbor_tag tag item =
     (if tag < 24 then Inr (byte (0xC0 OR tag) # item)
      else if tag < 0x100 then Inr (byte 0xD8 # byte tag # item)
      else Inl (cbor_error ''CBOR tag too large''))"

section \<open>Decoding\<close>

text \<open>What the decoder returns: a Python int, bytes, str, list or dict.  A tagged item is a dict too.\<close>

datatype cbor =
    C_int int
  | C_bytes string
  | C_text string  \<comment> \<open>its UTF-8 bytes\<close>
  | C_list "cbor list"
  | C_dict "(cbor \<times> cbor) list"

definition index_error :: exn where
  "index_error = HostError ''IndexError''"

definition byte_at :: "string \<Rightarrow> nat \<Rightarrow> exn + nat" where
  "byte_at data i = (if i < length data then Inr (of_char (data ! i)) else Inl index_error)"

definition read_cbor_length :: "string \<Rightarrow> nat \<Rightarrow> nat \<Rightarrow> exn + nat \<times> nat" where
  "read_cbor_length data offset additional =
     (if additional < 24 then Inr (additional, offset)
      else if additional = 24 then rbind (byte_at data offset) (\<lambda>b. Inr (b, offset + 1))
      else if additional = 25 then
        rbind (byte_at data offset) (\<lambda>hi. rbind (byte_at data (offset + 1)) (\<lambda>lo.
        Inr (push_bit 8 hi OR lo, offset + 2)))
      else Inl (cbor_error ''unsupported CBOR length''))"

text \<open>\<open>bytes.decode("utf-8")\<close> accepts well-formed UTF-8 only: no overlong form, no surrogate.\<close>

definition continues :: "char \<Rightarrow> bool" where
  "continues c \<longleftrightarrow> (let n = (of_char c :: nat) in 0x80 \<le> n \<and> n < 0xC0)"

fun utf8_ok :: "string \<Rightarrow> bool" where
  "utf8_ok [] \<longleftrightarrow> True"
| "utf8_ok (a # s) \<longleftrightarrow> (let n = (of_char a :: nat) in
     if n < 0x80 then utf8_ok s
     else if n < 0xC2 then False
     else if n < 0xE0 then (case s of b # t \<Rightarrow> continues b \<and> utf8_ok t | _ \<Rightarrow> False)
     else if n < 0xF0 then (case s of b # c # t \<Rightarrow>
         continues b \<and> continues c \<and> (n = 0xE0 \<longrightarrow> 0xA0 \<le> (of_char b :: nat)) \<and>
         (n = 0xED \<longrightarrow> (of_char b :: nat) < 0xA0) \<and> utf8_ok t | _ \<Rightarrow> False)
     else if n < 0xF5 then (case s of b # c # d # t \<Rightarrow>
         continues b \<and> continues c \<and> continues d \<and> (n = 0xF0 \<longrightarrow> 0x90 \<le> (of_char b :: nat)) \<and>
         (n = 0xF4 \<longrightarrow> (of_char b :: nat) < 0x90) \<and> utf8_ok t | _ \<Rightarrow> False)
     else False)"

text \<open>A slice stops at the end of the data, while the offset moves on.\<close>

definition slice :: "string \<Rightarrow> nat \<Rightarrow> nat \<Rightarrow> string" where
  "slice data lo hi = take (hi - lo) (drop lo data)"

definition hashable :: "cbor \<Rightarrow> bool" where
  "hashable c = (case c of C_list _ \<Rightarrow> False | C_dict _ \<Rightarrow> False | _ \<Rightarrow> True)"

primrec decode_items :: "(nat \<Rightarrow> exn + cbor \<times> nat) \<Rightarrow> nat \<Rightarrow> nat \<Rightarrow> exn + cbor list \<times> nat" where
  "decode_items f 0 cursor = Inr ([], cursor)"
| "decode_items f (Suc n) cursor =
     rbind (f cursor) (\<lambda>(item, cursor). rbind (decode_items f n cursor) (\<lambda>(items, cursor).
     Inr (item # items, cursor)))"

primrec decode_pairs ::
  "(nat \<Rightarrow> exn + cbor \<times> nat) \<Rightarrow> nat \<Rightarrow> (cbor, cbor) dict \<Rightarrow> nat \<Rightarrow> exn + (cbor, cbor) dict \<times> nat" where
  "decode_pairs f 0 mapping cursor = Inr (mapping, cursor)"
| "decode_pairs f (Suc n) mapping cursor =
     rbind (f cursor) (\<lambda>(key, cursor). rbind (f cursor) (\<lambda>(v, cursor).
     rbind (ensure (hashable key) (TypeError ''unhashable type'')) (\<lambda>_.
     decode_pairs f n (AList.update key v mapping) cursor)))"

text \<open>The first argument is the depth of recursion that Python still allows.\<close>

fun decode_cbor_item :: "nat \<Rightarrow> string \<Rightarrow> nat \<Rightarrow> exn + cbor \<times> nat" where
  "decode_cbor_item 0 data offset = Inl (RuntimeError ''RecursionError'')"
| "decode_cbor_item (Suc depth) data offset =
     rbind (byte_at data offset) (\<lambda>initial.
     let major = drop_bit 5 initial; additional = initial AND 0x1F; cursor = offset + 1 in
     if major = 7 then Inl (cbor_error (''unsupported CBOR major type '' @ str_int (int major)))
     else rbind (read_cbor_length data cursor additional) (\<lambda>(len, next).
       if major = 0 then Inr (C_int (int len), next)
       else if major = 1 then Inr (C_int (-1 - int len), next)
       else if major = 2 then Inr (C_bytes (slice data next (next + len)), next + len)
       else if major = 3 then
         rbind (ensure (utf8_ok (slice data next (next + len))) (ValueError ''UnicodeDecodeError'')) (\<lambda>_.
         Inr (C_text (slice data next (next + len)), next + len))
       else if major = 4 then
         rbind (decode_items (decode_cbor_item depth data) len next) (\<lambda>(items, end). Inr (C_list items, end))
       else if major = 5 then
         rbind (decode_pairs (decode_cbor_item depth data) len [] next) (\<lambda>(mapping, end). Inr (C_dict mapping, end))
       else
         rbind (decode_cbor_item depth data next) (\<lambda>(v, end).
         Inr (C_dict [(C_text ''tag'', C_int (int len)), (C_text ''value'', v)], end))))"

declare decode_cbor_item.simps(2) [simp del]


section \<open>The decoder reads what the encoders write\<close>

definition reads :: "nat \<Rightarrow> string \<Rightarrow> cbor \<Rightarrow> bool" where
  "reads depth e c \<longleftrightarrow>
     (\<forall>pre post. decode_cbor_item depth (pre @ e @ post) (length pre) = Inr (c, length (pre @ e)))"

lemma readsD: "reads depth e c \<Longrightarrow> decode_cbor_item depth e 0 = Inr (c, length e)"
  unfolding reads_def by (drule spec[of _ "[]"], drule spec[of _ "[]"]) simp

lemma of_char_byte [simp]: "of_char (byte n) = n mod 256"
  by (simp add: byte_def)

lemma initial_byte:
  assumes "m < 8" "n < 32"
  shows "drop_bit 5 (32 * m OR n) = m" "(32 * m OR n) AND 0x1F = n" "(32 * m OR n) mod 256 = (32 * m OR n :: nat)"
proof -
  have n: "n = take_bit 5 n" using assms(2) by (simp add: take_bit_eq_mod)
  have high: "32 * m = push_bit 5 m" by (simp add: push_bit_eq_mult)
  have "drop_bit 5 (push_bit 5 m OR take_bit 5 n) = m"
    by (rule bit_eqI) (auto simp: bit_simps)
  then show major: "drop_bit 5 (32 * m OR n) = m" using n high by simp
  have "take_bit 5 (push_bit 5 m OR take_bit 5 n) = take_bit 5 n"
    by (rule bit_eqI) (auto simp: bit_simps)
  then have low: "take_bit 5 (32 * m OR n) = n" using n high by simp
  then show "(32 * m OR n) AND 0x1F = n"
    using take_bit_eq_mask[of 5 "32 * m OR n"] by (simp add: mask_eq_exp_minus_1)
  have "32 * m OR n = push_bit 5 m + n"
    by (rule trans[OF bits_ident[of 5, symmetric]]) (simp only: low major)
  then have "32 * m OR n < 256" using assms by (simp add: push_bit_eq_mult)
  then show "(32 * m OR n) mod 256 = (32 * m OR n :: nat)" by simp
qed

lemma low_byte: "n AND 0xFF = n mod (256 :: nat)"
  using take_bit_eq_mask[of 8 n] by (simp add: take_bit_eq_mod mask_eq_exp_minus_1)

lemma two_bytes:
  assumes "n < 0x10000"
  shows "push_bit 8 ((drop_bit 8 n AND 0xFF) mod 256) OR ((n AND 0xFF) mod 256) = (n :: nat)"
proof -
  have "drop_bit 8 n < 256" using assms by (simp add: drop_bit_eq_div)
  then have "(drop_bit 8 n AND 0xFF) mod 256 = drop_bit 8 n" by (simp add: low_byte)
  moreover have "(n AND 0xFF) mod 256 = take_bit 8 n" by (simp add: low_byte take_bit_eq_mod)
  moreover have "push_bit 8 (drop_bit 8 n) OR take_bit 8 n = n"
    by (rule bit_eqI) (auto simp: bit_simps)
  ultimately show ?thesis by simp
qed

lemma byte_at_append [simp]:
  "byte_at (pre @ b # rest) (length pre) = Inr (of_char b)"
  "byte_at (pre @ a # b # rest) (Suc (length pre)) = Inr (of_char b)"
  "byte_at (pre @ a # b # c # rest) (Suc (Suc (length pre))) = Inr (of_char c)"
  by (simp_all add: byte_at_def nth_append)

text \<open>A header of major type \<open>m\<close> and length \<open>n\<close>, in the three forms that are read.\<close>

definition header :: "nat \<Rightarrow> nat \<Rightarrow> string \<Rightarrow> bool" where
  "header m n h \<longleftrightarrow>
     n < 24 \<and> h = [byte (32 * m OR n)] \<or>
     n < 0x100 \<and> h = [byte (32 * m OR 24), byte n] \<or>
     n < 0x10000 \<and> h = [byte (32 * m OR 25), byte (drop_bit 8 n AND 0xFF), byte (n AND 0xFF)]"

text \<open>What the decoder does after the header.\<close>

definition decode_body :: "nat \<Rightarrow> string \<Rightarrow> nat \<Rightarrow> nat \<Rightarrow> nat \<Rightarrow> exn + cbor \<times> nat" where
  "decode_body depth data major len next =
     (if major = 0 then Inr (C_int (int len), next)
       else if major = 1 then Inr (C_int (-1 - int len), next)
       else if major = 2 then Inr (C_bytes (slice data next (next + len)), next + len)
       else if major = 3 then
         rbind (ensure (utf8_ok (slice data next (next + len))) (ValueError ''UnicodeDecodeError'')) (\<lambda>_.
         Inr (C_text (slice data next (next + len)), next + len))
       else if major = 4 then
         rbind (decode_items (decode_cbor_item depth data) len next) (\<lambda>(items, end). Inr (C_list items, end))
       else if major = 5 then
         rbind (decode_pairs (decode_cbor_item depth data) len [] next) (\<lambda>(mapping, end). Inr (C_dict mapping, end))
       else
         rbind (decode_cbor_item depth data next) (\<lambda>(v, end).
         Inr (C_dict [(C_text ''tag'', C_int (int len)), (C_text ''value'', v)], end)))"

lemma decode_cbor_item_Suc:
  "decode_cbor_item (Suc depth) data offset =
     rbind (byte_at data offset) (\<lambda>initial.
     if drop_bit 5 initial = 7 then Inl (cbor_error (''unsupported CBOR major type '' @ str_int 7))
     else rbind (read_cbor_length data (offset + 1) (initial AND 0x1F)) (\<lambda>(len, next).
       decode_body depth data (drop_bit 5 initial) len next))"
  unfolding decode_cbor_item.simps Let_def decode_body_def by (intro arg_cong2[of _ _ _ _ rbind] ext refl) simp

lemma decode_header:
  assumes "header m n h" "m < 7"
  shows "decode_cbor_item (Suc depth) (pre @ h @ post) (length pre) =
     decode_body depth (pre @ h @ post) m n (length (pre @ h))"
proof -
  have m: "m < 8" using assms(2) by simp
  have big: "\<not> (25::nat) < 24" "(25::nat) \<noteq> 24" by simp_all
  from assms(1) consider
      "n < 24" "h = [byte (32 * m OR n)]"
    | "n < 0x100" "h = [byte (32 * m OR 24), byte n]"
    | "n < 0x10000" "h = [byte (32 * m OR 25), byte (drop_bit 8 n AND 0xFF), byte (n AND 0xFF)]"
    unfolding header_def by blast
  then show ?thesis
  proof cases
    case 1
    then show ?thesis using initial_byte[OF m, of n] assms(2)
      by (simp add: decode_cbor_item_Suc read_cbor_length_def)
  next
    case 2
    then show ?thesis using initial_byte[OF m, of 24] assms(2)
      by (simp add: decode_cbor_item_Suc read_cbor_length_def)
  next
    case 3
    then show ?thesis using initial_byte[OF m, of 25] assms(2) two_bytes[of n]
      by (simp add: decode_cbor_item_Suc read_cbor_length_def)
  qed
qed

lemma string_header:
  "string_header what 0x40 n = Inr h \<Longrightarrow> header 2 n h"
  "string_header what 0x60 n = Inr h \<Longrightarrow> header 3 n h"
  by (auto simp: string_header_def header_def split: if_splits)

lemma group_header:
  "group_header 0x80 n = Inr h \<Longrightarrow> header 4 n h"
  "group_header 0xA0 n = Inr h \<Longrightarrow> header 5 n h"
  by (auto simp: group_header_def header_def split: if_splits)

lemma reads_header:
  assumes "header m n h" "m < 7"
    and "\<And>pre post. decode_body depth (pre @ b @ post) m n (length pre) = Inr (c, length (pre @ b))"
  shows "reads (Suc depth) (h @ b) c"
  unfolding reads_def
proof (intro allI)
  fix pre post
  show "decode_cbor_item (Suc depth) (pre @ (h @ b) @ post) (length pre) = Inr (c, length (pre @ h @ b))"
    using decode_header[OF assms(1,2), of depth pre "b @ post"] assms(3)[of "pre @ h" post] by simp
qed

lemma reads_bstr: "encode_cbor_bstr data = Inr e \<Longrightarrow> reads (Suc depth) e (C_bytes data)"
  by (auto simp: encode_cbor_bstr_def rbind_Inr_iff dest!: string_header
      intro!: reads_header simp: decode_body_def slice_def)

lemma utf8_ok_utf8 [simp]: "utf8_ok (utf8 s)"
proof (induction s)
  case (Cons c s)
  define n where "n = (of_char c :: nat)"
  have "n < 256" by (simp add: n_def)
  then have "n div 64 < 4" by linarith
  then have lead: "(192 + n div 64) mod 256 = 192 + n div 64" "192 + n div 64 < 0xE0" by simp_all
  have "2 \<le> n div 64" if "\<not> n < 128" using that by linarith
  then show ?case using Cons lead
    by (auto simp: utf8_Cons Let_def continues_def n_def[symmetric])
qed simp

lemma reads_tstr: "encode_cbor_tstr s = Inr e \<Longrightarrow> reads (Suc depth) e (C_text (utf8 s))"
  by (auto simp: encode_cbor_tstr_def Let_def rbind_Inr_iff ensure_def dest!: string_header
      intro!: reads_header simp: decode_body_def slice_def)

lemma reads_int:
  assumes "encode_cbor_int i = Inr e" "i < 0x10000"
  shows "reads (Suc depth) e (C_int i)"
proof (cases "0 \<le> i")
  case True
  then have "header 0 (nat i) e" using assms
    by (auto simp: encode_cbor_int_def encode_cbor_uint_def header_def Let_def split: if_splits)
  from reads_header[OF this, of depth "[]"] show ?thesis using True by (simp add: decode_body_def)
next
  case False
  then have "header 1 (nat (-1 - i)) e" using assms
    by (auto simp: encode_cbor_int_def encode_cbor_nint_def header_def Let_def split: if_splits)
  from reads_header[OF this, of depth "[]"] show ?thesis using False by (simp add: decode_body_def)
qed

lemma decode_items:
  assumes "list_all2 (reads depth) es cs"
  shows "decode_items (decode_cbor_item depth (pre @ concat es @ post)) (length es) (length pre) =
    Inr (cs, length (pre @ concat es))"
  using assms
proof (induction es cs arbitrary: pre rule: list_all2_induct)
  case (Cons e es c cs)
  have "decode_cbor_item depth (pre @ e @ concat es @ post) (length pre) = Inr (c, length (pre @ e))"
    using Cons.hyps(1) unfolding reads_def by blast
  then show ?case using Cons.IH[of "pre @ e"] by simp
qed simp

lemma reads_array:
  assumes "encode_cbor_array es = Inr e" "list_all2 (reads depth) es cs"
  shows "reads (Suc depth) e (C_list cs)"
proof -
  obtain h where "header 4 (length es) h" "e = h @ concat es"
    using assms(1) by (auto simp: encode_cbor_array_def rbind_Inr_iff dest: group_header)
  then show ?thesis
    using decode_items[OF assms(2)] by (auto intro!: reads_header simp: decode_body_def)
qed

lemma reads_tag:
  assumes "encode_cbor_tag t item = Inr e" "reads depth item c"
  shows "reads (Suc depth) e (C_dict [(C_text ''tag'', C_int (int t)), (C_text ''value'', c)])"
proof -
  obtain h where h: "header 6 t h" "e = h @ item"
  proof (cases "t < 24")
    case True
    then show ?thesis using assms(1) that[of "[byte (0xC0 OR t)]"] by (simp add: encode_cbor_tag_def header_def)
  next
    case False
    then show ?thesis using assms(1) that[of "[byte 0xD8, byte t]"]
      by (simp add: encode_cbor_tag_def header_def split: if_splits)
  qed
  show ?thesis
    unfolding h(2)
  proof (rule reads_header[OF h(1)])
    fix pre post
    have "decode_cbor_item depth (pre @ item @ post) (length pre) = Inr (c, length (pre @ item))"
      using assms(2) unfolding reads_def by blast
    then show "decode_body depth (pre @ item @ post) 6 t (length pre) =
        Inr (C_dict [(C_text ''tag'', C_int (int t)), (C_text ''value'', c)], length (pre @ item))"
      by (simp add: decode_body_def)
  qed simp
qed

text \<open>A map, by the entries in the order of their keys' bytes.\<close>

lemma decode_pairs:
  assumes "list_all2 (\<lambda>(k, v) (x, y). reads depth k x \<and> reads depth v y \<and> hashable x) es cs"
  shows "decode_pairs (decode_cbor_item depth (pre @ concat (List.map (\<lambda>(k, v). k @ v) es) @ post)) (length es) m (length pre) =
    Inr (foldl (\<lambda>d (k, v). AList.update k v d) m cs, length (pre @ concat (List.map (\<lambda>(k, v). k @ v) es)))"
  using assms
proof (induction es cs arbitrary: pre m rule: list_all2_induct)
  case (Cons e es c cs)
  obtain k v x y where e [simp]: "e = (k, v)" and c [simp]: "c = (x, y)" by fastforce
  have k: "decode_cbor_item depth (pre @ k @ v @ r) (length pre) = Inr (x, length (pre @ k))" for r
    using Cons.hyps(1) unfolding reads_def by simp
  have "decode_cbor_item depth ((pre @ k) @ v @ r) (length (pre @ k)) = Inr (y, length ((pre @ k) @ v))" for r
    using Cons.hyps(1) unfolding reads_def e c prod.case by blast
  then have v: "decode_cbor_item depth (pre @ k @ v @ r) (length pre + length k) = Inr (y, length (pre @ k @ v))" for r
    by simp
  show ?case using k v Cons.hyps(1) Cons.IH[of "pre @ k @ v"] by (simp add: ensure_def)
qed simp

lemma reads_map:
  assumes "encode_cbor_map entries = Inr e"
    and "rmap (\<lambda>(k, v). rbind (encode_cbor_key k) (\<lambda>b. Inr (b, v))) entries = Inr encoded"
    and "list_all2 (\<lambda>(k, v) (x, y). reads depth k x \<and> reads depth v y \<and> hashable x) (sort_key fst encoded) cs"
  shows "reads (Suc depth) e (C_dict (foldl (\<lambda>d (k, v). AList.update k v d) [] cs))"
proof -
  obtain h where "header 5 (length encoded) h" "e = h @ concat (List.map (\<lambda>(k, v). k @ v) (sort_key fst encoded))"
    using assms(1,2) by (auto simp: encode_cbor_map_def rbind_Inr_iff dest: group_header)
  then show ?thesis
    using decode_pairs[OF assms(3), of _ _ "[]"] by (auto intro!: reads_header simp: decode_body_def)
qed

end
