(* ===== verification/Scitt_Export.thy ===== *)
theory Scitt_Export
  imports Cbor Receipt_Content
begin

text \<open>
  SCITT exports of \<open>agent_receipt_scitt.py\<close>: a \<open>COSE_Sign1\<close> over a statement about a receipt's
  digest, its construction and its verification.  \<open>sign\<close>, \<open>public\<close> and \<open>verify_sig\<close> are Ed25519 over a
  whole message; \<open>depth\<close> is the recursion that Python still allows.
\<close>

section \<open>Building an export\<close>

definition SCITT_EXPORT_KIND :: string where
  "SCITT_EXPORT_KIND = ''paybond.agent_receipt_scitt_export_v1''"

definition SCITT_STATEMENT_KIND :: string where
  "SCITT_STATEMENT_KIND = ''paybond.agent_receipt_scitt_statement_v1''"

definition jcs_bytes :: "json \<Rightarrow> string" where
  "jcs_bytes v = utf8 (jcs_text v)"

definition scitt_hex64 :: "string \<Rightarrow> string \<Rightarrow> exn + string" where
  "scitt_hex64 value fld =
     (let t = lower (strip value)
      in rbind (ensure (hex64_re t) (cbor_error (fld @ '' must be a lowercase 64-char hex digest''))) (\<lambda>_. Inr t))"

text \<open>\<open>if kid and kid.strip()\<close>.\<close>

definition kid_of :: "string option \<Rightarrow> string option" where
  "kid_of kid = (case kid of None \<Rightarrow> None | Some k \<Rightarrow> if strip k = [] then None else Some (strip k))"

definition build_protected_header :: "string \<Rightarrow> string \<Rightarrow> string option \<Rightarrow> exn + string" where
  "build_protected_header issuer subject kid =
     rbind (encode_cbor_tstr issuer) (\<lambda>iss.
     rbind (encode_cbor_tstr subject) (\<lambda>sub.
     rbind (encode_cbor_map [(Int_key 1, iss), (Int_key 2, sub)]) (\<lambda>claims.
     rbind (encode_cbor_int (-8)) (\<lambda>alg.
     rbind (case kid_of kid of None \<Rightarrow> Inr [] | Some k \<Rightarrow> rbind (encode_cbor_tstr k) (\<lambda>v. Inr [(Int_key 4, v)])) (\<lambda>kids.
     encode_cbor_map ([(Int_key 1, alg), (Int_key 15, claims)] @ kids))))))"

definition scitt_statement :: "string \<Rightarrow> string \<Rightarrow> (string, json) dict" where
  "scitt_statement receipt_id digest =
     [(''kind'', JStr SCITT_STATEMENT_KIND), (''receipt_id'', JStr receipt_id),
      (''message_digest_sha256_hex'', JStr digest)]"

definition sig_structure :: "string \<Rightarrow> string \<Rightarrow> exn + string" where
  "sig_structure protected_raw payload =
     rbind (encode_cbor_tstr ''Signature1'') (\<lambda>context.
     rbind (encode_cbor_bstr protected_raw) (\<lambda>header.
     rbind (encode_cbor_bstr []) (\<lambda>external.
     rbind (encode_cbor_bstr payload) (\<lambda>body.
     encode_cbor_array [context, header, external, body]))))"

definition cose_sign1 :: "string \<Rightarrow> string \<Rightarrow> string \<Rightarrow> exn + string" where
  "cose_sign1 protected_header payload signature =
     rbind (encode_cbor_bstr protected_header) (\<lambda>header.
     rbind (encode_cbor_map []) (\<lambda>unprotected.
     rbind (encode_cbor_bstr payload) (\<lambda>body.
     rbind (encode_cbor_bstr signature) (\<lambda>sig.
     rbind (encode_cbor_array [header, unprotected, body, sig]) (encode_cbor_tag 18)))))"

definition build_agent_receipt_scitt_export ::
  "(string \<Rightarrow> string \<Rightarrow> string) \<Rightarrow> (string \<Rightarrow> string) \<Rightarrow> string \<Rightarrow> string \<Rightarrow> string \<Rightarrow> string \<Rightarrow> string option \<Rightarrow>
   exn + (string, json) dict" where
  "build_agent_receipt_scitt_export sign public receipt_id message_digest seed_hex issuer kid =
     (let trimmed_id = strip receipt_id; trimmed_issuer = strip issuer in
      rbind (ensure (trimmed_id \<noteq> []) (cbor_error ''receipt_id is required'')) (\<lambda>_.
      rbind (ensure (trimmed_issuer \<noteq> []) (cbor_error ''issuer is required'')) (\<lambda>_.
      rbind (scitt_hex64 message_digest ''message_digest_sha256_hex'') (\<lambda>digest.
      rbind (rbind (scitt_hex64 seed_hex ''signing_private_key_seed_hex'') fromhex) (\<lambda>seed.
      let statement = scitt_statement trimmed_id digest; payload = jcs_bytes (JObj statement) in
      rbind (build_protected_header trimmed_issuer trimmed_id kid) (\<lambda>protected_header.
      rbind (sig_structure protected_header payload) (\<lambda>to_sign.
      rbind (cose_sign1 protected_header payload (sign seed to_sign)) (\<lambda>tagged.
      Inr ([(''kind'', JStr SCITT_EXPORT_KIND), (''receipt_id'', JStr trimmed_id),
            (''message_digest_sha256_hex'', JStr digest),
            (''signing_public_key_ed25519_hex'', JStr (to_hex (public seed))),
            (''issuer'', JStr trimmed_issuer), (''cose_sign1_tag18_hex'', JStr (to_hex tagged)),
            (''statement'', JObj statement)]
           @ (case kid_of kid of None \<Rightarrow> [] | Some k \<Rightarrow> [(''kid'', JStr k)]))))))))))"

section \<open>Verifying an export\<close>

text \<open>\<open>==\<close> of decoded JSON: numbers and truth values by value, dictionaries without order.\<close>

primrec py_value :: "json \<Rightarrow> json" where
  "py_value JNull = JNull"
| "py_value (JBool b) = JNum (of_bool b)"
| "py_value (JInt i) = JNum (of_int i)"
| "py_value (JNum q) = JNum q"
| "py_value (JStr s) = JStr s"
| "py_value (JArr l) = JArr (List.map py_value l)"
| "py_value (JObj d) = JObj (List.map (map_prod id py_value) d)"

definition py_equal :: "json \<Rightarrow> json \<Rightarrow> bool" where
  "py_equal a b \<longleftrightarrow> py_value (canonicalize_json a) = py_value (canonicalize_json b)"

text \<open>The four parts of a decoded \<open>COSE_Sign1\<close>: protected header, payload and signature.\<close>

definition cose_parts :: "cbor \<Rightarrow> exn + string \<times> string \<times> string" where
  "cose_parts tagged = (case tagged of
       C_dict t \<Rightarrow>
         (if map_of t (C_text ''tag'') \<noteq> Some (C_int 18)
          then Inl (cbor_error ''expected CBOR tag 18 COSE_Sign1 array'')
          else (case map_of t (C_text ''value'') of
              Some (C_list [protected_raw, _, payload, signature]) \<Rightarrow>
                (case (protected_raw, payload, signature) of
                   (C_bytes p, C_bytes b, C_bytes s) \<Rightarrow> Inr (p, b, s)
                 | (C_bytes p, C_bytes b, _) \<Rightarrow> Inl (cbor_error ''signature must be bstr'')
                 | (C_bytes p, _, _) \<Rightarrow> Inl (cbor_error ''payload must be bstr'')
                 | _ \<Rightarrow> Inl (cbor_error ''protected header must be bstr''))
            | _ \<Rightarrow> Inl (cbor_error ''COSE_Sign1 must be a 4-element array'')))
     | _ \<Rightarrow> Inl (cbor_error ''expected CBOR tag 18 COSE_Sign1 array''))"

definition verify_agent_receipt_scitt_export ::
  "nat \<Rightarrow> (string \<Rightarrow> string \<Rightarrow> string \<Rightarrow> bool) \<Rightarrow> (string, json) dict \<Rightarrow> exn + unit" where
  "verify_agent_receipt_scitt_export depth verify_sig doc =
     rbind (ensure (map_of doc ''kind'' = Some (JStr SCITT_EXPORT_KIND)) (cbor_error ''unexpected kind'')) (\<lambda>_.
     rbind (scitt_hex64 (json_text (jget doc ''message_digest_sha256_hex'')) ''message_digest_sha256_hex'') (\<lambda>digest.
     rbind (case jget doc ''statement'' of JObj st \<Rightarrow> Inr st
            | _ \<Rightarrow> Inl (cbor_error ''statement must be an object'')) (\<lambda>st.
     rbind (ensure (map_of st ''message_digest_sha256_hex'' = Some (JStr digest))
              (cbor_error ''statement digest mismatch'')) (\<lambda>_.
     rbind (ensure (py_equal (jget st ''receipt_id'') (jget doc ''receipt_id''))
              (cbor_error ''statement receipt_id mismatch'')) (\<lambda>_.
     rbind (fromhex (lower (or_text doc ''cose_sign1_tag18_hex''))) (\<lambda>raw.
     rbind (decode_cbor_item depth raw 0) (\<lambda>(tagged, _).
     rbind (cose_parts tagged) (\<lambda>(protected_raw, payload, signature).
     rbind (ensure (payload = jcs_bytes (JObj st)) (cbor_error ''COSE payload mismatch'')) (\<lambda>_.
     rbind (sig_structure protected_raw payload) (\<lambda>signed.
     rbind (rbind (scitt_hex64 (json_text (jget doc ''signing_public_key_ed25519_hex'')) ''signing_public_key_ed25519_hex'')
              fromhex) (\<lambda>key.
     ensure (verify_sig key signature signed) (cbor_error ''COSE_Sign1 signature invalid''))))))))))))"

section \<open>What is signed\<close>

lemma list_all2_reads:
  assumes "reads d a x" "reads d b y" "reads d c z" "reads d e w"
  shows "list_all2 (reads d) [a, b, c, e] [x, y, z, w]"
  using assms by simp

lemma sig_structure_reads:
  assumes "sig_structure p b = Inr s"
  shows "reads 2 s (C_list [C_text (utf8 ''Signature1''), C_bytes p, C_bytes [], C_bytes b])"
  using assms unfolding sig_structure_def rbind_Inr_iff numeral_2_eq_2
  by (auto intro!: reads_array[where depth = "Suc 0"] reads_tstr reads_bstr)

lemma sig_structure_inj:
  assumes "sig_structure p b = Inr s" "sig_structure p' b' = Inr s"
  shows "p = p' \<and> b = b'"
  using readsD[OF sig_structure_reads[OF assms(1)]] readsD[OF sig_structure_reads[OF assms(2)]] by simp

lemma cose_sign1_reads:
  assumes "cose_sign1 p b s = Inr e"
  shows "reads (Suc (Suc (Suc d))) e (C_dict [(C_text ''tag'', C_int 18),
      (C_text ''value'', C_list [C_bytes p, C_dict [], C_bytes b, C_bytes s])])"
proof -
  obtain x y z w i where parts: "encode_cbor_bstr p = Inr x" "encode_cbor_map [] = Inr y"
    "encode_cbor_bstr b = Inr z" "encode_cbor_bstr s = Inr w"
    "encode_cbor_array [x, y, z, w] = Inr i" "encode_cbor_tag 18 i = Inr e"
    using assms unfolding cose_sign1_def rbind_Inr_iff by blast
  have "reads (Suc d) y (C_dict [])"
    using reads_map[OF parts(2), of "[]" d "[]"] by simp
  then have "reads (Suc (Suc d)) i (C_list [C_bytes p, C_dict [], C_bytes b, C_bytes s])"
    by (intro reads_array[OF parts(5)] list_all2_reads reads_bstr parts)
  from reads_tag[OF parts(6) this] show ?thesis by simp
qed


section \<open>Exports that are built, and exports that are accepted\<close>

lemma scitt_hex64_Inr: "scitt_hex64 v f = Inr t \<longleftrightarrow> hex64_re t \<and> t = lower (strip v)"
  by (auto simp: scitt_hex64_def Let_def rbind_Inr_iff ensure_def split: if_splits)

lemma scitt_hex64_fixed: "hex64_re t \<Longrightarrow> scitt_hex64 t f = Inr t"
  unfolding scitt_hex64_Inr by (simp add: hex64_re_def hex_lower_texts)

lemma no_floats_canonical: "no_floats j \<Longrightarrow> no_floats (canonicalize_json j)"
proof (induction j)
  case (JObj d)
  have "no_floats (canonicalize_json (snd p))" if "p \<in> set d" for p
    using JObj that by (cases p) (auto simp: list_all_iff)
  then show ?case by (auto simp: list_all_iff)
qed (auto simp: list_all_iff)

lemma py_equal_refl [simp]: "py_equal a a"
  by (simp add: py_equal_def)

lemma built_export_verifies:
  assumes "\<And>k m. length (public k) = 32 \<and> verify_sig (public k) (sign k m) m" "3 \<le> depth"
    and "build_agent_receipt_scitt_export sign public receipt_id digest seed_hex issuer kid = Inr doc"
  shows "verify_agent_receipt_scitt_export depth verify_sig doc = Inr ()"
proof -
  define id where "id = strip receipt_id"
  define iss where "iss = strip issuer"
  define st where "st = scitt_statement id (lower (strip digest))"
  obtain seed hd tbs cose where parts:
    "hex64_re (lower (strip digest))" "sig_structure hd (jcs_bytes (JObj st)) = Inr tbs"
    "cose_sign1 hd (jcs_bytes (JObj st)) (sign seed tbs) = Inr cose"
    "doc = [(''kind'', JStr SCITT_EXPORT_KIND), (''receipt_id'', JStr id),
       (''message_digest_sha256_hex'', JStr (lower (strip digest))),
       (''signing_public_key_ed25519_hex'', JStr (to_hex (public seed))),
       (''issuer'', JStr iss), (''cose_sign1_tag18_hex'', JStr (to_hex cose)), (''statement'', JObj st)]
       @ (case kid_of kid of None \<Rightarrow> [] | Some k \<Rightarrow> [(''kid'', JStr k)])"
    using assms(3) unfolding build_agent_receipt_scitt_export_def Let_def rbind_Inr_iff scitt_hex64_Inr
      id_def[symmetric] iss_def[symmetric]
    by (auto simp: st_def ensure_def split: if_splits)
  obtain d where depth: "depth = Suc (Suc (Suc d))"
    using assms(2) by (metis Suc_le_D numeral_3_eq_3 Suc_le_mono)
  have cose: "decode_cbor_item depth cose 0 = Inr (C_dict [(C_text ''tag'', C_int 18),
      (C_text ''value'', C_list [C_bytes hd, C_dict [], C_bytes (jcs_bytes (JObj st)), C_bytes (sign seed tbs)])], length cose)"
    unfolding depth by (rule readsD[OF cose_sign1_reads[OF parts(3)]])
  then have "cose \<noteq> []" by (auto simp: depth decode_cbor_item_Suc byte_at_def)
  then have "to_hex cose \<noteq> []" using to_hex_texts(3)[of cose] by fastforce
  then show ?thesis
    using parts(1,2) cose assms(1)
    by (simp add: verify_agent_receipt_scitt_export_def parts(4) jget_def or_text_def truthy_def ensure_def
        scitt_hex64_fixed st_def scitt_statement_def cose_parts_def)
qed

text \<open>C36: An export that \<open>build_agent_receipt_scitt_export\<close> returns is accepted by the verifier, under any
  signature scheme whose signatures verify.\<close>

theorem scitt_export_verifies:
  assumes "\<And>k m. length (public k) = 32 \<and> verify_sig (public k) (sign k m) m" "3 \<le> depth"
    and "build_agent_receipt_scitt_export sign public receipt_id digest seed_hex issuer kid = Inr doc"
  shows "verify_agent_receipt_scitt_export depth verify_sig doc = Inr ()"
  by (rule built_export_verifies[OF assms])

definition sample_scitt :: "exn + (string, json) dict" where
  "sample_scitt = build_agent_receipt_scitt_export sample_sign sample_public '' r1 '' (replicate 64 CHR ''A'')
     (replicate 64 CHR ''0'') ''did:web:issuer'' (Some ''key-1'')"

lemma sample_scitt_built: obtains doc where "sample_scitt = Inr doc"
proof -
  have "is_inr sample_scitt" by code_simp
  then show ?thesis using that by (auto simp: is_inr_def split: sum.splits)
qed

lemma sample_scheme_verifies: "length (sample_public k) = 32 \<and> sample_verify (sample_public k) (sample_sign k m) m"
  by (simp add: sample_public_def sample_verify_def sample_sign_def)

theorem scitt_export_verifies_witness:
  "\<exists>doc. sample_scitt = Inr doc \<and> verify_agent_receipt_scitt_export 3 sample_verify doc = Inr ()"
proof -
  obtain doc where doc: "sample_scitt = Inr doc" by (rule sample_scitt_built)
  then show ?thesis
    using scitt_export_verifies[where public = sample_public and sign = sample_sign
        and verify_sig = sample_verify and depth = 3, OF sample_scheme_verifies] unfolding sample_scitt_def by auto
qed

text \<open>An accepted export carries a signature by its key over the signing structure of its own
  statement, which names the digest of the export.\<close>

theorem scitt_verified_signed:
  assumes "verify_agent_receipt_scitt_export depth verify_sig doc = Inr ()"
  shows "\<exists>st p s m key. jget doc ''statement'' = JObj st \<and>
    map_of st ''message_digest_sha256_hex'' = Some (JStr (lower (strip (json_text (jget doc ''message_digest_sha256_hex''))))) \<and>
    sig_structure p (jcs_bytes (JObj st)) = Inr m \<and>
    fromhex (lower (strip (json_text (jget doc ''signing_public_key_ed25519_hex'')))) = Inr key \<and> verify_sig key s m"
  using assms by (auto simp: verify_agent_receipt_scitt_export_def rbind_Inr_iff ensure_def scitt_hex64_Inr
      split: json.splits if_splits)

theorem scitt_verified_signed_witness:
  "\<exists>doc st p s m key. sample_scitt = Inr doc \<and> jget doc ''statement'' = JObj st \<and>
    sig_structure p (jcs_bytes (JObj st)) = Inr m \<and> sample_verify key s m"
proof -
  obtain doc where doc: "sample_scitt = Inr doc" by (rule sample_scitt_built)
  then have "verify_agent_receipt_scitt_export 3 sample_verify doc = Inr ()"
    using built_export_verifies[where public = sample_public and sign = sample_sign
        and verify_sig = sample_verify and depth = 3, OF sample_scheme_verifies] unfolding sample_scitt_def by auto
  from scitt_verified_signed[OF this] doc show ?thesis by blast
qed

text \<open>The signed bytes determine the statement.\<close>

lemma signed_statement_pinned:
  assumes "sig_structure p (jcs_bytes a) = Inr m" "sig_structure p' (jcs_bytes b) = Inr m" "no_floats a" "no_floats b"
  shows "canonicalize_json a = canonicalize_json b"
proof -
  have "jcs_text a = jcs_text b"
    using sig_structure_inj[OF assms(1,2)] by (auto simp: jcs_bytes_def dest: utf8_inj)
  then show ?thesis
    using assms(3,4) unfolding jcs_text_def by (intro json_dumps_unicode_inj no_floats_canonical)
qed

text \<open>
  The issuer of an export is not compared with the protected header that is signed: an accepted
  export is accepted under any other issuer.
\<close>

lemma issuer_unchecked:
  "verify_agent_receipt_scitt_export depth verify_sig (AList.update ''issuer'' v doc) =
   verify_agent_receipt_scitt_export depth verify_sig doc"
  by (simp add: verify_agent_receipt_scitt_export_def jget_def or_text_def update_conv')

end
