(* ===== verification/Receipt_Frames.thy ===== *)
theory Receipt_Frames
  imports Scitt_Export
begin

text \<open>
  Two wrappers around a receipt: the content-addressed PEF frame of \<open>agent_receipt_pef.py\<close> and the
  projection of \<open>agent_receipt_acta.py\<close> to an allow or deny decision.
\<close>

section \<open>PEF frames\<close>

definition PEF_CANON :: string where
  "PEF_CANON = ''urn:x402:canonicalisation:jcs-rfc8785-v1''"

definition PEF_CLAIM_TYPE :: string where
  "PEF_CLAIM_TYPE = ''paybond_agent_receipt_v1''"

definition PEF_RECEIPT_FORMAT :: string where
  "PEF_RECEIPT_FORMAT = ''paybond.agent_receipt_v1''"

definition pef_error :: "string \<Rightarrow> exn" where
  "pef_error m = ValueError (''pef: '' @ m)"

definition pef_hash :: "(string \<Rightarrow> string) \<Rightarrow> json \<Rightarrow> string" where
  "pef_hash H v = ''sha256:'' @ to_hex (H (jcs_bytes v))"

definition agent_receipt_pef_receipt_hash :: "(string \<Rightarrow> string) \<Rightarrow> (string, json) dict \<Rightarrow> string" where
  "agent_receipt_pef_receipt_hash H receipt = pef_hash H (JObj receipt)"

text \<open>\<open>isinstance(v, int)\<close> holds of truth values too.\<close>

definition timestamp_ok :: "json \<Rightarrow> bool" where
  "timestamp_ok v = (case v of JInt i \<Rightarrow> 0 \<le> i | JBool _ \<Rightarrow> True | _ \<Rightarrow> False)"

definition agent_receipt_pef_preimage ::
  "(string, json) dict \<Rightarrow> string \<Rightarrow> json \<Rightarrow> string \<Rightarrow> exn + (string, json) dict" where
  "agent_receipt_pef_preimage receipt provider_did timestamp_ms receipt_hash =
     (let provider = strip provider_did in
      rbind (ensure (provider \<noteq> []) (pef_error ''frame_provider_did is required'')) (\<lambda>_.
      rbind (ensure (timestamp_ok timestamp_ms) (pef_error ''frame_timestamp_ms must be a non-negative integer'')) (\<lambda>_.
      Inr [(''canon_version'', JStr PEF_CANON), (''claim_type'', JStr PEF_CLAIM_TYPE),
           (''frame_provider_did'', JStr provider), (''frame_timestamp_ms'', timestamp_ms),
           (''pef_version'', JStr ''1''), (''receipt'', JObj receipt), (''receipt_format'', JStr PEF_RECEIPT_FORMAT),
           (''receipt_hash'', JStr receipt_hash)])))"

definition agent_receipt_pef_frame_id :: "(string \<Rightarrow> string) \<Rightarrow> (string, json) dict \<Rightarrow> string" where
  "agent_receipt_pef_frame_id H preimage = pef_hash H (JObj preimage)"

definition build_agent_receipt_pef_frame ::
  "(string \<Rightarrow> string) \<Rightarrow> (string, json) dict \<Rightarrow> string \<Rightarrow> int \<Rightarrow> exn + (string, json) dict" where
  "build_agent_receipt_pef_frame H receipt provider_did timestamp_ms =
     (let receipt_hash = agent_receipt_pef_receipt_hash H receipt in
      rbind (agent_receipt_pef_preimage receipt provider_did (JInt timestamp_ms) receipt_hash) (\<lambda>preimage.
      Inr [(''canon_version'', JStr PEF_CANON), (''claim_type'', JStr PEF_CLAIM_TYPE),
           (''frame_id'', JStr (agent_receipt_pef_frame_id H preimage)),
           (''frame_provider_did'', JStr (get_str preimage ''frame_provider_did'' [])),
           (''frame_timestamp_ms'', JInt timestamp_ms), (''pef_version'', JStr ''1''), (''receipt'', JObj receipt),
           (''receipt_format'', JStr PEF_RECEIPT_FORMAT), (''receipt_hash'', JStr receipt_hash)]))"

definition verify_agent_receipt_pef_frame_id :: "(string \<Rightarrow> string) \<Rightarrow> (string, json) dict \<Rightarrow> exn + unit" where
  "verify_agent_receipt_pef_frame_id H frame =
     rbind (case jget frame ''receipt'' of JObj r \<Rightarrow> Inr r | _ \<Rightarrow> Inl (pef_error ''receipt must be an object'')) (\<lambda>receipt.
     let expected = agent_receipt_pef_receipt_hash H receipt; timestamp = jget frame ''frame_timestamp_ms'' in
     rbind (ensure (map_of frame ''receipt_hash'' = Some (JStr expected)) (pef_error ''receipt_hash mismatch'')) (\<lambda>_.
     rbind (ensure (timestamp_ok timestamp) (pef_error ''frame_timestamp_ms must be a non-negative integer'')) (\<lambda>_.
     rbind (agent_receipt_pef_preimage receipt (or_text frame ''frame_provider_did'') timestamp expected) (\<lambda>preimage.
     rbind (ensure (map_of frame ''frame_id'' = Some (JStr (agent_receipt_pef_frame_id H preimage)))
              (pef_error ''frame_id mismatch'')) (\<lambda>_.
     ensure (map_of frame ''claim_type'' = Some (JStr PEF_CLAIM_TYPE)) (pef_error ''unexpected claim_type''))))))"

section \<open>ACTA decisions\<close>

definition as_mapping_or_empty :: "json \<Rightarrow> (string, json) dict" where
  "as_mapping_or_empty v = (case v of JObj d \<Rightarrow> d | _ \<Rightarrow> [])"

definition acta_string :: "json \<Rightarrow> string option" where
  "acta_string v = (case v of JStr s \<Rightarrow> or_none (strip s) | _ \<Rightarrow> None)"

definition acta_text :: "(string, json) dict \<Rightarrow> string \<Rightarrow> string" where
  "acta_text d k = str_or (acta_string (jget d k)) []"

definition sha256_prefixed :: "string \<Rightarrow> string" where
  "sha256_prefixed hex_digest =
     (let n = lower (strip hex_digest) in if startswith n ''sha256:'' then n else ''sha256:'' @ n)"

definition project_acta_decision_from_agent_receipt :: "(string, json) dict \<Rightarrow> string" where
  "project_acta_decision_from_agent_receipt receipt =
     (let outcome = as_mapping_or_empty (jget receipt ''outcome'');
          execution = as_mapping_or_empty (jget receipt ''execution'');
          evidence = as_mapping_or_empty (jget receipt ''evidence'')
      in if lower (acta_text receipt ''scope'') = ''intent_terminal'' then
           (let settlement = upper (acta_text outcome ''settlement_outcome'') in
            if settlement \<in> {''FAILED'', ''REVERSED''} then ''deny''
            else if settlement \<in> {''SETTLED'', ''PENDING_FINALITY''} then ''allow''
            else if lower (acta_text outcome ''harbor_state'') \<in> {''failed'', ''failure'', ''refunded''} then ''deny''
            else ''allow'')
         else if lower (acta_text execution ''outcome'') \<notin> {[], ''executed''} then ''deny''
         else if jget evidence ''predicate_passed'' = JBool False \<or> jget outcome ''predicate_passed'' = JBool False then ''deny''
         else ''allow'')"

definition acta_error :: "string \<Rightarrow> exn" where
  "acta_error k = ValueError (''acta projection: '' @ k @ '' is required'')"

definition acta_required :: "(string, json) dict \<Rightarrow> string \<Rightarrow> exn + string" where
  "acta_required d k = (let t = acta_text d k in rbind (ensure (t \<noteq> []) (acta_error k)) (\<lambda>_. Inr t))"

definition acta_entry :: "string \<Rightarrow> string \<Rightarrow> (string, json) dict" where
  "acta_entry k t = (if t = [] then [] else [(k, JStr t)])"

definition project_agent_receipt_to_acta_decision_receipt :: "(string, json) dict \<Rightarrow> exn + (string, json) dict" where
  "project_agent_receipt_to_acta_decision_receipt receipt =
     rbind (acta_required receipt ''receipt_id'') (\<lambda>receipt_id.
     rbind (acta_required receipt ''issued_at'') (\<lambda>issued_at.
     rbind (acta_required receipt ''scope'') (\<lambda>scope.
     rbind (acta_required receipt ''signing_public_key_ed25519_hex'') (\<lambda>key.
     rbind (acta_required receipt ''ed25519_signature_hex'') (\<lambda>sig.
     let pub_key = lower key;
         digest = lower (acta_text receipt ''message_digest_sha256_hex'');
         authorization = as_mapping_or_empty (jget receipt ''authorization'');
         policy = as_mapping_or_empty (jget authorization ''policy'');
         execution = as_mapping_or_empty (jget receipt ''execution'');
         outcome = as_mapping_or_empty (jget receipt ''outcome'');
         continuity = as_mapping_or_empty (jget receipt ''continuity'');
         policy_digest = acta_text policy ''content_digest_sha256_hex''
     in Inr [(''payload'', JObj
          ([(''type'', JStr ''paybond:agent_receipt''), (''issued_at'', JStr issued_at), (''issuer_id'', JStr pub_key),
            (''decision'', JStr (project_acta_decision_from_agent_receipt receipt)),
            (''ars_receipt_id'', JStr receipt_id), (''ars_scope'', JStr scope), (''ars_kind'', JStr ''paybond.agent_receipt_v1'')]
           @ acta_entry ''tool_name'' (acta_text execution ''tool_name'')
           @ acta_entry ''reason'' (first_text [acta_text outcome ''harbor_state'',
               acta_text outcome ''spend_reservation_outcome'', acta_text outcome ''settlement_outcome''])
           @ (if policy_digest = [] then [] else [(''policy_digest'', JStr (sha256_prefixed policy_digest))])
           @ acta_entry ''session_id'' (first_text [acta_text execution ''run_id'', acta_text continuity ''run_id''])
           @ acta_entry ''action_ref'' (lower (first_text [acta_text execution ''arguments_digest_sha256_hex'', digest]))
           @ (if digest = [] then [] else [(''payload_digest'', JStr (sha256_prefixed digest))]))),
         (''signature'', JObj [(''alg'', JStr ''EdDSA''), (''kid'', JStr pub_key), (''sig'', JStr (lower sig))])])))))"

end
