(* ===== verification/X402_Receipt.thy ===== *)
theory X402_Receipt
  imports Receipt_Frames Fund_Client Agent_Mandate
begin

text \<open>
  Signed x402 delivery receipts: \<open>x402_receipt_signature.py\<close>, which authenticates a receipt in the EIP-712
  or JWS format against a pinned signer, and \<open>x402_receipt_evidence.py\<close>, which maps it to completion
  evidence.  Keccak, key recovery, Ed25519, ES256 and the JSON parser are a record of functions.
\<close>

record x402_library =
  xl_keccak :: "string \<Rightarrow> string"
  xl_recover :: "string \<Rightarrow> string \<Rightarrow> string list option"
    \<comment> \<open>digest and 64-byte signature to uncompressed public keys; None when it raises\<close>
  xl_ed25519 :: "string \<Rightarrow> string \<Rightarrow> string \<Rightarrow> bool"  \<comment> \<open>key, signature, message\<close>
  xl_es256 :: "nat \<Rightarrow> nat \<Rightarrow> string \<Rightarrow> string \<Rightarrow> exn + bool"  \<comment> \<open>coordinates, signature, message\<close>
  xl_sha256 :: "string \<Rightarrow> string"
  xl_loads :: "string \<Rightarrow> exn + json"  \<comment> \<open>\<open>json.loads\<close> of UTF-8 bytes\<close>

section \<open>Base64\<close>

text \<open>
  \<open>base64.urlsafe_b64decode\<close>: characters outside the alphabet are skipped, and a complete padding ends
  the text.  The arguments are the position in the group of four, the bits left over and the pads.
\<close>

definition b64_index :: "char \<Rightarrow> nat option" where
  "b64_index c = (let n = (of_char c :: nat) in
     if is_upper c then Some (n - 65) else if is_lower c then Some (n - 71) else if is_digit c then Some (n + 4)
     else if c = CHR ''+'' \<or> c = CHR ''-'' then Some 62 else if c = CHR ''/'' \<or> c = CHR ''_'' then Some 63 else None)"

fun a2b_base64 :: "nat \<Rightarrow> nat \<Rightarrow> nat \<Rightarrow> string \<Rightarrow> exn + string" where
  "a2b_base64 quad left pads [] =
     (if quad = 0 then Inr []
      else if quad = 1 then Inl (ValueError ''Invalid base64-encoded string'')
      else Inl (ValueError ''Incorrect padding''))"
| "a2b_base64 quad left pads (c # s) =
     (if c = CHR ''='' then
        (if quad \<ge> 2 then (if quad + pads + 1 \<ge> 4 then Inr [] else a2b_base64 quad left (pads + 1) s)
         else a2b_base64 quad left pads s)
      else (case b64_index c of
          None \<Rightarrow> a2b_base64 quad left pads s
        | Some v \<Rightarrow>
            (if quad = 0 then a2b_base64 1 v 0 s
             else if quad = 1 then rbind (a2b_base64 2 (v mod 16) 0 s) (\<lambda>bs. Inr (byte (left * 4 + v div 16) # bs))
             else if quad = 2 then rbind (a2b_base64 3 (v mod 4) 0 s) (\<lambda>bs. Inr (byte (left * 16 + v div 4) # bs))
             else rbind (a2b_base64 0 0 0 s) (\<lambda>bs. Inr (byte (left * 64 + v) # bs)))))"

definition base64url_decode :: "string \<Rightarrow> exn + string" where
  "base64url_decode value =
     rbind (ensure (list_all (\<lambda>c. (of_char c :: nat) < 128) value) (ValueError ''UnicodeEncodeError'')) (\<lambda>_.
     a2b_base64 0 0 0 (value @ replicate ((4 - length value mod 4) mod 4) CHR ''=''))"

section \<open>EIP-712\<close>

datatype eip712_type = Eip_string | Eip_uint256

definition eip712_type_name :: "eip712_type \<Rightarrow> string" where
  "eip712_type_name t = (case t of Eip_string \<Rightarrow> ''string'' | Eip_uint256 \<Rightarrow> ''uint256'')"

definition encode_type :: "string \<Rightarrow> (string \<times> eip712_type) list \<Rightarrow> string" where
  "encode_type name members =
     name @ ''('' @ py_join '','' (List.map (\<lambda>(f, t). eip712_type_name t @ '' '' @ f) members) @ '')''"

definition big_endian :: "nat \<Rightarrow> int \<Rightarrow> exn + string" where
  "big_endian len i =
     (if i < 0 then Inl (HostError ''OverflowError: can't convert negative int to unsigned'')
      else if nat i \<ge> 256 ^ len then Inl (HostError ''OverflowError: int too big to convert'')
      else Inr (List.map (\<lambda>k. byte (nat i div 256 ^ k mod 256)) (rev [0..<len])))"

definition encode_value :: "x402_library \<Rightarrow> eip712_type \<Rightarrow> json \<Rightarrow> exn + string" where
  "encode_value l t v = (case t of
       Eip_string \<Rightarrow> Inr (xl_keccak l (utf8 (if v = JNull then [] else json_text v)))
     | Eip_uint256 \<Rightarrow> rbind (py_int v) (big_endian 32))"

definition hash_struct :: "x402_library \<Rightarrow> string \<Rightarrow> (string \<times> eip712_type) list \<Rightarrow> (string, json) dict \<Rightarrow> exn + string" where
  "hash_struct l name members data =
     rbind (rmap (\<lambda>(f, t). encode_value l t (jget data f)) members) (\<lambda>encoded.
     Inr (xl_keccak l (xl_keccak l (utf8 (encode_type name members)) @ concat encoded)))"

definition RECEIPT_FIELDS :: "(string \<times> eip712_type) list" where
  "RECEIPT_FIELDS = [(''version'', Eip_uint256), (''network'', Eip_string), (''resourceUrl'', Eip_string),
     (''payer'', Eip_string), (''issuedAt'', Eip_uint256), (''transaction'', Eip_string)]"

definition normalize_receipt_payload :: "(string, json) dict \<Rightarrow> (string, json) dict" where
  "normalize_receipt_payload payload =
     AList.update ''transaction'' (case jget payload ''transaction'' of JStr t \<Rightarrow> JStr t | _ \<Rightarrow> JStr []) payload"

definition eip712_receipt_digest :: "x402_library \<Rightarrow> (string, json) dict \<Rightarrow> exn + string" where
  "eip712_receipt_digest l payload =
     rbind (hash_struct l ''EIP712Domain'' [(''name'', Eip_string), (''version'', Eip_string), (''chainId'', Eip_uint256)]
              [(''name'', JStr ''x402 receipt''), (''version'', JStr ''1''), (''chainId'', JInt 1)]) (\<lambda>domain_separator.
     rbind (hash_struct l ''Receipt'' RECEIPT_FIELDS (normalize_receipt_payload payload)) (\<lambda>struct_hash.
     Inr (xl_keccak l (byte 0x19 # byte 0x01 # domain_separator @ struct_hash))))"

definition recover_eip712_signer :: "x402_library \<Rightarrow> string \<Rightarrow> string \<Rightarrow> exn + string" where
  "recover_eip712_signer l digest signature =
     (let trimmed = strip signature; failed = ValueError ''x402 EIP-712 signature verification failed'' in
      rbind (ensure (startswith trimmed ''0x'' \<and> length trimmed = 132 \<and> list_all is_hex_any (drop 2 trimmed))
               (ValueError ''x402 EIP-712 signature must be 0x-prefixed 65-byte hex'')) (\<lambda>_.
      rbind (fromhex (drop 2 trimmed)) (\<lambda>raw.
      rbind (ensure (length raw = 65) (ValueError ''x402 EIP-712 signature must decode to 65 bytes'')) (\<lambda>_.
      let v = (of_char (raw ! 64) :: nat); recovery = (if v \<ge> 27 then v - 27 else v) in
      rbind (ensure (recovery \<in> {0, 1}) (ValueError ''x402 EIP-712 signature recovery id must be 0 or 1'')) (\<lambda>_.
      case xl_recover l digest (take 64 raw) of
        None \<Rightarrow> Inl failed
      | Some candidates \<Rightarrow>
          (case List.filter (\<lambda>i. i < length candidates) [recovery, 1 - recovery] of
             [] \<Rightarrow> Inl failed
           | i # _ \<Rightarrow>
               (let h = xl_keccak l (drop 1 (candidates ! i)) in Inr (''0x'' @ to_hex (drop (length h - 20) h)))))))))"

section \<open>JWS\<close>

definition jwk_thumbprint :: "x402_library \<Rightarrow> (string, json) dict \<Rightarrow> exn + string" where
  "jwk_thumbprint l jwk =
     (let part = (\<lambda>k. (k, JStr (get_str jwk k []))) in
      if map_of jwk ''kty'' = Some (JStr ''OKP'') then
        Inr (b64url (xl_sha256 l (json_dumps (JObj [part ''crv'', (''kty'', JStr ''OKP''), part ''x'']))))
      else if map_of jwk ''kty'' = Some (JStr ''EC'') then
        Inr (b64url (xl_sha256 l (json_dumps (JObj [part ''crv'', (''kty'', JStr ''EC''), part ''x'', part ''y'']))))
      else Inl (ValueError ''x402 JWS expected_signer check requires an OKP or EC jwk''))"

definition assert_jws_expected_signer :: "x402_library \<Rightarrow> (string, json) dict \<Rightarrow> string \<Rightarrow> exn + unit" where
  "assert_jws_expected_signer l jwk expected_signer =
     (let expected = strip expected_signer in
      if expected = [] then Inr ()
      else rbind (jwk_thumbprint l jwk) (\<lambda>thumbprint.
        let raw_x = (case jget jwk ''x'' of JStr x \<Rightarrow> strip x | _ \<Rightarrow> []) in
        ensure (expected = thumbprint \<or> raw_x \<noteq> [] \<and> expected = raw_x)
          (ValueError ''x402 JWS embedded key does not match expected signer'')))"

definition bytes_nat :: "string \<Rightarrow> nat" where
  "bytes_nat s = foldl (\<lambda>n c. 256 * n + of_char c) 0 s"

definition jws_part :: "x402_library \<Rightarrow> string \<Rightarrow> exn + json" where
  "jws_part l b64 = rbind (base64url_decode b64) (xl_loads l)"

definition jws_coordinate :: "(string, json) dict \<Rightarrow> string \<Rightarrow> string option" where
  "jws_coordinate jwk k = as_str (jget jwk k)"

text \<open>The check of a signature under the key that the header carries.\<close>

definition check_jws_signature :: "x402_library \<Rightarrow> json \<Rightarrow> (string, json) dict \<Rightarrow> string \<Rightarrow> string \<Rightarrow> exn + unit" where
  "check_jws_signature l alg jwk signing_input signature =
     (if alg = JStr ''EdDSA'' \<or> alg = JStr ''Ed25519'' then
        (case jws_coordinate jwk ''x'' of
           None \<Rightarrow> Inl (ValueError ''x402 JWS Ed25519 verification requires embedded jwk.x'')
         | Some x \<Rightarrow>
             rbind (base64url_decode x) (\<lambda>key.
             rbind (ensure (length key = 32) (ValueError ''An Ed25519 public key is 32 bytes long'')) (\<lambda>_.
             ensure (xl_ed25519 l key signature signing_input)
               (ValueError ''x402 JWS Ed25519 signature verification failed''))))
      else if alg = JStr ''ES256'' then
        (case (jws_coordinate jwk ''x'', jws_coordinate jwk ''y'') of
           (Some x, Some y) \<Rightarrow>
             rbind (base64url_decode x) (\<lambda>bx. rbind (base64url_decode y) (\<lambda>by.
             rbind (xl_es256 l (bytes_nat bx) (bytes_nat by) signature signing_input) (\<lambda>ok.
             ensure ok (ValueError ''x402 JWS ES256 signature verification failed''))))
         | _ \<Rightarrow> Inl (ValueError ''x402 JWS ES256 verification requires embedded jwk x/y''))
      else Inl (ValueError (''unsupported x402 JWS alg '' @ json_text alg)))"

definition verify_jws_compact_signature :: "x402_library \<Rightarrow> string \<Rightarrow> string \<Rightarrow> exn + json" where
  "verify_jws_compact_signature l signature expected_signer =
     (case py_split CHR ''.'' signature of
        [header_b64, payload_b64, sig_b64] \<Rightarrow>
          rbind (jws_part l header_b64) (\<lambda>header.
          rbind (jws_part l payload_b64) (\<lambda>payload.
          rbind (base64url_decode sig_b64) (\<lambda>sig.
          case header of
            JObj h \<Rightarrow>
              (case jget h ''jwk'' of
                 JObj jwk \<Rightarrow>
                   rbind (check_jws_signature l (jget h ''alg'') jwk (utf8 (header_b64 @ ''.'' @ payload_b64)) sig) (\<lambda>_.
                   rbind (if expected_signer = [] then Inr () else assert_jws_expected_signer l jwk expected_signer) (\<lambda>_.
                   Inr payload))
               | _ \<Rightarrow> Inl (ValueError ''x402 JWS verification requires embedded jwk''))
          | _ \<Rightarrow> Inl (AttributeError ''object has no attribute get''))))
      | _ \<Rightarrow> Inl (ValueError ''x402 JWS signature must use compact serialization''))"

section \<open>Signed receipts\<close>

record signed_x402 =
  sx_jws :: bool
  sx_payload :: "(string, json) dict"
  sx_signature :: string

definition signed_candidate :: "(string, json) dict option \<Rightarrow> signed_x402 option" where
  "signed_candidate r = (case r of
       None \<Rightarrow> None
     | Some d \<Rightarrow> (case (jget d ''format'', jget d ''signature'') of
           (JStr f, JStr s) \<Rightarrow>
             Some \<lparr>sx_jws = (f = ''jws''), sx_payload = object_or_empty (jget d ''payload''), sx_signature = s\<rparr>
         | _ \<Rightarrow> None))"

text \<open>\<open>a or b\<close> on a dictionary or None.\<close>

definition dict_or :: "(string, json) dict option \<Rightarrow> (string, json) dict option \<Rightarrow> (string, json) dict option" where
  "dict_or a b = (case a of Some d \<Rightarrow> if d = [] then b else a | None \<Rightarrow> b)"

definition member_object :: "(string, json) dict option \<Rightarrow> string \<Rightarrow> (string, json) dict option" where
  "member_object d k = (case d of Some m \<Rightarrow> read_object (jget m k) | None \<Rightarrow> None)"

definition offer_candidates :: "(string, json) dict \<Rightarrow> signed_x402 option list" where
  "offer_candidates extensions =
     (let offer = dict_or (read_object (jget extensions ''offer-receipt'')) (read_object (jget extensions ''offerReceipt''))
      in [signed_candidate (member_object (member_object offer ''info'') ''receipt''),
          (case offer of None \<Rightarrow> None | Some d \<Rightarrow> signed_candidate (dict_or (member_object offer ''receipt'') offer))])"

definition extract_signed_x402_receipt :: "(string, json) dict \<Rightarrow> exn + signed_x402" where
  "extract_signed_x402_receipt input_record =
     (case List.filter (\<lambda>c. c \<noteq> None)
        ((case read_object (jget input_record ''extensions'') of Some e \<Rightarrow> offer_candidates e | None \<Rightarrow> [])
         @ [signed_candidate (read_object (jget input_record ''receipt'')), signed_candidate (Some input_record)]) of
        Some c # _ \<Rightarrow> Inr c
      | _ \<Rightarrow> Inl (ValueError (''x402 receipt input missing signed offer-receipt artifact '' @
               ''(format and signature required)'')))"

definition verify_signed_x402_receipt :: "x402_library \<Rightarrow> string \<Rightarrow> signed_x402 \<Rightarrow> exn + json" where
  "verify_signed_x402_receipt l expected_signer signed =
     (let pinned = strip expected_signer in
      rbind (ensure (pinned \<noteq> []) (ValueError (''x402 receipt verification requires a non-empty '' @
               ''expected_signer to authenticate the issuer''))) (\<lambda>_.
      rbind (ensure (sx_signature signed \<noteq> []) (ValueError ''x402 signed receipt missing signature'')) (\<lambda>_.
      if sx_jws signed then verify_jws_compact_signature l (sx_signature signed) pinned
      else
        rbind (eip712_receipt_digest l (sx_payload signed)) (\<lambda>digest.
        rbind (recover_eip712_signer l digest (sx_signature signed)) (\<lambda>recovered.
        rbind (ensure (lower recovered = lower pinned)
                 (ValueError ''x402 EIP-712 recovered signer does not match expected signer'')) (\<lambda>_.
        Inr (JObj (sx_payload signed))))))))"

section \<open>Evidence\<close>

definition FUNDING_EVIDENCE_FIELDS :: "string list" where
  "FUNDING_EVIDENCE_FIELDS = [''payment_session_id'', ''authorization_id'', ''capture_id'', ''void_id'',
     ''x402_payment_session_id'', ''onchain_transaction_hashes'']"

definition read_first_string :: "(string, json) dict \<Rightarrow> string list \<Rightarrow> string option" where
  "read_first_string d ks =
     (case List.map_filter (\<lambda>v. case v of JStr s \<Rightarrow> or_none s | _ \<Rightarrow> None) (List.map (jget d) ks) of
        [] \<Rightarrow> None | s # _ \<Rightarrow> Some s)"

definition read_first_number :: "(string, json) dict \<Rightarrow> string list \<Rightarrow> json option" where
  "read_first_number d ks = (case List.filter (\<lambda>v. case v of JInt _ \<Rightarrow> True | JNum _ \<Rightarrow> True | _ \<Rightarrow> False)
       (List.map (jget d) ks) of [] \<Rightarrow> None | v # _ \<Rightarrow> Some v)"

definition assert_not_x402_funding_artifact :: "(string, json) dict \<Rightarrow> exn + unit" where
  "assert_not_x402_funding_artifact d =
     rbind (ensure (read_first_string d [''event_type'', ''eventType'', ''type''] \<noteq> Some ''authorization_succeeded'')
       (ValueError (''authorization_succeeded webhooks are funding signals, '' @ ''not x402 delivery receipt evidence''))) (\<lambda>_.
     case List.filter (\<lambda>k. k \<in> set (List.map fst d)) FUNDING_EVIDENCE_FIELDS of
       [] \<Rightarrow> Inr ()
     | k # _ \<Rightarrow> Inl (ValueError (''funding field '' @ k @ '' must not be submitted as tool-completion evidence'')))"

definition missing_receipt_fields :: exn where
  "missing_receipt_fields = ValueError
     (''x402 receipt payload missing required fields '' @ ''(resourceUrl, payer, network, issuedAt)'')"

definition has_receipt_shape :: "(string, json) dict \<Rightarrow> bool" where
  "has_receipt_shape d \<longleftrightarrow>
     read_first_string d [''resourceUrl'', ''resource_url''] \<noteq> None \<and> read_first_string d [''payer''] \<noteq> None \<and>
     read_first_string d [''network''] \<noteq> None \<and> read_first_number d [''issuedAt'', ''issued_at''] \<noteq> None"

definition unwrap_receipt_record :: "x402_library \<Rightarrow> string \<Rightarrow> (string, json) dict \<Rightarrow> exn + (string, json) dict" where
  "unwrap_receipt_record l expected_signer d =
     rbind (assert_not_x402_funding_artifact d) (\<lambda>_.
     rbind (extract_signed_x402_receipt d) (\<lambda>signed.
     rbind (verify_signed_x402_receipt l expected_signer signed) (\<lambda>payload.
     case payload of
       JObj p \<Rightarrow> rbind (ensure (has_receipt_shape p) missing_receipt_fields) (\<lambda>_. Inr p)
     | _ \<Rightarrow> Inl (AttributeError ''object has no attribute get''))))"

definition build_x402_receipt_digest_payload :: "(string, json) dict \<Rightarrow> exn + (string, json) dict" where
  "build_x402_receipt_digest_payload raw =
     (case (read_first_string raw [''resourceUrl'', ''resource_url''], read_first_string raw [''payer''],
            read_first_string raw [''network''], read_first_number raw [''issuedAt'', ''issued_at'']) of
        (Some url, Some payer, Some network, Some issued_at) \<Rightarrow>
          rbind (py_int issued_at) (\<lambda>i.
          Inr ([(''resourceUrl'', JStr url), (''payer'', JStr payer), (''network'', JStr network), (''issuedAt'', JInt i)]
               @ (case read_first_string raw [''transaction'', ''txHash'', ''tx_hash''] of
                    Some t \<Rightarrow> [(''transaction'', JStr t)] | None \<Rightarrow> [])))
      | _ \<Rightarrow> Inl missing_receipt_fields)"

record attested_evidence =
  ae_artifact_blake3_hex :: "string list"
  ae_operation :: string
  ae_vendor_ref_id :: string

definition map_x402_receipt_to_artifact_attested_evidence ::
  "(string \<Rightarrow> string) \<Rightarrow> x402_library \<Rightarrow> string \<Rightarrow> (string, json) dict \<Rightarrow> exn + attested_evidence" where
  "map_x402_receipt_to_artifact_attested_evidence blake3 l expected_signer receipt_input =
     rbind (unwrap_receipt_record l expected_signer receipt_input) (\<lambda>raw.
     rbind (build_x402_receipt_digest_payload raw) (\<lambda>payload.
     Inr \<lparr>ae_artifact_blake3_hex = [json_value_digest blake3 (JObj payload)], ae_operation = ''attested'',
          ae_vendor_ref_id = get_str payload ''resourceUrl'' []\<rparr>))"

end
