(* ===== verification/Sep2828.thy ===== *)
theory Sep2828
  imports X402_Receipt Protocol_Receipt
begin

text \<open>
  Partner records as attestations: \<open>sep2828_signature.py\<close> verifies the decision and outcome records of an
  MCP server, \<open>mcp_sep2828_evidence.py\<close> maps them to completion evidence, and
  \<open>agent_receipt_external_attestations.py\<close> turns every kind of partner record into the entries of a receipt.
\<close>

section \<open>Signatures of records\<close>

definition SEP2828_SIGNATURE_KEYS :: "string list" where
  "SEP2828_SIGNATURE_KEYS = [''signature'', ''ed25519_signature_hex'', ''message_digest_sha256_hex'',
     ''signing_public_key_ed25519_hex'']"

definition ASSERTED_BLOCKS :: "string list" where
  "ASSERTED_BLOCKS = [''issuerAsserted'', ''receiptAsserted'']"

text \<open>\<open>^(sha256|blake3):\<close>, whatever the case.\<close>

definition strip_digest_prefix :: "string \<Rightarrow> string" where
  "strip_digest_prefix digest =
     (if startswith (lower digest) ''sha256:'' \<or> startswith (lower digest) ''blake3:'' then drop 7 digest else digest)"

definition strip_signature_fields :: "(string, json) dict \<Rightarrow> (string, json) dict" where
  "strip_signature_fields record = concat (List.map (\<lambda>(k, v).
     if k \<in> set SEP2828_SIGNATURE_KEYS then []
     else if k \<in> set ASSERTED_BLOCKS then
       (case v of
          JObj block \<Rightarrow> (let kept = del_keys SEP2828_SIGNATURE_KEYS block in if kept = [] then [] else [(k, JObj kept)])
        | _ \<Rightarrow> [])
     else [(k, v)]) record)"

text \<open>A pair of a signature and a key that are both texts, not empty.\<close>

definition signature_material :: "(string, json) dict option \<Rightarrow> (string \<times> string) option" where
  "signature_material block = (case block of
       None \<Rightarrow> None
     | Some b \<Rightarrow>
         (case (if truthy (jget b ''ed25519_signature_hex'') then jget b ''ed25519_signature_hex'' else jget b ''signature'',
                jget b ''signing_public_key_ed25519_hex'') of
            (JStr s, JStr k) \<Rightarrow> if s = [] \<or> k = [] then None else Some (strip s, strip k)
          | _ \<Rightarrow> None))"

definition extract_signature_material :: "(string, json) dict \<Rightarrow> exn + string \<times> string" where
  "extract_signature_material record =
     (case List.map_filter signature_material
        (List.map (\<lambda>k. read_object (jget record k)) ASSERTED_BLOCKS @ [Some record]) of
        m # _ \<Rightarrow> Inr m
      | [] \<Rightarrow> Inl (ValueError ''SEP-2828 record missing ed25519 signature and signing_public_key_ed25519_hex''))"

text \<open>The native verifier, when it is installed, and the Python one otherwise.\<close>

record record_verifier =
  rv_native :: "(string \<Rightarrow> string \<Rightarrow> string \<Rightarrow> exn + bool) option"  \<comment> \<open>digest, signature and key in hex\<close>
  rv_verify_sig :: "string \<Rightarrow> string \<Rightarrow> string \<Rightarrow> bool"  \<comment> \<open>key, signature, message\<close>
  rv_sha256 :: "string \<Rightarrow> string"

definition sep2828_failed :: exn where
  "sep2828_failed = ValueError ''SEP-2828 record signature verification failed''"

definition verify_ed25519_sha256_hex :: "record_verifier \<Rightarrow> string \<Rightarrow> string \<Rightarrow> string \<Rightarrow> exn + unit" where
  "verify_ed25519_sha256_hex rv digest_hex signature_hex public_key_hex = (case rv_native rv of
       Some native \<Rightarrow> rbind (native digest_hex signature_hex public_key_hex) (\<lambda>ok. ensure ok sep2828_failed)
     | None \<Rightarrow>
         rbind (fromhex public_key_hex) (\<lambda>key.
         rbind (ensure (length key = 32) (ValueError ''An Ed25519 public key is 32 bytes long'')) (\<lambda>_.
         rbind (fromhex signature_hex) (\<lambda>sig.
         rbind (fromhex digest_hex) (\<lambda>digest.
         ensure (rv_verify_sig rv key sig digest) sep2828_failed)))))"

definition record_content_digest_hex :: "record_verifier \<Rightarrow> (string, json) dict \<Rightarrow> string" where
  "record_content_digest_hex rv record = to_hex (rv_sha256 rv (jcs_bytes (JObj (strip_signature_fields record))))"

definition verify_sep2828_record_signature :: "record_verifier \<Rightarrow> (string, json) dict \<Rightarrow> exn + unit" where
  "verify_sep2828_record_signature rv record =
     rbind (extract_signature_material record) (\<lambda>(signature_hex, key_hex).
     verify_ed25519_sha256_hex rv (record_content_digest_hex rv record) signature_hex key_hex)"

definition sep_error :: "string \<Rightarrow> exn" where
  "sep_error m = ValueError (''SEP-2828 '' @ m)"

definition nonempty_text :: "json \<Rightarrow> string option" where
  "nonempty_text v = (case v of JStr s \<Rightarrow> or_none s | _ \<Rightarrow> None)"

definition need_text :: "json \<Rightarrow> string \<Rightarrow> exn + string" where
  "need_text v m = (case nonempty_text v of Some s \<Rightarrow> Inr s | None \<Rightarrow> Inl (sep_error m))"

definition verify_sep2828_receipt_pair ::
  "record_verifier \<Rightarrow> (string, json) dict \<Rightarrow> (string, json) dict \<Rightarrow> exn + unit" where
  "verify_sep2828_receipt_pair rv decision outcome =
     rbind (verify_sep2828_record_signature rv decision) (\<lambda>_.
     rbind (verify_sep2828_record_signature rv outcome) (\<lambda>_.
     case (read_object (jget decision ''backLink''), read_object (jget outcome ''backLink'')) of
       (Some dl, Some ol) \<Rightarrow>
         rbind (need_text (jget dl ''attestationDigest'') ''decision backLink.attestationDigest is required'') (\<lambda>d.
         rbind (ensure (jget ol ''attestationDigest'' = JStr d)
                  (sep_error ''decision and outcome backLink.attestationDigest must match'')) (\<lambda>_.
         case read_object (jget outcome ''outcomeDerived'') of
           None \<Rightarrow> Inl (sep_error ''outcome record must include outcomeDerived'')
         | Some derived \<Rightarrow>
             rbind (need_text (jget derived ''decisionDigest'') ''outcomeDerived.decisionDigest is required for pairing'') (\<lambda>t.
             ensure (strip_digest_prefix t = strip_digest_prefix (record_content_digest_hex rv decision))
               (sep_error ''outcomeDerived.decisionDigest does not match signed decision record''))))
     | _ \<Rightarrow> Inl (sep_error ''decision and outcome records must both include backLink'')))"

section \<open>Evidence\<close>

definition back_link_digest :: "(string, json) dict \<Rightarrow> string option" where
  "back_link_digest record = (case read_object (jget record ''backLink'') of
       Some b \<Rightarrow> nonempty_text (jget b ''attestationDigest'') | None \<Rightarrow> None)"

definition push_digest :: "string list \<Rightarrow> json \<Rightarrow> string list" where
  "push_digest hashes digest = (case nonempty_text digest of
       None \<Rightarrow> hashes
     | Some d \<Rightarrow> (let n = strip_digest_prefix d in if n \<in> set hashes then hashes else hashes @ [n]))"

definition map_sep2828_receipts_to_artifact_attested_evidence ::
  "record_verifier \<Rightarrow> (string, json) dict \<Rightarrow> (string, json) dict \<Rightarrow> exn + attested_evidence" where
  "map_sep2828_receipts_to_artifact_attested_evidence rv decision outcome =
     rbind (verify_sep2828_receipt_pair rv decision outcome) (\<lambda>_.
     let derived = object_or_empty (jget outcome ''outcomeDerived'');
         status = get_str derived ''status'' [];
         link = (case back_link_digest outcome of Some d \<Rightarrow> Some d | None \<Rightarrow> back_link_digest decision);
         hashes = push_digest (push_digest [] (jget derived ''decisionDigest'')) (jget derived ''resultCommitment'')
     in Inr \<lparr>ae_artifact_blake3_hex =
                (if hashes = [] then (case link of Some d \<Rightarrow> push_digest [] (JStr d) | None \<Rightarrow> []) else hashes),
             ae_operation = (if status = ''executed'' then ''attested'' else ''pending''),
             ae_vendor_ref_id = (case link of Some d \<Rightarrow> d | None \<Rightarrow> ''mcp-unknown'')\<rparr>)"

section \<open>External attestations\<close>

record attestation_env =
  at_records :: record_verifier
  at_x402 :: x402_library
  at_sha256 :: "string \<Rightarrow> string"
  at_verify_sig :: "string \<Rightarrow> string \<Rightarrow> string \<Rightarrow> bool"
  at_instant :: "string \<Rightarrow> exn + int"
  at_now :: int

definition partner_record_digest_sha256_hex :: "(string \<Rightarrow> string) \<Rightarrow> (string, json) dict \<Rightarrow> string" where
  "partner_record_digest_sha256_hex H record = to_hex (H (json_dumps (canonicalize_json (JObj record))))"

text \<open>Here an asserted block that is no object is kept, unlike in what is signed.\<close>

definition strip_sep2828_signature_fields :: "(string, json) dict \<Rightarrow> (string, json) dict" where
  "strip_sep2828_signature_fields record = concat (List.map (\<lambda>(k, v).
     if k \<in> set SEP2828_SIGNATURE_KEYS then []
     else (case v of
         JObj block \<Rightarrow>
           (if k \<in> set ASSERTED_BLOCKS then
              (let kept = del_keys SEP2828_SIGNATURE_KEYS block in if kept = [] then [] else [(k, JObj kept)])
            else [(k, v)])
       | _ \<Rightarrow> [(k, v)])) record)"

definition attestation :: "string \<Rightarrow> string \<Rightarrow> string \<Rightarrow> string \<Rightarrow> (string, json) dict" where
  "attestation source kind digest reference =
     [(''source'', JStr source), (''kind'', JStr kind), (''digest_sha256_hex'', JStr digest)]
     @ (if reference = [] then [] else [(''reference_id'', JStr reference)])"

definition sep2828_records_to_external_attestations ::
  "attestation_env \<Rightarrow> (string, json) dict \<Rightarrow> (string, json) dict \<Rightarrow> exn + (string, json) dict list" where
  "sep2828_records_to_external_attestations env decision outcome =
     rbind (verify_sep2828_receipt_pair (at_records env) decision outcome) (\<lambda>_.
     let reference = (case back_link_digest decision of Some d \<Rightarrow> strip_digest_prefix d | None \<Rightarrow> []);
         digest = (\<lambda>r. partner_record_digest_sha256_hex (at_sha256 env) (strip_sep2828_signature_fields r))
     in Inr [attestation ''sep2828_mcp'' ''decision_record'' (digest decision) reference,
             attestation ''sep2828_mcp'' ''outcome_record'' (digest outcome) reference])"

definition signed_mandate_to_external_attestations ::
  "attestation_env \<Rightarrow> (string, json) dict \<Rightarrow> (string, json) dict option \<Rightarrow> exn + (string, json) dict list" where
  "signed_mandate_to_external_attestations env signed binding =
     rbind (verify_signed_agent_mandate_v1 (at_sha256 env) (at_verify_sig env) (at_instant env) signed (at_now env)) (\<lambda>_.
     let external_id = (case binding of Some b \<Rightarrow> strip (get_str b ''external_authorization_id'' []) | None \<Rightarrow> []);
         nonce = strip (get_str signed ''nonce'' [])
     in Inr [attestation ''ap2'' ''agent_mandate_v1'' (lower (strip (get_str signed ''message_digest_sha256_hex'' [])))
              (first_text [external_id, nonce])])"

definition protocol_authorization_receipt_to_external_attestations ::
  "attestation_env \<Rightarrow> (string, json) dict \<Rightarrow> exn + (string, json) dict list" where
  "protocol_authorization_receipt_to_external_attestations env receipt =
     rbind (verify_protocol_authorization_receipt_v1 (at_sha256 env) (at_verify_sig env) (at_instant env) receipt) (\<lambda>v.
     Inr [[(''source'', JStr ''ap2''), (''kind'', JStr ''protocol_authorization_receipt_v1''),
           (''digest_sha256_hex'', JStr (sm_message_digest (ar_signing v))), (''reference_id'', JStr (ar_intent_id v))]])"

definition protocol_settlement_receipt_to_external_attestations ::
  "attestation_env \<Rightarrow> (string, json) dict \<Rightarrow> exn + (string, json) dict list" where
  "protocol_settlement_receipt_to_external_attestations env receipt =
     rbind (verify_protocol_settlement_receipt_v1 (at_sha256 env) (at_verify_sig env) (at_instant env) receipt) (\<lambda>v.
     Inr [[(''source'', JStr ''ap2''), (''kind'', JStr ''protocol_settlement_receipt_v1''),
           (''digest_sha256_hex'', JStr (sm_message_digest (sr_signing v))), (''reference_id'', JStr (sr_intent_id v))]])"

definition x402_receipt_to_external_attestations ::
  "attestation_env \<Rightarrow> (string, json) dict \<Rightarrow> string \<Rightarrow> exn + (string, json) dict list" where
  "x402_receipt_to_external_attestations env receipt_input expected_signer =
     rbind (extract_signed_x402_receipt receipt_input) (\<lambda>signed.
     rbind (verify_signed_x402_receipt (at_x402 env) expected_signer signed) (\<lambda>verified.
     case verified of
       JObj p \<Rightarrow>
         rbind (build_x402_receipt_digest_payload p) (\<lambda>payload.
         Inr [[(''source'', JStr ''x402''), (''kind'', JStr ''delivery_receipt_v1''),
               (''digest_sha256_hex'', JStr (partner_record_digest_sha256_hex (at_sha256 env) payload)),
               (''reference_id'', JStr (get_str payload ''resourceUrl'' []))]])
     | _ \<Rightarrow> Inl (AttributeError ''object has no attribute get'')))"

text \<open>The inputs by their tags; an entry that already is an attestation, or of no known kind.\<close>

datatype attestation_input =
    Sep2828_input "(string, json) dict" "(string, json) dict"
  | X402_input "(string, json) dict" string
  | Mandate_input "(string, json) dict" "(string, json) dict option"
  | Authorization_input "(string, json) dict"
  | Settlement_input "(string, json) dict"
  | Ready_input "(string, json) dict"
  | Unknown_input

definition external_attestations_of :: "attestation_env \<Rightarrow> attestation_input \<Rightarrow> exn + (string, json) dict list" where
  "external_attestations_of env i = (case i of
       Sep2828_input d ou \<Rightarrow> sep2828_records_to_external_attestations env d ou
     | X402_input r signer \<Rightarrow> x402_receipt_to_external_attestations env r signer
     | Mandate_input m b \<Rightarrow> signed_mandate_to_external_attestations env m b
     | Authorization_input r \<Rightarrow> protocol_authorization_receipt_to_external_attestations env r
     | Settlement_input r \<Rightarrow> protocol_settlement_receipt_to_external_attestations env r
     | Ready_input a \<Rightarrow> Inr [a]
     | Unknown_input \<Rightarrow> Inr [])"

definition resolve_external_attestations :: "attestation_env \<Rightarrow> attestation_input list \<Rightarrow> exn + (string, json) dict list" where
  "resolve_external_attestations env inputs = rbind (rmap (external_attestations_of env) inputs) (\<lambda>ls. Inr (concat ls))"

end
