(* ===== verification/Recognition.thy ===== *)
theory Recognition
  imports Scitt_Export
begin

text \<open>
  Recognition proofs of \<open>agent_recognition.py\<close>: signed, short-lived statements that an agent sends one
  request.  A moment is a number of microseconds since 1970 in UTC; the current time and the fresh
  UUID are arguments.
\<close>

section \<open>Signing\<close>

definition MAX_FRESHNESS :: int where
  "MAX_FRESHNESS = 600 * 1000000"

definition rp_error :: "string \<Rightarrow> exn" where
  "rp_error m = ValueError (''agent recognition proof: '' @ m)"

datatype request_body = Body_bytes string | Body_json "(string, json) dict"

record request_envelope =
  re_method :: string
  re_path :: string
  re_body_digest :: string

definition rp_scope_token :: "string \<Rightarrow> string \<Rightarrow> exn + string" where
  "rp_scope_token v f =
     (let n = lower (strip v) in
      rbind (ensure (n \<noteq> []) (rp_error (f @ '' is required''))) (\<lambda>_.
      rbind (ensure (scope_token_re n) (rp_error (f @ '' '' @ py_repr n @ '' is not canonical''))) (\<lambda>_.
      Inr n)))"

definition request_body_bytes :: "request_body \<Rightarrow> string" where
  "request_body_bytes b = (case b of Body_bytes s \<Rightarrow> s | Body_json d \<Rightarrow> utf8 (json_dumps_unicode (JObj d)))"

definition new_agent_recognition_request_envelope ::
  "(string \<Rightarrow> string) \<Rightarrow> string \<Rightarrow> string \<Rightarrow> request_body \<Rightarrow> exn + request_envelope" where
  "new_agent_recognition_request_envelope H verb path body =
     (let m = upper (strip verb); p = (if strip path = [] then ''/'' else strip path) in
      rbind (ensure (m \<noteq> []) (rp_error ''request_envelope.method is required'')) (\<lambda>_.
      rbind (ensure (startswith p ''/'') (rp_error ''request_envelope.path must begin with \"/\"'')) (\<lambda>_.
      Inr \<lparr>re_method = m, re_path = p, re_body_digest = to_hex (H (request_body_bytes body))\<rparr>)))"

definition whole :: "int \<Rightarrow> int" where
  "whole us = us div 1000000 * 1000000"

record proof_options =
  po_verifier_id :: string
  po_issued_at :: "int option"
  po_expires_at :: "int option"
  po_nonce :: "string option"

definition recognition_payload ::
  "string \<Rightarrow> int \<Rightarrow> int \<Rightarrow> string \<Rightarrow> string \<Rightarrow> string \<Rightarrow> string \<Rightarrow> request_envelope \<Rightarrow> (string, json) dict" where
  "recognition_payload key_id issued expires nonce purpose tenant verifier e =
     [(''schema_version'', JInt 1), (''kind'', JStr ''paybond.agent_recognition_proof_v1''),
      (''key_id'', JStr key_id), (''signature_algorithm'', JStr ''ed25519-sha256-json-v1''),
      (''issued_at'', JStr (strftime_utc (issued div 1000000))),
      (''expires_at'', JStr (strftime_utc (expires div 1000000))),
      (''nonce'', JStr nonce), (''purpose'', JStr purpose),
      (''verifier_context'', JObj [(''tenant_id'', JStr tenant), (''verifier_id'', JStr verifier)]),
      (''request_envelope'', JObj [(''method'', JStr (re_method e)), (''path'', JStr (re_path e)),
         (''body_digest_sha256_hex'', JStr (re_body_digest e))])]"

definition sign_agent_recognition_proof_v1 ::
  "(string \<Rightarrow> string) \<Rightarrow> (string \<Rightarrow> string \<Rightarrow> string) \<Rightarrow> (string \<Rightarrow> string) \<Rightarrow> int \<Rightarrow> string \<Rightarrow> string \<Rightarrow>
   string \<Rightarrow> string \<Rightarrow> string \<Rightarrow> string \<Rightarrow> string \<Rightarrow> request_body \<Rightarrow> proof_options \<Rightarrow> exn + (string, json) dict" where
  "sign_agent_recognition_proof_v1 H sign public now fresh seed key_id purpose tenant_id verb path body opts =
     (let tenant = strip tenant_id;
          issued = (case po_issued_at opts of Some t \<Rightarrow> t | None \<Rightarrow> now - 60 * 1000000);
          expires = whole (case po_expires_at opts of Some t \<Rightarrow> t | None \<Rightarrow> issued + 240 * 1000000);
          issued = whole issued;
          nonce = strip (str_or (po_nonce opts) fresh)
      in
      rbind (ensure (length seed = 32) (rp_error ''signing key must be an ed25519 private key'')) (\<lambda>_.
      rbind (ensure (tenant \<noteq> []) (rp_error ''verifier_context.tenant_id is required'')) (\<lambda>_.
      rbind (ensure (issued < expires) (rp_error ''expires_at must be after issued_at'')) (\<lambda>_.
      rbind (ensure (expires - issued \<le> MAX_FRESHNESS) (rp_error ''freshness window must not exceed 10m0s'')) (\<lambda>_.
      rbind (ensure (nonce \<noteq> []) (rp_error ''nonce is required'')) (\<lambda>_.
      rbind (ensure (length nonce \<le> 256) (rp_error ''nonce must be 256 bytes or fewer'')) (\<lambda>_.
      rbind (new_agent_recognition_request_envelope H verb path body) (\<lambda>e.
      rbind (ensure (hex64_re (re_body_digest e)) (rp_error
         (''request_envelope.body_digest_sha256_hex must be a lowercase 64-byte hex SHA-256 digest''))) (\<lambda>_.
      rbind (rp_scope_token key_id ''key_id'') (\<lambda>key.
      rbind (rp_scope_token purpose ''purpose'') (\<lambda>aim.
      rbind (rp_scope_token (po_verifier_id opts) ''verifier_context.verifier_id'') (\<lambda>verifier.
      let payload = recognition_payload key issued expires nonce aim tenant verifier e;
          digest = H (utf8 (json_dumps_unicode (JObj payload)))
      in Inr (payload @ [(''message_digest_sha256_hex'', JStr (to_hex digest)),
           (''signing_public_key_ed25519_hex'', JStr (to_hex (public seed))),
           (''ed25519_signature_hex'', JStr (to_hex (sign seed digest)))])))))))))))))"

section \<open>The proofs for Harbor\<close>

definition default_proof_options :: proof_options where
  "default_proof_options = \<lparr>po_verifier_id = ''paybond-gateway'', po_issued_at = None, po_expires_at = None, po_nonce = None\<rparr>"

definition sign_harbor_create_recognition_proof where
  "sign_harbor_create_recognition_proof H sign public now fresh tenant_id intent_body key_id seed =
     sign_agent_recognition_proof_v1 H sign public now fresh seed key_id ''harbor.intent.create'' tenant_id
       ''POST'' ''/harbor/intents'' (Body_json intent_body) default_proof_options"

definition sign_harbor_fund_recognition_proof where
  "sign_harbor_fund_recognition_proof H sign public now fresh tenant_id intent_id key_id seed =
     sign_agent_recognition_proof_v1 H sign public now fresh seed key_id ''harbor.intent.fund'' tenant_id
       ''POST'' (''/harbor/intents/'' @ intent_id @ ''/fund'') (Body_json []) default_proof_options"

definition sign_harbor_evidence_submit_recognition_proof where
  "sign_harbor_evidence_submit_recognition_proof H sign public now fresh tenant_id intent_id evidence_body key_id seed =
     sign_agent_recognition_proof_v1 H sign public now fresh seed key_id ''harbor.intent.evidence.submit'' tenant_id
       ''POST'' (''/harbor/intents/'' @ intent_id @ ''/evidence'') (Body_json evidence_body) default_proof_options"

definition sign_harbor_settlement_confirm_recognition_proof where
  "sign_harbor_settlement_confirm_recognition_proof H sign public now fresh tenant_id intent_id body key_id seed =
     sign_agent_recognition_proof_v1 H sign public now fresh seed key_id ''harbor.intent.settlement.confirm'' tenant_id
       ''POST'' (''/harbor/intents/'' @ intent_id @ ''/settlement/confirm'')
       (Body_json (case body of Some b \<Rightarrow> b | None \<Rightarrow> [])) default_proof_options"

section \<open>What a proof is signed over\<close>

lemma rp_scope_token_Inr: "rp_scope_token v f = Inr t \<longleftrightarrow> t = lower (strip v) \<and> t \<noteq> [] \<and> scope_token_re t"
  by (auto simp: rp_scope_token_def Let_def rbind_Inr_iff ensure_def split: if_splits)

lemma request_envelope_Inr:
  "new_agent_recognition_request_envelope H verb path body = Inr e \<longleftrightarrow>
     re_method e = upper (strip verb) \<and> re_method e \<noteq> [] \<and>
     re_path e = (if strip path = [] then ''/'' else strip path) \<and> startswith (re_path e) ''/'' \<and>
     re_body_digest e = to_hex (H (request_body_bytes body))"
  by (cases e) (auto simp: new_agent_recognition_request_envelope_def Let_def rbind_Inr_iff ensure_def split: if_splits)

lemma signed_proofE:
  assumes "sign_agent_recognition_proof_v1 H sign public now fresh seed key_id purpose tenant_id verb path body opts = Inr p"
  obtains issued expires nonce e payload where
    "issued = whole (case po_issued_at opts of Some t \<Rightarrow> t | None \<Rightarrow> now - 60 * 1000000)"
    "expires = whole (case po_expires_at opts of Some t \<Rightarrow> t
       | None \<Rightarrow> (case po_issued_at opts of Some t \<Rightarrow> t | None \<Rightarrow> now - 60 * 1000000) + 240 * 1000000)"
    "issued < expires" "expires - issued \<le> MAX_FRESHNESS"
    "new_agent_recognition_request_envelope H verb path body = Inr e"
    "payload = recognition_payload (lower (strip key_id)) issued expires nonce (lower (strip purpose)) (strip tenant_id)
       (lower (strip (po_verifier_id opts))) e"
    "p = payload @ [(''message_digest_sha256_hex'', JStr (to_hex (H (utf8 (json_dumps_unicode (JObj payload)))))),
       (''signing_public_key_ed25519_hex'', JStr (to_hex (public seed))),
       (''ed25519_signature_hex'', JStr (to_hex (sign seed (H (utf8 (json_dumps_unicode (JObj payload)))))))]"
  using assms unfolding sign_agent_recognition_proof_v1_def Let_def rbind_Inr_iff rp_scope_token_Inr
  by (auto simp: ensure_def split: if_splits)

lemma recognition_payload_no_floats: "no_floats (JObj (recognition_payload k i x n a t v e))"
  by (simp add: recognition_payload_def)

lemma recognition_payload_eq:
  "recognition_payload k i x n a t v e = recognition_payload k' i' x' n' a' t' v' e' \<Longrightarrow>
     k = k' \<and> n = n' \<and> a = a' \<and> t = t' \<and> v = v' \<and> re_method e = re_method e' \<and> re_path e = re_path e' \<and>
     re_body_digest e = re_body_digest e'"
  by (simp add: recognition_payload_def)

lemma recognition_digest: "jget (recognition_payload k i x n a t v e @ (''message_digest_sha256_hex'', d) # r) ''message_digest_sha256_hex'' = d"
  by (simp add: recognition_payload_def jget_def)

definition sample_proof :: "string \<Rightarrow> exn + (string, json) dict" where
  "sample_proof intent = sign_agent_recognition_proof_v1 sample_hash sample_sign sample_public 1767323045000000 ''nonce-1''
     (replicate 32 CHR ''k'') ''Key-1'' ''harbor.intent.fund'' ''t'' ''post'' (''/harbor/intents/'' @ intent @ ''/fund'')
     (Body_json []) default_proof_options"

lemma sample_proofs_signed:
  obtains p p' where "sample_proof ''i1'' = Inr p" "sample_proof ''i2'' = Inr p'"
    "jget p ''message_digest_sha256_hex'' = jget p' ''message_digest_sha256_hex''"
proof -
  have "case (sample_proof ''i1'', sample_proof ''i2'') of
      (Inr p, Inr p') \<Rightarrow> jget p ''message_digest_sha256_hex'' = jget p' ''message_digest_sha256_hex'' | _ \<Rightarrow> False"
    by code_simp
  then show ?thesis using that by (auto split: sum.splits)
qed

text \<open>C37: A signature of a recognition proof is good for one request only: two proofs with the same
  message digest are for the same tenant, purpose, method, path and body, or exhibit a collision of
  SHA-256.\<close>

theorem recognition_pins_request:
  assumes "sign_agent_recognition_proof_v1 H sign public now fresh seed key_id purpose tenant_id verb path body opts = Inr p"
    and "sign_agent_recognition_proof_v1 H sign' public' now' fresh' seed' key_id' purpose' tenant_id' verb' path' body' opts' = Inr p'"
    and "jget p ''message_digest_sha256_hex'' = jget p' ''message_digest_sha256_hex''"
  shows "(strip tenant_id = strip tenant_id' \<and> lower (strip purpose) = lower (strip purpose') \<and>
      upper (strip verb) = upper (strip verb') \<and>
      jget p ''request_envelope'' = jget p' ''request_envelope'' \<and> request_body_bytes body = request_body_bytes body') \<or>
    (\<exists>a b. a \<noteq> b \<and> H a = H b)"
proof (rule signed_proofE[OF assms(1)], rule signed_proofE[OF assms(2)])
  fix i x n e q i' x' n' e' q'
  assume e: "new_agent_recognition_request_envelope H verb path body = Inr e"
    and q: "q = recognition_payload (lower (strip key_id)) i x n (lower (strip purpose)) (strip tenant_id)
       (lower (strip (po_verifier_id opts))) e"
    and p: "p = q @ [(''message_digest_sha256_hex'', JStr (to_hex (H (utf8 (json_dumps_unicode (JObj q)))))),
       (''signing_public_key_ed25519_hex'', JStr (to_hex (public seed))),
       (''ed25519_signature_hex'', JStr (to_hex (sign seed (H (utf8 (json_dumps_unicode (JObj q)))))))]"
    and e': "new_agent_recognition_request_envelope H verb' path' body' = Inr e'"
    and q': "q' = recognition_payload (lower (strip key_id')) i' x' n' (lower (strip purpose')) (strip tenant_id')
       (lower (strip (po_verifier_id opts'))) e'"
    and p': "p' = q' @ [(''message_digest_sha256_hex'', JStr (to_hex (H (utf8 (json_dumps_unicode (JObj q')))))),
       (''signing_public_key_ed25519_hex'', JStr (to_hex (public' seed'))),
       (''ed25519_signature_hex'', JStr (to_hex (sign' seed' (H (utf8 (json_dumps_unicode (JObj q')))))))]"
  have digests: "H (utf8 (json_dumps_unicode (JObj q))) = H (utf8 (json_dumps_unicode (JObj q')))"
    using assms(3) unfolding p p' by (simp add: q q' recognition_digest to_hex_inj)
  show ?thesis
  proof (cases "q = q'")
    case True
    then have same: "strip tenant_id = strip tenant_id' \<and> lower (strip purpose) = lower (strip purpose') \<and>
        re_method e = re_method e' \<and> re_path e = re_path e' \<and> re_body_digest e = re_body_digest e'"
      unfolding q q' by (blast dest: recognition_payload_eq)
    then have "jget p ''request_envelope'' = jget p' ''request_envelope''"
      unfolding p p' q q' by (simp add: recognition_payload_def jget_def)
    moreover have "H (request_body_bytes body) = H (request_body_bytes body')" "upper (strip verb) = upper (strip verb')"
      using same e e' unfolding request_envelope_Inr by (simp_all add: to_hex_inj)
    ultimately show ?thesis using same by blast
  next
    case False
    then have "utf8 (json_dumps_unicode (JObj q)) \<noteq> utf8 (json_dumps_unicode (JObj q'))"
      using json_dumps_unicode_inj[of "JObj q" "JObj q'"] recognition_payload_no_floats
      by (auto simp: q q' dest: utf8_inj)
    then show ?thesis using digests by blast
  qed
qed

theorem recognition_pins_request_witness:
  "\<exists>p p'. sample_proof ''i1'' = Inr p \<and> sample_proof ''i2'' = Inr p' \<and>
    (jget p ''request_envelope'' = jget p' ''request_envelope'' \<or> (\<exists>a b. a \<noteq> b \<and> sample_hash a = sample_hash b))"
proof (rule sample_proofs_signed)
  fix p p'
  assume p: "sample_proof ''i1'' = Inr p" "sample_proof ''i2'' = Inr p'"
    "jget p ''message_digest_sha256_hex'' = jget p' ''message_digest_sha256_hex''"
  show ?thesis
    using recognition_pins_request[OF p(1,2)[unfolded sample_proof_def] p(3)] p(1,2) by blast
qed

text \<open>C38: A proof signed with the default options is in force when it is signed, and for at least 179
  seconds more; whatever the options, no proof is valid for more than ten minutes.\<close>

theorem recognition_proof_fresh:
  assumes "sign_agent_recognition_proof_v1 H sign public now fresh seed key_id purpose tenant_id verb path body opts = Inr p"
  shows "\<exists>issued expires. jget p ''issued_at'' = JStr (strftime_utc (issued div 1000000)) \<and>
    jget p ''expires_at'' = JStr (strftime_utc (expires div 1000000)) \<and> issued < expires \<and>
    expires \<le> issued + 600 * 1000000 \<and>
    (po_issued_at opts = None \<and> po_expires_at opts = None \<longrightarrow> issued \<le> now \<and> now + 179 * 1000000 < expires)"
proof (rule signed_proofE[OF assms])
  fix issued expires n e q
  assume issued: "issued = whole (case po_issued_at opts of Some t \<Rightarrow> t | None \<Rightarrow> now - 60 * 1000000)"
    and expires: "expires = whole (case po_expires_at opts of Some t \<Rightarrow> t
       | None \<Rightarrow> (case po_issued_at opts of Some t \<Rightarrow> t | None \<Rightarrow> now - 60 * 1000000) + 240 * 1000000)"
    and window: "issued < expires" "expires - issued \<le> MAX_FRESHNESS"
    and q: "q = recognition_payload (lower (strip key_id)) issued expires n (lower (strip purpose)) (strip tenant_id)
       (lower (strip (po_verifier_id opts))) e"
    and p: "p = q @ [(''message_digest_sha256_hex'', JStr (to_hex (H (utf8 (json_dumps_unicode (JObj q)))))),
       (''signing_public_key_ed25519_hex'', JStr (to_hex (public seed))),
       (''ed25519_signature_hex'', JStr (to_hex (sign seed (H (utf8 (json_dumps_unicode (JObj q)))))))]"
  have rounded: "whole t \<le> t \<and> t < whole t + 1000000" for t
    by (auto simp: whole_def)
  have "jget p ''issued_at'' = JStr (strftime_utc (issued div 1000000))"
    "jget p ''expires_at'' = JStr (strftime_utc (expires div 1000000))"
    unfolding p q by (simp_all add: recognition_payload_def jget_def)
  moreover have "issued \<le> now \<and> now + 179 * 1000000 < expires" if "po_issued_at opts = None" "po_expires_at opts = None"
    using rounded[of "now - 60 * 1000000"] rounded[of "now - 60 * 1000000 + 240 * 1000000"] that issued expires by simp
  ultimately show ?thesis using window unfolding MAX_FRESHNESS_def
    by (intro exI[of _ issued] exI[of _ expires]) auto
qed

theorem recognition_proof_fresh_witness:
  "\<exists>p issued expires. sample_proof ''i1'' = Inr p \<and> jget p ''expires_at'' = JStr (strftime_utc (expires div 1000000)) \<and>
    issued \<le> 1767323045000000 \<and> 1767323045000000 + 179 * 1000000 < expires \<and> expires \<le> issued + 600 * 1000000"
proof (rule sample_proofs_signed)
  fix p
  assume p: "sample_proof ''i1'' = Inr p"
  show ?thesis
    using recognition_proof_fresh[OF p[unfolded sample_proof_def]] p by (auto simp: default_proof_options_def)
qed

end
