(* ===== verification/Owner_Disclosure.thy ===== *)
theory Owner_Disclosure
  imports Recognition
begin

text \<open>
  Owner disclosures of \<open>agent_receipt_owner_disclosure.py\<close>: what is derived from a receipt for its
  owner, sealed with HPKE (base mode, X25519, HKDF-SHA256, AES-128-GCM).  The primitives of the
  cryptography library are a record of functions; the ephemeral key is an argument.
\<close>

section \<open>HPKE\<close>

record hpke_library =
  hl_hmac :: "string \<Rightarrow> string \<Rightarrow> string"  \<comment> \<open>key, message\<close>
  hl_expand :: "string \<Rightarrow> string \<Rightarrow> nat \<Rightarrow> string"  \<comment> \<open>HKDF-Expand: key, info, length\<close>
  hl_public :: "string \<Rightarrow> string"
  hl_exchange :: "string \<Rightarrow> string \<Rightarrow> exn + string"  \<comment> \<open>private key, public key\<close>
  hl_seal :: "string \<Rightarrow> string \<Rightarrow> string \<Rightarrow> string \<Rightarrow> string"  \<comment> \<open>key, nonce, plaintext, associated data\<close>
  hl_open :: "string \<Rightarrow> string \<Rightarrow> string \<Rightarrow> string \<Rightarrow> exn + string"

definition od_error :: "string \<Rightarrow> exn" where
  "od_error m = ValueError (''owner disclosure: '' @ m)"

text \<open>\<open>int.to_bytes\<close>, big endian, of numbers that fit.\<close>

definition i2osp :: "nat \<Rightarrow> nat \<Rightarrow> string" where
  "i2osp n len = List.map (\<lambda>i. byte (n div 256 ^ i mod 256)) (rev [0..<len])"

definition suite_id_kem :: string where
  "suite_id_kem = ''KEM'' @ i2osp 0x0020 2"

definition suite_id_hpke :: string where
  "suite_id_hpke = ''HPKE'' @ i2osp 0x0020 2 @ i2osp 0x0001 2 @ i2osp 0x0001 2"

definition labeled_extract :: "hpke_library \<Rightarrow> string \<Rightarrow> string option \<Rightarrow> string \<Rightarrow> string \<Rightarrow> string" where
  "labeled_extract l suite salt label ikm =
     hl_hmac l (str_or salt (replicate 32 CHR 0x00)) (''HPKE-v1'' @ suite @ label @ ikm)"

definition labeled_expand :: "hpke_library \<Rightarrow> string \<Rightarrow> string \<Rightarrow> string \<Rightarrow> string \<Rightarrow> nat \<Rightarrow> string" where
  "labeled_expand l suite key label info len =
     hl_expand l key (i2osp len 2 @ ''HPKE-v1'' @ suite @ label @ info) len"

definition extract_and_expand :: "hpke_library \<Rightarrow> string \<Rightarrow> string \<Rightarrow> string" where
  "extract_and_expand l dh kem_context =
     labeled_expand l suite_id_kem (labeled_extract l suite_id_kem None ''eae_prk'' dh) ''shared_secret'' kem_context 32"

definition encap :: "hpke_library \<Rightarrow> string \<Rightarrow> string \<Rightarrow> exn + string \<times> string" where
  "encap l ephemeral pk_r =
     rbind (hl_exchange l ephemeral pk_r) (\<lambda>dh.
     let enc = hl_public l ephemeral in Inr (extract_and_expand l dh (enc @ pk_r), enc))"

definition decap :: "hpke_library \<Rightarrow> string \<Rightarrow> string \<Rightarrow> exn + string" where
  "decap l sk_r enc =
     rbind (ensure (length enc = 32) (od_error ''encapsulated key must be 32 bytes'')) (\<lambda>_.
     rbind (hl_exchange l sk_r enc) (\<lambda>dh. Inr (extract_and_expand l dh (enc @ hl_public l sk_r))))"

definition key_schedule_base :: "hpke_library \<Rightarrow> string \<Rightarrow> string \<Rightarrow> string \<times> string" where
  "key_schedule_base l shared_secret info =
     (let psk_id_hash = labeled_extract l suite_id_hpke None ''psk_id_hash'' [];
          info_hash = labeled_extract l suite_id_hpke None ''info_hash'' info;
          context = byte 0 # psk_id_hash @ info_hash;
          secret = labeled_extract l suite_id_hpke (Some shared_secret) ''secret'' []
      in (labeled_expand l suite_id_hpke secret ''key'' context 16,
          labeled_expand l suite_id_hpke secret ''base_nonce'' context 12))"

definition hpke_nonce :: "string \<Rightarrow> nat \<Rightarrow> string" where
  "hpke_nonce base_nonce seq =
     foldl (\<lambda>nonce i. let j = length nonce - 1 - i
        in nonce[j := byte (of_char (nonce ! j) XOR (drop_bit (8 * i) seq AND 0xFF))]) base_nonce [0..<8]"

definition seal_hpke_base_x25519_aes128_gcm ::
  "hpke_library \<Rightarrow> string \<Rightarrow> string \<Rightarrow> string \<Rightarrow> string \<Rightarrow> string \<Rightarrow> exn + string \<times> string" where
  "seal_hpke_base_x25519_aes128_gcm l ephemeral recipient_public_key info aad plaintext =
     rbind (ensure (length recipient_public_key = 32) (od_error ''recipient public key must be 32 bytes'')) (\<lambda>_.
     rbind (encap l ephemeral recipient_public_key) (\<lambda>(shared_secret, enc).
     let (key, base_nonce) = key_schedule_base l shared_secret info
     in Inr (enc, hl_seal l key (hpke_nonce base_nonce 0) plaintext aad)))"

definition open_hpke_base_x25519_aes128_gcm ::
  "hpke_library \<Rightarrow> string \<Rightarrow> string \<Rightarrow> string \<Rightarrow> string \<Rightarrow> string \<Rightarrow> exn + string" where
  "open_hpke_base_x25519_aes128_gcm l recipient_private_key enc info aad ciphertext =
     rbind (ensure (length recipient_private_key = 32) (od_error ''recipient private key must be 32 bytes'')) (\<lambda>_.
     rbind (decap l recipient_private_key enc) (\<lambda>shared_secret.
     let (key, base_nonce) = key_schedule_base l shared_secret info
     in hl_open l key (hpke_nonce base_nonce 0) ciphertext aad))"

section \<open>The disclosure\<close>

definition DISCLOSURE_KIND :: string where
  "DISCLOSURE_KIND = ''paybond.agent_receipt_owner_disclosure_v1''"

definition DISCLOSURE_PLAINTEXT_KIND :: string where
  "DISCLOSURE_PLAINTEXT_KIND = ''paybond.agent_receipt_owner_disclosure_plaintext_v1''"

definition HPKE_SUITE :: string where
  "HPKE_SUITE = ''DHKEM_X25519_HKDF_SHA256/HKDF_SHA256/AES_128_GCM''"

definition DISCLOSURE_INFO :: string where
  "DISCLOSURE_INFO = ''paybond.agent_receipt_owner_disclosure_v1''"

definition disclosure_aad :: "(string \<Rightarrow> string) \<Rightarrow> string \<Rightarrow> string \<Rightarrow> string" where
  "disclosure_aad H receipt_id message_digest =
     H (utf8 (strip receipt_id @ CHR 0x00 # lower (strip message_digest)))"

definition derive_owner_disclosure_plaintext ::
  "(string \<Rightarrow> string) \<Rightarrow> (string \<Rightarrow> exn + int) \<Rightarrow> int \<Rightarrow> int option \<Rightarrow> (string, json) dict option \<Rightarrow>
   (string, json) dict \<Rightarrow> exn + (string, json) dict" where
  "derive_owner_disclosure_plaintext H utc now derived_at extensions receipt =
     rbind (normalize_receipt H utc receipt) (\<lambda>n.
     rbind (body_item n ''receipt_id'') (\<lambda>receipt_id.
     rbind (item_str n ''message_digest_sha256_hex'') (\<lambda>digest.
     rbind (body_item n ''tenant_id'') (\<lambda>tenant.
     rbind (body_item n ''scope'') (\<lambda>scope.
     rbind (body_item n ''authorization'') (\<lambda>authorization.
     rbind (body_item n ''outcome'') (\<lambda>outcome.
     rbind (body_item n ''references'') (\<lambda>references.
     let moment = (case derived_at of Some t \<Rightarrow> t | None \<Rightarrow> now) in
     Inr ([(''kind'', JStr DISCLOSURE_PLAINTEXT_KIND), (''schema_version'', JInt 1), (''receipt_id'', receipt_id),
           (''message_digest_sha256_hex'', JStr (lower digest)), (''tenant_id'', tenant), (''scope'', scope),
           (''derived_at'', JStr (strftime_utc (moment div 1000000))), (''authorization'', authorization),
           (''outcome'', outcome), (''references'', references)]
          @ (if truthy (jget n ''execution'') then [(''execution'', jget n ''execution'')] else [])
          @ (if truthy (jget n ''evidence'') then [(''evidence'', jget n ''evidence'')] else [])
          @ (case extensions of Some d \<Rightarrow> if d = [] then [] else [(''extensions'', JObj d)] | None \<Rightarrow> []))))))))))"

definition encrypt_owner_disclosure_package ::
  "(string \<Rightarrow> string) \<Rightarrow> hpke_library \<Rightarrow> string \<Rightarrow> (string, json) dict \<Rightarrow> string \<Rightarrow> exn + (string, json) dict" where
  "encrypt_owner_disclosure_package H l ephemeral plaintext recipient =
     (let pub_hex = lower (strip recipient); body = utf8 (json_dumps_unicode (JObj plaintext)) in
      rbind (ensure (map_of plaintext ''kind'' = Some (JStr DISCLOSURE_PLAINTEXT_KIND))
               (od_error (''plaintext kind must be '' @ DISCLOSURE_PLAINTEXT_KIND))) (\<lambda>_.
      rbind (ensure (length pub_hex = 64) (od_error ''recipient_public_key_x25519_hex must be 32-byte hex'')) (\<lambda>_.
      rbind (fromhex pub_hex) (\<lambda>pub.
      rbind (body_item plaintext ''receipt_id'') (\<lambda>receipt_id.
      rbind (item_str plaintext ''message_digest_sha256_hex'') (\<lambda>digest.
      let aad = disclosure_aad H (json_text receipt_id) digest in
      rbind (seal_hpke_base_x25519_aes128_gcm l ephemeral pub DISCLOSURE_INFO aad body) (\<lambda>(enc, ciphertext).
      Inr [(''kind'', JStr DISCLOSURE_KIND), (''schema_version'', JInt 1), (''hpke_suite'', JStr HPKE_SUITE),
           (''info'', JStr DISCLOSURE_INFO), (''recipient_public_key_x25519_hex'', JStr pub_hex),
           (''encapsulated_key_hex'', JStr (to_hex enc)), (''ciphertext_hex'', JStr (to_hex ciphertext)),
           (''aad_sha256_hex'', JStr (to_hex aad)), (''receipt_id'', receipt_id),
           (''message_digest_sha256_hex'', JStr (lower digest)),
           (''plaintext_content_type'', JStr (''application/json; charset=utf-8; profile='' @ DISCLOSURE_PLAINTEXT_KIND))])))))))"

text \<open>\<open>loads\<close> is \<open>json.loads\<close> of the UTF-8 bytes.\<close>

definition hex_item :: "(string, json) dict \<Rightarrow> string \<Rightarrow> exn + string" where
  "hex_item d k = rbind (item_lower d k) fromhex"

definition decrypt_owner_disclosure_package ::
  "(string \<Rightarrow> string) \<Rightarrow> hpke_library \<Rightarrow> (string \<Rightarrow> exn + json) \<Rightarrow> (string, json) dict \<Rightarrow> string \<Rightarrow> exn + json" where
  "decrypt_owner_disclosure_package H l loads package recipient =
     rbind (ensure (map_of package ''kind'' = Some (JStr DISCLOSURE_KIND)) (od_error (''kind must be '' @ DISCLOSURE_KIND))) (\<lambda>_.
     rbind (ensure (map_of package ''hpke_suite'' = Some (JStr HPKE_SUITE))
              (od_error (''unsupported hpke_suite '' @ json_repr (jget package ''hpke_suite'')))) (\<lambda>_.
     rbind (ensure (map_of package ''info'' = Some (JStr DISCLOSURE_INFO)) (od_error ''info mismatch'')) (\<lambda>_.
     rbind (fromhex (lower (strip recipient))) (\<lambda>priv.
     rbind (ensure (length priv = 32) (od_error ''recipient private key must be 32-byte hex'')) (\<lambda>_.
     rbind (hex_item package ''encapsulated_key_hex'') (\<lambda>enc.
     rbind (hex_item package ''ciphertext_hex'') (\<lambda>ciphertext.
     rbind (item_str package ''receipt_id'') (\<lambda>receipt_id.
     rbind (item_str package ''message_digest_sha256_hex'') (\<lambda>digest.
     let aad = disclosure_aad H receipt_id digest in
     rbind (item_lower package ''aad_sha256_hex'') (\<lambda>aad_hex.
     rbind (ensure (to_hex aad = aad_hex) (od_error ''aad_sha256_hex mismatch'')) (\<lambda>_.
     rbind (open_hpke_base_x25519_aes128_gcm l priv enc DISCLOSURE_INFO aad ciphertext) (\<lambda>bytes.
     rbind (loads bytes) (\<lambda>plaintext.
     case plaintext of
       JObj d \<Rightarrow>
         rbind (ensure (map_of d ''kind'' = Some (JStr DISCLOSURE_PLAINTEXT_KIND)) (od_error ''decrypted kind mismatch'')) (\<lambda>_.
         rbind (ensure (py_equal (jget d ''receipt_id'') (jget package ''receipt_id''))
                  (od_error ''decrypted receipt binding mismatch'')) (\<lambda>_. Inr plaintext))
     | _ \<Rightarrow> Inl (AttributeError ''object has no attribute get''))))))))))))))"

section \<open>What is sealed is opened\<close>

text \<open>The laws of the library that the round trip uses, at the two keys of an exchange.\<close>

definition keys_agree :: "hpke_library \<Rightarrow> string \<Rightarrow> string \<Rightarrow> bool" where
  "keys_agree l a b \<longleftrightarrow>
     length (hl_public l a) = 32 \<and> length (hl_public l b) = 32 \<and>
     hl_exchange l a (hl_public l b) = hl_exchange l b (hl_public l a)"

definition opens_sealed :: "hpke_library \<Rightarrow> bool" where
  "opens_sealed l \<longleftrightarrow> (\<forall>key nonce text aad. hl_open l key nonce (hl_seal l key nonce text aad) aad = Inr text)"

lemma open_sealed:
  assumes "keys_agree l ephemeral sk" "opens_sealed l" "length sk = 32"
    and "seal_hpke_base_x25519_aes128_gcm l ephemeral (hl_public l sk) info aad body = Inr (enc, c)"
  shows "open_hpke_base_x25519_aes128_gcm l sk enc info aad c = Inr body"
proof (cases "hl_exchange l sk (hl_public l ephemeral)")
  case (Inl e)
  then show ?thesis using assms
    by (simp add: seal_hpke_base_x25519_aes128_gcm_def encap_def keys_agree_def)
next
  case (Inr dh)
  define sched where "sched = key_schedule_base l (extract_and_expand l dh (hl_public l ephemeral @ hl_public l sk)) info"
  obtain key nonce where sched: "sched = (key, nonce)" by fastforce
  have "enc = hl_public l ephemeral" "c = hl_seal l key (hpke_nonce nonce 0) body aad"
    using assms(1,4) Inr sched
    by (simp_all add: seal_hpke_base_x25519_aes128_gcm_def encap_def keys_agree_def ensure_def sched_def Let_def)
  then show ?thesis
    using assms(1-3) Inr sched
    by (simp add: open_hpke_base_x25519_aes128_gcm_def decap_def keys_agree_def ensure_def sched_def opens_sealed_def Let_def)
qed

text \<open>A disclosure that is encrypted to an owner's public key is decrypted by the owner's private key
  to the same plaintext, when the exchange of keys agrees, what is sealed is opened, and the plaintext's
  JSON text is read back.\<close>

theorem owner_disclosure_roundtrip:
  assumes "encrypt_owner_disclosure_package H l ephemeral plaintext (to_hex (hl_public l sk)) = Inr package"
    and "keys_agree l ephemeral sk" "opens_sealed l" "length sk = 32"
    and "loads (utf8 (json_dumps_unicode (JObj plaintext))) = Inr (JObj plaintext)"
  shows "decrypt_owner_disclosure_package H l loads package (to_hex sk) = Inr (JObj plaintext)"
proof -
  obtain i digest enc c where parts:
    "map_of plaintext ''kind'' = Some (JStr DISCLOSURE_PLAINTEXT_KIND)" "map_of plaintext ''receipt_id'' = Some i"
    "seal_hpke_base_x25519_aes128_gcm l ephemeral (hl_public l sk) DISCLOSURE_INFO (disclosure_aad H (json_text i) digest)
       (utf8 (json_dumps_unicode (JObj plaintext))) = Inr (enc, c)"
    "package = [(''kind'', JStr DISCLOSURE_KIND), (''schema_version'', JInt 1), (''hpke_suite'', JStr HPKE_SUITE),
       (''info'', JStr DISCLOSURE_INFO), (''recipient_public_key_x25519_hex'', JStr (to_hex (hl_public l sk))),
       (''encapsulated_key_hex'', JStr (to_hex enc)), (''ciphertext_hex'', JStr (to_hex c)),
       (''aad_sha256_hex'', JStr (to_hex (disclosure_aad H (json_text i) digest))), (''receipt_id'', i),
       (''message_digest_sha256_hex'', JStr (lower digest)),
       (''plaintext_content_type'', JStr (''application/json; charset=utf-8; profile='' @ DISCLOSURE_PLAINTEXT_KIND))]"
    using assms(1) unfolding encrypt_owner_disclosure_package_def Let_def rbind_Inr_iff
    by (auto simp: ensure_def res_iff split: if_splits prod.splits)
  have "disclosure_aad H r (lower digest) = disclosure_aad H r digest" for r
    by (simp add: disclosure_aad_def)
  then show ?thesis
    using open_sealed[OF assms(2-4) parts(3)] assms(4,5) parts(1,2)
    by (simp add: decrypt_owner_disclosure_package_def parts(4) ensure_def hex_item_def item_lower_def item_text_def
        item_str_def body_item_def jget_def Let_def)
qed

text \<open>A toy library: public keys are private keys padded, and the associated data stands in front.\<close>

definition sample_library :: hpke_library where
  "sample_library = \<lparr>hl_hmac = (\<lambda>k m. take 32 (m @ k)), hl_expand = (\<lambda>k i n. take n (i @ k @ replicate n CHR 0x00)),
     hl_public = sample_public, hl_exchange = (\<lambda>a b. Inr (replicate 32 CHR 0x07)),
     hl_seal = (\<lambda>k n m aad. aad @ m),
     hl_open = (\<lambda>k n c aad. if take (length aad) c = aad then Inr (drop (length aad) c) else Inl (HostError ''InvalidTag''))\<rparr>"

definition sample_disclosure :: "(string, json) dict" where
  "sample_disclosure = [(''kind'', JStr DISCLOSURE_PLAINTEXT_KIND), (''receipt_id'', JStr ''r1''),
     (''message_digest_sha256_hex'', JStr ''AB'')]"

definition sample_package :: "exn + (string, json) dict" where
  "sample_package = encrypt_owner_disclosure_package sample_hash sample_library (replicate 32 CHR ''e'') sample_disclosure
     (to_hex (hl_public sample_library (replicate 32 CHR ''s'')))"

definition sample_loads :: "string \<Rightarrow> exn + json" where
  "sample_loads s = Inr (JObj sample_disclosure)"

theorem owner_disclosure_roundtrip_witness:
  "\<exists>package. sample_package = Inr package \<and>
     decrypt_owner_disclosure_package sample_hash sample_library sample_loads package (to_hex (replicate 32 CHR ''s'')) =
       Inr (JObj sample_disclosure)"
proof -
  have "\<exists>package. sample_package = Inr package"
    by (simp add: sample_package_def encrypt_owner_disclosure_package_def seal_hpke_base_x25519_aes128_gcm_def encap_def
        Let_def split_def ensure_def sample_library_def sample_public_def sample_disclosure_def item_str_def body_item_def)
  then obtain package where package: "sample_package = Inr package" by blast
  have laws: "keys_agree sample_library (replicate 32 CHR ''e'') (replicate 32 CHR ''s'')" "opens_sealed sample_library"
    by (simp_all add: keys_agree_def opens_sealed_def sample_library_def sample_public_def)
  then show ?thesis
    using owner_disclosure_roundtrip[where loads = sample_loads, OF package[unfolded sample_package_def] laws
        length_replicate sample_loads_def] package by blast
qed

end
