(* ===== verification/Partner_Standard.thy ===== *)
theory Partner_Standard
  imports Sep2828 Owner_Disclosure
begin

text \<open>
  What partner records and receipt frames establish: a frame's id pins its receipt, an outcome record
  pins the decision it is paired with, and an x402 receipt's evidence may hold a hash that nobody signed.
\<close>

section \<open>Frames\<close>

lemma pef_hash_inj: "pef_hash H a = pef_hash H b \<longleftrightarrow> H (jcs_bytes a) = H (jcs_bytes b)"
  by (simp add: pef_hash_def to_hex_inj)

lemma jcs_bytes_inj:
  "\<lbrakk>jcs_bytes a = jcs_bytes b; no_floats a; no_floats b\<rbrakk> \<Longrightarrow> canonicalize_json a = canonicalize_json b"
  unfolding jcs_bytes_def jcs_text_def by (intro json_dumps_unicode_inj no_floats_canonical) (simp_all add: utf8_inj)

text \<open>Equal digests are of equal documents, or of a collision.\<close>

lemma digest_or_collision:
  assumes "H (jcs_bytes a) = H (jcs_bytes b)" "no_floats a" "no_floats b"
  shows "canonicalize_json a = canonicalize_json b \<or> (\<exists>x y. x \<noteq> y \<and> H x = H y)"
  using assms jcs_bytes_inj by blast

lemma canonical_member:
  assumes "canonicalize_json (JObj d) = canonicalize_json (JObj e)" "(k, v) \<in> set d"
  shows "(k, canonicalize_json v) \<in> map_prod id canonicalize_json ` set e"
proof -
  have "set (sort_key fst (List.map (map_prod id canonicalize_json) d)) =
      set (sort_key fst (List.map (map_prod id canonicalize_json) e))"
    using assms(1) by simp
  then have "map_prod id canonicalize_json ` set d = map_prod id canonicalize_json ` set e" by simp
  then show ?thesis using imageI[OF assms(2), of "map_prod id canonicalize_json"] by simp
qed

lemma frame_verified:
  assumes "verify_agent_receipt_pef_frame_id H f = Inr ()"
  obtains r provider pre where "jget f ''receipt'' = JObj r" "timestamp_ok (jget f ''frame_timestamp_ms'')"
    "pre = [(''canon_version'', JStr PEF_CANON), (''claim_type'', JStr PEF_CLAIM_TYPE),
       (''frame_provider_did'', JStr provider), (''frame_timestamp_ms'', jget f ''frame_timestamp_ms''),
       (''pef_version'', JStr ''1''), (''receipt'', JObj r), (''receipt_format'', JStr PEF_RECEIPT_FORMAT),
       (''receipt_hash'', JStr (pef_hash H (JObj r)))]"
    "map_of f ''frame_id'' = Some (JStr (pef_hash H (JObj pre)))"
  using assms
  by (auto simp: verify_agent_receipt_pef_frame_id_def agent_receipt_pef_preimage_def agent_receipt_pef_receipt_hash_def
      agent_receipt_pef_frame_id_def Let_def rbind_Inr_iff ensure_def split: json.splits if_splits)

lemma pef_frame_pins_receipt:
  assumes "verify_agent_receipt_pef_frame_id H f = Inr ()" "verify_agent_receipt_pef_frame_id H g = Inr ()"
    and "map_of f ''frame_id'' = map_of g ''frame_id''" "no_floats (jget f ''receipt'')" "no_floats (jget g ''receipt'')"
  shows "canonicalize_json (jget f ''receipt'') = canonicalize_json (jget g ''receipt'') \<or> (\<exists>x y. x \<noteq> y \<and> H x = H y)"
proof (rule frame_verified[OF assms(1)], rule frame_verified[OF assms(2)])
  fix r p pre r' p' pre'
  assume f: "jget f ''receipt'' = JObj r" "timestamp_ok (jget f ''frame_timestamp_ms'')"
    "pre = [(''canon_version'', JStr PEF_CANON), (''claim_type'', JStr PEF_CLAIM_TYPE),
       (''frame_provider_did'', JStr p), (''frame_timestamp_ms'', jget f ''frame_timestamp_ms''),
       (''pef_version'', JStr ''1''), (''receipt'', JObj r), (''receipt_format'', JStr PEF_RECEIPT_FORMAT),
       (''receipt_hash'', JStr (pef_hash H (JObj r)))]"
    "map_of f ''frame_id'' = Some (JStr (pef_hash H (JObj pre)))"
    and g: "jget g ''receipt'' = JObj r'" "timestamp_ok (jget g ''frame_timestamp_ms'')"
    "pre' = [(''canon_version'', JStr PEF_CANON), (''claim_type'', JStr PEF_CLAIM_TYPE),
       (''frame_provider_did'', JStr p'), (''frame_timestamp_ms'', jget g ''frame_timestamp_ms''),
       (''pef_version'', JStr ''1''), (''receipt'', JObj r'), (''receipt_format'', JStr PEF_RECEIPT_FORMAT),
       (''receipt_hash'', JStr (pef_hash H (JObj r')))]"
    "map_of g ''frame_id'' = Some (JStr (pef_hash H (JObj pre')))"
  have time: "no_floats t" if "timestamp_ok t" for t
    using that by (auto simp: timestamp_ok_def split: json.splits)
  have "H (jcs_bytes (JObj pre)) = H (jcs_bytes (JObj pre'))"
    using assms(3) f(4) g(4) by (simp add: pef_hash_inj)
  moreover have "no_floats (JObj pre)" "no_floats (JObj pre')"
    using f(1,2) g(1,2) assms(4,5) by (simp_all add: f(3) g(3) time)
  ultimately have "canonicalize_json (JObj pre) = canonicalize_json (JObj pre') \<or> (\<exists>x y. x \<noteq> y \<and> H x = H y)"
    by (rule digest_or_collision)
  moreover have "canonicalize_json (JObj r) = canonicalize_json (JObj r')"
    if "canonicalize_json (JObj pre) = canonicalize_json (JObj pre')"
  proof -
    have "(''receipt'', canonicalize_json (JObj r)) \<in> map_prod id canonicalize_json ` set pre'"
      by (rule canonical_member[OF that]) (simp add: f(3))
    then show ?thesis unfolding g(3) by (simp del: canonicalize_json.simps)
  qed
  ultimately show ?thesis using f(1) g(1) by auto
qed

lemma built_frame_verifies:
  assumes "build_agent_receipt_pef_frame H r provider t = Inr f"
  shows "verify_agent_receipt_pef_frame_id H f = Inr ()"
proof -
  have "0 \<le> t" "strip provider \<noteq> []" and f: "f = [(''canon_version'', JStr PEF_CANON), (''claim_type'', JStr PEF_CLAIM_TYPE),
      (''frame_id'', JStr (pef_hash H (JObj [(''canon_version'', JStr PEF_CANON), (''claim_type'', JStr PEF_CLAIM_TYPE),
           (''frame_provider_did'', JStr (strip provider)), (''frame_timestamp_ms'', JInt t),
           (''pef_version'', JStr ''1''), (''receipt'', JObj r), (''receipt_format'', JStr PEF_RECEIPT_FORMAT),
           (''receipt_hash'', JStr (pef_hash H (JObj r)))]))),
      (''frame_provider_did'', JStr (strip provider)), (''frame_timestamp_ms'', JInt t), (''pef_version'', JStr ''1''),
      (''receipt'', JObj r), (''receipt_format'', JStr PEF_RECEIPT_FORMAT), (''receipt_hash'', JStr (pef_hash H (JObj r)))]"
    using assms unfolding build_agent_receipt_pef_frame_def agent_receipt_pef_preimage_def agent_receipt_pef_frame_id_def
      agent_receipt_pef_receipt_hash_def Let_def
    by (simp_all add: rbind_Inr_iff ensure_def timestamp_ok_def get_str_def split: if_splits)
  then show ?thesis
    unfolding verify_agent_receipt_pef_frame_id_def agent_receipt_pef_preimage_def agent_receipt_pef_frame_id_def
      agent_receipt_pef_receipt_hash_def Let_def
    by (simp add: ensure_def timestamp_ok_def or_text_def jget_def)
qed

section \<open>Decision and outcome records\<close>

lemma strip_digest_prefix_hex [simp]: "strip_digest_prefix (to_hex s) = to_hex s"
proof -
  have colon: "CHR '':'' \<notin> set (to_hex s)"
    using to_hex_lower_hex[of s] by (auto simp: list_all_iff is_hex_lower_def)
  have "set p \<subseteq> set (to_hex s)" if "startswith (to_hex s) p" for p
    using that set_take_subset[of "length p" "to_hex s"] by (metis startswith_def)
  from this[of "''sha256:''"] this[of "''blake3:''"] have "\<not> startswith (to_hex s) ''sha256:''" "\<not> startswith (to_hex s) ''blake3:''"
    using colon by auto
  then show ?thesis by (simp add: strip_digest_prefix_def)
qed

lemma paired:
  assumes "verify_sep2828_receipt_pair rv d ou = Inr ()"
  obtains derived t where "read_object (jget ou ''outcomeDerived'') = Some derived" "jget derived ''decisionDigest'' = JStr t"
    "strip_digest_prefix t = record_content_digest_hex rv d" "verify_sep2828_record_signature rv d = Inr ()"
    "verify_sep2828_record_signature rv ou = Inr ()"
  using assms
  by (auto simp: verify_sep2828_receipt_pair_def rbind_Inr_iff ensure_def need_text_def nonempty_text_def
      record_content_digest_hex_def split: option.splits json.splits if_splits)

text \<open>
  An outcome record pairs with the content of one decision: two decisions that it is accepted with have
  the same content under their signatures, or exhibit a collision of SHA-256.
\<close>

lemma outcome_pins_decision:
  assumes "verify_sep2828_receipt_pair rv d ou = Inr ()" "verify_sep2828_receipt_pair rv d' ou = Inr ()"
    and "no_floats (JObj (strip_signature_fields d))" "no_floats (JObj (strip_signature_fields d'))"
  shows "canonicalize_json (JObj (strip_signature_fields d)) = canonicalize_json (JObj (strip_signature_fields d')) \<or>
    (\<exists>x y. x \<noteq> y \<and> rv_sha256 rv x = rv_sha256 rv y)"
proof -
  have "record_content_digest_hex rv d = record_content_digest_hex rv d'"
    by (rule paired[OF assms(1)], rule paired[OF assms(2)]) auto
  then show ?thesis
    by (intro digest_or_collision[OF _ assms(3,4)]) (simp add: record_content_digest_hex_def to_hex_inj)
qed

text \<open>An asserted block that is no object is dropped from what is signed: it can be added afterwards.\<close>

lemma asserted_text_unsigned:
  assumes "map_of r ''issuerAsserted'' = None"
  shows "verify_sep2828_record_signature rv (r @ [(''issuerAsserted'', JStr t)]) = verify_sep2828_record_signature rv r"
proof -
  have "jget (r @ [(''issuerAsserted'', JStr t)]) k = jget r k" if "k \<noteq> ''issuerAsserted''" for k
    using that by (auto simp: jget_def map_add_def split: option.splits)
  moreover have "jget (r @ [(''issuerAsserted'', JStr t)]) ''issuerAsserted'' = JStr t" "jget r ''issuerAsserted'' = JNull"
    using assms by (auto simp: jget_def map_add_def split: option.splits)
  moreover have "strip_signature_fields (r @ [(''issuerAsserted'', JStr t)]) = strip_signature_fields r"
    by (simp add: strip_signature_fields_def ASSERTED_BLOCKS_def SEP2828_SIGNATURE_KEYS_def)
  moreover have "signature_material (Some (r @ [(''issuerAsserted'', JStr t)])) = signature_material (Some r)"
    using calculation(1) by (simp add: signature_material_def)
  moreover have "signature_material None = None" by (simp add: signature_material_def)
  ultimately show ?thesis
    by (simp add: verify_sep2828_record_signature_def record_content_digest_hex_def extract_signature_material_def
        ASSERTED_BLOCKS_def read_object_def List.map_filter_simps split: option.split)
qed

section \<open>x402 receipts\<close>

lemma jget_append: "map_of p k = None \<Longrightarrow> jget (p @ [(k, v)]) j = (if j = k then v else jget p j)"
  by (auto simp: jget_def map_add_def split: option.splits)

lemma unsigned_member:
  assumes "map_of p ''txHash'' = None"
  shows "eip712_receipt_digest l (p @ [(''txHash'', v)]) = eip712_receipt_digest l p"
proof -
  have "jget (normalize_receipt_payload (p @ [(''txHash'', v)])) k = jget (normalize_receipt_payload p) k"
    if "k \<noteq> ''txHash''" for k
    using that jget_append[OF assms, of v]
    by (simp add: normalize_receipt_payload_def) (simp add: jget_def update_conv' map_add_def split: option.splits)
  then show ?thesis
    by (simp add: eip712_receipt_digest_def hash_struct_def RECEIPT_FIELDS_def)
qed

text \<open>C39: The hash of a transaction that an EIP-712 receipt is mapped with need not be signed: to any accepted
  receipt without one, anybody can add a \<open>txHash\<close>, and the receipt is still accepted for the pinned
  signer, with the added hash in the evidence that is digested.\<close>

theorem x402_transaction_unsigned:
  assumes "verify_signed_x402_receipt l pin s = Inr (JObj p)" "\<not> sx_jws s"
    and "read_first_string p [''transaction'', ''txHash'', ''tx_hash''] = None" "map_of p ''txHash'' = None" "t \<noteq> []"
    and "build_x402_receipt_digest_payload p = Inr q"
  shows "verify_signed_x402_receipt l pin (s\<lparr>sx_payload := p @ [(''txHash'', JStr t)]\<rparr>) = Inr (JObj (p @ [(''txHash'', JStr t)])) \<and>
    build_x402_receipt_digest_payload (p @ [(''txHash'', JStr t)]) = Inr (q @ [(''transaction'', JStr t)])"
proof
  have p: "sx_payload s = p"
    using assms(1,2) by (auto simp: verify_signed_x402_receipt_def Let_def rbind_Inr_iff)
  show "verify_signed_x402_receipt l pin (s\<lparr>sx_payload := p @ [(''txHash'', JStr t)]\<rparr>) = Inr (JObj (p @ [(''txHash'', JStr t)]))"
    using assms(1,2) unsigned_member[OF assms(4)]
    by (auto simp: verify_signed_x402_receipt_def Let_def rbind_Inr_iff p ensure_def split: if_splits)
  let ?p = "p @ [(''txHash'', JStr t)]"
  have other: "jget ?p k = jget p k" if "k \<noteq> ''txHash''" for k
    using that jget_append[OF assms(4)] by simp
  have same: "List.map (jget ?p) ks = List.map (jget p) ks" if "''txHash'' \<notin> set ks" for ks
    by (rule map_cong[OF refl], rule other) (use that in metis)
  have "jget ?p ''txHash'' = JStr t" using jget_append[OF assms(4)] by simp
  then have "read_first_string ?p [''transaction'', ''txHash'', ''tx_hash''] = Some t"
    using assms(3,5) other[of "''transaction''"]
    by (auto simp: read_first_string_def List.map_filter_simps or_none_def split: option.splits list.splits)
  moreover have "read_first_string ?p ks = read_first_string p ks" "read_first_number ?p ks = read_first_number p ks"
    if "''txHash'' \<notin> set ks" for ks
    unfolding read_first_string_def read_first_number_def same[OF that] by (rule refl)+
  ultimately show "build_x402_receipt_digest_payload ?p = Inr (q @ [(''transaction'', JStr t)])"
    using assms(3,6) by (auto simp: build_x402_receipt_digest_payload_def rbind_Inr_iff split: option.splits)
qed

definition sample_x402_library :: x402_library where
  "sample_x402_library = \<lparr>xl_keccak = (\<lambda>s. take 32 (s @ replicate 32 CHR 0x00)),
     xl_recover = (\<lambda>_ _. Some [CHR 0x04 # replicate 64 CHR 0x11]), xl_ed25519 = (\<lambda>_ _ _. False),
     xl_es256 = (\<lambda>_ _ _ _. Inr False), xl_sha256 = id, xl_loads = (\<lambda>_. Inr JNull)\<rparr>"

definition sample_x402_payload :: "(string, json) dict" where
  "sample_x402_payload = [(''version'', JInt 1), (''network'', JStr ''base''), (''resourceUrl'', JStr ''https://r''),
     (''payer'', JStr ''0x1''), (''issuedAt'', JInt 1700000000)]"

definition sample_x402 :: signed_x402 where
  "sample_x402 = \<lparr>sx_jws = False, sx_payload = sample_x402_payload, sx_signature = ''0x'' @ replicate 128 CHR ''1'' @ ''1b''\<rparr>"

definition sample_pin :: string where
  "sample_pin = ''0X'' @ to_hex (replicate 20 CHR 0x11)"

theorem x402_transaction_unsigned_witness:
  "verify_signed_x402_receipt sample_x402_library sample_pin
     (sample_x402\<lparr>sx_payload := sample_x402_payload @ [(''txHash'', JStr ''0xdead'')]\<rparr>) =
     Inr (JObj (sample_x402_payload @ [(''txHash'', JStr ''0xdead'')])) \<and>
   (\<exists>q. build_x402_receipt_digest_payload (sample_x402_payload @ [(''txHash'', JStr ''0xdead'')]) =
     Inr (q @ [(''transaction'', JStr ''0xdead'')]))"
proof -
  have verified: "verify_signed_x402_receipt sample_x402_library sample_pin sample_x402 = Inr (JObj sample_x402_payload)"
    by code_simp
  have plain: "\<not> sx_jws sample_x402" "map_of sample_x402_payload ''txHash'' = None"
    "read_first_string sample_x402_payload [''transaction'', ''txHash'', ''tx_hash''] = None" by code_simp+
  obtain q where q: "build_x402_receipt_digest_payload sample_x402_payload = Inr q"
  proof -
    have "case build_x402_receipt_digest_payload sample_x402_payload of Inl _ \<Rightarrow> False | Inr _ \<Rightarrow> True" by code_simp
    then show ?thesis using that by (auto split: sum.splits)
  qed
  show ?thesis
    using x402_transaction_unsigned[OF verified plain(1,3,2) list.simps(3) q, of "CHR ''0''" "''xdead''"] by blast
qed

end
