(* ===== verification/Spec2Isabelle.thy ===== *)
theory Spec2Isabelle
  imports Guarded_Calls Run_Policy Mcp_Surface Mcp_Calls Receipts Receipt_Content Protocol_Standard
    Funding_Standard Offline_Funding Harbor_Standard Protocol_Calls Plaid_Standard
    Partner_Standard
begin

text \<open>
  \<^bold>\<open>The Paybond kit for Python.\<close>  The package \<open>src/src/paybond_kit\<close> sits between an agent
  and its tools: every call of a tool that spends money is authorized by a gateway against an
  intent, executed, finalized and recorded as evidence, under a local policy that may be reloaded
  while the agent runs; and what happened is exported as signed receipts that anyone can verify
  offline.  This development models the parts of the package that decide something, and proves what
  makes them correct.

  \<^bold>\<open>Parts and theories.\<close>  Paths are relative to \<open>src/src/paybond_kit\<close>.

  \<^item> \<open>Prelude\<close>: the sum type of results (\<open>rbind\<close>, \<open>rmap\<close>, \<open>ensure\<close>), Python's
    dictionaries as association lists, decoded JSON (\<open>json\<close>), strings (\<open>strip\<close>, \<open>lower\<close>), hex.
    \<open>Kit_Errors\<close>: the exceptions and the response bodies of the clients.
  \<^item> \<open>Ttl_Cache\<close>: the locale of caches with a time to live, interpreted by \<open>Auth_Cache\<close>
    (\<open>agent/authorization_cache.py\<close>) and \<open>Mcp_Token_Cache\<close> (\<open>mcp_capability_token_cache.py\<close>).
  \<^item> \<open>Tool_Registry\<close> (\<open>agent/registry.py\<close>), \<open>Completion\<close> (presets and automatic evidence),
    \<open>Evidence_Gate\<close> (\<open>completion_validate_evidence.py\<close>, \<open>mcp_evidence_policy.py\<close>).
  \<^item> \<open>Gateway_Retry\<close> (\<open>gateway_retry.py\<close>), \<open>Harbor_Client\<close> (\<open>harbor.py\<close>, \<open>guardrails.py\<close>),
    \<open>Spend_Guard\<close> (\<open>spend_guard.py\<close>): the clients, with their parsers.
  \<^item> \<open>Run_Binding\<close>, \<open>Interceptor\<close> (\<open>agent/interceptor.py\<close>): a guarded call, cut at each
    \<open>await\<close> into segments that pass the interceptor's state on; \<open>Interceptor_Facts\<close>,
    \<open>Interceptor_Calls\<close> and \<open>Guarded_Calls\<close> run them against arbitrary answers of the host and the
    gateway, and interleave them.  \<open>Agent_Run\<close> (\<open>agent/run.py\<close>): binding a run.
  \<^item> \<open>Policy_Schema\<close>, \<open>Policy_Merge\<close>, \<open>Policy_Snapshot\<close>, \<open>Policy_Validate\<close>, \<open>Policy_Reload\<close>
    (\<open>policy/*.py\<close>): parsing, merging an org base with a tenant overlay, digests, local
    validation, and the guarded reload over any handle (locale \<open>policy_reload_handle\<close>).
  \<^item> \<open>Mcp_Scopes\<close>, \<open>Mcp_Policy\<close>, \<open>Mcp_Reload_Gate\<close>, \<open>Mcp_Server\<close>: the MCP server's scopes, tool
    policy, reload gate and tool calls.  \<open>Mcp_Gateway\<close> and \<open>Mcp_Tools\<close>: the rest of
    \<open>mcp_server.py\<close>, its settings, the operations of \<open>PaybondMCPRuntime\<close> with their requests, every
    registered tool and the receipt resource; \<open>Mcp_Calls\<close>: what a session sends.
  \<^item> \<open>Merkle_Inclusion\<close> (\<open>agent_receipt_inclusion.py\<close>): signed tree heads and audit paths.
  \<^item> \<open>Agent_Receipt\<close>, \<open>Receipt_Verify\<close> (\<open>agent_receipt.py\<close>): normalization of receipts, their
    canonical bytes, verification, validity tiers, continuity, the operator's counter signature.
    \<open>Receipt_Facts\<close> shows what normalization keeps, \<open>Json_Text\<close> that the canonical text of a
    document without floats determines it, \<open>Hex_Text\<close> that hex and Go's escapes are read back.
  \<^item> \<open>Agent_Mandate\<close> (\<open>agent_mandate.py\<close>): signed mandates; \<open>Mandate_Facts\<close> and
    \<open>Mandate_Standard\<close> are their lemmas and properties.
  \<^item> \<open>Protocol_Receipt\<close> (\<open>protocol_receipt.py\<close>): authorization and settlement receipts, with their
    lemmas in \<open>Protocol_Facts\<close> and their properties in \<open>Protocol_Standard\<close>.

  \<^item> \<open>Gateway_Url\<close> (\<open>credentials.py\<close>): the base URLs a client accepts.  \<open>Fund_Client\<close> and
    \<open>Harbor_Direct\<close> (\<open>harbor.py\<close>, \<open>payment_transport.py\<close>): the mutations of the gateway client and the
    whole of the direct Harbor client, with the requests they send; \<open>Harbor_Standard\<close> is about where
    credentials go.  \<open>Funding\<close> (\<open>x402_funding.py\<close>, \<open>mpp_funding.py\<close>): funding an intent through the
    host's wallet, with its lemmas in \<open>Funding_Facts\<close> and its properties in \<open>Funding_Standard\<close>.
    \<open>Fund_Mock\<close> (\<open>dev/x402_fund_mock.py\<close>, \<open>dev/offline_gateway.py\<close>): the offline gateway;
    \<open>Offline_Funding\<close> runs the client against it.
  \<^item> \<open>Url_Text\<close>: percent encoding.  \<open>Signal_Client\<close> (\<open>signal.py\<close>, \<open>fraud.py\<close>), \<open>Protocol_Client\<close>
    (\<open>protocol.py\<close>, \<open>a2a.py\<close>) and \<open>Plaid_Client\<close> (\<open>plaid.py\<close>): the other clients of the gateway, with the
    requests they send and the checks on the answers; their properties are in \<open>Signal_Standard\<close>,
    \<open>Protocol_Calls\<close> and \<open>Plaid_Standard\<close>.

  \<^item> \<open>Cbor\<close>, \<open>Scitt_Export\<close> (\<open>agent_receipt_scitt.py\<close>), \<open>Receipt_Frames\<close> (\<open>agent_receipt_pef.py\<close>,
    \<open>agent_receipt_acta.py\<close>) and \<open>Owner_Disclosure\<close> (\<open>agent_receipt_owner_disclosure.py\<close>): the forms a
    receipt is exported in.  \<open>Recognition\<close> (\<open>agent_recognition.py\<close>): the proofs that mutations carry.
    \<open>X402_Receipt\<close> (\<open>x402_receipt_signature.py\<close>, \<open>x402_receipt_evidence.py\<close>) and \<open>Sep2828\<close>
    (\<open>sep2828_signature.py\<close>, \<open>mcp_sep2828_evidence.py\<close>, \<open>agent_receipt_external_attestations.py\<close>): the
    records of partners, as evidence and as attestations; their facts are in \<open>Partner_Standard\<close>.

  A call of the kit is a function from the state before and the answers of the outside world to the
  state after; an exception is a value \<open>Inl e\<close>, a returned value \<open>Inr v\<close>.

  \<^bold>\<open>What the properties show.\<close>  \<open>Guarded_Calls\<close>: no tool runs without its authorization, the
  order of effects of a call that returns and of one that raises, what is released, the bounds of
  what is requested, the in-flight counter over every interleaving.  \<open>Run_Policy\<close>: a run is bound to
  one intent; a reload that is applied is checked and one that fails changes nothing; a merge never
  widens, with the two gaps the code has.  \<open>Mcp_Surface\<close>: a tool is callable exactly when it is
  listed, a denied tool is not run, no token leaves the server, evidence is validated first.
  \<open>Mcp_Calls\<close>: a session of tool calls sends requests only to its gateway and for its own tenant, and the
  receipt resource is served without its scope.
  \<open>Funding_Standard\<close>: the order and number of the requests of a funding run and what its outcome says of
  the gateway's last answer; \<open>Offline_Funding\<close>: such a run against the offline gateway ends funded.
  \<open>Receipts\<close>: inclusion proofs are complete and sound, retries are bounded.  \<open>Receipt_Standard\<close> and
  \<open>Receipt_Content\<close>: what an accepted receipt is signed over and bound to, that its digest pins its
  content, that verifying is settled after one pass, and continuity.
  \<open>Scitt_Export\<close>: an export that is built is accepted, by way of a CBOR decoder that reads what the
  encoders write.  \<open>Recognition\<close>: a proof is short-lived and good for one request.

  \<^bold>\<open>Parameters.\<close>  SHA-256, BLAKE3, Ed25519, the JSON parser and schema validator, the clock, the
  local time zone (\<open>utc\<close>, that reads an ISO timestamp), random jitter, HTTP transport, the host's
  tools and mappers, and the files read are arguments of the definitions that use them.  Where a
  property relies on one, the hypothesis is in its statement: a hash of 32 bytes, a signature scheme
  whose signatures verify, a clock that reads back its own timestamps.

  \<^bold>\<open>Bounds.\<close>  Strings are lists of 8-bit characters, code points above 255 are not modelled;
  floats are rationals, without infinities; timestamps are of the years 1000 to 9999.  No
  definition has fuel: the loops of the code are structural recursions, or decrease a measure.

  \<^bold>\<open>Not modelled.\<close>  Argument parsing and printing (\<open>cli\<close>), login and HTTP transport, file
  generation (\<open>init.py\<close> and templates), framework adapters and demonstrations: they call the parts above or are input and output.
\<close>

end
